(* ===== verification/Prelude.thy ===== *)
theory Prelude
  imports Main "HOL-Library.Word" "HOL-Library.Signed_Division"
begin

text \<open>
  Shared vocabulary of the development: the machine integers of the C code as words, the
  byte order of the host, the byte images that \<open>memcmp\<close> looks at, the byte swaps
  \<open>htons\<close>, \<open>htonl\<close> and \<open>__cpu_to_be64\<close>, and the generic list lemmas that the
  component theories use.  Collections: \<open>ptp_byte_simps\<close> (evaluation of byte images),
  \<open>ptp_wf_intros\<close> (well-formedness of states is kept).
\<close>

unbundle bit_operations_syntax

named_theorems ptp_byte_simps
named_theorems ptp_wf_intros

type_synonym u8 = "8 word"
type_synonym u16 = "16 word"
type_synonym u32 = "32 word"
type_synonym u64 = "64 word"
type_synonym i8 = "8 word"
type_synonym i16 = "16 word"
type_synonym i32 = "32 word"
type_synonym i64 = "64 word"

subsection \<open>Byte order of the host\<close>

text \<open>
  Several comparisons of the program run \<open>memcmp\<close> over structures that hold 16 bit
  fields in host byte order, so the result depends on the machine.  The byte order is a
  parameter of the definitions concerned.
\<close>

datatype byte_order = LittleEndian | BigEndian

fun u16_bytes :: "byte_order \<Rightarrow> u16 \<Rightarrow> u8 list" where
  "u16_bytes BigEndian w = [ucast (drop_bit 8 w), ucast w]"
| "u16_bytes LittleEndian w = [ucast w, ucast (drop_bit 8 w)]"

definition swap16 :: "u16 \<Rightarrow> u16" where
  "swap16 w = push_bit 8 w OR drop_bit 8 w"

definition swap32 :: "u32 \<Rightarrow> u32" where
  "swap32 w = push_bit 24 w OR push_bit 16 (take_bit 8 (drop_bit 8 w)) OR
     push_bit 8 (take_bit 8 (drop_bit 16 w)) OR drop_bit 24 w"

definition swap64 :: "u64 \<Rightarrow> u64" where
  "swap64 w = (push_bit 32 (ucast (swap32 (ucast w))) OR ucast (swap32 (ucast (drop_bit 32 w))))"

definition htons :: "byte_order \<Rightarrow> u16 \<Rightarrow> u16" where
  "htons bo w = (case bo of LittleEndian \<Rightarrow> swap16 w | BigEndian \<Rightarrow> w)"

definition htonl :: "byte_order \<Rightarrow> u32 \<Rightarrow> u32" where
  "htonl bo w = (case bo of LittleEndian \<Rightarrow> swap32 w | BigEndian \<Rightarrow> w)"

definition cpu_to_be64 :: "byte_order \<Rightarrow> u64 \<Rightarrow> u64" where
  "cpu_to_be64 bo w = (case bo of LittleEndian \<Rightarrow> swap64 w | BigEndian \<Rightarrow> w)"

lemma swap16_invol [simp]: "swap16 (swap16 w) = w"
  by (rule bit_word_eqI)
    (auto simp: swap16_def bit_simps less_diff_conv dest: bit_imp_le_length)

lemma swap16_eq_iff [simp]: "swap16 a = swap16 b \<longleftrightarrow> a = b"
  by (metis swap16_invol)

lemma bit_swap32:
  "bit (swap32 w) n \<longleftrightarrow> n < 32 \<and>
     (if n < 8 then bit w (n + 24) else if n < 16 then bit w (n + 8)
      else if n < 24 then bit w (n - 8) else bit w (n - 24))"
  by (auto simp: swap32_def bit_simps add.commute dest: bit_imp_le_length)

lemma swap32_invol [simp]: "swap32 (swap32 w) = w"
  by (rule bit_word_eqI) (auto simp: bit_swap32)

lemma bit_swap64:
  "bit (swap64 w) n \<longleftrightarrow> n < 64 \<and>
     (if n < 32 then bit (swap32 (ucast (drop_bit 32 w))) n
      else bit (swap32 (ucast w)) (n - 32))"
  by (auto simp: swap64_def bit_simps dest: bit_imp_le_length)

lemma swap64_invol [simp]: "swap64 (swap64 w) = w"
proof -
  have low: "ucast (swap64 w) = swap32 (ucast (drop_bit 32 w))"
    by (rule bit_word_eqI) (auto simp: bit_swap64 bit_simps)
  have high: "ucast (drop_bit 32 (swap64 w)) = swap32 (ucast w)"
    by (rule bit_word_eqI) (auto simp: bit_swap64 bit_simps)
  show ?thesis
    by (rule bit_word_eqI)
      (auto simp: bit_swap64 [of "swap64 w"] low high bit_simps add.commute)
qed

lemma htons_invol [simp]: "htons bo (htons bo w) = w"
  by (simp add: htons_def split: byte_order.split)

lemma htonl_invol [simp]: "htonl bo (htonl bo w) = w"
  by (simp add: htonl_def split: byte_order.split)

lemma cpu_to_be64_invol [simp]: "cpu_to_be64 bo (cpu_to_be64 bo w) = w"
  by (simp add: cpu_to_be64_def split: byte_order.split)

lemma length_u16_bytes [simp]: "length (u16_bytes bo w) = 2"
  by (cases bo) simp_all

lemma u16_split:
  assumes "(ucast w :: u8) = ucast v" and "(ucast (drop_bit 8 w) :: u8) = ucast (drop_bit 8 v)"
  shows "(w :: u16) = v"
proof (rule bit_word_eqI)
  fix n assume "n < LENGTH(16)"
  show "bit w n = bit v n"
  proof (cases "n < 8")
    case True
    with arg_cong [OF assms(1), of "\<lambda>x. bit x n"] show ?thesis by (simp add: bit_simps)
  next
    case False
    with \<open>n < LENGTH(16)\<close> have "n - 8 < 8" by simp
    with False arg_cong [OF assms(2), of "\<lambda>x. bit x (n - 8)"] show ?thesis
      by (simp add: bit_simps)
  qed
qed

lemma u16_bytes_eq_iff [simp]: "u16_bytes bo v = u16_bytes bo w \<longleftrightarrow> v = w"
  by (cases bo) (auto dest: u16_split)

subsection \<open>Lexicographic comparison and the C library's memcmp\<close>

text \<open>
  \<open>memcmp\<close> compares two byte images of the same size as unsigned characters.  The C
  standard fixes the sign of the result only, and the program looks at the sign only; the
  model returns -1, 0 or 1.  The same comparison on lists over any linear order serves as
  the specification of the data set comparisons.
\<close>

fun lexcmp :: "'a::linorder list \<Rightarrow> 'a list \<Rightarrow> int" where
  "lexcmp (x # xs) (y # ys) = (if x < y then -1 else if y < x then 1 else lexcmp xs ys)"
| "lexcmp _ _ = 0"

abbreviation memcmp :: "u8 list \<Rightarrow> u8 list \<Rightarrow> int" where
  "memcmp \<equiv> lexcmp"

lemma lexcmp_range: "lexcmp xs ys \<in> {-1, 0, 1}"
  by (induction xs ys rule: lexcmp.induct) auto

lemma sgn_lexcmp [simp]: "sgn (lexcmp xs ys) = lexcmp xs ys"
  using lexcmp_range [of xs ys] by auto

lemma lexcmp_antisym: "lexcmp ys xs = - lexcmp xs ys"
  by (induction xs ys rule: lexcmp.induct) auto

lemma lexcmp_eq_0_iff [simp]: "length xs = length ys \<Longrightarrow> lexcmp xs ys = 0 \<longleftrightarrow> xs = ys"
  by (induction xs ys rule: lexcmp.induct) auto

lemma lexcmp_refl [simp]: "lexcmp xs xs = 0"
  by (induction xs) auto

lemma lexcmp_trans:
  "length xs = length ys \<Longrightarrow> length ys = length zs \<Longrightarrow>
   lexcmp xs ys \<le> 0 \<Longrightarrow> lexcmp ys zs \<le> 0 \<Longrightarrow> lexcmp xs zs \<le> 0"
proof (induction xs ys arbitrary: zs rule: lexcmp.induct)
  case (1 x xs y ys)
  then obtain z zs' where "zs = z # zs'" by (cases zs) auto
  with 1 show ?case by (auto split: if_splits)
qed auto

lemma lexcmp_append:
  "length xs = length ys \<Longrightarrow>
   lexcmp (xs @ us) (ys @ vs) = (if xs = ys then lexcmp us vs else lexcmp xs ys)"
  by (induction xs ys rule: lexcmp.induct) auto

lemma lexcmp_map_unat [simp]:
  "lexcmp (map unat xs) (map unat ys) = lexcmp xs (ys :: 'a::len word list)"
  by (induction xs ys rule: lexcmp.induct) (auto simp: word_less_nat_alt)

subsection \<open>Lists used as queues\<close>

text \<open>
  The tail queues of \<open>sys/queue.h\<close> are lists whose head is the first element.
  \<open>pop_last_while\<close> is the loop "while the queue is not empty and its last element
  satisfies P, remove the last element".
\<close>

function pop_last_while :: "('a \<Rightarrow> bool) \<Rightarrow> 'a list \<Rightarrow> 'a list" where
  "pop_last_while P xs =
     (if xs \<noteq> [] \<and> P (last xs) then pop_last_while P (butlast xs) else xs)"
  by pat_completeness auto
termination
  by (relation "measure (\<lambda>(P, xs). length xs)") auto

declare pop_last_while.simps [simp del]

lemma pop_last_while_Nil [simp]: "pop_last_while P [] = []"
  by (simp add: pop_last_while.simps)

lemma pop_last_while_snoc [simp]:
  "pop_last_while P (xs @ [x]) = (if P x then pop_last_while P xs else xs @ [x])"
  by (simp add: pop_last_while.simps [of P "xs @ [x]"])

lemma pop_last_while_alt: "pop_last_while P xs = rev (dropWhile P (rev xs))"
  by (induction xs rule: rev_induct) auto

lemma pop_last_while_prefix: "\<exists>ys. xs = pop_last_while P xs @ ys \<and> (\<forall>y \<in> set ys. P y)"
proof (induction xs rule: rev_induct)
  case (snoc x xs)
  then obtain ys where ys: "xs = pop_last_while P xs @ ys" "\<forall>y \<in> set ys. P y" by blast
  show ?case
  proof (cases "P x")
    case True
    with ys(2) have "\<forall>y \<in> set (ys @ [x]). P y" by simp
    moreover from ys(1) True have "xs @ [x] = pop_last_while P (xs @ [x]) @ ys @ [x]" by simp
    ultimately show ?thesis by blast
  next
    case False
    then show ?thesis by (intro exI [of _ "[]"]) simp
  qed
qed simp

lemma pop_last_while_last: "pop_last_while P xs \<noteq> [] \<Longrightarrow> \<not> P (last (pop_last_while P xs))"
  by (induction xs rule: rev_induct) auto

lemma set_pop_last_while: "set (pop_last_while P xs) \<subseteq> set xs"
  using pop_last_while_prefix [of xs P] by (metis Un_upper1 set_append)

lemma length_pop_last_while: "length (pop_last_while P xs) \<le> length xs"
  using pop_last_while_prefix [of xs P] by (metis le_add1 length_append)

text \<open>Update of the first element of a list that satisfies a predicate.\<close>

fun update_first :: "('a \<Rightarrow> bool) \<Rightarrow> ('a \<Rightarrow> 'a) \<Rightarrow> 'a list \<Rightarrow> 'a list" where
  "update_first P f [] = []"
| "update_first P f (x # xs) = (if P x then f x # xs else x # update_first P f xs)"

lemma length_update_first [simp]: "length (update_first P f xs) = length xs"
  by (induction xs) auto

lemma map_update_first:
  "(\<And>x. P x \<Longrightarrow> g (f x) = g x) \<Longrightarrow> map g (update_first P f xs) = map g xs"
  by (induction xs) auto

lemma set_update_firstD:
  "y \<in> set (update_first P f xs) \<Longrightarrow> y \<in> set xs \<or> (\<exists>x \<in> set xs. P x \<and> y = f x)"
  by (induction xs) (auto split: if_splits)

lemma find_update_first:
  assumes "\<And>x. P x \<Longrightarrow> P (f x)"
  shows "find P (update_first P f xs) = map_option f (find P xs)"
  by (induction xs) (auto simp: assms)

lemma find_SomeD: "find P xs = Some x \<Longrightarrow> x \<in> set xs \<and> P x"
  by (induction xs) (auto split: if_splits)

end
