(* ===== verification/Tmv.thy ===== *)
theory Tmv
  imports Prelude
begin

text \<open>
  Time values (src/tmv.h) and the time stamps of src/ddt.h.  \<open>tmv_t\<close> is a signed 64 bit
  count of nanoseconds, modelled as a 64 bit word read by \<open>sint\<close>.  The arithmetic
  wraps; signed overflow is undefined in C, so the value lemmas carry the range condition
  under which no overflow happens.
\<close>

subsection \<open>Data\<close>

datatype tmv_t = Tmv (ns: i64)

abbreviation tmv_val :: "tmv_t \<Rightarrow> int" where
  "tmv_val t \<equiv> sint (ns t)"

record Timestamp =
  seconds_msb :: u16
  seconds_lsb :: u32
  nanoseconds :: u32

record timestamp =
  sec :: u64
  nsec :: u32

record timespec =
  tv_sec :: i64
  tv_nsec :: i64

definition NS_PER_SEC :: int where
  "NS_PER_SEC = 1000000000"

definition in_i64 :: "int \<Rightarrow> bool" where
  "in_i64 i \<longleftrightarrow> - (2 ^ 63) \<le> i \<and> i < 2 ^ 63"

lemma sint_of_int64: "in_i64 i \<Longrightarrow> sint (word_of_int i :: i64) = i"
  by (simp add: in_i64_def sint_sbintrunc' signed_take_bit_int_eq_self)

lemma in_i64_sint [simp]: "in_i64 (sint (w :: i64))"
  using sint_ge [of w] sint_lt [of w] by (simp add: in_i64_def)

lemma i64_eq_iff: "(a :: i64) = b \<longleftrightarrow> sint a = sint b"
  by (auto intro: signed_word_eqI)

subsection \<open>Operations\<close>

definition tmv_add :: "tmv_t \<Rightarrow> tmv_t \<Rightarrow> tmv_t" where
  "tmv_add a b = Tmv (ns a + ns b)"

definition tmv_div :: "tmv_t \<Rightarrow> int \<Rightarrow> tmv_t" where
  "tmv_div a divisor = Tmv (word_of_int (sint (ns a) sdiv divisor))"

definition tmv_cmp :: "tmv_t \<Rightarrow> tmv_t \<Rightarrow> int" where
  "tmv_cmp a b = (if ns a = ns b then 0 else if sint (ns a) > sint (ns b) then 1 else -1)"

definition tmv_sign :: "tmv_t \<Rightarrow> int" where
  "tmv_sign x = (if ns x = 0 then 0 else if sint (ns x) > 0 then 1 else -1)"

definition tmv_is_zero :: "tmv_t \<Rightarrow> bool" where
  "tmv_is_zero x \<longleftrightarrow> ns x = 0"

definition tmv_sub :: "tmv_t \<Rightarrow> tmv_t \<Rightarrow> tmv_t" where
  "tmv_sub a b = Tmv (ns a - ns b)"

definition tmv_zero :: tmv_t where
  "tmv_zero = Tmv 0"

definition correction_to_tmv :: "i64 \<Rightarrow> tmv_t" where
  "correction_to_tmv c = Tmv (signed_drop_bit 16 c)"

definition tmv_to_nanoseconds :: "tmv_t \<Rightarrow> i64" where
  "tmv_to_nanoseconds x = ns x"

definition tmv_to_TimeInterval :: "tmv_t \<Rightarrow> i64" where
  "tmv_to_TimeInterval x = push_bit 16 (ns x)"

text \<open>
  \<open>x.ns / 1000000000ULL\<close> mixes a signed with an unsigned 64 bit operand, so C converts
  \<open>x.ns\<close> to unsigned first: the division is the unsigned one, also for negative times.
\<close>

definition tmv_to_Timestamp :: "tmv_t \<Rightarrow> Timestamp" where
  "tmv_to_Timestamp x =
     (let sec = (ns x :: u64) div 1000000000; nsec = (ns x :: u64) mod 1000000000
      in \<lparr>seconds_msb = ucast (drop_bit 32 sec AND 0xFFFF),
          seconds_lsb = ucast (sec AND 0xFFFFFFFF),
          nanoseconds = ucast nsec\<rparr>)"

definition timespec_to_tmv :: "timespec \<Rightarrow> tmv_t" where
  "timespec_to_tmv ts = Tmv (tv_sec ts * 1000000000 + tv_nsec ts)"

definition timestamp_to_tmv :: "timestamp \<Rightarrow> tmv_t" where
  "timestamp_to_tmv ts = Tmv (sec ts * 1000000000 + ucast (nsec ts))"

text \<open>
  \<open>ts_add\<close> (src/port.c) adds a correction field to a time stamp; a zero correction
  leaves it alone.
\<close>

definition ts_add :: "tmv_t \<Rightarrow> i64 \<Rightarrow> tmv_t" where
  "ts_add ts correction =
     (if correction = 0 then ts else tmv_add ts (correction_to_tmv correction))"

subsection \<open>Order\<close>

instantiation tmv_t :: linorder
begin

definition less_eq_tmv_t :: "tmv_t \<Rightarrow> tmv_t \<Rightarrow> bool" where
  "less_eq_tmv_t a b \<longleftrightarrow> tmv_val a \<le> tmv_val b"

definition less_tmv_t :: "tmv_t \<Rightarrow> tmv_t \<Rightarrow> bool" where
  "less_tmv_t a b \<longleftrightarrow> tmv_val a < tmv_val b"

instance
  by standard
    (auto simp: less_eq_tmv_t_def less_tmv_t_def i64_eq_iff intro: tmv_t.expand)

end

lemma tmv_cmp_le_0_iff: "tmv_cmp a b \<le> 0 \<longleftrightarrow> a \<le> b"
  by (auto simp: tmv_cmp_def less_eq_tmv_t_def)

lemma tmv_cmp_less_0_iff: "tmv_cmp a b < 0 \<longleftrightarrow> a < b"
  by (auto simp: tmv_cmp_def less_tmv_t_def i64_eq_iff)

lemma tmv_cmp_eq_0_iff: "tmv_cmp a b = 0 \<longleftrightarrow> a = b"
  by (auto simp: tmv_cmp_def intro: tmv_t.expand)

lemma tmv_is_zero_iff: "tmv_is_zero x \<longleftrightarrow> x = tmv_zero"
  by (cases x) (simp add: tmv_is_zero_def tmv_zero_def)

subsection \<open>Values\<close>

lemma ns_tmv_simps [simp]:
  "ns (tmv_add a b) = ns a + ns b"
  "ns (tmv_sub a b) = ns a - ns b"
  "ns tmv_zero = 0"
  by (simp_all add: tmv_add_def tmv_sub_def tmv_zero_def)

lemma tmv_sub_add_cancel [simp]: "tmv_add (tmv_sub a b) b = a"
  by (cases a) (simp add: tmv_add_def tmv_sub_def)

lemma tmv_add_sub_cancel [simp]: "tmv_sub (tmv_add a b) b = a"
  by (cases a) (simp add: tmv_add_def tmv_sub_def)

lemma tmv_add_val:
  assumes "in_i64 (tmv_val a + tmv_val b)"
  shows "tmv_val (tmv_add a b) = tmv_val a + tmv_val b"
proof -
  have "ns a + ns b = word_of_int (sint (ns a) + sint (ns b))" by simp
  with assms show ?thesis by (simp only: ns_tmv_simps sint_of_int64)
qed

lemma tmv_sub_val:
  assumes "in_i64 (tmv_val a - tmv_val b)"
  shows "tmv_val (tmv_sub a b) = tmv_val a - tmv_val b"
proof -
  have "ns a - ns b = word_of_int (sint (ns a) - sint (ns b))" by simp
  with assms show ?thesis by (simp only: ns_tmv_simps sint_of_int64)
qed

lemma sdiv_pos_int:
  "0 < (d :: int) \<Longrightarrow> a sdiv d = (if 0 \<le> a then a div d else - ((- a) div d))"
  by (auto simp: signed_divide_int_def sgn_if)

lemma zdiv_le_self: "0 \<le> (a :: int) \<Longrightarrow> 0 < d \<Longrightarrow> a div d \<le> a"
  using zdiv_mono2 [of a 1 d] by simp

lemma in_i64_sdiv:
  assumes "in_i64 a" and "0 < d"
  shows "in_i64 (a sdiv d)"
proof (cases "0 \<le> a")
  case True
  with assms have "0 \<le> a div d" "a div d \<le> a"
    by (auto simp: pos_imp_zdiv_nonneg_iff zdiv_le_self)
  with True assms show ?thesis by (simp add: sdiv_pos_int in_i64_def)
next
  case False
  then have "0 \<le> - a" by simp
  with assms have "0 \<le> (- a) div d" "(- a) div d \<le> - a"
    by (auto simp: pos_imp_zdiv_nonneg_iff zdiv_le_self)
  with False assms show ?thesis by (simp add: sdiv_pos_int in_i64_def)
qed

lemma tmv_div_val: "0 < d \<Longrightarrow> tmv_val (tmv_div a d) = tmv_val a sdiv d"
  by (simp add: tmv_div_def sint_of_int64 in_i64_sdiv)

end
