(* ===== verification/Ddt.thy ===== *)
theory Ddt
  imports Tmv
begin

text \<open>
  Derived data types and data sets (src/ddt.h, src/ds.h).  Fields keep the names of the C
  structures; where several structures share a field name the record field carries a short
  prefix (\<open>ds_\<close> for \<open>struct dataset\<close>, \<open>dds_\<close> for \<open>defaultDS\<close>, \<open>cur_\<close> for \<open>currentDS\<close>, \<open>pds_\<close> for \<open>parentDS\<close>).
\<close>

subsection \<open>Identities\<close>

text \<open>\<open>struct ClockIdentity\<close> is an array of exactly eight octets.\<close>

datatype ClockIdentity = CID u8 u8 u8 u8 u8 u8 u8 u8

fun cid_bytes :: "ClockIdentity \<Rightarrow> u8 list" where
  "cid_bytes (CID a b c d e f g h) = [a, b, c, d, e, f, g, h]"

lemma length_cid_bytes [simp]: "length (cid_bytes c) = 8"
  by (cases c) simp

lemma cid_bytes_eq_iff [simp]: "cid_bytes a = cid_bytes b \<longleftrightarrow> a = b"
  by (cases a; cases b) simp

record PortIdentity =
  clockIdentity :: ClockIdentity
  portNumber :: u16

text \<open>The memory image of a \<open>struct PortIdentity\<close> in host byte order.\<close>

definition pid_bytes :: "byte_order \<Rightarrow> PortIdentity \<Rightarrow> u8 list" where
  "pid_bytes bo p = cid_bytes (clockIdentity p) @ u16_bytes bo (portNumber p)"

lemma length_pid_bytes [simp]: "length (pid_bytes bo p) = 10"
  by (simp add: pid_bytes_def)

lemma pid_bytes_eq_iff [simp]: "pid_bytes bo p = pid_bytes bo q \<longleftrightarrow> p = q"
  by (auto simp: pid_bytes_def)

text \<open>\<open>pid_eq\<close> (src/port.c) and \<open>cid_eq\<close> (src/clock.c).\<close>

definition pid_eq :: "byte_order \<Rightarrow> PortIdentity \<Rightarrow> PortIdentity \<Rightarrow> bool" where
  "pid_eq bo a b \<longleftrightarrow> 0 = memcmp (pid_bytes bo a) (pid_bytes bo b)"

definition cid_eq :: "ClockIdentity \<Rightarrow> ClockIdentity \<Rightarrow> bool" where
  "cid_eq a b \<longleftrightarrow> 0 = memcmp (cid_bytes a) (cid_bytes b)"

lemma pid_eq_iff [simp]: "pid_eq bo a b \<longleftrightarrow> a = b"
  by (simp add: pid_eq_def eq_commute [of 0])

lemma cid_eq_iff [simp]: "cid_eq a b \<longleftrightarrow> a = b"
  by (simp add: cid_eq_def eq_commute [of 0])

subsection \<open>Data sets\<close>

record ClockQuality =
  clockClass :: u8
  clockAccuracy :: u8
  offsetScaledLogVariance :: u16

record dataset =
  ds_priority1 :: u8
  ds_identity :: ClockIdentity
  ds_quality :: ClockQuality
  ds_priority2 :: u8
  ds_localPriority :: u8
  ds_stepsRemoved :: u16
  ds_sender :: PortIdentity
  ds_receiver :: PortIdentity

record defaultDS =
  dds_flags :: u8
  dds_numberPorts :: u16
  dds_priority1 :: u8
  dds_clockQuality :: ClockQuality
  dds_priority2 :: u8
  dds_clockIdentity :: ClockIdentity
  dds_domainNumber :: u8

definition DDS_TWO_STEP_FLAG :: u8 where "DDS_TWO_STEP_FLAG = 1"
definition DDS_SLAVE_ONLY :: u8 where "DDS_SLAVE_ONLY = 2"

record currentDS =
  cur_stepsRemoved :: u16
  cur_offsetFromMaster :: i64
  cur_meanPathDelay :: i64

record parentDS =
  pds_parentPortIdentity :: PortIdentity
  pds_grandmasterPriority1 :: u8
  pds_grandmasterClockQuality :: ClockQuality
  pds_grandmasterPriority2 :: u8
  pds_grandmasterIdentity :: ClockIdentity

text \<open>
  \<open>struct parent_ds\<close> adds the path trace list: \<open>ptl\<close> is the array of clock identities
  and \<open>path_length\<close> the number of valid entries.
\<close>

record parent_ds =
  dad_pds :: parentDS
  dad_ptl :: "ClockIdentity list"
  dad_path_length :: nat

record timePropertiesDS =
  tds_currentUtcOffset :: i16
  tds_flags :: u8
  tds_timeSource :: u8

end
