(* ===== verification/Message.thy ===== *)
theory Message
  imports Ddt
begin

text \<open>
  PTP messages in host byte order (src/msg.h) and the TLVs of their suffix (src/tlv.h).

  \<open>struct ptp_message\<close> overlays the message formats in a union.  The record has one field per
  field of the formats: the time stamp at offset 34 is one field (\<open>m_timestamp\<close>), whatever the
  format calls it, and so is the port identity at offset 44 of the delay messages.
  \<open>m_suffix\<close> is the memory behind the fixed part of the message.  A TLV descriptor
  (\<open>struct tlv_extra\<close>) holds pointers into that memory; they are offsets in the model.

  A message is reference counted.  The model passes messages as values; \<open>m_ptr\<close> is the
  pointer they stand for, and \<open>msg_get\<close> and \<open>msg_put\<close> are entries of the list of
  reference operations that an operation returns.
\<close>

subsection \<open>Memory\<close>

text \<open>Reads of packed fields in host byte order; reads beyond the memory yield zero octets.\<close>

definition octet :: "u8 list \<Rightarrow> nat \<Rightarrow> u8" where
  "octet mem i = (if i < length mem then mem ! i else 0)"

definition octets :: "u8 list \<Rightarrow> nat \<Rightarrow> nat \<Rightarrow> u8 list" where
  "octets mem i n = map (\<lambda>k. octet mem (i + k)) [0..<n]"

definition rd16 :: "byte_order \<Rightarrow> u8 list \<Rightarrow> nat \<Rightarrow> u16" where
  "rd16 bo mem i = (case bo of
     LittleEndian \<Rightarrow> ucast (octet mem i) OR push_bit 8 (ucast (octet mem (i + 1)))
   | BigEndian \<Rightarrow> push_bit 8 (ucast (octet mem i)) OR ucast (octet mem (i + 1)))"

definition rd32 :: "byte_order \<Rightarrow> u8 list \<Rightarrow> nat \<Rightarrow> u32" where
  "rd32 bo mem i = (case bo of
     LittleEndian \<Rightarrow> ucast (rd16 bo mem i) OR push_bit 16 (ucast (rd16 bo mem (i + 2)))
   | BigEndian \<Rightarrow> push_bit 16 (ucast (rd16 bo mem i)) OR ucast (rd16 bo mem (i + 2)))"

definition rd64 :: "byte_order \<Rightarrow> u8 list \<Rightarrow> nat \<Rightarrow> u64" where
  "rd64 bo mem i = (case bo of
     LittleEndian \<Rightarrow> ucast (rd32 bo mem i) OR push_bit 32 (ucast (rd32 bo mem (i + 4)))
   | BigEndian \<Rightarrow> push_bit 32 (ucast (rd32 bo mem i)) OR ucast (rd32 bo mem (i + 4)))"

definition rd_cid :: "u8 list \<Rightarrow> nat \<Rightarrow> ClockIdentity" where
  "rd_cid mem i = CID (octet mem i) (octet mem (i + 1)) (octet mem (i + 2)) (octet mem (i + 3))
     (octet mem (i + 4)) (octet mem (i + 5)) (octet mem (i + 6)) (octet mem (i + 7))"

lemma length_octets [simp]: "length (octets mem i n) = n"
  by (simp add: octets_def)

lemma octet_append [simp]:
  "octet (xs @ ys) i = (if i < length xs then octet xs i else octet ys (i - length xs))"
  by (auto simp: octet_def nth_append)

lemma octet_Cons [simp]:
  "octet (x # xs) 0 = x" "octet (x # xs) (Suc i) = octet xs i"
  by (simp_all add: octet_def)

subsection \<open>Constants\<close>

abbreviation (input) PTP_VERSION :: u8 where "PTP_VERSION \<equiv> 2"

abbreviation (input) SYNC :: u8 where "SYNC \<equiv> 0x0"
abbreviation (input) DELAY_REQ :: u8 where "DELAY_REQ \<equiv> 0x1"
abbreviation (input) PDELAY_REQ :: u8 where "PDELAY_REQ \<equiv> 0x2"
abbreviation (input) PDELAY_RESP :: u8 where "PDELAY_RESP \<equiv> 0x3"
abbreviation (input) FOLLOW_UP :: u8 where "FOLLOW_UP \<equiv> 0x8"
abbreviation (input) DELAY_RESP :: u8 where "DELAY_RESP \<equiv> 0x9"
abbreviation (input) PDELAY_RESP_FOLLOW_UP :: u8 where "PDELAY_RESP_FOLLOW_UP \<equiv> 0xA"
abbreviation (input) ANNOUNCE :: u8 where "ANNOUNCE \<equiv> 0xB"
abbreviation (input) SIGNALING :: u8 where "SIGNALING \<equiv> 0xC"
abbreviation (input) MANAGEMENT :: u8 where "MANAGEMENT \<equiv> 0xD"

abbreviation (input) ALT_MASTER :: u8 where "ALT_MASTER \<equiv> 1"
abbreviation (input) TWO_STEP :: u8 where "TWO_STEP \<equiv> 2"
abbreviation (input) UNICAST :: u8 where "UNICAST \<equiv> 4"

abbreviation (input) LEAP_61 :: u8 where "LEAP_61 \<equiv> 1"
abbreviation (input) LEAP_59 :: u8 where "LEAP_59 \<equiv> 2"
abbreviation (input) UTC_OFF_VALID :: u8 where "UTC_OFF_VALID \<equiv> 4"
abbreviation (input) PTP_TIMESCALE :: u8 where "PTP_TIMESCALE \<equiv> 8"
abbreviation (input) TIME_TRACEABLE :: u8 where "TIME_TRACEABLE \<equiv> 16"
abbreviation (input) FREQ_TRACEABLE :: u8 where "FREQ_TRACEABLE \<equiv> 32"

abbreviation (input) CTL_SYNC :: u8 where "CTL_SYNC \<equiv> 0"
abbreviation (input) CTL_DELAY_REQ :: u8 where "CTL_DELAY_REQ \<equiv> 1"
abbreviation (input) CTL_FOLLOW_UP :: u8 where "CTL_FOLLOW_UP \<equiv> 2"
abbreviation (input) CTL_DELAY_RESP :: u8 where "CTL_DELAY_RESP \<equiv> 3"
abbreviation (input) CTL_MANAGEMENT :: u8 where "CTL_MANAGEMENT \<equiv> 4"
abbreviation (input) CTL_OTHER :: u8 where "CTL_OTHER \<equiv> 5"

abbreviation (input) TLV_MANAGEMENT :: u16 where "TLV_MANAGEMENT \<equiv> 0x0001"
abbreviation (input) TLV_MANAGEMENT_ERROR_STATUS :: u16 where "TLV_MANAGEMENT_ERROR_STATUS \<equiv> 0x0002"
abbreviation (input) TLV_ORGANIZATION_EXTENSION :: u16 where "TLV_ORGANIZATION_EXTENSION \<equiv> 0x0003"
abbreviation (input) TLV_PATH_TRACE :: u16 where "TLV_PATH_TRACE \<equiv> 0x0008"
abbreviation (input) TLV_PTPMON_REQ :: u16 where "TLV_PTPMON_REQ \<equiv> 0x21FE"
abbreviation (input) TLV_PTPMON_RESP :: u16 where "TLV_PTPMON_RESP \<equiv> 0x21FF"

subsection \<open>Messages\<close>

datatype timestamp_type = TS_SOFTWARE | TS_HARDWARE | TS_LEGACY_HW | TS_ONESTEP | TS_P2P1STEP

record hw_timestamp =
  hw_type :: timestamp_type
  hw_ts :: tmv_t
  hw_sw :: tmv_t

type_synonym address = "u8 list"

text \<open>
  \<open>tlv_at\<close> is the pointer to the TLV, the others are pointers to parts of a clock description
  and to the foot of a monitoring response.
\<close>

record tlv_extra =
  tlv_at :: nat
  cd_clockType :: nat
  cd_physicalAddress :: nat
  cd_protocolAddress :: nat
  nsm_foot :: nat

record ptp_header =
  tsmt :: u8
  ver :: u8
  messageLength :: u16
  domainNumber :: u8
  reserved1 :: u8
  flagField0 :: u8
  flagField1 :: u8
  correction :: i64
  reserved2 :: u32
  sourcePortIdentity :: PortIdentity
  sequenceId :: u16
  control :: u8
  logMessageInterval :: i8

record ptp_message =
  header :: ptp_header
  m_timestamp :: Timestamp
  requestingPortIdentity :: PortIdentity
  currentUtcOffset :: i16
  grandmasterPriority1 :: u8
  grandmasterClockQuality :: ClockQuality
  grandmasterPriority2 :: u8
  grandmasterIdentity :: ClockIdentity
  stepsRemoved :: u16
  timeSource :: u8
  targetPortIdentity :: PortIdentity
  startingBoundaryHops :: u8
  boundaryHops :: u8
  mgmt_flags :: u8
  m_suffix :: "u8 list"
  m_ptr :: nat
  ts_pdu :: timestamp
  ts_host :: timespec
  hwts :: hw_timestamp
  m_address :: address
  tlv_list :: "tlv_extra list"
  tlv_count :: nat

abbreviation source_pid :: "ptp_message \<Rightarrow> PortIdentity" where
  "source_pid m \<equiv> sourcePortIdentity (header m)"

abbreviation hwts_ts :: "ptp_message \<Rightarrow> tmv_t" where
  "hwts_ts m \<equiv> hw_ts (hwts m)"

definition management_action :: "ptp_message \<Rightarrow> u8" where
  "management_action m = mgmt_flags m AND 0x0f"

definition field_is_set :: "ptp_message \<Rightarrow> nat \<Rightarrow> u8 \<Rightarrow> bool" where
  "field_is_set m index b \<longleftrightarrow>
     ((if index = 0 then flagField0 (header m) else flagField1 (header m)) AND b) \<noteq> 0"

definition msg_transport_specific :: "ptp_message \<Rightarrow> u8" where
  "msg_transport_specific m = tsmt (header m) AND 0xf0"

definition msg_type :: "ptp_message \<Rightarrow> u8" where
  "msg_type m = tsmt (header m) AND 0x0f"

definition msg_sots_valid :: "ptp_message \<Rightarrow> bool" where
  "msg_sots_valid m \<longleftrightarrow> \<not> tmv_is_zero (hwts_ts m)"

definition msg_sots_missing :: "ptp_message \<Rightarrow> bool" where
  "msg_sots_missing m \<longleftrightarrow>
     (if msg_type m \<in> {SYNC, DELAY_REQ, PDELAY_REQ, PDELAY_RESP} then \<not> msg_sots_valid m
      else False)"

text \<open>\<open>assume_two_step\<close> is a global variable set once from the configuration.\<close>

definition one_step :: "bool \<Rightarrow> ptp_message \<Rightarrow> bool" where
  "one_step assume_two_step m \<longleftrightarrow>
     (if assume_two_step then False else \<not> field_is_set m 0 TWO_STEP)"

lemma one_step_iff:
  "one_step assume_two_step m \<longleftrightarrow> \<not> assume_two_step \<and> flagField0 (header m) AND TWO_STEP = 0"
  by (simp add: one_step_def field_is_set_def)

text \<open>A zeroed message, the state in which \<open>msg_allocate\<close> returns it.\<close>

definition zero_pid :: PortIdentity where
  "zero_pid = \<lparr>clockIdentity = CID 0 0 0 0 0 0 0 0, portNumber = 0\<rparr>"

definition zero_header :: ptp_header where
  "zero_header = \<lparr>tsmt = 0, ver = 0, messageLength = 0, domainNumber = 0, reserved1 = 0,
     flagField0 = 0, flagField1 = 0, correction = 0, reserved2 = 0,
     sourcePortIdentity = zero_pid, sequenceId = 0, control = 0, logMessageInterval = 0\<rparr>"

definition zero_msg :: "nat \<Rightarrow> ptp_message" where
  "zero_msg ptr =
    \<lparr>header = zero_header,
     m_timestamp = \<lparr>seconds_msb = 0, seconds_lsb = 0, nanoseconds = 0\<rparr>,
     requestingPortIdentity = zero_pid, currentUtcOffset = 0, grandmasterPriority1 = 0,
     grandmasterClockQuality = \<lparr>clockClass = 0, clockAccuracy = 0, offsetScaledLogVariance = 0\<rparr>,
     grandmasterPriority2 = 0, grandmasterIdentity = CID 0 0 0 0 0 0 0 0, stepsRemoved = 0,
     timeSource = 0, targetPortIdentity = zero_pid, startingBoundaryHops = 0, boundaryHops = 0,
     mgmt_flags = 0, m_suffix = [], m_ptr = ptr, ts_pdu = \<lparr>sec = 0, nsec = 0\<rparr>,
     ts_host = \<lparr>tv_sec = 0, tv_nsec = 0\<rparr>,
     hwts = \<lparr>hw_type = TS_SOFTWARE, hw_ts = tmv_zero, hw_sw = tmv_zero\<rparr>, m_address = [],
     tlv_list = [], tlv_count = 0\<rparr>"

subsection \<open>TLVs of a message\<close>

definition tlv_type :: "byte_order \<Rightarrow> ptp_message \<Rightarrow> nat \<Rightarrow> u16" where
  "tlv_type bo m off = rd16 bo (m_suffix m) off"

definition tlv_length :: "byte_order \<Rightarrow> ptp_message \<Rightarrow> nat \<Rightarrow> u16" where
  "tlv_length bo m off = rd16 bo (m_suffix m) (off + 2)"

definition path_length :: "byte_order \<Rightarrow> ptp_message \<Rightarrow> nat \<Rightarrow> nat" where
  "path_length bo m off = unat (tlv_length bo m off) div 8"

definition path_trace_cid :: "ptp_message \<Rightarrow> nat \<Rightarrow> nat \<Rightarrow> ClockIdentity" where
  "path_trace_cid m off i = rd_cid (m_suffix m) (off + 4 + 8 * i)"

record ScaledNs =
  sns_nanoseconds_msb :: u16
  sns_nanoseconds_lsb :: u64
  sns_fractional_nanoseconds :: u16

record follow_up_info_tlv =
  fui_id :: "u8 list"
  fui_subtype :: "u8 list"
  fui_cumulativeScaledRateOffset :: i32
  fui_gmTimeBaseIndicator :: u16
  fui_lastGmPhaseChange :: ScaledNs
  fui_scaledLastGmPhaseChange :: i32

definition rd_ScaledNs :: "byte_order \<Rightarrow> u8 list \<Rightarrow> nat \<Rightarrow> ScaledNs" where
  "rd_ScaledNs bo mem i = \<lparr>sns_nanoseconds_msb = rd16 bo mem i,
     sns_nanoseconds_lsb = rd64 bo mem (i + 2), sns_fractional_nanoseconds = rd16 bo mem (i + 10)\<rparr>"

definition rd_follow_up_info :: "byte_order \<Rightarrow> u8 list \<Rightarrow> nat \<Rightarrow> follow_up_info_tlv" where
  "rd_follow_up_info bo mem i = \<lparr>fui_id = octets mem (i + 4) 3, fui_subtype = octets mem (i + 7) 3,
     fui_cumulativeScaledRateOffset = rd32 bo mem (i + 10), fui_gmTimeBaseIndicator = rd16 bo mem (i + 14),
     fui_lastGmPhaseChange = rd_ScaledNs bo mem (i + 16),
     fui_scaledLastGmPhaseChange = rd32 bo mem (i + 28)\<rparr>"

text \<open>
  \<open>follow_up_info_extract\<close> (src/port.c) finds the first TLV that is a follow up information
  TLV by its type, its length (28 octets after the first two fields) and its subtype.
\<close>

definition is_follow_up_info :: "byte_order \<Rightarrow> ptp_message \<Rightarrow> nat \<Rightarrow> bool" where
  "is_follow_up_info bo m off \<longleftrightarrow>
     tlv_type bo m off = TLV_ORGANIZATION_EXTENSION \<and> tlv_length bo m off = 28 \<and>
     octet (m_suffix m) (off + 7) = 0 \<and> octet (m_suffix m) (off + 8) = 0 \<and>
     octet (m_suffix m) (off + 9) = 1"

definition follow_up_info_extract :: "byte_order \<Rightarrow> ptp_message \<Rightarrow> follow_up_info_tlv option" where
  "follow_up_info_extract bo m =
     map_option (rd_follow_up_info bo (m_suffix m)) (find (is_follow_up_info bo m) (map tlv_at (tlv_list m)))"

subsection \<open>Reference operations\<close>

datatype ref_op = MsgGet nat | MsgPut nat

text \<open>
  The references that a list of operations takes and those that it drops.  An operation keeps
  the books when the multiset of references held before, plus those taken, is the multiset
  held after plus those dropped.
\<close>

fun gets :: "ref_op list \<Rightarrow> nat list" where
  "gets [] = []"
| "gets (MsgGet p # ops) = p # gets ops"
| "gets (MsgPut p # ops) = gets ops"

fun puts :: "ref_op list \<Rightarrow> nat list" where
  "puts [] = []"
| "puts (MsgGet p # ops) = puts ops"
| "puts (MsgPut p # ops) = p # puts ops"

lemma gets_append [simp]: "gets (xs @ ys) = gets xs @ gets ys"
  by (induction xs rule: gets.induct) auto

lemma puts_append [simp]: "puts (xs @ ys) = puts xs @ puts ys"
  by (induction xs rule: puts.induct) auto

end
