(* ===== verification/Fsm.thy ===== *)
theory Fsm
  imports Prelude
begin

text \<open>
  The port state machines (src/fsm.h, src/fsm.c): \<open>ptp_fsm\<close> for ordinary and boundary
  clock ports and \<open>ptp_slave_fsm\<close> for slave only clocks, runs of the machines over
  sequences of events, and the facts about reachable states and single transitions.
\<close>

subsection \<open>States and events\<close>

datatype port_state =
    PS_INITIALIZING | PS_FAULTY | PS_DISABLED | PS_LISTENING | PS_PRE_MASTER
  | PS_MASTER | PS_PASSIVE | PS_UNCALIBRATED | PS_SLAVE | PS_GRAND_MASTER

datatype fsm_event =
    EV_NONE | EV_POWERUP | EV_INITIALIZE | EV_DESIGNATED_ENABLED | EV_DESIGNATED_DISABLED
  | EV_FAULT_CLEARED | EV_FAULT_DETECTED | EV_STATE_DECISION_EVENT
  | EV_QUALIFICATION_TIMEOUT_EXPIRES | EV_ANNOUNCE_RECEIPT_TIMEOUT_EXPIRES
  | EV_SYNCHRONIZATION_FAULT | EV_MASTER_CLOCK_SELECTED | EV_INIT_COMPLETE
  | EV_RS_MASTER | EV_RS_GRAND_MASTER | EV_RS_SLAVE | EV_RS_PASSIVE

text \<open>The numbers of the C enumeration, as sent in management messages.\<close>

fun ps_code :: "port_state \<Rightarrow> u8" where
  "ps_code PS_INITIALIZING = 1"
| "ps_code PS_FAULTY = 2"
| "ps_code PS_DISABLED = 3"
| "ps_code PS_LISTENING = 4"
| "ps_code PS_PRE_MASTER = 5"
| "ps_code PS_MASTER = 6"
| "ps_code PS_PASSIVE = 7"
| "ps_code PS_UNCALIBRATED = 8"
| "ps_code PS_SLAVE = 9"
| "ps_code PS_GRAND_MASTER = 10"

subsection \<open>The machines\<close>

definition ptp_fsm :: "port_state \<Rightarrow> fsm_event \<Rightarrow> bool \<Rightarrow> port_state" where
  "ptp_fsm state event mdiff =
    (if event = EV_INITIALIZE \<or> event = EV_POWERUP then PS_INITIALIZING
     else case state of
       PS_INITIALIZING \<Rightarrow>
         (case event of
            EV_FAULT_DETECTED \<Rightarrow> PS_FAULTY
          | EV_INIT_COMPLETE \<Rightarrow> PS_LISTENING
          | _ \<Rightarrow> state)
     | PS_FAULTY \<Rightarrow>
         (case event of
            EV_DESIGNATED_DISABLED \<Rightarrow> PS_DISABLED
          | EV_FAULT_CLEARED \<Rightarrow> PS_INITIALIZING
          | _ \<Rightarrow> state)
     | PS_DISABLED \<Rightarrow>
         (if event = EV_DESIGNATED_ENABLED then PS_INITIALIZING else state)
     | PS_LISTENING \<Rightarrow>
         (case event of
            EV_DESIGNATED_DISABLED \<Rightarrow> PS_DISABLED
          | EV_FAULT_DETECTED \<Rightarrow> PS_FAULTY
          | EV_ANNOUNCE_RECEIPT_TIMEOUT_EXPIRES \<Rightarrow> PS_MASTER
          | EV_RS_MASTER \<Rightarrow> PS_PRE_MASTER
          | EV_RS_GRAND_MASTER \<Rightarrow> PS_GRAND_MASTER
          | EV_RS_SLAVE \<Rightarrow> PS_UNCALIBRATED
          | EV_RS_PASSIVE \<Rightarrow> PS_PASSIVE
          | _ \<Rightarrow> state)
     | PS_PRE_MASTER \<Rightarrow>
         (case event of
            EV_DESIGNATED_DISABLED \<Rightarrow> PS_DISABLED
          | EV_FAULT_DETECTED \<Rightarrow> PS_FAULTY
          | EV_QUALIFICATION_TIMEOUT_EXPIRES \<Rightarrow> PS_MASTER
          | EV_RS_SLAVE \<Rightarrow> PS_UNCALIBRATED
          | EV_RS_PASSIVE \<Rightarrow> PS_PASSIVE
          | _ \<Rightarrow> state)
     | PS_MASTER \<Rightarrow>
         (case event of
            EV_DESIGNATED_DISABLED \<Rightarrow> PS_DISABLED
          | EV_FAULT_DETECTED \<Rightarrow> PS_FAULTY
          | EV_RS_SLAVE \<Rightarrow> PS_UNCALIBRATED
          | EV_RS_PASSIVE \<Rightarrow> PS_PASSIVE
          | _ \<Rightarrow> state)
     | PS_GRAND_MASTER \<Rightarrow>
         (case event of
            EV_DESIGNATED_DISABLED \<Rightarrow> PS_DISABLED
          | EV_FAULT_DETECTED \<Rightarrow> PS_FAULTY
          | EV_RS_SLAVE \<Rightarrow> PS_UNCALIBRATED
          | EV_RS_PASSIVE \<Rightarrow> PS_PASSIVE
          | _ \<Rightarrow> state)
     | PS_PASSIVE \<Rightarrow>
         (case event of
            EV_DESIGNATED_DISABLED \<Rightarrow> PS_DISABLED
          | EV_FAULT_DETECTED \<Rightarrow> PS_FAULTY
          | EV_ANNOUNCE_RECEIPT_TIMEOUT_EXPIRES \<Rightarrow> PS_MASTER
          | EV_RS_MASTER \<Rightarrow> PS_PRE_MASTER
          | EV_RS_GRAND_MASTER \<Rightarrow> PS_GRAND_MASTER
          | EV_RS_SLAVE \<Rightarrow> PS_UNCALIBRATED
          | _ \<Rightarrow> state)
     | PS_UNCALIBRATED \<Rightarrow>
         (case event of
            EV_DESIGNATED_DISABLED \<Rightarrow> PS_DISABLED
          | EV_FAULT_DETECTED \<Rightarrow> PS_FAULTY
          | EV_ANNOUNCE_RECEIPT_TIMEOUT_EXPIRES \<Rightarrow> PS_MASTER
          | EV_MASTER_CLOCK_SELECTED \<Rightarrow> PS_SLAVE
          | EV_RS_MASTER \<Rightarrow> PS_PRE_MASTER
          | EV_RS_GRAND_MASTER \<Rightarrow> PS_GRAND_MASTER
          | EV_RS_SLAVE \<Rightarrow> PS_UNCALIBRATED
          | EV_RS_PASSIVE \<Rightarrow> PS_PASSIVE
          | _ \<Rightarrow> state)
     | PS_SLAVE \<Rightarrow>
         (case event of
            EV_DESIGNATED_DISABLED \<Rightarrow> PS_DISABLED
          | EV_FAULT_DETECTED \<Rightarrow> PS_FAULTY
          | EV_ANNOUNCE_RECEIPT_TIMEOUT_EXPIRES \<Rightarrow> PS_MASTER
          | EV_SYNCHRONIZATION_FAULT \<Rightarrow> PS_UNCALIBRATED
          | EV_RS_MASTER \<Rightarrow> PS_PRE_MASTER
          | EV_RS_GRAND_MASTER \<Rightarrow> PS_GRAND_MASTER
          | EV_RS_SLAVE \<Rightarrow> (if mdiff then PS_UNCALIBRATED else state)
          | EV_RS_PASSIVE \<Rightarrow> PS_PASSIVE
          | _ \<Rightarrow> state))"

definition ptp_slave_fsm :: "port_state \<Rightarrow> fsm_event \<Rightarrow> bool \<Rightarrow> port_state" where
  "ptp_slave_fsm state event mdiff =
    (if event = EV_INITIALIZE \<or> event = EV_POWERUP then PS_INITIALIZING
     else case state of
       PS_INITIALIZING \<Rightarrow>
         (case event of
            EV_FAULT_DETECTED \<Rightarrow> PS_FAULTY
          | EV_INIT_COMPLETE \<Rightarrow> PS_LISTENING
          | _ \<Rightarrow> state)
     | PS_FAULTY \<Rightarrow>
         (case event of
            EV_DESIGNATED_DISABLED \<Rightarrow> PS_DISABLED
          | EV_FAULT_CLEARED \<Rightarrow> PS_INITIALIZING
          | _ \<Rightarrow> state)
     | PS_DISABLED \<Rightarrow>
         (if event = EV_DESIGNATED_ENABLED then PS_INITIALIZING else state)
     | PS_LISTENING \<Rightarrow>
         (case event of
            EV_DESIGNATED_DISABLED \<Rightarrow> PS_DISABLED
          | EV_FAULT_DETECTED \<Rightarrow> PS_FAULTY
          | EV_ANNOUNCE_RECEIPT_TIMEOUT_EXPIRES \<Rightarrow> PS_LISTENING
          | EV_RS_MASTER \<Rightarrow> PS_LISTENING
          | EV_RS_GRAND_MASTER \<Rightarrow> PS_LISTENING
          | EV_RS_PASSIVE \<Rightarrow> PS_LISTENING
          | EV_RS_SLAVE \<Rightarrow> PS_UNCALIBRATED
          | _ \<Rightarrow> state)
     | PS_UNCALIBRATED \<Rightarrow>
         (case event of
            EV_DESIGNATED_DISABLED \<Rightarrow> PS_DISABLED
          | EV_FAULT_DETECTED \<Rightarrow> PS_FAULTY
          | EV_ANNOUNCE_RECEIPT_TIMEOUT_EXPIRES \<Rightarrow> PS_LISTENING
          | EV_RS_MASTER \<Rightarrow> PS_LISTENING
          | EV_RS_GRAND_MASTER \<Rightarrow> PS_LISTENING
          | EV_RS_PASSIVE \<Rightarrow> PS_LISTENING
          | EV_MASTER_CLOCK_SELECTED \<Rightarrow> PS_SLAVE
          | _ \<Rightarrow> state)
     | PS_SLAVE \<Rightarrow>
         (case event of
            EV_DESIGNATED_DISABLED \<Rightarrow> PS_DISABLED
          | EV_FAULT_DETECTED \<Rightarrow> PS_FAULTY
          | EV_ANNOUNCE_RECEIPT_TIMEOUT_EXPIRES \<Rightarrow> PS_LISTENING
          | EV_RS_MASTER \<Rightarrow> PS_LISTENING
          | EV_RS_GRAND_MASTER \<Rightarrow> PS_LISTENING
          | EV_RS_PASSIVE \<Rightarrow> PS_LISTENING
          | EV_SYNCHRONIZATION_FAULT \<Rightarrow> PS_UNCALIBRATED
          | EV_RS_SLAVE \<Rightarrow> (if mdiff then PS_UNCALIBRATED else state)
          | _ \<Rightarrow> state)
     | _ \<Rightarrow> state)"

lemmas fsm_defs = ptp_fsm_def ptp_slave_fsm_def

text \<open>States grouped as the program groups them (\<open>port_is_enabled\<close> of src/port.c).\<close>

fun ps_enabled :: "port_state \<Rightarrow> bool" where
  "ps_enabled PS_INITIALIZING = False"
| "ps_enabled PS_FAULTY = False"
| "ps_enabled PS_DISABLED = False"
| "ps_enabled _ = True"

text \<open>The states in which a port sends announce messages or holds back as a candidate.\<close>

definition master_side :: "port_state \<Rightarrow> bool" where
  "master_side s \<longleftrightarrow> s \<in> {PS_PRE_MASTER, PS_MASTER, PS_PASSIVE, PS_GRAND_MASTER}"

fun demote :: "port_state \<Rightarrow> port_state" where
  "demote s = (if master_side s then PS_LISTENING else s)"

subsection \<open>Runs\<close>

text \<open>
  A machine is a transition function; \<open>port_reach\<close> holds of the states that a port whose
  machine is \<open>f\<close> can reach from PS_INITIALIZING (the state that \<open>port_open\<close> sets) by
  events in any order.
\<close>

type_synonym fsm = "port_state \<Rightarrow> fsm_event \<Rightarrow> bool \<Rightarrow> port_state"

inductive port_reach :: "fsm \<Rightarrow> port_state \<Rightarrow> bool" for f where
  start: "port_reach f PS_INITIALIZING"
| step: "port_reach f s \<Longrightarrow> port_reach f (f s ev md)"

fun fsm_run :: "fsm \<Rightarrow> port_state \<Rightarrow> (fsm_event \<times> bool) list \<Rightarrow> port_state" where
  "fsm_run f s [] = s"
| "fsm_run f s ((ev, md) # es) = fsm_run f (f s ev md) es"

lemma fsm_run_reach: "port_reach f s \<Longrightarrow> port_reach f (fsm_run f s es)"
  by (induction f s es rule: fsm_run.induct) (auto intro: port_reach.step)

lemma fsm_run_append: "fsm_run f s (xs @ ys) = fsm_run f (fsm_run f s xs) ys"
  by (induction f s xs rule: fsm_run.induct) auto

lemma slave_step_not_master:
  "\<not> master_side s \<Longrightarrow> \<not> master_side (ptp_slave_fsm s ev md)"
  by (cases s; cases ev) (simp_all add: ptp_slave_fsm_def master_side_def)

lemma slave_reach_not_master: "port_reach ptp_slave_fsm s \<Longrightarrow> \<not> master_side s"
  by (induction rule: port_reach.induct)
    (simp_all add: slave_step_not_master, simp add: master_side_def)

lemma slave_step_demotes:
  "\<not> master_side s \<Longrightarrow> ptp_slave_fsm s ev md = demote (ptp_fsm s ev md)"
  by (cases s; cases ev) (simp_all add: fsm_defs master_side_def)

lemma enters_slave:
  "ptp_fsm s ev md = PS_SLAVE \<Longrightarrow> s \<noteq> PS_SLAVE \<Longrightarrow>
   s = PS_UNCALIBRATED \<and> ev = EV_MASTER_CLOCK_SELECTED"
  by (cases s; cases ev) (simp_all add: fsm_defs split: if_splits)

lemma enters_slave':
  "ptp_slave_fsm s ev md = PS_SLAVE \<Longrightarrow> s \<noteq> PS_SLAVE \<Longrightarrow>
   s = PS_UNCALIBRATED \<and> ev = EV_MASTER_CLOCK_SELECTED"
  by (cases s; cases ev) (simp_all add: fsm_defs split: if_splits)

lemma fault_always_taken:
  "f \<in> {ptp_fsm, ptp_slave_fsm} \<Longrightarrow> port_reach f s \<Longrightarrow> s \<noteq> PS_DISABLED \<Longrightarrow>
   f s EV_FAULT_DETECTED md = PS_FAULTY"
  using slave_reach_not_master [of s]
  by (cases s) (auto simp: fsm_defs master_side_def)

lemma leaves_faulty:
  "f \<in> {ptp_fsm, ptp_slave_fsm} \<Longrightarrow> f PS_FAULTY ev md \<noteq> PS_FAULTY \<Longrightarrow>
   (ev \<in> {EV_FAULT_CLEARED, EV_INITIALIZE, EV_POWERUP} \<and> f PS_FAULTY ev md = PS_INITIALIZING) \<or>
   (ev = EV_DESIGNATED_DISABLED \<and> f PS_FAULTY ev md = PS_DISABLED)"
  by (cases ev) (auto simp: fsm_defs)

text \<open>
  Whichever of the two machines runs a port, a transition out of PS_UNCALIBRATED on a fault
  ends in PS_FAULTY, and no event leads from PS_FAULTY or PS_INITIALIZING straight to
  PS_UNCALIBRATED: this is what makes the recursion of \<open>bc_dispatch\<close> stop.
\<close>

lemma uncalibrated_fault [simp]:
  "f \<in> {ptp_fsm, ptp_slave_fsm} \<Longrightarrow> f PS_UNCALIBRATED EV_FAULT_DETECTED md = PS_FAULTY"
  by (auto simp: fsm_defs)

lemma not_enabled_not_uncalibrated:
  "f \<in> {ptp_fsm, ptp_slave_fsm} \<Longrightarrow> \<not> ps_enabled s \<Longrightarrow> f s ev md \<noteq> PS_UNCALIBRATED"
  by (cases s; cases ev) (auto simp: fsm_defs)

subsection \<open>Properties\<close>

text \<open>
  A port of a slave-only clock never reaches PRE_MASTER, MASTER, GRAND_MASTER or
  PASSIVE, in whatever order the events arrive.
\<close>

theorem slave_only_never_master:
  "\<not> master_side (fsm_run ptp_slave_fsm PS_INITIALIZING es)"
  by (intro slave_reach_not_master fsm_run_reach port_reach.start)

text \<open>
  C30: The slave-only state machine refines the full one: in every state it reaches, its step
  is the step of \<open>ptp_fsm\<close> with the states of the master side replaced by LISTENING.
\<close>

theorem slave_fsm_refines_fsm:
  "ptp_slave_fsm (fsm_run ptp_slave_fsm PS_INITIALIZING es) ev md =
   demote (ptp_fsm (fsm_run ptp_slave_fsm PS_INITIALIZING es) ev md)"
  by (intro slave_step_demotes slave_reach_not_master fsm_run_reach port_reach.start)

text \<open>
  With either machine, a port that is in SLAVE got there from UNCALIBRATED on
  MASTER_CLOCK_SELECTED and stayed in SLAVE since: no run reaches SLAVE without calibrating
  first, nor comes back to it after leaving it without calibrating again.
\<close>

theorem slave_only_after_calibration:
  assumes "f = ptp_fsm \<or> f = ptp_slave_fsm" and "fsm_run f PS_INITIALIZING es = PS_SLAVE"
  shows "\<exists>xs md ys. es = xs @ (EV_MASTER_CLOCK_SELECTED, md) # ys \<and>
    fsm_run f PS_INITIALIZING xs = PS_UNCALIBRATED \<and>
    (\<forall>n \<le> length ys. fsm_run f PS_SLAVE (take n ys) = PS_SLAVE)"
  using assms(2)
proof (induction es rule: rev_induct)
  case (snoc e es)
  obtain ev md where e: "e = (ev, md)" by (cases e)
  let ?s = "fsm_run f PS_INITIALIZING es"
  have step: "f ?s ev md = PS_SLAVE" using snoc.prems by (simp add: e fsm_run_append)
  show ?case
  proof (cases "?s = PS_SLAVE")
    case True
    then obtain xs md' ys where ih: "es = xs @ (EV_MASTER_CLOCK_SELECTED, md') # ys"
      "fsm_run f PS_INITIALIZING xs = PS_UNCALIBRATED"
      "\<forall>n \<le> length ys. fsm_run f PS_SLAVE (take n ys) = PS_SLAVE"
      using snoc.IH by blast
    from ih(3) have "fsm_run f PS_SLAVE ys = PS_SLAVE" by (metis le_refl take_all)
    with ih(3) step True
    have "\<forall>n \<le> length (ys @ [e]). fsm_run f PS_SLAVE (take n (ys @ [e])) = PS_SLAVE"
      by (auto simp: e fsm_run_append le_Suc_eq)
    with ih(1,2) show ?thesis by (metis append.assoc append_Cons)
  next
    case False
    with step assms(1) have "?s = PS_UNCALIBRATED" "ev = EV_MASTER_CLOCK_SELECTED"
      using enters_slave enters_slave' by blast+
    then have "es @ [e] = es @ (EV_MASTER_CLOCK_SELECTED, md) # [] \<and> ?s = PS_UNCALIBRATED \<and>
        (\<forall>n \<le> length ([] :: (fsm_event \<times> bool) list). fsm_run f PS_SLAVE (take n []) = PS_SLAVE)"
      by (simp add: e)
    then show ?thesis by blast
  qed
qed simp

definition sample_events :: "(fsm_event \<times> bool) list" where
  "sample_events = [(EV_INIT_COMPLETE, False), (EV_RS_SLAVE, True),
     (EV_MASTER_CLOCK_SELECTED, False), (EV_RS_SLAVE, False)]"

theorem slave_only_after_calibration_witness:
  "\<exists>xs md ys. sample_events = xs @ (EV_MASTER_CLOCK_SELECTED, md) # ys \<and>
    fsm_run ptp_fsm PS_INITIALIZING xs = PS_UNCALIBRATED \<and>
    (\<forall>n \<le> length ys. fsm_run ptp_fsm PS_SLAVE (take n ys) = PS_SLAVE)"
proof -
  have "fsm_run ptp_fsm PS_INITIALIZING sample_events = PS_SLAVE"
    by (simp add: sample_events_def ptp_fsm_def)
  then show ?thesis by (intro slave_only_after_calibration) simp_all
qed

text \<open>
  A detected fault takes every port, whatever the order of the events before it, to
  FAULTY unless the port is administratively disabled; and FAULTY is left only by clearing
  the fault, by a restart or by disabling the port.
\<close>

theorem faults_are_latched:
  assumes "f = ptp_fsm \<or> f = ptp_slave_fsm" and "fsm_run f PS_INITIALIZING es \<noteq> PS_DISABLED"
    and "ev \<notin> {EV_FAULT_CLEARED, EV_INITIALIZE, EV_POWERUP, EV_DESIGNATED_DISABLED}"
  shows "fsm_run f PS_INITIALIZING (es @ [(EV_FAULT_DETECTED, md), (ev, md')]) = PS_FAULTY"
proof -
  let ?s = "fsm_run f PS_INITIALIZING es"
  have f: "f \<in> {ptp_fsm, ptp_slave_fsm}" using assms(1) by simp
  then have "f ?s EV_FAULT_DETECTED md = PS_FAULTY"
    using assms(2) by (intro fault_always_taken fsm_run_reach port_reach.start)
  moreover have "f PS_FAULTY ev md' = PS_FAULTY"
    using leaves_faulty [OF f, of ev md'] assms(3) by blast
  ultimately show ?thesis by (simp add: fsm_run_append)
qed

theorem faults_are_latched_witness:
  "fsm_run ptp_slave_fsm PS_INITIALIZING
     (sample_events @ [(EV_FAULT_DETECTED, False), (EV_RS_SLAVE, True)]) = PS_FAULTY"
  by (rule faults_are_latched) (simp_all add: sample_events_def ptp_slave_fsm_def)

end
