(* ===== verification/Bmc.thy ===== *)
theory Bmc
  imports Ddt Fsm
begin

text \<open>
  The best master clock algorithm (src/bmc.c, src/bmc.h, src/telecom.c): the data set
  comparisons of IEEE 1588 and of the telecom profiles, the lexicographic rankings they
  implement, and the state decision of a port.  Comparison results are the C integers;
  NULL pointers are None.
\<close>

abbreviation (input) A_BETTER_TOPO :: int where "A_BETTER_TOPO \<equiv> 2"
abbreviation (input) A_BETTER :: int where "A_BETTER \<equiv> 1"
abbreviation (input) B_BETTER :: int where "B_BETTER \<equiv> -1"
abbreviation (input) B_BETTER_TOPO :: int where "B_BETTER_TOPO \<equiv> -2"

subsection \<open>Comparison\<close>

definition dscmp2 :: "byte_order \<Rightarrow> dataset \<Rightarrow> dataset \<Rightarrow> int" where
  "dscmp2 bo a b =
    (let A = unat (ds_stepsRemoved a); B = unat (ds_stepsRemoved b)
     in if A + 1 < B then A_BETTER
        else if B + 1 < A then B_BETTER
        else if A < B then
          (let diff = memcmp (pid_bytes bo (ds_receiver b)) (pid_bytes bo (ds_sender b))
           in if diff < 0 then A_BETTER else if diff > 0 then A_BETTER_TOPO else 0)
        else if A > B then
          (let diff = memcmp (pid_bytes bo (ds_receiver a)) (pid_bytes bo (ds_sender a))
           in if diff < 0 then B_BETTER else if diff > 0 then B_BETTER_TOPO else 0)
        else
          (let diff = memcmp (pid_bytes bo (ds_sender a)) (pid_bytes bo (ds_sender b))
           in if diff < 0 then A_BETTER_TOPO
              else if diff > 0 then B_BETTER_TOPO
              else if portNumber (ds_receiver a) < portNumber (ds_receiver b) then A_BETTER_TOPO
              else if portNumber (ds_receiver a) > portNumber (ds_receiver b) then B_BETTER_TOPO
              else 0))"

text \<open>
  The first lines of both comparisons handle NULL pointers and two equal pointers.  Two equal
  pointers other than NULL denote equal data sets, for which the remaining code returns 0 as
  well (\<open>dscmp_same\<close>, \<open>telecom_dscmp_same\<close>).
\<close>

definition dscmp :: "byte_order \<Rightarrow> dataset option \<Rightarrow> dataset option \<Rightarrow> int" where
  "dscmp bo pa pb =
    (case (pa, pb) of
       (None, None) \<Rightarrow> 0
     | (Some a, None) \<Rightarrow> A_BETTER
     | (None, Some b) \<Rightarrow> B_BETTER
     | (Some a, Some b) \<Rightarrow>
        (let diff = memcmp (cid_bytes (ds_identity a)) (cid_bytes (ds_identity b))
         in if diff = 0 then dscmp2 bo a b
            else if ds_priority1 a < ds_priority1 b then A_BETTER
            else if ds_priority1 a > ds_priority1 b then B_BETTER
            else if clockClass (ds_quality a) < clockClass (ds_quality b) then A_BETTER
            else if clockClass (ds_quality a) > clockClass (ds_quality b) then B_BETTER
            else if clockAccuracy (ds_quality a) < clockAccuracy (ds_quality b) then A_BETTER
            else if clockAccuracy (ds_quality a) > clockAccuracy (ds_quality b) then B_BETTER
            else if offsetScaledLogVariance (ds_quality a) < offsetScaledLogVariance (ds_quality b)
              then A_BETTER
            else if offsetScaledLogVariance (ds_quality a) > offsetScaledLogVariance (ds_quality b)
              then B_BETTER
            else if ds_priority2 a < ds_priority2 b then A_BETTER
            else if ds_priority2 a > ds_priority2 b then B_BETTER
            else if diff < 0 then A_BETTER else B_BETTER))"

definition telecom_dscmp :: "byte_order \<Rightarrow> dataset option \<Rightarrow> dataset option \<Rightarrow> int" where
  "telecom_dscmp bo pa pb =
    (case (pa, pb) of
       (None, None) \<Rightarrow> 0
     | (Some a, None) \<Rightarrow> A_BETTER
     | (None, Some b) \<Rightarrow> B_BETTER
     | (Some a, Some b) \<Rightarrow>
        (if clockClass (ds_quality a) < clockClass (ds_quality b) then A_BETTER
         else if clockClass (ds_quality a) > clockClass (ds_quality b) then B_BETTER
         else if clockAccuracy (ds_quality a) < clockAccuracy (ds_quality b) then A_BETTER
         else if clockAccuracy (ds_quality a) > clockAccuracy (ds_quality b) then B_BETTER
         else if offsetScaledLogVariance (ds_quality a) < offsetScaledLogVariance (ds_quality b)
           then A_BETTER
         else if offsetScaledLogVariance (ds_quality a) > offsetScaledLogVariance (ds_quality b)
           then B_BETTER
         else if ds_priority2 a < ds_priority2 b then A_BETTER
         else if ds_priority2 a > ds_priority2 b then B_BETTER
         else if ds_localPriority a < ds_localPriority b then A_BETTER
         else if ds_localPriority a > ds_localPriority b then B_BETTER
         else if clockClass (ds_quality a) \<le> 127 then dscmp2 bo a b
         else
           (let diff = memcmp (cid_bytes (ds_identity a)) (cid_bytes (ds_identity b))
            in if diff = 0 then dscmp2 bo a b
               else if diff < 0 then A_BETTER else B_BETTER)))"

subsection \<open>Sign symmetry\<close>

text \<open>
  Both comparisons are chains of "the smaller field wins" tests.  One link of such a chain
  keeps sign symmetry, and agrees with one element of a lexicographic comparison.
\<close>

lemma chain_antisym:
  "y = - x \<Longrightarrow> (if b < a then A_BETTER else if a < b then B_BETTER else y) =
     - (if a < (b :: 'a::linorder) then A_BETTER else if b < a then B_BETTER else x)"
  by auto

lemma chain_lex:
  "sgn x = - lexcmp ks ls \<Longrightarrow>
   sgn (if a < b then A_BETTER else if b < a then B_BETTER else x) =
     - lexcmp (unat a # ks) (unat (b :: 'a::len word) # ls)"
  by (simp add: word_less_nat_alt)

lemma dscmp2_antisym: "dscmp2 bo b a = - dscmp2 bo a b"
proof -
  define d where "d = memcmp (pid_bytes bo (ds_sender a)) (pid_bytes bo (ds_sender b))"
  have d': "memcmp (pid_bytes bo (ds_sender b)) (pid_bytes bo (ds_sender a)) = - d"
    unfolding d_def by (rule lexcmp_antisym)
  show ?thesis
    unfolding dscmp2_def Let_def d' d_def [symmetric] by auto
qed

lemma dscmp2_range: "dscmp2 bo a b \<in> {-2, -1, 0, 1, 2}"
  by (simp add: dscmp2_def Let_def)

lemma dscmp_antisym: "dscmp bo y x = - dscmp bo x y"
proof (cases x; cases y)
  fix a b assume xy: "x = Some a" "y = Some b"
  define d where "d = memcmp (cid_bytes (ds_identity a)) (cid_bytes (ds_identity b))"
  have d': "memcmp (cid_bytes (ds_identity b)) (cid_bytes (ds_identity a)) = - d"
    unfolding d_def by (rule lexcmp_antisym)
  have e: "dscmp2 bo b a = - dscmp2 bo a b" by (rule dscmp2_antisym)
  show ?thesis
    unfolding xy dscmp_def prod.case option.case Let_def d' d_def [symmetric] e
    by (cases "d = 0"; simp only: neg_equal_0_iff_equal simp_thms if_True if_False)
      (intro chain_antisym, auto)
qed (simp_all add: dscmp_def)

lemma telecom_dscmp_antisym: "telecom_dscmp bo y x = - telecom_dscmp bo x y"
proof (cases x; cases y)
  fix a b assume xy: "x = Some a" "y = Some b"
  define d where "d = memcmp (cid_bytes (ds_identity a)) (cid_bytes (ds_identity b))"
  have d': "memcmp (cid_bytes (ds_identity b)) (cid_bytes (ds_identity a)) = - d"
    unfolding d_def by (rule lexcmp_antisym)
  have e: "dscmp2 bo b a = - dscmp2 bo a b" by (rule dscmp2_antisym)
  show ?thesis
  proof (cases "clockClass (ds_quality a) = clockClass (ds_quality b)")
    case True
    show ?thesis
      unfolding xy telecom_dscmp_def prod.case option.case Let_def d' d_def [symmetric] e True
      by (intro chain_antisym) auto
  next
    case False
    then have "clockClass (ds_quality a) < clockClass (ds_quality b) \<and>
        \<not> clockClass (ds_quality b) < clockClass (ds_quality a) \<or>
      \<not> clockClass (ds_quality a) < clockClass (ds_quality b) \<and>
        clockClass (ds_quality b) < clockClass (ds_quality a)" by auto
    then show ?thesis
      unfolding xy telecom_dscmp_def prod.case option.case by (auto split del: if_split)
  qed
qed (simp_all add: telecom_dscmp_def)

lemma dscmp2_same [simp]: "dscmp2 bo a a = 0"
  by (simp add: dscmp2_def)

lemma dscmp_same [simp]: "dscmp bo x x = 0"
  by (cases x) (simp_all add: dscmp_def)

lemma telecom_dscmp_same [simp]: "telecom_dscmp bo x x = 0"
  by (cases x) (simp_all add: telecom_dscmp_def)

subsection \<open>Rankings\<close>

text \<open>
  The reference: a data set is ranked by the list of its attributes, the smaller list is
  better.  \<open>topo_key\<close> ranks by topology.  The list has the same length for all data sets.
\<close>

definition topo_key :: "byte_order \<Rightarrow> dataset \<Rightarrow> nat list" where
  "topo_key bo d = [unat (ds_stepsRemoved d)] @ map unat (pid_bytes bo (ds_sender d)) @
     [unat (portNumber (ds_receiver d))]"

definition quality_key :: "ClockQuality \<Rightarrow> nat list" where
  "quality_key q = [unat (clockClass q), unat (clockAccuracy q), unat (offsetScaledLogVariance q)]"

definition ieee1588_key :: "byte_order \<Rightarrow> dataset \<Rightarrow> nat list" where
  "ieee1588_key bo d = [unat (ds_priority1 d)] @ quality_key (ds_quality d) @
     [unat (ds_priority2 d)] @ map unat (cid_bytes (ds_identity d)) @ topo_key bo d"

definition g8275_key :: "byte_order \<Rightarrow> dataset \<Rightarrow> nat list" where
  "g8275_key bo d = quality_key (ds_quality d) @ [unat (ds_priority2 d), unat (ds_localPriority d)] @
     (if clockClass (ds_quality d) \<le> 127 then replicate 8 0
      else map unat (cid_bytes (ds_identity d))) @ topo_key bo d"

text \<open>
  \<open>no_error1\<close>: the data set was not received by the port that sent it (the condition the
  standard calls error-1; only a data set with stepsRemoved 0, such as the clock's own, may
  have equal sender and receiver).  \<open>same_gm\<close>: two data sets that name the same grandmaster
  carry the same grandmaster attributes.
\<close>

definition no_error1 :: "dataset \<Rightarrow> bool" where
  "no_error1 d \<longleftrightarrow> ds_stepsRemoved d = 0 \<or> ds_receiver d \<noteq> ds_sender d"

definition same_gm :: "dataset \<Rightarrow> dataset \<Rightarrow> bool" where
  "same_gm a b \<longleftrightarrow> (ds_identity a = ds_identity b \<longrightarrow>
     ds_priority1 a = ds_priority1 b \<and> ds_quality a = ds_quality b \<and>
     ds_priority2 a = ds_priority2 b)"

lemma length_keys [simp]:
  "length (topo_key bo d) = 12"
  "length (quality_key q) = 3"
  "length (ieee1588_key bo d) = 25"
  "length (g8275_key bo d) = 25"
  by (simp_all add: topo_key_def quality_key_def ieee1588_key_def g8275_key_def)

lemma map_unat_eq_iff [simp]: "map unat xs = map unat ys \<longleftrightarrow> xs = (ys :: 'a::len word list)"
  by (intro iffI, rule map_injective [of unat]) (auto simp: inj_def word_unat_eq_iff)

lemma topo_lex:
  "lexcmp (topo_key bo a) (topo_key bo b) =
     (if unat (ds_stepsRemoved a) < unat (ds_stepsRemoved b) then -1
      else if unat (ds_stepsRemoved b) < unat (ds_stepsRemoved a) then 1
      else if ds_sender a \<noteq> ds_sender b
        then memcmp (pid_bytes bo (ds_sender a)) (pid_bytes bo (ds_sender b))
      else if portNumber (ds_receiver a) < portNumber (ds_receiver b) then -1
      else if portNumber (ds_receiver b) < portNumber (ds_receiver a) then 1 else 0)"
  by (simp add: topo_key_def lexcmp_append word_less_nat_alt)

lemma dscmp2_lex:
  assumes "no_error1 a" and "no_error1 b"
  shows "sgn (dscmp2 bo a b) = - lexcmp (topo_key bo a) (topo_key bo b)"
proof -
  define A where "A = unat (ds_stepsRemoved a)"
  define B where "B = unat (ds_stepsRemoved b)"
  consider "A < B" | "B < A" | "A = B" by linarith
  then show ?thesis
  proof cases
    case 1
    with assms(2) have "memcmp (pid_bytes bo (ds_receiver b)) (pid_bytes bo (ds_sender b)) \<noteq> 0"
      by (auto simp: no_error1_def A_def B_def)
    with 1 show ?thesis
      by (auto simp: dscmp2_def topo_lex Let_def A_def [symmetric] B_def [symmetric])
  next
    case 2
    with assms(1) have "memcmp (pid_bytes bo (ds_receiver a)) (pid_bytes bo (ds_sender a)) \<noteq> 0"
      by (auto simp: no_error1_def A_def B_def)
    with 2 show ?thesis
      by (auto simp: dscmp2_def topo_lex Let_def A_def [symmetric] B_def [symmetric])
  next
    case 3
    define d where "d = memcmp (pid_bytes bo (ds_sender a)) (pid_bytes bo (ds_sender b))"
    have "d \<in> {-1, 0, 1}" "d = 0 \<longleftrightarrow> ds_sender a = ds_sender b"
      unfolding d_def by (rule lexcmp_range, simp)
    with 3 show ?thesis
      by (auto simp: dscmp2_def topo_lex Let_def A_def [symmetric] B_def [symmetric] d_def [symmetric])
  qed
qed

lemma dscmp_lex:
  assumes "no_error1 a" and "no_error1 b" and "same_gm a b"
  shows "sgn (dscmp bo (Some a) (Some b)) = - lexcmp (ieee1588_key bo a) (ieee1588_key bo b)"
proof (cases "ds_identity a = ds_identity b")
  case True
  with assms(3) have "ds_priority1 a = ds_priority1 b" "ds_quality a = ds_quality b"
    "ds_priority2 a = ds_priority2 b"
    by (auto simp: same_gm_def)
  with True dscmp2_lex [OF assms(1,2), of bo] show ?thesis
    by (simp add: dscmp_def ieee1588_key_def lexcmp_append)
next
  case False
  define d where "d = memcmp (cid_bytes (ds_identity a)) (cid_bytes (ds_identity b))"
  have d: "d \<in> {-1, 1}"
    using lexcmp_range [of "cid_bytes (ds_identity a)" "cid_bytes (ds_identity b)"] False
    by (auto simp: d_def)
  then have d0: "(d = 0) = False" by auto
  have id: "sgn (if d < 0 then A_BETTER else B_BETTER) =
    - lexcmp (map unat (cid_bytes (ds_identity a)) @ topo_key bo a)
        (map unat (cid_bytes (ds_identity b)) @ topo_key bo b)"
    using False d by (auto simp: lexcmp_append d_def [symmetric])
  show ?thesis
    unfolding dscmp_def ieee1588_key_def quality_key_def prod.case option.case Let_def
      d_def [symmetric] d0 if_False append.simps append_assoc
    by (intro chain_lex id)
qed

lemma telecom_dscmp_lex:
  assumes "no_error1 a" and "no_error1 b"
  shows "sgn (telecom_dscmp bo (Some a) (Some b)) = - lexcmp (g8275_key bo a) (g8275_key bo b)"
proof (cases "clockClass (ds_quality a) = clockClass (ds_quality b)")
  case True
  define d where "d = memcmp (cid_bytes (ds_identity a)) (cid_bytes (ds_identity b))"
  have d: "d \<in> {-1, 0, 1}" "d = 0 \<longleftrightarrow> ds_identity a = ds_identity b"
    unfolding d_def by (rule lexcmp_range, simp)
  have id: "sgn (if clockClass (ds_quality a) \<le> 127 then dscmp2 bo a b
      else if d = 0 then dscmp2 bo a b else if d < 0 then A_BETTER else B_BETTER) =
    - lexcmp ((if clockClass (ds_quality a) \<le> 127 then replicate 8 0
          else map unat (cid_bytes (ds_identity a))) @ topo_key bo a)
        ((if clockClass (ds_quality b) \<le> 127 then replicate 8 0
          else map unat (cid_bytes (ds_identity b))) @ topo_key bo b)"
    using True d dscmp2_lex [OF assms, of bo] by (auto simp: lexcmp_append d_def [symmetric])
  show ?thesis
    unfolding telecom_dscmp_def g8275_key_def quality_key_def prod.case option.case Let_def
      d_def [symmetric] append.simps append_assoc
    by (intro chain_lex id)
next
  case False
  then have "clockClass (ds_quality a) < clockClass (ds_quality b) \<or>
    clockClass (ds_quality b) < clockClass (ds_quality a)" by auto
  then show ?thesis
    unfolding telecom_dscmp_def g8275_key_def quality_key_def prod.case option.case append.simps
    by (auto simp: word_less_nat_alt split del: if_split)
qed

subsection \<open>The interface of a data set comparison\<close>

text \<open>
  The clock and its ports call the comparison through a function pointer.  What they rely on:
  the comparison is sign symmetric, a present data set beats an absent one, and on admissible
  data sets the sign of the result is the order of a ranking of fixed length.
  \<open>select_best\<close> is the loop both callers run: keep the current best unless the next
  candidate is strictly better.
\<close>

fun select_best :: "('a \<Rightarrow> 'a \<Rightarrow> bool) \<Rightarrow> 'a option \<Rightarrow> 'a list \<Rightarrow> 'a option" where
  "select_best better best [] = best"
| "select_best better best (x # xs) =
     select_best better
       (case best of None \<Rightarrow> Some x | Some b \<Rightarrow> if better x b then Some x else Some b) xs"

lemma select_best_None_iff: "select_best better best xs = None \<longleftrightarrow> best = None \<and> xs = []"
  by (induction xs arbitrary: best) (auto split: option.splits)

lemma select_best_mem: "select_best better best xs = Some r \<Longrightarrow> best = Some r \<or> r \<in> set xs"
  by (induction xs arbitrary: best) (fastforce split: option.splits if_splits)+

locale dataset_comparison =
  fixes cmp :: "dataset option \<Rightarrow> dataset option \<Rightarrow> int"
    and adm :: "dataset \<Rightarrow> dataset \<Rightarrow> bool"
    and key :: "dataset \<Rightarrow> nat list"
  assumes antisym: "cmp y x = - cmp x y"
    and some_beats_none: "cmp (Some a) None > 0"
    and rank: "adm a b \<Longrightarrow> sgn (cmp (Some a) (Some b)) = - lexcmp (key a) (key b)"
    and key_length: "length (key a) = length (key b)"
begin

lemma cmp_pos_iff: "adm a b \<Longrightarrow> cmp (Some a) (Some b) > 0 \<longleftrightarrow> lexcmp (key a) (key b) < 0"
  by (metis neg_0_less_iff_less rank sgn_greater)

lemma not_better_trans:
  assumes "adm a b" and "adm b c" and "adm a c"
    and "\<not> cmp (Some a) (Some b) > 0" and "\<not> cmp (Some b) (Some c) > 0"
  shows "\<not> cmp (Some a) (Some c) > 0"
proof -
  have "lexcmp (key c) (key b) \<le> 0" "lexcmp (key b) (key a) \<le> 0"
    using assms by (auto simp: cmp_pos_iff lexcmp_antisym [of "key c" "key b"]
        lexcmp_antisym [of "key b" "key a"])
  then have "lexcmp (key c) (key a) \<le> 0"
    using lexcmp_trans key_length by blast
  then show ?thesis
    using assms(3) by (simp add: cmp_pos_iff lexcmp_antisym [of "key c" "key a"])
qed

lemma better_trans:
  assumes "adm a b" and "adm b c" and "adm a c" and "adm c a" and "adm b a"
    and "cmp (Some a) (Some b) > 0" and "cmp (Some b) (Some c) > 0"
  shows "cmp (Some a) (Some c) > 0"
proof (rule ccontr)
  assume "\<not> cmp (Some a) (Some c) > 0"
  moreover have "\<not> cmp (Some c) (Some b) > 0"
    using assms(7) antisym [of "Some b" "Some c"] by linarith
  moreover have "adm c b \<or> True" by simp
  ultimately have "lexcmp (key c) (key a) \<le> 0" "lexcmp (key b) (key c) < 0"
    using assms by (auto simp: cmp_pos_iff lexcmp_antisym [of "key c" "key a"])
  then have "lexcmp (key b) (key a) \<le> 0"
    using lexcmp_trans [of "key b" "key c" "key a"] key_length by simp
  then show False
    using assms(1,6) by (simp add: cmp_pos_iff lexcmp_antisym [of "key b" "key a"])
qed

text \<open>No candidate of the loop beats the one it returns.\<close>

lemma select_best_max:
  assumes "\<forall>a \<in> D. \<forall>b \<in> D. adm a b" and "set (map f xs) \<subseteq> D"
    and "\<forall>b. best = Some b \<longrightarrow> f b \<in> D"
    and "select_best (\<lambda>x b. cmp (Some (f x)) (Some (f b)) > 0) best xs = Some r"
  shows "(\<forall>x \<in> set xs. \<not> cmp (Some (f x)) (Some (f r)) > 0) \<and>
    (\<forall>b. best = Some b \<longrightarrow> \<not> cmp (Some (f b)) (Some (f r)) > 0) \<and> f r \<in> D"
  using assms(2-)
proof (induction xs arbitrary: best)
  case Nil
  have "cmp (Some (f r)) (Some (f r)) = 0"
    using antisym [of "Some (f r)" "Some (f r)"] by simp
  with Nil show ?case by simp
next
  case (Cons x xs)
  let ?b = "case best of None \<Rightarrow> x | Some b \<Rightarrow>
      if cmp (Some (f x)) (Some (f b)) > 0 then x else b"
  have step: "select_best (\<lambda>x b. cmp (Some (f x)) (Some (f b)) > 0) (Some ?b) xs = Some r"
    using Cons.prems(3) by (auto split: option.splits)
  have inD: "f ?b \<in> D" "f x \<in> D" "set (map f xs) \<subseteq> D"
    using Cons.prems by (auto split: option.splits)
  with step have IH: "\<forall>x \<in> set xs. \<not> cmp (Some (f x)) (Some (f r)) > 0"
    "\<not> cmp (Some (f ?b)) (Some (f r)) > 0" "f r \<in> D"
    using Cons.IH [of "Some ?b"] by auto
  have refl: "cmp (Some d) (Some d) = 0" for d
    using antisym [of "Some d" "Some d"] by simp
  have x: "\<not> cmp (Some (f x)) (Some (f ?b)) > 0"
    using refl antisym [of "Some (f x)"] by (auto split: option.splits)
  have b: "\<not> cmp (Some (f b)) (Some (f ?b)) > 0" if "best = Some b" for b
    using that refl antisym [of "Some (f b)" "Some (f x)"] by auto
  show ?case
  proof (intro conjI ballI allI impI)
    fix y assume "y \<in> set (x # xs)"
    then show "\<not> cmp (Some (f y)) (Some (f r)) > 0"
      using IH x inD assms(1) not_better_trans [of "f x" "f ?b" "f r"] by auto
  next
    fix b assume "best = Some b"
    then show "\<not> cmp (Some (f b)) (Some (f r)) > 0"
      using IH b inD assms(1) Cons.prems(2) not_better_trans [of "f b" "f ?b" "f r"] by auto
  qed (rule IH(3))
qed

end

definition admissible_1588 :: "dataset \<Rightarrow> dataset \<Rightarrow> bool" where
  "admissible_1588 a b \<longleftrightarrow> no_error1 a \<and> no_error1 b \<and> same_gm a b"

definition admissible_g8275 :: "dataset \<Rightarrow> dataset \<Rightarrow> bool" where
  "admissible_g8275 a b \<longleftrightarrow> no_error1 a \<and> no_error1 b"

interpretation ieee1588: dataset_comparison "dscmp bo" admissible_1588 "ieee1588_key bo" for bo
  by unfold_locales (rule dscmp_antisym, simp add: dscmp_def,
      simp add: admissible_1588_def dscmp_lex, simp)

interpretation g8275: dataset_comparison "telecom_dscmp bo" admissible_g8275 "g8275_key bo" for bo
  by unfold_locales (rule telecom_dscmp_antisym, simp add: telecom_dscmp_def,
      simp add: admissible_g8275_def telecom_dscmp_lex, simp)

subsection \<open>State decision\<close>

text \<open>
  \<open>bmc_state_decision\<close> reads the clock's own data set, its best foreign data set and the
  port that received it, and the port's best foreign data set and state.
\<close>

definition bmc_state_decision ::
  "u8 \<Rightarrow> dataset \<Rightarrow> dataset option \<Rightarrow> bool \<Rightarrow> dataset option \<Rightarrow> port_state \<Rightarrow>
   (dataset option \<Rightarrow> dataset option \<Rightarrow> int) \<Rightarrow> port_state" where
  "bmc_state_decision clock_class clock_ds clock_best is_best_port port_best ps compare =
    (if port_best = None \<and> ps = PS_LISTENING then ps
     else if clock_class \<le> 127 then
       (if compare (Some clock_ds) port_best > 0 then PS_GRAND_MASTER else PS_PASSIVE)
     else if compare (Some clock_ds) clock_best > 0 then PS_GRAND_MASTER
     else if is_best_port then PS_SLAVE
     else if compare clock_best port_best = A_BETTER_TOPO then PS_PASSIVE
     else PS_MASTER)"

lemma bmc_slave_iff:
  "ps \<noteq> PS_SLAVE \<Longrightarrow>
   bmc_state_decision cc ds cb isb pb ps compare = PS_SLAVE \<longleftrightarrow>
   \<not> cc \<le> 127 \<and> isb \<and> \<not> compare (Some ds) cb > 0 \<and> (pb = None \<longrightarrow> ps \<noteq> PS_LISTENING)"
  by (auto simp: bmc_state_decision_def)

subsection \<open>Properties\<close>

text \<open>
  C27: The IEEE 1588 data set comparison, with its eleven branches, ranks data sets by the
  lexicographic order of priority1, class, accuracy, variance, priority2, identity, steps
  removed, sender and receiving port.  It holds of data sets that name the same grandmaster
  with the same attributes, and that were not received by their own sender.
\<close>

theorem dscmp_is_lexicographic:
  assumes "no_error1 a" and "no_error1 b" and "same_gm a b"
  shows "sgn (dscmp bo (Some a) (Some b)) = - lexcmp (ieee1588_key bo a) (ieee1588_key bo b)"
  using assms by (intro ieee1588.rank) (simp add: admissible_1588_def)

text \<open>
  The comparison of the G.8275 telecom profile ranks data sets by class, accuracy,
  variance, priority2 and local priority, then by identity unless the class is at most 127,
  then by topology.
\<close>

theorem telecom_dscmp_is_lexicographic:
  assumes "no_error1 a" and "no_error1 b"
  shows "sgn (telecom_dscmp bo (Some a) (Some b)) = - lexcmp (g8275_key bo a) (g8275_key bo b)"
  using assms by (intro g8275.rank) (simp add: admissible_g8275_def)

definition advertises :: "dataset \<Rightarrow> dataset \<Rightarrow> bool" where
  "advertises a a' \<longleftrightarrow> ds_priority1 a' = ds_priority1 a \<and> ds_identity a' = ds_identity a \<and>
     ds_quality a' = ds_quality a \<and> ds_priority2 a' = ds_priority2 a"

lemma dscmp_advertises:
  assumes "advertises a a'" and "advertises b b'" and "ds_identity a \<noteq> ds_identity b"
  shows "dscmp bo (Some a) (Some b') = dscmp bo (Some a') (Some b)"
  using assms by (auto simp: dscmp_def advertises_def)

lemma dscmp_nonzero:
  "ds_identity a \<noteq> ds_identity b \<Longrightarrow> dscmp bo (Some a) (Some b) \<noteq> 0"
  using lexcmp_eq_0_iff [of "cid_bytes (ds_identity a)" "cid_bytes (ds_identity b)"]
  by (auto simp: dscmp_def Let_def)

text \<open>What becomes of the worse of two clocks: a slave, or passive if its class forbids it to be one.\<close>

definition beaten :: "u8 \<Rightarrow> port_state" where
  "beaten clock_class = (if clock_class \<le> 127 then PS_PASSIVE else PS_SLAVE)"

text \<open>
  C28: Two clocks that hear only each other elect exactly one master, whatever their classes are: one
  decides GRAND_MASTER, and the other SLAVE when its class is above 127 and PASSIVE otherwise.  \<open>a\<close> and
  \<open>b\<close> are the clocks' own data sets, with different identities, \<open>a'\<close> and \<open>b'\<close> the same as received by
  the other one.
\<close>

theorem two_clocks_elect_one:
  fixes bo class_a a b' ps class_b b a' ps'
  assumes "ds_identity a \<noteq> ds_identity b" and "advertises a a'" and "advertises b b'"
  defines "decision_a \<equiv> bmc_state_decision class_a a (Some b') True (Some b') ps (dscmp bo)"
    and "decision_b \<equiv> bmc_state_decision class_b b (Some a') True (Some a') ps' (dscmp bo)"
  shows "decision_a = PS_GRAND_MASTER \<and> decision_b = beaten class_b \<or>
    decision_b = PS_GRAND_MASTER \<and> decision_a = beaten class_a"
proof -
  have ab: "dscmp bo (Some a) (Some b') = - dscmp bo (Some b) (Some a')"
    using dscmp_advertises [OF assms(2,3,1), of bo] dscmp_antisym [of bo "Some a'" "Some b"] by simp
  have "ds_identity a \<noteq> ds_identity b'" using assms(1,3) by (simp add: advertises_def)
  then have "dscmp bo (Some a) (Some b') \<noteq> 0" by (rule dscmp_nonzero)
  with ab show ?thesis
    by (cases "dscmp bo (Some a) (Some b') > 0") (auto simp: assms(4,5) bmc_state_decision_def beaten_def)
qed

definition sample_ds :: "u8 \<Rightarrow> u8 \<Rightarrow> dataset" where
  "sample_ds p n = (let i = CID 0 0 0 0xff 0xfe 0 0 n in
     \<lparr>ds_priority1 = p, ds_identity = i, ds_quality = \<lparr>clockClass = 248, clockAccuracy = 0xfe,
        offsetScaledLogVariance = 0xffff\<rparr>, ds_priority2 = 128, ds_localPriority = 128,
      ds_stepsRemoved = 0, ds_sender = \<lparr>clockIdentity = i, portNumber = 1\<rparr>,
      ds_receiver = \<lparr>clockIdentity = i, portNumber = 0\<rparr>\<rparr>)"

theorem dscmp_is_lexicographic_witness:
  "sgn (dscmp LittleEndian (Some (sample_ds 127 1)) (Some (sample_ds 128 2))) =
   - lexcmp (ieee1588_key LittleEndian (sample_ds 127 1)) (ieee1588_key LittleEndian (sample_ds 128 2))"
  by (rule dscmp_is_lexicographic) (simp_all add: no_error1_def same_gm_def sample_ds_def Let_def)

theorem telecom_dscmp_is_lexicographic_witness:
  "sgn (telecom_dscmp LittleEndian (Some (sample_ds 127 1)) (Some (sample_ds 128 2))) =
   - lexcmp (g8275_key LittleEndian (sample_ds 127 1)) (g8275_key LittleEndian (sample_ds 128 2))"
  by (rule telecom_dscmp_is_lexicographic) (simp_all add: no_error1_def sample_ds_def Let_def)

theorem two_clocks_elect_one_witness:
  "bmc_state_decision 248 (sample_ds 128 2) (Some (sample_ds 127 1)) True (Some (sample_ds 127 1))
      PS_LISTENING (dscmp BigEndian) \<in> {PS_GRAND_MASTER, PS_SLAVE}"
  using two_clocks_elect_one [of "sample_ds 127 1" "sample_ds 128 2" "sample_ds 127 1" "sample_ds 128 2" 6
      PS_LISTENING BigEndian 248 PS_LISTENING]
  by (auto simp: advertises_def sample_ds_def Let_def beaten_def)

end
