(* ===== verification/Foreign.thy ===== *)
theory Foreign
  imports Message Bmc "HOL-Library.Multiset"
begin

text \<open>
  The foreign master table of a port (src/foreign.h and the functions on it of src/port.c).

  \<open>p->foreign_masters\<close> is a list of \<open>foreign_clock\<close>s; each has the queue of the announce
  messages retained from one master (head first) and their number.  Operations return the
  references they take and drop.  A pointer to an entry of the table is represented by the
  entry's sender, which identifies it: \<open>table_wf\<close> says that senders are distinct.
\<close>

abbreviation (input) FOREIGN_MASTER_THRESHOLD :: nat where "FOREIGN_MASTER_THRESHOLD \<equiv> 2"

record foreign_clock =
  fc_messages :: "ptp_message list"
  fc_n_messages :: nat
  fc_dataset :: dataset

abbreviation fc_sender :: "foreign_clock \<Rightarrow> PortIdentity" where
  "fc_sender fc \<equiv> ds_sender (fc_dataset fc)"

subsection \<open>Announce messages\<close>

text \<open>
  \<open>announce_compare\<close> runs \<open>memcmp\<close> over the sixteen octets from grandmasterPriority1 to
  stepsRemoved, in host byte order.
\<close>

definition announce_bytes :: "byte_order \<Rightarrow> ptp_message \<Rightarrow> u8 list" where
  "announce_bytes bo m =
     [grandmasterPriority1 m, clockClass (grandmasterClockQuality m),
      clockAccuracy (grandmasterClockQuality m)] @
     u16_bytes bo (offsetScaledLogVariance (grandmasterClockQuality m)) @
     [grandmasterPriority2 m] @ cid_bytes (grandmasterIdentity m) @ u16_bytes bo (stepsRemoved m)"

definition announce_compare :: "byte_order \<Rightarrow> ptp_message \<Rightarrow> ptp_message \<Rightarrow> int" where
  "announce_compare bo m1 m2 = memcmp (announce_bytes bo m1) (announce_bytes bo m2)"

lemma length_announce_bytes [simp]: "length (announce_bytes bo m) = 16"
  by (simp add: announce_bytes_def)

lemma announce_compare_0_iff [simp]:
  "announce_compare bo m1 m2 = 0 \<longleftrightarrow> announce_bytes bo m1 = announce_bytes bo m2"
  by (simp add: announce_compare_def)

definition announce_to_dataset :: "ptp_message \<Rightarrow> u8 \<Rightarrow> PortIdentity \<Rightarrow> dataset" where
  "announce_to_dataset m localPriority portIdentity =
     \<lparr>ds_priority1 = grandmasterPriority1 m, ds_identity = grandmasterIdentity m,
      ds_quality = grandmasterClockQuality m, ds_priority2 = grandmasterPriority2 m,
      ds_localPriority = localPriority, ds_stepsRemoved = stepsRemoved m,
      ds_sender = source_pid m, ds_receiver = portIdentity\<rparr>"

text \<open>
  The interval of a message is a signed octet from the network.  \<open>1 << n\<close> is a shift of a 32 bit
  \<open>int\<close>, defined by the language for \<open>n\<close> up to 30 only; beyond, \<open>shl1\<close> is what the machine's
  32 bit shift instruction computes (the count taken modulo 32), the result being signed.
\<close>

definition shl1 :: "nat \<Rightarrow> int" where
  "shl1 n = sint (push_bit (n mod 32) (1 :: i32))"

definition timespec_ns :: "timespec \<Rightarrow> i64" where
  "timespec_ns t = tv_sec t * 1000000000 + tv_nsec t"

definition announce_tmo :: "i8 \<Rightarrow> i64" where
  "announce_tmo interval =
    (let i = sint interval in
     if i < -63 then 0
     else if i > 31 then word_of_int (2 ^ 63 - 1)
     else if i < 0 then word_of_int (4 * 1000000000 sdiv shl1 (nat (- i)))
     else word_of_int (4 * shl1 (nat i)) * 1000000000)"

definition msg_current :: "ptp_message \<Rightarrow> timespec \<Rightarrow> bool" where
  "msg_current m now \<longleftrightarrow>
     sint (timespec_ns now - timespec_ns (ts_host m)) <
     sint (announce_tmo (logMessageInterval (header m)))"

definition msg_source_equal :: "byte_order \<Rightarrow> ptp_message \<Rightarrow> foreign_clock \<Rightarrow> bool" where
  "msg_source_equal bo m fc \<longleftrightarrow>
     0 = memcmp (pid_bytes bo (source_pid m)) (pid_bytes bo (fc_sender fc))"

lemma msg_source_equal_iff [simp]: "msg_source_equal bo m fc \<longleftrightarrow> source_pid m = fc_sender fc"
  by (simp add: msg_source_equal_def eq_commute [of 0])

subsection \<open>Queues\<close>

text \<open>\<open>TAILQ_LAST\<close>, \<open>TAILQ_REMOVE\<close>, the decrement and \<open>msg_put\<close>: the body of three loops.\<close>

definition fc_remove_last :: "foreign_clock \<Rightarrow> foreign_clock \<times> ref_op list" where
  "fc_remove_last fc =
     (fc\<lparr>fc_messages := butlast (fc_messages fc), fc_n_messages := fc_n_messages fc - 1\<rparr>,
      [MsgPut (m_ptr (last (fc_messages fc)))])"

primrec fc_remove_n :: "nat \<Rightarrow> foreign_clock \<Rightarrow> foreign_clock \<times> ref_op list" where
  "fc_remove_n 0 fc = (fc, [])"
| "fc_remove_n (Suc n) fc =
     (let (fc1, r1) = fc_remove_last fc; (fc2, r2) = fc_remove_n n fc1 in (fc2, r1 @ r2))"

definition fc_clear :: "foreign_clock \<Rightarrow> foreign_clock \<times> ref_op list" where
  "fc_clear fc = fc_remove_n (fc_n_messages fc) fc"

function fc_expire :: "timespec \<Rightarrow> foreign_clock \<Rightarrow> foreign_clock \<times> ref_op list" where
  "fc_expire now fc =
    (if fc_messages fc = [] then (fc, [])
     else if msg_current (last (fc_messages fc)) now then (fc, [])
     else let (fc1, r1) = fc_remove_last fc; (fc2, r2) = fc_expire now fc1 in (fc2, r1 @ r2))"
  by pat_completeness auto
termination
  by (relation "measure (\<lambda>(_, fc). length (fc_messages fc))") (auto simp: fc_remove_last_def)

declare fc_expire.simps [simp del]

text \<open>The first loop runs while the counter exceeds the threshold, the second while the oldest
  message has expired.\<close>

definition fc_prune :: "timespec \<Rightarrow> foreign_clock \<Rightarrow> foreign_clock \<times> ref_op list" where
  "fc_prune now fc =
    (let (fc1, r1) = fc_remove_n (fc_n_messages fc - FOREIGN_MASTER_THRESHOLD) fc;
         (fc2, r2) = fc_expire now fc1
     in (fc2, r1 @ r2))"

text \<open>\<open>msg_get\<close>, the increment and \<open>TAILQ_INSERT_HEAD\<close>.\<close>

definition fc_insert :: "ptp_message \<Rightarrow> foreign_clock \<Rightarrow> foreign_clock \<times> ref_op list" where
  "fc_insert m fc =
     (fc\<lparr>fc_messages := m # fc_messages fc, fc_n_messages := fc_n_messages fc + 1\<rparr>,
      [MsgGet (m_ptr m)])"

text \<open>Whether the message at the head differs from the one before it.\<close>

definition fc_changed :: "byte_order \<Rightarrow> foreign_clock \<Rightarrow> bool" where
  "fc_changed bo fc \<longleftrightarrow> fc_n_messages fc > 1 \<and>
     announce_compare bo (fc_messages fc ! 0) (fc_messages fc ! 1) \<noteq> 0"

subsection \<open>The table\<close>

definition new_foreign_clock :: "PortIdentity \<Rightarrow> foreign_clock" where
  "new_foreign_clock sender =
     \<lparr>fc_messages = [], fc_n_messages = 0,
      fc_dataset = \<lparr>ds_priority1 = 0, ds_identity = CID 0 0 0 0 0 0 0 0,
        ds_quality = \<lparr>clockClass = 0, clockAccuracy = 0, offsetScaledLogVariance = 0\<rparr>,
        ds_priority2 = 0, ds_localPriority = 0, ds_stepsRemoved = 0, ds_sender = sender,
        ds_receiver = zero_pid\<rparr>\<rparr>"

definition add_foreign_master ::
  "byte_order \<Rightarrow> bool \<Rightarrow> timespec \<Rightarrow> ptp_message \<Rightarrow> foreign_clock list \<Rightarrow>
   foreign_clock list \<times> bool \<times> ref_op list" where
  "add_foreign_master bo mem now m fms =
    (case find (msg_source_equal bo m) fms of
       None \<Rightarrow>
         if \<not> mem then (fms, False, [])
         else (new_foreign_clock (source_pid m) # fms, False, [])
     | Some fc \<Rightarrow>
         let (fc1, r1) = fc_prune now fc;
             broke_threshold = (FOREIGN_MASTER_THRESHOLD - 1 = fc_n_messages fc1);
             (fc2, r2) = fc_insert m fc1;
             diff = fc_changed bo fc2
         in (update_first (msg_source_equal bo m) (\<lambda>_. fc2) fms, broke_threshold \<or> diff, r1 @ r2))"

text \<open>
  What \<open>update_current_master\<close> does to the queue of the current master \<open>fc\<close>, given that the
  message is from it; whether the message differs from the one before.
\<close>

definition update_best_messages ::
  "byte_order \<Rightarrow> timespec \<Rightarrow> ptp_message \<Rightarrow> foreign_clock list \<Rightarrow>
   foreign_clock list \<times> bool \<times> ref_op list" where
  "update_best_messages bo now m fms =
    (case find (msg_source_equal bo m) fms of
       None \<Rightarrow> (fms, False, [])
     | Some fc \<Rightarrow>
         let (fc1, r1) = fc_prune now fc;
             (fc2, r2) = fc_insert m fc1
         in (update_first (msg_source_equal bo m) (\<lambda>_. fc2) fms, fc_changed bo fc2, r1 @ r2))"

text \<open>\<open>fc_clear\<close> on an entry of the table.\<close>

definition clear_entry :: "PortIdentity \<Rightarrow> foreign_clock list \<Rightarrow> foreign_clock list \<times> ref_op list" where
  "clear_entry sender fms =
    (case find (\<lambda>fc. fc_sender fc = sender) fms of
       None \<Rightarrow> (fms, [])
     | Some fc \<Rightarrow> (update_first (\<lambda>fc. fc_sender fc = sender) (\<lambda>_. fst (fc_clear fc)) fms,
         snd (fc_clear fc)))"

fun free_foreign_masters :: "foreign_clock list \<Rightarrow> ref_op list" where
  "free_foreign_masters [] = []"
| "free_foreign_masters (fc # fcs) = snd (fc_clear fc) @ free_foreign_masters fcs"

text \<open>
  The loop of \<open>port_compute_best\<close>.  \<open>best\<close> is the entry that \<open>p->best\<close> points to; it is not
  changed after it became the best, so its value is the entry itself.
\<close>

fun compute_best_loop ::
  "(dataset option \<Rightarrow> dataset option \<Rightarrow> int) \<Rightarrow> timespec \<Rightarrow> u8 \<Rightarrow> PortIdentity \<Rightarrow>
   foreign_clock option \<Rightarrow> foreign_clock list \<Rightarrow>
   foreign_clock option \<times> foreign_clock list \<times> ref_op list" where
  "compute_best_loop cmp now lp pid best [] = (best, [], [])"
| "compute_best_loop cmp now lp pid best (fc # fcs) =
    (case fc_messages fc of
       [] \<Rightarrow> (let (b, fcs', r) = compute_best_loop cmp now lp pid best fcs in (b, fc # fcs', r))
     | tmp # _ \<Rightarrow>
        let fc1 = fc\<lparr>fc_dataset := announce_to_dataset tmp lp pid\<rparr>;
            (fc2, r2) = fc_prune now fc1;
            (best', fc3, r3) =
              (if fc_n_messages fc2 < FOREIGN_MASTER_THRESHOLD then (best, fc2, [])
               else case best of
                 None \<Rightarrow> (Some fc2, fc2, [])
               | Some b \<Rightarrow>
                   if cmp (Some (fc_dataset fc2)) (Some (fc_dataset b)) > 0
                   then (Some fc2, fc2, [])
                   else (best, fc_clear fc2));
            (b, fcs', r) = compute_best_loop cmp now lp pid best' fcs
        in (b, fc3 # fcs', r2 @ r3 @ r))"

definition port_compute_best ::
  "(dataset option \<Rightarrow> dataset option \<Rightarrow> int) \<Rightarrow> bool \<Rightarrow> timespec \<Rightarrow> u8 \<Rightarrow> PortIdentity \<Rightarrow>
   foreign_clock list \<Rightarrow> foreign_clock option \<times> foreign_clock list \<times> ref_op list" where
  "port_compute_best cmp master_only now lp pid fms =
    (if master_only then (None, fms, []) else compute_best_loop cmp now lp pid None fms)"

subsection \<open>Well-formed tables\<close>

definition fc_wf :: "foreign_clock \<Rightarrow> bool" where
  "fc_wf fc \<longleftrightarrow> fc_n_messages fc = length (fc_messages fc) \<and>
     length (fc_messages fc) \<le> FOREIGN_MASTER_THRESHOLD + 1 \<and>
     (\<forall>m \<in> set (fc_messages fc). source_pid m = fc_sender fc)"

definition table_wf :: "foreign_clock list \<Rightarrow> bool" where
  "table_wf fms \<longleftrightarrow> list_all fc_wf fms \<and> distinct (map fc_sender fms)"

definition fc_held :: "foreign_clock \<Rightarrow> nat multiset" where
  "fc_held fc = mset (map m_ptr (fc_messages fc))"

definition table_held :: "foreign_clock list \<Rightarrow> nat multiset" where
  "table_held fms = sum_list (map fc_held fms)"

text \<open>The books of the references: what is held plus what is dropped.\<close>

definition keeps_books :: "nat multiset \<Rightarrow> ref_op list \<Rightarrow> nat multiset \<Rightarrow> bool" where
  "keeps_books before ops after \<longleftrightarrow> before + mset (gets ops) = after + mset (puts ops)"

lemma keeps_books_Nil [simp]: "keeps_books a [] b \<longleftrightarrow> a = b"
  by (simp add: keeps_books_def)

lemma keeps_books_append:
  "keeps_books a xs b \<Longrightarrow> keeps_books b ys c \<Longrightarrow> keeps_books a (xs @ ys) c"
  unfolding keeps_books_def by simp (metis add.assoc add.commute)

lemma keeps_books_frame: "keeps_books a xs b \<Longrightarrow> keeps_books (a + c) xs (b + c)"
  unfolding keeps_books_def by (metis add.assoc add.commute)

lemma keeps_books_frame': "keeps_books a xs b \<Longrightarrow> keeps_books (c + a) xs (c + b)"
  unfolding keeps_books_def by (metis add.assoc)

lemma fc_remove_last_books:
  assumes "fc_messages fc \<noteq> []"
  shows "keeps_books (fc_held fc) (snd (fc_remove_last fc)) (fc_held (fst (fc_remove_last fc)))"
proof -
  have "mset (map m_ptr (fc_messages fc)) =
      mset (map m_ptr (butlast (fc_messages fc))) + {#m_ptr (last (fc_messages fc))#}"
    by (subst append_butlast_last_id [OF assms, symmetric]) (simp only: map_append mset_append, simp)
  then show ?thesis by (simp add: keeps_books_def fc_remove_last_def fc_held_def)
qed

lemma fc_remove_n_spec:
  "n \<le> length (fc_messages fc) \<Longrightarrow>
   fc_messages (fst (fc_remove_n n fc)) = take (length (fc_messages fc) - n) (fc_messages fc) \<and>
   fc_n_messages (fst (fc_remove_n n fc)) = fc_n_messages fc - n \<and>
   fc_dataset (fst (fc_remove_n n fc)) = fc_dataset fc \<and>
   keeps_books (fc_held fc) (snd (fc_remove_n n fc)) (fc_held (fst (fc_remove_n n fc)))"
proof (induction n arbitrary: fc)
  case (Suc n)
  let ?fc = "fst (fc_remove_last fc)"
  have ne: "fc_messages fc \<noteq> []" using Suc.prems by auto
  have rem: "fc_messages ?fc = butlast (fc_messages fc)" "fc_dataset ?fc = fc_dataset fc"
    "fc_n_messages ?fc = fc_n_messages fc - 1"
    by (simp_all add: fc_remove_last_def)
  have "n \<le> length (fc_messages ?fc)" using Suc.prems by (simp add: rem)
  note IH = Suc.IH [OF this]
  have eq: "fc_remove_n (Suc n) fc =
      (fst (fc_remove_n n ?fc), snd (fc_remove_last fc) @ snd (fc_remove_n n ?fc))"
    by (simp add: Let_def split_beta)
  have "keeps_books (fc_held fc) (snd (fc_remove_n (Suc n) fc)) (fc_held (fst (fc_remove_n (Suc n) fc)))"
    unfolding eq fst_conv snd_conv
    using IH by (intro keeps_books_append [OF fc_remove_last_books [OF ne]]) simp
  then show ?case using IH by (simp add: eq rem butlast_conv_take del: fc_remove_n.simps)
qed simp

lemmas fc_remove_n = fc_remove_n_spec [THEN conjunct1]
  fc_remove_n_spec [THEN conjunct2, THEN conjunct1]
  fc_remove_n_spec [THEN conjunct2, THEN conjunct2, THEN conjunct1]
  fc_remove_n_spec [THEN conjunct2, THEN conjunct2, THEN conjunct2]

lemma fc_expire_spec:
  "fc_messages (fst (fc_expire now fc)) =
     pop_last_while (\<lambda>m. \<not> msg_current m now) (fc_messages fc) \<and>
   (fc_n_messages fc = length (fc_messages fc) \<longrightarrow>
     fc_n_messages (fst (fc_expire now fc)) = length (fc_messages (fst (fc_expire now fc)))) \<and>
   fc_dataset (fst (fc_expire now fc)) = fc_dataset fc \<and>
   keeps_books (fc_held fc) (snd (fc_expire now fc)) (fc_held (fst (fc_expire now fc)))"
proof (induction "length (fc_messages fc)" arbitrary: fc)
  case 0
  then show ?case by (simp add: fc_expire.simps)
next
  case (Suc n)
  let ?fc = "fst (fc_remove_last fc)"
  have ne: "fc_messages fc \<noteq> []" using Suc.hyps(2) by auto
  have rem: "fc_messages ?fc = butlast (fc_messages fc)" "fc_dataset ?fc = fc_dataset fc"
    "fc_n_messages ?fc = fc_n_messages fc - 1"
    by (simp_all add: fc_remove_last_def)
  show ?case
  proof (cases "msg_current (last (fc_messages fc)) now")
    case True
    with ne have "fc_expire now fc = (fc, [])" by (subst fc_expire.simps) simp
    with ne True show ?thesis by (simp add: pop_last_while.simps)
  next
    case False
    with ne have eq: "fc_expire now fc =
        (fst (fc_expire now ?fc), snd (fc_remove_last fc) @ snd (fc_expire now ?fc))"
      by (subst fc_expire.simps) (simp add: Let_def split_beta)
    have "n = length (fc_messages ?fc)" using Suc.hyps(2) by (simp add: rem)
    note IH = Suc.hyps(1) [OF this]
    have pop: "pop_last_while (\<lambda>m. \<not> msg_current m now) (fc_messages fc) =
        pop_last_while (\<lambda>m. \<not> msg_current m now) (butlast (fc_messages fc))"
      using ne False by (subst pop_last_while.simps) simp
    have books: "keeps_books (fc_held fc) (snd (fc_remove_last fc) @ snd (fc_expire now ?fc))
        (fc_held (fst (fc_expire now ?fc)))"
      using IH by (intro keeps_books_append [OF fc_remove_last_books [OF ne]]) simp
    show ?thesis using IH books by (simp add: eq rem pop)
  qed
qed

lemma fc_prune_spec:
  assumes "fc_wf fc"
  shows "fc_messages (fst (fc_prune now fc)) = pop_last_while (\<lambda>m. \<not> msg_current m now)
      (take FOREIGN_MASTER_THRESHOLD (fc_messages fc))"
    and "fc_n_messages (fst (fc_prune now fc)) = length (fc_messages (fst (fc_prune now fc)))"
    and "fc_dataset (fst (fc_prune now fc)) = fc_dataset fc"
    and "keeps_books (fc_held fc) (snd (fc_prune now fc)) (fc_held (fst (fc_prune now fc)))"
proof -
  let ?n = "fc_n_messages fc - FOREIGN_MASTER_THRESHOLD"
  let ?fc = "fst (fc_remove_n ?n fc)"
  have n: "fc_n_messages fc = length (fc_messages fc)" using assms by (simp add: fc_wf_def)
  then have le: "?n \<le> length (fc_messages fc)" by simp
  have m: "fc_messages ?fc = take FOREIGN_MASTER_THRESHOLD (fc_messages fc)"
    using fc_remove_n(1) [OF le] n by (cases "length (fc_messages fc) \<le> 2") simp_all
  have k: "fc_n_messages ?fc = length (fc_messages ?fc)"
    unfolding m fc_remove_n(2) [OF le] by (simp add: n min_def)
  have eq: "fc_prune now fc =
      (fst (fc_expire now ?fc), snd (fc_remove_n ?n fc) @ snd (fc_expire now ?fc))"
    by (simp add: fc_prune_def Let_def split_beta)
  note e = fc_expire_spec [of now ?fc]
  show "fc_messages (fst (fc_prune now fc)) = pop_last_while (\<lambda>m. \<not> msg_current m now)
      (take FOREIGN_MASTER_THRESHOLD (fc_messages fc))"
    using e by (simp only: eq m fst_conv)
  show "fc_n_messages (fst (fc_prune now fc)) = length (fc_messages (fst (fc_prune now fc)))"
    using e k by (simp only: eq fst_conv)
  show "fc_dataset (fst (fc_prune now fc)) = fc_dataset fc"
    using e fc_remove_n(3) [OF le] by (simp only: eq fst_conv)
  show "keeps_books (fc_held fc) (snd (fc_prune now fc)) (fc_held (fst (fc_prune now fc)))"
    using e keeps_books_append [OF fc_remove_n(4) [OF le]] by (simp only: eq fst_conv snd_conv)
qed

lemma fc_clear_spec:
  assumes "fc_wf fc"
  shows "fst (fc_clear fc) = fc\<lparr>fc_messages := [], fc_n_messages := 0\<rparr>"
    and "keeps_books (fc_held fc) (snd (fc_clear fc)) (fc_held (fst (fc_clear fc)))"
proof -
  have n: "fc_n_messages fc = length (fc_messages fc)" using assms by (simp add: fc_wf_def)
  then have le: "fc_n_messages fc \<le> length (fc_messages fc)" by simp
  show "fst (fc_clear fc) = fc\<lparr>fc_messages := [], fc_n_messages := 0\<rparr>"
    using fc_remove_n(1,2,3) [OF le] n by (intro foreign_clock.equality) (simp_all add: fc_clear_def)
  show "keeps_books (fc_held fc) (snd (fc_clear fc)) (fc_held (fst (fc_clear fc)))"
    using fc_remove_n(4) [OF le] by (simp add: fc_clear_def)
qed

subsection \<open>Operations keep the table well-formed\<close>

lemma fc_wf_new [ptp_wf_intros]: "fc_wf (new_foreign_clock sender)"
  by (simp add: fc_wf_def new_foreign_clock_def)

lemma fc_wf_clear [ptp_wf_intros]: "fc_wf fc \<Longrightarrow> fc_wf (fst (fc_clear fc))"
  by (simp add: fc_clear_spec fc_wf_def)

lemma fc_prune_subset:
  "fc_wf fc \<Longrightarrow> set (fc_messages (fst (fc_prune now fc))) \<subseteq> set (fc_messages fc)"
  using set_pop_last_while [of _ "take FOREIGN_MASTER_THRESHOLD (fc_messages fc)"]
  by (auto simp: fc_prune_spec dest: in_set_takeD)

lemma fc_prune_length:
  "fc_wf fc \<Longrightarrow> length (fc_messages (fst (fc_prune now fc))) \<le> FOREIGN_MASTER_THRESHOLD"
  using length_pop_last_while [of _ "take FOREIGN_MASTER_THRESHOLD (fc_messages fc)"]
  by (auto simp: fc_prune_spec intro: order.trans)

lemma fc_wf_prune [ptp_wf_intros]: "fc_wf fc \<Longrightarrow> fc_wf (fst (fc_prune now fc))"
  using fc_prune_subset [of fc now] fc_prune_length [of fc now]
  by (auto simp: fc_wf_def fc_prune_spec)

lemma fc_wf_insert:
  assumes "fc_wf fc" and "length (fc_messages fc) \<le> FOREIGN_MASTER_THRESHOLD"
    and "source_pid m = fc_sender fc"
  shows "fc_wf (fst (fc_insert m fc))"
  using assms by (simp add: fc_wf_def fc_insert_def)

lemma fc_insert_books: "keeps_books (fc_held fc) (snd (fc_insert m fc)) (fc_held (fst (fc_insert m fc)))"
  by (simp add: keeps_books_def fc_insert_def fc_held_def)

lemma fc_insert_dataset [simp]: "fc_dataset (fst (fc_insert m fc)) = fc_dataset fc"
  by (simp add: fc_insert_def)

text \<open>Pruning and then inserting, as two operations do.\<close>

lemma prune_insert:
  fixes now
  assumes "fc_wf fc" and "source_pid m = fc_sender fc"
  defines "fc2 \<equiv> fst (fc_insert m (fst (fc_prune now fc)))"
  shows "fc_wf fc2" and "fc_dataset fc2 = fc_dataset fc"
    and "keeps_books (fc_held fc) (snd (fc_prune now fc) @ snd (fc_insert m (fst (fc_prune now fc))))
      (fc_held fc2)"
proof -
  show "fc_wf fc2"
    unfolding fc2_def using assms(1,2)
    by (intro fc_wf_insert fc_wf_prune fc_prune_length) (simp_all add: fc_prune_spec)
  show "fc_dataset fc2 = fc_dataset fc"
    using assms(1) by (simp add: fc2_def fc_prune_spec)
  show "keeps_books (fc_held fc) (snd (fc_prune now fc) @ snd (fc_insert m (fst (fc_prune now fc))))
      (fc_held fc2)"
    unfolding fc2_def by (intro keeps_books_append [OF fc_prune_spec(4)] fc_insert_books assms(1))
qed

lemma table_held_simps [simp]:
  "table_held [] = {#}"
  "table_held (fc # fms) = fc_held fc + table_held fms"
  by (simp_all add: table_held_def)

lemma fc_held_new [simp]: "fc_held (new_foreign_clock sender) = {#}"
  by (simp add: fc_held_def new_foreign_clock_def)

lemma table_update_books:
  assumes "find P fms = Some fc" and "keeps_books (fc_held fc) r (fc_held fc2)"
  shows "keeps_books (table_held fms) r (table_held (update_first P (\<lambda>_. fc2) fms))"
  using assms(1)
proof (induction fms)
  case (Cons x fms)
  then show ?case
    using assms(2) by (auto simp: keeps_books_frame keeps_books_frame' split: if_splits)
qed simp

lemma table_update_senders:
  assumes "find P fms = Some fc" and "fc_sender fc2 = fc_sender fc"
  shows "map fc_sender (update_first P (\<lambda>_. fc2) fms) = map fc_sender fms"
  using assms(1) by (induction fms) (auto simp: assms(2) split: if_splits)

lemma table_update_wf:
  assumes "table_wf fms" and "find P fms = Some fc" and "fc_sender fc2 = fc_sender fc" and "fc_wf fc2"
  shows "table_wf (update_first P (\<lambda>_. fc2) fms)"
  using assms(1,4) table_update_senders [OF assms(2,3)]
  by (auto simp: table_wf_def list_all_iff dest: set_update_firstD)

lemma find_fc_wf: "table_wf fms \<Longrightarrow> find P fms = Some fc \<Longrightarrow> fc_wf fc"
  by (auto simp: table_wf_def list_all_iff dest: find_SomeD)

lemma add_foreign_master_wf:
  assumes "table_wf fms" and "add_foreign_master bo mem now m fms = (fms', d, r)"
  shows "table_wf fms'" and "keeps_books (table_held fms) r (table_held fms')"
proof -
  let ?P = "msg_source_equal bo m"
  have "table_wf fms' \<and> keeps_books (table_held fms) r (table_held fms')"
  proof (cases "find ?P fms")
    case None
    then have "\<forall>fc \<in> set fms. source_pid m \<noteq> fc_sender fc" by (simp add: find_None_iff)
    moreover have "fc_sender (new_foreign_clock (source_pid m)) = source_pid m"
      by (simp add: new_foreign_clock_def)
    ultimately have "table_wf (new_foreign_clock (source_pid m) # fms)"
      using assms(1) by (auto simp: table_wf_def fc_wf_new)
    then show ?thesis
      using assms None by (auto simp: add_foreign_master_def split: if_splits)
  next
    case (Some fc)
    have wf: "fc_wf fc" and src: "source_pid m = fc_sender fc"
      using find_fc_wf [OF assms(1) Some] find_SomeD [OF Some] by simp_all
    let ?fc = "fst (fc_insert m (fst (fc_prune now fc)))"
    let ?r = "snd (fc_prune now fc) @ snd (fc_insert m (fst (fc_prune now fc)))"
    have eq: "fms' = update_first ?P (\<lambda>_. ?fc) fms" "r = ?r"
      using assms(2) Some by (auto simp: add_foreign_master_def Let_def split_beta)
    note pi = prune_insert [OF wf src]
    have "table_wf fms'"
      unfolding eq using table_update_wf [OF assms(1) Some _ pi(1)] pi(2) by simp
    moreover have "keeps_books (table_held fms) r (table_held fms')"
      unfolding eq by (rule table_update_books [OF Some pi(3)])
    ultimately show ?thesis ..
  qed
  then show "table_wf fms'" and "keeps_books (table_held fms) r (table_held fms')" by simp_all
qed

lemma free_foreign_masters_books:
  "table_wf fms \<Longrightarrow> keeps_books (table_held fms) (free_foreign_masters fms) {#}"
proof (induction fms)
  case (Cons fc fms)
  then have "fc_wf fc" "table_wf fms" by (simp_all add: table_wf_def)
  then have "keeps_books (fc_held fc + table_held fms) (snd (fc_clear fc)) (table_held fms)"
    using keeps_books_frame [OF fc_clear_spec(2), of fc "table_held fms"] fc_clear_spec(1) [of fc]
    by (simp add: fc_held_def)
  then show ?case
    using Cons.IH [OF \<open>table_wf fms\<close>] by (simp add: keeps_books_append)
qed simp

subsection \<open>The best foreign master\<close>

text \<open>
  What the loop does to one entry before it compares it: the data set of the latest message,
  and the queue pruned.
\<close>

definition refresh :: "timespec \<Rightarrow> u8 \<Rightarrow> PortIdentity \<Rightarrow> foreign_clock \<Rightarrow> foreign_clock" where
  "refresh now lp pid fc = (case fc_messages fc of [] \<Rightarrow> fc
     | tmp # _ \<Rightarrow> fst (fc_prune now (fc\<lparr>fc_dataset := announce_to_dataset tmp lp pid\<rparr>)))"

definition fc_qualified :: "foreign_clock \<Rightarrow> bool" where
  "fc_qualified fc \<longleftrightarrow> FOREIGN_MASTER_THRESHOLD \<le> fc_n_messages fc"

lemma fc_wf_dataset:
  "fc_wf fc \<Longrightarrow> fc_messages fc = tmp # ms \<Longrightarrow>
   fc_wf (fc\<lparr>fc_dataset := announce_to_dataset tmp lp pid\<rparr>)"
  by (auto simp: fc_wf_def announce_to_dataset_def)

lemma refresh_wf:
  assumes "fc_wf fc"
  shows "fc_wf (refresh now lp pid fc)" and "fc_sender (refresh now lp pid fc) = fc_sender fc"
proof -
  have "fc_wf (refresh now lp pid fc) \<and> fc_sender (refresh now lp pid fc) = fc_sender fc"
  proof (cases "fc_messages fc")
    case (Cons tmp ms)
    have "source_pid tmp = fc_sender fc" using assms Cons by (simp add: fc_wf_def)
    then show ?thesis
      using fc_wf_dataset [OF assms Cons, of lp pid]
      by (simp add: refresh_def Cons fc_wf_prune fc_prune_spec announce_to_dataset_def)
  qed (simp add: refresh_def assms)
  then show "fc_wf (refresh now lp pid fc)" and "fc_sender (refresh now lp pid fc) = fc_sender fc"
    by simp_all
qed

text \<open>One turn of the loop.\<close>

definition best_step ::
  "(dataset option \<Rightarrow> dataset option \<Rightarrow> int) \<Rightarrow> foreign_clock option \<Rightarrow> foreign_clock \<Rightarrow>
   foreign_clock option \<times> foreign_clock \<times> ref_op list" where
  "best_step cmp best fc =
    (if \<not> fc_qualified fc then (best, fc, [])
     else case best of
       None \<Rightarrow> (Some fc, fc, [])
     | Some b \<Rightarrow> if cmp (Some (fc_dataset fc)) (Some (fc_dataset b)) > 0 then (Some fc, fc, [])
         else (best, fc_clear fc))"

lemma compute_best_loop_step:
  assumes "fc_wf fc"
  shows "\<exists>r2. compute_best_loop cmp now lp pid best (fc # fcs) =
     (let (best', fc3, r3) = best_step cmp best (refresh now lp pid fc);
          (b, fcs', r) = compute_best_loop cmp now lp pid best' fcs
      in (b, fc3 # fcs', r2 @ r3 @ r)) \<and>
     keeps_books (fc_held fc) r2 (fc_held (refresh now lp pid fc))"
proof (cases "fc_messages fc")
  case Nil
  then have "\<not> fc_qualified fc" using assms by (simp add: fc_qualified_def fc_wf_def)
  then show ?thesis
    by (intro exI [of _ "[]"]) (simp add: Nil best_step_def refresh_def Let_def)
next
  case (Cons tmp ms)
  let ?fc = "fc\<lparr>fc_dataset := announce_to_dataset tmp lp pid\<rparr>"
  have "keeps_books (fc_held ?fc) (snd (fc_prune now ?fc)) (fc_held (fst (fc_prune now ?fc)))"
    by (rule fc_prune_spec(4) [OF fc_wf_dataset [OF assms Cons]])
  moreover have "fc_held ?fc = fc_held fc" by (simp add: fc_held_def)
  ultimately show ?thesis
    by (intro exI [of _ "snd (fc_prune now ?fc)"])
      (auto simp: Cons best_step_def refresh_def fc_qualified_def Let_def split_beta split: option.splits)
qed

lemma best_step_spec:
  assumes "fc_wf fc" and "best_step cmp best fc = (best', fc3, r)"
  shows "fc_wf fc3" and "fc_dataset fc3 = fc_dataset fc"
    and "keeps_books (fc_held fc) r (fc_held fc3)"
    and "best' = (if fc_qualified fc
      then select_best (\<lambda>x b. cmp (Some (fc_dataset x)) (Some (fc_dataset b)) > 0) best [fc]
      else best)"
    and "best' = best \<or> best' = Some fc \<and> fc3 = fc"
  using assms fc_clear_spec [OF assms(1)]
  by (auto simp: best_step_def fc_wf_def split: if_splits option.splits)

text \<open>
  The loop selects among the qualified entries, keeps the table well-formed and the books
  balanced, and leaves the queue of the entry it selects alone.
\<close>

lemma compute_best_loop_spec:
  assumes "list_all fc_wf fms" and "compute_best_loop cmp now lp pid best fms = (b, fms', r)"
  shows "b = select_best (\<lambda>x b. cmp (Some (fc_dataset x)) (Some (fc_dataset b)) > 0) best
      (filter fc_qualified (map (refresh now lp pid) fms)) \<and>
    list_all fc_wf fms' \<and> map fc_sender fms' = map fc_sender fms \<and>
    keeps_books (table_held fms) r (table_held fms') \<and>
    (\<forall>fc. b = Some fc \<longrightarrow> best = Some fc \<or> fc \<in> set fms')"
  using assms
proof (induction fms arbitrary: best b fms' r)
  case (Cons fc fms)
  have wf: "fc_wf fc" "list_all fc_wf fms" using Cons.prems(1) by simp_all
  let ?fc = "refresh now lp pid fc"
  obtain best' fc3 r3 where s: "best_step cmp best ?fc = (best', fc3, r3)"
    by (metis prod_cases3)
  obtain fcs' r4 where l: "compute_best_loop cmp now lp pid best' fms = (b, fcs', r4)"
    and out: "fms' = fc3 # fcs'" and "\<exists>r2. r = r2 @ r3 @ r4 \<and> keeps_books (fc_held fc) r2 (fc_held ?fc)"
  proof -
    obtain r2 where r2: "compute_best_loop cmp now lp pid best (fc # fms) =
        (let (b, fcs', r) = compute_best_loop cmp now lp pid best' fms in (b, fc3 # fcs', r2 @ r3 @ r))"
      "keeps_books (fc_held fc) r2 (fc_held ?fc)"
      using compute_best_loop_step [OF wf(1), of cmp now lp pid best fms]
      unfolding s by (simp only: Let_def split) blast
    obtain b1 fcs1 r1 where l1: "compute_best_loop cmp now lp pid best' fms = (b1, fcs1, r1)"
      by (metis prod_cases3)
    have "(b, fms', r) = (b1, fc3 # fcs1, r2 @ r3 @ r1)"
      using Cons.prems(2) unfolding r2(1) l1 by simp
    then show ?thesis using l1 r2(2) by (intro that [of fcs1 r1]) auto
  qed
  then obtain r2 where r: "r = r2 @ r3 @ r4" "keeps_books (fc_held fc) r2 (fc_held ?fc)" by blast
  note IH = Cons.IH [OF wf(2) l]
  note st = best_step_spec [OF refresh_wf(1) [OF wf(1)] s]
  have "keeps_books (fc_held fc) (r2 @ r3) (fc_held fc3)"
    by (rule keeps_books_append [OF r(2) st(3)])
  then have "keeps_books (table_held (fc # fms)) ((r2 @ r3) @ r4) (table_held fms')"
    unfolding out table_held_simps using IH
    by (intro keeps_books_append [OF keeps_books_frame keeps_books_frame']) auto
  moreover have "b = select_best (\<lambda>x b. cmp (Some (fc_dataset x)) (Some (fc_dataset b)) > 0) best
      (filter fc_qualified (map (refresh now lp pid) (fc # fms)))"
    using IH st(4) by simp
  moreover have "\<forall>fc. b = Some fc \<longrightarrow> best = Some fc \<or> fc \<in> set fms'"
    using IH st(5) by (auto simp: out)
  ultimately show ?case
    using IH st(1,2) refresh_wf(2) [OF wf(1)] by (simp add: out r(1))
qed simp

lemma port_compute_best_wf:
  assumes "table_wf fms" and "port_compute_best cmp master_only now lp pid fms = (b, fms', r)"
  shows "table_wf fms'" and "keeps_books (table_held fms) r (table_held fms')"
    and "b = Some fc \<Longrightarrow> fc \<in> set fms'"
  using assms compute_best_loop_spec [of fms cmp now lp pid None b fms' r]
  by (auto simp: port_compute_best_def table_wf_def split: if_splits)

lemma update_best_messages_wf:
  assumes "table_wf fms" and "update_best_messages bo now m fms = (fms', d, r)"
  shows "table_wf fms'" and "keeps_books (table_held fms) r (table_held fms')"
proof -
  let ?P = "msg_source_equal bo m"
  have "table_wf fms' \<and> keeps_books (table_held fms) r (table_held fms')"
  proof (cases "find ?P fms")
    case None
    then show ?thesis using assms by (simp add: update_best_messages_def)
  next
    case (Some fc)
    have wf: "fc_wf fc" and src: "source_pid m = fc_sender fc"
      using find_fc_wf [OF assms(1) Some] find_SomeD [OF Some] by simp_all
    note pi = prune_insert [OF wf src, of now]
    have eq: "fms' = update_first ?P (\<lambda>_. fst (fc_insert m (fst (fc_prune now fc)))) fms"
      "r = snd (fc_prune now fc) @ snd (fc_insert m (fst (fc_prune now fc)))"
      using assms(2) Some by (auto simp: update_best_messages_def Let_def split_beta)
    show ?thesis
      unfolding eq using table_update_wf [OF assms(1) Some _ pi(1)] pi(2)
        table_update_books [OF Some pi(3)] by simp
  qed
  then show "table_wf fms'" and "keeps_books (table_held fms) r (table_held fms')" by simp_all
qed

lemma clear_entry_wf:
  assumes "table_wf fms" and "clear_entry sender fms = (fms', r)"
  shows "table_wf fms'" and "keeps_books (table_held fms) r (table_held fms')"
proof -
  let ?P = "\<lambda>fc. fc_sender fc = sender"
  have "table_wf fms' \<and> keeps_books (table_held fms) r (table_held fms')"
  proof (cases "find ?P fms")
    case None
    then show ?thesis using assms by (simp add: clear_entry_def)
  next
    case (Some fc)
    have wf: "fc_wf fc" by (rule find_fc_wf [OF assms(1) Some])
    have eq: "fms' = update_first ?P (\<lambda>_. fst (fc_clear fc)) fms" "r = snd (fc_clear fc)"
      using assms(2) Some by (auto simp: clear_entry_def)
    show ?thesis
      unfolding eq using table_update_wf [OF assms(1) Some _ fc_wf_clear [OF wf]]
        table_update_books [OF Some fc_clear_spec(2) [OF wf]] fc_clear_spec(1) [OF wf] by simp
  qed
  then show "table_wf fms'" and "keeps_books (table_held fms) r (table_held fms')" by simp_all
qed

subsection \<open>Properties\<close>

text \<open>
  The operations of a port on its table, in any order: an announce message from any master or
  from the current one, a state decision, an announce timeout of the current master, and
  disabling the port.  The state is the table and the reference operations so far.
\<close>

datatype fm_op =
    FmAnnounce bool timespec ptp_message
  | FmCurrent timespec ptp_message
  | FmDecide bool timespec
  | FmTimeout PortIdentity
  | FmDisable

fun fm_apply ::
  "byte_order \<Rightarrow> (dataset option \<Rightarrow> dataset option \<Rightarrow> int) \<Rightarrow> u8 \<Rightarrow> PortIdentity \<Rightarrow>
   foreign_clock list \<times> ref_op list \<Rightarrow> fm_op \<Rightarrow> foreign_clock list \<times> ref_op list" where
  "fm_apply bo cmp lp pid (fms, refs) (FmAnnounce mem now m) =
     (let (fms', _, r) = add_foreign_master bo mem now m fms in (fms', refs @ r))"
| "fm_apply bo cmp lp pid (fms, refs) (FmCurrent now m) =
     (let (fms', _, r) = update_best_messages bo now m fms in (fms', refs @ r))"
| "fm_apply bo cmp lp pid (fms, refs) (FmDecide master_only now) =
     (let (_, fms', r) = port_compute_best cmp master_only now lp pid fms in (fms', refs @ r))"
| "fm_apply bo cmp lp pid (fms, refs) (FmTimeout sender) =
     (let (fms', r) = clear_entry sender fms in (fms', refs @ r))"
| "fm_apply bo cmp lp pid (fms, refs) FmDisable = ([], refs @ free_foreign_masters fms)"

lemma fm_apply_wf:
  assumes "table_wf fms" and "keeps_books {#} refs (table_held fms)"
    and "fm_apply bo cmp lp pid (fms, refs) op = (fms', refs')"
  shows "table_wf fms' \<and> keeps_books {#} refs' (table_held fms')"
proof (cases op)
  case (FmAnnounce mem now m)
  then show ?thesis using assms
    by (auto split: prod.splits dest: add_foreign_master_wf intro: keeps_books_append)
next
  case (FmCurrent now m)
  then show ?thesis using assms
    by (auto split: prod.splits dest: update_best_messages_wf intro: keeps_books_append)
next
  case (FmDecide mo now)
  then show ?thesis using assms
    by (auto split: prod.splits dest: port_compute_best_wf(1,2) intro: keeps_books_append)
next
  case (FmTimeout sender)
  then show ?thesis using assms
    by (auto split: prod.splits dest: clear_entry_wf intro: keeps_books_append)
next
  case FmDisable
  then show ?thesis using assms free_foreign_masters_books [OF assms(1)]
    by (auto intro: keeps_books_append simp: table_wf_def)
qed

text \<open>
  C13: After any sequence of operations on a port's foreign master table, the senders of its
  entries are distinct, each entry's counter is the length of its queue, no queue holds more
  than three messages or a message of another sender, and the messages held are exactly
  those taken with \<open>msg_get\<close> and not yet dropped with \<open>msg_put\<close>: none leaks, none is put
  twice.
\<close>

theorem foreign_table_invariant:
  "case foldl (fm_apply bo cmp lp pid) ([], []) ops of (fms, refs) \<Rightarrow>
     table_wf fms \<and> mset (gets refs) = table_held fms + mset (puts refs)"
proof -
  have "table_wf (fst (foldl (fm_apply bo cmp lp pid) ([], []) ops)) \<and>
      keeps_books {#} (snd (foldl (fm_apply bo cmp lp pid) ([], []) ops))
        (table_held (fst (foldl (fm_apply bo cmp lp pid) ([], []) ops)))"
  proof (induction ops rule: rev_induct)
    case (snoc op ops)
    then show ?case
      using fm_apply_wf [of "fst (foldl (fm_apply bo cmp lp pid) ([], []) ops)"
          "snd (foldl (fm_apply bo cmp lp pid) ([], []) ops)" bo cmp lp pid op]
      by (simp add: prod_eq_iff)
  qed (simp add: table_wf_def)
  then show ?thesis by (simp add: keeps_books_def split_beta)
qed

text \<open>
  The foreign master that \<open>port_compute_best\<close> selects is qualified (two messages that have
  not expired) and no qualified master of the port is better by the IEEE 1588 comparison;
  none is selected only when none is qualified.
\<close>

theorem port_best_is_maximal:
  assumes "table_wf fms" and "port_compute_best (dscmp bo) False now lp pid fms = (b, fms', r)"
    and "\<forall>x \<in> set fms. \<forall>y \<in> set fms.
      admissible_1588 (fc_dataset (refresh now lp pid x)) (fc_dataset (refresh now lp pid y))"
  shows "case b of
      None \<Rightarrow> \<forall>x \<in> set fms. \<not> fc_qualified (refresh now lp pid x)
    | Some best \<Rightarrow> fc_qualified best \<and> best \<in> set fms' \<and>
        (\<forall>x \<in> set fms. fc_qualified (refresh now lp pid x) \<longrightarrow>
          \<not> dscmp bo (Some (fc_dataset (refresh now lp pid x))) (Some (fc_dataset best)) > 0)"
proof -
  let ?xs = "filter fc_qualified (map (refresh now lp pid) fms)"
  have wf: "list_all fc_wf fms" using assms(1) by (simp add: table_wf_def)
  have sel: "b = select_best (\<lambda>x b. dscmp bo (Some (fc_dataset x)) (Some (fc_dataset b)) > 0) None ?xs"
    and mem: "\<forall>fc. b = Some fc \<longrightarrow> fc \<in> set fms'"
    using compute_best_loop_spec [OF wf, of "dscmp bo" now lp pid None b fms' r] assms(2)
    by (simp_all add: port_compute_best_def)
  show ?thesis
  proof (cases b)
    case None
    then have "?xs = []" using sel by (metis select_best_None_iff)
    then show ?thesis using None by (auto simp: filter_empty_conv)
  next
    case (Some best)
    have "best \<in> set ?xs"
      using select_best_mem [OF sel [symmetric, unfolded Some]] by simp
    moreover have "\<forall>x \<in> set ?xs. \<not> dscmp bo (Some (fc_dataset x)) (Some (fc_dataset best)) > 0"
      using ieee1588.select_best_max [of "(fc_dataset \<circ> refresh now lp pid) ` set fms" fc_dataset ?xs
          None bo best] assms(3) sel Some by auto
    ultimately show ?thesis using Some mem by auto
  qed
qed

text \<open>
  An announce message from a known master asks for a state decision exactly when it is the
  second of the messages that have not expired (the qualification threshold of 9.3.2.5), or
  when it differs in its data from the message before it; the first message of a new master
  never does.
\<close>

theorem announce_qualification:
  assumes "table_wf fms" and "add_foreign_master bo mem now m fms = (fms', decide, r)"
  shows "decide \<longleftrightarrow> (\<exists>fc \<in> set fms. fc_sender fc = source_pid m \<and>
    (let kept = pop_last_while (\<lambda>m. \<not> msg_current m now) (take 2 (fc_messages fc))
     in length kept = 1 \<or> kept \<noteq> [] \<and> announce_bytes bo m \<noteq> announce_bytes bo (hd kept)))"
proof (cases "find (msg_source_equal bo m) fms")
  case None
  then have "\<forall>fc \<in> set fms. fc_sender fc \<noteq> source_pid m" by (auto simp: find_None_iff)
  then show ?thesis using assms(2) None by (auto simp: add_foreign_master_def split: if_splits)
next
  case (Some fc)
  have wf: "fc_wf fc" by (rule find_fc_wf [OF assms(1) Some])
  have fc: "fc \<in> set fms" "fc_sender fc = source_pid m" using find_SomeD [OF Some] by simp_all
  have unique: "x = fc" if "x \<in> set fms" "fc_sender x = source_pid m" for x
    using that fc assms(1) by (auto simp: table_wf_def distinct_map inj_on_def)
  define kept where "kept = pop_last_while (\<lambda>m. \<not> msg_current m now) (take 2 (fc_messages fc))"
  have k: "fc_messages (fst (fc_prune now fc)) = kept" "fc_n_messages (fst (fc_prune now fc)) = length kept"
    using fc_prune_spec(1,2) [OF wf, of now] by (simp_all add: kept_def)
  have "decide = (FOREIGN_MASTER_THRESHOLD - 1 = fc_n_messages (fst (fc_prune now fc)) \<or>
      fc_changed bo (fst (fc_insert m (fst (fc_prune now fc)))))"
    using assms(2) Some by (simp add: add_foreign_master_def Let_def split_beta)
  also have "\<dots> \<longleftrightarrow> length kept = 1 \<or> kept \<noteq> [] \<and> announce_bytes bo m \<noteq> announce_bytes bo (hd kept)"
  proof (cases kept)
    case (Cons a as)
    then show ?thesis using k by (auto simp: fc_insert_def fc_changed_def)
  qed (use k in \<open>simp add: fc_insert_def fc_changed_def\<close>)
  finally have "decide \<longleftrightarrow>
      length kept = 1 \<or> kept \<noteq> [] \<and> announce_bytes bo m \<noteq> announce_bytes bo (hd kept)" .
  moreover have "(\<exists>x \<in> set fms. fc_sender x = source_pid m \<and> Q x) \<longleftrightarrow> Q fc" for Q
    using unique fc by blast
  ultimately show ?thesis by (simp only: kept_def Let_def)
qed

lemma shl1_small: "n \<le> 30 \<Longrightarrow> shl1 n = 2 ^ n"
proof -
  assume "n \<le> 30"
  then have "n \<in> set [0..<31]" by simp
  moreover have "\<forall>n \<in> set [0..<31]. shl1 n = 2 ^ n" by (simp add: shl1_def upt_rec push_bit_eq_mult)
  ultimately show ?thesis by blast
qed

text \<open>
  An announce message is current while its age is less than four announce intervals, for
  every interval of 2 to the -30 up to 2 to the 30 seconds, computed without overflow.
\<close>

theorem announce_current_window:
  assumes "\<bar>sint (logMessageInterval (header m))\<bar> \<le> 30"
  shows "msg_current m now \<longleftrightarrow> sint (timespec_ns now - timespec_ns (ts_host m)) <
    (let i = sint (logMessageInterval (header m))
     in if 0 \<le> i then 4 * 10 ^ 9 * 2 ^ nat i else 4 * 10 ^ 9 div 2 ^ nat (- i))"
proof -
  define i where "i = sint (logMessageInterval (header m))"
  have i: "\<bar>i\<bar> \<le> 30" using assms by (simp add: i_def)
  have "sint (announce_tmo (logMessageInterval (header m))) =
      (if 0 \<le> i then 4 * 10 ^ 9 * 2 ^ nat i else 4 * 10 ^ 9 div 2 ^ nat (- i))"
  proof (cases "0 \<le> i")
    case True
    have le: "(2::int) ^ nat i \<le> 2 ^ 30" using i True by (intro power_increasing) auto
    have "announce_tmo (logMessageInterval (header m)) = word_of_int (4 * shl1 (nat i)) * 1000000000"
      using i True by (simp only: announce_tmo_def Let_def i_def [symmetric]) simp
    also have "\<dots> = word_of_int (4 * 2 ^ nat i) * word_of_int 1000000000"
      using i by (subst shl1_small) simp_all
    also have "\<dots> = word_of_int (4 * 2 ^ nat i * 1000000000)" by (simp only: wi_hom_mult)
    also have "sint \<dots> = 4 * 2 ^ nat i * 1000000000"
      using le by (intro sint_of_int64) (auto simp: in_i64_def intro: order.trans [of _ 0])
    finally show ?thesis using True by simp
  next
    case False
    have "announce_tmo (logMessageInterval (header m)) = word_of_int (4000000000 div 2 ^ nat (- i))"
      using i False by (simp add: announce_tmo_def Let_def i_def [symmetric] shl1_small sdiv_pos_int)
    also have "sint \<dots> = 4000000000 div 2 ^ nat (- i)"
    proof (intro sint_of_int64)
      have "0 \<le> 4000000000 div (2 :: int) ^ nat (- i)" by (simp add: pos_imp_zdiv_nonneg_iff)
      moreover have "4000000000 div (2 :: int) ^ nat (- i) \<le> 4000000000"
        using zdiv_mono2 [of 4000000000 1 "2 ^ nat (- i)"] by simp
      ultimately show "in_i64 (4000000000 div 2 ^ nat (- i))" by (simp add: in_i64_def)
    qed
    finally show ?thesis using False by simp
  qed
  then show ?thesis by (simp add: msg_current_def i_def Let_def)
qed

text \<open>
  The widening guard of \<open>msg_current\<close> lets an interval of 31 through to a 32 bit shift:
  the timeout comes out negative and a message is treated as expired the moment it arrives,
  so a master announcing with that interval never qualifies.
\<close>

theorem announce_interval_31_always_expired:
  assumes "sint (logMessageInterval (header m)) = 31"
    and "0 \<le> sint (timespec_ns now - timespec_ns (ts_host m))"
  shows "\<not> msg_current m now"
proof -
  have "sint (announce_tmo (logMessageInterval (header m))) < 0"
    using assms(1) by (simp add: announce_tmo_def Let_def shl1_def)
  with assms(2) show ?thesis by (simp add: msg_current_def)
qed

subsection \<open>Instances\<close>

definition sample_pid :: PortIdentity where
  "sample_pid = \<lparr>clockIdentity = CID 0 0x1b 0x19 0xff 0xfe 0 0 7, portNumber = 1\<rparr>"

definition sample_announce :: "nat \<Rightarrow> i8 \<Rightarrow> ptp_message" where
  "sample_announce ptr interval = (zero_msg ptr)
     \<lparr>header := zero_header\<lparr>tsmt := ANNOUNCE, sourcePortIdentity := sample_pid,
        logMessageInterval := interval\<rparr>,
      grandmasterPriority1 := 100, grandmasterIdentity := clockIdentity sample_pid,
      stepsRemoved := 1\<rparr>"

definition sample_now :: timespec where
  "sample_now = \<lparr>tv_sec = 1, tv_nsec = 0\<rparr>"

definition sample_table :: "foreign_clock list" where
  "sample_table = [(new_foreign_clock sample_pid)
     \<lparr>fc_messages := [sample_announce 2 1, sample_announce 1 1], fc_n_messages := 2\<rparr>]"

lemmas sample_defs = sample_table_def sample_announce_def sample_pid_def sample_now_def
  new_foreign_clock_def zero_msg_def zero_header_def

lemma sample_table_wf: "table_wf sample_table"
  by (simp add: table_wf_def fc_wf_def sample_defs)

theorem announce_current_window_witness: "msg_current (sample_announce 1 1) sample_now"
  using announce_current_window [of "sample_announce 1 1" sample_now]
  by (simp add: sample_defs timespec_ns_def)

theorem announce_interval_31_witness: "\<not> msg_current (sample_announce 1 31) (ts_host (sample_announce 1 31))"
  by (rule announce_interval_31_always_expired) (simp_all add: sample_defs)

lemma sample_current: "msg_current (sample_announce p 1) sample_now"
  by (simp add: msg_current_def sample_defs timespec_ns_def announce_tmo_def shl1_def)

lemma sample_kept: "pop_last_while (\<lambda>m. \<not> msg_current m sample_now)
    [sample_announce p 1, sample_announce q 1] = [sample_announce p 1, sample_announce q 1]"
  by (simp add: pop_last_while.simps sample_current)

lemma sample_bytes: "announce_bytes bo (sample_announce p i) = announce_bytes bo (sample_announce q j)"
  by (simp add: announce_bytes_def sample_defs)

theorem announce_qualification_witness:
  "\<exists>fms' r. add_foreign_master LittleEndian True sample_now (sample_announce 3 1) sample_table =
     (fms', False, r)"
proof -
  obtain fms' d r where a: "add_foreign_master LittleEndian True sample_now (sample_announce 3 1)
      sample_table = (fms', d, r)"
    by (metis prod_cases3)
  have "\<not> d"
    using announce_qualification [OF sample_table_wf a] sample_kept [of 2 1]
      sample_bytes [of LittleEndian 3 1 2 1]
    by (simp add: sample_table_def Let_def)
  with a show ?thesis by simp
qed

lemma sample_refresh:
  "refresh sample_now 128 zero_pid (hd sample_table) =
     (hd sample_table)\<lparr>fc_dataset := announce_to_dataset (sample_announce 2 1) 128 zero_pid\<rparr>"
proof -
  let ?fc = "(hd sample_table)\<lparr>fc_dataset := announce_to_dataset (sample_announce 2 1) 128 zero_pid\<rparr>"
  have wf: "fc_wf ?fc" by (simp add: fc_wf_def sample_defs announce_to_dataset_def)
  have m: "fc_messages ?fc = [sample_announce 2 1, sample_announce 1 1]" "fc_n_messages ?fc = 2"
    by (simp_all add: sample_table_def)
  have "fc_messages (fst (fc_prune sample_now ?fc)) = fc_messages ?fc"
    "fc_n_messages (fst (fc_prune sample_now ?fc)) = fc_n_messages ?fc"
    using fc_prune_spec(1,2) [OF wf, of sample_now] sample_kept [of 2 1] m by simp_all
  then have "fst (fc_prune sample_now ?fc) = ?fc"
    using fc_prune_spec(3) [OF wf, of sample_now] by (intro foreign_clock.equality) simp_all
  then show ?thesis using m by (simp add: refresh_def)
qed

theorem port_best_is_maximal_witness:
  "\<exists>best fms' r. port_compute_best (dscmp LittleEndian) False sample_now 128 zero_pid sample_table =
     (Some best, fms', r) \<and> fc_qualified best"
proof -
  obtain b fms' r where a: "port_compute_best (dscmp LittleEndian) False sample_now 128 zero_pid
      sample_table = (b, fms', r)"
    by (metis prod_cases3)
  have tab: "sample_table = [hd sample_table]" by (simp add: sample_table_def)
  have q: "fc_qualified (refresh sample_now 128 zero_pid (hd sample_table))"
    by (simp add: sample_refresh fc_qualified_def) (simp add: sample_table_def)
  have "admissible_1588 (fc_dataset (refresh sample_now 128 zero_pid (hd sample_table)))
      (fc_dataset (refresh sample_now 128 zero_pid (hd sample_table)))"
    by (simp add: sample_refresh admissible_1588_def no_error1_def same_gm_def announce_to_dataset_def)
      (simp add: sample_defs zero_pid_def)
  then have "\<forall>x \<in> set sample_table. \<forall>y \<in> set sample_table.
      admissible_1588 (fc_dataset (refresh sample_now 128 zero_pid x))
        (fc_dataset (refresh sample_now 128 zero_pid y))"
    using tab by (metis empty_set list.simps(15) singletonD)
  from port_best_is_maximal [OF sample_table_wf a this] q tab a show ?thesis
    by (cases b) (auto, metis list.set_intros(1))
qed

end
