(* ===== verification/SampleFilter.thy ===== *)
theory SampleFilter
  imports Tmv "HOL-Library.Multiset"
begin

text \<open>
  The sample filters (src/filter.c, src/mave.c, src/mmedian.c).  A filter keeps its samples in
  a ring buffer.  \<open>window\<close> reads a ring buffer from the oldest to the newest entry; the lemmas
  show that both filters compute their result from the last \<open>len\<close> samples only: the
  moving average their truncated mean, the moving median their median.  The result None of
  a filter step stands for undefined behaviour of the C code (an index out of bounds or a
  division by zero); the lemmas show that it does not happen from well-formed states.
\<close>

subsection \<open>Ring buffers\<close>

definition window :: "nat \<Rightarrow> 'a list \<Rightarrow> 'a list" where
  "window i xs = drop i xs @ take i xs"

definition keep_last :: "nat \<Rightarrow> 'a list \<Rightarrow> 'a list" where
  "keep_last n xs = drop (length xs - n) xs"

lemma length_window [simp]: "length (window i xs) = length xs"
  by (simp add: window_def)

lemma window_update:
  assumes "i < length xs"
  shows "window (Suc i mod length xs) (xs[i := v]) = tl (window i xs) @ [v]"
proof (cases "Suc i = length xs")
  case True
  then show ?thesis
    using assms by (auto simp: window_def upd_conv_take_nth_drop drop_Suc tl_drop)
next
  case False
  with assms have lt: "Suc i < length xs" by simp
  then have "drop (Suc i) (xs[i := v]) = drop (Suc i) xs" by simp
  moreover have "take (Suc i) (xs[i := v]) = take i xs @ [v]"
    using assms by (simp add: take_Suc_conv_app_nth)
  ultimately show ?thesis
    using lt by (simp add: window_def drop_Suc tl_drop)
qed

lemma length_keep_last: "length (keep_last n xs) = min n (length xs)"
  by (auto simp: keep_last_def)

lemma keep_last_id [simp]: "length xs \<le> n \<Longrightarrow> keep_last n xs = xs"
  by (simp add: keep_last_def)

lemma keep_last_snoc:
  "keep_last n (keep_last n xs @ [v]) = keep_last n (xs @ [v])"
proof (cases "length xs \<le> n")
  case False
  then have "length (keep_last n xs) = n" by (simp add: length_keep_last)
  then show ?thesis using False by (simp add: keep_last_def Suc_diff_le)
qed simp

lemma keep_last_append: "keep_last n (keep_last n xs @ ys) = keep_last n (xs @ ys)"
proof (induction ys rule: rev_induct)
  case Nil
  then show ?case by (simp add: length_keep_last)
next
  case (snoc y ys)
  have "keep_last n (keep_last n xs @ ys @ [y]) = keep_last n (keep_last n (keep_last n xs @ ys) @ [y])"
    by (simp add: keep_last_snoc)
  also have "\<dots> = keep_last n (xs @ ys @ [y])"
    by (simp add: snoc keep_last_snoc)
  finally show ?case .
qed

text \<open>The samples a filter has seen: the last \<open>cnt\<close> entries of the window.\<close>

definition recent :: "nat \<Rightarrow> nat \<Rightarrow> 'a list \<Rightarrow> 'a list" where
  "recent cnt i xs = keep_last cnt (window i xs)"

lemma recent_update:
  assumes "i < length xs" and "cnt \<le> length xs"
  shows "recent (min (Suc cnt) (length xs)) (Suc i mod length xs) (xs[i := v]) =
     keep_last (length xs) (recent cnt i xs @ [v])"
proof -
  let ?w = "window i xs"
  have len: "length (tl ?w @ [v]) = length xs" using assms(1) by simp
  show ?thesis
  proof (cases "cnt < length xs")
    case True
    then have "length xs - Suc cnt = length ?w - cnt - 1" by simp
    moreover have "drop (length ?w - cnt - 1) (tl ?w) = drop (length ?w - cnt) ?w"
      using True by (simp add: drop_Suc [symmetric] Suc_diff_Suc)
    ultimately show ?thesis
      using True assms len
      by (simp add: recent_def window_update keep_last_def Suc_le_eq)
  next
    case False
    with assms have "cnt = length xs" by simp
    then show ?thesis
      using assms len by (simp add: recent_def window_update keep_last_def drop_Suc)
  qed
qed

subsection \<open>Moving average\<close>

record mave =
  ma_cnt :: nat
  ma_len :: nat
  ma_index :: nat
  ma_sum :: tmv_t
  ma_val :: "tmv_t list"

definition mave_accumulate :: "mave \<Rightarrow> tmv_t \<Rightarrow> (mave \<times> tmv_t) option" where
  "mave_accumulate m val =
    (if ma_len m = 0 \<or> \<not> ma_index m < length (ma_val m) then None
     else
       let m = m\<lparr>ma_sum := tmv_sub (ma_sum m) (ma_val m ! ma_index m)\<rparr>;
           m = m\<lparr>ma_val := (ma_val m)[ma_index m := val]\<rparr>;
           m = m\<lparr>ma_index := (1 + ma_index m) mod ma_len m\<rparr>;
           m = m\<lparr>ma_sum := tmv_add (ma_sum m) val\<rparr>;
           m = (if ma_cnt m < ma_len m then m\<lparr>ma_cnt := ma_cnt m + 1\<rparr> else m)
       in Some (m, tmv_div (ma_sum m) (int (ma_cnt m))))"

definition mave_reset :: "mave \<Rightarrow> mave" where
  "mave_reset m = m\<lparr>ma_cnt := 0, ma_index := 0, ma_sum := tmv_zero,
     ma_val := replicate (ma_len m) tmv_zero\<rparr>"

text \<open>
  \<open>mem\<close> says whether the allocations succeed.  A negative length makes the size of the
  second allocation exceed the address space, so it fails.
\<close>

definition mave_create :: "bool \<Rightarrow> int \<Rightarrow> mave option" where
  "mave_create mem len =
    (if \<not> mem \<or> len < 0 then None
     else Some \<lparr>ma_cnt = 0, ma_len = nat len, ma_index = 0, ma_sum = tmv_zero,
                ma_val = replicate (nat len) tmv_zero\<rparr>)"

definition tmv_sum :: "tmv_t list \<Rightarrow> tmv_t" where
  "tmv_sum xs = Tmv (sum_list (map ns xs))"

definition mave_history :: "mave \<Rightarrow> tmv_t list" where
  "mave_history m = recent (ma_cnt m) (ma_index m) (ma_val m)"

text \<open>
  Well-formed states: the slots not yet filled are zero, so the running sum over the whole
  buffer is the sum of the samples seen.
\<close>

definition mave_wf :: "mave \<Rightarrow> bool" where
  "mave_wf m \<longleftrightarrow> 0 < ma_len m \<and> length (ma_val m) = ma_len m \<and> ma_index m < ma_len m \<and>
     ma_cnt m \<le> ma_len m \<and> ma_sum m = tmv_sum (ma_val m) \<and>
     set (take (ma_len m - ma_cnt m) (window (ma_index m) (ma_val m))) \<subseteq> {tmv_zero}"

lemma tmv_sum_simps [simp]:
  "tmv_sum [] = tmv_zero"
  "tmv_sum (x # xs) = tmv_add x (tmv_sum xs)"
  "tmv_sum (xs @ ys) = tmv_add (tmv_sum xs) (tmv_sum ys)"
  by (simp_all add: tmv_sum_def tmv_add_def tmv_zero_def)

lemma tmv_add_zero [simp]: "tmv_add tmv_zero x = x"
  by (cases x) (simp add: tmv_add_def tmv_zero_def)

lemma tmv_add_commute: "tmv_add a b = tmv_add b a"
  by (simp add: tmv_add_def add.commute)

lemma tmv_sum_window: "tmv_sum (window i xs) = tmv_sum xs"
  by (metis append_take_drop_id tmv_add_commute tmv_sum_simps(3) window_def)

lemma tmv_sum_zeros: "set xs \<subseteq> {tmv_zero} \<Longrightarrow> tmv_sum xs = tmv_zero"
  by (induction xs) auto

lemma tmv_sum_update:
  assumes "i < length xs"
  shows "tmv_sum (xs[i := v]) = tmv_add (tmv_sub (tmv_sum xs) (xs ! i)) v"
proof -
  have "tmv_sum xs = tmv_add (tmv_sum (take i xs)) (tmv_add (xs ! i) (tmv_sum (drop (Suc i) xs)))"
    using assms by (metis id_take_nth_drop tmv_sum_simps(2,3))
  then show ?thesis
    using assms
    by (simp add: upd_conv_take_nth_drop tmv_add_def tmv_sub_def algebra_simps)
qed

lemma tmv_sum_history:
  assumes "mave_wf m"
  shows "ma_sum m = tmv_sum (mave_history m)"
proof -
  let ?w = "window (ma_index m) (ma_val m)"
  have "tmv_sum ?w = tmv_sum (drop (ma_len m - ma_cnt m) ?w)"
    using assms tmv_sum_zeros [of "take (ma_len m - ma_cnt m) ?w"]
    by (metis append_take_drop_id mave_wf_def tmv_add_zero tmv_sum_simps(3))
  then show ?thesis
    using assms by (simp add: mave_wf_def mave_history_def recent_def keep_last_def tmv_sum_window)
qed

lemma mave_create_wf:
  assumes "mave_create mem len = Some m" and "0 < len"
  shows "mave_wf m \<and> mave_history m = [] \<and> ma_len m = nat len"
  using assms
  by (auto simp: mave_create_def mave_wf_def mave_history_def recent_def keep_last_def window_def
      tmv_sum_zeros split: if_splits dest: in_set_takeD)

lemma mave_reset_wf:
  assumes "mave_wf m"
  shows "mave_wf (mave_reset m) \<and> mave_history (mave_reset m) = [] \<and> ma_len (mave_reset m) = ma_len m"
  using assms
  by (auto simp: mave_reset_def mave_wf_def mave_history_def recent_def keep_last_def window_def
      tmv_sum_zeros dest: in_set_takeD)

lemma mave_step:
  assumes "mave_wf m"
  obtains m' where "mave_accumulate m v =
      Some (m', tmv_div (tmv_sum (mave_history m')) (int (length (mave_history m'))))"
    and "mave_wf m'" and "ma_len m' = ma_len m"
    and "mave_history m' = keep_last (ma_len m) (mave_history m @ [v])"
proof -
  define m' where "m' = m\<lparr>ma_cnt := min (Suc (ma_cnt m)) (ma_len m),
    ma_index := Suc (ma_index m) mod ma_len m,
    ma_sum := tmv_add (tmv_sub (ma_sum m) (ma_val m ! ma_index m)) v,
    ma_val := (ma_val m)[ma_index m := v]\<rparr>"
  have len: "ma_len m' = ma_len m" by (simp add: m'_def)
  have step: "mave_accumulate m v = Some (m', tmv_div (ma_sum m') (int (ma_cnt m')))"
    using assms by (cases "ma_cnt m < ma_len m")
      (auto simp: mave_accumulate_def mave_wf_def m'_def Let_def min_def)
  have hist: "mave_history m' = keep_last (ma_len m) (mave_history m @ [v])"
    using assms recent_update [of "ma_index m" "ma_val m" "ma_cnt m" v]
    by (simp add: mave_history_def m'_def mave_wf_def)
  have win: "window (ma_index m') (ma_val m') = tl (window (ma_index m) (ma_val m)) @ [v]"
    using assms window_update [of "ma_index m" "ma_val m" v] by (simp add: m'_def mave_wf_def)
  have "set (take (ma_len m' - ma_cnt m') (window (ma_index m') (ma_val m'))) \<subseteq> {tmv_zero}"
  proof (cases "ma_cnt m < ma_len m")
    case True
    then have cnt: "ma_cnt m' = Suc (ma_cnt m)" by (simp add: m'_def)
    have "take (ma_len m' - ma_cnt m') (window (ma_index m') (ma_val m')) =
        take (ma_len m - Suc (ma_cnt m)) (tl (window (ma_index m) (ma_val m)))"
      unfolding win using assms True by (simp add: len cnt mave_wf_def)
    also have "\<dots> = tl (take (ma_len m - ma_cnt m) (window (ma_index m) (ma_val m)))"
      using True by (simp add: tl_take)
    finally show ?thesis
      using assms by (auto simp: mave_wf_def dest: list.set_sel(2) [rotated])
        (metis list.sel(2) list.set_sel(2) singletonD subsetD)
  qed (simp add: m'_def)
  then have wf: "mave_wf m'"
    using assms by (auto simp: mave_wf_def m'_def tmv_sum_update)
  have "length (mave_history m') = ma_cnt m'"
    using wf by (simp add: mave_wf_def mave_history_def recent_def length_keep_last)
  with step tmv_sum_history [OF wf] that [OF _ wf len hist] show ?thesis by simp
qed

subsection \<open>Moving median\<close>

record mmedian =
  mm_cnt :: nat
  mm_len :: nat
  mm_index :: nat
  mm_order :: "nat list"
  mm_samples :: "tmv_t list"

text \<open>
  The three loops of \<open>mmedian_sample\<close>: search for the slot of the replaced sample in
  \<open>order\<close>, shift the slots behind it down, and insert the new slot from the right.
\<close>

function mm_find :: "nat \<Rightarrow> nat \<Rightarrow> nat list \<Rightarrow> nat \<Rightarrow> nat" where
  "mm_find i cnt order index =
     (if i < cnt then if order ! i = index then i else mm_find (Suc i) cnt order index else i)"
  by pat_completeness auto
termination by (relation "measure (\<lambda>(i, cnt, _, _). cnt - i)") auto

function mm_shift :: "nat \<Rightarrow> nat \<Rightarrow> nat list \<Rightarrow> nat list" where
  "mm_shift i cnt order =
     (if i + 1 < cnt then mm_shift (i + 1) cnt (order[i := order ! (i + 1)]) else order)"
  by pat_completeness auto
termination by (relation "measure (\<lambda>(i, cnt, _). cnt - i)") auto

declare mm_find.simps [simp del] mm_shift.simps [simp del]

fun mm_insert :: "tmv_t list \<Rightarrow> nat \<Rightarrow> nat \<Rightarrow> nat list \<Rightarrow> nat list" where
  "mm_insert samples index 0 order = order[0 := index]"
| "mm_insert samples index (Suc i) order =
     (if tmv_cmp (samples ! (order ! i)) (samples ! index) \<le> 0 then order[Suc i := index]
      else mm_insert samples index i (order[Suc i := order ! i]))"

definition mmedian_sample :: "mmedian \<Rightarrow> tmv_t \<Rightarrow> (mmedian \<times> tmv_t) option" where
  "mmedian_sample m sample =
    (if mm_len m = 0 \<or> \<not> mm_index m < length (mm_samples m) then None
     else
       let m = m\<lparr>mm_samples := (mm_samples m)[mm_index m := sample]\<rparr>;
           m = (if mm_cnt m < mm_len m then m\<lparr>mm_cnt := mm_cnt m + 1\<rparr>
                else m\<lparr>mm_order := mm_shift (mm_find 0 (mm_cnt m) (mm_order m) (mm_index m))
                        (mm_cnt m) (mm_order m)\<rparr>);
           m = m\<lparr>mm_order := mm_insert (mm_samples m) (mm_index m) (mm_cnt m - 1) (mm_order m)\<rparr>;
           m = m\<lparr>mm_index := (1 + mm_index m) mod mm_len m\<rparr>
       in Some (m,
            if mm_cnt m mod 2 \<noteq> 0 then mm_samples m ! (mm_order m ! (mm_cnt m div 2))
            else tmv_div (tmv_add (mm_samples m ! (mm_order m ! (mm_cnt m div 2 - 1)))
                                  (mm_samples m ! (mm_order m ! (mm_cnt m div 2)))) 2))"

definition mmedian_reset :: "mmedian \<Rightarrow> mmedian" where
  "mmedian_reset m = m\<lparr>mm_cnt := 0, mm_index := 0\<rparr>"

definition mmedian_create :: "bool \<Rightarrow> int \<Rightarrow> mmedian option" where
  "mmedian_create mem len =
    (if len < 1 then None
     else if \<not> mem then None
     else Some \<lparr>mm_cnt = 0, mm_len = nat len, mm_index = 0, mm_order = replicate (nat len) 0,
                mm_samples = replicate (nat len) tmv_zero\<rparr>)"

text \<open>The reference: the median of a list of time values.\<close>

definition median_of :: "tmv_t list \<Rightarrow> tmv_t" where
  "median_of xs = (let s = sort xs; n = length xs
     in if n mod 2 \<noteq> 0 then s ! (n div 2)
        else tmv_div (tmv_add (s ! (n div 2 - 1)) (s ! (n div 2))) 2)"

definition mmedian_history :: "mmedian \<Rightarrow> tmv_t list" where
  "mmedian_history m = recent (mm_cnt m) (mm_index m) (mm_samples m)"

definition mmedian_wf :: "mmedian \<Rightarrow> bool" where
  "mmedian_wf m \<longleftrightarrow> 0 < mm_len m \<and> length (mm_samples m) = mm_len m \<and>
     length (mm_order m) = mm_len m \<and> mm_index m < mm_len m \<and> mm_cnt m \<le> mm_len m \<and>
     (mm_cnt m < mm_len m \<longrightarrow> mm_index m = mm_cnt m) \<and>
     mset (take (mm_cnt m) (mm_order m)) = mset [0..<mm_cnt m] \<and>
     sorted (map ((!) (mm_samples m)) (take (mm_cnt m) (mm_order m)))"

lemma mm_find_index:
  assumes "x \<in> set (drop i (take cnt order))" and "cnt \<le> length order"
  shows "i \<le> mm_find i cnt order x \<and> mm_find i cnt order x < cnt \<and> order ! mm_find i cnt order x = x"
  using assms
proof (induction i cnt order x rule: mm_find.induct)
  case (1 i cnt order x)
  from "1.prems" have i: "i < cnt" by (cases "i < cnt") auto
  show ?case
  proof (cases "order ! i = x")
    case True
    with i show ?thesis by (simp add: mm_find.simps [of i])
  next
    case False
    have "drop i (take cnt order) = order ! i # drop (Suc i) (take cnt order)"
      using i "1.prems"(2) by (simp add: Cons_nth_drop_Suc [symmetric])
    with False "1.prems" have "x \<in> set (drop (Suc i) (take cnt order))" by simp
    with "1.IH" i False "1.prems"(2) show ?thesis by (simp add: mm_find.simps [of i])
  qed
qed

lemma length_mm_shift [simp]: "length (mm_shift i cnt order) = length order"
  by (induction i cnt order rule: mm_shift.induct) (simp add: mm_shift.simps)

lemma mm_shift_take:
  "i < cnt \<Longrightarrow> cnt \<le> length order \<Longrightarrow>
   take (cnt - 1) (mm_shift i cnt order) = take i order @ drop (Suc i) (take cnt order)"
proof (induction i cnt order rule: mm_shift.induct)
  case (1 i cnt order)
  show ?case
  proof (cases "i + 1 < cnt")
    case True
    let ?o = "order[i := order ! Suc i]"
    have "take (Suc i) ?o = take i order @ [order ! Suc i]"
      using True "1.prems" by (simp add: take_Suc_conv_app_nth)
    moreover have "drop (Suc i) (take cnt order) = order ! Suc i # drop (Suc (Suc i)) (take cnt order)"
      using True "1.prems" by (simp add: Cons_nth_drop_Suc [symmetric])
    moreover have "drop (Suc (Suc i)) (take cnt ?o) = drop (Suc (Suc i)) (take cnt order)"
      by (simp add: drop_take)
    ultimately show ?thesis
      using True "1.IH" "1.prems" by (simp add: mm_shift.simps [of i])
  next
    case False
    with "1.prems" have "cnt = Suc i" by simp
    then show ?thesis by (simp add: mm_shift.simps [of i])
  qed
qed

lemma length_mm_insert [simp]: "length (mm_insert s x i order) = length order"
  by (induction s x i order rule: mm_insert.induct) auto

lemma mm_insert_split:
  "i < length order \<Longrightarrow> \<exists>ys zs. take i order = ys @ zs \<and>
     take (Suc i) (mm_insert s x i order) = ys @ x # zs \<and>
     (\<forall>z \<in> set zs. s ! x < s ! z) \<and> (ys \<noteq> [] \<longrightarrow> s ! last ys \<le> s ! x) \<and>
     drop (Suc i) (mm_insert s x i order) = drop (Suc i) order"
proof (induction s x i order rule: mm_insert.induct)
  case (1 s x order)
  then show ?case by (simp add: take_Suc_conv_app_nth)
next
  case (2 s x i order)
  have split: "take (Suc i) order = take i order @ [order ! i]"
    using "2.prems" by (simp add: take_Suc_conv_app_nth)
  show ?case
  proof (cases "s ! (order ! i) \<le> s ! x")
    case True
    with "2.prems" split show ?thesis
      by (intro exI [of _ "take (Suc i) order"] exI [of _ "[]"])
        (simp add: tmv_cmp_le_0_iff take_Suc_conv_app_nth [of "Suc i"])
  next
    case False
    let ?o = "order[Suc i := order ! i]"
    obtain ys zs where IH: "take i ?o = ys @ zs" "take (Suc i) (mm_insert s x i ?o) = ys @ x # zs"
      "\<forall>z \<in> set zs. s ! x < s ! z" "ys \<noteq> [] \<longrightarrow> s ! last ys \<le> s ! x"
      "drop (Suc i) (mm_insert s x i ?o) = drop (Suc i) ?o"
      using "2.IH" "2.prems" False by (auto simp: tmv_cmp_le_0_iff)
    have "drop (Suc i) ?o = order ! i # drop (Suc (Suc i)) order"
      using "2.prems" by (simp add: Cons_nth_drop_Suc [symmetric])
    with IH(5) have d: "drop (Suc i) (mm_insert s x i ?o) = order ! i # drop (Suc (Suc i)) order"
      by (rule trans)
    have "take (Suc (Suc i)) (mm_insert s x i ?o) =
        take (Suc i) (mm_insert s x i ?o) @ take 1 (drop (Suc i) (mm_insert s x i ?o))"
      by (metis Suc_eq_plus1 take_add)
    moreover have "drop (Suc (Suc i)) (mm_insert s x i ?o) = drop (Suc (Suc i)) order"
      using d by (metis drop_Suc list.sel(3) tl_drop)
    moreover have "s ! x < s ! (order ! i)" using False by simp
    ultimately show ?thesis
      using False IH(1-4) split d
      by - (rule exI [of _ ys], rule exI [of _ "zs @ [order ! i]"],
          simp add: tmv_cmp_le_0_iff del: not_le)
  qed
qed


text \<open>Inserting keeps the slots ordered by sample and adds exactly the new slot.\<close>

lemma mm_insert_sorted:
  assumes "i < length order" and "sorted (map ((!) s) (take i order))"
  shows "sorted (map ((!) s) (take (Suc i) (mm_insert s x i order))) \<and>
    mset (take (Suc i) (mm_insert s x i order)) = add_mset x (mset (take i order))"
proof -
  obtain ys zs where *: "take i order = ys @ zs"
    "take (Suc i) (mm_insert s x i order) = ys @ x # zs"
    "\<forall>z \<in> set zs. s ! x < s ! z" "ys \<noteq> [] \<longrightarrow> s ! last ys \<le> s ! x"
    using mm_insert_split [OF assms(1), of s x] by blast
  have "\<forall>y \<in> set ys. s ! y \<le> s ! x"
  proof (cases ys rule: rev_exhaust)
    case (snoc us u)
    with assms(2) * have "\<forall>y \<in> set us. s ! y \<le> s ! u" by (auto simp: sorted_append)
    with snoc *(4) show ?thesis by auto
  qed simp
  with assms(2) * show ?thesis by (auto simp: sorted_append intro: less_imp_le)
qed

lemma mset_window: "mset (window i xs) = mset xs"
  by (metis add.commute append_take_drop_id mset_append window_def)

lemma mmedian_history_mset:
  assumes "mmedian_wf m"
  shows "mset (mmedian_history m) = mset (map ((!) (mm_samples m)) (take (mm_cnt m) (mm_order m)))"
proof -
  have "mset (map ((!) (mm_samples m)) (take (mm_cnt m) (mm_order m))) =
      mset (map ((!) (mm_samples m)) [0..<mm_cnt m])"
    using assms unfolding mset_map by (simp only: mmedian_wf_def)
  also have "map ((!) (mm_samples m)) [0..<mm_cnt m] = take (mm_cnt m) (mm_samples m)"
    using assms by (intro nth_equalityI) (auto simp: mmedian_wf_def)
  also have "mset (take (mm_cnt m) (mm_samples m)) = mset (mmedian_history m)"
  proof (cases "mm_cnt m < mm_len m")
    case True
    then show ?thesis
      using assms by (simp add: mmedian_wf_def mmedian_history_def recent_def keep_last_def window_def)
  next
    case False
    then show ?thesis
      using assms by (simp add: mmedian_wf_def mmedian_history_def recent_def mset_window)
  qed
  finally show ?thesis by simp
qed

lemma mmedian_sorted_history:
  assumes "mmedian_wf m"
  shows "map ((!) (mm_samples m)) (take (mm_cnt m) (mm_order m)) = sort (mmedian_history m)"
  using assms mmedian_history_mset [OF assms] by (metis mmedian_wf_def properties_for_sort)

lemma length_mmedian_history:
  "mmedian_wf m \<Longrightarrow> length (mmedian_history m) = mm_cnt m"
  by (simp add: mmedian_wf_def mmedian_history_def recent_def length_keep_last)

lemma mmedian_create_wf:
  "mmedian_create mem len = Some m \<Longrightarrow> mmedian_wf m \<and> mmedian_history m = [] \<and> mm_len m = nat len"
  by (auto simp: mmedian_create_def mmedian_wf_def mmedian_history_def recent_def keep_last_def
      split: if_splits)

lemma mmedian_reset_wf:
  "mmedian_wf m \<Longrightarrow> mmedian_wf (mmedian_reset m) \<and> mmedian_history (mmedian_reset m) = [] \<and>
    mm_len (mmedian_reset m) = mm_len m"
  by (auto simp: mmedian_reset_def mmedian_wf_def mmedian_history_def recent_def keep_last_def)

text \<open>The slots that stay when the filter is full: all but the one to be overwritten.\<close>

lemma mm_evict:
  assumes "mset (take cnt order) = mset [0..<cnt]" and "index < cnt" and "cnt \<le> length order"
    and "sorted (map ((!) s) (take cnt order))"
  defines "order' \<equiv> mm_shift (mm_find 0 cnt order index) cnt order"
  shows "mset (take (cnt - 1) order') = mset [0..<cnt] - {#index#} \<and>
    sorted (map ((!) s) (take (cnt - 1) order')) \<and> index \<notin> set (take (cnt - 1) order')"
proof -
  let ?p = "mm_find 0 cnt order index"
  let ?xs = "take cnt order"
  have set: "set ?xs = {0..<cnt}" using assms(1) by (metis set_mset_mset set_upt)
  have dist: "distinct ?xs" using assms(1) by (metis distinct_upt mset_eq_imp_distinct_iff)
  have p: "?p < cnt" "order ! ?p = index"
    using mm_find_index [of index 0 cnt order] set assms(2,3) by auto
  then have xs: "?xs = take ?p ?xs @ index # drop (Suc ?p) ?xs"
    using assms(3) id_take_nth_drop [of ?p ?xs] by simp
  have o': "take (cnt - 1) order' = take ?p ?xs @ drop (Suc ?p) ?xs"
    using mm_shift_take [OF p(1) assms(3)] p(1) by (simp add: order'_def min_def)
  have "mset ?xs = add_mset index (mset (take (cnt - 1) order'))"
    unfolding o' by (subst xs) simp
  moreover have "index \<notin> set (take (cnt - 1) order')"
    using dist unfolding o' by (subst (asm) xs) auto
  moreover have "sorted (map ((!) s) (take (cnt - 1) order'))"
    using assms(4) unfolding o' by (subst (asm) xs) (auto simp: sorted_append)
  ultimately show ?thesis using assms(1) by simp
qed


lemma mmedian_step:
  assumes "mmedian_wf m"
  obtains m' where "mmedian_sample m v = Some (m', median_of (mmedian_history m'))"
    and "mmedian_wf m'" and "mm_len m' = mm_len m"
    and "mmedian_history m' = keep_last (mm_len m) (mmedian_history m @ [v])"
proof -
  define idx where "idx = mm_index m"
  define samples' where "samples' = (mm_samples m)[idx := v]"
  define cnt' where "cnt' = min (Suc (mm_cnt m)) (mm_len m)"
  define order' where "order' = (if mm_cnt m < mm_len m then mm_order m
    else mm_shift (mm_find 0 (mm_cnt m) (mm_order m) idx) (mm_cnt m) (mm_order m))"
  define order'' where "order'' = mm_insert samples' idx (cnt' - 1) order'"
  define m' where "m' = m\<lparr>mm_cnt := cnt', mm_index := Suc idx mod mm_len m,
    mm_order := order'', mm_samples := samples'\<rparr>"
  note wf = assms [unfolded mmedian_wf_def]
  have cnt': "0 < cnt'" "cnt' \<le> mm_len m" using wf by (auto simp: cnt'_def)
  have order': "mset (take (cnt' - 1) order') = mset [0..<cnt'] - {#idx#} \<and>
      sorted (map ((!) (mm_samples m)) (take (cnt' - 1) order')) \<and>
      idx \<notin> set (take (cnt' - 1) order') \<and> idx < cnt' \<and> length order' = mm_len m"
  proof (cases "mm_cnt m < mm_len m")
    case True
    then have "cnt' = Suc (mm_cnt m)" "order' = mm_order m" "idx = mm_cnt m"
      using wf by (simp_all add: cnt'_def order'_def idx_def)
    moreover have "set (take (mm_cnt m) (mm_order m)) = {0..<mm_cnt m}"
      using wf by (metis set_mset_mset set_upt)
    ultimately show ?thesis using wf by simp
  next
    case False
    then have full: "cnt' = mm_cnt m" "mm_cnt m = mm_len m" using wf by (simp_all add: cnt'_def)
    have o': "order' = mm_shift (mm_find 0 (mm_cnt m) (mm_order m) idx) (mm_cnt m) (mm_order m)"
      using False by (simp add: order'_def)
    have perm: "mset (take (mm_cnt m) (mm_order m)) = mset [0..<mm_cnt m]"
      and srt: "sorted (map ((!) (mm_samples m)) (take (mm_cnt m) (mm_order m)))"
      and idx: "idx < mm_cnt m" and len: "mm_cnt m \<le> length (mm_order m)"
      using wf full(2) by (auto simp: idx_def)
    show ?thesis
      unfolding full(1) using mm_evict [OF perm idx len srt] idx wf by (simp add: o' conj_assoc)
  qed
  have same: "map ((!) samples') (take (cnt' - 1) order') =
      map ((!) (mm_samples m)) (take (cnt' - 1) order')"
    using order' by (intro map_cong refl) (metis nth_list_update_neq samples'_def)
  have ins: "sorted (map ((!) samples') (take cnt' order'')) \<and>
      mset (take cnt' order'') = add_mset idx (mset (take (cnt' - 1) order'))"
  proof -
    have "cnt' - 1 < length order'" "Suc (cnt' - 1) = cnt'" using order' cnt' by auto
    moreover have "sorted (map ((!) samples') (take (cnt' - 1) order'))"
      using order' same by argo
    ultimately show ?thesis
      using mm_insert_sorted [of "cnt' - 1" order' samples' idx] by (simp only: order''_def)
  qed
  have "idx \<in># mset [0..<cnt']" using order' by simp
  then have perm: "mset (take cnt' order'') = mset [0..<cnt']"
    using ins order' by (simp only: insert_DiffM)
  have wf': "mmedian_wf m'"
    using wf ins perm order' cnt'
    by (auto simp: mmedian_wf_def m'_def samples'_def order''_def cnt'_def idx_def min_def)
  have hist: "mmedian_history m' = keep_last (mm_len m) (mmedian_history m @ [v])"
    using wf recent_update [of idx "mm_samples m" "mm_cnt m" v]
    by (simp add: mmedian_history_def m'_def samples'_def cnt'_def idx_def)
  have nth: "samples' ! (order'' ! i) = sort (mmedian_history m') ! i" if "i < cnt'" for i
  proof -
    have "i < length (take cnt' order'')" using that order' cnt' by (simp add: order''_def)
    then have "map ((!) samples') (take cnt' order'') ! i = samples' ! (order'' ! i)"
      using that by simp
    then show ?thesis using mmedian_sorted_history [OF wf'] by (simp add: m'_def)
  qed
  have len: "length (mmedian_history m') = cnt'"
    using length_mmedian_history [OF wf'] by (simp add: m'_def)
  have "mmedian_sample m v = Some (m',
      if cnt' mod 2 \<noteq> 0 then samples' ! (order'' ! (cnt' div 2))
      else tmv_div (tmv_add (samples' ! (order'' ! (cnt' div 2 - 1)))
        (samples' ! (order'' ! (cnt' div 2)))) 2)"
    using wf by (cases "mm_cnt m < mm_len m")
      (simp_all add: mmedian_sample_def Let_def m'_def order''_def order'_def samples'_def
        cnt'_def idx_def min_def)
  also have "\<dots> = Some (m', median_of (mmedian_history m'))"
    using cnt' by (simp add: median_of_def Let_def len nth)
  finally show ?thesis using that wf' hist by (simp add: m'_def)
qed

subsection \<open>The filter interface\<close>

text \<open>
  What the time stamp processor relies on: a step from a well-formed filter returns, its output
  is a function of the samples kept, and the filter keeps the last \<open>len\<close> samples since it
  was created or reset.
\<close>

text \<open>Feeding a sequence of samples to a filter.\<close>

fun run_samples :: "('f \<Rightarrow> tmv_t \<Rightarrow> ('f \<times> tmv_t) option) \<Rightarrow> 'f \<Rightarrow> tmv_t list \<Rightarrow> 'f option" where
  "run_samples sample f [] = Some f"
| "run_samples sample f (v # vs) =
     (case sample f v of None \<Rightarrow> None | Some (f', _) \<Rightarrow> run_samples sample f' vs)"

locale sample_filter =
  fixes sample :: "'f \<Rightarrow> tmv_t \<Rightarrow> ('f \<times> tmv_t) option"
    and reset :: "'f \<Rightarrow> 'f"
    and wf :: "'f \<Rightarrow> bool"
    and history :: "'f \<Rightarrow> tmv_t list"
    and len :: "'f \<Rightarrow> nat"
    and out :: "'f \<Rightarrow> tmv_t list \<Rightarrow> tmv_t"
  assumes sample_law: "wf f \<Longrightarrow> \<exists>f'. sample f v = Some (f', out f (history f')) \<and> wf f' \<and>
      len f' = len f \<and> out f' = out f \<and> history f' = keep_last (len f) (history f @ [v])"
    and reset_law: "wf f \<Longrightarrow> wf (reset f) \<and> history (reset f) = [] \<and> len (reset f) = len f \<and>
      out (reset f) = out f"
begin

lemma run_history:
  "wf f \<Longrightarrow> length (history f) \<le> len f \<Longrightarrow> \<exists>f'. run_samples sample f vs = Some f' \<and> wf f' \<and> len f' = len f \<and>
     out f' = out f \<and> history f' = keep_last (len f) (history f @ vs)"
proof (induction vs arbitrary: f)
  case (Cons v vs)
  obtain f1 where f1: "sample f v = Some (f1, out f (history f1))" "wf f1" "len f1 = len f"
    "out f1 = out f" "history f1 = keep_last (len f) (history f @ [v])"
    using sample_law [OF Cons.prems(1), of v] by blast
  have "length (history f1) \<le> len f1" by (simp add: f1 length_keep_last)
  then obtain f' where f': "run_samples sample f1 vs = Some f'" "wf f'" "len f' = len f1" "out f' = out f1"
    "history f' = keep_last (len f1) (history f1 @ vs)"
    using Cons.IH f1(2) by blast
  have "keep_last (len f) (keep_last (len f) (history f @ [v]) @ vs) =
      keep_last (len f) ((history f @ [v]) @ vs)"
    by (rule keep_last_append)
  with f1 f' show ?case by simp
qed simp

lemma next_output:
  assumes "wf f" and "length (history f) \<le> len f"
  shows "\<exists>f1 f2. run_samples sample f vs = Some f1 \<and>
    sample f1 v = Some (f2, out f (keep_last (len f) (history f @ vs @ [v])))"
proof -
  obtain f1 where f1: "run_samples sample f vs = Some f1" "wf f1" "len f1 = len f" "out f1 = out f"
    "history f1 = keep_last (len f) (history f @ vs)"
    using run_history [OF assms, of vs] by blast
  obtain f2 where "sample f1 v = Some (f2, out f1 (history f2))"
    "history f2 = keep_last (len f1) (history f1 @ [v])"
    using sample_law [OF f1(2), of v] by blast
  then show ?thesis using f1 by (simp add: keep_last_append)
qed

text \<open>After a reset the output depends on the samples since the reset only.\<close>

lemma reset_forgets:
  assumes "wf f" and "run_samples sample (reset f) vs = Some f'"
  shows "history f' = keep_last (len f) vs"
  using run_history [of "reset f" vs] reset_law [OF assms(1)] assms(2) by auto

end

definition mean_of :: "tmv_t list \<Rightarrow> tmv_t" where
  "mean_of xs = tmv_div (tmv_sum xs) (int (length xs))"

interpretation mave: sample_filter mave_accumulate mave_reset mave_wf mave_history ma_len
  "\<lambda>_. mean_of"
proof
  fix m v assume "mave_wf m"
  then obtain m' where "mave_accumulate m v = Some (m', mean_of (mave_history m'))" "mave_wf m'"
    "ma_len m' = ma_len m" "mave_history m' = keep_last (ma_len m) (mave_history m @ [v])"
    by (rule mave_step [where v = v]) (auto simp: mean_of_def)
  then show "\<exists>m'. mave_accumulate m v = Some (m', mean_of (mave_history m')) \<and> mave_wf m' \<and>
      ma_len m' = ma_len m \<and> mean_of = mean_of \<and>
      mave_history m' = keep_last (ma_len m) (mave_history m @ [v])"
    by blast
qed (simp add: mave_reset_wf)

interpretation mmedian: sample_filter mmedian_sample mmedian_reset mmedian_wf mmedian_history mm_len
  "\<lambda>_. median_of"
proof
  fix m v assume "mmedian_wf m"
  then obtain m' where "mmedian_sample m v = Some (m', median_of (mmedian_history m'))"
    "mmedian_wf m'" "mm_len m' = mm_len m"
    "mmedian_history m' = keep_last (mm_len m) (mmedian_history m @ [v])"
    by (rule mmedian_step [where v = v])
  then show "\<exists>m'. mmedian_sample m v = Some (m', median_of (mmedian_history m')) \<and> mmedian_wf m' \<and>
      mm_len m' = mm_len m \<and> median_of = median_of \<and>
      mmedian_history m' = keep_last (mm_len m) (mmedian_history m @ [v])"
    by blast
qed (simp add: mmedian_reset_wf)

text \<open>
  \<open>struct filter\<close> is a table of function pointers; the calls through it are a case
  distinction on the kind of filter (src/filter.c).
\<close>

datatype filter_type = FILTER_MOVING_AVERAGE | FILTER_MOVING_MEDIAN

datatype filter_obj = FMave mave | FMmedian mmedian

definition filter_create :: "bool \<Rightarrow> filter_type \<Rightarrow> int \<Rightarrow> filter_obj option" where
  "filter_create mem type len =
    (case type of
       FILTER_MOVING_AVERAGE \<Rightarrow> map_option FMave (mave_create mem len)
     | FILTER_MOVING_MEDIAN \<Rightarrow> map_option FMmedian (mmedian_create mem len))"

fun filter_sample :: "filter_obj \<Rightarrow> tmv_t \<Rightarrow> (filter_obj \<times> tmv_t) option" where
  "filter_sample (FMave m) v = map_option (map_prod FMave id) (mave_accumulate m v)"
| "filter_sample (FMmedian m) v = map_option (map_prod FMmedian id) (mmedian_sample m v)"

fun filter_reset :: "filter_obj \<Rightarrow> filter_obj" where
  "filter_reset (FMave m) = FMave (mave_reset m)"
| "filter_reset (FMmedian m) = FMmedian (mmedian_reset m)"

fun filter_wf :: "filter_obj \<Rightarrow> bool" where
  "filter_wf (FMave m) = mave_wf m"
| "filter_wf (FMmedian m) = mmedian_wf m"

fun filter_history :: "filter_obj \<Rightarrow> tmv_t list" where
  "filter_history (FMave m) = mave_history m"
| "filter_history (FMmedian m) = mmedian_history m"

fun filter_len :: "filter_obj \<Rightarrow> nat" where
  "filter_len (FMave m) = ma_len m"
| "filter_len (FMmedian m) = mm_len m"

fun filter_out :: "filter_obj \<Rightarrow> tmv_t list \<Rightarrow> tmv_t" where
  "filter_out (FMave _) = mean_of"
| "filter_out (FMmedian _) = median_of"

interpretation filter: sample_filter filter_sample filter_reset filter_wf filter_history filter_len
  filter_out
proof
  fix f v assume "filter_wf f"
  then show "\<exists>f'. filter_sample f v = Some (f', filter_out f (filter_history f')) \<and> filter_wf f' \<and>
      filter_len f' = filter_len f \<and> filter_out f' = filter_out f \<and>
      filter_history f' = keep_last (filter_len f) (filter_history f @ [v])"
  proof (cases f)
    case (FMave m)
    with \<open>filter_wf f\<close> mave.sample_law [of m v] obtain m' where
      "mave_accumulate m v = Some (m', mean_of (mave_history m'))" "mave_wf m'"
      "ma_len m' = ma_len m" "mave_history m' = keep_last (ma_len m) (mave_history m @ [v])" by auto
    with FMave show ?thesis by (intro exI [of _ "FMave m'"]) auto
  next
    case (FMmedian m)
    with \<open>filter_wf f\<close> mmedian.sample_law [of m v] obtain m' where
      "mmedian_sample m v = Some (m', median_of (mmedian_history m'))" "mmedian_wf m'"
      "mm_len m' = mm_len m" "mmedian_history m' = keep_last (mm_len m) (mmedian_history m @ [v])"
      by auto
    with FMmedian show ?thesis by (intro exI [of _ "FMmedian m'"]) auto
  qed
next
  fix f assume "filter_wf f"
  then show "filter_wf (filter_reset f) \<and> filter_history (filter_reset f) = [] \<and>
      filter_len (filter_reset f) = filter_len f \<and> filter_out (filter_reset f) = filter_out f"
    by (cases f) (simp_all add: mave_reset_wf mmedian_reset_wf)
qed

lemma filter_create_wf:
  assumes "filter_create mem type len = Some f" and "0 < len"
  shows "filter_wf f \<and> filter_history f = [] \<and> filter_len f = nat len"
  using assms
  by (cases type) (auto simp: filter_create_def mave_create_wf mmedian_create_wf)

subsection \<open>Properties\<close>

text \<open>
  Whatever was sampled before, a moving average filter returns the sum of the last
  \<open>n\<close> samples (all of them while there are fewer) divided by their number: the ring buffer,
  the running sum and the fill counter never drift, and no step indexes out of bounds.
\<close>

theorem moving_average_of_last_samples:
  assumes "filter_create mem FILTER_MOVING_AVERAGE n = Some f" and "0 < n"
  shows "\<exists>f1 f2. run_samples filter_sample f vs = Some f1 \<and>
    filter_sample f1 v = Some (f2, tmv_div (tmv_sum (keep_last (nat n) (vs @ [v])))
      (int (length (keep_last (nat n) (vs @ [v])))))"
proof -
  have "filter_out f = mean_of" using assms(1) by (auto simp: filter_create_def)
  then show ?thesis
    using filter_create_wf [OF assms] filter.next_output [of f vs v] by (simp add: mean_of_def)
qed

text \<open>
  C31: Whatever was sampled before, a moving median filter returns the median of the last
  \<open>n\<close> samples: the middle of their sorted list, or the mean of the two middle ones when their
  number is even.  The incremental re-ordering agrees with sorting from scratch.
\<close>

theorem moving_median_of_last_samples:
  assumes "filter_create mem FILTER_MOVING_MEDIAN n = Some f" and "0 < n"
  shows "\<exists>f1 f2. run_samples filter_sample f vs = Some f1 \<and>
    filter_sample f1 v = Some (f2, median_of (keep_last (nat n) (vs @ [v])))"
proof -
  have "filter_out f = median_of" using assms(1) by (auto simp: filter_create_def)
  then show ?thesis
    using filter_create_wf [OF assms] filter.next_output [of f vs v] by simp
qed

text \<open>
  After a reset a filter behaves as a newly created one, whatever it held: its next output
  depends on the samples since the reset only.
\<close>

theorem filter_reset_forgets:
  assumes "filter_create mem kind n = Some f" and "0 < n"
    and "run_samples filter_sample f us = Some f0"
  shows "\<exists>f1 f2. run_samples filter_sample (filter_reset f0) vs = Some f1 \<and>
    filter_sample f1 v = Some (f2, filter_out f (keep_last (nat n) (vs @ [v])))"
proof -
  have "filter_wf f" "filter_history f = []" "filter_len f = nat n"
    using filter_create_wf [OF assms(1,2)] by simp_all
  with filter.run_history [of f us] assms(3)
  have "filter_wf f0" "filter_len f0 = nat n" "filter_out f0 = filter_out f" by auto
  with filter.reset_law [of f0] filter.next_output [of "filter_reset f0" vs v] show ?thesis by simp
qed

definition sample_data :: "tmv_t list" where
  "sample_data = [Tmv 10, Tmv 40, Tmv 20]"

theorem moving_average_witness:
  "\<exists>f f1 f2. filter_create True FILTER_MOVING_AVERAGE 2 = Some f \<and>
     run_samples filter_sample f sample_data = Some f1 \<and>
     filter_sample f1 (Tmv 30) = Some (f2, Tmv 25)"
proof -
  obtain f where f: "filter_create True FILTER_MOVING_AVERAGE 2 = Some f"
    by (simp add: filter_create_def mave_create_def)
  then show ?thesis
    using moving_average_of_last_samples [OF f, of sample_data "Tmv 30"]
    by (simp add: sample_data_def keep_last_def tmv_sum_def tmv_div_def)
qed

theorem moving_median_witness:
  "\<exists>f f1 f2. filter_create True FILTER_MOVING_MEDIAN 3 = Some f \<and>
     run_samples filter_sample f sample_data = Some f1 \<and>
     filter_sample f1 (Tmv 30) = Some (f2, Tmv 30)"
proof -
  obtain f where f: "filter_create True FILTER_MOVING_MEDIAN 3 = Some f"
    by (simp add: filter_create_def mmedian_create_def)
  have "median_of (keep_last (nat 3) (sample_data @ [Tmv 30])) = Tmv 30" by code_simp
  then show ?thesis
    using moving_median_of_last_samples [OF f, of sample_data "Tmv 30"] f by auto
qed

theorem filter_reset_witness:
  "\<exists>f f0 f1 f2. filter_create True FILTER_MOVING_AVERAGE 2 = Some f \<and>
     run_samples filter_sample f sample_data = Some f0 \<and>
     run_samples filter_sample (filter_reset f0) [] = Some f1 \<and>
     filter_sample f1 (Tmv 8) = Some (f2, Tmv 8)"
proof -
  obtain f where f: "filter_create True FILTER_MOVING_AVERAGE 2 = Some f" and o: "filter_out f = mean_of"
    by (simp add: filter_create_def mave_create_def)
  obtain f0 where f0: "run_samples filter_sample f sample_data = Some f0"
    using filter_create_wf [OF f] filter.run_history [of f sample_data] by auto
  show ?thesis
    using filter_reset_forgets [OF f _ f0, of "[]" "Tmv 8"] f f0 o
    by (simp add: keep_last_def mean_of_def tmv_sum_def tmv_div_def)
qed

end
