(* ===== verification/Tsproc.thy ===== *)
theory Tsproc
  imports Complex_Main SampleFilter "HOL-Library.Monad_Syntax"
begin

text \<open>
  The time stamp processor (src/tsproc.h, src/tsproc.c), which turns the four time stamps of
  an exchange into a path delay and a clock offset.

  A \<open>double\<close> is a real number, and every floating point operation rounds its exact result
  with \<open>fl\<close>, the rounding of the machine, a parameter of the definitions.  \<open>rounding\<close> collects
  what IEEE 754 documents of \<open>fl\<close> on finite numbers: it is monotone, leaves its own values
  alone and is exact on 0, 1 and the small integers.  Infinities and NaN are not modelled.
\<close>

type_synonym dbl = real

definition rounding :: "(real \<Rightarrow> real) \<Rightarrow> bool" where
  "rounding fl \<longleftrightarrow> mono fl \<and> (\<forall>x. fl (fl x) = fl x) \<and> (\<forall>i :: int. \<bar>i\<bar> \<le> 2 ^ 53 \<longrightarrow> fl (of_int i) = of_int i)"

lemma rounding_0_1:
  assumes "rounding fl"
  shows "fl 0 = 0" and "fl 1 = 1"
proof -
  have "fl (of_int i) = of_int i" if "\<bar>i\<bar> \<le> 2 ^ 53" for i :: int
    using assms that by (simp add: rounding_def)
  from this [of 0] this [of 1] show "fl 0 = 0" "fl 1 = 1" by simp_all
qed

lemma rounding_mono: "rounding fl \<Longrightarrow> x \<le> y \<Longrightarrow> fl x \<le> fl y"
  by (auto simp: rounding_def dest: monoD)

lemma rounding_id: "rounding (\<lambda>x. x)"
  by (simp add: rounding_def mono_def)

text \<open>\<open>tmv_dbl\<close> and \<open>dbl_tmv\<close> (src/tmv.h).  The conversion to an integer truncates.\<close>

definition tmv_dbl :: "(real \<Rightarrow> real) \<Rightarrow> tmv_t \<Rightarrow> dbl" where
  "tmv_dbl fl x = fl (of_int (sint (ns x)))"

definition dbl_tmv :: "dbl \<Rightarrow> tmv_t" where
  "dbl_tmv x = Tmv (word_of_int (if 0 \<le> x then \<lfloor>x\<rfloor> else \<lceil>x\<rceil>))"

subsection \<open>State\<close>

datatype tsproc_mode = TSPROC_FILTER | TSPROC_RAW | TSPROC_FILTER_WEIGHT | TSPROC_RAW_WEIGHT

record tsproc =
  ts_mode :: tsproc_mode
  ts_clock_rate_ratio :: dbl
  ts_t1 :: tmv_t
  ts_t2 :: tmv_t
  ts_t3 :: tmv_t
  ts_t4 :: tmv_t
  ts_filtered_delay :: tmv_t
  ts_filtered_delay_valid :: bool
  ts_delay_filter :: filter_obj

subsection \<open>Operations\<close>

fun weighting :: "tsproc_mode \<Rightarrow> bool" where
  "weighting TSPROC_FILTER = False"
| "weighting TSPROC_RAW = False"
| "weighting TSPROC_FILTER_WEIGHT = True"
| "weighting TSPROC_RAW_WEIGHT = True"

definition tsproc_create :: "bool \<Rightarrow> tsproc_mode \<Rightarrow> filter_type \<Rightarrow> int \<Rightarrow> tsproc option" where
  "tsproc_create mem mode delay_filter filter_length =
    (if \<not> mem then None
     else case filter_create mem delay_filter filter_length of
       None \<Rightarrow> None
     | Some f \<Rightarrow> Some \<lparr>ts_mode = mode, ts_clock_rate_ratio = 1,
         ts_t1 = tmv_zero, ts_t2 = tmv_zero, ts_t3 = tmv_zero, ts_t4 = tmv_zero,
         ts_filtered_delay = tmv_zero, ts_filtered_delay_valid = False, ts_delay_filter = f\<rparr>)"

definition tsproc_down_ts :: "tsproc \<Rightarrow> tmv_t \<Rightarrow> tmv_t \<Rightarrow> tsproc" where
  "tsproc_down_ts tsp remote_ts local_ts = tsp\<lparr>ts_t1 := remote_ts, ts_t2 := local_ts\<rparr>"

definition tsproc_up_ts :: "tsproc \<Rightarrow> tmv_t \<Rightarrow> tmv_t \<Rightarrow> tsproc" where
  "tsproc_up_ts tsp local_ts remote_ts = tsp\<lparr>ts_t3 := local_ts, ts_t4 := remote_ts\<rparr>"

definition tsproc_set_clock_rate_ratio :: "tsproc \<Rightarrow> dbl \<Rightarrow> tsproc" where
  "tsproc_set_clock_rate_ratio tsp ratio = tsp\<lparr>ts_clock_rate_ratio := ratio\<rparr>"

definition tsproc_set_delay :: "tsproc \<Rightarrow> tmv_t \<Rightarrow> tsproc" where
  "tsproc_set_delay tsp delay =
     tsp\<lparr>ts_filtered_delay := delay, ts_filtered_delay_valid := True\<rparr>"

definition get_raw_delay :: "(real \<Rightarrow> real) \<Rightarrow> tsproc \<Rightarrow> tmv_t" where
  "get_raw_delay fl tsp =
    (let t23 = tmv_sub (ts_t2 tsp) (ts_t3 tsp);
         t23 = (if ts_clock_rate_ratio tsp \<noteq> 1
                then dbl_tmv (fl (tmv_dbl fl t23 * ts_clock_rate_ratio tsp)) else t23);
         t41 = tmv_sub (ts_t4 tsp) (ts_t1 tsp)
     in tmv_div (tmv_add t23 t41) 2)"

text \<open>
  The outer None is undefined behaviour of the filter, the inner None the return value -1;
  Some d is the return value 0 with d stored through the pointer \<open>delay\<close>.
\<close>

definition tsproc_update_delay ::
  "(real \<Rightarrow> real) \<Rightarrow> tsproc \<Rightarrow> (tsproc \<times> tmv_t option) option" where
  "tsproc_update_delay fl tsp =
    (if tmv_is_zero (ts_t2 tsp) \<or> tmv_is_zero (ts_t3 tsp) then Some (tsp, None)
     else
       let raw_delay = get_raw_delay fl tsp in
       do {
         (f, filtered) \<leftarrow> filter_sample (ts_delay_filter tsp) raw_delay;
         let tsp = tsp\<lparr>ts_delay_filter := f, ts_filtered_delay := filtered,
                       ts_filtered_delay_valid := True\<rparr>;
         Some (tsp, Some (case ts_mode tsp of
             TSPROC_FILTER \<Rightarrow> ts_filtered_delay tsp
           | TSPROC_FILTER_WEIGHT \<Rightarrow> ts_filtered_delay tsp
           | TSPROC_RAW \<Rightarrow> raw_delay
           | TSPROC_RAW_WEIGHT \<Rightarrow> raw_delay))
       })"

text \<open>None is the return value -1; Some (offset, weight) the values stored on return 0.\<close>

definition tsproc_update_offset :: "(real \<Rightarrow> real) \<Rightarrow> tsproc \<Rightarrow> (tmv_t \<times> dbl) option" where
  "tsproc_update_offset fl tsp =
    (if tmv_is_zero (ts_t1 tsp) \<or> tmv_is_zero (ts_t2 tsp) then None
     else do {
       (delay, raw_delay) \<leftarrow>
         (case ts_mode tsp of
            TSPROC_FILTER \<Rightarrow>
              (if \<not> ts_filtered_delay_valid tsp then None
               else Some (ts_filtered_delay tsp, tmv_zero))
          | TSPROC_RAW \<Rightarrow>
              (if tmv_is_zero (ts_t3 tsp) then None
               else Some (get_raw_delay fl tsp, get_raw_delay fl tsp))
          | TSPROC_RAW_WEIGHT \<Rightarrow>
              (if tmv_is_zero (ts_t3 tsp) then None
               else Some (get_raw_delay fl tsp, get_raw_delay fl tsp))
          | TSPROC_FILTER_WEIGHT \<Rightarrow>
              (if tmv_is_zero (ts_t3 tsp) \<or> \<not> ts_filtered_delay_valid tsp then None
               else Some (ts_filtered_delay tsp, get_raw_delay fl tsp)));
       let offset = tmv_sub (tmv_sub (ts_t2 tsp) (ts_t1 tsp)) delay;
       let weight =
         (if weighting (ts_mode tsp) \<and> tmv_sign (ts_filtered_delay tsp) > 0 \<and>
             tmv_sign raw_delay > 0
          then (let w = fl (tmv_dbl fl (ts_filtered_delay tsp) / tmv_dbl fl raw_delay)
                in if w > 1 then 1 else w)
          else 1);
       Some (offset, weight)
     })"

definition tsproc_reset :: "tsproc \<Rightarrow> bool \<Rightarrow> tsproc" where
  "tsproc_reset tsp full =
    (let tsp = tsp\<lparr>ts_t1 := tmv_zero, ts_t2 := tmv_zero, ts_t3 := tmv_zero, ts_t4 := tmv_zero\<rparr>
     in if full
        then tsp\<lparr>ts_clock_rate_ratio := 1,
                 ts_delay_filter := filter_reset (ts_delay_filter tsp),
                 ts_filtered_delay_valid := False\<rparr>
        else tsp)"

subsection \<open>Well-formedness\<close>

definition tsproc_wf :: "tsproc \<Rightarrow> bool" where
  "tsproc_wf tsp \<longleftrightarrow> filter_wf (ts_delay_filter tsp)"

lemma tsproc_wf_updates [simp]:
  "tsproc_wf (tsproc_down_ts tsp a b) = tsproc_wf tsp"
  "tsproc_wf (tsproc_up_ts tsp a b) = tsproc_wf tsp"
  "tsproc_wf (tsproc_set_clock_rate_ratio tsp r) = tsproc_wf tsp"
  "tsproc_wf (tsproc_set_delay tsp a) = tsproc_wf tsp"
  by (simp_all add: tsproc_wf_def tsproc_down_ts_def tsproc_up_ts_def
      tsproc_set_clock_rate_ratio_def tsproc_set_delay_def)

lemma tsproc_create_wf:
  "tsproc_create mem mode type len = Some tsp \<Longrightarrow> 0 < len \<Longrightarrow> tsproc_wf tsp"
  by (auto simp: tsproc_create_def tsproc_wf_def filter_create_wf split: if_splits option.splits)

lemma tsproc_reset_wf [ptp_wf_intros]: "tsproc_wf tsp \<Longrightarrow> tsproc_wf (tsproc_reset tsp full)"
  using filter.reset_law [of "ts_delay_filter tsp"]
  by (simp add: tsproc_reset_def tsproc_wf_def Let_def)

lemma tsproc_update_delay_step:
  assumes "tsproc_wf tsp" and "\<not> tmv_is_zero (ts_t2 tsp)" and "\<not> tmv_is_zero (ts_t3 tsp)"
  obtains tsp' d where "tsproc_update_delay fl tsp = Some (tsp', Some d)"
    and "tsproc_wf tsp'" and "ts_filtered_delay_valid tsp'"
    and "filter_history (ts_delay_filter tsp') = keep_last (filter_len (ts_delay_filter tsp))
      (filter_history (ts_delay_filter tsp) @ [get_raw_delay fl tsp])"
    and "ts_filtered_delay tsp' =
      filter_out (ts_delay_filter tsp) (filter_history (ts_delay_filter tsp'))"
    and "ts_mode tsp' = ts_mode tsp"
    and "d = (if ts_mode tsp \<in> {TSPROC_FILTER, TSPROC_FILTER_WEIGHT} then ts_filtered_delay tsp'
      else get_raw_delay fl tsp)"
proof -
  let ?raw = "get_raw_delay fl tsp"
  obtain f where f: "filter_sample (ts_delay_filter tsp) ?raw =
      Some (f, filter_out (ts_delay_filter tsp) (filter_history f))" "filter_wf f"
    "filter_history f = keep_last (filter_len (ts_delay_filter tsp))
      (filter_history (ts_delay_filter tsp) @ [?raw])"
    using filter.sample_law [of "ts_delay_filter tsp" ?raw] assms(1)
    by (auto simp: tsproc_wf_def)
  define tsp' where "tsp' = tsp\<lparr>ts_delay_filter := f,
    ts_filtered_delay := filter_out (ts_delay_filter tsp) (filter_history f),
    ts_filtered_delay_valid := True\<rparr>"
  define d where "d = (if ts_mode tsp \<in> {TSPROC_FILTER, TSPROC_FILTER_WEIGHT}
    then ts_filtered_delay tsp' else ?raw)"
  have "tsproc_update_delay fl tsp = Some (tsp', Some d)"
    using assms(2,3) f(1)
    by (simp add: tsproc_update_delay_def tsp'_def d_def Let_def split: tsproc_mode.split)
  moreover have "tsproc_wf tsp'" "ts_filtered_delay_valid tsp'" "ts_mode tsp' = ts_mode tsp"
    using f(2) by (simp_all add: tsproc_wf_def tsp'_def)
  ultimately show ?thesis
    using that [of tsp' d] f(3) by (simp add: tsp'_def d_def)
qed

lemma tsproc_update_delay_wf [ptp_wf_intros]:
  assumes "tsproc_wf tsp" and "tsproc_update_delay fl tsp = Some (tsp', r)"
  shows "tsproc_wf tsp'"
proof (cases "tmv_is_zero (ts_t2 tsp) \<or> tmv_is_zero (ts_t3 tsp)")
  case True
  with assms show ?thesis by (auto simp: tsproc_update_delay_def)
next
  case False
  then show ?thesis
    using tsproc_update_delay_step [OF assms(1), of fl] assms(2) by (metis option.inject prod.inject)
qed

text \<open>
  With the local clock at the master's rate, the raw delay is the mean of the two one-way
  differences, rounded towards zero.
\<close>

lemma get_raw_delay_val:
  assumes "ts_clock_rate_ratio tsp = 1"
    and "in_i64 (tmv_val (ts_t2 tsp) - tmv_val (ts_t3 tsp))"
    and "in_i64 (tmv_val (ts_t4 tsp) - tmv_val (ts_t1 tsp))"
    and "in_i64 ((tmv_val (ts_t2 tsp) - tmv_val (ts_t3 tsp)) + (tmv_val (ts_t4 tsp) - tmv_val (ts_t1 tsp)))"
  shows "tmv_val (get_raw_delay fl tsp) =
    ((tmv_val (ts_t2 tsp) - tmv_val (ts_t3 tsp)) + (tmv_val (ts_t4 tsp) - tmv_val (ts_t1 tsp))) sdiv 2"
  using assms by (simp add: get_raw_delay_def Let_def tmv_div_val tmv_add_val tmv_sub_val
      del: ns_tmv_simps)

lemma sdiv_even: "even (a :: int) \<Longrightarrow> 2 * (a sdiv 2) = a"
  by (auto simp: sdiv_pos_int)

subsection \<open>Properties\<close>

text \<open>Time values whose sums and differences do not wrap.\<close>

definition small_tmv :: "tmv_t \<Rightarrow> bool" where
  "small_tmv x \<longleftrightarrow> \<bar>tmv_val x\<bar> < 2 ^ 60"

text \<open>
  C32: On a symmetric path the two-way exchange recovers both unknowns exactly, in the raw mode (the
  filters and weights are off).  When the clock is ahead of its master by \<open>offset\<close>, each message takes
  \<open>delay\<close>, and the clocks run at the same rate, the raw delay is \<open>delay\<close> and the reported offset is
  \<open>offset\<close>, with weight 1.  The times themselves may be any that 64 bits hold; the offset, the delay and
  the time between the two messages are below \<open>2 ^ 60\<close> ns, 36 years, so that no difference wraps.
\<close>

theorem symmetric_exchange_recovered:
  assumes "ts_mode tsp = TSPROC_RAW" and "ts_clock_rate_ratio tsp = 1"
    and "small_tmv offset" "small_tmv delay" "\<bar>tmv_val t3 - tmv_val t2\<bar> < 2 ^ 60"
    and "t1 \<noteq> tmv_zero" "t2 \<noteq> tmv_zero" "t3 \<noteq> tmv_zero"
    and "tmv_val t2 = tmv_val t1 + tmv_val delay + tmv_val offset"
    and "tmv_val t4 = tmv_val t3 + tmv_val delay - tmv_val offset"
  shows "get_raw_delay fl (tsproc_up_ts (tsproc_down_ts tsp t1 t2) t3 t4) = delay \<and>
    tsproc_update_offset fl (tsproc_up_ts (tsproc_down_ts tsp t1 t2) t3 t4) = Some (offset, 1)"
proof -
  let ?tsp = "tsproc_up_ts (tsproc_down_ts tsp t1 t2) t3 t4"
  have ts: "ts_t1 ?tsp = t1" "ts_t2 ?tsp = t2" "ts_t3 ?tsp = t3" "ts_t4 ?tsp = t4"
    "ts_mode ?tsp = TSPROC_RAW" "ts_clock_rate_ratio ?tsp = 1"
    using assms(1,2) by (simp_all add: tsproc_up_ts_def tsproc_down_ts_def)
  have sum: "(tmv_val t2 - tmv_val t3) + (tmv_val t4 - tmv_val t1) = 2 * tmv_val delay"
    using assms(9,10) by simp
  have "tmv_val t4 - tmv_val t1 = tmv_val t3 - tmv_val t2 + 2 * tmv_val delay" using assms(9,10) by simp
  then have "in_i64 (tmv_val t2 - tmv_val t3)" "in_i64 (tmv_val t4 - tmv_val t1)" "in_i64 (2 * tmv_val delay)"
    using assms(4,5) by (auto simp: small_tmv_def in_i64_def)
  then have "tmv_val (get_raw_delay fl ?tsp) = (2 * tmv_val delay) sdiv 2"
    using get_raw_delay_val [of ?tsp fl] unfolding ts sum by simp
  also have "\<dots> = tmv_val delay" using sdiv_even [of "2 * tmv_val delay"] by simp
  finally have raw: "get_raw_delay fl ?tsp = delay"
    by (simp add: i64_eq_iff tmv_t.expand)
  have "tmv_val (tmv_sub t2 t1) = tmv_val delay + tmv_val offset"
    using assms(3,4,9) by (subst tmv_sub_val) (auto simp: small_tmv_def in_i64_def)
  then have "tmv_val (tmv_sub (tmv_sub t2 t1) delay) = tmv_val offset"
    using assms(3,4) by (subst tmv_sub_val) (auto simp: small_tmv_def in_i64_def)
  then have "tmv_sub (tmv_sub t2 t1) delay = offset"
    by (simp add: i64_eq_iff tmv_t.expand)
  with raw assms(6-8) show ?thesis
    by (simp add: tsproc_update_offset_def ts weighting.simps tmv_is_zero_iff)
qed

text \<open>
  The weight that accompanies an offset lies between 0 and 1 in every mode and for every
  rounding of the floating point operations.
\<close>

theorem offset_weight_bounds:
  assumes "rounding fl" and "tsproc_update_offset fl tsp = Some (offset, weight)"
  shows "0 \<le> weight \<and> weight \<le> 1"
proof -
  have pos: "0 \<le> tmv_dbl fl x" if "tmv_sign x > 0" for x
  proof -
    have "0 \<le> tmv_val x" using that by (auto simp: tmv_sign_def split: if_splits)
    then have "0 \<le> real_of_int (tmv_val x)" by (simp only: of_int_0_le_iff)
    from rounding_mono [OF assms(1) this] show ?thesis
      unfolding tmv_dbl_def rounding_0_1 [OF assms(1)] .
  qed
  have "0 \<le> fl (tmv_dbl fl x / tmv_dbl fl y)" if "tmv_sign x > 0" "tmv_sign y > 0" for x y
    using rounding_mono [OF assms(1), of 0 "tmv_dbl fl x / tmv_dbl fl y"]
      rounding_0_1 [OF assms(1)] pos that by simp
  with assms(2) show ?thesis
    by (auto simp: tsproc_update_offset_def Let_def split: if_splits option.splits prod.splits
        bind_splits)
qed

definition sample_tsproc :: "tsproc_mode \<Rightarrow> tsproc" where
  "sample_tsproc mode = the (tsproc_create True mode FILTER_MOVING_MEDIAN 10)"

theorem symmetric_exchange_witness:
  "tsproc_update_offset (\<lambda>x. x) (tsproc_up_ts (tsproc_down_ts (sample_tsproc TSPROC_RAW)
     (Tmv 1763535600000001000) (Tmv 1763535600000001130)) (Tmv 1763535600000002000) (Tmv 1763535600000002070)) =
   Some (Tmv 30, 1)"
  by (rule symmetric_exchange_recovered [of _ _ "Tmv 100", THEN conjunct2])
    (simp_all add: sample_tsproc_def tsproc_create_def filter_create_def mmedian_create_def
      small_tmv_def tmv_zero_def)

theorem offset_weight_bounds_witness:
  "\<exists>w. tsproc_update_offset (\<lambda>x. x) (tsproc_set_delay (tsproc_up_ts (tsproc_down_ts
      (sample_tsproc TSPROC_FILTER_WEIGHT) (Tmv 1000) (Tmv 1130)) (Tmv 2000) (Tmv 2070)) (Tmv 50)) =
    Some (Tmv 80, w) \<and> 0 \<le> w \<and> w \<le> 1"
proof -
  let ?t = "tsproc_set_delay (tsproc_up_ts (tsproc_down_ts
      (sample_tsproc TSPROC_FILTER_WEIGHT) (Tmv 1000) (Tmv 1130)) (Tmv 2000) (Tmv 2070)) (Tmv 50)"
  obtain w where w: "tsproc_update_offset (\<lambda>x. x) ?t = Some (Tmv 80, w)"
    by (simp add: sample_tsproc_def tsproc_create_def filter_create_def mmedian_create_def
        tsproc_set_delay_def tsproc_up_ts_def tsproc_down_ts_def tsproc_update_offset_def
        tmv_is_zero_def tmv_sub_def tmv_zero_def)
  with offset_weight_bounds [OF rounding_id w] show ?thesis by blast
qed

end
