(* ===== verification/Servo.thy ===== *)
theory Servo
  imports Tsproc
begin

text \<open>
  The clock servos (src/servo.c, src/pi.c, src/linreg.c, src/ntpshm.c, src/nullf.c).  A servo
  turns the measured offset of the clock into a frequency adjustment and a state: not yet
  locked, jump (the caller steps the clock) or locked.

  Every floating point operation rounds with \<open>fl\<close>, as in theory Tsproc.  The shared memory
  segment of the NTP servo is part of its state.  Allocation and the system calls that attach
  the segment succeed or fail as the parameters say.
\<close>

subsection \<open>State\<close>

datatype servo_state = SERVO_UNLOCKED | SERVO_JUMP | SERVO_LOCKED

datatype servo_type = CLOCK_SERVO_PI | CLOCK_SERVO_LINREG | CLOCK_SERVO_NTPSHM | CLOCK_SERVO_NULLF

record pi_servo =
  pi_offset0 :: i64
  pi_offset1 :: i64
  pi_local0 :: u64
  pi_local1 :: u64
  pi_drift :: dbl
  pi_kp :: dbl
  pi_ki :: dbl
  pi_last_freq :: dbl
  pi_count :: nat
  pi_kp_scale :: dbl
  pi_kp_exponent :: dbl
  pi_kp_norm_max :: dbl
  pi_ki_scale :: dbl
  pi_ki_exponent :: dbl
  pi_ki_norm_max :: dbl

record point =
  pt_x :: u64
  pt_y :: u64
  pt_w :: dbl

record result =
  r_slope :: dbl
  r_intercept :: dbl
  r_err :: dbl
  r_err_updates :: nat

record linreg_servo =
  lr_points :: "point list"
  lr_reference_x :: u64
  lr_reference_y :: u64
  lr_num_points :: nat
  lr_last_point :: nat
  lr_x_remainder :: dbl
  lr_last_update :: u64
  lr_results :: "result list"
  lr_size :: nat
  lr_clock_freq :: dbl
  lr_update_interval :: dbl
  lr_frequency_ratio :: dbl
  lr_leap :: int

record shmTime =
  shm_mode :: int
  shm_count :: i32
  shm_clockTimeStampSec :: i64
  shm_clockTimeStampUSec :: i32
  shm_receiveTimeStampSec :: i64
  shm_receiveTimeStampUSec :: i32
  shm_leap :: int
  shm_precision :: int
  shm_valid :: bool
  shm_clockTimeStampNSec :: i32
  shm_receiveTimeStampNSec :: i32

record ntpshm_servo =
  ntp_shm :: shmTime
  ntp_leap :: int

datatype servo_impl =
    ServoPi pi_servo
  | ServoLinreg linreg_servo
  | ServoNtpshm ntpshm_servo
  | ServoNullf

record servo =
  sv_max_frequency :: dbl
  sv_step_threshold :: dbl
  sv_first_step_threshold :: dbl
  sv_first_update :: bool
  sv_impl :: servo_impl

text \<open>The values that the configuration (src/config.c) holds, by name.\<close>

record config =
  cfg_int :: "string \<Rightarrow> int"
  cfg_double :: "string \<Rightarrow> dbl"

subsection \<open>Conversions\<close>

definition dbl_of_i64 :: "(real \<Rightarrow> real) \<Rightarrow> i64 \<Rightarrow> dbl" where
  "dbl_of_i64 fl x = fl (of_int (sint x))"

definition dbl_of_u64 :: "(real \<Rightarrow> real) \<Rightarrow> u64 \<Rightarrow> dbl" where
  "dbl_of_u64 fl x = fl (of_int (uint x))"

definition dbl_to_i64 :: "dbl \<Rightarrow> i64" where
  "dbl_to_i64 x = word_of_int (if 0 \<le> x then \<lfloor>x\<rfloor> else \<lceil>x\<rceil>)"

text \<open>The test whether the clock must be stepped, which three servos share.\<close>

definition beyond_threshold :: "servo \<Rightarrow> dbl \<Rightarrow> bool" where
  "beyond_threshold sv x \<longleftrightarrow>
     (sv_first_update sv \<and> sv_first_step_threshold sv \<noteq> 0 \<and> sv_first_step_threshold sv < \<bar>x\<bar>) \<or>
     (sv_step_threshold sv \<noteq> 0 \<and> sv_step_threshold sv < \<bar>x\<bar>)"

definition clamp :: "dbl \<Rightarrow> dbl \<Rightarrow> dbl" where
  "clamp m x = (if x < - m then - m else if x > m then m else x)"

subsection \<open>The PI servo\<close>

text \<open>
  \<open>0.016 / ki\<close> is infinite before the first call of \<open>pi_sync_interval\<close> (\<open>ki\<close> is 0 then),
  and the interval becomes 1000.
\<close>

definition pi_sample ::
  "(real \<Rightarrow> real) \<Rightarrow> servo \<Rightarrow> pi_servo \<Rightarrow> i64 \<Rightarrow> u64 \<Rightarrow> dbl \<Rightarrow> pi_servo \<times> dbl \<times> servo_state" where
  "pi_sample fl sv s ofs local_ts weight =
    (let ppb = pi_last_freq s in
     if pi_count s = 0 then
       (s\<lparr>pi_offset0 := ofs, pi_local0 := local_ts, pi_count := 1, pi_last_freq := ppb\<rparr>,
        ppb, SERVO_UNLOCKED)
     else if pi_count s = 1 then
       (let s = s\<lparr>pi_offset1 := ofs, pi_local1 := local_ts\<rparr> in
        if pi_local0 s \<ge> pi_local1 s then
          (s\<lparr>pi_count := 0, pi_last_freq := ppb\<rparr>, ppb, SERVO_UNLOCKED)
        else
          let localdiff = fl (dbl_of_u64 fl (pi_local1 s - pi_local0 s) / 1000000000);
              localdiff = fl (localdiff + fl (localdiff * fl (1 / 1000)));
              freq_est_interval = (if pi_ki s = 0 then 1000 else fl (fl (16 / 1000) / pi_ki s));
              freq_est_interval = (if freq_est_interval > 1000 then 1000 else freq_est_interval)
          in if localdiff < freq_est_interval then (s\<lparr>pi_last_freq := ppb\<rparr>, ppb, SERVO_UNLOCKED)
             else
               let drift = fl (pi_drift s +
                     fl (fl (fl (1000000000 - pi_drift s) *
                             dbl_of_i64 fl (pi_offset1 s - pi_offset0 s)) /
                         dbl_of_u64 fl (pi_local1 s - pi_local0 s)));
                   drift = clamp (sv_max_frequency sv) drift
               in (s\<lparr>pi_drift := drift, pi_count := 2, pi_last_freq := drift\<rparr>, drift,
                   if beyond_threshold sv (dbl_of_i64 fl ofs) then SERVO_JUMP else SERVO_LOCKED))
     else if pi_count s = 2 then
       (if sv_step_threshold sv \<noteq> 0 \<and> sv_step_threshold sv < \<bar>dbl_of_i64 fl ofs\<bar>
        then (s\<lparr>pi_count := 0, pi_last_freq := ppb\<rparr>, ppb, SERVO_UNLOCKED)
        else
          let ki_term = fl (fl (pi_ki s * dbl_of_i64 fl ofs) * weight);
              ppb = fl (fl (fl (fl (pi_kp s * dbl_of_i64 fl ofs) * weight) + pi_drift s) + ki_term)
          in if ppb < - sv_max_frequency sv
             then (s\<lparr>pi_last_freq := - sv_max_frequency sv\<rparr>, - sv_max_frequency sv, SERVO_LOCKED)
             else if ppb > sv_max_frequency sv
             then (s\<lparr>pi_last_freq := sv_max_frequency sv\<rparr>, sv_max_frequency sv, SERVO_LOCKED)
             else (s\<lparr>pi_drift := fl (pi_drift s + ki_term), pi_last_freq := ppb\<rparr>, ppb, SERVO_LOCKED))
     else (s\<lparr>pi_last_freq := ppb\<rparr>, ppb, SERVO_UNLOCKED))"

text \<open>\<open>pow\<close> of a positive interval, correctly rounded.\<close>

definition pi_sync_interval :: "(real \<Rightarrow> real) \<Rightarrow> pi_servo \<Rightarrow> dbl \<Rightarrow> pi_servo" where
  "pi_sync_interval fl s interval =
    (let kp = fl (pi_kp_scale s * fl (interval powr pi_kp_exponent s));
         kp = (if kp > fl (pi_kp_norm_max s / interval) then fl (pi_kp_norm_max s / interval) else kp);
         ki = fl (pi_ki_scale s * fl (interval powr pi_ki_exponent s));
         ki = (if ki > fl (pi_ki_norm_max s / interval) then fl (pi_ki_norm_max s / interval) else ki)
     in s\<lparr>pi_kp := kp, pi_ki := ki\<rparr>)"

definition pi_reset :: "pi_servo \<Rightarrow> pi_servo" where
  "pi_reset s = s\<lparr>pi_count := 0\<rparr>"

definition pi_servo_create :: "(real \<Rightarrow> real) \<Rightarrow> bool \<Rightarrow> config \<Rightarrow> int \<Rightarrow> bool \<Rightarrow> pi_servo option" where
  "pi_servo_create fl mem cfg fadj sw_ts =
    (if \<not> mem then None
     else
       let kp = cfg_double cfg ''pi_proportional_const''; ki = cfg_double cfg ''pi_integral_const'';
           s = \<lparr>pi_offset0 = 0, pi_offset1 = 0, pi_local0 = 0, pi_local1 = 0,
             pi_drift = of_int fadj, pi_kp = 0, pi_ki = 0, pi_last_freq = of_int fadj, pi_count = 0,
             pi_kp_scale = cfg_double cfg ''pi_proportional_scale'',
             pi_kp_exponent = cfg_double cfg ''pi_proportional_exponent'',
             pi_kp_norm_max = cfg_double cfg ''pi_proportional_norm_max'',
             pi_ki_scale = cfg_double cfg ''pi_integral_scale'',
             pi_ki_exponent = cfg_double cfg ''pi_integral_exponent'',
             pi_ki_norm_max = cfg_double cfg ''pi_integral_norm_max''\<rparr>
       in Some (if kp \<noteq> 0 \<and> ki \<noteq> 0
          then s\<lparr>pi_kp_scale := kp, pi_ki_scale := ki, pi_kp_exponent := 0, pi_ki_exponent := 0,
                 pi_kp_norm_max := 1, pi_ki_norm_max := 2\<rparr>
          else if pi_kp_scale s = 0 \<or> pi_ki_scale s = 0
          then (if sw_ts then s\<lparr>pi_kp_scale := fl (1 / 10), pi_ki_scale := fl (1 / 1000)\<rparr>
                else s\<lparr>pi_kp_scale := fl (7 / 10), pi_ki_scale := fl (3 / 10)\<rparr>)
          else s))"

subsection \<open>The null frequency servo and the NTP shared memory servo\<close>

definition nullf_sample ::
  "(real \<Rightarrow> real) \<Rightarrow> servo \<Rightarrow> i64 \<Rightarrow> dbl \<times> servo_state" where
  "nullf_sample fl sv ofs =
    (if ofs = 0 then (0, SERVO_LOCKED)
     else (0, if beyond_threshold sv (dbl_of_i64 fl ofs) then SERVO_JUMP else SERVO_UNLOCKED))"

text \<open>The nanoseconds are below one second, so dividing them as unsigned words is what C does.\<close>

definition ntpshm_sample ::
  "ntpshm_servo \<Rightarrow> i64 \<Rightarrow> u64 \<Rightarrow> ntpshm_servo \<times> dbl \<times> servo_state" where
  "ntpshm_sample s ofs local_ts =
    (let clock_ts = local_ts - ofs;
         clock_ns = ucast (clock_ts mod 1000000000) :: i32;
         local_ns = ucast (local_ts mod 1000000000) :: i32;
         shm = (ntp_shm s)
           \<lparr>shm_mode := 1, shm_count := shm_count (ntp_shm s) + 1 + 1,
            shm_clockTimeStampSec := clock_ts div 1000000000,
            shm_clockTimeStampNSec := clock_ns, shm_clockTimeStampUSec := clock_ns div 1000,
            shm_receiveTimeStampSec := local_ts div 1000000000,
            shm_receiveTimeStampNSec := local_ns, shm_receiveTimeStampUSec := local_ns div 1000,
            shm_precision := -30,
            shm_leap := (if ntp_leap s = -1 then 2 else if ntp_leap s = 1 then 1 else 0),
            shm_valid := True\<rparr>
     in (s\<lparr>ntp_shm := shm\<rparr>, 0, SERVO_UNLOCKED))"

subsection \<open>The linear regression servo\<close>

abbreviation (input) MIN_SIZE :: nat where "MIN_SIZE \<equiv> 2"
abbreviation (input) MAX_SIZE :: nat where "MAX_SIZE \<equiv> 6"
abbreviation (input) MAX_POINTS :: nat where "MAX_POINTS \<equiv> 64"

definition move_reference :: "(real \<Rightarrow> real) \<Rightarrow> linreg_servo \<Rightarrow> i64 \<Rightarrow> i64 \<Rightarrow> linreg_servo" where
  "move_reference fl s x y =
     s\<lparr>lr_reference_x := lr_reference_x s + x, lr_reference_y := lr_reference_y s + y,
       lr_results := map (\<lambda>res. res\<lparr>r_intercept := fl (r_intercept res +
         fl (fl (dbl_of_i64 fl x * r_slope res) - dbl_of_i64 fl y))\<rparr>) (lr_results s)\<rparr>"

definition update_reference :: "(real \<Rightarrow> real) \<Rightarrow> linreg_servo \<Rightarrow> u64 \<Rightarrow> linreg_servo" where
  "update_reference fl s local_ts =
    (let s = (if lr_last_update s \<noteq> 0 then
                let y_interval = local_ts - lr_last_update s;
                    x_interval = fl (dbl_of_i64 fl y_interval / fl (1 + fl (lr_clock_freq s / 1000000000)));
                    x_interval = fl (x_interval + lr_x_remainder s);
                    s = s\<lparr>lr_x_remainder := fl (x_interval - dbl_of_i64 fl (dbl_to_i64 x_interval))\<rparr>
                in move_reference fl s (dbl_to_i64 x_interval) y_interval
              else s)
     in s\<lparr>lr_last_update := local_ts\<rparr>)"

definition add_sample :: "linreg_servo \<Rightarrow> i64 \<Rightarrow> dbl \<Rightarrow> linreg_servo" where
  "add_sample s ofs weight =
    (let last_point = (lr_last_point s + 1) mod MAX_POINTS
     in s\<lparr>lr_last_point := last_point,
          lr_points := (lr_points s)[last_point :=
            \<lparr>pt_x = lr_reference_x s, pt_y = lr_reference_y s - ofs, pt_w = weight\<rparr>],
          lr_num_points := (if lr_num_points s < MAX_POINTS then lr_num_points s + 1
                            else lr_num_points s)\<rparr>)"

record regsums =
  sm_x :: dbl
  sm_y :: dbl
  sm_xy :: dbl
  sm_x2 :: dbl
  sm_w :: dbl

definition zero_sums :: regsums where
  "zero_sums = \<lparr>sm_x = 0, sm_y = 0, sm_xy = 0, sm_x2 = 0, sm_w = 0\<rparr>"

text \<open>Coordinates of the point that is \<open>i\<close> places older than the newest one.\<close>

definition nth_newest :: "linreg_servo \<Rightarrow> nat \<Rightarrow> point" where
  "nth_newest s i = lr_points s ! ((MAX_POINTS + lr_last_point s - i) mod MAX_POINTS)"

definition point_x :: "(real \<Rightarrow> real) \<Rightarrow> linreg_servo \<Rightarrow> nat \<Rightarrow> dbl" where
  "point_x fl s i = dbl_of_i64 fl (pt_x (nth_newest s i) - lr_reference_x s)"

definition point_y :: "(real \<Rightarrow> real) \<Rightarrow> linreg_servo \<Rightarrow> nat \<Rightarrow> dbl" where
  "point_y fl s i = dbl_of_i64 fl (pt_y (nth_newest s i) - lr_reference_y s)"

definition add_to_sums :: "(real \<Rightarrow> real) \<Rightarrow> linreg_servo \<Rightarrow> nat \<Rightarrow> regsums \<Rightarrow> regsums" where
  "add_to_sums fl s i sm =
    (let x = point_x fl s i; y = point_y fl s i; w = pt_w (nth_newest s i)
     in \<lparr>sm_x = fl (sm_x sm + fl (x * w)), sm_y = fl (sm_y sm + fl (y * w)),
         sm_xy = fl (sm_xy sm + fl (fl (x * y) * w)), sm_x2 = fl (sm_x2 sm + fl (fl (x * x) * w)),
         sm_w = fl (sm_w sm + w)\<rparr>)"

definition update_err :: "(real \<Rightarrow> real) \<Rightarrow> dbl \<Rightarrow> result \<Rightarrow> result" where
  "update_err fl y0 res =
    (if r_slope res \<noteq> 0 then
       let e = \<bar>fl (r_intercept res - y0)\<bar> in
       if r_err_updates res < 10 then
         (let err = fl (r_err res * of_nat (r_err_updates res)); err = fl (err + e);
              n = r_err_updates res + 1
          in res\<lparr>r_err_updates := n, r_err := fl (err / of_nat n)\<rparr>)
       else res\<lparr>r_err := fl (r_err res + fl (fl (2 / 100) * fl (e - r_err res)))\<rparr>
     else res)"

definition fit :: "(real \<Rightarrow> real) \<Rightarrow> regsums \<Rightarrow> result \<Rightarrow> result" where
  "fit fl sm res =
    (let slope = fl (fl (sm_xy sm - fl (fl (sm_x sm * sm_y sm) / sm_w sm)) /
                     fl (sm_x2 sm - fl (fl (sm_x sm * sm_x sm) / sm_w sm)))
     in res\<lparr>r_slope := slope,
            r_intercept := fl (fl (sm_y sm - fl (slope * sm_x sm)) / sm_w sm)\<rparr>)"

text \<open>
  The loop over the sizes from \<open>sz\<close> up; \<open>i\<close> points are in the sums already.  It stops at the
  first size for which there are not enough points.
\<close>

fun regress_sizes ::
  "(real \<Rightarrow> real) \<Rightarrow> linreg_servo \<Rightarrow> dbl \<Rightarrow> nat list \<Rightarrow> nat \<Rightarrow> regsums \<Rightarrow> result list \<Rightarrow> result list" where
  "regress_sizes fl s y0 [] i sm results = results"
| "regress_sizes fl s y0 (sz # szs) i sm results =
    (let n = 2 ^ sz in
     if n > lr_num_points s then results
     else
       let sm = fold (add_to_sums fl s) [i..<n] sm;
           k = sz - MIN_SIZE;
           res = fit fl sm (update_err fl y0 (results ! k))
       in regress_sizes fl s y0 szs (max i n) sm (results[k := res]))"

definition regress :: "(real \<Rightarrow> real) \<Rightarrow> linreg_servo \<Rightarrow> linreg_servo" where
  "regress fl s = s\<lparr>lr_results := regress_sizes fl s (point_y fl s 0)
     [MIN_SIZE..<MAX_SIZE + 1] 0 zero_sums (lr_results s)\<rparr>"

fun best_size_loop :: "(real \<Rightarrow> real) \<Rightarrow> result list \<Rightarrow> nat list \<Rightarrow> nat \<Rightarrow> dbl \<Rightarrow> nat" where
  "best_size_loop fl results [] best_size best_err = best_size"
| "best_size_loop fl results (sz # szs) best_size best_err =
    (let res = results ! (sz - MIN_SIZE) in
     if (best_size = 0 \<and> r_slope res \<noteq> 0) \<or>
        (fl (best_err * fl (105 / 100)) > r_err res \<and> r_err_updates res \<ge> 10)
     then best_size_loop fl results szs sz (r_err res)
     else best_size_loop fl results szs best_size best_err)"

definition update_size :: "(real \<Rightarrow> real) \<Rightarrow> linreg_servo \<Rightarrow> linreg_servo" where
  "update_size fl s =
     s\<lparr>lr_size := best_size_loop fl (lr_results s) [MIN_SIZE..<MAX_SIZE + 1] 0 0\<rparr>"

definition limit_freq :: "dbl \<Rightarrow> dbl \<Rightarrow> dbl" where
  "limit_freq m x = (if x > m then m else if x < - m then - m else x)"

text \<open>The second half of \<open>linreg_sample\<close>, with enough points for a regression.\<close>

definition linreg_correct ::
  "(real \<Rightarrow> real) \<Rightarrow> servo \<Rightarrow> linreg_servo \<Rightarrow> i64 \<Rightarrow> linreg_servo \<times> dbl \<times> servo_state" where
  "linreg_correct fl sv s ofs =
    (let k = lr_size s - MIN_SIZE;
         jump = beyond_threshold sv (r_intercept (lr_results s ! k));
         s = (if jump then (move_reference fl s 0 (- ofs))\<lparr>lr_last_update := lr_last_update s - ofs\<rparr>
              else s);
         res = lr_results s ! k;
         freq = fl (1000000000 * fl (r_slope res - 1));
         corr_interval = (if lr_size s \<le> 4 then 1 else lr_size s div 2);
         freq = fl (freq + fl (fl (r_intercept res / lr_update_interval s) / of_nat corr_interval));
         freq = limit_freq (sv_max_frequency sv) freq;
         s = s\<lparr>lr_clock_freq := freq,
               lr_frequency_ratio := fl (r_slope res / fl (1 + fl (freq / 1000000000)))\<rparr>
     in (s, - lr_clock_freq s, if jump then SERVO_JUMP else SERVO_LOCKED))"

definition linreg_sample ::
  "(real \<Rightarrow> real) \<Rightarrow> servo \<Rightarrow> linreg_servo \<Rightarrow> i64 \<Rightarrow> u64 \<Rightarrow> dbl \<Rightarrow>
   linreg_servo \<times> dbl \<times> servo_state" where
  "linreg_sample fl sv s ofs local_ts weight =
    (let s = update_size fl (regress fl (add_sample (update_reference fl s local_ts) ofs weight)) in
     if lr_size s < MIN_SIZE then (s, - lr_clock_freq s, SERVO_UNLOCKED)
     else linreg_correct fl sv s ofs)"

definition linreg_reset :: "linreg_servo \<Rightarrow> linreg_servo" where
  "linreg_reset s = s\<lparr>lr_num_points := 0, lr_last_update := 0, lr_size := 0, lr_frequency_ratio := 1,
     lr_results := map (\<lambda>res. res\<lparr>r_slope := 0, r_err_updates := 0\<rparr>) (lr_results s)\<rparr>"

definition linreg_leap :: "(real \<Rightarrow> real) \<Rightarrow> linreg_servo \<Rightarrow> int \<Rightarrow> linreg_servo" where
  "linreg_leap fl s leap =
    (let s = (if lr_leap s \<noteq> 0 \<and> leap = 0
              then move_reference fl s 0 (word_of_int (lr_leap s * 1000000000)) else s)
     in s\<lparr>lr_leap := leap\<rparr>)"

definition linreg_servo_create :: "bool \<Rightarrow> int \<Rightarrow> linreg_servo option" where
  "linreg_servo_create mem fadj =
    (if \<not> mem then None
     else Some \<lparr>lr_points = replicate MAX_POINTS \<lparr>pt_x = 0, pt_y = 0, pt_w = 0\<rparr>,
       lr_reference_x = 0, lr_reference_y = 0, lr_num_points = 0, lr_last_point = 0,
       lr_x_remainder = 0, lr_last_update = 0,
       lr_results = replicate (MAX_SIZE - MIN_SIZE + 1)
         \<lparr>r_slope = 0, r_intercept = 0, r_err = 0, r_err_updates = 0\<rparr>,
       lr_size = 0, lr_clock_freq = of_int (- fadj), lr_update_interval = 0, lr_frequency_ratio = 1,
       lr_leap = 0\<rparr>)"

subsection \<open>The servo interface\<close>

text \<open>
  \<open>struct servo\<close> is the common part and a table of function pointers; the calls through it are a
  case distinction on the kind of servo (src/servo.c).
\<close>

definition servo_impl_sample ::
  "(real \<Rightarrow> real) \<Rightarrow> servo \<Rightarrow> i64 \<Rightarrow> u64 \<Rightarrow> dbl \<Rightarrow> servo_impl \<times> dbl \<times> servo_state" where
  "servo_impl_sample fl sv ofs local_ts weight =
    (case sv_impl sv of
       ServoPi s \<Rightarrow> (case pi_sample fl sv s ofs local_ts weight of (s', r, st) \<Rightarrow> (ServoPi s', r, st))
     | ServoLinreg s \<Rightarrow>
         (case linreg_sample fl sv s ofs local_ts weight of (s', r, st) \<Rightarrow> (ServoLinreg s', r, st))
     | ServoNtpshm s \<Rightarrow>
         (case ntpshm_sample s ofs local_ts of (s', r, st) \<Rightarrow> (ServoNtpshm s', r, st))
     | ServoNullf \<Rightarrow> (case nullf_sample fl sv ofs of (r, st) \<Rightarrow> (ServoNullf, r, st)))"

definition servo_sample ::
  "(real \<Rightarrow> real) \<Rightarrow> servo \<Rightarrow> i64 \<Rightarrow> u64 \<Rightarrow> dbl \<Rightarrow> servo \<times> dbl \<times> servo_state" where
  "servo_sample fl sv ofs local_ts weight =
    (case servo_impl_sample fl sv ofs local_ts weight of (impl, r, st) \<Rightarrow>
       (sv\<lparr>sv_impl := impl,
           sv_first_update := (if st \<noteq> SERVO_UNLOCKED then False else sv_first_update sv)\<rparr>, r, st))"

definition servo_sync_interval :: "(real \<Rightarrow> real) \<Rightarrow> servo \<Rightarrow> dbl \<Rightarrow> servo" where
  "servo_sync_interval fl sv interval =
    (case sv_impl sv of
       ServoPi s \<Rightarrow> sv\<lparr>sv_impl := ServoPi (pi_sync_interval fl s interval)\<rparr>
     | ServoLinreg s \<Rightarrow> sv\<lparr>sv_impl := ServoLinreg (s\<lparr>lr_update_interval := interval\<rparr>)\<rparr>
     | _ \<Rightarrow> sv)"

definition servo_reset :: "servo \<Rightarrow> servo" where
  "servo_reset sv =
    (case sv_impl sv of
       ServoPi s \<Rightarrow> sv\<lparr>sv_impl := ServoPi (pi_reset s)\<rparr>
     | ServoLinreg s \<Rightarrow> sv\<lparr>sv_impl := ServoLinreg (linreg_reset s)\<rparr>
     | _ \<Rightarrow> sv)"

definition servo_rate_ratio :: "servo \<Rightarrow> dbl" where
  "servo_rate_ratio sv = (case sv_impl sv of ServoLinreg s \<Rightarrow> lr_frequency_ratio s | _ \<Rightarrow> 1)"

definition servo_leap :: "(real \<Rightarrow> real) \<Rightarrow> servo \<Rightarrow> int \<Rightarrow> servo" where
  "servo_leap fl sv leap =
    (case sv_impl sv of
       ServoLinreg s \<Rightarrow> sv\<lparr>sv_impl := ServoLinreg (linreg_leap fl s leap)\<rparr>
     | ServoNtpshm s \<Rightarrow> sv\<lparr>sv_impl := ServoNtpshm (s\<lparr>ntp_leap := leap\<rparr>)\<rparr>
     | _ \<Rightarrow> sv)"

definition zero_shm :: shmTime where
  "zero_shm = \<lparr>shm_mode = 0, shm_count = 0, shm_clockTimeStampSec = 0, shm_clockTimeStampUSec = 0,
     shm_receiveTimeStampSec = 0, shm_receiveTimeStampUSec = 0, shm_leap = 0, shm_precision = 0,
     shm_valid = False, shm_clockTimeStampNSec = 0, shm_receiveTimeStampNSec = 0\<rparr>"

text \<open>\<open>shm\<close> is the shared memory segment attached, if the system provides one.\<close>

definition servo_create ::
  "(real \<Rightarrow> real) \<Rightarrow> bool \<Rightarrow> shmTime option \<Rightarrow> config \<Rightarrow> servo_type \<Rightarrow> int \<Rightarrow> int \<Rightarrow> bool \<Rightarrow>
   servo option" where
  "servo_create fl mem shm cfg type fadj max_ppb sw_ts =
    (let impl = (case type of
           CLOCK_SERVO_PI \<Rightarrow> map_option ServoPi (pi_servo_create fl mem cfg fadj sw_ts)
         | CLOCK_SERVO_LINREG \<Rightarrow> map_option ServoLinreg (linreg_servo_create mem fadj)
         | CLOCK_SERVO_NTPSHM \<Rightarrow>
             (if mem then map_option (\<lambda>m. ServoNtpshm \<lparr>ntp_shm = m, ntp_leap = 0\<rparr>) shm else None)
         | CLOCK_SERVO_NULLF \<Rightarrow> (if mem then Some ServoNullf else None));
         threshold = (\<lambda>x. if x > 0 then fl (x * 1000000000) else 0);
         limit = cfg_int cfg ''max_frequency''
     in map_option (\<lambda>i.
       \<lparr>sv_max_frequency = (if limit \<noteq> 0 \<and> max_ppb > limit then of_int limit else of_int max_ppb),
        sv_step_threshold = threshold (cfg_double cfg ''step_threshold''),
        sv_first_step_threshold = threshold (cfg_double cfg ''first_step_threshold''),
        sv_first_update = True, sv_impl = i\<rparr>) impl)"

subsection \<open>Lemmas\<close>

lemma clamp_bounds: "0 \<le> m \<Longrightarrow> \<bar>clamp m x\<bar> \<le> m"
  by (auto simp: clamp_def)

lemma servo_sample_thresholds:
  assumes "servo_sample fl sv ofs ts w = (sv', r, st)"
  shows "sv_step_threshold sv' = sv_step_threshold sv"
    and "sv_first_step_threshold sv' = sv_first_step_threshold sv"
    and "sv_max_frequency sv' = sv_max_frequency sv"
    and "sv_first_update sv' = (sv_first_update sv \<and> st = SERVO_UNLOCKED)"
  using assms by (auto simp: servo_sample_def split: prod.splits if_splits)

text \<open>Every servo asks for a step on the shared test only.\<close>

lemma pi_jump:
  "pi_sample fl sv s ofs ts w = (s', r, SERVO_JUMP) \<Longrightarrow> beyond_threshold sv (dbl_of_i64 fl ofs)"
  by (auto simp: pi_sample_def Let_def split: if_splits)

lemma linreg_jump:
  assumes "linreg_sample fl sv s ofs ts w = (s', r, SERVO_JUMP)"
  shows "\<exists>x. beyond_threshold sv x"
proof -
  have "\<exists>x. beyond_threshold sv x" if "linreg_correct fl sv s1 ofs = (s', r, SERVO_JUMP)" for s1
    using that by (auto simp: linreg_correct_def Let_def split: if_split_asm)
  with assms show ?thesis by (auto simp: linreg_sample_def Let_def split: if_split_asm)
qed

lemma servo_jump:
  assumes "servo_sample fl sv ofs ts w = (sv', r, SERVO_JUMP)"
  shows "\<exists>x. beyond_threshold sv x"
  using assms pi_jump linreg_jump
  by (fastforce simp: servo_sample_def servo_impl_sample_def ntpshm_sample_def nullf_sample_def Let_def
      split: servo_impl.splits prod.splits if_splits)

lemma jump_first_update:
  "beyond_threshold sv x \<Longrightarrow> sv_step_threshold sv = 0 \<Longrightarrow> sv_first_update sv"
  by (auto simp: beyond_threshold_def)

lemma pi_sample_bounds:
  assumes "pi_sample fl sv s ofs ts w = (s', r, st)" and "st \<noteq> SERVO_UNLOCKED"
    and "0 \<le> sv_max_frequency sv"
  shows "\<bar>r\<bar> \<le> sv_max_frequency sv"
  using assms clamp_bounds [OF assms(3)] by (auto simp: pi_sample_def Let_def split: if_splits)

lemma linreg_sample_bounds:
  assumes "linreg_sample fl sv s ofs ts w = (s', r, st)" and "st \<noteq> SERVO_UNLOCKED"
    and "0 \<le> sv_max_frequency sv"
  shows "\<bar>r\<bar> \<le> sv_max_frequency sv"
proof -
  have "\<exists>f. r = - limit_freq (sv_max_frequency sv) f" if "linreg_correct fl sv s1 ofs = (s', r, st)" for s1
    using that by (simp add: linreg_correct_def Let_def) blast
  then have "\<exists>f. r = - limit_freq (sv_max_frequency sv) f"
    using assms(1,2) by (auto simp: linreg_sample_def Let_def split: if_split_asm)
  then show ?thesis using assms(3) by (auto simp: limit_freq_def)
qed

subsubsection \<open>The invariant of the PI servo\<close>

text \<open>
  The integral term stays within the frequency limit (no wind-up): it is only accumulated while
  the sum is within the limit, and the proportional term has the sign of the integral one.
\<close>

definition pi_wf :: "(real \<Rightarrow> real) \<Rightarrow> dbl \<Rightarrow> pi_servo \<Rightarrow> bool" where
  "pi_wf fl m s \<longleftrightarrow> 0 \<le> pi_kp s \<and> 0 \<le> pi_ki s \<and> fl (pi_drift s) = pi_drift s \<and>
     \<bar>pi_drift s\<bar> \<le> m \<and> \<bar>pi_last_freq s\<bar> \<le> m"

lemma fl_sign:
  assumes "rounding fl"
  shows "0 \<le> x \<Longrightarrow> 0 \<le> fl x" and "x \<le> 0 \<Longrightarrow> fl x \<le> 0"
  using rounding_mono [OF assms, of 0 x] rounding_mono [OF assms, of x 0] rounding_0_1 [OF assms]
  by simp_all

lemma fl_idem: "rounding fl \<Longrightarrow> fl (fl x) = fl x"
  by (simp add: rounding_def)

lemma pi_drift_bounds:
  assumes fl: "rounding fl" and d: "fl d = d" "\<bar>d\<bar> \<le> m" and k: "0 \<le> p \<and> 0 \<le> i \<or> p \<le> 0 \<and> i \<le> 0"
    and b: "\<bar>fl (fl (p + d) + i)\<bar> \<le> m"
  shows "\<bar>fl (d + i)\<bar> \<le> m"
  using k
proof
  assume k: "0 \<le> p \<and> 0 \<le> i"
  have "d \<le> fl (d + i)" using rounding_mono [OF fl, of d "d + i"] k d by simp
  moreover have "d \<le> fl (p + d)" using rounding_mono [OF fl, of d "p + d"] k d by simp
  then have "fl (d + i) \<le> fl (fl (p + d) + i)" by (intro rounding_mono [OF fl]) simp
  ultimately show ?thesis using d b by simp
next
  assume k: "p \<le> 0 \<and> i \<le> 0"
  have "fl (d + i) \<le> d" using rounding_mono [OF fl, of "d + i" d] k d by simp
  moreover have "fl (p + d) \<le> d" using rounding_mono [OF fl, of "p + d" d] k d by simp
  then have "fl (fl (p + d) + i) \<le> fl (d + i)" by (intro rounding_mono [OF fl]) simp
  ultimately show ?thesis using d b by simp
qed

lemma weighted_sign:
  assumes fl: "rounding fl" and w: "0 \<le> w" and k: "0 \<le> k" "0 \<le> k'"
  shows "0 \<le> fl (fl (k * x) * w) \<and> 0 \<le> fl (fl (k' * x) * w) \<or>
    fl (fl (k * x) * w) \<le> 0 \<and> fl (fl (k' * x) * w) \<le> 0"
proof (cases "0 \<le> x")
  case True
  then have "0 \<le> fl (k * x)" "0 \<le> fl (k' * x)" using k by (simp_all add: fl_sign [OF fl])
  then show ?thesis using w by (simp add: fl_sign [OF fl])
next
  case False
  then have "k * x \<le> 0" "k' * x \<le> 0" using k by (simp_all add: mult_nonneg_nonpos)
  then have "fl (k * x) \<le> 0" "fl (k' * x) \<le> 0" by (simp_all add: fl_sign [OF fl])
  then have "fl (k * x) * w \<le> 0" "fl (k' * x) * w \<le> 0" using w by (simp_all add: mult_nonpos_nonneg)
  then show ?thesis by (simp add: fl_sign [OF fl])
qed

lemma pi_sample_estimate:
  assumes "pi_sample fl sv s ofs ts w = (s', r, st)" and "pi_count s \<noteq> 2"
  shows "pi_kp s' = pi_kp s \<and> pi_ki s' = pi_ki s \<and> pi_last_freq s' = r \<and>
    (pi_drift s' = pi_drift s \<and> r = pi_last_freq s \<or>
     (\<exists>x. pi_drift s' = clamp (sv_max_frequency sv) (fl x) \<and> r = clamp (sv_max_frequency sv) (fl x)))"
  using assms by (auto simp: pi_sample_def Let_def split: if_splits)

lemma pi_sample_wf:
  assumes fl: "rounding fl" and m: "fl (sv_max_frequency sv) = sv_max_frequency sv"
    "fl (- sv_max_frequency sv) = - sv_max_frequency sv" and wf: "pi_wf fl (sv_max_frequency sv) s"
    and w: "0 \<le> w" and step: "pi_sample fl sv s ofs ts w = (s', r, st)"
  shows "pi_wf fl (sv_max_frequency sv) s' \<and> \<bar>r\<bar> \<le> sv_max_frequency sv"
proof -
  let ?m = "sv_max_frequency sv"
  have pos: "0 \<le> ?m" using wf by (auto simp: pi_wf_def)
  have clamp: "fl (clamp ?m (fl x)) = clamp ?m (fl x)" for x
    using m fl_idem [OF fl] by (simp add: clamp_def)
  have drift: "\<bar>fl (pi_drift s + fl (fl (pi_ki s * dbl_of_i64 fl ofs) * w))\<bar> \<le> ?m"
    if "\<bar>fl (fl (fl (fl (pi_kp s * dbl_of_i64 fl ofs) * w) + pi_drift s) +
        fl (fl (pi_ki s * dbl_of_i64 fl ofs) * w))\<bar> \<le> ?m"
    using pi_drift_bounds [OF fl _ _ weighted_sign [OF fl w, of "pi_kp s" "pi_ki s"] that] wf
    by (simp add: pi_wf_def)
  note wf' = wf [unfolded pi_wf_def]
  show ?thesis
  proof (cases "pi_count s = 2")
    case False
    from pi_sample_estimate [OF step this] show ?thesis
      using wf' clamp clamp_bounds [OF pos] by (auto simp: pi_wf_def)
  next
    case two: True
    let ?i = "fl (fl (pi_ki s * dbl_of_i64 fl ofs) * w)"
    let ?ppb = "fl (fl (fl (fl (pi_kp s * dbl_of_i64 fl ofs) * w) + pi_drift s) + ?i)"
    have "pi_sample fl sv s ofs ts w = (if sv_step_threshold sv \<noteq> 0 \<and> sv_step_threshold sv < \<bar>dbl_of_i64 fl ofs\<bar>
        then (s\<lparr>pi_count := 0, pi_last_freq := pi_last_freq s\<rparr>, pi_last_freq s, SERVO_UNLOCKED)
        else if ?ppb < - ?m then (s\<lparr>pi_last_freq := - ?m\<rparr>, - ?m, SERVO_LOCKED)
        else if ?ppb > ?m then (s\<lparr>pi_last_freq := ?m\<rparr>, ?m, SERVO_LOCKED)
        else (s\<lparr>pi_drift := fl (pi_drift s + ?i), pi_last_freq := ?ppb\<rparr>, ?ppb, SERVO_LOCKED))"
      using two by (simp add: pi_sample_def Let_def)
    note st = this [unfolded step, symmetric]
    show ?thesis
    proof (cases "sv_step_threshold sv \<noteq> 0 \<and> sv_step_threshold sv < \<bar>dbl_of_i64 fl ofs\<bar>")
      case True
      with st wf' show ?thesis by (auto simp: pi_wf_def)
    next
      case no_reset: False
      consider "?ppb < - ?m" | "\<not> ?ppb < - ?m" "?ppb > ?m" | "\<bar>?ppb\<bar> \<le> ?m" by linarith
      then show ?thesis
      proof cases
        case 3
        then have "\<not> ?ppb < - ?m" "\<not> ?ppb > ?m" by linarith+
        with st no_reset have "s' = s\<lparr>pi_drift := fl (pi_drift s + ?i), pi_last_freq := ?ppb\<rparr>" "r = ?ppb"
          by (simp_all only: if_False) auto
        then show ?thesis
          using wf' drift [OF 3] 3 fl_idem [OF fl] by (simp add: pi_wf_def)
      qed (use st no_reset wf' pos in \<open>auto simp: pi_wf_def\<close>)
    qed
  qed
qed

subsubsection \<open>Linear regression on exact data\<close>

definition exact :: "real \<Rightarrow> real" where
  "exact x = x"

lemma fold_sums:
  "fold (add_to_sums exact s) [0..<n] zero_sums =
    \<lparr>sm_x = (\<Sum>i<n. point_x exact s i * pt_w (nth_newest s i)),
     sm_y = (\<Sum>i<n. point_y exact s i * pt_w (nth_newest s i)),
     sm_xy = (\<Sum>i<n. point_x exact s i * point_y exact s i * pt_w (nth_newest s i)),
     sm_x2 = (\<Sum>i<n. point_x exact s i * point_x exact s i * pt_w (nth_newest s i)),
     sm_w = (\<Sum>i<n. pt_w (nth_newest s i))\<rparr>"
  by (induction n) (simp_all add: zero_sums_def add_to_sums_def exact_def Let_def)

lemma regress_sizes_nth:
  assumes "k \<in> set szs" and "szs = [a..<7]" and "2 \<le> a" and "length results = 5"
    and "2 ^ k \<le> lr_num_points s" and "i \<le> 2 ^ a"
    and "sm = fold (add_to_sums fl s) [0..<i] zero_sums"
  shows "\<exists>res. regress_sizes fl s y0 szs i sm results ! (k - 2) =
    fit fl (fold (add_to_sums fl s) [0..<2 ^ k] zero_sums) res"
  using assms
proof (induction szs arbitrary: a i sm results)
  case (Cons sz szs)
  have a: "sz = a" "szs = [Suc a..<7]" "a < 7"
    using Cons.prems(2) [symmetric] by (auto simp: upt_eq_Cons_conv)
  have "a \<le> k" using Cons.prems(1) a by auto
  then have le: "(2::nat) ^ a \<le> 2 ^ k" by (simp add: power_increasing)
  then have enough: "\<not> 2 ^ a > lr_num_points s" using Cons.prems(5) by linarith
  let ?sm = "fold (add_to_sums fl s) [0..<2 ^ a] zero_sums"
  have sm: "fold (add_to_sums fl s) [i..<2 ^ a] sm = ?sm"
    using upt_add_eq_append [of 0 i "2 ^ a - i"] Cons.prems(6) by (simp add: Cons.prems(7))
  let ?res = "fit fl ?sm (update_err fl y0 (results ! (a - 2)))"
  have step: "regress_sizes fl s y0 (sz # szs) i sm results =
      regress_sizes fl s y0 szs (2 ^ a) ?sm (results[a - 2 := ?res])"
    using enough Cons.prems(6) by (simp add: a(1) Let_def sm max_def)
  show ?case
  proof (cases "k = a")
    case False
    then have "k \<in> set szs" using Cons.prems(1) a by auto
    from Cons.IH [OF this a(2), of "results[a - 2 := ?res]" "2 ^ a" ?sm] show ?thesis
      using Cons.prems(3,4,5) by (simp only: step) simp
  next
    case True
    have keep: "regress_sizes fl s y0 ys j sm' rs ! (a - 2) = rs ! (a - 2)"
      if "\<forall>y \<in> set ys. a < y" for ys j sm' rs
      using that
    proof (induction ys arbitrary: j sm' rs)
      case (Cons y ys)
      then have "y - 2 \<noteq> a - 2" using \<open>2 \<le> a\<close> by auto
      then show ?case using Cons by (simp add: Let_def)
    qed simp
    have "regress_sizes fl s y0 szs (2 ^ a) ?sm (results[a - 2 := ?res]) ! (a - 2) = ?res"
      using a Cons.prems(3,4) by (subst keep) auto
    then show ?thesis by (simp only: step True) blast
  qed
qed simp

lemma fit_exact:
  fixes res
  assumes y: "\<And>i. i < n \<Longrightarrow> point_y exact s i = a * point_x exact s i + b"
    and w: "(\<Sum>i<n. pt_w (nth_newest s i)) \<noteq> 0"
    and x: "(\<Sum>i<n. pt_w (nth_newest s i)) *
        (\<Sum>i<n. point_x exact s i * point_x exact s i * pt_w (nth_newest s i)) \<noteq>
      (\<Sum>i<n. point_x exact s i * pt_w (nth_newest s i))\<^sup>2"
  defines "res' \<equiv> fit exact (fold (add_to_sums exact s) [0..<n] zero_sums) res"
  shows "r_slope res' = a \<and> r_intercept res' = b"
proof -
  let ?W = "\<Sum>i<n. pt_w (nth_newest s i)"
  let ?X = "\<Sum>i<n. point_x exact s i * pt_w (nth_newest s i)"
  let ?Q = "\<Sum>i<n. point_x exact s i * point_x exact s i * pt_w (nth_newest s i)"
  have Y: "(\<Sum>i<n. point_y exact s i * pt_w (nth_newest s i)) = a * ?X + b * ?W"
    by (simp add: y sum.distrib sum_distrib_left algebra_simps)
  have XY: "(\<Sum>i<n. point_x exact s i * point_y exact s i * pt_w (nth_newest s i)) = a * ?Q + b * ?X"
    by (simp add: y sum.distrib sum_distrib_left algebra_simps)
  have det: "?Q - ?X * ?X / ?W \<noteq> 0" using x w by (simp add: field_simps power2_eq_square)
  have "a * ?Q + b * ?X - ?X * (a * ?X + b * ?W) / ?W = a * (?Q - ?X * ?X / ?W)"
    using w by (simp add: field_simps)
  then have "r_slope res' = a"
    using det by (simp add: res'_def fit_def fold_sums Y XY exact_def Let_def)
  moreover have "r_intercept res' = (a * ?X + b * ?W - r_slope res' * ?X) / ?W"
    by (simp add: res'_def fit_def fold_sums Y exact_def Let_def)
  ultimately show ?thesis using w by simp
qed

subsection \<open>Properties\<close>

text \<open>A sequence of samples (offset, local time, weight) and the outputs of the servo.\<close>

fun servo_run ::
  "(real \<Rightarrow> real) \<Rightarrow> servo \<Rightarrow> (i64 \<times> u64 \<times> dbl) list \<Rightarrow> servo \<times> (dbl \<times> servo_state) list" where
  "servo_run fl sv [] = (sv, [])"
| "servo_run fl sv ((ofs, ts, w) # xs) =
    (case servo_sample fl sv ofs ts w of (sv1, r, st) \<Rightarrow>
       (case servo_run fl sv1 xs of (sv2, outs) \<Rightarrow> (sv2, (r, st) # outs)))"

lemma servo_run_Cons:
  assumes "servo_run fl sv ((ofs, ts, w) # xs) = (sv', outs)"
  obtains sv1 r st outs1 where "servo_sample fl sv ofs ts w = (sv1, r, st)"
    and "servo_run fl sv1 xs = (sv', outs1)" and "outs = (r, st) # outs1"
  using assms by (auto split: prod.splits)

definition jumps :: "(dbl \<times> servo_state) list \<Rightarrow> nat" where
  "jumps outs = length (filter (\<lambda>x. snd x = SERVO_JUMP) outs)"

lemma no_jump_after_first_update:
  "servo_run fl sv xs = (sv', outs) \<Longrightarrow> sv_step_threshold sv = 0 \<Longrightarrow> \<not> sv_first_update sv \<Longrightarrow> jumps outs = 0"
proof (induction xs arbitrary: sv outs)
  case (Cons x xs)
  obtain ofs ts w where x: "x = (ofs, ts, w)" by (metis prod_cases3)
  obtain sv1 r st outs1 where s: "servo_sample fl sv ofs ts w = (sv1, r, st)"
    "servo_run fl sv1 xs = (sv', outs1)" "outs = (r, st) # outs1"
    using servo_run_Cons [OF Cons.prems(1) [unfolded x]] by metis
  have "st \<noteq> SERVO_JUMP"
    using s(1) servo_jump [of fl sv ofs ts w sv1 r] jump_first_update [of sv] Cons.prems(2,3) by blast
  moreover have "jumps outs1 = 0"
    using Cons.IH [OF s(2)] servo_sample_thresholds [OF s(1)] Cons.prems(2,3) by simp
  ultimately show ?case by (simp add: s(3) jumps_def)
qed (simp add: jumps_def)

text \<open>
  C33: With \<open>step_threshold\<close> 0 (the default) every servo asks to step the clock at most once in
  its life, whatever the offsets: only before its first update, and only when
  \<open>first_step_threshold\<close> is set.
\<close>

theorem clock_stepped_at_most_once:
  assumes "sv_step_threshold sv = 0" and "servo_run fl sv xs = (sv', outs)"
  shows "jumps outs \<le> (if sv_first_update sv \<and> sv_first_step_threshold sv \<noteq> 0 then 1 else 0)"
  using assms
proof (induction xs arbitrary: sv outs)
  case (Cons x xs)
  obtain ofs ts w where x: "x = (ofs, ts, w)" by (metis prod_cases3)
  obtain sv1 r st outs1 where s: "servo_sample fl sv ofs ts w = (sv1, r, st)"
    "servo_run fl sv1 xs = (sv', outs1)" "outs = (r, st) # outs1"
    using servo_run_Cons [OF Cons.prems(2) [unfolded x]] by metis
  note th = servo_sample_thresholds [OF s(1)]
  show ?case
  proof (cases "st = SERVO_JUMP")
    case True
    then obtain y where "beyond_threshold sv y" using servo_jump s(1) by blast
    then have "sv_first_update sv \<and> sv_first_step_threshold sv \<noteq> 0"
      using Cons.prems(1) by (auto simp: beyond_threshold_def)
    moreover have "jumps outs1 = 0"
      using no_jump_after_first_update [OF s(2)] th Cons.prems(1) True by simp
    ultimately show ?thesis using True by (simp add: s(3) jumps_def)
  next
    case False
    then have "jumps outs = jumps outs1" by (simp add: s(3) jumps_def)
    with Cons.IH [OF _ s(2)] th Cons.prems(1) show ?thesis by (auto split: if_splits)
  qed
qed (simp add: jumps_def)

text \<open>
  C34: Whenever a servo reports that the clock is to be stepped or is locked, the frequency
  adjustment that it returns lies within the maximum frequency, for every kind of servo and
  every rounding of the floating point operations.  (A servo that is not locked returns the
  frequency that the clock has, which nothing limits.)
\<close>

theorem adjustment_within_limit:
  assumes "servo_sample fl sv ofs ts w = (sv', adj, st)" and "st \<noteq> SERVO_UNLOCKED"
    and "0 \<le> sv_max_frequency sv"
  shows "\<bar>adj\<bar> \<le> sv_max_frequency sv"
  using assms pi_sample_bounds linreg_sample_bounds
  by (fastforce simp: servo_sample_def servo_impl_sample_def ntpshm_sample_def nullf_sample_def Let_def
      split: servo_impl.splits prod.splits if_splits)

text \<open>
  The integral term of the PI servo never winds up: over any sequence of samples with
  non-negative weights the drift and every frequency returned, locked or not, stay within the
  maximum frequency.
\<close>

theorem pi_no_windup:
  assumes "rounding fl" and "fl (sv_max_frequency sv) = sv_max_frequency sv"
    and "fl (- sv_max_frequency sv) = - sv_max_frequency sv"
    and "sv_impl sv = ServoPi s" and "pi_wf fl (sv_max_frequency sv) s"
    and "\<forall>(_, _, w) \<in> set xs. 0 \<le> w" and "servo_run fl sv xs = (sv', outs)"
  shows "(\<exists>s'. sv_impl sv' = ServoPi s' \<and> \<bar>pi_drift s'\<bar> \<le> sv_max_frequency sv) \<and>
    (\<forall>(r, _) \<in> set outs. \<bar>r\<bar> \<le> sv_max_frequency sv)"
  using assms(2-)
proof (induction xs arbitrary: sv s outs)
  case Nil
  then show ?case by (auto simp: pi_wf_def)
next
  case (Cons x xs)
  obtain ofs ts w where x: "x = (ofs, ts, w)" by (metis prod_cases3)
  obtain sv1 r st outs1 where st: "servo_sample fl sv ofs ts w = (sv1, r, st)"
    "servo_run fl sv1 xs = (sv', outs1)" "outs = (r, st) # outs1"
    using servo_run_Cons [OF Cons.prems(6) [unfolded x]] by metis
  note th = servo_sample_thresholds [OF st(1)]
  obtain s1 r' st' where p: "pi_sample fl sv s ofs ts w = (s1, r', st')" by (metis prod_cases3)
  with st(1) Cons.prems(3) have s1: "sv_impl sv1 = ServoPi s1" "r' = r"
    by (auto simp: servo_sample_def servo_impl_sample_def)
  have w: "0 \<le> w" "\<forall>(_, _, w) \<in> set xs. 0 \<le> w" using Cons.prems(5) x by auto
  from pi_sample_wf [OF assms(1) Cons.prems(1,2,4) w(1) p]
  have "pi_wf fl (sv_max_frequency sv1) s1" "\<bar>r\<bar> \<le> sv_max_frequency sv" using s1 th by simp_all
  with Cons.IH [OF _ _ s1(1) _ w(2) st(2)] Cons.prems(1,2) th show ?case by (simp add: st(3))
qed

text \<open>
  C35: In exact arithmetic the regression recovers a linear relation: if the newest \<open>2 ^ size\<close>
  points, relative to the reference, lie on the line with slope \<open>a\<close> and intercept \<open>b\<close>, the
  result for that size is \<open>a\<close> and \<open>b\<close>, whatever the weights, as long as they do not cancel.
\<close>

theorem regression_recovers_line:
  assumes "k \<in> {2..6}" and "2 ^ k \<le> lr_num_points s" and "length (lr_results s) = 5"
    and "\<And>i. i < 2 ^ k \<Longrightarrow> point_y exact s i = a * point_x exact s i + b"
    and "(\<Sum>i<2 ^ k. pt_w (nth_newest s i)) \<noteq> 0"
    and "(\<Sum>i<2 ^ k. pt_w (nth_newest s i)) *
        (\<Sum>i<2 ^ k. point_x exact s i * point_x exact s i * pt_w (nth_newest s i)) \<noteq>
      (\<Sum>i<2 ^ k. point_x exact s i * pt_w (nth_newest s i))\<^sup>2"
  shows "r_slope (lr_results (regress exact s) ! (k - 2)) = a \<and>
    r_intercept (lr_results (regress exact s) ! (k - 2)) = b"
proof -
  have "k \<in> set [2..<7]" using assms(1) by auto
  then obtain res where "lr_results (regress exact s) ! (k - 2) =
      fit exact (fold (add_to_sums exact s) [0..<2 ^ k] zero_sums) res"
    using regress_sizes_nth [of k "[2..<7]" 2 "lr_results s" s 0 zero_sums exact] assms(2,3)
    by (auto simp: regress_def)
  with fit_exact [OF assms(4-6)] show ?thesis by simp
qed

subsection \<open>Instances\<close>

definition sample_cfg :: config where
  "sample_cfg = \<lparr>cfg_int = (\<lambda>_. 0), cfg_double = (\<lambda>_. 0)\<rparr>"

definition sample_nullf :: servo where
  "sample_nullf = \<lparr>sv_max_frequency = 1000, sv_step_threshold = 0, sv_first_step_threshold = 20,
     sv_first_update = True, sv_impl = ServoNullf\<rparr>"

theorem clock_stepped_at_most_once_witness:
  "jumps (snd (servo_run exact sample_nullf [(30, 1, 1), (50, 2, 1), (70, 3, 1)])) \<le> 1"
  using clock_stepped_at_most_once [of sample_nullf exact "[(30, 1, 1), (50, 2, 1), (70, 3, 1)]"
      "fst (servo_run exact sample_nullf [(30, 1, 1), (50, 2, 1), (70, 3, 1)])"
      "snd (servo_run exact sample_nullf [(30, 1, 1), (50, 2, 1), (70, 3, 1)])"]
  by (simp only: prod.collapse) (simp add: sample_nullf_def)

theorem adjustment_within_limit_witness: "\<bar>fst (snd (servo_sample exact sample_nullf 30 1 1))\<bar> \<le> 1000"
proof -
  obtain sv' adj where s: "servo_sample exact sample_nullf 30 1 1 = (sv', adj, SERVO_JUMP)"
    by (simp add: servo_sample_def servo_impl_sample_def nullf_sample_def sample_nullf_def
        beyond_threshold_def dbl_of_i64_def exact_def)
  from adjustment_within_limit [OF s] s show ?thesis by (simp add: sample_nullf_def)
qed

definition sample_pi :: pi_servo where
  "sample_pi = (the (pi_servo_create exact True sample_cfg 0 False))\<lparr>pi_kp := 7 / 10, pi_ki := 3 / 10\<rparr>"

definition sample_pi_servo :: servo where
  "sample_pi_servo = sample_nullf\<lparr>sv_impl := ServoPi sample_pi\<rparr>"

theorem pi_no_windup_witness:
  "list_all (\<lambda>(r, _). \<bar>r\<bar> \<le> 1000)
     (snd (servo_run exact sample_pi_servo [(5, 1, 1), (900, 1000000001, 1)]))"
proof -
  have "rounding exact" using rounding_id by (simp add: exact_def [abs_def])
  moreover have "pi_wf exact (sv_max_frequency sample_pi_servo) sample_pi"
    by (simp add: pi_wf_def sample_pi_servo_def sample_pi_def sample_nullf_def pi_servo_create_def
        sample_cfg_def exact_def Let_def)
  ultimately show ?thesis
    using pi_no_windup [of exact sample_pi_servo sample_pi "[(5, 1, 1), (900, 1000000001, 1)]", OF _ _ _ _ _ _ surjective_pairing]
    by (simp add: sample_pi_servo_def sample_nullf_def exact_def list_all_iff del: servo_run.simps)
qed

definition sample_linreg :: linreg_servo where
  "sample_linreg = (the (linreg_servo_create True 0))
     \<lparr>lr_points := replicate 60 \<lparr>pt_x = 0, pt_y = 0, pt_w = 0\<rparr> @
        [\<lparr>pt_x = 10, pt_y = 25, pt_w = 1\<rparr>, \<lparr>pt_x = 20, pt_y = 45, pt_w = 1\<rparr>,
         \<lparr>pt_x = 30, pt_y = 65, pt_w = 1\<rparr>, \<lparr>pt_x = 40, pt_y = 85, pt_w = 1\<rparr>],
      lr_num_points := 4, lr_last_point := 63\<rparr>"

lemma sample_linreg_points:
  "nth_newest sample_linreg 0 = \<lparr>pt_x = 40, pt_y = 85, pt_w = 1\<rparr>"
  "nth_newest sample_linreg (Suc 0) = \<lparr>pt_x = 30, pt_y = 65, pt_w = 1\<rparr>"
  "nth_newest sample_linreg 2 = \<lparr>pt_x = 20, pt_y = 45, pt_w = 1\<rparr>"
  "nth_newest sample_linreg 3 = \<lparr>pt_x = 10, pt_y = 25, pt_w = 1\<rparr>"
  by (simp_all add: nth_newest_def sample_linreg_def nth_append)

theorem regression_recovers_line_witness:
  "r_slope (lr_results (regress exact sample_linreg) ! 0) = 2"
proof -
  have lt: "i \<in> {0, Suc 0, 2, 3}" if "i < 4" for i :: nat using that by auto
  have sum: "(\<Sum>i<4. f i) = f 0 + f 1 + f 2 + f 3" for f :: "nat \<Rightarrow> real"
    by (simp add: eval_nat_numeral lessThan_Suc algebra_simps)
  have ref: "lr_reference_x sample_linreg = 0" "lr_reference_y sample_linreg = 0"
    by (simp_all add: sample_linreg_def linreg_servo_create_def)
  have "r_slope (lr_results (regress exact sample_linreg) ! (2 - 2)) = 2 \<and>
      r_intercept (lr_results (regress exact sample_linreg) ! (2 - 2)) = 5"
  proof (rule regression_recovers_line)
    show "point_y exact sample_linreg i = 2 * point_x exact sample_linreg i + 5" if "i < 2 ^ 2" for i
      using lt [of i] that
      by (auto simp: point_x_def point_y_def dbl_of_i64_def exact_def ref sample_linreg_points)
    show "length (lr_results sample_linreg) = 5"
      by (simp add: sample_linreg_def linreg_servo_create_def)
  qed (simp_all add: sum point_x_def dbl_of_i64_def exact_def ref sample_linreg_points,
      simp add: sample_linreg_def)
  then show ?thesis by simp
qed

end
