(* ===== verification/Stats.thy ===== *)
theory Stats
  imports Servo
begin

text \<open>
  The running statistics (src/stats.c) and the sanity check of the clock (src/clockcheck.c).
\<close>

subsection \<open>Statistics\<close>

record stats =
  st_num :: u32
  st_min :: dbl
  st_max :: dbl
  st_mean :: dbl
  st_sum_sqr :: dbl
  st_sum_diff_sqr :: dbl

record stats_result =
  sr_min :: dbl
  sr_max :: dbl
  sr_max_abs :: dbl
  sr_mean :: dbl
  sr_rms :: dbl
  sr_stddev :: dbl

definition stats_reset :: stats where
  "stats_reset = \<lparr>st_num = 0, st_min = 0, st_max = 0, st_mean = 0, st_sum_sqr = 0,
     st_sum_diff_sqr = 0\<rparr>"

definition stats_create :: "bool \<Rightarrow> stats option" where
  "stats_create mem = (if mem then Some stats_reset else None)"

definition dbl_of_u32 :: "u32 \<Rightarrow> dbl" where
  "dbl_of_u32 n = of_nat (unat n)"

definition stats_add_value :: "(real \<Rightarrow> real) \<Rightarrow> stats \<Rightarrow> dbl \<Rightarrow> stats" where
  "stats_add_value fl st value =
    (let old_mean = st_mean st;
         st = (if st_num st = 0 \<or> st_max st < value then st\<lparr>st_max := value\<rparr> else st);
         st = (if st_num st = 0 \<or> st_min st > value then st\<lparr>st_min := value\<rparr> else st);
         st = st\<lparr>st_num := st_num st + 1\<rparr>;
         st = st\<lparr>st_mean := fl (old_mean + fl (fl (value - old_mean) / dbl_of_u32 (st_num st)))\<rparr>;
         st = st\<lparr>st_sum_sqr := fl (st_sum_sqr st + fl (value * value))\<rparr>
     in st\<lparr>st_sum_diff_sqr := fl (st_sum_diff_sqr st +
           fl (fl (value - old_mean) * fl (value - st_mean st)))\<rparr>)"

definition stats_get_num_values :: "stats \<Rightarrow> u32" where
  "stats_get_num_values st = st_num st"

definition stats_get_result :: "(real \<Rightarrow> real) \<Rightarrow> stats \<Rightarrow> stats_result option" where
  "stats_get_result fl st =
    (if st_num st = 0 then None
     else Some \<lparr>sr_min = st_min st, sr_max = st_max st,
       sr_max_abs = (if st_max st > - st_min st then st_max st else - st_min st),
       sr_mean = st_mean st, sr_rms = fl (sqrt (fl (st_sum_sqr st / dbl_of_u32 (st_num st)))),
       sr_stddev = fl (sqrt (fl (st_sum_diff_sqr st / dbl_of_u32 (st_num st))))\<rparr>)"

subsection \<open>The clock check\<close>

abbreviation (input) CHECK_MIN_INTERVAL :: int where "CHECK_MIN_INTERVAL \<equiv> 100000000"
abbreviation (input) CHECK_MAX_FREQ :: int where "CHECK_MAX_FREQ \<equiv> 900000000"

record clockcheck =
  cc_freq_limit :: int
  cc_freq_known :: bool
  cc_current_freq :: int
  cc_max_freq :: int
  cc_min_freq :: int
  cc_last_ts :: u64
  cc_last_mono_ts :: u64

definition clockcheck_create :: "bool \<Rightarrow> int \<Rightarrow> clockcheck option" where
  "clockcheck_create mem freq_limit =
    (if \<not> mem then None
     else Some \<lparr>cc_freq_limit = freq_limit, cc_freq_known = False, cc_current_freq = 0,
       cc_max_freq = - CHECK_MAX_FREQ, cc_min_freq = CHECK_MAX_FREQ, cc_last_ts = 0,
       cc_last_mono_ts = 0\<rparr>)"

definition clockcheck_sample ::
  "(real \<Rightarrow> real) \<Rightarrow> timespec \<Rightarrow> clockcheck \<Rightarrow> u64 \<Rightarrow> clockcheck \<times> bool" where
  "clockcheck_sample fl now cc ts =
    (if \<not> cc_freq_known cc then (cc, False)
     else
       let interval = ts - cc_last_ts cc in
       if sint interval \<ge> 0 \<and> sint interval < CHECK_MIN_INTERVAL then (cc, False)
       else
         let mono_ts = tv_sec now * 1000000000 + tv_nsec now;
             mono_interval = mono_ts - cc_last_mono_ts cc
         in if sint mono_interval < CHECK_MIN_INTERVAL then (cc, False)
            else
              let foffset = (\<lambda>freq. fl (1000000000 *
                    fl (fl (fl (dbl_of_i64 fl interval / fl (1 + fl (of_int freq / 1000000000))) /
                            dbl_of_i64 fl mono_interval) - 1)));
                  max_foffset = foffset (cc_min_freq cc);
                  min_foffset = foffset (cc_max_freq cc);
                  ret = cc_last_ts cc \<noteq> 0 \<and> cc_max_freq cc \<le> CHECK_MAX_FREQ \<and>
                    (min_foffset > of_int (cc_freq_limit cc) \<or>
                     max_foffset < of_int (- cc_freq_limit cc))
              in (cc\<lparr>cc_last_mono_ts := mono_ts, cc_last_ts := ts, cc_min_freq := cc_current_freq cc,
                     cc_max_freq := cc_current_freq cc\<rparr>, ret))"

definition clockcheck_set_freq :: "clockcheck \<Rightarrow> int \<Rightarrow> clockcheck" where
  "clockcheck_set_freq cc freq =
    (let cc = (if cc_max_freq cc < freq then cc\<lparr>cc_max_freq := freq\<rparr> else cc);
         cc = (if cc_min_freq cc > freq then cc\<lparr>cc_min_freq := freq\<rparr> else cc)
     in cc\<lparr>cc_current_freq := freq, cc_freq_known := True\<rparr>)"

definition clockcheck_step :: "clockcheck \<Rightarrow> i64 \<Rightarrow> clockcheck" where
  "clockcheck_step cc step =
    (if cc_last_ts cc \<noteq> 0 then cc\<lparr>cc_last_ts := cc_last_ts cc + step\<rparr> else cc)"

subsection \<open>Properties\<close>

definition add_values :: "(real \<Rightarrow> real) \<Rightarrow> stats \<Rightarrow> dbl list \<Rightarrow> stats" where
  "add_values fl = foldl (stats_add_value fl)"

lemma stats_welford:
  assumes "length xs < 2 ^ 32"
  shows "st_num (add_values exact stats_reset xs) = of_nat (length xs) \<and>
    st_mean (add_values exact stats_reset xs) * length xs = sum_list xs \<and>
    st_sum_sqr (add_values exact stats_reset xs) = sum_list (map (\<lambda>x. x\<^sup>2) xs) \<and>
    st_sum_diff_sqr (add_values exact stats_reset xs) =
      sum_list (map (\<lambda>x. x\<^sup>2) xs) - length xs * (st_mean (add_values exact stats_reset xs))\<^sup>2 \<and>
    (xs \<noteq> [] \<longrightarrow> st_min (add_values exact stats_reset xs) = Min (set xs) \<and>
      st_max (add_values exact stats_reset xs) = Max (set xs))"
  using assms
proof (induction xs rule: rev_induct)
  case (snoc x xs)
  define st where "st = add_values exact stats_reset xs"
  define n where "n = length xs"
  have IH: "st_num st = of_nat n" "st_mean st * n = sum_list xs"
    "st_sum_sqr st = sum_list (map (\<lambda>x. x\<^sup>2) xs)"
    "st_sum_diff_sqr st = sum_list (map (\<lambda>x. x\<^sup>2) xs) - n * (st_mean st)\<^sup>2"
    "xs \<noteq> [] \<longrightarrow> st_min st = Min (set xs) \<and> st_max st = Max (set xs)"
    using snoc by (simp_all add: st_def n_def)
  have n: "n + 1 < 2 ^ 32" using snoc.prems by (simp add: n_def)
  have unat: "unat (of_nat k :: u32) = k" if "k < 2 ^ 32" for k
    using that by (simp add: unat_of_nat)
  have u: "dbl_of_u32 (of_nat n + 1) = n + 1"
    using unat [of "n + 1"] n by (simp add: dbl_of_u32_def add.commute)
  have u1: "dbl_of_u32 1 = 1" by (simp add: dbl_of_u32_def)
  have zero: "(of_nat n :: u32) = 0 \<longleftrightarrow> n = 0"
  proof
    assume "(of_nat n :: u32) = 0"
    then show "n = 0" using unat [of n] n by simp
  qed simp
  define d where "d = (x - st_mean st) / (n + 1)"
  have x: "x = st_mean st + d * (n + 1)" by (simp add: d_def)
  have st': "add_values exact stats_reset (xs @ [x]) = stats_add_value exact st x"
    by (simp add: add_values_def st_def)
  have fields: "st_num (stats_add_value exact st x) = of_nat n + 1"
    "st_mean (stats_add_value exact st x) = st_mean st + d"
    "st_sum_sqr (stats_add_value exact st x) = st_sum_sqr st + x\<^sup>2"
    "st_sum_diff_sqr (stats_add_value exact st x) =
      st_sum_diff_sqr st + (x - st_mean st) * (x - (st_mean st + d))"
    "st_max (stats_add_value exact st x) = (if n = 0 \<or> st_max st < x then x else st_max st)"
    "st_min (stats_add_value exact st x) = (if n = 0 \<or> st_min st > x then x else st_min st)"
    using u u1 by (simp_all add: stats_add_value_def Let_def IH(1) zero exact_def d_def power2_eq_square)
  have mean: "(st_mean st + d) * (n + 1) = sum_list xs + x"
    using IH(2) by (simp add: x algebra_simps)
  have diff: "st_sum_diff_sqr st + (x - st_mean st) * (x - (st_mean st + d)) =
      sum_list (map (\<lambda>x. x\<^sup>2) xs) + x\<^sup>2 - (n + 1) * (st_mean st + d)\<^sup>2"
    unfolding IH(4) by (subst (1 2 3) x) (simp add: algebra_simps power2_eq_square)
  have minmax: "(if n = 0 \<or> st_min st > x then x else st_min st) = Min (insert x (set xs)) \<and>
      (if n = 0 \<or> st_max st < x then x else st_max st) = Max (insert x (set xs))"
  proof (cases "xs = []")
    case False
    then have "Min (insert x (set xs)) = min x (st_min st)" "Max (insert x (set xs)) = max x (st_max st)"
      using IH(5) by simp_all
    with False show ?thesis by (auto simp: n_def min_def max_def)
  qed (simp add: n_def)
  show ?case
    using mean diff minmax IH(3)
    by (simp add: st' fields n_def [symmetric] add.commute [of _ 1])
qed (simp add: add_values_def stats_reset_def)

text \<open>
  C36: In exact arithmetic the statistics updated value by value are those of the whole sample:
  minimum, maximum, mean, root mean square and (population) standard deviation.
\<close>

theorem running_statistics_correct:
  assumes "xs \<noteq> []" and "length xs < 2 ^ 32"
  defines "n \<equiv> real (length xs)" and "mean \<equiv> sum_list xs / length xs"
  shows "stats_get_result exact (add_values exact stats_reset xs) = Some
    \<lparr>sr_min = Min (set xs), sr_max = Max (set xs), sr_max_abs = max (Max (set xs)) (- Min (set xs)),
     sr_mean = mean, sr_rms = sqrt (sum_list (map (\<lambda>x. x\<^sup>2) xs) / n),
     sr_stddev = sqrt (sum_list (map (\<lambda>x. (x - mean)\<^sup>2) xs) / n)\<rparr>"
proof -
  let ?st = "add_values exact stats_reset xs"
  define lo hi where "lo = Min (set xs)" and "hi = Max (set xs)"
  note lohi = lo_def hi_def
  note w = stats_welford [OF assms(2), folded lohi]
  have n: "n > 0" using assms(1) by (simp add: n_def)
  have m: "st_mean ?st = mean" using w n by (simp add: mean_def n_def field_simps)
  have "sum_list (map (\<lambda>x. (x - c)\<^sup>2) ys) =
      sum_list (map (\<lambda>x. x\<^sup>2) ys) - 2 * c * sum_list ys + length ys * c\<^sup>2" for c :: real and ys
    by (induction ys) (simp_all add: algebra_simps power2_eq_square)
  then have "sum_list (map (\<lambda>x. (x - mean)\<^sup>2) xs) = st_sum_diff_sqr ?st"
    using w m n by (simp add: n_def power2_eq_square)
  moreover have "unat (of_nat (length xs) :: u32) = length xs"
    using assms(2) by (simp add: unat_of_nat)
  then have "dbl_of_u32 (st_num ?st) = n" "st_num ?st \<noteq> 0"
    using w assms(1) by (auto simp: dbl_of_u32_def n_def)
  moreover have "(if a > b then a else b) = max a b" for a b :: real by (simp add: max_def)
  ultimately show ?thesis
    unfolding lohi [symmetric] using w m assms(1) by (simp add: stats_get_result_def exact_def)
qed

theorem running_statistics_witness:
  "sr_mean (the (stats_get_result exact (add_values exact stats_reset [3, 5, 10]))) = 6"
  using running_statistics_correct [of "[3, 5, 10]"] by simp

text \<open>
  The clock check does not raise an alarm before the frequency was set once and one
  interval was measured: a step of the clock by the program itself right after start-up, or the
  first time stamps, never reset the servo.
\<close>

theorem clockcheck_no_early_alarm:
  assumes "clockcheck_create mem limit = Some cc"
  shows "\<not> snd (clockcheck_sample fl now cc ts) \<and>
    \<not> snd (clockcheck_sample fl now (clockcheck_step (clockcheck_set_freq cc freq) step) ts)"
proof -
  have no: "\<not> snd (clockcheck_sample fl now cc ts)" if "cc_last_ts cc = 0" for cc
    using that by (simp add: clockcheck_sample_def Let_def)
  have "cc_last_ts cc = 0" using assms by (auto simp: clockcheck_create_def split: if_splits)
  moreover from this have "cc_last_ts (clockcheck_step (clockcheck_set_freq cc freq) step) = 0"
    by (simp add: clockcheck_step_def clockcheck_set_freq_def Let_def)
  ultimately show ?thesis using no by blast
qed

definition sample_check :: clockcheck where
  "sample_check = the (clockcheck_create True 200000000)"

theorem clockcheck_no_early_alarm_witness: "\<not> snd (clockcheck_sample exact \<lparr>tv_sec = 1, tv_nsec = 0\<rparr> sample_check 5)"
  by (rule clockcheck_no_early_alarm [THEN conjunct1, of True 200000000])
    (simp add: sample_check_def clockcheck_create_def)

end
