(* ===== verification/Util.thy ===== *)
theory Util
  imports Ddt
begin

text \<open>
  Helpers of src/util.c: the clock identity derived from a MAC address, the handling of leap
  seconds at midnight, and the texts of management messages.  Strings are the octets before
  the terminating zero.
\<close>

subsection \<open>Clock identity\<close>

text \<open>
  \<open>sk_interface_macaddr\<close> asks the kernel; its answer is the parameter \<open>mac\<close> (None when it
  fails).
\<close>

definition generate_clock_identity :: "u8 list option \<Rightarrow> ClockIdentity option" where
  "generate_clock_identity mac =
    (case mac of
       None \<Rightarrow> None
     | Some a \<Rightarrow>
         if length a = 6 then Some (CID (a ! 0) (a ! 1) (a ! 2) 0xFF 0xFE (a ! 3) (a ! 4) (a ! 5))
         else if length a = 8
         then Some (CID (a ! 0) (a ! 1) (a ! 2) (a ! 3) (a ! 4) (a ! 5) (a ! 6) (a ! 7))
         else None)"

subsection \<open>Leap seconds\<close>

abbreviation (input) NS_PER_HOUR :: u64 where "NS_PER_HOUR \<equiv> 3600000000000"
abbreviation (input) NS_PER_DAY :: u64 where "NS_PER_DAY \<equiv> 86400000000000"

definition is_utc_ambiguous :: "u64 \<Rightarrow> bool" where
  "is_utc_ambiguous ts \<longleftrightarrow> NS_PER_DAY - ts mod NS_PER_DAY \<le> 1000000000"

text \<open>The values of \<open>*leap\<close> and \<open>*utc_offset\<close> are returned with the status.\<close>

definition leap_second_status :: "u64 \<Rightarrow> int \<Rightarrow> int \<Rightarrow> int \<Rightarrow> int \<times> int \<times> int" where
  "leap_second_status ts leap_set leap utc_offset =
    (let leap_status =
       (if ts mod NS_PER_DAY > 6 * NS_PER_HOUR
        then (if leap_set = 0 then leap else leap_set)
        else (if leap_set \<noteq> 0 then 0 else leap_set))
     in if leap = 0 \<and> leap_status \<noteq> 0 then (leap_status, leap_status, utc_offset - leap_status)
        else if leap \<noteq> 0 \<and> leap_status = 0 then (leap_status, leap_status, utc_offset + leap)
        else (leap_status, leap, utc_offset))"

subsection \<open>Texts\<close>

abbreviation (input) MAX_PTP_OCTETS :: nat where "MAX_PTP_OCTETS \<equiv> 255"

record static_ptp_text =
  spt_text :: "u8 list"
  spt_max_symbols :: int

definition strlen_utf8 :: "u8 list \<Rightarrow> nat" where
  "strlen_utf8 s = length (filter (\<lambda>c. c AND 0xC0 \<noteq> 0x80) s)"

text \<open>None is the return value -1; otherwise the new text.\<close>

definition ptp_text_set :: "u8 list option \<Rightarrow> u8 list option" where
  "ptp_text_set src = (case src of
     None \<Rightarrow> Some []
   | Some s \<Rightarrow> if length s > MAX_PTP_OCTETS then None else Some s)"

definition static_ptp_text_set :: "static_ptp_text \<Rightarrow> u8 list \<Rightarrow> static_ptp_text option" where
  "static_ptp_text_set dst src =
    (if length src > MAX_PTP_OCTETS then None
     else if spt_max_symbols dst > 0 \<and> int (strlen_utf8 src) > spt_max_symbols dst then None
     else Some (dst\<lparr>spt_text := src\<rparr>))"

definition count_char :: "char list \<Rightarrow> char \<Rightarrow> nat" where
  "count_char str c = length (filter (\<lambda>s. s = c) str)"

subsection \<open>Properties\<close>

text \<open>
  Around the midnight of a leap second the offset in use does not depend on when the master
  updates its announcements.  Let \<open>l\<close> be the leap of the day and \<open>u\<close> the offset before it, and
  the leap have been noticed (\<open>leap_set\<close> is \<open>l\<close>).  Until midnight the status is \<open>l\<close> with offset
  \<open>u\<close>, also if the master already announces the new offset without the leap flag; up to six
  hours after midnight it is 0 with offset \<open>u + l\<close>, also if the master still announces the
  old ones.
\<close>

theorem leap_second_independent_of_master:
  assumes "l \<noteq> 0" and "leap = l \<and> utc_offset = u \<or> leap = 0 \<and> utc_offset = u + l"
  shows "leap_second_status ts l leap utc_offset =
    (if ts mod NS_PER_DAY > 6 * NS_PER_HOUR then (l, l, u) else (0, 0, u + l))"
  using assms by (auto simp: leap_second_status_def Let_def)

theorem leap_second_independent_witness:
  "leap_second_status (86400000000000 * 19000 + 1000000000) 1 1 37 = (0, 0, 38)"
  using leap_second_independent_of_master [of 1 1 37 37 "86400000000000 * 19000 + 1000000000"] by simp

end
