(* ===== verification/Clock.thy ===== *)
theory Clock
  imports Foreign Stats Util
begin

text \<open>
  The clock (src/clock.c) without its ports: data sets, synchronisation, path delay, UTC
  handling and the subscriptions to events.  Theory ClockPorts adds the ports.

  Calls that act on the system clock are entries of the list \<open>c_fx\<close>, in order.  A
  \<open>double\<close> operation rounds with \<open>fl\<close>.
\<close>

subsection \<open>State\<close>

datatype clock_effect =
    ClockSetFreq dbl
  | ClockStep i64
  | SysclkSetSync
  | SysclkSetLeap int
  | SysclkSetTaiOffset int

record freq_estimator =
  fest_origin1 :: tmv_t
  fest_ingress1 :: tmv_t
  fest_max_count :: u32
  fest_count :: u32

record clock_stats =
  cs_offset :: stats
  cs_freq :: stats
  cs_delay :: stats
  cs_max_count :: u32

record time_status_np =
  tsn_master_offset :: i64
  tsn_ingress_time :: i64
  tsn_cumulativeScaledRateOffset :: i32
  tsn_scaledLastGmPhaseChange :: i32
  tsn_gmTimeBaseIndicator :: u16
  tsn_lastGmPhaseChange :: ScaledNs
  tsn_gmPresent :: i32
  tsn_gmIdentity :: ClockIdentity

record clock_subscriber =
  sub_events :: "u8 list"
  sub_targetPortIdentity :: PortIdentity
  sub_addr :: address
  sub_sequenceId :: u16
  sub_expiration :: i64

text \<open>
  \<open>c_best\<close> is the best foreign clock: the number of the port it was received on and its
  sender.  \<open>c_realtime\<close> says whether the clock disciplined is CLOCK_REALTIME.
\<close>

datatype clock_type = CLOCK_TYPE_ORDINARY | CLOCK_TYPE_BOUNDARY | CLOCK_TYPE_P2P | CLOCK_TYPE_E2E
  | CLOCK_TYPE_MANAGEMENT

record clock_description =
  cdesc_product :: static_ptp_text
  cdesc_revision :: static_ptp_text
  cdesc_user :: static_ptp_text
  cdesc_manufacturer :: "u8 list"

record clock =
  c_type :: clock_type
  c_config :: config
  c_realtime :: bool
  c_servo :: servo
  c_servo_type :: servo_type
  c_dds :: defaultDS
  c_localPriority :: u8
  c_cur :: currentDS
  c_dad :: parent_ds
  c_tds :: timePropertiesDS
  c_best :: "(u16 \<times> PortIdentity) option"
  c_best_id :: ClockIdentity
  c_sde :: bool
  c_free_running :: bool
  c_freq_est_interval :: int
  c_grand_master_capable :: bool
  c_utc_timescale :: bool
  c_utc_offset_set :: int
  c_leap_set :: int
  c_kernel_leap :: bool
  c_utc_offset :: int
  c_time_flags :: u8
  c_time_source :: u8
  c_servo_state :: servo_state
  c_master_offset :: tmv_t
  c_path_delay :: tmv_t
  c_ingress_ts :: tmv_t
  c_initial_delay :: tmv_t
  c_tsproc :: tsproc
  c_fest :: freq_estimator
  c_status :: time_status_np
  c_master_local_rr :: dbl
  c_nrr :: dbl
  c_stats :: clock_stats
  c_stats_interval :: int
  c_desc :: clock_description
  c_sanity_check :: "clockcheck option"
  c_subscribers :: "clock_subscriber list"
  c_fx :: "clock_effect list"

definition clock_fx :: "clock_effect \<Rightarrow> 'z clock_scheme \<Rightarrow> 'z clock_scheme" where
  "clock_fx e c = c\<lparr>c_fx := c_fx c @ [e]\<rparr>"

subsection \<open>Data sets\<close>

definition clock_default_ds :: "'z clock_scheme \<Rightarrow> dataset" where
  "clock_default_ds c =
     \<lparr>ds_priority1 = dds_priority1 (c_dds c), ds_identity = dds_clockIdentity (c_dds c),
      ds_quality = dds_clockQuality (c_dds c), ds_priority2 = dds_priority2 (c_dds c),
      ds_localPriority = c_localPriority c, ds_stepsRemoved = 0,
      ds_sender = \<lparr>clockIdentity = dds_clockIdentity (c_dds c), portNumber = 0\<rparr>,
      ds_receiver = \<lparr>clockIdentity = dds_clockIdentity (c_dds c), portNumber = 0\<rparr>\<rparr>"

definition clock_slave_only :: "'z clock_scheme \<Rightarrow> bool" where
  "clock_slave_only c \<longleftrightarrow> dds_flags (c_dds c) AND DDS_SLAVE_ONLY \<noteq> 0"

definition clock_identity :: "'z clock_scheme \<Rightarrow> ClockIdentity" where
  "clock_identity c = dds_clockIdentity (c_dds c)"

definition clock_domain_number :: "'z clock_scheme \<Rightarrow> u8" where
  "clock_domain_number c = dds_domainNumber (c_dds c)"

definition clock_parent_identity :: "'z clock_scheme \<Rightarrow> PortIdentity" where
  "clock_parent_identity c = pds_parentPortIdentity (dad_pds (c_dad c))"

definition clock_steps_removed :: "'z clock_scheme \<Rightarrow> u16" where
  "clock_steps_removed c = cur_stepsRemoved (c_cur c)"

definition clock_gm_capable :: "'z clock_scheme \<Rightarrow> bool" where
  "clock_gm_capable c = c_grand_master_capable c"

definition clock_update_time_properties :: "'z clock_scheme \<Rightarrow> timePropertiesDS \<Rightarrow> 'z clock_scheme" where
  "clock_update_time_properties c tds = c\<lparr>c_tds := tds\<rparr>"

definition clock_update_grandmaster :: "'z clock_scheme \<Rightarrow> 'z clock_scheme" where
  "clock_update_grandmaster c =
     c\<lparr>c_cur := \<lparr>cur_stepsRemoved = 0, cur_offsetFromMaster = 0, cur_meanPathDelay = 0\<rparr>,
       c_dad :=
         \<lparr>dad_pds = (dad_pds (c_dad c))
            \<lparr>pds_parentPortIdentity :=
               \<lparr>clockIdentity = dds_clockIdentity (c_dds c), portNumber = 0\<rparr>,
             pds_grandmasterIdentity := dds_clockIdentity (c_dds c),
             pds_grandmasterClockQuality := dds_clockQuality (c_dds c),
             pds_grandmasterPriority1 := dds_priority1 (c_dds c),
             pds_grandmasterPriority2 := dds_priority2 (c_dds c)\<rparr>,
          dad_ptl = map (\<lambda>_. CID 0 0 0 0 0 0 0 0) (dad_ptl (c_dad c)),
          dad_path_length = 0\<rparr>,
       c_tds := \<lparr>tds_currentUtcOffset = word_of_int (c_utc_offset c),
         tds_flags = c_time_flags c, tds_timeSource = c_time_source c\<rparr>\<rparr>"

text \<open>\<open>best\<close> is the entry that \<open>c->best\<close> points to and \<open>msg\<close> the first message of its queue.\<close>

definition clock_update_slave :: "'z clock_scheme \<Rightarrow> foreign_clock \<Rightarrow> ptp_message \<Rightarrow> 'z clock_scheme" where
  "clock_update_slave c best msg =
    (let c = c\<lparr>c_cur := (c_cur c)\<lparr>cur_stepsRemoved := 1 + ds_stepsRemoved (fc_dataset best)\<rparr>,
        c_dad := (c_dad c)\<lparr>dad_pds := (dad_pds (c_dad c))
            \<lparr>pds_parentPortIdentity := ds_sender (fc_dataset best),
             pds_grandmasterIdentity := grandmasterIdentity msg,
             pds_grandmasterClockQuality := grandmasterClockQuality msg,
             pds_grandmasterPriority1 := grandmasterPriority1 msg,
             pds_grandmasterPriority2 := grandmasterPriority2 msg\<rparr>\<rparr>,
        c_tds := \<lparr>tds_currentUtcOffset = currentUtcOffset msg,
          tds_flags = flagField1 (header msg), tds_timeSource = timeSource msg\<rparr>\<rparr>
     in if (tds_flags (c_tds c) AND UTC_OFF_VALID \<noteq> 0 \<and> tds_flags (c_tds c) AND TIME_TRACEABLE \<noteq> 0) \<or>
           sint (tds_currentUtcOffset (c_tds c)) > c_utc_offset c
        then c\<lparr>c_utc_offset := sint (tds_currentUtcOffset (c_tds c))\<rparr> else c)"

definition clock_follow_up_info :: "'z clock_scheme \<Rightarrow> follow_up_info_tlv \<Rightarrow> 'z clock_scheme" where
  "clock_follow_up_info c f =
     c\<lparr>c_status := (c_status c)
       \<lparr>tsn_cumulativeScaledRateOffset := fui_cumulativeScaledRateOffset f,
        tsn_scaledLastGmPhaseChange := fui_scaledLastGmPhaseChange f,
        tsn_gmTimeBaseIndicator := fui_gmTimeBaseIndicator f,
        tsn_lastGmPhaseChange := fui_lastGmPhaseChange f\<rparr>\<rparr>"

subsection \<open>Rate ratio and statistics\<close>

definition clock_rate_ratio :: "'z clock_scheme \<Rightarrow> dbl" where
  "clock_rate_ratio c = (if c_free_running c then c_master_local_rr c else servo_rate_ratio (c_servo c))"

definition clock_freq_est_reset :: "'z clock_scheme \<Rightarrow> 'z clock_scheme" where
  "clock_freq_est_reset c = c\<lparr>c_fest := (c_fest c)
     \<lparr>fest_origin1 := tmv_zero, fest_ingress1 := tmv_zero, fest_count := 0\<rparr>\<rparr>"

definition clock_stats_update :: "(real \<Rightarrow> real) \<Rightarrow> clock_stats \<Rightarrow> dbl \<Rightarrow> dbl \<Rightarrow> clock_stats" where
  "clock_stats_update fl s ofs freq =
    (let s = s\<lparr>cs_offset := stats_add_value fl (cs_offset s) ofs,
               cs_freq := stats_add_value fl (cs_freq s) freq\<rparr>
     in if stats_get_num_values (cs_offset s) < cs_max_count s then s
        else s\<lparr>cs_offset := stats_reset, cs_freq := stats_reset, cs_delay := stats_reset\<rparr>)"

definition clock_no_adjust :: "(real \<Rightarrow> real) \<Rightarrow> 'z clock_scheme \<Rightarrow> tmv_t \<Rightarrow> tmv_t \<Rightarrow> 'z clock_scheme" where
  "clock_no_adjust fl c ingress origin =
    (let f = c_fest c in
     if tmv_is_zero (fest_ingress1 f)
     then c\<lparr>c_fest := f\<lparr>fest_ingress1 := ingress, fest_origin1 := origin\<rparr>\<rparr>
     else
       let f = f\<lparr>fest_count := fest_count f + 1\<rparr> in
       if fest_count f < fest_max_count f then c\<lparr>c_fest := f\<rparr>
       else if tmv_cmp ingress (fest_ingress1 f) = 0 then c\<lparr>c_fest := f\<rparr>
       else
         let ratio = fl (tmv_dbl fl (tmv_sub origin (fest_origin1 f)) /
                         tmv_dbl fl (tmv_sub ingress (fest_ingress1 f)));
             freq = fl (fl (1 - ratio) * 1000000000);
             st = (if cs_max_count (c_stats c) > 1
                   then clock_stats_update fl (c_stats c) (tmv_dbl fl (c_master_offset c)) freq
                   else c_stats c)
         in c\<lparr>c_stats := st, c_master_local_rr := ratio,
              c_fest := f\<lparr>fest_ingress1 := ingress, fest_origin1 := origin, fest_count := 0\<rparr>\<rparr>)"

subsection \<open>Path delay\<close>

text \<open>
  \<open>tsproc_update_delay\<close> as a total function: its result is defined in every well-formed state
  (\<open>tsproc_update_delay_step\<close>), so the first branch is never taken there.
\<close>

definition update_delay :: "(real \<Rightarrow> real) \<Rightarrow> tsproc \<Rightarrow> tsproc \<times> tmv_t option" where
  "update_delay fl tsp = (case tsproc_update_delay fl tsp of None \<Rightarrow> (tsp, None) | Some r \<Rightarrow> r)"

definition stats_add_delay :: "(real \<Rightarrow> real) \<Rightarrow> tmv_t \<Rightarrow> 'z clock_scheme \<Rightarrow> 'z clock_scheme" where
  "stats_add_delay fl d c = c\<lparr>c_stats := (c_stats c)
     \<lparr>cs_delay := stats_add_value fl (cs_delay (c_stats c)) (tmv_dbl fl d)\<rparr>\<rparr>"

definition clock_path_delay :: "(real \<Rightarrow> real) \<Rightarrow> 'z clock_scheme \<Rightarrow> tmv_t \<Rightarrow> tmv_t \<Rightarrow> 'z clock_scheme" where
  "clock_path_delay fl c req rx =
    (case update_delay fl (tsproc_up_ts (c_tsproc c) req rx) of
       (tsp, None) \<Rightarrow> c\<lparr>c_tsproc := tsp\<rparr>
     | (tsp, Some d) \<Rightarrow> stats_add_delay fl d (c\<lparr>c_tsproc := tsp, c_path_delay := d,
         c_cur := (c_cur c)\<lparr>cur_meanPathDelay := tmv_to_TimeInterval d\<rparr>\<rparr>))"

definition clock_peer_delay :: "(real \<Rightarrow> real) \<Rightarrow> 'z clock_scheme \<Rightarrow> tmv_t \<Rightarrow> tmv_t \<Rightarrow> tmv_t \<Rightarrow> dbl \<Rightarrow> 'z clock_scheme" where
  "clock_peer_delay fl c ppd req rx nrr =
     stats_add_delay fl ppd (c\<lparr>c_path_delay := ppd, c_nrr := nrr,
       c_tsproc := tsproc_up_ts (tsproc_set_delay (c_tsproc c) ppd) req rx\<rparr>)"

subsection \<open>Synchronisation\<close>

text \<open>
  The leap second of the day: the new status is passed to the kernel or to the servo.  The
  second component of the result is the offset between TAI and UTC to use.
\<close>

definition clock_handle_leap :: "(real \<Rightarrow> real) \<Rightarrow> 'z clock_scheme \<Rightarrow> u64 \<Rightarrow> int \<Rightarrow> 'z clock_scheme \<times> int" where
  "clock_handle_leap fl c ts leap =
    (case leap_second_status ts (c_leap_set c) leap (c_utc_offset c) of
       (clock_leap, _, utc_offset) \<Rightarrow>
         (if c_leap_set c \<noteq> clock_leap
          then (if c_kernel_leap c then clock_fx (SysclkSetLeap clock_leap) c
                else c\<lparr>c_servo := servo_leap fl (c_servo c) clock_leap\<rparr>)\<lparr>c_leap_set := clock_leap\<rparr>
          else c, utc_offset))"

text \<open>The offset between TAI and UTC of the system clock, and the offset of this clock.\<close>

definition clock_apply_utc_offset :: "'z clock_scheme \<Rightarrow> int \<Rightarrow> 'z clock_scheme" where
  "clock_apply_utc_offset c utc_offset =
    (let flags = tds_flags (c_tds c);
         c = (if flags AND UTC_OFF_VALID \<noteq> 0 \<and> flags AND TIME_TRACEABLE \<noteq> 0 \<and>
                 c_utc_offset_set c \<noteq> utc_offset \<and> c_realtime c
              then (clock_fx (SysclkSetTaiOffset utc_offset) c)\<lparr>c_utc_offset_set := utc_offset\<rparr>
              else c)
     in if flags AND PTP_TIMESCALE = 0 then c
        else c\<lparr>c_master_offset := tmv_add (c_master_offset c)
          (timespec_to_tmv \<lparr>tv_sec = word_of_int utc_offset, tv_nsec = 0\<rparr>)\<rparr>)"

text \<open>The second component of the result is the return value -1.\<close>

definition clock_utc_correct :: "(real \<Rightarrow> real) \<Rightarrow> 'z clock_scheme \<Rightarrow> tmv_t \<Rightarrow> 'z clock_scheme \<times> bool" where
  "clock_utc_correct fl c ingress =
    (if \<not> c_utc_timescale c then (c, False)
     else
       let flags = tds_flags (c_tds c);
           leap = (if flags AND LEAP_61 \<noteq> 0 then 1 else if flags AND LEAP_59 \<noteq> 0 then -1 else 0)
       in if (leap \<noteq> 0 \<or> c_leap_set c \<noteq> 0) \<and> c_realtime c then
            let ts = (if c_servo_state c = SERVO_UNLOCKED
                  then (let t = tmv_to_nanoseconds (tmv_sub ingress (c_master_offset c))
                        in if flags AND PTP_TIMESCALE \<noteq> 0
                           then t - word_of_int (c_utc_offset c * 1000000000) else t)
                  else tmv_to_nanoseconds ingress)
            in if is_utc_ambiguous ts then (c, True)
               else case clock_handle_leap fl c ts leap of
                   (c, utc_offset) \<Rightarrow> (clock_apply_utc_offset c utc_offset, False)
          else (clock_apply_utc_offset c (c_utc_offset c), False))"

definition dbl_to_int :: "dbl \<Rightarrow> int" where
  "dbl_to_int x = (if 0 \<le> x then \<lfloor>x\<rfloor> else \<lceil>x\<rceil>)"

text \<open>The part of \<open>clock_synchronize\<close> that feeds the servo and acts on the clock.\<close>

definition clock_adjust :: "(real \<Rightarrow> real) \<Rightarrow> 'z clock_scheme \<Rightarrow> tmv_t \<Rightarrow> dbl \<Rightarrow> 'z clock_scheme \<times> servo_state" where
  "clock_adjust fl c ingress weight =
    (case servo_sample fl (c_servo c) (tmv_to_nanoseconds (c_master_offset c))
            (tmv_to_nanoseconds ingress) weight of
       (sv, adj, state) \<Rightarrow>
         let c = c\<lparr>c_servo := sv, c_servo_state := state\<rparr>;
             c = (if cs_max_count (c_stats c) > 1
                  then c\<lparr>c_stats := clock_stats_update fl (c_stats c)
                         (tmv_dbl fl (c_master_offset c)) adj\<rparr>
                  else c);
             c = c\<lparr>c_tsproc := tsproc_set_clock_rate_ratio (c_tsproc c) (clock_rate_ratio c)\<rparr>;
             step = - tmv_to_nanoseconds (c_master_offset c)
         in case state of
              SERVO_UNLOCKED \<Rightarrow> (c, state)
            | SERVO_JUMP \<Rightarrow>
                (let c = clock_fx (ClockStep step) (clock_fx (ClockSetFreq (- adj)) c);
                     c = c\<lparr>c_ingress_ts := tmv_zero,
                       c_sanity_check := map_option (\<lambda>cc.
                         clockcheck_step (clockcheck_set_freq cc (dbl_to_int (- adj))) step)
                         (c_sanity_check c)\<rparr>
                 in (c\<lparr>c_tsproc := tsproc_reset (c_tsproc c) False\<rparr>, state))
            | SERVO_LOCKED \<Rightarrow>
                (let c = clock_fx (ClockSetFreq (- adj)) c;
                     c = (if c_realtime c then clock_fx SysclkSetSync c else c)
                 in (c\<lparr>c_sanity_check := map_option (\<lambda>cc.
                       clockcheck_set_freq cc (dbl_to_int (- adj))) (c_sanity_check c)\<rparr>, state)))"

definition clock_synchronize :: "(real \<Rightarrow> real) \<Rightarrow> 'z clock_scheme \<Rightarrow> tmv_t \<Rightarrow> tmv_t \<Rightarrow> 'z clock_scheme \<times> servo_state" where
  "clock_synchronize fl c ingress origin =
    (let c = c\<lparr>c_ingress_ts := ingress, c_tsproc := tsproc_down_ts (c_tsproc c) origin ingress\<rparr>
     in case tsproc_update_offset fl (c_tsproc c) of
          None \<Rightarrow> (if c_free_running c then clock_no_adjust fl c ingress origin else c, SERVO_UNLOCKED)
        | Some (ofs, weight) \<Rightarrow>
            (case clock_utc_correct fl (c\<lparr>c_master_offset := ofs\<rparr>) ingress of
               (c, True) \<Rightarrow> (c, c_servo_state c)
             | (c, False) \<Rightarrow>
                 let c = c\<lparr>c_cur := (c_cur c)
                       \<lparr>cur_offsetFromMaster := tmv_to_TimeInterval (c_master_offset c)\<rparr>\<rparr>
                 in if c_free_running c then (clock_no_adjust fl c ingress origin, SERVO_UNLOCKED)
                    else clock_adjust fl c ingress weight))"

text \<open>\<open>est_shift\<close> is the clipped exponent that \<open>clock_sync_interval\<close> computes twice.\<close>

definition est_shift :: "int \<Rightarrow> nat" where
  "est_shift shift = (if shift < 0 then 0 else if shift \<ge> 32 then 31 else nat shift)"

definition sync_interval :: "(real \<Rightarrow> real) \<Rightarrow> int \<Rightarrow> dbl" where
  "sync_interval fl n =
    (if n < 0 then fl (1 / of_int (shl1 (nat (- n)))) else of_int (shl1 (nat n)))"

definition clock_sync_interval :: "(real \<Rightarrow> real) \<Rightarrow> 'z clock_scheme \<Rightarrow> int \<Rightarrow> 'z clock_scheme" where
  "clock_sync_interval fl c n =
     c\<lparr>c_fest := (c_fest c)\<lparr>fest_max_count := push_bit (est_shift (c_freq_est_interval c - n)) 1\<rparr>,
       c_stats := (c_stats c)\<lparr>cs_max_count := push_bit (est_shift (c_stats_interval c - n)) 1\<rparr>,
       c_servo := servo_sync_interval fl (c_servo c) (sync_interval fl n)\<rparr>"

definition clock_check_ts :: "(real \<Rightarrow> real) \<Rightarrow> timespec \<Rightarrow> 'z clock_scheme \<Rightarrow> u64 \<Rightarrow> 'z clock_scheme" where
  "clock_check_ts fl now c ts =
    (case c_sanity_check c of
       None \<Rightarrow> c
     | Some cc \<Rightarrow>
         (case clockcheck_sample fl now cc ts of (cc', alarm) \<Rightarrow>
            let c = c\<lparr>c_sanity_check := Some cc'\<rparr>
            in if alarm then c\<lparr>c_servo := servo_reset (c_servo c)\<rparr> else c))"

text \<open>
  \<open>clock_switch_phc\<close>: the descriptor that \<open>phc_open\<close> yields, its adjustment range and frequency are
  answers of the system; None stands for a device that does not open or cannot be adjusted.
\<close>

definition clock_switch_phc ::
  "(real \<Rightarrow> real) \<Rightarrow> bool \<Rightarrow> shmTime option \<Rightarrow> (int \<times> int) option \<Rightarrow> 'z clock_scheme \<Rightarrow> 'z clock_scheme option" where
  "clock_switch_phc fl mem shm dev c =
    (case dev of
       None \<Rightarrow> None
     | Some (max_adj, fadj) \<Rightarrow>
         if max_adj = 0 then None
         else case servo_create fl mem shm (c_config c) (c_servo_type c) (- fadj) max_adj False of
             None \<Rightarrow> None
           | Some servo \<Rightarrow> Some ((clock_fx (ClockSetFreq (of_int fadj)) c)
               \<lparr>c_realtime := False, c_servo := servo, c_servo_state := SERVO_UNLOCKED\<rparr>))"

subsection \<open>Subscriptions\<close>

abbreviation (input) EVENT_BITMASK_CNT :: nat where "EVENT_BITMASK_CNT \<equiv> 64"

fun remove_first :: "('a \<Rightarrow> bool) \<Rightarrow> 'a list \<Rightarrow> 'a list" where
  "remove_first P [] = []"
| "remove_first P (x # xs) = (if P x then xs else x # remove_first P xs)"

definition is_subscriber :: "byte_order \<Rightarrow> PortIdentity \<Rightarrow> clock_subscriber \<Rightarrow> bool" where
  "is_subscriber bo pid s \<longleftrightarrow>
     memcmp (pid_bytes bo (sub_targetPortIdentity s)) (pid_bytes bo pid) = 0"

lemma is_subscriber_iff [simp]: "is_subscriber bo pid s \<longleftrightarrow> sub_targetPortIdentity s = pid"
  by (simp add: is_subscriber_def)

text \<open>\<open>now\<close> is the value of \<open>clock_gettime\<close>, \<open>mem\<close> whether \<open>malloc\<close> succeeds.\<close>

definition clock_update_subscription ::
  "byte_order \<Rightarrow> bool \<Rightarrow> timespec \<Rightarrow> ptp_message \<Rightarrow> u8 list \<Rightarrow> u16 \<Rightarrow> clock_subscriber list \<Rightarrow>
   clock_subscriber list" where
  "clock_update_subscription bo mem now req bitmask duration subs =
    (let pid = source_pid req;
         remove = list_all (\<lambda>b. b = 0) (take EVENT_BITMASK_CNT bitmask);
         expiration = tv_sec now + ucast duration
     in if find (is_subscriber bo pid) subs \<noteq> None then
          (if \<not> remove
           then update_first (is_subscriber bo pid) (\<lambda>s. s\<lparr>sub_addr := m_address req,
             sub_events := take EVENT_BITMASK_CNT bitmask, sub_expiration := expiration\<rparr>) subs
           else remove_first (is_subscriber bo pid) subs)
        else if remove then subs
        else if \<not> mem then subs
        else \<lparr>sub_events = take EVENT_BITMASK_CNT bitmask, sub_targetPortIdentity = pid,
               sub_addr = m_address req, sub_sequenceId = 0, sub_expiration = expiration\<rparr> # subs)"

definition clock_get_subscription ::
  "byte_order \<Rightarrow> timespec \<Rightarrow> ptp_message \<Rightarrow> clock_subscriber list \<Rightarrow> u8 list \<times> u16" where
  "clock_get_subscription bo now req subs =
    (case find (is_subscriber bo (source_pid req)) subs of
       None \<Rightarrow> (replicate EVENT_BITMASK_CNT 0, 0)
     | Some s \<Rightarrow> (sub_events s,
         if sint (sub_expiration s) < sint (tv_sec now) then 0
         else ucast (sub_expiration s - tv_sec now)))"

definition clock_prune_subscriptions :: "timespec \<Rightarrow> clock_subscriber list \<Rightarrow> clock_subscriber list" where
  "clock_prune_subscriptions now subs =
     filter (\<lambda>s. \<not> sint (sub_expiration s) \<le> sint (tv_sec now)) subs"

text \<open>
  \<open>clock_send_notification\<close> sends one copy of the message to each subscriber of the event, with the
  subscriber's own sequence number; the message is in network byte order.
\<close>

definition notification_for :: "byte_order \<Rightarrow> ptp_message \<Rightarrow> clock_subscriber \<Rightarrow> ptp_message" where
  "notification_for bo msg s = msg
     \<lparr>header := (header msg)\<lparr>sequenceId := htons bo (sub_sequenceId s)\<rparr>,
      targetPortIdentity := (sub_targetPortIdentity s)
        \<lparr>portNumber := htons bo (portNumber (sub_targetPortIdentity s))\<rparr>,
      m_address := sub_addr s\<rparr>"

definition wants_event :: "nat \<Rightarrow> clock_subscriber \<Rightarrow> bool" where
  "wants_event event s \<longleftrightarrow>
     (if event div 8 < length (sub_events s) then sub_events s ! (event div 8) else 0) AND
     push_bit (event mod 8) 1 \<noteq> 0"

definition clock_send_notification ::
  "byte_order \<Rightarrow> ptp_message \<Rightarrow> nat \<Rightarrow> clock_subscriber list \<Rightarrow> clock_subscriber list \<times> ptp_message list" where
  "clock_send_notification bo msg event subs =
    (map (\<lambda>s. if wants_event event s then s\<lparr>sub_sequenceId := sub_sequenceId s + 1\<rparr> else s) subs,
     map (notification_for bo msg) (filter (wants_event event) subs))"

subsection \<open>Stepping the clock\<close>

text \<open>
  \<open>clockadj_step\<close> (src/clockadj.c) splits the step into seconds and nanoseconds for the kernel, the
  latter not negative.
\<close>

definition clockadj_step :: "i64 \<Rightarrow> int \<times> int" where
  "clockadj_step step =
    (let sign = (if sint step < 0 then -1 else 1);
         step = (if sint step < 0 then - step else step);
         s = sign * (sint step sdiv 1000000000);
         n = sign * (sint step smod 1000000000)
     in if n < 0 then (s - 1, n + 1000000000) else (s, n))"

subsection \<open>Lemmas\<close>

lemma update_first_find:
  "find P (update_first P f xs) = (if (\<forall>x. P x \<longrightarrow> P (f x)) then map_option f (find P xs)
     else find P (update_first P f xs))"
  by (induction xs) auto

lemma find_remove_first_distinct:
  "distinct (map k xs) \<Longrightarrow> find (\<lambda>x. k x = p) (remove_first (\<lambda>x. k x = p) xs) = None"
  by (induction xs) (auto simp: find_None_iff, metis image_eqI)

lemma find_remove_first_other:
  "p \<noteq> q \<Longrightarrow> find (\<lambda>x. k x = q) (remove_first (\<lambda>x. k x = p) xs) = find (\<lambda>x. k x = q) xs"
  by (induction xs) auto

lemma find_update_first_other:
  "p \<noteq> q \<Longrightarrow> (\<And>x. k (f x) = k x) \<Longrightarrow>
   find (\<lambda>x. k x = q) (update_first (\<lambda>x. k x = p) f xs) = find (\<lambda>x. k x = q) xs"
  by (induction xs) auto

lemma find_update_first_same:
  "(\<And>x. k (f x) = k x) \<Longrightarrow>
   find (\<lambda>x. k x = p) (update_first (\<lambda>x. k x = p) f xs) = map_option f (find (\<lambda>x. k x = p) xs)"
  by (induction xs) auto

lemma set_remove_first: "set (remove_first P xs) \<subseteq> set xs"
  by (induction xs) auto

lemma map_remove_first: "distinct (map k xs) \<Longrightarrow> distinct (map k (remove_first P xs))"
  by (induction xs) (auto dest!: subsetD [OF set_remove_first])

lemma ucast_diff_16: "(ucast (a - b :: i64) :: u16) = ucast a - ucast b"
proof -
  have h: "ucast (word_of_int i :: i64) = (word_of_int i :: u16)" for i
    by (rule bit_word_eqI) (simp add: bit_simps)
  show ?thesis using h [of "uint a - uint b"] by (metis ucast_eq wi_hom_sub word_of_int_uint)
qed

lemma ucast_ucast_16: "(ucast (ucast (d :: u16) :: i64) :: u16) = d"
  by transfer simp

definition subs_wf :: "clock_subscriber list \<Rightarrow> bool" where
  "subs_wf subs \<longleftrightarrow> distinct (map sub_targetPortIdentity subs)"

lemma update_subscription_wf [ptp_wf_intros]:
  assumes "subs_wf subs"
  shows "subs_wf (clock_update_subscription bo mem now req bitmask duration subs)"
proof -
  have "source_pid req \<notin> set (map sub_targetPortIdentity subs)"
    if "find (is_subscriber bo (source_pid req)) subs = None"
    using that by (auto simp: find_None_iff)
  then show ?thesis
    using assms by (auto simp: clock_update_subscription_def subs_wf_def Let_def map_remove_first
        map_update_first)
qed

subsection \<open>Properties\<close>

text \<open>
  A client that subscribes with a bitmask for some seconds reads back that bitmask and the
  remaining time until it expires, a client that subscribes with an empty bitmask has no
  subscription any more, and the subscriptions of other clients are not touched.  There is
  at most one entry per client.
\<close>

theorem subscription_roundtrip:
  fixes bo
  assumes "subs_wf subs" and "length bitmask = EVENT_BITMASK_CNT" and "mem"
    and "sint (tv_sec t) + uint duration < 2 ^ 63"
    and "tv_sec t' = tv_sec t + elapsed" and "0 \<le> sint elapsed" and "sint elapsed \<le> uint duration"
    and "source_pid req' = source_pid req"
  defines "subs' \<equiv> clock_update_subscription bo mem t req bitmask duration subs"
  shows "subs_wf subs' \<and>
    clock_get_subscription bo t' req' subs' =
      (if \<forall>b \<in> set bitmask. b = 0 then (replicate EVENT_BITMASK_CNT 0, 0)
       else (bitmask, duration - ucast elapsed)) \<and>
    (\<forall>other now. source_pid other \<noteq> source_pid req \<longrightarrow>
      clock_get_subscription bo now other subs' = clock_get_subscription bo now other subs)"
proof (intro conjI allI impI)
  show "subs_wf subs'" unfolding subs'_def by (rule update_subscription_wf [OF assms(1)])
  let ?pid = "source_pid req"
  have fn: "is_subscriber bo = (\<lambda>pid s. sub_targetPortIdentity s = pid)" by (intro ext) simp
  have empty: "list_all (\<lambda>b. b = 0) (take EVENT_BITMASK_CNT bitmask) \<longleftrightarrow> (\<forall>b \<in> set bitmask. b = 0)"
    using assms(2) by (simp add: list_all_iff)
  show "clock_get_subscription bo t' req' subs' =
      (if \<forall>b \<in> set bitmask. b = 0 then (replicate EVENT_BITMASK_CNT 0, 0)
       else (bitmask, duration - ucast elapsed))"
  proof (cases "\<forall>b \<in> set bitmask. b = 0")
    case True
    have "find (is_subscriber bo ?pid) subs' = None"
    proof (cases "find (is_subscriber bo ?pid) subs")
      case None
      then show ?thesis using True empty by (simp add: subs'_def clock_update_subscription_def)
    next
      case (Some s)
      then have "subs' = remove_first (is_subscriber bo ?pid) subs"
        using True empty by (simp add: subs'_def clock_update_subscription_def)
      then show ?thesis
        using find_remove_first_distinct [of sub_targetPortIdentity subs ?pid] assms(1)
        by (simp add: fn subs_wf_def)
    qed
    then show ?thesis using True assms(8) by (simp add: clock_get_subscription_def)
  next
    case False
    let ?exp = "tv_sec t + ucast duration :: i64"
    obtain s where s: "find (is_subscriber bo ?pid) subs' = Some s" "sub_events s = bitmask"
      "sub_expiration s = ?exp"
    proof (cases "find (is_subscriber bo ?pid) subs")
      case None
      then have "\<exists>s rest. subs' = s # rest \<and> sub_targetPortIdentity s = ?pid \<and> sub_events s = bitmask \<and>
          sub_expiration s = ?exp"
        using False empty assms(2,3) by (auto simp: subs'_def clock_update_subscription_def Let_def)
      then show thesis using that by (auto simp: fn)
    next
      case (Some s0)
      then have "subs' = update_first (is_subscriber bo ?pid) (\<lambda>s. s\<lparr>sub_addr := m_address req,
          sub_events := bitmask, sub_expiration := ?exp\<rparr>) subs"
        using False empty assms(2) by (simp add: subs'_def clock_update_subscription_def)
      then show thesis
        using that [of "s0\<lparr>sub_addr := m_address req, sub_events := bitmask, sub_expiration := ?exp\<rparr>"]
          Some by (simp add: fn find_update_first_same)
    qed
    have exp: "sint ?exp = sint (tv_sec t) + uint duration"
    proof -
      have "in_i64 (sint (tv_sec t) + uint duration)"
        using assms(4) in_i64_sint [of "tv_sec t"] uint_ge_0 [of duration]
        unfolding in_i64_def by linarith
      then have "sint (word_of_int (sint (tv_sec t) + uint duration) :: i64) =
          sint (tv_sec t) + uint duration" by (rule sint_of_int64)
      moreover have "(word_of_int (sint (tv_sec t) + uint duration) :: i64) = ?exp"
        by (simp flip: wi_hom_add)
      ultimately show ?thesis by simp
    qed
    have now: "sint (tv_sec t') = sint (tv_sec t) + sint elapsed"
    proof -
      have "in_i64 (sint (tv_sec t) + sint elapsed)"
        using assms(4,6,7) in_i64_sint [of "tv_sec t"] unfolding in_i64_def by linarith
      then have "sint (word_of_int (sint (tv_sec t) + sint elapsed) :: i64) =
          sint (tv_sec t) + sint elapsed" by (rule sint_of_int64)
      then show ?thesis by (simp add: assms(5) flip: wi_hom_add)
    qed
    have "ucast (?exp - tv_sec t') = duration - (ucast elapsed :: u16)"
      by (simp add: assms(5) ucast_diff_16 ucast_ucast_16)
    then show ?thesis
      using False s exp now assms(7,8) by (auto simp: clock_get_subscription_def)
  qed
next
  fix other now assume ne: "source_pid other \<noteq> source_pid req"
  have fn: "is_subscriber bo = (\<lambda>pid s. sub_targetPortIdentity s = pid)" by (intro ext) simp
  have "find (is_subscriber bo (source_pid other)) subs' = find (is_subscriber bo (source_pid other)) subs"
    using ne by (auto simp: subs'_def clock_update_subscription_def Let_def fn
        find_update_first_other find_remove_first_other)
  then show "clock_get_subscription bo now other subs' = clock_get_subscription bo now other subs"
    by (simp add: clock_get_subscription_def)
qed

text \<open>
  The seconds and nanoseconds handed to the kernel for a step add up to the step, and the
  nanoseconds are below one second and not negative, for positive and negative steps.
\<close>

theorem clockadj_step_split:
  assumes "sint step \<noteq> - (2 ^ 63)"
  shows "case clockadj_step step of (s, n) \<Rightarrow>
    s * 1000000000 + n = sint step \<and> 0 \<le> n \<and> n < 1000000000"
proof -
  define x where "x = sint step"
  define a where "a = (if x < 0 then - x else x)"
  have "in_i64 (- x)" if "x < 0"
    using that assms in_i64_sint [of step] by (auto simp: in_i64_def x_def)
  then have neg: "sint (- step) = - x" if "x < 0"
    using that sint_of_int64 [of "- x"] by (simp add: x_def)
  have a: "0 \<le> a" "sint (if x < 0 then - step else step) = a"
    using neg by (auto simp: a_def x_def)
  have "a sdiv 1000000000 = a div 1000000000" using a(1) by (simp add: sdiv_pos_int)
  moreover have "a smod 1000000000 = a mod 1000000000"
    using a(1) by (cases "a = 0") (simp_all add: signed_modulo_int_def)
  moreover have "(a div 1000000000) * 1000000000 + a mod 1000000000 = a" by simp
  moreover have "0 \<le> a mod 1000000000" "a mod 1000000000 < 1000000000" by simp_all
  ultimately obtain q r where "q * 1000000000 + r = a" "a sdiv 1000000000 = q"
    "a smod 1000000000 = r" "0 \<le> r" "r < 1000000000"
    by metis
  with a(2) show ?thesis
    unfolding clockadj_step_def x_def [symmetric] Let_def
    by (cases "x < 0") (auto simp: a_def)
qed

theorem clockadj_step_split_witness: "clockadj_step (- 1500000000) = (-2, 500000000)"
  using clockadj_step_split [of "- 1500000000"] by (simp add: clockadj_step_def)

text \<open>
  The sync interval taken from the header of a sync message is shifted without a range
  check: for the value 127, which IEEE 1588 prescribes for unicast messages, the interval
  passed to the servo is negative.
\<close>

theorem sync_interval_of_unicast_negative: "sync_interval fl 127 < 0"
  by (simp add: sync_interval_def shl1_def)

definition adjusts_clock :: "clock_effect \<Rightarrow> bool" where
  "adjusts_clock e \<longleftrightarrow> (\<exists>f. e = ClockSetFreq f) \<or> (\<exists>s. e = ClockStep s)"

lemma clock_handle_leap_fx:
  "clock_handle_leap fl c ts leap = (c', u) \<Longrightarrow>
    filter adjusts_clock (c_fx c') = filter adjusts_clock (c_fx c) \<and>
    c_free_running c' = c_free_running c \<and> c_servo_state c' = c_servo_state c"
  by (auto simp: clock_handle_leap_def clock_fx_def adjusts_clock_def split: prod.splits if_splits)

lemma clock_apply_utc_offset_fx:
  "filter adjusts_clock (c_fx (clock_apply_utc_offset c u)) = filter adjusts_clock (c_fx c) \<and>
    c_free_running (clock_apply_utc_offset c u) = c_free_running c \<and>
    c_servo_state (clock_apply_utc_offset c u) = c_servo_state c"
  by (simp add: clock_apply_utc_offset_def Let_def clock_fx_def adjusts_clock_def)

lemma clock_utc_correct_fx:
  assumes "clock_utc_correct fl c ingress = (c', r)"
  shows "filter adjusts_clock (c_fx c') = filter adjusts_clock (c_fx c) \<and>
    c_free_running c' = c_free_running c \<and> c_servo_state c' = c_servo_state c"
  using assms by (auto simp: clock_utc_correct_def Let_def clock_apply_utc_offset_fx
      split: if_split_asm prod.split_asm dest: clock_handle_leap_fx)

lemma clock_no_adjust_fx [simp]: "c_fx (clock_no_adjust fl c ingress origin) = c_fx c"
  by (simp add: clock_no_adjust_def Let_def)

text \<open>
  A free running clock is never adjusted: \<open>clock_synchronize\<close> neither sets its frequency nor
  steps it, in whatever state it is, and reports it as unlocked unless the update was suspended
  at a leap second.
\<close>

theorem free_running_never_adjusted:
  assumes "c_free_running c" and "clock_synchronize fl c ingress origin = (c', state)"
  shows "filter adjusts_clock (c_fx c') = filter adjusts_clock (c_fx c) \<and>
    state \<in> {SERVO_UNLOCKED, c_servo_state c}"
proof -
  let ?c = "c\<lparr>c_ingress_ts := ingress, c_tsproc := tsproc_down_ts (c_tsproc c) origin ingress\<rparr>"
  show ?thesis
  proof (cases "tsproc_update_offset fl (c_tsproc ?c)")
    case None
    then show ?thesis using assms by (auto simp: clock_synchronize_def Let_def)
  next
    case (Some p)
    obtain ofs weight where p: "p = (ofs, weight)" by (cases p)
    obtain c1 r where u: "clock_utc_correct fl (?c\<lparr>c_master_offset := ofs\<rparr>) ingress = (c1, r)"
      by (metis surj_pair)
    note fx = clock_utc_correct_fx [OF u]
    have eq: "clock_synchronize fl c ingress origin =
        (if r then (c1, c_servo_state c1)
         else let c2 = c1\<lparr>c_cur := (c_cur c1)\<lparr>cur_offsetFromMaster := tmv_to_TimeInterval (c_master_offset c1)\<rparr>\<rparr>
           in if c_free_running c2 then (clock_no_adjust fl c2 ingress origin, SERVO_UNLOCKED)
              else clock_adjust fl c2 ingress weight)"
      using Some u p by (cases r) (simp_all add: clock_synchronize_def Let_def)
    show ?thesis
      using assms fx unfolding eq by (cases r) (auto simp: Let_def)
  qed
qed

text \<open>
  When the clock is not free running, \<open>clock_synchronize\<close> steps it at most once per call, only
  in the servo state JUMP, and by exactly minus the offset that it stored; in the state LOCKED
  it only sets the frequency, and an unlocked servo leaves the clock alone.
\<close>

theorem synchronize_effects:
  assumes "\<not> c_free_running c" and "clock_synchronize fl c ingress origin = (c', state)"
    and "tsproc_update_offset fl (tsproc_down_ts (c_tsproc c) origin ingress) = Some (ofs, weight)"
    and "snd (clock_utc_correct fl (c\<lparr>c_ingress_ts := ingress,
      c_tsproc := tsproc_down_ts (c_tsproc c) origin ingress, c_master_offset := ofs\<rparr>) ingress) = False"
  shows "\<exists>adj. filter adjusts_clock (c_fx c') = filter adjusts_clock (c_fx c) @
    (case state of SERVO_UNLOCKED \<Rightarrow> []
     | SERVO_JUMP \<Rightarrow> [ClockSetFreq adj, ClockStep (- tmv_to_nanoseconds (c_master_offset c'))]
     | SERVO_LOCKED \<Rightarrow> [ClockSetFreq adj])"
proof -
  let ?c0 = "c\<lparr>c_ingress_ts := ingress, c_tsproc := tsproc_down_ts (c_tsproc c) origin ingress,
    c_master_offset := ofs\<rparr>"
  obtain c1 where u: "clock_utc_correct fl ?c0 ingress = (c1, False)"
    using assms(4) by (metis prod.collapse)
  have fx: "filter adjusts_clock (c_fx c1) = filter adjusts_clock (c_fx c)"
    "\<not> c_free_running c1"
    using clock_utc_correct_fx [OF u] assms(1) by simp_all
  let ?c2 = "c1\<lparr>c_cur := (c_cur c1)\<lparr>cur_offsetFromMaster := tmv_to_TimeInterval (c_master_offset c1)\<rparr>\<rparr>"
  have "clock_adjust fl ?c2 ingress weight = (c', state)"
    using assms(2,3) u fx(2) by (simp add: clock_synchronize_def Let_def)
  then show ?thesis
    using fx(1)
    by (auto simp: clock_adjust_def Let_def clock_fx_def adjusts_clock_def
        split: prod.split_asm servo_state.split_asm if_split_asm)
qed

subsection \<open>Instances\<close>

definition sample_clock :: "bool \<Rightarrow> clock" where
  "sample_clock free =
    (let cid = clockIdentity sample_pid;
         q = \<lparr>clockClass = 248, clockAccuracy = 0xfe, offsetScaledLogVariance = 0xffff\<rparr>;
         t = \<lparr>spt_text = [0x70, 0x74, 0x70], spt_max_symbols = 0\<rparr>
     in \<lparr>c_type = CLOCK_TYPE_ORDINARY, c_config = sample_cfg, c_realtime = False, c_servo = sample_nullf,
      c_servo_type = CLOCK_SERVO_NULLF,
      c_dds = \<lparr>dds_flags = 0, dds_numberPorts = 1, dds_priority1 = 128, dds_clockQuality = q,
        dds_priority2 = 128, dds_clockIdentity = cid, dds_domainNumber = 0\<rparr>,
      c_localPriority = 128,
      c_cur = \<lparr>cur_stepsRemoved = 0, cur_offsetFromMaster = 0, cur_meanPathDelay = 0\<rparr>,
      c_dad = \<lparr>dad_pds = \<lparr>pds_parentPortIdentity = sample_pid, pds_grandmasterPriority1 = 128,
          pds_grandmasterClockQuality = q, pds_grandmasterPriority2 = 128,
          pds_grandmasterIdentity = cid\<rparr>, dad_ptl = [], dad_path_length = 0\<rparr>,
      c_tds = \<lparr>tds_currentUtcOffset = 37, tds_flags = 0, tds_timeSource = 0\<rparr>,
      c_best = None, c_best_id = cid, c_sde = False, c_free_running = free,
      c_freq_est_interval = 1, c_grand_master_capable = True, c_utc_timescale = False,
      c_utc_offset_set = 0, c_leap_set = 0, c_kernel_leap = True, c_utc_offset = 37,
      c_time_flags = 0, c_time_source = 0, c_servo_state = SERVO_UNLOCKED,
      c_master_offset = tmv_zero, c_path_delay = tmv_zero, c_ingress_ts = tmv_zero,
      c_initial_delay = tmv_zero,
      c_tsproc = tsproc_set_delay (sample_tsproc TSPROC_FILTER) (Tmv 100),
      c_fest = \<lparr>fest_origin1 = tmv_zero, fest_ingress1 = tmv_zero, fest_max_count = 1, fest_count = 0\<rparr>,
      c_status = \<lparr>tsn_master_offset = 0, tsn_ingress_time = 0, tsn_cumulativeScaledRateOffset = 0,
        tsn_scaledLastGmPhaseChange = 0, tsn_gmTimeBaseIndicator = 0,
        tsn_lastGmPhaseChange = \<lparr>sns_nanoseconds_msb = 0, sns_nanoseconds_lsb = 0,
          sns_fractional_nanoseconds = 0\<rparr>, tsn_gmPresent = 0, tsn_gmIdentity = cid\<rparr>,
      c_master_local_rr = 1, c_nrr = 1,
      c_stats = \<lparr>cs_offset = stats_reset, cs_freq = stats_reset, cs_delay = stats_reset,
        cs_max_count = 1\<rparr>,
      c_stats_interval = 0,
      c_desc = \<lparr>cdesc_product = t, cdesc_revision = t, cdesc_user = t, cdesc_manufacturer = [0, 0, 0]\<rparr>,
      c_sanity_check = None, c_subscribers = [], c_fx = []\<rparr>)"

lemma sample_clock_sel [simp]:
  "c_free_running (sample_clock free) = free" "c_fx (sample_clock free) = []"
  "c_utc_timescale (sample_clock free) = False" "c_servo (sample_clock free) = sample_nullf"
  "c_tsproc (sample_clock free) = tsproc_set_delay (sample_tsproc TSPROC_FILTER) (Tmv 100)"
  "cs_max_count (c_stats (sample_clock free)) = 1" "c_sanity_check (sample_clock free) = None"
  "c_servo_state (sample_clock free) = SERVO_UNLOCKED"
  by (simp_all add: sample_clock_def Let_def)

theorem free_running_never_adjusted_witness:
  "filter adjusts_clock (c_fx (fst (clock_synchronize exact (sample_clock True) (Tmv 1130) (Tmv 1000)))) = []"
  using free_running_never_adjusted [OF _ prod.collapse [symmetric], where c = "sample_clock True"
      and fl = exact and ingress = "Tmv 1130" and origin = "Tmv 1000"]
  by simp

lemma sample_offset:
  "tsproc_update_offset fl (tsproc_down_ts (tsproc_set_delay (sample_tsproc TSPROC_FILTER) (Tmv 100))
     (Tmv 1000) (Tmv 1130)) = Some (Tmv 30, 1)"
  by (simp add: sample_tsproc_def tsproc_create_def filter_create_def mmedian_create_def
      tsproc_set_delay_def tsproc_down_ts_def tsproc_update_offset_def weighting.simps
      tmv_is_zero_def tmv_sub_def tmv_zero_def)

theorem synchronize_effects_witness:
  "\<exists>adj. filter adjusts_clock (c_fx (fst (clock_synchronize exact (sample_clock False) (Tmv 1130) (Tmv 1000)))) =
     [ClockSetFreq adj, ClockStep (-30)]"
proof -
  let ?r = "clock_synchronize exact (sample_clock False) (Tmv 1130) (Tmv 1000)"
  have r: "snd ?r = SERVO_JUMP" "c_master_offset (fst ?r) = Tmv 30"
    by (simp_all add: clock_synchronize_def sample_offset clock_utc_correct_def clock_adjust_def
        sample_nullf_def servo_sample_def servo_impl_sample_def nullf_sample_def beyond_threshold_def
        dbl_of_i64_def exact_def tmv_to_nanoseconds_def clock_fx_def Let_def)
  from synchronize_effects [OF _ prod.collapse [symmetric], where c = "sample_clock False" and fl = exact
      and ingress = "Tmv 1130" and origin = "Tmv 1000" and ofs = "Tmv 30" and weight = 1]
  show ?thesis by (simp add: sample_offset clock_utc_correct_def r tmv_to_nanoseconds_def)
qed

theorem subscription_roundtrip_witness:
  "clock_get_subscription LittleEndian \<lparr>tv_sec = 130, tv_nsec = 0\<rparr> (sample_announce 1 0)
     (clock_update_subscription LittleEndian True \<lparr>tv_sec = 100, tv_nsec = 0\<rparr> (sample_announce 2 0)
       (1 # replicate 63 0) 60 []) = (1 # replicate 63 0, 30)"
  using subscription_roundtrip [of "[]" "1 # replicate 63 0" True "\<lparr>tv_sec = 100, tv_nsec = 0\<rparr>" 60
      "\<lparr>tv_sec = 130, tv_nsec = 0\<rparr>" 30 "sample_announce 1 0" "sample_announce 2 0" LittleEndian]
  by (simp add: subs_wf_def sample_announce_def)

end
