(* ===== verification/Tlv.thy ===== *)
theory Tlv
  imports Message "HOL-Library.Monad_Syntax"
begin

text \<open>
  Conversion of TLVs between network and host byte order (src/tlv.c), in the memory of the
  message.  \<open>HTONS(x)\<close> and the like reverse the octets of a field in place on a little-endian
  host and do nothing on a big-endian one.

  The errors of the C functions are the constructors of \<open>msg_err\<close>, a function that can fail
  returns a sum.
\<close>

datatype msg_err = EBADMSG | EPROTO | ENOMEM

subsection \<open>Fields in memory\<close>

definition flip :: "byte_order \<Rightarrow> nat \<Rightarrow> nat \<Rightarrow> u8 list \<Rightarrow> u8 list" where
  "flip bo n i mem = (case bo of
     LittleEndian \<Rightarrow> take i mem @ rev (take n (drop i mem)) @ drop (i + n) mem
   | BigEndian \<Rightarrow> mem)"

text \<open>A list of fields, each given by its width and its offset from \<open>base\<close>.\<close>

definition flips :: "byte_order \<Rightarrow> (nat \<times> nat) list \<Rightarrow> nat \<Rightarrow> u8 list \<Rightarrow> u8 list" where
  "flips bo fs base mem = fold (\<lambda>(n, i). flip bo n (base + i)) fs mem"

text \<open>Octets that the list does not have are zero; a write beyond its end extends it.\<close>

definition write_at :: "nat \<Rightarrow> u8 list \<Rightarrow> u8 list \<Rightarrow> u8 list" where
  "write_at i bs mem = take i mem @ replicate (i - length mem) 0 @ bs @ drop (i + length bs) mem"

subsection \<open>Scaled nanoseconds\<close>

text \<open>
  The source assigns the converted \<open>nanoseconds_msb\<close> to \<open>nanoseconds_lsb\<close> in both
  directions.  The 16 bit value is widened to 64 bits and stored in network order, six zero
  octets and its two octets.
\<close>

definition scaled_ns_n2h :: "byte_order \<Rightarrow> nat \<Rightarrow> u8 list \<Rightarrow> u8 list" where
  "scaled_ns_n2h bo i mem =
    (let mem = flip bo 2 i mem;
         mem = write_at (i + 2) (replicate 6 0 @ u16_bytes BigEndian (rd16 bo mem i)) mem
     in flip bo 2 (i + 10) mem)"

definition scaled_ns_h2n :: "byte_order \<Rightarrow> nat \<Rightarrow> u8 list \<Rightarrow> u8 list" where
  "scaled_ns_h2n bo i mem =
    (let mem = flip bo 2 i mem;
         mem = write_at (i + 2) (replicate 6 0 @ u16_bytes BigEndian (rd16 bo mem i)) mem
     in flip bo 2 (i + 10) mem)"

subsection \<open>Management TLVs\<close>

abbreviation (input) TLV_CLOCK_DESCRIPTION :: u16 where "TLV_CLOCK_DESCRIPTION \<equiv> 0x0001"
abbreviation (input) TLV_USER_DESCRIPTION :: u16 where "TLV_USER_DESCRIPTION \<equiv> 0x0002"
abbreviation (input) TLV_SAVE_IN_NON_VOLATILE_STORAGE :: u16
  where "TLV_SAVE_IN_NON_VOLATILE_STORAGE \<equiv> 0x0003"
abbreviation (input) TLV_RESET_NON_VOLATILE_STORAGE :: u16
  where "TLV_RESET_NON_VOLATILE_STORAGE \<equiv> 0x0004"
abbreviation (input) TLV_INITIALIZE :: u16 where "TLV_INITIALIZE \<equiv> 0x0005"
abbreviation (input) TLV_FAULT_LOG_RESET :: u16 where "TLV_FAULT_LOG_RESET \<equiv> 0x0007"
abbreviation (input) TLV_DEFAULT_DATA_SET :: u16 where "TLV_DEFAULT_DATA_SET \<equiv> 0x2000"
abbreviation (input) TLV_CURRENT_DATA_SET :: u16 where "TLV_CURRENT_DATA_SET \<equiv> 0x2001"
abbreviation (input) TLV_PARENT_DATA_SET :: u16 where "TLV_PARENT_DATA_SET \<equiv> 0x2002"
abbreviation (input) TLV_TIME_PROPERTIES_DATA_SET :: u16 where "TLV_TIME_PROPERTIES_DATA_SET \<equiv> 0x2003"
abbreviation (input) TLV_PORT_DATA_SET :: u16 where "TLV_PORT_DATA_SET \<equiv> 0x2004"
abbreviation (input) TLV_ENABLE_PORT :: u16 where "TLV_ENABLE_PORT \<equiv> 0x200D"
abbreviation (input) TLV_DISABLE_PORT :: u16 where "TLV_DISABLE_PORT \<equiv> 0x200E"
abbreviation (input) TLV_TIME_STATUS_NP :: u16 where "TLV_TIME_STATUS_NP \<equiv> 0xC000"
abbreviation (input) TLV_GRANDMASTER_SETTINGS_NP :: u16 where "TLV_GRANDMASTER_SETTINGS_NP \<equiv> 0xC001"
abbreviation (input) TLV_PORT_DATA_SET_NP :: u16 where "TLV_PORT_DATA_SET_NP \<equiv> 0xC002"
abbreviation (input) TLV_SUBSCRIBE_EVENTS_NP :: u16 where "TLV_SUBSCRIBE_EVENTS_NP \<equiv> 0xC003"
abbreviation (input) TLV_PORT_PROPERTIES_NP :: u16 where "TLV_PORT_PROPERTIES_NP \<equiv> 0xC004"

abbreviation (input) TRANSPORT_ADDR_LEN :: nat where "TRANSPORT_ADDR_LEN \<equiv> 16"

text \<open>\<open>buf += n; len -= n; if (len < 0) goto bad_length;\<close>\<close>

definition advance :: "nat \<Rightarrow> nat \<times> nat \<Rightarrow> (nat \<times> nat) option" where
  "advance n bl = (case bl of (buf, len) \<Rightarrow> if len < n then None else Some (buf + n, len - n))"

text \<open>
  The clock description is a sequence of fields of variable length from the octet \<open>data\<close>: the
  protocol address comes first, the descriptions behind it are only skipped.  The result has the
  memory, the descriptor and the number of octets used.
\<close>

definition protocol_address_post_recv ::
  "byte_order \<Rightarrow> nat \<times> nat \<Rightarrow> u8 list \<Rightarrow> (u8 list \<times> nat \<times> nat) option" where
  "protocol_address_post_recv bo bl mem = do {
     let protocolAddress = fst bl;
     bl \<leftarrow> advance 4 bl;
     let mem = flip bo 2 protocolAddress mem;
     let mem = flip bo 2 (protocolAddress + 2) mem;
     let n = unat (rd16 bo mem (protocolAddress + 2));
     (if n > TRANSPORT_ADDR_LEN then None else Some ());
     bl \<leftarrow> advance n bl;
     Some (mem, bl)
   }"

text \<open>A length octet and as many octets as it says.\<close>

definition skip_text :: "u8 list \<Rightarrow> nat \<times> nat \<Rightarrow> (nat \<times> nat) option" where
  "skip_text mem bl = do {
     bl' \<leftarrow> advance 1 bl;
     advance (unat (octet mem (fst bl))) bl'
   }"

definition clock_description_post_recv ::
  "byte_order \<Rightarrow> nat \<Rightarrow> nat \<Rightarrow> tlv_extra \<Rightarrow> u8 list \<Rightarrow> (u8 list \<times> tlv_extra \<times> nat) option" where
  "clock_description_post_recv bo data data_len ex mem = do {
     let clockType = data;
     bl \<leftarrow> advance 2 (data, data_len);
     let mem = flip bo 2 clockType mem;
     bl \<leftarrow> skip_text mem bl;
     let physicalAddress = fst bl;
     bl \<leftarrow> advance 2 bl;
     let mem = flip bo 2 physicalAddress mem;
     let n = unat (rd16 bo mem physicalAddress);
     (if n > TRANSPORT_ADDR_LEN then None else Some ());
     bl \<leftarrow> advance n bl;
     let protocolAddress = fst bl;
     (mem, bl) \<leftarrow> protocol_address_post_recv bo bl mem;
     bl \<leftarrow> advance 4 bl;
     bl \<leftarrow> skip_text mem bl;
     bl \<leftarrow> skip_text mem bl;
     bl \<leftarrow> skip_text mem bl;
     bl \<leftarrow> advance 6 bl;
     Some (mem, ex\<lparr>cd_clockType := clockType, cd_physicalAddress := physicalAddress,
       cd_protocolAddress := protocolAddress\<rparr>, fst bl - data)
   }"

text \<open>The conversion, the descriptor and \<open>extra_len\<close> by management id; None is bad_length.\<close>

definition mgt_data_post_recv ::
  "byte_order \<Rightarrow> u16 \<Rightarrow> nat \<Rightarrow> nat \<Rightarrow> tlv_extra \<Rightarrow> u8 list \<Rightarrow> (u8 list \<times> tlv_extra \<times> nat) option" where
  "mgt_data_post_recv bo mid data data_len ex mem =
    (let exact = (\<lambda>n fs. if data_len \<noteq> n then None else Some (flips bo fs data mem, ex, 0))
     in if mid = TLV_CLOCK_DESCRIPTION then clock_description_post_recv bo data data_len ex mem
     else if mid = TLV_USER_DESCRIPTION then
       (if data_len < 1 then None else Some (mem, ex, 1 + unat (octet mem data)))
     else if mid = TLV_DEFAULT_DATA_SET then exact 20 [(2, 2), (2, 7)]
     else if mid = TLV_CURRENT_DATA_SET then exact 18 [(2, 0), (8, 2), (8, 10)]
     else if mid = TLV_PARENT_DATA_SET then exact 32 [(2, 8), (2, 12), (4, 14), (2, 21)]
     else if mid = TLV_TIME_PROPERTIES_DATA_SET then exact 4 [(2, 0)]
     else if mid = TLV_PORT_DATA_SET then exact 26 [(2, 8), (8, 12)]
     else if mid = TLV_TIME_STATUS_NP then
       (if data_len \<noteq> 50 then None
        else Some (flips bo [(4, 38)] data (scaled_ns_n2h bo (data + 26)
          (flips bo [(8, 0), (8, 8), (4, 16), (4, 20), (2, 24)] data mem)), ex, 0))
     else if mid = TLV_GRANDMASTER_SETTINGS_NP then exact 8 [(2, 2), (2, 4)]
     else if mid = TLV_PORT_DATA_SET_NP then exact 8 [(4, 0), (4, 4)]
     else if mid = TLV_SUBSCRIBE_EVENTS_NP then exact 66 [(2, 0)]
     else if mid = TLV_PORT_PROPERTIES_NP then
       (if data_len < 13 then None
        else let mem = flips bo [(2, 8)] data mem
             in Some (mem, ex, 13 + unat (octet mem (data + 12))))
     else if mid \<in> {TLV_SAVE_IN_NON_VOLATILE_STORAGE, TLV_RESET_NON_VOLATILE_STORAGE, TLV_INITIALIZE,
           TLV_FAULT_LOG_RESET, TLV_ENABLE_PORT, TLV_DISABLE_PORT} then
       (if data_len \<noteq> 0 then None else Some (mem, ex, 0))
     else Some (mem, ex, 0))"

definition mgt_post_recv ::
  "byte_order \<Rightarrow> nat \<Rightarrow> nat \<Rightarrow> tlv_extra \<Rightarrow> u8 list \<Rightarrow> msg_err + (u8 list \<times> tlv_extra)" where
  "mgt_post_recv bo m data_len ex mem =
    (case mgt_data_post_recv bo (rd16 bo mem (m + 4)) (m + 6) data_len ex mem of
       None \<Rightarrow> Inl EBADMSG
     | Some (mem, ex, extra_len) \<Rightarrow>
         let extra_len' = (if extra_len mod 2 \<noteq> 0 then extra_len + 1 else extra_len)
         in if extra_len \<noteq> 0 \<and> extra_len' + 2 \<noteq> unat (rd16 bo mem (m + 2)) then Inl EBADMSG
            else Inr (mem, ex))"

definition mgt_pre_send :: "byte_order \<Rightarrow> nat \<Rightarrow> tlv_extra \<Rightarrow> u8 list \<Rightarrow> u8 list" where
  "mgt_pre_send bo m ex mem =
    (let mid = rd16 bo mem (m + 4); data = m + 6
     in if mid = TLV_CLOCK_DESCRIPTION then
          flip bo 2 (cd_protocolAddress ex + 2) (flip bo 2 (cd_protocolAddress ex)
            (flip bo 2 (cd_physicalAddress ex) (flip bo 2 (cd_clockType ex) mem)))
        else if mid = TLV_DEFAULT_DATA_SET then flips bo [(2, 2), (2, 7)] data mem
        else if mid = TLV_CURRENT_DATA_SET then flips bo [(2, 0), (8, 2), (8, 10)] data mem
        else if mid = TLV_PARENT_DATA_SET then flips bo [(2, 8), (2, 12), (4, 14), (2, 21)] data mem
        else if mid = TLV_TIME_PROPERTIES_DATA_SET then flips bo [(2, 0)] data mem
        else if mid = TLV_PORT_DATA_SET then flips bo [(2, 8), (8, 12)] data mem
        else if mid = TLV_TIME_STATUS_NP then
          flips bo [(4, 38)] data (scaled_ns_h2n bo (data + 26)
            (flips bo [(8, 0), (8, 8), (4, 16), (4, 20), (2, 24)] data mem))
        else if mid = TLV_GRANDMASTER_SETTINGS_NP then flips bo [(2, 2), (2, 4)] data mem
        else if mid = TLV_PORT_DATA_SET_NP then flips bo [(4, 0), (4, 4)] data mem
        else if mid = TLV_SUBSCRIBE_EVENTS_NP then flips bo [(2, 0)] data mem
        else if mid = TLV_PORT_PROPERTIES_NP then flips bo [(2, 8)] data mem
        else mem)"

subsection \<open>Monitoring responses and organization extensions\<close>

text \<open>Fields of the foot: the parent data set, the current one, the time properties, the last sync.\<close>

definition foot_fields :: "(nat \<times> nat) list" where
  "foot_fields = [(2, 8), (2, 12), (4, 14), (2, 21), (2, 32), (8, 34), (8, 42), (2, 50),
     (4, 56), (2, 54), (4, 60)]"

definition nsm_resp_post_recv ::
  "byte_order \<Rightarrow> tlv_extra \<Rightarrow> u8 list \<Rightarrow> msg_err + (u8 list \<times> tlv_extra)" where
  "nsm_resp_post_recv bo ex mem =
    (let tlv = tlv_at ex; len = unat (rd16 bo mem (tlv + 2))
     in if len < 70 then Inl EBADMSG
        else
          let mem = flips bo [(2, 6), (2, 8)] tlv mem;
              proto = rd16 bo mem (tlv + 6); alen = unat (rd16 bo mem (tlv + 8))
          in case (if proto = 1 then Some 4 else if proto = 2 then Some 16
                   else if proto = 3 then Some 6 else None) of
               None \<Rightarrow> Inl EBADMSG
             | Some expected \<Rightarrow>
                 if alen \<noteq> expected then Inl EBADMSG
                 else if len \<noteq> 70 + alen then Inl EBADMSG
                 else let foot = tlv + 10 + alen
                      in Inr (flips bo foot_fields foot mem, ex\<lparr>nsm_foot := foot\<rparr>))"

definition nsm_resp_pre_send :: "byte_order \<Rightarrow> tlv_extra \<Rightarrow> u8 list \<Rightarrow> u8 list" where
  "nsm_resp_pre_send bo ex mem =
     flips bo foot_fields (nsm_foot ex) (flips bo [(2, 6), (2, 8)] (tlv_at ex) mem)"

definition is_ieee8021_fup_info :: "nat \<Rightarrow> u8 list \<Rightarrow> bool" where
  "is_ieee8021_fup_info org mem \<longleftrightarrow>
     memcmp (octets mem (org + 4) 3) [0x00, 0x80, 0xC2] = 0 \<and>
     octet mem (org + 7) = 0 \<and> octet mem (org + 8) = 0 \<and> octet mem (org + 9) = 1"

definition org_post_recv :: "byte_order \<Rightarrow> nat \<Rightarrow> u8 list \<Rightarrow> msg_err + u8 list" where
  "org_post_recv bo org mem =
    (if is_ieee8021_fup_info org mem then
       if unat (rd16 bo mem (org + 2)) + 4 \<noteq> 32 then Inl EBADMSG
       else Inr (flips bo [(4, 28)] org (scaled_ns_n2h bo (org + 16)
              (flips bo [(4, 10), (2, 14)] org mem)))
     else Inr mem)"

definition org_pre_send :: "byte_order \<Rightarrow> nat \<Rightarrow> u8 list \<Rightarrow> u8 list" where
  "org_pre_send bo org mem =
    (if is_ieee8021_fup_info org mem
     then flips bo [(4, 28)] org (scaled_ns_h2n bo (org + 16) (flips bo [(4, 10), (2, 14)] org mem))
     else mem)"

subsection \<open>Any TLV\<close>

abbreviation (input) PATH_TRACE_MAX :: nat where "PATH_TRACE_MAX \<equiv> 179"

definition tlv_post_recv ::
  "byte_order \<Rightarrow> tlv_extra \<Rightarrow> u8 list \<Rightarrow> msg_err + (u8 list \<times> tlv_extra)" where
  "tlv_post_recv bo ex mem =
    (let tlv = tlv_at ex; type = rd16 bo mem tlv; len = unat (rd16 bo mem (tlv + 2))
     in if type = TLV_MANAGEMENT then
          (if len < 2 then Inl EBADMSG
           else let mem = flip bo 2 (tlv + 4) mem
                in if len > 2 then mgt_post_recv bo tlv (len - 2) ex mem else Inr (mem, ex))
        else if type = TLV_MANAGEMENT_ERROR_STATUS then
          (if len < 8 then Inl EBADMSG else Inr (flips bo [(2, 4), (2, 6)] tlv mem, ex))
        else if type = TLV_ORGANIZATION_EXTENSION then
          (if len < 6 then Inl EBADMSG
           else case org_post_recv bo tlv mem of Inl e \<Rightarrow> Inl e | Inr mem \<Rightarrow> Inr (mem, ex))
        else if type = TLV_PATH_TRACE then
          Inr (if len div 8 > PATH_TRACE_MAX
               then write_at (tlv + 2) (u16_bytes bo (of_nat (PATH_TRACE_MAX * 8))) mem else mem, ex)
        else if type = TLV_PTPMON_RESP then nsm_resp_post_recv bo ex mem
        else Inr (mem, ex))"

text \<open>
  The memory when one of these conversions fails: what was converted in front of the error stays
  so.  Only the clock description, the port properties and the monitoring response are converted
  before all of their lengths are known.
\<close>

definition clock_description_left :: "byte_order \<Rightarrow> nat \<Rightarrow> nat \<Rightarrow> u8 list \<Rightarrow> u8 list" where
  "clock_description_left bo data data_len mem =
    (case advance 2 (data, data_len) of
       None \<Rightarrow> mem
     | Some bl \<Rightarrow>
         let mem = flip bo 2 data mem
         in case Option.bind (skip_text mem bl) (\<lambda>bl. map_option (Pair (fst bl)) (advance 2 bl)) of
              None \<Rightarrow> mem
            | Some (physicalAddress, bl) \<Rightarrow>
                let mem = flip bo 2 physicalAddress mem; n = unat (rd16 bo mem physicalAddress)
                in if n > TRANSPORT_ADDR_LEN then mem
                   else case Option.bind (advance n bl) (\<lambda>bl. map_option (Pair (fst bl)) (advance 4 bl)) of
                          None \<Rightarrow> mem
                        | Some (protocolAddress, _) \<Rightarrow>
                            flip bo 2 (protocolAddress + 2) (flip bo 2 protocolAddress mem))"

definition mgt_data_left :: "byte_order \<Rightarrow> u16 \<Rightarrow> nat \<Rightarrow> nat \<Rightarrow> u8 list \<Rightarrow> u8 list" where
  "mgt_data_left bo mid data data_len mem =
    (if mid = TLV_CLOCK_DESCRIPTION then clock_description_left bo data data_len mem
     else if mid = TLV_PORT_PROPERTIES_NP \<and> 13 \<le> data_len then flips bo [(2, 8)] data mem
     else mem)"

definition tlv_left :: "byte_order \<Rightarrow> nat \<Rightarrow> u8 list \<Rightarrow> u8 list" where
  "tlv_left bo tlv mem =
    (let type = rd16 bo mem tlv; len = unat (rd16 bo mem (tlv + 2))
     in if type = TLV_MANAGEMENT \<and> 2 \<le> len then
          let mem = flip bo 2 (tlv + 4) mem
          in if len > 2 then mgt_data_left bo (rd16 bo mem (tlv + 4)) (tlv + 6) (len - 2) mem else mem
        else if type = TLV_PTPMON_RESP \<and> 70 \<le> len then flips bo [(2, 6), (2, 8)] tlv mem
        else mem)"

definition tlv_pre_send :: "byte_order \<Rightarrow> tlv_extra \<Rightarrow> u8 list \<Rightarrow> u8 list" where
  "tlv_pre_send bo ex mem =
    (let tlv = tlv_at ex; type = rd16 bo mem tlv; len = unat (rd16 bo mem (tlv + 2))
     in if type = TLV_MANAGEMENT then
          flip bo 2 (tlv + 4) (if len > 2 then mgt_pre_send bo tlv ex mem else mem)
        else if type = TLV_MANAGEMENT_ERROR_STATUS then flips bo [(2, 4), (2, 6)] tlv mem
        else if type = TLV_ORGANIZATION_EXTENSION then org_pre_send bo tlv mem
        else if type = TLV_PTPMON_RESP then nsm_resp_pre_send bo ex mem
        else mem)"

subsection \<open>Swapping fields twice\<close>

lemma length_flip [simp]: "length (flip bo n i mem) = length mem"
  by (cases bo) (auto simp: flip_def min_def)

lemma length_flips [simp]: "length (flips bo fs base mem) = length mem"
  unfolding flips_def by (induction fs arbitrary: mem) (auto simp: split_beta)

text \<open>The octet that lands at \<open>k\<close> when the octets of the field at \<open>i\<close> are reversed.\<close>

definition mirror :: "nat \<Rightarrow> nat \<Rightarrow> nat \<Rightarrow> nat \<Rightarrow> nat" where
  "mirror i n len k = i + (min (i + n) len - Suc k)"

lemma mirror:
  assumes "i \<le> k" "k < i + n" "k < len"
  shows "i \<le> mirror i n len k" "mirror i n len k < i + n" "mirror i n len k < len"
    "mirror i n len (mirror i n len k) = k"
  using assms by (auto simp: mirror_def min_def)

lemma nth_flip:
  assumes "k < length mem"
  shows "flip LittleEndian n i mem ! k =
    (if i \<le> k \<and> k < i + n then mem ! mirror i n (length mem) k else mem ! k)"
proof -
  let ?s = "take n (drop i mem)"
  consider "k < i" | "i \<le> k" "k < i + n" | "i + n \<le> k" by linarith
  then show ?thesis
  proof cases
    case 1
    with assms show ?thesis by (simp add: flip_def nth_append)
  next
    case 2
    then have kl: "k - i < length ?s" using assms by (simp add: diff_less_mono less_diff_conv2)
    then have "flip LittleEndian n i mem ! k = ?s ! (length ?s - Suc (k - i))"
      using 2 assms by (simp add: flip_def nth_append rev_nth)
    also have "\<dots> = mem ! (i + (length ?s - Suc (k - i)))"
    proof -
      have "length ?s - Suc (k - i) < n" "i \<le> length mem" using kl by auto
      then show ?thesis by simp
    qed
    also have "i + (length ?s - Suc (k - i)) = mirror i n (length mem) k"
      using 2 assms by (auto simp: mirror_def min_def)
    finally show ?thesis using 2 by simp
  next
    case 3
    with assms have "k - (i + length ?s) = k - (i + n)" "i + length ?s \<le> k" "\<not> k - i < n" by auto
    with 3 assms show ?thesis by (simp add: flip_def nth_append)
  qed
qed

lemma flip_flip [simp]: "flip bo n i (flip bo n i mem) = mem"
proof (cases bo)
  case LittleEndian
  show ?thesis
    unfolding LittleEndian
  proof (rule nth_equalityI)
    fix k assume "k < length (flip LittleEndian n i (flip LittleEndian n i mem))"
    then have "k < length mem" by simp
    then show "flip LittleEndian n i (flip LittleEndian n i mem) ! k = mem ! k"
      using mirror [of i k n "length mem"] by (simp add: nth_flip)
  qed simp
qed (simp add: flip_def)

definition disjoint_fields :: "nat \<times> nat \<Rightarrow> nat \<times> nat \<Rightarrow> bool" where
  "disjoint_fields f g \<longleftrightarrow> snd f + fst f \<le> snd g \<or> snd g + fst g \<le> snd f"

lemma flip_commute:
  assumes "disjoint_fields (n, i) (m, j)"
  shows "flip bo n i (flip bo m j mem) = flip bo m j (flip bo n i mem)"
proof (cases bo)
  case LittleEndian
  show ?thesis
    unfolding LittleEndian
  proof (rule nth_equalityI)
    fix k assume "k < length (flip LittleEndian n i (flip LittleEndian m j mem))"
    then have k: "k < length mem" by simp
    show "flip LittleEndian n i (flip LittleEndian m j mem) ! k =
      flip LittleEndian m j (flip LittleEndian n i mem) ! k"
      using k mirror [of i k n "length mem"] mirror [of j k m "length mem"] assms
      by (auto simp: nth_flip disjoint_fields_def)
  qed simp
qed (simp add: flip_def)

fun all_disjoint :: "(nat \<times> nat) list \<Rightarrow> bool" where
  "all_disjoint [] = True"
| "all_disjoint (f # fs) = (list_all (disjoint_fields f) fs \<and> all_disjoint fs)"

lemma flips_simps [simp]:
  "flips bo [] base mem = mem"
  "flips bo (f # fs) base mem = flips bo fs base (flip bo (fst f) (base + snd f) mem)"
  by (simp_all add: flips_def split_beta)

lemma flip_flips_commute:
  "list_all (disjoint_fields f) fs \<Longrightarrow>
   flip bo (fst f) (base + snd f) (flips bo fs base mem) = flips bo fs base (flip bo (fst f) (base + snd f) mem)"
proof (induction fs arbitrary: mem)
  case (Cons g fs)
  then have "disjoint_fields (fst f, base + snd f) (fst g, base + snd g)"
    by (auto simp: disjoint_fields_def)
  from flip_commute [OF this] Cons show ?case by simp
qed simp

lemma flip_flips_commute_bases:
  "list_all (\<lambda>g. disjoint_fields (n, i) (fst g, c + snd g)) gs \<Longrightarrow>
   flip bo n i (flips bo gs c mem) = flips bo gs c (flip bo n i mem)"
proof (induction gs arbitrary: mem)
  case (Cons g gs)
  then have "disjoint_fields (n, i) (fst g, c + snd g)" by simp
  from flip_commute [OF this] Cons show ?case by simp
qed simp

lemma flips_commute:
  "list_all (\<lambda>f. list_all (\<lambda>g. disjoint_fields (fst f, b + snd f) (fst g, c + snd g)) gs) fs \<Longrightarrow>
   flips bo fs b (flips bo gs c mem) = flips bo gs c (flips bo fs b mem)"
  by (induction fs arbitrary: mem) (simp_all add: flip_flips_commute_bases)

lemma flips_flips: "all_disjoint fs \<Longrightarrow> flips bo fs base (flips bo fs base mem) = mem"
  by (induction fs arbitrary: mem) (simp_all flip: flip_flips_commute)

text \<open>Octets outside of the fields keep their values.\<close>

lemma octet_flip:
  assumes "k < i \<or> i + n \<le> k"
  shows "octet (flip bo n i mem) k = octet mem k"
proof (cases bo)
  case LittleEndian
  with assms show ?thesis by (auto simp: octet_def nth_flip)
qed (simp add: flip_def)

lemma octet_flips:
  "list_all (\<lambda>f. k < base + snd f \<or> base + snd f + fst f \<le> k) fs \<Longrightarrow>
   octet (flips bo fs base mem) k = octet mem k"
  by (induction fs arbitrary: mem) (simp_all add: octet_flip)

lemma octet_flips_before: "k < base \<Longrightarrow> octet (flips bo fs base mem) k = octet mem k"
  by (rule octet_flips) (simp add: list_all_iff)

lemma rd16_cong: "octet mem i = octet mem' i \<Longrightarrow> octet mem (i + 1) = octet mem' (i + 1) \<Longrightarrow>
  rd16 bo mem i = rd16 bo mem' i"
  by (simp add: rd16_def split: byte_order.split)

lemma rd16_write_at: "rd16 bo (write_at i (u16_bytes bo w) mem) i = w"
proof -
  have "octet (write_at i (u16_bytes bo w) mem) (i + k) = u16_bytes bo w ! k" if "k < 2" for k
    using that by (auto simp: octet_def write_at_def nth_append min_def)
  from this [of 0] this [of 1] show ?thesis
    by (cases bo) (auto intro!: bit_word_eqI simp: rd16_def bit_simps)
qed

lemma rd16_flip: "i + 2 \<le> j \<or> j + n \<le> i \<Longrightarrow> rd16 bo (flip bo n j mem) i = rd16 bo mem i"
  by (intro rd16_cong octet_flip) auto

lemma rd16_flips_before: "i + 2 \<le> base \<Longrightarrow> rd16 bo (flips bo fs base mem) i = rd16 bo mem i"
  by (intro rd16_cong octet_flips_before) auto

lemma disjoint_field_lists:
  "all_disjoint [(2, 2), (2, 7)]" "all_disjoint [(2, 0), (8, 2), (8, 10)]"
  "all_disjoint [(2, 8), (2, 12), (4, 14), (2, 21)]" "all_disjoint [(2, 8), (8, 12)]"
  "all_disjoint [(2, 2), (2, 4)]" "all_disjoint [(4, 0), (4, 4)]" "all_disjoint [(2, 4), (2, 6)]"
  "all_disjoint [(2, 6), (2, 8)]" "all_disjoint [f]" "all_disjoint foot_fields"
  by (simp_all add: disjoint_fields_def foot_fields_def)

text \<open>
  An accepted clock description has its four two-octet fields at increasing addresses behind the
  start of the data.
\<close>

lemma advance_Some: "advance n bl = Some bl' \<longleftrightarrow> n \<le> snd bl \<and> bl' = (fst bl + n, snd bl - n)"
  by (auto simp: advance_def split: prod.splits)

lemma protocol_address_post_recv_fields:
  "protocol_address_post_recv bo bl mem = Some (mem', bl') \<Longrightarrow>
   mem' = flips bo [(2, fst bl), (2, fst bl + 2)] 0 mem \<and> 4 \<le> snd bl"
  unfolding protocol_address_post_recv_def Let_def
  by (auto simp: bind_eq_Some_conv advance_Some split: if_splits)

lemma skip_text_mono:
  "skip_text mem bl = Some bl' \<Longrightarrow> fst bl + 1 \<le> fst bl' \<and> fst bl' + snd bl' = fst bl + snd bl"
  by (auto simp: skip_text_def bind_eq_Some_conv advance_Some)

lemma clock_description_post_recv_fields:
  assumes "clock_description_post_recv bo data data_len ex mem = Some (mem', ex', n)"
  shows "\<exists>pa pr. ex' = ex\<lparr>cd_clockType := data, cd_physicalAddress := pa, cd_protocolAddress := pr\<rparr> \<and>
    mem' = flips bo [(2, data), (2, pa), (2, pr), (2, pr + 2)] 0 mem \<and> data + 3 \<le> pa \<and> pa + 2 \<le> pr \<and>
    pr + 4 \<le> data + data_len"
  using assms unfolding clock_description_post_recv_def Let_def
  by (clarsimp simp: bind_eq_Some_conv advance_Some split: if_splits
      dest!: protocol_address_post_recv_fields skip_text_mono)
    (intro exI conjI, rule refl, auto)

text \<open>The octets in front of the data of a management TLV keep their values.\<close>

definition mgt_fields :: "u16 \<Rightarrow> (nat \<times> nat) list" where
  "mgt_fields mid =
    (if mid = TLV_DEFAULT_DATA_SET then [(2, 2), (2, 7)]
     else if mid = TLV_CURRENT_DATA_SET then [(2, 0), (8, 2), (8, 10)]
     else if mid = TLV_PARENT_DATA_SET then [(2, 8), (2, 12), (4, 14), (2, 21)]
     else if mid = TLV_TIME_PROPERTIES_DATA_SET then [(2, 0)]
     else if mid = TLV_PORT_DATA_SET then [(2, 8), (8, 12)]
     else if mid = TLV_GRANDMASTER_SETTINGS_NP then [(2, 2), (2, 4)]
     else if mid = TLV_PORT_DATA_SET_NP then [(4, 0), (4, 4)]
     else if mid = TLV_SUBSCRIBE_EVENTS_NP then [(2, 0)]
     else if mid = TLV_PORT_PROPERTIES_NP then [(2, 8)]
     else [])"

lemma all_disjoint_mgt_fields: "all_disjoint (mgt_fields mid)"
  by (simp add: mgt_fields_def disjoint_fields_def)

lemma mgt_data_post_recv_fields:
  assumes "mgt_data_post_recv bo mid data data_len ex mem = Some (mem', ex', n)"
    and "mid \<noteq> TLV_CLOCK_DESCRIPTION" "mid \<noteq> TLV_TIME_STATUS_NP"
  shows "mem' = flips bo (mgt_fields mid) data mem" "ex' = ex"
  using assms unfolding mgt_data_post_recv_def mgt_fields_def Let_def
  by (auto split: if_splits)

lemma mgt_pre_send_fields:
  assumes "rd16 bo mem (m + 4) \<noteq> TLV_CLOCK_DESCRIPTION" "rd16 bo mem (m + 4) \<noteq> TLV_TIME_STATUS_NP"
  shows "mgt_pre_send bo m ex mem = flips bo (mgt_fields (rd16 bo mem (m + 4))) (m + 6) mem"
  using assms unfolding mgt_pre_send_def mgt_fields_def Let_def by simp

subsection \<open>Round trips\<close>

lemma mgt_id_before:
  "rd16 bo (flips bo fs (m + 6) mem) (m + 4) = rd16 bo mem (m + 4)"
  by (intro rd16_flips_before) simp

lemma clock_description_fields_disjoint:
  "d + 3 \<le> pa \<Longrightarrow> pa + 2 \<le> pr \<Longrightarrow> all_disjoint [(2, d), (2, pa), (2, pr), (2, pr + 2)]"
  by (simp add: disjoint_fields_def)

lemma mgt_pre_send_clock_description:
  "rd16 bo mem (m + 4) = TLV_CLOCK_DESCRIPTION \<Longrightarrow> mgt_pre_send bo m ex mem =
   flips bo [(2, cd_clockType ex), (2, cd_physicalAddress ex), (2, cd_protocolAddress ex),
     (2, cd_protocolAddress ex + 2)] 0 mem"
  by (simp add: mgt_pre_send_def)

lemma mgt_round_trip:
  assumes "mgt_post_recv bo m data_len ex mem = Inr (mem', ex')"
    and "rd16 bo mem (m + 4) \<noteq> TLV_TIME_STATUS_NP"
  shows "mgt_pre_send bo m ex' mem' = mem \<and> rd16 bo mem' m = rd16 bo mem m \<and>
    rd16 bo mem' (m + 2) = rd16 bo mem (m + 2) \<and> tlv_at ex' = tlv_at ex"
proof -
  let ?mid = "rd16 bo mem (m + 4)"
  from assms(1) obtain n where
    post: "mgt_data_post_recv bo ?mid (m + 6) data_len ex mem = Some (mem', ex', n)"
    by (auto simp: mgt_post_recv_def Let_def split: option.splits if_splits)
  show ?thesis
  proof (cases "?mid = TLV_CLOCK_DESCRIPTION")
    case True
    with post have "clock_description_post_recv bo (m + 6) data_len ex mem = Some (mem', ex', n)"
      by (simp add: mgt_data_post_recv_def)
    then obtain pa pr where ex': "ex' = ex\<lparr>cd_clockType := m + 6, cd_physicalAddress := pa,
        cd_protocolAddress := pr\<rparr>"
      and mem': "mem' = flips bo [(2, m + 6), (2, pa), (2, pr), (2, pr + 2)] 0 mem"
      and le: "m + 6 + 3 \<le> pa" "pa + 2 \<le> pr"
      using clock_description_post_recv_fields by blast
    let ?fs = "[(2, m + 6), (2, pa), (2, pr), (2, pr + 2)]"
    have before: "rd16 bo (flips bo ?fs 0 mem) i = rd16 bo mem i" if "i + 2 \<le> m + 6" for i
      by (intro rd16_cong octet_flips) (use le that in auto)
    with True mem' have "rd16 bo mem' (m + 4) = TLV_CLOCK_DESCRIPTION" by simp
    then have "mgt_pre_send bo m ex' mem' = flips bo ?fs 0 mem'"
      by (simp add: mgt_pre_send_clock_description ex' del: flips_simps)
    also have "\<dots> = mem"
      unfolding mem' by (intro flips_flips clock_description_fields_disjoint le)
    finally show ?thesis
      using before [of m] before [of "m + 2"] mem' ex' by simp
  next
    case False
    note mem' = mgt_data_post_recv_fields(1) [OF post False assms(2)]
      and ex' = mgt_data_post_recv_fields(2) [OF post False assms(2)]
    from False assms(2) have "mgt_pre_send bo m ex' mem' = flips bo (mgt_fields ?mid) (m + 6) mem'"
      by (simp add: mgt_pre_send_fields mem' mgt_id_before)
    then show ?thesis
      by (simp add: mem' ex' flips_flips all_disjoint_mgt_fields rd16_flips_before)
  qed
qed

lemma nsm_resp_round_trip:
  assumes "nsm_resp_post_recv bo ex mem = Inr (mem', ex')"
  shows "nsm_resp_pre_send bo ex' mem' = mem \<and> rd16 bo mem' (tlv_at ex) = rd16 bo mem (tlv_at ex) \<and>
    tlv_at ex' = tlv_at ex"
proof -
  let ?head = "[(2, 6), (2, 8)]"
  from assms obtain n where foot: "ex' = ex\<lparr>nsm_foot := tlv_at ex + 10 + n\<rparr>"
    and mem': "mem' = flips bo foot_fields (tlv_at ex + 10 + n) (flips bo ?head (tlv_at ex) mem)"
    unfolding nsm_resp_post_recv_def Let_def
    using that [of 4] that [of 16] that [of 6] by (auto split: if_splits option.splits)
  have "flips bo foot_fields (tlv_at ex + 10 + n) mem' = flips bo ?head (tlv_at ex) mem"
    unfolding mem' by (intro flips_flips disjoint_field_lists)
  moreover have "flips bo foot_fields (tlv_at ex + 10 + n) (flips bo ?head (tlv_at ex) mem') =
      flips bo ?head (tlv_at ex) (flips bo foot_fields (tlv_at ex + 10 + n) mem')"
    by (rule flips_commute) (simp add: foot_fields_def disjoint_fields_def)
  ultimately have "nsm_resp_pre_send bo ex' mem' = mem"
    by (simp add: nsm_resp_pre_send_def foot flips_flips disjoint_fields_def del: flips_simps)
  moreover have "rd16 bo mem' (tlv_at ex) = rd16 bo mem (tlv_at ex)"
    unfolding mem' by (subst rd16_flips_before) (auto simp: rd16_flip)
  ultimately show ?thesis by (simp add: foot)
qed

text \<open>The TLVs whose conversion loses octets, see \<open>scaled_ns_loses_nanoseconds\<close>, or shortens the list.\<close>

definition tlv_reversible :: "byte_order \<Rightarrow> nat \<Rightarrow> u8 list \<Rightarrow> bool" where
  "tlv_reversible bo tlv mem =
    (let type = rd16 bo mem tlv; len = unat (rd16 bo mem (tlv + 2))
     in if type = TLV_MANAGEMENT then
          len > 2 \<longrightarrow> rd16 bo (flip bo 2 (tlv + 4) mem) (tlv + 4) \<noteq> TLV_TIME_STATUS_NP
        else if type = TLV_ORGANIZATION_EXTENSION then \<not> is_ieee8021_fup_info tlv mem
        else if type = TLV_PATH_TRACE then len div 8 \<le> PATH_TRACE_MAX
        else True)"

text \<open>
  C37: for every TLV that is reversible, sending what was received is the identity on its octets:
  if \<open>tlv_post_recv\<close> accepts the TLV in network order, then \<open>tlv_pre_send\<close> with the descriptor it
  returned restores the octets, for both byte orders.  Reversible are the TLVs of all types but
  three: the management TLV TIME_STATUS_NP and the follow-up information, whose scaled
  nanoseconds lose octets, and a path trace list that is too long and was cut to fit the message.
\<close>

theorem tlv_round_trip:
  assumes "tlv_post_recv bo ex mem = Inr (mem', ex')" and "tlv_reversible bo (tlv_at ex) mem"
  shows "tlv_pre_send bo ex' mem' = mem"
proof -
  let ?t = "tlv_at ex" and ?len = "unat (rd16 bo mem (tlv_at ex + 2))"
  consider (mgt) "rd16 bo mem ?t = TLV_MANAGEMENT"
    | (err) "rd16 bo mem ?t = TLV_MANAGEMENT_ERROR_STATUS"
    | (nsm) "rd16 bo mem ?t = TLV_PTPMON_RESP"
    | (other) "rd16 bo mem ?t \<noteq> TLV_MANAGEMENT" "rd16 bo mem ?t \<noteq> TLV_MANAGEMENT_ERROR_STATUS"
        "rd16 bo mem ?t \<noteq> TLV_PTPMON_RESP" by blast
  then show ?thesis
  proof cases
    case mgt
    let ?mem = "flip bo 2 (?t + 4) mem"
    have before: "rd16 bo ?mem ?t = rd16 bo mem ?t" "rd16 bo ?mem (?t + 2) = rd16 bo mem (?t + 2)"
      by (simp_all add: rd16_flip)
    show ?thesis
    proof (cases "?len > 2")
      case True
      with mgt assms have "mgt_post_recv bo ?t (?len - 2) ex ?mem = Inr (mem', ex')"
        and "rd16 bo ?mem (?t + 4) \<noteq> TLV_TIME_STATUS_NP"
        by (auto simp: tlv_post_recv_def tlv_reversible_def Let_def split: if_splits)
      from mgt_round_trip [OF this] mgt True before show ?thesis
        by (simp add: tlv_pre_send_def)
    next
      case False
      with mgt assms before show ?thesis
        by (auto simp: tlv_post_recv_def tlv_pre_send_def Let_def split: if_splits)
    qed
  next
    case err
    with assms(1) have "ex' = ex" "mem' = flips bo [(2, 4), (2, 6)] ?t mem"
      by (auto simp: tlv_post_recv_def Let_def split: if_splits)
    moreover have "rd16 bo (flips bo [(2, 4), (2, 6)] ?t mem) ?t = rd16 bo mem ?t"
      by (simp add: rd16_flip)
    ultimately show ?thesis
      using err by (simp add: tlv_pre_send_def Let_def flips_flips disjoint_fields_def del: flips_simps)
  next
    case nsm
    with assms(1) have "nsm_resp_post_recv bo ex mem = Inr (mem', ex')"
      by (simp add: tlv_post_recv_def)
    from nsm_resp_round_trip [OF this] nsm show ?thesis by (simp add: tlv_pre_send_def)
  next
    case other
    with assms show ?thesis
      by (auto simp: tlv_post_recv_def tlv_pre_send_def tlv_reversible_def Let_def
          org_post_recv_def org_pre_send_def split: if_splits sum.splits)
  qed
qed

text \<open>A management TLV with the default data set, received on a little-endian host.\<close>

definition sample_tlv :: "u8 list" where
  "sample_tlv = [1, 0, 22, 0, 0x20, 0, 1, 2, 3, 4, 5, 6, 7, 8, 9, 10, 11, 12, 13, 14, 15, 16, 17, 18, 19, 20]"

definition sample_ex :: tlv_extra where
  "sample_ex = \<lparr>tlv_at = 0, cd_clockType = 0, cd_physicalAddress = 0, cd_protocolAddress = 0, nsm_foot = 0\<rparr>"

lemma tlv_round_trip_witness:
  "\<exists>mem' ex'. tlv_post_recv LittleEndian sample_ex sample_tlv = Inr (mem', ex') \<and>
     mem' \<noteq> sample_tlv \<and> tlv_pre_send LittleEndian ex' mem' = sample_tlv"
proof -
  let ?r = "tlv_post_recv LittleEndian sample_ex sample_tlv"
  have "?r = Inr (projr ?r)" "fst (projr ?r) \<noteq> sample_tlv" by code_simp+
  moreover have "tlv_reversible LittleEndian (tlv_at sample_ex) sample_tlv" by code_simp
  ultimately have "?r = Inr (fst (projr ?r), snd (projr ?r))" "fst (projr ?r) \<noteq> sample_tlv"
    "tlv_reversible LittleEndian (tlv_at sample_ex) sample_tlv" by simp_all
  then show ?thesis using tlv_round_trip by blast
qed

text \<open>
  The time of the last grandmaster phase change does not survive the conversion.  Whatever
  the eight octets of \<open>nanoseconds_lsb\<close> were, after \<open>scaled_ns_n2h\<close> on a little-endian host
  they are six zero octets and the two octets of \<open>nanoseconds_msb\<close>; two messages that differ in
  \<open>nanoseconds_lsb\<close> alone become the same message.
\<close>

theorem scaled_ns_loses_nanoseconds:
  assumes "length pre = i" "length msb = 2" "length lsb = 8" "length frac = 2"
  shows "scaled_ns_n2h LittleEndian i (pre @ msb @ lsb @ frac @ post) =
    pre @ rev msb @ replicate 6 0 @ msb @ rev frac @ post"
proof -
  obtain a b where msb: "msb = [a, b]"
    using assms(2) by (auto simp: length_Suc_conv numeral_2_eq_2)
  have flip_here: "flip LittleEndian (length xs) (length ys) (ys @ xs @ zs) = ys @ rev xs @ zs"
    for xs ys zs :: "u8 list"
    by (simp add: flip_def)
  have one: "flip LittleEndian 2 i (pre @ msb @ lsb @ frac @ post) = pre @ rev msb @ lsb @ frac @ post"
    using flip_here [of msb pre "lsb @ frac @ post"] assms by simp
  let ?mem = "pre @ rev msb @ lsb @ frac @ post"
  have "rd16 LittleEndian ?mem i = ucast b OR push_bit 8 (ucast a)"
    using assms(1) by (simp add: rd16_def msb)
  moreover have high: "\<not> bit b (8 + n)" for n
    using bit_imp_le_length [of b "8 + n"] by auto
  moreover have "u16_bytes BigEndian (ucast b OR push_bit 8 (ucast a)) = [a, b]"
    using high by (auto intro!: bit_word_eqI simp: bit_simps)
  ultimately have two: "write_at (i + 2) (replicate 6 0 @ u16_bytes BigEndian (rd16 LittleEndian ?mem i)) ?mem =
      pre @ rev msb @ (replicate 6 0 @ msb) @ frac @ post"
    using assms by (simp add: write_at_def msb)
  have three: "flip LittleEndian 2 (i + 10) (pre @ rev msb @ (replicate 6 0 @ msb) @ frac @ post) =
      pre @ rev msb @ (replicate 6 0 @ msb) @ rev frac @ post"
    using flip_here [of frac "pre @ rev msb @ replicate 6 0 @ msb" post] assms by simp
  show ?thesis
    unfolding scaled_ns_n2h_def Let_def one two three by (simp del: replicate.simps)
qed

lemma scaled_ns_loses_nanoseconds_witness:
  "scaled_ns_n2h LittleEndian 0 [0, 1, 2, 3, 4, 5, 6, 7, 8, 9, 10, 11] =
     [1, 0, 0, 0, 0, 0, 0, 0, 0, 1, 11, 10]"
  using scaled_ns_loses_nanoseconds [of "[]" 0 "[0, 1]" "[2, 3, 4, 5, 6, 7, 8, 9]" "[10, 11]" "[]"]
  by (simp add: numeral_eq_Suc)

subsection \<open>Memory safety\<close>

lemma octet_write_at: "k < i \<or> i + length bs \<le> k \<Longrightarrow> octet (write_at i bs mem) k = octet mem k"
  by (auto simp: octet_def write_at_def nth_append min_def)

lemma octet_scaled_ns_n2h: "k < i \<or> i + 12 \<le> k \<Longrightarrow> octet (scaled_ns_n2h bo i mem) k = octet mem k"
  by (auto simp: scaled_ns_n2h_def Let_def octet_flip octet_write_at)

lemma mgt_data_post_recv_confined:
  assumes "mgt_data_post_recv bo mid data data_len ex mem = Some (mem', ex', n)"
    and "k < data \<or> data + data_len \<le> k"
  shows "octet mem' k = octet mem k"
proof -
  consider (cd) "mid = TLV_CLOCK_DESCRIPTION" | (ts) "mid = TLV_TIME_STATUS_NP"
    | (other) "mid \<noteq> TLV_CLOCK_DESCRIPTION" "mid \<noteq> TLV_TIME_STATUS_NP" by blast
  then show ?thesis
  proof cases
    case cd
    with assms(1) have "clock_description_post_recv bo data data_len ex mem = Some (mem', ex', n)"
      by (simp add: mgt_data_post_recv_def)
    from clock_description_post_recv_fields [OF this] assms(2) show ?thesis
      by (auto simp: octet_flip)
  next
    case ts
    with assms have "data_len = 50" and "mem' = flips bo [(4, 38)] data (scaled_ns_n2h bo (data + 26)
          (flips bo [(8, 0), (8, 8), (4, 16), (4, 20), (2, 24)] data mem))"
      by (auto simp: mgt_data_post_recv_def split: if_splits)
    with assms(2) show ?thesis by (auto simp: octet_flip octet_scaled_ns_n2h)
  next
    case other
    have "list_all (\<lambda>f. snd f + fst f \<le> data_len) (mgt_fields mid)"
      using assms(1) other unfolding mgt_data_post_recv_def mgt_fields_def Let_def
      by (auto split: if_splits)
    then have "list_all (\<lambda>f. k < data + snd f \<or> data + snd f + fst f \<le> k) (mgt_fields mid)"
      using assms(2) by (auto simp: list_all_iff)
    then show ?thesis
      using mgt_data_post_recv_fields(1) [OF assms(1) other] octet_flips by metis
  qed
qed

lemma nsm_resp_post_recv_confined:
  assumes "nsm_resp_post_recv bo ex mem = Inr (mem', ex')"
    and "k < tlv_at ex + 4 \<or> tlv_at ex + 4 + unat (rd16 bo mem (tlv_at ex + 2)) \<le> k"
  shows "octet mem' k = octet mem k"
proof -
  let ?t = "tlv_at ex"
  from assms(1) obtain n where n: "unat (rd16 bo mem (?t + 2)) = 70 + n"
    and mem': "mem' = flips bo foot_fields (?t + 10 + n) (flips bo [(2, 6), (2, 8)] ?t mem)"
    unfolding nsm_resp_post_recv_def Let_def
    using that [of 4] that [of 16] that [of 6] by (auto split: if_splits option.splits)
  have "list_all (\<lambda>f. snd f + fst f \<le> 64) foot_fields" by (simp add: foot_fields_def)
  with assms(2) n have "list_all (\<lambda>f. k < ?t + 10 + n + snd f \<or> ?t + 10 + n + snd f + fst f \<le> k) foot_fields"
    by (auto simp: list_all_iff)
  then have "octet mem' k = octet (flips bo [(2, 6), (2, 8)] ?t mem) k"
    unfolding mem' by (rule octet_flips)
  also have "\<dots> = octet mem k"
    using assms(2) n by (intro octet_flips) auto
  finally show ?thesis .
qed

lemma tlv_confined:
  assumes "tlv_post_recv bo ex mem = Inr (mem', ex')"
    and "k < tlv_at ex \<or> k < tlv_at ex + 4 \<and> rd16 bo mem (tlv_at ex) \<noteq> TLV_PATH_TRACE \<or>
      tlv_at ex + 4 + unat (rd16 bo mem (tlv_at ex + 2)) \<le> k"
  shows "octet mem' k = octet mem k"
proof -
  let ?t = "tlv_at ex" and ?len = "unat (rd16 bo mem (tlv_at ex + 2))"
  consider (mgt) "rd16 bo mem ?t = TLV_MANAGEMENT" "?len > 2"
    | (nsm) "rd16 bo mem ?t = TLV_PTPMON_RESP"
    | (org) "rd16 bo mem ?t = TLV_ORGANIZATION_EXTENSION"
    | (other) "rd16 bo mem ?t = TLV_MANAGEMENT \<longrightarrow> \<not> ?len > 2"
        "rd16 bo mem ?t \<noteq> TLV_PTPMON_RESP" "rd16 bo mem ?t \<noteq> TLV_ORGANIZATION_EXTENSION" by blast
  then show ?thesis
  proof cases
    case mgt
    let ?mem = "flip bo 2 (?t + 4) mem"
    from mgt assms(1) obtain n where "mgt_data_post_recv bo (rd16 bo ?mem (?t + 4)) (?t + 6) (?len - 2)
        ex ?mem = Some (mem', ex', n)"
      by (auto simp: tlv_post_recv_def mgt_post_recv_def Let_def split: if_splits option.splits)
    from mgt_data_post_recv_confined [OF this, of k] mgt assms(2) show ?thesis
      by (auto simp: octet_flip)
  next
    case nsm
    with assms show ?thesis
      by (intro nsm_resp_post_recv_confined [of bo ex mem mem' ex']) (auto simp: tlv_post_recv_def)
  next
    case org
    then have len: "?len \<ge> 6" and "org_post_recv bo ?t mem = Inr mem'"
      using assms(1) by (auto simp: tlv_post_recv_def Let_def split: if_splits sum.splits)
    then have "mem' = mem \<or> ?len = 28 \<and> mem' = flips bo [(4, 28)] ?t (scaled_ns_n2h bo (?t + 16)
        (flips bo [(4, 10), (2, 14)] ?t mem))"
      by (auto simp: org_post_recv_def Let_def split: if_splits)
    with assms(2) show ?thesis by (auto simp: octet_flip octet_scaled_ns_n2h)
  next
    case other
    with assms show ?thesis
      by (auto simp: tlv_post_recv_def Let_def octet_flip octet_write_at split: if_splits)
  qed
qed

lemma tlv_post_recv_at:
  assumes "tlv_post_recv bo ex mem = Inr (mem', ex')"
  shows "tlv_at ex' = tlv_at ex"
proof -
  have "tlv_at e' = tlv_at e" if "mgt_post_recv bo m l e a = Inr (a', e')" for m l e a a' e'
  proof -
    from that obtain n where post: "mgt_data_post_recv bo (rd16 bo a (m + 4)) (m + 6) l e a = Some (a', e', n)"
      by (auto simp: mgt_post_recv_def Let_def split: option.splits if_splits)
    then show ?thesis
      by (cases "rd16 bo a (m + 4) = TLV_CLOCK_DESCRIPTION")
        (auto simp: mgt_data_post_recv_def Let_def dest!: clock_description_post_recv_fields split: if_splits)
  qed
  then show ?thesis
    using assms by (auto simp: tlv_post_recv_def Let_def dest: nsm_resp_round_trip
        split: if_splits sum.splits)
qed

lemma tlv_post_recv_length:
  assumes "tlv_post_recv bo ex mem = Inr (mem', ex')"
  shows "rd16 bo mem' (tlv_at ex + 2) \<le> rd16 bo mem (tlv_at ex + 2)"
proof (cases "rd16 bo mem (tlv_at ex) = TLV_PATH_TRACE")
  case True
  let ?i = "tlv_at ex + 2" and ?w = "of_nat (PATH_TRACE_MAX * 8) :: u16"
  have "rd16 bo (write_at ?i (u16_bytes bo ?w) mem) ?i = ?w"
    by (rule rd16_write_at)
  then show ?thesis
    using assms True by (auto simp: tlv_post_recv_def Let_def word_le_nat_alt split: if_splits)
next
  case False
  with assms have "octet mem' k = octet mem k" if "k < tlv_at ex + 4" for k
    using that by (intro tlv_confined [OF assms]) auto
  then have "rd16 bo mem' (tlv_at ex + 2) = rd16 bo mem (tlv_at ex + 2)"
    by (intro rd16_cong) auto
  then show ?thesis by simp
qed

text \<open>
  The conversion of a received TLV is confined to the TLV.  If \<open>tlv_post_recv\<close> accepts it,
  every octet in front of the TLV and every octet behind its header and \<open>length\<close> octets keeps
  its value, whatever the octets inside say: no length or address field of the peer makes the
  daemon write into another TLV or behind the message.
\<close>

theorem tlv_post_recv_confined:
  assumes "tlv_post_recv bo ex mem = Inr (mem', ex')"
    and "k < tlv_at ex \<or> tlv_at ex + 4 + unat (rd16 bo mem (tlv_at ex + 2)) \<le> k"
  shows "octet mem' k = octet mem k"
  using assms by (intro tlv_confined) auto

lemma tlv_post_recv_confined_witness:
  "octet (fst (projr (tlv_post_recv LittleEndian sample_ex sample_tlv))) 26 = octet sample_tlv 26"
proof (rule tlv_post_recv_confined)
  let ?r = "tlv_post_recv LittleEndian sample_ex sample_tlv"
  have "?r = Inr (projr ?r)" by code_simp
  then show "?r = Inr (fst (projr ?r), snd (projr ?r))" by simp
  show "26 < tlv_at sample_ex \<or> tlv_at sample_ex + 4 +
      unat (rd16 LittleEndian sample_tlv (tlv_at sample_ex + 2)) \<le> 26" by code_simp
qed

end
