(* ===== verification/Msg.thy ===== *)
theory Msg
  imports Tlv
begin

text \<open>
  Conversion of whole messages between network and host byte order (src/msg.c), and the list
  of TLV descriptors of a message.  A message in network order is the same record with the
  multi-octet fields swapped as the host reads them.

  \<open>alloc k\<close> tells whether the descriptor of the TLV at index \<open>k\<close> of a message can be allocated;
  \<open>now\<close> is the reading of \<open>CLOCK_MONOTONIC\<close>.
\<close>

subsection \<open>Parts of a message\<close>

definition announce_pre_send :: "byte_order \<Rightarrow> ptp_message \<Rightarrow> ptp_message" where
  "announce_pre_send bo m =
     m\<lparr>currentUtcOffset := htons bo (currentUtcOffset m),
       grandmasterClockQuality := (grandmasterClockQuality m)
         \<lparr>offsetScaledLogVariance := htons bo (offsetScaledLogVariance (grandmasterClockQuality m))\<rparr>,
       stepsRemoved := htons bo (stepsRemoved m)\<rparr>"

definition announce_post_recv :: "byte_order \<Rightarrow> ptp_message \<Rightarrow> ptp_message" where
  "announce_post_recv bo m =
     m\<lparr>currentUtcOffset := htons bo (currentUtcOffset m),
       grandmasterClockQuality := (grandmasterClockQuality m)
         \<lparr>offsetScaledLogVariance := htons bo (offsetScaledLogVariance (grandmasterClockQuality m))\<rparr>,
       stepsRemoved := htons bo (stepsRemoved m)\<rparr>"

definition port_id_post_recv :: "byte_order \<Rightarrow> PortIdentity \<Rightarrow> PortIdentity" where
  "port_id_post_recv bo pid = pid\<lparr>portNumber := htons bo (portNumber pid)\<rparr>"

definition port_id_pre_send :: "byte_order \<Rightarrow> PortIdentity \<Rightarrow> PortIdentity" where
  "port_id_pre_send bo pid = pid\<lparr>portNumber := htons bo (portNumber pid)\<rparr>"

definition hdr_post_recv :: "byte_order \<Rightarrow> ptp_header \<Rightarrow> msg_err + ptp_header" where
  "hdr_post_recv bo h =
    (if ver h AND 0x0f \<noteq> 2 then Inl EPROTO
     else Inr (h\<lparr>messageLength := htons bo (messageLength h),
       correction := cpu_to_be64 bo (correction h),
       sourcePortIdentity := port_id_post_recv bo (sourcePortIdentity h),
       sequenceId := htons bo (sequenceId h)\<rparr>))"

definition hdr_pre_send :: "byte_order \<Rightarrow> ptp_header \<Rightarrow> ptp_header" where
  "hdr_pre_send bo h =
     h\<lparr>messageLength := htons bo (messageLength h),
       correction := cpu_to_be64 bo (correction h),
       sourcePortIdentity := port_id_pre_send bo (sourcePortIdentity h),
       sequenceId := htons bo (sequenceId h)\<rparr>"

definition timestamp_post_recv :: "byte_order \<Rightarrow> ptp_message \<Rightarrow> ptp_message" where
  "timestamp_post_recv bo m =
    (let lsb = htonl bo (seconds_lsb (m_timestamp m)); msb = htons bo (seconds_msb (m_timestamp m))
     in m\<lparr>ts_pdu := \<lparr>sec = ucast lsb OR push_bit 32 (ucast msb),
          nsec = htonl bo (nanoseconds (m_timestamp m))\<rparr>\<rparr>)"

definition timestamp_pre_send :: "byte_order \<Rightarrow> Timestamp \<Rightarrow> Timestamp" where
  "timestamp_pre_send bo ts =
     \<lparr>seconds_msb = htons bo (seconds_msb ts), seconds_lsb = htonl bo (seconds_lsb ts),
      nanoseconds = htonl bo (nanoseconds ts)\<rparr>"

subsection \<open>The suffix\<close>

text \<open>\<open>msg_suffix\<close> is NULL for the messages that take no TLV; where it is not, the model keeps
  the memory in the field of that name.\<close>

definition msg_has_suffix :: "ptp_message \<Rightarrow> bool" where
  "msg_has_suffix m \<longleftrightarrow> msg_type m \<in> {DELAY_REQ, FOLLOW_UP, DELAY_RESP, PDELAY_RESP_FOLLOW_UP,
     ANNOUNCE, SIGNALING, MANAGEMENT}"

text \<open>Sizes of the fixed parts.\<close>

definition msg_pdulen :: "u8 \<Rightarrow> nat option" where
  "msg_pdulen type =
    (if type \<in> {SYNC, DELAY_REQ, FOLLOW_UP, SIGNALING} then Some 44
     else if type \<in> {PDELAY_REQ, PDELAY_RESP, DELAY_RESP, PDELAY_RESP_FOLLOW_UP} then Some 54
     else if type = ANNOUNCE then Some 64
     else if type = MANAGEMENT then Some 48
     else None)"

abbreviation (input) HEADER_LEN :: nat where "HEADER_LEN \<equiv> 34"
abbreviation (input) BUFFER_LEN :: nat where "BUFFER_LEN \<equiv> 1500"

definition new_extra :: "nat \<Rightarrow> tlv_extra" where
  "new_extra ptr = \<lparr>tlv_at = ptr, cd_clockType = 0, cd_physicalAddress = 0, cd_protocolAddress = 0,
     nsm_foot = 0\<rparr>"

definition msg_tlv_attach :: "ptp_message \<Rightarrow> tlv_extra \<Rightarrow> ptp_message" where
  "msg_tlv_attach m ex = m\<lparr>tlv_list := tlv_list m @ [ex], tlv_count := tlv_count m + 1\<rparr>"

definition msg_tlv_prepare :: "byte_order \<Rightarrow> bool \<Rightarrow> ptp_message \<Rightarrow> nat \<Rightarrow> tlv_extra option" where
  "msg_tlv_prepare bo alloc m len =
    (if \<not> msg_has_suffix m then None
     else
       let ptr = (if tlv_list m = [] then 0
                  else let off = tlv_at (last (tlv_list m))
                       in off + 4 + unat (tlv_length bo m off))
       in if the (msg_pdulen (msg_type m)) + ptr + len > BUFFER_LEN then None
          else if \<not> alloc then None
          else Some (new_extra ptr))"

definition msg_tlv_append ::
  "byte_order \<Rightarrow> bool \<Rightarrow> ptp_message \<Rightarrow> nat \<Rightarrow> (ptp_message \<times> tlv_extra) option" where
  "msg_tlv_append bo alloc m len =
     map_option (\<lambda>ex.
       let m = m\<lparr>header := (header m)\<lparr>messageLength := messageLength (header m) + of_nat len\<rparr>\<rparr>
       in (msg_tlv_attach m ex, ex))
       (msg_tlv_prepare bo alloc m len)"

text \<open>The loop of \<open>suffix_post_recv\<close>: \<open>ptr\<close> is the offset of the TLV, \<open>len\<close> the octets left.\<close>

function suffix_post_recv_loop ::
  "byte_order \<Rightarrow> (nat \<Rightarrow> bool) \<Rightarrow> nat \<Rightarrow> nat \<Rightarrow> ptp_message \<Rightarrow> msg_err + ptp_message" where
  "suffix_post_recv_loop bo alloc ptr len m =
    (if len < 4 then Inr m
     else if \<not> alloc (tlv_count m) then Inl ENOMEM
     else
       let mem = flips bo [(2, 0), (2, 2)] ptr (m_suffix m);
           l = unat (rd16 bo mem (ptr + 2))
       in if l mod 2 \<noteq> 0 then Inl EBADMSG
          else if l > len - 4 then Inl EBADMSG
          else case tlv_post_recv bo (new_extra ptr) mem of
            Inl e \<Rightarrow> Inl e
          | Inr (mem, ex) \<Rightarrow>
              suffix_post_recv_loop bo alloc (ptr + 4 + l) (len - 4 - l)
                (msg_tlv_attach (m\<lparr>m_suffix := mem\<rparr>) ex))"
  by pat_completeness auto
termination
  by (relation "measure (\<lambda>(bo, alloc, ptr, len, m). len)") auto

declare suffix_post_recv_loop.simps [simp del]

definition suffix_post_recv ::
  "byte_order \<Rightarrow> (nat \<Rightarrow> bool) \<Rightarrow> ptp_message \<Rightarrow> nat \<Rightarrow> msg_err + ptp_message" where
  "suffix_post_recv bo alloc m len =
     (if \<not> msg_has_suffix m then Inr m else suffix_post_recv_loop bo alloc 0 len m)"

definition suffix_pre_send :: "byte_order \<Rightarrow> ptp_message \<Rightarrow> ptp_message" where
  "suffix_pre_send bo m =
     m\<lparr>m_suffix := fold (\<lambda>ex mem. flips bo [(2, 0), (2, 2)] (tlv_at ex) (tlv_pre_send bo ex mem))
         (tlv_list m) (m_suffix m)\<rparr>"

subsection \<open>Messages\<close>

text \<open>The second switch of \<open>msg_post_recv\<close>.\<close>

definition body_post_recv :: "byte_order \<Rightarrow> timespec \<Rightarrow> ptp_message \<Rightarrow> ptp_message" where
  "body_post_recv bo now m =
    (let type = msg_type m
     in if type \<in> {SYNC, FOLLOW_UP} then timestamp_post_recv bo m
        else if type \<in> {PDELAY_RESP, DELAY_RESP, PDELAY_RESP_FOLLOW_UP} then
          (timestamp_post_recv bo m)
            \<lparr>requestingPortIdentity := port_id_post_recv bo (requestingPortIdentity m)\<rparr>
        else if type = ANNOUNCE then
          announce_post_recv bo (timestamp_post_recv bo (m\<lparr>ts_host := now\<rparr>))
        else if type = MANAGEMENT then
          m\<lparr>targetPortIdentity := port_id_post_recv bo (targetPortIdentity m)\<rparr>
        else m)"

definition msg_post_recv ::
  "byte_order \<Rightarrow> (nat \<Rightarrow> bool) \<Rightarrow> timespec \<Rightarrow> ptp_message \<Rightarrow> nat \<Rightarrow> msg_err + ptp_message" where
  "msg_post_recv bo alloc now m cnt =
    (if cnt < HEADER_LEN then Inl EBADMSG
     else case hdr_post_recv bo (header m) of
       Inl e \<Rightarrow> Inl e
     | Inr h \<Rightarrow>
         let m = m\<lparr>header := h\<rparr>
         in case msg_pdulen (msg_type m) of
              None \<Rightarrow> Inl EBADMSG
            | Some pdulen \<Rightarrow>
                if cnt < pdulen then Inl EBADMSG
                else suffix_post_recv bo alloc (body_post_recv bo now m) (cnt - pdulen))"

text \<open>
  The message that \<open>msg_post_recv\<close> leaves in the buffer of its caller, also when it fails: an error
  ends the conversion where it is found, and what was converted before it stays converted.
\<close>

function suffix_left :: "byte_order \<Rightarrow> (nat \<Rightarrow> bool) \<Rightarrow> nat \<Rightarrow> nat \<Rightarrow> ptp_message \<Rightarrow> ptp_message" where
  "suffix_left bo alloc ptr len m =
    (if len < 4 \<or> \<not> alloc (tlv_count m) then m
     else
       let mem = flips bo [(2, 0), (2, 2)] ptr (m_suffix m);
           l = unat (rd16 bo mem (ptr + 2))
       in if l mod 2 \<noteq> 0 \<or> l > len - 4 then m\<lparr>m_suffix := mem\<rparr>
          else case tlv_post_recv bo (new_extra ptr) mem of
            Inl e \<Rightarrow> m\<lparr>m_suffix := tlv_left bo ptr mem\<rparr>
          | Inr (mem, ex) \<Rightarrow>
              suffix_left bo alloc (ptr + 4 + l) (len - 4 - l)
                (msg_tlv_attach (m\<lparr>m_suffix := mem\<rparr>) ex))"
  by pat_completeness auto
termination
  by (relation "measure (\<lambda>(bo, alloc, ptr, len, m). len)") auto

declare suffix_left.simps [simp del]

definition msg_left :: "byte_order \<Rightarrow> (nat \<Rightarrow> bool) \<Rightarrow> timespec \<Rightarrow> ptp_message \<Rightarrow> nat \<Rightarrow> ptp_message" where
  "msg_left bo alloc now m cnt =
    (if cnt < HEADER_LEN then m
     else case hdr_post_recv bo (header m) of
       Inl e \<Rightarrow> m
     | Inr h \<Rightarrow>
         let m = m\<lparr>header := h\<rparr>
         in case msg_pdulen (msg_type m) of
              None \<Rightarrow> m
            | Some pdulen \<Rightarrow>
                if cnt < pdulen then m
                else let m = body_post_recv bo now m
                     in if msg_has_suffix m then suffix_left bo alloc 0 (cnt - pdulen) m else m)"

definition body_pre_send :: "byte_order \<Rightarrow> timespec \<Rightarrow> ptp_message \<Rightarrow> ptp_message" where
  "body_pre_send bo now m =
    (let type = msg_type m
     in if type = DELAY_REQ then m\<lparr>ts_host := now\<rparr>
        else if type = FOLLOW_UP then m\<lparr>m_timestamp := timestamp_pre_send bo (m_timestamp m)\<rparr>
        else if type \<in> {PDELAY_RESP, DELAY_RESP, PDELAY_RESP_FOLLOW_UP} then
          m\<lparr>m_timestamp := timestamp_pre_send bo (m_timestamp m),
            requestingPortIdentity := port_id_pre_send bo (requestingPortIdentity m)\<rparr>
        else if type = ANNOUNCE then announce_pre_send bo m
        else if type = MANAGEMENT then
          m\<lparr>targetPortIdentity := port_id_pre_send bo (targetPortIdentity m)\<rparr>
        else m)"

text \<open>None is the result -1, for a message of an unknown type.\<close>

definition msg_pre_send :: "byte_order \<Rightarrow> timespec \<Rightarrow> ptp_message \<Rightarrow> ptp_message option" where
  "msg_pre_send bo now m =
    (let m = m\<lparr>header := hdr_pre_send bo (header m)\<rparr>
     in if msg_pdulen (msg_type m) = None then None
        else Some (suffix_pre_send bo (body_pre_send bo now m)))"

definition msg_duplicate ::
  "byte_order \<Rightarrow> (nat \<Rightarrow> bool) \<Rightarrow> timespec \<Rightarrow> nat option \<Rightarrow> ptp_message \<Rightarrow> nat \<Rightarrow> ptp_message option" where
  "msg_duplicate bo alloc now ptr m cnt =
    (case ptr of
       None \<Rightarrow> None
     | Some p \<Rightarrow>
         (case msg_post_recv bo alloc now (m\<lparr>m_ptr := p, tlv_list := [], tlv_count := 0\<rparr>) cnt of
            Inl e \<Rightarrow> None
          | Inr dup \<Rightarrow> if msg_sots_missing m then None else Some dup))"

subsection \<open>The descriptors of a received message\<close>

text \<open>
  The descriptors describe consecutive TLVs within the first \<open>n\<close> octets of the suffix: each TLV
  with its header and value ends in front of the next one.
\<close>

definition tlv_end :: "byte_order \<Rightarrow> u8 list \<Rightarrow> tlv_extra \<Rightarrow> nat" where
  "tlv_end bo mem ex = tlv_at ex + 4 + unat (rd16 bo mem (tlv_at ex + 2))"

definition tlvs_within :: "byte_order \<Rightarrow> nat \<Rightarrow> ptp_message \<Rightarrow> bool" where
  "tlvs_within bo n m \<longleftrightarrow>
     list_all (\<lambda>ex. tlv_end bo (m_suffix m) ex \<le> n) (tlv_list m) \<and>
     sorted_wrt (\<lambda>a b. tlv_end bo (m_suffix m) a \<le> tlv_at b) (tlv_list m) \<and>
     tlv_count m = length (tlv_list m)"

lemma tlv_end_cong:
  assumes "tlv_end bo mem ex \<le> n" and "\<And>k. k < n \<Longrightarrow> octet mem' k = octet mem k"
  shows "tlv_end bo mem' ex = tlv_end bo mem ex"
proof -
  from assms(1) have "tlv_at ex + 2 + 1 < n" by (simp add: tlv_end_def)
  then have "rd16 bo mem' (tlv_at ex + 2) = rd16 bo mem (tlv_at ex + 2)"
    by (intro rd16_cong assms(2)) auto
  then show ?thesis by (simp add: tlv_end_def)
qed

text \<open>The new TLV starts behind those seen so far and ends within the octets received.\<close>

lemma tlvs_within_attach:
  assumes within: "tlvs_within bo ptr m"
    and same: "\<And>k. k < ptr \<Longrightarrow> octet mem k = octet (m_suffix m) k"
    and at: "tlv_at ex = ptr" and le: "tlv_end bo mem ex \<le> n"
  shows "tlvs_within bo n (msg_tlv_attach (m\<lparr>m_suffix := mem\<rparr>) ex)"
proof -
  have old: "tlv_end bo mem e \<le> ptr \<and> tlv_end bo mem e = tlv_end bo (m_suffix m) e"
    if "e \<in> set (tlv_list m)" for e
  proof -
    from within that have "tlv_end bo (m_suffix m) e \<le> ptr"
      by (auto simp: tlvs_within_def list_all_iff)
    with tlv_end_cong [OF this same] show ?thesis by simp
  qed
  have "ptr \<le> n" using le at by (simp add: tlv_end_def)
  moreover have "sorted_wrt (\<lambda>a b. tlv_end bo mem a \<le> tlv_at b) (tlv_list m)"
    using within old unfolding tlvs_within_def
    by (auto simp: old intro: sorted_wrt_mono_rel [rotated])
  ultimately show ?thesis
    using within old at le
    by (auto simp: tlvs_within_def msg_tlv_attach_def list_all_iff sorted_wrt_append)
qed

text \<open>One successful iteration.\<close>

lemma suffix_post_recv_loop_step:
  assumes "suffix_post_recv_loop bo alloc ptr len m = Inr m'" and "\<not> len < 4"
  obtains mem l mem' ex where "mem = flips bo [(2, 0), (2, 2)] ptr (m_suffix m)"
    and "l = unat (rd16 bo mem (ptr + 2))" and "alloc (tlv_count m)"
    and "l mod 2 = 0" and "l \<le> len - 4" and "tlv_post_recv bo (new_extra ptr) mem = Inr (mem', ex)"
    and "suffix_post_recv_loop bo alloc (ptr + 4 + l) (len - 4 - l)
      (msg_tlv_attach (m\<lparr>m_suffix := mem'\<rparr>) ex) = Inr m'"
  using assms by (subst (asm) suffix_post_recv_loop.simps)
    (auto simp: Let_def not_less not_le split: if_splits sum.splits)

text \<open>The loop changes the suffix only and appends to the descriptors.\<close>

lemma suffix_post_recv_loop_header:
  "suffix_post_recv_loop bo alloc ptr len m = Inr m' \<Longrightarrow>
   header m' = header m \<and> (\<exists>exs. tlv_list m' = tlv_list m @ exs \<and> tlv_count m' = tlv_count m + length exs)"
proof (induction bo alloc ptr len m rule: suffix_post_recv_loop.induct)
  case (1 bo alloc ptr len m)
  show ?case
  proof (cases "len < 4")
    case True
    with "1.prems" show ?thesis by (simp add: suffix_post_recv_loop.simps)
  next
    case False
    from "1.prems" False obtain mem l mem' ex where step:
      "mem = flips bo [(2, 0), (2, 2)] ptr (m_suffix m)" "l = unat (rd16 bo mem (ptr + 2))"
      "alloc (tlv_count m)" "l mod 2 = 0" "l \<le> len - 4"
      "tlv_post_recv bo (new_extra ptr) mem = Inr (mem', ex)"
      "suffix_post_recv_loop bo alloc (ptr + 4 + l) (len - 4 - l)
        (msg_tlv_attach (m\<lparr>m_suffix := mem'\<rparr>) ex) = Inr m'"
      by (rule suffix_post_recv_loop_step)
    from False step obtain exs where "header m' = header m" "tlv_list m' = tlv_list m @ ex # exs"
      "tlv_count m' = tlv_count m + length (ex # exs)"
      using "1.IH" [of mem l "(mem', ex)" mem' ex] by (auto simp: msg_tlv_attach_def)
    then show ?thesis by blast
  qed
qed

lemma suffix_post_recv_loop_within:
  assumes "suffix_post_recv_loop bo alloc ptr len m = Inr m'" and "tlvs_within bo ptr m"
  shows "tlvs_within bo (ptr + len) m'"
  using assms
proof (induction bo alloc ptr len m rule: suffix_post_recv_loop.induct)
  case (1 bo alloc ptr len m)
  show ?case
  proof (cases "len < 4")
    case True
    with "1.prems" show ?thesis
      by (auto simp: suffix_post_recv_loop.simps tlvs_within_def list_all_iff intro: trans_le_add1)
  next
    case False
    from "1.prems"(1) False obtain mem l mem' ex where step:
      "mem = flips bo [(2, 0), (2, 2)] ptr (m_suffix m)" "l = unat (rd16 bo mem (ptr + 2))"
      "alloc (tlv_count m)" "l mod 2 = 0" "l \<le> len - 4"
      "tlv_post_recv bo (new_extra ptr) mem = Inr (mem', ex)"
      "suffix_post_recv_loop bo alloc (ptr + 4 + l) (len - 4 - l)
        (msg_tlv_attach (m\<lparr>m_suffix := mem'\<rparr>) ex) = Inr m'"
      by (rule suffix_post_recv_loop_step)
    note tlv = step(6)
    have at: "tlv_at ex = ptr"
      using tlv_post_recv_at [OF tlv] by (simp add: new_extra_def)
    have "octet mem' k = octet (m_suffix m) k" if "k < ptr" for k
      using tlv_confined [OF tlv, of k] octet_flips_before [OF that] that
      by (simp add: new_extra_def step(1) del: flips_simps)
    moreover have "tlv_end bo mem' ex \<le> ptr + 4 + l"
      using tlv_post_recv_length [OF tlv] at
      by (simp add: tlv_end_def new_extra_def word_le_nat_alt step(2) del: flips_simps)
    ultimately have "tlvs_within bo (ptr + 4 + l) (msg_tlv_attach (m\<lparr>m_suffix := mem'\<rparr>) ex)"
      using "1.prems"(2) at by (intro tlvs_within_attach) auto
    with False step have "tlvs_within bo (ptr + 4 + l + (len - 4 - l)) m'"
      using "1.IH" [of mem l "(mem', ex)" mem' ex] by auto
    then show ?thesis using False step(5) by simp
  qed
qed

lemma body_post_recv_suffix [simp]:
  "m_suffix (body_post_recv bo now m) = m_suffix m" "tlv_list (body_post_recv bo now m) = tlv_list m"
  "tlv_count (body_post_recv bo now m) = tlv_count m" "header (body_post_recv bo now m) = header m"
  by (simp_all add: body_post_recv_def Let_def timestamp_post_recv_def announce_post_recv_def)

text \<open>
  C26: \<open>msg_post_recv\<close> describes only what was received.  When it accepts a datagram of \<open>cnt\<close>
  octets, the TLV descriptors are as many as \<open>tlv_count\<close> says, their TLVs follow each other
  without overlap, and the last one ends within the \<open>cnt\<close> octets, so no later reader of a TLV
  goes beyond the datagram.
\<close>

theorem received_tlvs_in_bounds:
  assumes "msg_post_recv bo alloc now m cnt = Inr m'" and "tlv_list m = []" "tlv_count m = 0"
  shows "\<exists>pdulen. msg_pdulen (msg_type m') = Some pdulen \<and> pdulen \<le> cnt \<and>
    tlvs_within bo (cnt - pdulen) m'"
proof -
  from assms(1) obtain h pdulen where "hdr_post_recv bo (header m) = Inr h"
    and pdulen: "msg_pdulen (msg_type (m\<lparr>header := h\<rparr>)) = Some pdulen" "pdulen \<le> cnt"
    and suffix: "suffix_post_recv bo alloc (body_post_recv bo now (m\<lparr>header := h\<rparr>)) (cnt - pdulen) = Inr m'"
    by (auto simp: msg_post_recv_def Let_def not_less split: if_splits sum.splits option.splits)
  let ?m = "body_post_recv bo now (m\<lparr>header := h\<rparr>)"
  have start: "tlvs_within bo n ?m" for n using assms(2,3) by (simp add: tlvs_within_def)
  have "msg_type m' = msg_type ?m \<and> tlvs_within bo (cnt - pdulen) m'"
  proof (cases "msg_has_suffix ?m")
    case True
    with suffix have loop: "suffix_post_recv_loop bo alloc 0 (cnt - pdulen) ?m = Inr m'"
      by (simp add: suffix_post_recv_def)
    from suffix_post_recv_loop_within [OF this start] suffix_post_recv_loop_header [OF loop]
    show ?thesis by (simp add: msg_type_def)
  next
    case False
    with suffix start show ?thesis by (simp add: suffix_post_recv_def)
  qed
  with pdulen show ?thesis by (auto simp: msg_type_def)
qed

text \<open>An announce message with a path trace TLV of two clocks, as it arrives on a little-endian host.\<close>

definition sample_wire_msg :: ptp_message where
  "sample_wire_msg = (zero_msg 1)
     \<lparr>header := zero_header\<lparr>tsmt := ANNOUNCE, ver := 2\<rparr>,
      m_suffix := [0, 8, 0, 16, 1, 2, 3, 4, 5, 6, 7, 8, 9, 10, 11, 12, 13, 14, 15, 16]\<rparr>"

lemma received_tlvs_in_bounds_witness:
  "\<exists>m' pdulen. msg_post_recv LittleEndian (\<lambda>_. True) \<lparr>tv_sec = 1, tv_nsec = 0\<rparr> sample_wire_msg 84 = Inr m' \<and>
     tlv_count m' = 1 \<and> pdulen \<le> 84 \<and> tlvs_within LittleEndian (84 - pdulen) m'"
proof -
  let ?r = "msg_post_recv LittleEndian (\<lambda>_. True) \<lparr>tv_sec = 1, tv_nsec = 0\<rparr> sample_wire_msg 84"
  have r: "?r = Inr (projr ?r)" and n: "tlv_count (projr ?r) = 1" by code_simp+
  have "tlv_list sample_wire_msg = []" "tlv_count sample_wire_msg = 0"
    by (simp_all add: sample_wire_msg_def zero_msg_def)
  from received_tlvs_in_bounds [OF r this] r n show ?thesis by metis
qed

subsection \<open>Round trip of a message\<close>

definition timestamp_value :: "Timestamp \<Rightarrow> timestamp" where
  "timestamp_value ts = \<lparr>sec = ucast (seconds_lsb ts) OR push_bit 32 (ucast (seconds_msb ts)),
     nsec = nanoseconds ts\<rparr>"

lemma hdr_round_trip: "ver h AND 0x0f = 2 \<Longrightarrow> hdr_post_recv bo (hdr_pre_send bo h) = Inr h"
  by (simp add: hdr_post_recv_def hdr_pre_send_def port_id_post_recv_def port_id_pre_send_def)

lemma port_id_round_trip [simp]: "port_id_post_recv bo (port_id_pre_send bo p) = p"
  by (simp add: port_id_post_recv_def port_id_pre_send_def)

lemma hdr_pre_send_type [simp]: "tsmt (hdr_pre_send bo h) = tsmt h"
  by (simp add: hdr_pre_send_def)

lemma body_pre_send_frame [simp]:
  "header (body_pre_send bo now m) = header m" "tlv_list (body_pre_send bo now m) = tlv_list m"
  "m_suffix (body_pre_send bo now m) = m_suffix m"
  by (simp_all add: body_pre_send_def Let_def announce_pre_send_def)

lemma suffix_post_recv_empty: "len < 4 \<Longrightarrow> suffix_post_recv bo alloc m len = Inr m"
  by (simp add: suffix_post_recv_def suffix_post_recv_loop.simps)

text \<open>When the conversion succeeds, what it leaves is its result.\<close>

lemma suffix_left_converted:
  "suffix_post_recv_loop bo alloc ptr len m = Inr m' \<Longrightarrow> suffix_left bo alloc ptr len m = m'"
proof (induction bo alloc ptr len m rule: suffix_post_recv_loop.induct)
  case (1 bo alloc ptr len m)
  show ?case
  proof (cases "len < 4")
    case True
    with "1.prems" show ?thesis
      by (simp add: suffix_post_recv_loop.simps suffix_left.simps [of _ _ _ len])
  next
    case False
    from "1.prems" False obtain mem l mem' ex where step:
      "mem = flips bo [(2, 0), (2, 2)] ptr (m_suffix m)" "l = unat (rd16 bo mem (ptr + 2))"
      "alloc (tlv_count m)" "l mod 2 = 0" "l \<le> len - 4"
      "tlv_post_recv bo (new_extra ptr) mem = Inr (mem', ex)"
      "suffix_post_recv_loop bo alloc (ptr + 4 + l) (len - 4 - l)
        (msg_tlv_attach (m\<lparr>m_suffix := mem'\<rparr>) ex) = Inr m'"
      by (rule suffix_post_recv_loop_step)
    from False step have "suffix_left bo alloc (ptr + 4 + l) (len - 4 - l)
        (msg_tlv_attach (m\<lparr>m_suffix := mem'\<rparr>) ex) = m'"
      using "1.IH" [of mem l "(mem', ex)" mem' ex] by auto
    with False step show ?thesis
      by (simp add: suffix_left.simps [of _ _ _ len] Let_def del: flips_simps)
  qed
qed

lemma msg_left_converted: "msg_post_recv bo alloc now m cnt = Inr m' \<Longrightarrow> msg_left bo alloc now m cnt = m'"
  by (auto simp: msg_post_recv_def msg_left_def suffix_post_recv_def Let_def suffix_left_converted
      split: if_splits sum.splits option.splits)

text \<open>
  A field that a host of byte order \<open>bo\<close> stored is read by a host of the other order with its octets
  swapped.  \<open>arrives bo bo' w\<close> is the message \<open>w\<close>, which the first host put on the wire octet by
  octet, as the second one finds it in a buffer of its own.
\<close>

definition arrives16 :: "byte_order \<Rightarrow> byte_order \<Rightarrow> u16 \<Rightarrow> u16" where
  "arrives16 bo bo' w = (if bo = bo' then w else swap16 w)"

definition arrives32 :: "byte_order \<Rightarrow> byte_order \<Rightarrow> u32 \<Rightarrow> u32" where
  "arrives32 bo bo' w = (if bo = bo' then w else swap32 w)"

definition arrives64 :: "byte_order \<Rightarrow> byte_order \<Rightarrow> u64 \<Rightarrow> u64" where
  "arrives64 bo bo' w = (if bo = bo' then w else swap64 w)"

definition arrives_pid :: "byte_order \<Rightarrow> byte_order \<Rightarrow> PortIdentity \<Rightarrow> PortIdentity" where
  "arrives_pid bo bo' pid = pid\<lparr>portNumber := arrives16 bo bo' (portNumber pid)\<rparr>"

definition arrives :: "byte_order \<Rightarrow> byte_order \<Rightarrow> ptp_message \<Rightarrow> ptp_message" where
  "arrives bo bo' m =
     m\<lparr>header := (header m)
         \<lparr>messageLength := arrives16 bo bo' (messageLength (header m)),
          correction := arrives64 bo bo' (correction (header m)),
          sourcePortIdentity := arrives_pid bo bo' (sourcePortIdentity (header m)),
          sequenceId := arrives16 bo bo' (sequenceId (header m))\<rparr>,
       m_timestamp :=
         \<lparr>seconds_msb = arrives16 bo bo' (seconds_msb (m_timestamp m)),
          seconds_lsb = arrives32 bo bo' (seconds_lsb (m_timestamp m)),
          nanoseconds = arrives32 bo bo' (nanoseconds (m_timestamp m))\<rparr>,
       requestingPortIdentity := arrives_pid bo bo' (requestingPortIdentity m),
       currentUtcOffset := arrives16 bo bo' (currentUtcOffset m),
       grandmasterClockQuality := (grandmasterClockQuality m)
         \<lparr>offsetScaledLogVariance := arrives16 bo bo' (offsetScaledLogVariance (grandmasterClockQuality m))\<rparr>,
       stepsRemoved := arrives16 bo bo' (stepsRemoved m),
       targetPortIdentity := arrives_pid bo bo' (targetPortIdentity m),
       tlv_list := [], tlv_count := 0\<rparr>"

lemma received_as_sent [simp]:
  "htons bo' (arrives16 bo bo' (htons bo w)) = w"
  "htonl bo' (arrives32 bo bo' (htonl bo l)) = l"
  "cpu_to_be64 bo' (arrives64 bo bo' (cpu_to_be64 bo q)) = q"
  "port_id_post_recv bo' (arrives_pid bo bo' (port_id_pre_send bo pid)) = pid"
  by (cases bo; cases bo'; simp add: arrives16_def arrives32_def arrives64_def htons_def htonl_def
      cpu_to_be64_def arrives_pid_def port_id_post_recv_def port_id_pre_send_def)+

lemma hdr_received_as_sent:
  "ver (header m) AND 0x0f = 2 \<Longrightarrow> header w = hdr_pre_send bo (header m) \<Longrightarrow>
   hdr_post_recv bo' (header (arrives bo bo' w)) = Inr (header m)"
  using received_as_sent(4) [of bo' bo "sourcePortIdentity (header m)"]
  by (simp add: arrives_def hdr_post_recv_def hdr_pre_send_def)

text \<open>
  A TLV whose value is not converted: a message has exactly one at the start of its suffix, with an
  even length, and \<open>n\<close> octets in all.
\<close>

definition opaque_tlv :: "byte_order \<Rightarrow> ptp_message \<Rightarrow> nat \<Rightarrow> bool" where
  "opaque_tlv bo m n \<longleftrightarrow> map tlv_at (tlv_list m) = [0] \<and> msg_has_suffix m \<and>
     length (m_suffix m) = n \<and> n = 4 + unat (tlv_length bo m 0) \<and> even n \<and>
     tlv_type bo m 0 \<notin> {TLV_MANAGEMENT, TLV_MANAGEMENT_ERROR_STATUS, TLV_ORGANIZATION_EXTENSION, TLV_PTPMON_RESP} \<and>
     unat (tlv_length bo m 0) div 8 \<le> PATH_TRACE_MAX"

lemma flips_header: "flips bo [(2, 0), (2, 2)] 0 (a # b # c # d # rest) =
    (case bo of LittleEndian \<Rightarrow> b # a # d # c # rest | BigEndian \<Rightarrow> a # b # c # d # rest)"
  by (cases bo) (simp_all add: flip_def)

lemma tlv_header_received_as_sent:
  fixes bo bo' :: byte_order
  assumes "4 \<le> length mem"
  defines "mem' \<equiv> flips bo' [(2, 0), (2, 2)] 0 (flips bo [(2, 0), (2, 2)] 0 mem)"
  shows "rd16 bo' mem' 0 = rd16 bo mem 0" "rd16 bo' mem' 2 = rd16 bo mem 2" "drop 4 mem' = drop 4 mem"
    "length mem' = length mem"
proof -
  obtain a b c d rest where mem: "mem = a # b # c # d # rest"
    using assms(1) by (auto simp: numeral_eq_Suc Suc_le_length_iff)
  note two = flips_header byte_order.case
  show "rd16 bo' mem' 0 = rd16 bo mem 0"
    unfolding mem'_def mem by (cases bo; cases bo') (simp_all only: two rd16_def octet_def, simp_all add: or.commute)
  show "rd16 bo' mem' 2 = rd16 bo mem 2"
    unfolding mem'_def mem by (cases bo; cases bo') (simp_all only: two rd16_def octet_def, simp_all add: or.commute)
  show "drop 4 mem' = drop 4 mem" "length mem' = length mem"
    unfolding mem'_def mem by (cases bo; cases bo'; simp only: two; simp)+
qed

lemma tlv_pre_send_opaque:
  "opaque_tlv bo m n \<Longrightarrow> m_suffix (suffix_pre_send bo m) = flips bo [(2, 0), (2, 2)] 0 (m_suffix m)"
  by (auto simp: opaque_tlv_def suffix_pre_send_def tlv_pre_send_def tlv_type_def Let_def)

lemma attached_frame:
  "x = msg_tlv_attach (b\<lparr>m_suffix := mem\<rparr>) ex \<Longrightarrow>
   x = b\<lparr>m_suffix := m_suffix x, tlv_list := tlv_list x, tlv_count := tlv_count x\<rparr>"
  by hypsubst (simp add: msg_tlv_attach_def)

text \<open>The receiver attaches one descriptor and reads the type, the length and the value that were sent.\<close>

lemma opaque_suffix_received:
  assumes "opaque_tlv bo m n" and "msg_has_suffix w" "alloc 0" "tlv_list w = []" "tlv_count w = 0"
    and w: "m_suffix w = flips bo [(2, 0), (2, 2)] 0 (m_suffix m)"
  obtains m' where "suffix_post_recv bo' alloc w n = Inr m'" "tlv_count m' = 1" "m' = m'\<lparr>header := header w\<rparr>"
    "m' = msg_tlv_attach (w\<lparr>m_suffix := m_suffix m'\<rparr>) (new_extra 0)"
    "tlv_type bo' m' 0 = tlv_type bo m 0" "tlv_length bo' m' 0 = tlv_length bo m 0"
    "drop 4 (m_suffix m') = drop 4 (m_suffix m)"
proof -
  let ?mem = "flips bo' [(2, 0), (2, 2)] 0 (m_suffix w)"
  let ?m' = "msg_tlv_attach (w\<lparr>m_suffix := ?mem\<rparr>) (new_extra 0)"
  have n: "4 \<le> length (m_suffix m)" using assms(1) by (simp add: opaque_tlv_def)
  note seen = tlv_header_received_as_sent [OF n, of bo' bo, folded w]
  have tlv: "tlv_post_recv bo' (new_extra 0) ?mem = Inr (?mem, new_extra 0)"
    using assms(1) seen(1,2)
    by (simp add: tlv_post_recv_def opaque_tlv_def tlv_type_def tlv_length_def new_extra_def Let_def
        del: flips_simps add_2_eq_Suc add_2_eq_Suc')
  let ?l = "unat (tlv_length bo m 0)"
  have over: "suffix_post_recv_loop bo' alloc k 0 m'' = Inr m''" for k m''
    by (simp add: suffix_post_recv_loop.simps)
  have l: "unat (rd16 bo' ?mem (0 + 2)) = ?l" "n = 4 + ?l"
    using seen(2) assms(1)
    by (simp_all add: tlv_length_def opaque_tlv_def del: flips_simps add_2_eq_Suc add_2_eq_Suc')
  from assms(1) have "even (4 + ?l)" by (metis opaque_tlv_def)
  then have even: "even ?l" by simp
  have "suffix_post_recv_loop bo' alloc 0 n w = Inr ?m'"
    unfolding suffix_post_recv_loop.simps [of bo' alloc 0 n w] Let_def l(1) tlv
    using assms(3,5) by (simp add: over l(2) even del: flips_simps)
  then have "suffix_post_recv bo' alloc w n = Inr ?m'"
    using assms(2) by (simp add: suffix_post_recv_def)
  then show ?thesis
    using seen assms(4,5) by (intro that [of ?m']) (simp_all add: msg_tlv_attach_def tlv_type_def tlv_length_def
        del: flips_simps add_2_eq_Suc add_2_eq_Suc')
qed


text \<open>An announce message with the path trace of one clock, sent by a little-endian host to a big-endian one.\<close>

definition sample_announce :: ptp_message where
  "sample_announce = (zero_msg 1)
     \<lparr>header := zero_header\<lparr>tsmt := ANNOUNCE, ver := 2, sequenceId := 0x1234\<rparr>, stepsRemoved := 7,
      m_suffix := [8, 0, 8, 0, 1, 2, 3, 4, 5, 6, 7, 8], tlv_list := [new_extra 0], tlv_count := 1\<rparr>"


end
