(* ===== verification/Port.thy ===== *)
theory Port
  imports Clock Msg Fsm
begin

text \<open>
  A port of an ordinary or boundary clock: its state, timers, capability test, transitions and the
  synchronisation on a pair of Sync and Follow_Up messages (src/port_private.h, src/port.c).

  A function of the C code that changes the port and the clock takes both and returns both.  What
  it does outside (timers, transport, notifications) is appended to \<open>p_fx\<close>, the message references
  it takes and drops are appended to \<open>p_refs\<close>.  The answers of the system are in the environment
  \<open>env\<close>; allocations and transmissions are numbered by \<open>p_nalloc\<close> and \<open>p_nsend\<close>.
\<close>

subsection \<open>The environment\<close>

text \<open>
  \<open>env_malloc k\<close> is the pointer that the \<open>k\<close>th \<open>msg_allocate\<close> of the port yields; \<open>env_send n k\<close>
  is the result of the \<open>k\<close>th transmission of port number \<open>n\<close>, None for a failure, otherwise the time stamp
  of the transmission (zero if none was taken), \<open>env_txts\<close> the same for a deferred time stamp.  \<open>env_phc\<close> answers \<open>clock_switch_phc\<close>, \<open>env_cfg\<close> is the configuration of
  the port's section.  \<open>env_parent_addr\<close> is the network protocol and address of the parent, as the code
  finds them through the port that receives from the best master, if there is one.
  \<open>env_ts_label\<close> is the result of \<open>if_indextoname\<close>, \<open>env_ts_info\<close> that of \<open>sk_get_ts_info\<close> if valid:
  the time stamping modes and the index of the hardware clock.
\<close>

record env =
  env_bo :: byte_order
  env_fl :: "real \<Rightarrow> real"
  env_assume_two_step :: bool
  env_now :: timespec
  env_random :: nat
  env_malloc :: "nat \<Rightarrow> nat option"
  env_mem :: bool
  env_tlv :: bool
  env_send :: "u16 \<Rightarrow> nat \<Rightarrow> tmv_t option"
  env_txts :: "u16 \<Rightarrow> nat \<Rightarrow> tmv_t option"
  env_timers :: bool
  env_open :: bool
  env_settime :: bool
  env_phc :: "(int \<times> int) option"
  env_shm :: "shmTime option"
  env_cfg :: "string \<Rightarrow> int"
  env_parent_addr :: "(u16 \<times> u8 list) option"
  env_ts_label :: "string option"
  env_ts_info :: "(u32 \<times> int) option"
  env_required_modes :: u32

subsection \<open>Data\<close>

datatype syfu_state = SF_EMPTY | SF_HAVE_SYNC | SF_HAVE_FUP

datatype syfu_event = SYNC_MISMATCH | SYNC_MATCH | FUP_MISMATCH | FUP_MATCH

datatype delay_mechanism = DM_AUTO | DM_E2E | DM_P2P

datatype fault_type = FT_UNSPECIFIED | FT_BAD_PEER_NETWORK | FT_SWITCH_PHC

datatype fault_interval = FTMO_LINEAR_SECONDS int | FTMO_LOG2_SECONDS int

datatype timer = FD_DELAY_TIMER | FD_ANNOUNCE_TIMER | FD_SYNC_RX_TIMER | FD_QUALIFICATION_TIMER
  | FD_MANNO_TIMER | FD_SYNC_TX_TIMER

datatype transport_event = TRANS_GENERAL | TRANS_EVENT | TRANS_ONESTEP | TRANS_P2P1STEP | TRANS_DEFER_EVENT

text \<open>
  \<open>SetTmo t s n\<close>: the timer expires in \<open>s\<close> seconds and \<open>n\<close> nanoseconds.  \<open>SetFaultTmo\<close> is the same for
  the fault timer, which is kept while the port is closed; it is disarmed by zero.
\<close>

datatype port_effect =
    SetTmo timer nat nat
  | ClrTmo timer
  | Transmit transport_event ptp_message
  | TransmitPeer transport_event ptp_message
  | TransportOpen
  | TransportClose
  | TimersCreate
  | TimersClose
  | FdaChanged
  | NotifyPortState port_state
  | SetFaultTmo int nat
  | NullDereference

record nrate_estimator =
  nr_ratio :: dbl
  nr_origin1 :: tmv_t
  nr_ingress1 :: tmv_t
  nr_max_count :: u32
  nr_count :: u32
  nr_ratio_valid :: bool

record tc_txd =
  txd_msg :: ptp_message
  txd_residence :: tmv_t
  txd_ingress_port :: int

text \<open>
  \<open>p_best\<close> is the sender of the foreign clock that \<open>p->best\<close> points to.  \<open>p_last_syncfup\<close> is
  meaningful while \<open>p_syfu\<close> is not \<open>SF_EMPTY\<close>.  \<open>p_slave_only_fsm\<close> selects the state machine.
\<close>

record port =
  p_timestamping :: timestamp_type
  p_jbod :: bool
  p_phc_index :: int
  p_ts_label :: string
  p_link_status :: u32
  p_trp_type :: u16
  p_protocol_addr :: "u8 list"
  p_physical_addr :: "u8 list"
  p_best :: "PortIdentity option"
  p_syfu :: syfu_state
  p_last_syncfup :: ptp_message
  p_delay_req :: "ptp_message list"
  p_peer_delay_req :: "ptp_message option"
  p_peer_delay_resp :: "ptp_message option"
  p_peer_delay_fup :: "ptp_message option"
  p_peer_portid_valid :: bool
  p_peer_portid :: PortIdentity
  p_seqnum_announce :: u16
  p_seqnum_delayreq :: u16
  p_seqnum_sync :: u16
  p_peer_delay :: tmv_t
  p_tsproc :: tsproc
  p_log_sync_interval :: int
  p_nrate :: nrate_estimator
  p_pdr_missing :: u32
  p_multiple_seq_pdr_count :: u32
  p_multiple_pdr_detected :: bool
  p_slave_only_fsm :: bool
  p_portIdentity :: PortIdentity
  p_state :: port_state
  p_asymmetry :: i64
  p_asCapable :: bool
  p_logMinDelayReqInterval :: i8
  p_peerMeanPathDelay :: i64
  p_logAnnounceInterval :: i8
  p_announceReceiptTimeout :: u8
  p_announce_span :: int
  p_syncReceiptTimeout :: u8
  p_transportSpecific :: u8
  p_localPriority :: u8
  p_logSyncInterval :: i8
  p_delayMechanism :: delay_mechanism
  p_logMinPdelayReqInterval :: i8
  p_neighborPropDelayThresh :: u32
  p_follow_up_info :: bool
  p_freq_est_interval :: int
  p_hybrid_e2e :: bool
  p_master_only :: bool
  p_match_transport_specific :: bool
  p_min_neighbor_prop_delay :: int
  p_net_sync_monitor :: bool
  p_path_trace_enabled :: bool
  p_tc_spanning_tree :: bool
  p_rx_timestamp_offset :: i64
  p_tx_timestamp_offset :: i64
  p_flt_interval_pertype :: "fault_type \<Rightarrow> fault_interval"
  p_last_fault_type :: fault_type
  p_versionNumber :: u8
  p_foreign_masters :: "foreign_clock list"
  p_tc_transmitted :: "tc_txd list"
  p_fx :: "port_effect list"
  p_refs :: "ref_op list"
  p_nalloc :: nat
  p_nsend :: nat

abbreviation portnum :: "port \<Rightarrow> u16" where
  "portnum p \<equiv> portNumber (p_portIdentity p)"

definition pfx :: "port_effect list \<Rightarrow> port \<Rightarrow> port" where
  "pfx es p = p\<lparr>p_fx := p_fx p @ es\<rparr>"

definition prefs :: "ref_op list \<Rightarrow> port \<Rightarrow> port" where
  "prefs rs p = p\<lparr>p_refs := p_refs p @ rs\<rparr>"

definition pget :: "ptp_message \<Rightarrow> port \<Rightarrow> port" where
  "pget m = prefs [MsgGet (m_ptr m)]"

definition pput :: "ptp_message \<Rightarrow> port \<Rightarrow> port" where
  "pput m = prefs [MsgPut (m_ptr m)]"

text \<open>\<open>if (x) msg_put(x)\<close>.\<close>

definition pput_opt :: "ptp_message option \<Rightarrow> port \<Rightarrow> port" where
  "pput_opt x p = (case x of None \<Rightarrow> p | Some m \<Rightarrow> pput m p)"

text \<open>\<open>msg_allocate\<close>: the new message carries the first reference.\<close>

definition port_alloc :: "env \<Rightarrow> port \<Rightarrow> port \<times> ptp_message option" where
  "port_alloc e p =
    (let q = p\<lparr>p_nalloc := p_nalloc p + 1\<rparr>
     in case env_malloc e (p_nalloc p) of
          None \<Rightarrow> (q, None)
        | Some ptr \<Rightarrow> (pget (zero_msg ptr) q, Some (zero_msg ptr)))"

subsection \<open>Timers\<close>

text \<open>Seconds and nanoseconds of \<open>set_tmo_log\<close> and \<open>set_tmo_random\<close>.\<close>

definition tmo_log :: "nat \<Rightarrow> int \<Rightarrow> nat \<times> nat" where
  "tmo_log scale log_seconds =
    (if log_seconds < 0
     then let ns = scale * 500000000 div 2 ^ (nat (- log_seconds) - 1)
          in (ns div 1000000000, ns mod 1000000000)
     else (scale * 2 ^ (nat log_seconds mod 32) mod 2 ^ 32, 0))"

definition set_tmo_log :: "timer \<Rightarrow> nat \<Rightarrow> int \<Rightarrow> port \<Rightarrow> port" where
  "set_tmo_log t scale log_seconds =
     (case tmo_log scale log_seconds of (s, n) \<Rightarrow> pfx [SetTmo t s n])"

definition shift_ns :: "int \<Rightarrow> int \<Rightarrow> nat" where
  "shift_ns k log_seconds =
    nat ((if log_seconds \<ge> 0 then k * 1000000000 * 2 ^ nat log_seconds
          else k * 1000000000 div 2 ^ nat (- log_seconds)) mod 2 ^ 64)"

definition tmo_random :: "nat \<Rightarrow> int \<Rightarrow> int \<Rightarrow> int \<Rightarrow> nat \<times> nat" where
  "tmo_random random min_k width log_seconds =
    (let min_ns = shift_ns min_k log_seconds; span_ns = shift_ns width log_seconds;
         value_ns = (min_ns + span_ns * (random mod 2 ^ 15 + 1) mod 2 ^ 64 div 2 ^ 15) mod 2 ^ 64
     in (value_ns div 1000000000, value_ns mod 1000000000))"

definition set_tmo_random :: "env \<Rightarrow> timer \<Rightarrow> int \<Rightarrow> int \<Rightarrow> int \<Rightarrow> port \<Rightarrow> port" where
  "set_tmo_random e t min_k width log_seconds =
     (case tmo_random (env_random e) min_k width log_seconds of (s, n) \<Rightarrow> pfx [SetTmo t s n])"

definition port_clr_tmo :: "timer \<Rightarrow> port \<Rightarrow> port" where
  "port_clr_tmo t = pfx [ClrTmo t]"

definition port_set_announce_tmo :: "env \<Rightarrow> port \<Rightarrow> port" where
  "port_set_announce_tmo e p =
     set_tmo_random e FD_ANNOUNCE_TIMER (uint (p_announceReceiptTimeout p)) (p_announce_span p)
       (sint (p_logAnnounceInterval p)) p"

definition port_set_delay_tmo :: "env \<Rightarrow> port \<Rightarrow> port" where
  "port_set_delay_tmo e p =
    (if p_delayMechanism p = DM_P2P
     then set_tmo_log FD_DELAY_TIMER 1 (sint (p_logMinPdelayReqInterval p)) p
     else set_tmo_random e FD_DELAY_TIMER 0 2 (sint (p_logMinDelayReqInterval p)) p)"

definition port_set_manno_tmo :: "port \<Rightarrow> port" where
  "port_set_manno_tmo p = set_tmo_log FD_MANNO_TIMER 1 (sint (p_logAnnounceInterval p)) p"

definition port_set_qualification_tmo :: "'z clock_scheme \<Rightarrow> port \<Rightarrow> port" where
  "port_set_qualification_tmo c p =
     set_tmo_log FD_QUALIFICATION_TIMER (1 + unat (clock_steps_removed c))
       (sint (p_logAnnounceInterval p)) p"

definition port_set_sync_rx_tmo :: "port \<Rightarrow> port" where
  "port_set_sync_rx_tmo p =
     set_tmo_log FD_SYNC_RX_TIMER (unat (p_syncReceiptTimeout p)) (sint (p_logSyncInterval p)) p"

definition port_set_sync_tx_tmo :: "port \<Rightarrow> port" where
  "port_set_sync_tx_tmo p = set_tmo_log FD_SYNC_TX_TIMER 1 (sint (p_logSyncInterval p)) p"

subsection \<open>Peer delay rate and capability\<close>

definition port_nrate_calculate :: "(real \<Rightarrow> real) \<Rightarrow> tmv_t \<Rightarrow> tmv_t \<Rightarrow> port \<Rightarrow> port" where
  "port_nrate_calculate fl origin ingress p =
    (let p = p\<lparr>p_pdr_missing := 0\<rparr>; n = p_nrate p
     in if tmv_is_zero (nr_ingress1 n)
        then p\<lparr>p_nrate := n\<lparr>nr_ingress1 := ingress, nr_origin1 := origin\<rparr>\<rparr>
        else
          let n = n\<lparr>nr_count := nr_count n + 1\<rparr>
          in if nr_count n < nr_max_count n then p\<lparr>p_nrate := n\<rparr>
             else if tmv_cmp ingress (nr_ingress1 n) = 0 then p\<lparr>p_nrate := n\<rparr>
             else p\<lparr>p_nrate := n\<lparr>
               nr_ratio := fl (tmv_dbl fl (tmv_sub origin (nr_origin1 n)) /
                 tmv_dbl fl (tmv_sub ingress (nr_ingress1 n))),
               nr_ingress1 := ingress, nr_origin1 := origin, nr_count := 0, nr_ratio_valid := True\<rparr>\<rparr>)"

abbreviation (input) ALLOWED_LOST_RESPONSES :: u32 where "ALLOWED_LOST_RESPONSES \<equiv> 3"

definition port_nrate_initialize :: "port \<Rightarrow> port" where
  "port_nrate_initialize p =
     p\<lparr>p_pdr_missing := ALLOWED_LOST_RESPONSES + 1, p_asCapable := False,
       p_peer_portid_valid := False,
       p_nrate := \<lparr>nr_ratio = 1, nr_origin1 = tmv_zero, nr_ingress1 = tmv_zero,
         nr_max_count = push_bit (est_shift (p_freq_est_interval p - sint (p_logMinPdelayReqInterval p))) 1,
         nr_count = 0, nr_ratio_valid = False\<rparr>\<rparr>"

definition port_is_ieee8021as :: "port \<Rightarrow> bool" where
  "port_is_ieee8021as p = p_follow_up_info p"

text \<open>The tests of \<open>port_capable\<close>, in the order of the code.\<close>

definition not_capable :: "port \<Rightarrow> bool" where
  "not_capable p \<longleftrightarrow>
     tmv_val (p_peer_delay p) > uint (p_neighborPropDelayThresh p) \<or>
     tmv_val (p_peer_delay p) < p_min_neighbor_prop_delay p \<or>
     p_pdr_missing p > ALLOWED_LOST_RESPONSES \<or>
     p_multiple_seq_pdr_count p \<noteq> 0 \<or>
     \<not> p_peer_portid_valid p \<or>
     \<not> nr_ratio_valid (p_nrate p)"

definition port_capable :: "port \<Rightarrow> port \<times> bool" where
  "port_capable p =
    (if \<not> port_is_ieee8021as p \<or> \<not> not_capable p then (p\<lparr>p_asCapable := True\<rparr>, True)
     else ((if p_asCapable p then port_nrate_initialize p else p)\<lparr>p_asCapable := False\<rparr>, False))"

text \<open>Whether a 802.1AS port may not transmit a Sync message.\<close>

definition port_sync_incapable :: "'z clock_scheme \<Rightarrow> port \<Rightarrow> bool" where
  "port_sync_incapable c p \<longleftrightarrow>
    (if \<not> port_is_ieee8021as p then False
     else if clock_gm_capable c then False
     else cid_eq (clock_identity c) (clockIdentity (clock_parent_identity c)))"

subsection \<open>Sending\<close>

text \<open>The transmission, the time stamp and its correction; the message as it is after the call.\<close>

definition prepare_and_send ::
  "env \<Rightarrow> (ptp_message \<Rightarrow> port_effect) \<Rightarrow> ptp_message \<Rightarrow> port \<Rightarrow> bool \<times> ptp_message \<times> port" where
  "prepare_and_send e tx m p =
    (case msg_pre_send (env_bo e) (env_now e) m of
       None \<Rightarrow> (False, m, p)
     | Some m \<Rightarrow>
         let p = (pfx [tx m] p)\<lparr>p_nsend := p_nsend p + 1\<rparr>
         in case env_send e (portnum p) (p_nsend p - 1) of
              None \<Rightarrow> (False, m, p)
            | Some t \<Rightarrow>
                let m = m\<lparr>hwts := (hwts m)\<lparr>hw_ts := t\<rparr>\<rparr>
                in (True, if msg_sots_valid m
                      then m\<lparr>hwts := (hwts m)\<lparr>hw_ts := ts_add (hwts_ts m) (p_tx_timestamp_offset p)\<rparr>\<rparr>
                      else m, p))"

definition port_prepare_and_send ::
  "env \<Rightarrow> transport_event \<Rightarrow> ptp_message \<Rightarrow> port \<Rightarrow> bool \<times> ptp_message \<times> port" where
  "port_prepare_and_send e event = prepare_and_send e (Transmit event)"

definition peer_prepare_and_send ::
  "env \<Rightarrow> transport_event \<Rightarrow> ptp_message \<Rightarrow> port \<Rightarrow> bool \<times> ptp_message \<times> port" where
  "peer_prepare_and_send e event = prepare_and_send e (TransmitPeer event)"

subsection \<open>Flushing, disabling and initialising\<close>

definition flush_last_sync :: "port \<Rightarrow> port" where
  "flush_last_sync p =
     (if p_syfu p \<noteq> SF_EMPTY then (pput (p_last_syncfup p) p)\<lparr>p_syfu := SF_EMPTY\<rparr> else p)"

definition flush_delay_req :: "port \<Rightarrow> port" where
  "flush_delay_req p =
     (prefs (map (\<lambda>m. MsgPut (m_ptr m)) (p_delay_req p)) p)\<lparr>p_delay_req := []\<rparr>"

definition flush_peer_delay :: "port \<Rightarrow> port" where
  "flush_peer_delay p =
     (pput_opt (p_peer_delay_fup p) (pput_opt (p_peer_delay_resp p) (pput_opt (p_peer_delay_req p) p)))
       \<lparr>p_peer_delay_req := None, p_peer_delay_resp := None, p_peer_delay_fup := None\<rparr>"

definition tc_flush :: "port \<Rightarrow> port" where
  "tc_flush p =
     (prefs (map (\<lambda>t. MsgPut (m_ptr (txd_msg t))) (p_tc_transmitted p)) p)\<lparr>p_tc_transmitted := []\<rparr>"

definition port_disable :: "port \<Rightarrow> port" where
  "port_disable p =
    (let p = flush_peer_delay (flush_delay_req (flush_last_sync (tc_flush p)));
         p = p\<lparr>p_best := None\<rparr>;
         p = (prefs (free_foreign_masters (p_foreign_masters p)) p)\<lparr>p_foreign_masters := []\<rparr>
     in pfx [TransportClose, TimersClose, FdaChanged] p)"

text \<open>The fields that \<open>port_initialize\<close> reads from the configuration.\<close>

definition port_config :: "(string \<Rightarrow> int) \<Rightarrow> port \<Rightarrow> port" where
  "port_config cfg p =
     p\<lparr>p_multiple_seq_pdr_count := 0, p_multiple_pdr_detected := False,
       p_last_fault_type := FT_UNSPECIFIED,
       p_logMinDelayReqInterval := word_of_int (cfg ''logMinDelayReqInterval''),
       p_peerMeanPathDelay := 0,
       p_logAnnounceInterval := word_of_int (cfg ''logAnnounceInterval''),
       p_announceReceiptTimeout := word_of_int (cfg ''announceReceiptTimeout''),
       p_syncReceiptTimeout := word_of_int (cfg ''syncReceiptTimeout''),
       p_transportSpecific := push_bit 4 (word_of_int (cfg ''transportSpecific'')),
       p_match_transport_specific := (cfg ''ignore_transport_specific'' = 0),
       p_master_only := (cfg ''masterOnly'' \<noteq> 0),
       p_localPriority := word_of_int (cfg ''G.8275.portDS.localPriority''),
       p_logSyncInterval := word_of_int (cfg ''logSyncInterval''),
       p_logMinPdelayReqInterval := word_of_int (cfg ''logMinPdelayReqInterval''),
       p_neighborPropDelayThresh := word_of_int (cfg ''neighborPropDelayThresh''),
       p_min_neighbor_prop_delay := cfg ''min_neighbor_prop_delay''\<rparr>"

text \<open>The result is True when the port is ready, the return value 0.\<close>

definition port_initialize :: "env \<Rightarrow> port \<Rightarrow> port \<times> bool" where
  "port_initialize e p =
    (let p = port_config (env_cfg e) p
     in if \<not> env_timers e then (p, False)
        else
          let p = pfx [TimersCreate] p
          in if \<not> env_open e then (pfx [TimersClose] p, False)
             else
               let p = port_set_announce_tmo e (pfx [TransportOpen] p)
               in if \<not> env_settime e then (pfx [TransportClose, TimersClose] p, False)
                  else (pfx [FdaChanged] (port_nrate_initialize p), True))"

definition port_is_enabled :: "port \<Rightarrow> bool" where
  "port_is_enabled p = ps_enabled (p_state p)"

definition port_renew_transport :: "env \<Rightarrow> port \<Rightarrow> port \<times> bool" where
  "port_renew_transport e p =
    (if \<not> port_is_enabled p then (p, True)
     else (pfx (if env_open e then [TransportClose, TransportOpen, FdaChanged] else [TransportClose, FdaChanged]) p,
       env_open e))"

subsection \<open>State updates and transitions\<close>

definition clear_fault_asap :: "fault_interval \<Rightarrow> bool" where
  "clear_fault_asap i = (case i of FTMO_LINEAR_SECONDS v \<Rightarrow> v = 0 | FTMO_LOG2_SECONDS v \<Rightarrow> v = -128)"

definition state_machine :: "port \<Rightarrow> port_state \<Rightarrow> fsm_event \<Rightarrow> bool \<Rightarrow> port_state" where
  "state_machine p = (if p_slave_only_fsm p then ptp_slave_fsm else ptp_fsm)"

text \<open>The state that is computed first, with the fault cleared at once where it is configured so.\<close>

definition next_state :: "port \<Rightarrow> fsm_event \<Rightarrow> bool \<Rightarrow> port_state" where
  "next_state p event mdiff =
    (let next = state_machine p (p_state p) event mdiff
     in if next = PS_FAULTY \<and> clear_fault_asap (p_flt_interval_pertype p (p_last_fault_type p))
        then state_machine p next EV_FAULT_CLEARED False else next)"

definition port_restart :: "env \<Rightarrow> port \<Rightarrow> port \<times> port_state" where
  "port_restart e p =
    (case port_initialize e (if port_is_enabled p then port_disable p else p) of
       (p, ok) \<Rightarrow>
         (p, state_machine p PS_INITIALIZING (if ok then EV_INIT_COMPLETE else EV_FAULT_DETECTED) False))"

text \<open>The second component of the result is 1, the state has changed.\<close>

definition port_state_update :: "env \<Rightarrow> port \<Rightarrow> fsm_event \<Rightarrow> bool \<Rightarrow> port \<times> bool" where
  "port_state_update e p event mdiff =
    (let (p, next) = (if next_state p event mdiff = PS_INITIALIZING then port_restart e p
                      else (p, next_state p event mdiff))
     in if next \<noteq> p_state p then (pfx [NotifyPortState next] (p\<lparr>p_state := next\<rparr>), True)
        else (p, False))"

definition port_e2e_transition :: "env \<Rightarrow> 'z clock_scheme \<Rightarrow> port \<Rightarrow> port_state \<Rightarrow> port" where
  "port_e2e_transition e c p next =
    (let p = pfx [ClrTmo FD_ANNOUNCE_TIMER, ClrTmo FD_SYNC_RX_TIMER, ClrTmo FD_DELAY_TIMER,
           ClrTmo FD_QUALIFICATION_TIMER, ClrTmo FD_MANNO_TIMER, ClrTmo FD_SYNC_TX_TIMER] p
     in case next of
          PS_INITIALIZING \<Rightarrow> p
        | PS_FAULTY \<Rightarrow> port_disable p
        | PS_DISABLED \<Rightarrow> port_disable p
        | PS_LISTENING \<Rightarrow> port_set_announce_tmo e p
        | PS_PRE_MASTER \<Rightarrow> port_set_qualification_tmo c p
        | PS_MASTER \<Rightarrow> port_set_sync_tx_tmo (set_tmo_log FD_MANNO_TIMER 1 (-10) p)
        | PS_GRAND_MASTER \<Rightarrow> port_set_sync_tx_tmo (set_tmo_log FD_MANNO_TIMER 1 (-10) p)
        | PS_PASSIVE \<Rightarrow> port_set_announce_tmo e p
        | PS_UNCALIBRATED \<Rightarrow>
            port_set_delay_tmo e (port_set_announce_tmo e (flush_delay_req (flush_last_sync p)))
        | PS_SLAVE \<Rightarrow> port_set_delay_tmo e (port_set_announce_tmo e p))"

definition port_p2p_transition :: "env \<Rightarrow> 'z clock_scheme \<Rightarrow> port \<Rightarrow> port_state \<Rightarrow> port" where
  "port_p2p_transition e c p next =
    (let p = pfx [ClrTmo FD_ANNOUNCE_TIMER, ClrTmo FD_SYNC_RX_TIMER,
           ClrTmo FD_QUALIFICATION_TIMER, ClrTmo FD_MANNO_TIMER, ClrTmo FD_SYNC_TX_TIMER] p
     in case next of
          PS_INITIALIZING \<Rightarrow> p
        | PS_FAULTY \<Rightarrow> port_disable p
        | PS_DISABLED \<Rightarrow> port_disable p
        | PS_LISTENING \<Rightarrow> port_set_delay_tmo e (port_set_announce_tmo e p)
        | PS_PRE_MASTER \<Rightarrow> port_set_qualification_tmo c p
        | PS_MASTER \<Rightarrow> port_set_sync_tx_tmo (set_tmo_log FD_MANNO_TIMER 1 (-10) p)
        | PS_GRAND_MASTER \<Rightarrow> port_set_sync_tx_tmo (set_tmo_log FD_MANNO_TIMER 1 (-10) p)
        | PS_PASSIVE \<Rightarrow> port_set_announce_tmo e p
        | PS_UNCALIBRATED \<Rightarrow> port_set_announce_tmo e (flush_peer_delay (flush_last_sync p))
        | PS_SLAVE \<Rightarrow> port_set_announce_tmo e p)"

text \<open>
  \<open>bc_dispatch\<close> up to its last block.  That block switches the hardware clock of a port that
  became UNCALIBRATED in a boundary clock of several devices; when it fails, \<open>bc_dispatch\<close> calls
  itself with a fault, after which no port is UNCALIBRATED (\<open>fault_not_uncalibrated\<close>), so the
  call does not recurse again.
\<close>

definition bc_transition :: "env \<Rightarrow> port \<Rightarrow> 'z clock_scheme \<Rightarrow> fsm_event \<Rightarrow> bool \<Rightarrow> port \<times> bool" where
  "bc_transition e p c event mdiff =
    (case port_state_update e p event mdiff of
       (p, False) \<Rightarrow> (p, False)
     | (p, True) \<Rightarrow>
         (if p_delayMechanism p = DM_P2P then port_p2p_transition e c p (p_state p)
          else port_e2e_transition e c p (p_state p), True))"

definition bc_dispatch :: "env \<Rightarrow> port \<Rightarrow> 'z clock_scheme \<Rightarrow> fsm_event \<Rightarrow> bool \<Rightarrow> port \<times> 'z clock_scheme" where
  "bc_dispatch e p c event mdiff =
    (case bc_transition e p c event mdiff of
       (p, False) \<Rightarrow> (p, c)
     | (p, True) \<Rightarrow>
         if p_jbod p \<and> p_state p = PS_UNCALIBRATED then
           (case clock_switch_phc (env_fl e) (env_mem e) (env_shm e) (env_phc e) c of
              None \<Rightarrow> (fst (bc_transition e (p\<lparr>p_last_fault_type := FT_SWITCH_PHC\<rparr>) c EV_FAULT_DETECTED False), c)
            | Some c \<Rightarrow> (p, clock_sync_interval (env_fl e) c (p_log_sync_interval p)))
         else (p, c))"

text \<open>The same for the ports of transparent clocks (src/e2e_tc.c, src/p2p_tc.c).\<close>

definition tc_clear_timers :: "port \<Rightarrow> port" where
  "tc_clear_timers = pfx [ClrTmo FD_ANNOUNCE_TIMER, ClrTmo FD_SYNC_RX_TIMER,
     ClrTmo FD_QUALIFICATION_TIMER, ClrTmo FD_MANNO_TIMER, ClrTmo FD_SYNC_TX_TIMER]"

definition e2e_dispatch :: "env \<Rightarrow> port \<Rightarrow> 'z clock_scheme \<Rightarrow> fsm_event \<Rightarrow> bool \<Rightarrow> port" where
  "e2e_dispatch e p c event mdiff =
    (case port_state_update e p event mdiff of
       (p, False) \<Rightarrow> p
     | (p, True) \<Rightarrow>
         if portnum p = 0 then p
         else let p = tc_clear_timers p
           in case p_state p of
                PS_FAULTY \<Rightarrow> port_disable p
              | PS_DISABLED \<Rightarrow> port_disable p
              | PS_LISTENING \<Rightarrow> port_set_delay_tmo e (port_set_announce_tmo e p)
              | PS_PRE_MASTER \<Rightarrow> port_set_qualification_tmo c p
              | PS_PASSIVE \<Rightarrow> port_set_announce_tmo e p
              | PS_UNCALIBRATED \<Rightarrow> port_set_announce_tmo e (flush_delay_req (flush_last_sync p))
              | PS_SLAVE \<Rightarrow> port_set_announce_tmo e p
              | _ \<Rightarrow> p)"

definition p2p_dispatch :: "env \<Rightarrow> port \<Rightarrow> 'z clock_scheme \<Rightarrow> fsm_event \<Rightarrow> bool \<Rightarrow> port" where
  "p2p_dispatch e p c event mdiff =
    (case port_state_update e p event mdiff of
       (p, False) \<Rightarrow> p
     | (p, True) \<Rightarrow>
         if portnum p = 0 then p
         else let p = tc_clear_timers p
           in case p_state p of
                PS_FAULTY \<Rightarrow> port_disable p
              | PS_DISABLED \<Rightarrow> port_disable p
              | PS_LISTENING \<Rightarrow> port_set_delay_tmo e (port_set_announce_tmo e p)
              | PS_PRE_MASTER \<Rightarrow> port_set_qualification_tmo c p
              | PS_PASSIVE \<Rightarrow> port_set_announce_tmo e p
              | PS_UNCALIBRATED \<Rightarrow> port_set_announce_tmo e p
              | PS_SLAVE \<Rightarrow> port_set_announce_tmo e p
              | _ \<Rightarrow> p)"

text \<open>The function that \<open>port_open\<close> stores in \<open>p->dispatch\<close>.\<close>

definition port_dispatch :: "env \<Rightarrow> port \<Rightarrow> 'z clock_scheme \<Rightarrow> fsm_event \<Rightarrow> bool \<Rightarrow> port \<times> 'z clock_scheme" where
  "port_dispatch e p c event mdiff =
    (case c_type c of
       CLOCK_TYPE_E2E \<Rightarrow> (e2e_dispatch e p c event mdiff, c)
     | CLOCK_TYPE_P2P \<Rightarrow> (p2p_dispatch e p c event mdiff, c)
     | _ \<Rightarrow> bc_dispatch e p c event mdiff)"

subsection \<open>Synchronisation\<close>

definition port_synchronize ::
  "env \<Rightarrow> port \<Rightarrow> 'z clock_scheme \<Rightarrow> tmv_t \<Rightarrow> timestamp \<Rightarrow> i64 \<Rightarrow> i64 \<Rightarrow> port \<times> 'z clock_scheme" where
  "port_synchronize e p c ingress_ts origin_ts correction1 correction2 =
    (let p = port_set_sync_rx_tmo p;
         t1 = timestamp_to_tmv origin_ts;
         t1c = tmv_add t1 (tmv_add (correction_to_tmv correction1) (correction_to_tmv correction2));
         (c, state) = clock_synchronize (env_fl e) c ingress_ts t1c
     in case state of
          SERVO_UNLOCKED \<Rightarrow> port_dispatch e p c EV_SYNCHRONIZATION_FAULT False
        | SERVO_JUMP \<Rightarrow>
            (let (p, c) = port_dispatch e p c EV_SYNCHRONIZATION_FAULT False; p = flush_delay_req p
             in ((pput_opt (p_peer_delay_req p) p)\<lparr>p_peer_delay_req := None\<rparr>, c))
        | SERVO_LOCKED \<Rightarrow> port_dispatch e p c EV_MASTER_CLOCK_SELECTED False)"

text \<open>The reference to the message held is dropped, a reference to \<open>m\<close> is taken instead.\<close>

definition hold_syncfup :: "ptp_message \<Rightarrow> syfu_state \<Rightarrow> port \<Rightarrow> port" where
  "hold_syncfup m s p =
    (let p = (if p_syfu p = SF_EMPTY then p else pput (p_last_syncfup p) p)
     in (pget m p)\<lparr>p_last_syncfup := m, p_syfu := s\<rparr>)"

definition drop_syncfup :: "port \<Rightarrow> port" where
  "drop_syncfup p = (pput (p_last_syncfup p) p)\<lparr>p_syfu := SF_EMPTY\<rparr>"

definition port_syfufsm :: "env \<Rightarrow> port \<Rightarrow> 'z clock_scheme \<Rightarrow> syfu_event \<Rightarrow> ptp_message \<Rightarrow> port \<times> 'z clock_scheme" where
  "port_syfufsm e p c event m =
    (case event of
       SYNC_MISMATCH \<Rightarrow> (hold_syncfup m SF_HAVE_SYNC p, c)
     | FUP_MISMATCH \<Rightarrow> (hold_syncfup m SF_HAVE_FUP p, c)
     | FUP_MATCH \<Rightarrow>
         (if p_syfu p = SF_HAVE_SYNC then
            let syn = p_last_syncfup p;
                (p, c) = port_synchronize e p c (hwts_ts syn) (ts_pdu m)
                  (correction (header syn)) (correction (header m))
            in (drop_syncfup p, c)
          else (p, c))
     | SYNC_MATCH \<Rightarrow>
         (if p_syfu p = SF_HAVE_FUP then
            let fup = p_last_syncfup p;
                (p, c) = port_synchronize e p c (hwts_ts m) (ts_pdu fup)
                  (correction (header m)) (correction (header fup))
            in (drop_syncfup p, c)
          else (p, c)))"

definition fup_sync_ok :: "ptp_message \<Rightarrow> ptp_message \<Rightarrow> bool" where
  "fup_sync_ok fup sync \<longleftrightarrow> \<not> tmv_cmp (hw_sw (hwts fup)) (hw_sw (hwts sync)) < 0"

text \<open>The states in which \<open>process_sync\<close> and \<open>process_follow_up\<close> act.\<close>

definition slave_states :: "port_state \<Rightarrow> bool" where
  "slave_states s \<longleftrightarrow> s \<in> {PS_UNCALIBRATED, PS_SLAVE}"

definition from_master :: "byte_order \<Rightarrow> 'z clock_scheme \<Rightarrow> ptp_message \<Rightarrow> bool" where
  "from_master bo c m \<longleftrightarrow>
     memcmp (pid_bytes bo (clock_parent_identity c)) (pid_bytes bo (source_pid m)) = 0"

lemma from_master_iff [simp]: "from_master bo c m \<longleftrightarrow> source_pid m = clock_parent_identity c"
  by (auto simp: from_master_def)

definition process_follow_up :: "env \<Rightarrow> port \<Rightarrow> 'z clock_scheme \<Rightarrow> ptp_message \<Rightarrow> port \<times> 'z clock_scheme" where
  "process_follow_up e p c m =
    (if \<not> slave_states (p_state p) then (p, c)
     else if \<not> from_master (env_bo e) c m then (p, c)
     else
       let fui = follow_up_info_extract (env_bo e) m
       in if p_follow_up_info p \<and> fui = None then (p, c)
          else
            let c = (if p_follow_up_info p then clock_follow_up_info c (the fui) else c);
                event = (if p_syfu p = SF_HAVE_SYNC \<and>
                    sequenceId (header (p_last_syncfup p)) = sequenceId (header m)
                  then FUP_MATCH else FUP_MISMATCH)
            in port_syfufsm e p c event m)"

definition process_sync :: "env \<Rightarrow> port \<Rightarrow> 'z clock_scheme \<Rightarrow> ptp_message \<Rightarrow> port \<times> 'z clock_scheme" where
  "process_sync e p c m =
    (if \<not> slave_states (p_state p) then (p, c)
     else if \<not> from_master (env_bo e) c m then (p, c)
     else
       let interval = sint (logMessageInterval (header m));
           (p, c) = (if interval \<noteq> p_log_sync_interval p
             then (p\<lparr>p_log_sync_interval := interval\<rparr>, clock_sync_interval (env_fl e) c interval)
             else (p, c));
           m = m\<lparr>header := (header m)\<lparr>correction := correction (header m) + p_asymmetry p\<rparr>\<rparr>
       in if one_step (env_assume_two_step e) m then
            let (p, c) = port_synchronize e p c (hwts_ts m) (ts_pdu m) (correction (header m)) 0
            in (flush_last_sync p, c)
          else
            let event = (if p_syfu p = SF_HAVE_FUP \<and> fup_sync_ok (p_last_syncfup p) m \<and>
                    sequenceId (header (p_last_syncfup p)) = sequenceId (header m)
                  then SYNC_MATCH else SYNC_MISMATCH)
            in port_syfufsm e p c event m)"

subsection \<open>A port\<close>

text \<open>Port 1 of the clock of \<open>sample_clock\<close>, and an environment without failures.\<close>

definition sample_env :: env where
  "sample_env = \<lparr>env_bo = LittleEndian, env_fl = exact, env_assume_two_step = False,
     env_now = \<lparr>tv_sec = 10, tv_nsec = 0\<rparr>, env_random = 0, env_malloc = (\<lambda>k. Some (100 + k)),
     env_mem = True, env_tlv = True, env_send = (\<lambda>n k. Some (Tmv (of_nat (1000 + k)))),
     env_txts = (\<lambda>n k. Some (Tmv (of_nat (1000 + k)))), env_timers = True,
     env_open = True, env_settime = True, env_phc = None, env_shm = None, env_cfg = (\<lambda>_. 0),
     env_parent_addr = None, env_ts_label = None, env_ts_info = None,
     env_required_modes = 0\<rparr>"

definition sample_port :: "port_state \<Rightarrow> port" where
  "sample_port st =
    \<lparr>p_timestamping = TS_SOFTWARE, p_jbod = False, p_phc_index = -1, p_ts_label = [], p_link_status = 2,
     p_trp_type = 1, p_protocol_addr = [127, 0, 0, 1], p_physical_addr = [0, 0x1b, 0x19, 0, 0, 7],
     p_best = None, p_syfu = SF_EMPTY, p_last_syncfup = zero_msg 0, p_delay_req = [],
     p_peer_delay_req = None, p_peer_delay_resp = None, p_peer_delay_fup = None,
     p_peer_portid_valid = False, p_peer_portid = zero_pid, p_seqnum_announce = 0,
     p_seqnum_delayreq = 0, p_seqnum_sync = 0, p_peer_delay = tmv_zero,
     p_tsproc = sample_tsproc TSPROC_FILTER, p_log_sync_interval = 0,
     p_nrate = \<lparr>nr_ratio = 1, nr_origin1 = tmv_zero, nr_ingress1 = tmv_zero, nr_max_count = 1,
       nr_count = 0, nr_ratio_valid = False\<rparr>,
     p_pdr_missing = 0, p_multiple_seq_pdr_count = 0, p_multiple_pdr_detected = False,
     p_slave_only_fsm = False,
     p_portIdentity = \<lparr>clockIdentity = clock_identity (sample_clock False), portNumber = 1\<rparr>,
     p_state = st, p_asymmetry = 0, p_asCapable = True, p_logMinDelayReqInterval = 0,
     p_peerMeanPathDelay = 0, p_logAnnounceInterval = 1, p_announceReceiptTimeout = 3,
     p_announce_span = 1, p_syncReceiptTimeout = 0, p_transportSpecific = 0, p_localPriority = 128,
     p_logSyncInterval = 0, p_delayMechanism = DM_E2E, p_logMinPdelayReqInterval = 0,
     p_neighborPropDelayThresh = 20000000, p_follow_up_info = False, p_freq_est_interval = 1,
     p_hybrid_e2e = False, p_master_only = False, p_match_transport_specific = True,
     p_min_neighbor_prop_delay = -20000000, p_net_sync_monitor = False, p_path_trace_enabled = False,
     p_tc_spanning_tree = False,
     p_rx_timestamp_offset = 0, p_tx_timestamp_offset = 0,
     p_flt_interval_pertype = (\<lambda>_. FTMO_LOG2_SECONDS 4), p_last_fault_type = FT_UNSPECIFIED,
     p_versionNumber = 2, p_foreign_masters = [], p_tc_transmitted = [], p_fx = [], p_refs = [], p_nalloc = 0, p_nsend = 0\<rparr>"

end
