(* ===== verification/PortEvent.thy ===== *)
theory PortEvent
  imports Port
begin

text \<open>
  The messages that a port of an ordinary or boundary clock receives and sends, and the events of
  its descriptors (\<open>process_...\<close>, \<open>port_tx_...\<close> and \<open>bc_event\<close> of src/port.c).

  A function of the C code that returns 0 or an error code returns a bool that is True for an
  error.
\<close>

subsection \<open>TLVs that a port appends\<close>

definition set_suffix :: "nat \<Rightarrow> u8 list \<Rightarrow> ptp_message \<Rightarrow> ptp_message" where
  "set_suffix off bs m = m\<lparr>m_suffix := write_at off bs (m_suffix m)\<rparr>"

definition follow_up_info_append :: "env \<Rightarrow> ptp_message \<Rightarrow> ptp_message option" where
  "follow_up_info_append e m =
     map_option (\<lambda>(m, ex).
       set_suffix (tlv_at ex + 9) [1]
         (set_suffix (tlv_at ex + 4) [0x00, 0x80, 0xC2]
           (set_suffix (tlv_at ex) (u16_bytes (env_bo e) TLV_ORGANIZATION_EXTENSION @ u16_bytes (env_bo e) 28) m)))
       (msg_tlv_append (env_bo e) (env_tlv e) m 32)"

definition path_trace_append :: "env \<Rightarrow> 'z clock_scheme \<Rightarrow> ptp_message \<Rightarrow> ptp_message option" where
  "path_trace_append e c m =
    (let n = 1 + dad_path_length (c_dad c); ptt_len = n * 8
     in if n > PATH_TRACE_MAX then None
        else map_option (\<lambda>(m, ex).
          set_suffix (tlv_at ex + 4)
            (concat (map cid_bytes (take (dad_path_length (c_dad c)) (dad_ptl (c_dad c)))) @
             cid_bytes (clock_identity c))
            (set_suffix (tlv_at ex)
              (u16_bytes (env_bo e) TLV_PATH_TRACE @ u16_bytes (env_bo e) (of_nat ptt_len)) m))
          (msg_tlv_append (env_bo e) (env_tlv e) m (ptt_len + 4)))"

subsection \<open>Messages to ignore\<close>

definition incapable_ignore :: "port \<Rightarrow> ptp_message \<Rightarrow> port \<times> bool" where
  "incapable_ignore p m =
    (case port_capable p of
       (p, True) \<Rightarrow> (p, False)
     | (p, False) \<Rightarrow> (p, msg_type m \<in> {ANNOUNCE, SYNC}))"

definition path_trace_ignore :: "byte_order \<Rightarrow> 'z clock_scheme \<Rightarrow> port \<Rightarrow> ptp_message \<Rightarrow> bool" where
  "path_trace_ignore bo c p m \<longleftrightarrow>
    (if \<not> p_path_trace_enabled p then False
     else if msg_type m \<noteq> ANNOUNCE then False
     else list_ex (\<lambda>ex. tlv_type bo m (tlv_at ex) = TLV_PATH_TRACE \<and>
       list_ex (\<lambda>i. cid_eq (path_trace_cid m (tlv_at ex) i) (clock_identity c))
         [0..<path_length bo m (tlv_at ex)]) (tlv_list m))"

definition port_ignore :: "byte_order \<Rightarrow> 'z clock_scheme \<Rightarrow> port \<Rightarrow> ptp_message \<Rightarrow> port \<times> bool" where
  "port_ignore bo c p m =
    (case incapable_ignore p m of
       (p, ign) \<Rightarrow>
         (p, ign \<or> path_trace_ignore bo c p m \<or>
           p_match_transport_specific p \<and> msg_transport_specific m \<noteq> p_transportSpecific p \<or>
           pid_eq bo (source_pid m) (p_portIdentity p) \<or>
           domainNumber (header m) \<noteq> clock_domain_number c \<or>
           cid_eq (clock_identity c) (clockIdentity (source_pid m))))"

subsection \<open>Announce\<close>

text \<open>
  The path trace list is taken from the start of the suffix, whatever TLV is there, and is
  \<open>length\<close> octets long.
\<close>

definition update_path_trace :: "byte_order \<Rightarrow> ptp_message \<Rightarrow> 'z clock_scheme \<Rightarrow> 'z clock_scheme" where
  "update_path_trace bo m c =
    (let n = path_length bo m 0
     in c\<lparr>c_dad := (c_dad c)
         \<lparr>dad_ptl := map (path_trace_cid m 0) [0..<n] @ drop n (dad_ptl (c_dad c)),
          dad_path_length := n\<rparr>\<rparr>)"

text \<open>The third component of the results is non-zero when the message is different.\<close>

definition port_add_foreign_master :: "env \<Rightarrow> port \<Rightarrow> 'z clock_scheme \<Rightarrow> ptp_message \<Rightarrow> port \<times> 'z clock_scheme \<times> bool" where
  "port_add_foreign_master e p c m =
    (case add_foreign_master (env_bo e) (env_mem e) (env_now e) m (p_foreign_masters p) of
       (fms, diff, rs) \<Rightarrow> ((prefs rs p)\<lparr>p_foreign_masters := fms\<rparr>, c, diff))"

text \<open>
  In the states concerned the port has a best foreign clock; without one the C code would
  dereference NULL.
\<close>

definition update_current_master :: "env \<Rightarrow> port \<Rightarrow> 'z clock_scheme \<Rightarrow> ptp_message \<Rightarrow> port \<times> 'z clock_scheme \<times> bool" where
  "update_current_master e p c m =
    (case p_best p of
       None \<Rightarrow> (pfx [NullDereference] p, c, False)
     | Some best \<Rightarrow>
         if source_pid m \<noteq> best then port_add_foreign_master e p c m
         else
           let c = (if p_state p \<noteq> PS_PASSIVE
                 then clock_update_time_properties c \<lparr>tds_currentUtcOffset = currentUtcOffset m,
                   tds_flags = flagField1 (header m), tds_timeSource = timeSource m\<rparr>
                 else c);
               c = (if p_path_trace_enabled p then update_path_trace (env_bo e) m c else c);
               p = port_set_announce_tmo e p
           in case update_best_messages (env_bo e) (env_now e) m (p_foreign_masters p) of
                (fms, diff, rs) \<Rightarrow> ((prefs rs p)\<lparr>p_foreign_masters := fms\<rparr>, c, diff))"

definition process_announce :: "env \<Rightarrow> port \<Rightarrow> 'z clock_scheme \<Rightarrow> ptp_message \<Rightarrow> port \<times> 'z clock_scheme \<times> bool" where
  "process_announce e p c m =
    (if stepsRemoved m \<ge> 255 then (p, c, False)
     else if p_state p \<in> {PS_INITIALIZING, PS_FAULTY, PS_DISABLED} then (p, c, False)
     else if p_state p \<in> {PS_LISTENING, PS_PRE_MASTER, PS_MASTER, PS_GRAND_MASTER}
       then port_add_foreign_master e p c m
     else update_current_master e p c m)"

definition announce_message :: "port \<Rightarrow> 'z clock_scheme \<Rightarrow> ptp_message \<Rightarrow> ptp_message" where
  "announce_message p c m =
    (let dad = dad_pds (c_dad c); tp = c_tds c
     in m\<lparr>hwts := (hwts m)\<lparr>hw_type := p_timestamping p\<rparr>,
          header := (header m)\<lparr>tsmt := ANNOUNCE OR p_transportSpecific p, ver := PTP_VERSION,
            messageLength := 64, domainNumber := clock_domain_number c,
            sourcePortIdentity := p_portIdentity p, sequenceId := p_seqnum_announce p,
            control := CTL_OTHER, logMessageInterval := p_logAnnounceInterval p,
            flagField1 := tds_flags tp\<rparr>,
          currentUtcOffset := tds_currentUtcOffset tp,
          grandmasterPriority1 := pds_grandmasterPriority1 dad,
          grandmasterClockQuality := pds_grandmasterClockQuality dad,
          grandmasterPriority2 := pds_grandmasterPriority2 dad,
          grandmasterIdentity := pds_grandmasterIdentity dad,
          stepsRemoved := clock_steps_removed c, timeSource := tds_timeSource tp\<rparr>)"

text \<open>A path trace that cannot be appended is left out, with an error message.\<close>

definition with_path_trace :: "env \<Rightarrow> port \<Rightarrow> 'z clock_scheme \<Rightarrow> ptp_message \<Rightarrow> ptp_message" where
  "with_path_trace e p c m =
     (if p_path_trace_enabled p then case_option m (\<lambda>m. m) (path_trace_append e c m) else m)"

definition port_tx_announce :: "env \<Rightarrow> port \<Rightarrow> 'z clock_scheme \<Rightarrow> port \<times> bool" where
  "port_tx_announce e p c =
    (case port_capable p of
       (p, False) \<Rightarrow> (p, False)
     | (p, True) \<Rightarrow>
         (case port_alloc e p of
            (p, None) \<Rightarrow> (p, True)
          | (p, Some m) \<Rightarrow>
              (case port_prepare_and_send e TRANS_GENERAL (with_path_trace e p c (announce_message p c m))
                  (p\<lparr>p_seqnum_announce := p_seqnum_announce p + 1\<rparr>) of
                 (ok, m', p) \<Rightarrow> (pput m' p, \<not> ok))))"

subsection \<open>Sync\<close>

text \<open>The headers of the two messages; \<open>dst\<close> is the address of a unicast receiver.\<close>

definition sync_message :: "port \<Rightarrow> 'z clock_scheme \<Rightarrow> address option \<Rightarrow> ptp_message \<Rightarrow> ptp_message" where
  "sync_message p c dst m =
     m\<lparr>hwts := (hwts m)\<lparr>hw_type := p_timestamping p\<rparr>,
       header := (header m)\<lparr>tsmt := SYNC OR p_transportSpecific p, ver := PTP_VERSION,
         messageLength := 44, domainNumber := clock_domain_number c,
         sourcePortIdentity := p_portIdentity p, sequenceId := p_seqnum_sync p,
         control := CTL_SYNC, logMessageInterval := p_logSyncInterval p,
         flagField0 := (if p_timestamping p \<in> {TS_ONESTEP, TS_P2P1STEP} then 0 else TWO_STEP) OR
           (if dst = None then 0 else UNICAST)\<rparr>,
       m_address := (case dst of None \<Rightarrow> m_address m | Some a \<Rightarrow> a)\<rparr>"

definition follow_up_message :: "port \<Rightarrow> 'z clock_scheme \<Rightarrow> address option \<Rightarrow> tmv_t \<Rightarrow> ptp_message \<Rightarrow> ptp_message" where
  "follow_up_message p c dst origin m =
     m\<lparr>hwts := (hwts m)\<lparr>hw_type := p_timestamping p\<rparr>,
       header := (header m)\<lparr>tsmt := FOLLOW_UP OR p_transportSpecific p, ver := PTP_VERSION,
         messageLength := 44, domainNumber := clock_domain_number c,
         sourcePortIdentity := p_portIdentity p, sequenceId := p_seqnum_sync p - 1,
         control := CTL_FOLLOW_UP, logMessageInterval := p_logSyncInterval p,
         flagField0 := (if dst = None then 0 else UNICAST)\<rparr>,
       m_timestamp := tmv_to_Timestamp origin,
       m_address := (case dst of None \<Rightarrow> m_address m | Some a \<Rightarrow> a)\<rparr>"

definition sync_event :: "timestamp_type \<Rightarrow> transport_event" where
  "sync_event t = (case t of TS_ONESTEP \<Rightarrow> TRANS_ONESTEP | TS_P2P1STEP \<Rightarrow> TRANS_P2P1STEP | _ \<Rightarrow> TRANS_EVENT)"

text \<open>From the transmission of the Sync message on; \<open>m\<close> and \<open>fup\<close> are dropped in the end.\<close>

definition tx_sync_send ::
  "env \<Rightarrow> port \<Rightarrow> 'z clock_scheme \<Rightarrow> address option \<Rightarrow> ptp_message \<Rightarrow> ptp_message \<Rightarrow> port \<times> bool" where
  "tx_sync_send e p c dst m fup =
    (case port_prepare_and_send e (sync_event (p_timestamping p)) (sync_message p c dst m)
            (p\<lparr>p_seqnum_sync := p_seqnum_sync p + 1\<rparr>) of
       (False, m, p) \<Rightarrow> (p, True)
     | (True, m, p) \<Rightarrow>
         if p_timestamping p \<in> {TS_ONESTEP, TS_P2P1STEP} then (p, False)
         else if msg_sots_missing m then (p, True)
         else
           let fup = follow_up_message p c dst (hwts_ts m) fup
           in case (if p_follow_up_info p then follow_up_info_append e fup else Some fup) of
                None \<Rightarrow> (p, True)
              | Some fup \<Rightarrow>
                  (case port_prepare_and_send e TRANS_GENERAL fup p of (ok, _, p) \<Rightarrow> (p, \<not> ok)))"

definition port_tx_sync :: "env \<Rightarrow> port \<Rightarrow> 'z clock_scheme \<Rightarrow> address option \<Rightarrow> port \<times> bool" where
  "port_tx_sync e p c dst =
    (case port_capable p of
       (p, False) \<Rightarrow> (p, False)
     | (p, True) \<Rightarrow>
         if port_sync_incapable c p then (p, False)
         else (case port_alloc e p of
             (p, None) \<Rightarrow> (p, True)
           | (p, Some m) \<Rightarrow>
               (case port_alloc e p of
                  (p, None) \<Rightarrow> (pput m p, True)
                | (p, Some fup) \<Rightarrow>
                    (case tx_sync_send e p c dst m fup of (p, err) \<Rightarrow> (pput fup (pput m p), err)))))"

subsection \<open>Delay requests and responses\<close>

definition pdelay_req_message :: "port \<Rightarrow> 'z clock_scheme \<Rightarrow> ptp_message \<Rightarrow> ptp_message" where
  "pdelay_req_message p c m =
     m\<lparr>hwts := (hwts m)\<lparr>hw_type := p_timestamping p\<rparr>,
       header := (header m)\<lparr>tsmt := PDELAY_REQ OR p_transportSpecific p, ver := PTP_VERSION,
         messageLength := 54, domainNumber := clock_domain_number c, correction := - p_asymmetry p,
         sourcePortIdentity := p_portIdentity p, sequenceId := p_seqnum_delayreq p, control := CTL_OTHER,
         logMessageInterval := if port_is_ieee8021as p then p_logMinPdelayReqInterval p else 0x7f\<rparr>\<rparr>"

text \<open>The new request replaces the one before it; a capable port counts the missing response.\<close>

definition store_pdelay_req :: "ptp_message \<Rightarrow> port \<Rightarrow> port" where
  "store_pdelay_req m p =
    (let p = (case p_peer_delay_req p of
           None \<Rightarrow> p
         | Some old \<Rightarrow>
             (case port_capable p of (p, cap) \<Rightarrow>
                pput old (if cap then p\<lparr>p_pdr_missing := p_pdr_missing p + 1\<rparr> else p)))
     in p\<lparr>p_peer_delay_req := Some m\<rparr>)"

definition port_pdelay_request :: "env \<Rightarrow> port \<Rightarrow> 'z clock_scheme \<Rightarrow> port \<times> bool" where
  "port_pdelay_request e p c =
    (let p = (if p_multiple_pdr_detected p then p else p\<lparr>p_multiple_seq_pdr_count := 0\<rparr>)
           \<lparr>p_multiple_pdr_detected := False\<rparr>
     in case port_alloc e p of
          (p, None) \<Rightarrow> (p, True)
        | (p, Some m) \<Rightarrow>
            (case peer_prepare_and_send e TRANS_EVENT (pdelay_req_message p c m)
                (p\<lparr>p_seqnum_delayreq := p_seqnum_delayreq p + 1\<rparr>) of
               (ok, m, p) \<Rightarrow>
                 if \<not> ok \<or> msg_sots_missing m then (pput m p, True) else (store_pdelay_req m p, False)))"

text \<open>The address of a unicast master is that of its latest announce message.\<close>

definition best_address :: "port \<Rightarrow> address option" where
  "best_address p =
    (case p_best p of
       None \<Rightarrow> None
     | Some best \<Rightarrow>
         (case find (\<lambda>fc. fc_sender fc = best) (p_foreign_masters p) of
            None \<Rightarrow> None
          | Some fc \<Rightarrow> (case fc_messages fc of [] \<Rightarrow> None | m # _ \<Rightarrow> Some (m_address m))))"

definition delay_req_message :: "port \<Rightarrow> 'z clock_scheme \<Rightarrow> ptp_message \<Rightarrow> ptp_message" where
  "delay_req_message p c m =
     m\<lparr>hwts := (hwts m)\<lparr>hw_type := p_timestamping p\<rparr>,
       header := (header m)\<lparr>tsmt := DELAY_REQ OR p_transportSpecific p, ver := PTP_VERSION,
         messageLength := 44, domainNumber := clock_domain_number c, correction := - p_asymmetry p,
         sourcePortIdentity := p_portIdentity p, sequenceId := p_seqnum_delayreq p,
         control := CTL_DELAY_REQ, logMessageInterval := 0x7f,
         flagField0 := if p_hybrid_e2e p then UNICAST else 0\<rparr>,
       m_address := if p_hybrid_e2e p then the (best_address p) else m_address m\<rparr>"

text \<open>Without an announce message of the master a port in unicast mode would dereference NULL.\<close>

definition e2e_delay_request :: "env \<Rightarrow> port \<Rightarrow> 'z clock_scheme \<Rightarrow> port \<times> bool" where
  "e2e_delay_request e p c =
    (case port_alloc e p of
       (p, None) \<Rightarrow> (p, True)
     | (p, Some m) \<Rightarrow>
         if p_hybrid_e2e p \<and> best_address p = None then (pfx [NullDereference] (pput m p), True)
         else (case port_prepare_and_send e TRANS_EVENT (delay_req_message p c m)
               (p\<lparr>p_seqnum_delayreq := p_seqnum_delayreq p + 1\<rparr>) of
             (ok, m, p) \<Rightarrow>
               if \<not> ok \<or> msg_sots_missing m then (pput m p, True)
               else (p\<lparr>p_delay_req := m # p_delay_req p\<rparr>, False)))"

definition port_delay_request :: "env \<Rightarrow> port \<Rightarrow> 'z clock_scheme \<Rightarrow> port \<times> bool" where
  "port_delay_request e p c =
    (let p = (pput_opt (p_peer_delay_fup p) (pput_opt (p_peer_delay_resp p) p))
           \<lparr>p_peer_delay_resp := None, p_peer_delay_fup := None\<rparr>
     in if p_delayMechanism p = DM_P2P then port_pdelay_request e p c else e2e_delay_request e p c)"

definition delay_req_current :: "timespec \<Rightarrow> ptp_message \<Rightarrow> bool" where
  "delay_req_current now m \<longleftrightarrow> sint (timespec_ns now - timespec_ns (ts_host m)) < 5 * 1000000000"

definition delay_req_prune :: "timespec \<Rightarrow> port \<Rightarrow> port" where
  "delay_req_prune now p =
    (let kept = pop_last_while (\<lambda>m. \<not> delay_req_current now m) (p_delay_req p)
     in (prefs (map (\<lambda>m. MsgPut (m_ptr m)) (rev (drop (length kept) (p_delay_req p)))) p)
          \<lparr>p_delay_req := kept\<rparr>)"

definition port_nsm_reply :: "byte_order \<Rightarrow> port \<Rightarrow> ptp_message \<Rightarrow> bool" where
  "port_nsm_reply bo p m \<longleftrightarrow>
     p_net_sync_monitor p \<and> p_hybrid_e2e p \<and> flagField0 (header m) AND UNICAST \<noteq> 0 \<and>
     list_ex (\<lambda>ex. tlv_type bo m (tlv_at ex) = TLV_PTPMON_REQ) (tlv_list m)"

subsection \<open>Monitoring responses\<close>

definition u32_bytes :: "byte_order \<Rightarrow> u32 \<Rightarrow> u8 list" where
  "u32_bytes bo w = (case bo of
     LittleEndian \<Rightarrow> u16_bytes bo (ucast w) @ u16_bytes bo (ucast (drop_bit 16 w))
   | BigEndian \<Rightarrow> u16_bytes bo (ucast (drop_bit 16 w)) @ u16_bytes bo (ucast w))"

definition u64_bytes :: "byte_order \<Rightarrow> u64 \<Rightarrow> u8 list" where
  "u64_bytes bo w = (case bo of
     LittleEndian \<Rightarrow> u32_bytes bo (ucast w) @ u32_bytes bo (ucast (drop_bit 32 w))
   | BigEndian \<Rightarrow> u32_bytes bo (ucast (drop_bit 32 w)) @ u32_bytes bo (ucast w))"

definition quality_bytes :: "byte_order \<Rightarrow> ClockQuality \<Rightarrow> u8 list" where
  "quality_bytes bo q = [clockClass q, clockAccuracy q] @ u16_bytes bo (offsetScaledLogVariance q)"

text \<open>
  The foot: the parent data set (whose statistics fields keep the values that \<open>clock_create\<close> gave
  them), the current data set, the time properties and the time of the last Sync message.
\<close>

definition parentDS_bytes :: "byte_order \<Rightarrow> parentDS \<Rightarrow> u8 list" where
  "parentDS_bytes bo ds =
     pid_bytes bo (pds_parentPortIdentity ds) @ [0, 0] @ u16_bytes bo 0xffff @ u32_bytes bo 0x7fffffff @
     [pds_grandmasterPriority1 ds] @ quality_bytes bo (pds_grandmasterClockQuality ds) @
     [pds_grandmasterPriority2 ds] @ cid_bytes (pds_grandmasterIdentity ds)"

definition currentDS_bytes :: "byte_order \<Rightarrow> currentDS \<Rightarrow> u8 list" where
  "currentDS_bytes bo ds = u16_bytes bo (cur_stepsRemoved ds) @
     u64_bytes bo (cur_offsetFromMaster ds) @ u64_bytes bo (cur_meanPathDelay ds)"

definition timePropertiesDS_bytes :: "byte_order \<Rightarrow> timePropertiesDS \<Rightarrow> u8 list" where
  "timePropertiesDS_bytes bo ds =
     u16_bytes bo (tds_currentUtcOffset ds) @ [tds_flags ds, tds_timeSource ds]"

definition nsm_foot_bytes :: "byte_order \<Rightarrow> 'z clock_scheme \<Rightarrow> u8 list" where
  "nsm_foot_bytes bo c =
    (let last_sync = tmv_to_Timestamp (c_ingress_ts c)
     in parentDS_bytes bo (dad_pds (c_dad c)) @ currentDS_bytes bo (c_cur c) @
        timePropertiesDS_bytes bo (c_tds c) @
        u16_bytes bo (seconds_msb last_sync) @ u32_bytes bo (seconds_lsb last_sync) @
        u32_bytes bo (nanoseconds last_sync))"

definition net_sync_resp_append :: "env \<Rightarrow> port \<Rightarrow> 'z clock_scheme \<Rightarrow> ptp_message \<Rightarrow> ptp_message option" where
  "net_sync_resp_append e p c m =
    (let bo = env_bo e; own = (p_trp_type p, p_protocol_addr p);
         (proto, addr) = (case env_parent_addr e of
             Some a \<Rightarrow> (if cid_eq (clock_identity c) (clockIdentity (clock_parent_identity c))
                then own else a)
           | None \<Rightarrow> own);
         tlv_len = 10 + 64 + length addr;
         state = (if p_state p = PS_GRAND_MASTER then PS_MASTER else p_state p)
     in map_option (\<lambda>(m, ex).
          let tlv = tlv_at ex; foot = tlv + 10 + length addr;
              m = set_suffix foot (nsm_foot_bytes bo c)
                (set_suffix tlv (u16_bytes bo TLV_PTPMON_RESP @ u16_bytes bo (of_nat (tlv_len - 4)) @
                   [ps_code state, 0] @ u16_bytes bo proto @ u16_bytes bo (of_nat (length addr)) @ addr) m)
          in m\<lparr>tlv_list := butlast (tlv_list m) @ [ex\<lparr>nsm_foot := foot\<rparr>]\<rparr>)
        (msg_tlv_append bo (env_tlv e) m tlv_len))"

definition delay_resp_message :: "port \<Rightarrow> ptp_message \<Rightarrow> ptp_message \<Rightarrow> ptp_message" where
  "delay_resp_message p m msg =
    (let unicast = (p_hybrid_e2e p \<and> flagField0 (header m) AND UNICAST \<noteq> 0)
     in msg\<lparr>hwts := (hwts msg)\<lparr>hw_type := p_timestamping p\<rparr>,
          header := (header msg)\<lparr>tsmt := DELAY_RESP OR p_transportSpecific p, ver := PTP_VERSION,
            messageLength := 54, domainNumber := domainNumber (header m),
            correction := correction (header m),
            sourcePortIdentity := p_portIdentity p, sequenceId := sequenceId (header m),
            control := CTL_DELAY_RESP,
            logMessageInterval := if unicast then 0x7f else p_logMinDelayReqInterval p,
            flagField0 := if unicast then UNICAST else 0\<rparr>,
          m_timestamp := tmv_to_Timestamp (hwts_ts m),
          requestingPortIdentity := source_pid m,
          m_address := if unicast then m_address m else m_address msg\<rparr>)"

definition process_delay_req :: "env \<Rightarrow> port \<Rightarrow> 'z clock_scheme \<Rightarrow> ptp_message \<Rightarrow> port \<times> bool" where
  "process_delay_req e p c m =
    (let nsm = port_nsm_reply (env_bo e) p m
     in if \<not> nsm \<and> p_state p \<noteq> PS_MASTER \<and> p_state p \<noteq> PS_GRAND_MASTER then (p, False)
        else if p_delayMechanism p = DM_P2P then (p, False)
        else case port_alloc e p of
            (p, None) \<Rightarrow> (p, True)
          | (p, Some msg) \<Rightarrow>
              let msg = delay_resp_message p m msg
              in case (if nsm then net_sync_resp_append e p c msg else Some msg) of
                   None \<Rightarrow> (pput msg p, True)
                 | Some msg \<Rightarrow>
                     (case port_prepare_and_send e TRANS_GENERAL msg p of
                        (False, msg, p) \<Rightarrow> (pput msg p, True)
                      | (True, msg, p) \<Rightarrow>
                          if \<not> nsm then (pput msg p, False)
                          else
                            let saved = p_seqnum_sync p;
                                (p, err) = port_tx_sync e (p\<lparr>p_seqnum_sync := sequenceId (header m)\<rparr>) c
                                  (Some (m_address m))
                            in (pput msg (p\<lparr>p_seqnum_sync := saved\<rparr>), err)))"

text \<open>The requests that were sent are kept in network byte order.\<close>

definition answers :: "byte_order \<Rightarrow> ptp_message \<Rightarrow> ptp_message \<Rightarrow> bool" where
  "answers bo rsp req \<longleftrightarrow> sequenceId (header rsp) = htons bo (sequenceId (header req))"

text \<open>What \<open>process_delay_resp\<close> does with the interval that the master asks for.\<close>

definition adopt_delay_interval :: "env \<Rightarrow> ptp_message \<Rightarrow> port \<Rightarrow> port" where
  "adopt_delay_interval e m p =
    (let interval = logMessageInterval (header m)
     in if p_logMinDelayReqInterval p = interval then p
        else if flagField0 (header m) AND UNICAST \<noteq> 0 then p
        else if sint interval < -10 \<or> sint interval > 22 then p
        else port_set_delay_tmo e (p\<lparr>p_logMinDelayReqInterval := interval\<rparr>))"

definition process_delay_resp :: "env \<Rightarrow> port \<Rightarrow> 'z clock_scheme \<Rightarrow> ptp_message \<Rightarrow> port \<times> 'z clock_scheme" where
  "process_delay_resp e p c m =
    (if \<not> slave_states (p_state p) then (p, c)
     else if \<not> pid_eq (env_bo e) (requestingPortIdentity m) (p_portIdentity p) then (p, c)
     else if \<not> pid_eq (env_bo e) (clock_parent_identity c) (source_pid m) then (p, c)
     else case find (answers (env_bo e) m) (p_delay_req p) of
         None \<Rightarrow> (p, c)
       | Some req \<Rightarrow>
           let t4c = tmv_sub (timestamp_to_tmv (ts_pdu m)) (correction_to_tmv (correction (header m)));
               c = clock_path_delay (env_fl e) c (hwts_ts req) t4c;
               p = (pput req p)\<lparr>p_delay_req := remove_first (answers (env_bo e) m) (p_delay_req p)\<rparr>
           in (adopt_delay_interval e m p, c))"

subsection \<open>Peer delay\<close>

text \<open>The port identity of the peer, as \<open>process_pdelay_req\<close> and \<open>process_pdelay_resp\<close> track it.\<close>

definition track_peer :: "byte_order \<Rightarrow> ptp_message \<Rightarrow> port \<Rightarrow> port" where
  "track_peer bo m p =
    (if p_peer_portid_valid p
     then (if pid_eq bo (p_peer_portid p) (source_pid m) then p
           else fst (port_capable (p\<lparr>p_peer_portid_valid := False\<rparr>)))
     else p\<lparr>p_peer_portid_valid := True, p_peer_portid := source_pid m\<rparr>)"

definition pdelay_resp_message :: "port \<Rightarrow> ptp_message \<Rightarrow> ptp_message \<Rightarrow> ptp_message" where
  "pdelay_resp_message p m rsp =
    (let onestep = (p_timestamping p = TS_P2P1STEP)
     in rsp\<lparr>hwts := (hwts rsp)\<lparr>hw_type := p_timestamping p\<rparr>,
          header := (header rsp)\<lparr>tsmt := PDELAY_RESP OR p_transportSpecific p, ver := PTP_VERSION,
            messageLength := 54, domainNumber := domainNumber (header m),
            correction := if onestep then correction (header m) else correction (header rsp),
            flagField0 := if onestep then 0 else TWO_STEP,
            sourcePortIdentity := p_portIdentity p, sequenceId := sequenceId (header m),
            control := CTL_OTHER, logMessageInterval := 0x7f\<rparr>,
          m_timestamp := if onestep then m_timestamp rsp else tmv_to_Timestamp (hwts_ts m),
          requestingPortIdentity := source_pid m\<rparr>)"

definition pdelay_resp_fup_message :: "port \<Rightarrow> ptp_message \<Rightarrow> tmv_t \<Rightarrow> ptp_message \<Rightarrow> ptp_message" where
  "pdelay_resp_fup_message p m origin fup =
     fup\<lparr>hwts := (hwts fup)\<lparr>hw_type := p_timestamping p\<rparr>,
       header := (header fup)\<lparr>tsmt := PDELAY_RESP_FOLLOW_UP OR p_transportSpecific p, ver := PTP_VERSION,
         messageLength := 54, domainNumber := domainNumber (header m),
         correction := correction (header m),
         sourcePortIdentity := p_portIdentity p, sequenceId := sequenceId (header m),
         control := CTL_OTHER, logMessageInterval := 0x7f\<rparr>,
       m_timestamp := tmv_to_Timestamp origin, requestingPortIdentity := source_pid m\<rparr>"

definition pdelay_resp_send ::
  "env \<Rightarrow> port \<Rightarrow> ptp_message \<Rightarrow> ptp_message \<Rightarrow> ptp_message \<Rightarrow> port \<times> bool" where
  "pdelay_resp_send e p m rsp fup =
    (case peer_prepare_and_send e (if p_timestamping p = TS_P2P1STEP then TRANS_P2P1STEP else TRANS_EVENT)
            (pdelay_resp_message p m rsp) p of
       (False, rsp, p) \<Rightarrow> (p, True)
     | (True, rsp, p) \<Rightarrow>
         if p_timestamping p = TS_P2P1STEP then (p, False)
         else if msg_sots_missing rsp then (p, True)
         else case peer_prepare_and_send e TRANS_GENERAL (pdelay_resp_fup_message p m (hwts_ts rsp) fup) p of
             (ok, _, p) \<Rightarrow> (p, \<not> ok))"

definition process_pdelay_req :: "env \<Rightarrow> port \<Rightarrow> 'z clock_scheme \<Rightarrow> ptp_message \<Rightarrow> port \<times> bool" where
  "process_pdelay_req e p c m =
    (if p_delayMechanism p = DM_E2E then (p, False)
     else
       let p = (if p_delayMechanism p = DM_AUTO then port_set_delay_tmo e (p\<lparr>p_delayMechanism := DM_P2P\<rparr>) else p);
           p = track_peer (env_bo e) m p
       in case port_alloc e p of
            (p, None) \<Rightarrow> (p, True)
          | (p, Some rsp) \<Rightarrow>
              (case port_alloc e p of
                 (p, None) \<Rightarrow> (pput rsp p, True)
               | (p, Some fup) \<Rightarrow>
                   (case pdelay_resp_send e p m rsp fup of (p, err) \<Rightarrow> (pput fup (pput rsp p), err))))"

text \<open>The calculation of \<open>port_peer_delay\<close> from the label \<open>calc\<close> on.\<close>

definition peer_delay_calc :: "env \<Rightarrow> port \<Rightarrow> 'z clock_scheme \<Rightarrow> tmv_t \<Rightarrow> tmv_t \<Rightarrow> tmv_t \<Rightarrow> tmv_t \<Rightarrow> port \<times> 'z clock_scheme" where
  "peer_delay_calc e p c t1 t2 t3c t4 =
    (let fl = env_fl e;
         p = (if p_follow_up_info p then port_nrate_calculate fl t3c t4 p else p);
         tsp = tsproc_down_ts (tsproc_up_ts
           (tsproc_set_clock_rate_ratio (p_tsproc p) (fl (nr_ratio (p_nrate p) * clock_rate_ratio c))) t1 t2) t3c t4
     in case update_delay fl tsp of
          (tsp, None) \<Rightarrow> (p\<lparr>p_tsproc := tsp\<rparr>, c)
        | (tsp, Some d) \<Rightarrow>
            let p = p\<lparr>p_tsproc := tsp, p_peer_delay := d, p_peerMeanPathDelay := tmv_to_TimeInterval d\<rparr>;
                c = (if slave_states (p_state p) then clock_peer_delay fl c d t1 t2 (nr_ratio (p_nrate p)) else c)
            in ((pput_opt (p_peer_delay_req p) p)\<lparr>p_peer_delay_req := None\<rparr>, c))"

text \<open>
  \<open>port_peer_delay\<close> is called with a request outstanding only; without one the C code would
  dereference NULL.
\<close>

definition port_peer_delay :: "env \<Rightarrow> port \<Rightarrow> 'z clock_scheme \<Rightarrow> port \<times> 'z clock_scheme" where
  "port_peer_delay e p c =
    (let bo = env_bo e
     in case p_peer_delay_resp p of
          None \<Rightarrow> (p, c)
        | Some rsp \<Rightarrow>
            if \<not> pid_eq bo (requestingPortIdentity rsp) (p_portIdentity p) then (p, c)
            else case p_peer_delay_req p of
                None \<Rightarrow> (pfx [NullDereference] p, c)
              | Some req \<Rightarrow>
                  if \<not> answers bo rsp req then (p, c)
                  else
                    let t1 = hwts_ts req; t4 = hwts_ts rsp;
                        c1 = correction_to_tmv (correction (header rsp) + p_asymmetry p)
                    in if one_step (env_assume_two_step e) rsp
                       then peer_delay_calc e p c t1 tmv_zero (tmv_add tmv_zero (tmv_add c1 tmv_zero)) t4
                       else case p_peer_delay_fup p of
                           None \<Rightarrow> (p, c)
                         | Some fup \<Rightarrow>
                             if \<not> pid_eq bo (requestingPortIdentity fup) (p_portIdentity p) then (p, c)
                             else if sequenceId (header fup) \<noteq> sequenceId (header rsp) then (p, c)
                             else if \<not> pid_eq bo (source_pid fup) (source_pid rsp) then (p, c)
                             else peer_delay_calc e p c t1 (timestamp_to_tmv (ts_pdu rsp))
                               (tmv_add (timestamp_to_tmv (ts_pdu fup))
                                 (tmv_add c1 (correction_to_tmv (correction (header fup))))) t4)"

text \<open>A second peer: the number of requests in a row that were answered by two.\<close>

definition count_multiple_peers :: "byte_order \<Rightarrow> ptp_message \<Rightarrow> port \<Rightarrow> port" where
  "count_multiple_peers bo m p =
    (case p_peer_delay_resp p of
       None \<Rightarrow> p
     | Some rsp \<Rightarrow>
         if pid_eq bo (source_pid rsp) (source_pid m) then p
         else
           let p = (if p_multiple_pdr_detected p then p
                 else p\<lparr>p_multiple_pdr_detected := True, p_multiple_seq_pdr_count := p_multiple_seq_pdr_count p + 1\<rparr>)
           in if p_multiple_seq_pdr_count p \<ge> 3 then p\<lparr>p_last_fault_type := FT_BAD_PEER_NETWORK\<rparr> else p)"

definition peers_conflict :: "byte_order \<Rightarrow> ptp_message \<Rightarrow> port \<Rightarrow> bool" where
  "peers_conflict bo m p \<longleftrightarrow>
    (case p_peer_delay_resp p of
       None \<Rightarrow> False
     | Some rsp \<Rightarrow> \<not> pid_eq bo (source_pid rsp) (source_pid m) \<and>
         p_multiple_seq_pdr_count (count_multiple_peers bo m p) \<ge> 3)"

definition process_pdelay_resp :: "env \<Rightarrow> port \<Rightarrow> 'z clock_scheme \<Rightarrow> ptp_message \<Rightarrow> port \<times> 'z clock_scheme \<times> bool" where
  "process_pdelay_resp e p c m =
    (let bo = env_bo e; conflict = peers_conflict bo m p; p = count_multiple_peers bo m p
     in if conflict then (p, c, True)
        else if p_peer_delay_req p = None then (p, c, True)
        else
          let p = track_peer bo m p;
              p = (pget m (pput_opt (p_peer_delay_resp p) p))\<lparr>p_peer_delay_resp := Some m\<rparr>;
              (p, c) = port_peer_delay e p c
          in (p, c, False))"

definition process_pdelay_resp_fup :: "env \<Rightarrow> port \<Rightarrow> 'z clock_scheme \<Rightarrow> ptp_message \<Rightarrow> port \<times> 'z clock_scheme" where
  "process_pdelay_resp_fup e p c m =
    (if p_peer_delay_req p = None then (p, c)
     else port_peer_delay e ((pget m (pput_opt (p_peer_delay_fup p) p))\<lparr>p_peer_delay_fup := Some m\<rparr>) c)"

subsection \<open>Link status\<close>

abbreviation (input) LINK_DOWN :: u32 where "LINK_DOWN \<equiv> 1"
abbreviation (input) LINK_UP :: u32 where "LINK_UP \<equiv> 2"
abbreviation (input) LINK_STATE_CHANGED :: u32 where "LINK_STATE_CHANGED \<equiv> 8"
abbreviation (input) TS_LABEL_CHANGED :: u32 where "TS_LABEL_CHANGED \<equiv> 16"

definition update_link_status :: "env \<Rightarrow> bool \<Rightarrow> port \<Rightarrow> port" where
  "update_link_status e linkup p =
    (let link_state = (if linkup then LINK_UP else LINK_DOWN);
         p = p\<lparr>p_link_status := if p_link_status p AND link_state \<noteq> 0 then link_state
           else link_state OR LINK_STATE_CHANGED\<rparr>
     in case env_ts_label e of
          None \<Rightarrow> p
        | Some label \<Rightarrow>
            if p_ts_label p = label then p
            else p\<lparr>p_ts_label := label, p_link_status := p_link_status p OR TS_LABEL_CHANGED\<rparr>)"

text \<open>The hardware clock may have changed; the result is None when the switch failed.\<close>

definition update_phc :: "env \<Rightarrow> port \<Rightarrow> 'z clock_scheme \<Rightarrow> port \<times> 'z clock_scheme option" where
  "update_phc e p c =
    (if p_link_status p AND LINK_UP \<noteq> 0 \<and> p_link_status p AND (LINK_STATE_CHANGED OR TS_LABEL_CHANGED) \<noteq> 0 \<and>
        p_phc_index p \<ge> 0 \<and> env_ts_info e \<noteq> None
     then
       let (modes, phc) = the (env_ts_info e); required = env_required_modes e
       in if modes AND required \<noteq> required then (p\<lparr>p_link_status := LINK_DOWN OR LINK_STATE_CHANGED\<rparr>, Some c)
          else if p_phc_index p \<noteq> phc then
            (p\<lparr>p_phc_index := phc\<rparr>,
             map_option (\<lambda>c. clock_sync_interval (env_fl e) c (p_log_sync_interval p))
               (clock_switch_phc (env_fl e) (env_mem e) (env_shm e) (env_phc e) c))
          else (p, Some c)
     else (p, Some c))"

definition port_link_status :: "env \<Rightarrow> port \<Rightarrow> 'z clock_scheme \<Rightarrow> bool \<Rightarrow> port \<times> 'z clock_scheme" where
  "port_link_status e p c linkup =
    (case update_phc e (update_link_status e linkup p) c of
       (p, None) \<Rightarrow> port_dispatch e (p\<lparr>p_last_fault_type := FT_SWITCH_PHC\<rparr>) c EV_FAULT_DETECTED False
     | (p, Some c) \<Rightarrow> (p, if p_link_status p AND LINK_DOWN \<noteq> 0 then c\<lparr>c_sde := True\<rparr> else c))"

subsection \<open>Events\<close>

text \<open>
  What made a descriptor of the port readable: a timer, the notifications of the link (their number
  and contents, up or down), or a message.  \<open>FdMessage\<close> holds what \<open>transport_recv\<close> puts into the
  message and the number of octets, None for a failure.
\<close>

datatype fd_event = FdTimer timer | FdRtnl "bool list" | FdMessage "(ptp_message \<times> nat) option"

text \<open>
  The messages that pass all checks.  \<open>manage\<close> stands for \<open>clock_manage\<close>, which the clock provides.
\<close>

definition process_message ::
  "(env \<Rightarrow> port \<Rightarrow> 'z clock_scheme \<Rightarrow> ptp_message \<Rightarrow> port \<times> 'z clock_scheme \<times> bool) \<Rightarrow>
   env \<Rightarrow> port \<Rightarrow> 'z clock_scheme \<Rightarrow> ptp_message \<Rightarrow> port \<times> 'z clock_scheme \<times> fsm_event" where
  "process_message manage e p c m =
    (let type = msg_type m; fault = (\<lambda>err. if err then EV_FAULT_DETECTED else EV_NONE);
         decide = (\<lambda>diff. if diff then EV_STATE_DECISION_EVENT else EV_NONE)
     in if type = SYNC then (case process_sync e p c m of (p, c) \<Rightarrow> (p, c, EV_NONE))
        else if type = DELAY_REQ then (case process_delay_req e p c m of (p, err) \<Rightarrow> (p, c, fault err))
        else if type = PDELAY_REQ then (case process_pdelay_req e p c m of (p, err) \<Rightarrow> (p, c, fault err))
        else if type = PDELAY_RESP then (case process_pdelay_resp e p c m of (p, c, err) \<Rightarrow> (p, c, fault err))
        else if type = FOLLOW_UP then (case process_follow_up e p c m of (p, c) \<Rightarrow> (p, c, EV_NONE))
        else if type = DELAY_RESP then (case process_delay_resp e p c m of (p, c) \<Rightarrow> (p, c, EV_NONE))
        else if type = PDELAY_RESP_FOLLOW_UP
          then (case process_pdelay_resp_fup e p c m of (p, c) \<Rightarrow> (p, c, EV_NONE))
        else if type = ANNOUNCE then (case process_announce e p c m of (p, c, diff) \<Rightarrow> (p, c, decide diff))
        else if type = MANAGEMENT then (case manage e p c m of (p, c, diff) \<Rightarrow> (p, c, decide diff))
        else (p, c, EV_NONE))"

text \<open>The checks in front of it, for a message that was received and converted.\<close>

definition bc_accept ::
  "(env \<Rightarrow> port \<Rightarrow> 'z clock_scheme \<Rightarrow> ptp_message \<Rightarrow> port \<times> 'z clock_scheme \<times> bool) \<Rightarrow>
   env \<Rightarrow> port \<Rightarrow> 'z clock_scheme \<Rightarrow> ptp_message \<Rightarrow> port \<times> 'z clock_scheme \<times> fsm_event" where
  "bc_accept manage e p c m =
    (if msg_sots_missing m \<and> \<not> (p_timestamping p = TS_P2P1STEP \<and> msg_type m = PDELAY_REQ)
     then (p, c, EV_NONE)
     else
       let valid = msg_sots_valid m;
           m = (if valid then m\<lparr>hwts := (hwts m)\<lparr>hw_ts := ts_add (hwts_ts m) (- p_rx_timestamp_offset p)\<rparr>\<rparr> else m);
           c = (if valid then clock_check_ts (env_fl e) (env_now e) c (tmv_to_nanoseconds (hwts_ts m)) else c)
       in case port_ignore (env_bo e) c p m of
            (p, True) \<Rightarrow> (p, c, EV_NONE)
          | (p, False) \<Rightarrow> process_message manage e p c m)"

definition bc_receive ::
  "(env \<Rightarrow> port \<Rightarrow> 'z clock_scheme \<Rightarrow> ptp_message \<Rightarrow> port \<times> 'z clock_scheme \<times> bool) \<Rightarrow>
   env \<Rightarrow> port \<Rightarrow> 'z clock_scheme \<Rightarrow> (ptp_message \<times> nat) option \<Rightarrow> port \<times> 'z clock_scheme \<times> fsm_event" where
  "bc_receive manage e p c input =
    (case port_alloc e p of
       (p, None) \<Rightarrow> (p, c, EV_FAULT_DETECTED)
     | (p, Some msg) \<Rightarrow>
         (case input of
            None \<Rightarrow> (pput msg p, c, EV_FAULT_DETECTED)
          | Some (data, cnt) \<Rightarrow>
              let m = data\<lparr>m_ptr := m_ptr msg, hwts := (hwts data)\<lparr>hw_type := p_timestamping p\<rparr>,
                    tlv_list := [], tlv_count := 0\<rparr>
              in case msg_post_recv (env_bo e) (\<lambda>_. env_tlv e) (env_now e) m cnt of
                   Inl err \<Rightarrow> (pput m p, c, EV_NONE)
                 | Inr m' \<Rightarrow> (case bc_accept manage e p c m' of (p, c, ev) \<Rightarrow> (pput m p, c, ev))))"

definition announce_timeout :: "env \<Rightarrow> port \<Rightarrow> 'z clock_scheme \<Rightarrow> port \<times> 'z clock_scheme \<times> fsm_event" where
  "announce_timeout e p c =
    (let (fms, rs) = (case p_best p of None \<Rightarrow> (p_foreign_masters p, [])
           | Some best \<Rightarrow> clear_entry best (p_foreign_masters p));
         p = (prefs rs p)\<lparr>p_foreign_masters := fms\<rparr>;
         p = delay_req_prune (env_now e) (port_set_announce_tmo e p)
     in if clock_slave_only c \<and> p_delayMechanism p \<noteq> DM_P2P then
          (case port_renew_transport e p of
             (p, ok) \<Rightarrow> (p, c, if ok then EV_ANNOUNCE_RECEIPT_TIMEOUT_EXPIRES else EV_FAULT_DETECTED))
        else (p, c, EV_ANNOUNCE_RECEIPT_TIMEOUT_EXPIRES))"

definition link_event :: "port \<Rightarrow> fsm_event" where
  "link_event p =
    (if p_link_status p = LINK_UP OR LINK_STATE_CHANGED then EV_FAULT_CLEARED
     else if p_link_status p = LINK_DOWN OR LINK_STATE_CHANGED \<or> p_link_status p AND TS_LABEL_CHANGED \<noteq> 0
       then EV_FAULT_DETECTED
     else EV_NONE)"

definition bc_event ::
  "(env \<Rightarrow> port \<Rightarrow> 'z clock_scheme \<Rightarrow> ptp_message \<Rightarrow> port \<times> 'z clock_scheme \<times> bool) \<Rightarrow>
   env \<Rightarrow> port \<Rightarrow> 'z clock_scheme \<Rightarrow> fd_event \<Rightarrow> port \<times> 'z clock_scheme \<times> fsm_event" where
  "bc_event manage e p c ev =
    (let fault = (\<lambda>(p, err). (p, c, if err then EV_FAULT_DETECTED else EV_NONE))
     in case ev of
          FdTimer t \<Rightarrow>
            (case t of
               FD_ANNOUNCE_TIMER \<Rightarrow> announce_timeout e p c
             | FD_SYNC_RX_TIMER \<Rightarrow> announce_timeout e p c
             | FD_DELAY_TIMER \<Rightarrow>
                 fault (port_delay_request e (delay_req_prune (env_now e) (port_set_delay_tmo e p)) c)
             | FD_QUALIFICATION_TIMER \<Rightarrow> (p, c, EV_QUALIFICATION_TIMEOUT_EXPIRES)
             | FD_MANNO_TIMER \<Rightarrow> fault (port_tx_announce e (port_set_manno_tmo p) c)
             | FD_SYNC_TX_TIMER \<Rightarrow> fault (port_tx_sync e (port_set_sync_tx_tmo p) c None))
        | FdRtnl links \<Rightarrow>
            (case fold (\<lambda>up (p, c). port_link_status e p c up) links (p, c) of
               (p, c) \<Rightarrow> (p, c, link_event p))
        | FdMessage input \<Rightarrow> bc_receive manage e p c input)"

end
