(* ===== verification/Manage.thy ===== *)
theory Manage
  imports PortEvent
begin

text \<open>
  Management messages: the replies of the clock and its ports, the settings they accept, and the
  forwarding of requests between ports (src/clock.c, src/port.c).

  The clock with its ports is the record \<open>clock\<close> extended by \<open>c_ports\<close> and \<open>c_uds\<close>, the port of the
  local socket.  A port is referred to by its number.
\<close>

subsection \<open>Management ids and errors\<close>

abbreviation (input) TLV_NULL_MANAGEMENT :: u16 where "TLV_NULL_MANAGEMENT \<equiv> 0x0000"
abbreviation (input) TLV_FAULT_LOG :: u16 where "TLV_FAULT_LOG \<equiv> 0x0006"
abbreviation (input) TLV_PRIORITY1 :: u16 where "TLV_PRIORITY1 \<equiv> 0x2005"
abbreviation (input) TLV_PRIORITY2 :: u16 where "TLV_PRIORITY2 \<equiv> 0x2006"
abbreviation (input) TLV_DOMAIN :: u16 where "TLV_DOMAIN \<equiv> 0x2007"
abbreviation (input) TLV_SLAVE_ONLY :: u16 where "TLV_SLAVE_ONLY \<equiv> 0x2008"
abbreviation (input) TLV_LOG_ANNOUNCE_INTERVAL :: u16 where "TLV_LOG_ANNOUNCE_INTERVAL \<equiv> 0x2009"
abbreviation (input) TLV_ANNOUNCE_RECEIPT_TIMEOUT :: u16 where "TLV_ANNOUNCE_RECEIPT_TIMEOUT \<equiv> 0x200A"
abbreviation (input) TLV_LOG_SYNC_INTERVAL :: u16 where "TLV_LOG_SYNC_INTERVAL \<equiv> 0x200B"
abbreviation (input) TLV_VERSION_NUMBER :: u16 where "TLV_VERSION_NUMBER \<equiv> 0x200C"
abbreviation (input) TLV_CLOCK_ACCURACY :: u16 where "TLV_CLOCK_ACCURACY \<equiv> 0x2010"
abbreviation (input) TLV_TRACEABILITY_PROPERTIES :: u16 where "TLV_TRACEABILITY_PROPERTIES \<equiv> 0x2012"
abbreviation (input) TLV_TIMESCALE_PROPERTIES :: u16 where "TLV_TIMESCALE_PROPERTIES \<equiv> 0x2013"
abbreviation (input) TLV_DELAY_MECHANISM :: u16 where "TLV_DELAY_MECHANISM \<equiv> 0x6000"
abbreviation (input) TLV_LOG_MIN_PDELAY_REQ_INTERVAL :: u16 where "TLV_LOG_MIN_PDELAY_REQ_INTERVAL \<equiv> 0x6001"

abbreviation (input) TLV_NO_SUCH_ID :: u16 where "TLV_NO_SUCH_ID \<equiv> 0x0002"
abbreviation (input) TLV_WRONG_LENGTH :: u16 where "TLV_WRONG_LENGTH \<equiv> 0x0003"
abbreviation (input) TLV_WRONG_VALUE :: u16 where "TLV_WRONG_VALUE \<equiv> 0x0004"
abbreviation (input) TLV_NOT_SUPPORTED :: u16 where "TLV_NOT_SUPPORTED \<equiv> 0x0006"

abbreviation (input) GET :: u8 where "GET \<equiv> 0"
abbreviation (input) SET :: u8 where "SET \<equiv> 1"
abbreviation (input) RESPONSE :: u8 where "RESPONSE \<equiv> 2"
abbreviation (input) COMMAND :: u8 where "COMMAND \<equiv> 3"
abbreviation (input) ACKNOWLEDGE :: u8 where "ACKNOWLEDGE \<equiv> 4"

text \<open>Ids of clock settings that are known but not supported in the action concerned.\<close>

definition clock_ids :: "u16 list" where
  "clock_ids = [TLV_USER_DESCRIPTION, TLV_SAVE_IN_NON_VOLATILE_STORAGE, TLV_RESET_NON_VOLATILE_STORAGE,
     TLV_INITIALIZE, TLV_FAULT_LOG, TLV_FAULT_LOG_RESET, TLV_DEFAULT_DATA_SET, TLV_CURRENT_DATA_SET,
     TLV_PARENT_DATA_SET, TLV_TIME_PROPERTIES_DATA_SET, TLV_PRIORITY1, TLV_PRIORITY2, TLV_DOMAIN,
     TLV_SLAVE_ONLY, 0x200F, TLV_CLOCK_ACCURACY, 0x2011, TLV_TRACEABILITY_PROPERTIES,
     TLV_TIMESCALE_PROPERTIES, 0x2015, 0x2016, 0x2017, 0x201A, 0x201C, 0x201E, 0x201F, 0x2020, 0x2021,
     0x4000, 0x4002, TLV_TIME_STATUS_NP, TLV_GRANDMASTER_SETTINGS_NP, TLV_SUBSCRIBE_EVENTS_NP]"

definition port_ids :: "u16 list" where
  "port_ids = [TLV_NULL_MANAGEMENT, TLV_CLOCK_DESCRIPTION, TLV_PORT_DATA_SET, TLV_LOG_ANNOUNCE_INTERVAL,
     TLV_ANNOUNCE_RECEIPT_TIMEOUT, TLV_LOG_SYNC_INTERVAL, TLV_VERSION_NUMBER, TLV_ENABLE_PORT,
     TLV_DISABLE_PORT, 0x2014, 0x2018, 0x2019, 0x201B, 0x201D, 0x4001, TLV_DELAY_MECHANISM,
     TLV_LOG_MIN_PDELAY_REQ_INTERVAL]"

subsection \<open>Contents of the replies\<close>

fun clock_type_code :: "clock_type \<Rightarrow> u16" where
  "clock_type_code CLOCK_TYPE_ORDINARY = 0x8000"
| "clock_type_code CLOCK_TYPE_BOUNDARY = 0x4000"
| "clock_type_code CLOCK_TYPE_P2P = 0x2000"
| "clock_type_code CLOCK_TYPE_E2E = 0x1000"
| "clock_type_code CLOCK_TYPE_MANAGEMENT = 0x0800"

fun ts_code :: "timestamp_type \<Rightarrow> u8" where
  "ts_code TS_SOFTWARE = 0" | "ts_code TS_HARDWARE = 1" | "ts_code TS_LEGACY_HW = 2"
| "ts_code TS_ONESTEP = 3" | "ts_code TS_P2P1STEP = 4"

definition text_bytes :: "u8 list \<Rightarrow> u8 list" where
  "text_bytes t = of_nat (length t) # t"

definition static_text_bytes :: "static_ptp_text \<Rightarrow> u8 list" where
  "static_text_bytes t = text_bytes (spt_text t)"

definition IEEE_802_3_text :: "u8 list" where
  "IEEE_802_3_text = map of_char ''IEEE 802.3''"

definition profile_id :: "port \<Rightarrow> u8 list" where
  "profile_id p = [0x00, 0x1B, 0x19, 0x00, if p_delayMechanism p = DM_P2P then 0x02 else 0x01, 0x00]"

text \<open>The value of a clock description and the places of its fields in the suffix.\<close>

definition clock_description_data :: "byte_order \<Rightarrow> 'z clock_scheme \<Rightarrow> port \<Rightarrow> u8 list \<times> tlv_extra" where
  "clock_description_data bo c p =
    (let protocol = text_bytes (if p_trp_type p \<in> {1, 2, 3} then IEEE_802_3_text else []);
         desc = c_desc c; phys = 6 + 2 + length protocol;
         prot = phys + 2 + length (p_physical_addr p)
     in (u16_bytes bo (clock_type_code (c_type c)) @ protocol @
         u16_bytes bo (of_nat (length (p_physical_addr p))) @ p_physical_addr p @
         u16_bytes bo (p_trp_type p) @ u16_bytes bo (of_nat (length (p_protocol_addr p))) @ p_protocol_addr p @
         cdesc_manufacturer desc @ [0] @ static_text_bytes (cdesc_product desc) @
         static_text_bytes (cdesc_revision desc) @ static_text_bytes (cdesc_user desc) @ profile_id p,
         (new_extra 0)\<lparr>cd_clockType := 6, cd_physicalAddress := phys, cd_protocolAddress := prot\<rparr>))"

definition reported_state :: "port \<Rightarrow> u8" where
  "reported_state p = ps_code (if p_state p = PS_GRAND_MASTER then PS_MASTER else p_state p)"

definition reported_mechanism :: "port \<Rightarrow> u8" where
  "reported_mechanism p = (if p_delayMechanism p = DM_P2P then 2 else 1)"

definition portDS_bytes :: "byte_order \<Rightarrow> port \<Rightarrow> u8 list" where
  "portDS_bytes bo p =
     pid_bytes bo (p_portIdentity p) @ [reported_state p, p_logMinDelayReqInterval p] @
     u64_bytes bo (p_peerMeanPathDelay p) @
     [p_logAnnounceInterval p, p_announceReceiptTimeout p, p_logSyncInterval p, reported_mechanism p,
      p_logMinPdelayReqInterval p, p_versionNumber p]"

definition datum :: "u8 \<Rightarrow> u8 list" where
  "datum v = [v, 0]"

text \<open>None: the port does not respond to the id.\<close>

definition port_management_data ::
  "byte_order \<Rightarrow> 'z clock_scheme \<Rightarrow> port \<Rightarrow> u16 \<Rightarrow> (u8 list \<times> tlv_extra) option" where
  "port_management_data bo c p mid =
    (let plain = (\<lambda>bs. Some (bs, new_extra 0))
     in if mid = TLV_NULL_MANAGEMENT then plain []
        else if mid = TLV_CLOCK_DESCRIPTION then Some (clock_description_data bo c p)
        else if mid = TLV_PORT_DATA_SET then plain (portDS_bytes bo p)
        else if mid = TLV_LOG_ANNOUNCE_INTERVAL then plain (datum (p_logAnnounceInterval p))
        else if mid = TLV_ANNOUNCE_RECEIPT_TIMEOUT then plain (datum (p_announceReceiptTimeout p))
        else if mid = TLV_LOG_SYNC_INTERVAL then plain (datum (p_logSyncInterval p))
        else if mid = TLV_VERSION_NUMBER then plain (datum (p_versionNumber p))
        else if mid = TLV_DELAY_MECHANISM then plain (datum (reported_mechanism p))
        else if mid = TLV_LOG_MIN_PDELAY_REQ_INTERVAL then plain (datum (p_logMinPdelayReqInterval p))
        else if mid = TLV_PORT_DATA_SET_NP then
          plain (u32_bytes bo (p_neighborPropDelayThresh p) @ u32_bytes bo (if p_asCapable p then 1 else 0))
        else if mid = TLV_PORT_PROPERTIES_NP then
          plain (pid_bytes bo (p_portIdentity p) @ [reported_state p, ts_code (p_timestamping p)] @
            text_bytes (case_option [] (\<lambda>t. t) (ptp_text_set (Some (map of_char (p_ts_label p))))))
        else None)"

definition defaultDS_bytes :: "byte_order \<Rightarrow> defaultDS \<Rightarrow> u8 list" where
  "defaultDS_bytes bo d = [dds_flags d, 0] @ u16_bytes bo (dds_numberPorts d) @ [dds_priority1 d] @
     quality_bytes bo (dds_clockQuality d) @ [dds_priority2 d] @ cid_bytes (dds_clockIdentity d) @
     [dds_domainNumber d, 0]"

abbreviation (input) POW2_41 :: dbl where "POW2_41 \<equiv> 2199023255552"

definition time_status_bytes :: "env \<Rightarrow> 'z clock_scheme \<Rightarrow> u8 list" where
  "time_status_bytes e c =
    (let bo = env_bo e; fl = env_fl e; st = c_status c; ph = tsn_lastGmPhaseChange st;
         rate = fl (fl (of_int (sint (tsn_cumulativeScaledRateOffset st)) + fl (c_nrr c * POW2_41)) - POW2_41)
     in u64_bytes bo (tmv_to_nanoseconds (c_master_offset c)) @ u64_bytes bo (tmv_to_nanoseconds (c_ingress_ts c)) @
        u32_bytes bo (word_of_int (dbl_to_int rate)) @ u32_bytes bo (tsn_scaledLastGmPhaseChange st) @
        u16_bytes bo (tsn_gmTimeBaseIndicator st) @
        u16_bytes bo (sns_nanoseconds_msb ph) @ u64_bytes bo (sns_nanoseconds_lsb ph) @
        u16_bytes bo (sns_fractional_nanoseconds ph) @
        u32_bytes bo (if cid_eq (pds_grandmasterIdentity (dad_pds (c_dad c))) (clock_identity c) then 0 else 1) @
        cid_bytes (pds_grandmasterIdentity (dad_pds (c_dad c))))"

text \<open>
  The value and the length that is sent of it.  For the subscriptions the length stays 0: the bit
  mask is written behind the TLV.
\<close>

definition clock_management_data ::
  "env \<Rightarrow> 'z clock_scheme \<Rightarrow> bool \<Rightarrow> ptp_message \<Rightarrow> u16 \<Rightarrow> (u8 list \<times> nat) option" where
  "clock_management_data e c on_uds req mid =
    (let bo = env_bo e; plain = (\<lambda>bs. Some (bs, length bs))
     in if mid = TLV_USER_DESCRIPTION then plain (static_text_bytes (cdesc_user (c_desc c)))
        else if mid = TLV_DEFAULT_DATA_SET then plain (defaultDS_bytes bo (c_dds c))
        else if mid = TLV_CURRENT_DATA_SET then plain (currentDS_bytes bo (c_cur c))
        else if mid = TLV_PARENT_DATA_SET then plain (parentDS_bytes bo (dad_pds (c_dad c)))
        else if mid = TLV_TIME_PROPERTIES_DATA_SET then plain (timePropertiesDS_bytes bo (c_tds c))
        else if mid = TLV_PRIORITY1 then plain (datum (dds_priority1 (c_dds c)))
        else if mid = TLV_PRIORITY2 then plain (datum (dds_priority2 (c_dds c)))
        else if mid = TLV_DOMAIN then plain (datum (dds_domainNumber (c_dds c)))
        else if mid = TLV_SLAVE_ONLY then plain (datum (dds_flags (c_dds c) AND DDS_SLAVE_ONLY))
        else if mid = TLV_CLOCK_ACCURACY then plain (datum (clockAccuracy (dds_clockQuality (c_dds c))))
        else if mid = TLV_TRACEABILITY_PROPERTIES then
          plain (datum (tds_flags (c_tds c) AND (TIME_TRACEABLE OR FREQ_TRACEABLE)))
        else if mid = TLV_TIMESCALE_PROPERTIES then plain (datum (tds_flags (c_tds c) AND PTP_TIMESCALE))
        else if mid = TLV_TIME_STATUS_NP then plain (time_status_bytes e c)
        else if mid = TLV_GRANDMASTER_SETTINGS_NP then
          plain (quality_bytes bo (dds_clockQuality (c_dds c)) @ u16_bytes bo (word_of_int (c_utc_offset c)) @
            [c_time_flags c, c_time_source c])
        else if mid = TLV_SUBSCRIBE_EVENTS_NP then
          (if \<not> on_uds then Some ([], 0)
           else case clock_get_subscription bo (env_now e) req (c_subscribers c) of
               (bitmask, duration) \<Rightarrow> Some (u16_bytes bo duration @ bitmask, 0))
        else None)"

subsection \<open>Constructing and sending replies\<close>

definition port_management_construct ::
  "env \<Rightarrow> PortIdentity \<Rightarrow> port \<Rightarrow> 'z clock_scheme \<Rightarrow> u16 \<Rightarrow> PortIdentity option \<Rightarrow> u8 \<Rightarrow> u8 \<Rightarrow>
   port \<times> ptp_message option" where
  "port_management_construct e pid ingress c seqid target hops action =
    (case port_alloc e ingress of
       (ingress, None) \<Rightarrow> (ingress, None)
     | (ingress, Some m) \<Rightarrow> (ingress, Some (m\<lparr>hwts := (hwts m)\<lparr>hw_type := p_timestamping ingress\<rparr>,
         header := (header m)\<lparr>tsmt := MANAGEMENT OR p_transportSpecific ingress, ver := PTP_VERSION,
           messageLength := 48, domainNumber := clock_domain_number c, sourcePortIdentity := pid,
           sequenceId := seqid, control := CTL_MANAGEMENT, logMessageInterval := 0x7f\<rparr>,
         targetPortIdentity := (case target of None \<Rightarrow> targetPortIdentity m | Some t \<Rightarrow> t),
         startingBoundaryHops := hops, boundaryHops := hops,
         mgmt_flags := (if action \<in> {GET, SET} then RESPONSE else if action = COMMAND then ACKNOWLEDGE
           else mgmt_flags m)\<rparr>)))"

definition port_management_reply ::
  "env \<Rightarrow> PortIdentity \<Rightarrow> port \<Rightarrow> 'z clock_scheme \<Rightarrow> ptp_message \<Rightarrow> port \<times> ptp_message option" where
  "port_management_reply e pid ingress c req =
     port_management_construct e pid ingress c (sequenceId (header req)) (Some (source_pid req))
       (startingBoundaryHops req - boundaryHops req) (management_action req)"

definition port_management_notify :: "env \<Rightarrow> port \<Rightarrow> 'z clock_scheme \<Rightarrow> port \<times> ptp_message option" where
  "port_management_notify e p c = port_management_construct e (p_portIdentity p) p c 0 None 1 GET"

text \<open>The TLV at the start of the suffix, with a padding octet if \<open>n\<close> is odd.\<close>

definition fill_response :: "env \<Rightarrow> u16 \<Rightarrow> u8 list \<Rightarrow> nat \<Rightarrow> tlv_extra \<Rightarrow> ptp_message \<Rightarrow> ptp_message" where
  "fill_response e mid bs n ex rsp =
    (let bo = env_bo e; pad = n mod 2;
         m = set_suffix 0 (u16_bytes bo TLV_MANAGEMENT @ u16_bytes bo (of_nat (2 + n + pad)) @ u16_bytes bo mid @
               bs @ replicate pad 0) rsp
     in msg_tlv_attach (m\<lparr>header := (header m)
          \<lparr>messageLength := messageLength (header m) + of_nat (6 + n + pad)\<rparr>\<rparr>) ex)"

definition port_management_fill_response ::
  "env \<Rightarrow> 'z clock_scheme \<Rightarrow> port \<Rightarrow> ptp_message \<Rightarrow> u16 \<Rightarrow> ptp_message option" where
  "port_management_fill_response e c p rsp mid =
    (if \<not> env_tlv e then None
     else map_option (\<lambda>(bs, ex). fill_response e mid bs (length bs) ex rsp)
       (port_management_data (env_bo e) c p mid))"

definition clock_management_fill_response ::
  "env \<Rightarrow> 'z clock_scheme \<Rightarrow> bool \<Rightarrow> ptp_message \<Rightarrow> ptp_message \<Rightarrow> u16 \<Rightarrow> ptp_message option" where
  "clock_management_fill_response e c on_uds req rsp mid =
    (if \<not> env_tlv e then None
     else map_option (\<lambda>(bs, n). fill_response e mid bs n (new_extra 0) rsp)
       (clock_management_data e c on_uds req mid))"

text \<open>What both \<open>..._management_get_response\<close> have in common; True when the reply was possible.\<close>

definition management_respond ::
  "env \<Rightarrow> PortIdentity \<Rightarrow> port \<Rightarrow> 'z clock_scheme \<Rightarrow> ptp_message \<Rightarrow>
   (ptp_message \<Rightarrow> ptp_message option) \<Rightarrow> port \<times> bool" where
  "management_respond e pid ingress c req fill =
    (case port_management_reply e pid ingress c req of
       (ingress, None) \<Rightarrow> (ingress, False)
     | (ingress, Some rsp) \<Rightarrow>
         (case fill rsp of
            None \<Rightarrow> (pput rsp ingress, False)
          | Some rsp \<Rightarrow>
              (case port_prepare_and_send e TRANS_GENERAL rsp ingress of
                 (_, rsp, ingress) \<Rightarrow> (pput rsp ingress, True))))"

definition port_management_get_response ::
  "env \<Rightarrow> port \<Rightarrow> port \<Rightarrow> 'z clock_scheme \<Rightarrow> u16 \<Rightarrow> ptp_message \<Rightarrow> port \<times> bool" where
  "port_management_get_response e target ingress c mid req =
     management_respond e (p_portIdentity target) ingress c req
       (\<lambda>rsp. port_management_fill_response e c target rsp mid)"

definition clock_management_get_response ::
  "env \<Rightarrow> bool \<Rightarrow> port \<Rightarrow> 'z clock_scheme \<Rightarrow> u16 \<Rightarrow> ptp_message \<Rightarrow> port \<times> bool" where
  "clock_management_get_response e on_uds p c mid req =
     management_respond e (p_portIdentity p) p c req
       (\<lambda>rsp. clock_management_fill_response e c on_uds req rsp mid)"

text \<open>The result is True for an error.\<close>

definition port_management_error ::
  "env \<Rightarrow> PortIdentity \<Rightarrow> port \<Rightarrow> 'z clock_scheme \<Rightarrow> ptp_message \<Rightarrow> u16 \<Rightarrow> port \<times> bool" where
  "port_management_error e pid ingress c req error_id =
    (let bo = env_bo e; mid = rd16 bo (m_suffix req) 4
     in case port_management_reply e pid ingress c req of
          (ingress, None) \<Rightarrow> (ingress, True)
        | (ingress, Some msg) \<Rightarrow>
            (case msg_tlv_append bo (env_tlv e) msg 12 of
               None \<Rightarrow> (pput msg ingress, True)
             | Some (msg, ex) \<Rightarrow>
                 let msg = set_suffix (tlv_at ex) (u16_bytes bo TLV_MANAGEMENT_ERROR_STATUS @ u16_bytes bo 8 @
                       u16_bytes bo error_id @ u16_bytes bo mid) msg
                 in (case port_prepare_and_send e TRANS_GENERAL msg ingress of
                       (ok, msg, ingress) \<Rightarrow> (pput msg ingress, \<not> ok))))"

subsection \<open>The clock and its ports\<close>

record system = clock +
  c_ports :: "port list"
  c_uds :: port
  c_dscmp :: "dataset option \<Rightarrow> dataset option \<Rightarrow> int"

definition is_uds :: "u16 \<Rightarrow> 'z system_scheme \<Rightarrow> bool" where
  "is_uds n c \<longleftrightarrow> find (\<lambda>p. portnum p = n) (c_ports c) = None"

definition the_port :: "u16 \<Rightarrow> 'z system_scheme \<Rightarrow> port" where
  "the_port n c = (case find (\<lambda>p. portnum p = n) (c_ports c) of None \<Rightarrow> c_uds c | Some p \<Rightarrow> p)"

definition put_port :: "u16 \<Rightarrow> port \<Rightarrow> 'z system_scheme \<Rightarrow> 'z system_scheme" where
  "put_port n p c = (if is_uds n c then c\<lparr>c_uds := p\<rparr>
     else c\<lparr>c_ports := map (\<lambda>q. if portnum q = n then p else q) (c_ports c)\<rparr>)"

text \<open>An operation on a port of the clock.\<close>

definition at_port :: "u16 \<Rightarrow> (port \<Rightarrow> 'z system_scheme \<Rightarrow> port \<times> 'b) \<Rightarrow> 'z system_scheme \<Rightarrow> 'z system_scheme \<times> 'b" where
  "at_port n f c = (case f (the_port n c) c of (p, r) \<Rightarrow> (put_port n p c, r))"

text \<open>The same for an operation that changes the rest of the clock, too.\<close>

definition on_port ::
  "u16 \<Rightarrow> (port \<Rightarrow> 'z system_scheme \<Rightarrow> port \<times> 'z system_scheme \<times> 'b) \<Rightarrow> 'z system_scheme \<Rightarrow> 'z system_scheme \<times> 'b" where
  "on_port n f c = (case f (the_port n c) c of (p, c, r) \<Rightarrow> (put_port n p c, r))"

definition send_error :: "env \<Rightarrow> u16 \<Rightarrow> u16 \<Rightarrow> ptp_message \<Rightarrow> u16 \<Rightarrow> 'z system_scheme \<Rightarrow> 'z system_scheme" where
  "send_error e target i msg err c =
     fst (at_port i (\<lambda>p c. port_management_error e (p_portIdentity (the_port target c)) p c msg err) c)"

subsection \<open>Requests to a port\<close>

definition port_management_set :: "env \<Rightarrow> u16 \<Rightarrow> u16 \<Rightarrow> u16 \<Rightarrow> ptp_message \<Rightarrow> 'z system_scheme \<Rightarrow> 'z system_scheme \<times> bool" where
  "port_management_set e n i mid req c =
    (if mid = TLV_PORT_DATA_SET_NP then
       let p = (the_port n c)\<lparr>p_neighborPropDelayThresh := rd32 (env_bo e) (m_suffix req) 6\<rparr>; c = put_port n p c
       in (fst (at_port i (\<lambda>ingress c. port_management_get_response e (the_port n c) ingress c mid req) c), True)
     else (c, False))"

text \<open>\<open>port_manage\<close> for port \<open>n\<close> and a request that port \<open>i\<close> received; the result is its return value.\<close>

definition port_manage :: "env \<Rightarrow> u16 \<Rightarrow> u16 \<Rightarrow> ptp_message \<Rightarrow> 'z system_scheme \<Rightarrow> 'z system_scheme \<times> int" where
  "port_manage e n i msg c =
    (let target = portNumber (targetPortIdentity msg); mid = rd16 (env_bo e) (m_suffix msg) 4;
         action = management_action msg;
         unsupported = (\<lambda>c. if mid \<in> set port_ids then (send_error e n i msg TLV_NOT_SUPPORTED c, 1)
           else (send_error e n i msg TLV_NO_SUCH_ID c, -1))
     in if target \<noteq> portnum (the_port n c) \<and> target \<noteq> 0xffff then (c, 0)
        else if action = GET then
          (case at_port i (\<lambda>ingress c. port_management_get_response e (the_port n c) ingress c mid msg) c of
             (c, True) \<Rightarrow> (c, 1) | (c, False) \<Rightarrow> unsupported c)
        else if action = SET then
          (case port_management_set e n i mid msg c of (c, True) \<Rightarrow> (c, 1) | (c, False) \<Rightarrow> unsupported c)
        else if action = COMMAND then unsupported c
        else (c, -1))"

text \<open>The loop over the ports; None when one of them returned a negative result.\<close>

fun ports_manage :: "env \<Rightarrow> u16 \<Rightarrow> ptp_message \<Rightarrow> u16 list \<Rightarrow> nat \<Rightarrow> 'z system_scheme \<Rightarrow> 'z system_scheme \<times> nat option" where
  "ports_manage e i msg [] k c = (c, Some k)"
| "ports_manage e i msg (n # rest) k c =
    (case port_manage e n i msg c of
       (c, res) \<Rightarrow> if res < 0 then (c, None)
         else ports_manage e i msg rest (if res > 0 then k + 1 else k) c)"

subsection \<open>Settings of the clock\<close>

definition clock_management_set ::
  "env \<Rightarrow> u16 \<Rightarrow> u16 \<Rightarrow> ptp_message \<Rightarrow> 'z system_scheme \<Rightarrow> 'z system_scheme \<times> bool \<times> bool" where
  "clock_management_set e i mid req c =
    (let bo = env_bo e; mem = m_suffix req; dds = c_dds c;
         respond = (\<lambda>c. fst (at_port i (\<lambda>p c. clock_management_get_response e (is_uds i c) p c mid req) c))
     in if mid = TLV_PRIORITY1 then (respond (c\<lparr>c_dds := dds\<lparr>dds_priority1 := octet mem 6\<rparr>\<rparr>), True, True)
        else if mid = TLV_PRIORITY2 then (respond (c\<lparr>c_dds := dds\<lparr>dds_priority2 := octet mem 6\<rparr>\<rparr>), True, True)
        else if mid = TLV_GRANDMASTER_SETTINGS_NP then
          (respond (c\<lparr>c_dds := dds\<lparr>dds_clockQuality := \<lparr>clockClass = octet mem 6, clockAccuracy = octet mem 7,
               offsetScaledLogVariance = rd16 bo mem 8\<rparr>\<rparr>,
             c_utc_offset := sint (rd16 bo mem 10), c_time_flags := octet mem 12, c_time_source := octet mem 13\<rparr>),
           True, True)
        else if mid = TLV_SUBSCRIBE_EVENTS_NP then
          (respond (c\<lparr>c_subscribers := clock_update_subscription bo (env_mem e) (env_now e) req
             (octets mem 8 64) (rd16 bo mem 6) (c_subscribers c)\<rparr>), True, False)
        else (c, False, False))"

subsection \<open>Forwarding\<close>

definition forwarding :: "u16 \<Rightarrow> 'z system_scheme \<Rightarrow> bool" where
  "forwarding n c \<longleftrightarrow>
    (let ps = p_state (the_port n c)
     in ps \<in> {PS_MASTER, PS_GRAND_MASTER, PS_SLAVE, PS_UNCALIBRATED, PS_PRE_MASTER} \<or>
        is_uds n c \<and> ps \<noteq> PS_FAULTY)"

definition port_forward :: "env \<Rightarrow> ptp_message \<Rightarrow> port \<Rightarrow> port \<times> bool" where
  "port_forward e msg p =
     ((pfx [Transmit TRANS_GENERAL msg] p)\<lparr>p_nsend := p_nsend p + 1\<rparr>, env_send e (portnum p) (p_nsend p) = None)"

text \<open>
  \<open>msg\<close> is in host byte order until it is forwarded for the first time.  A message of unknown type
  cannot be converted; those are rejected when they are received.
\<close>

definition clock_do_forward_mgmt ::
  "env \<Rightarrow> u16 \<Rightarrow> u16 \<Rightarrow> 'z system_scheme \<times> ptp_message \<times> bool \<Rightarrow> 'z system_scheme \<times> ptp_message \<times> bool" where
  "clock_do_forward_mgmt e i n st =
    (case st of (c, msg, pre_sent) \<Rightarrow>
       if i = n \<or> \<not> forwarding n c then (c, msg, pre_sent)
       else if is_uds n c \<and> management_action msg \<in> {GET, SET, COMMAND} then (c, msg, pre_sent)
       else
         let msg = (if pre_sent then msg else case_option msg (\<lambda>m. m) (msg_pre_send (env_bo e) (env_now e) msg))
         in (fst (at_port n (\<lambda>p _. port_forward e msg p) c), msg, True))"

text \<open>
  The message after it was forwarded: it is converted again, with the length that its header
  gives, and its TLVs are attached a second time.  The result of that conversion is ignored: when
  it fails, \<open>clock_manage\<close> goes on with the message as \<open>msg_post_recv\<close> left it.
\<close>

definition clock_forward_mgmt_msg ::
  "env \<Rightarrow> u16 \<Rightarrow> ptp_message \<Rightarrow> 'z system_scheme \<Rightarrow> 'z system_scheme \<times> ptp_message" where
  "clock_forward_mgmt_msg e i msg c =
    (if forwarding i c \<and> boundaryHops msg \<noteq> 0 then
       let pdulen = unat (messageLength (header msg)); msg = msg\<lparr>boundaryHops := boundaryHops msg - 1\<rparr>;
           uds = portnum (c_uds c)
       in case fold (clock_do_forward_mgmt e i) (map portnum (c_ports c) @ [uds]) (c, msg, False) of
            (c, msg, False) \<Rightarrow> (c, msg)
          | (c, msg, True) \<Rightarrow>
              (c, let msg = msg_left (env_bo e) (\<lambda>_. env_tlv e) (env_now e) msg pdulen
                  in msg\<lparr>boundaryHops := boundaryHops msg + 1\<rparr>)
     else (c, msg))"

subsection \<open>Management messages\<close>

definition wildcard :: ClockIdentity where
  "wildcard = CID 0xff 0xff 0xff 0xff 0xff 0xff 0xff 0xff"

text \<open>From the last two switches of \<open>clock_manage\<close> on.\<close>

definition manage_rest :: "env \<Rightarrow> u16 \<Rightarrow> ptp_message \<Rightarrow> bool \<Rightarrow> 'z system_scheme \<Rightarrow> 'z system_scheme \<times> bool" where
  "manage_rest e i msg changed c =
    (let mid = rd16 (env_bo e) (m_suffix msg) 4
     in if mid = TLV_PORT_PROPERTIES_NP \<and> \<not> is_uds i c then (send_error e i i msg TLV_NOT_SUPPORTED c, False)
        else if mid \<in> set clock_ids then (send_error e i i msg TLV_NOT_SUPPORTED c, changed)
        else (case ports_manage e i msg (map portnum (c_ports c)) 0 c of
            (c, None) \<Rightarrow> (c, changed)
          | (c, Some k) \<Rightarrow> (if k = 0 then send_error e i i msg TLV_WRONG_VALUE c else c, changed)))"

definition manage_local :: "env \<Rightarrow> u16 \<Rightarrow> ptp_message \<Rightarrow> 'z system_scheme \<Rightarrow> 'z system_scheme \<times> bool" where
  "manage_local e i msg c =
    (let bo = env_bo e; mid = rd16 bo (m_suffix msg) 4; len = rd16 bo (m_suffix msg) 2;
         tcid = clockIdentity (targetPortIdentity msg); action = management_action msg
     in if \<not> cid_eq tcid wildcard \<and> \<not> cid_eq tcid (clock_identity c) then (c, False)
        else if tlv_count msg \<noteq> 1 then (c, False)
        else if action = GET then
          (case at_port i (\<lambda>p c. clock_management_get_response e (is_uds i c) p c mid msg) c of
             (c, True) \<Rightarrow> (c, False) | (c, False) \<Rightarrow> manage_rest e i msg False c)
        else if action = SET then
          (if len = 2 \<and> mid \<noteq> TLV_NULL_MANAGEMENT then (send_error e i i msg TLV_WRONG_LENGTH c, False)
           else if \<not> is_uds i c then (send_error e i i msg TLV_NOT_SUPPORTED c, False)
           else case clock_management_set e i mid msg c of
               (c, True, changed) \<Rightarrow> (c, changed) | (c, False, changed) \<Rightarrow> manage_rest e i msg changed c)
        else if action = COMMAND then manage_rest e i msg False c
        else (c, False))"

text \<open>\<open>i\<close> is the number of the port that received the message.\<close>

definition clock_manage :: "env \<Rightarrow> u16 \<Rightarrow> ptp_message \<Rightarrow> 'z system_scheme \<Rightarrow> 'z system_scheme \<times> bool" where
  "clock_manage e i msg c =
    (case clock_forward_mgmt_msg e i msg c of (c, msg) \<Rightarrow> manage_local e i msg c)"

text \<open>The same for \<open>bc_event\<close>, which holds the port \<open>p\<close> that received the message.\<close>

definition manage_from :: "env \<Rightarrow> port \<Rightarrow> 'z system_scheme \<Rightarrow> ptp_message \<Rightarrow> port \<times> 'z system_scheme \<times> bool" where
  "manage_from e p c m =
    (let i = portnum p
     in case clock_manage e i m (put_port i p c) of (c, changed) \<Rightarrow> (the_port i c, c, changed))"

subsection \<open>Notifications\<close>

text \<open>
  The message that \<open>port_notify_event\<close> sends to the subscribers when the state of a port changes
  (\<open>NotifyPortState\<close> in \<open>p_fx\<close>).
\<close>

definition port_notify_event :: "env \<Rightarrow> port \<Rightarrow> 'z clock_scheme \<Rightarrow> port \<times> 'z clock_scheme \<times> ptp_message list" where
  "port_notify_event e p c =
    (case port_management_notify e p c of
       (p, None) \<Rightarrow> (p, c, [])
     | (p, Some m) \<Rightarrow>
         (case port_management_fill_response e c p m TLV_PORT_DATA_SET of
            None \<Rightarrow> (pput m p, c, [])
          | Some m \<Rightarrow>
              (case msg_pre_send (env_bo e) (env_now e) m of
                 None \<Rightarrow> (pput m p, c, [])
               | Some m \<Rightarrow>
                   (case clock_send_notification (env_bo e) m 0 (c_subscribers c) of
                      (subs, out) \<Rightarrow> (pput m p, c\<lparr>c_subscribers := subs\<rparr>, out)))))"

end
