(* ===== verification/Tc.thy ===== *)
theory Tc
  imports Manage
begin

text \<open>
  Transparent clocks: forwarding of messages between the ports with the time they spent in the
  clock (src/tc.c), and the events of the ports of end-to-end and peer-to-peer transparent clocks
  (src/e2e_tc.c, src/p2p_tc.c).  Forwarded messages stay in network byte order.

  \<open>i\<close> is the number of the port that received a message (\<open>q\<close> in the C code), \<open>n\<close> that of the port it is
  sent out on (\<open>p\<close>).
\<close>

datatype tc_match = TC_MISMATCH | TC_SYNC_FUP | TC_FUP_SYNC | TC_DELAY_REQRESP

subsection \<open>Which ports forward\<close>

definition tc_ingress_blocked :: "port_state \<Rightarrow> ptp_message \<Rightarrow> bool" where
  "tc_ingress_blocked s m \<longleftrightarrow>
    s \<in> {PS_INITIALIZING, PS_FAULTY, PS_DISABLED, PS_LISTENING, PS_PRE_MASTER, PS_PASSIVE} \<or>
    s \<in> {PS_MASTER, PS_GRAND_MASTER} \<and> msg_type m \<noteq> DELAY_REQ"

definition tc_egress_blocked :: "port_state \<Rightarrow> ptp_message \<Rightarrow> bool" where
  "tc_egress_blocked s m \<longleftrightarrow>
    s \<in> {PS_INITIALIZING, PS_FAULTY, PS_DISABLED, PS_LISTENING, PS_PRE_MASTER, PS_PASSIVE} \<or>
    s \<in> {PS_UNCALIBRATED, PS_SLAVE} \<and> msg_type m \<noteq> DELAY_REQ \<or>
    s \<in> {PS_MASTER, PS_GRAND_MASTER} \<and> msg_type m = DELAY_REQ"

definition tc_blocked :: "u16 \<Rightarrow> u16 \<Rightarrow> ptp_message \<Rightarrow> 'z system_scheme \<Rightarrow> bool" where
  "tc_blocked i n m c \<longleftrightarrow>
    (let q = the_port i c; p = the_port n c
     in if i = n then True
        else if portnum p = 0 then True
        else if \<not> p_tc_spanning_tree q then False
        else if domainNumber (header m) \<noteq> clock_domain_number c then False
        else tc_ingress_blocked (p_state q) m \<or> tc_egress_blocked (p_state p) m)"

subsection \<open>Matching\<close>

definition tc_match_delay :: "byte_order \<Rightarrow> int \<Rightarrow> ptp_message \<Rightarrow> tc_txd \<Rightarrow> tc_match" where
  "tc_match_delay bo ingress_port resp txd =
    (let req = txd_msg txd
     in if ingress_port \<noteq> txd_ingress_port txd then TC_MISMATCH
        else if sequenceId (header req) \<noteq> sequenceId (header resp) then TC_MISMATCH
        else if \<not> pid_eq bo (source_pid req) (requestingPortIdentity resp) then TC_MISMATCH
        else if msg_type req = DELAY_REQ \<and> msg_type resp = DELAY_RESP then TC_DELAY_REQRESP
        else TC_MISMATCH)"

definition tc_match_syfup :: "byte_order \<Rightarrow> int \<Rightarrow> ptp_message \<Rightarrow> tc_txd \<Rightarrow> tc_match" where
  "tc_match_syfup bo ingress_port msg txd =
    (let old = txd_msg txd
     in if ingress_port \<noteq> txd_ingress_port txd then TC_MISMATCH
        else if sequenceId (header msg) \<noteq> sequenceId (header old) then TC_MISMATCH
        else if \<not> pid_eq bo (source_pid msg) (source_pid old) then TC_MISMATCH
        else if msg_type old = SYNC \<and> msg_type msg = FOLLOW_UP then TC_SYNC_FUP
        else if msg_type old = FOLLOW_UP \<and> msg_type msg = SYNC then TC_FUP_SYNC
        else TC_MISMATCH)"

subsection \<open>Completing a forwarded event\<close>

definition tc_fault :: "env \<Rightarrow> u16 \<Rightarrow> 'z system_scheme \<Rightarrow> 'z system_scheme" where
  "tc_fault e n c = fst (on_port n (\<lambda>p c. case port_dispatch e p c EV_FAULT_DETECTED False of (p, c) \<Rightarrow> (p, c, ())) c)"

text \<open>\<open>transport_send\<close> on port \<open>n\<close>, with a fault when it fails.\<close>

definition tc_send :: "env \<Rightarrow> transport_event \<Rightarrow> u16 \<Rightarrow> ptp_message \<Rightarrow> 'z system_scheme \<Rightarrow> 'z system_scheme" where
  "tc_send e ev n msg c =
    (case at_port n (\<lambda>p _. ((pfx [Transmit ev msg] p)\<lparr>p_nsend := p_nsend p + 1\<rparr>,
            env_send e (portnum p) (p_nsend p) = None)) c of
       (c, True) \<Rightarrow> tc_fault e n c
     | (c, False) \<Rightarrow> c)"

definition add_correction :: "byte_order \<Rightarrow> i64 \<Rightarrow> ptp_message \<Rightarrow> ptp_message" where
  "add_correction bo d m = m\<lparr>header := (header m)
     \<lparr>correction := cpu_to_be64 bo (cpu_to_be64 bo (correction (header m)) + d)\<rparr>\<rparr>"

definition tc_append :: "tc_txd \<Rightarrow> port \<Rightarrow> port" where
  "tc_append txd p = (pget (txd_msg txd) p)\<lparr>p_tc_transmitted := p_tc_transmitted p @ [txd]\<rparr>"

definition tc_remove :: "(tc_txd \<Rightarrow> bool) \<Rightarrow> tc_txd \<Rightarrow> port \<Rightarrow> port" where
  "tc_remove P txd p = (pput (txd_msg txd) p)\<lparr>p_tc_transmitted := remove_first P (p_tc_transmitted p)\<rparr>"

definition tc_store :: "env \<Rightarrow> u16 \<Rightarrow> u16 \<Rightarrow> ptp_message \<Rightarrow> tmv_t \<Rightarrow> 'z system_scheme \<Rightarrow> 'z system_scheme" where
  "tc_store e i n msg residence c =
    (if \<not> env_mem e then tc_fault e n c
     else put_port n (tc_append \<lparr>txd_msg = msg, txd_residence = residence,
       txd_ingress_port = uint (portnum (the_port i c))\<rparr> (the_port n c)) c)"

definition tc_complete_request :: "env \<Rightarrow> u16 \<Rightarrow> u16 \<Rightarrow> ptp_message \<Rightarrow> tmv_t \<Rightarrow> 'z system_scheme \<Rightarrow> 'z system_scheme" where
  "tc_complete_request = tc_store"

definition tc_complete_response :: "env \<Rightarrow> u16 \<Rightarrow> u16 \<Rightarrow> ptp_message \<Rightarrow> tmv_t \<Rightarrow> 'z system_scheme \<Rightarrow> 'z system_scheme" where
  "tc_complete_response e i n resp residence c =
    (let bo = env_bo e;
         P = (\<lambda>t. tc_match_delay bo (uint (portnum (the_port n c))) resp t = TC_DELAY_REQRESP)
     in case find P (p_tc_transmitted (the_port i c)) of
          None \<Rightarrow> c
        | Some txd \<Rightarrow>
            let c = tc_send e TRANS_GENERAL n (add_correction bo (tmv_to_TimeInterval (txd_residence txd)) resp) c
            in put_port i (tc_remove P txd (the_port i c)) c)"

definition tc_complete_syfup :: "env \<Rightarrow> u16 \<Rightarrow> u16 \<Rightarrow> ptp_message \<Rightarrow> tmv_t \<Rightarrow> 'z system_scheme \<Rightarrow> 'z system_scheme" where
  "tc_complete_syfup e i n msg residence c =
    (let bo = env_bo e; q = the_port i c; match = tc_match_syfup bo (uint (portnum q)) msg;
         P = (\<lambda>t. match t \<noteq> TC_MISMATCH)
     in case find P (p_tc_transmitted (the_port n c)) of
          None \<Rightarrow> tc_store e i n msg residence c
        | Some txd \<Rightarrow>
            let (fup, residence) = (if match txd = TC_SYNC_FUP then (msg, txd_residence txd)
                   else (txd_msg txd, residence));
                d = tmv_to_TimeInterval residence + tmv_to_TimeInterval (p_peer_delay q) + p_asymmetry q;
                c = tc_send e TRANS_GENERAL n (add_correction bo d fup) c
            in put_port n (tc_remove P txd (the_port n c)) c)"

definition tc_complete :: "env \<Rightarrow> u16 \<Rightarrow> u16 \<Rightarrow> ptp_message \<Rightarrow> tmv_t \<Rightarrow> 'z system_scheme \<Rightarrow> 'z system_scheme" where
  "tc_complete e i n msg residence c =
    (let type = msg_type msg
     in if type \<in> {SYNC, FOLLOW_UP} then tc_complete_syfup e i n msg residence c
        else if type = DELAY_REQ then tc_complete_request e i n msg residence c
        else if type = DELAY_RESP then tc_complete_response e i n msg residence c
        else c)"

definition tc_current :: "ptp_message \<Rightarrow> timespec \<Rightarrow> bool" where
  "tc_current m now \<longleftrightarrow> sint (timespec_ns now - timespec_ns (ts_host m)) < 1000000000"

subsection \<open>Forwarding\<close>

text \<open>The time that the message spent in the clock, at the rate of the master.\<close>

definition tc_residence :: "(real \<Rightarrow> real) \<Rightarrow> 'z clock_scheme \<Rightarrow> tmv_t \<Rightarrow> tmv_t \<Rightarrow> tmv_t" where
  "tc_residence fl c ingress egress =
    (let residence = tmv_sub egress ingress; rr = clock_rate_ratio c
     in if rr \<noteq> 1 then dbl_tmv (fl (tmv_dbl fl residence * rr)) else residence)"

fun tc_send_all :: "env \<Rightarrow> transport_event \<Rightarrow> u16 \<Rightarrow> ptp_message \<Rightarrow> u16 list \<Rightarrow> 'z system_scheme \<Rightarrow> 'z system_scheme" where
  "tc_send_all e ev i msg [] c = c"
| "tc_send_all e ev i msg (n # rest) c =
     tc_send_all e ev i msg rest (if tc_blocked i n msg c then c else tc_send e ev n msg c)"

text \<open>The second loop of \<open>tc_fwd_event\<close>; the time stamp of the message is that of the last port.\<close>

fun tc_gather :: "env \<Rightarrow> u16 \<Rightarrow> tmv_t \<Rightarrow> ptp_message \<Rightarrow> u16 list \<Rightarrow> 'z system_scheme \<Rightarrow> 'z system_scheme" where
  "tc_gather e i ingress msg [] c = c"
| "tc_gather e i ingress msg (n # rest) c =
    (if tc_blocked i n msg c then tc_gather e i ingress msg rest c
     else
       let p = the_port n c
       in case env_txts e (portnum p) (p_nsend p) of
            None \<Rightarrow> tc_gather e i ingress msg rest (tc_fault e n c)
          | Some t \<Rightarrow>
              let msg = msg\<lparr>hwts := (hwts msg)\<lparr>hw_ts := t\<rparr>\<rparr>
              in if \<not> msg_sots_valid msg then tc_gather e i ingress msg rest (tc_fault e n c)
                 else
                   let egress = ts_add t (p_tx_timestamp_offset p);
                       msg = msg\<lparr>hwts := (hwts msg)\<lparr>hw_ts := egress\<rparr>\<rparr>
                   in tc_gather e i ingress msg rest
                        (tc_complete e i n msg (tc_residence (env_fl e) c ingress egress) c))"

definition tc_fwd_event :: "env \<Rightarrow> u16 \<Rightarrow> ptp_message \<Rightarrow> 'z system_scheme \<Rightarrow> 'z system_scheme" where
  "tc_fwd_event e i msg c =
    (let msg = msg\<lparr>ts_host := env_now e\<rparr>; ports = map portnum (c_ports c)
     in tc_gather e i (hwts_ts msg) msg ports (tc_send_all e TRANS_DEFER_EVENT i msg ports c))"

definition tc_forward :: "env \<Rightarrow> u16 \<Rightarrow> ptp_message \<Rightarrow> 'z system_scheme \<Rightarrow> 'z system_scheme" where
  "tc_forward e i msg c =
    (let msg = (if p_tc_spanning_tree (the_port i c) \<and> msg_type msg = ANNOUNCE
           then msg\<lparr>stepsRemoved := htons (env_bo e) (1 + htons (env_bo e) (stepsRemoved msg))\<rparr> else msg)
     in tc_send_all e TRANS_GENERAL i msg (map portnum (c_ports c)) c)"

fun tc_complete_all :: "env \<Rightarrow> u16 \<Rightarrow> ptp_message \<Rightarrow> u16 list \<Rightarrow> 'z system_scheme \<Rightarrow> 'z system_scheme" where
  "tc_complete_all e i msg [] c = c"
| "tc_complete_all e i msg (n # rest) c =
     tc_complete_all e i msg rest (if tc_blocked i n msg c then c else tc_complete e i n msg tmv_zero c)"

definition tc_fwd_folup :: "env \<Rightarrow> u16 \<Rightarrow> ptp_message \<Rightarrow> 'z system_scheme \<Rightarrow> 'z system_scheme" where
  "tc_fwd_folup e i msg c = tc_complete_all e i (msg\<lparr>ts_host := env_now e\<rparr>) (map portnum (c_ports c)) c"

definition tc_fwd_request :: "env \<Rightarrow> u16 \<Rightarrow> ptp_message \<Rightarrow> 'z system_scheme \<Rightarrow> 'z system_scheme" where
  "tc_fwd_request = tc_fwd_event"

definition tc_fwd_response :: "env \<Rightarrow> u16 \<Rightarrow> ptp_message \<Rightarrow> 'z system_scheme \<Rightarrow> 'z system_scheme" where
  "tc_fwd_response e i msg c = tc_complete_all e i (msg\<lparr>ts_host := env_now e\<rparr>) (map portnum (c_ports c)) c"

text \<open>
  The Follow_Up message made for a one-step Sync message.  It is sent as it is, but its length is
  stored in host byte order.
\<close>

definition made_follow_up :: "ptp_message \<Rightarrow> ptp_message \<Rightarrow> ptp_message" where
  "made_follow_up msg fup =
     fup\<lparr>header := (header fup)\<lparr>tsmt := FOLLOW_UP OR (tsmt (header msg) AND 0xf0), ver := ver (header msg),
         messageLength := 44, domainNumber := domainNumber (header msg),
         sourcePortIdentity := source_pid msg, sequenceId := sequenceId (header msg),
         control := CTL_FOLLOW_UP, logMessageInterval := logMessageInterval (header msg)\<rparr>,
       m_timestamp := m_timestamp msg\<rparr>"

text \<open>True: the Follow_Up message could not be allocated.\<close>

definition tc_fwd_sync :: "env \<Rightarrow> u16 \<Rightarrow> ptp_message \<Rightarrow> 'z system_scheme \<Rightarrow> 'z system_scheme \<times> bool" where
  "tc_fwd_sync e i msg c =
    (if one_step (env_assume_two_step e) msg then
       (case at_port i (\<lambda>p _. port_alloc e p) c of
          (c, None) \<Rightarrow> (c, True)
        | (c, Some m) \<Rightarrow>
            let fup = made_follow_up msg m;
                msg = msg\<lparr>header := (header msg)\<lparr>flagField0 := flagField0 (header msg) OR TWO_STEP\<rparr>\<rparr>;
                c = tc_fwd_folup e i fup (tc_fwd_event e i msg c)
            in (put_port i (pput fup (the_port i c)) c, False))
     else (tc_fwd_event e i msg c, False))"

definition tc_ignore :: "byte_order \<Rightarrow> port \<Rightarrow> 'z clock_scheme \<Rightarrow> ptp_message \<Rightarrow> bool" where
  "tc_ignore bo p c m \<longleftrightarrow>
     p_match_transport_specific p \<and> msg_transport_specific m \<noteq> p_transportSpecific p \<or>
     pid_eq bo (source_pid m) (p_portIdentity p) \<or>
     domainNumber (header m) \<noteq> clock_domain_number c \<or>
     cid_eq (clock_identity c) (clockIdentity (source_pid m))"

definition tc_prune :: "timespec \<Rightarrow> port \<Rightarrow> port" where
  "tc_prune now p =
    (let old = takeWhile (\<lambda>t. \<not> tc_current (txd_msg t) now) (p_tc_transmitted p)
     in (prefs (map (\<lambda>t. MsgPut (m_ptr (txd_msg t))) old) p)
          \<lparr>p_tc_transmitted := drop (length old) (p_tc_transmitted p)\<rparr>)"

subsection \<open>Events of the ports\<close>

text \<open>The message handlers of a port, on the clock with its ports.\<close>

definition on_sync :: "env \<Rightarrow> u16 \<Rightarrow> ptp_message \<Rightarrow> 'z system_scheme \<Rightarrow> 'z system_scheme" where
  "on_sync e i m c = fst (on_port i (\<lambda>p c. case process_sync e p c m of (p, c) \<Rightarrow> (p, c, ())) c)"

definition on_follow_up :: "env \<Rightarrow> u16 \<Rightarrow> ptp_message \<Rightarrow> 'z system_scheme \<Rightarrow> 'z system_scheme" where
  "on_follow_up e i m c = fst (on_port i (\<lambda>p c. case process_follow_up e p c m of (p, c) \<Rightarrow> (p, c, ())) c)"

definition on_delay_resp :: "env \<Rightarrow> u16 \<Rightarrow> ptp_message \<Rightarrow> 'z system_scheme \<Rightarrow> 'z system_scheme" where
  "on_delay_resp e i m c = fst (on_port i (\<lambda>p c. case process_delay_resp e p c m of (p, c) \<Rightarrow> (p, c, ())) c)"

definition on_pdelay_resp_fup :: "env \<Rightarrow> u16 \<Rightarrow> ptp_message \<Rightarrow> 'z system_scheme \<Rightarrow> 'z system_scheme" where
  "on_pdelay_resp_fup e i m c = fst (on_port i (\<lambda>p c. case process_pdelay_resp_fup e p c m of (p, c) \<Rightarrow> (p, c, ())) c)"

definition fault_if :: "bool \<Rightarrow> fsm_event" where
  "fault_if err = (if err then EV_FAULT_DETECTED else EV_NONE)"

definition decide_if :: "bool \<Rightarrow> fsm_event" where
  "decide_if diff = (if diff then EV_STATE_DECISION_EVENT else EV_NONE)"

text \<open>
  \<open>msg\<close> is the message as received, \<open>dup\<close> its converted copy unless the port itself ignores it.
\<close>

definition tc_announce :: "env \<Rightarrow> u16 \<Rightarrow> ptp_message \<Rightarrow> ptp_message option \<Rightarrow> 'z system_scheme \<Rightarrow> 'z system_scheme \<times> fsm_event" where
  "tc_announce e i msg dup c =
    (let c = tc_forward e i msg c
     in case dup of
          None \<Rightarrow> (c, EV_NONE)
        | Some d \<Rightarrow> (case on_port i (\<lambda>p c. process_announce e p c d) c of (c, diff) \<Rightarrow> (c, decide_if diff)))"

definition e2e_message :: "env \<Rightarrow> u16 \<Rightarrow> ptp_message \<Rightarrow> ptp_message option \<Rightarrow> 'z system_scheme \<Rightarrow> 'z system_scheme \<times> fsm_event" where
  "e2e_message e i msg dup c =
    (let type = msg_type msg; own = (\<lambda>f c. case dup of None \<Rightarrow> c | Some d \<Rightarrow> f d c)
     in if type = SYNC then
          (case tc_fwd_sync e i msg c of
             (c, True) \<Rightarrow> (c, EV_FAULT_DETECTED) | (c, False) \<Rightarrow> (own (on_sync e i) c, EV_NONE))
        else if type = DELAY_REQ then (tc_fwd_request e i msg c, EV_NONE)
        else if type = FOLLOW_UP then (own (on_follow_up e i) (tc_fwd_folup e i msg c), EV_NONE)
        else if type = DELAY_RESP then (own (on_delay_resp e i) (tc_fwd_response e i msg c), EV_NONE)
        else if type = ANNOUNCE then tc_announce e i msg dup c
        else if type \<in> {SIGNALING, MANAGEMENT} then (tc_forward e i msg c, EV_NONE)
        else (c, EV_NONE))"

definition p2p_message :: "env \<Rightarrow> u16 \<Rightarrow> ptp_message \<Rightarrow> ptp_message option \<Rightarrow> 'z system_scheme \<Rightarrow> 'z system_scheme \<times> fsm_event" where
  "p2p_message e i msg dup c =
    (let type = msg_type msg; own = (\<lambda>f c. case dup of None \<Rightarrow> c | Some d \<Rightarrow> f d c)
     in if type = SYNC then
          (case tc_fwd_sync e i msg c of
             (c, True) \<Rightarrow> (c, EV_FAULT_DETECTED) | (c, False) \<Rightarrow> (own (on_sync e i) c, EV_NONE))
        else if type = PDELAY_REQ then
          (case dup of
             None \<Rightarrow> (c, EV_NONE)
           | Some d \<Rightarrow> (case at_port i (\<lambda>p c. process_pdelay_req e p c d) c of (c, err) \<Rightarrow> (c, fault_if err)))
        else if type = PDELAY_RESP then
          (case dup of
             None \<Rightarrow> (c, EV_NONE)
           | Some d \<Rightarrow> (case on_port i (\<lambda>p c. process_pdelay_resp e p c d) c of (c, err) \<Rightarrow> (c, fault_if err)))
        else if type = FOLLOW_UP then (own (on_follow_up e i) (tc_fwd_folup e i msg c), EV_NONE)
        else if type = PDELAY_RESP_FOLLOW_UP then (own (on_pdelay_resp_fup e i) c, EV_NONE)
        else if type = ANNOUNCE then tc_announce e i msg dup c
        else if type \<in> {SIGNALING, MANAGEMENT} then (tc_forward e i msg c, EV_NONE)
        else (c, EV_NONE))"

text \<open>Reception, which both kinds of ports have in common up to the handler of the message.\<close>

definition put_on :: "u16 \<Rightarrow> ptp_message \<Rightarrow> 'z system_scheme \<Rightarrow> 'z system_scheme" where
  "put_on i m c = put_port i (pput m (the_port i c)) c"

definition tc_receive ::
  "(env \<Rightarrow> u16 \<Rightarrow> ptp_message \<Rightarrow> ptp_message option \<Rightarrow> 'z system_scheme \<Rightarrow> 'z system_scheme \<times> fsm_event) \<Rightarrow>
   env \<Rightarrow> u16 \<Rightarrow> (ptp_message \<times> nat) option \<Rightarrow> 'z system_scheme \<Rightarrow> 'z system_scheme \<times> fsm_event" where
  "tc_receive handle e i input c =
    (case at_port i (\<lambda>p _. port_alloc e p) c of
       (c, None) \<Rightarrow> (c, EV_FAULT_DETECTED)
     | (c, Some new) \<Rightarrow>
         (case input of
            None \<Rightarrow> (put_on i new c, EV_FAULT_DETECTED)
          | Some (data, cnt) \<Rightarrow>
              let p = the_port i c;
                  msg = data\<lparr>m_ptr := m_ptr new, hwts := (hwts data)\<lparr>hw_type := p_timestamping p\<rparr>,
                    tlv_list := [], tlv_count := 0\<rparr>;
                  msg = (if msg_sots_valid msg
                    then msg\<lparr>hwts := (hwts msg)\<lparr>hw_ts := ts_add (hwts_ts msg) (- p_rx_timestamp_offset p)\<rparr>\<rparr> else msg)
              in if flagField0 (header msg) AND UNICAST \<noteq> 0 then (put_on i msg c, EV_NONE)
                 else (case at_port i (\<lambda>p _. port_alloc e p) c of
                     (c, None) \<Rightarrow> (put_on i msg c, EV_NONE)
                   | (c, Some d) \<Rightarrow>
                       (case msg_duplicate (env_bo e) (\<lambda>_. env_tlv e) (env_now e) (Some (m_ptr d)) msg cnt of
                          None \<Rightarrow> (put_on i msg (put_on i d c), EV_NONE)
                        | Some dup \<Rightarrow>
                            if tc_ignore (env_bo e) (the_port i c) c dup then
                              (case handle e i msg None (put_on i dup c) of (c, ev) \<Rightarrow> (put_on i msg c, ev))
                            else (case handle e i msg (Some dup) c of
                                (c, ev) \<Rightarrow> (put_on i dup (put_on i msg c), ev))))))"

definition tc_announce_timeout :: "env \<Rightarrow> port \<Rightarrow> port" where
  "tc_announce_timeout e p =
    (let (fms, rs) = (case p_best p of None \<Rightarrow> (p_foreign_masters p, [])
           | Some best \<Rightarrow> clear_entry best (p_foreign_masters p))
     in port_set_announce_tmo e ((prefs rs p)\<lparr>p_foreign_masters := fms\<rparr>))"

definition link_events :: "env \<Rightarrow> bool list \<Rightarrow> port \<Rightarrow> 'z clock_scheme \<Rightarrow> port \<times> 'z clock_scheme \<times> fsm_event" where
  "link_events e links p c =
    (case fold (\<lambda>up (p, c). port_link_status e p c up) links (p, c) of (p, c) \<Rightarrow> (p, c, link_event p))"

definition e2e_delay_timeout :: "env \<Rightarrow> port \<Rightarrow> 'z clock_scheme \<Rightarrow> port \<times> bool" where
  "e2e_delay_timeout e p c =
    (let p = tc_prune (env_now e) (delay_req_prune (env_now e) (port_set_delay_tmo e p))
     in if \<not> c_free_running c \<and> slave_states (p_state p) then port_delay_request e p c else (p, False))"

definition p2p_delay_request :: "env \<Rightarrow> port \<Rightarrow> 'z clock_scheme \<Rightarrow> port \<times> bool" where
  "p2p_delay_request e p c = (if port_is_enabled p then port_delay_request e p c else (p, False))"

definition e2e_event :: "env \<Rightarrow> u16 \<Rightarrow> fd_event \<Rightarrow> 'z system_scheme \<Rightarrow> 'z system_scheme \<times> fsm_event" where
  "e2e_event e i ev c =
    (case ev of
       FdTimer t \<Rightarrow>
         (case t of
            FD_ANNOUNCE_TIMER \<Rightarrow> at_port i (\<lambda>p _. (tc_announce_timeout e p, EV_ANNOUNCE_RECEIPT_TIMEOUT_EXPIRES)) c
          | FD_SYNC_RX_TIMER \<Rightarrow> at_port i (\<lambda>p _. (tc_announce_timeout e p, EV_ANNOUNCE_RECEIPT_TIMEOUT_EXPIRES)) c
          | FD_DELAY_TIMER \<Rightarrow> (case at_port i (e2e_delay_timeout e) c of (c, err) \<Rightarrow> (c, fault_if err))
          | FD_QUALIFICATION_TIMER \<Rightarrow> (c, EV_QUALIFICATION_TIMEOUT_EXPIRES)
          | _ \<Rightarrow> (c, EV_NONE))
     | FdRtnl links \<Rightarrow> on_port i (link_events e links) c
     | FdMessage input \<Rightarrow> tc_receive e2e_message e i input c)"

definition p2p_event :: "env \<Rightarrow> u16 \<Rightarrow> fd_event \<Rightarrow> 'z system_scheme \<Rightarrow> 'z system_scheme \<times> fsm_event" where
  "p2p_event e i ev c =
    (case ev of
       FdTimer t \<Rightarrow>
         (case t of
            FD_ANNOUNCE_TIMER \<Rightarrow> at_port i (\<lambda>p _. (tc_announce_timeout e p, EV_ANNOUNCE_RECEIPT_TIMEOUT_EXPIRES)) c
          | FD_SYNC_RX_TIMER \<Rightarrow> at_port i (\<lambda>p _. (tc_announce_timeout e p, EV_ANNOUNCE_RECEIPT_TIMEOUT_EXPIRES)) c
          | FD_DELAY_TIMER \<Rightarrow>
              (case at_port i (\<lambda>p c. p2p_delay_request e (tc_prune (env_now e) (port_set_delay_tmo e p)) c) c of
                 (c, err) \<Rightarrow> (c, fault_if err))
          | FD_QUALIFICATION_TIMER \<Rightarrow> (c, EV_QUALIFICATION_TIMEOUT_EXPIRES)
          | _ \<Rightarrow> (c, EV_NONE))
     | FdRtnl links \<Rightarrow> on_port i (link_events e links) c
     | FdMessage input \<Rightarrow> tc_receive p2p_message e i input c)"

end
