(* ===== verification/ClockPorts.thy ===== *)
theory ClockPorts
  imports Tc Bmc
begin

text \<open>
  The clock with its ports: the events that the poll loop hands to the ports, the recovery from
  faults and the decision about the states of all ports (\<open>clock_poll\<close>,
  \<open>handle_state_decision_event\<close> of src/clock.c).
\<close>

subsection \<open>Events of a port\<close>

text \<open>\<open>p->event\<close> by the type of the clock.\<close>

definition port_event :: "env \<Rightarrow> u16 \<Rightarrow> fd_event \<Rightarrow> 'z system_scheme \<Rightarrow> 'z system_scheme \<times> fsm_event" where
  "port_event e n ev c =
    (case c_type c of
       CLOCK_TYPE_E2E \<Rightarrow> e2e_event e n ev c
     | CLOCK_TYPE_P2P \<Rightarrow> p2p_event e n ev c
     | _ \<Rightarrow> on_port n (\<lambda>p c. bc_event manage_from e p c ev) c)"

definition dispatch_on :: "env \<Rightarrow> u16 \<Rightarrow> fsm_event \<Rightarrow> bool \<Rightarrow> 'z system_scheme \<Rightarrow> 'z system_scheme" where
  "dispatch_on e n ev mdiff c =
     fst (on_port n (\<lambda>p c. case port_dispatch e p c ev mdiff of (p, c) \<Rightarrow> (p, c, ())) c)"

subsection \<open>Faults\<close>

definition port_set_fault_timer_log :: "int \<Rightarrow> port \<Rightarrow> port" where
  "port_set_fault_timer_log log_seconds =
     (case tmo_log 1 log_seconds of (s, n) \<Rightarrow> pfx [SetFaultTmo (int s) n])"

definition port_set_fault_timer_lin :: "int \<Rightarrow> port \<Rightarrow> port" where
  "port_set_fault_timer_lin seconds = pfx [SetFaultTmo seconds 0]"

definition clock_fault_timeout :: "bool \<Rightarrow> port \<Rightarrow> port" where
  "clock_fault_timeout arm p =
    (if \<not> arm then port_set_fault_timer_lin 0 p
     else case p_flt_interval_pertype p (p_last_fault_type p) of
         FTMO_LINEAR_SECONDS v \<Rightarrow> port_set_fault_timer_lin v p
       | FTMO_LOG2_SECONDS v \<Rightarrow> port_set_fault_timer_log v p)"

definition port_link_status_get :: "port \<Rightarrow> bool" where
  "port_link_status_get p \<longleftrightarrow> p_link_status p AND LINK_UP \<noteq> 0"

subsection \<open>State decision\<close>

text \<open>\<open>port_compute_best\<close> on port \<open>n\<close>, and the best foreign clock of all ports.\<close>

definition compute_best_on :: "env \<Rightarrow> u16 \<Rightarrow> 'z system_scheme \<Rightarrow> 'z system_scheme \<times> foreign_clock option" where
  "compute_best_on e n c =
     at_port n (\<lambda>p c. case port_compute_best (c_dscmp c) (p_master_only p) (env_now e) (p_localPriority p)
           (p_portIdentity p) (p_foreign_masters p) of
         (best, fms, rs) \<Rightarrow>
           ((prefs rs p)\<lparr>p_foreign_masters := fms, p_best := map_option fc_sender best\<rparr>, best)) c"

fun elect_best ::
  "(u16 \<Rightarrow> env) \<Rightarrow> u16 list \<Rightarrow> (u16 \<times> foreign_clock) option \<Rightarrow> 'z system_scheme \<Rightarrow>
   'z system_scheme \<times> (u16 \<times> foreign_clock) option" where
  "elect_best es [] best c = (c, best)"
| "elect_best es (n # rest) best c =
    (case compute_best_on (es n) n c of
       (c, None) \<Rightarrow> elect_best es rest best c
     | (c, Some fc) \<Rightarrow>
         elect_best es rest
           (case best of
              None \<Rightarrow> Some (n, fc)
            | Some (k, b) \<Rightarrow> if c_dscmp c (Some (fc_dataset fc)) (Some (fc_dataset b)) > 0
                then Some (n, fc) else best) c)"

text \<open>What a new best master resets.\<close>

definition clock_new_best :: "'z clock_scheme \<Rightarrow> 'z clock_scheme" where
  "clock_new_best c =
    (let c = clock_freq_est_reset c; tsp = tsproc_reset (c_tsproc c) True
     in c\<lparr>c_tsproc := (if tmv_is_zero (c_initial_delay c) then tsp else tsproc_set_delay tsp (c_initial_delay c)),
          c_ingress_ts := tmv_zero, c_path_delay := c_initial_delay c, c_nrr := 1\<rparr>)"

text \<open>
  \<open>c->best\<close> as the entry of the port's table.  When the table was freed meanwhile the pointer
  dangles, and there is no such entry.
\<close>

definition clock_best_fc :: "'z system_scheme \<Rightarrow> foreign_clock option" where
  "clock_best_fc c = (case c_best c of None \<Rightarrow> None
     | Some (n, sender) \<Rightarrow> find (\<lambda>fc. fc_sender fc = sender) (p_foreign_masters (the_port n c)))"

definition port_best_fc :: "port \<Rightarrow> foreign_clock option" where
  "port_best_fc p = (case p_best p of None \<Rightarrow> None
     | Some sender \<Rightarrow> find (\<lambda>fc. fc_sender fc = sender) (p_foreign_masters p))"

definition best_dangles :: "'z system_scheme \<Rightarrow> bool" where
  "best_dangles c \<longleftrightarrow> c_best c \<noteq> None \<and> clock_best_fc c = None"

text \<open>
  One iteration of the second loop of \<open>handle_state_decision_event\<close>.  Reading through a dangling
  or null pointer is recorded, and the iteration ends there.
\<close>

definition decide_state :: "u16 \<Rightarrow> 'z system_scheme \<Rightarrow> port_state" where
  "decide_state n c =
     bmc_state_decision (clockClass (dds_clockQuality (c_dds c))) (clock_default_ds c)
       (map_option fc_dataset (clock_best_fc c)) (map_option fst (c_best c) = Some n)
       (map_option fc_dataset (port_best_fc (the_port n c))) (p_state (the_port n c)) (c_dscmp c)"

definition decide_port :: "(u16 \<Rightarrow> env) \<Rightarrow> bool \<Rightarrow> u16 \<Rightarrow> 'z system_scheme \<Rightarrow> 'z system_scheme" where
  "decide_port es fresh_best n c =
    (if best_dangles c then put_port n (pfx [NullDereference] (the_port n c)) c
     else case decide_state n c of
         PS_LISTENING \<Rightarrow> dispatch_on (es n) n EV_NONE fresh_best c
       | PS_GRAND_MASTER \<Rightarrow> dispatch_on (es n) n EV_RS_GRAND_MASTER fresh_best (clock_update_grandmaster c)
       | PS_MASTER \<Rightarrow> dispatch_on (es n) n EV_RS_MASTER fresh_best c
       | PS_PASSIVE \<Rightarrow> dispatch_on (es n) n EV_RS_PASSIVE fresh_best c
       | PS_SLAVE \<Rightarrow>
           (case clock_best_fc c of
              Some best \<Rightarrow>
                (case fc_messages best of
                   msg # _ \<Rightarrow> dispatch_on (es n) n EV_RS_SLAVE fresh_best (clock_update_slave c best msg)
                 | [] \<Rightarrow> put_port n (pfx [NullDereference] (the_port n c)) c)
            | None \<Rightarrow> put_port n (pfx [NullDereference] (the_port n c)) c)
       | _ \<Rightarrow> dispatch_on (es n) n EV_FAULT_DETECTED fresh_best c)"

definition select_best :: "(u16 \<times> foreign_clock) option \<Rightarrow> 'z system_scheme \<Rightarrow> bool \<times> 'z system_scheme" where
  "select_best best c =
    (let best_id = (case best of None \<Rightarrow> clock_identity c | Some (_, fc) \<Rightarrow> ds_identity (fc_dataset fc));
         fresh_best = (\<not> cid_eq best_id (c_best_id c));
         c = (if fresh_best then clock_new_best c else c)
     in (fresh_best, c\<lparr>c_best := map_option (\<lambda>(n, fc). (n, fc_sender fc)) best, c_best_id := best_id\<rparr>))"

definition handle_state_decision_event :: "(u16 \<Rightarrow> env) \<Rightarrow> 'z system_scheme \<Rightarrow> 'z system_scheme" where
  "handle_state_decision_event es c =
    (case elect_best es (map portnum (c_ports c)) None c of
       (c, best) \<Rightarrow>
         (case select_best best c of
            (fresh_best, c) \<Rightarrow> fold (decide_port es fresh_best) (map portnum (c_ports c)) c))"

subsection \<open>The poll loop\<close>

text \<open>
  The descriptors of a port that are ready in one pass, in order, each with the answers of the
  system while it is handled, and whether the fault timer has expired.
\<close>

record ready =
  rd_number :: u16
  rd_events :: "(env \<times> fd_event) list"
  rd_fault :: "env option"

definition poll_event :: "env \<Rightarrow> u16 \<Rightarrow> fd_event \<Rightarrow> 'z system_scheme \<Rightarrow> 'z system_scheme" where
  "poll_event e n ev c =
    (case port_event e n ev c of
       (c, event) \<Rightarrow>
         let c = (if event \<in> {EV_STATE_DECISION_EVENT, EV_ANNOUNCE_RECEIPT_TIMEOUT_EXPIRES}
               then c\<lparr>c_sde := True\<rparr> else c);
             c = dispatch_on e n event False c
         in if p_state (the_port n c) = PS_FAULTY
            then put_port n (clock_fault_timeout True (the_port n c)) c else c)"

fun poll_events :: "u16 \<Rightarrow> (env \<times> fd_event) list \<Rightarrow> 'z system_scheme \<Rightarrow> 'z system_scheme" where
  "poll_events n [] c = c"
| "poll_events n ((e, ev) # rest) c =
    (let c = poll_event e n ev c
     in if p_state (the_port n c) = PS_FAULTY then c else poll_events n rest c)"

definition poll_fault :: "env \<Rightarrow> u16 \<Rightarrow> 'z system_scheme \<Rightarrow> 'z system_scheme" where
  "poll_fault e n c =
    (let c = put_port n (clock_fault_timeout False (the_port n c)) c
     in if port_link_status_get (the_port n c) then dispatch_on e n EV_FAULT_CLEARED False c else c)"

definition poll_port :: "ready \<Rightarrow> 'z system_scheme \<Rightarrow> 'z system_scheme" where
  "poll_port r c =
    (let c = poll_events (rd_number r) (rd_events r) c
     in case rd_fault r of None \<Rightarrow> c | Some e \<Rightarrow> poll_fault e (rd_number r) c)"

definition poll_uds :: "env \<times> fd_event \<Rightarrow> 'z system_scheme \<Rightarrow> 'z system_scheme" where
  "poll_uds x c =
    (case x of (e, ev) \<Rightarrow>
       case port_event e (portnum (c_uds c)) ev c of
         (c, event) \<Rightarrow> if event = EV_STATE_DECISION_EVENT then c\<lparr>c_sde := True\<rparr> else c)"

definition clock_poll ::
  "(u16 \<Rightarrow> env) \<Rightarrow> timespec \<Rightarrow> ready list \<Rightarrow> (env \<times> fd_event) list \<Rightarrow> 'z system_scheme \<Rightarrow> 'z system_scheme" where
  "clock_poll es now ready uds c =
    (let c = fold poll_uds uds (fold poll_port ready c);
         c = (if c_sde c then (handle_state_decision_event es c)\<lparr>c_sde := False\<rparr> else c)
     in c\<lparr>c_subscribers := clock_prune_subscriptions now (c_subscribers c)\<rparr>)"

text \<open>The end of \<open>clock_create\<close>, and the states that the program can be in between two passes.\<close>

definition clock_start :: "(u16 \<Rightarrow> env) \<Rightarrow> 'z system_scheme \<Rightarrow> 'z system_scheme" where
  "clock_start es c =
     dispatch_on (es (portnum (c_uds c))) (portnum (c_uds c)) EV_INITIALIZE False
       (fold (\<lambda>n. dispatch_on (es n) n EV_INITIALIZE False) (map portnum (c_ports c)) c)"

inductive reachable :: "'z system_scheme \<Rightarrow> 'z system_scheme \<Rightarrow> bool" for c0 where
  started: "reachable c0 (clock_start es c0)"
| polled: "reachable c0 c \<Longrightarrow> reachable c0 (clock_poll es now ready uds c)"

end
