(* ===== verification/PortBooks.thy ===== *)
theory PortBooks
  imports PortEvent
begin

text \<open>
  The message references of a port.  Every message that a port stores (the message that waits for
  its partner, the requests sent, the responses received, the announce messages of the foreign
  masters, the messages in transit) is one reference that the port holds.  \<open>bal L p L' q\<close> says that
  on the way from \<open>p\<close> to \<open>q\<close> no reference was lost and none dropped twice, where \<open>L\<close> and \<open>L'\<close> are the
  references that local variables hold before and after.

  All events of a port keep these books but one: a matched pair of Sync and Follow_Up messages that
  makes the servo lose its lock drops the stored message twice.
\<close>

subsection \<open>Books\<close>

definition opt_held :: "ptp_message option \<Rightarrow> nat multiset" where
  "opt_held x = (case x of None \<Rightarrow> {#} | Some m \<Rightarrow> {#m_ptr m#})"

definition syfu_held :: "port \<Rightarrow> nat multiset" where
  "syfu_held p = (if p_syfu p = SF_EMPTY then {#} else {#m_ptr (p_last_syncfup p)#})"

definition port_held :: "port \<Rightarrow> nat multiset" where
  "port_held p = syfu_held p + mset (map m_ptr (p_delay_req p)) +
     opt_held (p_peer_delay_req p) + opt_held (p_peer_delay_resp p) + opt_held (p_peer_delay_fup p) +
     table_held (p_foreign_masters p) + mset (map (\<lambda>t. m_ptr (txd_msg t)) (p_tc_transmitted p))"

definition bal :: "nat multiset \<Rightarrow> port \<Rightarrow> nat multiset \<Rightarrow> port \<Rightarrow> bool" where
  "bal L p L' q \<longleftrightarrow> (table_wf (p_foreign_masters p) \<longrightarrow> table_wf (p_foreign_masters q) \<and>
     (\<exists>rs. p_refs q = p_refs p @ rs \<and> keeps_books (port_held p + L) rs (port_held q + L')))"

text \<open>The fields that the books are about.\<close>

definition same_holdings :: "port \<Rightarrow> port \<Rightarrow> bool" where
  "same_holdings p q \<longleftrightarrow> p_syfu q = p_syfu p \<and> p_last_syncfup q = p_last_syncfup p \<and>
     p_delay_req q = p_delay_req p \<and> p_peer_delay_req q = p_peer_delay_req p \<and>
     p_peer_delay_resp q = p_peer_delay_resp p \<and> p_peer_delay_fup q = p_peer_delay_fup p \<and>
     p_foreign_masters q = p_foreign_masters p \<and> p_tc_transmitted q = p_tc_transmitted p \<and>
     p_refs q = p_refs p"

lemma bal_refl [simp, intro!]: "bal L p L p"
  by (simp add: bal_def)

lemma bal_trans [trans]: "bal L p M q \<Longrightarrow> bal M q N r \<Longrightarrow> bal L p N r"
  unfolding bal_def by (auto intro: keeps_books_append)

lemma bal_same: "same_holdings p q \<Longrightarrow> bal L p L q"
  by (simp add: bal_def same_holdings_def port_held_def syfu_held_def)

lemma same_holdings_refl [simp]: "same_holdings p p"
  by (simp add: same_holdings_def)

lemma same_holdings_trans: "same_holdings p q \<Longrightarrow> same_holdings q r \<Longrightarrow> same_holdings p r"
  by (simp add: same_holdings_def)

text \<open>An operation that appends \<open>rs\<close> to the references and changes what is held accordingly.\<close>

lemma balI:
  assumes "p_refs q = p_refs p @ rs" and "table_wf (p_foreign_masters p) \<Longrightarrow> table_wf (p_foreign_masters q)"
    and "table_wf (p_foreign_masters p) \<Longrightarrow> keeps_books (port_held p + L) rs (port_held q + L')"
  shows "bal L p L' q"
  using assms by (auto simp: bal_def)

subsection \<open>Operations that hold what they held\<close>

lemma same_holdings_pfx [simp]: "same_holdings p (pfx es q) \<longleftrightarrow> same_holdings p q"
  by (simp add: same_holdings_def pfx_def)

lemma same_holdings_timers [simp]:
  "same_holdings p (set_tmo_log t k n q) \<longleftrightarrow> same_holdings p q"
  "same_holdings p (set_tmo_random e t a b n q) \<longleftrightarrow> same_holdings p q"
  "same_holdings p (port_clr_tmo t q) \<longleftrightarrow> same_holdings p q"
  "same_holdings p (port_set_announce_tmo e q) \<longleftrightarrow> same_holdings p q"
  "same_holdings p (port_set_delay_tmo e q) \<longleftrightarrow> same_holdings p q"
  "same_holdings p (port_set_manno_tmo q) \<longleftrightarrow> same_holdings p q"
  "same_holdings p (port_set_qualification_tmo c q) \<longleftrightarrow> same_holdings p q"
  "same_holdings p (port_set_sync_rx_tmo q) \<longleftrightarrow> same_holdings p q"
  "same_holdings p (port_set_sync_tx_tmo q) \<longleftrightarrow> same_holdings p q"
  by (auto simp: set_tmo_log_def set_tmo_random_def port_clr_tmo_def port_set_announce_tmo_def
      port_set_delay_tmo_def port_set_manno_tmo_def port_set_qualification_tmo_def
      port_set_sync_rx_tmo_def port_set_sync_tx_tmo_def split: prod.split)

lemma same_holdings_nrate [simp]:
  "same_holdings p (port_nrate_initialize q) \<longleftrightarrow> same_holdings p q"
  "same_holdings p (port_nrate_calculate fl a b q) \<longleftrightarrow> same_holdings p q"
  by (simp_all add: port_nrate_initialize_def port_nrate_calculate_def Let_def same_holdings_def)

lemma same_holdings_capable [simp]: "same_holdings p (fst (port_capable q)) \<longleftrightarrow> same_holdings p q"
  by (simp add: port_capable_def port_nrate_initialize_def same_holdings_def)

lemma same_holdings_config [simp]: "same_holdings p (port_config cfg q) \<longleftrightarrow> same_holdings p q"
  by (simp add: port_config_def same_holdings_def)

lemma same_holdings_initialize [simp]: "same_holdings p (fst (port_initialize e q)) \<longleftrightarrow> same_holdings p q"
  by (simp add: port_initialize_def Let_def)

lemma same_holdings_renew [simp]: "same_holdings p (fst (port_renew_transport e q)) \<longleftrightarrow> same_holdings p q"
  by (simp add: port_renew_transport_def)

lemma prepare_and_send_holdings:
  assumes "prepare_and_send e tx m p = (ok, m', q)"
  shows "same_holdings p q" and "m_ptr m' = m_ptr m" and "p_state q = p_state p"
proof -
  have "m_ptr w = m_ptr m" if "msg_pre_send bo now m = Some w" for bo now w
    using that by (auto simp: msg_pre_send_def suffix_pre_send_def body_pre_send_def announce_pre_send_def
        Let_def split: if_splits)
  then have "same_holdings p q \<and> m_ptr m' = m_ptr m \<and> p_state q = p_state p"
    using assms by (auto simp: prepare_and_send_def Let_def same_holdings_def pfx_def split: option.splits if_splits)
  then show "same_holdings p q" and "m_ptr m' = m_ptr m" and "p_state q = p_state p" by auto
qed

lemmas port_send_holdings = prepare_and_send_holdings [folded port_prepare_and_send_def peer_prepare_and_send_def]

lemma port_prepare_and_send_bal:
  "port_prepare_and_send e ev m p = (ok, m', q) \<Longrightarrow> bal L p L q \<and> m_ptr m' = m_ptr m"
  unfolding port_prepare_and_send_def using prepare_and_send_holdings by (blast intro: bal_same)

lemma peer_prepare_and_send_bal:
  "peer_prepare_and_send e ev m p = (ok, m', q) \<Longrightarrow> bal L p L q \<and> m_ptr m' = m_ptr m"
  unfolding peer_prepare_and_send_def using prepare_and_send_holdings by (blast intro: bal_same)

text \<open>Such operations can be ignored on either side of the books.\<close>

lemma same_holdings_held: "same_holdings p q \<Longrightarrow> port_held q = port_held p"
  by (simp add: same_holdings_def port_held_def syfu_held_def)

lemma bal_right: "same_holdings q q' \<Longrightarrow> bal L p M q' \<longleftrightarrow> bal L p M q"
  by (simp add: bal_def same_holdings_held) (simp add: same_holdings_def)

lemma bal_left: "same_holdings p p' \<Longrightarrow> bal L p' M q \<longleftrightarrow> bal L p M q"
  by (simp add: bal_def same_holdings_held) (simp add: same_holdings_def)

lemma bal_pfx [simp]: "bal L p M (pfx es q) \<longleftrightarrow> bal L p M q" "bal L (pfx es p) M q \<longleftrightarrow> bal L p M q"
  by (rule bal_right, simp) (rule bal_left, simp)

lemma bal_timers [simp]:
  "bal L p M (set_tmo_log t k n q) \<longleftrightarrow> bal L p M q"
  "bal L p M (port_set_announce_tmo e q) \<longleftrightarrow> bal L p M q"
  "bal L p M (port_set_delay_tmo e q) \<longleftrightarrow> bal L p M q"
  "bal L p M (port_set_manno_tmo q) \<longleftrightarrow> bal L p M q"
  "bal L p M (port_set_qualification_tmo c q) \<longleftrightarrow> bal L p M q"
  "bal L p M (port_set_sync_rx_tmo q) \<longleftrightarrow> bal L p M q"
  "bal L p M (port_set_sync_tx_tmo q) \<longleftrightarrow> bal L p M q"
  "bal L p M (port_nrate_initialize q) \<longleftrightarrow> bal L p M q"
  "bal L p M (port_nrate_calculate fl a b q) \<longleftrightarrow> bal L p M q"
  by (rule bal_right, simp)+

lemma bal_fields [simp]:
  "bal L p M (q\<lparr>p_state := s\<rparr>) \<longleftrightarrow> bal L p M q"
  "bal L p M (q\<lparr>p_best := b\<rparr>) \<longleftrightarrow> bal L p M q"
  "bal L p M (q\<lparr>p_last_fault_type := f\<rparr>) \<longleftrightarrow> bal L p M q"
  "bal L p M (q\<lparr>p_asCapable := a\<rparr>) \<longleftrightarrow> bal L p M q"
  "bal L p M (q\<lparr>p_pdr_missing := k\<rparr>) \<longleftrightarrow> bal L p M q"
  "bal L p M (q\<lparr>p_multiple_seq_pdr_count := k\<rparr>) \<longleftrightarrow> bal L p M q"
  "bal L p M (q\<lparr>p_multiple_pdr_detected := a\<rparr>) \<longleftrightarrow> bal L p M q"
  "bal L p M (q\<lparr>p_peer_portid_valid := a\<rparr>) \<longleftrightarrow> bal L p M q"
  "bal L p M (q\<lparr>p_peer_portid := i\<rparr>) \<longleftrightarrow> bal L p M q"
  "bal L p M (q\<lparr>p_seqnum_announce := n\<rparr>) \<longleftrightarrow> bal L p M q"
  "bal L p M (q\<lparr>p_seqnum_delayreq := n\<rparr>) \<longleftrightarrow> bal L p M q"
  "bal L p M (q\<lparr>p_seqnum_sync := n\<rparr>) \<longleftrightarrow> bal L p M q"
  "bal L p M (q\<lparr>p_log_sync_interval := l\<rparr>) \<longleftrightarrow> bal L p M q"
  "bal L p M (q\<lparr>p_logMinDelayReqInterval := j\<rparr>) \<longleftrightarrow> bal L p M q"
  "bal L p M (q\<lparr>p_delayMechanism := d\<rparr>) \<longleftrightarrow> bal L p M q"
  "bal L p M (q\<lparr>p_tsproc := t\<rparr>) \<longleftrightarrow> bal L p M q"
  "bal L p M (q\<lparr>p_peer_delay := v\<rparr>) \<longleftrightarrow> bal L p M q"
  "bal L p M (q\<lparr>p_peerMeanPathDelay := w\<rparr>) \<longleftrightarrow> bal L p M q"
  "bal L p M (q\<lparr>p_link_status := z\<rparr>) \<longleftrightarrow> bal L p M q"
  "bal L p M (q\<lparr>p_ts_label := y\<rparr>) \<longleftrightarrow> bal L p M q"
  "bal L p M (q\<lparr>p_phc_index := x\<rparr>) \<longleftrightarrow> bal L p M q"
  by (rule bal_right, simp add: same_holdings_def)+

lemma bal_fields_left [simp]:
  "bal L (q\<lparr>p_state := s\<rparr>) M p \<longleftrightarrow> bal L q M p"
  "bal L (q\<lparr>p_best := b\<rparr>) M p \<longleftrightarrow> bal L q M p"
  "bal L (q\<lparr>p_last_fault_type := f\<rparr>) M p \<longleftrightarrow> bal L q M p"
  "bal L (q\<lparr>p_asCapable := a\<rparr>) M p \<longleftrightarrow> bal L q M p"
  "bal L (q\<lparr>p_pdr_missing := k\<rparr>) M p \<longleftrightarrow> bal L q M p"
  "bal L (q\<lparr>p_multiple_seq_pdr_count := k\<rparr>) M p \<longleftrightarrow> bal L q M p"
  "bal L (q\<lparr>p_multiple_pdr_detected := a\<rparr>) M p \<longleftrightarrow> bal L q M p"
  "bal L (q\<lparr>p_peer_portid_valid := a\<rparr>) M p \<longleftrightarrow> bal L q M p"
  "bal L (q\<lparr>p_peer_portid := i\<rparr>) M p \<longleftrightarrow> bal L q M p"
  "bal L (q\<lparr>p_seqnum_announce := n\<rparr>) M p \<longleftrightarrow> bal L q M p"
  "bal L (q\<lparr>p_seqnum_delayreq := n\<rparr>) M p \<longleftrightarrow> bal L q M p"
  "bal L (q\<lparr>p_seqnum_sync := n\<rparr>) M p \<longleftrightarrow> bal L q M p"
  "bal L (q\<lparr>p_log_sync_interval := l\<rparr>) M p \<longleftrightarrow> bal L q M p"
  "bal L (q\<lparr>p_logMinDelayReqInterval := j\<rparr>) M p \<longleftrightarrow> bal L q M p"
  "bal L (q\<lparr>p_delayMechanism := d\<rparr>) M p \<longleftrightarrow> bal L q M p"
  "bal L (q\<lparr>p_tsproc := t\<rparr>) M p \<longleftrightarrow> bal L q M p"
  "bal L (q\<lparr>p_peer_delay := v\<rparr>) M p \<longleftrightarrow> bal L q M p"
  "bal L (q\<lparr>p_peerMeanPathDelay := w\<rparr>) M p \<longleftrightarrow> bal L q M p"
  "bal L (q\<lparr>p_link_status := z\<rparr>) M p \<longleftrightarrow> bal L q M p"
  "bal L (q\<lparr>p_ts_label := y\<rparr>) M p \<longleftrightarrow> bal L q M p"
  "bal L (q\<lparr>p_phc_index := x\<rparr>) M p \<longleftrightarrow> bal L q M p"
  by (rule bal_left, simp add: same_holdings_def)+

subsection \<open>References taken and dropped\<close>

lemma held_prefs [simp]: "port_held (prefs rs p) = port_held p" "p_refs (prefs rs p) = p_refs p @ rs"
  "p_foreign_masters (prefs rs p) = p_foreign_masters p"
  by (simp_all add: port_held_def prefs_def syfu_held_def)

lemma bal_get: "bal L p (add_mset (m_ptr m) L) (pget m p)"
  by (rule balI [of _ _ "[MsgGet (m_ptr m)]"]) (simp_all add: pget_def keeps_books_def)

lemma bal_put: "bal (add_mset (m_ptr m) L) p L (pput m p)"
  by (rule balI [of _ _ "[MsgPut (m_ptr m)]"]) (simp_all add: pput_def keeps_books_def)

lemma port_alloc_bal:
  assumes "port_alloc e p = (q, r)"
  shows "bal L p (case r of None \<Rightarrow> L | Some m \<Rightarrow> add_mset (m_ptr m) L) q"
proof -
  have same: "bal L p L (p\<lparr>p_nalloc := n\<rparr>)" for n
    by (rule bal_same) (simp add: same_holdings_def)
  show ?thesis
    using assms same bal_trans [OF same bal_get]
    by (auto simp: port_alloc_def Let_def split: option.splits)
qed

lemma pput_opt_bal: "bal (opt_held x + L) p L (pput_opt x p)"
  by (cases x) (simp_all add: opt_held_def pput_opt_def bal_put)

text \<open>
  A field of the port that holds references is read into a local variable and overwritten.
\<close>

lemma bal_release:
  assumes "p_refs q = p_refs p" and "p_foreign_masters q = p_foreign_masters p" and "port_held p + L = port_held q + L'"
  shows "bal L p L' q"
  using assms by (intro balI [of _ _ "[]"]) (auto simp: keeps_books_def)

lemmas held_defs = port_held_def syfu_held_def opt_held_def

lemma flush_last_sync_bal: "bal L p L (flush_last_sync p)"
  by (rule balI [of _ _ "if p_syfu p = SF_EMPTY then [] else [MsgPut (m_ptr (p_last_syncfup p))]"])
    (simp_all add: flush_last_sync_def pput_def prefs_def held_defs keeps_books_def)

lemma gets_map_put [simp]: "gets (map (\<lambda>x. MsgPut (f x)) xs) = []"
  by (induction xs) auto

lemma puts_map_put [simp]: "puts (map (\<lambda>x. MsgPut (f x)) xs) = map f xs"
  by (induction xs) auto

lemma flush_delay_req_bal: "bal L p L (flush_delay_req p)"
  by (rule balI [of _ _ "map (\<lambda>m. MsgPut (m_ptr m)) (p_delay_req p)"])
    (simp_all add: flush_delay_req_def prefs_def held_defs keeps_books_def)

lemma tc_flush_bal: "bal L p L (tc_flush p)"
  by (rule balI [of _ _ "map (\<lambda>t. MsgPut (m_ptr (txd_msg t))) (p_tc_transmitted p)"])
    (simp_all add: tc_flush_def prefs_def held_defs keeps_books_def)

definition opt_put :: "ptp_message option \<Rightarrow> ref_op list" where
  "opt_put x = (case x of None \<Rightarrow> [] | Some m \<Rightarrow> [MsgPut (m_ptr m)])"

lemma pput_opt_prefs: "pput_opt x p = prefs (opt_put x) p"
  by (simp add: pput_opt_def opt_put_def pput_def prefs_def split: option.split)

lemma opt_put_simps [simp]: "gets (opt_put x) = []" "mset (puts (opt_put x)) = opt_held x"
  by (simp_all add: opt_put_def opt_held_def split: option.split)

lemma flush_peer_delay_bal: "bal L p L (flush_peer_delay p)"
  by (rule balI [of _ _ "opt_put (p_peer_delay_req p) @ opt_put (p_peer_delay_resp p) @ opt_put (p_peer_delay_fup p)"])
    (simp_all add: flush_peer_delay_def pput_opt_prefs prefs_def port_held_def syfu_held_def opt_held_def [of None]
      keeps_books_def)

text \<open>A change of the foreign master table that keeps its own books.\<close>

lemma fms_bal:
  assumes "table_wf (p_foreign_masters p) \<Longrightarrow>
      table_wf fms \<and> keeps_books (table_held (p_foreign_masters p)) rs (table_held fms)"
  shows "bal L p L ((prefs rs p)\<lparr>p_foreign_masters := fms\<rparr>)"
proof (rule balI [of _ _ rs])
  assume "table_wf (p_foreign_masters p)"
  with assms show "table_wf (p_foreign_masters ((prefs rs p)\<lparr>p_foreign_masters := fms\<rparr>))"
    "keeps_books (port_held p + L) rs (port_held ((prefs rs p)\<lparr>p_foreign_masters := fms\<rparr>) + L)"
    by (auto simp: keeps_books_def prefs_def port_held_def syfu_held_def algebra_simps)
qed simp

lemma free_fms_bal:
  "bal L p L ((prefs (free_foreign_masters (p_foreign_masters p)) p)\<lparr>p_foreign_masters := []\<rparr>)"
  by (rule fms_bal) (use free_foreign_masters_books in \<open>simp add: table_wf_def\<close>)

lemma port_disable_bal: "bal L p L (port_disable p)"
proof -
  let ?q = "flush_peer_delay (flush_delay_req (flush_last_sync (tc_flush p)))"
  have "bal L p L ?q"
    using bal_trans [OF tc_flush_bal bal_trans [OF flush_last_sync_bal bal_trans [OF flush_delay_req_bal
      flush_peer_delay_bal]]] .
  then have "bal L p L (?q\<lparr>p_best := None\<rparr>)" by simp
  from bal_trans [OF this free_fms_bal] show ?thesis by (simp add: port_disable_def Let_def)
qed

subsection \<open>Transitions\<close>

lemma port_initialize_bal: "bal L p L (fst (port_initialize e p))"
  by (rule bal_same) simp

lemma port_restart_bal: "bal L p L (fst (port_restart e p))"
proof -
  have "bal L p L (if port_is_enabled p then port_disable p else p)" by (simp add: port_disable_bal)
  from bal_trans [OF this port_initialize_bal] show ?thesis
    by (simp add: port_restart_def split_beta)
qed

lemma port_state_update_bal: "bal L p L (fst (port_state_update e p ev md))"
  using port_restart_bal [of L p e] by (simp add: port_state_update_def Let_def split_beta)

lemma port_e2e_transition_bal: "bal L p L (port_e2e_transition e c p s)"
  using bal_trans [OF flush_last_sync_bal flush_delay_req_bal, of L "pfx es p" for es]
    port_disable_bal [of L "pfx es p" for es]
  by (auto simp: port_e2e_transition_def Let_def split: port_state.split)

lemma port_p2p_transition_bal: "bal L p L (port_p2p_transition e c p s)"
  using bal_trans [OF flush_last_sync_bal flush_peer_delay_bal, of L "pfx es p" for es]
    port_disable_bal [of L "pfx es p" for es]
  by (auto simp: port_p2p_transition_def Let_def split: port_state.split)

lemma bc_transition_bal: "bal L p L (fst (bc_transition e p c ev md))"
proof (cases "port_state_update e p ev md")
  case (Pair q changed)
  then have "bal L p L q" using port_state_update_bal [of L p e ev md] by simp
  then show ?thesis
    by (cases changed)
      (auto simp: bc_transition_def Pair intro: bal_trans port_e2e_transition_bal port_p2p_transition_bal)
qed

lemma bc_dispatch_bal: "bal L p L (fst (bc_dispatch e p c ev md))"
proof (cases "bc_transition e p c ev md")
  case (Pair q changed)
  then have q: "bal L p L q" using bc_transition_bal [of L p e c ev md] by simp
  have "bal L q L (q\<lparr>p_last_fault_type := FT_SWITCH_PHC\<rparr>)" by simp
  from bal_trans [OF this bc_transition_bal] have "bal L q L (fst (bc_transition e
      (q\<lparr>p_last_fault_type := FT_SWITCH_PHC\<rparr>) c EV_FAULT_DETECTED False))" .
  with q show ?thesis
    by (auto simp: bc_dispatch_def Pair split: bool.split option.split intro: bal_trans)
qed

lemma tc_clear_timers_bal [simp]: "bal L p M (tc_clear_timers q) \<longleftrightarrow> bal L p M q"
  by (simp add: tc_clear_timers_def)

lemma tc_flush_both_bal: "bal L p M q \<Longrightarrow> bal L p M (flush_delay_req (flush_last_sync q))"
  by (intro bal_trans [OF _ flush_delay_req_bal] bal_trans [OF _ flush_last_sync_bal])

lemma tc_dispatch_bal:
  "bal L p L (e2e_dispatch e p c ev md)" "bal L p L (p2p_dispatch e p c ev md)"
proof -
  obtain q b where u: "port_state_update e p ev md = (q, b)" by fastforce
  then have q: "bal L p L q" using port_state_update_bal [of L p e ev md] by simp
  then have t: "bal L p L (tc_clear_timers q)" by simp
  have "bal L p L (port_disable (tc_clear_timers q))"
    using bal_trans [OF t port_disable_bal] .
  with q t show "bal L p L (e2e_dispatch e p c ev md)" "bal L p L (p2p_dispatch e p c ev md)"
    by (auto simp: e2e_dispatch_def p2p_dispatch_def u Let_def tc_flush_both_bal
        split: bool.split port_state.split)
qed

lemma port_dispatch_bal: "bal L p L (fst (port_dispatch e p c ev md))"
  by (simp add: port_dispatch_def bc_dispatch_bal tc_dispatch_bal split: clock_type.split)

subsection \<open>Synchronisation\<close>

lemma drop_peer_req_bal: "bal L p L ((pput_opt (p_peer_delay_req p) p)\<lparr>p_peer_delay_req := None\<rparr>)"
  by (rule balI [of _ _ "opt_put (p_peer_delay_req p)"])
    (simp_all add: pput_opt_prefs prefs_def port_held_def syfu_held_def opt_held_def [of None] keeps_books_def)

lemma port_synchronize_bal:
  fixes c :: "'z clock_scheme"
  shows "bal L p L (fst (port_synchronize e p c t o' c1 c2))"
proof -
  let ?p = "port_set_sync_rx_tmo p"
  have d: "bal L ?p L (fst (port_dispatch e ?p c' ev False))" for c' :: "'z clock_scheme" and ev by (rule port_dispatch_bal)
  have p: "bal L p L ?p" by simp
  show ?thesis
    using bal_trans [OF p d] bal_trans [OF bal_trans [OF bal_trans [OF p d] flush_delay_req_bal] drop_peer_req_bal]
    by (simp add: port_synchronize_def Let_def split_beta split: servo_state.split)
qed

lemma hold_syncfup_bal:
  assumes "s \<noteq> SF_EMPTY"
  shows "bal L p L (hold_syncfup m s p)"
  by (rule balI [of _ _ "(if p_syfu p = SF_EMPTY then [] else [MsgPut (m_ptr (p_last_syncfup p))]) @ [MsgGet (m_ptr m)]"])
    (use assms in \<open>simp_all add: hold_syncfup_def Let_def pput_def pget_def prefs_def held_defs keeps_books_def\<close>)

lemma drop_syncfup_bal:
  "p_syfu p \<noteq> SF_EMPTY \<Longrightarrow> bal L p L (drop_syncfup p)"
  by (rule balI [of _ _ "[MsgPut (m_ptr (p_last_syncfup p))]"])
    (simp_all add: drop_syncfup_def pput_def prefs_def held_defs keeps_books_def)

text \<open>
  A calibrating port keeps the message that it holds while it synchronises: the dispatch of either
  result has no transition that flushes it.
\<close>

lemma port_effect_fields [simp]:
  "p_state (pfx es p) = p_state p" "p_jbod (pfx es p) = p_jbod p"
  "p_delayMechanism (pfx es p) = p_delayMechanism p"
  "p_state (set_tmo_log t k n p) = p_state p" "p_state (port_set_announce_tmo e p) = p_state p"
  "p_state (port_set_delay_tmo e p) = p_state p"
  by (simp_all add: pfx_def set_tmo_log_def port_set_announce_tmo_def set_tmo_random_def
      port_set_delay_tmo_def split_beta)

lemma port_timers_syfu [simp]:
  "p_syfu (pfx es p) = p_syfu p" "p_syfu (set_tmo_log t k n p) = p_syfu p"
  "p_syfu (port_set_announce_tmo e p) = p_syfu p" "p_syfu (port_set_delay_tmo e p) = p_syfu p"
  "p_syfu (port_set_sync_rx_tmo p) = p_syfu p" "p_state (port_set_sync_rx_tmo p) = p_state p"
  "p_slave_only_fsm (port_set_sync_rx_tmo p) = p_slave_only_fsm p"
  "p_syfu (flush_delay_req p) = p_syfu p" "p_syfu (pput_opt x p) = p_syfu p"
  by (simp_all add: pfx_def set_tmo_log_def port_set_announce_tmo_def set_tmo_random_def
      port_set_delay_tmo_def port_set_sync_rx_tmo_def flush_delay_req_def pput_opt_prefs prefs_def split_beta)

lemma calibrating_dispatch_syfu:
  assumes "p_state p = PS_UNCALIBRATED" and "ev = EV_SYNCHRONIZATION_FAULT \<or> ev = EV_MASTER_CLOCK_SELECTED"
  shows "p_syfu (fst (port_dispatch e p c ev False)) = p_syfu p"
proof -
  have "next_state p ev False = (if ev = EV_SYNCHRONIZATION_FAULT then PS_UNCALIBRATED else PS_SLAVE)"
    using assms by (auto simp: next_state_def state_machine_def ptp_fsm_def ptp_slave_fsm_def)
  then show ?thesis
    using assms by (auto simp: port_dispatch_def bc_dispatch_def bc_transition_def port_state_update_def Let_def
        port_e2e_transition_def port_p2p_transition_def e2e_dispatch_def p2p_dispatch_def tc_clear_timers_def
        split: clock_type.split)
qed

lemma calibrating_synchronize_syfu:
  assumes "p_state p = PS_UNCALIBRATED"
  shows "p_syfu (fst (port_synchronize e p c t o' c1 c2)) = p_syfu p"
  using assms by (simp add: port_synchronize_def Let_def split_beta calibrating_dispatch_syfu split: servo_state.split)

lemma port_syfufsm_bal:
  assumes "p_state p = PS_UNCALIBRATED \<or> p_syfu p = SF_EMPTY \<or> ev \<in> {SYNC_MISMATCH, FUP_MISMATCH}"
  shows "bal L p L (fst (port_syfufsm e p c ev m))"
proof -
  have drop: "bal L p L (drop_syncfup (fst (port_synchronize e p c t o' c1 c2)))"
    if "p_state p = PS_UNCALIBRATED" "p_syfu p \<noteq> SF_EMPTY" for t o' c1 c2
    using bal_trans [OF port_synchronize_bal drop_syncfup_bal] calibrating_synchronize_syfu [OF that(1)] that(2)
    by metis
  show ?thesis
    using assms drop hold_syncfup_bal
    by (cases ev) (auto simp: port_syfufsm_def Let_def split_beta)
qed

lemma process_follow_up_bal:
  assumes "p_state p \<noteq> PS_SLAVE \<or> p_syfu p = SF_EMPTY"
  shows "bal L p L (fst (process_follow_up e p c m))"
  using assms by (auto simp: process_follow_up_def Let_def slave_states_def intro!: port_syfufsm_bal)

lemma process_sync_bal:
  fixes c :: "'z clock_scheme"
  assumes "p_state p \<noteq> PS_SLAVE \<or> p_syfu p = SF_EMPTY"
  shows "bal L p L (fst (process_sync e p c m))"
proof -
  have one: "bal L p L (flush_last_sync (fst (port_synchronize e q c' t o' c1 c2)))"
    if "bal L p L q" for q t o' c1 c2 and c' :: "'z clock_scheme"
    using bal_trans [OF bal_trans [OF that port_synchronize_bal] flush_last_sync_bal] .
  have two: "bal L p L (fst (port_syfufsm e q c' ev m'))"
    if "bal L p L q" "p_state q = p_state p" "p_syfu q = p_syfu p" "slave_states (p_state p)"
    for q ev m' and c' :: "'z clock_scheme"
    using bal_trans [OF that(1) port_syfufsm_bal] that assms by (auto simp: slave_states_def)
  show ?thesis
    by (auto simp: process_sync_def Let_def split_beta intro!: one two)
qed

subsection \<open>Announce messages\<close>

lemma port_add_foreign_master_bal: "bal L p L (fst (port_add_foreign_master e p c m))"
proof (cases "add_foreign_master (env_bo e) (env_mem e) (env_now e) m (p_foreign_masters p)")
  case (fields fms d rs)
  then show ?thesis
    using add_foreign_master_wf fms_bal by (simp add: port_add_foreign_master_def)
qed

lemma update_current_master_bal: "bal L p L (fst (update_current_master e p c m))"
proof (cases "update_best_messages (env_bo e) (env_now e) m (p_foreign_masters p)")
  case (fields fms d rs)
  have same: "p_foreign_masters (port_set_announce_tmo e p) = p_foreign_masters p"
    by (simp add: port_set_announce_tmo_def set_tmo_random_def pfx_def split_beta)
  have "bal L (port_set_announce_tmo e p) L ((prefs rs (port_set_announce_tmo e p))\<lparr>p_foreign_masters := fms\<rparr>)"
    using update_best_messages_wf [OF _ fields] same by (intro fms_bal) auto
  then have "bal L p L ((prefs rs (port_set_announce_tmo e p))\<lparr>p_foreign_masters := fms\<rparr>)"
    by (rule bal_trans [rotated]) simp
  then show ?thesis
    using port_add_foreign_master_bal
    by (auto simp: update_current_master_def Let_def fields same split: option.split)
qed

lemma process_announce_bal: "bal L p L (fst (process_announce e p c m))"
  by (simp add: process_announce_def port_add_foreign_master_bal update_current_master_bal)

lemma port_capable_bal: "bal L p M (fst (port_capable q)) \<longleftrightarrow> bal L p M q"
  by (rule bal_right) simp

text \<open>Allocate, send and drop again.\<close>

lemma alloc_Some_bal: "port_alloc e p = (q, Some m) \<Longrightarrow> bal L p (add_mset (m_ptr m) L) q"
  using port_alloc_bal [of e p q "Some m" L] by simp

lemma alloc_None_bal: "port_alloc e p = (q, None) \<Longrightarrow> bal L p L q"
  using port_alloc_bal [of e p q None L] by simp

lemma bal_put_ptr: "bal L p (add_mset x M) q \<Longrightarrow> m_ptr m = x \<Longrightarrow> bal L p M (pput m q)"
  using bal_trans bal_put by blast

lemma tlv_append_ptr: "msg_tlv_append bo a m n = Some (m', ex) \<Longrightarrow> m_ptr m' = m_ptr m"
  by (auto simp: msg_tlv_append_def msg_tlv_attach_def Let_def)

lemma append_ptr:
  "path_trace_append e c m = Some m' \<Longrightarrow> m_ptr m' = m_ptr m"
  "follow_up_info_append e m = Some m' \<Longrightarrow> m_ptr m' = m_ptr m"
  "net_sync_resp_append e p c m = Some m' \<Longrightarrow> m_ptr m' = m_ptr m"
  by (auto simp: path_trace_append_def follow_up_info_append_def net_sync_resp_append_def set_suffix_def
      Let_def split_beta dest: tlv_append_ptr split: if_splits)

lemma message_ptr [simp]:
  "m_ptr (announce_message p c m) = m_ptr m" "m_ptr (sync_message p c dst m) = m_ptr m"
  "m_ptr (follow_up_message p c dst t m) = m_ptr m" "m_ptr (pdelay_req_message p c m) = m_ptr m"
  "m_ptr (delay_req_message p c m) = m_ptr m" "m_ptr (delay_resp_message p m' m) = m_ptr m"
  "m_ptr (pdelay_resp_message p m' m) = m_ptr m" "m_ptr (pdelay_resp_fup_message p m' t m) = m_ptr m"
  by (simp_all add: announce_message_def sync_message_def follow_up_message_def pdelay_req_message_def
      delay_req_message_def delay_resp_message_def pdelay_resp_message_def pdelay_resp_fup_message_def Let_def)

lemma with_path_trace_ptr [simp]: "m_ptr (with_path_trace e p c m) = m_ptr m"
  by (auto simp: with_path_trace_def split: option.split dest: append_ptr)

text \<open>The steps of a sender: allocations and transmissions keep the books.\<close>

lemma alloc_Some_step: "port_alloc e q = (r, Some m) \<Longrightarrow> \<forall>L. bal L q (add_mset (m_ptr m) L) r"
  using alloc_Some_bal by blast

lemma alloc_None_step: "port_alloc e q = (r, None) \<Longrightarrow> \<forall>L. bal L q L r"
  using alloc_None_bal by blast

lemma port_send_step:
  "port_prepare_and_send e ev n q = (ok, w, r) \<Longrightarrow> m_ptr w = m_ptr n \<and> (\<forall>L. bal L q L r)"
  using port_prepare_and_send_bal by blast

lemma peer_send_step:
  "peer_prepare_and_send e ev n q = (ok, w, r) \<Longrightarrow> m_ptr w = m_ptr n \<and> (\<forall>L. bal L q L r)"
  using peer_prepare_and_send_bal by blast

lemma capable_step: "port_capable q = (r, b) \<Longrightarrow> \<forall>L. bal L q L r"
  using port_capable_bal [of L q L q for L] by simp

lemma put_step: "bal L p (add_mset (m_ptr m) M) q \<Longrightarrow> bal L p M (pput m q)"
  using bal_trans bal_put by blast

lemma keep_step: "\<forall>L. bal L q L r \<Longrightarrow> bal L p M q \<Longrightarrow> bal L p M r"
  using bal_trans by blast

lemma take_step: "\<forall>L. bal L q (add_mset x L) r \<Longrightarrow> bal L p M q \<Longrightarrow> bal L p (add_mset x M) r"
  using bal_trans by blast

lemma swap_step: "bal L p (add_mset x (add_mset y M)) q \<Longrightarrow> bal L p (add_mset y (add_mset x M)) q"
  by (simp add: add_mset_commute)

lemmas sender_steps = alloc_Some_step alloc_None_step port_send_step peer_send_step capable_step

lemma port_tx_announce_bal: "bal L p L (fst (port_tx_announce e p c))"
  unfolding port_tx_announce_def
  by (auto split: prod.split option.split bool.split dest!: sender_steps
      intro!: put_step elim!: keep_step take_step)

lemma tx_sync_send_bal: "bal L p L (fst (tx_sync_send e p c dst m fup))"
  unfolding tx_sync_send_def Let_def
  by (auto split: prod.split option.split bool.split if_split dest!: sender_steps
      intro!: put_step elim!: keep_step take_step)

lemma tx_sync_send_step: "tx_sync_send e p c dst m fup = (q, err) \<Longrightarrow> \<forall>L. bal L p L q"
  using tx_sync_send_bal by (metis fst_conv)

lemma port_tx_sync_bal: "bal L p L (fst (port_tx_sync e p c dst))"
  unfolding port_tx_sync_def
  by (auto split: prod.split option.split bool.split if_split dest!: sender_steps tx_sync_send_step
      intro!: put_step elim!: keep_step take_step intro: swap_step)

lemma port_tx_sync_step: "port_tx_sync e p c dst = (q, err) \<Longrightarrow> \<forall>L. bal L p L q"
  using port_tx_sync_bal by (metis fst_conv)

subsection \<open>Delay requests and responses\<close>

lemma store_pdelay_req_bal: "bal (add_mset (m_ptr m) L) p L (store_pdelay_req m p)"
proof -
  define q where "q = (case p_peer_delay_req p of None \<Rightarrow> p
    | Some old \<Rightarrow> (case port_capable p of (r, cap) \<Rightarrow>
        pput old (if cap then r\<lparr>p_pdr_missing := p_pdr_missing r + 1\<rparr> else r)))"
  have same: "same_holdings p (fst (port_capable p))" by simp
  have "port_held q + opt_held (p_peer_delay_req p) = port_held p + opt_held (p_peer_delay_req p)
      \<and> p_refs q = p_refs p @ opt_put (p_peer_delay_req p) \<and> p_foreign_masters q = p_foreign_masters p
      \<and> p_peer_delay_req q = p_peer_delay_req p"
    using same by (auto simp: q_def same_holdings_def pput_def prefs_def held_defs opt_put_def split_beta
        split: option.splits)
  moreover have "store_pdelay_req m p = q\<lparr>p_peer_delay_req := Some m\<rparr>"
    by (simp add: store_pdelay_req_def q_def Let_def)
  ultimately show ?thesis
    by (intro balI [of _ _ "opt_put (p_peer_delay_req p)"])
      (auto simp: keeps_books_def port_held_def syfu_held_def opt_held_def [of "Some m"])
qed

lemma port_pdelay_request_bal: "bal L p L (fst (port_pdelay_request e p c))"
  unfolding port_pdelay_request_def Let_def
  by (auto split: prod.split option.split bool.split if_split dest!: sender_steps
      intro!: put_step bal_trans [OF _ store_pdelay_req_bal] elim!: keep_step take_step)

lemma store_delay_req_bal: "bal (add_mset (m_ptr m) L) p L (p\<lparr>p_delay_req := m # p_delay_req p\<rparr>)"
  by (rule balI [of _ _ "[]"]) (simp_all add: keeps_books_def port_held_def syfu_held_def)

lemma e2e_delay_request_bal: "bal L p L (fst (e2e_delay_request e p c))"
  unfolding e2e_delay_request_def Let_def
  by (auto split: prod.split option.split bool.split if_split dest!: sender_steps
      intro!: put_step bal_trans [OF _ store_delay_req_bal] elim!: keep_step take_step)

lemma port_delay_request_bal: "bal L p L (fst (port_delay_request e p c))"
proof -
  let ?q = "(pput_opt (p_peer_delay_fup p) (pput_opt (p_peer_delay_resp p) p))
      \<lparr>p_peer_delay_resp := None, p_peer_delay_fup := None\<rparr>"
  have "bal L p L ?q"
    by (rule balI [of _ _ "opt_put (p_peer_delay_resp p) @ opt_put (p_peer_delay_fup p)"])
      (simp_all add: pput_opt_prefs prefs_def port_held_def syfu_held_def opt_held_def [of None] keeps_books_def)
  then show ?thesis
    by (simp add: port_delay_request_def Let_def
        bal_trans [OF _ port_pdelay_request_bal] bal_trans [OF _ e2e_delay_request_bal])
qed

lemma delay_req_prune_bal: "bal L p L (delay_req_prune now p)"
proof -
  let ?P = "\<lambda>m. \<not> delay_req_current now m"
  let ?kept = "pop_last_while ?P (p_delay_req p)"
  obtain ys where ys: "p_delay_req p = ?kept @ ys"
    using pop_last_while_prefix [of "p_delay_req p" ?P] by auto
  then have drop: "drop (length ?kept) (p_delay_req p) = ys" by (metis append_eq_conv_conj)
  have "mset (map m_ptr (p_delay_req p)) = mset (map m_ptr ?kept) + mset (map m_ptr ys)"
    by (subst ys) simp
  then show ?thesis
    by (intro balI [of _ _ "map (\<lambda>m. MsgPut (m_ptr m)) (rev ys)"])
      (simp_all add: delay_req_prune_def Let_def drop prefs_def port_held_def syfu_held_def keeps_books_def)
qed

lemma adopt_delay_interval_bal [simp]: "bal L p M (adopt_delay_interval e m q) \<longleftrightarrow> bal L p M q"
  by (simp add: adopt_delay_interval_def Let_def)

lemma mset_remove_first:
  "find P xs = Some x \<Longrightarrow>
   image_mset f (mset xs) = add_mset (f x) (image_mset f (mset (remove_first P xs)))"
  by (induction xs) (auto split: if_splits)

lemma process_delay_resp_bal: "bal L p L (fst (process_delay_resp e p c m))"
proof (cases "find (answers (env_bo e) m) (p_delay_req p)")
  case (Some req)
  have "bal L p L ((pput req p)\<lparr>p_delay_req := remove_first (answers (env_bo e) m) (p_delay_req p)\<rparr>)"
    by (rule balI [of _ _ "[MsgPut (m_ptr req)]"])
      (simp_all add: pput_def prefs_def port_held_def syfu_held_def keeps_books_def
        mset_remove_first [OF Some, of m_ptr])
  then show ?thesis by (simp add: process_delay_resp_def Some Let_def)
qed (simp add: process_delay_resp_def)

lemma process_delay_req_bal: "bal L p L (fst (process_delay_req e p c m))"
proof (cases "port_alloc e p")
  case (Pair q x)
  show ?thesis
  proof (cases x)
    case None
    with Pair show ?thesis by (auto simp: process_delay_req_def Let_def dest: alloc_None_bal)
  next
    case (Some msg)
    have q: "bal L p (add_mset (m_ptr msg) L) q" using alloc_Some_bal Pair Some by blast
    show ?thesis
      unfolding process_delay_req_def Let_def Pair Some
      by (auto split: prod.split option.split bool.split if_split dest!: sender_steps port_tx_sync_step
          append_ptr intro!: put_step elim!: keep_step take_step intro: q)
  qed
qed

subsection \<open>Peer delay\<close>

lemma track_peer_bal [simp]: "bal L p M (track_peer bo m q) \<longleftrightarrow> bal L p M q"
  by (simp add: track_peer_def port_capable_bal)

lemma pdelay_resp_send_bal: "bal L p L (fst (pdelay_resp_send e p m rsp fup))"
  unfolding pdelay_resp_send_def
  by (auto split: prod.split option.split bool.split if_split dest!: sender_steps
      intro!: put_step elim!: keep_step take_step)

lemma pdelay_resp_send_step: "pdelay_resp_send e p m rsp fup = (q, err) \<Longrightarrow> \<forall>L. bal L p L q"
  using pdelay_resp_send_bal by (metis fst_conv)

lemma process_pdelay_req_bal: "bal L p L (fst (process_pdelay_req e p c m))"
  unfolding process_pdelay_req_def Let_def
  by (auto split: prod.split option.split bool.split if_split dest!: sender_steps pdelay_resp_send_step
      intro!: put_step elim!: keep_step take_step intro: swap_step)

lemma peer_delay_calc_bal: "bal L p L (fst (peer_delay_calc e p c t1 t2 t3c t4))"
proof -
  define q where "q = (if p_follow_up_info p then port_nrate_calculate (env_fl e) t3c t4 p else p)"
  have q: "bal L p L q" by (simp add: q_def)
  have drop: "bal L p L ((pput_opt (p_peer_delay_req q) r)\<lparr>p_peer_delay_req := None\<rparr>)"
    if "bal L p L r" "p_peer_delay_req r = p_peer_delay_req q" for r
    using bal_trans [OF that(1) drop_peer_req_bal [of L r]] that(2) by simp
  show ?thesis
    unfolding peer_delay_calc_def Let_def q_def [symmetric]
    using q by (auto split: prod.split option.split intro!: drop)
qed

lemma port_peer_delay_bal: "bal L p L (fst (port_peer_delay e p c))"
  by (auto simp: port_peer_delay_def Let_def peer_delay_calc_bal split: option.split)

lemma count_multiple_peers_bal [simp]: "bal L p M (count_multiple_peers bo m q) \<longleftrightarrow> bal L p M q"
  by (auto simp: count_multiple_peers_def Let_def split: option.split)

lemma store_resp_bal: "bal L p L ((pget m (pput_opt (p_peer_delay_resp p) p))\<lparr>p_peer_delay_resp := Some m\<rparr>)"
  by (rule balI [of _ _ "opt_put (p_peer_delay_resp p) @ [MsgGet (m_ptr m)]"])
    (simp_all add: pput_opt_prefs pget_def prefs_def port_held_def syfu_held_def opt_held_def [of "Some m"] keeps_books_def)

lemma store_fup_bal: "bal L p L ((pget m (pput_opt (p_peer_delay_fup p) p))\<lparr>p_peer_delay_fup := Some m\<rparr>)"
  by (rule balI [of _ _ "opt_put (p_peer_delay_fup p) @ [MsgGet (m_ptr m)]"])
    (simp_all add: pput_opt_prefs pget_def prefs_def port_held_def syfu_held_def opt_held_def [of "Some m"] keeps_books_def)

lemma process_pdelay_resp_bal: "bal L p L (fst (process_pdelay_resp e p c m))"
proof -
  let ?q = "track_peer (env_bo e) m (count_multiple_peers (env_bo e) m p)"
  have "bal L p L ?q" by simp
  from bal_trans [OF this store_resp_bal] show ?thesis
    by (simp add: process_pdelay_resp_def Let_def split_beta bal_trans [OF _ port_peer_delay_bal])
qed

lemma process_pdelay_resp_fup_bal: "bal L p L (fst (process_pdelay_resp_fup e p c m))"
  by (simp add: process_pdelay_resp_fup_def bal_trans [OF store_fup_bal port_peer_delay_bal])

subsection \<open>Events\<close>

lemma announce_timeout_bal: "bal L p L (fst (announce_timeout e p c))"
proof -
  define x where "x = (case p_best p of None \<Rightarrow> (p_foreign_masters p, [])
    | Some best \<Rightarrow> clear_entry best (p_foreign_masters p))"
  let ?q = "(prefs (snd x) p)\<lparr>p_foreign_masters := fst x\<rparr>"
  have "bal L p L ?q"
    using clear_entry_wf by (intro fms_bal) (auto simp: x_def prod_eq_iff split: option.split)
  then have "bal L p L (delay_req_prune (env_now e) (port_set_announce_tmo e ?q))"
    by (intro bal_trans [OF _ delay_req_prune_bal]) simp
  moreover have "bal L r L (fst (port_renew_transport e r))" for r by (rule bal_same) simp
  ultimately show ?thesis
    unfolding announce_timeout_def x_def [symmetric] Let_def
    by (auto simp: split_beta intro: bal_trans)
qed

lemma update_phc_bal [simp]: "bal L p M (fst (update_phc e q c)) \<longleftrightarrow> bal L p M q"
  by (simp add: update_phc_def Let_def split_beta)

lemma update_link_status_bal [simp]: "bal L p M (update_link_status e up q) \<longleftrightarrow> bal L p M q"
  by (simp add: update_link_status_def Let_def split: option.split)

lemma port_link_status_bal: "bal L p L (fst (port_link_status e p c up))"
proof -
  let ?q = "fst (update_phc e (update_link_status e up p) c)"
  have q: "bal L p L ?q" by simp
  then have "bal L p L (?q\<lparr>p_last_fault_type := FT_SWITCH_PHC\<rparr>)" by simp
  with q show ?thesis
    by (simp add: port_link_status_def split_beta bal_trans [OF _ port_dispatch_bal] split: option.split)
qed

lemma port_link_events_bal:
  "bal L p L (fst (fold (\<lambda>up (p, c). port_link_status e p c up) links (p, c)))"
proof (induction links arbitrary: p c)
  case (Cons up links)
  obtain q c' where q: "port_link_status e p c up = (q, c')" by fastforce
  then have "bal L p L q" using port_link_status_bal [of L p e c up] by simp
  from bal_trans [OF this Cons.IH] show ?case by (simp add: q)
qed simp

text \<open>The port does not synchronise, or it holds no message that waits for its partner.\<close>

definition no_match_pending :: "port \<Rightarrow> bool" where
  "no_match_pending p \<longleftrightarrow> p_state p \<noteq> PS_SLAVE \<or> p_syfu p = SF_EMPTY"

text \<open>A handler of management messages that keeps the books.\<close>

definition keeps_port_books ::
  "(env \<Rightarrow> port \<Rightarrow> 'z clock_scheme \<Rightarrow> ptp_message \<Rightarrow> port \<times> 'z clock_scheme \<times> bool) \<Rightarrow> bool" where
  "keeps_port_books manage \<longleftrightarrow> (\<forall>L e p c m. bal L p L (fst (manage e p c m)))"

lemma process_message_bal:
  assumes "keeps_port_books manage" and "no_match_pending p \<or> msg_type m \<notin> {SYNC, FOLLOW_UP}"
  shows "bal L p L (fst (process_message manage e p c m))"
  using assms process_sync_bal [of p L e c m] process_follow_up_bal [of p L e c m]
    process_delay_req_bal [of L p e c m] process_pdelay_req_bal [of L p e c m]
    process_pdelay_resp_bal [of L p e c m] process_delay_resp_bal [of L p e c m]
    process_pdelay_resp_fup_bal [of L p e c m] process_announce_bal [of L p e c m]
  by (auto simp: process_message_def Let_def split_beta no_match_pending_def keeps_port_books_def)

lemma port_capable_state:
  "p_state (fst (port_capable p)) = p_state p \<and> p_syfu (fst (port_capable p)) = p_syfu p"
  by (simp add: port_capable_def port_nrate_initialize_def)

lemma bc_accept_bal:
  fixes c :: "'z clock_scheme"
  assumes "keeps_port_books manage" and "no_match_pending p \<or> msg_type m \<notin> {SYNC, FOLLOW_UP}"
  shows "bal L p L (fst (bc_accept manage e p c m))"
proof -
  let ?q = "fst (port_capable p)"
  have q: "bal L p L ?q" by (simp add: port_capable_bal)
  have msg: "bal L p L (fst (process_message manage e ?q c' m'))" if "msg_type m' = msg_type m"
    for m' and c' :: "'z clock_scheme"
    using assms that port_capable_state [of p]
    by (intro bal_trans [OF q] process_message_bal) (auto simp: no_match_pending_def)
  have ign: "fst (port_ignore bo c' p m') = ?q" for bo m' and c' :: "'z clock_scheme"
    by (auto simp: port_ignore_def incapable_ignore_def split: prod.split bool.split)
  have dis: "(case port_ignore bo c' p m' of (r, True) \<Rightarrow> (r, c', EV_NONE)
      | (r, False) \<Rightarrow> process_message manage e r c' m') =
    (if snd (port_ignore bo c' p m') then (?q, c', EV_NONE) else process_message manage e ?q c' m')" for bo m' and c' :: "'z clock_scheme"
    using ign [of bo c' m'] by (auto split: prod.split bool.split)
  show ?thesis
    unfolding bc_accept_def Let_def dis by (simp add: q msg msg_type_def)
qed

text \<open>The type of a message does not change when it is converted.\<close>

lemma msg_post_recv_type:
  assumes "msg_post_recv bo alloc now m cnt = Inr m'"
  shows "msg_type m' = msg_type m" "m_ptr m' = m_ptr m"
proof -
  have loop: "m_ptr r' = m_ptr r" if "suffix_post_recv_loop bo alloc ptr len r = Inr r'" for ptr len r r'
    using that
  proof (induction bo alloc ptr len r rule: suffix_post_recv_loop.induct)
    case (1 bo alloc ptr len r)
    show ?case
    proof (cases "len < 4")
      case True
      with "1.prems" show ?thesis by (simp add: suffix_post_recv_loop.simps)
    next
      case False
      from "1.prems" False obtain mem l mem' ex where step:
        "mem = flips bo [(2, 0), (2, 2)] ptr (m_suffix r)" "l = unat (rd16 bo mem (ptr + 2))"
        "alloc (tlv_count r)" "l mod 2 = 0" "l \<le> len - 4"
        "tlv_post_recv bo (new_extra ptr) mem = Inr (mem', ex)"
        "suffix_post_recv_loop bo alloc (ptr + 4 + l) (len - 4 - l)
          (msg_tlv_attach (r\<lparr>m_suffix := mem'\<rparr>) ex) = Inr r'"
        by (rule suffix_post_recv_loop_step)
      from False step show ?thesis
        using "1.IH" [of mem l "(mem', ex)" mem' ex] by (auto simp: msg_tlv_attach_def)
    qed
  qed
  have body: "m_ptr (body_post_recv bo now r) = m_ptr r" for r
    by (simp add: body_post_recv_def Let_def timestamp_post_recv_def announce_post_recv_def)
  from assms obtain h pdulen where h: "hdr_post_recv bo (header m) = Inr h"
    and s: "suffix_post_recv bo alloc (body_post_recv bo now (m\<lparr>header := h\<rparr>)) (cnt - pdulen) = Inr m'"
    by (auto simp: msg_post_recv_def Let_def split: if_splits sum.splits option.splits)
  let ?b = "body_post_recv bo now (m\<lparr>header := h\<rparr>)"
  have "header m' = header ?b \<and> m_ptr m' = m_ptr ?b"
    using s loop suffix_post_recv_loop_header
    by (auto simp: suffix_post_recv_def split: if_splits)
  moreover have "tsmt h = tsmt (header m)"
    using h by (auto simp: hdr_post_recv_def split: if_splits)
  ultimately show "msg_type m' = msg_type m" "m_ptr m' = m_ptr m"
    by (simp_all add: msg_type_def body)
qed

lemma bc_receive_bal:
  assumes "keeps_port_books manage"
    and "no_match_pending p \<or> (\<forall>m cnt. input = Some (m, cnt) \<longrightarrow> msg_type m \<notin> {SYNC, FOLLOW_UP})"
  shows "bal L p L (fst (bc_receive manage e p c input))"
proof (cases "port_alloc e p")
  case (Pair q x)
  show ?thesis
  proof (cases x)
    case None
    with Pair show ?thesis by (auto simp: bc_receive_def dest: alloc_None_bal)
  next
    case (Some msg)
    have q: "bal L p (add_mset (m_ptr msg) L) q" using alloc_Some_bal Pair Some by blast
    have same: "p_state q = p_state p" "p_syfu q = p_syfu p"
      using Pair Some by (auto simp: port_alloc_def Let_def pget_def prefs_def split: option.splits)
    show ?thesis
    proof (cases input)
      case None
      with q show ?thesis by (simp add: bc_receive_def Pair Some put_step)
    next
      case (Some a)
      obtain data cnt where a: "a = (data, cnt)" by (cases a)
      let ?m = "data\<lparr>m_ptr := m_ptr msg, hwts := (hwts data)\<lparr>hw_type := p_timestamping q\<rparr>,
                    tlv_list := [], tlv_count := 0\<rparr>"
      show ?thesis
      proof (cases "msg_post_recv (env_bo e) (\<lambda>_. env_tlv e) (env_now e) ?m cnt")
        case (Inl err)
        with q show ?thesis
          by (simp add: bc_receive_def Pair \<open>x = Some msg\<close> Some a Let_def put_step)
      next
        case (Inr m')
        have "msg_type m' = msg_type data"
          using msg_post_recv_type(1) [OF Inr] by (simp add: msg_type_def)
        then have "bal (add_mset (m_ptr msg) L) q (add_mset (m_ptr msg) L) (fst (bc_accept manage e q c m'))"
          using assms Some a same by (intro bc_accept_bal) (auto simp: no_match_pending_def)
        from bal_trans [OF q this] Inr show ?thesis
          by (simp add: bc_receive_def Pair \<open>x = Some msg\<close> Some a Let_def split_beta put_step)
      qed
    qed
  qed
qed

text \<open>
  C6: no event of a port loses a message or drops one twice, unless a SLAVE port that holds a Sync or
  Follow_Up receives a message of these types (there one may be dropped twice, which is the subject of
  the last theorem of this theory).  For every other event of every descriptor (all timers, link
  notifications and received messages, whatever they contain, including failing allocations and
  transmissions) the references that the port holds afterwards, plus those that were dropped, are those
  it held before plus those that were taken, if the handler of management messages keeps these books.
\<close>

theorem message_references_balanced:
  assumes "table_wf (p_foreign_masters p)" and "keeps_port_books manage"
    and "no_match_pending p \<or> (\<forall>m cnt. ev = FdMessage (Some (m, cnt)) \<longrightarrow> msg_type m \<notin> {SYNC, FOLLOW_UP})"
    and "bc_event manage e p c ev = (q, c', event)"
  shows "table_wf (p_foreign_masters q) \<and>
    (\<exists>rs. p_refs q = p_refs p @ rs \<and> keeps_books (port_held p) rs (port_held q))"
proof -
  have "bal {#} p {#} (fst (bc_event manage e p c ev))"
  proof (cases ev)
    case (FdTimer t)
    have "bal {#} p {#} (fst (port_delay_request e (delay_req_prune (env_now e) (port_set_delay_tmo e p)) c))"
      by (intro bal_trans [OF bal_trans [OF _ delay_req_prune_bal] port_delay_request_bal]) simp
    moreover have "bal {#} p {#} (fst (port_tx_announce e (port_set_manno_tmo p) c))"
      by (intro bal_trans [OF _ port_tx_announce_bal]) simp
    moreover have "bal {#} p {#} (fst (port_tx_sync e (port_set_sync_tx_tmo p) c None))"
      by (intro bal_trans [OF _ port_tx_sync_bal]) simp
    ultimately show ?thesis
      by (cases t) (simp_all add: FdTimer bc_event_def Let_def split_beta announce_timeout_bal)
  next
    case (FdRtnl links)
    then show ?thesis
      using port_link_events_bal [of "{#}" p e links c] by (simp add: bc_event_def Let_def split_beta)
  next
    case (FdMessage input)
    then show ?thesis
      using bc_receive_bal [OF assms(2), of p input "{#}" e c] assms(3) by (simp add: bc_event_def Let_def)
  qed
  with assms(1,4) show ?thesis by (auto simp: bal_def)
qed

lemma message_references_balanced_witness:
  "\<exists>rs q. fst (bc_event (\<lambda>_ p c _. (p, c, False)) sample_env (sample_port PS_SLAVE) (sample_clock False)
       (FdTimer FD_DELAY_TIMER)) = q \<and>
     p_refs q = p_refs (sample_port PS_SLAVE) @ rs \<and>
     keeps_books (port_held (sample_port PS_SLAVE)) rs (port_held q)"
proof -
  let ?manage = "\<lambda>_ p c _. (p, c, False)" and ?p = "sample_port PS_SLAVE"
  let ?r = "bc_event ?manage sample_env ?p (sample_clock False) (FdTimer FD_DELAY_TIMER)"
  have "keeps_port_books ?manage" by (simp add: keeps_port_books_def)
  moreover have "table_wf (p_foreign_masters ?p)" "no_match_pending ?p"
    by (simp_all add: sample_port_def table_wf_def no_match_pending_def)
  moreover have "?r = (fst ?r, fst (snd ?r), snd (snd ?r))" by simp
  ultimately show ?thesis using message_references_balanced by blast
qed

subsection \<open>The exception\<close>

lemma port_disable_syfu: "p_syfu (port_disable p) = SF_EMPTY"
proof -
  have "p_syfu (flush_last_sync q) = SF_EMPTY" for q by (simp add: flush_last_sync_def)
  then show ?thesis
    by (simp add: port_disable_def Let_def flush_peer_delay_def pput_opt_prefs prefs_def flush_delay_req_def)
qed

text \<open>An empty slot stays empty in every transition.\<close>

lemma port_initialize_syfu: "p_syfu (fst (port_initialize e p)) = p_syfu p"
  by (simp add: port_initialize_def Let_def port_config_def port_nrate_initialize_def)

lemma port_state_update_syfu:
  assumes "p_syfu p = SF_EMPTY"
  shows "p_syfu (fst (port_state_update e p ev md)) = SF_EMPTY"
proof -
  have "p_syfu (fst (port_restart e p)) = SF_EMPTY"
    using assms by (simp add: port_restart_def split_beta port_initialize_syfu port_disable_syfu)
  then show ?thesis using assms by (simp add: port_state_update_def Let_def split_beta)
qed

lemma flush_syfu [simp]:
  "p_syfu (flush_last_sync p) = SF_EMPTY" "p_syfu (flush_peer_delay p) = p_syfu p"
  by (simp_all add: flush_last_sync_def flush_peer_delay_def)

lemma transition_syfu:
  assumes "p_syfu p = SF_EMPTY"
  shows "p_syfu (port_e2e_transition e c p s) = SF_EMPTY" "p_syfu (port_p2p_transition e c p s) = SF_EMPTY"
  using assms by (cases s; simp add: port_e2e_transition_def port_p2p_transition_def Let_def port_disable_syfu
      port_set_qualification_tmo_def port_set_sync_tx_tmo_def)+

lemma bc_transition_syfu:
  assumes "p_syfu p = SF_EMPTY"
  shows "p_syfu (fst (bc_transition e p c ev md)) = SF_EMPTY"
proof (cases "port_state_update e p ev md")
  case (Pair q changed)
  then have "p_syfu q = SF_EMPTY" using port_state_update_syfu [OF assms, of e ev md] by simp
  then show ?thesis by (cases changed) (simp_all add: bc_transition_def Pair transition_syfu)
qed

lemma lost_lock_dispatch_syfu:
  assumes "p_state p = PS_SLAVE"
  shows "p_syfu (fst (bc_dispatch e p c EV_SYNCHRONIZATION_FAULT False)) = SF_EMPTY"
proof -
  let ?t = "bc_transition e p c EV_SYNCHRONIZATION_FAULT False"
  have "next_state p EV_SYNCHRONIZATION_FAULT False = PS_UNCALIBRATED"
    using assms by (auto simp: next_state_def state_machine_def ptp_fsm_def ptp_slave_fsm_def)
  then have t: "p_syfu (fst ?t) = SF_EMPTY"
    using assms by (auto simp: bc_transition_def port_state_update_def Let_def
        port_e2e_transition_def port_p2p_transition_def)
  have "p_syfu (fst (bc_transition e (q\<lparr>p_last_fault_type := f\<rparr>) c EV_FAULT_DETECTED False)) = SF_EMPTY"
    if "p_syfu q = SF_EMPTY" for q f
    using that by (intro bc_transition_syfu) simp
  with t show ?thesis
    by (auto simp: bc_dispatch_def split: prod.split bool.split option.split)
qed

lemma clock_utc_correct_type: "clock_utc_correct fl c i = (c', r) \<Longrightarrow> c_type c' = c_type c"
proof -
  have a: "c_type (clock_apply_utc_offset k u) = c_type k" for k :: "'z clock_scheme" and u
    by (simp add: clock_apply_utc_offset_def Let_def clock_fx_def)
  have l: "clock_handle_leap fl k ts leap = (k', u) \<Longrightarrow> c_type k' = c_type k"
    for k k' :: "'z clock_scheme" and ts leap u
    by (auto simp: clock_handle_leap_def clock_fx_def split: prod.splits if_splits)
  assume "clock_utc_correct fl c i = (c', r)"
  then show ?thesis
    by (auto simp: clock_utc_correct_def Let_def a split: if_split_asm prod.split_asm dest: l)
qed

lemma clock_synchronize_type [simp]: "c_type (fst (clock_synchronize fl c a b)) = c_type c"
proof -
  have n: "c_type (clock_no_adjust fl k i g) = c_type k" for k :: "'z clock_scheme" and i g
    by (simp add: clock_no_adjust_def Let_def)
  have j: "c_type (fst (clock_adjust fl k i w)) = c_type k" for k :: "'z clock_scheme" and i w
    by (simp add: clock_adjust_def Let_def clock_fx_def split: prod.split servo_state.split)
  show ?thesis
    by (auto simp: clock_synchronize_def Let_def n j split: prod.split option.split bool.split
        dest: clock_utc_correct_type)
qed

text \<open>The ports of ordinary and boundary clocks.\<close>

definition bc_clock :: "'z clock_scheme \<Rightarrow> bool" where
  "bc_clock c \<longleftrightarrow> c_type c \<in> {CLOCK_TYPE_ORDINARY, CLOCK_TYPE_BOUNDARY}"

lemma bc_clock_dispatch: "bc_clock c \<Longrightarrow> port_dispatch e p c ev md = bc_dispatch e p c ev md"
  by (auto simp: bc_clock_def port_dispatch_def)

lemma bc_clock_synchronize [simp]: "bc_clock (fst (clock_synchronize fl c a b)) = bc_clock c"
  by (simp add: bc_clock_def)

lemma lost_lock_synchronize_syfu:
  assumes "bc_clock c" and "p_state p = PS_SLAVE"
    and "snd (clock_synchronize (env_fl e) c t (tmv_add (timestamp_to_tmv o')
      (tmv_add (correction_to_tmv c1) (correction_to_tmv c2)))) \<noteq> SERVO_LOCKED"
  shows "p_syfu (fst (port_synchronize e p c t o' c1 c2)) = SF_EMPTY"
  using assms by (auto simp: port_synchronize_def Let_def split_beta lost_lock_dispatch_syfu bc_clock_dispatch
      split: servo_state.split)

lemma last_syncfup_frame [simp]:
  "p_last_syncfup (pfx es p) = p_last_syncfup p" "p_last_syncfup (pput_opt x p) = p_last_syncfup p"
  "p_last_syncfup (flush_last_sync p) = p_last_syncfup p" "p_last_syncfup (flush_delay_req p) = p_last_syncfup p"
  "p_last_syncfup (flush_peer_delay p) = p_last_syncfup p" "p_last_syncfup (tc_flush p) = p_last_syncfup p"
  "p_last_syncfup (port_config cfg p) = p_last_syncfup p"
  "p_last_syncfup (port_nrate_initialize p) = p_last_syncfup p"
  by (simp_all add: pfx_def prefs_def pput_opt_prefs flush_last_sync_def flush_delay_req_def
      flush_peer_delay_def tc_flush_def port_config_def port_nrate_initialize_def pput_def)

lemma last_syncfup_timers [simp]:
  "p_last_syncfup (set_tmo_log t k n p) = p_last_syncfup p"
  "p_last_syncfup (port_set_announce_tmo e p) = p_last_syncfup p"
  "p_last_syncfup (port_set_delay_tmo e p) = p_last_syncfup p"
  "p_last_syncfup (port_set_qualification_tmo c p) = p_last_syncfup p"
  "p_last_syncfup (port_set_sync_rx_tmo p) = p_last_syncfup p"
  "p_last_syncfup (port_set_sync_tx_tmo p) = p_last_syncfup p"
  by (simp_all add: set_tmo_log_def port_set_announce_tmo_def set_tmo_random_def port_set_delay_tmo_def
      port_set_qualification_tmo_def port_set_sync_rx_tmo_def port_set_sync_tx_tmo_def split_beta)

lemma port_disable_last [simp]: "p_last_syncfup (port_disable p) = p_last_syncfup p"
proof -
  have "p_last_syncfup (prefs rs q) = p_last_syncfup q" for rs q by (simp add: prefs_def)
  then show ?thesis by (simp add: port_disable_def Let_def)
qed

lemma port_state_update_last [simp]: "p_last_syncfup (fst (port_state_update e p ev md)) = p_last_syncfup p"
  by (simp add: port_state_update_def port_restart_def port_initialize_def Let_def split_beta)

lemma transition_last [simp]:
  "p_last_syncfup (port_e2e_transition e c p s) = p_last_syncfup p"
  "p_last_syncfup (port_p2p_transition e c p s) = p_last_syncfup p"
  by (cases s; simp add: port_e2e_transition_def port_p2p_transition_def Let_def)+

lemma bc_transition_last [simp]: "p_last_syncfup (fst (bc_transition e p c ev md)) = p_last_syncfup p"
proof (cases "port_state_update e p ev md")
  case (Pair q changed)
  then have "p_last_syncfup q = p_last_syncfup p" using port_state_update_last [of e p ev md] by simp
  then show ?thesis by (cases changed) (simp_all add: bc_transition_def Pair)
qed

lemma bc_dispatch_last [simp]: "p_last_syncfup (fst (bc_dispatch e p c ev md)) = p_last_syncfup p"
proof (cases "bc_transition e p c ev md")
  case (Pair q b)
  then have "p_last_syncfup q = p_last_syncfup p" using bc_transition_last [of e p c ev md] by simp
  then show ?thesis by (auto simp: bc_dispatch_def Pair split: prod.split bool.split option.split)
qed

lemma port_dispatch_last [simp]: "p_last_syncfup (fst (port_dispatch e p c ev md)) = p_last_syncfup p"
proof -
  obtain q b where u: "port_state_update e p ev md = (q, b)" by fastforce
  then have "p_last_syncfup q = p_last_syncfup p" using port_state_update_last [of e p ev md] by simp
  then show ?thesis
    by (simp add: port_dispatch_def e2e_dispatch_def p2p_dispatch_def u tc_clear_timers_def Let_def
        split: clock_type.split bool.split port_state.split)
qed

lemma port_synchronize_last: "p_last_syncfup (fst (port_synchronize e p c t o' c1 c2)) = p_last_syncfup p"
  by (simp add: port_synchronize_def Let_def split_beta split: servo_state.split)

text \<open>
  when a matched pair of messages makes the servo lose its lock, the stored message is dropped
  once too often.  A port in SLAVE that holds a Sync message gets the Follow_Up message for it, and
  \<open>clock_synchronize\<close> does not return SERVO_LOCKED: the transition to UNCALIBRATED flushes the stored
  message, and \<open>port_syfufsm\<close> drops it again.
\<close>

theorem lost_lock_drops_message_twice:
  assumes "bc_clock c" and "table_wf (p_foreign_masters p)" and "p_state p = PS_SLAVE" and "p_syfu p = SF_HAVE_SYNC"
    and "snd (clock_synchronize (env_fl e) c (hwts_ts (p_last_syncfup p)) (tmv_add (timestamp_to_tmv (ts_pdu m))
      (tmv_add (correction_to_tmv (correction (header (p_last_syncfup p))))
        (correction_to_tmv (correction (header m)))))) \<noteq> SERVO_LOCKED"
    and "port_syfufsm e p c FUP_MATCH m = (q, c')"
  shows "\<exists>rs. p_refs q = p_refs p @ rs \<and>
    port_held p + mset (gets rs) + {#m_ptr (p_last_syncfup p)#} = port_held q + mset (puts rs)"
proof -
  let ?s = "port_synchronize e p c (hwts_ts (p_last_syncfup p)) (ts_pdu m)
    (correction (header (p_last_syncfup p))) (correction (header m))"
  have q: "q = drop_syncfup (fst ?s)"
    using assms(4,6) by (simp add: port_syfufsm_def Let_def split_beta)
  have empty: "p_syfu (fst ?s) = SF_EMPTY"
    using assms(1,3,5) by (rule lost_lock_synchronize_syfu)
  from port_synchronize_bal [of "{#}" p e c] assms(2) obtain rs where
    rs: "p_refs (fst ?s) = p_refs p @ rs" "keeps_books (port_held p) rs (port_held (fst ?s))"
    by (fastforce simp: bal_def)
  have "port_held q = port_held (fst ?s)"
    using empty by (simp add: q drop_syncfup_def pput_def prefs_def port_held_def syfu_held_def)
  with rs show ?thesis
    by (intro exI [of _ "rs @ [MsgPut (m_ptr (p_last_syncfup p))]"])
      (simp add: q drop_syncfup_def pput_def prefs_def port_synchronize_last keeps_books_def)
qed

text \<open>A Follow_Up message without an origin time stamp, with which the offset cannot be computed.\<close>

definition waiting_port :: port where
  "waiting_port = (sample_port PS_SLAVE)\<lparr>p_syfu := SF_HAVE_SYNC, p_last_syncfup := zero_msg 7\<rparr>"

lemma lost_lock_drops_message_twice_witness:
  "\<exists>rs q. q = fst (port_syfufsm sample_env waiting_port (sample_clock False) FUP_MATCH (zero_msg 8)) \<and>
     p_refs q = p_refs waiting_port @ rs \<and>
     port_held waiting_port + mset (gets rs) + {#7#} = port_held q + mset (puts rs)"
proof -
  let ?r = "port_syfufsm sample_env waiting_port (sample_clock False) FUP_MATCH (zero_msg 8)"
  have w: "p_syfu waiting_port = SF_HAVE_SYNC" "p_last_syncfup waiting_port = zero_msg 7"
    "p_state waiting_port = PS_SLAVE" "table_wf (p_foreign_masters waiting_port)"
    by (simp_all add: waiting_port_def sample_port_def table_wf_def)
  have z: "correction (header (zero_msg k)) = 0" "hwts_ts (zero_msg k) = tmv_zero"
    "ts_pdu (zero_msg k) = \<lparr>sec = 0, nsec = 0\<rparr>" "m_ptr (zero_msg k) = k" for k
    by (simp_all add: zero_msg_def zero_header_def)
  have "timestamp_to_tmv \<lparr>sec = 0, nsec = 0\<rparr> = tmv_zero" "correction_to_tmv 0 = tmv_zero"
    by (simp_all add: timestamp_to_tmv_def correction_to_tmv_def tmv_zero_def)
  then have off: "snd (clock_synchronize (env_fl sample_env) (sample_clock False) (hwts_ts (p_last_syncfup waiting_port))
      (tmv_add (timestamp_to_tmv (ts_pdu (zero_msg 8)))
        (tmv_add (correction_to_tmv (correction (header (p_last_syncfup waiting_port))))
          (correction_to_tmv (correction (header (zero_msg 8))))))) \<noteq> SERVO_LOCKED"
    by (simp add: w z clock_synchronize_def tsproc_update_offset_def tsproc_down_ts_def tmv_is_zero_def
        tmv_zero_def Let_def)
  have "bc_clock (sample_clock False)" by (simp add: bc_clock_def sample_clock_def Let_def)
  from lost_lock_drops_message_twice [OF this w(4,3,1) off prod.collapse [symmetric]] show ?thesis
    unfolding w(2) z(4) by blast
qed

end
