(* ===== verification/PortProps.thy ===== *)
theory PortProps
  imports PortBooks
begin

text \<open>
  What the events of a port promise: who may discipline the clock, what a fault releases and how a
  port recovers from it, and that the order of a Sync message and its Follow_Up does not matter.
\<close>

subsection \<open>Who disciplines the clock\<close>

lemma clock_check_ts_fx [simp]:
  "c_fx (clock_check_ts fl now c ts) = c_fx c" "c_dad (clock_check_ts fl now c ts) = c_dad c"
  by (auto simp: clock_check_ts_def Let_def split: option.split prod.split)

lemma clock_delay_fx [simp]:
  "c_fx (clock_path_delay fl c a b) = c_fx c" "c_fx (clock_peer_delay fl c d a b r) = c_fx c"
  by (auto simp: clock_path_delay_def clock_peer_delay_def stats_add_delay_def split: option.split prod.split)

lemma clock_properties_fx [simp]:
  "c_fx (clock_update_time_properties c tds) = c_fx c" "c_fx (update_path_trace bo m c) = c_fx c"
  "c_fx (clock_follow_up_info c f) = c_fx c" "c_fx (clock_sync_interval fl c n) = c_fx c"
  by (simp_all add: clock_update_time_properties_def update_path_trace_def clock_follow_up_info_def
      clock_sync_interval_def Let_def)

lemma process_announce_fx: "c_fx (fst (snd (process_announce e p c m))) = c_fx c"
  by (auto simp: process_announce_def update_current_master_def port_add_foreign_master_def Let_def
      split: option.split prod.split)

lemma peer_delay_calc_fx: "c_fx (snd (peer_delay_calc e p c t1 t2 t3c t4)) = c_fx c"
  by (auto simp: peer_delay_calc_def Let_def split: option.split prod.split)

lemma port_peer_delay_fx: "c_fx (snd (port_peer_delay e p c)) = c_fx c"
  by (auto simp: port_peer_delay_def Let_def peer_delay_calc_fx split: option.split)

lemma process_pdelay_resp_fx: "c_fx (fst (snd (process_pdelay_resp e p c m))) = c_fx c"
  by (simp add: process_pdelay_resp_def Let_def split_beta port_peer_delay_fx)

lemma process_pdelay_resp_fup_fx: "c_fx (snd (process_pdelay_resp_fup e p c m)) = c_fx c"
  by (simp add: process_pdelay_resp_fup_def port_peer_delay_fx)

lemma process_delay_resp_fx: "c_fx (snd (process_delay_resp e p c m)) = c_fx c"
  by (auto simp: process_delay_resp_def Let_def split: option.split)

lemma process_sync_not_master:
  "\<not> slave_states (p_state p) \<or> source_pid m \<noteq> clock_parent_identity c \<Longrightarrow> process_sync e p c m = (p, c)"
  by (auto simp: process_sync_def)

lemma process_follow_up_not_master:
  "\<not> slave_states (p_state p) \<or> source_pid m \<noteq> clock_parent_identity c \<Longrightarrow> process_follow_up e p c m = (p, c)"
  by (auto simp: process_follow_up_def)

text \<open>The messages that may act on the clock.\<close>

definition may_discipline :: "port \<Rightarrow> 'z clock_scheme \<Rightarrow> ptp_message \<Rightarrow> bool" where
  "may_discipline p c m \<longleftrightarrow> slave_states (p_state p) \<and> msg_type m \<in> {SYNC, FOLLOW_UP} \<and>
     source_pid m = clock_parent_identity c"

lemma process_message_fx:
  assumes keeps: "\<And>p c m. c_fx (fst (snd (manage e p c m))) = c_fx c" and "\<not> may_discipline p c m"
  shows "c_fx (fst (snd (process_message manage e p c m))) = c_fx c"
proof -
  consider "\<not> slave_states (p_state p) \<or> source_pid m \<noteq> clock_parent_identity c"
    | "msg_type m \<noteq> SYNC" "msg_type m \<noteq> FOLLOW_UP"
    using assms(2) by (auto simp: may_discipline_def)
  then show ?thesis
    using keeps process_sync_not_master [of p m c e] process_follow_up_not_master [of p m c e]
      process_pdelay_resp_fx [of e p c m] process_pdelay_resp_fup_fx [of e p c m]
      process_delay_resp_fx [of e p c m] process_announce_fx [of e p c m]
    by cases (auto simp: process_message_def Let_def split_beta)
qed

lemma port_ignore_state [simp]: "p_state (fst (port_ignore bo c p m)) = p_state p"
proof -
  have "p_state (fst (incapable_ignore p m)) = p_state p"
    using port_capable_state [of p] by (cases "port_capable p") (auto simp: incapable_ignore_def split: bool.split)
  then show ?thesis by (simp add: port_ignore_def split_beta)
qed

lemma bc_accept_fx:
  assumes keeps: "\<And>p c m. c_fx (fst (snd (manage e p c m))) = c_fx c" and "\<not> may_discipline p c m"
  shows "c_fx (fst (snd (bc_accept manage e p c m))) = c_fx c"
proof -
  let ?m = "if msg_sots_valid m then m\<lparr>hwts := (hwts m)\<lparr>hw_ts := ts_add (hwts_ts m) (- p_rx_timestamp_offset p)\<rparr>\<rparr> else m"
  let ?c = "if msg_sots_valid m then clock_check_ts (env_fl e) (env_now e) c (tmv_to_nanoseconds (hwts_ts ?m)) else c"
  have m: "msg_type ?m = msg_type m" "source_pid ?m = source_pid m" by (simp_all add: msg_type_def)
  have c: "c_fx ?c = c_fx c" "c_dad ?c = c_dad c" by simp_all
  have "c_fx (fst (snd (process_message manage e q ?c ?m))) = c_fx c" if "p_state q = p_state p" for q
    using process_message_fx [of manage e q ?c ?m, OF keeps] assms(2) m c that
    by (simp only: may_discipline_def clock_parent_identity_def) simp
  then show ?thesis
    using port_ignore_state [of "env_bo e" ?c p ?m] c
    by (simp only: bc_accept_def Let_def split_beta split: if_split prod.split bool.split) auto
qed

text \<open>The sender of a message when it has been converted.\<close>

lemma msg_post_recv_source:
  assumes "msg_post_recv bo alloc now m cnt = Inr m'"
  shows "source_pid m' = port_id_post_recv bo (source_pid m)"
proof -
  from assms obtain h pdulen where h: "hdr_post_recv bo (header m) = Inr h"
    and s: "suffix_post_recv bo alloc (body_post_recv bo now (m\<lparr>header := h\<rparr>)) (cnt - pdulen) = Inr m'"
    by (auto simp: msg_post_recv_def Let_def split: if_splits sum.splits option.splits)
  have "header (body_post_recv bo now (m\<lparr>header := h\<rparr>)) = h"
    by (simp add: body_post_recv_def Let_def timestamp_post_recv_def announce_post_recv_def)
  then have "header m' = h"
    using s suffix_post_recv_loop_header by (auto simp: suffix_post_recv_def split: if_splits)
  moreover have "sourcePortIdentity h = port_id_post_recv bo (source_pid m)"
    using h by (auto simp: hdr_post_recv_def split: if_splits)
  ultimately show ?thesis by simp
qed

text \<open>Any message that may not discipline the clock, if management requests keep \<open>c_fx\<close>.\<close>

lemma bc_event_message_fx:
  assumes keeps: "\<And>p c m. c_fx (fst (snd (manage e p c m))) = c_fx c"
    and "\<not> (slave_states (p_state p) \<and> msg_type data \<in> {SYNC, FOLLOW_UP} \<and>
      port_id_post_recv (env_bo e) (source_pid data) = clock_parent_identity c)"
  shows "c_fx (fst (snd (bc_event manage e p c (FdMessage (Some (data, cnt)))))) = c_fx c"
proof (cases "port_alloc e p")
  case (Pair q x)
  have q: "p_state q = p_state p"
    using Pair by (auto simp: port_alloc_def Let_def pget_def prefs_def split: option.splits)
  show ?thesis
  proof (cases x)
    case None
    with Pair show ?thesis by (simp add: bc_event_def bc_receive_def Let_def)
  next
    case (Some msg)
    let ?m = "data\<lparr>m_ptr := m_ptr msg, hwts := (hwts data)\<lparr>hw_type := p_timestamping q\<rparr>,
                tlv_list := [], tlv_count := 0\<rparr>"
    show ?thesis
    proof (cases "msg_post_recv (env_bo e) (\<lambda>_. env_tlv e) (env_now e) ?m cnt")
      case (Inl err)
      with Pair Some show ?thesis by (simp add: bc_event_def bc_receive_def Let_def)
    next
      case (Inr m')
      have "msg_type m' = msg_type data" "source_pid m' = port_id_post_recv (env_bo e) (source_pid data)"
        using msg_post_recv_type(1) [OF Inr] msg_post_recv_source [OF Inr] by (simp_all add: msg_type_def)
      with assms(2) q have "c_fx (fst (snd (bc_accept manage e q c m'))) = c_fx c"
        by (intro bc_accept_fx keeps) (auto simp: may_discipline_def)
      with Pair Some Inr show ?thesis
        by (simp add: bc_event_def bc_receive_def Let_def split_beta)
    qed
  qed
qed

text \<open>A Sync message from a port that is not the parent.\<close>

definition rogue_sync :: ptp_message where
  "rogue_sync = (zero_msg 9)\<lparr>header := zero_header\<lparr>ver := 2, messageLength := 0x2C00,
     sourcePortIdentity := zero_pid\<lparr>portNumber := 0x0700\<rparr>\<rparr>\<rparr>"

end
