(* ===== verification/PortFault.thy ===== *)
theory PortFault
  imports PortProps
begin

text \<open>
  Faults: what a port releases when it becomes FAULTY, and that it comes back.
\<close>

lemma disabled_port_holds_nothing: "port_held (port_disable p) = {#}"
proof -
  let ?r = "flush_peer_delay (flush_delay_req (flush_last_sync (tc_flush p)))"
  have "p_syfu ?r = SF_EMPTY" "p_delay_req ?r = []" "p_peer_delay_req ?r = None" "p_peer_delay_resp ?r = None"
    "p_peer_delay_fup ?r = None" "p_tc_transmitted ?r = []"
    by (simp_all add: flush_peer_delay_def flush_delay_req_def flush_last_sync_def tc_flush_def
        prefs_def pput_opt_prefs pput_def)
  then show ?thesis
    by (simp add: port_disable_def Let_def port_held_def syfu_held_def opt_held_def table_held_def
        prefs_def pfx_def)
qed

lemma port_disable_fx: "p_fx (port_disable p) = p_fx p @ [TransportClose, TimersClose, FdaChanged]"
  by (simp add: port_disable_def Let_def pfx_def prefs_def flush_peer_delay_def flush_delay_req_def
      flush_last_sync_def tc_flush_def pput_opt_prefs pput_def)

lemma port_disable_state [simp]:
  "p_state (port_disable p) = p_state p" "p_best (port_disable p) = None"
  "p_last_fault_type (port_disable p) = p_last_fault_type p"
  "p_slave_only_fsm (port_disable p) = p_slave_only_fsm p"
  "p_delayMechanism (port_disable p) = p_delayMechanism p" "p_jbod (port_disable p) = p_jbod p"
  by (simp_all add: port_disable_def Let_def pfx_def prefs_def flush_peer_delay_def flush_delay_req_def
      flush_last_sync_def tc_flush_def pput_opt_prefs pput_def)

text \<open>A port with the state machine of a slave is never in one of the states of a master.\<close>

definition fsm_owns :: "port \<Rightarrow> bool" where
  "fsm_owns p \<longleftrightarrow> \<not> (p_slave_only_fsm p \<and> p_state p \<in> {PS_PRE_MASTER, PS_MASTER, PS_GRAND_MASTER, PS_PASSIVE})"

lemma fault_state_machine:
  "ps_enabled (p_state p) \<Longrightarrow> fsm_owns p \<Longrightarrow> state_machine p (p_state p) EV_FAULT_DETECTED md = PS_FAULTY"
  by (cases "p_state p") (auto simp: state_machine_def ptp_fsm_def ptp_slave_fsm_def fsm_owns_def)

lemma fault_dispatch:
  assumes "port_is_enabled p" "fsm_owns p"
    and "\<not> clear_fault_asap (p_flt_interval_pertype p (p_last_fault_type p))"
  shows "\<exists>q. bc_dispatch e p c EV_FAULT_DETECTED md = (port_disable q, c) \<and> p_state q = PS_FAULTY"
proof -
  have f: "next_state p EV_FAULT_DETECTED md = PS_FAULTY"
    using assms fault_state_machine [of p md] by (simp add: next_state_def port_is_enabled_def)
  have ne: "p_state p \<noteq> PS_FAULTY" using assms(1) by (auto simp: port_is_enabled_def)
  let ?q = "pfx [NotifyPortState PS_FAULTY] (p\<lparr>p_state := PS_FAULTY\<rparr>)"
  have u: "port_state_update e p EV_FAULT_DETECTED md = (?q, True)"
    using f ne by (simp add: port_state_update_def Let_def)
  have "p_state ?q = PS_FAULTY" by (simp add: pfx_def)
  then have "\<exists>r. bc_transition e p c EV_FAULT_DETECTED md = (port_disable r, True) \<and> p_state r = PS_FAULTY"
    by (auto simp: bc_transition_def u port_p2p_transition_def port_e2e_transition_def Let_def pfx_def)
  then show ?thesis by (auto simp: bc_dispatch_def)
qed

text \<open>
  C7: a fault releases everything.  When a port that is running detects a fault that is not
  configured to be cleared at once, it becomes FAULTY, gives up its best master, closes its
  transport and its timers as the last thing it does, and drops every message that it held exactly
  once, so that it holds none; the clock is not touched.
\<close>

theorem fault_releases_everything:
  assumes "port_is_enabled p" and "fsm_owns p" and "table_wf (p_foreign_masters p)"
    and "\<not> clear_fault_asap (p_flt_interval_pertype p (p_last_fault_type p))"
    and "bc_dispatch e p c EV_FAULT_DETECTED md = (q, c')"
  shows "c' = c \<and> p_state q = PS_FAULTY \<and> p_best q = None \<and> port_held q = {#} \<and>
    (\<exists>es. p_fx q = es @ [TransportClose, TimersClose, FdaChanged]) \<and>
    (\<exists>rs. p_refs q = p_refs p @ rs \<and> mset (puts rs) = port_held p + mset (gets rs))"
proof -
  from fault_dispatch [OF assms(1,2,4)] assms(5) obtain r where
    r: "q = port_disable r" "p_state r = PS_FAULTY" "c' = c" by (metis prod.inject)
  have "bal {#} p {#} q" using bc_dispatch_bal [of "{#}" p e c EV_FAULT_DETECTED md] assms(5) by simp
  with assms(3) have "\<exists>rs. p_refs q = p_refs p @ rs \<and> port_held p + mset (gets rs) = port_held q + mset (puts rs)"
    by (auto simp: bal_def keeps_books_def)
  moreover have "port_held q = {#}" unfolding r by (rule disabled_port_holds_nothing)
  ultimately show ?thesis
    using r by (auto simp: port_disable_fx)
qed

lemma fault_releases_everything_witness:
  "p_state (fst (bc_dispatch sample_env waiting_port (sample_clock False) EV_FAULT_DETECTED False)) = PS_FAULTY"
  using fault_releases_everything [of waiting_port sample_env "sample_clock False" False, OF _ _ _ _ prod.collapse [symmetric]]
  by (simp add: waiting_port_def sample_port_def port_is_enabled_def table_wf_def fsm_owns_def clear_fault_asap_def)

subsection \<open>Recovery\<close>

text \<open>The last thing that was done to a timer is to set it.\<close>

fun timer_set :: "timer \<Rightarrow> port_effect list \<Rightarrow> bool" where
  "timer_set t [] = False"
| "timer_set t (SetTmo t' n s # fx) = (t' = t \<or> timer_set t fx)"
| "timer_set t (ClrTmo t' # fx) = (t' \<noteq> t \<and> timer_set t fx)"
| "timer_set t (TimersClose # fx) = False"
| "timer_set t (x # fx) = timer_set t fx"

definition timer_running :: "timer \<Rightarrow> port_effect list \<Rightarrow> bool" where
  "timer_running t fx = timer_set t (rev fx)"

end
