(* ===== verification/Shutdown.thy ===== *)
theory Shutdown
  imports ClockPorts PortFault
begin

text \<open>
  The end of a clock: \<open>clock_destroy\<close> with \<open>clock_flush_subscriptions\<close> and \<open>clock_remove_port\<close> of src/clock.c, and
  \<open>port_close\<close> of src/port.c.  \<open>rtnl\<close> says whether a port has a netlink socket; the other descriptors of a port
  are closed when it is disabled.
\<close>

datatype close_effect = RtnlClose | TransportDestroy | TsprocDestroy | FaultFdClose

text \<open>The port as it is when its memory is freed; only the port of the local socket, number 0, has no fault timer.\<close>

definition port_close :: "bool \<Rightarrow> port \<Rightarrow> port \<times> close_effect list" where
  "port_close rtnl p =
    (if port_is_enabled p then port_disable p else p,
     (if rtnl then [RtnlClose] else []) @ [TransportDestroy, TsprocDestroy] @ (if portnum p \<noteq> 0 then [FaultFdClose] else []))"

definition clock_flush_subscriptions :: "'z clock_scheme \<Rightarrow> 'z clock_scheme" where
  "clock_flush_subscriptions c = c\<lparr>c_subscribers := []\<rparr>"

definition clock_remove_port :: "(port \<Rightarrow> bool) \<Rightarrow> port \<Rightarrow> 'z system_scheme \<Rightarrow> 'z system_scheme \<times> port \<times> close_effect list" where
  "clock_remove_port rtnl p c = (c\<lparr>c_ports := remove1 p (c_ports c)\<rparr>, port_close (rtnl p) p)"

text \<open>The clock before its memory is cleared, the ports that were closed, and whether a hardware clock is closed.\<close>

definition clock_destroy ::
  "(port \<Rightarrow> bool) \<Rightarrow> 'z system_scheme \<Rightarrow> 'z system_scheme \<times> (port \<times> close_effect list) list \<times> bool" where
  "clock_destroy rtnl c =
    (case fold (\<lambda>p (c, gone). case clock_remove_port rtnl p c of (c, r) \<Rightarrow> (c, gone @ [r]))
         (c_ports c) (clock_flush_subscriptions c, []) of
       (c, gone) \<Rightarrow> (c, gone @ [port_close (rtnl (c_uds c)) (c_uds c)], \<not> c_realtime c))"

lemma remove_loop:
  "fold (\<lambda>p (c, gone). case clock_remove_port rtnl p c of (c, r) \<Rightarrow> (c, gone @ [r])) ps (c, gone) =
    (c\<lparr>c_ports := fold remove1 ps (c_ports c)\<rparr>, gone @ map (\<lambda>p. port_close (rtnl p) p) ps)"
  by (induction ps arbitrary: c gone) (simp_all add: clock_remove_port_def)

lemma remove_all: "fold remove1 ps ps = []"
  by (induction ps) simp_all

definition released :: "port \<Rightarrow> port \<Rightarrow> bool" where
  "released p q \<longleftrightarrow> port_held q = {#} \<and> (\<exists>rs. p_refs q = p_refs p @ rs \<and> mset (puts rs) = port_held p + mset (gets rs))"

lemma close_releases:
  assumes "table_wf (p_foreign_masters p)" and "port_is_enabled p \<or> port_held p = {#}"
  shows "released p (fst (port_close rtnl p))"
proof (cases "port_is_enabled p")
  case True
  have "\<exists>rs. p_refs (port_disable p) = p_refs p @ rs \<and> mset (puts rs) = port_held p + mset (gets rs)"
    using port_disable_bal [of "{#}" p] assms(1) disabled_port_holds_nothing [of p] by (auto simp: bal_def keeps_books_def)
  then show ?thesis using True by (simp add: released_def port_close_def disabled_port_holds_nothing)
next
  case False
  then show ?thesis using assms(2) by (auto simp: released_def port_close_def intro: exI [of _ "[]"])
qed

text \<open>
  A clock that is destroyed gives everything back: no port and no subscriber is left, and every port, the one of
  the local socket included, has dropped each message it held exactly once, if those that are not enabled held none.
\<close>

theorem destroy_releases_everything:
  assumes "\<forall>p \<in> set (c_ports c @ [c_uds c]). table_wf (p_foreign_masters p) \<and> (port_is_enabled p \<or> port_held p = {#})"
    and "clock_destroy rtnl c = (c', gone, phc)"
  shows "c_ports c' = [] \<and> c_subscribers c' = [] \<and> list_all2 released (c_ports c @ [c_uds c]) (map fst gone)"
proof -
  have "c' = (clock_flush_subscriptions c)\<lparr>c_ports := []\<rparr>"
    "gone = map (\<lambda>p. port_close (rtnl p) p) (c_ports c @ [c_uds c])"
    using assms(2) by (simp_all add: clock_destroy_def remove_loop remove_all clock_flush_subscriptions_def)
  moreover have "list_all2 released ps (map fst (map (\<lambda>p. port_close (rtnl p) p) ps))"
    if "\<forall>p \<in> set ps. table_wf (p_foreign_masters p) \<and> (port_is_enabled p \<or> port_held p = {#})" for ps
    using that close_releases by (induction ps) auto
  ultimately show ?thesis
    using assms(1) by (simp only: clock_flush_subscriptions_def clock.simps system.simps simp_thms) simp
qed

end
