(* ===== verification/Hash.thy ===== *)
theory Hash
  imports Prelude
begin

text \<open>
  The hash table that holds the configuration (src/hash.c): 200 chains of nodes, the newest node
  of a chain first.  A C string is the list of its characters without the terminating NUL.
  A client sees a table of symbols: the locale \<open>symbol_table\<close> states what it relies on, and the hash
  table is an interpretation of it.
\<close>

subsection \<open>The table\<close>

abbreviation (input) HASH_TABLE_SIZE :: nat where "HASH_TABLE_SIZE \<equiv> 200"

text \<open>\<open>char\<close> is a signed type with 8 bits.\<close>

definition char_value :: "char \<Rightarrow> u32" where
  "char_value c = scast (of_char c :: i8)"

definition hash_function :: "string \<Rightarrow> nat" where
  "hash_function s = unat (fold (\<lambda>c i. 131 * i + char_value c) s (0 :: u32) mod 200)"

type_synonym 'a hash = "(string \<times> 'a) list list"

definition hash_create :: "'a hash" where
  "hash_create = replicate HASH_TABLE_SIZE []"

definition hash_lookup :: "'a hash \<Rightarrow> string \<Rightarrow> 'a option" where
  "hash_lookup ht key = map_of (ht ! hash_function key) key"

text \<open>None: the key is there already, or the node cannot be allocated; the table stays as it is.\<close>

definition hash_insert :: "bool \<Rightarrow> 'a hash \<Rightarrow> string \<Rightarrow> 'a \<Rightarrow> 'a hash option" where
  "hash_insert mem ht key data =
    (let h = hash_function key
     in if map_of (ht ! h) key \<noteq> None then None
        else if \<not> mem then None
        else Some (ht[h := (key, data) # ht ! h]))"

text \<open>The data that \<open>hash_destroy\<close> hands to its function, in this order.\<close>

definition hash_destroy :: "'a hash \<Rightarrow> 'a list" where
  "hash_destroy ht = map snd (concat ht)"

subsection \<open>Invariant\<close>

lemma hash_function_less [simp]: "hash_function s < HASH_TABLE_SIZE"
  unfolding hash_function_def by (simp add: unat_mod)

definition chain_wf :: "nat \<Rightarrow> (string \<times> 'a) list \<Rightarrow> bool" where
  "chain_wf h xs \<longleftrightarrow> distinct (map fst xs) \<and> hash_function ` fst ` set xs \<subseteq> {h}"

definition hash_wf :: "'a hash \<Rightarrow> bool" where
  "hash_wf ht \<longleftrightarrow> length ht = HASH_TABLE_SIZE \<and> (\<forall>h < HASH_TABLE_SIZE. chain_wf h (ht ! h))"

lemma chain_wf_Cons: "chain_wf h ((k, d) # xs) \<longleftrightarrow> chain_wf h xs \<and> k \<notin> fst ` set xs \<and> hash_function k = h"
  by (auto simp: chain_wf_def)

lemma chain_wf_key: "chain_wf h xs \<Longrightarrow> (k, d) \<in> set xs \<Longrightarrow> hash_function k = h"
  by (force simp: chain_wf_def)

lemma hash_create_wf [ptp_wf_intros]: "hash_wf hash_create"
  by (simp add: hash_wf_def hash_create_def chain_wf_def)

lemma hash_insert_wf [ptp_wf_intros]:
  assumes "hash_wf ht" and "hash_insert mem ht key data = Some ht'"
  shows "hash_wf ht'"
proof -
  have "ht' = ht[hash_function key := (key, data) # ht ! hash_function key]" "key \<notin> fst ` set (ht ! hash_function key)"
    using assms(2) by (auto simp: hash_insert_def Let_def map_of_eq_None_iff split: if_splits)
  moreover have "chain_wf (hash_function key) (ht ! hash_function key)"
    using assms(1) hash_function_less [of key] by (simp add: hash_wf_def)
  ultimately show ?thesis using assms(1) by (simp add: hash_wf_def nth_list_update chain_wf_Cons)
qed

lemma hash_lookup_create [simp]: "hash_lookup hash_create k = None"
  by (simp add: hash_lookup_def hash_create_def)

lemma hash_insert_None: "hash_insert True ht key data = None \<longleftrightarrow> hash_lookup ht key \<noteq> None"
  by (auto simp: hash_insert_def hash_lookup_def Let_def)

lemma hash_lookup_insert:
  "hash_wf ht \<Longrightarrow> hash_insert mem ht key data = Some ht' \<Longrightarrow> hash_lookup ht' k = (if k = key then Some data else hash_lookup ht k)"
  by (auto simp: hash_wf_def hash_insert_def hash_lookup_def Let_def nth_list_update split: if_splits)

lemma hash_lookup_node:
  assumes "hash_wf ht"
  shows "hash_lookup ht k = Some d \<longleftrightarrow> (k, d) \<in> set (concat ht)"
proof -
  have chain: "chain_wf h (ht ! h)" if "h < HASH_TABLE_SIZE" for h using assms that by (simp add: hash_wf_def)
  have "(k, d) \<in> set (concat ht) \<longleftrightarrow> (\<exists>h<HASH_TABLE_SIZE. (k, d) \<in> set (ht ! h))"
    using assms by (fastforce simp: hash_wf_def in_set_conv_nth)
  also have "\<dots> \<longleftrightarrow> (k, d) \<in> set (ht ! hash_function k)"
    using chain_wf_key [OF chain, of _ k d] hash_function_less [of k] by blast
  also have "\<dots> \<longleftrightarrow> map_of (ht ! hash_function k) k = Some d"
    using chain [OF hash_function_less, of k] by (simp add: chain_wf_def)
  finally show ?thesis by (simp add: hash_lookup_def)
qed

lemma hash_wf_nodes:
  assumes "hash_wf ht"
  shows "distinct (map fst (concat ht))"
proof -
  have "distinct (map fst (concat (take n ht))) \<and> hash_function ` fst ` set (concat (take n ht)) \<subseteq> {..<n}"
    if "n \<le> HASH_TABLE_SIZE" for n
    using that
  proof (induction n)
    case (Suc n)
    have n: "take (Suc n) ht = take n ht @ [ht ! n]" "chain_wf n (ht ! n)"
      using assms Suc.prems by (simp_all add: hash_wf_def take_Suc_conv_app_nth)
    then have "fst ` set (concat (take n ht)) \<inter> fst ` set (ht ! n) = {}"
      using Suc by (fastforce simp: chain_wf_def simp del: set_concat)
    with Suc n have "distinct (map fst (concat (take (Suc n) ht)))" by (simp add: chain_wf_def del: set_concat)
    moreover have "hash_function ` fst ` set (concat (take (Suc n) ht)) \<subseteq> {..<n} \<union> {n}"
      using Suc n by (simp add: chain_wf_def image_Un del: set_concat) blast
    moreover have "{..<n} \<union> {n} = {..<Suc n}" by auto
    ultimately show ?case by simp
  qed simp
  from this [of HASH_TABLE_SIZE] show ?thesis using assms by (simp add: hash_wf_def)
qed

subsection \<open>Tables of symbols\<close>

locale symbol_table =
  fixes empty :: 't and insert :: "'t \<Rightarrow> 'k \<Rightarrow> 'v \<Rightarrow> 't option" and lookup :: "'t \<Rightarrow> 'k \<Rightarrow> 'v option"
    and inv :: "'t \<Rightarrow> bool"
  assumes inv_empty: "inv empty"
    and lookup_empty: "lookup empty k = None"
    and insert_None: "insert t k v = None \<longleftrightarrow> lookup t k \<noteq> None"
    and inv_insert: "inv t \<Longrightarrow> insert t k v = Some t' \<Longrightarrow> inv t'"
    and lookup_insert: "inv t \<Longrightarrow> insert t k v = Some t' \<Longrightarrow> lookup t' j = (if j = k then Some v else lookup t j)"
begin

text \<open>Insertions one after the other, those that fail left out.\<close>

definition insert_all :: "('k \<times> 'v) list \<Rightarrow> 't \<Rightarrow> 't" where
  "insert_all kvs t = fold (\<lambda>(k, v) t. case insert t k v of None \<Rightarrow> t | Some t' \<Rightarrow> t') kvs t"

lemma insert_all_Cons: "insert_all ((k, v) # kvs) t = insert_all kvs (case insert t k v of None \<Rightarrow> t | Some t' \<Rightarrow> t')"
  by (simp add: insert_all_def)

lemma insert_all_spec:
  assumes "inv t"
  shows "inv (insert_all kvs t) \<and> lookup (insert_all kvs t) = map_of kvs ++ lookup t"
proof -
  have "inv (insert_all kvs t) \<and> lookup (insert_all kvs t) j = (case lookup t j of None \<Rightarrow> map_of kvs j | Some v \<Rightarrow> Some v)" for j
    using assms
  proof (induction kvs arbitrary: t)
    case Nil
    then show ?case by (simp add: insert_all_def split: option.split)
  next
    case (Cons kv kvs)
    obtain k v where kv: "kv = (k, v)" by fastforce
    show ?case
    proof (cases "insert t k v")
      case None
      with insert_None have "lookup t k \<noteq> None" by blast
      with None Cons show ?thesis by (auto simp: kv insert_all_Cons split: option.split)
    next
      case (Some t')
      then have "lookup t k = None" by (metis insert_None option.distinct(1))
      with Some Cons.IH [of t'] inv_insert [OF Cons.prems Some] lookup_insert [OF Cons.prems Some] show ?thesis
        by (auto simp: kv insert_all_Cons split: option.split)
    qed
  qed
  then show ?thesis by (auto simp: fun_eq_iff map_add_def)
qed

end

interpretation hash: symbol_table hash_create "hash_insert True" hash_lookup hash_wf
  by unfold_locales (simp_all add: hash_create_wf hash_insert_wf hash_insert_None hash_lookup_insert)

text \<open>
  the hash table is a map.  After any sequence of insertions a lookup yields the data that was
  inserted first for the key and nothing for a key that was never inserted, however the keys collide,
  and \<open>hash_destroy\<close> visits as many data as there are different keys.
\<close>

theorem hash_refines_map:
  "hash_lookup (fold (\<lambda>(k, d) ht. case hash_insert True ht k d of None \<Rightarrow> ht | Some ht' \<Rightarrow> ht') kds hash_create) = map_of kds \<and>
   length (hash_destroy (fold (\<lambda>(k, d) ht. case hash_insert True ht k d of None \<Rightarrow> ht | Some ht' \<Rightarrow> ht') kds hash_create)) =
     card (fst ` set kds)"
proof -
  let ?ht = "hash.insert_all kds hash_create"
  have ht: "hash_wf ?ht" "hash_lookup ?ht = map_of kds"
    using hash.insert_all_spec [OF hash.inv_empty, of kds] by (auto simp: fun_eq_iff map_add_def)
  have "length (hash_destroy ?ht) = card (fst ` set (concat ?ht))"
    using distinct_card [OF hash_wf_nodes [OF ht(1)]] by (simp add: hash_destroy_def del: set_concat)
  also have "fst ` set (concat ?ht) = dom (hash_lookup ?ht)"
    using hash_lookup_node [OF ht(1)] by (force simp: dom_def image_iff)
  finally show ?thesis using ht by (simp add: hash.insert_all_def dom_map_of_conv_image_fst)
qed

end
