(* ===== verification/Parse.thy ===== *)
theory Parse
  imports Complex_Main Ddt
begin

text \<open>
  Reading numbers, addresses and identities from text, and growing arrays (src/util.c).  The parts of
  the C library that are used are modelled as the C standard has them, in the C locale with a \<open>long\<close>
  of 64 bits; \<open>strtod\<close> is a parameter.  A C string is the list of its characters without the
  terminating NUL.
\<close>

subsection \<open>Characters\<close>

definition isspace :: "char \<Rightarrow> bool" where
  "isspace c \<longleftrightarrow> c \<in> {CHR '' '', CHR 0x09, CHR 0x0A, CHR 0x0B, CHR 0x0C, CHR 0x0D}"

definition digit_value :: "char \<Rightarrow> nat option" where
  "digit_value c = (let n = of_char c :: nat
     in if 48 \<le> n \<and> n \<le> 57 then Some (n - 48)
        else if 97 \<le> n \<and> n \<le> 122 then Some (n - 87)
        else if 65 \<le> n \<and> n \<le> 90 then Some (n - 55)
        else None)"

definition is_digit :: "nat \<Rightarrow> char \<Rightarrow> bool" where
  "is_digit base c \<longleftrightarrow> (case digit_value c of None \<Rightarrow> False | Some d \<Rightarrow> d < base)"

definition number_of :: "nat \<Rightarrow> string \<Rightarrow> nat" where
  "number_of base s = fold (\<lambda>c n. base * n + the (digit_value c)) s 0"

definition digit_char :: "nat \<Rightarrow> char" where
  "digit_char d = char_of (if d < 10 then 48 + d else 87 + d)"

text \<open>\<open>%d\<close> and \<open>%02x\<close>.\<close>

fun show_nat :: "nat \<Rightarrow> string" where
  "show_nat n = (if n < 10 then [digit_char n] else show_nat (n div 10) @ [digit_char (n mod 10)])"

declare show_nat.simps [simp del]

definition show_int :: "int \<Rightarrow> string" where
  "show_int i = (if i < 0 then CHR ''-'' # show_nat (nat (- i)) else show_nat (nat i))"

definition hex2 :: "u8 \<Rightarrow> string" where
  "hex2 b = [digit_char (unat b div 16), digit_char (unat b mod 16)]"

subsection \<open>Numbers\<close>

text \<open>
  The subject sequence of \<open>strtol\<close> and \<open>strtoul\<close> with base 0: the sign, the value and what follows;
  None when there is no number.
\<close>

definition split_sign :: "string \<Rightarrow> bool \<times> string" where
  "split_sign s = (case s of [] \<Rightarrow> (False, s)
     | c # r \<Rightarrow> if c = CHR ''-'' then (True, r) else if c = CHR ''+'' then (False, r) else (False, s))"

definition split_base :: "string \<Rightarrow> nat \<times> string" where
  "split_base s = (case s of
     c # x # d # r \<Rightarrow> if c = CHR ''0'' \<and> (x = CHR ''x'' \<or> x = CHR ''X'') \<and> is_digit 16 d then (16, d # r)
       else if c = CHR ''0'' then (8, s) else (10, s)
   | c # r \<Rightarrow> (if c = CHR ''0'' then 8 else 10, s)
   | [] \<Rightarrow> (10, s))"

definition strto_number :: "string \<Rightarrow> (bool \<times> nat \<times> string) option" where
  "strto_number s =
    (let (neg, s) = split_sign (dropWhile isspace s); (base, s) = split_base s;
         ds = takeWhile (is_digit base) s
     in if ds = [] then None else Some (neg, number_of base ds, dropWhile (is_digit base) s))"

abbreviation (input) LONG_MAX :: int where "LONG_MAX \<equiv> 2 ^ 63 - 1"
abbreviation (input) LONG_MIN :: int where "LONG_MIN \<equiv> - (2 ^ 63)"
abbreviation (input) ULONG_MAX :: int where "ULONG_MAX \<equiv> 2 ^ 64 - 1"

text \<open>The result, what follows, and whether \<open>errno\<close> is ERANGE.\<close>

definition strtol :: "string \<Rightarrow> (int \<times> string \<times> bool) option" where
  "strtol s = (case strto_number s of None \<Rightarrow> None
     | Some (neg, n, r) \<Rightarrow> let v = (if neg then - int n else int n)
         in Some (if v < LONG_MIN then (LONG_MIN, r, True) else if v > LONG_MAX then (LONG_MAX, r, True) else (v, r, False)))"

definition strtoul :: "string \<Rightarrow> (int \<times> string \<times> bool) option" where
  "strtoul s = (case strto_number s of None \<Rightarrow> None
     | Some (neg, n, r) \<Rightarrow>
         Some (if int n > ULONG_MAX then (ULONG_MAX, r, True) else ((if neg then - int n else int n) mod 2 ^ 64, r, False)))"

datatype parser_result = PARSED_OK | NOT_PARSED | BAD_VALUE | MALFORMED | OUT_OF_RANGE

text \<open>The three functions differ in the conversion.\<close>

definition get_ranged :: "(string \<Rightarrow> ('a::linorder \<times> string \<times> bool) option) \<Rightarrow> string \<Rightarrow> 'a \<Rightarrow> 'a \<Rightarrow> parser_result + 'a" where
  "get_ranged conv str lo hi =
    (case conv str of
       None \<Rightarrow> Inl MALFORMED
     | Some (parsed_val, rest, erange) \<Rightarrow>
         if rest \<noteq> [] then Inl MALFORMED
         else if erange \<or> parsed_val < lo \<or> parsed_val > hi then Inl OUT_OF_RANGE
         else Inr parsed_val)"

definition get_ranged_int :: "string \<Rightarrow> int \<Rightarrow> int \<Rightarrow> parser_result + int" where
  "get_ranged_int = get_ranged strtol"

definition get_ranged_uint :: "string \<Rightarrow> int \<Rightarrow> int \<Rightarrow> parser_result + int" where
  "get_ranged_uint = get_ranged strtoul"

definition get_ranged_double :: "(string \<Rightarrow> (real \<times> string \<times> bool) option) \<Rightarrow> string \<Rightarrow> real \<Rightarrow> real \<Rightarrow> parser_result + real" where
  "get_ranged_double strtod = get_ranged strtod"

text \<open>None for the result -1; the value is not assigned then.\<close>

definition arg_val :: "parser_result + 'a \<Rightarrow> 'a option" where
  "arg_val r = (case r of Inl _ \<Rightarrow> None | Inr v \<Rightarrow> Some v)"

definition get_arg_val_i :: "string \<Rightarrow> int \<Rightarrow> int \<Rightarrow> int option" where
  "get_arg_val_i optarg lo hi = arg_val (get_ranged_int optarg lo hi)"

definition get_arg_val_ui :: "string \<Rightarrow> int \<Rightarrow> int \<Rightarrow> int option" where
  "get_arg_val_ui optarg lo hi = arg_val (get_ranged_uint optarg lo hi)"

definition get_arg_val_d :: "(string \<Rightarrow> (real \<times> string \<times> bool) option) \<Rightarrow> string \<Rightarrow> real \<Rightarrow> real \<Rightarrow> real option" where
  "get_arg_val_d strtod optarg lo hi = arg_val (get_ranged_double strtod optarg lo hi)"

subsection \<open>Identities and addresses\<close>

definition cid2str :: "ClockIdentity \<Rightarrow> string" where
  "cid2str cid = (let h = map hex2 (cid_bytes cid)
     in concat (take 3 h) @ ''.'' @ concat (take 2 (drop 3 h)) @ ''.'' @ concat (drop 5 h))"

definition pid2str :: "PortIdentity \<Rightarrow> string" where
  "pid2str pid = cid2str (clockIdentity pid) @ ''-'' @ show_nat (unat (portNumber pid))"

text \<open>
  A conversion of \<open>sscanf\<close> to an unsigned number in the given base, with a maximum field width (0 for
  none): white space is skipped, a sign may follow, and for base 16 the prefix 0x.  None for a
  matching failure.
\<close>

definition field :: "nat \<Rightarrow> string \<Rightarrow> string" where
  "field width s = (if width = 0 then s else take width s)"

definition skip_0x :: "nat \<Rightarrow> string \<Rightarrow> nat" where
  "skip_0x base s = (case s of c # x # _ \<Rightarrow> if base = 16 \<and> c = CHR ''0'' \<and> (x = CHR ''x'' \<or> x = CHR ''X'') then 2 else 0 | _ \<Rightarrow> 0)"

definition scan_number :: "nat \<Rightarrow> nat \<Rightarrow> string \<Rightarrow> (int \<times> string) option" where
  "scan_number base width s =
    (let s = dropWhile isspace s; f = field width s; (neg, d) = split_sign f;
         k = skip_0x base d; ds = takeWhile (is_digit base) (drop k d); n = int (number_of base ds)
     in if ds = [] then None
        else Some (if n > ULONG_MAX then ULONG_MAX else (if neg then - n else n) mod 2 ^ 64,
               drop (length f - length d + k + length ds) s))"

definition scan_lit :: "char \<Rightarrow> string \<Rightarrow> string option" where
  "scan_lit c s = (case s of [] \<Rightarrow> None | x # r \<Rightarrow> if x = c then Some r else None)"

datatype scan_item = ScanHex nat | ScanShort | ScanChar char

text \<open>The numbers that the directives of the format assign; None when not all of them match.\<close>

fun sscanf :: "scan_item list \<Rightarrow> string \<Rightarrow> int list option" where
  "sscanf [] s = Some []"
| "sscanf (ScanHex w # fmt) s = (case scan_number 16 w s of None \<Rightarrow> None
     | Some (v, s) \<Rightarrow> map_option (\<lambda>vs. v # vs) (sscanf fmt s))"
| "sscanf (ScanShort # fmt) s = (case scan_number 10 0 s of None \<Rightarrow> None
     | Some (v, s) \<Rightarrow> map_option (\<lambda>vs. v # vs) (sscanf fmt s))"
| "sscanf (ScanChar c # fmt) s = (case scan_lit c s of None \<Rightarrow> None | Some s \<Rightarrow> sscanf fmt s)"

definition str2mac :: "string \<Rightarrow> u8 list option" where
  "str2mac s = map_option (map word_of_int) (sscanf [ScanHex 0, ScanChar CHR '':'', ScanHex 0, ScanChar CHR '':'',
     ScanHex 0, ScanChar CHR '':'', ScanHex 0, ScanChar CHR '':'', ScanHex 0, ScanChar CHR '':'', ScanHex 0] s)"

text \<open>The format of \<open>str2pid\<close> begins with white space, which its first conversion skips anyway.\<close>

definition str2pid :: "string \<Rightarrow> PortIdentity option" where
  "str2pid s =
    (case sscanf [ScanHex 2, ScanHex 2, ScanHex 2, ScanChar CHR ''.'', ScanHex 2, ScanHex 2, ScanChar CHR ''.'',
         ScanHex 2, ScanHex 2, ScanHex 2, ScanChar CHR ''-'', ScanShort] s of
       Some [a, b, c, d, e, f, g, h, n] \<Rightarrow> Some \<lparr>clockIdentity = CID (word_of_int a) (word_of_int b) (word_of_int c)
         (word_of_int d) (word_of_int e) (word_of_int f) (word_of_int g) (word_of_int h), portNumber = word_of_int n\<rparr>
     | _ \<Rightarrow> None)"

text \<open>At most 16 octets are printed; the buffers of the callers are large enough for them.\<close>

definition bin2str_impl :: "u8 list \<Rightarrow> string" where
  "bin2str_impl bs = (case map hex2 (take 16 bs) of [] \<Rightarrow> [] | h # hs \<Rightarrow> h @ concat (map (\<lambda>x. CHR '':'' # x) hs))"

subsection \<open>Arrays of pointers\<close>

text \<open>
  An array that ends with NULL: its pointers and the slots of the memory block that holds them.
\<close>

type_synonym 'a parray = "'a list \<times> nat"

definition parray_new :: "'a parray" where
  "parray_new = ([], 1)"

text \<open>The loops that double \<open>alloced\<close> until it is at least \<open>n\<close>.\<close>

function double_until :: "nat \<Rightarrow> nat \<Rightarrow> nat" where
  "double_until n alloced = (if alloced < n \<and> 0 < alloced then double_until n (2 * alloced) else alloced)"
  by pat_completeness auto
termination
  by (relation "measure (\<lambda>(n, a). n - a)") auto

declare double_until.simps [simp del]

text \<open>The size of the block is not stored: \<open>parray_extend\<close> computes the one it must have had.\<close>

definition parray_extend :: "'a parray \<Rightarrow> 'a list \<Rightarrow> 'a parray" where
  "parray_extend a ps =
    (case a of (xs, slots) \<Rightarrow>
       let len = length xs + 1; ilen = length ps; alloced = double_until len 1
       in (xs @ ps, if alloced < len + ilen then double_until (len + ilen) alloced else slots))"

definition parray_append :: "'a parray \<Rightarrow> 'a \<Rightarrow> 'a parray" where
  "parray_append a p = parray_extend a [p]"

text \<open>
  \<open>rate_limited\<close> with the time of the monotonic clock, None when it cannot be read: the result and
  the new value of \<open>last\<close>.
\<close>

definition rate_limited :: "int \<Rightarrow> int option \<Rightarrow> int \<Rightarrow> bool \<times> int" where
  "rate_limited interval now prev =
    (case now of None \<Rightarrow> (True, prev)
     | Some t \<Rightarrow> if prev + interval > t then (True, prev) else (False, t))"

subsection \<open>Printing and reading numbers\<close>

lemma digit_char_value: "d < 16 \<Longrightarrow> digit_value (digit_char d) = Some d"
proof -
  assume "d < 16"
  then have "d \<in> {0, 1, 2, 3, 4, 5, 6, 7, 8, 9, 10, 11, 12, 13, 14, 15}" by simp presburger
  then show ?thesis by (elim insertE emptyE) (simp_all add: digit_value_def digit_char_def)
qed

lemma is_digit_char [simp]: "d < 16 \<Longrightarrow> is_digit base (digit_char d) \<longleftrightarrow> d < base"
  by (simp add: is_digit_def digit_char_value)

lemma digit_char_special:
  "d < 16 \<Longrightarrow> \<not> isspace (digit_char d) \<and> digit_char d \<notin> {CHR ''-'', CHR ''+'', CHR ''.'', CHR '':'', CHR ''x'', CHR ''X''} \<and>
     (digit_char d = CHR ''0'' \<longleftrightarrow> d = 0)"
proof -
  assume "d < 16"
  then have "d \<in> {0, 1, 2, 3, 4, 5, 6, 7, 8, 9, 10, 11, 12, 13, 14, 15}" by simp presburger
  then show ?thesis by (elim insertE emptyE; simp only:; code_simp)
qed

lemma number_of_snoc [simp]: "number_of base (s @ [c]) = base * number_of base s + the (digit_value c)"
  by (simp add: number_of_def)

lemma number_of_Nil [simp]: "number_of base [] = 0"
  by (simp add: number_of_def)

lemma number_of_show [simp]: "number_of 10 (show_nat n) = n"
proof (induction n rule: show_nat.induct)
  case (1 n)
  have "number_of 10 [digit_char d] = d" if "d < 10" for d
    using that by (simp add: number_of_def digit_char_value)
  with 1 show ?case by (subst show_nat.simps) (simp add: digit_char_value)
qed

lemma show_nat_digits: "c \<in> set (show_nat n) \<Longrightarrow> \<exists>d<10. c = digit_char d"
proof (induction n rule: show_nat.induct)
  case (1 n)
  have m: "\<exists>d<10. digit_char (n mod 10) = digit_char d" by (intro exI [of _ "n mod 10"]) simp
  from 1 show ?case by (subst (asm) (2) show_nat.simps) (auto split: if_splits simp: m)
qed

lemma show_nat_hd: "\<exists>d ds. show_nat n = digit_char d # ds \<and> d < 10 \<and> (d = 0 \<longrightarrow> n = 0 \<and> ds = [])"
proof (induction n rule: show_nat.induct)
  case (1 n)
  show ?case
  proof (cases "n < 10")
    case True
    then show ?thesis by (subst show_nat.simps) auto
  next
    case False
    then obtain d ds where "show_nat (n div 10) = digit_char d # ds" "d < 10" "d = 0 \<longrightarrow> n div 10 = 0 \<and> ds = []"
      using 1 by auto
    with False show ?thesis by (subst show_nat.simps) auto
  qed
qed

lemma show_nat_number:
  "takeWhile (is_digit 10) (show_nat n) = show_nat n" "dropWhile (is_digit 10) (show_nat n) = []"
proof -
  have "is_digit 10 c" if "c \<in> set (show_nat n)" for c using show_nat_digits [OF that] by auto
  then show "takeWhile (is_digit 10) (show_nat n) = show_nat n" "dropWhile (is_digit 10) (show_nat n) = []"
    by (simp_all add: takeWhile_eq_all_conv dropWhile_eq_Nil_conv)
qed

lemma split_base_show: "show_nat n \<noteq> ''0'' \<Longrightarrow> split_base (show_nat n) = (10, show_nat n)"
proof -
  assume "show_nat n \<noteq> ''0''"
  moreover obtain d ds where d: "show_nat n = digit_char d # ds" "d < 10" "d = 0 \<longrightarrow> ds = []"
    using show_nat_hd by metis
  ultimately have "digit_char d \<noteq> CHR ''0''" using digit_char_special [of d] by auto
  then show ?thesis by (auto simp: d(1) split_base_def split: list.split)
qed

lemma strto_number_show: "strto_number (show_int i) = Some (i < 0, nat \<bar>i\<bar>, [])"
proof -
  have sign: "split_sign (dropWhile isspace (show_int i)) = (i < 0, show_nat (nat \<bar>i\<bar>))"
  proof (cases "i < 0")
    case True
    then show ?thesis by (simp add: show_int_def isspace_def split_sign_def)
  next
    case False
    obtain d ds where d: "show_nat (nat i) = digit_char d # ds" "d < 10" using show_nat_hd by metis
    with False show ?thesis using digit_char_special [of d] by (simp add: show_int_def split_sign_def)
  qed
  obtain d ds where d: "show_nat (nat \<bar>i\<bar>) = digit_char d # ds" "d < 10" "d = 0 \<longrightarrow> nat \<bar>i\<bar> = 0 \<and> ds = []"
    using show_nat_hd by metis
  then have ne: "show_nat (nat \<bar>i\<bar>) \<noteq> []" by simp
  show ?thesis
  proof (cases "show_nat (nat \<bar>i\<bar>) = ''0''")
    case True
    then have "d = 0" using d digit_char_special [of d] by auto
    then have "nat \<bar>i\<bar> = 0" using d by simp
    moreover have "strto_number (show_int i) = Some (i < 0, 0, [])"
      by (simp add: strto_number_def sign True split_base_def is_digit_def digit_value_def number_of_def)
    ultimately show ?thesis by simp
  next
    case False
    then show ?thesis
      using show_nat_number [of "nat \<bar>i\<bar>"] ne
      by (simp only: strto_number_def sign split_base_show [OF False] Let_def prod.case) simp
  qed
qed

text \<open>
  numbers are read as they are printed.  The text of any integer, however large, is read back as
  that integer when it is in the range that is asked for and refused as out of range otherwise.
\<close>

theorem ranged_int_round_trip:
  assumes "LONG_MIN \<le> lo" and "hi \<le> LONG_MAX"
  shows "get_ranged_int (show_int i) lo hi = (if lo \<le> i \<and> i \<le> hi then Inr i else Inl OUT_OF_RANGE)"
proof -
  have "(if i < 0 then - int (nat \<bar>i\<bar>) else int (nat \<bar>i\<bar>)) = i" by simp
  then show ?thesis
    using assms unfolding get_ranged_int_def get_ranged_def strtol_def strto_number_show option.case prod.case Let_def
    by (simp split: if_splits)
qed

lemma ranged_int_round_trip_witness: "get_ranged_int (show_int (-20000000)) (-2147483648) (-1) = Inr (-20000000)"
  using ranged_int_round_trip [of "-2147483648" "-1" "-20000000"] by simp

lemma get_ranged_range: "get_ranged conv s lo hi = Inr v \<Longrightarrow> lo \<le> v \<and> v \<le> hi"
  by (auto simp: get_ranged_def split: option.splits if_splits)

subsection \<open>Printing and reading identities\<close>

lemma hex2_chars: "\<exists>x y. hex2 b = [digit_char x, digit_char y] \<and> x < 16 \<and> y < 16 \<and> 16 * x + y = unat b"
proof -
  have "unat b < 256" using unsigned_less [of b] by simp
  then show ?thesis by (intro exI [of _ "unat b div 16"] exI [of _ "unat b mod 16"]) (simp add: hex2_def)
qed

lemma scan_hex2: "scan_number 16 2 (hex2 b @ s) = Some (uint b, s)"
proof -
  obtain x y where h: "hex2 b = [digit_char x, digit_char y]" "x < 16" "y < 16" "16 * x + y = unat b"
    using hex2_chars by blast
  note sp = digit_char_special [OF h(2)] digit_char_special [OF h(3)]
  have "number_of 16 [digit_char x, digit_char y] = unat b"
    using h by (simp add: number_of_def digit_char_value)
  moreover have "int (unat b) = uint b" by simp
  moreover have "uint b < 256" "0 \<le> uint b" using unsigned_less [of b] by simp_all
  ultimately show ?thesis
    using sp h(2,3) by (simp add: scan_number_def h(1) field_def split_sign_def skip_0x_def)
qed

lemma sscanf_hex2 [simp]: "sscanf (ScanHex 2 # fmt) (hex2 b @ s) = map_option (\<lambda>vs. uint b # vs) (sscanf fmt s)"
  by (simp add: scan_hex2)

lemma sscanf_char [simp]: "sscanf (ScanChar c # fmt) (c # s) = sscanf fmt s"
  by (simp add: scan_lit_def)

lemma sscanf_short: "sscanf [ScanShort] (show_nat n) = (if n < 2 ^ 64 then Some [int n] else Some [ULONG_MAX])"
proof -
  obtain d ds where d: "show_nat n = digit_char d # ds" "d < 10" using show_nat_hd by metis
  then have "dropWhile isspace (show_nat n) = show_nat n" "split_sign (show_nat n) = (False, show_nat n)"
    "skip_0x 10 (show_nat n) = 0"
    using digit_char_special [of d] by (auto simp: split_sign_def skip_0x_def split: list.split)
  moreover have "show_nat n \<noteq> []" using d(1) by simp
  ultimately have "scan_number 10 0 (show_nat n) = Some (if int n > ULONG_MAX then ULONG_MAX else int n mod 2 ^ 64, [])"
    by (simp only: scan_number_def field_def Let_def prod.case if_True if_False show_nat_number drop_0 number_of_show) (simp add: show_nat_number)
  then show ?thesis by simp
qed

text \<open>
  What \<open>pid2str\<close> prints, \<open>str2pid\<close> reads as the same port identity.
\<close>

theorem port_identity_text_round_trip: "str2pid (pid2str pid) = Some pid"
proof -
  obtain a b c d e f g h n where pid: "pid = \<lparr>clockIdentity = CID a b c d e f g h, portNumber = n\<rparr>"
    by (cases pid; cases "clockIdentity pid") simp
  have "(unat n :: nat) < 2 ^ 16" using unsigned_less [of n, where 'a = nat] by simp
  then have n: "sscanf [ScanShort] (show_nat (unat n)) = Some [uint n]" by (simp add: sscanf_short del: sscanf.simps)
  show ?thesis
    by (simp add: pid str2pid_def pid2str_def cid2str_def Let_def n del: sscanf.simps)
qed

subsection \<open>The memory of arrays\<close>

lemma double_until_ge: "0 < a \<Longrightarrow> n \<le> double_until n a"
  by (induction n a rule: double_until.induct) (subst double_until.simps, auto)

lemma double_until_less: "0 < a \<Longrightarrow> a < 2 * n \<Longrightarrow> double_until n a < 2 * n"
  by (induction n a rule: double_until.induct) (subst double_until.simps, auto)

lemma double_until_mono: "m \<le> n \<Longrightarrow> double_until n (double_until m a) = double_until n a"
proof (induction m a rule: double_until.induct)
  case (1 m a)
  show ?case
  proof (cases "a < m \<and> 0 < a")
    case True
    then have "double_until m a = double_until m (2 * a)" "double_until n a = double_until n (2 * a)"
      using 1(2) by (auto simp: double_until.simps [of _ a])
    with 1 True show ?thesis by simp
  next
    case False
    then show ?thesis by (auto simp: double_until.simps [of m a])
  qed
qed

lemma double_until_id: "n \<le> a \<Longrightarrow> double_until n a = a"
  by (simp add: double_until.simps)

definition parray_wf :: "'a parray \<Rightarrow> bool" where
  "parray_wf a \<longleftrightarrow> snd a = double_until (length (fst a) + 1) 1"

lemma parray_new_wf [ptp_wf_intros]: "parray_wf parray_new"
  by (simp add: parray_wf_def parray_new_def double_until.simps)

lemma parray_extend_wf [ptp_wf_intros]: "parray_wf a \<Longrightarrow> parray_wf (parray_extend a ps)"
  using double_until_mono [of "length (fst a) + 1" "length (fst a) + 1 + length ps" 1]
    double_until_id [of "length (fst a) + 1 + length ps" "double_until (length (fst a) + 1) 1"]
  by (auto simp: parray_wf_def parray_extend_def Let_def split: prod.split)

lemma parray_extend_list [simp]: "fst (parray_extend a ps) = fst a @ ps"
  by (simp add: parray_extend_def Let_def split: prod.split)

text \<open>
  an array never outgrows its block.  The size of the block is not stored anywhere, but after any
  number of extensions the array holds what was added in this order, together with its terminating
  NULL it fits into the block that was allocated last, and less than half of the block is unused.
\<close>

theorem parray_within_block:
  assumes "fold (\<lambda>ps a. parray_extend a ps) pss parray_new = (xs, slots)"
  shows "xs = concat pss \<and> length xs + 1 \<le> slots \<and> slots < 2 * (length xs + 1)"
proof -
  have "parray_wf (fold (\<lambda>ps a. parray_extend a ps) pss a) \<and> fst (fold (\<lambda>ps a. parray_extend a ps) pss a) = fst a @ concat pss"
    if "parray_wf a" for a :: "'a parray"
    using that by (induction pss arbitrary: a) (simp_all add: parray_extend_wf)
  from this [OF parray_new_wf] assms have "xs = concat pss" "slots = double_until (length xs + 1) 1"
    by (simp_all add: parray_wf_def) (simp add: parray_new_def)
  then show ?thesis using double_until_ge [of 1 "length xs + 1"] double_until_less [of 1 "length xs + 1"] by simp
qed

lemma parray_within_block_witness:
  "fold (\<lambda>ps a. parray_extend a ps) [[1, 2], [3 :: nat]] parray_new = ([1, 2, 3], 4) \<and> length [1, 2, 3 :: nat] + 1 \<le> 4"
proof -
  have "fold (\<lambda>ps a. parray_extend a ps) [[1, 2], [3 :: nat]] parray_new = ([1, 2, 3], 4)" by code_simp
  with parray_within_block [OF this] show ?thesis by simp
qed

end
