(* ===== verification/Config.thy ===== *)
theory Config
  imports Hash Parse
begin

text \<open>
  The configuration (src/config.c): the table of options with their types, defaults and ranges, the
  values set in the configuration file and on the command line, globally or for one port, and the
  access of the program to them.  The hash table maps the names \<open>section.option\<close> to the addresses of
  configuration items; an address is an index into \<open>cfg_items\<close>, the first of which are those of
  \<open>config_tab\<close>.  Doubles are real numbers.  \<open>exit(-1)\<close> is the result None.  The parameter \<open>mem\<close> says
  whether memory can be allocated, and \<open>strtod\<close> is the function of the C library.
\<close>

subsection \<open>Options\<close>

datatype config_section = GLOBAL_SECTION | PORT_SECTION | UNKNOWN_SECTION

datatype config_type = CFG_TYPE_INT | CFG_TYPE_DOUBLE | CFG_TYPE_ENUM | CFG_TYPE_STRING

type_synonym config_enum = "string \<times> int"

text \<open>The union of values, tagged with the member that was written last.\<close>

datatype any_t = AnyInt int | AnyDouble real | AnyString "string option"

record config_item =
  ci_label :: string
  ci_type :: config_type
  ci_tab :: "config_enum list"
  ci_static :: bool
  ci_locked :: bool
  ci_port :: bool
  ci_dynstr :: bool
  ci_val :: any_t
  ci_min :: any_t
  ci_max :: any_t

definition CONFIG_ITEM_DBL :: "string \<Rightarrow> bool \<Rightarrow> real \<Rightarrow> real \<Rightarrow> real \<Rightarrow> config_item" where
  "CONFIG_ITEM_DBL label port def lo hi =
    \<lparr>ci_label = label, ci_type = CFG_TYPE_DOUBLE, ci_tab = [], ci_static = False, ci_locked = False, ci_port = port,
     ci_dynstr = False, ci_val = AnyDouble def, ci_min = AnyDouble lo, ci_max = AnyDouble hi\<rparr>"

definition CONFIG_ITEM_ENUM :: "string \<Rightarrow> bool \<Rightarrow> int \<Rightarrow> config_enum list \<Rightarrow> config_item" where
  "CONFIG_ITEM_ENUM label port def tab =
    \<lparr>ci_label = label, ci_type = CFG_TYPE_ENUM, ci_tab = tab, ci_static = False, ci_locked = False, ci_port = port,
     ci_dynstr = False, ci_val = AnyInt def, ci_min = AnyInt 0, ci_max = AnyInt 0\<rparr>"

definition CONFIG_ITEM_INT :: "string \<Rightarrow> bool \<Rightarrow> int \<Rightarrow> int \<Rightarrow> int \<Rightarrow> config_item" where
  "CONFIG_ITEM_INT label port def lo hi =
    \<lparr>ci_label = label, ci_type = CFG_TYPE_INT, ci_tab = [], ci_static = False, ci_locked = False, ci_port = port,
     ci_dynstr = False, ci_val = AnyInt def, ci_min = AnyInt lo, ci_max = AnyInt hi\<rparr>"

definition CONFIG_ITEM_STRING :: "string \<Rightarrow> bool \<Rightarrow> string option \<Rightarrow> config_item" where
  "CONFIG_ITEM_STRING label port def =
    \<lparr>ci_label = label, ci_type = CFG_TYPE_STRING, ci_tab = [], ci_static = False, ci_locked = False, ci_port = port,
     ci_dynstr = False, ci_val = AnyString def, ci_min = AnyInt 0, ci_max = AnyInt 0\<rparr>"

definition clock_servo_enu :: "config_enum list" where
  "clock_servo_enu = [(''pi'', 0), (''linreg'', 1), (''ntpshm'', 2), (''nullf'', 3)]"

definition clock_type_enu :: "config_enum list" where
  "clock_type_enu = [(''OC'', 0x8000), (''BC'', 0x4000), (''P2P_TC'', 0x2000), (''E2E_TC'', 0x1000)]"

definition dataset_comp_enu :: "config_enum list" where
  "dataset_comp_enu = [(''ieee1588'', 0), (''G.8275.x'', 1)]"

definition delay_filter_enu :: "config_enum list" where
  "delay_filter_enu = [(''moving_average'', 0), (''moving_median'', 1)]"

definition delay_mech_enu :: "config_enum list" where
  "delay_mech_enu = [(''Auto'', 0), (''E2E'', 1), (''P2P'', 2)]"

definition nw_trans_enu :: "config_enum list" where
  "nw_trans_enu = [(''L2'', 3), (''UDPv4'', 1), (''UDPv6'', 2)]"

definition timestamping_enu :: "config_enum list" where
  "timestamping_enu = [(''hardware'', 1), (''software'', 0), (''legacy'', 2), (''onestep'', 3), (''p2p1step'', 4)]"

definition tsproc_enu :: "config_enum list" where
  "tsproc_enu = [(''filter'', 0), (''raw'', 1), (''filter_weight'', 2), (''raw_weight'', 3)]"

definition DBL_MAX :: real where
  "DBL_MAX = (2 ^ 53 - 1) * 2 ^ 971"

definition DBL_MIN :: real where
  "DBL_MIN = 1 / 2 ^ 1022"

definition config_tab :: "config_item list" where
  "config_tab = [
     CONFIG_ITEM_INT ''announceReceiptTimeout'' True 3 2 255,
     CONFIG_ITEM_INT ''assume_two_step'' False 0 0 1,
     CONFIG_ITEM_INT ''boundary_clock_jbod'' True 0 0 1,
     CONFIG_ITEM_INT ''check_fup_sync'' False 0 0 1,
     CONFIG_ITEM_INT ''clockAccuracy'' False 0xfe 0 255,
     CONFIG_ITEM_INT ''clockClass'' False 248 0 255,
     CONFIG_ITEM_ENUM ''clock_servo'' False 0 clock_servo_enu,
     CONFIG_ITEM_ENUM ''clock_type'' False 0x8000 clock_type_enu,
     CONFIG_ITEM_ENUM ''dataset_comparison'' False 0 dataset_comp_enu,
     CONFIG_ITEM_INT ''delayAsymmetry'' True 0 (-2147483648) 2147483647,
     CONFIG_ITEM_ENUM ''delay_filter'' True 1 delay_filter_enu,
     CONFIG_ITEM_INT ''delay_filter_length'' True 10 1 2147483647,
     CONFIG_ITEM_ENUM ''delay_mechanism'' True 1 delay_mech_enu,
     CONFIG_ITEM_INT ''dscp_event'' False 0 0 63,
     CONFIG_ITEM_INT ''dscp_general'' False 0 0 63,
     CONFIG_ITEM_INT ''domainNumber'' False 0 0 127,
     CONFIG_ITEM_INT ''egressLatency'' True 0 (-2147483648) 2147483647,
     CONFIG_ITEM_INT ''fault_badpeernet_interval'' True 16 (-2147483648) 2147483647,
     CONFIG_ITEM_INT ''fault_reset_interval'' True 4 (-128) 127,
     CONFIG_ITEM_DBL ''first_step_threshold'' False (2 / 100000) 0 DBL_MAX,
     CONFIG_ITEM_INT ''follow_up_info'' True 0 0 1,
     CONFIG_ITEM_INT ''free_running'' False 0 0 1,
     CONFIG_ITEM_INT ''freq_est_interval'' True 1 0 2147483647,
     CONFIG_ITEM_INT ''G.8275.defaultDS.localPriority'' False 128 1 255,
     CONFIG_ITEM_INT ''G.8275.portDS.localPriority'' True 128 1 255,
     CONFIG_ITEM_INT ''gmCapable'' False 1 0 1,
     CONFIG_ITEM_INT ''hybrid_e2e'' True 0 0 1,
     CONFIG_ITEM_INT ''ignore_transport_specific'' True 0 0 1,
     CONFIG_ITEM_INT ''ingressLatency'' True 0 (-2147483648) 2147483647,
     CONFIG_ITEM_INT ''initial_delay'' False 0 0 2147483647,
     CONFIG_ITEM_INT ''kernel_leap'' False 1 0 1,
     CONFIG_ITEM_INT ''logAnnounceInterval'' True 1 (-128) 127,
     CONFIG_ITEM_INT ''logMinDelayReqInterval'' True 0 (-128) 127,
     CONFIG_ITEM_INT ''logMinPdelayReqInterval'' True 0 (-128) 127,
     CONFIG_ITEM_INT ''logSyncInterval'' True 0 (-128) 127,
     CONFIG_ITEM_INT ''logging_level'' False 6 0 7,
     CONFIG_ITEM_INT ''masterOnly'' True 0 0 1,
     CONFIG_ITEM_STRING ''message_tag'' False None,
     CONFIG_ITEM_STRING ''manufacturerIdentity'' False (Some ''00:00:00''),
     CONFIG_ITEM_INT ''max_frequency'' False 900000000 0 2147483647,
     CONFIG_ITEM_INT ''min_neighbor_prop_delay'' True (-20000000) (-2147483648) (-1),
     CONFIG_ITEM_INT ''neighborPropDelayThresh'' True 20000000 0 2147483647,
     CONFIG_ITEM_INT ''net_sync_monitor'' True 0 0 1,
     CONFIG_ITEM_ENUM ''network_transport'' True 1 nw_trans_enu,
     CONFIG_ITEM_INT ''ntpshm_segment'' False 0 (-2147483648) 2147483647,
     CONFIG_ITEM_INT ''offsetScaledLogVariance'' False 0xffff 0 65535,
     CONFIG_ITEM_INT ''path_trace_enabled'' True 0 0 1,
     CONFIG_ITEM_DBL ''pi_integral_const'' False 0 0 DBL_MAX,
     CONFIG_ITEM_DBL ''pi_integral_exponent'' False (4 / 10) (- DBL_MAX) DBL_MAX,
     CONFIG_ITEM_DBL ''pi_integral_norm_max'' False (3 / 10) DBL_MIN 2,
     CONFIG_ITEM_DBL ''pi_integral_scale'' False 0 0 DBL_MAX,
     CONFIG_ITEM_DBL ''pi_proportional_const'' False 0 0 DBL_MAX,
     CONFIG_ITEM_DBL ''pi_proportional_exponent'' False (- (3 / 10)) (- DBL_MAX) DBL_MAX,
     CONFIG_ITEM_DBL ''pi_proportional_norm_max'' False (7 / 10) DBL_MIN 1,
     CONFIG_ITEM_DBL ''pi_proportional_scale'' False 0 0 DBL_MAX,
     CONFIG_ITEM_INT ''priority1'' False 128 0 255,
     CONFIG_ITEM_INT ''priority2'' False 128 0 255,
     CONFIG_ITEM_STRING ''productDescription'' False (Some '';;''),
     CONFIG_ITEM_STRING ''ptp_dst_mac'' True (Some ''01:1B:19:00:00:00''),
     CONFIG_ITEM_STRING ''p2p_dst_mac'' True (Some ''01:80:C2:00:00:0E''),
     CONFIG_ITEM_STRING ''revisionData'' False (Some '';;''),
     CONFIG_ITEM_INT ''sanity_freq_limit'' False 200000000 0 2147483647,
     CONFIG_ITEM_INT ''slaveOnly'' False 0 0 1,
     CONFIG_ITEM_DBL ''step_threshold'' False 0 0 DBL_MAX,
     CONFIG_ITEM_INT ''summary_interval'' False 0 (-2147483648) 2147483647,
     CONFIG_ITEM_INT ''syncReceiptTimeout'' True 0 0 255,
     CONFIG_ITEM_INT ''tc_spanning_tree'' False 0 1 1,
     CONFIG_ITEM_INT ''timeSource'' False 0xA0 0x10 0xfe,
     CONFIG_ITEM_ENUM ''time_stamping'' False 1 timestamping_enu,
     CONFIG_ITEM_INT ''transportSpecific'' True 0 0 0x0F,
     CONFIG_ITEM_ENUM ''tsproc_mode'' True 0 tsproc_enu,
     CONFIG_ITEM_INT ''twoStepFlag'' False 1 0 1,
     CONFIG_ITEM_INT ''tx_timestamp_timeout'' False 1 1 2147483647,
     CONFIG_ITEM_INT ''udp_ttl'' True 1 1 255,
     CONFIG_ITEM_INT ''udp6_scope'' True 0x0E 0x00 0x0F,
     CONFIG_ITEM_STRING ''uds_address'' False (Some ''/var/run/ptp4l''),
     CONFIG_ITEM_INT ''use_syslog'' False 1 0 1,
     CONFIG_ITEM_STRING ''userDescription'' False (Some ''''),
     CONFIG_ITEM_INT ''utc_offset'' False 37 0 2147483647,
     CONFIG_ITEM_INT ''verbose'' False 0 0 1]"

subsection \<open>The configuration\<close>

record iface =
  if_name :: string
  if_ts_label :: string

record config =
  cfg_interfaces :: "iface list"
  cfg_n_interfaces :: int
  cfg_opts :: "string list"
  cfg_htab :: "nat hash"
  cfg_items :: "config_item list"

text \<open>The names of the sections and options, cut off at the size of the buffer.\<close>

definition section_key :: "string \<Rightarrow> string \<Rightarrow> string" where
  "section_key sct name = take 139 (sct @ ''.'' @ name)"

definition config_section_item :: "config \<Rightarrow> string \<Rightarrow> string \<Rightarrow> nat option" where
  "config_section_item cfg sct name = hash_lookup (cfg_htab cfg) (section_key sct name)"

definition config_global_item :: "config \<Rightarrow> string \<Rightarrow> nat option" where
  "config_global_item cfg name = config_section_item cfg ''global'' name"

definition config_find_item :: "config \<Rightarrow> string option \<Rightarrow> string \<Rightarrow> nat option" where
  "config_find_item cfg sct name =
    (case sct of
       None \<Rightarrow> config_global_item cfg name
     | Some s \<Rightarrow> (case config_section_item cfg s name of
           Some ci \<Rightarrow> Some ci
         | None \<Rightarrow> config_global_item cfg name))"

definition item_at :: "config \<Rightarrow> nat \<Rightarrow> config_item" where
  "item_at cfg a = cfg_items cfg ! a"

definition update_item :: "nat \<Rightarrow> (config_item \<Rightarrow> config_item) \<Rightarrow> config \<Rightarrow> config" where
  "update_item a f cfg = cfg\<lparr>cfg_items := (cfg_items cfg)[a := f (cfg_items cfg ! a)]\<rparr>"

text \<open>\<open>calloc\<close> leaves all members of the item zero.\<close>

definition zero_item :: "string \<Rightarrow> config_type \<Rightarrow> config_item" where
  "zero_item name type =
    \<lparr>ci_label = take 31 name, ci_type = type, ci_tab = [], ci_static = False, ci_locked = False, ci_port = False,
     ci_dynstr = False, ci_val = (case type of CFG_TYPE_DOUBLE \<Rightarrow> AnyDouble 0 | CFG_TYPE_STRING \<Rightarrow> AnyString None | _ \<Rightarrow> AnyInt 0),
     ci_min = AnyInt 0, ci_max = AnyInt 0\<rparr>"

definition config_item_alloc :: "bool \<Rightarrow> config \<Rightarrow> string \<Rightarrow> string \<Rightarrow> config_type \<Rightarrow> (config \<times> nat) option" where
  "config_item_alloc mem cfg sct name type =
    (if \<not> mem then None
     else
       let ci = zero_item name type; a = length (cfg_items cfg)
       in case hash_insert mem (cfg_htab cfg) (section_key sct (ci_label ci)) a of
            None \<Rightarrow> None
          | Some ht \<Rightarrow> Some (cfg\<lparr>cfg_htab := ht, cfg_items := cfg_items cfg @ [ci]\<rparr>, a))"

subsection \<open>Setting values in the program\<close>

definition is_integral :: "config_type \<Rightarrow> bool" where
  "is_integral type \<longleftrightarrow> type \<in> {CFG_TYPE_INT, CFG_TYPE_ENUM}"

text \<open>The second component is True for the result -1.\<close>

definition config_set_section_int :: "bool \<Rightarrow> config \<Rightarrow> string option \<Rightarrow> string \<Rightarrow> int \<Rightarrow> config \<times> bool" where
  "config_set_section_int mem cfg sct opt val =
    (case config_find_item cfg None opt of
       None \<Rightarrow> (cfg, True)
     | Some cgi \<Rightarrow>
         if \<not> is_integral (ci_type (item_at cfg cgi)) then (cfg, True)
         else (case sct of
             None \<Rightarrow> (update_item cgi (\<lambda>ci. ci\<lparr>ci_locked := True, ci_val := AnyInt val\<rparr>) cfg, False)
           | Some s \<Rightarrow>
               (case (case config_section_item cfg s opt of
                    Some dst \<Rightarrow> Some (cfg, dst)
                  | None \<Rightarrow> config_item_alloc mem cfg s opt (ci_type (item_at cfg cgi))) of
                  None \<Rightarrow> (cfg, True)
                | Some (cfg, dst) \<Rightarrow> (update_item dst (\<lambda>ci. ci\<lparr>ci_val := AnyInt val\<rparr>) cfg, False))))"

definition config_set_int :: "bool \<Rightarrow> config \<Rightarrow> string \<Rightarrow> int \<Rightarrow> config \<times> bool" where
  "config_set_int mem cfg = config_set_section_int mem cfg None"

definition config_set_double :: "config \<Rightarrow> string \<Rightarrow> real \<Rightarrow> config \<times> bool" where
  "config_set_double cfg opt val =
    (case config_find_item cfg None opt of
       None \<Rightarrow> (cfg, True)
     | Some a \<Rightarrow> if ci_type (item_at cfg a) \<noteq> CFG_TYPE_DOUBLE then (cfg, True)
         else (update_item a (\<lambda>ci. ci\<lparr>ci_locked := True, ci_val := AnyDouble val\<rparr>) cfg, False))"

definition config_set_string :: "bool \<Rightarrow> config \<Rightarrow> string \<Rightarrow> string \<Rightarrow> config \<times> bool" where
  "config_set_string mem cfg opt val =
    (case config_find_item cfg None opt of
       None \<Rightarrow> (cfg, True)
     | Some a \<Rightarrow> if ci_type (item_at cfg a) \<noteq> CFG_TYPE_STRING then (cfg, True)
         else if \<not> mem then (update_item a (\<lambda>ci. ci\<lparr>ci_locked := True, ci_val := AnyString None\<rparr>) cfg, True)
         else (update_item a (\<lambda>ci. ci\<lparr>ci_locked := True, ci_val := AnyString (Some val), ci_dynstr := True\<rparr>) cfg, False))"

subsection \<open>Reading values\<close>

definition config_get_int :: "config \<Rightarrow> string option \<Rightarrow> string \<Rightarrow> int option" where
  "config_get_int cfg sct opt =
    (case config_find_item cfg sct opt of
       None \<Rightarrow> None
     | Some a \<Rightarrow> if \<not> is_integral (ci_type (item_at cfg a)) then None
         else (case ci_val (item_at cfg a) of AnyInt i \<Rightarrow> Some i | _ \<Rightarrow> None))"

definition config_get_double :: "config \<Rightarrow> string option \<Rightarrow> string \<Rightarrow> real option" where
  "config_get_double cfg sct opt =
    (case config_find_item cfg sct opt of
       None \<Rightarrow> None
     | Some a \<Rightarrow> if ci_type (item_at cfg a) \<noteq> CFG_TYPE_DOUBLE then None
         else (case ci_val (item_at cfg a) of AnyDouble d \<Rightarrow> Some d | _ \<Rightarrow> None))"

definition config_get_string :: "config \<Rightarrow> string option \<Rightarrow> string \<Rightarrow> string option option" where
  "config_get_string cfg sct opt =
    (case config_find_item cfg sct opt of
       None \<Rightarrow> None
     | Some a \<Rightarrow> if ci_type (item_at cfg a) \<noteq> CFG_TYPE_STRING then None
         else (case ci_val (item_at cfg a) of AnyString s \<Rightarrow> Some s | _ \<Rightarrow> None))"

subsection \<open>Parsing\<close>

definition to_lower :: "char \<Rightarrow> char" where
  "to_lower c = (let n = of_char c :: nat in if 65 \<le> n \<and> n \<le> 90 then char_of (n + 32) else c)"

definition strcaseeq :: "string \<Rightarrow> string \<Rightarrow> bool" where
  "strcaseeq s t \<longleftrightarrow> map to_lower s = map to_lower t"

text \<open>The section and the line as it is afterwards; None for NOT_PARSED.\<close>

definition parse_section_line :: "string \<Rightarrow> (config_section \<times> string) option" where
  "parse_section_line s =
    (if strcaseeq s ''[global]'' then Some (GLOBAL_SECTION, s)
     else if s \<noteq> [] \<and> hd s = CHR ''['' then
       Some (PORT_SECTION, map (\<lambda>c. if c = CHR ''['' \<or> c = CHR '']'' then CHR '' '' else c) s)
     else None)"

definition fault_options :: "(string \<times> int) list" where
  "fault_options = [(''fault_badpeernet_interval'', 0), (''fault_reset_interval'', -128)]"

definition parse_fault_interval ::
  "bool \<Rightarrow> config \<Rightarrow> string option \<Rightarrow> string \<Rightarrow> string \<Rightarrow> (config \<times> parser_result) option" where
  "parse_fault_interval mem cfg sct opt value =
    (if \<not> strcaseeq ''ASAP'' value then Some (cfg, NOT_PARSED)
     else case map_of fault_options opt of
         None \<Rightarrow> Some (cfg, NOT_PARSED)
       | Some val \<Rightarrow> (case config_set_section_int mem cfg sct opt val of
             (_, True) \<Rightarrow> None
           | (cfg, False) \<Rightarrow> Some (cfg, PARSED_OK)))"

text \<open>The value that an option of this item would get.\<close>

definition int_of_any :: "any_t \<Rightarrow> int" where
  "int_of_any v = (case v of AnyInt i \<Rightarrow> i | _ \<Rightarrow> 0)"

definition double_of_any :: "any_t \<Rightarrow> real" where
  "double_of_any v = (case v of AnyDouble d \<Rightarrow> d | _ \<Rightarrow> 0)"

definition parse_value :: "(string \<Rightarrow> (real \<times> string \<times> bool) option) \<Rightarrow> config_item \<Rightarrow> string \<Rightarrow> parser_result + any_t" where
  "parse_value strtod cgi value =
    (case ci_type cgi of
       CFG_TYPE_INT \<Rightarrow> map_sum (\<lambda>r. r) AnyInt (get_ranged_int value (int_of_any (ci_min cgi)) (int_of_any (ci_max cgi)))
     | CFG_TYPE_DOUBLE \<Rightarrow>
         map_sum (\<lambda>r. r) AnyDouble (get_ranged_double strtod value (double_of_any (ci_min cgi)) (double_of_any (ci_max cgi)))
     | CFG_TYPE_ENUM \<Rightarrow> (case find (\<lambda>(label, _). strcaseeq label value) (ci_tab cgi) of
           None \<Rightarrow> Inl BAD_VALUE | Some (_, v) \<Rightarrow> Inr (AnyInt v))
     | CFG_TYPE_STRING \<Rightarrow> Inr (AnyString (Some value)))"

text \<open>The assignment, with the copy of a string; the type of the item decides which member is written.\<close>

definition store_value :: "bool \<Rightarrow> any_t \<Rightarrow> config_item \<Rightarrow> config_item" where
  "store_value mem v ci =
    (case (ci_type ci, v) of
       (CFG_TYPE_STRING, AnyString s) \<Rightarrow> if mem then ci\<lparr>ci_val := v, ci_dynstr := True\<rparr> else ci\<lparr>ci_val := AnyString None\<rparr>
     | (CFG_TYPE_DOUBLE, AnyDouble d) \<Rightarrow> ci\<lparr>ci_val := v\<rparr>
     | (CFG_TYPE_INT, AnyInt i) \<Rightarrow> ci\<lparr>ci_val := v\<rparr>
     | (CFG_TYPE_ENUM, AnyInt i) \<Rightarrow> ci\<lparr>ci_val := v\<rparr>
     | _ \<Rightarrow> ci)"

definition store_item :: "bool \<Rightarrow> bool \<Rightarrow> nat \<Rightarrow> any_t \<Rightarrow> config \<Rightarrow> config \<times> parser_result" where
  "store_item mem commandline dst v cfg =
    (if ci_type (item_at cfg dst) = CFG_TYPE_STRING \<and> \<not> mem then (update_item dst (store_value mem v) cfg, NOT_PARSED)
     else (update_item dst (\<lambda>ci. let ci = store_value mem v ci in if commandline then ci\<lparr>ci_locked := True\<rparr> else ci) cfg,
           PARSED_OK))"

definition parse_item ::
  "bool \<Rightarrow> (string \<Rightarrow> (real \<times> string \<times> bool) option) \<Rightarrow> config \<Rightarrow> bool \<Rightarrow> string option \<Rightarrow> string \<Rightarrow> string \<Rightarrow>
   (config \<times> parser_result) option" where
  "parse_item mem strtod cfg commandline sct opt value =
    (case parse_fault_interval mem cfg sct opt value of
       None \<Rightarrow> None
     | Some (cfg, r) \<Rightarrow>
         if r \<noteq> NOT_PARSED then Some (cfg, r)
         else case config_global_item cfg opt of
             None \<Rightarrow> Some (cfg, NOT_PARSED)
           | Some a \<Rightarrow>
               let cgi = item_at cfg a
               in (case parse_value strtod cgi value of
                     Inl r \<Rightarrow> Some (cfg, r)
                   | Inr v \<Rightarrow>
                       (case sct of
                          Some s \<Rightarrow>
                            if \<not> ci_port cgi then Some (cfg, NOT_PARSED)
                            else (case (case config_section_item cfg s opt of
                                 Some dst \<Rightarrow> Some (cfg, dst)
                               | None \<Rightarrow> config_item_alloc mem cfg s opt (ci_type cgi)) of
                                 None \<Rightarrow> Some (cfg, NOT_PARSED)
                               | Some (cfg, dst) \<Rightarrow> Some (store_item mem commandline dst v cfg))
                        | None \<Rightarrow>
                            if \<not> commandline \<and> ci_locked cgi then Some (cfg, PARSED_OK)
                            else Some (store_item mem commandline a v cfg))))"

text \<open>The option and the value of a line; None for NOT_PARSED.\<close>

definition parse_setting_line :: "string \<Rightarrow> (string \<times> string) option" where
  "parse_setting_line line =
    (let rest = dropWhile (\<lambda>c. \<not> isspace c) line
     in if rest = [] then None else Some (takeWhile (\<lambda>c. \<not> isspace c) line, dropWhile isspace rest))"

definition check_deprecated_options :: "string \<Rightarrow> string" where
  "check_deprecated_options opt =
    (if opt = ''pi_offset_const'' then ''step_threshold''
     else if opt = ''pi_f_offset_const'' then ''first_step_threshold''
     else if opt = ''pi_max_frequency'' then ''max_frequency''
     else opt)"

subsection \<open>Creation\<close>

definition config_alloc_longopts :: "string list" where
  "config_alloc_longopts = map ci_label config_tab"

definition config_create_interface :: "bool \<Rightarrow> string \<Rightarrow> config \<Rightarrow> config \<times> string option" where
  "config_create_interface mem name cfg =
    (case find (\<lambda>i. take 108 name = take 108 (if_name i)) (cfg_interfaces cfg) of
       Some i \<Rightarrow> (cfg, Some (if_name i))
     | None \<Rightarrow> if \<not> mem then (cfg, None)
         else (cfg\<lparr>cfg_interfaces := cfg_interfaces cfg @ [\<lparr>if_name = take 108 name, if_ts_label = []\<rparr>],
                 cfg_n_interfaces := cfg_n_interfaces cfg + 1\<rparr>, Some (take 108 name)))"

text \<open>The loop that fills the hash table with the defaults.\<close>

fun insert_defaults :: "bool \<Rightarrow> config_item list \<Rightarrow> nat \<Rightarrow> nat hash \<Rightarrow> nat hash option" where
  "insert_defaults mem [] i ht = Some ht"
| "insert_defaults mem (ci # rest) i ht =
    (case hash_insert mem ht (take 39 (''global.'' @ ci_label ci)) i of
       None \<Rightarrow> None
     | Some ht \<Rightarrow> insert_defaults mem rest (i + 1) ht)"

definition config_create :: "bool \<Rightarrow> config option" where
  "config_create mem =
    (if \<not> mem then None
     else
       let items = map (\<lambda>ci. ci\<lparr>ci_static := True\<rparr>) config_tab
       in case insert_defaults mem items 0 hash_create of
            None \<Rightarrow> None
          | Some ht \<Rightarrow>
              let cfg = \<lparr>cfg_interfaces = [], cfg_n_interfaces = 0, cfg_opts = config_alloc_longopts, cfg_htab = ht, cfg_items = items\<rparr>
              in if list_all (\<lambda>i. config_global_item cfg (ci_label (items ! i)) = Some i) [0..<length items]
                 then Some cfg else None)"

text \<open>The items that \<open>config_destroy\<close> frees, and those whose strings it frees.\<close>

definition config_destroy :: "config \<Rightarrow> nat list \<times> nat list" where
  "config_destroy cfg =
    (let as = hash_destroy (cfg_htab cfg)
     in (filter (\<lambda>a. \<not> ci_static (item_at cfg a)) as,
         filter (\<lambda>a. ci_type (item_at cfg a) = CFG_TYPE_STRING \<and> ci_dynstr (item_at cfg a)) as))"

subsection \<open>The configuration file\<close>

text \<open>\<open>fgets\<close> with a buffer of 1024 characters: the pieces in which a file is read.\<close>

definition fgets_len :: "string \<Rightarrow> nat" where
  "fgets_len s = min 1023 (case dropWhile (\<lambda>c. c \<noteq> CHR 0x0A) s of [] \<Rightarrow> length s
     | _ \<Rightarrow> Suc (length (takeWhile (\<lambda>c. c \<noteq> CHR 0x0A) s)))"

function fgets_lines :: "string \<Rightarrow> string list" where
  "fgets_lines s = (if s = [] then [] else take (fgets_len s) s # fgets_lines (drop (fgets_len s) s))"
  by pat_completeness auto
termination
  by (relation "measure length") (auto simp: fgets_len_def split: list.split)

definition trim_line :: "string \<Rightarrow> string" where
  "trim_line buf = rev (dropWhile isspace (rev (dropWhile isspace buf)))"

text \<open>\<open>sscanf(line, " %16s", port)\<close>.\<close>

definition scan_port :: "string \<Rightarrow> string option" where
  "scan_port line = (let w = take 16 (takeWhile (\<lambda>c. \<not> isspace c) (dropWhile isspace line)) in if w = [] then None else Some w)"

text \<open>
  One line that is neither empty nor a comment: the section and the name of the port that follow, or
  Inl for \<open>parse_error\<close>.
\<close>

definition read_line ::
  "bool \<Rightarrow> (string \<Rightarrow> (real \<times> string \<times> bool) option) \<Rightarrow> string \<Rightarrow> config \<times> config_section \<times> string \<Rightarrow>
   (config + config \<times> config_section \<times> string) option" where
  "read_line mem strtod line st =
    (case st of (cfg, current, port) \<Rightarrow>
       (case parse_section_line line of
          Some (PORT_SECTION, line) \<Rightarrow>
            (case scan_port line of
               None \<Rightarrow> Some (Inl cfg)
             | Some name \<Rightarrow> (case config_create_interface mem name cfg of
                   (cfg, None) \<Rightarrow> Some (Inl cfg)
                 | (cfg, Some port) \<Rightarrow> Some (Inr (cfg, PORT_SECTION, port))))
        | Some (sct, _) \<Rightarrow> Some (Inr (cfg, sct, port))
        | None \<Rightarrow>
            if current = UNKNOWN_SECTION then Some (Inl cfg)
            else (case parse_setting_line line of
                None \<Rightarrow> Some (Inl cfg)
              | Some (opt, value) \<Rightarrow>
                  (case parse_item mem strtod cfg False (if current = GLOBAL_SECTION then None else Some port)
                      (check_deprecated_options opt) value of
                     None \<Rightarrow> None
                   | Some (cfg, r) \<Rightarrow> if r = PARSED_OK then Some (Inr (cfg, current, port)) else Some (Inl cfg)))))"

text \<open>The loop over the lines; None: the process exits, otherwise the configuration and the result.\<close>

fun read_lines ::
  "bool \<Rightarrow> (string \<Rightarrow> (real \<times> string \<times> bool) option) \<Rightarrow> string list \<Rightarrow> config \<times> config_section \<times> string \<Rightarrow> (config \<times> int) option" where
  "read_lines mem strtod [] st = Some (fst st, 0)"
| "read_lines mem strtod (buf # bufs) st =
    (let line = trim_line buf
     in if line = [] \<or> hd line = CHR ''#'' then read_lines mem strtod bufs st
        else case read_line mem strtod line st of
            None \<Rightarrow> None
          | Some (Inl cfg) \<Rightarrow> Some (cfg, -2)
          | Some (Inr st) \<Rightarrow> read_lines mem strtod bufs st)"

text \<open>The contents of the file, None when it cannot be opened.\<close>

definition config_read ::
  "bool \<Rightarrow> (string \<Rightarrow> (real \<times> string \<times> bool) option) \<Rightarrow> string option \<Rightarrow> config \<Rightarrow> (config \<times> int) option" where
  "config_read mem strtod file cfg =
    (case file of None \<Rightarrow> Some (cfg, -1)
     | Some s \<Rightarrow> read_lines mem strtod (fgets_lines s) (cfg, UNKNOWN_SECTION, []))"

text \<open>The second component is True for the result -1.\<close>

definition config_parse_option ::
  "bool \<Rightarrow> (string \<Rightarrow> (real \<times> string \<times> bool) option) \<Rightarrow> config \<Rightarrow> string \<Rightarrow> string \<Rightarrow> (config \<times> bool) option" where
  "config_parse_option mem strtod cfg opt val =
     map_option (\<lambda>(cfg, r). (cfg, r \<noteq> PARSED_OK)) (parse_item mem strtod cfg True None opt val)"

definition config_harmonize_onestep :: "bool \<Rightarrow> config \<Rightarrow> (config \<times> bool) option" where
  "config_harmonize_onestep mem cfg =
    (case (config_get_int cfg None ''time_stamping'', config_get_int cfg None ''twoStepFlag'') of
       (Some tstype, Some two_step_flag) \<Rightarrow>
         if tstype = 0 \<or> tstype = 2 then Some (cfg, two_step_flag = 0)
         else if tstype = 1 then
           (if two_step_flag = 0 then Some (config_set_int mem cfg ''time_stamping'' 3) else Some (cfg, False))
         else if tstype = 3 \<or> tstype = 4 then
           (if two_step_flag \<noteq> 0 then Some (config_set_int mem cfg ''twoStepFlag'' 0) else Some (cfg, False))
         else Some (cfg, False)
     | _ \<Rightarrow> None)"

end
