(* ===== verification/Pmc.thy ===== *)
theory Pmc
  imports Manage Config
begin

text \<open>
  The management client: the requests that it builds and sends (src/pmc_common.c) and the commands of
  the program pmc (src/pmc.c).  What is handed to the transport is appended to \<open>pmc_sent\<close>, in
  network order; what is printed on the standard output is appended to \<open>pmc_out\<close>.  The texts on the
  standard error output are not modelled.
\<close>

subsection \<open>The client\<close>

record pmc =
  pmc_sequence_id :: u16
  pmc_boundary_hops :: u8
  pmc_domain_number :: u8
  pmc_transport_specific :: u8
  pmc_port_identity :: PortIdentity
  pmc_targeted :: PortIdentity
  pmc_zero_length_gets :: bool
  pmc_sent :: "ptp_message list"
  pmc_out :: string

text \<open>
  \<open>ne_message\<close> and \<open>ne_tlv\<close> tell whether a message and a TLV descriptor can be allocated, \<open>ne_stack\<close>
  is the octet of the stack that becomes the reserved octet of a \<open>management_tlv_datum\<close>.
\<close>

record pmc_env =
  ne_bo :: byte_order
  ne_now :: timespec
  ne_message :: bool
  ne_tlv :: bool
  ne_stack :: u8

definition all_ports :: PortIdentity where
  "all_ports = \<lparr>clockIdentity = wildcard, portNumber = 0xffff\<rparr>"

definition pmc_target :: "PortIdentity \<Rightarrow> pmc \<Rightarrow> pmc" where
  "pmc_target pid = pmc_targeted_update (\<lambda>_. pid)"

definition pmc_target_port :: "u16 \<Rightarrow> pmc \<Rightarrow> pmc" where
  "pmc_target_port n = pmc_targeted_update (portNumber_update (\<lambda>_. n))"

definition pmc_target_all :: "pmc \<Rightarrow> pmc" where
  "pmc_target_all = pmc_target all_ports"

text \<open>
  The identity is that of the interface (\<open>mac\<close>), except on the local socket (\<open>transport_type\<close> 0).
  \<open>created\<close> and \<open>opened\<close> tell whether the transport could be created and opened.
\<close>

definition pmc_create ::
  "bool \<Rightarrow> u8 list option \<Rightarrow> bool \<Rightarrow> bool \<Rightarrow> int \<Rightarrow> u8 \<Rightarrow> u8 \<Rightarrow> u8 \<Rightarrow> bool \<Rightarrow> pmc option" where
  "pmc_create mem mac created opened transport_type boundary_hops domain_number transport_specific zero_datalen =
    (if \<not> mem then None
     else case (if transport_type \<noteq> 0 then generate_clock_identity mac else Some (clockIdentity zero_pid)) of
       None \<Rightarrow> None
     | Some identity \<Rightarrow>
         if \<not> created then None
         else if \<not> opened then None
         else Some (pmc_target_all
           \<lparr>pmc_sequence_id = 0, pmc_boundary_hops = boundary_hops, pmc_domain_number = domain_number,
            pmc_transport_specific = transport_specific,
            pmc_port_identity = \<lparr>clockIdentity = identity, portNumber = 1\<rparr>, pmc_targeted = zero_pid,
            pmc_zero_length_gets = zero_datalen, pmc_sent = [], pmc_out = []\<rparr>))"

subsection \<open>Requests\<close>

definition pmc_message :: "pmc_env \<Rightarrow> pmc \<Rightarrow> u8 \<Rightarrow> pmc \<times> ptp_message option" where
  "pmc_message e p action =
    (if \<not> ne_message e then (p, None)
     else
       let m = zero_msg 0
       in (p\<lparr>pmc_sequence_id := pmc_sequence_id p + 1\<rparr>,
           Some (m\<lparr>hwts := (hwts m)\<lparr>hw_type := TS_SOFTWARE\<rparr>,
             header := (header m)\<lparr>tsmt := MANAGEMENT OR pmc_transport_specific p, ver := PTP_VERSION,
               messageLength := 48, domainNumber := pmc_domain_number p,
               sourcePortIdentity := pmc_port_identity p, sequenceId := pmc_sequence_id p,
               control := CTL_MANAGEMENT, logMessageInterval := 0x7f\<rparr>,
             targetPortIdentity := pmc_targeted p, startingBoundaryHops := pmc_boundary_hops p,
             boundaryHops := pmc_boundary_hops p, mgmt_flags := action\<rparr>)))"

text \<open>The callers ignore the result.\<close>

definition pmc_send :: "pmc_env \<Rightarrow> ptp_message \<Rightarrow> pmc \<Rightarrow> pmc" where
  "pmc_send e m p =
    (case msg_pre_send (ne_bo e) (ne_now e) m of
       None \<Rightarrow> p
     | Some w \<Rightarrow> p\<lparr>pmc_sent := pmc_sent p @ [w]\<rparr>)"

abbreviation (input) EMPTY_CLOCK_DESCRIPTION :: nat where "EMPTY_CLOCK_DESCRIPTION \<equiv> 22"
abbreviation (input) EMPTY_PTP_TEXT :: nat where "EMPTY_PTP_TEXT \<equiv> 2"

definition pmc_tlv_datalen :: "pmc \<Rightarrow> u16 \<Rightarrow> nat" where
  "pmc_tlv_datalen p mid =
    (if pmc_zero_length_gets p then 0
     else if mid = TLV_USER_DESCRIPTION then EMPTY_PTP_TEXT
     else if mid = TLV_DEFAULT_DATA_SET then 20
     else if mid = TLV_CURRENT_DATA_SET then 18
     else if mid = TLV_PARENT_DATA_SET then 32
     else if mid = TLV_TIME_PROPERTIES_DATA_SET then 4
     else if mid \<in> {TLV_PRIORITY1, TLV_PRIORITY2, TLV_DOMAIN, TLV_SLAVE_ONLY, TLV_CLOCK_ACCURACY,
         TLV_TRACEABILITY_PROPERTIES, TLV_TIMESCALE_PROPERTIES} then 2
     else if mid = TLV_TIME_STATUS_NP then 50
     else if mid = TLV_GRANDMASTER_SETTINGS_NP then 8
     else if mid = TLV_NULL_MANAGEMENT then 0
     else if mid = TLV_CLOCK_DESCRIPTION then EMPTY_CLOCK_DESCRIPTION
     else if mid = TLV_PORT_DATA_SET then 26
     else if mid = TLV_PORT_DATA_SET_NP then 8
     else if mid \<in> {TLV_LOG_ANNOUNCE_INTERVAL, TLV_ANNOUNCE_RECEIPT_TIMEOUT, TLV_LOG_SYNC_INTERVAL,
         TLV_VERSION_NUMBER, TLV_DELAY_MECHANISM, TLV_LOG_MIN_PDELAY_REQ_INTERVAL} then 2
     else 0)"

definition management_tlv :: "byte_order \<Rightarrow> u16 \<Rightarrow> u8 list \<Rightarrow> u8 list" where
  "management_tlv bo mid data =
     u16_bytes bo TLV_MANAGEMENT @ u16_bytes bo (of_nat (2 + length data)) @ u16_bytes bo mid @ data"

text \<open>
  Where the descriptor of a request for the clock description points to: the fields of the value,
  which is all zero.
\<close>

definition get_extra :: "pmc \<Rightarrow> u16 \<Rightarrow> tlv_extra" where
  "get_extra p mid =
    (if mid = TLV_CLOCK_DESCRIPTION \<and> \<not> pmc_zero_length_gets p
     then (new_extra 0)\<lparr>cd_clockType := 6, cd_physicalAddress := 9, cd_protocolAddress := 11\<rparr>
     else new_extra 0)"

text \<open>The results are True for an error, after which the message is not dropped.\<close>

definition pmc_send_get_action :: "pmc_env \<Rightarrow> u16 \<Rightarrow> pmc \<Rightarrow> pmc \<times> bool" where
  "pmc_send_get_action e mid p =
    (case pmc_message e p GET of
       (p, None) \<Rightarrow> (p, True)
     | (p, Some m) \<Rightarrow>
         let datalen = pmc_tlv_datalen p mid;
             m = set_suffix 0 (management_tlv (ne_bo e) mid (replicate datalen 0)) m;
             m = m\<lparr>header := (header m)\<lparr>messageLength := messageLength (header m) + of_nat (6 + datalen)\<rparr>\<rparr>
         in if \<not> ne_tlv e then (p, True)
            else (pmc_send e (msg_tlv_attach m (get_extra p mid)) p, False))"

definition pmc_send_set_action :: "pmc_env \<Rightarrow> u16 \<Rightarrow> u8 list \<Rightarrow> pmc \<Rightarrow> pmc \<times> bool" where
  "pmc_send_set_action e mid data p =
    (case pmc_message e p SET of
       (p, None) \<Rightarrow> (p, True)
     | (p, Some m) \<Rightarrow>
         (case msg_tlv_append (ne_bo e) (ne_tlv e) m (6 + length data) of
            None \<Rightarrow> (p, True)
          | Some (m, ex) \<Rightarrow>
              (pmc_send e (set_suffix (tlv_at ex) (management_tlv (ne_bo e) mid data) m) p, False)))"

text \<open>\<open>received\<close> is what the transport returns: the message in network order and its length.\<close>

definition pmc_recv :: "pmc_env \<Rightarrow> (ptp_message \<times> int) option \<Rightarrow> ptp_message option" where
  "pmc_recv e received =
    (if \<not> ne_message e then None
     else case received of
       None \<Rightarrow> None
     | Some (m, cnt) \<Rightarrow>
         if cnt \<le> 0 then None
         else case msg_post_recv (ne_bo e) (\<lambda>_. ne_tlv e) (ne_now e) m (nat cnt) of
             Inl _ \<Rightarrow> None
           | Inr m \<Rightarrow> if msg_sots_missing m then None else Some m)"

subsection \<open>Reading and printing\<close>

text \<open>
  \<open>sscanf\<close> with the directives that the commands use: white space, text that has to match, a word
  that is not assigned, and unsigned and signed numbers.  The result are the numbers assigned before the
  first failure.
\<close>

datatype directive = White | Text string | SkipWord | Unsigned nat | Signed

text \<open>The conversions \<open>%d\<close> and \<open>%hd\<close>; the number is truncated when it is stored.\<close>

definition scan_int :: "string \<Rightarrow> (int \<times> string) option" where
  "scan_int s =
    (let (neg, d) = split_sign (dropWhile isspace s); ds = takeWhile (is_digit 10) d; n = int (number_of 10 ds)
     in if ds = [] then None
        else Some (max LONG_MIN (min LONG_MAX (if neg then - n else n)), drop (length ds) d))"

text \<open>A word of at most \<open>width\<close> characters (0 for any number).\<close>

definition scan_word :: "nat \<Rightarrow> string \<Rightarrow> (string \<times> string) option" where
  "scan_word width s =
    (let s = dropWhile isspace s; w = field width (takeWhile (\<lambda>c. \<not> isspace c) s)
     in if w = [] then None else Some (w, drop (length w) s))"

fun scanf :: "directive list \<Rightarrow> string \<Rightarrow> int list" where
  "scanf [] s = []"
| "scanf (White # f) s = scanf f (dropWhile isspace s)"
| "scanf (Text w # f) s = (if take (length w) s = w then scanf f (drop (length w) s) else [])"
| "scanf (SkipWord # f) s = (case scan_word 0 s of None \<Rightarrow> [] | Some (_, s) \<Rightarrow> scanf f s)"
| "scanf (Unsigned base # f) s = (case scan_number base 0 s of None \<Rightarrow> [] | Some (v, s) \<Rightarrow> v # scanf f s)"
| "scanf (Signed # f) s = (case scan_int s of None \<Rightarrow> [] | Some (v, s) \<Rightarrow> v # scanf f s)"

text \<open>\<open>strncasecmp(s, name, strlen(s)) == 0\<close>.\<close>

definition abbreviates :: "string \<Rightarrow> string \<Rightarrow> bool" where
  "abbreviates s name \<longleftrightarrow> map to_lower s = map to_lower (take (length s) name)"

definition newline :: string where "newline = [CHR 0x0A]"

definition print_text :: "string \<Rightarrow> pmc \<Rightarrow> pmc" where
  "print_text s p = p\<lparr>pmc_out := pmc_out p @ s\<rparr>"

subsection \<open>Commands\<close>

datatype handler = do_get_action | do_set_action | not_supported | null_management

definition idtab :: "(string \<times> u16 \<times> handler) list" where
  "idtab =
    [(''USER_DESCRIPTION'', TLV_USER_DESCRIPTION, do_get_action),
     (''SAVE_IN_NON_VOLATILE_STORAGE'', TLV_SAVE_IN_NON_VOLATILE_STORAGE, not_supported),
     (''RESET_NON_VOLATILE_STORAGE'', TLV_RESET_NON_VOLATILE_STORAGE, not_supported),
     (''INITIALIZE'', TLV_INITIALIZE, not_supported),
     (''FAULT_LOG'', TLV_FAULT_LOG, not_supported),
     (''FAULT_LOG_RESET'', TLV_FAULT_LOG_RESET, not_supported),
     (''DEFAULT_DATA_SET'', TLV_DEFAULT_DATA_SET, do_get_action),
     (''CURRENT_DATA_SET'', TLV_CURRENT_DATA_SET, do_get_action),
     (''PARENT_DATA_SET'', TLV_PARENT_DATA_SET, do_get_action),
     (''TIME_PROPERTIES_DATA_SET'', TLV_TIME_PROPERTIES_DATA_SET, do_get_action),
     (''PRIORITY1'', TLV_PRIORITY1, do_set_action),
     (''PRIORITY2'', TLV_PRIORITY2, do_set_action),
     (''DOMAIN'', TLV_DOMAIN, do_get_action),
     (''SLAVE_ONLY'', TLV_SLAVE_ONLY, do_get_action),
     (''TIME'', 0x200F, not_supported),
     (''CLOCK_ACCURACY'', TLV_CLOCK_ACCURACY, do_get_action),
     (''UTC_PROPERTIES'', 0x2011, not_supported),
     (''TRACEABILITY_PROPERTIES'', TLV_TRACEABILITY_PROPERTIES, do_get_action),
     (''TIMESCALE_PROPERTIES'', TLV_TIMESCALE_PROPERTIES, do_get_action),
     (''PATH_TRACE_LIST'', 0x2015, not_supported),
     (''PATH_TRACE_ENABLE'', 0x2016, not_supported),
     (''GRANDMASTER_CLUSTER_TABLE'', 0x2017, not_supported),
     (''ACCEPTABLE_MASTER_TABLE'', 0x201A, not_supported),
     (''ACCEPTABLE_MASTER_MAX_TABLE_SIZE'', 0x201C, not_supported),
     (''ALTERNATE_TIME_OFFSET_ENABLE'', 0x201E, not_supported),
     (''ALTERNATE_TIME_OFFSET_NAME'', 0x201F, not_supported),
     (''ALTERNATE_TIME_OFFSET_MAX_KEY'', 0x2020, not_supported),
     (''ALTERNATE_TIME_OFFSET_PROPERTIES'', 0x2021, not_supported),
     (''TRANSPARENT_CLOCK_DEFAULT_DATA_SET'', 0x4000, not_supported),
     (''PRIMARY_DOMAIN'', 0x4002, not_supported),
     (''TIME_STATUS_NP'', TLV_TIME_STATUS_NP, do_get_action),
     (''GRANDMASTER_SETTINGS_NP'', TLV_GRANDMASTER_SETTINGS_NP, do_set_action),
     (''NULL_MANAGEMENT'', TLV_NULL_MANAGEMENT, null_management),
     (''CLOCK_DESCRIPTION'', TLV_CLOCK_DESCRIPTION, do_get_action),
     (''PORT_DATA_SET'', TLV_PORT_DATA_SET, do_get_action),
     (''LOG_ANNOUNCE_INTERVAL'', TLV_LOG_ANNOUNCE_INTERVAL, do_get_action),
     (''ANNOUNCE_RECEIPT_TIMEOUT'', TLV_ANNOUNCE_RECEIPT_TIMEOUT, do_get_action),
     (''LOG_SYNC_INTERVAL'', TLV_LOG_SYNC_INTERVAL, do_get_action),
     (''VERSION_NUMBER'', TLV_VERSION_NUMBER, do_get_action),
     (''ENABLE_PORT'', TLV_ENABLE_PORT, not_supported),
     (''DISABLE_PORT'', TLV_DISABLE_PORT, not_supported),
     (''UNICAST_NEGOTIATION_ENABLE'', 0x2014, not_supported),
     (''UNICAST_MASTER_TABLE'', 0x2018, not_supported),
     (''UNICAST_MASTER_MAX_TABLE_SIZE'', 0x2019, not_supported),
     (''ACCEPTABLE_MASTER_TABLE_ENABLED'', 0x201B, not_supported),
     (''ALTERNATE_MASTER'', 0x201D, not_supported),
     (''TRANSPARENT_CLOCK_PORT_DATA_SET'', 0x4001, not_supported),
     (''DELAY_MECHANISM'', TLV_DELAY_MECHANISM, do_get_action),
     (''LOG_MIN_PDELAY_REQ_INTERVAL'', TLV_LOG_MIN_PDELAY_REQ_INTERVAL, do_get_action),
     (''PORT_DATA_SET_NP'', TLV_PORT_DATA_SET_NP, do_set_action)]"

definition action_string :: "string list" where
  "action_string = [''GET'', ''SET'', ''RESPONSE'', ''COMMAND'', ''ACKNOWLEDGE'']"

definition run_get_action :: "pmc_env \<Rightarrow> u8 \<Rightarrow> u16 \<Rightarrow> pmc \<Rightarrow> pmc" where
  "run_get_action e action code p = (if action = GET then fst (pmc_send_get_action e code p) else p)"

definition priority_format :: "directive list" where
  "priority_format = [White, SkipWord, White, SkipWord, White, Unsigned 10]"

definition gsn_format :: "directive list" where
  "gsn_format = [White, SkipWord, White, SkipWord, White,
     Text ''clockClass'', White, Unsigned 10, White,
     Text ''clockAccuracy'', White, Unsigned 16, White,
     Text ''offsetScaledLogVariance'', White, Unsigned 16, White,
     Text ''currentUtcOffset'', White, Signed, White,
     Text ''leap61'', White, Signed, White,
     Text ''leap59'', White, Signed, White,
     Text ''currentUtcOffsetValid'', White, Signed, White,
     Text ''ptpTimescale'', White, Signed, White,
     Text ''timeTraceable'', White, Signed, White,
     Text ''frequencyTraceable'', White, Signed, White,
     Text ''timeSource'', White, Unsigned 16, White]"

definition pnp_format :: "directive list" where
  "pnp_format = [White, SkipWord, White, SkipWord, White,
     Text ''neighborPropDelayThresh'', White, Unsigned 10, White,
     Text ''asCapable'', White, Signed, White]"

text \<open>An \<open>int\<close> that is set is not zero after it was truncated to 32 bits.\<close>

definition flag_if :: "int \<Rightarrow> u8 \<Rightarrow> u8" where
  "flag_if v f = (if (word_of_int v :: u32) \<noteq> 0 then f else 0)"

definition parse_gsn :: "byte_order \<Rightarrow> string \<Rightarrow> u8 list option" where
  "parse_gsn bo str =
    (case scanf gsn_format str of
       [cls, accuracy, variance, utc_offset, leap_61, leap_59, utc_off_valid, ptp_timescale, time_traceable,
        freq_traceable, source] \<Rightarrow>
         Some ([word_of_int cls, word_of_int accuracy] @ u16_bytes bo (word_of_int variance) @
           u16_bytes bo (word_of_int utc_offset) @
           [flag_if leap_61 LEAP_61 OR flag_if leap_59 LEAP_59 OR flag_if utc_off_valid UTC_OFF_VALID OR
              flag_if ptp_timescale PTP_TIMESCALE OR flag_if time_traceable TIME_TRACEABLE OR
              flag_if freq_traceable FREQ_TRACEABLE,
            word_of_int source])
     | _ \<Rightarrow> None)"

definition parse_priority :: "pmc_env \<Rightarrow> string \<Rightarrow> u8 list option" where
  "parse_priority e str = (case scanf priority_format str of [v] \<Rightarrow> Some [word_of_int v, ne_stack e] | _ \<Rightarrow> None)"

definition parse_pnp :: "byte_order \<Rightarrow> string \<Rightarrow> u8 list option" where
  "parse_pnp bo str =
    (case scanf pnp_format str of
       [thresh, capable] \<Rightarrow> Some (u32_bytes bo (word_of_int thresh) @ u32_bytes bo (word_of_int capable))
     | _ \<Rightarrow> None)"

text \<open>The value of a SET command; None when values are missing or the id is none of those that can be set.\<close>

definition parse_set :: "pmc_env \<Rightarrow> u16 \<Rightarrow> string \<Rightarrow> u8 list option" where
  "parse_set e code str =
    (if code = TLV_PRIORITY1 \<or> code = TLV_PRIORITY2 then parse_priority e str
     else if code = TLV_GRANDMASTER_SETTINGS_NP then parse_gsn (ne_bo e) str
     else if code = TLV_PORT_DATA_SET_NP then parse_pnp (ne_bo e) str
     else None)"

definition run_set_action :: "pmc_env \<Rightarrow> u8 \<Rightarrow> u16 \<Rightarrow> string \<Rightarrow> pmc \<Rightarrow> pmc" where
  "run_set_action e action code str p =
    (if action = GET then fst (pmc_send_get_action e code p)
     else if action = SET then
       (case parse_set e code str of
          None \<Rightarrow> p
        | Some data \<Rightarrow> fst (pmc_send_set_action e code data p))
     else p)"

definition run_handler :: "pmc_env \<Rightarrow> handler \<Rightarrow> u8 \<Rightarrow> string \<Rightarrow> u16 \<Rightarrow> string \<Rightarrow> pmc \<Rightarrow> pmc" where
  "run_handler e h action name code str p =
    (case h of
       do_get_action \<Rightarrow> run_get_action e action code p
     | do_set_action \<Rightarrow> run_set_action e action code str p
     | not_supported \<Rightarrow> print_text (''so'' @ ''rry, '' @ name @ '' not supported yet'' @ newline) p
     | null_management \<Rightarrow>
         if action = GET then fst (pmc_send_get_action e code p)
         else print_text (''non-get actions still todo'' @ newline) p)"

text \<open>None is BAD_ACTION.\<close>

definition parse_action :: "string \<Rightarrow> u8 option" where
  "parse_action s =
    (if abbreviates s ''GET'' then Some GET
     else if abbreviates s ''SET'' then Some SET
     else if abbreviates s ''CMD'' then Some COMMAND
     else if abbreviates s ''COMMAND'' then Some COMMAND
     else None)"

datatype parsed_id = IdIndex nat | BAD_ID | AMBIGUOUS_ID

text \<open>The two loops over the table; \<open>i\<close> is the index of the first entry left.\<close>

fun exact_match :: "string \<Rightarrow> nat \<Rightarrow> string list \<Rightarrow> nat option" where
  "exact_match s i [] = None"
| "exact_match s i (name # names) = (if strcaseeq s name then Some i else exact_match s (i + 1) names)"

fun prefix_match :: "string \<Rightarrow> parsed_id \<Rightarrow> nat \<Rightarrow> string list \<Rightarrow> parsed_id" where
  "prefix_match s index i [] = index"
| "prefix_match s index i (name # names) =
    (if abbreviates s name then
       (if index = BAD_ID then prefix_match s (IdIndex i) (i + 1) names else AMBIGUOUS_ID)
     else prefix_match s index (i + 1) names)"

definition parse_id :: "string \<Rightarrow> parsed_id" where
  "parse_id s =
    (case exact_match s 0 (map fst idtab) of
       Some i \<Rightarrow> IdIndex i
     | None \<Rightarrow> prefix_match s BAD_ID 0 (map fst idtab))"

text \<open>The new client and True for an error.\<close>

definition parse_target :: "string \<Rightarrow> pmc \<Rightarrow> pmc \<times> bool" where
  "parse_target str p =
    (if take 1 str = ''*'' then (pmc_target all_ports p, False)
     else case str2pid str of None \<Rightarrow> (p, True) | Some pid \<Rightarrow> (pmc_target pid p, False))"

definition print_help :: "pmc \<Rightarrow> pmc" where
  "print_help = print_text (newline @
     concat (map (\<lambda>(name, code, h). if h \<noteq> not_supported then [CHR 0x09] @ ''[action] '' @ name @ newline else []) idtab) @
     newline @
     [CHR 0x09] @ ''The [action] can be GET, SET, CMD, or COMMAND'' @ newline @
     [CHR 0x09] @ ''Commands are case insensitive and may be abbreviated.'' @ newline @
     newline @
     [CHR 0x09] @ ''TARGET [portIdentity]'' @ newline @
     [CHR 0x09] @ ''TARGET *'' @ newline @
     newline)"

definition do_command :: "pmc_env \<Rightarrow> string \<Rightarrow> pmc \<Rightarrow> pmc \<times> bool" where
  "do_command e str p =
    (if abbreviates str ''HELP'' then (print_help p, False)
     else case scan_word 10 str of
       None \<Rightarrow> (p, True)
     | Some (action_str, rest) \<Rightarrow>
         (case scan_word 64 rest of
            None \<Rightarrow> (p, True)
          | Some (id_str, _) \<Rightarrow>
              if abbreviates action_str ''TARGET'' then parse_target id_str p
              else case (parse_action action_str, parse_id id_str) of
                  (Some action, IdIndex i) \<Rightarrow>
                    (case idtab ! i of (name, code, h) \<Rightarrow>
                       (run_handler e h action name code str
                          (print_text (''sending: '' @ action_string ! unat action @ '' '' @ name @ newline) p), False))
                | (Some action, AMBIGUOUS_ID) \<Rightarrow>
                    (print_text (''id '' @ id_str @ '' is too ambiguous'' @ newline) p, False)
                | _ \<Rightarrow> (p, True)))"

end
