(* ===== verification/Format.thy ===== *)
theory Format
  imports Parse
begin

text \<open>The conversions of \<open>printf\<close> that the programs use on numbers.\<close>

fun show_hex :: "nat \<Rightarrow> string" where
  "show_hex n = (if n < 16 then [digit_char n] else show_hex (n div 16) @ [digit_char (n mod 16)])"

declare show_hex.simps [simp del]

definition pad :: "nat \<Rightarrow> string \<Rightarrow> string" where
  "pad w s = replicate (w - length s) CHR ''0'' @ s"

text \<open>\<open>%.1f\<close>: the exact value rounded to nearest, ties to even.\<close>

definition round_even :: "real \<Rightarrow> int" where
  "round_even x =
    (let n = \<lfloor>x\<rfloor>; f = x - of_int n
     in if f < 1 / 2 then n else if f > 1 / 2 then n + 1 else if even n then n else n + 1)"

definition show_fixed :: "nat \<Rightarrow> real \<Rightarrow> string" where
  "show_fixed d x =
    (let n = nat (round_even (\<bar>x\<bar> * 10 ^ d))
     in (if x < 0 then ''-'' else []) @ show_nat (n div 10 ^ d) @ ''.'' @ pad d (show_nat (n mod 10 ^ d)))"

text \<open>
  \<open>%.1e\<close>: the value is scaled to a mantissa between 1 and 10; the exponents of doubles are between
  -324 and 308, so 400 steps are enough.
\<close>

fun scale :: "nat \<Rightarrow> real \<Rightarrow> int \<Rightarrow> real \<times> int" where
  "scale 0 m k = (m, k)"
| "scale (Suc n) m k = (if m \<ge> 10 then scale n (m / 10) (k + 1) else if m < 1 then scale n (m * 10) (k - 1) else (m, k))"

definition show_exp :: "real \<Rightarrow> string" where
  "show_exp x =
    (let (m, k) = (if x = 0 then (0, 0) else scale 400 \<bar>x\<bar> 0); n = nat (round_even (m * 10));
         (n, k) = (if n = 100 then (10, k + 1) else (n, k))
     in (if x < 0 then ''-'' else []) @ show_nat (n div 10) @ ''.'' @ show_nat (n mod 10) @
        ''e'' @ (if k < 0 then ''-'' else ''+'') @ pad 2 (show_nat (nat \<bar>k\<bar>)))"

end
