(* ===== verification/PmcShow.thy ===== *)
theory PmcShow
  imports Pmc Tsproc Format
begin

text \<open>
  What pmc prints of a reply (\<open>pmc_show\<close> in src/pmc.c, \<open>portaddr2str\<close> and the names of the port
  states in src/util.c).  The value of a management TLV is read in the memory of the message, in host
  byte order as \<open>msg_post_recv\<close> left it.  \<open>inet_ntop\<close> for IPv6 is the parameter \<open>ntop6\<close>.
\<close>

subsection \<open>Conversions of \<open>printf\<close>\<close>

text \<open>\<open>%hhu\<close>, \<open>%hd\<close>, \<open>0x%02hhx\<close> and the like.\<close>

definition show_uint :: "'a::len word \<Rightarrow> string" where
  "show_uint w = show_nat (unat w)"

definition show_sint :: "'a::len word \<Rightarrow> string" where
  "show_sint w = show_int (sint w)"

definition show_0x :: "nat \<Rightarrow> 'a::len word \<Rightarrow> string" where
  "show_0x w x = ''0x'' @ pad w (show_hex (unat x))"

definition show_bit :: "u8 \<Rightarrow> u8 \<Rightarrow> string" where
  "show_bit w b = (if w AND b \<noteq> 0 then ''1'' else ''0'')"

text \<open>The octets of a text up to a zero.\<close>

definition show_octets :: "u8 list \<Rightarrow> string" where
  "show_octets bs = map (\<lambda>b. char_of (unat b)) (takeWhile (\<lambda>b. b \<noteq> 0) bs)"

definition text2str :: "u8 list \<Rightarrow> nat \<Rightarrow> string" where
  "text2str mem i = show_octets (octets mem (i + 1) (unat (octet mem i)))"

definition bin2str :: "u8 list \<Rightarrow> nat \<Rightarrow> nat \<Rightarrow> string" where
  "bin2str mem i n = bin2str_impl (octets mem i n)"

definition dotted :: "u8 list \<Rightarrow> string" where
  "dotted a = show_uint (a ! 0) @ ''.'' @ show_uint (a ! 1) @ ''.'' @ show_uint (a ! 2) @ ''.'' @ show_uint (a ! 3)"

text \<open>The port address at \<open>i\<close>: protocol, length, octets.\<close>

definition portaddr2str :: "(u8 list \<Rightarrow> string) \<Rightarrow> byte_order \<Rightarrow> u8 list \<Rightarrow> nat \<Rightarrow> string" where
  "portaddr2str ntop6 bo mem i =
    (let protocol = rd16 bo mem i; n = unat (rd16 bo mem (i + 2)); a = octets mem (i + 4) n
     in if protocol = 1 \<and> n = 4 then dotted a
        else if protocol = 2 \<and> n = 16 then ntop6 a
        else bin2str_impl a)"

definition ps_str :: "string list" where
  "ps_str = [''NONE'', ''INITIALIZING'', ''FAULTY'', ''DISABLED'', ''LISTENING'', ''PRE_MASTER'', ''MASTER'',
     ''PASSIVE'', ''UNCALIBRATED'', ''SLAVE'', ''GRAND_MASTER'']"

definition rd_pid :: "byte_order \<Rightarrow> u8 list \<Rightarrow> nat \<Rightarrow> PortIdentity" where
  "rd_pid bo mem i = \<lparr>clockIdentity = rd_cid mem i, portNumber = rd16 bo mem (i + 8)\<rparr>"

subsection \<open>The values\<close>

text \<open>A line of the reply: the name of the field with the spaces behind it, and its value.\<close>

definition show_line :: "string \<Rightarrow> string \<Rightarrow> string" where
  "show_line name v = [CHR 0x0A, CHR 0x09, CHR 0x09] @ name @ v"

definition show_lines :: "(string \<times> string) list \<Rightarrow> string" where
  "show_lines ls = concat (map (\<lambda>(name, v). show_line name v) ls)"

text \<open>The fields of a clock description follow each other from the octet 6 on.\<close>

definition show_clock_description :: "(u8 list \<Rightarrow> string) \<Rightarrow> byte_order \<Rightarrow> tlv_extra \<Rightarrow> u8 list \<Rightarrow> string" where
  "show_clock_description ntop6 bo ex mem =
    (let next_text = (\<lambda>i. i + 1 + unat (octet mem i)); protocol = cd_clockType ex + 2;
         phys = cd_physicalAddress ex; prot = cd_protocolAddress ex;
         manufacturer = prot + 4 + unat (rd16 bo mem (prot + 2)); product = manufacturer + 4;
         revision = next_text product; user = next_text revision; profile = next_text user
     in ''CLOCK_DESCRIPTION '' @ show_lines
         [(''clockType             '', ''0x'' @ show_hex (unat (rd16 bo mem (cd_clockType ex)))),
          (''physicalLayerProtocol '', text2str mem protocol),
          (''physicalAddress       '', bin2str mem (phys + 2) (unat (rd16 bo mem phys))),
          (''protocolAddress       '', show_uint (rd16 bo mem prot) @ '' '' @ portaddr2str ntop6 bo mem prot),
          (''manufacturerId        '', bin2str mem manufacturer 3),
          (''productDescription    '', text2str mem product),
          (''revisionData          '', text2str mem revision),
          (''userDescription       '', text2str mem user),
          (''profileId             '', bin2str mem profile 6)])"

definition show_default_ds :: "byte_order \<Rightarrow> u8 list \<Rightarrow> string" where
  "show_default_ds bo d = ''DEFAULT_DATA_SET '' @ show_lines
     [(''twoStepFlag             '', show_bit (octet d 0) DDS_TWO_STEP_FLAG),
      (''slaveOnly               '', show_bit (octet d 0) DDS_SLAVE_ONLY),
      (''numberPorts             '', show_uint (rd16 bo d 2)),
      (''priority1               '', show_uint (octet d 4)),
      (''clockClass              '', show_uint (octet d 5)),
      (''clockAccuracy           '', show_0x 2 (octet d 6)),
      (''offsetScaledLogVariance '', show_0x 4 (rd16 bo d 7)),
      (''priority2               '', show_uint (octet d 9)),
      (''clockIdentity           '', cid2str (rd_cid d 10)),
      (''domainNumber            '', show_uint (octet d 18))]"

definition show_current_ds :: "(real \<Rightarrow> real) \<Rightarrow> byte_order \<Rightarrow> u8 list \<Rightarrow> string" where
  "show_current_ds fl bo d = ''CURRENT_DATA_SET '' @ show_lines
     [(''stepsRemoved     '', show_sint (rd16 bo d 0)),
      (''offsetFromMaster '', show_fixed 1 (fl (of_int (sint (rd64 bo d 2))) / 65536)),
      (''meanPathDelay    '', show_fixed 1 (fl (of_int (sint (rd64 bo d 10))) / 65536))]"

definition show_parent_ds :: "byte_order \<Rightarrow> u8 list \<Rightarrow> string" where
  "show_parent_ds bo d = ''PARENT_DATA_SET '' @ show_lines
     [(''parentPortIdentity                    '', pid2str (rd_pid bo d 0)),
      (''parentStats                           '', show_uint (octet d 10)),
      (''observedParentOffsetScaledLogVariance '', show_0x 4 (rd16 bo d 12)),
      (''observedParentClockPhaseChangeRate    '', show_0x 8 (rd32 bo d 14)),
      (''grandmasterPriority1                  '', show_uint (octet d 18)),
      (''gm.ClockClass                         '', show_uint (octet d 19)),
      (''gm.ClockAccuracy                      '', show_0x 2 (octet d 20)),
      (''gm.OffsetScaledLogVariance            '', show_0x 4 (rd16 bo d 21)),
      (''grandmasterPriority2                  '', show_uint (octet d 23)),
      (''grandmasterIdentity                   '', cid2str (rd_cid d 24))]"

definition show_time_properties :: "byte_order \<Rightarrow> u8 list \<Rightarrow> string" where
  "show_time_properties bo d = ''TIME_PROPERTIES_DATA_SET '' @ show_lines
     [(''currentUtcOffset      '', show_sint (rd16 bo d 0)),
      (''leap61                '', show_bit (octet d 2) LEAP_61),
      (''leap59                '', show_bit (octet d 2) LEAP_59),
      (''currentUtcOffsetValid '', show_bit (octet d 2) UTC_OFF_VALID),
      (''ptpTimescale          '', show_bit (octet d 2) PTP_TIMESCALE),
      (''timeTraceable         '', show_bit (octet d 2) TIME_TRACEABLE),
      (''frequencyTraceable    '', show_bit (octet d 2) FREQ_TRACEABLE),
      (''timeSource            '', show_0x 2 (octet d 3))]"

text \<open>\<open>%+.9f\<close> of a quotient that is exact in double precision.\<close>

definition show_rate :: "i32 \<Rightarrow> string" where
  "show_rate w = (let x = of_int (sint w) / 2199023255552 in (if x \<ge> 0 then ''+'' else []) @ show_fixed 9 x)"

definition show_time_status :: "byte_order \<Rightarrow> u8 list \<Rightarrow> string" where
  "show_time_status bo d = ''TIME_STATUS_NP '' @ show_lines
     [(''master_offset              '', show_sint (rd64 bo d 0)),
      (''ingress_time               '', show_sint (rd64 bo d 8)),
      (''cumulativeScaledRateOffset '', show_rate (rd32 bo d 16)),
      (''scaledLastGmPhaseChange    '', show_sint (rd32 bo d 20)),
      (''gmTimeBaseIndicator        '', show_uint (rd16 bo d 24)),
      (''lastGmPhaseChange          '', show_0x 4 (rd16 bo d 26) @ [CHR 0x27] @ pad 16 (show_hex (unat (rd64 bo d 28))) @ ''.'' @
         pad 4 (show_hex (unat (rd16 bo d 36)))),
      (''gmPresent                  '', if rd32 bo d 38 \<noteq> 0 then ''true'' else ''false''),
      (''gmIdentity                 '', cid2str (rd_cid d 42))]"

definition show_gsn :: "byte_order \<Rightarrow> u8 list \<Rightarrow> string" where
  "show_gsn bo d = ''GRANDMASTER_SETTINGS_NP '' @ show_lines
     [(''clockClass              '', show_uint (octet d 0)),
      (''clockAccuracy           '', show_0x 2 (octet d 1)),
      (''offsetScaledLogVariance '', show_0x 4 (rd16 bo d 2)),
      (''currentUtcOffset        '', show_sint (rd16 bo d 4)),
      (''leap61                  '', show_bit (octet d 6) LEAP_61),
      (''leap59                  '', show_bit (octet d 6) LEAP_59),
      (''currentUtcOffsetValid   '', show_bit (octet d 6) UTC_OFF_VALID),
      (''ptpTimescale            '', show_bit (octet d 6) PTP_TIMESCALE),
      (''timeTraceable           '', show_bit (octet d 6) TIME_TRACEABLE),
      (''frequencyTraceable      '', show_bit (octet d 6) FREQ_TRACEABLE),
      (''timeSource              '', show_0x 2 (octet d 7))]"

text \<open>Mean path delay is shifted arithmetically.\<close>

definition show_port_ds :: "byte_order \<Rightarrow> u8 list \<Rightarrow> string" where
  "show_port_ds bo d = ''PORT_DATA_SET '' @ show_lines
     [(''portIdentity            '', pid2str (rd_pid bo d 0)),
      (''portState               '', ps_str ! (if octet d 10 > 9 then 0 else unat (octet d 10))),
      (''logMinDelayReqInterval  '', show_sint (octet d 11)),
      (''peerMeanPathDelay       '', show_int (sint (rd64 bo d 12) div 65536)),
      (''logAnnounceInterval     '', show_sint (octet d 20)),
      (''announceReceiptTimeout  '', show_uint (octet d 21)),
      (''logSyncInterval         '', show_sint (octet d 22)),
      (''delayMechanism          '', show_uint (octet d 23)),
      (''logMinPdelayReqInterval '', show_sint (octet d 24)),
      (''versionNumber           '', show_uint (octet d 25))]"

definition show_pnp :: "byte_order \<Rightarrow> u8 list \<Rightarrow> string" where
  "show_pnp bo d = ''PORT_DATA_SET_NP '' @ show_lines
     [(''neighborPropDelayThresh '', show_uint (rd32 bo d 0)),
      (''asCapable               '', if rd32 bo d 4 \<noteq> 0 then ''1'' else ''0'')]"

text \<open>The values of one octet, of the clock and of a port.\<close>

definition show_clock_datum :: "u16 \<Rightarrow> u8 \<Rightarrow> string" where
  "show_clock_datum mid v =
    (if mid = TLV_PRIORITY1 then ''PRIORITY1 '' @ show_line ''priority1 '' (show_uint v)
     else if mid = TLV_PRIORITY2 then ''PRIORITY2 '' @ show_line ''priority2 '' (show_uint v)
     else if mid = TLV_DOMAIN then ''DOMAIN '' @ show_line ''domainNumber '' (show_uint v)
     else if mid = TLV_SLAVE_ONLY then ''SLAVE_ONLY '' @ show_line ''slaveOnly '' (show_bit v DDS_SLAVE_ONLY)
     else if mid = TLV_CLOCK_ACCURACY then ''CLOCK_ACCURACY '' @ show_line ''clockAccuracy '' (show_0x 2 v)
     else if mid = TLV_TRACEABILITY_PROPERTIES then ''TRACEABILITY_PROPERTIES '' @ show_lines
       [(''timeTraceable      '', show_bit v TIME_TRACEABLE), (''frequencyTraceable '', show_bit v FREQ_TRACEABLE)]
     else if mid = TLV_TIMESCALE_PROPERTIES then
       ''TIMESCALE_PROPERTIES '' @ show_line ''ptpTimescale '' (show_bit v PTP_TIMESCALE)
     else [])"

definition show_port_datum :: "u16 \<Rightarrow> u8 \<Rightarrow> string" where
  "show_port_datum mid v =
    (if mid = TLV_LOG_ANNOUNCE_INTERVAL then
       ''LOG_ANNOUNCE_INTERVAL '' @ show_line ''logAnnounceInterval '' (show_sint v)
     else if mid = TLV_ANNOUNCE_RECEIPT_TIMEOUT then
       ''ANNOUNCE_RECEIPT_TIMEOUT '' @ show_line ''announceReceiptTimeout '' (show_uint v)
     else if mid = TLV_LOG_SYNC_INTERVAL then ''LOG_SYNC_INTERVAL '' @ show_line ''logSyncInterval '' (show_sint v)
     else if mid = TLV_VERSION_NUMBER then ''VERSION_NUMBER '' @ show_line ''versionNumber '' (show_uint v)
     else if mid = TLV_DELAY_MECHANISM then ''DELAY_MECHANISM '' @ show_line ''delayMechanism '' (show_uint v)
     else if mid = TLV_LOG_MIN_PDELAY_REQ_INTERVAL then
       ''LOG_MIN_PDELAY_REQ_INTERVAL '' @ show_line ''logMinPdelayReqInterval '' (show_sint v)
     else [])"

subsection \<open>A reply\<close>

text \<open>The value of the management TLV at the start of the suffix.\<close>

definition show_value :: "(u8 list \<Rightarrow> string) \<Rightarrow> (real \<Rightarrow> real) \<Rightarrow> byte_order \<Rightarrow> tlv_extra \<Rightarrow> u8 list \<Rightarrow> string" where
  "show_value ntop6 fl bo ex mem =
    (let mid = rd16 bo mem 4; d = drop 6 mem
     in if mid = TLV_CLOCK_DESCRIPTION then show_clock_description ntop6 bo ex mem
        else if mid = TLV_USER_DESCRIPTION then ''USER_DESCRIPTION '' @ show_line ''userDescription  '' (text2str mem 6)
        else if mid = TLV_DEFAULT_DATA_SET then show_default_ds bo d
        else if mid = TLV_CURRENT_DATA_SET then show_current_ds fl bo d
        else if mid = TLV_PARENT_DATA_SET then show_parent_ds bo d
        else if mid = TLV_TIME_PROPERTIES_DATA_SET then show_time_properties bo d
        else if mid = TLV_TIME_STATUS_NP then show_time_status bo d
        else if mid = TLV_GRANDMASTER_SETTINGS_NP then show_gsn bo d
        else if mid = TLV_PORT_DATA_SET then show_port_ds bo d
        else if mid = TLV_PORT_DATA_SET_NP then show_pnp bo d
        else show_clock_datum mid (octet d 0) @ show_port_datum mid (octet d 0))"

text \<open>The descriptor is that of the only TLV.\<close>

definition pmc_show :: "(u8 list \<Rightarrow> string) \<Rightarrow> (real \<Rightarrow> real) \<Rightarrow> byte_order \<Rightarrow> ptp_message \<Rightarrow> string" where
  "pmc_show ntop6 fl bo m =
    (let action = management_action m; mem = m_suffix m; type = rd16 bo mem 0
     in if msg_type m \<noteq> MANAGEMENT then []
        else if action > ACKNOWLEDGE then []
        else [CHR 0x09] @ pid2str (source_pid m) @ '' seq '' @ show_uint (sequenceId (header m)) @ '' '' @
          action_string ! unat action @ '' '' @
          (if tlv_count m \<noteq> 1 then []
           else if type = TLV_MANAGEMENT then
             ''MANAGEMENT '' @
             (if rd16 bo mem 2 = 2 \<and> rd16 bo mem 4 \<noteq> TLV_NULL_MANAGEMENT then ''empty-tlv ''
              else show_value ntop6 fl bo (hd (tlv_list m)) mem)
           else if type = TLV_MANAGEMENT_ERROR_STATUS then ''MANAGEMENT_ERROR_STATUS ''
           else ''unknown-tlv '') @
          newline)"

end
