(* ===== verification/Args.thy ===== *)
theory Args
  imports Config Servo
begin

text \<open>
  What the main functions of the programs share: the arguments as \<open>getopt_long\<close> returns them and the
  end of a program.  The name of a long option is that of the table of options, not its abbreviation.
\<close>

datatype argument = Opt char string | LongOpt string string | UnknownOpt

definition long_names :: "argument list \<Rightarrow> string list" where
  "long_names args = concat (map (\<lambda>a. case a of LongOpt name v \<Rightarrow> [name] | _ \<Rightarrow> []) args)"

lemma long_names_iff: "name \<in> set (long_names args) \<longleftrightarrow> (\<exists>v. LongOpt name v \<in> set args)"
  by (force simp: long_names_def split: argument.splits)

definition short_names :: "argument list \<Rightarrow> char list" where
  "short_names args = concat (map (\<lambda>a. case a of Opt c v \<Rightarrow> [c] | _ \<Rightarrow> []) args)"

text \<open>The end of the program with the status -1.\<close>

definition or_out :: "'a option \<Rightarrow> int + 'a" where
  "or_out r = (case r of None \<Rightarrow> Inl (- 1) | Some x \<Rightarrow> Inr x)"

text \<open>The setters of the configuration return true for a failure.\<close>

definition set_ok :: "'a \<times> bool \<Rightarrow> 'a option" where
  "set_ok r = (case r of (cfg, failed) \<Rightarrow> if failed then None else Some cfg)"

text \<open>What a servo reads from the configuration.\<close>

definition servo_config :: "Config.config \<Rightarrow> Servo.config" where
  "servo_config cfg =
    \<lparr>cfg_int = (\<lambda>k. case config_get_int cfg None k of None \<Rightarrow> 0 | Some i \<Rightarrow> i),
     cfg_double = (\<lambda>k. case config_get_double cfg None k of None \<Rightarrow> 0 | Some d \<Rightarrow> d)\<rparr>"

definition servo_type_of :: "int \<Rightarrow> servo_type" where
  "servo_type_of i =
    (if i = 0 then CLOCK_SERVO_PI else if i = 1 then CLOCK_SERVO_LINREG
     else if i = 2 then CLOCK_SERVO_NTPSHM else CLOCK_SERVO_NULLF)"

end
