(* ===== verification/ClockCreate.thy ===== *)
theory ClockCreate
  imports ClockPorts Args "HOL-Library.Monad_Syntax"
begin

text \<open>
  How the clock and its ports come into being: \<open>clock_create\<close>, \<open>clock_add_port\<close>,
  \<open>clock_required_modes\<close> (src/clock.c) and \<open>port_open\<close> (src/port.c) read the options and the answers of
  the kernel.  Both functions are in the option monad: None stands for the null pointer that they return
  and for the end of the program in \<open>config_get_int\<close>, after either of which ptp4l ends.  The static
  variable of the clock is zero before.
\<close>

subsection \<open>The environment\<close>

record sk_ts_info =
  si_valid :: bool
  si_phc_index :: int
  si_so_timestamping :: u32

record create_env =
  ce_bo :: byte_order
  ce_fl :: "real \<Rightarrow> real"
  ce_mem :: bool
  ce_shm :: "shmTime option"
  ce_ts_device :: "string \<Rightarrow> string"
  ce_ts_info :: "string \<Rightarrow> sk_ts_info"
  ce_macaddr :: "string \<Rightarrow> u8 list option"
  ce_phc_open :: "int \<Rightarrow> bool"
  ce_phc_max_adj :: "int \<Rightarrow> int"
  ce_sysclk_max_freq :: int
  ce_freq :: dbl
  ce_transport :: "int \<Rightarrow> bool"
  ce_timerfd :: "nat \<Rightarrow> bool"

definition ensure :: "bool \<Rightarrow> unit option" where
  "ensure b = (if b then Some () else None)"

lemma ensure_bind [simp]: "(ensure b \<bind> (\<lambda>_. m)) = Some x \<longleftrightarrow> b \<and> m = Some x"
  by (simp add: ensure_def)

definition get_bool :: "Config.config \<Rightarrow> string option \<Rightarrow> string \<Rightarrow> bool option" where
  "get_bool cfg sct opt = map_option (\<lambda>i. i \<noteq> 0) (config_get_int cfg sct opt)"

text \<open>The enumerations by their numbers.\<close>

definition timestamp_type_of :: "int \<Rightarrow> timestamp_type" where
  "timestamp_type_of i =
    (if i = 0 then TS_SOFTWARE else if i = 1 then TS_HARDWARE else if i = 2 then TS_LEGACY_HW
     else if i = 3 then TS_ONESTEP else TS_P2P1STEP)"

definition tsproc_mode_of :: "int \<Rightarrow> tsproc_mode" where
  "tsproc_mode_of i =
    (if i = 0 then TSPROC_FILTER else if i = 1 then TSPROC_RAW else if i = 2 then TSPROC_FILTER_WEIGHT
     else TSPROC_RAW_WEIGHT)"

definition filter_type_of :: "int \<Rightarrow> filter_type" where
  "filter_type_of i = (if i = 0 then FILTER_MOVING_AVERAGE else FILTER_MOVING_MEDIAN)"

definition delay_mechanism_of :: "int \<Rightarrow> delay_mechanism" where
  "delay_mechanism_of i = (if i = 0 then DM_AUTO else if i = 1 then DM_E2E else DM_P2P)"

subsection \<open>Opening a port\<close>

text \<open>Four transports exist, and the kernel or the memory may refuse them.\<close>

definition transport_create :: "create_env \<Rightarrow> int \<Rightarrow> u16 option" where
  "transport_create e type =
    (if type \<in> {0, 1, 2, 3} \<and> ce_transport e type then Some (word_of_int type) else None)"

definition zero_nrate :: nrate_estimator where
  "zero_nrate = \<lparr>nr_ratio = 0, nr_origin1 = tmv_zero, nr_ingress1 = tmv_zero, nr_max_count = 0, nr_count = 0,
     nr_ratio_valid = False\<rparr>"

text \<open>The port after \<open>memset\<close>, with a time stamp processor that is set later.\<close>

definition zero_port :: "tsproc \<Rightarrow> port" where
  "zero_port tsp =
    \<lparr>p_timestamping = TS_SOFTWARE, p_jbod = False, p_phc_index = 0, p_ts_label = [], p_link_status = 0,
     p_trp_type = 0, p_protocol_addr = [], p_physical_addr = [], p_best = None, p_syfu = SF_EMPTY,
     p_last_syncfup = zero_msg 0, p_delay_req = [], p_peer_delay_req = None, p_peer_delay_resp = None,
     p_peer_delay_fup = None, p_peer_portid_valid = False, p_peer_portid = zero_pid, p_seqnum_announce = 0,
     p_seqnum_delayreq = 0, p_seqnum_sync = 0, p_peer_delay = tmv_zero, p_tsproc = tsp, p_log_sync_interval = 0,
     p_nrate = zero_nrate, p_pdr_missing = 0, p_multiple_seq_pdr_count = 0, p_multiple_pdr_detected = False,
     p_slave_only_fsm = False, p_portIdentity = zero_pid, p_state = PS_INITIALIZING, p_asymmetry = 0, p_asCapable = False,
     p_logMinDelayReqInterval = 0, p_peerMeanPathDelay = 0, p_logAnnounceInterval = 0, p_announceReceiptTimeout = 0,
     p_announce_span = 0, p_syncReceiptTimeout = 0, p_transportSpecific = 0, p_localPriority = 0, p_logSyncInterval = 0,
     p_delayMechanism = DM_AUTO, p_logMinPdelayReqInterval = 0, p_neighborPropDelayThresh = 0, p_follow_up_info = False,
     p_freq_est_interval = 0, p_hybrid_e2e = False, p_master_only = False, p_match_transport_specific = False,
     p_min_neighbor_prop_delay = 0, p_net_sync_monitor = False, p_path_trace_enabled = False, p_tc_spanning_tree = False,
     p_rx_timestamp_offset = 0, p_tx_timestamp_offset = 0, p_flt_interval_pertype = (\<lambda>_. FTMO_LINEAR_SECONDS 0),
     p_last_fault_type = FT_UNSPECIFIED, p_versionNumber = 0, p_foreign_masters = [], p_tc_transmitted = [], p_fx = [],
     p_refs = [], p_nalloc = 0, p_nsend = 0\<rparr>"

text \<open>Which hardware clock the port uses; None when another one than that of the clock is attached.\<close>

definition port_phc_index :: "int \<Rightarrow> int \<Rightarrow> bool \<Rightarrow> sk_ts_info \<Rightarrow> int option" where
  "port_phc_index phc_index transport jbod info =
    (if transport = 0 then Some phc_index
     else if \<not> si_valid info then Some phc_index
     else if phc_index \<ge> 0 \<and> phc_index \<noteq> si_phc_index info then
       (if jbod then Some (si_phc_index info) else None)
     else Some phc_index)"

definition fault_intervals :: "int \<Rightarrow> int \<Rightarrow> fault_type \<Rightarrow> fault_interval" where
  "fault_intervals badpeernet reset =
     ((\<lambda>_. FTMO_LOG2_SECONDS 4)(FT_BAD_PEER_NETWORK := FTMO_LINEAR_SECONDS badpeernet))(FT_UNSPECIFIED := FTMO_LOG2_SECONDS reset)"

text \<open>Whether the delay mechanism fits a transparent clock.\<close>

definition delay_mechanism_fits :: "clock_type \<Rightarrow> nat \<Rightarrow> delay_mechanism \<Rightarrow> bool" where
  "delay_mechanism_fits type number dm \<longleftrightarrow>
    \<not> (number \<noteq> 0 \<and> type = CLOCK_TYPE_P2P \<and> dm \<noteq> DM_P2P) \<and> \<not> (number \<noteq> 0 \<and> type = CLOCK_TYPE_E2E \<and> dm \<noteq> DM_E2E)"

definition port_open ::
  "create_env \<Rightarrow> Config.config \<Rightarrow> clock_type \<Rightarrow> bool \<Rightarrow> ClockIdentity \<Rightarrow> int \<Rightarrow> timestamp_type \<Rightarrow> nat \<Rightarrow> iface \<Rightarrow> sk_ts_info \<Rightarrow>
   port option" where
  "port_open e cfg type slave_only identity phc_index timestamping number interface info =
    do {
      ensure (ce_mem e \<and> type \<noteq> CLOCK_TYPE_MANAGEMENT);
      let int_of = config_get_int cfg (Some (if_name interface));
      let bool_of = get_bool cfg (Some (if_name interface));
      jbod \<leftarrow> bool_of ''boundary_clock_jbod'';
      transport \<leftarrow> int_of ''network_transport'';
      phc_index \<leftarrow> port_phc_index phc_index transport jbod info;
      asymmetry \<leftarrow> int_of ''delayAsymmetry'';
      follow_up_info \<leftarrow> bool_of ''follow_up_info'';
      freq_est_interval \<leftarrow> int_of ''freq_est_interval'';
      hybrid_e2e \<leftarrow> bool_of ''hybrid_e2e'';
      net_sync_monitor \<leftarrow> bool_of ''net_sync_monitor'';
      path_trace_enabled \<leftarrow> bool_of ''path_trace_enabled'';
      tc_spanning_tree \<leftarrow> bool_of ''tc_spanning_tree'';
      rx_timestamp_offset \<leftarrow> int_of ''ingressLatency'';
      tx_timestamp_offset \<leftarrow> int_of ''egressLatency'';
      trp \<leftarrow> transport_create e transport;
      dm \<leftarrow> int_of ''delay_mechanism'';
      ensure (delay_mechanism_fits type number (delay_mechanism_of dm));
      badpeernet \<leftarrow> int_of ''fault_badpeernet_interval'';
      fault_reset \<leftarrow> int_of ''fault_reset_interval'';
      mode \<leftarrow> int_of ''tsproc_mode'';
      delay_filter \<leftarrow> int_of ''delay_filter'';
      filter_length \<leftarrow> int_of ''delay_filter_length'';
      tsp \<leftarrow> tsproc_create (ce_mem e) (tsproc_mode_of mode) (filter_type_of delay_filter) filter_length;
      ensure (number = 0 \<or> ce_timerfd e number);
      Some ((zero_port tsp)
        \<lparr>p_slave_only_fsm := slave_only, p_jbod := jbod, p_phc_index := phc_index, p_ts_label := if_ts_label interface,
         p_asymmetry := push_bit 16 (word_of_int asymmetry),
         p_announce_span := (if transport = 0 then 0 else 1),
         p_follow_up_info := follow_up_info, p_freq_est_interval := freq_est_interval, p_hybrid_e2e := hybrid_e2e,
         p_net_sync_monitor := net_sync_monitor, p_path_trace_enabled := path_trace_enabled,
         p_tc_spanning_tree := tc_spanning_tree,
         p_rx_timestamp_offset := push_bit 16 (word_of_int rx_timestamp_offset),
         p_tx_timestamp_offset := push_bit 16 (word_of_int tx_timestamp_offset),
         p_link_status := LINK_UP, p_trp_type := trp, p_timestamping := timestamping,
         p_portIdentity := \<lparr>clockIdentity = identity, portNumber = of_nat number\<rparr>, p_state := PS_INITIALIZING,
         p_delayMechanism := delay_mechanism_of dm, p_versionNumber := 2,
         p_flt_interval_pertype := fault_intervals badpeernet fault_reset,
         p_nrate := zero_nrate\<lparr>nr_ratio := 1\<rparr>\<rparr>)
    }"

subsection \<open>Creating the clock\<close>

definition clock_required_modes :: "timestamp_type \<Rightarrow> u32" where
  "clock_required_modes timestamping =
    (case timestamping of
       TS_SOFTWARE \<Rightarrow> push_bit 1 1 OR push_bit 3 1 OR push_bit 4 1
     | TS_LEGACY_HW \<Rightarrow> push_bit 0 1 OR push_bit 2 1 OR push_bit 5 1
     | _ \<Rightarrow> push_bit 0 1 OR push_bit 2 1 OR push_bit 6 1)"

definition ensure_ts_label :: "iface \<Rightarrow> iface" where
  "ensure_ts_label i = (if if_ts_label i = [] then i\<lparr>if_ts_label := if_name i\<rparr> else i)"

text \<open>The time stamping modes of an interface are looked up, and have to include the required ones.\<close>

definition check_interface :: "create_env \<Rightarrow> u32 \<Rightarrow> iface \<Rightarrow> (iface \<times> sk_ts_info) option" where
  "check_interface e required i =
    (let i = ensure_ts_label (i\<lparr>if_ts_label := ce_ts_device e (if_name i)\<rparr>); info = ce_ts_info e (if_ts_label i)
     in if si_valid info \<and> si_so_timestamping info AND required \<noteq> required then None else Some (i, info))"

primrec check_interfaces :: "create_env \<Rightarrow> u32 \<Rightarrow> iface list \<Rightarrow> (iface \<times> sk_ts_info) list option" where
  "check_interfaces e required [] = Some []"
| "check_interfaces e required (i # is) =
    do { x \<leftarrow> check_interface e required i; xs \<leftarrow> check_interfaces e required is; Some (x # xs) }"

text \<open>A text of the configuration as octets; NULL is not expected.\<close>

definition get_text :: "Config.config \<Rightarrow> string \<Rightarrow> string option" where
  "get_text cfg opt = (case config_get_string cfg None opt of Some (Some s) \<Rightarrow> Some s | _ \<Rightarrow> None)"

definition text_octets :: "string \<Rightarrow> u8 list" where
  "text_octets s = map (\<lambda>c. word_of_nat (of_char c)) s"

definition semicolons :: "string \<Rightarrow> nat" where
  "semicolons s = count_char s (CHR '';'')"

definition create_description :: "Config.config \<Rightarrow> clock_description option" where
  "create_description cfg =
    do {
      product \<leftarrow> get_text cfg ''productDescription'';
      ensure (semicolons product = 2);
      product \<leftarrow> static_ptp_text_set \<lparr>spt_text = [], spt_max_symbols = 64\<rparr> (text_octets product);
      revision \<leftarrow> get_text cfg ''revisionData'';
      ensure (semicolons revision = 2);
      revision \<leftarrow> static_ptp_text_set \<lparr>spt_text = [], spt_max_symbols = 32\<rparr> (text_octets revision);
      user \<leftarrow> get_text cfg ''userDescription'';
      user \<leftarrow> static_ptp_text_set \<lparr>spt_text = [], spt_max_symbols = 128\<rparr> (text_octets user);
      manufacturer \<leftarrow> get_text cfg ''manufacturerIdentity'';
      oui \<leftarrow> sscanf [ScanHex 0, ScanChar CHR '':'', ScanHex 0, ScanChar CHR '':'', ScanHex 0] manufacturer;
      Some \<lparr>cdesc_product = product, cdesc_revision = revision, cdesc_user = user, cdesc_manufacturer = map word_of_int oui\<rparr>
    }"

text \<open>The conversion \<open>%d\<close> of \<open>sscanf\<close> after the name of the device.\<close>

definition scan_ptp_index :: "string \<Rightarrow> int option" where
  "scan_ptp_index dev =
    (if take 8 dev \<noteq> ''/dev/ptp'' then None
     else
       let (neg, d) = split_sign (dropWhile isspace (drop 8 dev)); ds = takeWhile (is_digit 10) d;
           n = int (number_of 10 ds); v = max LONG_MIN (min LONG_MAX (if neg then - n else n))
       in if ds = [] then None else Some (sint (word_of_int v :: i32)))"

definition select_phc_index :: "bool \<Rightarrow> timestamp_type \<Rightarrow> string option \<Rightarrow> sk_ts_info \<Rightarrow> int option" where
  "select_phc_index free_running timestamping phc_device info =
    (if free_running then Some (-1)
     else if timestamping = TS_SOFTWARE \<or> timestamping = TS_LEGACY_HW then Some (-1)
     else case phc_device of
         Some dev \<Rightarrow> scan_ptp_index dev
       | None \<Rightarrow> if si_valid info then Some (si_phc_index info) else None)"

text \<open>The default data set: flags, class and the limits of a slave.\<close>

definition create_default_ds :: "Config.config \<Rightarrow> defaultDS option" where
  "create_default_ds cfg =
    do {
      clock_class \<leftarrow> config_get_int cfg None ''clockClass'';
      accuracy \<leftarrow> config_get_int cfg None ''clockAccuracy'';
      variance \<leftarrow> config_get_int cfg None ''offsetScaledLogVariance'';
      domain \<leftarrow> config_get_int cfg None ''domainNumber'';
      slave_only \<leftarrow> get_bool cfg None ''slaveOnly'';
      gm_capable \<leftarrow> get_bool cfg None ''gmCapable'';
      ensure (gm_capable \<or> \<not> slave_only);
      Some \<lparr>dds_flags = (if slave_only then DDS_SLAVE_ONLY else 0), dds_numberPorts = 0, dds_priority1 = 0,
        dds_clockQuality = \<lparr>clockClass = (if \<not> gm_capable \<or> slave_only then 255 else word_of_int clock_class),
          clockAccuracy = word_of_int accuracy, offsetScaledLogVariance = word_of_int variance\<rparr>,
        dds_priority2 = 0, dds_clockIdentity = CID 0 0 0 0 0 0 0 0, dds_domainNumber = word_of_int domain\<rparr>
    }"

text \<open>The options of the UDS port.\<close>

definition configure_uds :: "create_env \<Rightarrow> Config.config \<Rightarrow> (Config.config \<times> iface) option" where
  "configure_uds e cfg =
    do {
      address \<leftarrow> get_text cfg ''uds_address'';
      let name = take 108 address;
      cfg \<leftarrow> set_ok (config_set_section_int (ce_mem e) cfg (Some name) ''announceReceiptTimeout'' 0);
      cfg \<leftarrow> set_ok (config_set_section_int (ce_mem e) cfg (Some name) ''delay_mechanism'' 0);
      cfg \<leftarrow> set_ok (config_set_section_int (ce_mem e) cfg (Some name) ''network_transport'' 0);
      cfg \<leftarrow> set_ok (config_set_section_int (ce_mem e) cfg (Some name) ''delay_filter_length'' 1);
      Some (cfg, \<lparr>if_name = name, if_ts_label = []\<rparr>)
    }"

text \<open>
  What is disciplined: whether it is the system clock, how far it can be adjusted and what is done to it
  first, None for a clock that cannot be opened or adjusted.  \<open>phc_index\<close> is that of \<open>select_phc_index\<close>.
\<close>

definition open_clock :: "create_env \<Rightarrow> bool \<Rightarrow> int \<Rightarrow> (bool \<times> int \<times> int \<times> clock_effect list) option" where
  "open_clock e free_running phc_index =
    (let fadj = dbl_to_int (ce_freq e); set_freq = ClockSetFreq (of_int fadj)
     in if free_running then Some (False, 0, 0, [])
        else if phc_index \<ge> 0 then
          (if \<not> ce_phc_open e phc_index \<or> ce_phc_max_adj e phc_index = 0 then None
           else Some (False, ce_phc_max_adj e phc_index, fadj, [set_freq]))
        else Some (True, ce_sysclk_max_freq e, fadj, [SysclkSetLeap 0, set_freq]))"

text \<open>The ports are numbered from one on; the numbers are kept as 16 bit.\<close>

fun clock_add_ports ::
  "create_env \<Rightarrow> Config.config \<Rightarrow> clock_type \<Rightarrow> bool \<Rightarrow> ClockIdentity \<Rightarrow> int \<Rightarrow> timestamp_type \<Rightarrow> nat \<Rightarrow>
   (iface \<times> sk_ts_info) list \<Rightarrow> port list option" where
  "clock_add_ports e cfg type slave_only identity phc_index timestamping n [] = Some []"
| "clock_add_ports e cfg type slave_only identity phc_index timestamping n ((i, info) # rest) =
    do {
      ensure (ce_mem e);
      p \<leftarrow> port_open e cfg type slave_only identity phc_index timestamping (n + 1) i info;
      ps \<leftarrow> clock_add_ports e cfg type slave_only identity phc_index timestamping (n + 1) rest;
      Some (p # ps)
    }"

definition zero_stats :: clock_stats where
  "zero_stats = \<lparr>cs_offset = stats_reset, cs_freq = stats_reset, cs_delay = stats_reset, cs_max_count = 0\<rparr>"

definition zero_status :: time_status_np where
  "zero_status = \<lparr>tsn_master_offset = 0, tsn_ingress_time = 0, tsn_cumulativeScaledRateOffset = 0,
     tsn_scaledLastGmPhaseChange = 0, tsn_gmTimeBaseIndicator = 0,
     tsn_lastGmPhaseChange = \<lparr>sns_nanoseconds_msb = 0, sns_nanoseconds_lsb = 0, sns_fractional_nanoseconds = 0\<rparr>,
     tsn_gmPresent = 0, tsn_gmIdentity = CID 0 0 0 0 0 0 0 0\<rparr>"

text \<open>The static variable with what it owns: a servo, a time stamp processor and the description.\<close>

definition zero_clock :: "clock_type \<Rightarrow> Servo.config \<Rightarrow> servo \<Rightarrow> tsproc \<Rightarrow> clock_description \<Rightarrow> clock" where
  "zero_clock type cfg sv tsp desc =
    \<lparr>c_type = type, c_config = cfg, c_realtime = False, c_servo = sv, c_servo_type = CLOCK_SERVO_PI,
     c_dds = \<lparr>dds_flags = 0, dds_numberPorts = 0, dds_priority1 = 0,
       dds_clockQuality = \<lparr>clockClass = 0, clockAccuracy = 0, offsetScaledLogVariance = 0\<rparr>, dds_priority2 = 0,
       dds_clockIdentity = CID 0 0 0 0 0 0 0 0, dds_domainNumber = 0\<rparr>,
     c_localPriority = 0, c_cur = \<lparr>cur_stepsRemoved = 0, cur_offsetFromMaster = 0, cur_meanPathDelay = 0\<rparr>,
     c_dad = \<lparr>dad_pds = \<lparr>pds_parentPortIdentity = zero_pid, pds_grandmasterPriority1 = 0,
         pds_grandmasterClockQuality = \<lparr>clockClass = 0, clockAccuracy = 0, offsetScaledLogVariance = 0\<rparr>,
         pds_grandmasterPriority2 = 0, pds_grandmasterIdentity = CID 0 0 0 0 0 0 0 0\<rparr>,
       dad_ptl = replicate PATH_TRACE_MAX (CID 0 0 0 0 0 0 0 0), dad_path_length = 0\<rparr>,
     c_tds = \<lparr>tds_currentUtcOffset = 0, tds_flags = 0, tds_timeSource = 0\<rparr>,
     c_best = None, c_best_id = CID 0 0 0 0 0 0 0 0, c_sde = False, c_free_running = False, c_freq_est_interval = 0,
     c_grand_master_capable = False, c_utc_timescale = False, c_utc_offset_set = 0, c_leap_set = 0, c_kernel_leap = False,
     c_utc_offset = 0, c_time_flags = 0, c_time_source = 0, c_servo_state = SERVO_UNLOCKED, c_master_offset = tmv_zero,
     c_path_delay = tmv_zero, c_ingress_ts = tmv_zero, c_initial_delay = tmv_zero, c_tsproc = tsp,
     c_fest = \<lparr>fest_origin1 = tmv_zero, fest_ingress1 = tmv_zero, fest_max_count = 0, fest_count = 0\<rparr>,
     c_status = zero_status, c_master_local_rr = 0, c_nrr = 0, c_stats = zero_stats, c_stats_interval = 0, c_desc = desc,
     c_sanity_check = None, c_subscribers = [], c_fx = []\<rparr>"

text \<open>
  \<open>clock_create\<close> up to its last loop, which dispatches EV_INITIALIZE to the ports and is \<open>clock_start\<close>.
  Without an interface the code reads through a null pointer; ptp4l does not call it then.
\<close>

definition clock_create :: "create_env \<Rightarrow> clock_type \<Rightarrow> Config.config \<Rightarrow> string option \<Rightarrow> system option" where
  "clock_create e type cfg phc_device =
    do {
      ensure (type \<noteq> CLOCK_TYPE_MANAGEMENT);
      servo \<leftarrow> config_get_int cfg None ''clock_servo'';
      dds \<leftarrow> create_default_ds cfg;
      desc \<leftarrow> create_description cfg;
      local_priority \<leftarrow> config_get_int cfg None ''G.8275.defaultDS.localPriority'';
      cfg \<leftarrow> Option.bind (config_harmonize_onestep (ce_mem e) cfg) set_ok;
      two_step \<leftarrow> get_bool cfg None ''twoStepFlag'';
      stamping \<leftarrow> config_get_int cfg None ''time_stamping'';
      let timestamping = timestamp_type_of stamping;
      priority1 \<leftarrow> config_get_int cfg None ''priority1'';
      priority2 \<leftarrow> config_get_int cfg None ''priority2'';
      ifaces \<leftarrow> check_interfaces e (clock_required_modes timestamping) (cfg_interfaces cfg);
      ensure (ifaces \<noteq> []);
      free_running \<leftarrow> get_bool cfg None ''free_running'';
      phc_index \<leftarrow> select_phc_index free_running timestamping phc_device (snd (hd ifaces));
      identity \<leftarrow> generate_clock_identity (ce_macaddr e (if_name (fst (hd ifaces))));
      (cfg, udsif) \<leftarrow> configure_uds e cfg;
      freq_est_interval \<leftarrow> config_get_int cfg None ''freq_est_interval'';
      gm_capable \<leftarrow> get_bool cfg None ''gmCapable'';
      kernel_leap \<leftarrow> get_bool cfg None ''kernel_leap'';
      utc_offset \<leftarrow> config_get_int cfg None ''utc_offset'';
      time_source \<leftarrow> config_get_int cfg None ''timeSource'';
      (realtime, max_adj, fadj, fx) \<leftarrow> open_clock e free_running phc_index;
      let utc_timescale = (realtime \<or> (free_running \<and> (timestamping = TS_SOFTWARE \<or> timestamping = TS_LEGACY_HW)));
      sv \<leftarrow> (if servo \<in> {0..3}
        then servo_create (ce_fl e) (ce_mem e) (ce_shm e) (servo_config cfg) (servo_type_of servo) (- fadj) max_adj
          (timestamping = TS_SOFTWARE)
        else None);
      comparison \<leftarrow> config_get_int cfg None ''dataset_comparison'';
      mode \<leftarrow> config_get_int cfg None ''tsproc_mode'';
      delay_filter \<leftarrow> config_get_int cfg None ''delay_filter'';
      filter_length \<leftarrow> config_get_int cfg None ''delay_filter_length'';
      tsp \<leftarrow> tsproc_create (ce_mem e) (tsproc_mode_of mode) (filter_type_of delay_filter) filter_length;
      initial_delay \<leftarrow> config_get_int cfg None ''initial_delay'';
      summary_interval \<leftarrow> config_get_int cfg None ''summary_interval'';
      ensure (ce_mem e);
      sfl \<leftarrow> config_get_int cfg None ''sanity_freq_limit'';
      let slave_only = (dds_flags dds AND DDS_SLAVE_ONLY \<noteq> 0);
      let c = (zero_clock type (servo_config cfg) sv tsp desc)
        \<lparr>c_dds := dds\<lparr>dds_flags := (if two_step then dds_flags dds OR DDS_TWO_STEP_FLAG else dds_flags dds),
           dds_priority1 := word_of_int priority1, dds_priority2 := word_of_int priority2,
           dds_clockIdentity := identity\<rparr>,
         c_localPriority := word_of_int local_priority, c_realtime := realtime, c_free_running := free_running,
         c_freq_est_interval := freq_est_interval, c_grand_master_capable := gm_capable, c_kernel_leap := kernel_leap,
         c_utc_offset := utc_offset, c_time_source := word_of_int time_source, c_utc_timescale := utc_timescale,
         c_time_flags := (if utc_timescale then 0 else PTP_TIMESCALE), c_servo_type := servo_type_of servo,
         c_initial_delay := dbl_tmv (of_int initial_delay), c_master_local_rr := 1, c_nrr := 1,
         c_stats_interval := summary_interval,
         c_sanity_check := (if sfl \<noteq> 0 then clockcheck_create (ce_mem e) sfl else None), c_fx := fx\<rparr>;
      let c = clock_sync_interval (ce_fl e) (clock_update_grandmaster c) 0;
      uds \<leftarrow> port_open e cfg type slave_only identity phc_index timestamping 0 udsif
        \<lparr>si_valid = False, si_phc_index = 0, si_so_timestamping = 0\<rparr>;
      ports \<leftarrow> clock_add_ports e cfg type slave_only identity phc_index timestamping 0 ifaces;
      Some (clock.extend (c\<lparr>c_dds := (c_dds c)\<lparr>dds_numberPorts := of_nat (length ports)\<rparr>\<rparr>)
        (system.fields ports uds (if comparison = 1 then telecom_dscmp (ce_bo e) else dscmp (ce_bo e))))
    }"

end
