(* ===== verification/Nsm.thy ===== *)
theory Nsm
  imports PmcShow ClockCreate "HOL-Library.Monad_Syntax"
begin

unbundle bit_operations_syntax

text \<open>
  The NetSync Monitor client nsm (src/nsm.c): it sends a unicast Delay_Req with a monitoring TLV to a port,
  collects the Sync, Follow_Up and Delay_Resp messages that answer it, and prints the offset and the data sets
  of that port.  A new message has one reference, recorded as taken when it is allocated; the slots of the
  client hold references.  The destination of a request is the octets of its address.
\<close>

subsection \<open>The client\<close>

record nsm =
  nm_cfg :: Config.config
  nm_name :: string
  nm_transport :: int
  nm_tsproc :: tsproc
  nm_delay_req :: "ptp_message option"
  nm_delay_resp :: "ptp_message option"
  nm_sync :: "ptp_message option"
  nm_fup :: "ptp_message option"
  nm_port_identity :: PortIdentity
  nm_sequence_id :: u16
  nm_refs :: "ref_op list"
  nm_sent :: "ptp_message list"
  nm_out :: string

text \<open>
  \<open>se_message\<close> is the pointer of the next message, None when it cannot be allocated, \<open>se_send\<close> the result
  of \<open>transport_sendto\<close>: None for a failure, else the time stamp (zero when there is none).
  \<open>se_stack\<close> is the content of a variable that is not initialised.
\<close>

record nsm_env =
  se_bo :: byte_order
  se_fl :: "real \<Rightarrow> real"
  se_now :: timespec
  se_message :: "nat option"
  se_tlv :: bool
  se_inet_aton :: "string \<Rightarrow> u8 list option"
  se_ntop6 :: "u8 list \<Rightarrow> string"
  se_send :: "tmv_t option"
  se_stack :: tmv_t

text \<open>The values of the configuration; their types are those of the table of options.\<close>

definition cfg_int :: "nsm \<Rightarrow> string option \<Rightarrow> string \<Rightarrow> int" where
  "cfg_int n sct opt = (case config_get_int (nm_cfg n) sct opt of None \<Rightarrow> 0 | Some i \<Rightarrow> i)"

definition refs :: "ref_op list \<Rightarrow> nsm \<Rightarrow> nsm" where
  "refs ops n = n\<lparr>nm_refs := nm_refs n @ ops\<rparr>"

definition put_slot :: "ptp_message option \<Rightarrow> ref_op list" where
  "put_slot x = (case x of None \<Rightarrow> [] | Some m \<Rightarrow> [MsgPut (m_ptr m)])"

definition nsm_reset :: "nsm \<Rightarrow> nsm" where
  "nsm_reset n =
    (refs (put_slot (nm_delay_req n) @ put_slot (nm_delay_resp n) @ put_slot (nm_sync n) @ put_slot (nm_fup n)) n)
      \<lparr>nm_delay_req := None, nm_delay_resp := None, nm_sync := None, nm_fup := None\<rparr>"

subsection \<open>Answers\<close>

definition nsm_complete :: "nsm \<Rightarrow> bool" where
  "nsm_complete n \<longleftrightarrow>
    (case nm_sync n of
       None \<Rightarrow> False
     | Some syn \<Rightarrow> if one_step False syn then nm_delay_resp n \<noteq> None else nm_delay_resp n \<noteq> None \<and> nm_fup n \<noteq> None)"

text \<open>The result of \<open>tsproc_update_offset\<close> is ignored; then the offset is not initialised.\<close>

definition nsm_compute_offset ::
  "(real \<Rightarrow> real) \<Rightarrow> tmv_t \<Rightarrow> tsproc \<Rightarrow> ptp_message \<Rightarrow> ptp_message \<Rightarrow> ptp_message \<Rightarrow> ptp_message \<Rightarrow> tsproc \<times> i64" where
  "nsm_compute_offset fl stack tsp syn fup req resp =
    (let c1 = correction_to_tmv (correction (header syn)); c2 = correction_to_tmv (correction (header fup));
         c3 = correction_to_tmv (correction (header resp));
         t1 = timestamp_to_tmv (ts_pdu fup); t2 = hwts_ts syn; t3 = hwts_ts req; t4 = timestamp_to_tmv (ts_pdu resp);
         t1c = tmv_add t1 (tmv_add c1 c2); t4c = tmv_sub t4 c3;
         tsp = tsproc_up_ts (tsproc_down_ts (tsproc_reset tsp True) t1c t2) t3 t4c;
         offset = (case tsproc_update_offset fl tsp of None \<Rightarrow> stack | Some (offset, weight) \<Rightarrow> offset)
     in (tsp, tmv_to_nanoseconds offset))"

text \<open>
  What is printed of the offset and of the suffix of the Delay_Resp message, in whose memory the data sets
  follow the port address; None when the number of the port state is outside of the table of names.
\<close>

definition nsm_report :: "nsm_env \<Rightarrow> i64 \<Rightarrow> u8 list \<Rightarrow> string option" where
  "nsm_report e offset mem =
    (let bo = se_bo e; state = unat (octet mem 4); foot = 10 + unat (rd16 bo mem 8);
         cur = foot + 32; tp = foot + 50; ls = foot + 54; flags = octet mem (tp + 2)
     in if state \<ge> length ps_str then None
        else Some (
          ''NSM MEASUREMENT COMPLETE'' @ show_lines
            [(''offset                                '', show_sint offset),
             (''portState                             '', ps_str ! state),
             (''parentPortAddress                     '',
                show_uint (rd16 bo mem 6) @ '' '' @ portaddr2str (se_ntop6 e) bo mem 6)] @ newline @
          [CHR 0x09] @ ''parentDataset'' @ show_lines
            [(''parentPortIdentity                    '', pid2str (rd_pid bo mem foot)),
             (''parentStats                           '', show_uint (octet mem (foot + 10))),
             (''observedParentOffsetScaledLogVariance '', show_0x 4 (rd16 bo mem (foot + 12))),
             (''observedParentClockPhaseChangeRate    '', show_0x 8 (rd32 bo mem (foot + 14))),
             (''grandmasterPriority1                  '', show_uint (octet mem (foot + 18))),
             (''gm.ClockClass                         '', show_uint (octet mem (foot + 19))),
             (''gm.ClockAccuracy                      '', show_0x 2 (octet mem (foot + 20))),
             (''gm.OffsetScaledLogVariance            '', show_0x 4 (rd16 bo mem (foot + 21))),
             (''grandmasterPriority2                  '', show_uint (octet mem (foot + 23))),
             (''grandmasterIdentity                   '', cid2str (rd_cid mem (foot + 24)))] @ newline @
          [CHR 0x09] @ ''currentDataset'' @ show_lines
            [(''stepsRemoved                          '', show_sint (rd16 bo mem cur)),
             (''offsetFromMaster                      '',
                show_fixed 1 (se_fl e (of_int (sint (rd64 bo mem (cur + 2)))) / 65536)),
             (''meanPathDelay                         '',
                show_fixed 1 (se_fl e (of_int (sint (rd64 bo mem (cur + 10)))) / 65536))] @ newline @
          [CHR 0x09] @ ''timePropertiesDataset'' @ show_lines
            [(''currentUtcOffset                      '', show_sint (rd16 bo mem tp)),
             (''leap61                                '', show_bit flags LEAP_61),
             (''leap59                                '', show_bit flags LEAP_59),
             (''currentUtcOffsetValid                 '', show_bit flags UTC_OFF_VALID),
             (''ptpTimescale                          '', show_bit flags PTP_TIMESCALE),
             (''timeTraceable                         '', show_bit flags TIME_TRACEABLE),
             (''frequencyTraceable                    '', show_bit flags FREQ_TRACEABLE),
             (''timeSource                            '', show_0x 2 (octet mem (tp + 3)))] @ newline @
          [CHR 0x09] @ ''lastSyncTimestamp    '' @
            show_uint (ucast (rd32 bo mem (ls + 2)) OR push_bit 32 (ucast (rd16 bo mem ls)) :: u64) @ ''.'' @
            pad 9 (show_uint (rd32 bo mem (ls + 6))) @ newline))"

text \<open>The slots keep the first message of each kind; None for a message of another kind.\<close>

definition nsm_collect :: "ptp_message \<Rightarrow> nsm \<Rightarrow> nsm option" where
  "nsm_collect m n =
    (let t = msg_type m; get = refs [MsgGet (m_ptr m)]
     in if t = SYNC then Some (if nm_sync n = None then (get n)\<lparr>nm_sync := Some m\<rparr> else n)
        else if t = FOLLOW_UP then Some (if nm_fup n = None then (get n)\<lparr>nm_fup := Some m\<rparr> else n)
        else if t = DELAY_RESP then Some (if nm_delay_resp n = None then (get n)\<lparr>nm_delay_resp := Some m\<rparr> else n)
        else if t \<in> {DELAY_REQ, PDELAY_REQ, PDELAY_RESP, PDELAY_RESP_FOLLOW_UP, ANNOUNCE, SIGNALING, MANAGEMENT} then None
        else Some n)"

definition nsm_print :: "nsm_env \<Rightarrow> ptp_message \<Rightarrow> ptp_message \<Rightarrow> ptp_message \<Rightarrow> ptp_message \<Rightarrow> nsm \<Rightarrow> nsm option" where
  "nsm_print e syn fup req resp n =
    (case nsm_compute_offset (se_fl e) (se_stack e) (nm_tsproc n) syn fup req resp of
       (tsp, offset) \<Rightarrow>
         map_option (\<lambda>text. nsm_reset (n\<lparr>nm_tsproc := tsp, nm_out := nm_out n @ text\<rparr>)) (nsm_report e offset (m_suffix resp)))"

text \<open>None: a null pointer is followed or an array is read outside of its bounds.\<close>

definition nsm_handle_msg :: "nsm_env \<Rightarrow> ptp_message \<Rightarrow> nsm \<Rightarrow> nsm option" where
  "nsm_handle_msg e m n =
    (case nm_delay_req n of
       None \<Rightarrow> Some n
     | Some req \<Rightarrow>
         if sequenceId (header m) \<noteq> htons (se_bo e) (sequenceId (header req)) then Some n
         else if flagField0 (header m) AND UNICAST = 0 then Some n
         else (case nsm_collect m n of
             None \<Rightarrow> Some n
           | Some n \<Rightarrow>
               if \<not> nsm_complete n then Some n
               else (case (nm_sync n, nm_fup n, nm_delay_resp n) of
                   (Some syn, Some fup, Some resp) \<Rightarrow> nsm_print e syn fup req resp n
                 | _ \<Rightarrow> None)))"

subsection \<open>Requests\<close>

definition nsm_address :: "nsm_env \<Rightarrow> int \<Rightarrow> string \<Rightarrow> u8 list option" where
  "nsm_address e transport target =
    (if transport = 1 then se_inet_aton e target
     else if transport = 3 then str2mac target
     else None)"

definition nsm_request_message :: "nsm \<Rightarrow> address \<Rightarrow> nat \<Rightarrow> ptp_message" where
  "nsm_request_message n dst ptr =
    (let m = zero_msg ptr; asymmetry = push_bit 16 (word_of_int (cfg_int n (Some (nm_name n)) ''delayAsymmetry'')) :: i64
     in m\<lparr>hwts := (hwts m)\<lparr>hw_type := timestamp_type_of (cfg_int n None ''time_stamping'')\<rparr>,
          header := (header m)
            \<lparr>tsmt := DELAY_REQ OR push_bit 4 (word_of_int (cfg_int n (Some (nm_name n)) ''transportSpecific'')),
             ver := PTP_VERSION, messageLength := 44, domainNumber := word_of_int (cfg_int n None ''domainNumber''),
             flagField0 := UNICAST, correction := - asymmetry, sourcePortIdentity := nm_port_identity n,
             sequenceId := nm_sequence_id n, control := CTL_DELAY_REQ, logMessageInterval := 0x7f\<rparr>,
          m_address := dst\<rparr>)"

text \<open>The result is 0, or negative for an error, after which the message is dropped.\<close>

definition nsm_request :: "nsm_env \<Rightarrow> string \<Rightarrow> nsm \<Rightarrow> nsm \<times> int" where
  "nsm_request e target n =
    (case nsm_address e (nm_transport n) target of
       None \<Rightarrow> (n, - 1)
     | Some dst \<Rightarrow>
         (case se_message e of
            None \<Rightarrow> (n, - 1)
          | Some ptr \<Rightarrow>
              let m = nsm_request_message n dst ptr;
                  n = (refs [MsgGet ptr] n)\<lparr>nm_sequence_id := nm_sequence_id n + 1\<rparr>;
                  out = (\<lambda>err n. (refs [MsgPut ptr] n, err))
              in (case msg_tlv_append (se_bo e) (se_tlv e) m 4 of
                    None \<Rightarrow> out (- 12) n
                  | Some (m, ex) \<Rightarrow>
                      (case msg_pre_send (se_bo e) (se_now e)
                           (set_suffix (tlv_at ex) (u16_bytes (se_bo e) TLV_PTPMON_REQ @ u16_bytes (se_bo e) 0) m) of
                         None \<Rightarrow> out (- 1) n
                       | Some m \<Rightarrow>
                           let n = n\<lparr>nm_sent := nm_sent n @ [m]\<rparr>
                           in (case se_send e of
                                 None \<Rightarrow> out (- 1) n
                               | Some t \<Rightarrow>
                                   let m = m\<lparr>hwts := (hwts m)\<lparr>hw_ts := t\<rparr>\<rparr>
                                   in if msg_sots_missing m then out (- 1) n
                                      else ((nsm_reset n)\<lparr>nm_delay_req := Some m\<rparr>, 0))))))"

definition nsm_help :: string where
  "nsm_help =
    [CHR 0x09] @ ''Send a NetSync Monitor request to a specific port address:'' @ newline @ newline @
    [CHR 0x09] @ ''NSM 111.222.333.444'' @ newline @ [CHR 0x09] @ ''NSM aa:bb:cc:dd:ee:ff'' @ newline @ newline"

definition nsm_command :: "nsm_env \<Rightarrow> string \<Rightarrow> nsm \<Rightarrow> nsm \<times> int" where
  "nsm_command e cmd n =
    (if abbreviates cmd ''HELP'' then (n\<lparr>nm_out := nm_out n @ nsm_help\<rparr>, 0)
     else case scan_word 10 cmd of
         None \<Rightarrow> (n, - 1)
       | Some (action_str, s) \<Rightarrow>
           (case scan_word 64 s of
              None \<Rightarrow> (n, - 1)
            | Some (id_str, s) \<Rightarrow> if abbreviates action_str ''NSM'' then nsm_request e id_str n else (n, - 1)))"

subsection \<open>Reception\<close>

text \<open>
  \<open>received\<close> is what the transport returns: the message in network order, with its time stamp of the type
  that was asked for, and its length.
\<close>

definition nsm_recv :: "nsm_env \<Rightarrow> (ptp_message \<times> int) option \<Rightarrow> nsm \<Rightarrow> nsm \<times> ptp_message option" where
  "nsm_recv e received n =
    (case se_message e of
       None \<Rightarrow> (n, None)
     | Some ptr \<Rightarrow>
         let n = refs [MsgGet ptr] n; failed = (refs [MsgPut ptr] n, None)
         in (case received of
               None \<Rightarrow> failed
             | Some (m, cnt) \<Rightarrow>
                 if cnt \<le> 0 then failed
                 else case msg_post_recv (se_bo e) (\<lambda>_. se_tlv e) (se_now e) (m\<lparr>m_ptr := ptr\<rparr>) (nat cnt) of
                     Inl err \<Rightarrow> failed
                   | Inr m \<Rightarrow> if msg_sots_missing m then failed else (n, Some m)))"

definition nsm_receive :: "nsm_env \<Rightarrow> (ptp_message \<times> int) option \<Rightarrow> nsm \<Rightarrow> nsm option" where
  "nsm_receive e received n =
    (case nsm_recv e received n of
       (n, None) \<Rightarrow> Some n
     | (n, Some m) \<Rightarrow> map_option (refs [MsgPut (m_ptr m)]) (nsm_handle_msg e m n))"

subsection \<open>The program\<close>

record nsm_loop =
  sl_nsm :: nsm
  sl_batch :: bool
  sl_rest :: "string list"
  sl_tmo :: int
  sl_stdin :: bool

text \<open>
  What \<open>poll\<close> returns: an error (True when it was interrupted), nothing in time, or the events of the standard
  input (hang-up, a line) and of the two sockets, with what is received.
\<close>

type_synonym nsm_reception = "(nsm_env \<times> (ptp_message \<times> int) option) option"

datatype nsm_poll = PollFailed bool | PollExpired | PollReady bool "string option option" nsm_reception nsm_reception

definition nsm_socket :: "nsm_reception \<Rightarrow> nsm \<Rightarrow> nsm option" where
  "nsm_socket r n = (case r of None \<Rightarrow> Some n | Some (e, received) \<Rightarrow> nsm_receive e received n)"

definition nsm_sockets :: "nsm_reception \<Rightarrow> nsm_reception \<Rightarrow> nsm_loop \<Rightarrow> (nsm_loop \<times> int option) option" where
  "nsm_sockets r0 r1 l =
    do { n \<leftarrow> nsm_socket r0 (sl_nsm l); n \<leftarrow> nsm_socket r1 n; Some (l\<lparr>sl_nsm := n\<rparr>, None) }"

text \<open>In batch mode the next command is executed when the one before is finished; None when it failed.\<close>

definition nsm_next :: "nsm_env \<Rightarrow> nsm_loop \<Rightarrow> nsm_loop \<times> bool" where
  "nsm_next e l =
    (if sl_batch l then
       (case sl_rest l of
          cmd # rest \<Rightarrow>
            if nm_delay_req (sl_nsm l) = None then
              (case nsm_command e cmd (sl_nsm l) of
                 (n, r) \<Rightarrow> let l = l\<lparr>sl_nsm := n, sl_rest := rest\<rparr> in if r \<noteq> 0 then (l, False) else (l\<lparr>sl_tmo := 100\<rparr>, True))
            else (l\<lparr>sl_tmo := 100\<rparr>, True)
        | [] \<Rightarrow> (l\<lparr>sl_tmo := 100\<rparr>, True))
     else (l, True))"

text \<open>One pass of the loop, with the status when it ends; None as for \<open>nsm_handle_msg\<close>.\<close>

definition nsm_pass :: "nsm_env \<Rightarrow> nsm_poll \<Rightarrow> nsm_loop \<Rightarrow> (nsm_loop \<times> int option) option" where
  "nsm_pass e r l =
    (case nsm_next e l of
       (l, False) \<Rightarrow> Some (l, None)
     | (l, True) \<Rightarrow>
         (case r of
            PollFailed interrupted \<Rightarrow> Some (l, if interrupted then None else Some (- 1))
          | PollExpired \<Rightarrow>
              if sl_rest l \<noteq> [] then Some (l\<lparr>sl_nsm := nsm_reset (sl_nsm l)\<rparr>, None) else Some (l, Some 0)
          | PollReady hangup line r0 r1 \<Rightarrow>
              if hangup \<and> sl_tmo l \<noteq> - 1 then Some (l, Some 0)
              else
                let l = (if hangup then l\<lparr>sl_tmo := 100, sl_stdin := False\<rparr> else l)
                in (case line of
                      None \<Rightarrow> nsm_sockets r0 r1 l
                    | Some None \<Rightarrow> Some (l, Some 0)
                    | Some (Some s) \<Rightarrow>
                        if length s < 2 then Some (l, None)
                        else nsm_sockets r0 r1 (l\<lparr>sl_nsm := fst (nsm_command e (butlast s) (sl_nsm l))\<rparr>))))"

text \<open>\<open>mac\<close>, \<open>created\<close> and \<open>opened\<close> are the answers of the kernel for the interface and the transport.\<close>

definition nsm_open :: "bool \<Rightarrow> u8 list option \<Rightarrow> bool \<Rightarrow> bool \<Rightarrow> Config.config \<Rightarrow> nsm option" where
  "nsm_open mem mac created opened cfg =
    (case cfg_interfaces cfg of
       [i] \<Rightarrow>
         do {
           transport \<leftarrow> config_get_int cfg (Some (if_name i)) ''network_transport'';
           identity \<leftarrow> generate_clock_identity mac;
           tsp \<leftarrow> tsproc_create mem TSPROC_RAW FILTER_MOVING_AVERAGE 10;
           if created \<and> opened
           then Some \<lparr>nm_cfg = cfg, nm_name = if_name i, nm_transport = transport, nm_tsproc = tsp, nm_delay_req = None,
             nm_delay_resp = None, nm_sync = None, nm_fup = None,
             nm_port_identity = \<lparr>clockIdentity = identity, portNumber = 1\<rparr>, nm_sequence_id = 0, nm_refs = [], nm_sent = [],
             nm_out = []\<rparr>
           else None
         }
     | _ \<Rightarrow> None)"

definition nsm_argument ::
  "bool \<Rightarrow> (string \<Rightarrow> (real \<times> string \<times> bool) option) \<Rightarrow> argument \<Rightarrow> Config.config \<times> string option \<Rightarrow> int + Config.config \<times> string option" where
  "nsm_argument mem strtod arg st =
    (case (arg, st) of
       (LongOpt name optarg, (cfg, file)) \<Rightarrow>
         or_out (map_option (\<lambda>cfg. (cfg, file)) (Option.bind (config_parse_option mem strtod cfg name optarg) set_ok))
     | (Opt c optarg, (cfg, file)) \<Rightarrow>
         if c = CHR ''f'' then Inr (cfg, Some optarg)
         else if c = CHR ''i'' then
           (case config_create_interface mem optarg cfg of (cfg, None) \<Rightarrow> Inl (- 1) | (cfg, Some name) \<Rightarrow> Inr (cfg, file))
         else if c = CHR ''v'' \<or> c = CHR ''h'' then Inl 0
         else Inl (- 1)
     | (UnknownOpt, _) \<Rightarrow> Inl (- 1))"

fun nsm_arguments ::
  "bool \<Rightarrow> (string \<Rightarrow> (real \<times> string \<times> bool) option) \<Rightarrow> argument list \<Rightarrow> Config.config \<times> string option \<Rightarrow>
   int + Config.config \<times> string option" where
  "nsm_arguments mem strtod [] st = Inr st"
| "nsm_arguments mem strtod (arg # args) st =
    (case nsm_argument mem strtod arg st of Inl status \<Rightarrow> Inl status | Inr st \<Rightarrow> nsm_arguments mem strtod args st)"

text \<open>The loop before its first pass, or the status with which the program ends.\<close>

definition nsm_setup ::
  "bool \<Rightarrow> u8 list option \<Rightarrow> bool \<Rightarrow> bool \<Rightarrow> (string \<Rightarrow> (real \<times> string \<times> bool) option) \<Rightarrow> (string \<Rightarrow> string option) \<Rightarrow>
   argument list \<Rightarrow> string list \<Rightarrow> int + nsm_loop" where
  "nsm_setup mem mac created opened strtod files args commands =
    (case config_create mem of
       None \<Rightarrow> Inl (- 1)
     | Some cfg \<Rightarrow>
         (case nsm_arguments mem strtod args (cfg, None) of
            Inl status \<Rightarrow> Inl status
          | Inr (cfg, file) \<Rightarrow>
              (case (case file of None \<Rightarrow> Some (cfg, 0) | Some name \<Rightarrow> config_read mem strtod (files name) cfg) of
                 None \<Rightarrow> Inl (- 1)
               | Some (cfg, r) \<Rightarrow>
                   if r \<noteq> 0 then Inl r
                   else or_out (map_option (\<lambda>n.
                     \<lparr>sl_nsm = n, sl_batch = (commands \<noteq> []), sl_rest = commands, sl_tmo = - 1, sl_stdin = (commands = [])\<rparr>)
                       (nsm_open mem mac created opened cfg)))))"

end
