(* ===== verification/NsmProps.thy ===== *)
theory NsmProps
  imports Nsm PortBooks
begin

text \<open>
  What the monitoring client promises: it keeps its books on messages, and what it prints are the answers to
  its last request.
\<close>

inductive monitoring :: "byte_order \<Rightarrow> nsm \<Rightarrow> nsm \<Rightarrow> bool" for bo n0 where
  start: "monitoring bo n0 n0"
| command: "monitoring bo n0 n \<Longrightarrow> se_bo e = bo \<Longrightarrow> monitoring bo n0 (fst (nsm_command e cmd n))"
| receive: "monitoring bo n0 n \<Longrightarrow> se_bo e = bo \<Longrightarrow> nsm_receive e received n = Some n' \<Longrightarrow> monitoring bo n0 n'"
| expired: "monitoring bo n0 n \<Longrightarrow> monitoring bo n0 (nsm_reset n)"

definition fresh :: "nsm \<Rightarrow> bool" where
  "fresh n \<longleftrightarrow> nm_delay_req n = None \<and> nm_delay_resp n = None \<and> nm_sync n = None \<and> nm_fup n = None \<and> nm_refs n = []"

text \<open>\<open>nsm_open\<close> creates such a client.\<close>

lemma open_fresh: "nsm_open mem mac created opened cfg = Some n \<Longrightarrow> fresh n"
  by (auto simp: nsm_open_def fresh_def split: list.splits bind_splits if_splits)

subsection \<open>What an answer is\<close>

definition answer :: "byte_order \<Rightarrow> ptp_message \<Rightarrow> u8 \<Rightarrow> ptp_message \<Rightarrow> bool" where
  "answer bo req t m \<longleftrightarrow> msg_type m = t \<and> sequenceId (header m) = htons bo (sequenceId (header req)) \<and>
    flagField0 (header m) AND UNICAST \<noteq> 0"

definition slots_match :: "byte_order \<Rightarrow> nsm \<Rightarrow> bool" where
  "slots_match bo n \<longleftrightarrow>
    (case nm_delay_req n of
       None \<Rightarrow> nm_sync n = None \<and> nm_fup n = None \<and> nm_delay_resp n = None
     | Some req \<Rightarrow> pred_option (answer bo req SYNC) (nm_sync n) \<and> pred_option (answer bo req FOLLOW_UP) (nm_fup n) \<and>
         pred_option (answer bo req DELAY_RESP) (nm_delay_resp n))"

definition held :: "nsm \<Rightarrow> nat list" where
  "held n = concat (map (\<lambda>x. case x of None \<Rightarrow> [] | Some m \<Rightarrow> [m_ptr m]) [nm_delay_req n, nm_delay_resp n, nm_sync n, nm_fup n])"

text \<open>Beside the slots, the references \<open>L\<close> are held by the handler that runs.\<close>

definition books :: "nat multiset \<Rightarrow> nsm \<Rightarrow> bool" where
  "books L n \<longleftrightarrow> mset (gets (nm_refs n)) = mset (puts (nm_refs n)) + mset (held n) + L"

text \<open>Only the reference operations and the slots matter.\<close>

lemma refs_fields [simp]:
  "nm_delay_req (refs ops n) = nm_delay_req n" "nm_delay_resp (refs ops n) = nm_delay_resp n"
  "nm_sync (refs ops n) = nm_sync n" "nm_fup (refs ops n) = nm_fup n" "nm_refs (refs ops n) = nm_refs n @ ops"
  "nm_out (refs ops n) = nm_out n" "nm_tsproc (refs ops n) = nm_tsproc n"
  by (simp_all add: refs_def)

lemma put_slot_refs: "gets (put_slot x) = []" "puts (put_slot x) = (case x of None \<Rightarrow> [] | Some m \<Rightarrow> [m_ptr m])"
  by (simp_all add: put_slot_def split: option.split)

lemma reset_fields [simp]:
  "nm_delay_req (nsm_reset n) = None" "nm_delay_resp (nsm_reset n) = None" "nm_sync (nsm_reset n) = None"
  "nm_fup (nsm_reset n) = None" "nm_out (nsm_reset n) = nm_out n" "nm_tsproc (nsm_reset n) = nm_tsproc n"
  "gets (nm_refs (nsm_reset n)) = gets (nm_refs n)" "puts (nm_refs (nsm_reset n)) = puts (nm_refs n) @ held n"
  by (simp_all add: nsm_reset_def put_slot_refs held_def)

lemma reset_books: "books L n \<Longrightarrow> books L (nsm_reset n)"
  by (simp add: books_def held_def)

lemma reset_match: "slots_match bo (nsm_reset n)"
  by (simp add: slots_match_def)

text \<open>Collecting a message that answers the request.\<close>

lemma collect_shape:
  assumes "nsm_collect m n = Some n'"
  shows "n' = n \<or> (msg_type m = SYNC \<and> nm_sync n = None \<and> n' = (refs [MsgGet (m_ptr m)] n)\<lparr>nm_sync := Some m\<rparr>) \<or>
    (msg_type m = FOLLOW_UP \<and> nm_fup n = None \<and> n' = (refs [MsgGet (m_ptr m)] n)\<lparr>nm_fup := Some m\<rparr>) \<or>
    (msg_type m = DELAY_RESP \<and> nm_delay_resp n = None \<and> n' = (refs [MsgGet (m_ptr m)] n)\<lparr>nm_delay_resp := Some m\<rparr>)"
  using assms by (simp only: nsm_collect_def Let_def split: if_splits) auto

lemma collect_keeps:
  assumes "nsm_collect m n = Some n'" and "books L n" and "nm_delay_req n = Some req" and "slots_match bo n"
    and "sequenceId (header m) = htons bo (sequenceId (header req))" and "flagField0 (header m) AND UNICAST \<noteq> 0"
  shows "books L n' \<and> slots_match bo n' \<and> nm_delay_req n' = Some req \<and> nm_out n' = nm_out n \<and> nm_tsproc n' = nm_tsproc n"
proof -
  have a: "answer bo req t m" if "msg_type m = t" for t
    using assms(5,6) that by (simp add: answer_def)
  show ?thesis
    using collect_shape [OF assms(1)] assms(2,3,4) by (elim disjE) (simp_all add: books_def held_def slots_match_def a)
qed

lemma print_shape:
  assumes "nsm_print e syn fup req resp n = Some n'"
  shows "\<exists>tsp offset text. nsm_compute_offset (se_fl e) (se_stack e) (nm_tsproc n) syn fup req resp = (tsp, offset) \<and>
    nsm_report e offset (m_suffix resp) = Some text \<and> n' = nsm_reset (n\<lparr>nm_tsproc := tsp, nm_out := nm_out n @ text\<rparr>)"
  using assms by (auto simp: nsm_print_def split: prod.splits)

lemma books_out: "books L (n\<lparr>nm_tsproc := tsp, nm_out := out\<rparr>) = books L n"
  by (simp add: books_def held_def)

text \<open>The message that a slot holds after \<open>m\<close> was collected: the first one stays.\<close>

definition kept :: "ptp_message option \<Rightarrow> ptp_message \<Rightarrow> ptp_message" where
  "kept slot m = (case slot of None \<Rightarrow> m | Some first \<Rightarrow> first)"

lemma collect_slots:
  assumes "nsm_collect m n = Some n'"
  shows "nm_sync n' = Some syn \<Longrightarrow> syn = kept (nm_sync n) m" "nm_fup n' = Some fup \<Longrightarrow> fup = kept (nm_fup n) m"
    "nm_delay_resp n' = Some resp \<Longrightarrow> resp = kept (nm_delay_resp n) m"
  using collect_shape [OF assms] by (auto simp: kept_def)

text \<open>Either nothing is printed and the slots keep their promise, or the report of a complete measurement is.\<close>

lemma handle_cases:
  assumes "nsm_handle_msg e m n = Some n'" and "books L n" and "slots_match (se_bo e) n"
  obtains (silent) "books L n'" "slots_match (se_bo e) n'" "nm_out n' = nm_out n"
  | (printed) req syn fup resp n1 where "nm_delay_req n = Some req" "answer (se_bo e) req SYNC syn"
      "answer (se_bo e) req FOLLOW_UP fup" "answer (se_bo e) req DELAY_RESP resp"
      "nsm_print e syn fup req resp n1 = Some n'" "books L n1" "nm_out n1 = nm_out n" "nm_tsproc n1 = nm_tsproc n"
      "syn = kept (nm_sync n) m" "fup = kept (nm_fup n) m" "resp = kept (nm_delay_resp n) m"
proof (cases "nm_delay_req n")
  case None
  then show ?thesis using assms silent by (simp add: nsm_handle_msg_def)
next
  case (Some req)
  show ?thesis
  proof (cases "sequenceId (header m) \<noteq> htons (se_bo e) (sequenceId (header req)) \<or> flagField0 (header m) AND UNICAST = 0 \<or>
      nsm_collect m n = None")
    case True
    then have "n' = n" using assms(1) Some by (auto simp: nsm_handle_msg_def split: if_splits)
    then show ?thesis using assms silent by simp
  next
    case False
    then obtain n1 where n1: "nsm_collect m n = Some n1" by auto
    have keep: "books L n1 \<and> slots_match (se_bo e) n1 \<and> nm_delay_req n1 = Some req \<and> nm_out n1 = nm_out n \<and> nm_tsproc n1 = nm_tsproc n"
      using collect_keeps [OF n1 assms(2) Some assms(3)] False by blast
    show ?thesis
    proof (cases "nsm_complete n1")
      case False': False
      then have "n' = n1" using assms(1) Some False n1 by (simp add: nsm_handle_msg_def)
      then show ?thesis using keep silent by simp
    next
      case True
      then obtain syn fup resp where s: "nm_sync n1 = Some syn" "nm_fup n1 = Some fup" "nm_delay_resp n1 = Some resp"
          "nsm_print e syn fup req resp n1 = Some n'"
        using assms(1) Some False n1 by (auto simp: nsm_handle_msg_def split: option.splits)
      then show ?thesis
        using keep Some collect_slots [OF n1] by (intro printed [of req syn fup resp n1]) (auto simp: slots_match_def)
    qed
  qed
qed

lemma handle_keeps:
  assumes "nsm_handle_msg e m n = Some n'" and "books L n" and "slots_match (se_bo e) n"
  shows "books L n' \<and> slots_match (se_bo e) n'"
  using assms
proof (cases rule: handle_cases)
  case (printed req syn fup resp n1)
  then show ?thesis
    using print_shape [OF printed(5)] by (auto simp: books_out intro!: reset_books reset_match)
qed simp

subsection \<open>Reception\<close>

lemma recv_loop_ptr: "suffix_post_recv_loop bo alloc ptr len m = Inr m' \<Longrightarrow> m_ptr m' = m_ptr m"
proof (induction bo alloc ptr len m rule: suffix_post_recv_loop.induct)
  case (1 bo alloc ptr len m)
  show ?case
  proof (cases "len < 4")
    case True
    with "1.prems" show ?thesis by (simp add: suffix_post_recv_loop.simps)
  next
    case False
    from "1.prems" False obtain mem l mem' ex where step:
      "mem = flips bo [(2, 0), (2, 2)] ptr (m_suffix m)" "l = unat (rd16 bo mem (ptr + 2))"
      "alloc (tlv_count m)" "l mod 2 = 0" "l \<le> len - 4"
      "tlv_post_recv bo (new_extra ptr) mem = Inr (mem', ex)"
      "suffix_post_recv_loop bo alloc (ptr + 4 + l) (len - 4 - l) (msg_tlv_attach (m\<lparr>m_suffix := mem'\<rparr>) ex) = Inr m'"
      by (rule suffix_post_recv_loop_step)
    then show ?thesis using "1.IH" [of mem l "(mem', ex)" mem' ex] False by (auto simp: msg_tlv_attach_def)
  qed
qed

lemma post_recv_ptr: "msg_post_recv bo alloc now m cnt = Inr m' \<Longrightarrow> m_ptr m' = m_ptr m"
  by (auto simp: msg_post_recv_def suffix_post_recv_def body_post_recv_def timestamp_post_recv_def announce_post_recv_def
      Let_def dest!: recv_loop_ptr split: if_splits sum.splits option.splits)

lemma refs_books: "books L (refs ops n) \<longleftrightarrow>
    mset (gets (nm_refs n)) + mset (gets ops) = mset (puts (nm_refs n)) + mset (puts ops) + mset (held n) + L"
  by (simp add: books_def held_def)

lemma refs_match [simp]: "slots_match bo (refs ops n) = slots_match bo n"
  by (simp add: slots_match_def split: option.split)

lemma recv_shape:
  assumes "nsm_recv e received n = (n', r)"
  shows "\<exists>ops. n' = refs ops n \<and> mset (gets ops) = mset (puts ops) + (case r of None \<Rightarrow> {#} | Some m \<Rightarrow> {#m_ptr m#})"
proof (cases "se_message e")
  case None
  then have "n' = refs [] n \<and> r = None" using assms by (simp add: nsm_recv_def refs_def)
  then show ?thesis by (intro exI [of _ "[]"]) simp
next
  case (Some ptr)
  have "(n' = refs [MsgGet ptr, MsgPut ptr] n \<and> r = None) \<or> (\<exists>m. n' = refs [MsgGet ptr] n \<and> r = Some m \<and> m_ptr m = ptr)"
    using assms Some by (auto simp: nsm_recv_def Let_def refs_def dest!: post_recv_ptr
        split: option.splits if_splits sum.splits prod.splits)
  then show ?thesis
  proof
    assume "n' = refs [MsgGet ptr, MsgPut ptr] n \<and> r = None"
    then show ?thesis by (intro exI [of _ "[MsgGet ptr, MsgPut ptr]"]) simp
  next
    assume "\<exists>m. n' = refs [MsgGet ptr] n \<and> r = Some m \<and> m_ptr m = ptr"
    then show ?thesis by (intro exI [of _ "[MsgGet ptr]"]) auto
  qed
qed

text \<open>What is received is the caller's; nothing else changes.\<close>

lemma recv_keeps:
  assumes "nsm_recv e received n = (n', r)" and "books {#} n" and "slots_match bo n"
  shows "books (case r of None \<Rightarrow> {#} | Some m \<Rightarrow> {#m_ptr m#}) n' \<and> slots_match bo n' \<and> nm_out n' = nm_out n \<and>
    nm_tsproc n' = nm_tsproc n \<and> nm_delay_req n' = nm_delay_req n \<and> nm_sync n' = nm_sync n \<and>
    nm_fup n' = nm_fup n \<and> nm_delay_resp n' = nm_delay_resp n"
proof -
  obtain ops where ops: "n' = refs ops n" "mset (gets ops) = mset (puts ops) + (case r of None \<Rightarrow> {#} | Some m \<Rightarrow> {#m_ptr m#})"
    using recv_shape [OF assms(1)] by blast
  have "held n' = held n" by (simp add: ops(1) held_def)
  then show ?thesis using assms(2,3) ops(2) by (simp add: ops(1) books_def)
qed

lemma put_books: "books {#m_ptr m#} n \<Longrightarrow> books {#} (refs [MsgPut (m_ptr m)] n)"
  by (simp add: refs_books) (simp add: books_def)

lemma receive_keeps:
  assumes "nsm_receive e received n = Some n'" and "books {#} n" and "slots_match (se_bo e) n"
  shows "books {#} n' \<and> slots_match (se_bo e) n'"
proof (cases "nsm_recv e received n")
  case (Pair n1 r)
  note k = recv_keeps [OF Pair assms(2,3)]
  show ?thesis
  proof (cases r)
    case None
    then show ?thesis using assms(1) k Pair by (auto simp: nsm_receive_def)
  next
    case (Some m)
    then obtain n2 where n2: "nsm_handle_msg e m n1 = Some n2" "n' = refs [MsgPut (m_ptr m)] n2"
      using assms(1) Pair by (auto simp: nsm_receive_def)
    then show ?thesis using handle_keeps [OF n2(1), of "{#m_ptr m#}"] k Some put_books [of m n2] by simp
  qed
qed

subsection \<open>Requests\<close>

lemma pre_send_ptr: "msg_pre_send bo now m = Some w \<Longrightarrow> m_ptr w = m_ptr m"
  by (auto simp: msg_pre_send_def suffix_pre_send_def body_pre_send_def announce_pre_send_def Let_def split: if_splits)

lemma request_ptr [simp]: "m_ptr (nsm_request_message n dst ptr) = ptr"
  by (simp add: nsm_request_message_def zero_msg_def Let_def)

text \<open>A request that fails leaves the slots alone; one that is sent takes the place of the one before.\<close>

lemma request_shape:
  assumes "nsm_request e target n = (n', r)"
  obtains (failed) seq sent ops where "r < 0" "n' = (refs ops n)\<lparr>nm_sequence_id := seq, nm_sent := sent\<rparr>"
      "mset (gets ops) = mset (puts ops)"
  | (sent) m seq sent where "r = 0"
      "n' = (nsm_reset ((refs [MsgGet (m_ptr m)] n)\<lparr>nm_sequence_id := seq, nm_sent := sent\<rparr>))\<lparr>nm_delay_req := Some m\<rparr>"
proof -
  have idle: ?thesis if "n' = n" "r < 0"
    using that by (intro failed [where seq = "nm_sequence_id n" and sent = "nm_sent n" and ops = "[]"]) (simp_all add: refs_def)
  show ?thesis
  proof (cases "nsm_address e (nm_transport n) target = None \<or> se_message e = None")
    case True
    then show ?thesis using assms idle by (auto simp: nsm_request_def split: option.splits)
  next
    case False
    then obtain dst ptr where p: "nsm_address e (nm_transport n) target = Some dst" "se_message e = Some ptr" by auto

    have out: ?thesis
      if "n' = refs [MsgPut ptr] (((refs [MsgGet ptr] n)\<lparr>nm_sequence_id := nm_sequence_id n + 1\<rparr>)\<lparr>nm_sent := sent\<rparr>)" "r < 0" for sent
      using that by (intro failed [where seq = "nm_sequence_id n + 1" and sent = sent and ops = "[MsgGet ptr, MsgPut ptr]"])
        (cases n; simp add: refs_def)+
    show ?thesis
    proof (cases "msg_tlv_append (se_bo e) (se_tlv e) (nsm_request_message n dst ptr) 4")
      case None
      then show ?thesis using assms p out [of "nm_sent n"] by (simp add: nsm_request_def Let_def refs_def)
    next
      case (Some mx)
      then obtain m1 ex where m1: "msg_tlv_append (se_bo e) (se_tlv e) (nsm_request_message n dst ptr) 4 = Some (m1, ex)"
        by (cases mx) auto
      let ?m = "set_suffix (tlv_at ex) (u16_bytes (se_bo e) TLV_PTPMON_REQ @ u16_bytes (se_bo e) 0) m1"
      have q: "m_ptr ?m = ptr" using tlv_append_ptr [OF m1] by (simp add: set_suffix_def)
      show ?thesis
      proof (cases "msg_pre_send (se_bo e) (se_now e) ?m")
        case None
        then show ?thesis using assms p m1 out [of "nm_sent n"] by (simp add: nsm_request_def Let_def refs_def)
      next
        case w: (Some w)
        show ?thesis
        proof (cases "\<exists>t. se_send e = Some t \<and> \<not> msg_sots_missing (w\<lparr>hwts := (hwts w)\<lparr>hw_ts := t\<rparr>\<rparr>)")
          case True
          then obtain t where "se_send e = Some t" "\<not> msg_sots_missing (w\<lparr>hwts := (hwts w)\<lparr>hw_ts := t\<rparr>\<rparr>)" by blast
          then show ?thesis using assms p m1 w q pre_send_ptr [OF w]
            by (intro sent [where m = "w\<lparr>hwts := (hwts w)\<lparr>hw_ts := t\<rparr>\<rparr>" and seq = "nm_sequence_id n + 1" and sent = "nm_sent n @ [w]"]) (simp_all add: nsm_request_def Let_def refs_def)
        next
          case False
          then show ?thesis using assms p m1 w out [of "nm_sent n @ [w]"]
            by (auto simp: nsm_request_def Let_def refs_def split: option.splits)
        qed
      qed
    qed
  qed
qed

lemma command_shape:
  obtains (printed) out where "fst (nsm_command e cmd n) = n\<lparr>nm_out := out\<rparr>"
  | (idle) "fst (nsm_command e cmd n) = n"
  | (request) target where "fst (nsm_command e cmd n) = fst (nsm_request e target n)"
proof -
  have "(\<exists>out. fst (nsm_command e cmd n) = n\<lparr>nm_out := out\<rparr>) \<or> fst (nsm_command e cmd n) = n \<or>
      (\<exists>target. fst (nsm_command e cmd n) = fst (nsm_request e target n))"
    by (cases "abbreviates cmd ''HELP''") (auto simp: nsm_command_def split: option.split)
  then show ?thesis using printed idle request by blast
qed

lemma command_keeps:
  assumes "books {#} n" and "slots_match bo n"
  shows "books {#} (fst (nsm_command e cmd n)) \<and> slots_match bo (fst (nsm_command e cmd n))"
proof (cases rule: command_shape [of e cmd n])
  case (printed out)
  then show ?thesis using assms by (simp add: books_def held_def slots_match_def split: option.splits)
next
  case idle
  then show ?thesis using assms by simp
next
  case (request target)
  show ?thesis
  proof (cases rule: request_shape [of e target n, OF surjective_pairing])
    case (1 seq sent ops)
    then show ?thesis using assms request by (simp add: books_def held_def slots_match_def split: option.splits)
  next
    case (2 m seq sent)
    have "slots_match bo ((nsm_reset k)\<lparr>nm_delay_req := Some m\<rparr>)" for k by (simp add: slots_match_def)
    moreover have "books {#} ((nsm_reset ((refs [MsgGet (m_ptr m)] n)\<lparr>nm_sequence_id := seq, nm_sent := sent\<rparr>))\<lparr>nm_delay_req := Some m\<rparr>)"
      using assms(1) by (simp add: books_def held_def)
    ultimately show ?thesis using 2 request by simp
  qed
qed

lemma fresh_start: "fresh n \<Longrightarrow> books {#} n \<and> slots_match bo n"
  by (simp add: fresh_def books_def held_def slots_match_def)

lemma monitoring_keeps: "monitoring bo n0 n \<Longrightarrow> fresh n0 \<Longrightarrow> books {#} n \<and> slots_match bo n"
  by (induction rule: monitoring.induct) (use fresh_start command_keeps receive_keeps reset_books reset_match in blast)+

subsection \<open>Properties\<close>

text \<open>
  C17: nsm keeps its books.  Whatever commands and messages come in which order, each reference to a message
  that was taken has been dropped again once, or is one of the four slots; and the slots hold nothing but
  unicast messages of their own kind that carry the sequence number of the request in the first slot.
\<close>

theorem monitoring_books:
  assumes "monitoring bo n0 n" and "fresh n0"
  shows "mset (gets (nm_refs n)) = mset (puts (nm_refs n)) + mset (held n) \<and> slots_match bo n"
  using monitoring_keeps [OF assms] by (simp add: books_def)

text \<open>
  C16: what nsm prints is a measurement of its last request.  When the reception of a message \<open>m\<close> makes it
  print, a request is under way, and the report is that of three messages, each of which is what its slot
  holds, or \<open>m\<close> if the slot is empty: a Sync, a Follow_Up and a Delay_Resp that are unicast and carry the
  sequence number of the request.  It has the offset computed of their four time stamps and corrections and the
  data sets behind the Delay_Resp, and afterwards the measurement is over: no message is held.
\<close>

theorem report_answers_request:
  assumes "monitoring bo n0 n" and "fresh n0" and "se_bo e = bo" and "nsm_receive e received n = Some n'"
    and "nm_out n' \<noteq> nm_out n"
  shows "\<exists>req m tsp offset report.
    nm_delay_req n = Some req \<and> snd (nsm_recv e received n) = Some m \<and>
    answer bo req SYNC (kept (nm_sync n) m) \<and> answer bo req FOLLOW_UP (kept (nm_fup n) m) \<and>
    answer bo req DELAY_RESP (kept (nm_delay_resp n) m) \<and>
    nsm_compute_offset (se_fl e) (se_stack e) (nm_tsproc n) (kept (nm_sync n) m) (kept (nm_fup n) m) req
      (kept (nm_delay_resp n) m) = (tsp, offset) \<and>
    nsm_report e offset (m_suffix (kept (nm_delay_resp n) m)) = Some report \<and>
    nm_out n' = nm_out n @ report \<and> held n' = []"
proof (cases "nsm_recv e received n")
  case (Pair n1 r)
  have k0: "books {#} n" "slots_match (se_bo e) n" using monitoring_keeps [OF assms(1,2)] assms(3) by auto
  note k = recv_keeps [OF Pair k0]
  obtain m where m: "r = Some m" using assms(4,5) Pair k by (cases r) (auto simp: nsm_receive_def)
  then obtain n2 where n2: "nsm_handle_msg e m n1 = Some n2" "n' = refs [MsgPut (m_ptr m)] n2"
    using assms(4) Pair by (auto simp: nsm_receive_def)
  have "books {#m_ptr m#} n1" "slots_match (se_bo e) n1" using k m by simp_all
  from n2(1) this show ?thesis
  proof (cases rule: handle_cases)
    case silent
    then show ?thesis using n2(2) k assms(5) by simp
  next
    case (printed req syn fup resp n3)
    from print_shape [OF printed(5)] obtain tsp offset report where
      "nsm_compute_offset (se_fl e) (se_stack e) (nm_tsproc n3) syn fup req resp = (tsp, offset)"
      "nsm_report e offset (m_suffix resp) = Some report" "n2 = nsm_reset (n3\<lparr>nm_tsproc := tsp, nm_out := nm_out n3 @ report\<rparr>)"
      by blast
    moreover have "held n' = []" using calculation(3) n2(2) by (simp add: held_def)
    moreover have "syn = kept (nm_sync n) m" "fup = kept (nm_fup n) m" "resp = kept (nm_delay_resp n) m"
      using printed(9-11) k by simp_all
    ultimately show ?thesis using printed(1-4,7,8) k n2(2) assms(3) Pair m
      by (intro exI [of _ req] exI [of _ m] exI [of _ tsp] exI [of _ offset] exI [of _ report]) simp
  qed
qed

text \<open>
  A one-step Sync crashes nsm.  \<open>nsm_complete\<close> takes a one-step Sync and a Delay_Resp for a whole answer, but
  \<open>nsm_handle_msg\<close> reads the Follow_Up message in any case: when there is none, the pointer it follows is null.
\<close>

theorem one_step_sync_crashes:
  assumes "nm_delay_req n = Some req" and "nm_sync n = Some syn" and "one_step False syn" and "nm_fup n = None"
    and "nm_delay_resp n = None" and "answer (se_bo e) req DELAY_RESP m"
  shows "nsm_handle_msg e m n = None"
  using assms by (simp add: nsm_handle_msg_def nsm_collect_def nsm_complete_def answer_def Let_def)

subsection \<open>A measurement\<close>

definition measured_env :: nsm_env where
  "measured_env = \<lparr>se_bo = BigEndian, se_fl = (\<lambda>x. x), se_now = \<lparr>tv_sec = 0, tv_nsec = 0\<rparr>, se_message = Some 7, se_tlv = True,
    se_inet_aton = (\<lambda>s. None), se_ntop6 = (\<lambda>a. []), se_send = Some (Tmv 5), se_stack = tmv_zero\<rparr>"

definition measured_start :: nsm where
  "measured_start =
    \<lparr>nm_cfg = \<lparr>cfg_interfaces = [], cfg_n_interfaces = 0, cfg_opts = [], cfg_htab = hash_create, cfg_items = []\<rparr>,
     nm_name = ''eth0'', nm_transport = 3, nm_tsproc = the (tsproc_create True TSPROC_RAW FILTER_MOVING_AVERAGE 10),
     nm_delay_req = None, nm_delay_resp = None, nm_sync = None, nm_fup = None, nm_port_identity = zero_pid,
     nm_sequence_id = 0, nm_refs = [], nm_sent = [], nm_out = []\<rparr>"

definition measured_answer :: "u8 \<Rightarrow> u8 \<Rightarrow> ptp_message" where
  "measured_answer type flags =
    (zero_msg 7)\<lparr>header := zero_header\<lparr>tsmt := type, ver := 2, flagField0 := flags\<rparr>,
      hwts := \<lparr>hw_type = TS_SOFTWARE, hw_ts = Tmv 9, hw_sw = tmv_zero\<rparr>, m_suffix := replicate 80 0\<rparr>"

definition measured_request :: nsm where
  "measured_request = fst (nsm_command measured_env ''NSM 00:11:22:33:44:55'' measured_start)"

definition measured_sync :: nsm where
  "measured_sync = the (nsm_receive measured_env (Some (measured_answer SYNC (UNICAST OR TWO_STEP), 44)) measured_request)"

definition measured_fup :: nsm where
  "measured_fup = the (nsm_receive measured_env (Some (measured_answer FOLLOW_UP UNICAST, 44)) measured_sync)"

lemma measured_fresh: "fresh measured_start"
  by (simp add: fresh_def measured_start_def)

lemma measured_bo [simp]: "se_bo measured_env = BigEndian"
  by (simp add: measured_env_def)

text \<open>The request is sent; what is received is as it was sent.\<close>

lemma measured_cfg: "cfg_int measured_start sct opt = 0"
  by (simp add: cfg_int_def config_get_int_def config_find_item_def config_section_item_def config_global_item_def
      measured_start_def hash_lookup_create split: option.split)

lemma measured_start_fields:
  "nm_name measured_start = ''eth0''" "nm_port_identity measured_start = zero_pid" "nm_sequence_id measured_start = 0"
  by (simp_all add: measured_start_def)

definition measured_message :: ptp_message where
  "measured_message = (zero_msg 7)\<lparr>header := zero_header\<lparr>tsmt := DELAY_REQ, ver := PTP_VERSION, messageLength := 44,
      flagField0 := UNICAST, control := CTL_DELAY_REQ, logMessageInterval := 0x7f\<rparr>,
     m_address := [0x00, 0x11, 0x22, 0x33, 0x44, 0x55]\<rparr>"

lemma measured_sending:
  "case msg_tlv_append BigEndian True measured_message 4 of None \<Rightarrow> False | Some (m, ex) \<Rightarrow>
    (case msg_pre_send BigEndian \<lparr>tv_sec = 0, tv_nsec = 0\<rparr>
        (set_suffix (tlv_at ex) (u16_bytes BigEndian TLV_PTPMON_REQ @ u16_bytes BigEndian 0) m) of
       None \<Rightarrow> False
     | Some w \<Rightarrow> sequenceId (header w) = 0 \<and> \<not> msg_sots_missing (w\<lparr>hwts := (hwts w)\<lparr>hw_ts := Tmv 5\<rparr>\<rparr>))"
  by code_simp

lemma measured_words:
  "abbreviates ''NSM 00:11:22:33:44:55'' ''HELP'' = False" "abbreviates ''NSM'' ''NSM'' = True"
  "scan_word 10 ''NSM 00:11:22:33:44:55'' = Some (''NSM'', '' 00:11:22:33:44:55'')"
  "scan_word 64 '' 00:11:22:33:44:55'' = Some (''00:11:22:33:44:55'', [])"
  "str2mac ''00:11:22:33:44:55'' = Some [0x00, 0x11, 0x22, 0x33, 0x44, 0x55]"
  by code_simp+

lemma measured_sent:
  "\<exists>req. nm_delay_req measured_request = Some req \<and> sequenceId (header req) = 0"
  "nm_sync measured_request = None" "nm_fup measured_request = None" "nm_delay_resp measured_request = None"
proof -
  have m: "nsm_request_message measured_start [0x00, 0x11, 0x22, 0x33, 0x44, 0x55] 7 = measured_message"
    by (simp add: nsm_request_message_def measured_cfg measured_message_def Let_def zero_msg_def zero_header_def measured_start_fields
        timestamp_type_of_def)
  obtain m1 ex w where w: "msg_tlv_append BigEndian True measured_message 4 = Some (m1, ex)"
    "msg_pre_send BigEndian \<lparr>tv_sec = 0, tv_nsec = 0\<rparr>
      (set_suffix (tlv_at ex) (u16_bytes BigEndian TLV_PTPMON_REQ @ u16_bytes BigEndian 0) m1) = Some w"
    "sequenceId (header w) = 0" "\<not> msg_sots_missing (w\<lparr>hwts := (hwts w)\<lparr>hw_ts := Tmv 5\<rparr>\<rparr>)"
    using measured_sending by (auto split: option.splits)
  have t: "nm_transport measured_start = 3" by (simp add: measured_start_def)
  have c: "measured_request = fst (nsm_request measured_env ''00:11:22:33:44:55'' measured_start)"
    by (simp add: measured_request_def nsm_command_def measured_words)
  have r: "nm_delay_req measured_request = Some (w\<lparr>hwts := (hwts w)\<lparr>hw_ts := Tmv 5\<rparr>\<rparr>) \<and> nm_sync measured_request = None \<and>
    nm_fup measured_request = None \<and> nm_delay_resp measured_request = None"
    unfolding c nsm_request_def nsm_address_def t using w by (simp add: measured_words m measured_env_def Let_def)
  show "\<exists>req. nm_delay_req measured_request = Some req \<and> sequenceId (header req) = 0"
    "nm_sync measured_request = None" "nm_fup measured_request = None" "nm_delay_resp measured_request = None"
    using r w(3) by simp_all
qed

lemma measured_fields [simp]:
  "header (measured_answer t f) = zero_header\<lparr>tsmt := t, ver := 2, flagField0 := f\<rparr>" "m_ptr (measured_answer t f) = 7"
  "(measured_answer t f)\<lparr>m_ptr := 7\<rparr> = measured_answer t f" "hwts_ts (measured_answer t f) = Tmv 9"
  "m_suffix (measured_answer t f) = replicate 80 0"
  by (simp_all add: measured_answer_def zero_msg_def)

lemma measured_post:
  "msg_post_recv BigEndian (\<lambda>_. True) \<lparr>tv_sec = 0, tv_nsec = 0\<rparr> (measured_answer SYNC (UNICAST OR TWO_STEP)) 44 =
    Inr (measured_answer SYNC (UNICAST OR TWO_STEP))"
  "msg_post_recv BigEndian (\<lambda>_. True) \<lparr>tv_sec = 0, tv_nsec = 0\<rparr> (measured_answer FOLLOW_UP UNICAST) 44 =
    Inr (measured_answer FOLLOW_UP UNICAST)"
  "msg_post_recv BigEndian (\<lambda>_. True) \<lparr>tv_sec = 0, tv_nsec = 0\<rparr> (measured_answer DELAY_RESP UNICAST) 54 =
    Inr (measured_answer DELAY_RESP UNICAST)"
  by code_simp+

lemma measured_receive:
  assumes "msg_post_recv BigEndian (\<lambda>_. True) \<lparr>tv_sec = 0, tv_nsec = 0\<rparr> (measured_answer t f) (nat cnt) = Inr (measured_answer t f)"
    and "cnt > 0"
  shows "nsm_receive measured_env (Some (measured_answer t f, cnt)) n =
    map_option (refs [MsgPut 7]) (nsm_handle_msg measured_env (measured_answer t f) (refs [MsgGet 7] n))"
proof -
  have "nsm_recv measured_env (Some (measured_answer t f, cnt)) n = (refs [MsgGet 7] n, Some (measured_answer t f))"
    using assms by (simp add: nsm_recv_def measured_env_def msg_sots_missing_def msg_sots_valid_def tmv_is_zero_def Let_def)
  then show ?thesis by (simp add: nsm_receive_def)
qed

lemma measured_steps:
  "nsm_receive measured_env (Some (measured_answer SYNC (UNICAST OR TWO_STEP), 44)) measured_request = Some measured_sync"
  "nsm_receive measured_env (Some (measured_answer FOLLOW_UP UNICAST, 44)) measured_sync = Some measured_fup"
  "\<exists>req. nm_delay_req measured_fup = Some req \<and> sequenceId (header req) = 0"
  "nm_sync measured_fup = Some (measured_answer SYNC (UNICAST OR TWO_STEP))"
  "nm_fup measured_fup = Some (measured_answer FOLLOW_UP UNICAST)" "nm_delay_resp measured_fup = None"
proof -
  obtain req where req: "nm_delay_req measured_request = Some req" "sequenceId (header req) = 0"
    "nm_sync measured_request = None" "nm_fup measured_request = None" "nm_delay_resp measured_request = None"
    using measured_sent by blast
  note step = nsm_handle_msg_def nsm_collect_def nsm_complete_def msg_type_def htons_def one_step_def field_is_set_def zero_header_def Let_def
  show 1: "nsm_receive measured_env (Some (measured_answer SYNC (UNICAST OR TWO_STEP), 44)) measured_request = Some measured_sync"
    unfolding measured_sync_def using req measured_post(1) by (simp add: measured_receive step)
  have s: "nm_delay_req measured_sync = Some req" "nm_sync measured_sync = Some (measured_answer SYNC (UNICAST OR TWO_STEP))"
      "nm_fup measured_sync = None" "nm_delay_resp measured_sync = None"
    unfolding measured_sync_def using req measured_post(1) by (simp_all add: measured_receive step)
  show 2: "nsm_receive measured_env (Some (measured_answer FOLLOW_UP UNICAST, 44)) measured_sync = Some measured_fup"
    unfolding measured_fup_def using s req(2) measured_post(2) by (simp add: measured_receive step)
  show "\<exists>req. nm_delay_req measured_fup = Some req \<and> sequenceId (header req) = 0"
    "nm_sync measured_fup = Some (measured_answer SYNC (UNICAST OR TWO_STEP))"
    "nm_fup measured_fup = Some (measured_answer FOLLOW_UP UNICAST)" "nm_delay_resp measured_fup = None"
    unfolding measured_fup_def using s req(2) measured_post(2) by (simp_all add: measured_receive step)
qed

lemma measured_monitoring: "monitoring BigEndian measured_start measured_fup"
proof -
  have "monitoring BigEndian measured_start measured_request"
    unfolding measured_request_def by (rule monitoring.command [OF monitoring.start measured_bo])
  from monitoring.receive [OF this measured_bo measured_steps(1)] show ?thesis
    by (rule monitoring.receive [OF _ measured_bo measured_steps(2)])
qed

text \<open>The report begins with its title, so something is printed.\<close>

lemma report_begins: "unat (octet mem 4) < length ps_str \<Longrightarrow> \<exists>rest. nsm_report e offset mem = Some (''NSM MEASUREMENT COMPLETE'' @ rest)"
  by (simp add: nsm_report_def Let_def)

lemma measured_prints:
  "\<exists>n. nsm_receive measured_env (Some (measured_answer DELAY_RESP UNICAST, 54)) measured_fup = Some n \<and> nm_out n \<noteq> nm_out measured_fup"
proof -
  obtain req where req: "nm_delay_req measured_fup = Some req" "sequenceId (header req) = 0" using measured_steps(3) by blast
  obtain tsp offset where o: "nsm_compute_offset (se_fl measured_env) (se_stack measured_env) (nm_tsproc measured_fup)
      (measured_answer SYNC (UNICAST OR TWO_STEP)) (measured_answer FOLLOW_UP UNICAST) req (measured_answer DELAY_RESP UNICAST) = (tsp, offset)"
    by (cases "nsm_compute_offset (se_fl measured_env) (se_stack measured_env) (nm_tsproc measured_fup)
      (measured_answer SYNC (UNICAST OR TWO_STEP)) (measured_answer FOLLOW_UP UNICAST) req (measured_answer DELAY_RESP UNICAST)")
  obtain rest where "nsm_report measured_env offset (replicate 80 0) = Some (''NSM MEASUREMENT COMPLETE'' @ rest)"
    using report_begins [of "replicate 80 0" measured_env offset] by (auto simp: octet_def ps_str_def)
  then show ?thesis
    using req measured_steps(4-6) measured_post(3) o
    by (simp add: measured_receive nsm_handle_msg_def nsm_collect_def nsm_complete_def nsm_print_def msg_type_def htons_def one_step_def
        field_is_set_def zero_header_def Let_def)
qed

theorem monitoring_books_witness: "mset (gets (nm_refs measured_fup)) = mset (puts (nm_refs measured_fup)) + mset (held measured_fup)"
  using monitoring_books [OF measured_monitoring measured_fresh] by simp

theorem report_answers_request_witness: "\<exists>req. nm_delay_req measured_fup = Some req"
proof -
  obtain n where n: "nsm_receive measured_env (Some (measured_answer DELAY_RESP UNICAST, 54)) measured_fup = Some n"
      "nm_out n \<noteq> nm_out measured_fup"
    using measured_prints by blast
  show ?thesis using report_answers_request [OF measured_monitoring measured_fresh measured_bo n] by blast
qed

theorem one_step_sync_crashes_witness:
  "nsm_handle_msg measured_env (measured_answer DELAY_RESP UNICAST)
    (measured_start\<lparr>nm_delay_req := Some (zero_msg 1), nm_sync := Some (measured_answer SYNC UNICAST)\<rparr>) = None"
  by (rule one_step_sync_crashes [where req = "zero_msg 1" and syn = "measured_answer SYNC UNICAST"])
    (simp_all add: measured_start_def, (code_simp)+)

end
