(* ===== verification/Clockadj.thy ===== *)
theory Clockadj
  imports Tsproc
begin

unbundle bit_operations_syntax

text \<open>
  The requests to the kernel that adjust a clock (src/clockadj.c): what is in the \<open>struct timex\<close> that
  \<open>clock_adjtime\<close> gets, and what is made of the one that it returns.  A double is a real number, \<open>fl\<close> its
  rounding.  The step of a clock is \<open>clockadj_step\<close> of the theory Clock.
\<close>

record timex =
  tx_modes :: u32
  tx_freq :: int
  tx_status :: u32
  tx_constant :: int
  tx_tick :: int

text \<open>The static variables of the file.\<close>

record ca_globals =
  realtime_leap_bit :: u32
  realtime_hz :: int
  realtime_nominal_tick :: int

abbreviation (input) ADJ_FREQUENCY :: u32 where "ADJ_FREQUENCY \<equiv> 0x0002"
abbreviation (input) ADJ_MAXERROR :: u32 where "ADJ_MAXERROR \<equiv> 0x0004"
abbreviation (input) ADJ_STATUS :: u32 where "ADJ_STATUS \<equiv> 0x0010"
abbreviation (input) ADJ_TAI :: u32 where "ADJ_TAI \<equiv> 0x0080"
abbreviation (input) ADJ_TICK :: u32 where "ADJ_TICK \<equiv> 0x4000"
abbreviation (input) STA_INS :: u32 where "STA_INS \<equiv> 0x0010"
abbreviation (input) STA_DEL :: u32 where "STA_DEL \<equiv> 0x0020"

definition zero_timex :: timex where
  "zero_timex = \<lparr>tx_modes = 0, tx_freq = 0, tx_status = 0, tx_constant = 0, tx_tick = 0\<rparr>"

text \<open>The conversion to an integer truncates; \<open>round\<close> of C takes halves away from zero.\<close>

definition trunc :: "real \<Rightarrow> int" where
  "trunc x = (if x \<ge> 0 then \<lfloor>x\<rfloor> else \<lceil>x\<rceil>)"

definition c_round :: "real \<Rightarrow> int" where
  "c_round x = (if x \<ge> 0 then \<lfloor>x + 1 / 2\<rfloor> else - \<lfloor>1 / 2 - x\<rfloor>)"

subsection \<open>Operations\<close>

text \<open>\<open>hz\<close> is the result of \<open>sysconf\<close>; the division is that of nonnegative numbers.\<close>

definition clockadj_init :: "bool \<Rightarrow> int \<Rightarrow> ca_globals \<Rightarrow> ca_globals" where
  "clockadj_init realtime hz g =
    (if realtime then
       (let g = g\<lparr>realtime_hz := hz\<rparr>
        in if hz > 0 then g\<lparr>realtime_nominal_tick := (1000000 + hz div 2) div hz\<rparr> else g)
     else g)"

definition clockadj_set_freq :: "(real \<Rightarrow> real) \<Rightarrow> ca_globals \<Rightarrow> bool \<Rightarrow> dbl \<Rightarrow> timex" where
  "clockadj_set_freq fl g realtime freq =
    (let hz = realtime_hz g; nominal = realtime_nominal_tick g;
         (tx, freq) =
           (if realtime \<and> nominal \<noteq> 0
            then let tick = c_round (fl (fl (freq / 1000) / of_int hz)) + nominal
                 in (zero_timex\<lparr>tx_modes := ADJ_TICK, tx_tick := tick\<rparr>,
                     fl (freq - fl (fl (1000 * of_int hz) * of_int (tick - nominal))))
            else (zero_timex, freq))
     in tx\<lparr>tx_modes := tx_modes tx OR ADJ_FREQUENCY, tx_freq := trunc (fl (freq * fl (65536 / 1000)))\<rparr>)"

text \<open>What is read, None for a failure.\<close>

definition clockadj_get_freq :: "(real \<Rightarrow> real) \<Rightarrow> ca_globals \<Rightarrow> bool \<Rightarrow> timex option \<Rightarrow> dbl" where
  "clockadj_get_freq fl g realtime reading =
    (case reading of
       None \<Rightarrow> 0
     | Some tx \<Rightarrow>
         let f = fl (of_int (tx_freq tx) / fl (65536 / 1000)); hz = realtime_hz g; nominal = realtime_nominal_tick g
         in if realtime \<and> nominal \<noteq> 0 \<and> tx_tick tx \<noteq> 0
            then fl (f + fl (fl (1000 * of_int hz) * of_int (tx_tick tx - nominal)))
            else f)"

definition sysclk_set_leap :: "int \<Rightarrow> ca_globals \<Rightarrow> timex \<times> ca_globals" where
  "sysclk_set_leap leap g =
    (let status = (if leap = - 1 then STA_DEL else if leap = 1 then STA_INS else 0)
     in (zero_timex\<lparr>tx_modes := ADJ_STATUS, tx_status := status\<rparr>, g\<lparr>realtime_leap_bit := status\<rparr>))"

definition sysclk_set_tai_offset :: "int \<Rightarrow> timex" where
  "sysclk_set_tai_offset offset = zero_timex\<lparr>tx_modes := ADJ_TAI, tx_constant := offset\<rparr>"

text \<open>\<open>tolerance\<close> is the field of that name that is read.\<close>

definition sysclk_max_freq :: "(real \<Rightarrow> real) \<Rightarrow> ca_globals \<Rightarrow> int option \<Rightarrow> int" where
  "sysclk_max_freq fl g tolerance =
    (let f = (case tolerance of None \<Rightarrow> 0 | Some tol \<Rightarrow> trunc (fl (of_int tol / fl (65536 / 1000))));
         f = (if f = 0 then 500000 else f)
     in if realtime_nominal_tick g \<noteq> 0 \<and> 2 * f \<ge> 1000 * realtime_hz g
        then realtime_nominal_tick g div 10 * 1000 * realtime_hz g else f)"

definition sysclk_set_sync :: "ca_globals \<Rightarrow> timex" where
  "sysclk_set_sync g = zero_timex\<lparr>tx_modes := ADJ_STATUS OR ADJ_MAXERROR, tx_status := realtime_leap_bit g\<rparr>"

subsection \<open>Rounding\<close>

lemma trunc_le: "\<bar>of_int (trunc x)\<bar> \<le> \<bar>x\<bar>"
  unfolding trunc_def by (cases "x \<ge> 0") (simp; linarith)+

lemma trunc_near: "\<bar>x - of_int (trunc x)\<bar> < 1"
  unfolding trunc_def by (cases "x \<ge> 0") (simp; linarith)+

lemma trunc_bound: "\<bar>x\<bar> \<le> of_int n \<Longrightarrow> \<bar>trunc x\<bar> \<le> n"
  using trunc_le [of x] by linarith

lemma c_round_near: "\<bar>x - of_int (c_round x)\<bar> \<le> 1 / 2"
proof (cases "x \<ge> 0")
  case True
  then have "c_round x = \<lfloor>x + 1 / 2\<rfloor>" by (simp add: c_round_def)
  then show ?thesis by linarith
next
  case False
  then have "c_round x = - \<lfloor>1 / 2 - x\<rfloor>" by (simp add: c_round_def)
  then show ?thesis by linarith
qed

lemma c_round_bound: "\<bar>x\<bar> \<le> of_int n \<Longrightarrow> \<bar>c_round x\<bar> \<le> n"
  using c_round_near [of x] by linarith

lemma c_round_small: "\<bar>x\<bar> < 1 / 2 \<Longrightarrow> c_round x = 0"
  unfolding c_round_def by (auto simp: floor_eq_iff)

subsection \<open>Frequencies\<close>

text \<open>
  Every frequency up to the maximum that \<open>sysclk_max_freq\<close> reports can be set: in exact arithmetic the tick that
  \<open>clockadj_set_freq\<close> asks for differs from the nominal one by at most a tenth, which the kernel allows, and the
  rest fits the tolerance that the kernel has reported.
\<close>

theorem max_freq_settable:
  assumes "realtime_hz g > 0" and "realtime_nominal_tick g \<ge> 0" and "tol \<ge> 66"
    and "\<bar>x\<bar> \<le> of_int (sysclk_max_freq (\<lambda>x. x) g (Some tol))"
  shows "\<bar>tx_freq (clockadj_set_freq (\<lambda>x. x) g True x)\<bar> \<le> tol \<and>
    (tx_modes (clockadj_set_freq (\<lambda>x. x) g True x) AND ADJ_TICK = 0 \<or>
     \<bar>tx_tick (clockadj_set_freq (\<lambda>x. x) g True x) - realtime_nominal_tick g\<bar> \<le> realtime_nominal_tick g div 10)"
proof -
  define hz where "hz = realtime_hz g"
  define nominal where "nominal = realtime_nominal_tick g"
  define f where "f = trunc (of_int tol / (65536 / 1000))"
  have f: "f \<ge> 1" and ftol: "of_int f * (65536 / 1000) \<le> (of_int tol :: real)"
    using assms(3) trunc_le [of "of_int tol / (65536 / 1000)"] unfolding f_def trunc_def by (simp_all add: le_floor_iff)
  have mx: "sysclk_max_freq (\<lambda>x. x) g (Some tol) = (if nominal \<noteq> 0 \<and> 2 * f \<ge> 1000 * hz then nominal div 10 * 1000 * hz else f)"
    using f unfolding sysclk_max_freq_def Let_def option.case nominal_def hz_def f_def by simp
  have scaled: "\<bar>trunc (y * (65536 / 1000))\<bar> \<le> tol" if "\<bar>y\<bar> \<le> of_int f" for y
    using that ftol by (intro trunc_bound) (simp add: abs_mult)
  show ?thesis
  proof (cases "nominal = 0")
    case True
    then have "tx_freq (clockadj_set_freq (\<lambda>x. x) g True x) = trunc (x * (65536 / 1000))"
        "tx_modes (clockadj_set_freq (\<lambda>x. x) g True x) = ADJ_FREQUENCY"
      by (simp_all add: clockadj_set_freq_def nominal_def zero_timex_def)
    then show ?thesis
      using assms(4) scaled [of x] True unfolding mx by simp
  next
    case False
    define k where "k = c_round (x / 1000 / of_int hz)"
    define rest where "rest = x - 1000 * of_int hz * of_int k"
    have tx: "tx_freq (clockadj_set_freq (\<lambda>x. x) g True x) = trunc (rest * (65536 / 1000))"
        "tx_tick (clockadj_set_freq (\<lambda>x. x) g True x) - nominal = k"
      using False by (simp_all add: clockadj_set_freq_def Let_def nominal_def hz_def k_def rest_def zero_timex_def)
    have hz: "(of_int hz :: real) > 0" using assms(1) by (simp add: hz_def)
    have x: "x = x / 1000 / of_int hz * (1000 * of_int hz)" using hz by simp
    have half: "\<bar>rest\<bar> \<le> 500 * of_int hz"
    proof -
      have "rest = (x / 1000 / of_int hz - of_int k) * (1000 * of_int hz)"
        using hz by (simp add: rest_def field_simps)
      then have "\<bar>rest\<bar> = \<bar>x / 1000 / of_int hz - of_int k\<bar> * (1000 * of_int hz)"
        using hz by (simp add: abs_mult)
      also have "\<dots> \<le> 1 / 2 * (1000 * of_int hz)"
        using c_round_near [of "x / 1000 / of_int hz"] hz unfolding k_def by (intro mult_right_mono) auto
      finally show ?thesis by simp
    qed
    have "\<bar>rest\<bar> \<le> of_int f \<and> \<bar>k\<bar> \<le> nominal div 10"
    proof (cases "2 * f \<ge> 1000 * hz")
      case True
      then have "500 * (of_int hz :: real) \<le> of_int f" by linarith
      moreover have "\<bar>k\<bar> \<le> nominal div 10"
      proof -
        have "\<bar>x\<bar> \<le> of_int (nominal div 10) * (1000 * of_int hz)"
          using assms(4) True False unfolding mx by simp
        then have "\<bar>x / 1000 / of_int hz\<bar> \<le> of_int (nominal div 10)"
          using hz by (simp add: abs_divide field_simps)
        then show ?thesis unfolding k_def by (rule c_round_bound)
      qed
      ultimately show ?thesis using half by linarith
    next
      case small: False
      then have le: "\<bar>x\<bar> \<le> of_int f" using assms(4) unfolding mx by simp
      have "\<bar>x\<bar> < 500 * of_int hz" using le small by linarith
      then have "\<bar>x / 1000 / of_int hz\<bar> < 1 / 2" using hz by (simp add: abs_divide field_simps)
      then have "k = 0" unfolding k_def by (rule c_round_small)
      then show ?thesis using le assms(2) by (simp add: rest_def nominal_def)
    qed
    then show ?thesis
      using scaled [of rest] unfolding tx(1) nominal_def [symmetric] tx(2) by blast
  qed
qed

theorem max_freq_settable_witness:
  "sysclk_max_freq (\<lambda>x. x) \<lparr>realtime_leap_bit = 0, realtime_hz = 100, realtime_nominal_tick = 10000\<rparr> (Some 32768000) = 100000000 \<and>
   \<bar>tx_freq (clockadj_set_freq (\<lambda>x. x) \<lparr>realtime_leap_bit = 0, realtime_hz = 100, realtime_nominal_tick = 10000\<rparr> True 99999999)\<bar> \<le> 32768000"
proof -
  let ?g = "\<lparr>realtime_leap_bit = 0, realtime_hz = 100, realtime_nominal_tick = 10000\<rparr>"
  have m: "sysclk_max_freq (\<lambda>x. x) ?g (Some 32768000) = 100000000"
    by (simp add: sysclk_max_freq_def trunc_def)
  show ?thesis
    using max_freq_settable [of ?g 32768000 99999999] unfolding m by simp
qed

text \<open>
  Reading the frequency back gives what was set, up to the resolution of the kernel's unit, if the kernel
  stores the tick and the frequency that it was given.
\<close>

lemma freq_round_trip:
  assumes "realtime_hz g > 0" and "realtime \<Longrightarrow> realtime_nominal_tick g \<noteq> 0"
    and "realtime \<Longrightarrow> tx_tick (clockadj_set_freq (\<lambda>x. x) g realtime x) \<noteq> 0"
  shows "\<bar>clockadj_get_freq (\<lambda>x. x) g realtime (Some (clockadj_set_freq (\<lambda>x. x) g realtime x)) - x\<bar> < 1000 / 65536"
proof -
  have near: "\<bar>of_int (trunc (y * (65536 / 1000))) / (65536 / 1000) - y\<bar> < 1000 / 65536" for y :: real
    using trunc_near [of "y * (65536 / 1000)"] by (simp add: field_simps)
  show ?thesis
  proof (cases realtime)
    case True
    define k where "k = c_round (x / 1000 / of_int (realtime_hz g))"
    have tick: "tx_tick (clockadj_set_freq (\<lambda>x. x) g realtime x) = k + realtime_nominal_tick g"
      using True assms(2) by (simp add: clockadj_set_freq_def Let_def k_def zero_timex_def)
    define y where "y = x - 1000 * of_int (realtime_hz g) * of_int k"
    define t where "t = of_int (trunc (y * (65536 / 1000))) / (65536 / 1000 :: real)"
    have "clockadj_get_freq (\<lambda>x. x) g realtime (Some (clockadj_set_freq (\<lambda>x. x) g realtime x)) =
        t + 1000 * of_int (realtime_hz g) * of_int k"
      using True assms(2,3) tick
      by (simp add: clockadj_get_freq_def clockadj_set_freq_def Let_def k_def [symmetric] zero_timex_def y_def t_def algebra_simps)
    moreover have "\<bar>t - y\<bar> < 1000 / 65536" using near [of y] unfolding t_def .
    moreover have "t + 1000 * of_int (realtime_hz g) * of_int k - x = t - y" by (simp add: y_def)
    ultimately show ?thesis by (simp only:)
  next
    case False
    then show ?thesis using near [of x] by (simp add: clockadj_get_freq_def clockadj_set_freq_def zero_timex_def)
  qed
qed

text \<open>Keeping the clock synchronised does not clear the leap second that was announced.\<close>

lemma sync_keeps_leap: "sysclk_set_leap leap g = (tx, g') \<Longrightarrow> tx_status (sysclk_set_sync g') = tx_status tx"
  by (auto simp: sysclk_set_leap_def sysclk_set_sync_def zero_timex_def Let_def)

end
