(* ===== verification/PhcCtl.thy ===== *)
theory PhcCtl
  imports Clockadj Clock Args "HOL-Library.Signed_Division"
begin

text \<open>
  The program phc_ctl (src/phc_ctl.c): a list of commands, each with an optional argument, that set, read,
  adjust and compare a clock.  What the kernel answers is the environment: \<open>he_gettime\<close> and \<open>he_settime\<close>
  answer the \<open>k\<close>th call of the run, \<open>he_reading\<close> is what \<open>clock_adjtime\<close> returns.  What a command does and
  tells is in the list of effects.
\<close>

record phc_env =
  he_fl :: "real \<Rightarrow> real"
  he_strtod :: "string \<Rightarrow> (real \<times> string \<times> bool) option"
  he_gettime :: "nat \<Rightarrow> int \<Rightarrow> timespec option"
  he_settime :: "nat \<Rightarrow> bool"
  he_reading :: "timex option"
  he_hz :: int
  he_sysoff :: "i64 option"
  he_caps :: "int list option"
  he_phc_open :: "string \<Rightarrow> int"
  he_ts_info :: "string \<Rightarrow> (bool \<times> int) option"

abbreviation (input) PHC_REALTIME :: int where "PHC_REALTIME \<equiv> 0"
abbreviation (input) PHC_INVALID :: int where "PHC_INVALID \<equiv> - 1"

datatype ctl_effect =
    SetTime int timespec
  | TellTime timespec
  | Step int "int \<times> int"
  | SetFreq int timex
  | TellFreq dbl
  | TellOffset bool i64
  | TellCaps "int list"
  | Pause int int

record ctl =
  ct_calls :: nat
  ct_globals :: ca_globals
  ct_effects :: "ctl_effect list"

definition effect :: "ctl_effect \<Rightarrow> ctl \<Rightarrow> ctl" where
  "effect x st = st\<lparr>ct_effects := ct_effects st @ [x]\<rparr>"

definition get_time :: "phc_env \<Rightarrow> int \<Rightarrow> ctl \<Rightarrow> ctl \<times> timespec option" where
  "get_time e clkid st = (st\<lparr>ct_calls := ct_calls st + 1\<rparr>, he_gettime e (ct_calls st) clkid)"

subsection \<open>Times\<close>

text \<open>\<open>modf\<close> is exact.\<close>

definition double_to_timespec :: "(real \<Rightarrow> real) \<Rightarrow> real \<Rightarrow> timespec" where
  "double_to_timespec fl d =
    (let whole = trunc d; fraction = d - of_int whole
     in \<lparr>tv_sec = word_of_int whole, tv_nsec = word_of_int (trunc (fl (1000000000 * fraction)))\<rparr>)"

text \<open>The products are those of unsigned integers, stored in signed ones.\<close>

definition calculate_offset :: "timespec \<Rightarrow> timespec \<Rightarrow> timespec \<Rightarrow> i64" where
  "calculate_offset ts1 rt ts2 =
    (let interval = (tv_sec ts2 - tv_sec ts1) * 1000000000 + (tv_nsec ts2 - tv_nsec ts1)
     in (tv_sec rt - tv_sec ts1) * 1000000000 +
        ((tv_nsec rt - tv_nsec ts1) - word_of_int (sint interval sdiv 2)))"

subsection \<open>Commands\<close>

datatype ctl_command = do_set | do_get | do_adj | do_freq | do_cmp | do_caps | do_wait

definition all_commands :: "(string \<times> ctl_command) list" where
  "all_commands = [(''set'', do_set), (''get'', do_get), (''adj'', do_adj), (''freq'', do_freq), (''cmp'', do_cmp),
     (''caps'', do_caps), (''wait'', do_wait)]"

text \<open>The last command whose name begins the word.\<close>

definition get_command_function :: "string \<Rightarrow> ctl_command option" where
  "get_command_function name =
    fold (\<lambda>(n, f) cmd. if take (length n) name = n then Some f else cmd) all_commands None"

definition name_is_a_command :: "string \<Rightarrow> bool" where
  "name_is_a_command name \<longleftrightarrow> get_command_function name \<noteq> None"

text \<open>The argument of a command: there is none when the next word is a command.\<close>

definition own_argument :: "string list \<Rightarrow> string option" where
  "own_argument cmdv = (case cmdv of [] \<Rightarrow> None | a # _ \<Rightarrow> if name_is_a_command a then None else Some a)"

definition ctl_double :: "phc_env \<Rightarrow> string \<Rightarrow> real \<Rightarrow> real \<Rightarrow> real option" where
  "ctl_double e s lo hi = (case get_ranged_double (he_strtod e) s lo hi of Inl _ \<Rightarrow> None | Inr d \<Rightarrow> Some d)"

text \<open>The result is the number of arguments used, or negative for an error.\<close>

definition run_set :: "phc_env \<Rightarrow> int \<Rightarrow> string list \<Rightarrow> ctl \<Rightarrow> ctl \<times> int" where
  "run_set e clkid cmdv st =
    (let settime = (\<lambda>ts eat st.
           if he_settime e (ct_calls st)
           then (effect (SetTime clkid ts) (st\<lparr>ct_calls := ct_calls st + 1\<rparr>), eat)
           else (st\<lparr>ct_calls := ct_calls st + 1\<rparr>, - 1))
     in case own_argument cmdv of
          None \<Rightarrow> (case get_time e PHC_REALTIME st of
              (st, r) \<Rightarrow> settime (case r of None \<Rightarrow> \<lparr>tv_sec = 0, tv_nsec = 0\<rparr> | Some ts \<Rightarrow> ts) 0 st)
        | Some a \<Rightarrow> (case ctl_double e a 0 DBL_MAX of
              None \<Rightarrow> (st, - 2)
            | Some d \<Rightarrow> settime (double_to_timespec (he_fl e) d) 1 st))"

definition run_get :: "phc_env \<Rightarrow> int \<Rightarrow> ctl \<Rightarrow> ctl \<times> int" where
  "run_get e clkid st =
    (case get_time e clkid st of
       (st, None) \<Rightarrow> (st, - 1)
     | (st, Some ts) \<Rightarrow> (effect (TellTime ts) st, 0))"

text \<open>A product outside the range of the integer is undefined in C.\<close>

definition run_adj :: "phc_env \<Rightarrow> int \<Rightarrow> string list \<Rightarrow> ctl \<Rightarrow> ctl \<times> int" where
  "run_adj e clkid cmdv st =
    (case own_argument cmdv of
       None \<Rightarrow> (st, - 2)
     | Some a \<Rightarrow> (case ctl_double e a (- DBL_MAX) DBL_MAX of
           None \<Rightarrow> (st, - 2)
         | Some d \<Rightarrow>
             let nsecs = word_of_int (trunc (he_fl e (1000000000 * d)));
                 st = st\<lparr>ct_globals := clockadj_init (clkid = PHC_REALTIME) (he_hz e) (ct_globals st)\<rparr>
             in (effect (Step clkid (clockadj_step nsecs)) st, 1)))"

definition run_freq :: "phc_env \<Rightarrow> int \<Rightarrow> string list \<Rightarrow> ctl \<Rightarrow> ctl \<times> int" where
  "run_freq e clkid cmdv st =
    (let realtime = (clkid = PHC_REALTIME);
         st = st\<lparr>ct_globals := clockadj_init realtime (he_hz e) (ct_globals st)\<rparr>
     in case own_argument cmdv of
          None \<Rightarrow> (effect (TellFreq (clockadj_get_freq (he_fl e) (ct_globals st) realtime (he_reading e))) st, 0)
        | Some a \<Rightarrow> (case ctl_double e a (- 1000000000) 1000000000 of
              None \<Rightarrow> (st, - 2)
            | Some ppb \<Rightarrow> (effect (SetFreq clkid (clockadj_set_freq (he_fl e) (ct_globals st) realtime ppb)) st, 1)))"

definition run_caps :: "phc_env \<Rightarrow> int \<Rightarrow> ctl \<Rightarrow> ctl \<times> int" where
  "run_caps e clkid st =
    (if clkid = PHC_REALTIME then (st, 0)
     else case he_caps e of None \<Rightarrow> (st, - 1) | Some caps \<Rightarrow> (effect (TellCaps caps) st, 0))"

text \<open>Three readings, the clock between two of the system clock; a reading that fails ends them.\<close>

definition run_cmp :: "phc_env \<Rightarrow> int \<Rightarrow> ctl \<Rightarrow> ctl \<times> int" where
  "run_cmp e clkid st =
    (case he_sysoff e of
       Some sys_offset \<Rightarrow> (effect (TellOffset True sys_offset) st, 0)
     | None \<Rightarrow>
         (case get_time e PHC_REALTIME st of
            (st, None) \<Rightarrow> (st, - 1)
          | (st, Some rta) \<Rightarrow> (case get_time e clkid st of
                (st, None) \<Rightarrow> (st, - 1)
              | (st, Some ts) \<Rightarrow> (case get_time e PHC_REALTIME st of
                    (st, None) \<Rightarrow> (st, - 1)
                  | (st, Some rtb) \<Rightarrow> (effect (TellOffset False (calculate_offset rta ts rtb)) st, 0)))))"

definition run_wait :: "phc_env \<Rightarrow> string list \<Rightarrow> ctl \<Rightarrow> ctl \<times> int" where
  "run_wait e cmdv st =
    (case own_argument cmdv of
       None \<Rightarrow> (st, - 2)
     | Some a \<Rightarrow> (case ctl_double e a 0 DBL_MAX of
           None \<Rightarrow> (st, - 2)
         | Some d \<Rightarrow> let ts = double_to_timespec (he_fl e) d
             in (effect (Pause (sint (tv_sec ts)) (sint (tv_nsec ts) sdiv 1000)) st, 1)))"

fun run_action :: "phc_env \<Rightarrow> int \<Rightarrow> ctl_command \<Rightarrow> string list \<Rightarrow> ctl \<Rightarrow> ctl \<times> int" where
  "run_action e clkid do_set cmdv st = run_set e clkid cmdv st"
| "run_action e clkid do_get cmdv st = run_get e clkid st"
| "run_action e clkid do_adj cmdv st = run_adj e clkid cmdv st"
| "run_action e clkid do_freq cmdv st = run_freq e clkid cmdv st"
| "run_action e clkid do_cmp cmdv st = run_cmp e clkid st"
| "run_action e clkid do_caps cmdv st = run_caps e clkid st"
| "run_action e clkid do_wait cmdv st = run_wait e cmdv st"

text \<open>
  The loop over the words.  \<open>result\<close> keeps its value when a word is not a command, and as many words are
  skipped again.
\<close>

function cmds_loop :: "phc_env \<Rightarrow> int \<Rightarrow> string list \<Rightarrow> int \<Rightarrow> ctl \<Rightarrow> ctl \<times> int" where
  "cmds_loop e clkid [] result st = (st, 0)"
| "cmds_loop e clkid (arg # cmdv) result st =
    (let (st, result) = (case get_command_function arg of
           Some action \<Rightarrow> run_action e clkid action cmdv st
         | None \<Rightarrow> (st, result))
     in if result < 0 then (st, result) else cmds_loop e clkid (drop (nat result) cmdv) result st)"
  by pat_completeness auto
termination
  by (relation "measure (\<lambda>(e, clkid, cmdv, result, st). length cmdv)") auto

declare cmds_loop.simps [simp del]

definition run_cmds :: "phc_env \<Rightarrow> int \<Rightarrow> string list \<Rightarrow> ctl \<Rightarrow> ctl \<times> int" where
  "run_cmds e clkid cmdv st = cmds_loop e clkid cmdv 0 st"

subsection \<open>The program\<close>

definition phc_clock_open :: "phc_env \<Rightarrow> string \<Rightarrow> int" where
  "phc_clock_open e device =
    (if strcaseeq device ''CLOCK_REALTIME'' then PHC_REALTIME
     else if he_phc_open e device \<noteq> PHC_INVALID then he_phc_open e device
     else case he_ts_info e device of
         None \<Rightarrow> PHC_INVALID
       | Some (valid, phc_index) \<Rightarrow>
           if \<not> valid \<or> phc_index < 0 then PHC_INVALID else he_phc_open e (''/dev/ptp'' @ show_int phc_index))"

text \<open>The options; what they set concerns the messages only.\<close>

fun phc_options :: "argument list \<Rightarrow> int option" where
  "phc_options [] = None"
| "phc_options (LongOpt name v # args) = Some (- 1)"
| "phc_options (UnknownOpt # args) = Some (- 1)"
| "phc_options (Opt c optarg # args) =
    (if c = CHR ''l'' then (case get_arg_val_i optarg 0 7 of None \<Rightarrow> Some (- 1) | Some v \<Rightarrow> phc_options args)
     else if c = CHR ''q'' \<or> c = CHR ''Q'' then phc_options args
     else if c = CHR ''v'' \<or> c = CHR ''h'' then Some 0
     else Some (- 1))"

text \<open>\<open>words\<close> are the device and the commands; a failure of the kernel (-1) is not reported to the caller.\<close>

definition phc_ctl_main :: "phc_env \<Rightarrow> argument list \<Rightarrow> string list \<Rightarrow> ctl \<Rightarrow> ctl \<times> int" where
  "phc_ctl_main e args words st =
    (case phc_options args of
       Some status \<Rightarrow> (st, status)
     | None \<Rightarrow>
         (case words of
            [] \<Rightarrow> (st, - 1)
          | device # cmdv \<Rightarrow>
              let clkid = phc_clock_open e device
              in if clkid = PHC_INVALID then (st, - 1)
                 else case run_cmds e clkid (if cmdv = [] then [''caps''] else cmdv) st of
                     (st, result) \<Rightarrow> (st, if result < - 1 then result else 0)))"

end
