(* ===== verification/PhcCtlProps.thy ===== *)
theory PhcCtlProps
  imports PhcCtl
begin

text \<open>
  What phc_ctl promises: the commands run in order, each with its own argument, unless a word is no command;
  and the offset that it compares is off by at most half the time that the readings take.
\<close>

subsection \<open>The commands in order\<close>

definition takes_argument :: "ctl_command \<Rightarrow> bool" where
  "takes_argument c \<longleftrightarrow> c \<in> {do_set, do_adj, do_freq, do_wait}"

text \<open>The words as commands with their arguments; None when a word is neither.\<close>

fun invocations :: "string list \<Rightarrow> (ctl_command \<times> string option) list option" where
  "invocations [] = Some []"
| "invocations (w # ws) =
    (case get_command_function w of
       None \<Rightarrow> None
     | Some c \<Rightarrow>
         (case ws of
            [] \<Rightarrow> Some [(c, None)]
          | a # ws' \<Rightarrow>
              if takes_argument c \<and> \<not> name_is_a_command a then map_option (\<lambda>is. (c, Some a) # is) (invocations ws')
              else map_option (\<lambda>is. (c, None) # is) (invocations ws)))"

fun execute :: "phc_env \<Rightarrow> int \<Rightarrow> (ctl_command \<times> string option) list \<Rightarrow> ctl \<Rightarrow> ctl \<times> int" where
  "execute e clkid [] st = (st, 0)"
| "execute e clkid ((c, a) # is) st =
    (case run_action e clkid c (case a of None \<Rightarrow> [] | Some a \<Rightarrow> [a]) st of
       (st, result) \<Rightarrow> if result < 0 then (st, result) else execute e clkid is st)"

lemma run_action_own:
  "takes_argument c \<Longrightarrow> \<not> name_is_a_command a \<Longrightarrow> run_action e clkid c (a # ws) st = run_action e clkid c [a] st"
  by (cases c) (simp_all add: takes_argument_def run_set_def run_adj_def run_freq_def run_wait_def own_argument_def)

lemma run_action_none:
  "\<not> takes_argument c \<or> name_is_a_command a \<Longrightarrow> run_action e clkid c (a # ws) st = run_action e clkid c [] st"
  by (cases c) (auto simp: takes_argument_def run_set_def run_adj_def run_freq_def run_wait_def own_argument_def)

lemma result_own:
  "takes_argument c \<Longrightarrow> \<not> name_is_a_command a \<Longrightarrow> run_action e clkid c [a] st = (st', r) \<Longrightarrow> r < 0 \<or> r = 1"
  by (cases c) (auto simp: takes_argument_def run_set_def run_adj_def run_freq_def run_wait_def own_argument_def Let_def
      split: option.splits if_splits)

lemma result_none: "run_action e clkid c [] st = (st', r) \<Longrightarrow> r < 0 \<or> r = 0"
  by (cases c) (auto simp: run_set_def run_adj_def run_freq_def run_wait_def run_get_def run_cmp_def run_caps_def
      own_argument_def Let_def split: option.splits if_splits prod.splits)

lemma loop_command:
  "get_command_function w = Some c \<Longrightarrow> run_action e clkid c ws st = (st', r) \<Longrightarrow>
    cmds_loop e clkid (w # ws) result st = (if r < 0 then (st', r) else cmds_loop e clkid (drop (nat r) ws) r st')"
  by (simp add: cmds_loop.simps(2))

lemma loop_execute: "invocations cmdv = Some is \<Longrightarrow> cmds_loop e clkid cmdv result st = execute e clkid is st"
proof (induction cmdv arbitrary: "is" result st rule: invocations.induct)
  case 1
  then show ?case by (simp add: cmds_loop.simps(1))
next
  case (2 w ws)
  then obtain c where c: "get_command_function w = Some c"
    by (cases "get_command_function w") auto
  show ?case
  proof (cases ws)
    case Nil
    obtain st' r where r: "run_action e clkid c [] st = (st', r)" by fastforce
    have "is = [(c, None)]" using 2(3) c Nil by simp
    then show ?thesis
      using loop_command [OF c r] result_none [OF r] Nil r by (auto simp: cmds_loop.simps(1))
  next
    case (Cons a ws')
    show ?thesis
    proof (cases "takes_argument c \<and> \<not> name_is_a_command a")
      case True
      then obtain is' where is': "invocations ws' = Some is'" "is = (c, Some a) # is'"
        using 2(3) c Cons by auto
      obtain st' r where r: "run_action e clkid c [a] st = (st', r)" by fastforce
      have r': "run_action e clkid c ws st = (st', r)"
        using r True run_action_own [of c a e clkid ws' st] Cons by simp
      have "r < 0 \<or> r = 1" using result_own [OF _ _ r] True by blast
      moreover have "cmds_loop e clkid ws' 1 st' = execute e clkid is' st'"
        by (rule 2(1) [OF c Cons True is'(1)])
      ultimately show ?thesis
        using loop_command [OF c r'] Cons r is'(2) by auto
    next
      case False
      then obtain is' where is': "invocations ws = Some is'" "is = (c, None) # is'"
        using 2(3) c Cons by auto
      obtain st' r where r: "run_action e clkid c [] st = (st', r)" by fastforce
      have r': "run_action e clkid c ws st = (st', r)"
        using run_action_none [of c a] False r Cons by simp
      have "r < 0 \<or> r = 0" by (rule result_none [OF r])
      moreover have "cmds_loop e clkid ws 0 st' = execute e clkid is' st'"
        using 2(2) [OF c Cons False] is'(1) Cons by simp
      ultimately show ?thesis
        using loop_command [OF c r'] r is'(2) by auto
    qed
  qed
qed

text \<open>
  C25: phc_ctl runs the commands in their order: if every word is a command or the argument of one, the loop, which
  counts the words that a command has used, does what executing the commands one after the other with their own
  arguments does, and stops at the first that fails.
\<close>

theorem commands_in_order: "invocations cmdv = Some is \<Longrightarrow> run_cmds e clkid cmdv st = execute e clkid is st"
  unfolding run_cmds_def by (rule loop_execute)

definition ctl_env :: phc_env where
  "ctl_env = \<lparr>he_fl = (\<lambda>x. x), he_strtod = (\<lambda>s. if s = ''10'' then Some (10, [], False) else None),
     he_gettime = (\<lambda>k clkid. Some \<lparr>tv_sec = 5, tv_nsec = of_nat k\<rparr>), he_settime = (\<lambda>_. True), he_reading = None, he_hz = 100,
     he_sysoff = None, he_caps = None, he_phc_open = (\<lambda>_. - 1), he_ts_info = (\<lambda>_. None)\<rparr>"

definition ctl_start :: ctl where
  "ctl_start = \<lparr>ct_calls = 0, ct_globals = \<lparr>realtime_leap_bit = 0, realtime_hz = 0, realtime_nominal_tick = 0\<rparr>, ct_effects = []\<rparr>"

lemma ctl_names [simp]:
  "get_command_function ''freq'' = Some do_freq" "get_command_function ''get'' = Some do_get"
  "get_command_function ''set'' = Some do_set" "get_command_function ''10'' = None" "get_command_function ''oops'' = None"
  by (simp_all add: get_command_function_def all_commands_def)

lemma ctl_ten: "ctl_double ctl_env ''10'' (- 1000000000) 1000000000 = Some 10"
  by (simp add: ctl_double_def ctl_env_def get_ranged_double_def get_ranged_def)

theorem commands_in_order_witness:
  "run_cmds ctl_env 3 [''freq'', ''10'', ''get'', ''set''] ctl_start = execute ctl_env 3 [(do_freq, Some ''10''), (do_get, None), (do_set, None)] ctl_start \<and>
   SetFreq 3 (zero_timex\<lparr>tx_modes := 2, tx_freq := 655\<rparr>) \<in>
     set (ct_effects (fst (execute ctl_env 3 [(do_freq, Some ''10''), (do_get, None), (do_set, None)] ctl_start)))"
proof
  have "invocations [''freq'', ''10'', ''get'', ''set''] = Some [(do_freq, Some ''10''), (do_get, None), (do_set, None)]"
    by (simp add: takes_argument_def name_is_a_command_def)
  then show "run_cmds ctl_env 3 [''freq'', ''10'', ''get'', ''set''] ctl_start =
      execute ctl_env 3 [(do_freq, Some ''10''), (do_get, None), (do_set, None)] ctl_start"
    by (rule commands_in_order)
  show "SetFreq 3 (zero_timex\<lparr>tx_modes := 2, tx_freq := 655\<rparr>) \<in>
     set (ct_effects (fst (execute ctl_env 3 [(do_freq, Some ''10''), (do_get, None), (do_set, None)] ctl_start)))"
    by (simp add: run_freq_def own_argument_def name_is_a_command_def ctl_ten Let_def run_get_def run_set_def get_time_def effect_def
        clockadj_set_freq_def zero_timex_def trunc_def ctl_start_def clockadj_init_def)
       (simp add: ctl_env_def run_set_def own_argument_def get_time_def effect_def Let_def)
qed

text \<open>
  An unknown word after a command with an argument swallows the word that follows it: \<open>result\<close> still holds the
  number of words that the command before has used, so the next command is skipped without a message,
  whatever it is.
\<close>

theorem unknown_word_swallows:
  assumes "get_command_function unknown = None"
    and "\<not> name_is_a_command a" and "ctl_double e a (- 1000000000) 1000000000 = Some ppb"
  shows "run_cmds e clkid ([''freq'', a, unknown, swallowed] @ cmdv) st = run_cmds e clkid ([''freq'', a, unknown, other] @ cmdv) st"
proof -
  have f: "get_command_function ''freq'' = Some do_freq"
    by (simp add: get_command_function_def all_commands_def)
  obtain st' where "run_freq e clkid (a # ws) st = (st', 1)" for ws
    using assms(2,3) by (simp add: run_freq_def own_argument_def Let_def)
  then show ?thesis
    using assms(1) f by (simp add: run_cmds_def cmds_loop.simps(2))
qed

theorem unknown_word_swallows_witness:
  "run_cmds ctl_env 3 [''freq'', ''10'', ''oops'', ''set''] ctl_start = run_cmds ctl_env 3 [''freq'', ''10'', ''oops'', ''get''] ctl_start"
  using unknown_word_swallows [of "''oops''" "''10''" ctl_env 10 3 "''set''" "[]" ctl_start "''get''"] ctl_ten
  by (simp add: name_is_a_command_def)

subsection \<open>The offset\<close>

definition timespec_val :: "timespec \<Rightarrow> int" where
  "timespec_val ts = sint (tv_sec ts) * 1000000000 + sint (tv_nsec ts)"

lemma timespec_diff:
  "(tv_sec a - tv_sec b) * 1000000000 + (tv_nsec a - tv_nsec b) = word_of_int (timespec_val a - timespec_val b)"
  by (simp add: timespec_val_def algebra_simps)

lemma offset_val:
  assumes "in_i64 (timespec_val ts2 - timespec_val ts1)"
  shows "calculate_offset ts1 rt ts2 =
    word_of_int (timespec_val rt - timespec_val ts1 - (timespec_val ts2 - timespec_val ts1) sdiv 2)"
proof -
  have "calculate_offset ts1 rt ts2 =
      (tv_sec rt - tv_sec ts1) * 1000000000 + (tv_nsec rt - tv_nsec ts1) -
      word_of_int (sint ((tv_sec ts2 - tv_sec ts1) * 1000000000 + (tv_nsec ts2 - tv_nsec ts1)) sdiv 2)"
    by (simp add: calculate_offset_def Let_def)
  then show ?thesis
    using assms by (simp only: timespec_diff sint_of_int64) simp
qed

text \<open>
  The offset that \<open>cmp\<close> tells is off by at most half the time between the two readings of the system clock: if the
  clock is ahead of it by \<open>theta\<close> and was read at some time \<open>t\<close> between them, the computed offset differs from
  \<open>theta\<close> by at most half their distance, rounded up.
\<close>

theorem compared_offset_bound:
  assumes "timespec_val ts1 \<le> t" and "t \<le> timespec_val ts2" and "timespec_val rt = t + theta"
    and "in_i64 (timespec_val ts2 - timespec_val ts1)"
    and "in_i64 (theta - (timespec_val ts2 - timespec_val ts1))" and "in_i64 (theta + (timespec_val ts2 - timespec_val ts1))"
  shows "\<bar>sint (calculate_offset ts1 rt ts2) - theta\<bar> \<le> (timespec_val ts2 - timespec_val ts1 + 1) div 2"
proof -
  let ?d = "timespec_val ts2 - timespec_val ts1"
  have d: "?d \<ge> 0" using assms(1,2) by simp
  then have s: "?d sdiv 2 = ?d div 2"
    by (simp add: signed_divide_int_def sgn_if)
  let ?o = "timespec_val rt - timespec_val ts1 - ?d div 2"
  have o: "theta - ?d \<le> ?o" "?o \<le> theta + ?d"
    using assms(1-3) d by linarith+
  then have "in_i64 ?o"
    using assms(5,6) by (auto simp: in_i64_def)
  then have "sint (calculate_offset ts1 rt ts2) = ?o"
    by (simp only: offset_val [OF assms(4)] s sint_of_int64)
  then show ?thesis
    using assms(1-3) by linarith
qed

theorem compared_offset_bound_witness:
  "sint (calculate_offset \<lparr>tv_sec = 5, tv_nsec = 0\<rparr> \<lparr>tv_sec = 7, tv_nsec = 0\<rparr> \<lparr>tv_sec = 5, tv_nsec = 1000\<rparr>) = 1999999500 \<and>
   \<bar>1999999500 - 1999999700\<bar> \<le> (500 :: int)"
proof -
  let ?ts1 = "\<lparr>tv_sec = 5, tv_nsec = 0\<rparr>" and ?rt = "\<lparr>tv_sec = 7, tv_nsec = 0\<rparr>" and ?ts2 = "\<lparr>tv_sec = 5, tv_nsec = 1000\<rparr>"
  have off: "sint (calculate_offset ?ts1 ?rt ?ts2) = 1999999500"
    by (simp add: calculate_offset_def signed_divide_int_def)
  have "\<bar>sint (calculate_offset ?ts1 ?rt ?ts2) - 1999999700\<bar> \<le> (timespec_val ?ts2 - timespec_val ?ts1 + 1) div 2"
    by (rule compared_offset_bound [where t = 5000000300]) (simp_all add: timespec_val_def in_i64_def)
  then show ?thesis
    using off by (simp add: timespec_val_def)
qed

end
