(* ===== verification/Sysoff.thy ===== *)
theory Sysoff
  imports Tmv "HOL-Library.Signed_Division"
begin

text \<open>
  The offset of a hardware clock from the readings that the kernel makes of it between readings of the system
  clock (src/sysoff.c): the quickest reading counts.  The readings are \<open>2 n + 1\<close> times, those of the hardware
  clock at the odd places; the array \<open>samples\<close> has 25 places.
\<close>

subsection \<open>The measurement\<close>

record ptp_clock_time =
  pct_sec :: i64
  pct_nsec :: u32

record sysoff_sample =
  sa_interval :: i64
  sa_offset :: i64
  sa_timestamp :: u64

datatype sysoff = SYSOFF_SUPPORTED | SYSOFF_COMPILE_TIME_MISSING | SYSOFF_RUN_TIME_MISSING

abbreviation (input) PTP_MAX_SAMPLES :: nat where "PTP_MAX_SAMPLES \<equiv> 25"

definition pctns :: "ptp_clock_time \<Rightarrow> i64" where
  "pctns t = pct_sec t * 1000000000 + ucast (pct_nsec t)"

fun insertion_sort :: "nat \<Rightarrow> sysoff_sample \<Rightarrow> sysoff_sample list \<Rightarrow> sysoff_sample list" where
  "insertion_sort 0 s samples = samples[0 := s]"
| "insertion_sort (Suc i) s samples =
    (if sa_interval (samples ! i) <s sa_interval s then samples[Suc i := s]
     else insertion_sort i s (samples[Suc i := samples ! i]))"

text \<open>The sample of one reading; the sum of two times must not leave the range of the integer.\<close>

definition reading :: "ptp_clock_time list \<Rightarrow> nat \<Rightarrow> sysoff_sample" where
  "reading pct i =
    (let t1 = pctns (pct ! (2 * i)); tp = pctns (pct ! (2 * i + 1)); t2 = pctns (pct ! (2 * i + 2));
         middle = word_of_int (sint (t2 + t1) sdiv 2) :: i64
     in \<lparr>sa_interval = t2 - t1, sa_offset = middle - tp, sa_timestamp = ucast middle\<rparr>)"

definition sysoff_estimate ::
  "ptp_clock_time list \<Rightarrow> nat \<Rightarrow> sysoff_sample list \<Rightarrow> (i64 \<times> u64 \<times> i64) \<times> sysoff_sample list" where
  "sysoff_estimate pct n_samples samples =
    (let samples = fold (\<lambda>i. insertion_sort i (reading pct i)) [0..<n_samples] samples; s = samples ! 0
     in ((sa_offset s, sa_timestamp s, sa_interval s), samples))"

text \<open>\<open>outcome\<close> is that of the kernel.\<close>

definition sysoff_measure ::
  "ptp_clock_time list option \<Rightarrow> nat \<Rightarrow> sysoff_sample list \<Rightarrow> sysoff \<times> (i64 \<times> u64 \<times> i64) option \<times> sysoff_sample list" where
  "sysoff_measure outcome n_samples samples =
    (case outcome of
       None \<Rightarrow> (SYSOFF_RUN_TIME_MISSING, None, samples)
     | Some pct \<Rightarrow> (case sysoff_estimate pct n_samples samples of (r, samples) \<Rightarrow> (SYSOFF_SUPPORTED, Some r, samples)))"

definition sysoff_probe :: "ptp_clock_time list option \<Rightarrow> nat \<Rightarrow> sysoff_sample list \<Rightarrow> sysoff \<times> sysoff_sample list" where
  "sysoff_probe outcome n_samples samples =
    (if n_samples > PTP_MAX_SAMPLES then (SYSOFF_RUN_TIME_MISSING, samples)
     else case sysoff_measure outcome n_samples samples of (r, _, samples) \<Rightarrow> (r, samples))"

subsection \<open>The quickest reading\<close>

lemma length_insertion_sort [simp]: "length (insertion_sort i s xs) = length xs"
  by (induction i s xs rule: insertion_sort.induct) auto

text \<open>The new sample is put behind those that are quicker.\<close>

lemma insertion_split:
  "i < length xs \<Longrightarrow> \<exists>ys zs. take i xs = ys @ zs \<and> take (Suc i) (insertion_sort i s xs) = ys @ s # zs \<and>
     (\<forall>z \<in> set zs. sa_interval s \<le>s sa_interval z) \<and> (ys \<noteq> [] \<longrightarrow> sa_interval (last ys) <s sa_interval s) \<and>
     drop (Suc i) (insertion_sort i s xs) = drop (Suc i) xs"
proof (induction i s xs rule: insertion_sort.induct)
  case (1 s xs)
  then show ?case by (simp add: take_Suc_conv_app_nth)
next
  case (2 i s xs)
  have split: "take (Suc i) xs = take i xs @ [xs ! i]"
    using "2.prems" by (simp add: take_Suc_conv_app_nth)
  show ?case
  proof (cases "sa_interval (xs ! i) <s sa_interval s")
    case True
    with "2.prems" split show ?thesis
      by (intro exI [of _ "take (Suc i) xs"] exI [of _ "[]"]) (simp add: take_Suc_conv_app_nth [of "Suc i"])
  next
    case False
    let ?o = "xs[Suc i := xs ! i]"
    obtain ys zs where IH: "take i ?o = ys @ zs" "take (Suc i) (insertion_sort i s ?o) = ys @ s # zs"
      "\<forall>z \<in> set zs. sa_interval s \<le>s sa_interval z" "ys \<noteq> [] \<longrightarrow> sa_interval (last ys) <s sa_interval s"
      "drop (Suc i) (insertion_sort i s ?o) = drop (Suc i) ?o"
      using "2.IH" [OF False] "2.prems" by auto
    have "drop (Suc i) ?o = xs ! i # drop (Suc (Suc i)) xs"
      using "2.prems" by (simp add: Cons_nth_drop_Suc [symmetric])
    with IH(5) have d: "drop (Suc i) (insertion_sort i s ?o) = xs ! i # drop (Suc (Suc i)) xs"
      by (rule trans)
    have "take (Suc (Suc i)) (insertion_sort i s ?o) =
        take (Suc i) (insertion_sort i s ?o) @ take 1 (drop (Suc i) (insertion_sort i s ?o))"
      by (metis Suc_eq_plus1 take_add)
    moreover have "drop (Suc (Suc i)) (insertion_sort i s ?o) = drop (Suc (Suc i)) xs"
      using d by (metis drop_Suc list.sel(3) tl_drop)
    moreover have "sa_interval s \<le>s sa_interval (xs ! i)"
      using False by (simp add: word_sless_alt word_sle_eq)
    ultimately show ?thesis
      using False IH(1-4) split d by - (rule exI [of _ ys], rule exI [of _ "zs @ [xs ! i]"], simp)
  qed
qed

text \<open>So the first of the samples is always one of the quickest of those that were inserted.\<close>

lemma insertion_quickest:
  assumes "i < length xs" and "i > 0 \<Longrightarrow> \<forall>x \<in> set (take i xs). sa_interval (xs ! 0) \<le>s sa_interval x"
  shows "(\<forall>x \<in> insert s (set (take i xs)). sa_interval (insertion_sort i s xs ! 0) \<le>s sa_interval x) \<and>
    insertion_sort i s xs ! 0 \<in> insert s (set (take i xs)) \<and>
    set (take (Suc i) (insertion_sort i s xs)) = insert s (set (take i xs))"
proof -
  obtain ys zs where *: "take i xs = ys @ zs" "take (Suc i) (insertion_sort i s xs) = ys @ s # zs"
     "\<forall>z \<in> set zs. sa_interval s \<le>s sa_interval z" "ys \<noteq> [] \<longrightarrow> sa_interval (last ys) <s sa_interval s"
    using insertion_split [OF assms(1)] by blast
  have "insertion_sort i s xs \<noteq> []" using assms(1) by (metis length_insertion_sort list.size(3) not_less_zero)
  then have first: "insertion_sort i s xs ! 0 = hd (ys @ [s])"
    using arg_cong [OF *(2), of hd] by (cases ys) (simp_all add: hd_conv_nth)
  show ?thesis
  proof (cases ys)
    case Nil
    then show ?thesis using * first by (simp add: word_sle_eq)
  next
    case (Cons y ys')
    have "i > 0" using *(1) Cons by (cases i) simp_all
    then have "xs ! 0 = y" using arg_cong [OF *(1), of "\<lambda>ws. ws ! 0"] Cons by simp
    note \<open>i > 0\<close>
    then have q: "\<forall>x \<in> set (take i xs). sa_interval y \<le>s sa_interval x" using assms(2) \<open>xs ! 0 = y\<close> by simp
    moreover have "last ys \<in> set (take i xs)" using *(1) Cons by (metis UnCI last_in_set list.distinct(1) set_append)
    moreover have "sa_interval (last ys) <s sa_interval s" using *(4) Cons by simp
    ultimately have "sa_interval y \<le>s sa_interval s" by (force simp: word_sle_eq word_sless_alt)
    then show ?thesis using * first Cons q by auto
  qed
qed

lemma estimate_quickest:
  "n > 0 \<Longrightarrow> n \<le> length samples \<Longrightarrow> ys = fold (\<lambda>i. insertion_sort i (reading pct i)) [0..<n] samples \<Longrightarrow>
    length ys = length samples \<and> set (take n ys) = reading pct ` {0..<n} \<and>
    ys ! 0 \<in> reading pct ` {0..<n} \<and> (\<forall>j < n. sa_interval (ys ! 0) \<le>s sa_interval (reading pct j))"
proof (induction n arbitrary: ys)
  case (Suc n)
  let ?xs = "fold (\<lambda>i. insertion_sort i (reading pct i)) [0..<n] samples"
  have s: "ys = insertion_sort n (reading pct n) ?xs" using Suc.prems(3) by simp
  have IH: "length ?xs = length samples \<and> set (take n ?xs) = reading pct ` {0..<n} \<and>
      (n > 0 \<longrightarrow> (\<forall>j < n. sa_interval (?xs ! 0) \<le>s sa_interval (reading pct j)))"
    using Suc.IH [of ?xs] Suc.prems(2) by (cases "n = 0") auto
  have "n < length ?xs" using IH Suc.prems(2) by simp
  moreover have "\<forall>x \<in> set (take n ?xs). sa_interval (?xs ! 0) \<le>s sa_interval x" if "n > 0" using IH that by auto
  ultimately have "(\<forall>x \<in> insert (reading pct n) (set (take n ?xs)). sa_interval (ys ! 0) \<le>s sa_interval x) \<and>
      ys ! 0 \<in> insert (reading pct n) (set (take n ?xs)) \<and>
      set (take (Suc n) ys) = insert (reading pct n) (set (take n ?xs))"
    unfolding s by (rule insertion_quickest)
  moreover have "insert (reading pct n) (reading pct ` {0..<n}) = reading pct ` {0..<Suc n}"
    by (simp add: atLeast0_lessThan_Suc)
  moreover have "length ys = length samples" using s IH by simp
  ultimately show ?case using IH by auto
qed simp

text \<open>
  The estimate is that of a reading that took no longer than any other, and \<open>delay\<close> is its duration.
\<close>

theorem sysoff_quickest_reading:
  assumes "0 < n" and "n \<le> length samples" and "fst (sysoff_estimate pct n samples) = (offset, ts, delay)"
  shows "\<exists>i < n. offset = sa_offset (reading pct i) \<and> ts = sa_timestamp (reading pct i) \<and> delay = sa_interval (reading pct i) \<and>
    (\<forall>j < n. delay \<le>s sa_interval (reading pct j))"
proof -
  let ?xs = "fold (\<lambda>i. insertion_sort i (reading pct i)) [0..<n] samples"
  have q: "?xs ! 0 \<in> reading pct ` {0..<n} \<and> (\<forall>j < n. sa_interval (?xs ! 0) \<le>s sa_interval (reading pct j))"
    using estimate_quickest [OF assms(1,2) refl] by blast
  have "offset = sa_offset (?xs ! 0)" "ts = sa_timestamp (?xs ! 0)" "delay = sa_interval (?xs ! 0)"
    using assms(3) by (auto simp: sysoff_estimate_def Let_def)
  then show ?thesis using q by auto
qed

end
