(* ===== verification/Timemaster.thy ===== *)
theory Timemaster
  imports Config Format
begin

text \<open>
  The configuration file of timemaster (src/timemaster.c): sections of settings, read line by line and
  parsed when the next section starts or the file ends.  Strings are modelled without their terminator;
  an array of pointers that ends with NULL is the list of what is before it.  \<open>strtod\<close> is a parameter.
\<close>

subsection \<open>The configuration\<close>

datatype ntp_program = CHRONYD | NTPD

record ntp_server =
  ns_address :: string
  ns_minpoll :: int
  ns_maxpoll :: int
  ns_iburst :: int
  ns_ntp_options :: string

record ptp_domain =
  pd_domain :: int
  pd_ntp_poll :: int
  pd_phc2sys_poll :: int
  pd_delay :: real
  pd_interfaces :: "string list"
  pd_ptp4l_settings :: "string list"
  pd_ntp_options :: string

datatype source = NTP_SERVER ntp_server | PTP_DOMAIN ptp_domain

record program_config =
  pg_path :: string
  pg_options :: "string list"
  pg_settings :: "string list"

record timemaster_config =
  tm_sources :: "source list"
  tm_ntp_program :: ntp_program
  tm_rundir :: string
  tm_first_shm_segment :: int
  tm_restart_processes :: int
  tm_chronyd :: program_config
  tm_ntpd :: program_config
  tm_phc2sys :: program_config
  tm_ptp4l :: program_config

subsection \<open>Words and settings\<close>

abbreviation (input) C_INT_MIN :: int where "C_INT_MIN \<equiv> - 2147483648"
abbreviation (input) C_INT_MAX :: int where "C_INT_MAX \<equiv> 2147483647"

definition parsed :: "parser_result + 'a \<Rightarrow> 'a option" where
  "parsed r = (case r of Inl _ \<Rightarrow> None | Inr v \<Rightarrow> Some v)"

definition parse_bool :: "string \<Rightarrow> int option" where
  "parse_bool s = parsed (get_ranged_int s 0 1)"

definition parse_int :: "string \<Rightarrow> int option" where
  "parse_int s = parsed (get_ranged_int s C_INT_MIN C_INT_MAX)"

definition parse_double :: "(string \<Rightarrow> (real \<times> string \<times> bool) option) \<Rightarrow> string \<Rightarrow> real option" where
  "parse_double strtod s = parsed (get_ranged_double strtod s (of_int C_INT_MIN) (of_int C_INT_MAX))"

text \<open>The first word, which the function terminates in place, and the start of the next one.\<close>

definition parse_word :: "string \<Rightarrow> string \<times> string" where
  "parse_word s = (takeWhile (\<lambda>c. \<not> isspace c) s, dropWhile isspace (dropWhile (\<lambda>c. \<not> isspace c) s))"

lemma parse_word_shorter: "s \<noteq> [] \<Longrightarrow> length (snd (parse_word s)) < length s"
proof (cases s)
  case (Cons c r)
  then show ?thesis
    using length_dropWhile_le [of isspace "dropWhile (\<lambda>c. \<not> isspace c) r"] length_dropWhile_le [of "\<lambda>c. \<not> isspace c" r]
      length_dropWhile_le [of isspace r]
    by (auto simp: parse_word_def)
qed simp

function parse_words :: "string \<Rightarrow> string list" where
  "parse_words s = (if s = [] then [] else case parse_word s of (w, s') \<Rightarrow> w # parse_words s')"
  by pat_completeness auto
termination
  by (relation "measure length") (auto, metis parse_word_shorter snd_conv)

declare parse_words.simps [simp del]

text \<open>The name of a section up to the bracket or the end.\<close>

definition parse_section_name :: "string \<Rightarrow> string" where
  "parse_section_name s = takeWhile (\<lambda>c. c \<noteq> CHR '']'') (drop 1 s)"

text \<open>Name and value of a setting.\<close>

definition parse_setting :: "string \<Rightarrow> string \<times> string" where
  "parse_setting s = (takeWhile (\<lambda>c. \<not> isspace c) s, dropWhile isspace (dropWhile (\<lambda>c. \<not> isspace c) s))"

subsection \<open>Sources\<close>

text \<open>One setting of a section; None: the setting is unknown or its value invalid.\<close>

definition ntp_setting :: "string \<Rightarrow> ntp_server \<Rightarrow> ntp_server option" where
  "ntp_setting setting source =
    (case parse_setting setting of (name, v) \<Rightarrow>
       if strcaseeq name ''minpoll'' then map_option (\<lambda>i. source\<lparr>ns_minpoll := i\<rparr>) (parse_int v)
       else if strcaseeq name ''maxpoll'' then map_option (\<lambda>i. source\<lparr>ns_maxpoll := i\<rparr>) (parse_int v)
       else if strcaseeq name ''iburst'' then map_option (\<lambda>i. source\<lparr>ns_iburst := i\<rparr>) (parse_bool v)
       else if strcaseeq name ''ntp_options'' then Some (source\<lparr>ns_ntp_options := v\<rparr>)
       else None)"

text \<open>The loops over the settings of a section stop at the first that fails.\<close>

fun settings_loop :: "(string \<Rightarrow> 'a \<Rightarrow> 'a option) \<Rightarrow> string list \<Rightarrow> 'a \<Rightarrow> 'a option" where
  "settings_loop f [] x = Some x"
| "settings_loop f (s # ss) x = (case f s x of None \<Rightarrow> None | Some x \<Rightarrow> settings_loop f ss x)"

definition source_ntp_parse :: "string \<Rightarrow> string list \<Rightarrow> ntp_server option" where
  "source_ntp_parse parameter settings =
    (if parameter = [] then None
     else settings_loop ntp_setting settings
       \<lparr>ns_address = parameter, ns_minpoll = 6, ns_maxpoll = 10, ns_iburst = 0, ns_ntp_options = []\<rparr>)"

definition ptp_setting ::
  "(string \<Rightarrow> (real \<times> string \<times> bool) option) \<Rightarrow> string \<Rightarrow> ptp_domain \<Rightarrow> ptp_domain option" where
  "ptp_setting strtod setting source =
    (case parse_setting setting of (name, v) \<Rightarrow>
       if strcaseeq name ''delay'' then map_option (\<lambda>d. source\<lparr>pd_delay := d\<rparr>) (parse_double strtod v)
       else if strcaseeq name ''ntp_poll'' then map_option (\<lambda>i. source\<lparr>pd_ntp_poll := i\<rparr>) (parse_int v)
       else if strcaseeq name ''phc2sys_poll'' then map_option (\<lambda>i. source\<lparr>pd_phc2sys_poll := i\<rparr>) (parse_int v)
       else if strcaseeq name ''ptp4l_option'' then Some (source\<lparr>pd_ptp4l_settings := pd_ptp4l_settings source @ [v]\<rparr>)
       else if strcaseeq name ''ntp_options'' then Some (source\<lparr>pd_ntp_options := v\<rparr>)
       else if strcaseeq name ''interfaces'' then Some (source\<lparr>pd_interfaces := parse_words v\<rparr>)
       else None)"

definition source_ptp_parse ::
  "(string \<Rightarrow> (real \<times> string \<times> bool) option) \<Rightarrow> string \<Rightarrow> string list \<Rightarrow> ptp_domain option" where
  "source_ptp_parse strtod parameter settings =
    (case parse_int parameter of
       None \<Rightarrow> None
     | Some domain \<Rightarrow>
         (case settings_loop (ptp_setting strtod) settings
             \<lparr>pd_domain = domain, pd_ntp_poll = 2, pd_phc2sys_poll = 0, pd_delay = 1 / 10000, pd_interfaces = [],
              pd_ptp4l_settings = [], pd_ntp_options = []\<rparr> of
            None \<Rightarrow> None
          | Some source \<Rightarrow> if pd_interfaces source = [] then None else Some source))"

subsection \<open>Programs and the program itself\<close>

definition program_setting :: "string \<Rightarrow> program_config \<Rightarrow> program_config option" where
  "program_setting setting config =
    (case parse_setting setting of (name, v) \<Rightarrow>
       if strcaseeq name ''path'' then Some (config\<lparr>pg_path := v\<rparr>)
       else if strcaseeq name ''options'' then Some (config\<lparr>pg_options := parse_words v\<rparr>)
       else None)"

definition parse_program_settings :: "string list \<Rightarrow> program_config \<Rightarrow> program_config option" where
  "parse_program_settings = settings_loop program_setting"

definition timemaster_setting :: "string \<Rightarrow> timemaster_config \<Rightarrow> timemaster_config option" where
  "timemaster_setting setting config =
    (case parse_setting setting of (name, v) \<Rightarrow>
       if strcaseeq name ''ntp_program'' then
         (if strcaseeq v ''chronyd'' then Some (config\<lparr>tm_ntp_program := CHRONYD\<rparr>)
          else if strcaseeq v ''ntpd'' then Some (config\<lparr>tm_ntp_program := NTPD\<rparr>)
          else None)
       else if strcaseeq name ''rundir'' then Some (config\<lparr>tm_rundir := v\<rparr>)
       else if strcaseeq name ''first_shm_segment'' then
         map_option (\<lambda>i. config\<lparr>tm_first_shm_segment := i\<rparr>) (parse_int v)
       else if strcaseeq name ''restart_processes'' then
         map_option (\<lambda>i. config\<lparr>tm_restart_processes := i\<rparr>) (parse_int v)
       else None)"

definition parse_timemaster_settings :: "string list \<Rightarrow> timemaster_config \<Rightarrow> timemaster_config option" where
  "parse_timemaster_settings = settings_loop timemaster_setting"

text \<open>One section; the contents of the configuration files of the programs replace the defaults.\<close>

definition tm_parse_section ::
  "(string \<Rightarrow> (real \<times> string \<times> bool) option) \<Rightarrow> string list \<Rightarrow> string \<Rightarrow> timemaster_config \<Rightarrow> timemaster_config option" where
  "tm_parse_section strtod settings section_name config =
    (case parse_word section_name of (name, parameter) \<Rightarrow>
       if strcaseeq name ''ntp_server'' then
         map_option (\<lambda>s. config\<lparr>tm_sources := tm_sources config @ [NTP_SERVER s]\<rparr>) (source_ntp_parse parameter settings)
       else if strcaseeq name ''ptp_domain'' then
         map_option (\<lambda>s. config\<lparr>tm_sources := tm_sources config @ [PTP_DOMAIN s]\<rparr>)
           (source_ptp_parse strtod parameter settings)
       else if strcaseeq name ''chrony.conf'' then Some (config\<lparr>tm_chronyd := (tm_chronyd config)\<lparr>pg_settings := settings\<rparr>\<rparr>)
       else if strcaseeq name ''ntp.conf'' then Some (config\<lparr>tm_ntpd := (tm_ntpd config)\<lparr>pg_settings := settings\<rparr>\<rparr>)
       else if strcaseeq name ''ptp4l.conf'' then Some (config\<lparr>tm_ptp4l := (tm_ptp4l config)\<lparr>pg_settings := settings\<rparr>\<rparr>)
       else if strcaseeq name ''chronyd'' then
         map_option (\<lambda>p. config\<lparr>tm_chronyd := p\<rparr>) (parse_program_settings settings (tm_chronyd config))
       else if strcaseeq name ''ntpd'' then
         map_option (\<lambda>p. config\<lparr>tm_ntpd := p\<rparr>) (parse_program_settings settings (tm_ntpd config))
       else if strcaseeq name ''phc2sys'' then
         map_option (\<lambda>p. config\<lparr>tm_phc2sys := p\<rparr>) (parse_program_settings settings (tm_phc2sys config))
       else if strcaseeq name ''ptp4l'' then
         map_option (\<lambda>p. config\<lparr>tm_ptp4l := p\<rparr>) (parse_program_settings settings (tm_ptp4l config))
       else if strcaseeq name ''timemaster'' then parse_timemaster_settings settings config
       else None)"

subsection \<open>The file\<close>

definition init_program_config :: "string \<Rightarrow> string list \<Rightarrow> string list \<Rightarrow> program_config" where
  "init_program_config name options settings = \<lparr>pg_path = name, pg_options = options, pg_settings = settings\<rparr>"

definition tm_defaults :: timemaster_config where
  "tm_defaults =
    \<lparr>tm_sources = [], tm_ntp_program = CHRONYD, tm_rundir = ''/var/run/timemaster'', tm_first_shm_segment = 0,
     tm_restart_processes = 1,
     tm_chronyd = init_program_config ''chronyd'' [] [''makestep 1 3''],
     tm_ntpd = init_program_config ''ntpd'' []
       [''restrict default nomodify notrap nopeer noquery'', ''restrict 127.0.0.1'', ''restrict ::1''],
     tm_phc2sys = init_program_config ''phc2sys'' [''-l'', ''5''] [],
     tm_ptp4l = init_program_config ''ptp4l'' [''-l'', ''5''] []\<rparr>"

text \<open>\<open>fgets\<close> with a buffer of 4096 characters.\<close>

definition piece :: "string \<Rightarrow> nat" where
  "piece s = min 4095 (case dropWhile (\<lambda>c. c \<noteq> CHR 0x0A) s of [] \<Rightarrow> length s
     | _ \<Rightarrow> Suc (length (takeWhile (\<lambda>c. c \<noteq> CHR 0x0A) s)))"

function tm_pieces :: "string \<Rightarrow> string list" where
  "tm_pieces s = (if s = [] then [] else take (piece s) s # tm_pieces (drop (piece s) s))"
  by pat_completeness auto
termination
  by (relation "measure length") (auto simp: piece_def split: list.split)

declare tm_pieces.simps [simp del]

text \<open>The section that is being read: its name and its lines so far.\<close>

type_synonym open_section = "(string \<times> string list) option"

definition close_section ::
  "(string \<Rightarrow> (real \<times> string \<times> bool) option) \<Rightarrow> open_section \<Rightarrow> timemaster_config \<Rightarrow> timemaster_config option" where
  "close_section strtod sct config =
    (case sct of None \<Rightarrow> Some config | Some (name, ls) \<Rightarrow> tm_parse_section strtod ls name config)"

fun tm_lines ::
  "(string \<Rightarrow> (real \<times> string \<times> bool) option) \<Rightarrow> string list \<Rightarrow> open_section \<Rightarrow> timemaster_config \<Rightarrow> timemaster_config option" where
  "tm_lines strtod [] sct config = close_section strtod sct config"
| "tm_lines strtod (buf # bufs) sct config =
    (let line = trim_line buf
     in if line = [] \<or> hd line = CHR ''#'' then tm_lines strtod bufs sct config
        else if hd line = CHR ''['' then
          (case close_section strtod sct config of
             None \<Rightarrow> None
           | Some config \<Rightarrow> tm_lines strtod bufs (Some (parse_section_name line, [])) config)
        else case sct of
            None \<Rightarrow> None
          | Some (name, ls) \<Rightarrow> tm_lines strtod bufs (Some (name, ls @ [line])) config)"

text \<open>The contents of the file, None when it cannot be opened.\<close>

definition tm_config_parse ::
  "(string \<Rightarrow> (real \<times> string \<times> bool) option) \<Rightarrow> string option \<Rightarrow> timemaster_config option" where
  "tm_config_parse strtod file =
    (case file of None \<Rightarrow> None | Some s \<Rightarrow> tm_lines strtod (tm_pieces s) None tm_defaults)"

end
