(* ===== verification/TimemasterProps.thy ===== *)
theory TimemasterProps
  imports Timemaster
begin

text \<open>
  What the parser of the configuration file of timemaster promises: reading line by line is the same as
  splitting the file into sections first, and the words of a list of options come back.
\<close>

subsection \<open>Sections\<close>

definition relevant :: "string list \<Rightarrow> string list" where
  "relevant bufs = filter (\<lambda>l. l \<noteq> [] \<and> hd l \<noteq> CHR ''#'') (map trim_line bufs)"

text \<open>The lines up to the next header, and the sections; None: there are settings before the first header.\<close>

function sections :: "string list \<Rightarrow> (string \<times> string list) list" where
  "sections [] = []"
| "sections (l # ls) =
    (parse_section_name l, takeWhile (\<lambda>l. hd l \<noteq> CHR ''['') ls) # sections (dropWhile (\<lambda>l. hd l \<noteq> CHR ''['') ls)"
  by pat_completeness auto
termination
  by (relation "measure length") (auto simp: less_Suc_eq_le length_dropWhile_le)

definition split_sections :: "string list \<Rightarrow> (string \<times> string list) list option" where
  "split_sections ls = (if ls \<noteq> [] \<and> hd (hd ls) \<noteq> CHR ''['' then None else Some (sections ls))"

definition parse_sections ::
  "(string \<Rightarrow> (real \<times> string \<times> bool) option) \<Rightarrow> (string \<times> string list) list \<Rightarrow> timemaster_config \<Rightarrow> timemaster_config option" where
  "parse_sections strtod scts config =
    fold (\<lambda>(name, ls) c. Option.bind c (tm_parse_section strtod ls name)) scts (Some config)"

lemma fold_bind_None: "fold (\<lambda>(name, ls) c. Option.bind c (f ls name)) xs None = None"
  by (induction xs) auto

lemma tm_lines_open:
  "tm_lines strtod bufs (Some (name, ls)) config =
    parse_sections strtod ((name, ls @ takeWhile (\<lambda>l. hd l \<noteq> CHR ''['') (relevant bufs)) #
      sections (dropWhile (\<lambda>l. hd l \<noteq> CHR ''['') (relevant bufs))) config"
proof (induction bufs arbitrary: name ls config)
  case Nil
  then show ?case by (simp add: close_section_def parse_sections_def relevant_def)
next
  case (Cons buf bufs)
  let ?l = "trim_line buf"
  consider "?l = [] \<or> hd ?l = CHR ''#''" | "?l \<noteq> []" "hd ?l = CHR ''[''"
    | "?l \<noteq> []" "hd ?l \<noteq> CHR ''#''" "hd ?l \<noteq> CHR ''[''" by blast
  then show ?case
  proof cases
    case 1
    then have "relevant (buf # bufs) = relevant bufs" by (auto simp: relevant_def)
    then show ?thesis using 1 Cons by (simp add: Let_def)
  next
    case 2
    then have "relevant (buf # bufs) = ?l # relevant bufs" by (simp add: relevant_def)
    then show ?thesis
      using 2 Cons by (simp add: Let_def close_section_def parse_sections_def fold_bind_None split: option.split)
  next
    case 3
    then have "relevant (buf # bufs) = ?l # relevant bufs" by (simp add: relevant_def)
    then show ?thesis using 3 Cons by (simp add: Let_def)
  qed
qed

lemma tm_lines_closed:
  "tm_lines strtod bufs None config = Option.bind (split_sections (relevant bufs)) (\<lambda>scts. parse_sections strtod scts config)"
proof (induction bufs)
  case Nil
  then show ?case by (simp add: close_section_def parse_sections_def relevant_def split_sections_def)
next
  case (Cons buf bufs)
  then show ?case
    by (auto simp: Let_def relevant_def split_sections_def close_section_def tm_lines_open)
qed

text \<open>
  Reading the file of timemaster line by line, where a section is parsed when the next one begins, gives the same
  configuration as a reference: drop blank lines and comments, split the rest into sections, and parse the
  sections in order, with no configuration if a setting precedes the first header or a section is refused.
\<close>

theorem file_is_its_sections:
  "tm_config_parse strtod file =
    Option.bind file (\<lambda>s. Option.bind (split_sections (relevant (tm_pieces s))) (\<lambda>scts. parse_sections strtod scts tm_defaults))"
  by (simp add: tm_config_parse_def tm_lines_closed split: option.split)

subsection \<open>Words\<close>

fun spaced :: "string list \<Rightarrow> string" where
  "spaced [] = []"
| "spaced [w] = w"
| "spaced (w # ws) = w @ CHR '' '' # spaced ws"

definition word_ok :: "string \<Rightarrow> bool" where
  "word_ok w \<longleftrightarrow> w \<noteq> [] \<and> list_all (\<lambda>c. \<not> isspace c) w"

lemma spaced_hd: "list_all word_ok ws \<Longrightarrow> ws \<noteq> [] \<Longrightarrow> spaced ws \<noteq> [] \<and> \<not> isspace (hd (spaced ws))"
  by (induction ws rule: spaced.induct) (auto simp: word_ok_def hd_append list_all_iff)

lemma parse_word_spaced:
  assumes "word_ok w" and "list_all word_ok ws" and "ws \<noteq> []"
  shows "parse_word (w @ CHR '' '' # spaced ws) = (w, spaced ws)"
proof -
  have w: "\<forall>c\<in>set w. \<not> isspace c" using assms(1) by (simp add: word_ok_def list_all_iff)
  have "dropWhile isspace (spaced ws) = spaced ws"
    using spaced_hd [OF assms(2,3)] by (cases "spaced ws") auto
  moreover have "isspace CHR '' ''" by (simp add: isspace_def)
  ultimately show ?thesis
    using w by (simp add: parse_word_def takeWhile_append2 dropWhile_append2)
qed

lemma parse_word_all:
  assumes "word_ok w"
  shows "parse_word w = (w, [])"
proof -
  have "\<forall>c\<in>set w. \<not> isspace c"
    using assms by (simp add: word_ok_def list_all_iff)
  then show ?thesis
    using dropWhile_append2 [of w "\<lambda>c. \<not> isspace c" "[]"] takeWhile_append2 [of w "\<lambda>c. \<not> isspace c" "[]"]
    unfolding parse_word_def append_Nil2 by (simp del: dropWhile_eq_Nil_conv)
qed

text \<open>
  Words of options and interfaces written with blanks between them are read back.
\<close>

lemma words_round_trip: "list_all word_ok ws \<Longrightarrow> parse_words (spaced ws) = ws"
proof (induction ws rule: spaced.induct)
  case 1
  then show ?case by (simp add: parse_words.simps)
next
  case (2 w)
  then have "w \<noteq> []" by (simp add: word_ok_def)
  with 2 show ?case by (simp add: parse_words.simps [of w] parse_words.simps [of "[]"] parse_word_all)
next
  case (3 w v ws)
  then show ?case
    using parse_word_spaced [of w "v # ws"] by (subst parse_words.simps) simp
qed

end
