(* ===== verification/TmScript.thy ===== *)
theory TmScript
  imports Timemaster Prelude
begin

unbundle bit_operations_syntax

text \<open>
  The script of timemaster (\<open>script_create\<close> in src/timemaster.c): the configuration files and the command
  lines of the programs, in groups that are restarted together.  \<open>te_ts_device\<close> is the name that
  \<open>rtnl_get_ts_device\<close> finds for a bonded interface, \<open>te_ts_info\<close> the time stamping flags and the PHC
  index of \<open>sk_get_ts_info\<close>, None when they fail.
\<close>

record tm_env =
  te_ts_device :: "string \<Rightarrow> string option"
  te_ts_info :: "string \<Rightarrow> (u32 \<times> int) option"

record config_file =
  cf_path :: string
  cf_content :: string

record script =
  sc_configs :: "config_file list"
  sc_commands :: "string list list"
  sc_command_groups :: "nat list"
  sc_restart_groups :: int
  sc_no_restart_group :: nat

subsection \<open>Command lines\<close>

definition tm_newline :: string where "tm_newline = [CHR 0x0A]"

definition extend_config_string :: "string \<Rightarrow> string list \<Rightarrow> string" where
  "extend_config_string s lines = s @ concat (map (\<lambda>l. l @ tm_newline) lines)"

definition get_ptp4l_command :: "program_config \<Rightarrow> string \<Rightarrow> string list \<Rightarrow> bool \<Rightarrow> string list" where
  "get_ptp4l_command config path interfaces hw_ts =
    pg_path config # pg_options config @ [''-f'', path, if hw_ts then ''-H'' else ''-S''] @
    concat (map (\<lambda>i. [''-i'', i]) interfaces)"

text \<open>The rate of phc2sys; shifts by more than 30 are undefined in C.\<close>

definition phc2sys_rate :: "int \<Rightarrow> real" where
  "phc2sys_rate poll = (if poll > 0 then 1 / 2 ^ nat poll else 2 ^ nat (- poll))"

definition get_phc2sys_command :: "program_config \<Rightarrow> int \<Rightarrow> int \<Rightarrow> int \<Rightarrow> string \<Rightarrow> string \<Rightarrow> string list" where
  "get_phc2sys_command config domain poll shm_segment uds_path message_tag =
    pg_path config # pg_options config @
    [''-a'', ''-r'', ''-R'', show_fixed 2 (phc2sys_rate poll), ''-z'', uds_path, ''-t'', message_tag,
     ''-n'', show_int domain, ''-E'', ''ntpshm'', ''-M'', show_int shm_segment]"

definition get_chronyd_command :: "program_config \<Rightarrow> string \<Rightarrow> string list" where
  "get_chronyd_command config path = pg_path config # pg_options config @ [''-n'', ''-f'', path]"

definition get_ntpd_command :: "program_config \<Rightarrow> string \<Rightarrow> string list" where
  "get_ntpd_command config path = pg_path config # pg_options config @ [''-n'', ''-c'', path]"

subsection \<open>Sources of the NTP program\<close>

text \<open>A reference identifier has at most four characters.  The number is converted to an unsigned integer.\<close>

definition get_refid :: "string \<Rightarrow> u32 \<Rightarrow> string option" where
  "get_refid prefix number =
    (if number < 10 then Some (take 3 prefix @ show_nat (unat number))
     else if number < 100 then Some (take 2 prefix @ show_nat (unat number))
     else if number < 1000 then Some (take 1 prefix @ show_nat (unat number))
     else None)"

text \<open>What \<open>printf\<close> of the GNU library prints for a string that is NULL.\<close>

definition printed :: "string option \<Rightarrow> string" where
  "printed s = (case s of None \<Rightarrow> ''(null)'' | Some s \<Rightarrow> s)"

definition add_shm_source :: "timemaster_config \<Rightarrow> int \<Rightarrow> int \<Rightarrow> int \<Rightarrow> real \<Rightarrow> string \<Rightarrow> string \<Rightarrow> string \<Rightarrow> string" where
  "add_shm_source config shm_segment poll dpoll delay ntp_options prefix ntp_config =
    (let refid = printed (get_refid prefix (word_of_int shm_segment)); seg = show_int shm_segment
     in case tm_ntp_program config of
          CHRONYD \<Rightarrow> ntp_config @ ''refclock SHM '' @ seg @ '' poll '' @ show_int poll @ '' dpoll '' @ show_int dpoll @
            '' refid '' @ refid @ '' precision 1.0e-9 delay '' @ show_exp delay @ '' '' @ ntp_options @ tm_newline
        | NTPD \<Rightarrow> ntp_config @ ''server 127.127.28.'' @ seg @ '' minpoll '' @ show_int poll @ '' maxpoll '' @ show_int poll @
            '' mode 1 '' @ ntp_options @ tm_newline @ ''fudge 127.127.28.'' @ seg @ '' refid '' @ refid @ tm_newline)"

definition add_ntp_source :: "ntp_server \<Rightarrow> string \<Rightarrow> string" where
  "add_ntp_source source ntp_config =
    ntp_config @ ''server '' @ ns_address source @ '' minpoll '' @ show_int (ns_minpoll source) @ '' maxpoll '' @
    show_int (ns_maxpoll source) @ '' '' @ (if ns_iburst source \<noteq> 0 then ''iburst'' else []) @ '' '' @
    ns_ntp_options source @ tm_newline"

subsection \<open>PTP domains\<close>

text \<open>What the functions that add a source share and change.\<close>

record build =
  bu_shm_segment :: int
  bu_command_group :: nat
  bu_phcs :: "int list"
  bu_ntp :: string
  bu_configs :: "config_file list"
  bu_commands :: "string list list"
  bu_command_groups :: "nat list"

definition add_command :: "string list \<Rightarrow> nat \<Rightarrow> build \<Rightarrow> build" where
  "add_command command grp b =
    b\<lparr>bu_commands := bu_commands b @ [command], bu_command_groups := bu_command_groups b @ [grp]\<rparr>"

definition SOF_HW :: u32 where "SOF_HW = 0x45"
definition SOF_SW :: u32 where "SOF_SW = 0x1A"

text \<open>The name of the interface that stamps the packets; the buffer holds 15 characters.\<close>

definition ts_interface :: "tm_env \<Rightarrow> string \<Rightarrow> string" where
  "ts_interface e interface = (case te_ts_device e interface of None \<Rightarrow> take 15 interface | Some dev \<Rightarrow> dev)"

text \<open>
  The PHC of an interface that can be used in this domain, -1 when there is none or it is already used
  in another source; None: the interface cannot be used.
\<close>

definition usable_phc :: "tm_env \<Rightarrow> int list \<Rightarrow> string \<Rightarrow> int option" where
  "usable_phc e allocated_phcs interface =
    (case te_ts_info e (ts_interface e interface) of
       None \<Rightarrow> None
     | Some (so_timestamping, phc_index) \<Rightarrow>
         if so_timestamping AND SOF_HW \<noteq> SOF_HW then (if so_timestamping AND SOF_SW \<noteq> SOF_SW then None else Some (- 1))
         else Some (if phc_index \<in> set allocated_phcs then - 1 else phc_index))"

fun usable_phcs :: "tm_env \<Rightarrow> int list \<Rightarrow> string list \<Rightarrow> (string \<times> int) list option" where
  "usable_phcs e allocated_phcs [] = Some []"
| "usable_phcs e allocated_phcs (i # is) =
    (case usable_phc e allocated_phcs i of
       None \<Rightarrow> None
     | Some phc \<Rightarrow> map_option (\<lambda>l. (i, phc) # l) (usable_phcs e allocated_phcs is))"

definition message_tag :: "int \<Rightarrow> string list \<Rightarrow> string" where
  "message_tag domain interfaces =
    ''['' @ show_int domain @
    concat (map (\<lambda>(j, i). (if j \<noteq> 0 then ''+'' else '':'') @ i) (enumerate 0 interfaces)) @ '']''"

text \<open>The files and commands for the interfaces that share a PHC, or for one interface without PHC (-1).\<close>

definition add_interfaces :: "timemaster_config \<Rightarrow> ptp_domain \<Rightarrow> string list \<Rightarrow> int \<Rightarrow> build \<Rightarrow> build" where
  "add_interfaces config source interfaces phc b =
    (let seg = bu_shm_segment b; grp = bu_command_group b;
         b = (if phc \<ge> 0 then b\<lparr>bu_phcs := bu_phcs b @ [phc]\<rparr> else b);
         uds_path = tm_rundir config @ ''/ptp4l.'' @ show_int seg @ ''.socket'';
         tag = message_tag (pd_domain source) interfaces;
         path = tm_rundir config @ ''/ptp4l.'' @ show_int seg @ ''.conf'';
         content = extend_config_string (extend_config_string (''[global]'' @ tm_newline) (pg_settings (tm_ptp4l config)))
           (pd_ptp4l_settings source);
         content = content @ ''slaveOnly 1'' @ tm_newline @ ''domainNumber '' @ show_int (pd_domain source) @ tm_newline @
           ''uds_address '' @ uds_path @ tm_newline @ ''message_tag '' @ tag @ tm_newline;
         (b, content) =
           (if phc \<ge> 0
            then (add_command (get_phc2sys_command (tm_phc2sys config) (pd_domain source) (pd_phc2sys_poll source) seg uds_path tag)
                    grp (add_command (get_ptp4l_command (tm_ptp4l config) path interfaces True) grp b), content)
            else (add_command (get_ptp4l_command (tm_ptp4l config) path interfaces False) grp b,
                  content @ ''clock_servo ntpshm'' @ tm_newline @ ''ntpshm_segment '' @ show_int seg @ tm_newline))
     in b\<lparr>bu_command_group := grp + 1,
          bu_configs := bu_configs b @ [\<lparr>cf_path = path, cf_content = content\<rparr>],
          bu_ntp := add_shm_source config seg (pd_ntp_poll source) (pd_phc2sys_poll source) (pd_delay source)
            (pd_ntp_options source) ''PTP'' (bu_ntp b),
          bu_shm_segment := seg + 1\<rparr>)"

text \<open>
  The loop over the interfaces: one that shares the PHC of an earlier one was marked with -2 and is
  skipped.
\<close>

function add_groups :: "timemaster_config \<Rightarrow> ptp_domain \<Rightarrow> (string \<times> int) list \<Rightarrow> build \<Rightarrow> build" where
  "add_groups config source [] b = b"
| "add_groups config source ((i, phc) # rest) b =
    (if phc = - 2 then add_groups config source rest b
     else let shared = (if phc \<ge> 0 then map fst (filter (\<lambda>(j, p). p = phc) rest) else []);
              rest = (if phc \<ge> 0 then map (\<lambda>(j, p). (j, if p = phc then - 2 else p)) rest else rest)
          in add_groups config source rest (add_interfaces config source (i # shared) phc b))"
  by pat_completeness auto
termination
  by (relation "measure (\<lambda>(config, source, l, b). length l)") auto

text \<open>None: the source cannot be used; nothing was added then.\<close>

definition add_ptp_source :: "tm_env \<Rightarrow> ptp_domain \<Rightarrow> timemaster_config \<Rightarrow> build \<Rightarrow> build option" where
  "add_ptp_source e source config b =
    (if pd_interfaces source = [] then Some b
     else map_option (\<lambda>l. add_groups config source l b) (usable_phcs e (bu_phcs b) (pd_interfaces source)))"

subsection \<open>The script\<close>

text \<open>
  The configuration file of the NTP program is the first one of the script.  Its content is kept apart in
  \<open>bu_ntp\<close>, since the sources are appended to it after the file has been added to the script.
\<close>

definition ntp_config_path :: "timemaster_config \<Rightarrow> string" where
  "ntp_config_path config = tm_rundir config @ (case tm_ntp_program config of CHRONYD \<Rightarrow> ''/chrony.conf'' | NTPD \<Rightarrow> ''/ntp.conf'')"

definition add_ntp_program :: "timemaster_config \<Rightarrow> nat \<Rightarrow> build \<Rightarrow> build" where
  "add_ntp_program config command_group b =
    (let path = ntp_config_path config;
         (content, command) =
           (case tm_ntp_program config of
              CHRONYD \<Rightarrow> (extend_config_string [] (pg_settings (tm_chronyd config)), get_chronyd_command (tm_chronyd config) path)
            | NTPD \<Rightarrow> (extend_config_string [] (pg_settings (tm_ntpd config)), get_ntpd_command (tm_ntpd config) path))
     in add_command command command_group (b\<lparr>bu_ntp := content\<rparr>))"

text \<open>The loop over the sources goes on after a failure; the flag is \<open>ret\<close>.\<close>

fun add_sources :: "tm_env \<Rightarrow> timemaster_config \<Rightarrow> source list \<Rightarrow> build \<times> bool \<Rightarrow> build \<times> bool" where
  "add_sources e config [] st = st"
| "add_sources e config (NTP_SERVER s # ss) (b, ret) =
    add_sources e config ss (b\<lparr>bu_ntp := add_ntp_source s (bu_ntp b)\<rparr>, ret)"
| "add_sources e config (PTP_DOMAIN s # ss) (b, ret) =
    (case add_ptp_source e s config b of
       None \<Rightarrow> add_sources e config ss (b, True)
     | Some b \<Rightarrow> add_sources e config ss (b, ret))"

definition script_create :: "tm_env \<Rightarrow> timemaster_config \<Rightarrow> script option" where
  "script_create e config =
    (let b = add_ntp_program config 0
           \<lparr>bu_shm_segment = tm_first_shm_segment config, bu_command_group = 1, bu_phcs = [], bu_ntp = [], bu_configs = [],
            bu_commands = [], bu_command_groups = []\<rparr>;
         (b, ret) = add_sources e config (tm_sources config) (b, False)
     in if ret then None
        else Some \<lparr>sc_configs = \<lparr>cf_path = ntp_config_path config, cf_content = bu_ntp b\<rparr> # bu_configs b,
               sc_commands = bu_commands b, sc_command_groups = bu_command_groups b,
               sc_restart_groups = tm_restart_processes config, sc_no_restart_group = 0\<rparr>)"

end
