(* ===== verification/TmRun.thy ===== *)
theory TmRun
  imports TmScript Args
begin

text \<open>
  The run of a script (\<open>script_run\<close> and \<open>main\<close> in src/timemaster.c): the configuration files are written, the
  programs started, and signals awaited until all processes have ended.  What \<open>sigwaitinfo\<close> returns is an
  event; with SIGCHLD come the time and the processes that \<open>waitpid\<close> reports.  \<open>re_spawn\<close> gives the results
  of the starts, counted from 0: a process identifier, or 0 for a failure.  The trace holds what the program
  did to other processes.
\<close>

record run_env =
  re_no_entry :: "string \<Rightarrow> bool"
  re_mkdir :: "string \<Rightarrow> bool"
  re_fopen :: "string \<Rightarrow> bool"
  re_fwrite :: "string \<Rightarrow> bool"
  re_sigprocmask :: bool
  re_spawn :: "nat \<Rightarrow> int"
  re_start_time :: int

datatype action = Started nat int | Reaped int | Kill int | KillSelf | SleepOne

datatype event = WaitFailed | WaitInterrupted | OtherSignal | ChildSignal int "int list"

record run =
  rn_pids :: "int list"
  rn_quit :: bool
  rn_ret :: int
  rn_starts :: nat
  rn_trace :: "action list"

subsection \<open>Configuration files\<close>

text \<open>The path without its last component.\<close>

definition dirname :: "string \<Rightarrow> string" where
  "dirname path =
    (let p = dropWhile (\<lambda>c. c = CHR ''/'') (rev path); d = dropWhile (\<lambda>c. c \<noteq> CHR ''/'') p;
         r = dropWhile (\<lambda>c. c = CHR ''/'') d
     in if d = [] then (if p = [] \<and> path \<noteq> [] then ''/'' else ''.'') else if r = [] then ''/'' else rev r)"

text \<open>\<open>fwrite\<close> of one item without any octet returns 0.\<close>

definition create_config_file :: "run_env \<Rightarrow> config_file \<Rightarrow> bool" where
  "create_config_file e c \<longleftrightarrow>
    \<not> (re_no_entry e (dirname (cf_path c)) \<and> \<not> re_mkdir e (dirname (cf_path c))) \<and>
    re_fopen e (cf_path c) \<and> cf_content c \<noteq> [] \<and> re_fwrite e (cf_path c)"

definition create_config_files :: "run_env \<Rightarrow> config_file list \<Rightarrow> bool" where
  "create_config_files e configs = list_all (create_config_file e) configs"

subsection \<open>Processes\<close>

definition act :: "action \<Rightarrow> run \<Rightarrow> run" where
  "act a r = r\<lparr>rn_trace := rn_trace r @ [a]\<rparr>"

definition start_program :: "run_env \<Rightarrow> nat \<Rightarrow> run \<Rightarrow> run" where
  "start_program e i r =
    (let pid = re_spawn e (rn_starts r)
     in act (Started i pid) (r\<lparr>rn_pids := (rn_pids r)[i := pid], rn_starts := rn_starts r + 1\<rparr>))"

text \<open>The first loop stops at a program that cannot be started.\<close>

fun start_programs :: "run_env \<Rightarrow> nat list \<Rightarrow> run \<Rightarrow> run" where
  "start_programs e [] r = r"
| "start_programs e (i # is) r =
    (let r = start_program e i r
     in if rn_pids r ! i = 0 then act KillSelf r else start_programs e is r)"

definition kill_all :: "run \<Rightarrow> run" where
  "kill_all r = fold (\<lambda>pid r. if pid > 0 then act (Kill pid) r else r) (rn_pids r) r"

definition reap :: "int \<Rightarrow> run \<Rightarrow> run" where
  "reap pid r = act (Reaped pid) (r\<lparr>rn_pids := map (\<lambda>p. if p = pid then 0 else p) (rn_pids r)\<rparr>)"

text \<open>One program of a group with a terminated process: running processes of the group are ended first.\<close>

definition renew :: "run_env \<Rightarrow> bool \<Rightarrow> nat \<Rightarrow> run \<Rightarrow> run" where
  "renew e running i r =
    (if running \<and> rn_pids r ! i \<noteq> 0 then act (Kill (rn_pids r ! i)) r
     else if \<not> running \<and> rn_pids r ! i = 0 then
       (let r = start_program e i r; r = (if rn_pids r ! i = 0 then act KillSelf r else r)
        in act SleepOne r)
     else r)"

definition members :: "script \<Rightarrow> nat \<Rightarrow> nat list" where
  "members s grp = filter (\<lambda>i. sc_command_groups s ! i = grp) [0..<length (sc_commands s)]"

fun check_groups :: "run_env \<Rightarrow> script \<Rightarrow> int \<Rightarrow> nat list \<Rightarrow> run \<Rightarrow> run" where
  "check_groups e s now [] r = r"
| "check_groups e s now (grp # grps) r =
    (let terminated = list_ex (\<lambda>i. rn_pids r ! i = 0) (members s grp);
         running = list_ex (\<lambda>i. rn_pids r ! i \<noteq> 0) (members s grp)
     in if \<not> terminated then check_groups e s now grps r
        else if grp = sc_no_restart_group s \<or> now - re_start_time e \<le> 1 \<or> sc_restart_groups s = 0
        then (act KillSelf r)\<lparr>rn_ret := 1\<rparr>
        else check_groups e s now grps (fold (renew e running) (members s grp) r))"

subsection \<open>Signals\<close>

text \<open>The state after an event, and whether the loop is left.\<close>

fun on_event :: "run_env \<Rightarrow> script \<Rightarrow> event \<Rightarrow> run \<Rightarrow> run \<times> bool" where
  "on_event e s WaitFailed r = (r, True)"
| "on_event e s WaitInterrupted r = (r, False)"
| "on_event e s OtherSignal r = (if rn_quit r then r else kill_all (r\<lparr>rn_quit := True\<rparr>), False)"
| "on_event e s (ChildSignal now pids) r =
    (let r = fold reap pids r
     in if rn_quit r then (r, list_all (\<lambda>p. p = 0) (rn_pids r))
        else (check_groups e s now [0..<length (sc_commands s)] r, False))"

fun on_events :: "run_env \<Rightarrow> script \<Rightarrow> event list \<Rightarrow> run \<Rightarrow> run \<times> bool" where
  "on_events e s [] r = (r, False)"
| "on_events e s (ev # evs) r = (case on_event e s ev r of (r, ended) \<Rightarrow> if ended then (r, True) else on_events e s evs r)"

definition started :: "run_env \<Rightarrow> script \<Rightarrow> run" where
  "started e s =
    start_programs e [0..<length (sc_commands s)]
      \<lparr>rn_pids = replicate (length (sc_commands s)) 0, rn_quit = False, rn_ret = 0, rn_starts = 0, rn_trace = []\<rparr>"

text \<open>The result, None while the program waits for the next signal, and what it did.\<close>

definition script_run :: "run_env \<Rightarrow> script \<Rightarrow> event list \<Rightarrow> int option \<times> action list" where
  "script_run e s evs =
    (if sc_commands s = [] then (Some 0, [])
     else if \<not> create_config_files e (sc_configs s) then (Some 1, [])
     else if \<not> re_sigprocmask e then (Some 1, [])
     else case on_events e s evs (started e s) of
         (r, ended) \<Rightarrow> (if ended then Some (rn_ret r) else None, rn_trace r))"

subsection \<open>The program\<close>

record tm_args =
  ta_config_path :: "string option"
  ta_dry_run :: bool
  ta_log_stdout :: bool
  ta_log_syslog :: bool

fun tm_arguments :: "argument list \<Rightarrow> tm_args \<Rightarrow> int + tm_args" where
  "tm_arguments [] a = Inr a"
| "tm_arguments (LongOpt name v # args) a = Inl 1"
| "tm_arguments (UnknownOpt # args) a = Inl 1"
| "tm_arguments (Opt c optarg # args) a =
    (if c = CHR ''f'' then tm_arguments args (a\<lparr>ta_config_path := Some optarg\<rparr>)
     else if c = CHR ''n'' then tm_arguments args (a\<lparr>ta_dry_run := True\<rparr>)
     else if c = CHR ''l'' then tm_arguments args a
     else if c = CHR ''m'' then tm_arguments args (a\<lparr>ta_log_stdout := True\<rparr>)
     else if c = CHR ''q'' then tm_arguments args (a\<lparr>ta_log_syslog := False\<rparr>)
     else if c = CHR ''v'' \<or> c = CHR ''h'' then Inl 0
     else Inl 1)"

text \<open>What \<open>script_print\<close> writes: the files, and the commands with their groups.\<close>

definition script_print :: "script \<Rightarrow> string" where
  "script_print s =
    concat (map (\<lambda>c. cf_path c @ '':'' @ tm_newline @ tm_newline @ cf_content c @ tm_newline) (sc_configs s)) @
    ''commands:'' @ tm_newline @ tm_newline @
    concat (map (\<lambda>(command, grp). ''['' @ show_nat grp @ ''] '' @ concat (map (\<lambda>arg. arg @ '' '') command) @ tm_newline)
      (zip (sc_commands s) (sc_command_groups s)))"

datatype tm_outcome = Exit int | Printed string | Ran "int option" "action list"

definition timemaster_main ::
  "(string \<Rightarrow> (real \<times> string \<times> bool) option) \<Rightarrow> tm_env \<Rightarrow> run_env \<Rightarrow> (string \<Rightarrow> string option) \<Rightarrow> argument list \<Rightarrow> event list \<Rightarrow>
   tm_outcome" where
  "timemaster_main strtod te e files args evs =
    (case tm_arguments args \<lparr>ta_config_path = None, ta_dry_run = False, ta_log_stdout = False, ta_log_syslog = True\<rparr> of
       Inl status \<Rightarrow> Exit status
     | Inr a \<Rightarrow>
         (case ta_config_path a of
            None \<Rightarrow> Exit 1
          | Some path \<Rightarrow>
              (case tm_config_parse strtod (files path) of
                 None \<Rightarrow> Exit 1
               | Some config \<Rightarrow>
                   (case script_create te config of
                      None \<Rightarrow> Exit 1
                    | Some s \<Rightarrow>
                        if ta_dry_run a then Printed (script_print s)
                        else case script_run e s evs of (status, trace) \<Rightarrow> Ran status trace))))"

end
