(* ===== verification/TmScriptProps.thy ===== *)
theory TmScriptProps
  imports TmScript
begin

text \<open>
  What the script of timemaster promises.  \<open>plan\<close> says which interfaces belong together, without files,
  numbers and command lines; \<open>render\<close> writes a plan out.  The refinement says that the code, which marks
  interfaces in an array and numbers as it goes, computes the rendered plan.
\<close>

subsection \<open>The plan\<close>

datatype entry = Server ntp_server | Link ptp_domain "string list" int

text \<open>The interfaces with the same PHC belong together; one without is alone.\<close>

function cluster :: "(string \<times> int) list \<Rightarrow> (string list \<times> int) list" where
  "cluster [] = []"
| "cluster ((i, phc) # rest) =
    (if phc \<ge> 0 then (i # map fst (filter (\<lambda>(j, p). p = phc) rest), phc) # cluster (filter (\<lambda>(j, p). p \<noteq> phc) rest)
     else ([i], phc) # cluster rest)"
  by pat_completeness auto
termination
  by (relation "measure length") (auto simp: less_Suc_eq_le)

definition links_of :: "ptp_domain \<Rightarrow> (string \<times> int) list \<Rightarrow> entry list" where
  "links_of source l = map (\<lambda>(ifs, phc). Link source ifs phc) (cluster (filter (\<lambda>(i, phc). phc \<noteq> - 2) l))"

definition hw_phcs :: "entry list \<Rightarrow> int list" where
  "hw_phcs es = concat (map (\<lambda>x. case x of Link s ifs phc \<Rightarrow> if phc \<ge> 0 then [phc] else [] | Server s \<Rightarrow> []) es)"

fun plan :: "tm_env \<Rightarrow> int list \<Rightarrow> source list \<Rightarrow> entry list option" where
  "plan e phcs [] = Some []"
| "plan e phcs (NTP_SERVER s # ss) = map_option (\<lambda>es. Server s # es) (plan e phcs ss)"
| "plan e phcs (PTP_DOMAIN s # ss) =
    (case usable_phcs e phcs (pd_interfaces s) of
       None \<Rightarrow> None
     | Some l \<Rightarrow> map_option (\<lambda>es. links_of s l @ es) (plan e (phcs @ hw_phcs (links_of s l)) ss))"

subsection \<open>Rendering\<close>

definition link_path :: "timemaster_config \<Rightarrow> int \<Rightarrow> string \<Rightarrow> string" where
  "link_path config seg suffix = tm_rundir config @ ''/ptp4l.'' @ show_int seg @ suffix"

definition link_commands :: "timemaster_config \<Rightarrow> int \<Rightarrow> ptp_domain \<Rightarrow> string list \<Rightarrow> int \<Rightarrow> string list list" where
  "link_commands config seg source ifs phc =
    get_ptp4l_command (tm_ptp4l config) (link_path config seg ''.conf'') ifs (phc \<ge> 0) #
    (if phc \<ge> 0
     then [get_phc2sys_command (tm_phc2sys config) (pd_domain source) (pd_phc2sys_poll source) seg
             (link_path config seg ''.socket'') (message_tag (pd_domain source) ifs)]
     else [])"

definition link_file :: "timemaster_config \<Rightarrow> int \<Rightarrow> ptp_domain \<Rightarrow> string list \<Rightarrow> int \<Rightarrow> config_file" where
  "link_file config seg source ifs phc =
    \<lparr>cf_path = link_path config seg ''.conf'',
     cf_content = extend_config_string []
       (''[global]'' # pg_settings (tm_ptp4l config) @ pd_ptp4l_settings source @
        [''slaveOnly 1'', ''domainNumber '' @ show_int (pd_domain source),
         ''uds_address '' @ link_path config seg ''.socket'', ''message_tag '' @ message_tag (pd_domain source) ifs] @
        (if phc \<ge> 0 then [] else [''clock_servo ntpshm'', ''ntpshm_segment '' @ show_int seg]))\<rparr>"

fun tagged_commands :: "timemaster_config \<Rightarrow> int \<Rightarrow> nat \<Rightarrow> entry list \<Rightarrow> (string list \<times> nat) list" where
  "tagged_commands config seg grp [] = []"
| "tagged_commands config seg grp (Server s # es) = tagged_commands config seg grp es"
| "tagged_commands config seg grp (Link s ifs phc # es) =
    map (\<lambda>c. (c, grp)) (link_commands config seg s ifs phc) @ tagged_commands config (seg + 1) (grp + 1) es"

fun link_files :: "timemaster_config \<Rightarrow> int \<Rightarrow> entry list \<Rightarrow> config_file list" where
  "link_files config seg [] = []"
| "link_files config seg (Server s # es) = link_files config seg es"
| "link_files config seg (Link s ifs phc # es) = link_file config seg s ifs phc # link_files config (seg + 1) es"

fun ntp_lines :: "timemaster_config \<Rightarrow> int \<Rightarrow> entry list \<Rightarrow> string" where
  "ntp_lines config seg [] = []"
| "ntp_lines config seg (Server s # es) = add_ntp_source s [] @ ntp_lines config seg es"
| "ntp_lines config seg (Link s ifs phc # es) =
    add_shm_source config seg (pd_ntp_poll s) (pd_phc2sys_poll s) (pd_delay s) (pd_ntp_options s) ''PTP'' [] @
    ntp_lines config (seg + 1) es"

definition ntp_program_of :: "timemaster_config \<Rightarrow> program_config" where
  "ntp_program_of config = (case tm_ntp_program config of CHRONYD \<Rightarrow> tm_chronyd config | NTPD \<Rightarrow> tm_ntpd config)"

definition ntp_command :: "timemaster_config \<Rightarrow> string list" where
  "ntp_command config =
    (case tm_ntp_program config of
       CHRONYD \<Rightarrow> get_chronyd_command (tm_chronyd config) (ntp_config_path config)
     | NTPD \<Rightarrow> get_ntpd_command (tm_ntpd config) (ntp_config_path config))"

definition render :: "timemaster_config \<Rightarrow> entry list \<Rightarrow> script" where
  "render config es =
    (let cs = (ntp_command config, 0) # tagged_commands config (tm_first_shm_segment config) 1 es
     in \<lparr>sc_configs =
           \<lparr>cf_path = ntp_config_path config,
            cf_content = extend_config_string [] (pg_settings (ntp_program_of config)) @
              ntp_lines config (tm_first_shm_segment config) es\<rparr> #
           link_files config (tm_first_shm_segment config) es,
         sc_commands = map fst cs, sc_command_groups = map snd cs,
         sc_restart_groups = tm_restart_processes config, sc_no_restart_group = 0\<rparr>)"

subsection \<open>The refinement\<close>

text \<open>Adding an entry to what has been built.\<close>

definition add_entry :: "timemaster_config \<Rightarrow> entry \<Rightarrow> build \<Rightarrow> build" where
  "add_entry config x b =
    (case x of Server s \<Rightarrow> b\<lparr>bu_ntp := add_ntp_source s (bu_ntp b)\<rparr> | Link s ifs phc \<Rightarrow> add_interfaces config s ifs phc b)"

lemma cluster_marked:
  "add_groups config source l b = fold (add_entry config) (links_of source l) b"
proof (induction config source l b rule: add_groups.induct)
  case (1 config source b)
  then show ?case by (simp add: links_of_def)
next
  case (2 config source i phc rest b)
  show ?case
  proof (cases "phc = - 2 \<or> phc < 0")
    case True
    then show ?thesis
      using 2 by (auto simp: links_of_def add_entry_def)
  next
    case False
    have f1: "filter (\<lambda>x. snd x \<noteq> - 2 \<and> snd x = phc) rest = filter (\<lambda>x. snd x = phc) rest"
      using False by (intro filter_cong) auto
    have f2: "filter (\<lambda>x. snd x \<noteq> - 2) (map (\<lambda>x. (fst x, if snd x = phc then - 2 else snd x)) rest) =
        filter (\<lambda>x. snd x \<noteq> - 2 \<and> snd x \<noteq> phc) rest"
      by (induction rest) auto
    show ?thesis
      using 2(2) [OF _ refl refl] False by (simp add: links_of_def add_entry_def case_prod_unfold f1 f2)
  qed
qed

lemma add_shm_append:
  "add_shm_source config seg poll dpoll delay opts prefix x = x @ add_shm_source config seg poll dpoll delay opts prefix []"
  by (simp add: add_shm_source_def Let_def split: ntp_program.split)

lemma add_ntp_append: "add_ntp_source s x = x @ add_ntp_source s []"
  by (simp add: add_ntp_source_def)

lemma add_link:
  "add_interfaces config s ifs phc b =
    b\<lparr>bu_phcs := bu_phcs b @ hw_phcs [Link s ifs phc],
      bu_command_group := bu_command_group b + 1,
      bu_shm_segment := bu_shm_segment b + 1,
      bu_configs := bu_configs b @ [link_file config (bu_shm_segment b) s ifs phc],
      bu_commands := bu_commands b @ link_commands config (bu_shm_segment b) s ifs phc,
      bu_command_groups := bu_command_groups b @ map (\<lambda>c. bu_command_group b) (link_commands config (bu_shm_segment b) s ifs phc),
      bu_ntp := bu_ntp b @ add_shm_source config (bu_shm_segment b) (pd_ntp_poll s) (pd_phc2sys_poll s) (pd_delay s)
        (pd_ntp_options s) ''PTP'' []\<rparr>"
  by (simp add: add_interfaces_def Let_def add_command_def hw_phcs_def link_file_def link_commands_def link_path_def
      extend_config_string_def add_shm_append [of _ _ _ _ _ _ _ "bu_ntp b"])

lemma add_entries:
  "fold (add_entry config) es b =
    b\<lparr>bu_phcs := bu_phcs b @ hw_phcs es,
      bu_command_group := bu_command_group b + length (filter (\<lambda>x. \<not> (\<exists>s. x = Server s)) es),
      bu_shm_segment := bu_shm_segment b + int (length (filter (\<lambda>x. \<not> (\<exists>s. x = Server s)) es)),
      bu_configs := bu_configs b @ link_files config (bu_shm_segment b) es,
      bu_commands := bu_commands b @ map fst (tagged_commands config (bu_shm_segment b) (bu_command_group b) es),
      bu_command_groups := bu_command_groups b @ map snd (tagged_commands config (bu_shm_segment b) (bu_command_group b) es),
      bu_ntp := bu_ntp b @ ntp_lines config (bu_shm_segment b) es\<rparr>"
proof (induction es arbitrary: b)
  case (Cons x es)
  show ?case
  proof (cases x)
    case (Server s)
    have "(\<exists>t. Server s = Server t)" by simp
    then show ?thesis
      using Cons Server by (simp add: add_entry_def hw_phcs_def add_ntp_append [of _ "bu_ntp b"])
  next
    case (Link s ifs phc)
    then show ?thesis
      using Cons by (simp add: add_entry_def add_link hw_phcs_def comp_def)
  qed
qed (simp add: hw_phcs_def)

lemma add_sources_failed: "snd (add_sources e config ss (b, True))"
  by (induction e config ss "(b, True)" arbitrary: b rule: add_sources.induct) (auto split: option.split)

lemma add_ptp_source_plan:
  "add_ptp_source e s config b =
    map_option (\<lambda>l. fold (add_entry config) (links_of s l) b) (usable_phcs e (bu_phcs b) (pd_interfaces s))"
  by (simp add: add_ptp_source_def cluster_marked links_of_def)

lemma add_sources_plan:
  "(case plan e (bu_phcs b) ss of
      None \<Rightarrow> snd (add_sources e config ss (b, ret))
    | Some es \<Rightarrow> add_sources e config ss (b, ret) = (fold (add_entry config) es b, ret))"
proof (induction e "bu_phcs b" ss arbitrary: b rule: plan.induct)
  case (2 e s ss)
  show ?case
    using 2 [of "b\<lparr>bu_ntp := add_ntp_source s (bu_ntp b)\<rparr>"] by (auto simp: add_entry_def split: option.splits)
next
  case (3 e s ss)
  show ?case
  proof (cases "usable_phcs e (bu_phcs b) (pd_interfaces s)")
    case None
    then show ?thesis by (simp add: add_ptp_source_plan add_sources_failed)
  next
    case (Some l)
    then show ?thesis
      using 3 [OF Some, of "fold (add_entry config) (links_of s l) b"]
      by (auto simp: add_ptp_source_plan add_entries [of _ "links_of s l"] split: option.splits)
  qed
qed simp

lemma script_refines_plan_lemma: "script_create e config = map_option (render config) (plan e [] (tm_sources config))"
proof -
  let ?b = "add_ntp_program config 0
    \<lparr>bu_shm_segment = tm_first_shm_segment config, bu_command_group = 1, bu_phcs = [], bu_ntp = [], bu_configs = [],
     bu_commands = [], bu_command_groups = []\<rparr>"
  have b: "?b = \<lparr>bu_shm_segment = tm_first_shm_segment config, bu_command_group = 1, bu_phcs = [],
      bu_ntp = extend_config_string [] (pg_settings (ntp_program_of config)), bu_configs = [],
      bu_commands = [ntp_command config], bu_command_groups = [0]\<rparr>"
    by (simp add: add_ntp_program_def add_command_def ntp_program_of_def ntp_command_def split: ntp_program.split)
  show ?thesis
    using add_sources_plan [where b = ?b and e = e and ss = "tm_sources config" and config = config and ret = False]
    unfolding script_create_def Let_def b by (auto simp: render_def add_entries split: option.splits prod.splits)
qed

text \<open>
  C18: Refinement: \<open>script_create\<close> builds exactly the script that the plan describes, with the segments numbered
  from \<open>first_shm_segment\<close> and the groups from 1, and fails exactly when there is no plan (an interface
  whose time stamping is unknown or insufficient).
\<close>

theorem script_refines_plan: "script_create e config = map_option (render config) (plan e [] (tm_sources config))"
  by (rule script_refines_plan_lemma)

subsection \<open>One process for a hardware clock\<close>

lemma cluster_set: "(ifs, phc) \<in> set (cluster l) \<Longrightarrow> i \<in> set ifs \<Longrightarrow> (i, phc) \<in> set l"
proof (induction l rule: cluster.induct)
  case (2 j p rest)
  then show ?case by (cases "p \<ge> 0") auto
qed simp

lemma cluster_phcs: "phc \<in> snd ` set (cluster l) \<Longrightarrow> phc \<in> snd ` set l"
proof (induction l rule: cluster.induct)
  case (2 j p rest)
  then show ?case by (cases "p \<ge> 0") auto
qed simp

lemma cluster_nonempty: "(ifs, phc) \<in> set (cluster l) \<Longrightarrow> ifs \<noteq> []"
proof (induction l rule: cluster.induct)
  case (2 j p rest)
  then show ?case by (cases "p \<ge> 0") auto
qed simp

lemma hw_phcs_simps [simp]:
  "hw_phcs [] = []" "hw_phcs (Server s # es) = hw_phcs es"
  "hw_phcs (Link d ifs phc # es) = (if phc \<ge> 0 then [phc] else []) @ hw_phcs es"
  "hw_phcs (xs @ ys) = hw_phcs xs @ hw_phcs ys"
  by (simp_all add: hw_phcs_def)

lemma hw_phcs_cluster: "hw_phcs (map (\<lambda>(ifs, phc). Link s ifs phc) cs) = filter (\<lambda>p. p \<ge> 0) (map snd cs)"
  by (induction cs) auto

lemma cluster_distinct: "distinct (filter (\<lambda>p. p \<ge> 0) (map snd (cluster l)))"
proof (induction l rule: cluster.induct)
  case (2 j p rest)
  have "p \<notin> snd ` set (cluster (filter (\<lambda>(j, q). q \<noteq> p) rest))"
    using cluster_phcs by fastforce
  then show ?case using 2 by (cases "p \<ge> 0") auto
qed simp

lemma usable_phc_info:
  "usable_phc e phcs i = Some p \<Longrightarrow> p \<ge> 0 \<Longrightarrow> p \<notin> set phcs \<and> (\<exists>fl. te_ts_info e (ts_interface e i) = Some (fl, p))"
  by (auto simp: usable_phc_def split: option.splits if_splits)

lemma usable_phcs_info:
  "usable_phcs e phcs is = Some l \<Longrightarrow> (i, p) \<in> set l \<Longrightarrow> i \<in> set is \<and> usable_phc e phcs i = Some p"
  by (induction "is" arbitrary: l) (auto split: option.splits)

lemma links_of_fresh:
  assumes l: "usable_phcs e phcs is = Some l"
  shows "distinct (hw_phcs (links_of s l))" and "set (hw_phcs (links_of s l)) \<inter> set phcs = {}"
    and "Link s' ifs phc \<in> set (links_of s l) \<Longrightarrow> phc \<ge> 0 \<Longrightarrow> i \<in> set ifs \<Longrightarrow> \<exists>fl. te_ts_info e (ts_interface e i) = Some (fl, phc)"
proof -
  show "distinct (hw_phcs (links_of s l))"
    by (simp add: links_of_def hw_phcs_cluster cluster_distinct)
  have "p \<notin> set phcs" if "p \<ge> 0" "p \<in> snd ` set (cluster (filter (\<lambda>(i, phc). phc \<noteq> - 2) l))" for p
    using cluster_phcs [OF that(2)] usable_phcs_info [OF l] usable_phc_info that(1) by fastforce
  then show "set (hw_phcs (links_of s l)) \<inter> set phcs = {}"
    by (auto simp: links_of_def hw_phcs_cluster)
  show "\<exists>fl. te_ts_info e (ts_interface e i) = Some (fl, phc)"
    if "Link s' ifs phc \<in> set (links_of s l)" "phc \<ge> 0" "i \<in> set ifs"
    using that cluster_set usable_phcs_info [OF l] usable_phc_info unfolding links_of_def by fastforce
qed

lemma plan_fresh:
  "plan e phcs ss = Some es \<Longrightarrow> distinct (hw_phcs es) \<and> set (hw_phcs es) \<inter> set phcs = {}"
proof (induction e phcs ss arbitrary: es rule: plan.induct)
  case (3 e phcs s ss)
  then obtain l es' where l: "usable_phcs e phcs (pd_interfaces s) = Some l"
    and es': "plan e (phcs @ hw_phcs (links_of s l)) ss = Some es'" and es: "es = links_of s l @ es'"
    by (auto split: option.splits)
  show ?case
    using 3(1) [OF l es'] links_of_fresh(1,2) [OF l, of s] es by auto
qed auto

lemma plan_info:
  "plan e phcs ss = Some es \<Longrightarrow> Link s ifs phc \<in> set es \<Longrightarrow> phc \<ge> 0 \<Longrightarrow> i \<in> set ifs \<Longrightarrow>
    \<exists>fl. te_ts_info e (ts_interface e i) = Some (fl, phc)"
proof (induction e phcs ss arbitrary: es rule: plan.induct)
  case (3 e phcs s' ss)
  then obtain l es' where l: "usable_phcs e phcs (pd_interfaces s') = Some l"
    and es': "plan e (phcs @ hw_phcs (links_of s' l)) ss = Some es'" and es: "es = links_of s' l @ es'"
    by (auto split: option.splits)
  show ?case
    using 3(1) [OF l es'] 3(3-) links_of_fresh(3) [OF l] es by auto
qed auto

lemma pairs_inj: "concat (map (\<lambda>i. [a, i]) xs) = concat (map (\<lambda>i. [a, i]) ys) \<longleftrightarrow> xs = ys"
proof (induction xs arbitrary: ys)
  case Nil then show ?case by (cases ys) auto
next
  case (Cons x xs) then show ?case by (cases ys) auto
qed

lemma ptp4l_command_inj:
  "get_ptp4l_command c path ifs hw = get_ptp4l_command c path' ifs' hw' \<longleftrightarrow> path = path' \<and> ifs = ifs' \<and> hw = hw'"
  by (auto simp: get_ptp4l_command_def pairs_inj split: if_splits)

lemma ptp4l_command_end:
  assumes "ifs \<noteq> []"
  shows "\<exists>xs i. get_ptp4l_command c path ifs hw = xs @ [''-i'', i]"
proof -
  obtain js j where "ifs = js @ [j]" using assms by (cases ifs rule: rev_cases) auto
  then show ?thesis by (auto simp: get_ptp4l_command_def)
qed

lemma other_commands:
  assumes "ifs \<noteq> []"
  shows "get_phc2sys_command c' d poll seg uds tag \<noteq> get_ptp4l_command c path ifs hw"
    and "ntp_command config \<noteq> get_ptp4l_command c path ifs hw"
proof -
  obtain xs i where x: "get_ptp4l_command c path ifs hw = xs @ [''-i'', i]"
    using ptp4l_command_end [OF assms] by blast
  have e: "ys @ [a, b] = xs @ [''-i'', i] \<Longrightarrow> a = ''-i''" for ys a b
    using append_eq_append_conv [of "[a, b]" "[''-i'', i]" ys xs] by simp
  have "get_phc2sys_command c' d poll seg uds tag =
      (pg_path c' # pg_options c' @ [''-a'', ''-r'', ''-R'', show_fixed 2 (phc2sys_rate poll), ''-z'', uds, ''-t'', tag,
        ''-n'', show_int d, ''-E'', ''ntpshm'']) @ [''-M'', show_int seg]"
    by (simp add: get_phc2sys_command_def)
  then show "get_phc2sys_command c' d poll seg uds tag \<noteq> get_ptp4l_command c path ifs hw"
    unfolding x using e by fastforce
  have "\<exists>ys a b. ntp_command config = ys @ [a, b] \<and> a \<noteq> ''-i''"
  proof (cases "tm_ntp_program config")
    case CHRONYD
    then have "ntp_command config = (pg_path (tm_chronyd config) # pg_options (tm_chronyd config) @ [''-n'']) @
        [''-f'', ntp_config_path config]"
      by (simp add: ntp_command_def get_chronyd_command_def)
    then show ?thesis by blast
  next
    case NTPD
    then have "ntp_command config = (pg_path (tm_ntpd config) # pg_options (tm_ntpd config) @ [''-n'']) @
        [''-c'', ntp_config_path config]"
      by (simp add: ntp_command_def get_ntpd_command_def)
    then show ?thesis by blast
  qed
  then show "ntp_command config \<noteq> get_ptp4l_command c path ifs hw"
    unfolding x using e by fastforce
qed

text \<open>The PHC that a command of the plan disciplines with ptp4l.\<close>

fun marks :: "entry list \<Rightarrow> int option list" where
  "marks [] = []"
| "marks (Server s # es) = marks es"
| "marks (Link s ifs phc # es) = (if phc \<ge> 0 then [Some phc, None] else [None]) @ marks es"

lemma marks_hw: "concat (map (\<lambda>m. case m of None \<Rightarrow> [] | Some p \<Rightarrow> [p]) (marks es)) = hw_phcs es"
  by (induction es rule: marks.induct) auto

lemma marks_distinct:
  "distinct (concat (map (\<lambda>m. case m of None \<Rightarrow> [] | Some p \<Rightarrow> [p]) ms)) \<Longrightarrow> k < length ms \<Longrightarrow> k' < length ms \<Longrightarrow>
    ms ! k = Some p \<Longrightarrow> ms ! k' = Some p \<Longrightarrow> k = k'"
proof (induction ms arbitrary: k k')
  case (Cons m ms)
  have "p \<in> set (concat (map (\<lambda>m. case m of None \<Rightarrow> [] | Some p \<Rightarrow> [p]) ms))" if "j < length ms" "ms ! j = Some p" for j
    using that by (force simp: in_set_conv_nth intro!: bexI [of _ "Some p"])
  then show ?case
    using Cons by (cases k; cases k') (auto split: option.splits)
qed simp

definition runs :: "tm_env \<Rightarrow> timemaster_config \<Rightarrow> string list \<times> nat \<Rightarrow> int option \<Rightarrow> bool" where
  "runs e config c m \<longleftrightarrow>
    (\<forall>path ifs i. fst c = get_ptp4l_command (tm_ptp4l config) path ifs True \<longrightarrow> i \<in> set ifs \<longrightarrow>
      (\<exists>fl p. m = Some p \<and> te_ts_info e (ts_interface e i) = Some (fl, p)))"

lemma commands_marked:
  assumes "\<And>s ifs phc i. Link s ifs phc \<in> set es \<Longrightarrow> phc \<ge> 0 \<Longrightarrow> i \<in> set ifs \<Longrightarrow>
    \<exists>fl. te_ts_info e (ts_interface e i) = Some (fl, phc)"
  shows "list_all2 (runs e config) (tagged_commands config seg grp es) (marks es)"
  using assms
proof (induction config seg grp es rule: tagged_commands.induct)
  case (3 config seg grp s ifs phc es)
  have "runs e config (get_phc2sys_command c d poll seg uds tag, grp) None" for c d poll uds tag
    using other_commands(1) by (fastforce simp: runs_def)
  moreover have "runs e config (get_ptp4l_command (tm_ptp4l config) path ifs True, grp) (Some phc)" if "phc \<ge> 0" for path
    using 3(2) [of s ifs phc] that by (auto simp: runs_def ptp4l_command_inj)
  moreover have "runs e config (get_ptp4l_command (tm_ptp4l config) path ifs False, grp) None" for path
    by (auto simp: runs_def ptp4l_command_inj)
  moreover have "list_all2 (runs e config) (tagged_commands config (seg + 1) (grp + 1) es) (marks es)"
    by (rule 3(1), erule 3(2) [OF list.set_intros(2)])
  ultimately show ?case
    by (simp add: link_commands_def)
qed auto

text \<open>
  C12: A hardware clock is disciplined by one ptp4l only: two commands of a script that run ptp4l with hardware time
  stamping on interfaces with the same PHC are the same command, whatever domains the interfaces belong to.
\<close>

theorem one_process_per_phc:
  assumes "script_create e config = Some s"
    and "k < length (sc_commands s)" and "sc_commands s ! k = get_ptp4l_command (tm_ptp4l config) path ifs True" and "i \<in> set ifs"
    and "k' < length (sc_commands s)" and "sc_commands s ! k' = get_ptp4l_command (tm_ptp4l config) path' ifs' True" and "i' \<in> set ifs'"
    and "te_ts_info e (ts_interface e i) = Some (flags, phc)" and "te_ts_info e (ts_interface e i') = Some (flags', phc)"
  shows "k = k'"
proof -
  obtain es where plan: "plan e [] (tm_sources config) = Some es" and s: "s = render config es"
    using assms(1) by (auto simp: script_refines_plan_lemma)
  let ?cs = "(ntp_command config, 0) # tagged_commands config (tm_first_shm_segment config) 1 es"
  let ?ms = "None # marks es"
  have "runs e config (ntp_command config, 0) None"
    using other_commands(2) by (fastforce simp: runs_def)
  then have all: "list_all2 (runs e config) ?cs ?ms"
    using commands_marked plan_info [OF plan] by (metis list_all2_Cons)
  have c: "sc_commands s = map fst ?cs"
    by (simp add: s render_def)
  have m: "?ms ! j = Some phc" if "j < length ?cs" "fst (?cs ! j) = get_ptp4l_command (tm_ptp4l config) path ifs True"
      "i \<in> set ifs" "te_ts_info e (ts_interface e i) = Some (flags, phc)" for j path ifs i flags
    using list_all2_nthD [OF all that(1)] that(2-) unfolding runs_def by fastforce
  have d: "distinct (concat (map (\<lambda>m. case m of None \<Rightarrow> [] | Some p \<Rightarrow> [p]) ?ms))"
    using plan_fresh [OF plan] by (simp add: marks_hw)
  have n: "length ?cs = length ?ms"
    using all by (rule list_all2_lengthD)
  have k: "k < length ?cs" "fst (?cs ! k) = get_ptp4l_command (tm_ptp4l config) path ifs True"
    and k': "k' < length ?cs" "fst (?cs ! k') = get_ptp4l_command (tm_ptp4l config) path' ifs' True"
    using assms(2,3,5,6) unfolding c by (simp_all only: length_map nth_map)
  show ?thesis
    using marks_distinct [OF d _ _ m [OF k assms(4,8)] m [OF k' assms(7,9)]] k(1) k'(1) unfolding n by blast
qed

definition bonded_env :: tm_env where
  "bonded_env = \<lparr>te_ts_device = (\<lambda>i. if i = ''bond0'' then Some ''eth0'' else None),
     te_ts_info = (\<lambda>i. if i = ''eth0'' \<or> i = ''eth1'' then Some (0x45, 3) else if i = ''wlan0'' then Some (0x1A, - 1) else None)\<rparr>"

definition two_domains :: timemaster_config where
  "two_domains = tm_defaults\<lparr>tm_sources :=
     [PTP_DOMAIN \<lparr>pd_domain = 0, pd_ntp_poll = 2, pd_phc2sys_poll = 0, pd_delay = 1 / 10000,
        pd_interfaces = [''bond0'', ''wlan0'', ''eth1''], pd_ptp4l_settings = [], pd_ntp_options = []\<rparr>,
      NTP_SERVER \<lparr>ns_address = ''ntp.org'', ns_minpoll = 6, ns_maxpoll = 10, ns_iburst = 1, ns_ntp_options = []\<rparr>,
      PTP_DOMAIN \<lparr>pd_domain = 1, pd_ntp_poll = 2, pd_phc2sys_poll = 1, pd_delay = 1 / 10000,
        pd_interfaces = [''eth1''], pd_ptp4l_settings = [], pd_ntp_options = []\<rparr>]\<rparr>"

lemma two_domains_plan:
  "\<exists>d d' n. plan bonded_env [] (tm_sources two_domains) =
    Some [Link d [''bond0'', ''eth1''] 3, Link d [''wlan0''] (- 1), Server n, Link d' [''eth1''] (- 1)]"
  by (simp add: two_domains_def tm_defaults_def bonded_env_def usable_phc_def ts_interface_def links_of_def hw_phcs_def
      SOF_HW_def SOF_SW_def)

lemma two_domains_script:
  obtains s path where "script_create bonded_env two_domains = Some s"
    and "sc_commands s ! 1 = get_ptp4l_command (tm_ptp4l two_domains) path [''bond0'', ''eth1''] True"
    and "sc_commands s ! 4 = get_ptp4l_command (tm_ptp4l two_domains) (link_path two_domains 2 ''.conf'') [''eth1''] False"
    and "length (sc_commands s) = 5"
  using two_domains_plan
  by (auto simp: script_refines_plan_lemma render_def link_commands_def two_domains_def tm_defaults_def)

theorem one_process_per_phc_witness:
  "\<exists>s path. script_create bonded_env two_domains = Some s \<and>
    sc_commands s ! 1 = get_ptp4l_command (tm_ptp4l two_domains) path [''bond0'', ''eth1''] True \<and> (1::nat) = 1"
proof (rule two_domains_script)
  fix s path
  assume s: "script_create bonded_env two_domains = Some s" and n: "length (sc_commands s) = 5"
    and c: "sc_commands s ! 1 = get_ptp4l_command (tm_ptp4l two_domains) path [''bond0'', ''eth1''] True"
  have "(1::nat) = 1"
    by (rule one_process_per_phc [OF s _ c _ _ c, where i = "''bond0''" and i' = "''eth1''"])
       (simp_all add: n bonded_env_def ts_interface_def)
  with s c show ?thesis by blast
qed

text \<open>
  The fall back to software time stamping of an interface whose PHC another domain uses does not look at
  what the interface supports: here the interface of the second domain has no software time stamping.
\<close>

lemma unsupported_software_stamps:
  "\<exists>s. script_create bonded_env two_domains = Some s \<and>
    sc_commands s ! 4 = get_ptp4l_command (tm_ptp4l two_domains) (link_path two_domains 2 ''.conf'') [''eth1''] False \<and>
    te_ts_info bonded_env ''eth1'' = Some (0x45, 3) \<and> 0x45 AND SOF_SW \<noteq> SOF_SW"
  by (rule two_domains_script) (auto simp: bonded_env_def SOF_SW_def)

subsection \<open>No interface is left out\<close>

lemma cluster_covers: "(i, p) \<in> set l \<Longrightarrow> \<exists>ifs. (ifs, p) \<in> set (cluster l) \<and> i \<in> set ifs"
proof (induction l rule: cluster.induct)
  case (2 j q rest)
  show ?case
  proof (cases "q \<ge> 0 \<and> p = q")
    case True
    then show ?thesis using 2(3) by force
  next
    case False
    show ?thesis
    proof (cases "q \<ge> 0")
      case True
      then show ?thesis using 2(1) [OF True] 2(3) False by auto
    next
      case neg: False
      then show ?thesis using 2(2) [OF neg] 2(3) by (cases "(i, p) = (j, q)") auto
    qed
  qed
qed simp

lemma usable_phcs_covers:
  "usable_phcs e phcs is = Some l \<Longrightarrow> i \<in> set is \<Longrightarrow> \<exists>p. (i, p) \<in> set l \<and> usable_phc e phcs i = Some p"
  by (induction "is" arbitrary: l) (auto split: option.splits)

lemma plan_covers:
  "plan e phcs ss = Some es \<Longrightarrow> PTP_DOMAIN d \<in> set ss \<Longrightarrow> i \<in> set (pd_interfaces d) \<Longrightarrow>
    te_ts_info e (ts_interface e i) = Some (flags, phc) \<Longrightarrow> phc \<noteq> - 2 \<Longrightarrow> \<exists>ifs p. Link d ifs p \<in> set es \<and> i \<in> set ifs"
proof (induction e phcs ss arbitrary: es rule: plan.induct)
  case (3 e phcs s ss)
  then obtain l es' where l: "usable_phcs e phcs (pd_interfaces s) = Some l"
    and es': "plan e (phcs @ hw_phcs (links_of s l)) ss = Some es'" and es: "es = links_of s l @ es'"
    by (auto split: option.splits)
  show ?case
  proof (cases "d = s")
    case True
    then obtain p where p: "(i, p) \<in> set l" "usable_phc e phcs i = Some p"
      using usable_phcs_covers [OF l] 3 by blast
    have "p \<noteq> - 2"
      using p(2) 3 by (auto simp: usable_phc_def split: if_splits)
    then have "\<exists>ifs. (ifs, p) \<in> set (cluster (filter (\<lambda>(i, phc). phc \<noteq> - 2) l)) \<and> i \<in> set ifs"
      using p(1) by (intro cluster_covers) simp
    then show ?thesis using True es by (force simp: links_of_def)
  next
    case False
    then show ?thesis using 3(1) [OF l es'] 3(3-) es by auto
  qed
qed auto

lemma tagged_link:
  "Link d ifs p \<in> set es \<Longrightarrow>
    \<exists>path g. (get_ptp4l_command (tm_ptp4l config) path ifs (p \<ge> 0), g) \<in> set (tagged_commands config seg grp es)"
proof (induction config seg grp es rule: tagged_commands.induct)
  case (3 config seg grp s ifs' phc es)
  show ?case
  proof (cases "Link d ifs p = Link s ifs' phc")
    case True
    then show ?thesis by (auto simp: link_commands_def)
  next
    case False
    then show ?thesis using 3 by auto
  qed
qed auto

text \<open>
  C19: Every interface of every domain of a script is served: a command of the script runs ptp4l on it, with hardware
  time stamping only if the interface has a PHC.
\<close>

theorem every_interface_served:
  assumes "script_create e config = Some s" and "PTP_DOMAIN d \<in> set (tm_sources config)" and "i \<in> set (pd_interfaces d)"
    and "te_ts_info e (ts_interface e i) = Some (flags, phc)" and "phc \<noteq> - 2"
  shows "\<exists>path ifs hw. get_ptp4l_command (tm_ptp4l config) path ifs hw \<in> set (sc_commands s) \<and> i \<in> set ifs \<and> (hw \<longrightarrow> phc \<ge> 0)"
proof -
  obtain es where plan: "plan e [] (tm_sources config) = Some es" and s: "s = render config es"
    using assms(1) by (auto simp: script_refines_plan_lemma)
  obtain ifs p where link: "Link d ifs p \<in> set es" and i: "i \<in> set ifs"
    using plan_covers [OF plan assms(2-5)] by blast
  obtain path g where "(get_ptp4l_command (tm_ptp4l config) path ifs (p \<ge> 0), g) \<in>
      set (tagged_commands config (tm_first_shm_segment config) 1 es)"
    using tagged_link [OF link] by blast
  then have "get_ptp4l_command (tm_ptp4l config) path ifs (p \<ge> 0) \<in> set (sc_commands s)"
    by (force simp: s render_def)
  moreover have "p \<ge> 0 \<longrightarrow> phc \<ge> 0"
    using plan_info [OF plan link _ i] assms(4) by auto
  ultimately show ?thesis using i by blast
qed

theorem every_interface_served_witness:
  "\<exists>s path ifs hw. script_create bonded_env two_domains = Some s \<and>
    get_ptp4l_command (tm_ptp4l two_domains) path ifs hw \<in> set (sc_commands s) \<and> ''wlan0'' \<in> set ifs \<and> \<not> hw"
proof (rule two_domains_script)
  fix s assume s: "script_create bonded_env two_domains = Some s"
  have "\<exists>d. PTP_DOMAIN d \<in> set (tm_sources two_domains) \<and> ''wlan0'' \<in> set (pd_interfaces d)"
    by (simp add: two_domains_def ex_disj_distrib conj_disj_distribR)
  then obtain d where d: "PTP_DOMAIN d \<in> set (tm_sources two_domains)" "''wlan0'' \<in> set (pd_interfaces d)"
    by blast
  have "te_ts_info bonded_env (ts_interface bonded_env ''wlan0'') = Some (0x1A, - 1)"
    by (simp add: bonded_env_def ts_interface_def)
  from every_interface_served [OF s d this] obtain path ifs hw
    where "get_ptp4l_command (tm_ptp4l two_domains) path ifs hw \<in> set (sc_commands s)" "''wlan0'' \<in> set ifs" "\<not> hw"
    by fastforce
  with s show ?thesis by blast
qed

subsection \<open>Reference identifiers\<close>

lemma show_nat_inj: "show_nat m = show_nat n \<longleftrightarrow> m = n"
  by (metis number_of_show)

lemma digit_no_letter: "d < 10 \<Longrightarrow> (of_char (digit_char d) :: nat) < 58"
  by (simp add: digit_char_def)

lemma show_nat_no_letter: "CHR ''P'' \<notin> set (show_nat n)" "CHR ''T'' \<notin> set (show_nat n)"
proof -
  have "(of_char c :: nat) < 58" if "c \<in> set (show_nat n)" for c
    using show_nat_digits [OF that] digit_no_letter by blast
  then show "CHR ''P'' \<notin> set (show_nat n)" "CHR ''T'' \<notin> set (show_nat n)" by fastforce+
qed

lemma show_nat_length: "n < 1000 \<Longrightarrow> length (show_nat n) = (if n < 10 then 1 else if n < 100 then 2 else 3)"
  by (cases "n < 10"; cases "n < 100")
     (auto simp: show_nat.simps [of n] show_nat.simps [of "n div 10"] show_nat.simps [of "n div 10 div 10"])

lemma refid_cases:
  assumes "number < 1000"
  shows "get_refid ''PTP'' number =
    Some ((if number < 10 then ''PTP'' else if number < 100 then ''PT'' else ''P'') @ show_nat (unat number))"
  using assms by (simp add: get_refid_def)

text \<open>
  The reference identifiers of segments below 1000 have exactly four characters and differ, so chronyd and ntpd can
  tell the sources apart; a segment of 1000 or more, or a negative one, has none.
\<close>

theorem refids_distinct:
  assumes "m < 1000" and "n < 1000" and "m \<noteq> n"
  shows "get_refid ''PTP'' m \<noteq> get_refid ''PTP'' n \<and> length (the (get_refid ''PTP'' m)) = 4 \<and>
    (get_refid ''PTP'' (word_of_int seg) = None \<longleftrightarrow> seg mod 2 ^ 32 \<ge> 1000)"
proof -
  have "get_refid ''PTP'' m \<noteq> get_refid ''PTP'' n"
  proof
    assume "get_refid ''PTP'' m = get_refid ''PTP'' n"
    then have eq: "(if m < 10 then ''PTP'' else if m < 100 then ''PT'' else ''P'') @ show_nat (unat m) =
        (if n < 10 then ''PTP'' else if n < 100 then ''PT'' else ''P'') @ show_nat (unat n)"
      using assms by (simp only: refid_cases option.inject)
    have clash: "CHR ''P'' # show_nat a \<noteq> show_nat b" "CHR ''T'' # CHR ''P'' # show_nat a \<noteq> show_nat b"
        "CHR ''T'' # show_nat a \<noteq> show_nat b" for a b
      using show_nat_no_letter [of b] by (metis list.set_intros(1))+
    from eq have "show_nat (unat m) = show_nat (unat n)"
      by (simp split: if_splits add: clash clash [symmetric])
    with assms(3) show False by (simp add: show_nat_inj word_unat_eq_iff)
  qed
  moreover have "length (the (get_refid ''PTP'' m)) = 4"
  proof -
    have "unat m < 1000" using assms(1) by (simp add: word_less_nat_alt)
    then show ?thesis
      by (simp add: refid_cases [OF assms(1)] show_nat_length word_less_nat_alt)
  qed
  moreover have "get_refid ''PTP'' (word_of_int seg) = None \<longleftrightarrow> seg mod 2 ^ 32 \<ge> 1000"
    by (auto simp: get_refid_def word_less_alt uint_word_of_int)
  ultimately show ?thesis by blast
qed

theorem refids_distinct_witness:
  "get_refid ''PTP'' 7 = Some ''PTP7'' \<and> get_refid ''PTP'' 7 \<noteq> get_refid ''PTP'' 12 \<and> get_refid ''PTP'' (word_of_int (- 1)) = None"
proof -
  have "show_nat 7 = ''7''" by code_simp
  then show ?thesis
    using refids_distinct [of 7 12 "- 1"] by (simp add: get_refid_def)
qed

end
