(* ===== verification/TmRunProps.thy ===== *)
theory TmRunProps
  imports TmRun TmScriptProps
begin

text \<open>
  What the run of a script promises: no process is forgotten, a group is restarted only when it is dead,
  and the program ends when its processes have.
\<close>

subsection \<open>No process is forgotten\<close>

text \<open>The processes that were started and have not been reported by \<open>waitpid\<close> since.\<close>

definition live_step :: "action \<Rightarrow> int set \<Rightarrow> int set" where
  "live_step a ps = (case a of Started i pid \<Rightarrow> insert pid ps - {0} | Reaped pid \<Rightarrow> ps - {pid} | _ \<Rightarrow> ps)"

definition live :: "action list \<Rightarrow> int set" where
  "live t = fold live_step t {}"

lemma live_snoc [simp]: "live (t @ [a]) = live_step a (live t)"
  by (simp add: live_def)

definition run_inv :: "nat \<Rightarrow> run \<Rightarrow> bool" where
  "run_inv n r \<longleftrightarrow> length (rn_pids r) = n \<and> live (rn_trace r) = set (rn_pids r) - {0}"

lemma run_inv_act: "run_inv n r \<Longrightarrow> (\<And>i p. a \<noteq> Started i p) \<Longrightarrow> (\<And>p. a \<noteq> Reaped p) \<Longrightarrow> run_inv n (act a r)"
  by (cases a) (auto simp: run_inv_def act_def live_step_def)

lemma set_update_free: "i < length xs \<Longrightarrow> xs ! i = (0::int) \<Longrightarrow> set (xs[i := x]) - {0} = insert x (set xs - {0}) - {0}"
proof (intro subset_antisym subsetI)
  fix y assume i: "i < length xs" "xs ! i = 0" and y: "y \<in> insert x (set xs - {0}) - {0}"
  show "y \<in> set (xs[i := x]) - {0}"
  proof (cases "y = x")
    case False
    then obtain j where "j < length xs" "xs ! j = y" using y by (auto simp: in_set_conv_nth)
    moreover have "j \<noteq> i" using calculation i y by auto
    ultimately have "xs[i := x] ! j = y" "j < length (xs[i := x])" by auto
    then have "y \<in> set (xs[i := x])" by (metis nth_mem)
    then show ?thesis using y by simp
  qed (use i y in \<open>simp add: set_update_memI\<close>)
next
  fix y assume "y \<in> set (xs[i := x]) - {0}"
  then show "y \<in> insert x (set xs - {0}) - {0}" using set_update_subset_insert [of xs i x] by blast
qed

lemma run_inv_start:
  "run_inv n r \<Longrightarrow> i < n \<Longrightarrow> rn_pids r ! i = 0 \<Longrightarrow> run_inv n (start_program e i r)"
  by (simp add: run_inv_def start_program_def act_def Let_def live_step_def set_update_free)

lemma run_inv_reap: "run_inv n r \<Longrightarrow> run_inv n (reap pid r)"
  by (auto simp: run_inv_def reap_def act_def live_step_def)

lemma run_inv_reaps: "run_inv n r \<Longrightarrow> run_inv n (fold reap pids r)"
  by (induction pids arbitrary: r) (auto intro: run_inv_reap)

lemma start_program_pids: "rn_pids (start_program e i r) = (rn_pids r)[i := re_spawn e (rn_starts r)]"
  by (simp add: start_program_def act_def Let_def)

lemma act_simps [simp]:
  "rn_pids (act a r) = rn_pids r" "rn_quit (act a r) = rn_quit r" "rn_ret (act a r) = rn_ret r"
  "rn_trace (act a r) = rn_trace r @ [a]"
  by (simp_all add: act_def)

lemma run_inv_renew: "run_inv n r \<Longrightarrow> i < n \<Longrightarrow> run_inv n (renew e running i r)"
  by (auto simp: renew_def Let_def intro!: run_inv_act run_inv_start)

lemma run_inv_renews: "run_inv n r \<Longrightarrow> \<forall>i\<in>set is. i < n \<Longrightarrow> run_inv n (fold (renew e running) is r)"
  by (induction "is" arbitrary: r) (auto intro: run_inv_renew)

lemma run_inv_ret: "run_inv n (r\<lparr>rn_ret := x\<rparr>) = run_inv n r" "run_inv n (r\<lparr>rn_quit := q\<rparr>) = run_inv n r"
  by (simp_all add: run_inv_def)

lemma run_inv_groups: "run_inv (length (sc_commands s)) r \<Longrightarrow> run_inv (length (sc_commands s)) (check_groups e s now grps r)"
proof (induction e s now grps r rule: check_groups.induct)
  case (2 e s now grp grps r)
  let ?r = "fold (renew e (list_ex (\<lambda>i. rn_pids r ! i \<noteq> 0) (members s grp))) (members s grp) r"
  have "run_inv (length (sc_commands s)) ?r"
    by (rule run_inv_renews [OF 2(3)]) (simp add: members_def)
  then show ?case
    using 2 by (auto simp: Let_def run_inv_ret intro!: run_inv_act)
qed simp

lemma run_inv_kill: "run_inv n r \<Longrightarrow> run_inv n (kill_all r)"
proof -
  have "run_inv n r \<Longrightarrow> run_inv n (fold (\<lambda>pid r. if pid > 0 then act (Kill pid) r else r) ps r)" for ps
    by (induction ps arbitrary: r) (auto intro: run_inv_act)
  then show "run_inv n r \<Longrightarrow> run_inv n (kill_all r)" by (simp add: kill_all_def)
qed

lemma run_inv_event: "run_inv (length (sc_commands s)) r \<Longrightarrow> run_inv (length (sc_commands s)) (fst (on_event e s ev r))"
  by (cases ev) (auto simp: Let_def run_inv_ret intro: run_inv_kill run_inv_groups run_inv_reaps)

lemma run_inv_events: "run_inv (length (sc_commands s)) r \<Longrightarrow> run_inv (length (sc_commands s)) (fst (on_events e s evs r))"
  using run_inv_event by (induction evs arbitrary: r) (auto split: prod.splits, (metis fst_conv)+)

lemma run_inv_starts:
  "run_inv n r \<Longrightarrow> distinct is \<Longrightarrow> \<forall>i\<in>set is. i < n \<and> rn_pids r ! i = 0 \<Longrightarrow> run_inv n (start_programs e is r)"
proof (induction "is" arbitrary: r)
  case (Cons i "is")
  have r': "run_inv n (start_program e i r)"
    using Cons by (intro run_inv_start) auto
  moreover have "run_inv n (start_programs e is (start_program e i r))"
    using Cons.prems by (intro Cons.IH r') (auto simp: start_program_pids, metis nth_list_update_neq)
  ultimately show ?case
    by (auto simp: Let_def intro!: run_inv_act)
qed simp

lemma run_inv_started: "run_inv (length (sc_commands s)) (started e s)"
  unfolding started_def by (rule run_inv_starts) (auto simp: run_inv_def live_def)

lemma event_ends: "on_event e s ev r = (r', True) \<Longrightarrow> ev \<noteq> WaitFailed \<Longrightarrow> rn_quit r' \<and> (\<forall>p\<in>set (rn_pids r'). p = 0)"
  by (cases ev) (auto simp: Let_def list_all_iff split: if_splits)

lemma events_end:
  "on_events e s evs r = (r', True) \<Longrightarrow> WaitFailed \<notin> set evs \<Longrightarrow> rn_quit r' \<and> (\<forall>p\<in>set (rn_pids r'). p = 0)"
  by (induction evs arbitrary: r) (auto split: prod.splits if_splits dest: event_ends)

text \<open>
  C10: timemaster ends only when all its processes have: if \<open>script_run\<close> returns, and no wait for a signal failed,
  every process that it started has been reported as terminated, whatever signals came in whatever order, and
  whichever processes were restarted meanwhile.
\<close>

theorem ends_after_its_processes:
  assumes "script_run e s evs = (Some status, trace)" and "WaitFailed \<notin> set evs"
  shows "live trace = {}"
proof -
  have "live [] = {}" by (simp add: live_def)
  moreover have "live (rn_trace r) = {}" if "on_events e s evs (started e s) = (r, True)" for r
    using run_inv_events [OF run_inv_started, of s e evs e] events_end [OF that assms(2)] that
    by (auto simp: run_inv_def)
  ultimately show ?thesis
    using assms(1) by (auto simp: script_run_def split: if_splits prod.splits)
qed

definition ntp_only :: timemaster_config where
  "ntp_only = tm_defaults\<lparr>tm_sources :=
     [NTP_SERVER \<lparr>ns_address = ''ntp.org'', ns_minpoll = 6, ns_maxpoll = 10, ns_iburst = 1, ns_ntp_options = []\<rparr>]\<rparr>"

definition no_interfaces :: tm_env where
  "no_interfaces = \<lparr>te_ts_device = Map.empty, te_ts_info = Map.empty\<rparr>"

definition good_system :: run_env where
  "good_system = \<lparr>re_no_entry = (\<lambda>_. True), re_mkdir = (\<lambda>_. True), re_fopen = (\<lambda>_. True), re_fwrite = (\<lambda>_. True),
     re_sigprocmask = True, re_spawn = (\<lambda>k. 100 + int k), re_start_time = 0\<rparr>"

definition four_programs :: script where
  "four_programs = \<lparr>sc_configs = [\<lparr>cf_path = ''/run/ntp.conf'', cf_content = ''server a''\<rparr>],
     sc_commands = [[''ntpd''], [''ptp4l''], [''phc2sys''], [''ptp4l'']], sc_command_groups = [0, 1, 1, 2],
     sc_restart_groups = 1, sc_no_restart_group = 0\<rparr>"

lemma four_programs_run:
  "script_run good_system four_programs
     [ChildSignal 5 [102], ChildSignal 6 [101], WaitInterrupted, OtherSignal, ChildSignal 9 [104, 105, 103], ChildSignal 9 [100]] =
     (Some 0, [Started 0 100, Started 1 101, Started 2 102, Started 3 103, Reaped 102, Kill 101, Reaped 101, Started 1 104,
        SleepOne, Started 2 105, SleepOne, Kill 100, Kill 104, Kill 105, Kill 103, Reaped 104, Reaped 105, Reaped 103, Reaped 100])"
  by code_simp

theorem ends_after_its_processes_witness:
  "\<exists>evs trace. script_run good_system four_programs evs = (Some 0, trace) \<and> Started 1 104 \<in> set trace \<and> live trace = {}"
  by (rule exI, rule exI, rule conjI [OF four_programs_run], rule conjI, simp,
      rule ends_after_its_processes [OF four_programs_run], simp)

subsection \<open>Restarts\<close>

lemma renew_other: "j \<noteq> i \<Longrightarrow> rn_pids (renew e running i r) ! j = rn_pids r ! j"
  by (auto simp: renew_def Let_def start_program_pids)

lemma renews_other: "j \<notin> set is \<Longrightarrow> rn_pids (fold (renew e running) is r) ! j = rn_pids r ! j"
  by (induction "is" arbitrary: r) (auto simp: renew_other)

lemma renew_trace:
  "\<exists>new. rn_trace (renew e running i r) = rn_trace r @ new \<and> (\<forall>j pid. Started j pid \<in> set new \<longrightarrow> j = i \<and> \<not> running)"
  by (auto simp: renew_def Let_def start_program_def act_def)

lemma renews_trace:
  "\<exists>new. rn_trace (fold (renew e running) is r) = rn_trace r @ new \<and>
    (\<forall>j pid. Started j pid \<in> set new \<longrightarrow> j \<in> set is \<and> \<not> running)"
proof (induction "is" arbitrary: r)
  case (Cons i "is")
  obtain new where new: "rn_trace (renew e running i r) = rn_trace r @ new"
      "\<forall>j pid. Started j pid \<in> set new \<longrightarrow> j = i \<and> \<not> running"
    using renew_trace by blast
  obtain new' where "rn_trace (fold (renew e running) is (renew e running i r)) = rn_trace (renew e running i r) @ new'"
      "\<forall>j pid. Started j pid \<in> set new' \<longrightarrow> j \<in> set is \<and> \<not> running"
    using Cons by blast
  then show ?case
    using new by (intro exI [of _ "new @ new'"]) auto
qed simp

lemma kill_all_trace:
  "\<exists>new. rn_trace (kill_all r) = rn_trace r @ new \<and> (\<forall>i pid. Started i pid \<notin> set new) \<and>
    (\<forall>p\<in>set (rn_pids r). p > 0 \<longrightarrow> Kill p \<in> set new)"
proof -
  have "rn_trace (fold (\<lambda>pid r. if pid > 0 then act (Kill pid) r else r) ps r) = rn_trace r @ map Kill (filter (\<lambda>p. p > 0) ps)" for ps
    by (induction ps arbitrary: r) auto
  then show ?thesis by (auto simp: kill_all_def)
qed

lemma kill_all_keeps: "rn_pids (kill_all r) = rn_pids r" "rn_quit (kill_all r) = rn_quit r"
proof -
  have "rn_pids (fold (\<lambda>pid r. if pid > 0 then act (Kill pid) r else r) ps r) = rn_pids r \<and>
      rn_quit (fold (\<lambda>pid r. if pid > 0 then act (Kill pid) r else r) ps r) = rn_quit r" for ps
    by (induction ps arbitrary: r) auto
  then show "rn_pids (kill_all r) = rn_pids r" "rn_quit (kill_all r) = rn_quit r" by (auto simp: kill_all_def)
qed

lemma reaps_trace: "rn_trace (fold reap pids r) = rn_trace r @ map Reaped pids"
  by (induction pids arbitrary: r) (auto simp: reap_def)

lemma reaps_quit: "rn_quit (fold reap pids r) = rn_quit r"
  by (induction pids arbitrary: r) (auto simp: reap_def)

text \<open>When a program may be started again, given the processes before.\<close>

definition may_restart :: "run_env \<Rightarrow> script \<Rightarrow> int \<Rightarrow> int list \<Rightarrow> nat \<Rightarrow> bool" where
  "may_restart e s now pids i \<longleftrightarrow>
    i < length (sc_commands s) \<and> sc_command_groups s ! i \<noteq> sc_no_restart_group s \<and> now - re_start_time e > 1 \<and>
    sc_restart_groups s \<noteq> 0 \<and> (\<forall>j\<in>set (members s (sc_command_groups s ! i)). pids ! j = 0)"

lemma check_groups_trace:
  "distinct grps \<Longrightarrow> \<exists>new. rn_trace (check_groups e s now grps r) = rn_trace r @ new \<and>
    (\<forall>i pid. Started i pid \<in> set new \<longrightarrow> may_restart e s now (rn_pids r) i \<and> sc_command_groups s ! i \<in> set grps)"
proof (induction e s now grps r rule: check_groups.induct)
  case (2 e s now grp grps r)
  let ?dead = "list_ex (\<lambda>i. rn_pids r ! i = 0) (members s grp)"
  let ?run = "list_ex (\<lambda>i. rn_pids r ! i \<noteq> 0) (members s grp)"
  let ?stop = "grp = sc_no_restart_group s \<or> now - re_start_time e \<le> 1 \<or> sc_restart_groups s = 0"
  show ?case
  proof (cases "?dead \<and> \<not> ?stop")
    case True
    let ?r = "fold (renew e ?run) (members s grp) r"
    obtain new where new: "rn_trace ?r = rn_trace r @ new"
        "\<forall>j pid. Started j pid \<in> set new \<longrightarrow> j \<in> set (members s grp) \<and> \<not> ?run"
      using renews_trace by blast
    obtain new' where new': "rn_trace (check_groups e s now grps ?r) = rn_trace ?r @ new'"
        "\<forall>i pid. Started i pid \<in> set new' \<longrightarrow> may_restart e s now (rn_pids ?r) i \<and> sc_command_groups s ! i \<in> set grps"
      using 2(2) [OF refl refl] True 2(3) by auto
    have early: "may_restart e s now (rn_pids r) i \<and> sc_command_groups s ! i = grp" if "Started i pid \<in> set new" for i pid
      using new(2) that True by (auto simp: may_restart_def members_def list_ex_iff)
    have later: "may_restart e s now (rn_pids r) i \<and> sc_command_groups s ! i \<in> set grps" if "Started i pid \<in> set new'" for i pid
    proof -
      have i: "may_restart e s now (rn_pids ?r) i" "sc_command_groups s ! i \<in> set grps"
        using new'(2) that by auto
      have "rn_pids ?r ! j = rn_pids r ! j" if "j \<in> set (members s (sc_command_groups s ! i))" for j
        using i(2) that 2(3) by (intro renews_other) (auto simp: members_def)
      then show ?thesis using i by (simp add: may_restart_def)
    qed
    show ?thesis
      using True new(1) new'(1) early later by (intro exI [of _ "new @ new'"]) (auto simp: Let_def)
  next
    case False
    then show ?thesis
      using 2(1) [OF refl refl] 2(3) by (auto simp: Let_def)
  qed
qed simp

lemma event_trace:
  assumes "on_event e s ev r = (r', ended)"
  shows "\<exists>new. rn_trace r' = rn_trace r @ new \<and>
    (\<forall>i pid. Started i pid \<in> set new \<longrightarrow>
      (\<exists>now pids. ev = ChildSignal now pids \<and> \<not> rn_quit r \<and> may_restart e s now (rn_pids (fold reap pids r)) i))"
proof (cases ev)
  case OtherSignal
  then show ?thesis using assms kill_all_trace [of "r\<lparr>rn_quit := True\<rparr>"] by (auto split: if_splits)
next
  case (ChildSignal now pids)
  let ?r = "fold reap pids r"
  obtain new' where new': "rn_trace (check_groups e s now [0..<length (sc_commands s)] ?r) = rn_trace ?r @ new'"
      "\<forall>i pid. Started i pid \<in> set new' \<longrightarrow> may_restart e s now (rn_pids ?r) i"
    using check_groups_trace [of "[0..<length (sc_commands s)]" e s now ?r] by auto
  show ?thesis
  proof (cases "rn_quit ?r")
    case True
    then have "r' = ?r" using assms ChildSignal by (simp add: Let_def)
    then show ?thesis by (intro exI [of _ "map Reaped pids"]) (auto simp: reaps_trace)
  next
    case False
    then have "r' = check_groups e s now [0..<length (sc_commands s)] ?r" using assms ChildSignal by (simp add: Let_def)
    then show ?thesis
      using new' False ChildSignal by (intro exI [of _ "map Reaped pids @ new'"]) (auto simp: reaps_trace reaps_quit)
  qed
qed (use assms in auto)

text \<open>
  C20: What a signal makes timemaster start is only a program all whose group has terminated, that may be restarted at
  all (not the NTP program's group, restarts enabled) and not in the first second; and nothing is started once
  the program is quitting.
\<close>

theorem restarts_dead_groups:
  assumes "on_event e s ev r = (r', ended)"
  shows "\<exists>new. rn_trace r' = rn_trace r @ new \<and>
    (\<forall>i pid. Started i pid \<in> set new \<longrightarrow>
      (\<exists>now pids. ev = ChildSignal now pids \<and> \<not> rn_quit r \<and> may_restart e s now (rn_pids (fold reap pids r)) i))"
  using assms by (rule event_trace)

theorem restarts_dead_groups_witness:
  "\<exists>r new. fst (on_event good_system four_programs (ChildSignal 6 [101])
       \<lparr>rn_pids = [100, 101, 0, 103], rn_quit = False, rn_ret = 0, rn_starts = 4, rn_trace = []\<rparr>) = r \<and>
     rn_trace r = new \<and> Started 2 105 \<in> set new \<and> may_restart good_system four_programs 6 [100, 0, 0, 103] 2"
proof -
  let ?r = "\<lparr>rn_pids = [100, 101, 0, 103], rn_quit = False, rn_ret = 0, rn_starts = 4, rn_trace = []\<rparr>"
  let ?ev = "ChildSignal 6 [101]"
  have r: "on_event good_system four_programs ?ev ?r =
    (\<lparr>rn_pids = [100, 104, 105, 103], rn_quit = False, rn_ret = 0, rn_starts = 6,
      rn_trace = [Reaped 101, Started 1 104, SleepOne, Started 2 105, SleepOne]\<rparr>, False)"
    by code_simp
  have p: "rn_pids (fold reap [101] ?r) = [100, 0, 0, 103]"
    by code_simp
  from restarts_dead_groups [OF r] have "may_restart good_system four_programs 6 [100, 0, 0, 103] 2"
    unfolding p [symmetric] by auto
  then show ?thesis using r by auto
qed

subsection \<open>The end\<close>

text \<open>What the remaining events report.\<close>

definition reported :: "event list \<Rightarrow> int set" where
  "reported evs = \<Union> (set (map (\<lambda>ev. case ev of ChildSignal now pids \<Rightarrow> set pids | _ \<Rightarrow> {}) evs))"

lemma reaps_pids: "set (rn_pids (fold reap pids r)) - {0} = set (rn_pids r) - {0} - set pids"
  by (induction pids arbitrary: r) (auto simp: reap_def)

lemma quit_ends:
  "rn_quit r \<Longrightarrow> set (rn_pids r) - {0} \<noteq> {} \<Longrightarrow> set (rn_pids r) - {0} \<subseteq> reported evs \<Longrightarrow> snd (on_events e s evs r)"
proof (induction evs arbitrary: r)
  case (Cons ev evs)
  show ?case
  proof (cases ev)
    case (ChildSignal now pids)
    let ?r = "fold reap pids r"
    have left: "set (rn_pids ?r) - {0} \<subseteq> reported evs"
      using Cons.prems(3) ChildSignal by (auto simp: reaps_pids reported_def)
    show ?thesis
    proof (cases "set (rn_pids ?r) - {0} = {}")
      case True
      then show ?thesis using Cons.prems(1) ChildSignal by (auto simp: Let_def reaps_quit list_all_iff)
    next
      case False
      then have "\<not> list_all (\<lambda>p. p = 0) (rn_pids ?r)" by (auto simp: list_all_iff)
      then show ?thesis
        using Cons.IH [OF _ False left] Cons.prems(1) ChildSignal by (simp add: Let_def reaps_quit)
    qed
  qed (use Cons in \<open>auto simp: reported_def\<close>)
qed (simp add: reported_def)

lemma quit_event:
  assumes "rn_quit r" and "on_event e s ev r = (r', ended)"
  shows "rn_quit r' \<and> (\<exists>new. rn_trace r' = rn_trace r @ new \<and> (\<forall>i pid. Started i pid \<notin> set new))"
proof
  show "rn_quit r'"
    using assms by (cases ev) (auto simp: Let_def reaps_quit split: if_splits)
  show "\<exists>new. rn_trace r' = rn_trace r @ new \<and> (\<forall>i pid. Started i pid \<notin> set new)"
    using event_trace [OF assms(2)] assms(1) by blast
qed

lemma quit_events:
  "rn_quit r \<Longrightarrow> on_events e s evs r = (r', ended) \<Longrightarrow>
    \<exists>new. rn_trace r' = rn_trace r @ new \<and> (\<forall>i pid. Started i pid \<notin> set new)"
proof (induction evs arbitrary: r)
  case (Cons ev evs)
  obtain r1 b where r1: "on_event e s ev r = (r1, b)" by fastforce
  obtain new where new: "rn_quit r1" "rn_trace r1 = rn_trace r @ new" "\<forall>i pid. Started i pid \<notin> set new"
    using quit_event [OF Cons.prems(1) r1] by blast
  show ?case
  proof (cases b)
    case True
    then show ?thesis using Cons.prems r1 new by auto
  next
    case False
    then obtain new' where "rn_trace r' = rn_trace r1 @ new'" "\<forall>i pid. Started i pid \<notin> set new'"
      using Cons.IH [OF new(1)] Cons.prems(2) r1 by auto
    then show ?thesis using new by (intro exI [of _ "new @ new'"]) auto
  qed
qed simp

text \<open>
  C11: Orderly shutdown: if any process is alive when the first termination signal comes, in any state of the run,
  then every process that is alive gets SIGTERM, nothing is started any more, and the program ends once SIGCHLD has
  reported them all.  (Without a live process it would hang, as is shown below.)
\<close>

theorem orderly_shutdown:
  assumes "on_events e s evs (started e s) = (r, False)" and "\<not> rn_quit r"
    and "live (rn_trace r) \<noteq> {}" and "live (rn_trace r) \<subseteq> reported evs'"
    and "on_events e s (OtherSignal # evs') r = (r', ended)"
  shows "ended \<and> (\<exists>new. rn_trace r' = rn_trace r @ new \<and> (\<forall>p\<in>live (rn_trace r). p > 0 \<longrightarrow> Kill p \<in> set new) \<and>
    (\<forall>i pid. Started i pid \<notin> set new))"
proof -
  let ?k = "kill_all (r\<lparr>rn_quit := True\<rparr>)"
  have inv: "live (rn_trace r) = set (rn_pids r) - {0}"
    using run_inv_events [OF run_inv_started, of s e evs e] assms(1) by (simp add: run_inv_def)
  obtain new where new: "rn_trace ?k = rn_trace r @ new" "\<forall>i pid. Started i pid \<notin> set new"
      "\<forall>p\<in>set (rn_pids r). p > 0 \<longrightarrow> Kill p \<in> set new"
    using kill_all_trace [of "r\<lparr>rn_quit := True\<rparr>"] by auto
  have k: "rn_quit ?k" "rn_pids ?k = rn_pids r"
    by (simp_all add: kill_all_keeps)
  have ev: "on_events e s evs' ?k = (r', ended)"
    using assms(2,5) by simp
  then have "ended"
    using quit_ends [OF k(1), of evs' e s] assms(3,4) inv k(2) by simp
  moreover obtain new' where "rn_trace r' = rn_trace ?k @ new'" "\<forall>i pid. Started i pid \<notin> set new'"
    using quit_events [OF k(1) ev] by blast
  ultimately show ?thesis
    using new inv by (intro conjI exI [of _ "new @ new'"]) auto
qed

theorem orderly_shutdown_witness:
  "\<exists>r' ended. on_events good_system four_programs [OtherSignal, WaitInterrupted, ChildSignal 9 [101, 103], ChildSignal 9 [100, 102]]
     (started good_system four_programs) = (r', ended) \<and> ended \<and> Kill 103 \<in> set (rn_trace r')"
proof -
  let ?evs = "[WaitInterrupted, ChildSignal 9 [101, 103], ChildSignal 9 [100, 102]]"
  let ?r = "started good_system four_programs"
  obtain r' ended where r': "on_events good_system four_programs (OtherSignal # ?evs) ?r = (r', ended)"
    by fastforce
  have l: "live (rn_trace ?r) = {100, 101, 102, 103}" "rn_quit ?r = False"
    by (simp_all add: started_def four_programs_def good_system_def upt_rec start_program_def act_def Let_def live_def live_step_def)
       (auto)
  have "on_events good_system four_programs [] ?r = (?r, False)" by simp
  from orderly_shutdown [OF this _ _ _ r'] l have "ended \<and> Kill 103 \<in> set (rn_trace r')"
    by (fastforce simp: reported_def)
  then show ?thesis using r' by auto
qed

lemma plan_servers:
  "plan e phcs ss = Some es \<Longrightarrow> \<forall>d. PTP_DOMAIN d \<notin> set ss \<Longrightarrow> tagged_commands config seg grp es = []"
  by (induction e phcs ss arbitrary: es rule: plan.induct) auto

lemma ntp_only_script:
  assumes "script_create te config = Some s" and "\<forall>d. PTP_DOMAIN d \<notin> set (tm_sources config)"
  shows "\<exists>c. sc_commands s = [c] \<and> sc_command_groups s = [0] \<and> sc_no_restart_group s = 0"
  using assms by (auto simp: script_refines_plan_lemma render_def dest: plan_servers)

lemma no_child_signals:
  "set evs \<subseteq> {OtherSignal, WaitInterrupted} \<Longrightarrow> rn_pids r = [0] \<Longrightarrow>
    \<exists>q. on_events e s evs r = (r\<lparr>rn_quit := q\<rparr>, False)"
proof (induction evs arbitrary: r)
  case Nil
  then show ?case by (intro exI [of _ "rn_quit r"]) simp
next
  case (Cons ev evs)
  have "on_event e s ev r = (r\<lparr>rn_quit := rn_quit r \<or> ev = OtherSignal\<rparr>, False)"
    using Cons.prems by (auto simp: kill_all_def)
  then show ?case
    using Cons.IH [of "r\<lparr>rn_quit := rn_quit r \<or> ev = OtherSignal\<rparr>"] Cons.prems by auto
qed

text \<open>
  C40: With only the NTP program to run, timemaster does not end when that program dies: it sends itself SIGTERM, has
  no process left to end, and waits for a SIGCHLD that no process can cause, whatever other signals come.
\<close>

theorem hangs_without_processes:
  assumes "script_create te config = Some s" and "\<forall>d. PTP_DOMAIN d \<notin> set (tm_sources config)"
    and "create_config_files e (sc_configs s)" and "re_sigprocmask e" and "re_spawn e 0 = pid" and "pid > 0"
    and "set evs \<subseteq> {OtherSignal, WaitInterrupted}"
  shows "script_run e s (ChildSignal now [pid] # evs) = (None, [Started 0 pid, Reaped pid, KillSelf])"
proof -
  obtain c where s: "sc_commands s = [c]" "sc_command_groups s = [0]" "sc_no_restart_group s = 0"
    using ntp_only_script [OF assms(1,2)] by blast
  let ?r = "\<lparr>rn_pids = [0], rn_quit = False, rn_ret = 1, rn_starts = 1, rn_trace = [Started 0 pid, Reaped pid, KillSelf]\<rparr>"
  have "on_event e s (ChildSignal now [pid]) (started e s) = (?r, False)"
    using assms(5,6) by (simp add: started_def s start_program_def act_def Let_def reap_def members_def)
  moreover obtain q where "on_events e s evs ?r = (?r\<lparr>rn_quit := q\<rparr>, False)"
    using no_child_signals [OF assms(7), of ?r] by auto
  ultimately show ?thesis
    using assms(3,4) s by (simp add: script_run_def)
qed

theorem hangs_without_processes_witness:
  "\<exists>s. script_create no_interfaces ntp_only = Some s \<and>
    script_run good_system s [ChildSignal 3600 [100], OtherSignal, OtherSignal] = (None, [Started 0 100, Reaped 100, KillSelf])"
proof -
  have "\<exists>s. script_create no_interfaces ntp_only = Some s \<and> create_config_files good_system (sc_configs s)"
    by (simp add: script_refines_plan_lemma ntp_only_def tm_defaults_def render_def create_config_files_def
        create_config_file_def good_system_def init_program_config_def ntp_program_of_def extend_config_string_def)
  then obtain s where s: "script_create no_interfaces ntp_only = Some s" "create_config_files good_system (sc_configs s)"
    by blast
  have "script_run good_system s [ChildSignal 3600 [100], OtherSignal, OtherSignal] = (None, [Started 0 100, Reaped 100, KillSelf])"
    by (rule hangs_without_processes [OF s(1) _ s(2)]) (simp_all add: ntp_only_def good_system_def)
  with s(1) show ?thesis by blast
qed

end
