(* ===== verification/PmcProps.thy ===== *)
theory PmcProps
  imports PmcShow
begin

text \<open>
  What the client promises: it reads the settings that it prints, the abbreviations of the names stand
  for one name only, and what it sets arrives at the clock.
\<close>

subsection \<open>Reading what was printed\<close>

definition stops :: "nat \<Rightarrow> string \<Rightarrow> bool" where
  "stops base s \<longleftrightarrow> (case s of [] \<Rightarrow> True | c # _ \<Rightarrow> \<not> is_digit base c)"

lemma stops_simps [simp]: "stops base []" "stops base (CHR 0x0A # s)"
  by (simp_all add: stops_def is_digit_def digit_value_def)

lemma takeWhile_stops: "\<forall>c\<in>set ds. is_digit base c \<Longrightarrow> stops base s \<Longrightarrow> takeWhile (is_digit base) (ds @ s) = ds"
  by (cases s) (auto simp: stops_def takeWhile_append)

lemma show_nat_is_digit: "\<forall>c\<in>set (show_nat n). is_digit 10 c"
  using show_nat_digits by fastforce

lemma show_hex_digits: "c \<in> set (show_hex n) \<Longrightarrow> \<exists>d<16. c = digit_char d"
proof (induction n rule: show_hex.induct)
  case (1 n)
  have m: "\<exists>d<16. digit_char (n mod 16) = digit_char d" by (intro exI [of _ "n mod 16"]) simp
  from 1 show ?case by (subst (asm) (2) show_hex.simps) (auto split: if_splits simp: m)
qed

lemma number_of_hex [simp]: "number_of 16 (show_hex n) = n"
proof (induction n rule: show_hex.induct)
  case (1 n)
  have "number_of 16 [digit_char d] = d" if "d < 16" for d
    using that by (simp add: number_of_def digit_char_value)
  with 1 show ?case by (subst show_hex.simps) (simp add: digit_char_value)
qed

lemma number_of_pad [simp]: "number_of 16 (pad w s) = number_of 16 s"
proof -
  have z: "the (digit_value CHR ''0'') = 0" by (simp add: digit_value_def)
  have "fold (\<lambda>c n. 16 * n + the (digit_value c)) (replicate k CHR ''0'') 0 = 0" for k
    by (induction k) (simp_all add: z)
  then show ?thesis by (simp add: pad_def number_of_def)
qed

lemma pad_hex_is_digit: "\<forall>c\<in>set (pad w (show_hex n)). is_digit 16 c"
  using show_hex_digits [of _ n] by (auto simp: pad_def is_digit_def digit_value_def [of "CHR ''0''"]) (metis is_digit_char is_digit_def)

lemma scan_dec:
  assumes "n < 2 ^ 64" "stops 10 s"
  shows "scan_number 10 0 (show_nat n @ s) = Some (int n, s)"
proof -
  obtain d ds where d: "show_nat n = digit_char d # ds" "d < 10" using show_nat_hd by metis
  note sp = digit_char_special [of d]
  have t: "takeWhile (is_digit 10) (show_nat n @ s) = show_nat n"
    by (rule takeWhile_stops [OF show_nat_is_digit assms(2)])
  have "dropWhile isspace (show_nat n @ s) = show_nat n @ s" "split_sign (show_nat n @ s) = (False, show_nat n @ s)"
    "skip_0x 10 (show_nat n @ s) = 0"
    using sp d by (auto simp: split_sign_def skip_0x_def split: list.split)
  moreover have "int n mod 2 ^ 64 = int n" "\<not> int n > ULONG_MAX" using assms(1) by simp_all
  moreover have "show_nat n \<noteq> []" using d(1) by simp
  ultimately show ?thesis
    by (simp only: scan_number_def Let_def prod.case field_def if_True if_False drop_0) (simp add: t)
qed

lemma scan_dec_word: "LENGTH('a) \<le> 64 \<Longrightarrow> stops 10 s \<Longrightarrow> scan_number 10 0 (show_uint (w :: 'a::len word) @ s) = Some (uint w, s)"
proof -
  assume a: "LENGTH('a) \<le> 64" "stops 10 s"
  have "unat w < 2 ^ LENGTH('a)" by (rule unsigned_less)
  also have "(2::nat) ^ LENGTH('a) \<le> 2 ^ 64" using a(1) by (rule power_increasing) simp
  finally show ?thesis using scan_dec [OF _ a(2), of "unat w"] by (simp add: show_uint_def)
qed

lemma scan_hex:
  assumes "n < 2 ^ 64" "stops 16 s"
  shows "scan_number 16 0 (''0x'' @ pad w (show_hex n) @ s) = Some (int n, s)"
proof -
  let ?d = "pad w (show_hex n)"
  have t: "takeWhile (is_digit 16) (?d @ s) = ?d"
    by (rule takeWhile_stops [OF pad_hex_is_digit assms(2)])
  have "dropWhile isspace (''0x'' @ ?d @ s) = ''0x'' @ ?d @ s" "split_sign (''0x'' @ ?d @ s) = (False, ''0x'' @ ?d @ s)"
    "skip_0x 16 (''0x'' @ ?d @ s) = 2"
    by (simp_all add: isspace_def split_sign_def skip_0x_def)
  moreover have "int n mod 2 ^ 64 = int n" "\<not> int n > ULONG_MAX" using assms(1) by simp_all
  moreover have "?d \<noteq> []" using show_hex.simps [of n] by (auto simp: pad_def split: if_splits)
  ultimately show ?thesis
    by (simp only: scan_number_def Let_def prod.case field_def if_True if_False) (simp add: t)
qed

lemma scan_hex_word: "LENGTH('a) \<le> 64 \<Longrightarrow> stops 16 s \<Longrightarrow> scan_number 16 0 (show_0x k (w :: 'a::len word) @ s) = Some (uint w, s)"
proof -
  assume a: "LENGTH('a) \<le> 64" "stops 16 s"
  have "unat w < 2 ^ LENGTH('a)" by (rule unsigned_less)
  also have "(2::nat) ^ LENGTH('a) \<le> 2 ^ 64" using a(1) by (rule power_increasing) simp
  finally show ?thesis using scan_hex [OF _ a(2), of "unat w" k] by (simp add: show_0x_def)
qed

lemma scan_int_show:
  assumes "LONG_MIN \<le> i" "i \<le> LONG_MAX" "stops 10 s"
  shows "scan_int (show_int i @ s) = Some (i, s)"
proof -
  obtain d ds where d: "show_nat (nat \<bar>i\<bar>) = digit_char d # ds" "d < 10" using show_nat_hd by metis
  note sp = digit_char_special [of d]
  have t: "takeWhile (is_digit 10) (show_nat (nat \<bar>i\<bar>) @ s) = show_nat (nat \<bar>i\<bar>)"
    by (rule takeWhile_stops [OF show_nat_is_digit assms(3)])
  have sign: "split_sign (dropWhile isspace (show_int i @ s)) = (i < 0, show_nat (nat \<bar>i\<bar>) @ s)"
    using sp d by (cases "i < 0") (auto simp: show_int_def split_sign_def isspace_def)
  have "show_nat (nat \<bar>i\<bar>) \<noteq> []" using d(1) by simp
  then show ?thesis using assms(1,2) unfolding scan_int_def sign prod.case t Let_def by simp
qed

text \<open>A line of the reply against the part of a format for it.\<close>

lemma scanf_line:
  assumes "w \<noteq> []" "\<not> isspace (hd w)" "\<forall>c\<in>set sp. isspace c"
  shows "scanf (White # Text w # White # f) (show_line (w @ sp) v @ s) = scanf f (dropWhile isspace (v @ s))"
proof -
  have "dropWhile isspace (show_line (w @ sp) v @ s) = w @ sp @ v @ s"
    using assms(1,2) by (cases w) (simp_all add: show_line_def isspace_def)
  moreover have "dropWhile isspace (sp @ v @ s) = dropWhile isspace (v @ s)" using assms(3) by (induction sp) auto
  ultimately show ?thesis by simp
qed

lemma not_space_digit: "c \<in> set (show_nat n) \<Longrightarrow> \<not> isspace c"
  using show_nat_digits digit_char_special by fastforce

lemma dropWhile_shown [simp]:
  "dropWhile isspace (show_uint w @ s) = show_uint w @ s"
  "dropWhile isspace (show_0x k w @ s) = show_0x k w @ s"
  "dropWhile isspace (show_int i @ s) = show_int i @ s"
  "dropWhile isspace (show_bit x b @ s) = show_bit x b @ s"
  "dropWhile isspace (show_sint w @ s) = show_sint w @ s"
proof -
  have n: "dropWhile isspace (show_nat n @ s) = show_nat n @ s" for n
    using not_space_digit [of "hd (show_nat n)" n] show_nat_hd [of n] by auto
  then show "dropWhile isspace (show_uint w @ s) = show_uint w @ s" "dropWhile isspace (show_int i @ s) = show_int i @ s"
    "dropWhile isspace (show_sint w @ s) = show_sint w @ s"
    by (simp_all add: show_uint_def show_sint_def show_int_def isspace_def)
  show "dropWhile isspace (show_0x k w @ s) = show_0x k w @ s" "dropWhile isspace (show_bit x b @ s) = show_bit x b @ s"
    by (simp_all add: show_0x_def show_bit_def isspace_def)
qed

lemmas dropWhile_shown_end [simp] = dropWhile_shown [where s = "[]", simplified]

lemma shown_flags: "show_int 0 = ''0''" "show_int 1 = ''1''"
  by code_simp+

lemma scanf_shown:
  "LENGTH('a) \<le> 64 \<Longrightarrow> stops 10 s \<Longrightarrow> scanf (Unsigned 10 # f) (show_uint (w :: 'a::len word) @ s) = uint w # scanf f s"
  "LENGTH('a) \<le> 64 \<Longrightarrow> stops 16 s \<Longrightarrow> scanf (Unsigned 16 # f) (show_0x k (w :: 'a::len word) @ s) = uint w # scanf f s"
  "stops 10 s \<Longrightarrow> scanf (Signed # f) (show_sint (u :: i16) @ s) = sint u # scanf f s"
  "stops 10 s \<Longrightarrow> scanf (Signed # f) (show_bit x b @ s) = (if x AND b \<noteq> 0 then 1 else 0) # scanf f s"
proof -
  show "LENGTH('a) \<le> 64 \<Longrightarrow> stops 10 s \<Longrightarrow> scanf (Unsigned 10 # f) (show_uint (w :: 'a::len word) @ s) = uint w # scanf f s"
    "LENGTH('a) \<le> 64 \<Longrightarrow> stops 16 s \<Longrightarrow> scanf (Unsigned 16 # f) (show_0x k (w :: 'a::len word) @ s) = uint w # scanf f s"
    by (simp_all add: scan_dec_word scan_hex_word)
  assume s: "stops 10 s"
  have "- (2 ^ 15) \<le> sint u" "sint u < 2 ^ 15" using sint_ge [of u] sint_lt [of u] by simp_all
  with s show "scanf (Signed # f) (show_sint (u :: i16) @ s) = sint u # scanf f s"
    by (simp add: show_sint_def scan_int_show)
  have "show_bit x b = show_int (if x AND b \<noteq> 0 then 1 else 0)" by (simp add: show_bit_def shown_flags)
  with s show "scanf (Signed # f) (show_bit x b @ s) = (if x AND b \<noteq> 0 then 1 else 0) # scanf f s"
    by (simp add: scan_int_show)
qed


lemma scanf_word: "w \<noteq> [] \<Longrightarrow> \<forall>c\<in>set w. \<not> isspace c \<Longrightarrow> scanf (White # SkipWord # f) (w @ CHR '' '' # s) = scanf f (CHR '' '' # s)"
proof -
  assume w: "w \<noteq> []" "\<forall>c\<in>set w. \<not> isspace c"
  have "takeWhile (\<lambda>c. \<not> isspace c) (w @ CHR '' '' # s) = w"
    using w(2) by (simp add: takeWhile_append isspace_def)
  moreover have "dropWhile isspace (w @ CHR '' '' # s) = w @ CHR '' '' # s" using w by (cases w) auto
  ultimately show ?thesis using w(1) by (simp add: scan_word_def field_def)
qed

lemma scanf_space: "isspace c \<Longrightarrow> scanf (White # f) (c # s) = scanf (White # f) s"
  by simp

lemma scanf_shown_end:
  "LENGTH('a) \<le> 64 \<Longrightarrow> scanf (Unsigned 10 # f) (show_uint (w :: 'a::len word)) = uint w # scanf f []"
  "LENGTH('a) \<le> 64 \<Longrightarrow> scanf (Unsigned 16 # f) (show_0x k (w :: 'a::len word)) = uint w # scanf f []"
  using scanf_shown(1) [of "[]" f w] scanf_shown(2) [of "[]" f k w] by (simp_all del: scanf.simps)

lemma scanf_settings:
  "scanf gsn_format (''SET '' @ show_gsn bo d) =
     [uint (octet d 0), uint (octet d 1), uint (rd16 bo d 2), sint (rd16 bo d 4)] @
     map (\<lambda>f. if octet d 6 AND f \<noteq> 0 then 1 else 0) [LEAP_61, LEAP_59, UTC_OFF_VALID, PTP_TIMESCALE, TIME_TRACEABLE, FREQ_TRACEABLE] @
     [uint (octet d 7)]"
proof -
  have prefix: "scanf (White # SkipWord # White # SkipWord # White # f) (''SET '' @ ''GRANDMASTER_SETTINGS_NP '' @ s) = scanf (White # f) s"
    for f s
    using scanf_word [of "''SET''" "White # SkipWord # White # f" "''GRANDMASTER_SETTINGS_NP '' @ s"]
      scanf_word [of "''GRANDMASTER_SETTINGS_NP''" "White # f" s]
    by (simp add: isspace_def)
  show ?thesis
    unfolding gsn_format_def show_gsn_def prefix
    by (simp add: show_lines_def show_line_def isspace_def scanf_shown scanf_shown_end del: scanf.simps(5,6))
qed


lemma scanf_port_settings:
  "scanf pnp_format (''SET '' @ show_pnp bo d) = [uint (rd32 bo d 0), if rd32 bo d 4 \<noteq> 0 then 1 else 0]"
proof -
  have prefix: "scanf (White # SkipWord # White # SkipWord # White # f) (''SET '' @ ''PORT_DATA_SET_NP '' @ s) = scanf (White # f) s"
    for f s
    using scanf_word [of "''SET''" "White # SkipWord # White # f" "''PORT_DATA_SET_NP '' @ s"]
      scanf_word [of "''PORT_DATA_SET_NP''" "White # f" s]
    by (simp add: isspace_def)
  have c: "scan_int ''0'' = Some (0, [])" "scan_int ''1'' = Some (1, [])" by code_simp+
  show ?thesis
    unfolding pnp_format_def show_pnp_def prefix
    by (simp add: show_lines_def show_line_def isspace_def scanf_shown c del: scanf.simps(5))
qed

lemma flag_if_shown: "flag_if (if w AND push_bit k 1 \<noteq> 0 then 1 else 0) (push_bit k 1) = w AND push_bit k (1 :: u8)"
proof (rule bit_word_eqI)
  fix n
  have "w AND push_bit k 1 \<noteq> 0 \<longleftrightarrow> bit w k" by (simp add: bit_iff_and_push_bit_not_eq_0)
  then show "bit (flag_if (if w AND push_bit k 1 \<noteq> 0 then 1 else 0) (push_bit k 1)) n = bit (w AND push_bit k 1) n"
    by (auto simp: flag_if_def bit_simps)
qed

lemma settings_flags:
  assumes "w AND 0xC0 = (0 :: u8)"
  shows "(w AND push_bit 0 1) OR (w AND push_bit 1 1) OR (w AND push_bit 2 1) OR (w AND push_bit 3 1) OR
    (w AND push_bit 4 1) OR (w AND push_bit 5 1) = w"
proof (rule bit_word_eqI)
  fix n assume n: "n < LENGTH(8)"
  have "\<not> bit w 6" "\<not> bit w 7"
    using arg_cong [OF assms, of "\<lambda>x. bit x 6"] arg_cong [OF assms, of "\<lambda>x. bit x 7"] by (simp_all add: bit_simps)
  moreover from n have "n = 0 \<or> n = 1 \<or> n = 2 \<or> n = 3 \<or> n = 4 \<or> n = 5 \<or> n = 6 \<or> n = 7" by (simp, presburger)
  ultimately show "bit ((w AND push_bit 0 1) OR (w AND push_bit 1 1) OR (w AND push_bit 2 1) OR (w AND push_bit 3 1) OR
    (w AND push_bit 4 1) OR (w AND push_bit 5 1)) n = bit w n"
    by (elim disjE) (simp_all add: bit_simps)
qed

subsection \<open>Names and their abbreviations\<close>

definition not_small :: "char \<Rightarrow> bool" where
  "not_small c \<longleftrightarrow> \<not> (97 \<le> (of_char c :: nat) \<and> (of_char c :: nat) \<le> 122)"

lemma to_lower_code: "(of_char (to_lower c) :: nat) = (if 65 \<le> (of_char c :: nat) \<and> (of_char c :: nat) \<le> 90 then of_char c + 32 else of_char c)"
  by (simp add: to_lower_def Let_def)

lemma to_lower_inj: "not_small c \<Longrightarrow> not_small d \<Longrightarrow> to_lower c = to_lower d \<Longrightarrow> c = d"
proof -
  assume s: "not_small c" "not_small d" and "to_lower c = to_lower d"
  then have "(of_char (to_lower c) :: nat) = of_char (to_lower d)" by simp
  with s have "(of_char c :: nat) = of_char d" by (auto simp: to_lower_code not_small_def split: if_splits)
  then show "c = d" by simp
qed

lemma same_word_eq: "list_all not_small s \<Longrightarrow> list_all not_small t \<Longrightarrow> strcaseeq s t \<longleftrightarrow> s = t"
proof (induction s arbitrary: t)
  case Nil
  then show ?case by (auto simp: strcaseeq_def)
next
  case (Cons c s)
  then show ?case using to_lower_inj by (cases t) (auto simp: strcaseeq_def)
qed

abbreviation id_names :: "string list" where
  "id_names \<equiv> map fst idtab"

lemma id_names_not_small: "list_all (list_all not_small) id_names"
  by code_simp

lemma id_names_distinct: "distinct id_names"
  by code_simp

lemma length_idtab: "length idtab = 50"
  by (simp add: idtab_def)

lemma exact_match_None: "exact_match s i names = None \<longleftrightarrow> \<not> list_ex (strcaseeq s) names"
  by (induction names arbitrary: i) auto

lemma exact_match_Some: "exact_match s i names = Some k \<Longrightarrow> \<exists>j<length names. k = i + j \<and> strcaseeq s (names ! j)"
proof (induction names arbitrary: i)
  case (Cons name names)
  show ?case
  proof (cases "strcaseeq s name")
    case True
    with Cons.prems show ?thesis by (intro exI [of _ 0]) simp
  next
    case False
    with Cons obtain j where "j < length names" "k = i + 1 + j" "strcaseeq s (names ! j)" by fastforce
    then show ?thesis by (intro exI [of _ "Suc j"]) simp
  qed
qed simp

definition hits :: "string \<Rightarrow> string list \<Rightarrow> nat set" where
  "hits s names = {j. j < length names \<and> abbreviates s (names ! j)}"

lemma hits_Cons: "hits s (name # names) = (if abbreviates s name then {0} else {}) \<union> Suc ` hits s names"
proof -
  have "j \<in> hits s (name # names) \<longleftrightarrow> j \<in> (if abbreviates s name then {0} else {}) \<union> Suc ` hits s names" for j
    by (cases j) (auto simp: hits_def)
  then show ?thesis by blast
qed

lemma hits_Nil [simp]: "hits s [] = {}"
  by (simp add: hits_def)

lemma prefix_match_found: "prefix_match s (IdIndex k) i names = (if hits s names = {} then IdIndex k else AMBIGUOUS_ID)"
  by (induction names arbitrary: i) (auto simp: hits_Cons)

lemma prefix_match_index: "prefix_match s BAD_ID i names = IdIndex k \<longleftrightarrow> i \<le> k \<and> hits s names = {k - i}"
proof (induction names arbitrary: i)
  case (Cons name names)
  show ?case
  proof (cases "abbreviates s name")
    case True
    then show ?thesis by (auto simp: prefix_match_found hits_Cons)
  next
    case False
    have "Suc i \<le> k \<and> hits s names = {k - Suc i} \<longleftrightarrow> i \<le> k \<and> Suc ` hits s names = {k - i}"
    proof (cases "k \<le> i")
      case True
      then show ?thesis by auto
    next
      case False
      then have "Suc ` hits s names = {k - i} \<longleftrightarrow> Suc ` hits s names = Suc ` {k - Suc i}" by (simp add: Suc_diff_Suc)
      also have "\<dots> \<longleftrightarrow> hits s names = {k - Suc i}" by (rule inj_image_eq_iff) simp
      finally show ?thesis using False by auto
    qed
    with False Cons show ?thesis by (simp add: hits_Cons)
  qed
qed simp

lemma prefix_match_ambiguous: "prefix_match s BAD_ID i names = AMBIGUOUS_ID \<longleftrightarrow> (\<exists>j k. j \<in> hits s names \<and> k \<in> hits s names \<and> j \<noteq> k)"
proof (induction names arbitrary: i)
  case (Cons name names)
  show ?case
  proof (cases "abbreviates s name")
    case True
    have "(\<exists>j k. j \<in> insert 0 (Suc ` hits s names) \<and> k \<in> insert 0 (Suc ` hits s names) \<and> j \<noteq> k) \<longleftrightarrow> hits s names \<noteq> {}"
      by (auto intro: exI [of _ 0])
    with True show ?thesis by (simp add: prefix_match_found hits_Cons)
  next
    case False
    with Cons show ?thesis by (simp add: hits_Cons) (metis image_iff old.nat.inject)
  qed
qed simp

lemma same_word_abbreviates: "strcaseeq s t \<Longrightarrow> abbreviates s t"
  by (metis abbreviates_def length_map order_refl strcaseeq_def take_all)

lemma same_word_id: "i < length idtab \<Longrightarrow> j < length idtab \<Longrightarrow> strcaseeq s (id_names ! i) \<Longrightarrow> strcaseeq s (id_names ! j) \<Longrightarrow> i = j"
proof -
  assume l: "i < length idtab" "j < length idtab" and "strcaseeq s (id_names ! i)" "strcaseeq s (id_names ! j)"
  then have "strcaseeq (id_names ! i) (id_names ! j)" by (simp add: strcaseeq_def)
  moreover have "list_all not_small (id_names ! i)" "list_all not_small (id_names ! j)"
    using id_names_not_small l by (metis list_all_length length_map)+
  ultimately have "id_names ! i = id_names ! j" using same_word_eq by blast
  then show "i = j" using id_names_distinct l by (metis length_map nth_eq_iff_index_eq)
qed

lemma parse_id_name: "i < length idtab \<Longrightarrow> parse_id (id_names ! i) = IdIndex i"
proof -
  assume i: "i < length idtab"
  have s: "strcaseeq (id_names ! i) (id_names ! i)" by (simp add: strcaseeq_def)
  then have "exact_match (id_names ! i) 0 id_names \<noteq> None"
    using i unfolding exact_match_None list_ex_length by (metis length_map)
  then obtain k where k: "exact_match (id_names ! i) 0 id_names = Some k" by blast
  then have "k < length idtab" "strcaseeq (id_names ! i) (id_names ! k)" using exact_match_Some [OF k] by auto
  then have "i = k" using same_word_id [OF i _ s] by blast
  with k show ?thesis by (simp only: parse_id_def option.case)
qed

text \<open>
  A name in a command of pmc stands for at most one management id.  It is accepted as the
  id of an entry of the table exactly if it is the name of that entry in any case, or if that entry is the only one
  whose name it abbreviates; so the full name always works, also where it begins another name.
\<close>

theorem id_abbreviation:
  "parse_id s = IdIndex i \<longleftrightarrow> i < length idtab \<and>
     (strcaseeq s (id_names ! i) \<or> {j. j < length idtab \<and> abbreviates s (id_names ! j)} = {i})"
proof -
  let ?A = "{j. j < length idtab \<and> abbreviates s (id_names ! j)}"
  have A: "hits s id_names = ?A" by (simp add: hits_def)
  show ?thesis
  proof (cases "exact_match s 0 id_names")
    case None
    then have "i < length idtab \<longrightarrow> \<not> strcaseeq s (id_names ! i)"
      unfolding exact_match_None list_ex_length by (metis length_map)
    moreover have "parse_id s = IdIndex i \<longleftrightarrow> hits s id_names = {i}"
      by (simp only: parse_id_def None option.case prefix_match_index) simp
    moreover have "hits s id_names = {i} \<longrightarrow> i < length idtab" unfolding A by blast
    ultimately show ?thesis unfolding A [symmetric] by argo
  next
    case (Some k)
    then have k: "k < length idtab" "strcaseeq s (id_names ! k)" using exact_match_Some [OF Some] by auto
    then have "k \<in> ?A" using same_word_abbreviates by simp
    then have a: "i = k" if "?A = {i}" using that by (simp only: singleton_iff)
    have b: "i = k" if "i < length idtab" "strcaseeq s (id_names ! i)"
      using same_word_id [OF k(1) that(1) k(2) that(2)] by simp
    have eq: "i < length idtab \<and> (strcaseeq s (id_names ! i) \<or> ?A = {i}) \<longleftrightarrow> i = k"
    proof
      assume "i < length idtab \<and> (strcaseeq s (id_names ! i) \<or> ?A = {i})"
      then show "i = k" by (elim conjE disjE) (erule (1) b, erule a)
    next
      assume "i = k"
      then show "i < length idtab \<and> (strcaseeq s (id_names ! i) \<or> ?A = {i})" using k by (simp only:) simp
    qed
    show ?thesis unfolding eq by (simp only: parse_id_def Some option.case parsed_id.inject) (rule eq_commute)
  qed
qed

end
