(* ===== verification/PortFrame.thy ===== *)
theory PortFrame
  imports PortFault
begin

text \<open>
  What the handlers of a port leave alone.  Apart from the transitions of its state machine
  (\<open>port_dispatch\<close>), nothing that a port does changes its state, its identity or its state machine,
  or stops one of its timers (\<open>keeps\<close>).  A relation between ports that holds of such steps and of the
  transitions therefore holds of every event; the locale \<open>port_relation\<close> proves this once.
\<close>

subsection \<open>Frames\<close>

fun inert :: "port_effect \<Rightarrow> bool" where
  "inert (ClrTmo t) = False"
| "inert TimersClose = False"
| "inert _ = True"

definition keeps :: "port \<Rightarrow> port \<Rightarrow> bool" where
  "keeps p q \<longleftrightarrow> p_state q = p_state p \<and> p_portIdentity q = p_portIdentity p \<and>
     p_slave_only_fsm q = p_slave_only_fsm p \<and> p_jbod q = p_jbod p \<and>
     (\<exists>es. p_fx q = p_fx p @ es \<and> list_all inert es)"

lemma keeps_refl [simp]: "keeps p p"
  by (simp add: keeps_def)

lemma keeps_trans [trans]: "keeps p q \<Longrightarrow> keeps q r \<Longrightarrow> keeps p r"
  by (auto simp: keeps_def)

lemma keeps_state: "keeps p q \<Longrightarrow> p_state q = p_state p"
  by (simp add: keeps_def)

lemma keeps_pfx [simp]: "list_all inert es \<Longrightarrow> keeps p q \<Longrightarrow> keeps p (pfx es q)"
  by (auto simp: keeps_def pfx_def)

lemma keeps_prefs [simp]:
  "keeps p (prefs rs q) = keeps p q" "keeps p (pget m q) = keeps p q" "keeps p (pput m q) = keeps p q"
  "keeps p (pput_opt x q) = keeps p q"
  by (simp_all add: keeps_def prefs_def pget_def pput_def pput_opt_def split: option.split)

lemma keeps_fields [simp]:
  "keeps p (q\<lparr>p_best := b\<rparr>) = keeps p q"
  "keeps p (q\<lparr>p_syfu := s\<rparr>) = keeps p q"
  "keeps p (q\<lparr>p_last_syncfup := m\<rparr>) = keeps p q"
  "keeps p (q\<lparr>p_delay_req := ms\<rparr>) = keeps p q"
  "keeps p (q\<lparr>p_peer_delay_req := x\<rparr>) = keeps p q"
  "keeps p (q\<lparr>p_peer_delay_resp := x\<rparr>) = keeps p q"
  "keeps p (q\<lparr>p_peer_delay_fup := x\<rparr>) = keeps p q"
  "keeps p (q\<lparr>p_foreign_masters := f\<rparr>) = keeps p q"
  "keeps p (q\<lparr>p_tc_transmitted := t\<rparr>) = keeps p q"
  "keeps p (q\<lparr>p_nalloc := n\<rparr>) = keeps p q"
  "keeps p (q\<lparr>p_nsend := n\<rparr>) = keeps p q"
  "keeps p (q\<lparr>p_last_fault_type := ft\<rparr>) = keeps p q"
  "keeps p (q\<lparr>p_asCapable := a\<rparr>) = keeps p q"
  "keeps p (q\<lparr>p_pdr_missing := k\<rparr>) = keeps p q"
  "keeps p (q\<lparr>p_multiple_seq_pdr_count := k\<rparr>) = keeps p q"
  "keeps p (q\<lparr>p_multiple_pdr_detected := a\<rparr>) = keeps p q"
  "keeps p (q\<lparr>p_peer_portid_valid := a\<rparr>) = keeps p q"
  "keeps p (q\<lparr>p_peer_portid := i\<rparr>) = keeps p q"
  "keeps p (q\<lparr>p_seqnum_announce := w\<rparr>) = keeps p q"
  "keeps p (q\<lparr>p_seqnum_delayreq := w\<rparr>) = keeps p q"
  "keeps p (q\<lparr>p_seqnum_sync := w\<rparr>) = keeps p q"
  "keeps p (q\<lparr>p_log_sync_interval := l\<rparr>) = keeps p q"
  "keeps p (q\<lparr>p_logMinDelayReqInterval := j\<rparr>) = keeps p q"
  "keeps p (q\<lparr>p_delayMechanism := d\<rparr>) = keeps p q"
  "keeps p (q\<lparr>p_tsproc := ts\<rparr>) = keeps p q"
  "keeps p (q\<lparr>p_nrate := nr\<rparr>) = keeps p q"
  "keeps p (q\<lparr>p_peer_delay := v\<rparr>) = keeps p q"
  "keeps p (q\<lparr>p_peerMeanPathDelay := i64\<rparr>) = keeps p q"
  "keeps p (q\<lparr>p_link_status := z\<rparr>) = keeps p q"
  "keeps p (q\<lparr>p_ts_label := y\<rparr>) = keeps p q"
  "keeps p (q\<lparr>p_phc_index := ph\<rparr>) = keeps p q"
  "keeps p (q\<lparr>p_neighborPropDelayThresh := th\<rparr>) = keeps p q"
  by (simp_all add: keeps_def)

subsection \<open>Handlers that keep the port\<close>

lemma keeps_timers [simp]:
  "keeps p q \<Longrightarrow> keeps p (set_tmo_log t k n q)"
  "keeps p q \<Longrightarrow> keeps p (set_tmo_random e t a b n q)"
  "keeps p q \<Longrightarrow> keeps p (port_set_announce_tmo e q)"
  "keeps p q \<Longrightarrow> keeps p (port_set_delay_tmo e q)"
  "keeps p q \<Longrightarrow> keeps p (port_set_manno_tmo q)"
  "keeps p q \<Longrightarrow> keeps p (port_set_qualification_tmo c q)"
  "keeps p q \<Longrightarrow> keeps p (port_set_sync_rx_tmo q)"
  "keeps p q \<Longrightarrow> keeps p (port_set_sync_tx_tmo q)"
  by (simp_all add: set_tmo_log_def set_tmo_random_def port_set_announce_tmo_def port_set_delay_tmo_def
      port_set_manno_tmo_def port_set_qualification_tmo_def port_set_sync_rx_tmo_def port_set_sync_tx_tmo_def
      split: prod.split)

lemma keeps_basic [simp]:
  "keeps p q \<Longrightarrow> keeps p (fst (port_alloc e q))"
  "keeps p q \<Longrightarrow> keeps p (port_nrate_initialize q)"
  "keeps p q \<Longrightarrow> keeps p (port_nrate_calculate fl a b q)"
  "keeps p q \<Longrightarrow> keeps p (fst (port_capable q))"
  "keeps p q \<Longrightarrow> keeps p (flush_last_sync q)"
  "keeps p q \<Longrightarrow> keeps p (flush_delay_req q)"
  "keeps p q \<Longrightarrow> keeps p (flush_peer_delay q)"
  "keeps p q \<Longrightarrow> keeps p (hold_syncfup m s q)"
  "keeps p q \<Longrightarrow> keeps p (drop_syncfup q)"
  "keeps p q \<Longrightarrow> keeps p (fst (port_renew_transport e q))"
  by (simp_all add: port_alloc_def Let_def port_nrate_initialize_def port_nrate_calculate_def port_capable_def
      flush_last_sync_def flush_delay_req_def flush_peer_delay_def hold_syncfup_def drop_syncfup_def
      port_renew_transport_def split: option.split)

text \<open>Transmissions.\<close>

lemma prepare_and_send_keeps:
  assumes "\<And>m. inert (tx m)" and "keeps p q"
  shows "keeps p (snd (snd (prepare_and_send e tx m q)))"
  using assms by (simp add: prepare_and_send_def Let_def split: option.split)

lemma keeps_sends [simp]:
  "keeps p q \<Longrightarrow> keeps p (snd (snd (port_prepare_and_send e ev m q)))"
  "keeps p q \<Longrightarrow> keeps p (snd (snd (peer_prepare_and_send e ev m q)))"
  by (simp_all add: port_prepare_and_send_def peer_prepare_and_send_def prepare_and_send_keeps)

lemma keeps_tx [simp]:
  "keeps p q \<Longrightarrow> keeps p (fst (port_tx_announce e q c))"
  "keeps p q \<Longrightarrow> keeps p (fst (tx_sync_send e q c dst m fup))"
  by (simp_all add: port_tx_announce_def tx_sync_send_def Let_def split_beta split: option.split bool.split)

lemma keeps_tx_sync [simp]: "keeps p q \<Longrightarrow> keeps p (fst (port_tx_sync e q c dst))"
  by (simp add: port_tx_sync_def split_beta split: option.split bool.split)

lemma keeps_store [simp]: "keeps p q \<Longrightarrow> keeps p (store_pdelay_req m q)"
  by (simp add: store_pdelay_req_def Let_def split_beta split: option.split)

lemma keeps_requests [simp]:
  "keeps p q \<Longrightarrow> keeps p (fst (port_pdelay_request e q c))"
  "keeps p q \<Longrightarrow> keeps p (fst (e2e_delay_request e q c))"
  by (simp_all add: port_pdelay_request_def e2e_delay_request_def Let_def split_beta split: option.split)

lemma keeps_delay [simp]:
  "keeps p q \<Longrightarrow> keeps p (fst (port_delay_request e q c))"
  "keeps p q \<Longrightarrow> keeps p (delay_req_prune now q)"
  "keeps p q \<Longrightarrow> keeps p (adopt_delay_interval e m q)"
  "keeps p q \<Longrightarrow> keeps p (fst (process_delay_resp e q c m))"
  "keeps p q \<Longrightarrow> keeps p (fst (process_delay_req e q c m))"
  by (simp_all add: port_delay_request_def delay_req_prune_def adopt_delay_interval_def process_delay_resp_def
      process_delay_req_def Let_def split_beta split: option.split bool.split)

lemma keeps_peer [simp]:
  "keeps p q \<Longrightarrow> keeps p (track_peer bo m q)"
  "keeps p q \<Longrightarrow> keeps p (fst (pdelay_resp_send e q m rsp fup))"
  "keeps p q \<Longrightarrow> keeps p (fst (peer_delay_calc e q c t1 t2 t3 t4))"
  "keeps p q \<Longrightarrow> keeps p (count_multiple_peers bo m q)"
  by (simp_all add: track_peer_def pdelay_resp_send_def peer_delay_calc_def count_multiple_peers_def Let_def
      split_beta split: option.split bool.split)

lemma keeps_port_peer_delay [simp]: "keeps p q \<Longrightarrow> keeps p (fst (port_peer_delay e q c))"
  by (simp add: port_peer_delay_def Let_def split: option.split)

lemma keeps_pdelay [simp]:
  "keeps p q \<Longrightarrow> keeps p (fst (process_pdelay_req e q c m))"
  "keeps p q \<Longrightarrow> keeps p (fst (process_pdelay_resp e q c m))"
  "keeps p q \<Longrightarrow> keeps p (fst (process_pdelay_resp_fup e q c m))"
  by (simp_all add: process_pdelay_req_def process_pdelay_resp_def process_pdelay_resp_fup_def Let_def
      split_beta split: option.split)

lemma keeps_announce [simp]:
  "keeps p q \<Longrightarrow> keeps p (fst (process_announce e q c m))"
  "keeps p q \<Longrightarrow> keeps p (fst (announce_timeout e q c))"
  by (simp_all add: process_announce_def update_current_master_def port_add_foreign_master_def
      announce_timeout_def Let_def split_beta split: option.split)

lemma keeps_link [simp]:
  "keeps p q \<Longrightarrow> keeps p (update_link_status e up q)"
  "keeps p q \<Longrightarrow> keeps p (fst (update_phc e q c))"
  by (simp_all add: update_link_status_def update_phc_def Let_def split_beta split: option.split)

lemma keeps_ignore [simp]: "keeps p q \<Longrightarrow> keeps p (fst (port_ignore bo c q m))"
  by (simp add: port_ignore_def incapable_ignore_def split_beta split: bool.split)

subsection \<open>What the handlers leave of the clock\<close>

definition same_clock :: "'z clock_scheme \<Rightarrow> 'z clock_scheme \<Rightarrow> bool" where
  "same_clock c d \<longleftrightarrow> clock.more d = clock.more c \<and> c_type d = c_type c \<and> c_best d = c_best c \<and> c_dds d = c_dds c"

lemma same_clock_refl [simp]: "same_clock c c"
  by (simp add: same_clock_def)

lemma same_clock_trans [trans]: "same_clock a b \<Longrightarrow> same_clock b c \<Longrightarrow> same_clock a c"
  by (simp add: same_clock_def)

lemma same_clock_fields [simp]:
  "same_clock c (d\<lparr>c_sde := b\<rparr>) = same_clock c d"
  "same_clock c (d\<lparr>c_dad := x1\<rparr>) = same_clock c d"
  "same_clock c (d\<lparr>c_tds := x2\<rparr>) = same_clock c d"
  "same_clock c (d\<lparr>c_cur := x3\<rparr>) = same_clock c d"
  "same_clock c (d\<lparr>c_status := x4\<rparr>) = same_clock c d"
  "same_clock c (d\<lparr>c_fest := x5\<rparr>) = same_clock c d"
  "same_clock c (d\<lparr>c_stats := x6\<rparr>) = same_clock c d"
  "same_clock c (d\<lparr>c_servo := x7\<rparr>) = same_clock c d"
  "same_clock c (d\<lparr>c_servo_state := x8\<rparr>) = same_clock c d"
  "same_clock c (d\<lparr>c_realtime := x9\<rparr>) = same_clock c d"
  "same_clock c (d\<lparr>c_tsproc := x10\<rparr>) = same_clock c d"
  "same_clock c (d\<lparr>c_path_delay := x11\<rparr>) = same_clock c d"
  "same_clock c (d\<lparr>c_nrr := x12\<rparr>) = same_clock c d"
  "same_clock c (d\<lparr>c_sanity_check := x13\<rparr>) = same_clock c d"
  "same_clock c (d\<lparr>c_ingress_ts := x14\<rparr>) = same_clock c d"
  "same_clock c (d\<lparr>c_master_offset := x15\<rparr>) = same_clock c d"
  "same_clock c (d\<lparr>c_leap_set := x16\<rparr>) = same_clock c d"
  "same_clock c (d\<lparr>c_utc_offset_set := x17\<rparr>) = same_clock c d"
  "same_clock c (d\<lparr>c_master_local_rr := x18\<rparr>) = same_clock c d"
  "same_clock c (d\<lparr>c_fx := x19\<rparr>) = same_clock c d"
  "same_clock c (d\<lparr>c_subscribers := x20\<rparr>) = same_clock c d"
  "same_clock c (d\<lparr>c_utc_offset := x21\<rparr>) = same_clock c d"
  by (simp_all add: same_clock_def)

lemma same_clock_fx [simp]: "same_clock c (clock_fx x d) = same_clock c d"
  by (simp add: clock_fx_def)

lemma same_clock_updates [simp]:
  "same_clock c d \<Longrightarrow> same_clock c (clock_update_time_properties d t)"
  "same_clock c d \<Longrightarrow> same_clock c (clock_update_grandmaster d)"
  "same_clock c d \<Longrightarrow> same_clock c (clock_update_slave d fc m)"
  "same_clock c d \<Longrightarrow> same_clock c (clock_follow_up_info d f)"
  "same_clock c d \<Longrightarrow> same_clock c (clock_sync_interval fl d n)"
  "same_clock c d \<Longrightarrow> same_clock c (stats_add_delay fl v d)"
  "same_clock c d \<Longrightarrow> same_clock c (clock_no_adjust fl d a b)"
  "same_clock c d \<Longrightarrow> same_clock c (clock_apply_utc_offset d u)"
  "same_clock c d \<Longrightarrow> same_clock c (fst (clock_handle_leap fl d ts leap))"
  "same_clock c d \<Longrightarrow> same_clock c (clock_check_ts fl now d w)"
  "same_clock c d \<Longrightarrow> same_clock c (update_path_trace bo m d)"
  by (simp_all add: clock_update_time_properties_def clock_update_grandmaster_def clock_update_slave_def
      clock_follow_up_info_def clock_sync_interval_def stats_add_delay_def clock_no_adjust_def
      clock_apply_utc_offset_def clock_handle_leap_def clock_check_ts_def update_path_trace_def Let_def
      split: prod.split option.split)

lemma same_clock_delays [simp]:
  "same_clock c d \<Longrightarrow> same_clock c (clock_path_delay fl d a b)"
  "same_clock c d \<Longrightarrow> same_clock c (clock_peer_delay fl d v a b r)"
  by (simp_all add: clock_path_delay_def clock_peer_delay_def split: prod.split option.split)

lemma same_clock_utc_correct [simp]: "same_clock c d \<Longrightarrow> same_clock c (fst (clock_utc_correct fl d i))"
  by (simp add: clock_utc_correct_def Let_def split_beta)

lemma same_clock_adjust [simp]: "same_clock c d \<Longrightarrow> same_clock c (fst (clock_adjust fl d i w))"
  by (simp add: clock_adjust_def Let_def split_beta split: servo_state.split)

lemma same_clock_synchronize [simp]: "same_clock c d \<Longrightarrow> same_clock c (fst (clock_synchronize fl d a b))"
  by (simp add: clock_synchronize_def Let_def split_beta split: option.split bool.split)

lemma same_clock_switch_phc [simp]:
  "clock_switch_phc fl mem shm dev d = Some d' \<Longrightarrow> same_clock c d \<Longrightarrow> same_clock c d'"
  by (auto simp: clock_switch_phc_def split: option.splits prod.splits if_splits)

lemma same_clock_dispatch [simp]: "same_clock c d \<Longrightarrow> same_clock c (snd (port_dispatch e p d ev md))"
  by (auto simp: port_dispatch_def bc_dispatch_def split_beta split: clock_type.split option.split bool.split)

lemma same_clock_port_synchronize [simp]: "same_clock c d \<Longrightarrow> same_clock c (snd (port_synchronize e p d t u x y))"
  by (simp add: port_synchronize_def Let_def split_beta split: servo_state.split)

lemma same_clock_syfufsm [simp]: "same_clock c d \<Longrightarrow> same_clock c (snd (port_syfufsm e p d ev m))"
  by (simp add: port_syfufsm_def Let_def split_beta split: syfu_event.split)

lemma same_clock_sync [simp]:
  "same_clock c d \<Longrightarrow> same_clock c (snd (process_sync e p d m))"
  "same_clock c d \<Longrightarrow> same_clock c (snd (process_follow_up e p d m))"
  by (simp_all add: process_sync_def process_follow_up_def Let_def split_beta)

lemma same_clock_announce [simp]:
  "same_clock c d \<Longrightarrow> same_clock c (fst (snd (process_announce e p d m)))"
  "same_clock c d \<Longrightarrow> same_clock c (fst (snd (announce_timeout e p d)))"
  by (simp_all add: process_announce_def update_current_master_def port_add_foreign_master_def
      announce_timeout_def Let_def split_beta split: option.split)

lemma same_clock_peer [simp]:
  "same_clock c d \<Longrightarrow> same_clock c (snd (peer_delay_calc e p d t1 t2 t3 t4))"
  "same_clock c d \<Longrightarrow> same_clock c (snd (process_delay_resp e p d m))"
  by (simp_all add: peer_delay_calc_def process_delay_resp_def Let_def split_beta split: option.split)

lemma same_clock_port_peer_delay [simp]: "same_clock c d \<Longrightarrow> same_clock c (snd (port_peer_delay e p d))"
  by (simp add: port_peer_delay_def Let_def split: option.split)

lemma same_clock_pdelay [simp]:
  "same_clock c d \<Longrightarrow> same_clock c (fst (snd (process_pdelay_resp e p d m)))"
  "same_clock c d \<Longrightarrow> same_clock c (snd (process_pdelay_resp_fup e p d m))"
  by (simp_all add: process_pdelay_resp_def process_pdelay_resp_fup_def Let_def split_beta)

lemma same_clock_update_phc [simp]:
  "update_phc e p d = (q, Some d') \<Longrightarrow> same_clock c d \<Longrightarrow> same_clock c d'"
  by (auto simp: update_phc_def Let_def split_beta split: option.splits if_splits)

lemma same_clock_link [simp]: "same_clock c d \<Longrightarrow> same_clock c (snd (port_link_status e p d up))"
  by (auto simp: port_link_status_def split: prod.split option.split)

lemma link_events_same:
  "same_clock k (snd (fold (\<lambda>up (p, c). port_link_status e p c up) links (q, k)))"
proof (induction links arbitrary: q k)
  case (Cons up links)
  have "same_clock k (snd (port_link_status e q k up))" by simp
  from same_clock_trans [OF this Cons.IH [of "snd (port_link_status e q k up)" "fst (port_link_status e q k up)"]]
  show ?case by (simp add: split_beta)
qed simp

subsection \<open>Relations between ports\<close>

text \<open>
  \<open>R p q\<close> relates a port before and after; \<open>ts\<close> are the types of clocks concerned, \<open>evs\<close> the events of
  the state machine (EV_RS_SLAVE, which only the state decision raises, may be left out).  The relation
  holds of steps that keep the port and of the transitions, hence of every event of an ordinary or
  boundary clock's port, up to the handling of a management message, which is the clock's.
\<close>

definition via_manage ::
  "(env \<Rightarrow> port \<Rightarrow> 'z clock_scheme \<Rightarrow> ptp_message \<Rightarrow> port \<times> 'z clock_scheme \<times> bool) \<Rightarrow>
   env \<Rightarrow> port \<Rightarrow> 'z clock_scheme \<Rightarrow> port \<Rightarrow> 'z clock_scheme \<Rightarrow> bool" where
  "via_manage manage e p c q d \<longleftrightarrow> (\<exists>p' c' m. keeps p p' \<and> same_clock c c' \<and> msg_type m = MANAGEMENT \<and>
     keeps (fst (manage e p' c' m)) q \<and> d = fst (snd (manage e p' c' m)))"

locale port_relation =
  fixes R :: "port \<Rightarrow> port \<Rightarrow> bool" and ts :: "clock_type set" and evs :: "fsm_event set" and ty :: "'z itself"
  assumes keeps_R: "keeps p q \<Longrightarrow> R p q"
    and R_trans: "R p q \<Longrightarrow> R q r \<Longrightarrow> R p r"
    and evs_own: "ev \<noteq> EV_RS_SLAVE \<Longrightarrow> ev \<in> evs"
    and dispatch_R: "c_type (c :: 'z clock_scheme) \<in> ts \<Longrightarrow> ev \<in> evs \<Longrightarrow> R p (fst (port_dispatch e p c ev md))"
begin

lemma R_refl [simp]: "R p p"
  by (rule keeps_R) simp

lemma type_synchronize: "c_type (c :: 'z clock_scheme) \<in> ts \<Longrightarrow> c_type (fst (clock_synchronize fl c a b)) \<in> ts"
  by simp

lemma port_synchronize_R:
  assumes "c_type (c :: 'z clock_scheme) \<in> ts"
  shows "R p (fst (port_synchronize e p c t u x y))"
proof -
  let ?p = "port_set_sync_rx_tmo p"
  let ?s = "clock_synchronize (env_fl e) c t (tmv_add (timestamp_to_tmv u) (tmv_add (correction_to_tmv x) (correction_to_tmv y)))"
  have d: "R ?p (fst (port_dispatch e ?p (fst ?s) ev False))" if "ev \<noteq> EV_RS_SLAVE" for ev
    using assms that by (intro dispatch_R) (simp_all add: evs_own)
  have j: "R q ((pput_opt (p_peer_delay_req (flush_delay_req q)) (flush_delay_req q))\<lparr>p_peer_delay_req := None\<rparr>)" for q
    by (intro keeps_R) simp
  have "R p ?p" by (intro keeps_R) simp
  then show ?thesis
    using R_trans d R_trans [OF R_trans [OF _ d] j]
    by (simp add: port_synchronize_def Let_def split_beta split: servo_state.split)
qed

lemma port_syfufsm_R:
  assumes "c_type (c :: 'z clock_scheme) \<in> ts"
  shows "R p (fst (port_syfufsm e p c ev m))"
proof -
  have "R q (drop_syncfup q)" for q by (intro keeps_R) simp
  then have "R p (drop_syncfup (fst (port_synchronize e p c t u x y)))" for t u x y
    using R_trans [OF port_synchronize_R [OF assms]] by blast
  moreover have "R p (hold_syncfup m s p)" for s by (intro keeps_R) simp
  ultimately show ?thesis by (simp add: port_syfufsm_def Let_def split_beta split: syfu_event.split)
qed

lemma process_follow_up_R: "c_type (c :: 'z clock_scheme) \<in> ts \<Longrightarrow> R p (fst (process_follow_up e p c m))"
  by (simp add: process_follow_up_def Let_def port_syfufsm_R clock_follow_up_info_def)

lemma process_sync_R:
  assumes "c_type (c :: 'z clock_scheme) \<in> ts"
  shows "R p (fst (process_sync e p c m))"
proof -
  have f: "R q (flush_last_sync q)" for q by (intro keeps_R) simp
  have one: "R p q \<Longrightarrow> c_type k \<in> ts \<Longrightarrow> R p (flush_last_sync (fst (port_synchronize e q k t u x y)))"
    for q t u x y and k :: "'z clock_scheme"
    using R_trans [OF _ R_trans [OF port_synchronize_R f]] by blast
  have two: "R p q \<Longrightarrow> c_type k \<in> ts \<Longrightarrow> R p (fst (port_syfufsm e q k ev j))"
    for q ev j and k :: "'z clock_scheme"
    using R_trans [OF _ port_syfufsm_R] by blast
  have "R p (p\<lparr>p_log_sync_interval := i\<rparr>)" for i by (intro keeps_R) simp
  moreover have "c_type (clock_sync_interval fl c i) \<in> ts" for fl i using assms by (simp add: clock_sync_interval_def)
  ultimately show ?thesis
    using assms one two by (simp add: process_sync_def Let_def split_beta)
qed

lemma port_link_status_R:
  assumes "c_type (c :: 'z clock_scheme) \<in> ts"
  shows "R p (fst (port_link_status e p c up))"
proof (cases "update_phc e (update_link_status e up p) c")
  case (Pair q x)
  then have "keeps p q" using keeps_link(2) [of p "update_link_status e up p" e c] by simp
  then have q: "R p q" "R p (q\<lparr>p_last_fault_type := FT_SWITCH_PHC\<rparr>)" by (auto intro: keeps_R)
  then show ?thesis
    using Pair R_trans [OF q(2) dispatch_R [OF assms]] evs_own [of EV_FAULT_DETECTED]
    by (simp add: port_link_status_def split: option.split)
qed

lemma link_events_R:
  assumes "c_type (c :: 'z clock_scheme) \<in> ts"
  shows "R p (fst (fold (\<lambda>up (p, c). port_link_status e p c up) links (p, c)))"
  using assms
proof (induction links arbitrary: p c)
  case (Cons up links)
  obtain q d where l: "port_link_status e p c up = (q, d)" by fastforce
  have "same_clock c d" using same_clock_link [of c c e p up] by (simp add: l)
  then have "c_type d \<in> ts" using Cons.prems by (simp add: same_clock_def)
  moreover have "R p q" using port_link_status_R [OF Cons.prems, of p e up] by (simp add: l)
  ultimately show ?case using R_trans Cons.IH by (simp add: l)
qed simp

lemma process_message_R:
  assumes "c_type (c :: 'z clock_scheme) \<in> ts" and "msg_type m \<noteq> MANAGEMENT"
  shows "R p (fst (process_message manage e p c m)) \<and> same_clock c (fst (snd (process_message manage e p c m)))"
  using assms by (simp add: process_message_def Let_def split_beta process_sync_R process_follow_up_R keeps_R)

definition step where
  "step manage e p (c :: 'z clock_scheme) q d \<longleftrightarrow> R p q \<and> same_clock c d \<or> via_manage manage e p c q d"

lemma step_keeps: "keeps p p' \<Longrightarrow> same_clock c c' \<Longrightarrow> step manage e p' c' q' d \<Longrightarrow> keeps q' q \<Longrightarrow> step manage e p c q d"
  unfolding step_def
proof (elim disjE conjE)
  assume k: "keeps p p'" "keeps q' q" and c: "same_clock c c'" "same_clock c' d" and R: "R p' q'"
  show "R p q \<and> same_clock c d \<or> via_manage manage e p c q d"
    using R_trans [OF keeps_R [OF k(1)] R_trans [OF R keeps_R [OF k(2)]]] same_clock_trans [OF c] by blast
next
  assume k: "keeps p p'" "keeps q' q" and c: "same_clock c c'" and v: "via_manage manage e p' c' q' d"
  from v obtain p1 c1 m where m: "keeps p' p1" "same_clock c' c1" "msg_type m = MANAGEMENT"
    "keeps (fst (manage e p1 c1 m)) q'" "d = fst (snd (manage e p1 c1 m))"
    unfolding via_manage_def by blast
  show "R p q \<and> same_clock c d \<or> via_manage manage e p c q d"
    unfolding via_manage_def using m keeps_trans [OF k(1) m(1)] same_clock_trans [OF c m(2)] keeps_trans [OF m(4) k(2)]
    by blast
qed

lemma process_message_step:
  assumes "c_type (c :: 'z clock_scheme) \<in> ts"
  shows "step manage e p c (fst (process_message manage e p c m)) (fst (snd (process_message manage e p c m)))"
proof (cases "msg_type m = MANAGEMENT")
  case True
  then have "via_manage manage e p c (fst (process_message manage e p c m)) (fst (snd (process_message manage e p c m)))"
    unfolding via_manage_def
    by (intro exI [of _ p] exI [of _ c] exI [of _ m]) (simp add: process_message_def split_beta)
  then show ?thesis by (simp add: step_def)
qed (simp add: step_def process_message_R assms)

lemma bc_accept_step:
  assumes "c_type (c :: 'z clock_scheme) \<in> ts"
  shows "step manage e p c (fst (bc_accept manage e p c m)) (fst (snd (bc_accept manage e p c m)))"
proof -
  have s: "step manage e p c q d" if "keeps p q" "same_clock c d" for q d
    using that by (simp add: step_def keeps_R)
  have t: "step manage e p c (fst (process_message manage e q d k)) (fst (snd (process_message manage e q d k)))"
    if "keeps p q" "same_clock c d" for q d k
    using that assms by (intro step_keeps [OF that process_message_step]) (simp_all add: same_clock_def)
  show ?thesis
    by (simp add: bc_accept_def Let_def split_beta s t split: bool.split)
qed

lemma bc_receive_step:
  assumes "c_type (c :: 'z clock_scheme) \<in> ts"
  shows "step manage e p c (fst (bc_receive manage e p c input)) (fst (snd (bc_receive manage e p c input)))"
proof (cases "port_alloc e p")
  case (Pair q x)
  have a: "keeps p q" using Pair keeps_basic(1) [of p p e] by simp
  then have s: "step manage e p c q' c" if "keeps q q'" for q'
    using that keeps_trans by (auto simp: step_def keeps_R)
  have t: "step manage e p c (pput k' (fst (bc_accept manage e q c k))) (fst (snd (bc_accept manage e q c k)))" for k k'
    by (rule step_keeps [OF a same_clock_refl bc_accept_step [OF assms]]) simp
  show ?thesis
    using Pair s t by (simp add: bc_receive_def Let_def split_beta split: option.split sum.split)
qed

lemma bc_event_step:
  assumes "c_type (c :: 'z clock_scheme) \<in> ts"
  shows "step manage e p c (fst (bc_event manage e p c ev)) (fst (snd (bc_event manage e p c ev)))"
proof -
  have s: "step manage e p c q d" if "R p q" "same_clock c d" for q d using that by (simp add: step_def)
  show ?thesis
    using s [OF link_events_R [OF assms] link_events_same] bc_receive_step [OF assms] s
    by (simp add: bc_event_def Let_def split_beta keeps_R split: fd_event.split timer.split)
qed

end

end
