(* ===== verification/SystemFrame.thy ===== *)
theory SystemFrame
  imports PortFrame ClockPorts
begin

text \<open>
  What an operation of the clock does to its ports.  A relation that holds of what one port does
  (\<open>port_relation\<close>) holds of every port in one pass of the poll loop, whatever the ports do to each
  other: forwarding, management and faults that they cause.
\<close>

subsection \<open>Ports by number\<close>

definition sys_wf :: "'z system_scheme \<Rightarrow> bool" where
  "sys_wf c \<longleftrightarrow> distinct (map portnum (c_ports c)) \<and> portnum (c_uds c) \<notin> set (map portnum (c_ports c))"

lemma find_port: "find (\<lambda>p. portnum p = n) ps = Some p \<Longrightarrow> p \<in> set ps \<and> portnum p = n"
  by (auto simp: find_Some_iff)

lemma find_port_None: "find (\<lambda>p. portnum p = n) ps = None \<longleftrightarrow> n \<notin> portnum ` set ps"
  by (auto simp: find_None_iff)

lemma is_uds_iff: "is_uds n c \<longleftrightarrow> n \<notin> portnum ` set (c_ports c)"
  unfolding is_uds_def find_port_None ..

lemma the_port_uds: "is_uds n c \<Longrightarrow> the_port n c = c_uds c"
  by (simp add: the_port_def is_uds_def)

lemma the_port_mem:
  assumes "\<not> is_uds n c"
  shows "the_port n c \<in> set (c_ports c) \<and> portnum (the_port n c) = n"
proof -
  obtain p where p: "find (\<lambda>p. portnum p = n) (c_ports c) = Some p"
    using assms by (auto simp: is_uds_def)
  then have "the_port n c = p" by (simp add: the_port_def)
  with find_port [OF p] show ?thesis by simp
qed

lemma the_port_unique:
  assumes "sys_wf c" and "p \<in> set (c_ports c)"
  shows "the_port (portnum p) c = p"
proof -
  have "\<not> is_uds (portnum p) c" using assms(2) by (auto simp: is_uds_iff)
  note m = the_port_mem [OF this]
  have "inj_on portnum (set (c_ports c))" using assms(1) by (simp add: sys_wf_def distinct_map)
  then show ?thesis using m assms(2) by (intro inj_onD [of portnum "set (c_ports c)"]) simp_all
qed

lemma put_port_fields [simp]:
  "c_best (put_port n p c) = c_best c" "c_type (put_port n p c) = c_type c"
  "c_dds (put_port n p c) = c_dds c" "c_sde (put_port n p c) = c_sde c"
  by (simp_all add: put_port_def)

lemma put_port_ports:
  "c_ports (put_port n p c) = map (\<lambda>q. if portnum q = n then p else q) (c_ports c)"
proof (cases "is_uds n c")
  case True
  then have "\<forall>q\<in>set (c_ports c). portnum q \<noteq> n" by (auto simp: is_uds_iff)
  then have "map (\<lambda>q. if portnum q = n then p else q) (c_ports c) = c_ports c" by (auto intro: map_idI)
  with True show ?thesis by (simp add: put_port_def)
qed (simp add: put_port_def)

lemma put_port_uds: "c_uds (put_port n p c) = (if is_uds n c then p else c_uds c)"
  by (simp add: put_port_def)

lemma the_put_port:
  assumes "portnum p = n"
  shows "the_port n (put_port n p c) = p"
proof (cases "is_uds n c")
  case False
  let ?d = "put_port n p c"
  have "portnum (the_port n c) = n" "the_port n c \<in> set (c_ports c)" using the_port_mem [OF False] by blast+
  then have "p \<in> set (c_ports ?d)" by (auto simp: put_port_ports image_iff)
  then have "\<not> is_uds n ?d" using assms by (auto simp: is_uds_iff)
  from the_port_mem [OF this] show ?thesis by (auto simp: put_port_ports split: if_splits)
next
  case True
  then show ?thesis by (simp add: the_port_def put_port_def is_uds_def)
qed

lemma put_put_port:
  assumes "portnum p = n" and "portnum q = n"
  shows "put_port n q (put_port n p c) = put_port n q c"
proof -
  have u: "is_uds n (put_port n p c) = is_uds n c"
    using assms by (auto simp: is_uds_iff put_port_ports image_iff)
  show ?thesis
  proof (cases "is_uds n c")
    case True
    then show ?thesis using u by (simp add: put_port_def)
  next
    case False
    then have "put_port n q (put_port n p c) = (put_port n p c)\<lparr>c_ports := map (\<lambda>r. if portnum r = n then q else r)
        (c_ports (put_port n p c))\<rparr>" using u by (simp add: put_port_def)
    also have "map (\<lambda>r. if portnum r = n then q else r) (c_ports (put_port n p c)) =
        map (\<lambda>r. if portnum r = n then q else r) (c_ports c)"
      using assms by (simp add: put_port_ports)
    finally show ?thesis using False by (simp add: put_port_def)
  qed
qed

lemma same_clock_ports:
  assumes "same_clock c d"
  shows "c_ports d = c_ports c" "c_uds d = c_uds c" "c_dscmp d = c_dscmp c" "the_port n d = the_port n c" "is_uds n d = is_uds n c"
proof -
  have "clock.more d = clock.more c" using assms by (simp add: same_clock_def)
  then show "c_ports d = c_ports c" "c_uds d = c_uds c" "c_dscmp d = c_dscmp c"
    by (cases c; cases d; simp)+
  then show "the_port n d = the_port n c" "is_uds n d = is_uds n c" by (simp_all add: the_port_def is_uds_def split: option.split)
qed

subsection \<open>Management keeps the ports\<close>

lemma keeps_reply [simp]:
  "keeps p q \<Longrightarrow> keeps p (fst (port_management_reply e pid q c req))"
  by (simp add: port_management_reply_def port_management_construct_def split_beta split: option.split)

lemma keeps_management [simp]:
  "keeps p q \<Longrightarrow> keeps p (fst (management_respond e pid q c req fill))"
  "keeps p q \<Longrightarrow> keeps p (fst (port_management_error e pid q c req err))"
  "keeps p q \<Longrightarrow> keeps p (fst (port_forward e m q))"
  by (simp_all add: management_respond_def port_management_error_def port_forward_def Let_def split_beta
      split: option.split)

lemma keeps_get_response [simp]:
  "keeps p q \<Longrightarrow> keeps p (fst (port_management_get_response e t q c mid req))"
  "keeps p q \<Longrightarrow> keeps p (fst (clock_management_get_response e uds q c mid req))"
  by (simp_all add: port_management_get_response_def clock_management_get_response_def)

lemma keeps_tc [simp]:
  "keeps p q \<Longrightarrow> keeps p (tc_append t q)"
  "keeps p q \<Longrightarrow> keeps p (tc_remove P t q)"
  "keeps p q \<Longrightarrow> keeps p (tc_prune now q)"
  "keeps p q \<Longrightarrow> keeps p (tc_announce_timeout e q)"
  by (simp_all add: tc_append_def tc_remove_def tc_prune_def tc_announce_timeout_def Let_def split_beta split: option.split)

lemma keeps_tc_delay [simp]:
  "keeps p q \<Longrightarrow> keeps p (fst (e2e_delay_timeout e q c))"
  "keeps p q \<Longrightarrow> keeps p (fst (p2p_delay_request e q c))"
  by (simp_all add: e2e_delay_timeout_def p2p_delay_request_def Let_def)

lemma keeps_fault_timeout [simp]: "keeps p q \<Longrightarrow> keeps p (clock_fault_timeout b q)"
  by (simp add: clock_fault_timeout_def port_set_fault_timer_lin_def port_set_fault_timer_log_def
      split: fault_interval.split prod.split)

text \<open>No port raises the event that makes it a slave.\<close>

lemma bc_event_own: "snd (snd (bc_event manage e p c ev)) \<noteq> EV_RS_SLAVE"
proof -
  have m: "snd (snd (process_message manage e q d m)) \<noteq> EV_RS_SLAVE" for q d m
    by (simp add: process_message_def Let_def split_beta)
  have a: "snd (snd (bc_accept manage e q d m)) \<noteq> EV_RS_SLAVE" for q d m
    using m by (simp add: bc_accept_def Let_def split_beta split: bool.split)
  have r: "snd (snd (bc_receive manage e q d i)) \<noteq> EV_RS_SLAVE" for q d i
    using a by (simp add: bc_receive_def Let_def split_beta split: option.split sum.split)
  show ?thesis
    using r by (simp add: bc_event_def Let_def split_beta announce_timeout_def link_event_def
        split: fd_event.split timer.split)
qed

lemma tc_event_own:
  fixes c :: "'a system_scheme"
  shows "snd (e2e_event e i ev c) \<noteq> EV_RS_SLAVE" "snd (p2p_event e i ev c) \<noteq> EV_RS_SLAVE"
proof -
  have a: "snd (tc_announce e i m dup d) \<noteq> EV_RS_SLAVE" for m dup and d :: "'a system_scheme"
    by (simp add: tc_announce_def Let_def split_beta decide_if_def split: option.split)
  have h: "snd (e2e_message e i m dup d) \<noteq> EV_RS_SLAVE" "snd (p2p_message e i m dup d) \<noteq> EV_RS_SLAVE"
    for m dup and d :: "'a system_scheme"
    using a by (simp_all add: e2e_message_def p2p_message_def Let_def split_beta fault_if_def
        split: bool.split option.split)
  have r: "(\<And>m dup d. snd (handle e i m dup d) \<noteq> EV_RS_SLAVE) \<Longrightarrow> snd (tc_receive handle e i x c) \<noteq> EV_RS_SLAVE"
    for handle x
    by (simp add: tc_receive_def Let_def split_beta split: option.split)
  have l: "snd (on_port i (link_events e links) c) \<noteq> EV_RS_SLAVE" for links
    by (simp add: on_port_def link_events_def split_beta link_event_def)
  show "snd (e2e_event e i ev c) \<noteq> EV_RS_SLAVE" "snd (p2p_event e i ev c) \<noteq> EV_RS_SLAVE"
    using l r h by (simp_all add: e2e_event_def p2p_event_def split_beta at_port_def fault_if_def
        split: fd_event.split timer.split)
qed

lemma port_event_own: "snd (port_event e n ev c) \<noteq> EV_RS_SLAVE"
  by (simp add: bc_event_own tc_event_own port_event_def on_port_def split_beta split: clock_type.split)

subsection \<open>Relations between clocks\<close>

definition ports_rel :: "(port \<Rightarrow> port \<Rightarrow> bool) \<Rightarrow> 'z system_scheme \<Rightarrow> 'z system_scheme \<Rightarrow> bool" where
  "ports_rel R c d \<longleftrightarrow> list_all2 R (c_ports c) (c_ports d) \<and> R (c_uds c) (c_uds d) \<and>
     c_best d = c_best c \<and> c_type d = c_type c"

text \<open>A relation of ports that do not change their identity.\<close>

locale clock_relation = port_relation R ts evs ty
  for R :: "port \<Rightarrow> port \<Rightarrow> bool" and ts :: "clock_type set" and evs :: "fsm_event set" and ty :: "'y system_ext itself" +
  assumes R_identity: "R p q \<Longrightarrow> p_portIdentity q = p_portIdentity p"
begin

definition good :: "'y system_scheme \<Rightarrow> bool" where "good c \<longleftrightarrow> sys_wf c \<and> c_type c \<in> ts"

definition rel :: "'y system_scheme \<Rightarrow> 'y system_scheme \<Rightarrow> bool" where "rel c d \<longleftrightarrow> (good c \<longrightarrow> good d \<and> ports_rel R c d)"

lemma ports_rel_good:
  assumes "good c" and "ports_rel R c d"
  shows "good d"
proof -
  have "list_all2 (\<lambda>p q. portnum q = portnum p) (c_ports c) (c_ports d)"
    using assms(2) R_identity by (auto simp: ports_rel_def elim!: list_all2_mono)
  then have "map portnum (c_ports d) = map portnum (c_ports c)"
    by (induction rule: list_all2_induct) auto
  moreover have "portnum (c_uds d) = portnum (c_uds c)" using assms(2) R_identity by (auto simp: ports_rel_def)
  ultimately show ?thesis using assms by (simp add: good_def sys_wf_def ports_rel_def)
qed

lemma relI: "(good c \<Longrightarrow> ports_rel R c d) \<Longrightarrow> rel c d"
  unfolding rel_def using ports_rel_good by blast

lemma rel_refl [simp]: "rel c c"
  by (intro relI) (simp add: ports_rel_def list_all2_refl)

lemma rel_trans: "rel a b \<Longrightarrow> rel b c \<Longrightarrow> rel a c"
proof (rule relI)
  assume "rel a b" "rel b c" "good a"
  then have ab: "ports_rel R a b" and bc: "ports_rel R b c" by (auto simp: rel_def)
  have "list_all2 R (c_ports a) (c_ports c)"
    using ab bc by (auto simp: ports_rel_def intro: list_all2_trans [OF R_trans])
  moreover have "R (c_uds a) (c_uds c)" using ab bc R_trans by (auto simp: ports_rel_def)
  ultimately show "ports_rel R a c" using ab bc by (simp add: ports_rel_def)
qed

lemma rel_same: "same_clock d d' \<Longrightarrow> rel c d \<Longrightarrow> rel c d'"
  by (erule rel_trans, rule relI)
    (simp add: ports_rel_def same_clock_ports list_all2_refl, simp add: same_clock_def)

lemma rel_put: "(good c \<Longrightarrow> R (the_port n c) q) \<Longrightarrow> rel c (put_port n q c)"
proof (rule relI)
  assume g: "good c" and *: "good c \<Longrightarrow> R (the_port n c) q"
  then have R: "R (the_port n c) q" by blast
  have "R p (if portnum p = n then q else p)" if "p \<in> set (c_ports c)" for p
    using the_port_unique [OF _ that] g R by (auto simp: good_def)
  then have "list_all2 R (c_ports c) (map (\<lambda>p. if portnum p = n then q else p) (c_ports c))"
    by (simp add: list_all2_map2 list_all2_same)
  moreover have "R (c_uds c) (c_uds (put_port n q c))"
    using R by (cases "is_uds n c") (simp_all add: put_port_uds the_port_uds)
  ultimately show "ports_rel R c (put_port n q c)" by (simp add: ports_rel_def put_port_ports)
qed

lemma rel_put_keeps: "keeps (the_port n d) q \<Longrightarrow> rel c d \<Longrightarrow> rel c (put_port n q d)"
  by (erule rel_trans, rule rel_put, rule keeps_R)

lemma rel_at_port: "keeps (the_port n d) (fst (f (the_port n d) d)) \<Longrightarrow> rel c d \<Longrightarrow> rel c (fst (at_port n f d))"
  by (simp add: at_port_def split_beta rel_put_keeps)

text \<open>An operation on a port and the rest of the clock.\<close>

lemma rel_on_port:
  assumes "good d \<Longrightarrow> R (the_port n d) (fst (f (the_port n d) d))"
    and "same_clock d (fst (snd (f (the_port n d) d)))" and "rel c d"
  shows "rel c (fst (on_port n f d))"
proof -
  let ?r = "f (the_port n d) d"
  have "rel d (fst (snd ?r))" using assms(2) by (rule rel_same) simp
  moreover have "rel (fst (snd ?r)) (put_port n (fst ?r) (fst (snd ?r)))"
  proof (rule rel_put)
    assume "good (fst (snd ?r))"
    then have "good d"
      using same_clock_ports [OF assms(2)] assms(2) by (simp add: good_def sys_wf_def same_clock_def)
    from assms(1) [OF this] show "R (the_port n (fst (snd ?r))) (fst ?r)"
      unfolding same_clock_ports(4) [OF assms(2)] .
  qed
  ultimately have "rel c (put_port n (fst ?r) (fst (snd ?r)))"
    by (rule rel_trans [OF assms(3) rel_trans])
  then show ?thesis by (simp add: on_port_def split_beta)
qed

lemma rel_fields [simp]:
  "rel c (d\<lparr>c_dds := x\<rparr>) = rel c d" "rel c (d\<lparr>c_sde := b\<rparr>) = rel c d" "rel c (d\<lparr>c_subscribers := s\<rparr>) = rel c d"
  "rel c (d\<lparr>c_utc_offset := u\<rparr>) = rel c d" "rel c (d\<lparr>c_time_flags := w\<rparr>) = rel c d" "rel c (d\<lparr>c_time_source := w\<rparr>) = rel c d"
  by (simp_all add: rel_def good_def sys_wf_def ports_rel_def)

text \<open>Management.\<close>

lemma rel_send_error [simp]: "rel c d \<Longrightarrow> rel c (send_error e t i m err d)"
  by (simp add: send_error_def rel_at_port)

lemma rel_port_management_set [simp]: "rel c d \<Longrightarrow> rel c (fst (port_management_set e n i mid m d))"
  by (simp add: port_management_set_def Let_def rel_at_port rel_put_keeps)

lemma rel_port_manage [simp]: "rel c d \<Longrightarrow> rel c (fst (port_manage e n i m d))"
  by (simp add: port_manage_def Let_def split_beta rel_at_port split: bool.split)

lemma rel_ports_manage [simp]: "rel c d \<Longrightarrow> rel c (fst (ports_manage e i m ks k d))"
  by (induction ks arbitrary: k d) (simp_all add: split_beta)

lemma rel_manage_rest [simp]: "rel c d \<Longrightarrow> rel c (fst (manage_rest e i m b d))"
  by (simp add: manage_rest_def Let_def split_beta split: option.split)

lemma rel_clock_management_set [simp]: "rel c d \<Longrightarrow> rel c (fst (clock_management_set e i mid m d))"
  by (simp add: clock_management_set_def Let_def rel_at_port)

lemma rel_manage_local [simp]: "rel c d \<Longrightarrow> rel c (fst (manage_local e i m d))"
  by (simp add: manage_local_def Let_def split_beta rel_at_port split: bool.split)

lemma rel_do_forward [simp]: "rel c (fst st) \<Longrightarrow> rel c (fst (clock_do_forward_mgmt e i n st))"
  by (cases st) (simp add: clock_do_forward_mgmt_def Let_def rel_at_port)

lemma rel_forward_all: "rel c (fst st) \<Longrightarrow> rel c (fst (fold (clock_do_forward_mgmt e i) ks st))"
  by (induction ks arbitrary: st) simp_all

lemma rel_forward_mgmt [simp]: "rel c d \<Longrightarrow> rel c (fst (clock_forward_mgmt_msg e i m d))"
  using rel_forward_all [of c "(d, m\<lparr>boundaryHops := boundaryHops m - 1\<rparr>, False)" e i]
  by (simp add: clock_forward_mgmt_msg_def Let_def split_beta split: bool.split)

lemma rel_clock_manage [simp]: "rel c d \<Longrightarrow> rel c (fst (clock_manage e i m d))"
  by (simp add: clock_manage_def split_beta)

text \<open>An event of a port of an ordinary or boundary clock.\<close>

lemma ports_rel_numbers:
  assumes "ports_rel R c d"
  shows "portnum ` set (c_ports d) = portnum ` set (c_ports c)" "portnum (c_uds d) = portnum (c_uds c)"
proof -
  have "list_all2 (\<lambda>p q. portnum q = portnum p) (c_ports c) (c_ports d)"
    using assms R_identity by (auto simp: ports_rel_def elim!: list_all2_mono)
  then have "map portnum (c_ports d) = map portnum (c_ports c)"
    by (induction rule: list_all2_induct) auto
  then show "portnum ` set (c_ports d) = portnum ` set (c_ports c)" by (metis set_map)
  show "portnum (c_uds d) = portnum (c_uds c)" using assms R_identity by (auto simp: ports_rel_def)
qed

lemma same_number:
  assumes "good c" and "rel c d"
  shows "the_port (portnum (the_port n c)) d = the_port n d \<and> put_port (portnum (the_port n c)) q d = put_port n q d"
proof (cases "is_uds n c")
  case True
  have r: "ports_rel R c d" using assms by (simp add: rel_def)
  have "is_uds (portnum (the_port n c)) d" "is_uds n d"
    using True assms(1) ports_rel_numbers [OF r] by (simp_all add: the_port_uds good_def sys_wf_def is_uds_iff)
  then show ?thesis by (simp add: the_port_uds put_port_def)
qed (simp add: the_port_mem)

lemma rel_manage_from:
  assumes "keeps (the_port n c) p" and "same_clock c c'" and "keeps (fst (manage_from e p c' m)) q"
  shows "rel c (put_port n q (fst (snd (manage_from e p c' m))))"
proof -
  let ?i = "portnum p"
  let ?d = "fst (clock_manage e ?i m (put_port ?i p c'))"
  have i: "?i = portnum (the_port n c)" using assms(1) by (simp add: keeps_def)
  have m: "manage_from e p c' m = (the_port ?i ?d, ?d, snd (clock_manage e ?i m (put_port ?i p c')))"
    by (simp add: manage_from_def Let_def split_beta)
  show ?thesis
  proof (cases "good c")
    case True
    note number = same_number [OF True]
    have c': "rel c c'" using assms(2) by (rule rel_same) simp
    have "the_port ?i c' = the_port n c'" using number [OF c', of n] i by simp
    then have "keeps (the_port ?i c') p" using assms(1) same_clock_ports(4) [OF assms(2)] by simp
    then have d: "rel c ?d" using c' by (intro rel_clock_manage rel_put_keeps)
    have "keeps (the_port n ?d) q" using assms(3) number [OF d, of n] i by (simp add: m)
    then have "rel c (put_port n q ?d)" using d by (rule rel_put_keeps)
    then show ?thesis by (simp add: m)
  qed (simp add: rel_def)
qed

lemma rel_bc_event [simp]:
  assumes "rel c d"
  shows "rel c (fst (on_port n (\<lambda>p c. bc_event manage_from e p c ev) d))"
proof (cases "good d")
  case True
  let ?p = "the_port n d"
  let ?r = "bc_event manage_from e ?p d ev"
  have "c_type d \<in> ts" using True by (simp add: good_def)
  from bc_event_step [OF this, of manage_from e ?p ev] consider
    "R ?p (fst ?r)" "same_clock d (fst (snd ?r))" | "via_manage manage_from e ?p d (fst ?r) (fst (snd ?r))"
    unfolding step_def by blast
  then have "rel d (fst (on_port n (\<lambda>p c. bc_event manage_from e p c ev) d))"
  proof cases
    case 1
    then show ?thesis by (intro rel_on_port) simp_all
  next
    case 2
    then obtain p' c' m where "keeps ?p p'" "same_clock d c'" "keeps (fst (manage_from e p' c' m)) (fst ?r)"
      "fst (snd ?r) = fst (snd (manage_from e p' c' m))"
      unfolding via_manage_def by blast
    from rel_manage_from [OF this(1-3)] this(4) show ?thesis by (simp add: on_port_def split_beta)
  qed
  with assms show ?thesis by (rule rel_trans)
next
  case False
  have "rel d x" for x using False by (simp add: rel_def)
  with assms show ?thesis by (blast intro: rel_trans)
qed

text \<open>Transitions.\<close>

lemma rel_dispatch_on:
  assumes "rel c d" and "ev \<in> evs"
  shows "rel c (fst (on_port n (\<lambda>p c. case port_dispatch e p c ev md of (p, c) \<Rightarrow> (p, c, ())) d))"
proof (rule rel_on_port [OF _ _ assms(1)])
  assume "good d"
  then have "c_type d \<in> ts" by (simp add: good_def)
  then show "R (the_port n d) (fst (case port_dispatch e (the_port n d) d ev md of (p, c) \<Rightarrow> (p, c, ())))"
    by (simp add: split_beta dispatch_R assms(2))
qed (simp add: split_beta)

lemma rel_dispatch: "rel c d \<Longrightarrow> ev \<in> evs \<Longrightarrow> rel c (dispatch_on e n ev md d)"
  by (simp add: dispatch_on_def rel_dispatch_on)

text \<open>Transparent clocks.\<close>

lemma rel_tc_fault [simp]: "rel c d \<Longrightarrow> rel c (tc_fault e n d)"
  by (simp add: tc_fault_def rel_dispatch_on evs_own)

lemma rel_tc_send [simp]: "rel c d \<Longrightarrow> rel c (tc_send e ev n m d)"
  by (simp add: tc_send_def split_beta rel_at_port split: bool.split)

lemma rel_tc_store [simp]: "rel c d \<Longrightarrow> rel c (tc_store e i n m r d)"
  by (simp add: tc_store_def rel_put_keeps)

lemma rel_tc_complete [simp]: "rel c d \<Longrightarrow> rel c (tc_complete e i n m r d)"
  by (simp add: tc_complete_def tc_complete_syfup_def tc_complete_request_def tc_complete_response_def
      Let_def split_beta rel_put_keeps split: option.split)

lemma rel_tc_send_all [simp]: "rel c d \<Longrightarrow> rel c (tc_send_all e ev i m ks d)"
  by (induction ks arbitrary: d) simp_all

lemma rel_tc_gather [simp]: "rel c d \<Longrightarrow> rel c (tc_gather e i t m ks d)"
  by (induction ks arbitrary: d m) (simp_all add: Let_def split: option.split)

lemma rel_tc_complete_all [simp]: "rel c d \<Longrightarrow> rel c (tc_complete_all e i m ks d)"
  by (induction ks arbitrary: d) simp_all

lemma rel_tc_fwd [simp]:
  "rel c d \<Longrightarrow> rel c (tc_fwd_event e i m d)" "rel c d \<Longrightarrow> rel c (tc_forward e i m d)"
  "rel c d \<Longrightarrow> rel c (tc_fwd_folup e i m d)" "rel c d \<Longrightarrow> rel c (tc_fwd_request e i m d)"
  "rel c d \<Longrightarrow> rel c (tc_fwd_response e i m d)"
  by (simp_all add: tc_fwd_event_def tc_forward_def tc_fwd_folup_def tc_fwd_request_def tc_fwd_response_def Let_def)

lemma rel_tc_fwd_sync [simp]: "rel c d \<Longrightarrow> rel c (fst (tc_fwd_sync e i m d))"
  by (simp add: tc_fwd_sync_def Let_def split_beta rel_at_port rel_put_keeps split: option.split)

lemma rel_on_messages [simp]:
  assumes "rel c d"
  shows "rel c (on_sync e i m d)" "rel c (on_follow_up e i m d)" "rel c (on_delay_resp e i m d)"
    "rel c (on_pdelay_resp_fup e i m d)"
  unfolding on_sync_def on_follow_up_def on_delay_resp_def on_pdelay_resp_fup_def
  by (rule rel_on_port [OF _ _ assms]; simp add: split_beta good_def process_sync_R process_follow_up_R keeps_R)+

lemma rel_tc_announce [simp]: "rel c d \<Longrightarrow> rel c (fst (tc_announce e i m dup d))"
  by (simp add: tc_announce_def Let_def split_beta split: option.split)
    (blast intro: rel_on_port keeps_R keeps_announce(1) keeps_refl same_clock_announce(1) same_clock_refl rel_tc_fwd(2))

lemma rel_process_pdelay_resp [simp]:
  "rel c d \<Longrightarrow> rel c (fst (on_port i (\<lambda>p c. process_pdelay_resp e p c m) d))"
  by (rule rel_on_port) (simp_all add: keeps_R)

lemma rel_e2e_message [simp]: "rel c d \<Longrightarrow> rel c (fst (e2e_message e i m dup d))"
  by (simp add: e2e_message_def Let_def split_beta split: option.split bool.split)

lemma rel_p2p_message [simp]: "rel c d \<Longrightarrow> rel c (fst (p2p_message e i m dup d))"
  by (simp add: p2p_message_def Let_def split_beta rel_at_port split: option.split bool.split)

lemma rel_put_on [simp]: "rel c d \<Longrightarrow> rel c (put_on i m d)"
  by (simp add: put_on_def rel_put_keeps)

lemma rel_tc_receive:
  assumes "\<And>d m dup. rel c d \<Longrightarrow> rel c (fst (handle e i m dup d))" and "rel c d"
  shows "rel c (fst (tc_receive handle e i input d))"
  using assms by (simp add: tc_receive_def Let_def split_beta rel_at_port split: option.split)

lemma rel_link_events [simp]:
  assumes "rel c d"
  shows "rel c (fst (on_port i (link_events e links) d))"
  using assms
  by (intro rel_on_port) (simp_all add: link_events_def split_beta good_def link_events_R link_events_same)

lemma rel_tc_events [simp]:
  "rel c d \<Longrightarrow> rel c (fst (e2e_event e i ev d))" "rel c d \<Longrightarrow> rel c (fst (p2p_event e i ev d))"
  by (simp_all add: e2e_event_def p2p_event_def split_beta rel_at_port rel_tc_receive split: fd_event.split timer.split)

text \<open>One pass of the poll loop up to the state decision.\<close>

lemma rel_port_event [simp]: "rel c d \<Longrightarrow> rel c (fst (port_event e n ev d))"
  by (simp add: port_event_def split: clock_type.split)

lemma rel_poll_event [simp]: "rel c d \<Longrightarrow> rel c (poll_event e n ev d)"
  by (simp add: poll_event_def Let_def split_beta rel_put_keeps rel_dispatch evs_own port_event_own)

lemma rel_poll_events [simp]: "rel c d \<Longrightarrow> rel c (poll_events n xs d)"
  by (induction n xs d rule: poll_events.induct) (simp_all add: Let_def)

lemma rel_poll_port [simp]: "rel c d \<Longrightarrow> rel c (poll_port r d)"
  by (simp add: poll_port_def poll_fault_def Let_def rel_put_keeps rel_dispatch evs_own split: option.split)

lemma rel_poll_uds [simp]: "rel c d \<Longrightarrow> rel c (poll_uds x d)"
  by (simp add: poll_uds_def split_beta)

lemma rel_fold: "(\<And>x d. rel c d \<Longrightarrow> rel c (f x d)) \<Longrightarrow> rel c d \<Longrightarrow> rel c (fold f xs d)"
  by (induction xs arbitrary: d) simp_all

lemma rel_polls: "rel c (fold poll_uds uds (fold poll_port ready c))"
  by (intro rel_fold) simp_all

text \<open>State decision.\<close>

lemma rel_compute_best [simp]: "rel c d \<Longrightarrow> rel c (fst (compute_best_on e n d))"
  by (simp add: compute_best_on_def rel_at_port split_beta)

lemma rel_elect_best [simp]: "rel c d \<Longrightarrow> rel c (fst (elect_best es ks best d))"
  by (induction ks arbitrary: d best) (simp_all add: split_beta split: option.split)

lemma rel_decide_port:
  assumes r: "rel c d" and slave: "EV_RS_SLAVE \<in> evs \<or> decide_state n d \<noteq> PS_SLAVE"
  shows "rel c (decide_port es b n d)"
proof -
  have g: "rel c (clock_update_grandmaster d)" "rel c (clock_update_slave d fc m)" for fc m
    by (rule rel_same [OF _ r], simp)+
  have n: "keeps p (pfx [NullDereference] p)" for p by simp
  show ?thesis
    using r g n slave by (auto simp: decide_port_def rel_put_keeps rel_dispatch evs_own split: port_state.split option.split list.split)
qed

end

end
