(* ===== verification/OneSlave.thy ===== *)
theory OneSlave
  imports SystemFrame
begin

text \<open>
  At most one port of a clock is a slave: whatever the ports receive and whatever fails, a port in
  SLAVE or UNCALIBRATED is the one that \<open>c_best\<close> names, unless the clock has read through a null or
  dangling pointer before.
\<close>

subsection \<open>Transitions\<close>

definition extends :: "port \<Rightarrow> port \<Rightarrow> bool" where
  "extends p q \<longleftrightarrow> p_portIdentity q = p_portIdentity p \<and> p_slave_only_fsm q = p_slave_only_fsm p \<and>
     p_state q = p_state p \<and> (\<exists>es. p_fx q = p_fx p @ es)"

lemma extends_refl [simp]: "extends p p"
  by (simp add: extends_def)

lemma extends_trans [trans]: "extends p q \<Longrightarrow> extends q r \<Longrightarrow> extends p r"
  by (auto simp: extends_def)

lemma keeps_extends: "keeps p q \<Longrightarrow> extends p q"
  by (auto simp: keeps_def extends_def)

lemma extends_pfx [simp]: "extends p q \<Longrightarrow> extends p (pfx es q)"
  by (auto simp: extends_def pfx_def)

lemma extends_timers [simp]:
  "extends p q \<Longrightarrow> extends p (set_tmo_log t k n q)"
  "extends p q \<Longrightarrow> extends p (port_set_announce_tmo e q)"
  "extends p q \<Longrightarrow> extends p (port_set_delay_tmo e q)"
  "extends p q \<Longrightarrow> extends p (port_set_qualification_tmo c q)"
  "extends p q \<Longrightarrow> extends p (port_set_sync_tx_tmo q)"
  "extends p q \<Longrightarrow> extends p (flush_last_sync q)"
  "extends p q \<Longrightarrow> extends p (flush_delay_req q)"
  "extends p q \<Longrightarrow> extends p (flush_peer_delay q)"
  "extends p q \<Longrightarrow> extends p (tc_clear_timers q)"
  by (erule extends_trans, rule keeps_extends, simp)+ (simp add: tc_clear_timers_def)

lemma port_disable_extends [simp]: "extends p q \<Longrightarrow> extends p (port_disable q)"
proof (erule extends_trans)
  have "p_portIdentity (port_disable q) = p_portIdentity q"
    by (simp add: port_disable_def Let_def pfx_def prefs_def flush_peer_delay_def flush_delay_req_def
        flush_last_sync_def tc_flush_def pput_opt_prefs pput_def)
  then show "extends q (port_disable q)" by (simp add: extends_def port_disable_fx)
qed

lemma port_initialize_extends [simp]: "extends p q \<Longrightarrow> extends p (fst (port_initialize e q))"
proof (erule extends_trans)
  have c: "extends q (port_config cfg q)" for cfg by (simp add: extends_def port_config_def)
  have n: "extends q r \<Longrightarrow> extends q (port_nrate_initialize r)" for r
    by (erule extends_trans, rule keeps_extends, simp)
  show "extends q (fst (port_initialize e q))"
    using c n by (simp add: port_initialize_def Let_def)
qed

lemma port_restart_extends [simp]: "extends p (fst (port_restart e p))"
  by (simp add: port_restart_def split_beta)

lemma transition_extends [simp]:
  "extends p q \<Longrightarrow> extends p (port_e2e_transition e c q s)" "extends p q \<Longrightarrow> extends p (port_p2p_transition e c q s)"
  by (cases s; simp add: port_e2e_transition_def port_p2p_transition_def Let_def)+

text \<open>The state after an update.\<close>

lemma restart_state: "snd (port_restart e p) \<in> {PS_LISTENING, PS_FAULTY}"
  by (simp add: port_restart_def split_beta state_machine_def fsm_defs)

lemma port_state_update_state:
  "p_state (fst (port_state_update e p ev md)) \<in>
     (if next_state p ev md = PS_INITIALIZING then {PS_LISTENING, PS_FAULTY} else {next_state p ev md})"
  using restart_state [of e p] port_restart_extends [of p e]
  by (auto simp: port_state_update_def Let_def split_beta extends_def pfx_def)

lemma next_state_slave:
  "ev \<noteq> EV_RS_SLAVE \<Longrightarrow> slave_states (next_state p ev md) \<Longrightarrow> slave_states (p_state p)"
  by (cases "p_state p"; cases ev; cases "p_slave_only_fsm p")
    (simp_all add: next_state_def state_machine_def fsm_defs slave_states_def Let_def split: if_splits)

lemma next_state_demoted:
  "ev \<in> {EV_RS_MASTER, EV_RS_GRAND_MASTER, EV_RS_PASSIVE, EV_FAULT_DETECTED} \<Longrightarrow> \<not> slave_states (next_state p ev md)"
  by (cases "p_state p"; cases "p_slave_only_fsm p")
    (auto simp: next_state_def state_machine_def fsm_defs slave_states_def Let_def)

text \<open>What an update of the state does apart from the state.\<close>

definition moves :: "port \<Rightarrow> port \<Rightarrow> bool" where
  "moves p q \<longleftrightarrow> p_portIdentity q = p_portIdentity p \<and> p_slave_only_fsm q = p_slave_only_fsm p \<and>
     (\<exists>es. p_fx q = p_fx p @ es)"

lemma moves_trans: "moves p q \<Longrightarrow> moves q r \<Longrightarrow> moves p r"
  by (auto simp: moves_def)

lemma extends_moves: "extends p q \<Longrightarrow> moves p q"
  by (auto simp: moves_def extends_def)

lemma port_state_update_moves: "moves p (fst (port_state_update e p ev md))"
proof -
  have m: "moves p q \<Longrightarrow> moves p (q\<lparr>p_state := s\<rparr>)" "moves p q \<Longrightarrow> moves p (pfx es q)" for q s es
    by (auto simp: moves_def pfx_def)
  have r: "moves p (fst (port_restart e p))" "moves p p" by (rule extends_moves, simp)+
  show ?thesis by (simp add: port_state_update_def Let_def split_beta m r)
qed

lemma extends_state: "extends p q \<Longrightarrow> p_state q = p_state p"
  by (simp add: extends_def)

lemma bc_transition_spec:
  "extends (fst (port_state_update e p ev md)) (fst (bc_transition e p c ev md))"
  by (simp add: bc_transition_def split_beta split: bool.split)

lemma tc_dispatch_spec:
  "extends (fst (port_state_update e p ev md)) (e2e_dispatch e p c ev md)"
  "extends (fst (port_state_update e p ev md)) (p2p_dispatch e p c ev md)"
  by (simp_all add: e2e_dispatch_def p2p_dispatch_def split_beta Let_def split: bool.split port_state.split)

lemma fault_not_slave: "\<not> slave_states (p_state (fst (bc_transition e p c EV_FAULT_DETECTED md)))"
proof -
  have "p_state (fst (bc_transition e p c EV_FAULT_DETECTED md)) = p_state (fst (port_state_update e p EV_FAULT_DETECTED md))"
    by (rule extends_state [OF bc_transition_spec])
  then show ?thesis
    using port_state_update_state [of e p EV_FAULT_DETECTED md] next_state_demoted [of EV_FAULT_DETECTED p md]
    by (auto simp: slave_states_def split: if_splits)
qed

text \<open>A dispatched event extends the update, or ends in a fault.\<close>

lemma port_dispatch_moves: "moves p (fst (port_dispatch e p c ev md))"
proof -
  note u = port_state_update_moves [of p e ev md]
  have b: "moves p (fst (bc_transition e p c ev md))"
    using moves_trans [OF u extends_moves [OF bc_transition_spec]] .
  have t: "moves p (e2e_dispatch e p c ev md)" "moves p (p2p_dispatch e p c ev md)"
    using moves_trans [OF u extends_moves [OF tc_dispatch_spec(1)]] moves_trans [OF u extends_moves [OF tc_dispatch_spec(2)]]
    by blast+
  have "moves q (fst (bc_transition e (q\<lparr>p_last_fault_type := f\<rparr>) c EV_FAULT_DETECTED False))" for q f
    by (rule moves_trans [OF _ moves_trans [OF port_state_update_moves extends_moves [OF bc_transition_spec]]])
      (simp add: moves_def)
  from moves_trans [OF b this] b t show ?thesis
    by (simp add: port_dispatch_def bc_dispatch_def split_beta split: clock_type.split bool.split option.split)
qed

lemma port_dispatch_slave:
  assumes "slave_states (p_state (fst (port_dispatch e p c ev md)))"
  shows "slave_states (p_state (fst (port_state_update e p ev md)))"
proof -
  have s: "p_state (fst (bc_transition e p c ev md)) = p_state (fst (port_state_update e p ev md))"
    "p_state (e2e_dispatch e p c ev md) = p_state (fst (port_state_update e p ev md))"
    "p_state (p2p_dispatch e p c ev md) = p_state (fst (port_state_update e p ev md))"
    by (rule extends_state [OF bc_transition_spec] extends_state [OF tc_dispatch_spec(1)]
        extends_state [OF tc_dispatch_spec(2)])+
  show ?thesis
    using assms s fault_not_slave
    by (auto simp: port_dispatch_def bc_dispatch_def split_beta split: clock_type.splits bool.splits option.splits if_splits)
qed

lemma dispatch_slave:
  assumes "slave_states (p_state (fst (port_dispatch e p c ev md)))" and "ev \<noteq> EV_RS_SLAVE"
  shows "slave_states (p_state p) \<and> ev \<notin> {EV_RS_MASTER, EV_RS_GRAND_MASTER, EV_RS_PASSIVE, EV_FAULT_DETECTED}"
proof -
  have "slave_states (next_state p ev md)"
    using port_dispatch_slave [OF assms(1)] port_state_update_state [of e p ev md]
    by (auto simp: slave_states_def split: if_splits)
  then show ?thesis using next_state_slave [OF assms(2)] next_state_demoted by blast
qed

subsection \<open>No port becomes a slave by itself\<close>

definition demotes :: "port \<Rightarrow> port \<Rightarrow> bool" where
  "demotes p q \<longleftrightarrow> p_portIdentity q = p_portIdentity p \<and>
     (slave_states (p_state q) \<longrightarrow> slave_states (p_state p)) \<and>
     (NullDereference \<in> set (p_fx p) \<longrightarrow> NullDereference \<in> set (p_fx q))"

interpretation demotion: clock_relation demotes UNIV "UNIV - {EV_RS_SLAVE}" "TYPE('y system_ext)"
proof unfold_locales
  fix e p and c :: "'y system_scheme" and ev md
  assume "ev \<in> UNIV - {EV_RS_SLAVE}"
  then show "demotes p (fst (port_dispatch e p c ev md))"
    using dispatch_slave [of e p c ev md] port_dispatch_moves [of p e c ev md]
    by (auto simp: demotes_def moves_def)
qed (auto simp: demotes_def keeps_def)

definition dereferenced :: "'z system_scheme \<Rightarrow> bool" where
  "dereferenced c \<longleftrightarrow> list_ex (\<lambda>p. NullDereference \<in> set (p_fx p)) (c_ports c)"

definition only_best :: "u16 set \<Rightarrow> 'z system_scheme \<Rightarrow> bool" where
  "only_best S c \<longleftrightarrow> list_all (\<lambda>p. portnum p \<in> S \<longrightarrow> slave_states (p_state p) \<longrightarrow>
     map_option fst (c_best c) = Some (portnum p)) (c_ports c)"

definition one_slave :: "u16 set \<Rightarrow> 'z system_scheme \<Rightarrow> bool" where
  "one_slave S c \<longleftrightarrow> dereferenced c \<or> only_best S c"

lemma one_slave_rel:
  assumes "ports_rel demotes c d" and "one_slave S c"
  shows "one_slave S d"
proof -
  have l: "list_all2 demotes (c_ports c) (c_ports d)" and b: "c_best d = c_best c"
    using assms(1) by (simp_all add: ports_rel_def)
  from l have "list_ex (\<lambda>p. NullDereference \<in> set (p_fx p)) (c_ports c) \<Longrightarrow>
      list_ex (\<lambda>p. NullDereference \<in> set (p_fx p)) (c_ports d)"
    by (induction rule: list_all2_induct) (auto simp: demotes_def)
  moreover from l have "list_all (\<lambda>p. portnum p \<in> S \<longrightarrow> slave_states (p_state p) \<longrightarrow>
      map_option fst (c_best c) = Some (portnum p)) (c_ports c) \<Longrightarrow>
    list_all (\<lambda>p. portnum p \<in> S \<longrightarrow> slave_states (p_state p) \<longrightarrow>
      map_option fst (c_best c) = Some (portnum p)) (c_ports d)"
    by (induction rule: list_all2_induct) (auto simp: demotes_def)
  ultimately show ?thesis using assms(2) by (auto simp: one_slave_def dereferenced_def only_best_def b)
qed

subsection \<open>The state decision\<close>

lemma decide_state_slave:
  "decide_state n c = PS_SLAVE \<Longrightarrow> map_option fst (c_best c) = Some n"
  by (auto simp: decide_state_def bmc_state_decision_def split: if_splits)

lemma decide_state_listening:
  "decide_state n c = PS_LISTENING \<Longrightarrow> p_state (the_port n c) = PS_LISTENING"
  by (auto simp: decide_state_def bmc_state_decision_def split: if_splits)

lemma dispatch_on_put:
  "\<exists>d'. same_clock d d' \<and> dispatch_on e n ev md d = put_port n (fst (port_dispatch e (the_port n d) d ev md)) d'"
proof -
  have "same_clock d (snd (port_dispatch e (the_port n d) d ev md))" by simp
  then show ?thesis
    by (intro exI [of _ "snd (port_dispatch e (the_port n d) d ev md)"]) (simp add: dispatch_on_def on_port_def split_beta)
qed

text \<open>What one iteration makes of its port.\<close>

definition decided :: "u16 \<Rightarrow> 'z system_scheme \<Rightarrow> port \<Rightarrow> bool" where
  "decided n c q \<longleftrightarrow> moves (the_port n c) q \<and>
     (NullDereference \<in> set (p_fx q) \<or> (slave_states (p_state q) \<longrightarrow> map_option fst (c_best c) = Some n))"

lemma decide_port_put:
  fixes c :: "'y system_scheme"
  shows "\<exists>q d. same_clock c d \<and> decide_port es b n c = put_port n q d \<and> decided n c q"
proof -
  let ?p = "the_port n c"
  have null: "decided n c (pfx [NullDereference] ?p)"
    by (simp add: decided_def moves_def pfx_def)
  have d: "\<exists>q k. same_clock c k \<and> dispatch_on (es n) n ev b d = put_port n q k \<and> decided n c q"
    if "same_clock c d" "ev = EV_RS_SLAVE \<Longrightarrow> decide_state n c = PS_SLAVE"
      "ev \<notin> {EV_RS_SLAVE, EV_RS_MASTER, EV_RS_GRAND_MASTER, EV_RS_PASSIVE, EV_FAULT_DETECTED} \<Longrightarrow> p_state ?p = PS_LISTENING"
    for ev and d :: "'y system_scheme"
  proof -
    have same: "the_port n d = ?p" using that(1) by (rule same_clock_ports(4))
    obtain k where k: "same_clock d k" "dispatch_on (es n) n ev b d = put_port n (fst (port_dispatch (es n) ?p d ev b)) k"
      using dispatch_on_put [of d "es n" n ev b] same by auto
    have "decided n c (fst (port_dispatch (es n) ?p d ev b))"
      using port_dispatch_moves that(2,3) decide_state_slave [of n c] dispatch_slave [of "es n" ?p d ev b]
      by (cases "ev = EV_RS_SLAVE") (auto simp: decided_def slave_states_def)
    with k same_clock_trans [OF that(1) k(1)] show ?thesis by blast
  qed
  show ?thesis
  proof (cases "best_dangles c")
    case True
    then show ?thesis using null by (intro exI [of _ "pfx [NullDereference] ?p"] exI [of _ c]) (simp add: decide_port_def)
  next
    case False
    have g: "same_clock c (clock_update_grandmaster c)" "same_clock c (clock_update_slave c fc m)" for fc m
      by simp_all
    have n: "\<exists>q k. same_clock c k \<and> put_port n (pfx [NullDereference] ?p) c = put_port n q k \<and> decided n c q"
      using null by (intro exI [of _ "pfx [NullDereference] ?p"] exI [of _ c]) simp
    show ?thesis
    proof (cases "decide_state n c = PS_SLAVE")
      case True
      then show ?thesis
        using False n d [OF g(2), of EV_RS_SLAVE] by (simp add: decide_port_def split: option.split list.split)
    next
      case slave: False
      then show ?thesis
        using False d [OF same_clock_refl, of EV_NONE] d [OF same_clock_refl, of EV_RS_MASTER]
          d [OF same_clock_refl, of EV_RS_PASSIVE] d [OF same_clock_refl, of EV_FAULT_DETECTED]
          d [OF g(1), of EV_RS_GRAND_MASTER] decide_state_listening [of n c]
        by (cases "decide_state n c") (simp_all add: decide_port_def)
    qed
  qed
qed

lemma one_slave_put:
  assumes "sys_wf c" and "same_clock c d" and "decided n c q" and "one_slave S c"
  shows "one_slave (insert n S) (put_port n q d)"
proof -
  note same = same_clock_ports [OF assms(2)]
  have b: "c_best d = c_best c" using assms(2) by (simp add: same_clock_def)
  let ?f = "\<lambda>r. if portnum r = n then q else r"
  have ports: "c_ports (put_port n q d) = map ?f (c_ports c)" by (simp add: put_port_ports same)
  have u: "the_port n c = r" if "r \<in> set (c_ports c)" "portnum r = n" for r
    using the_port_unique [OF assms(1) that(1)] that(2) by simp
  then have m: "moves r q" if "r \<in> set (c_ports c)" "portnum r = n" for r
    using assms(3) that by (auto simp: decided_def)
  then have null: "NullDereference \<in> set (p_fx (?f r))" if "r \<in> set (c_ports c)" "NullDereference \<in> set (p_fx r)" for r
    using that m [OF that(1)] by (fastforce simp: moves_def)
  consider "dereferenced c" | r where "r \<in> set (c_ports c)" "portnum r = n" "NullDereference \<in> set (p_fx q)"
    | "only_best S c" "\<forall>r\<in>set (c_ports c). portnum r = n \<longrightarrow> NullDereference \<notin> set (p_fx q)"
    using assms(4) by (auto simp: one_slave_def)
  then show ?thesis
  proof cases
    case 1
    then have "dereferenced (put_port n q d)"
      using null unfolding dereferenced_def ports list_ex_iff set_map by blast
    then show ?thesis by (simp add: one_slave_def)
  next
    case 2
    then have "dereferenced (put_port n q d)"
      unfolding dereferenced_def ports list_ex_iff set_map by force
    then show ?thesis by (simp add: one_slave_def)
  next
    case 3
    have "portnum q = n" if "r \<in> set (c_ports c)" "portnum r = n" for r
      using m [OF that] that by (simp add: moves_def)
    then have "only_best (insert n S) (put_port n q d)"
      using 3 assms(3) unfolding only_best_def ports list_all_iff set_map
      by (auto simp: b decided_def)
    then show ?thesis by (simp add: one_slave_def)
  qed
qed

lemma sys_wf_put:
  assumes "sys_wf c" and "same_clock c d" and "portnum q = portnum (the_port n c)"
  shows "sys_wf (put_port n q d)" "portnum ` set (c_ports (put_port n q d)) = portnum ` set (c_ports c)"
proof -
  note same = same_clock_ports [OF assms(2)]
  let ?f = "\<lambda>r. if portnum r = n then q else r"
  have ports: "c_ports (put_port n q d) = map ?f (c_ports c)" by (simp add: put_port_ports same)
  have "portnum (?f r) = portnum r" if "r \<in> set (c_ports c)" for r
    using the_port_unique [OF assms(1) that] assms(3) by auto
  then have m: "map portnum (c_ports (put_port n q d)) = map portnum (c_ports c)"
    by (simp add: ports)
  then show "portnum ` set (c_ports (put_port n q d)) = portnum ` set (c_ports c)" by (metis set_map)
  have "portnum (c_uds (put_port n q d)) = portnum (c_uds c)"
    using assms(3) by (simp add: put_port_uds same the_port_uds)
  with m assms(1) show "sys_wf (put_port n q d)" by (simp add: sys_wf_def)
qed

lemma decide_ports:
  assumes "sys_wf c" and "one_slave S c"
  shows "sys_wf (fold (decide_port es b) ks c) \<and>
    portnum ` set (c_ports (fold (decide_port es b) ks c)) = portnum ` set (c_ports c) \<and>
    one_slave (S \<union> set ks) (fold (decide_port es b) ks c)"
  using assms
proof (induction ks arbitrary: c S)
  case (Cons n ks)
  obtain q d where d: "same_clock c d" "decide_port es b n c = put_port n q d" "decided n c q"
    using decide_port_put by blast
  then have "portnum q = portnum (the_port n c)" by (simp add: decided_def moves_def)
  note wf = sys_wf_put [OF Cons.prems(1) d(1) this]
  from Cons.IH [OF wf(1) one_slave_put [OF Cons.prems(1) d(1,3) Cons.prems(2)]] wf(2) d(2)
  show ?case by simp
qed simp

lemma select_best_ports [simp]:
  "c_ports (snd (select_best best c)) = c_ports c" "c_uds (snd (select_best best c)) = c_uds c"
  by (simp_all add: select_best_def Let_def clock_new_best_def clock_freq_est_reset_def)

lemma state_decision_one_slave:
  assumes "sys_wf c"
  shows "sys_wf (handle_state_decision_event es c) \<and> one_slave UNIV (handle_state_decision_event es c)"
proof -
  let ?e = "elect_best es (map portnum (c_ports c)) None c"
  let ?s = "select_best (snd ?e) (fst ?e)"
  let ?d = "fold (decide_port es (fst ?s)) (map portnum (c_ports (snd ?s))) (snd ?s)"
  have "demotion.rel c (fst ?e)" by simp
  with assms have "sys_wf (snd ?s)" by (simp add: demotion.rel_def demotion.good_def sys_wf_def)
  from decide_ports [OF this, of "{}" es "fst ?s" "map portnum (c_ports (snd ?s))"]
  have d: "sys_wf ?d" "portnum ` set (c_ports ?d) = portnum ` set (c_ports (snd ?s))"
    "one_slave (set (map portnum (c_ports (snd ?s)))) ?d"
    by (auto simp: one_slave_def only_best_def list_all_iff)
  then have "one_slave UNIV ?d"
    by (fastforce simp: one_slave_def only_best_def list_all_iff)
  with d(1) show ?thesis by (simp add: handle_state_decision_event_def split_beta)
qed

lemma one_slave_fields [simp]:
  "one_slave S (c\<lparr>c_sde := b\<rparr>) = one_slave S c" "one_slave S (c\<lparr>c_subscribers := x\<rparr>) = one_slave S c"
  "sys_wf (c\<lparr>c_sde := b\<rparr>) = sys_wf c" "sys_wf (c\<lparr>c_subscribers := x\<rparr>) = sys_wf c"
  by (simp_all add: one_slave_def dereferenced_def only_best_def sys_wf_def)

lemma one_slave_demotion:
  assumes "demotion.rel c d" and "sys_wf c" and "one_slave S c"
  shows "sys_wf d \<and> one_slave S d"
  using assms one_slave_rel by (auto simp: demotion.rel_def demotion.good_def)

lemma clock_poll_one_slave:
  assumes "sys_wf c" and "one_slave UNIV c"
  shows "sys_wf (clock_poll es now ready uds c) \<and> one_slave UNIV (clock_poll es now ready uds c)"
proof -
  let ?d = "fold poll_uds uds (fold poll_port ready c)"
  have "sys_wf ?d \<and> one_slave UNIV ?d"
    using demotion.rel_polls assms by (rule one_slave_demotion)
  then show ?thesis
    using state_decision_one_slave [of ?d es] by (simp add: clock_poll_def Let_def)
qed

lemma clock_start_rel: "demotion.rel c (clock_start es c)"
proof -
  have "demotion.rel c (fold (\<lambda>n. dispatch_on (es n) n EV_INITIALIZE False) ks c)" for ks
    by (intro demotion.rel_fold demotion.rel_dispatch) simp_all
  then show ?thesis by (auto simp: clock_start_def intro: demotion.rel_dispatch)
qed

definition fresh_ports :: "'z system_scheme \<Rightarrow> bool" where
  "fresh_ports c \<longleftrightarrow> sys_wf c \<and> list_all (\<lambda>p. p_state p = PS_INITIALIZING) (c_ports c)"

lemma reachable_one_slave:
  assumes "reachable c0 c" and "fresh_ports c0"
  shows "sys_wf c \<and> one_slave UNIV c"
  using assms
proof (induction rule: reachable.induct)
  case (started es)
  then have "sys_wf c0" "one_slave UNIV c0"
    by (auto simp: fresh_ports_def one_slave_def only_best_def list_all_iff slave_states_def)
  then show ?case using one_slave_demotion [OF clock_start_rel] by blast
next
  case (polled c es now ready uds)
  then show ?case using clock_poll_one_slave by blast
qed

text \<open>
  At most one port of a clock is a slave.  From the start on, after any number of passes of the
  poll loop with any events, messages and failures, at most one port is SLAVE or UNCALIBRATED, and
  that is the port that received from the best master; it holds as long as no port has read through
  a null or dangling pointer.
\<close>

lemma reachable_at_most_one_slave:
  assumes "fresh_ports c0" and "reachable c0 c" and "\<not> dereferenced c"
  shows "length (filter (\<lambda>p. slave_states (p_state p)) (c_ports c)) \<le> 1 \<and>
    map (\<lambda>p. Some (portnum p)) (filter (\<lambda>p. slave_states (p_state p)) (c_ports c)) \<in>
      {[], [map_option fst (c_best c)]}"
proof -
  let ?f = "filter (\<lambda>p. slave_states (p_state p)) (c_ports c)"
  have wf: "sys_wf c" and "only_best UNIV c"
    using reachable_one_slave [OF assms(2,1)] assms(3) by (auto simp: one_slave_def)
  then have s: "Some (portnum p) = map_option fst (c_best c)" if "p \<in> set ?f" for p
    using that by (auto simp: only_best_def list_all_iff)
  have "distinct (map portnum ?f)" using wf by (auto simp: sys_wf_def distinct_map inj_on_def)
  show ?thesis
  proof (cases ?f)
    case (Cons p ps)
    have "portnum q = portnum p" if "q \<in> set ps" for q
    proof -
      have "Some (portnum q) = Some (portnum p)"
        using s [of p] s [of q] that Cons by (metis list.set_intros)
      then show ?thesis by simp
    qed
    with \<open>distinct (map portnum ?f)\<close> Cons have "ps = []" by (cases ps) auto
    with Cons s [of p] show ?thesis by simp
  qed simp
qed

text \<open>An ordinary clock with a port and the local socket.\<close>

definition sample_system :: "port_state \<Rightarrow> system" where
  "sample_system st = clock.extend (sample_clock False)
     (system.fields [sample_port st]
       ((sample_port PS_INITIALIZING)\<lparr>p_portIdentity := (p_portIdentity (sample_port st))\<lparr>portNumber := 0\<rparr>\<rparr>)
       (dscmp LittleEndian))"

lemma sample_system_simps [simp]:
  "c_ports (sample_system st) = [sample_port st]" "portnum (c_uds (sample_system st)) = 0"
  "c_type (sample_system st) = CLOCK_TYPE_ORDINARY"
  by (simp_all add: sample_system_def clock.defs system.defs sample_clock_def Let_def)

lemma sample_port_simps [simp]: "portnum (sample_port st) = 1" "p_state (sample_port st) = st"
  by (simp_all add: sample_port_def)

lemma dispatch_on_ports:
  "c_ports (dispatch_on e n ev md c) =
     map (\<lambda>q. if portnum q = n then fst (port_dispatch e (the_port n c) c ev md) else q) (c_ports c)"
proof -
  obtain d where "same_clock c d" "dispatch_on e n ev md c = put_port n (fst (port_dispatch e (the_port n c) c ev md)) d"
    using dispatch_on_put by blast
  then show ?thesis by (simp add: put_port_ports same_clock_ports)
qed

text \<open>A port that starts.\<close>

lemma started_port:
  assumes "c_type c = CLOCK_TYPE_ORDINARY"
  shows "NullDereference \<notin> set (p_fx (fst (port_dispatch sample_env (sample_port PS_INITIALIZING) c EV_INITIALIZE False)))"
  using assms
  by (simp add: port_dispatch_def bc_dispatch_def bc_transition_def port_state_update_def next_state_def state_machine_def fsm_defs
    port_restart_def port_is_enabled_def port_initialize_def Let_def port_config_def sample_env_def sample_port_def pfx_def port_nrate_initialize_def
    port_set_announce_tmo_def set_tmo_random_def split_beta port_e2e_transition_def)

lemma sample_started:
  "c_ports (clock_start (\<lambda>_. sample_env) (sample_system PS_INITIALIZING)) =
     [fst (port_dispatch sample_env (sample_port PS_INITIALIZING) (sample_system PS_INITIALIZING) EV_INITIALIZE False)]"
proof -
  let ?c = "sample_system PS_INITIALIZING"
  let ?q = "fst (port_dispatch sample_env (sample_port PS_INITIALIZING) ?c EV_INITIALIZE False)"
  have "the_port 1 ?c = sample_port PS_INITIALIZING" by (simp add: the_port_def)
  moreover have "portnum ?q = 1" using port_dispatch_moves [of "sample_port PS_INITIALIZING" sample_env ?c EV_INITIALIZE False]
    by (simp add: moves_def)
  moreover have "portnum (c_uds (dispatch_on sample_env 1 EV_INITIALIZE False ?c)) = 0"
    using demotion.rel_dispatch [of ?c ?c EV_INITIALIZE sample_env 1 False]
    by (simp add: demotion.rel_def demotion.good_def ports_rel_def demotes_def sys_wf_def)
  ultimately show ?thesis by (simp add: clock_start_def dispatch_on_ports)
qed

lemma sample_fresh: "fresh_ports (sample_system PS_INITIALIZING)"
  by (simp add: fresh_ports_def sys_wf_def)

end
