(* ===== verification/TcProps.thy ===== *)
theory TcProps
  imports OneSlave
begin

text \<open>
  Transparent clocks: a Follow_Up message leaves with the residence time of its Sync message,
  whichever of the two comes first; what happens when it cannot be sent.
\<close>

subsection \<open>Matching and storing\<close>

lemma find_snoc: "find P xs = None \<Longrightarrow> P x \<Longrightarrow> find P (xs @ [x]) = Some x"
  by (induction xs) (auto split: if_splits)

lemma remove_first_snoc: "find P xs = None \<Longrightarrow> P x \<Longrightarrow> remove_first P (xs @ [x]) = xs"
  by (induction xs) (auto split: if_splits)

lemma the_put_other: "n \<noteq> i \<Longrightarrow> portnum p = n \<Longrightarrow> \<not> is_uds n c \<Longrightarrow> the_port i (put_port n p c) = the_port i c"
proof -
  assume a: "n \<noteq> i" "portnum p = n" "\<not> is_uds n c"
  have "find (\<lambda>r. portnum r = i) (map (\<lambda>r. if portnum r = n then p else r) ps) = find (\<lambda>r. portnum r = i) ps" for ps
    using a(1,2) by (induction ps) auto
  then show ?thesis using a(3) by (simp add: the_port_def put_port_def split: option.split)
qed

lemma is_uds_put: "portnum p = n \<Longrightarrow> is_uds k (put_port n p c) = is_uds k c"
proof -
  assume p: "portnum p = n"
  have "portnum ` set (map (\<lambda>r. if portnum r = n then p else r) ps) = portnum ` set ps" for ps
    using p by (auto simp: image_iff) metis
  then show ?thesis by (simp add: is_uds_iff put_port_ports)
qed

lemma tc_send_ok:
  assumes "env_send e (portnum (the_port n c)) (p_nsend (the_port n c)) = Some t"
  shows "tc_send e ev n m c = put_port n ((pfx [Transmit ev m] (the_port n c))\<lparr>p_nsend := p_nsend (the_port n c) + 1\<rparr>) c"
  using assms by (simp add: tc_send_def at_port_def)

text \<open>Nothing is stored that one of the two messages would match.\<close>

definition unmatched :: "byte_order \<Rightarrow> int \<Rightarrow> ptp_message \<Rightarrow> port \<Rightarrow> bool" where
  "unmatched bo i m p \<longleftrightarrow> find (\<lambda>t. tc_match_syfup bo i m t \<noteq> TC_MISMATCH) (p_tc_transmitted p) = None"

definition pair_messages :: "ptp_message \<Rightarrow> ptp_message \<Rightarrow> bool" where
  "pair_messages syn fup \<longleftrightarrow> msg_type syn = SYNC \<and> msg_type fup = FOLLOW_UP \<and>
     sequenceId (header syn) = sequenceId (header fup) \<and> source_pid syn = source_pid fup"

lemma tc_store_first:
  assumes "msg_type m \<in> {SYNC, FOLLOW_UP}" and "unmatched (env_bo e) (uint (portnum (the_port i c))) m (the_port n c)"
    and "env_mem e"
  shows "tc_complete e i n m r c = put_port n (tc_append \<lparr>txd_msg = m, txd_residence = r,
    txd_ingress_port = uint (portnum (the_port i c))\<rparr> (the_port n c)) c"
  using assms by (simp add: tc_complete_def tc_complete_syfup_def Let_def unmatched_def tc_store_def)

text \<open>The correction that a Follow_Up message leaves with.\<close>

definition forwarded :: "byte_order \<Rightarrow> port \<Rightarrow> tmv_t \<Rightarrow> ptp_message \<Rightarrow> ptp_message" where
  "forwarded bo q r fup = add_correction bo
     (tmv_to_TimeInterval r + tmv_to_TimeInterval (p_peer_delay q) + p_asymmetry q) fup"

text \<open>The second message of a pair that is complete now.\<close>

lemma tc_complete_second:
  fixes c :: "'y system_scheme"
  assumes "msg_type m \<in> {SYNC, FOLLOW_UP}" and "\<not> is_uds n c" and "i \<noteq> n"
    and "unmatched (env_bo e) (uint (portnum (the_port i c))) m p"
    and "p = the_port n c" and "env_send e n (p_nsend p) = Some t"
    and "match = tc_match_syfup (env_bo e) (uint (portnum (the_port i c))) m txd" and "match \<noteq> TC_MISMATCH"
  shows "p_fx (the_port n (tc_complete e i n m r (put_port n (tc_append txd p) c))) = p_fx p @
      [Transmit TRANS_GENERAL (forwarded (env_bo e) (the_port i c)
        (if match = TC_SYNC_FUP then txd_residence txd else r) (if match = TC_SYNC_FUP then m else txd_msg txd))] \<and>
    p_tc_transmitted (the_port n (tc_complete e i n m r (put_port n (tc_append txd p) c))) = p_tc_transmitted p"
proof -
  let ?p1 = "tc_append txd p"
  let ?c1 = "put_port n ?p1 c"
  let ?P = "\<lambda>t. tc_match_syfup (env_bo e) (uint (portnum (the_port i c))) m t \<noteq> TC_MISMATCH"
  let ?fup = "forwarded (env_bo e) (the_port i c)
        (if match = TC_SYNC_FUP then txd_residence txd else r) (if match = TC_SYNC_FUP then m else txd_msg txd)"
  have n: "portnum p = n" using the_port_mem [OF assms(2)] assms(5) by simp
  then have n1: "portnum ?p1 = n" by (simp add: tc_append_def pget_def prefs_def)
  have i: "the_port i ?c1 = the_port i c" using the_put_other [OF _ n1 assms(2)] assms(3) by simp
  have f: "find ?P (p_tc_transmitted ?p1) = Some txd"
    using find_snoc [of ?P "p_tc_transmitted p" txd] assms(4,7,8) by (simp add: tc_append_def unmatched_def)
  let ?p2 = "(pfx [Transmit TRANS_GENERAL ?fup] ?p1)\<lparr>p_nsend := p_nsend ?p1 + 1\<rparr>"
  have n2: "portnum ?p2 = n" using n1 by (simp add: pfx_def)
  have ns: "p_nsend ?p1 = p_nsend p" by (simp add: tc_append_def pget_def prefs_def)
  have s: "tc_send e TRANS_GENERAL n ?fup ?c1 = put_port n ?p2 ?c1"
    by (rule tc_send_ok [of e n ?c1 t TRANS_GENERAL ?fup, unfolded the_put_port [OF n1] n1, OF assms(6) [folded ns]])
  let ?p3 = "tc_remove ?P txd ?p2"
  have n3: "portnum ?p3 = n" using n2 by (simp add: tc_remove_def pput_def prefs_def)
  define D where "D = put_port n ?p2 ?c1"
  define F where "F = ?fup"
  have D: "the_port n D = ?p2" "tc_send e TRANS_GENERAL n F ?c1 = D"
    unfolding D_def F_def by (rule the_put_port [OF n2], rule s)
  have F: "match = TC_SYNC_FUP \<Longrightarrow> add_correction (env_bo e) (tmv_to_TimeInterval (txd_residence txd) +
        tmv_to_TimeInterval (p_peer_delay (the_port i c)) + p_asymmetry (the_port i c)) m = F"
    "match \<noteq> TC_SYNC_FUP \<Longrightarrow> add_correction (env_bo e) (tmv_to_TimeInterval r +
        tmv_to_TimeInterval (p_peer_delay (the_port i c)) + p_asymmetry (the_port i c)) (txd_msg txd) = F"
    by (simp_all add: F_def forwarded_def)
  have "tc_complete e i n m r ?c1 = tc_complete_syfup e i n m r ?c1"
    using assms(1) by (auto simp: tc_complete_def)
  also have "\<dots> = put_port n ?p3 D"
  proof (cases "match = TC_SYNC_FUP")
    case True
    then show ?thesis
      unfolding tc_complete_syfup_def Let_def i the_put_port [OF n1] f option.case assms(7) [symmetric]
      by (simp only: if_True simp_thms prod.case F(1) [OF True] D)
  next
    case False
    then show ?thesis
      unfolding tc_complete_syfup_def Let_def i the_put_port [OF n1] f option.case assms(7) [symmetric]
      by (simp only: if_False simp_thms prod.case F(2) [OF False] D)
  qed
  finally have "tc_complete e i n m r ?c1 = put_port n ?p3 D" .
  then have "the_port n (tc_complete e i n m r ?c1) = ?p3" by (simp only: the_put_port [OF n3])
  moreover have "p_tc_transmitted ?p3 = p_tc_transmitted p"
    using remove_first_snoc [of ?P "p_tc_transmitted p" txd] assms(4,7,8)
    by (simp add: tc_remove_def tc_append_def pget_def pput_def prefs_def pfx_def unmatched_def)
  moreover have "p_fx ?p3 = p_fx p @ [Transmit TRANS_GENERAL ?fup]"
    by (simp add: tc_remove_def tc_append_def pget_def pput_def prefs_def pfx_def)
  ultimately show ?thesis by simp
qed

text \<open>
  C21: residence times do not depend on the order of the messages.  Whether a Sync message is forwarded
  before or after its Follow_Up message, what leaves is one Follow_Up message whose correction is the
  one received plus the residence time of the Sync message, the delay of the link it came in on and
  the asymmetry of that link, and the pair is forgotten.
\<close>

theorem residence_time_any_order:
  fixes c :: "'y system_scheme"
  assumes "pair_messages syn fup" and "\<not> is_uds n c" and "i \<noteq> n" and "env_mem e"
    and "unmatched (env_bo e) (uint (portnum (the_port i c))) syn (the_port n c)"
    and "unmatched (env_bo e) (uint (portnum (the_port i c))) fup (the_port n c)"
    and "env_send e n (p_nsend (the_port n c)) = Some t"
    and "q \<in> {the_port n (tc_complete e i n fup tmv_zero (tc_complete e i n syn r c)),
              the_port n (tc_complete e i n syn r (tc_complete e i n fup tmv_zero c))}"
  shows "p_fx q = p_fx (the_port n c) @ [Transmit TRANS_GENERAL (forwarded (env_bo e) (the_port i c) r fup)] \<and>
    p_tc_transmitted q = p_tc_transmitted (the_port n c)"
proof -
  have t: "msg_type syn \<in> {SYNC, FOLLOW_UP}" "msg_type fup \<in> {SYNC, FOLLOW_UP}"
    using assms(1) by (simp_all add: pair_messages_def)
  let ?i = "uint (portnum (the_port i c))"
  let ?s = "\<lparr>txd_msg = syn, txd_residence = r, txd_ingress_port = ?i\<rparr>"
  let ?f = "\<lparr>txd_msg = fup, txd_residence = tmv_zero, txd_ingress_port = ?i\<rparr>"
  have m: "tc_match_syfup (env_bo e) ?i fup ?s = TC_SYNC_FUP" "tc_match_syfup (env_bo e) ?i syn ?f = TC_FUP_SYNC"
    using assms(1) by (simp_all add: tc_match_syfup_def pair_messages_def Let_def)
  from assms(8) show ?thesis
    using tc_complete_second [OF t(2) assms(2,3,6) refl assms(7) m(1) [symmetric], of tmv_zero]
      tc_complete_second [OF t(1) assms(2,3,5) refl assms(7) m(2) [symmetric], of r]
    by (auto simp: tc_store_first [OF t(1) assms(5,4)] tc_store_first [OF t(2) assms(6,4)])
qed

text \<open>A transparent clock with two ports.\<close>

definition tc_port :: "u16 \<Rightarrow> port" where
  "tc_port n = (sample_port PS_LISTENING)\<lparr>p_portIdentity := (p_portIdentity (sample_port PS_LISTENING))\<lparr>portNumber := n\<rparr>,
     p_peer_delay := Tmv 100, p_asymmetry := 3\<rparr>"

definition tc_system :: system where
  "tc_system = (sample_system PS_LISTENING)\<lparr>c_type := CLOCK_TYPE_P2P, c_ports := [tc_port 1, tc_port 2]\<rparr>"

definition follow_up_sample :: ptp_message where
  "follow_up_sample = (zero_msg 8)\<lparr>header := zero_header\<lparr>tsmt := FOLLOW_UP\<rparr>\<rparr>"

lemma residence_time_any_order_witness:
  "p_fx (the_port 2 (tc_complete sample_env 1 2 (zero_msg 7) (Tmv 50) (tc_complete sample_env 1 2 follow_up_sample tmv_zero tc_system))) =
     [Transmit TRANS_GENERAL (forwarded LittleEndian (tc_port 1) (Tmv 50) follow_up_sample)]"
proof -
  have "pair_messages (zero_msg 7) follow_up_sample"
    by (simp add: pair_messages_def follow_up_sample_def zero_msg_def zero_header_def msg_type_def)
  moreover have "the_port 2 tc_system = tc_port 2" "the_port 1 tc_system = tc_port 1" "\<not> is_uds 2 tc_system"
    by (simp_all add: the_port_def is_uds_def tc_system_def tc_port_def)
  moreover have "unmatched bo i m (tc_port 2)" for bo i m
    by (simp add: unmatched_def tc_port_def sample_port_def)
  moreover have "env_send sample_env 2 k = Some (Tmv (of_nat (1000 + k)))" "env_mem sample_env" "env_bo sample_env = LittleEndian" for k
    by (simp_all add: sample_env_def)
  moreover have "p_fx (tc_port 2) = []" by (simp add: tc_port_def sample_port_def)
  ultimately show ?thesis
    using residence_time_any_order [of "zero_msg 7" follow_up_sample 2 tc_system 1 sample_env _
        "the_port 2 (tc_complete sample_env 1 2 (zero_msg 7) (Tmv 50) (tc_complete sample_env 1 2 follow_up_sample tmv_zero tc_system))" "Tmv 50"]
    by simp
qed

subsection \<open>A Follow_Up message that cannot be sent\<close>

lemma port_dispatch_fault:
  assumes "port_is_enabled p" and "fsm_owns p" and "portnum p \<noteq> 0"
    and "\<not> clear_fault_asap (p_flt_interval_pertype p (p_last_fault_type p))"
  shows "\<exists>r. fst (port_dispatch e p c EV_FAULT_DETECTED md) = port_disable r"
proof -
  have f: "next_state p EV_FAULT_DETECTED md = PS_FAULTY"
    using assms fault_state_machine [of p md] by (simp add: next_state_def port_is_enabled_def)
  have "p_state p \<noteq> PS_FAULTY" using assms(1) by (auto simp: port_is_enabled_def)
  with f have u: "port_state_update e p EV_FAULT_DETECTED md = (pfx [NotifyPortState PS_FAULTY] (p\<lparr>p_state := PS_FAULTY\<rparr>), True)"
    by (simp add: port_state_update_def Let_def)
  obtain q where "bc_dispatch e p c EV_FAULT_DETECTED md = (port_disable q, c)"
    using fault_dispatch [OF assms(1,2,4)] by metis
  then show ?thesis
    using assms(3) by (auto simp: port_dispatch_def e2e_dispatch_def p2p_dispatch_def u Let_def pfx_def tc_clear_timers_def
        split: clock_type.split)
qed

lemma tc_fault_releases:
  fixes d :: "'y system_scheme"
  assumes "the_port n d = p1" and "portnum p1 = n" and "port_is_enabled p1" and "fsm_owns p1" and "n \<noteq> 0"
    and "table_wf (p_foreign_masters p1)"
    and "\<not> clear_fault_asap (p_flt_interval_pertype p1 (p_last_fault_type p1))"
  shows "\<exists>q rs. the_port n (tc_fault e n d) = q \<and> portnum q = n \<and> p_tc_transmitted q = [] \<and> port_held q = {#} \<and>
    p_refs q = p_refs p1 @ rs \<and> port_held p1 + mset (gets rs) = mset (puts rs)"
proof -
  obtain r c' where d: "port_dispatch e p1 d EV_FAULT_DETECTED False = (port_disable r, c')"
    using port_dispatch_fault [OF assms(3,4) _ assms(7), of e d False] assms(2,5) by (metis prod.collapse)
  have n: "portnum (port_disable r) = n"
    using port_dispatch_moves [of p1 e d EV_FAULT_DETECTED False] assms(2) by (simp add: d moves_def)
  have h: "port_held (port_disable r) = {#}" by (rule disabled_port_holds_nothing)
  have "bal {#} p1 {#} (port_disable r)"
    using port_dispatch_bal [of "{#}" p1 e d EV_FAULT_DETECTED False] by (simp add: d)
  then obtain rs where rs: "p_refs (port_disable r) = p_refs p1 @ rs"
    "port_held p1 + mset (gets rs) = mset (puts rs)"
    using assms(6) h by (auto simp: bal_def keeps_books_def)
  have "p_tc_transmitted (port_disable r) = []" using h by (simp add: port_held_def)
  then show ?thesis using rs h n by (simp add: tc_fault_def on_port_def assms(1) d the_put_port)
qed

text \<open>
  C29: a Follow_Up message that cannot be sent drops the stored message twice.  When the second message
  of a pair completes it and the transmission fails, the fault that the port detects drops all messages
  in transit, the stored one among them, and \<open>tc_complete_syfup\<close> drops it again.
\<close>

theorem failed_forward_drops_message_twice:
  fixes c :: "'y system_scheme"
  assumes "msg_type m \<in> {SYNC, FOLLOW_UP}" and "\<not> is_uds n c" and "n \<noteq> 0" and "p = the_port n c"
    and "find (\<lambda>t. tc_match_syfup (env_bo e) (uint (portnum (the_port i c))) m t \<noteq> TC_MISMATCH)
          (p_tc_transmitted p) = Some txd"
    and "env_send e n (p_nsend p) = None"
    and "port_is_enabled p" and "fsm_owns p" and "table_wf (p_foreign_masters p)"
    and "\<not> clear_fault_asap (p_flt_interval_pertype p (p_last_fault_type p))"
    and "q = the_port n (tc_complete e i n m r c)"
  shows "\<exists>rs. p_refs q = p_refs p @ rs \<and>
    port_held p + mset (gets rs) + {#m_ptr (txd_msg txd)#} = port_held q + mset (puts rs)"
proof -
  let ?P = "\<lambda>t. tc_match_syfup (env_bo e) (uint (portnum (the_port i c))) m t \<noteq> TC_MISMATCH"
  have n: "portnum p = n" using the_port_mem [OF assms(2)] assms(4) by simp
  define F where "F = (case (if tc_match_syfup (env_bo e) (uint (portnum (the_port i c))) m txd = TC_SYNC_FUP
      then (m, txd_residence txd) else (txd_msg txd, r)) of (fup, s) \<Rightarrow>
      add_correction (env_bo e) (tmv_to_TimeInterval s + tmv_to_TimeInterval (p_peer_delay (the_port i c)) +
        p_asymmetry (the_port i c)) fup)"
  define p1 where "p1 = (pfx [Transmit TRANS_GENERAL F] p)\<lparr>p_nsend := p_nsend p + 1\<rparr>"
  have p1: "portnum p1 = n" "port_is_enabled p1" "fsm_owns p1" "table_wf (p_foreign_masters p1)"
    "\<not> clear_fault_asap (p_flt_interval_pertype p1 (p_last_fault_type p1))"
    "p_refs p1 = p_refs p" "port_held p1 = port_held p"
    using n assms(7-10) by (simp_all add: p1_def pfx_def port_is_enabled_def fsm_owns_def port_held_def syfu_held_def)
  have s: "tc_send e TRANS_GENERAL n F c = tc_fault e n (put_port n p1 c)"
    using assms(6) n by (simp add: tc_send_def at_port_def assms(4) [symmetric] p1_def)
  obtain q1 rs where q1: "the_port n (tc_fault e n (put_port n p1 c)) = q1" "portnum q1 = n"
    "p_tc_transmitted q1 = []" "port_held q1 = {#}" "p_refs q1 = p_refs p1 @ rs"
    "port_held p1 + mset (gets rs) = mset (puts rs)"
    using tc_fault_releases [OF the_put_port [OF p1(1)] p1(1,2,3) assms(3) p1(4,5)] by metis
  let ?q = "tc_remove ?P txd q1"
  have "tc_complete e i n m r c = tc_complete_syfup e i n m r c"
    using assms(1) by (auto simp: tc_complete_def)
  also have "\<dots> = put_port n ?q (tc_fault e n (put_port n p1 c))"
    unfolding tc_complete_syfup_def Let_def assms(4) [symmetric] assms(5) option.case
    using s q1(1) by (simp add: F_def split: if_splits)
  finally have q: "q = ?q"
    using q1(2) by (simp add: assms(11) the_put_port tc_remove_def pput_def prefs_def)
  have "port_held ?q = {#}"
    using q1(3,4) by (simp add: tc_remove_def pput_def prefs_def port_held_def syfu_held_def split: if_splits)
  then show ?thesis using q1(5,6) p1(6,7)
    by (intro exI [of _ "rs @ [MsgPut (m_ptr (txd_msg txd))]"]) (simp add: q tc_remove_def pput_def prefs_def)
qed

definition full_port :: port where
  "full_port = (tc_port 2)\<lparr>p_tc_transmitted := [\<lparr>txd_msg = zero_msg 7, txd_residence = Tmv 50, txd_ingress_port = 1\<rparr>]\<rparr>"

lemma failed_forward_witness:
  "\<exists>rs q. q = the_port 2 (tc_complete (sample_env\<lparr>env_send := (\<lambda>n k. None)\<rparr>) 1 2 follow_up_sample tmv_zero
       (tc_system\<lparr>c_ports := [tc_port 1, full_port]\<rparr>)) \<and>
     p_refs q = p_refs full_port @ rs \<and> {#7#} + mset (gets rs) + {#7#} = port_held q + mset (puts rs)"
proof -
  let ?c = "tc_system\<lparr>c_ports := [tc_port 1, full_port]\<rparr>"
  let ?e = "sample_env\<lparr>env_send := (\<lambda>n k. None)\<rparr>"
  have "the_port 2 ?c = full_port" "the_port 1 ?c = tc_port 1" "\<not> is_uds 2 ?c"
    by (simp_all add: the_port_def is_uds_def tc_port_def full_port_def)
  moreover have "find (\<lambda>t. tc_match_syfup (env_bo ?e) (uint (portnum (tc_port 1))) follow_up_sample t \<noteq> TC_MISMATCH)
      (p_tc_transmitted full_port) = Some \<lparr>txd_msg = zero_msg 7, txd_residence = Tmv 50, txd_ingress_port = 1\<rparr>"
    by (simp add: full_port_def tc_port_def tc_match_syfup_def follow_up_sample_def zero_msg_def zero_header_def msg_type_def)
  moreover have "msg_type follow_up_sample \<in> {SYNC, FOLLOW_UP}"
    by (simp add: follow_up_sample_def msg_type_def zero_msg_def zero_header_def)
  moreover have "port_is_enabled full_port" "fsm_owns full_port" "table_wf (p_foreign_masters full_port)"
    "\<not> clear_fault_asap (p_flt_interval_pertype full_port (p_last_fault_type full_port))"
    "port_held full_port = {#7#}"
    by (simp_all add: full_port_def tc_port_def sample_port_def port_is_enabled_def fsm_owns_def table_wf_def
        clear_fault_asap_def port_held_def syfu_held_def opt_held_def table_held_def zero_msg_def)
  moreover have "m_ptr (zero_msg 7) = 7" by (simp add: zero_msg_def)
  ultimately show ?thesis
    using failed_forward_drops_message_twice [of follow_up_sample 2 ?c full_port ?e 1 _ "the_port 2 (tc_complete ?e 1 2 follow_up_sample tmv_zero ?c)" tmv_zero]
    by simp
qed

end
