(* ===== verification/ManageProps.thy ===== *)
theory ManageProps
  imports TcProps
begin

text \<open>
  Management from the network: a request that does not come from the local socket changes no
  setting, and a request that is forwarded is not applied.
\<close>

subsection \<open>Requests from the network only read\<close>

text \<open>A port without the log of what it sent and the messages it allocated.\<close>

definition bare :: "port \<Rightarrow> port" where
  "bare p = p\<lparr>p_fx := [], p_refs := [], p_nalloc := 0, p_nsend := 0\<rparr>"

lemma bare_log [simp]:
  "bare (pfx es p) = bare p" "bare (prefs rs p) = bare p" "bare (pget m p) = bare p" "bare (pput m p) = bare p"
  "bare (p\<lparr>p_nsend := k\<rparr>) = bare p" "bare (p\<lparr>p_nalloc := k\<rparr>) = bare p"
  by (simp_all add: bare_def pfx_def prefs_def pget_def pput_def)

lemma bare_portnum: "bare q = bare p \<Longrightarrow> portnum q = portnum p"
proof -
  have "p_portIdentity (bare r) = p_portIdentity r" for r by (simp add: bare_def)
  then show "bare q = bare p \<Longrightarrow> ?thesis" by metis
qed

lemma bare_alloc [simp]: "bare (fst (port_alloc e p)) = bare p"
  by (simp add: port_alloc_def Let_def split: option.split)

lemma bare_send [simp]: "bare (snd (snd (port_prepare_and_send e ev m p))) = bare p"
  by (simp add: port_prepare_and_send_def prepare_and_send_def Let_def split: option.split)

lemma bare_reply [simp]: "bare (fst (port_management_reply e pid p c req)) = bare p"
  by (simp add: port_management_reply_def port_management_construct_def split_beta split: option.split)

lemma bare_respond [simp]:
  "bare (fst (management_respond e pid p c req fill)) = bare p"
  "bare (fst (port_management_error e pid p c req err)) = bare p"
  "bare (fst (port_forward e m p)) = bare p"
  by (simp_all add: management_respond_def port_management_error_def port_forward_def Let_def split_beta split: option.split)

lemma bare_get_response [simp]:
  "bare (fst (port_management_get_response e t p c mid req)) = bare p"
  "bare (fst (clock_management_get_response e uds p c mid req)) = bare p"
  by (simp_all add: port_management_get_response_def clock_management_get_response_def)

text \<open>The clock with its data sets, its settings and the states of its ports is the same.\<close>

definition untouched :: "'z system_scheme \<Rightarrow> 'z system_scheme \<Rightarrow> bool" where
  "untouched c d \<longleftrightarrow> clock.truncate d = clock.truncate c \<and> c_dscmp d = c_dscmp c \<and> system.more d = system.more c \<and>
     map bare (c_ports d) = map bare (c_ports c) \<and> bare (c_uds d) = bare (c_uds c)"

lemma untouched_refl [simp]: "untouched c c"
  by (simp add: untouched_def)

lemma untouched_trans: "untouched c d \<Longrightarrow> untouched d e \<Longrightarrow> untouched c e"
  by (simp add: untouched_def)

lemma untouched_portnums: "untouched c d \<Longrightarrow> map portnum (c_ports d) = map portnum (c_ports c)"
proof -
  assume "untouched c d"
  then have "list_all2 (\<lambda>p q. bare p = bare q) (c_ports d) (c_ports c)"
    by (simp add: untouched_def list_eq_iff_nth_eq list_all2_conv_all_nth)
  then show ?thesis by (induction rule: list_all2_induct) (auto dest: bare_portnum)
qed

lemma untouched_put:
  assumes "sys_wf c" and "bare q = bare (the_port n c)"
  shows "untouched c (put_port n q c)"
proof (cases "is_uds n c")
  case True
  then show ?thesis using assms(2)
    by (simp add: put_port_def the_port_uds untouched_def clock.truncate_def)
next
  case False
  have "bare (if portnum r = n then q else r) = bare r" if "r \<in> set (c_ports c)" for r
    using the_port_unique [OF assms(1) that] assms(2) by auto
  then have "map bare (map (\<lambda>r. if portnum r = n then q else r) (c_ports c)) = map bare (c_ports c)" by simp
  then show ?thesis using False by (simp add: put_port_def untouched_def clock.truncate_def)
qed

lemma untouched_wf: "untouched c d \<Longrightarrow> sys_wf c \<Longrightarrow> sys_wf d"
proof -
  assume a: "untouched c d" "sys_wf c"
  then have "portnum (c_uds d) = portnum (c_uds c)" by (intro bare_portnum) (simp add: untouched_def)
  with a untouched_portnums [OF a(1)] show ?thesis by (simp add: sys_wf_def del: set_map)
qed

definition reads :: "'z system_scheme \<Rightarrow> 'z system_scheme \<Rightarrow> bool" where
  "reads c d \<longleftrightarrow> sys_wf c \<longrightarrow> untouched c d"

lemma reads_refl [simp]: "reads c c"
  by (simp add: reads_def)

lemma reads_at_port [simp]:
  assumes "reads c d" and "\<And>p d'. bare (fst (f p d')) = bare p"
  shows "reads c (fst (at_port n f d))"
  unfolding reads_def
proof
  assume w: "sys_wf c"
  then have u: "untouched c d" using assms(1) by (simp add: reads_def)
  have "untouched d (put_port n (fst (f (the_port n d) d)) d)"
    using untouched_wf [OF u w] assms(2) by (rule untouched_put)
  with u show "untouched c (fst (at_port n f d))" by (auto simp: at_port_def split_beta intro: untouched_trans)
qed

lemma reads_send_error [simp]: "reads c d \<Longrightarrow> reads c (send_error e t i m err d)"
  by (simp add: send_error_def)

lemma reads_port_manage [simp]:
  assumes "reads c d" and "management_action m \<noteq> SET"
  shows "reads c (fst (port_manage e n i m d))"
  using assms by (simp add: port_manage_def Let_def split_beta split: bool.split)

lemma reads_ports_manage [simp]:
  "reads c d \<Longrightarrow> management_action m \<noteq> SET \<Longrightarrow> reads c (fst (ports_manage e i m ks k d))"
  by (induction ks arbitrary: k d) (simp_all add: split_beta)

lemma reads_manage_rest [simp]:
  "reads c d \<Longrightarrow> management_action m \<noteq> SET \<Longrightarrow> reads c (fst (manage_rest e i m b d))"
  by (simp add: manage_rest_def Let_def split_beta split: option.split)

lemma untouched_is_uds: "untouched c d \<Longrightarrow> is_uds i d = is_uds i c"
  using untouched_portnums [of c d] by (metis is_uds_iff set_map)

lemma reads_manage_local:
  assumes "reads c d" and "sys_wf c" and "\<not> is_uds i c"
  shows "reads c (fst (manage_local e i m d))"
proof -
  have "\<not> is_uds i d" using assms untouched_is_uds [of c d i] by (simp add: reads_def)
  then show ?thesis using assms(1)
    by (auto simp: manage_local_def Let_def split_beta split: bool.split)
qed

lemma reads_do_forward [simp]: "reads c (fst st) \<Longrightarrow> reads c (fst (clock_do_forward_mgmt e i n st))"
  by (cases st) (simp add: clock_do_forward_mgmt_def Let_def)

lemma reads_forward [simp]: "reads c (fst st) \<Longrightarrow> reads c (fst (fold (clock_do_forward_mgmt e i) ks st))"
  by (induction ks arbitrary: st) simp_all

lemma reads_forward_mgmt: "reads c (fst (clock_forward_mgmt_msg e i m c))"
  using reads_forward [of c "(c, m\<lparr>boundaryHops := boundaryHops m - 1\<rparr>, False)" e i]
  by (simp add: clock_forward_mgmt_msg_def Let_def split_beta split: bool.split)

text \<open>
  C4: the network cannot configure a clock.  Whatever management message one of its ports receives,
  GET, SET or COMMAND, well formed or not, the data sets, settings and subscribers of the clock and
  everything about its ports except what they sent is as before, and no state decision is asked for;
  settings are accepted from the local socket only.  This includes a message that could not be
  converted back after it was forwarded and is processed as the failed conversion left it.
\<close>

theorem network_cannot_configure:
  assumes "sys_wf c" and "p \<in> set (c_ports c)"
  shows "untouched c (fst (clock_manage e (portnum p) m c)) \<and> \<not> snd (clock_manage e (portnum p) m c)"
proof -
  let ?i = "portnum p"
  have i: "\<not> is_uds ?i c" using assms(2) by (auto simp: is_uds_iff)
  obtain d r where f: "clock_forward_mgmt_msg e ?i m c = (d, r)" by fastforce
  have d: "reads c d" using reads_forward_mgmt [of c e ?i m] by (simp add: f)
  then have id: "\<not> is_uds ?i d" using assms(1) i untouched_is_uds [of c d ?i] by (simp add: reads_def)
  have rest: "\<not> snd (manage_rest e ?i m' False d')" for m' d'
    by (simp add: manage_rest_def Let_def split_beta split: option.split)
  have "\<not> snd (manage_local e ?i m' d)" for m'
    using id rest by (auto simp: manage_local_def Let_def split_beta split: bool.split)
  moreover have "untouched c (fst (manage_local e ?i m' d))" for m'
    using reads_manage_local [OF d assms(1) i] assms(1) by (simp add: reads_def)
  moreover have "untouched c d" using d assms(1) by (simp add: reads_def)
  ultimately show ?thesis by (simp add: clock_manage_def f)
qed

text \<open>A request to set the first priority that comes in on a port.\<close>

definition set_request :: ptp_message where
  "set_request = (zero_msg 9)\<lparr>header := zero_header\<lparr>tsmt := MANAGEMENT\<rparr>, mgmt_flags := SET, tlv_count := 1,
     targetPortIdentity := \<lparr>clockIdentity = wildcard, portNumber = 0xffff\<rparr>\<rparr>"

lemma network_cannot_configure_witness:
  "untouched tc_system (fst (clock_manage sample_env 1 set_request tc_system))"
proof -
  have "sys_wf tc_system" by (simp add: sys_wf_def tc_system_def tc_port_def)
  moreover have "tc_port 1 \<in> set (c_ports tc_system)" "portnum (tc_port 1) = 1"
    by (simp_all add: tc_system_def tc_port_def)
  ultimately show ?thesis
    using network_cannot_configure [of tc_system "tc_port 1" sample_env set_request] by simp
qed

subsection \<open>Management and the time of the clock\<close>

text \<open>No request, from the network or from the local socket, adjusts the clock.\<close>

lemma fx_put_port [simp]: "c_fx (put_port n q c) = c_fx c"
  by (simp add: put_port_def)

lemma fx_at_port [simp]: "c_fx (fst (at_port n f c)) = c_fx c"
  by (simp add: at_port_def split_beta)

lemma fx_send_error [simp]: "c_fx (send_error e t i m err c) = c_fx c"
  by (simp add: send_error_def)

lemma fx_port_manage [simp]: "c_fx (fst (port_manage e n i m c)) = c_fx c"
  by (simp add: port_manage_def port_management_set_def Let_def split_beta split: bool.split)

lemma fx_ports_manage [simp]: "c_fx (fst (ports_manage e i m ks k c)) = c_fx c"
  by (induction ks arbitrary: k c) (simp_all add: split_beta)

lemma fx_manage_rest [simp]: "c_fx (fst (manage_rest e i m b c)) = c_fx c"
  by (simp add: manage_rest_def Let_def split_beta split: option.split)

lemma fx_clock_management_set [simp]: "c_fx (fst (clock_management_set e i mid m c)) = c_fx c"
  by (simp add: clock_management_set_def clock_update_subscription_def Let_def)

lemma fx_manage_local [simp]: "c_fx (fst (manage_local e i m c)) = c_fx c"
  by (simp add: manage_local_def Let_def split_beta split: bool.split)

lemma fx_do_forward [simp]: "c_fx (fst (clock_do_forward_mgmt e i n st)) = c_fx (fst st)"
  by (cases st) (simp add: clock_do_forward_mgmt_def Let_def)

lemma fx_forward_all: "c_fx (fst (fold (clock_do_forward_mgmt e i) ks st)) = c_fx (fst st)"
  by (induction ks arbitrary: st) simp_all

lemma fx_forward_mgmt [simp]: "c_fx (fst (clock_forward_mgmt_msg e i m c)) = c_fx c"
  by (simp add: clock_forward_mgmt_msg_def Let_def split_beta fx_forward_all split: bool.split)

lemma fx_manage_from: "c_fx (fst (snd (manage_from e p c m))) = c_fx c"
  by (simp add: manage_from_def clock_manage_def Let_def split_beta)

text \<open>
  C1: only the master disciplines the clock.  When a port of an ordinary or boundary clock receives
  a message, this sets the frequency or the time of the clock (or hands a leap second or an offset
  of TAI to the kernel) only if the message is a Sync or a Follow_Up, its sender is the parent of the
  clock, and the port is SLAVE or UNCALIBRATED.  Any other message of any length and contents,
  management messages and those that cannot be converted included, leaves the clock alone.
\<close>

theorem only_master_disciplines_clock:
  assumes "\<not> (slave_states (p_state p) \<and> msg_type data \<in> {SYNC, FOLLOW_UP} \<and>
    port_id_post_recv (env_bo e) (source_pid data) = clock_parent_identity c)"
  shows "c_fx (fst (snd (bc_event manage_from e p c (FdMessage (Some (data, cnt)))))) = c_fx c"
  using assms by (intro bc_event_message_fx fx_manage_from)

text \<open>The same request on the wire: SET of the first priority.\<close>

definition wire_set_request :: ptp_message where
  "wire_set_request = set_request\<lparr>header := zero_header\<lparr>tsmt := MANAGEMENT, ver := 2\<rparr>, tlv_count := 0,
     m_suffix := [0, 1, 0, 4, 0x20, 5, 7, 0]\<rparr>"

lemma only_master_disciplines_clock_witness:
  "c_fx (fst (snd (bc_event manage_from sample_env (tc_port 1) tc_system
     (FdMessage (Some (wire_set_request, 56)))))) = []"
proof -
  have "\<not> slave_states (p_state (tc_port 1))" by (simp add: tc_port_def sample_port_def slave_states_def)
  moreover have "c_fx tc_system = []"
    by (simp add: tc_system_def sample_system_def clock.defs sample_clock_def Let_def)
  ultimately show ?thesis
    using only_master_disciplines_clock [of "tc_port 1" wire_set_request sample_env tc_system 56] by simp
qed

end
