(* ===== verification/PmcWire.thy ===== *)
theory PmcWire
  imports PmcProps ManageProps
begin

text \<open>
  What the client sets arrives at the clock: the request that it builds, through the conversions of sender and
  receiver, and its effect on the settings of the clock.
\<close>

lemma u16_bytes_rd16: "u16_bytes bo (rd16 bo d i) = [octet d i, octet d (i + 1)]"
proof (cases bo)
  case LittleEndian
  show ?thesis by (simp add: LittleEndian rd16_def) (intro conjI; rule bit_word_eqI; simp add: bit_simps; fastforce dest: bit_imp_le_length)
next
  case BigEndian
  show ?thesis by (simp add: BigEndian rd16_def) (intro conjI; rule bit_word_eqI; simp add: bit_simps; fastforce dest: bit_imp_le_length)
qed

lemma rd16_front: "rd16 bo (u16_bytes bo a @ s) 0 = a"
proof -
  have "u16_bytes bo (rd16 bo (u16_bytes bo a @ s) 0) = u16_bytes bo a"
    unfolding u16_bytes_rd16 by (cases bo) simp_all
  then show ?thesis by simp
qed

lemma rd16_skip: "length xs = k \<Longrightarrow> k \<le> i \<Longrightarrow> rd16 bo (xs @ s) i = rd16 bo s (i - k)"
  by (simp add: rd16_def Suc_diff_le split: byte_order.split)

lemma management_tlv_fields:
  assumes "length data < 1000"
  shows "rd16 bo (management_tlv bo mid data) 0 = TLV_MANAGEMENT"
    "rd16 bo (management_tlv bo mid data) 2 = of_nat (2 + length data)"
    "unat (rd16 bo (management_tlv bo mid data) 2) = 2 + length data"
    "rd16 bo (management_tlv bo mid data) 4 = mid"
proof -
  show a: "rd16 bo (management_tlv bo mid data) 2 = of_nat (2 + length data)"
    by (simp add: management_tlv_def rd16_skip [of _ 2] rd16_front del: of_nat_add)
  then show "unat (rd16 bo (management_tlv bo mid data) 2) = 2 + length data"
    using assms by (simp only: a unat_of_nat) simp
  show "rd16 bo (management_tlv bo mid data) 0 = TLV_MANAGEMENT" "rd16 bo (management_tlv bo mid data) 4 = mid"
    by (simp_all add: management_tlv_def rd16_skip [of _ 2] rd16_front)
qed

definition settable :: "u16 \<Rightarrow> nat \<Rightarrow> bool" where
  "settable mid n \<longleftrightarrow> mid \<in> {TLV_PRIORITY1, TLV_PRIORITY2} \<and> n = 2 \<or>
     mid \<in> {TLV_GRANDMASTER_SETTINGS_NP, TLV_PORT_DATA_SET_NP} \<and> n = 8"

lemma settable_fields:
  assumes "settable mid n"
  shows "mid \<noteq> TLV_CLOCK_DESCRIPTION" "mid \<noteq> TLV_TIME_STATUS_NP" "n < 1000" "0 < n" "even n"
    "mgt_data_post_recv bo mid d n ex mem = Some (flips bo (mgt_fields mid) d mem, ex, 0)"
proof -
  consider "mid = TLV_PRIORITY1" "n = 2" | "mid = TLV_PRIORITY2" "n = 2" | "mid = TLV_GRANDMASTER_SETTINGS_NP" "n = 8"
    | "mid = TLV_PORT_DATA_SET_NP" "n = 8"
    using assms by (auto simp: settable_def)
  note cases = this
  show "mid \<noteq> TLV_CLOCK_DESCRIPTION" "mid \<noteq> TLV_TIME_STATUS_NP" "n < 1000" "0 < n" "even n"
    by (rule cases; simp)+
  show "mgt_data_post_recv bo mid d n ex mem = Some (flips bo (mgt_fields mid) d mem, ex, 0)"
    by (rule cases; simp add: mgt_data_post_recv_def mgt_fields_def)
qed

lemma management_tlv_received:
  assumes "settable mid (length data)" and "alloc 0" "tlv_list m = []" "tlv_count m = 0"
    and "m_suffix m = flips bo [(2, 0), (2, 2)] 0 (tlv_pre_send bo (new_extra 0) (management_tlv bo mid data))"
  shows "suffix_post_recv_loop bo alloc 0 (6 + length data) m =
    Inr (m\<lparr>m_suffix := management_tlv bo mid data, tlv_list := [new_extra 0], tlv_count := 1\<rparr>)"
proof -
  let ?mem = "management_tlv bo mid data" and ?F = "mgt_fields mid"
  define pre where "pre = tlv_pre_send bo (new_extra 0) ?mem"
  note st = settable_fields [OF assms(1)] and f = management_tlv_fields [OF settable_fields(3) [OF assms(1)]]
  have at: "tlv_at (new_extra 0) = 0" by (simp add: new_extra_def)
  have mem: "flips bo [(2, 0), (2, 2)] 0 (m_suffix m) = pre"
    unfolding assms(5) pre_def by (rule flips_flips) (simp add: disjoint_fields_def)
  have pre: "pre = flip bo 2 4 (flips bo ?F 6 ?mem)"
  proof -
    have "mgt_pre_send bo 0 (new_extra 0) ?mem = flips bo ?F 6 ?mem"
      using mgt_pre_send_fields [of bo ?mem 0 "new_extra 0"] st(1,2) f(4) by simp
    then show ?thesis
      using st(4) unfolding pre_def tlv_pre_send_def Let_def at add_0 f(1) f(3) by simp
  qed
  have F: "rd16 bo (flips bo ?F 6 ?mem) i = rd16 bo ?mem i" if "i + 2 \<le> 6" for i
    using that by (rule rd16_flips_before)
  have r: "rd16 bo pre 0 = TLV_MANAGEMENT" "rd16 bo pre 2 = rd16 bo ?mem 2"
    unfolding pre using f(1) by (simp_all add: rd16_flip F)
  have post: "tlv_post_recv bo (new_extra 0) pre = Inr (?mem, new_extra 0)"
  proof -
    have "flip bo 2 4 pre = flips bo ?F 6 ?mem" by (simp add: pre)
    moreover have "mgt_post_recv bo 0 (length data) (new_extra 0) (flips bo ?F 6 ?mem) = Inr (?mem, new_extra 0)"
      using st(6) [of bo 6 "new_extra 0" "flips bo ?F 6 ?mem"] f(4) F [of 4]
      by (simp add: mgt_post_recv_def flips_flips all_disjoint_mgt_fields)
    ultimately show ?thesis
      using st(4) unfolding tlv_post_recv_def Let_def at add_0 r f(3) by simp
  qed
  have len: "unat (rd16 bo pre 2) = 2 + length data" using r(2) f(3) by simp
  show ?thesis
    unfolding suffix_post_recv_loop.simps [of bo alloc 0 "6 + length data" m] mem Let_def assms(4) add_0 len
    using st(5) assms(2,3) by (simp add: post suffix_post_recv_loop.simps msg_tlv_attach_def assms(4))
qed


lemma write_at_empty: "write_at 0 bs [] = bs"
  by (simp add: write_at_def)

lemma set_request:
  assumes "settable code (length data)" "ne_message e" "ne_tlv e" "pmc_transport_specific p AND 0x0f = 0"
  obtains w m where "pmc_send_set_action e code data p =
      (p\<lparr>pmc_sequence_id := pmc_sequence_id p + 1, pmc_sent := pmc_sent p @ [w]\<rparr>, False)"
    and "msg_post_recv (ne_bo e) (\<lambda>_. True) now (w\<lparr>tlv_list := [], tlv_count := 0\<rparr>) (54 + length data) = Inr m"
    and "m_suffix m = management_tlv (ne_bo e) code data" "tlv_count m = 1" "mgmt_flags m = SET"
    and "targetPortIdentity m = pmc_targeted p" "tlv_list m = [new_extra 0]"
proof -
  let ?bo = "ne_bo e" and ?mem = "management_tlv (ne_bo e) code data"
  have t: "(MANAGEMENT OR pmc_transport_specific p) AND 0x0f = MANAGEMENT"
    using assms(4) by (simp add: bit.conj_disj_distrib2)
  define m0 where "m0 = the (snd (pmc_message e p SET))"
  have m0: "pmc_message e p SET = (p\<lparr>pmc_sequence_id := pmc_sequence_id p + 1\<rparr>, Some m0)" "msg_type m0 = MANAGEMENT"
    "tlv_list m0 = []" "tlv_count m0 = 0" "m_suffix m0 = []" "mgmt_flags m0 = SET" "targetPortIdentity m0 = pmc_targeted p"
    "ver (header m0) = 2"
    using assms(2) t by (simp_all add: m0_def pmc_message_def msg_type_def zero_msg_def Let_def)
  define m1 where "m1 = m0\<lparr>header := (header m0)\<lparr>messageLength := messageLength (header m0) + of_nat (6 + length data)\<rparr>,
    tlv_list := [new_extra 0], tlv_count := 1, m_suffix := ?mem\<rparr>"
  have ty: "msg_type m1 = MANAGEMENT" using m0(2) by (simp add: m1_def msg_type_def)
  have "length data < 1000" using settable_fields(3) [OF assms(1)] .
  then have set: "pmc_send_set_action e code data p =
      (pmc_send e m1 (p\<lparr>pmc_sequence_id := pmc_sequence_id p + 1\<rparr>), False)"
    using m0 assms(3)
    by (simp add: pmc_send_set_action_def msg_tlv_append_def msg_tlv_prepare_def msg_has_suffix_def msg_pdulen_def
        msg_tlv_attach_def Let_def set_suffix_def write_at_empty new_extra_def m1_def)
  have ver: "ver (header m1) AND 0x0f = 2" using m0(8) by (simp add: m1_def)
  have at: "tlv_at (new_extra 0) = 0" by (simp add: new_extra_def)
  define w where "w = m1\<lparr>header := hdr_pre_send ?bo (header m1), targetPortIdentity := port_id_pre_send ?bo (targetPortIdentity m1),
    m_suffix := flips ?bo [(2, 0), (2, 2)] 0 (tlv_pre_send ?bo (new_extra 0) ?mem)\<rparr>"
  have wty: "msg_type (m1\<lparr>header := hdr_pre_send ?bo (header m1)\<rparr>) = MANAGEMENT"
    using ty by (simp add: msg_type_def)
  have body: "body_pre_send ?bo (ne_now e) (m1\<lparr>header := hdr_pre_send ?bo (header m1)\<rparr>) =
    m1\<lparr>header := hdr_pre_send ?bo (header m1), targetPortIdentity := port_id_pre_send ?bo (targetPortIdentity m1)\<rparr>"
    unfolding body_pre_send_def Let_def wty by simp
  have w: "msg_pre_send ?bo (ne_now e) m1 = Some w"
    unfolding msg_pre_send_def Let_def wty body
    by (simp add: msg_pdulen_def suffix_pre_send_def m1_def w_def at del: flips_simps)
  let ?r = "w\<lparr>tlv_list := [], tlv_count := 0\<rparr>" and ?t = "\<lambda>m. m\<lparr>tlv_list := [], tlv_count := 0\<rparr>"
  have h: "hdr_post_recv ?bo (header ?r) = Inr (header m1)"
    using hdr_round_trip [OF ver, of ?bo] by (simp add: w_def)
  let ?h = "?r\<lparr>header := header m1\<rparr>"
  have hty: "msg_type ?h = MANAGEMENT" using ty by (simp add: msg_type_def)
  define m2 where "m2 = ?h\<lparr>targetPortIdentity := targetPortIdentity m1\<rparr>"
  have b: "body_post_recv ?bo now ?h = m2"
    unfolding body_post_recv_def Let_def hty by (simp add: m2_def w_def)
  have m2: "tlv_list m2 = []" "tlv_count m2 = 0" "msg_has_suffix m2"
    "m_suffix m2 = flips ?bo [(2, 0), (2, 2)] 0 (tlv_pre_send ?bo (new_extra 0) ?mem)"
    "mgmt_flags m2 = SET" "targetPortIdentity m2 = pmc_targeted p"
    using hty m0 by (simp_all add: m2_def w_def m1_def msg_has_suffix_def msg_type_def del: flips_simps)
  have post: "msg_post_recv ?bo (\<lambda>_. True) now ?r (54 + length data) =
    Inr (m2\<lparr>m_suffix := ?mem, tlv_list := [new_extra 0], tlv_count := 1\<rparr>)"
    unfolding msg_post_recv_def h sum.case Let_def hty b suffix_post_recv_def
    using management_tlv_received [OF assms(1) _ m2(1,2,4), of "\<lambda>_. True"] m2(3) by (simp add: msg_pdulen_def)
  show ?thesis
    by (rule that [of w, OF _ post]) (simp_all add: set pmc_send_def w m2)
qed


lemma scan_word_space: "w \<noteq> [] \<Longrightarrow> \<forall>c\<in>set w. \<not> isspace c \<Longrightarrow> k = 0 \<or> length w \<le> k \<Longrightarrow> scan_word k (w @ CHR '' '' # s) = Some (w, CHR '' '' # s)"
proof -
  assume w: "w \<noteq> []" "\<forall>c\<in>set w. \<not> isspace c" "k = 0 \<or> length w \<le> k"
  have "takeWhile (\<lambda>c. \<not> isspace c) (w @ CHR '' '' # s) = w"
    using w(2) by (simp add: takeWhile_append isspace_def)
  moreover have "dropWhile isspace (w @ CHR '' '' # s) = w @ CHR '' '' # s" using w by (cases w) auto
  ultimately show ?thesis using w(1,3) by (auto simp: scan_word_def field_def Let_def)
qed

lemma set_command:
  "do_command e (''SET '' @ ''GRANDMASTER_SETTINGS_NP '' @ s) p =
    (run_set_action e SET TLV_GRANDMASTER_SETTINGS_NP (''SET '' @ ''GRANDMASTER_SETTINGS_NP '' @ s)
       (print_text (''sending: SET GRANDMASTER_SETTINGS_NP'' @ newline) p), False)"
proof -
  let ?s = "''SET '' @ ''GRANDMASTER_SETTINGS_NP '' @ s"
  have no_help: "\<not> abbreviates ?s ''HELP''" by (simp add: abbreviates_def to_lower_def)
  have w1: "scan_word 10 ?s = Some (''SET'', CHR '' '' # ''GRANDMASTER_SETTINGS_NP '' @ s)"
    using scan_word_space [of "''SET''" 10 "''GRANDMASTER_SETTINGS_NP '' @ s"] by (simp add: isspace_def)
  have "scan_word 64 (CHR '' '' # x) = scan_word 64 x" for x by (simp add: scan_word_def isspace_def)
  then have w2: "scan_word 64 (CHR '' '' # ''GRANDMASTER_SETTINGS_NP '' @ s) = Some (''GRANDMASTER_SETTINGS_NP'', CHR '' '' # s)"
    using scan_word_space [of "''GRANDMASTER_SETTINGS_NP''" 64 s] by (simp add: isspace_def)
  have t: "abbreviates ''SET'' ''TARGET'' = False" "parse_action ''SET'' = Some SET" "action_string ! unat (SET :: u8) = ''SET''"
    by code_simp+
  have row: "idtab ! 31 = (''GRANDMASTER_SETTINGS_NP'', TLV_GRANDMASTER_SETTINGS_NP, do_set_action)"
    by (simp add: idtab_def)
  have i: "parse_id ''GRANDMASTER_SETTINGS_NP'' = IdIndex 31"
    using parse_id_name [of 31] by (simp add: row length_idtab)
  show ?thesis unfolding do_command_def w1 w2 option.case prod.case t i row parsed_id.case if_not_P [OF no_help] if_False
    by (simp add: run_handler_def)
qed


lemma put_port_settings [simp]:
  "c_utc_offset (put_port n p c) = c_utc_offset c" "c_time_flags (put_port n p c) = c_time_flags c"
  "c_time_source (put_port n p c) = c_time_source c"
  by (simp_all add: put_port_def)

text \<open>What the clock makes of the settings in a message of its local socket.\<close>

lemma settings_received:
  assumes "m_suffix m = management_tlv (env_bo e) TLV_GRANDMASTER_SETTINGS_NP data" "length data = 8"
    and "tlv_count m = 1" "mgmt_flags m = SET" "targetPortIdentity m = all_ports" "is_uds i c"
  shows "\<exists>c'. manage_local e i m c = (c', True) \<and>
    dds_clockQuality (c_dds c') = \<lparr>clockClass = octet data 0, clockAccuracy = octet data 1, offsetScaledLogVariance = rd16 (env_bo e) data 2\<rparr> \<and>
    c_utc_offset c' = sint (rd16 (env_bo e) data 4) \<and> c_time_flags c' = octet data 6 \<and> c_time_source c' = octet data 7"
proof -
  let ?mem = "management_tlv (env_bo e) TLV_GRANDMASTER_SETTINGS_NP data"
  have f: "rd16 (env_bo e) ?mem 4 = TLV_GRANDMASTER_SETTINGS_NP" "rd16 (env_bo e) ?mem 2 = 10"
    using management_tlv_fields [of data "env_bo e" TLV_GRANDMASTER_SETTINGS_NP] assms(2) by simp_all
  have v: "octet ?mem (6 + k) = octet data k" for k
    by (simp add: management_tlv_def numeral_eq_Suc)
  have r: "rd16 (env_bo e) ?mem (6 + k) = rd16 (env_bo e) data k" for k
  proof -
    have e: "octet ?mem (6 + k + j) = octet data (k + j)" for j using v [of "k + j"] by (simp only: ac_simps)
    show ?thesis unfolding rd16_def e v ..
  qed
  have set: "manage_local e i m c = (case clock_management_set e i TLV_GRANDMASTER_SETTINGS_NP m c of (c, True, changed) \<Rightarrow> (c, changed)
      | (c, False, changed) \<Rightarrow> manage_rest e i m changed c)"
    unfolding manage_local_def assms(1) f Let_def using assms(3-6)
    by (simp add: all_ports_def cid_eq_def management_action_def)
  show ?thesis
    unfolding set clock_management_set_def Let_def at_port_def assms(1)
    using v [of 0] v [of 1] v [of 6] v [of 7] r [of 2] r [of 4] by (simp add: split_beta)
qed


lemma gsn_value: "length data = 8 \<Longrightarrow> octet data 6 AND 0xC0 = 0 \<Longrightarrow>
  parse_gsn bo (''SET '' @ show_gsn bo data) = Some data"
proof -
  assume d: "length data = 8" "octet data 6 AND 0xC0 = 0"
  have w: "word_of_int (uint (octet data i)) = octet data i" "word_of_int (uint (rd16 bo data i)) = rd16 bo data i"
    "word_of_int (sint (rd16 bo data i)) = rd16 bo data i" for i by simp_all
  have fl: "flag_if (if octet data 6 AND 1 \<noteq> 0 then 1 else 0) 1 OR flag_if (if octet data 6 AND 2 \<noteq> 0 then 1 else 0) 2 OR
      flag_if (if octet data 6 AND 4 \<noteq> 0 then 1 else 0) 4 OR flag_if (if octet data 6 AND 8 \<noteq> 0 then 1 else 0) 8 OR
      flag_if (if octet data 6 AND 16 \<noteq> 0 then 1 else 0) 16 OR flag_if (if octet data 6 AND 32 \<noteq> 0 then 1 else 0) 32 = octet data 6"
    using settings_flags [OF d(2)] flag_if_shown [of "octet data 6" 0] flag_if_shown [of "octet data 6" 1]
      flag_if_shown [of "octet data 6" 2] flag_if_shown [of "octet data 6" 3] flag_if_shown [of "octet data 6" 4]
      flag_if_shown [of "octet data 6" 5]
    by (simp del: flag_if_def)
  have "data = [octet data 0, octet data 1, octet data 2, octet data 3, octet data 4, octet data 5, octet data 6, octet data 7]"
    using d(1) by (auto simp: octet_def numeral_eq_Suc length_Suc_conv)
  then show ?thesis
    unfolding parse_gsn_def scanf_settings by (simp add: w u16_bytes_rd16 fl)
qed


text \<open>
  C23: The settings of a grandmaster can be copied by hand.  When one clock is asked for its grandmaster
  settings, what pmc prints of the reply, given to pmc as a SET command, is sent as one request, and the clock
  that receives it on its local socket has then the clock quality, the UTC offset, the time flags and the time
  source of the first one.  The two reserved bits of the time flags are the only part that is not copied, and a UTC offset
  has to fit 16 bits.
\<close>

theorem settings_copied:
  assumes "clock_management_data e0 s on_uds req TLV_GRANDMASTER_SETTINGS_NP = Some (data, n)" "env_bo e0 = ne_bo e"
    and "c_time_flags s AND 0xC0 = 0" "- 32768 \<le> c_utc_offset s" "c_utc_offset s < 32768"
    and "ne_message e" "ne_tlv e" "pmc_transport_specific p AND 0x0f = 0" "pmc_targeted p = all_ports"
    and "env_bo e1 = ne_bo e" "is_uds i c"
  shows "\<exists>w m c'. pmc_sent (fst (do_command e (''SET '' @ show_gsn (ne_bo e) data) p)) = pmc_sent p @ [w] \<and>
    msg_post_recv (ne_bo e) (\<lambda>_. True) now (w\<lparr>tlv_list := [], tlv_count := 0\<rparr>) 62 = Inr m \<and>
    manage_local e1 i m c = (c', True) \<and> dds_clockQuality (c_dds c') = dds_clockQuality (c_dds s) \<and>
    c_utc_offset c' = c_utc_offset s \<and> c_time_flags c' = c_time_flags s \<and> c_time_source c' = c_time_source s"
proof -
  let ?bo = "ne_bo e" and ?q = "dds_clockQuality (c_dds s)" and ?str = "''SET '' @ show_gsn (ne_bo e) data"
  let ?u = "u16_bytes ?bo (offsetScaledLogVariance ?q)" and ?v = "u16_bytes ?bo (word_of_int (c_utc_offset s))"
  have data: "data = clockClass ?q # clockAccuracy ?q # ?u @ ?v @ [c_time_flags s, c_time_source s]"
    using assms(1,2) by (simp add: clock_management_data_def Let_def quality_bytes_def)
  have oct: "octet data 0 = clockClass ?q" "octet data 1 = clockAccuracy ?q" "octet data 6 = c_time_flags s" "octet data 7 = c_time_source s"
    unfolding data by (simp_all add: numeral_eq_Suc)
  have words: "rd16 ?bo data 2 = offsetScaledLogVariance ?q" "rd16 ?bo data 4 = word_of_int (c_utc_offset s)"
    using rd16_skip [of "[clockClass ?q, clockAccuracy ?q]" 2 2 ?bo] rd16_skip [of "clockClass ?q # clockAccuracy ?q # ?u" 4 4 ?bo]
    by (simp_all add: data rd16_front)
  have len: "length data = 8" by (simp add: data)
  have off: "sint (word_of_int (c_utc_offset s) :: u16) = c_utc_offset s"
    using assms(4,5) by (simp add: sint_sbintrunc' signed_take_bit_int_eq_self)
  define p' where "p' = print_text (''sending: SET GRANDMASTER_SETTINGS_NP'' @ newline) p"
  have p': "pmc_sent p' = pmc_sent p" "pmc_transport_specific p' AND 0x0f = 0" "pmc_targeted p' = all_ports"
    using assms(8,9) by (simp_all add: p'_def print_text_def)
  have cmd: "fst (do_command e ?str p) = fst (pmc_send_set_action e TLV_GRANDMASTER_SETTINGS_NP data p')"
    using gsn_value [OF len, of ?bo] assms(3)
    by (simp add: show_gsn_def set_command run_set_action_def parse_set_def oct p'_def del: append.simps)
  obtain w m where w: "pmc_send_set_action e TLV_GRANDMASTER_SETTINGS_NP data p' =
      (p'\<lparr>pmc_sequence_id := pmc_sequence_id p' + 1, pmc_sent := pmc_sent p' @ [w]\<rparr>, False)"
    and m: "msg_post_recv ?bo (\<lambda>_. True) now (w\<lparr>tlv_list := [], tlv_count := 0\<rparr>) (54 + length data) = Inr m"
      "m_suffix m = management_tlv ?bo TLV_GRANDMASTER_SETTINGS_NP data" "tlv_count m = 1" "mgmt_flags m = SET"
      "targetPortIdentity m = pmc_targeted p'"
    by (rule set_request [of TLV_GRANDMASTER_SETTINGS_NP data e p' now]) (use assms(6,7) len p'(2) in \<open>simp_all add: settable_def\<close>)
  obtain c' where c': "manage_local e1 i m c = (c', True)"
    "dds_clockQuality (c_dds c') = \<lparr>clockClass = octet data 0, clockAccuracy = octet data 1, offsetScaledLogVariance = rd16 ?bo data 2\<rparr>"
    "c_utc_offset c' = sint (rd16 ?bo data 4)" "c_time_flags c' = octet data 6" "c_time_source c' = octet data 7"
    using settings_received [of m e1 data i c] m(2-5) p'(3) len assms(10,11) by auto
  show ?thesis
  proof (intro exI conjI)
    show "pmc_sent (fst (do_command e ?str p)) = pmc_sent p @ [w]" unfolding cmd w by (simp add: p')
    show "msg_post_recv ?bo (\<lambda>_. True) now (w\<lparr>tlv_list := [], tlv_count := 0\<rparr>) 62 = Inr m" using m(1) len by simp
    show "manage_local e1 i m c = (c', True)" by (rule c'(1))
    show "dds_clockQuality (c_dds c') = ?q" unfolding c' oct words by simp
    show "c_utc_offset c' = c_utc_offset s" "c_time_flags c' = c_time_flags s" "c_time_source c' = c_time_source s"
      unfolding c' oct words off by simp_all
  qed
qed

definition sample_pmc :: pmc where
  "sample_pmc = the (pmc_create True None True True 0 1 0 0 False)"

definition sample_pmc_env :: pmc_env where
  "sample_pmc_env = \<lparr>ne_bo = LittleEndian, ne_now = \<lparr>tv_sec = 10, tv_nsec = 0\<rparr>, ne_message = True, ne_tlv = True, ne_stack = 0\<rparr>"

lemma settings_copied_witness:
  "\<exists>data w m c'. pmc_sent (fst (do_command sample_pmc_env (''SET '' @ show_gsn LittleEndian data) sample_pmc)) = [w] \<and>
    msg_post_recv LittleEndian (\<lambda>_. True) \<lparr>tv_sec = 10, tv_nsec = 0\<rparr> (w\<lparr>tlv_list := [], tlv_count := 0\<rparr>) 62 = Inr m \<and>
    manage_local sample_env 0 m ((sample_system PS_MASTER)\<lparr>c_utc_offset := 0\<rparr>) = (c', True) \<and> c_utc_offset c' = 37"
proof -
  obtain data n where d: "clock_management_data sample_env (sample_system PS_MASTER) True (zero_msg 0) TLV_GRANDMASTER_SETTINGS_NP = Some (data, n)"
    by (simp add: clock_management_data_def Let_def)
  have c: "c_time_flags (sample_system PS_MASTER) AND 0xC0 = 0" "c_utc_offset (sample_system PS_MASTER) = 37"
    by (simp_all add: sample_system_def sample_clock_def clock.defs Let_def)
  have p: "pmc_transport_specific sample_pmc AND 0x0f = 0" "pmc_targeted sample_pmc = all_ports" "pmc_sent sample_pmc = []"
    by (simp_all add: sample_pmc_def pmc_create_def pmc_target_all_def pmc_target_def)
  have u: "is_uds 0 ((sample_system PS_MASTER)\<lparr>c_utc_offset := 0\<rparr>)" by (simp add: is_uds_def)
  have e: "ne_bo sample_pmc_env = LittleEndian" "ne_message sample_pmc_env" "ne_tlv sample_pmc_env" "env_bo sample_env = LittleEndian"
    by (simp_all add: sample_pmc_env_def sample_env_def)
  from settings_copied [OF d _ c(1) _ _ e(2,3) p(1,2) _ u, of sample_env "\<lparr>tv_sec = 10, tv_nsec = 0\<rparr>"] c(2) p(3)
  show ?thesis unfolding e by auto
qed

end
