(* ===== verification/PmcMain.thy ===== *)
theory PmcMain
  imports PmcShow Args "HOL-Library.Monad_Syntax" "HOL-Library.Sublist"
begin

text \<open>
  The program pmc (\<open>main\<close> in src/pmc.c): its arguments, the client that it creates from them and its loop,
  which hands the commands of the command line or of the standard input to the client, one at a time, and
  prints the replies.
\<close>

subsection \<open>Arguments\<close>

record pmc_args =
  ga_cfg :: Config.config
  ga_config :: "string option"
  ga_iface_name :: "string option"
  ga_boundary_hops :: u8
  ga_zero_datalen :: bool

text \<open>The number is converted as a \<open>long\<close> and truncated; a text without digits gives 0.\<close>

definition atoi :: "string \<Rightarrow> int" where
  "atoi s = (case scan_int s of None \<Rightarrow> 0 | Some (v, _) \<Rightarrow> sint (word_of_int v :: i32))"

definition set_cfg :: "pmc_args \<Rightarrow> Config.config \<times> bool \<Rightarrow> int + pmc_args" where
  "set_cfg st r = or_out (map_option (\<lambda>cfg. st\<lparr>ga_cfg := cfg\<rparr>) (set_ok r))"

definition pmc_short_option :: "bool \<Rightarrow> char \<Rightarrow> string \<Rightarrow> pmc_args \<Rightarrow> int + pmc_args" where
  "pmc_short_option mem c optarg st =
    (let cfg = ga_cfg st
     in if c = CHR ''2'' then set_cfg st (config_set_int mem cfg ''network_transport'' 3)
        else if c = CHR ''4'' then set_cfg st (config_set_int mem cfg ''network_transport'' 1)
        else if c = CHR ''6'' then set_cfg st (config_set_int mem cfg ''network_transport'' 2)
        else if c = CHR ''u'' then set_cfg st (config_set_int mem cfg ''network_transport'' 0)
        else if c = CHR ''b'' then Inr (st\<lparr>ga_boundary_hops := word_of_int (atoi optarg)\<rparr>)
        else if c = CHR ''d'' then set_cfg st (config_set_int mem cfg ''domainNumber'' (atoi optarg))
        else if c = CHR ''f'' then Inr (st\<lparr>ga_config := Some optarg\<rparr>)
        else if c = CHR ''i'' then Inr (st\<lparr>ga_iface_name := Some optarg\<rparr>)
        else if c = CHR ''s'' then
          (if length optarg > 108 then Inl (- 1) else set_cfg st (config_set_string mem cfg ''uds_address'' optarg))
        else if c = CHR ''t'' then
          (case scanf [Unsigned 16] optarg of
             [v] \<Rightarrow> set_cfg st (config_set_int mem cfg ''transportSpecific'' (sint (word_of_int v :: i32)))
           | _ \<Rightarrow> Inr st)
        else if c = CHR ''v'' then Inl 0
        else if c = CHR ''z'' then Inr (st\<lparr>ga_zero_datalen := True\<rparr>)
        else if c = CHR ''h'' then Inl 0
        else Inl (- 1))"

definition pmc_argument ::
  "bool \<Rightarrow> (string \<Rightarrow> (real \<times> string \<times> bool) option) \<Rightarrow> argument \<Rightarrow> pmc_args \<Rightarrow> int + pmc_args" where
  "pmc_argument mem strtod arg st =
    (case arg of
       LongOpt name optarg \<Rightarrow>
         or_out (map_option (\<lambda>cfg. st\<lparr>ga_cfg := cfg\<rparr>)
           (Option.bind (config_parse_option mem strtod (ga_cfg st) name optarg) set_ok))
     | Opt c optarg \<Rightarrow> pmc_short_option mem c optarg st
     | UnknownOpt \<Rightarrow> Inl (- 1))"

fun pmc_arguments ::
  "bool \<Rightarrow> (string \<Rightarrow> (real \<times> string \<times> bool) option) \<Rightarrow> argument list \<Rightarrow> pmc_args \<Rightarrow> int + pmc_args" where
  "pmc_arguments mem strtod [] st = Inr st"
| "pmc_arguments mem strtod (arg # args) st =
    (case pmc_argument mem strtod arg st of
       Inl status \<Rightarrow> Inl status
     | Inr st \<Rightarrow> pmc_arguments mem strtod args st)"

text \<open>The interface, which for the local socket is named after the process.\<close>

definition default_iface :: "int \<Rightarrow> nat \<Rightarrow> string" where
  "default_iface transport_type pid =
    (if transport_type = 0 then take 108 (''/var/run/pmc.'' @ show_nat pid) else ''eth0'')"

text \<open>
  \<open>mac\<close>, \<open>created\<close> and \<open>opened\<close> are the answers of the kernel for the interface and the transport, \<open>pid\<close> is
  the number of the process.
\<close>

record pmc_start_env =
  ge_mem :: bool
  ge_mac :: "string \<Rightarrow> u8 list option"
  ge_created :: "int \<Rightarrow> bool"
  ge_opened :: "int \<Rightarrow> string \<Rightarrow> bool"
  ge_pid :: nat

definition pmc_start :: "pmc_start_env \<Rightarrow> pmc_args \<Rightarrow> Config.config \<Rightarrow> pmc option" where
  "pmc_start e st cfg =
    do {
      transport_type \<leftarrow> config_get_int cfg None ''network_transport'';
      specific \<leftarrow> config_get_int cfg None ''transportSpecific'';
      domain_number \<leftarrow> config_get_int cfg None ''domainNumber'';
      let iface_name = (case ga_iface_name st of None \<Rightarrow> default_iface transport_type (ge_pid e) | Some name \<Rightarrow> name);
      pmc_create (ge_mem e) (ge_mac e iface_name) (ge_created e transport_type) (ge_opened e transport_type iface_name)
        transport_type (ga_boundary_hops st) (word_of_int domain_number) (push_bit 4 (word_of_int specific))
        (ga_zero_datalen st)
    }"

text \<open>The client, or the status with which the program ends before its loop.\<close>

definition pmc_setup ::
  "pmc_start_env \<Rightarrow> (string \<Rightarrow> (real \<times> string \<times> bool) option) \<Rightarrow> (string \<Rightarrow> string option) \<Rightarrow> argument list \<Rightarrow> int + pmc" where
  "pmc_setup e strtod files args =
    (case config_create (ge_mem e) of
       None \<Rightarrow> Inl (- 1)
     | Some cfg \<Rightarrow>
         (case pmc_arguments (ge_mem e) strtod args
             \<lparr>ga_cfg = cfg, ga_config = None, ga_iface_name = None, ga_boundary_hops = 1, ga_zero_datalen = False\<rparr> of
            Inl status \<Rightarrow> Inl status
          | Inr st \<Rightarrow>
              (case (case ga_config st of
                  None \<Rightarrow> Some (ga_cfg st, 0)
                | Some name \<Rightarrow> config_read (ge_mem e) strtod (files name) (ga_cfg st)) of
                 None \<Rightarrow> Inl (- 1)
               | Some (cfg, r) \<Rightarrow> if r \<noteq> 0 then Inl (- 1) else or_out (pmc_start e st cfg))))"

subsection \<open>The loop\<close>

text \<open>
  The local variables of the loop: the client, the commands of the command line that are left, the
  command that waits, the time-out (-1 or 100) and whether the standard input is polled.
\<close>

record pmc_loop =
  lo_pmc :: pmc
  lo_batch :: bool
  lo_rest :: "string list"
  lo_command :: "string option"
  lo_tmo :: int
  lo_stdin :: bool

text \<open>
  What \<open>poll\<close> returns.  The events are those of the standard input (hang-up, and a line or the end of the
  input when it is readable) and of the socket (writable, and what \<open>pmc_recv\<close> gets when it is readable).
  The first component is the environment of the client in this pass.
\<close>

datatype loop_events =
    LoopError bool
  | LoopTimeout
  | LoopEvents bool "string option option" bool "(ptp_message \<times> int) option option"

text \<open>At the top of the loop: in batch mode the next command is fetched.\<close>

definition fetch_command :: "pmc_loop \<Rightarrow> pmc_loop" where
  "fetch_command l =
    (if lo_batch l \<and> lo_command l = None then
       (case lo_rest l of
          command # rest \<Rightarrow> l\<lparr>lo_command := Some command, lo_rest := rest\<rparr>
        | [] \<Rightarrow> l\<lparr>lo_tmo := 100\<rparr>)
     else l)"

text \<open>
  What \<open>poll\<close> may return: the events that it is asked for, a hang-up in any case, and a time-out only when
  it was given one.
\<close>

fun poll_reports :: "pmc_loop \<Rightarrow> loop_events \<Rightarrow> bool" where
  "poll_reports l (LoopError interrupted) = True"
| "poll_reports l LoopTimeout = (lo_tmo l \<noteq> - 1)"
| "poll_reports l (LoopEvents hangup line writable readable) =
    ((hangup \<longrightarrow> lo_stdin l) \<and> (line \<noteq> None \<longrightarrow> lo_stdin l \<and> \<not> lo_batch l \<and> lo_command l = None) \<and>
     (writable \<longrightarrow> lo_command l \<noteq> None))"

text \<open>A line of the standard input without its last character; lines of one character are skipped.\<close>

definition take_line :: "string \<Rightarrow> string option" where
  "take_line line = (if length line < 2 then None else Some (butlast line))"

text \<open>The command is handed to the client when the socket is writable.\<close>

definition run_command :: "pmc_env \<Rightarrow> pmc_loop \<Rightarrow> pmc_loop" where
  "run_command e l =
    (case lo_command l of
       None \<Rightarrow> l
     | Some command \<Rightarrow> l\<lparr>lo_pmc := fst (do_command e command (lo_pmc l)), lo_command := None\<rparr>)"

definition show_reply :: "(u8 list \<Rightarrow> string) \<Rightarrow> (real \<Rightarrow> real) \<Rightarrow> pmc_env \<Rightarrow> (ptp_message \<times> int) option \<Rightarrow> pmc_loop \<Rightarrow> pmc_loop" where
  "show_reply ntop6 fl e received l =
    (case pmc_recv e received of
       None \<Rightarrow> l
     | Some m \<Rightarrow> l\<lparr>lo_pmc := print_text (pmc_show ntop6 fl (ne_bo e) m) (lo_pmc l)\<rparr>)"

text \<open>The socket after \<open>poll\<close>: writable and readable.\<close>

definition serve_socket ::
  "(u8 list \<Rightarrow> string) \<Rightarrow> (real \<Rightarrow> real) \<Rightarrow> pmc_env \<Rightarrow> bool \<Rightarrow> (ptp_message \<times> int) option option \<Rightarrow> pmc_loop \<Rightarrow> pmc_loop" where
  "serve_socket ntop6 fl e writable readable l =
    (let l = (if writable then run_command e l else l)
     in case readable of None \<Rightarrow> l | Some received \<Rightarrow> show_reply ntop6 fl e received l)"

text \<open>One pass of the loop; the second component is the status when the loop ends.\<close>

definition pmc_loop_pass ::
  "(u8 list \<Rightarrow> string) \<Rightarrow> (real \<Rightarrow> real) \<Rightarrow> pmc_env \<Rightarrow> loop_events \<Rightarrow> pmc_loop \<Rightarrow> pmc_loop \<times> int option" where
  "pmc_loop_pass ntop6 fl e r l =
    (let l = fetch_command l
     in case r of
          LoopError interrupted \<Rightarrow> (l, if interrupted then None else Some (- 1))
        | LoopTimeout \<Rightarrow> (l, Some 0)
        | LoopEvents hangup line writable readable \<Rightarrow>
            if hangup \<and> lo_tmo l \<noteq> - 1 then (l, Some 0)
            else
              let l = (if hangup then l\<lparr>lo_tmo := 100, lo_stdin := False\<rparr> else l)
              in case line of
                   None \<Rightarrow> (serve_socket ntop6 fl e writable readable l, None)
                 | Some None \<Rightarrow> (l, Some 0)
                 | Some (Some s) \<Rightarrow>
                     (case take_line s of
                        None \<Rightarrow> (l, None)
                      | Some command \<Rightarrow>
                          (serve_socket ntop6 fl e writable readable (l\<lparr>lo_command := Some command\<rparr>), None)))"

text \<open>The variables before the loop; there are commands on the command line in batch mode.\<close>

definition start_loop :: "string list \<Rightarrow> pmc \<Rightarrow> pmc_loop" where
  "start_loop commands p =
    \<lparr>lo_pmc = p, lo_batch = (commands \<noteq> []), lo_rest = commands, lo_command = None, lo_tmo = - 1, lo_stdin = (commands = [])\<rparr>"

inductive looping :: "(u8 list \<Rightarrow> string) \<Rightarrow> (real \<Rightarrow> real) \<Rightarrow> pmc_loop \<Rightarrow> pmc_loop \<Rightarrow> bool" for ntop6 fl l0 where
  start: "looping ntop6 fl l0 l0"
| pass: "looping ntop6 fl l0 l \<Longrightarrow> poll_reports (fetch_command l) r \<Longrightarrow> pmc_loop_pass ntop6 fl e r l = (l', None) \<Longrightarrow>
    looping ntop6 fl l0 l'"

subsection \<open>Commands of the command line\<close>

text \<open>What a client has and what it has sent, without what was printed.\<close>

definition core :: "pmc \<Rightarrow> pmc" where
  "core p = p\<lparr>pmc_out := []\<rparr>"

lemma core_print [simp]: "core (print_text s p) = core p"
  by (simp add: core_def print_text_def)

lemma core_core [simp]: "core (core p) = core p"
  by (simp add: core_def)

definition run_commands :: "(pmc_env \<times> string) list \<Rightarrow> pmc \<Rightarrow> pmc" where
  "run_commands = fold (\<lambda>(e, command). fst \<circ> do_command e command)"

text \<open>A command does not read what was printed.\<close>

lemma core_message: "pmc_message e (core p) action = (core (fst (pmc_message e p action)), snd (pmc_message e p action))"
  by (simp add: pmc_message_def core_def Let_def)

lemma core_send: "core (pmc_send e m p) = pmc_send e m (core p)"
  by (simp add: pmc_send_def core_def split: option.split)

lemma core_lookups: "pmc_tlv_datalen (core p) = pmc_tlv_datalen p" "get_extra (core p) = get_extra p"
  by (simp_all add: pmc_tlv_datalen_def get_extra_def core_def fun_eq_iff)

lemma core_get: "core (fst (pmc_send_get_action e mid p)) = fst (pmc_send_get_action e mid (core p))"
proof -
  obtain q m where m: "pmc_message e p GET = (q, m)" by fastforce
  then have c: "pmc_message e (core p) GET = (core q, m)" by (simp add: core_message)
  show ?thesis
    by (cases m) (simp_all only: pmc_send_get_action_def m c prod.case option.case Let_def core_lookups if_distrib [of fst] if_distrib [of core]
        fst_conv core_send)
qed

lemma core_set: "core (fst (pmc_send_set_action e mid data p)) = fst (pmc_send_set_action e mid data (core p))"
proof -
  obtain q m where m: "pmc_message e p SET = (q, m)" by fastforce
  then have c: "pmc_message e (core p) SET = (core q, m)" by (simp add: core_message)
  show ?thesis
  proof (cases m)
    case (Some w)
    show ?thesis
      by (cases "msg_tlv_append (ne_bo e) (ne_tlv e) w (6 + length data)")
        (simp_all add: pmc_send_set_action_def m c Some core_send split_beta)
  qed (simp add: pmc_send_set_action_def m c)
qed

lemma core_handler: "core (run_handler e h action name code str p) = core (run_handler e h action name code str (core p))"
proof (cases h)
  case do_set_action
  then show ?thesis
    by (cases "parse_set e code str") (simp_all add: run_handler_def run_set_action_def core_get core_set)
qed (simp_all add: run_handler_def run_get_action_def core_get)

lemma core_congs:
  "core (print_text s (core p)) = core p" "core (pmc_target pid (core p)) = core (pmc_target pid p)"
  "core (print_help (core p)) = core (print_help p)"
  by (simp_all add: core_def print_text_def pmc_target_def print_help_def)

lemma core_print_handler:
  "core (run_handler e h action name code str (print_text s (core p))) = core (run_handler e h action name code str (print_text s p))"
  using core_handler [of e h action name code str "print_text s (core p)"] core_handler [of e h action name code str "print_text s p"]
  by simp

lemma core_command: "core (fst (do_command e s (core p))) = core (fst (do_command e s p))"
  by (simp add: do_command_def parse_target_def core_congs core_print_handler
      split: option.split prod.split parsed_id.split)

lemma core_command_cong: "core p = core q \<Longrightarrow> core (fst (do_command e s p)) = core (fst (do_command e s q))"
  using core_command [of e s p] core_command [of e s q] by simp

text \<open>Where batch mode stands: the commands that were executed, the one that waits, those that are left.\<close>

definition batch_invariant :: "string list \<Rightarrow> pmc \<Rightarrow> pmc_loop \<Rightarrow> bool" where
  "batch_invariant commands p l \<longleftrightarrow> lo_batch l \<and> \<not> lo_stdin l \<and>
     (lo_tmo l \<noteq> - 1 \<longrightarrow> lo_rest l = [] \<and> lo_command l = None) \<and>
     (\<exists>ran. commands = map snd ran @ (case lo_command l of None \<Rightarrow> [] | Some c \<Rightarrow> [c]) @ lo_rest l \<and>
        core (lo_pmc l) = core (run_commands ran p))"

lemma batch_fetch: "batch_invariant commands p l \<Longrightarrow> batch_invariant commands p (fetch_command l)"
  by (auto simp: batch_invariant_def fetch_command_def split: list.split)

lemma batch_run:
  assumes "batch_invariant commands p l"
  shows "batch_invariant commands p (run_command e l)"
proof (cases "lo_command l")
  case (Some c)
  obtain ran where r: "commands = map snd ran @ c # lo_rest l" "core (lo_pmc l) = core (run_commands ran p)"
    using assms Some by (auto simp: batch_invariant_def)
  have "commands = map snd (ran @ [(e, c)]) @ lo_rest l" using r(1) by simp
  moreover have "core (fst (do_command e c (lo_pmc l))) = core (run_commands (ran @ [(e, c)]) p)"
    using core_command_cong [OF r(2)] by (simp add: run_commands_def)
  ultimately have "\<exists>ran. commands = map snd ran @ lo_rest l \<and> core (fst (do_command e c (lo_pmc l))) = core (run_commands ran p)"
    by blast
  then show ?thesis using assms by (simp add: batch_invariant_def run_command_def Some)
qed (use assms in \<open>simp add: run_command_def\<close>)

lemma batch_show: "batch_invariant commands p l \<Longrightarrow> batch_invariant commands p (show_reply ntop6 fl e received l)"
  by (simp add: show_reply_def batch_invariant_def split: option.split)

lemma batch_serve: "batch_invariant commands p l \<Longrightarrow> batch_invariant commands p (serve_socket ntop6 fl e w r l)"
  by (simp add: serve_socket_def Let_def batch_run batch_show split: option.split)

lemma batch_pass:
  assumes "batch_invariant commands p l" "poll_reports (fetch_command l) r" "pmc_loop_pass ntop6 fl e r l = (l', x)"
  shows "batch_invariant commands p l' \<and> (x = Some 0 \<longrightarrow> lo_rest l' = [] \<and> lo_command l' = None)"
proof -
  have f: "batch_invariant commands p (fetch_command l)" using batch_fetch [OF assms(1)] .
  then have b: "lo_batch (fetch_command l)" "\<not> lo_stdin (fetch_command l)"
    "lo_tmo (fetch_command l) \<noteq> - 1 \<longrightarrow> lo_rest (fetch_command l) = [] \<and> lo_command (fetch_command l) = None"
    by (simp_all add: batch_invariant_def)
  show ?thesis
  proof (cases r)
    case (LoopEvents hangup line w readable)
    with assms(2) b(1,2) have "\<not> hangup" "line = None" by auto
    then have "l' = serve_socket ntop6 fl e w readable (fetch_command l)" "x = None"
      using assms(3) LoopEvents by (simp_all add: pmc_loop_pass_def Let_def)
    with batch_serve [OF f] show ?thesis by simp
  qed (use assms(2,3) f b in \<open>auto simp: pmc_loop_pass_def Let_def split: if_splits\<close>)
qed

lemma batch_looping:
  assumes "looping ntop6 fl (start_loop commands p) l" "commands \<noteq> []"
  shows "batch_invariant commands p l"
  using assms(1)
proof (induction rule: looping.induct)
  case start
  have "commands = map snd [] @ commands" by simp
  then show ?case using assms(2) by (simp add: batch_invariant_def start_loop_def run_commands_def)
next
  case (pass l r e l')
  then show ?case using batch_pass by blast
qed

text \<open>
  C24: In batch mode pmc executes the commands of the command line, each once and in their order, whatever
  the socket reports when and whatever replies arrive: what the client has sent, its target and its
  sequence number are at any time those that some first commands give, and when the loop ends without an error
  all commands have been executed.
\<close>

theorem batch_commands_in_order:
  assumes "commands \<noteq> []" "looping ntop6 fl (start_loop commands p) l"
    and "poll_reports (fetch_command l) r" "pmc_loop_pass ntop6 fl e r l = (l', x)"
  shows "\<exists>ran. prefix (map snd ran) commands \<and> (x = Some 0 \<longrightarrow> map snd ran = commands) \<and>
    core (lo_pmc l') = core (run_commands ran p)"
proof -
  have i: "batch_invariant commands p l'" "x = Some 0 \<longrightarrow> lo_rest l' = [] \<and> lo_command l' = None"
    using batch_pass [OF batch_looping [OF assms(2,1)] assms(3,4)] by simp_all
  then obtain ran where r: "commands = map snd ran @ (case lo_command l' of None \<Rightarrow> [] | Some c \<Rightarrow> [c]) @ lo_rest l'"
    "core (lo_pmc l') = core (run_commands ran p)"
    unfolding batch_invariant_def by blast
  from r(1) have "prefix (map snd ran) commands" unfolding prefix_def by blast
  moreover have "x = Some 0 \<longrightarrow> map snd ran = commands" using r(1) i(2) by simp
  ultimately show ?thesis using r(2) by blast
qed

text \<open>Two commands of which the second is sent in the pass after the first.\<close>

definition batch_pmc :: pmc where
  "batch_pmc = \<lparr>pmc_sequence_id = 0, pmc_boundary_hops = 1, pmc_domain_number = 0, pmc_transport_specific = 0,
     pmc_port_identity = zero_pid, pmc_targeted = all_ports, pmc_zero_length_gets = True, pmc_sent = [], pmc_out = []\<rparr>"

definition batch_env :: pmc_env where
  "batch_env = \<lparr>ne_bo = LittleEndian, ne_now = \<lparr>tv_sec = 0, tv_nsec = 0\<rparr>, ne_message = True, ne_tlv = True, ne_stack = 0\<rparr>"

lemma batch_commands_in_order_witness:
  "\<exists>l ran. looping (\<lambda>_. []) (\<lambda>x. x) (start_loop [''TARGET *'', ''NONSENSE''] batch_pmc) l \<and>
     map snd ran = [''TARGET *'', ''NONSENSE''] \<and> core (lo_pmc l) = core (run_commands ran batch_pmc)"
proof -
  let ?l0 = "start_loop [''TARGET *'', ''NONSENSE''] batch_pmc" and ?r = "LoopEvents False None True None"
  obtain l1 where l1: "pmc_loop_pass (\<lambda>_. []) (\<lambda>x. x) batch_env ?r ?l0 = (l1, None)" "lo_command l1 = None" "lo_rest l1 = [''NONSENSE'']"
    "lo_batch l1" "lo_tmo l1 = - 1"
    by (simp add: pmc_loop_pass_def start_loop_def fetch_command_def serve_socket_def run_command_def)
  obtain l2 where l2: "pmc_loop_pass (\<lambda>_. []) (\<lambda>x. x) batch_env ?r l1 = (l2, None)" "lo_command l2 = None" "lo_rest l2 = []" "lo_batch l2"
    by (simp add: pmc_loop_pass_def fetch_command_def l1 serve_socket_def run_command_def)
  have s1: "looping (\<lambda>_. []) (\<lambda>x. x) ?l0 l1"
    by (rule looping.pass [OF looping.start _ l1(1)]) (simp add: start_loop_def fetch_command_def)
  have s2: "looping (\<lambda>_. []) (\<lambda>x. x) ?l0 l2"
    by (rule looping.pass [OF s1 _ l2(1)]) (simp add: fetch_command_def l1)
  have f: "fetch_command l2 = l2\<lparr>lo_tmo := 100\<rparr>" by (simp add: fetch_command_def l2)
  have p: "pmc_loop_pass (\<lambda>_. []) (\<lambda>x. x) batch_env LoopTimeout l2 = (l2\<lparr>lo_tmo := 100\<rparr>, Some 0)" by (simp add: pmc_loop_pass_def f)
  have "poll_reports (fetch_command l2) LoopTimeout" by (simp add: f)
  from batch_commands_in_order [OF list.distinct(2) s2 this p] obtain ran where
    r: "Some (0 :: int) = Some 0 \<longrightarrow> map snd ran = [''TARGET *'', ''NONSENSE'']"
    "core (lo_pmc (l2\<lparr>lo_tmo := 100\<rparr>)) = core (run_commands ran batch_pmc)"
    by (elim exE conjE) (rule that)
  from r(2) have c: "core (lo_pmc l2) = core (run_commands ran batch_pmc)" by simp
  have m: "map snd ran = [''TARGET *'', ''NONSENSE'']" using r(1) by (simp only: simp_thms)
  show ?thesis by (intro exI conjI) (rule s2 m c)+
qed

end
