(* ===== verification/Ptp4l.thy ===== *)
theory Ptp4l
  imports ClockCreate Args
begin

text \<open>
  The program ptp4l (\<open>main\<close> in src/ptp4l.c): the options of the command line, the configuration file, the
  choice of the type of the clock and its creation.  The loop over \<open>clock_poll\<close> that follows is the
  relation \<open>reachable\<close> of ClockPorts.
\<close>

record ptp4l_args =
  pa_cfg :: Config.config
  pa_config :: "string option"
  pa_req_phc :: "string option"

text \<open>The global variables of the program that other parts read.\<close>

record ptp4l_globals =
  assume_two_step :: int
  sk_check_fupsync :: int
  sk_tx_timeout :: int

definition set_option :: "bool \<Rightarrow> string \<Rightarrow> int \<Rightarrow> ptp4l_args \<Rightarrow> int + ptp4l_args" where
  "set_option mem opt v st = or_out (map_option (\<lambda>cfg. st\<lparr>pa_cfg := cfg\<rparr>) (set_ok (config_set_int mem (pa_cfg st) opt v)))"

text \<open>The result of these calls is ignored.\<close>

definition try_option :: "bool \<Rightarrow> string \<Rightarrow> int \<Rightarrow> ptp4l_args \<Rightarrow> ptp4l_args" where
  "try_option mem opt v st = st\<lparr>pa_cfg := fst (config_set_int mem (pa_cfg st) opt v)\<rparr>"

text \<open>One pass of the loop over the options: Inl for the end of the program with this status.\<close>

definition short_option :: "bool \<Rightarrow> char \<Rightarrow> string \<Rightarrow> ptp4l_args \<Rightarrow> int + ptp4l_args" where
  "short_option mem c optarg st =
    (if c = CHR ''A'' then set_option mem ''delay_mechanism'' 0 st
     else if c = CHR ''E'' then set_option mem ''delay_mechanism'' 1 st
     else if c = CHR ''P'' then set_option mem ''delay_mechanism'' 2 st
     else if c = CHR ''2'' then set_option mem ''network_transport'' 3 st
     else if c = CHR ''4'' then set_option mem ''network_transport'' 1 st
     else if c = CHR ''6'' then set_option mem ''network_transport'' 2 st
     else if c = CHR ''H'' then set_option mem ''time_stamping'' 1 st
     else if c = CHR ''S'' then set_option mem ''time_stamping'' 0 st
     else if c = CHR ''L'' then set_option mem ''time_stamping'' 2 st
     else if c = CHR ''f'' then Inr (st\<lparr>pa_config := Some optarg\<rparr>)
     else if c = CHR ''i'' then
       (case config_create_interface mem optarg (pa_cfg st) of
          (_, None) \<Rightarrow> Inl (- 1)
        | (cfg, Some _) \<Rightarrow> Inr (st\<lparr>pa_cfg := cfg\<rparr>))
     else if c = CHR ''p'' then Inr (st\<lparr>pa_req_phc := Some optarg\<rparr>)
     else if c = CHR ''s'' then set_option mem ''slaveOnly'' 1 st
     else if c = CHR ''l'' then
       (case get_arg_val_i optarg 0 7 of
          None \<Rightarrow> Inl (- 1)
        | Some print_level \<Rightarrow> Inr (try_option mem ''logging_level'' print_level st))
     else if c = CHR ''m'' then Inr (try_option mem ''verbose'' 1 st)
     else if c = CHR ''q'' then Inr (try_option mem ''use_syslog'' 0 st)
     else if c = CHR ''v'' then Inl 0
     else if c = CHR ''h'' then Inl 0
     else Inl (- 1))"

definition process_argument ::
  "bool \<Rightarrow> (string \<Rightarrow> (real \<times> string \<times> bool) option) \<Rightarrow> argument \<Rightarrow> ptp4l_args \<Rightarrow> int + ptp4l_args" where
  "process_argument mem strtod arg st =
    (case arg of
       LongOpt name optarg \<Rightarrow>
         or_out (map_option (\<lambda>cfg. st\<lparr>pa_cfg := cfg\<rparr>)
           (Option.bind (config_parse_option mem strtod (pa_cfg st) name optarg) set_ok))
     | Opt c optarg \<Rightarrow> short_option mem c optarg st
     | UnknownOpt \<Rightarrow> Inl (- 1))"

fun process_arguments ::
  "bool \<Rightarrow> (string \<Rightarrow> (real \<times> string \<times> bool) option) \<Rightarrow> argument list \<Rightarrow> ptp4l_args \<Rightarrow> int + ptp4l_args" where
  "process_arguments mem strtod [] st = Inr st"
| "process_arguments mem strtod (arg # args) st =
    (case process_argument mem strtod arg st of
       Inl status \<Rightarrow> Inl status
     | Inr st \<Rightarrow> process_arguments mem strtod args st)"

text \<open>
  The type of the clock from the option clock_type and the interfaces; None for \<open>goto out\<close>.  The option
  takes no other values than the four that are listed.
\<close>

definition select_clock_type :: "Config.config \<Rightarrow> int \<Rightarrow> clock_type option" where
  "select_clock_type cfg type =
    (if type = 0x8000 then
       Some (if cfg_n_interfaces cfg > 1 then CLOCK_TYPE_BOUNDARY else CLOCK_TYPE_ORDINARY)
     else if type = 0x4000 then
       (if cfg_n_interfaces cfg < 2 then None else Some CLOCK_TYPE_BOUNDARY)
     else if type = 0x2000 then
       (if cfg_n_interfaces cfg < 2 then None
        else if config_get_int cfg None ''delay_mechanism'' \<noteq> Some 2 then None
        else Some CLOCK_TYPE_P2P)
     else if type = 0x1000 then
       (if cfg_n_interfaces cfg < 2 then None
        else if config_get_int cfg None ''delay_mechanism'' \<noteq> Some 1 then None
        else Some CLOCK_TYPE_E2E)
     else None)"

text \<open>The servo that only writes samples to the NTP daemon excludes two options.\<close>

definition adapt_to_ntpshm :: "bool \<Rightarrow> Config.config \<Rightarrow> Config.config option" where
  "adapt_to_ntpshm mem cfg =
    map_option (\<lambda>servo.
      if servo = 2 then fst (config_set_int mem (fst (config_set_int mem cfg ''kernel_leap'' 0)) ''sanity_freq_limit'' 0)
      else cfg) (config_get_int cfg None ''clock_servo'')"

text \<open>From the end of the options and the configuration file to the clock; None for the status -1.\<close>

definition start_clock :: "create_env \<Rightarrow> string option \<Rightarrow> Config.config \<Rightarrow> (ptp4l_globals \<times> system) option" where
  "start_clock e req_phc cfg =
    do {
      message_tag \<leftarrow> config_get_string cfg None ''message_tag'';
      verbose \<leftarrow> config_get_int cfg None ''verbose'';
      use_syslog \<leftarrow> config_get_int cfg None ''use_syslog'';
      logging_level \<leftarrow> config_get_int cfg None ''logging_level'';
      two_step \<leftarrow> config_get_int cfg None ''assume_two_step'';
      check_fupsync \<leftarrow> config_get_int cfg None ''check_fup_sync'';
      tx_timeout \<leftarrow> config_get_int cfg None ''tx_timestamp_timeout'';
      cfg \<leftarrow> adapt_to_ntpshm (ce_mem e) cfg;
      ensure (cfg_interfaces cfg \<noteq> []);
      type \<leftarrow> config_get_int cfg None ''clock_type'';
      type \<leftarrow> select_clock_type cfg type;
      c \<leftarrow> clock_create e type cfg req_phc;
      Some (\<lparr>assume_two_step = two_step, sk_check_fupsync = check_fupsync, sk_tx_timeout = tx_timeout\<rparr>, c)
    }"

text \<open>
  The program up to its loop: the status with which it ends, or the clock.  \<open>files\<close> are the contents of
  the files that can be opened; when the configuration cannot be read, its result is the status.
\<close>

definition ptp4l_main ::
  "create_env \<Rightarrow> (string \<Rightarrow> (real \<times> string \<times> bool) option) \<Rightarrow> (string \<Rightarrow> string option) \<Rightarrow> argument list \<Rightarrow>
   int + ptp4l_globals \<times> system" where
  "ptp4l_main e strtod files args =
    (case config_create (ce_mem e) of
       None \<Rightarrow> Inl (- 1)
     | Some cfg \<Rightarrow>
         (case process_arguments (ce_mem e) strtod args \<lparr>pa_cfg = cfg, pa_config = None, pa_req_phc = None\<rparr> of
            Inl status \<Rightarrow> Inl status
          | Inr st \<Rightarrow>
              (case (case pa_config st of
                  None \<Rightarrow> Some (pa_cfg st, 0)
                | Some name \<Rightarrow> config_read (ce_mem e) strtod (files name) (pa_cfg st)) of
                 None \<Rightarrow> Inl (- 1)
               | Some (cfg, r) \<Rightarrow> if r \<noteq> 0 then Inl r else or_out (start_clock e (pa_req_phc st) cfg))))"

end
