(* ===== verification/Liveness.thy ===== *)
theory Liveness
  imports OneSlave
begin

text \<open>
  In every state in which a port of an ordinary or boundary clock waits for time to pass, the timer
  that ends the waiting is set.  A faulty port comes back when its fault
  timer expires and it can be opened; when it cannot, nothing will wake it again.
\<close>

subsection \<open>Timers that are set\<close>

lemma timer_set_append:
  "list_all inert xs \<Longrightarrow> timer_set t ys \<Longrightarrow> timer_set t (xs @ ys)"
proof (induction xs)
  case (Cons x xs)
  then show ?case by (cases x) auto
qed simp

lemma timer_set_mono: "timer_set t ys \<Longrightarrow> timer_set t xs \<Longrightarrow> timer_set t (xs @ zs)"
  by (induction t xs rule: timer_set.induct) auto

definition running :: "timer \<Rightarrow> port \<Rightarrow> bool" where
  "running t p = timer_running t (p_fx p)"

lemma running_keeps: "running t p \<Longrightarrow> keeps p q \<Longrightarrow> running t q"
  by (auto simp: running_def timer_running_def keeps_def list_all_iff intro!: timer_set_append)

lemma running_pfx [simp]:
  "running t (pfx [SetTmo u a b] p) = (u = t \<or> running t p)"
  "running t (pfx [ClrTmo u] p) = (u \<noteq> t \<and> running t p)"
  by (simp_all add: running_def timer_running_def pfx_def)

lemma running_set_tmo [simp]:
  "running t (set_tmo_log u k n p) = (u = t \<or> running t p)"
  "running t (set_tmo_random e u a b n p) = (u = t \<or> running t p)"
  by (simp_all add: set_tmo_log_def set_tmo_random_def split: prod.split)

lemma running_tmos [simp]:
  "running t (port_set_announce_tmo e p) = (t = FD_ANNOUNCE_TIMER \<or> running t p)"
  "running t (port_set_delay_tmo e p) = (t = FD_DELAY_TIMER \<or> running t p)"
  "running t (port_set_manno_tmo p) = (t = FD_MANNO_TIMER \<or> running t p)"
  "running t (port_set_qualification_tmo c p) = (t = FD_QUALIFICATION_TIMER \<or> running t p)"
  "running t (port_set_sync_tx_tmo p) = (t = FD_SYNC_TX_TIMER \<or> running t p)"
  by (auto simp: port_set_announce_tmo_def port_set_delay_tmo_def port_set_manno_tmo_def
      port_set_qualification_tmo_def port_set_sync_tx_tmo_def)

text \<open>The timers that a port in a state relies on.\<close>

fun needed :: "port_state \<Rightarrow> timer list" where
  "needed PS_LISTENING = [FD_ANNOUNCE_TIMER]"
| "needed PS_PASSIVE = [FD_ANNOUNCE_TIMER]"
| "needed PS_UNCALIBRATED = [FD_ANNOUNCE_TIMER]"
| "needed PS_SLAVE = [FD_ANNOUNCE_TIMER]"
| "needed PS_PRE_MASTER = [FD_QUALIFICATION_TIMER]"
| "needed PS_MASTER = [FD_MANNO_TIMER, FD_SYNC_TX_TIMER]"
| "needed PS_GRAND_MASTER = [FD_MANNO_TIMER, FD_SYNC_TX_TIMER]"
| "needed _ = []"

definition timed :: "port \<Rightarrow> bool" where
  "timed p \<longleftrightarrow> list_all (\<lambda>t. running t p) (needed (p_state p))"

lemma timed_keeps: "timed p \<Longrightarrow> keeps p q \<Longrightarrow> timed q"
  by (auto simp: timed_def list_all_iff keeps_state intro: running_keeps)

text \<open>A port after one of its timers expired, and after the handler.\<close>

lemma timed_expired:
  assumes "timed p" and "keeps (port_clr_tmo t p) q" and "t \<in> set (needed (p_state p)) \<Longrightarrow> running t q"
  shows "timed q"
proof -
  have "p_state q = p_state p" using assms(2) by (simp add: keeps_def port_clr_tmo_def pfx_def)
  moreover have "running u q" if "u \<in> set (needed (p_state p))" "u \<noteq> t" for u
    using that assms(1) running_keeps [OF _ assms(2), of u] by (simp add: timed_def list_all_iff port_clr_tmo_def)
  ultimately show ?thesis using assms(3) by (auto simp: timed_def list_all_iff)
qed

subsection \<open>Transitions set the timers\<close>

lemma transition_timed:
  "running t (port_e2e_transition e c p s)" if "t \<in> set (needed s)" for t
  using that by (cases s) (auto simp: port_e2e_transition_def Let_def)

lemma transition_timed':
  "running t (port_p2p_transition e c p s)" if "t \<in> set (needed s)" for t
  using that by (cases s) (auto simp: port_p2p_transition_def Let_def)

lemma initialize_running:
  assumes "snd (port_initialize e p)"
  shows "running FD_ANNOUNCE_TIMER (fst (port_initialize e p))"
proof -
  have k: "keeps q (pfx [FdaChanged] (port_nrate_initialize q))" for q by simp
  show ?thesis using assms
    by (auto simp: port_initialize_def Let_def split: if_splits intro: running_keeps [OF _ k])
qed

lemma bc_transition_timed:
  assumes "timed p"
  shows "timed (fst (bc_transition e p c ev md))"
proof (cases "port_state_update e p ev md")
  case (Pair q changed)
  show ?thesis
  proof (cases changed)
    case True
    then show ?thesis
      using transition_timed transition_timed' bc_transition_spec [of e p ev md c] extends_state
      by (auto simp: timed_def list_all_iff bc_transition_def Pair dest: extends_state)
  next
    case False
    have "timed q"
    proof (cases "next_state p ev md = PS_INITIALIZING")
      case True
      have st: "p_state (fst (port_restart e p)) = p_state p"
        by (rule extends_state [OF port_restart_extends])
      from True Pair False st have r: "snd (port_restart e p) = p_state p" "q = fst (port_restart e p)"
        by (auto simp: port_state_update_def Let_def split_beta split: if_splits)
      have s: "p_state q = p_state p" using st r(2) by simp
      consider "p_state p = PS_FAULTY" | "p_state p = PS_LISTENING" "running FD_ANNOUNCE_TIMER q"
        using r restart_state [of e p] initialize_running
        by (auto simp: port_restart_def split_beta state_machine_def fsm_defs split: if_splits)
      then show ?thesis using s by cases (simp_all add: timed_def)
    next
      case init: False
      with Pair False have "q = p"
        by (auto simp: port_state_update_def Let_def split: if_splits)
      with assms show ?thesis by simp
    qed
    then show ?thesis using False by (simp add: bc_transition_def Pair)
  qed
qed

lemma bc_dispatch_timed':
  assumes "timed (fst (bc_transition e p c ev md))"
  shows "timed (fst (bc_dispatch e p c ev md))"
proof -
  have "timed (fst (bc_transition e p c ev md)\<lparr>p_last_fault_type := f\<rparr>)" for f
    using assms by (rule timed_keeps) simp
  then have "timed (fst (bc_transition e (fst (bc_transition e p c ev md)\<lparr>p_last_fault_type := f\<rparr>) c EV_FAULT_DETECTED False))" for f
    by (rule bc_transition_timed)
  with assms show ?thesis
    by (simp add: bc_dispatch_def split_beta split: bool.split option.split)
qed

lemma bc_dispatch_timed: "timed p \<Longrightarrow> timed (fst (bc_dispatch e p c ev md))"
  by (intro bc_dispatch_timed' bc_transition_timed)

text \<open>A state that changes is timed whatever was before.\<close>

lemma bc_transition_changed_timed:
  assumes "snd (bc_transition e p c ev md)"
  shows "timed (fst (bc_transition e p c ev md))"
  using assms transition_timed transition_timed' bc_transition_spec [of e p ev md c]
  by (auto simp: timed_def list_all_iff bc_transition_def split_beta extends_def split: bool.splits)

subsection \<open>Ports that may become masters\<close>

lemma update_owns:
  assumes "fsm_owns p"
  shows "fsm_owns (fst (port_state_update e p ev md))"
proof -
  let ?q = "fst (port_state_update e p ev md)"
  have s: "p_slave_only_fsm ?q = p_slave_only_fsm p" using port_state_update_moves by (simp add: moves_def)
  have "\<not> (p_slave_only_fsm p \<and> next_state p ev md \<in> {PS_PRE_MASTER, PS_MASTER, PS_GRAND_MASTER, PS_PASSIVE})"
    using assms by (cases "p_state p"; cases ev)
      (auto simp: fsm_owns_def next_state_def state_machine_def fsm_defs Let_def split: if_splits)
  with s show ?thesis
    using port_state_update_state [of e p ev md] by (auto simp: fsm_owns_def split: if_splits)
qed

lemma extends_owns: "fsm_owns p \<Longrightarrow> extends p q \<Longrightarrow> fsm_owns q"
  by (simp add: fsm_owns_def extends_def)

lemma bc_dispatch_owns:
  assumes "fsm_owns p"
  shows "fsm_owns (fst (bc_dispatch e p c ev md))"
proof -
  have t: "fsm_owns (fst (bc_transition e q c ev md))" if "fsm_owns q" for q ev md
    using extends_owns [OF update_owns [OF that] bc_transition_spec] .
  have "fsm_owns (q\<lparr>p_last_fault_type := f\<rparr>) = fsm_owns q" for q f by (simp add: fsm_owns_def)
  with t assms show ?thesis
    by (simp add: bc_dispatch_def split_beta split: bool.split option.split)
qed

text \<open>The qualification of a master ends its waiting.\<close>

lemma qualified_timed:
  assumes "fsm_owns p" and "p_state p = PS_PRE_MASTER"
  shows "timed (fst (bc_dispatch e p c EV_QUALIFICATION_TIMEOUT_EXPIRES md))"
proof -
  have "next_state p EV_QUALIFICATION_TIMEOUT_EXPIRES md = PS_MASTER"
    using assms by (simp add: next_state_def state_machine_def fsm_defs fsm_owns_def)
  then have "snd (bc_transition e p c EV_QUALIFICATION_TIMEOUT_EXPIRES md)"
    using assms(2) by (simp add: bc_transition_def port_state_update_def)
  then show ?thesis by (intro bc_dispatch_timed' bc_transition_changed_timed)
qed

subsection \<open>Steps of the clock\<close>

definition sound :: "port \<Rightarrow> bool" where
  "sound p \<longleftrightarrow> fsm_owns p \<and> timed p"

definition stays_sound :: "port \<Rightarrow> port \<Rightarrow> bool" where
  "stays_sound p q \<longleftrightarrow> p_portIdentity q = p_portIdentity p \<and> (sound p \<longrightarrow> sound q)"

lemma keeps_sound: "keeps p q \<Longrightarrow> stays_sound p q"
  using timed_keeps by (auto simp: stays_sound_def sound_def keeps_def fsm_owns_def)

interpretation waiting: clock_relation stays_sound "{CLOCK_TYPE_ORDINARY, CLOCK_TYPE_BOUNDARY}" UNIV "TYPE('y system_ext)"
proof unfold_locales
  fix e p and c :: "'y system_scheme" and ev md
  assume "c_type c \<in> {CLOCK_TYPE_ORDINARY, CLOCK_TYPE_BOUNDARY}"
  then have "port_dispatch e p c ev md = bc_dispatch e p c ev md" by (auto simp: port_dispatch_def)
  then show "stays_sound p (fst (port_dispatch e p c ev md))"
    using port_dispatch_moves [of p e c ev md]
    by (simp add: stays_sound_def sound_def moves_def bc_dispatch_owns bc_dispatch_timed)
next
  fix p q assume "keeps p q"
  then show "stays_sound p q" by (rule keeps_sound)
qed (auto simp: stays_sound_def)

lemma timer_event:
  assumes "sound p"
  shows "fst (snd (bc_event manage e (port_clr_tmo t p) c (FdTimer t))) = c \<and>
    keeps (port_clr_tmo t p) (fst (bc_event manage e (port_clr_tmo t p) c (FdTimer t))) \<and>
    (timed (fst (bc_event manage e (port_clr_tmo t p) c (FdTimer t))) \<or>
     p_state (fst (bc_event manage e (port_clr_tmo t p) c (FdTimer t))) = PS_PRE_MASTER \<and>
     snd (snd (bc_event manage e (port_clr_tmo t p) c (FdTimer t))) = EV_QUALIFICATION_TIMEOUT_EXPIRES)"
proof -
  let ?p = "port_clr_tmo t p"
  let ?r = "bc_event manage e ?p c (FdTimer t)"
  have k: "keeps ?p (fst ?r)"
    by (simp add: bc_event_def Let_def split_beta split: timer.split)
  have c: "fst (snd ?r) = c"
    by (simp add: bc_event_def Let_def split_beta announce_timeout_def split: timer.split)
  have s: "p_state (fst ?r) = p_state p" using k by (simp add: keeps_def port_clr_tmo_def pfx_def)
  have a: "running FD_ANNOUNCE_TIMER (fst (announce_timeout e q c))" for q
  proof -
    have r: "running FD_ANNOUNCE_TIMER (delay_req_prune now (port_set_announce_tmo e x))" for now x
      by (rule running_keeps [of _ "port_set_announce_tmo e x"]) simp_all
    have "running FD_ANNOUNCE_TIMER (fst (port_renew_transport e (delay_req_prune now (port_set_announce_tmo e x))))"
      for now x
      by (rule running_keeps [OF r [of now x]]) simp
    with r show ?thesis by (simp add: announce_timeout_def Let_def split_beta)
  qed
  have m: "running FD_MANNO_TIMER (fst (port_tx_announce e (port_set_manno_tmo q) c))"
    "running FD_SYNC_TX_TIMER (fst (port_tx_sync e (port_set_sync_tx_tmo q) c None))" for q
    by (rule running_keeps [of _ "port_set_manno_tmo q"], simp, simp)
      (rule running_keeps [of _ "port_set_sync_tx_tmo q"], simp, simp)
  have "running t (fst ?r)" if "t \<in> set (needed (p_state p))" "t \<noteq> FD_QUALIFICATION_TIMER"
    using that a m by (cases "p_state p") (auto simp: bc_event_def Let_def split_beta)
  moreover have "p_state p = PS_PRE_MASTER" if "t \<in> set (needed (p_state p))" "t = FD_QUALIFICATION_TIMER"
    using that by (cases "p_state p") auto
  moreover have "snd (snd ?r) = EV_QUALIFICATION_TIMEOUT_EXPIRES" if "t = FD_QUALIFICATION_TIMER"
    using that by (simp add: bc_event_def Let_def)
  ultimately show ?thesis
    using timed_expired [OF _ k] assms k c s by (auto simp: sound_def)
qed

definition all_sound :: "'z system_scheme \<Rightarrow> bool" where
  "all_sound c \<longleftrightarrow> waiting.good c \<and> list_all sound (c_ports c)"

lemma all_sound_rel:
  assumes "waiting.rel c d" and "all_sound c"
  shows "all_sound d"
proof -
  have g: "waiting.good d" and l: "list_all2 stays_sound (c_ports c) (c_ports d)"
    using assms by (auto simp: waiting.rel_def all_sound_def ports_rel_def)
  from l have "list_all sound (c_ports c) \<Longrightarrow> list_all sound (c_ports d)"
    by (induction rule: list_all2_induct) (auto simp: stays_sound_def)
  with assms(2) g show ?thesis by (simp add: all_sound_def)
qed

text \<open>A timer is set once: when it makes its descriptor readable it has stopped.\<close>

definition expire :: "u16 \<Rightarrow> fd_event \<Rightarrow> 'z system_scheme \<Rightarrow> 'z system_scheme" where
  "expire n ev c = (case ev of FdTimer t \<Rightarrow> put_port n (port_clr_tmo t (the_port n c)) c | _ \<Rightarrow> c)"

lemma expire_good:
  assumes "waiting.good c"
  shows "waiting.good (expire n ev c)"
proof -
  have "sys_wf c" using assms by (simp add: waiting.good_def)
  moreover have "portnum (port_clr_tmo t (the_port n c)) = portnum (the_port n c)" for t
    by (simp add: port_clr_tmo_def pfx_def)
  ultimately show ?thesis
    using sys_wf_put(1) [OF _ same_clock_refl, of c] assms
    by (simp add: expire_def waiting.good_def split: fd_event.split)
qed

lemma poll_event_good:
  assumes "waiting.good c"
  shows "waiting.good (poll_event e n ev c)"
proof -
  have "waiting.rel c (poll_event e n ev c)" by simp
  with assms show ?thesis by (simp add: waiting.rel_def)
qed

text \<open>An event of a port whose timer expired leaves all ports sound.\<close>

lemma poll_timer_sound:
  assumes "all_sound c" and "\<not> is_uds n c"
  shows "list_all sound (c_ports (poll_event e n (FdTimer t) (expire n (FdTimer t) c)))"
proof -
  let ?p = "the_port n c"
  let ?p' = "port_clr_tmo t ?p"
  let ?c1 = "put_port n ?p' c"
  let ?r = "bc_event manage_from e ?p' ?c1 (FdTimer t)"
  let ?q = "fst ?r" and ?ev = "snd (snd ?r)"
  have wf: "sys_wf c" "c_type c \<in> {CLOCK_TYPE_ORDINARY, CLOCK_TYPE_BOUNDARY}"
    using assms(1) by (simp_all add: all_sound_def waiting.good_def)
  have p: "sound ?p" "portnum ?p = n"
    using the_port_mem [OF assms(2)] assms(1) by (auto simp: all_sound_def list_all_iff)
  then have n: "portnum ?p' = n" by (simp add: port_clr_tmo_def pfx_def)
  note q = timer_event [OF p(1), of manage_from e t ?c1]
  have nq: "portnum ?q = n" using q n by (simp add: keeps_def)
  have pe: "port_event e n (FdTimer t) ?c1 = (put_port n ?q ?c1, ?ev)"
    using q wf(2) by (auto simp: port_event_def on_port_def split_beta the_put_port [OF n])
  let ?c3 = "put_port n ?q ?c1"
  let ?c4 = "if ?ev \<in> {EV_STATE_DECISION_EVENT, EV_ANNOUNCE_RECEIPT_TIMEOUT_EXPIRES} then ?c3\<lparr>c_sde := True\<rparr> else ?c3"
  have t4: "c_type ?c4 \<in> {CLOCK_TYPE_ORDINARY, CLOCK_TYPE_BOUNDARY}" using wf(2) by simp
  have s4: "same_clock ?c3 ?c4" by simp
  have p4: "the_port n ?c4 = ?q" using same_clock_ports(4) [OF s4, of n] the_put_port [OF nq, of ?c1] by simp
  let ?q' = "fst (port_dispatch e ?q ?c4 ?ev False)"
  obtain d where d: "same_clock ?c4 d" "dispatch_on e n ?ev False ?c4 = put_port n ?q' d"
    using dispatch_on_put [of ?c4 e n ?ev False] p4 by auto
  have bc: "port_dispatch e ?q ?c4 ?ev False = bc_dispatch e ?q ?c4 ?ev False"
    using t4 by (auto simp: port_dispatch_def)
  have o: "fsm_owns ?q" using p(1) q by (auto simp: sound_def fsm_owns_def keeps_def port_clr_tmo_def pfx_def)
  have "timed ?q'"
    using q qualified_timed [OF o] unfolding bc by (auto intro: bc_dispatch_timed)
  moreover have "fsm_owns ?q'" unfolding bc using o by (rule bc_dispatch_owns)
  ultimately have s: "sound ?q'" by (simp only: sound_def)
  have nq': "portnum ?q' = n" using port_dispatch_moves [of ?q e ?c4 ?ev False] nq by (simp add: moves_def)
  have ports: "c_ports (put_port n x d) = map (\<lambda>r. if portnum r = n then x else r) (c_ports c)" for x
    using nq n by (simp add: put_port_ports same_clock_ports(1) [OF d(1)] same_clock_ports(1) [OF s4] comp_def if_distrib cong: if_cong)
  have all: "sound x \<Longrightarrow> list_all sound (c_ports (put_port n x d))" for x
    using assms(1) by (auto simp: ports list_all_iff all_sound_def)
  have f: "sound (clock_fault_timeout True ?q')"
    using s keeps_sound [of ?q' "clock_fault_timeout True ?q'"] by (simp add: stays_sound_def)
  have k: "put_port n x (put_port n ?q' d) = put_port n x d" if "portnum x = n" for x
    using nq' that by (rule put_put_port)
  have nf: "portnum (clock_fault_timeout True ?q') = n"
    using keeps_fault_timeout [of ?q' ?q' True] nq' by (simp add: keeps_def)
  have "poll_event e n (FdTimer t) ?c1 = (if p_state (the_port n (put_port n ?q' d)) = PS_FAULTY
      then put_port n (clock_fault_timeout True (the_port n (put_port n ?q' d))) (put_port n ?q' d) else put_port n ?q' d)"
    by (simp only: poll_event_def pe prod.case Let_def d(2))
  then have pq: "poll_event e n (FdTimer t) ?c1 =
      (if p_state ?q' = PS_FAULTY then put_port n (clock_fault_timeout True ?q') d else put_port n ?q' d)"
    by (simp only: the_put_port [OF nq'] k [OF nf])
  then show ?thesis
    using all [OF s] all [OF f] unfolding expire_def fd_event.case pq
    by (cases "p_state ?q' = PS_FAULTY") (simp_all only: if_True if_False simp_thms)
qed

lemma poll_event_sound:
  assumes "all_sound c"
  shows "all_sound (poll_event e n ev (expire n ev c))"
proof -
  have g: "waiting.good (poll_event e n ev (expire n ev c))"
    using assms by (intro poll_event_good expire_good) (simp add: all_sound_def)
  show ?thesis
  proof (cases "is_uds n c \<or> (\<forall>t. ev \<noteq> FdTimer t)")
    case True
    have "c_ports (expire n ev c) = c_ports c"
      using True by (auto simp: expire_def put_port_def split: fd_event.split)
    then have "all_sound (expire n ev c)"
      using assms expire_good [of c n ev] by (simp add: all_sound_def)
    then show ?thesis by (rule all_sound_rel [OF waiting.rel_poll_event, rotated]) simp
  next
    case False
    with poll_timer_sound [OF assms, of n e] g show ?thesis by (auto simp: all_sound_def)
  qed
qed

lemma state_decision_sound:
  assumes "all_sound c"
  shows "all_sound (handle_state_decision_event es c)"
proof -
  let ?e = "elect_best es (map portnum (c_ports c)) None c"
  let ?s = "select_best (snd ?e) (fst ?e)"
  have "waiting.rel c (fst ?e)" by simp
  then have e: "all_sound (fst ?e)" using assms by (rule all_sound_rel)
  have "c_type (snd ?s) = c_type (fst ?e)"
    by (simp add: select_best_def Let_def clock_new_best_def clock_freq_est_reset_def)
  then have "all_sound (snd ?s)" using e by (simp add: all_sound_def waiting.good_def sys_wf_def)
  moreover have "waiting.rel (snd ?s) (fold (decide_port es b) ks (snd ?s))" for b ks
    by (intro waiting.rel_fold waiting.rel_decide_port) simp_all
  ultimately have "all_sound (fold (decide_port es b) ks (snd ?s))" for b ks by (rule all_sound_rel [rotated])
  then show ?thesis by (simp add: handle_state_decision_event_def split_beta)
qed

text \<open>
  The steps of the poll loop one by one and in any order; \<open>expire\<close> is the kernel's part of a timer
  event.
\<close>

inductive runs :: "'z system_scheme \<Rightarrow> 'z system_scheme \<Rightarrow> bool" for c0 where
  start: "runs c0 (clock_start es c0)"
| event: "runs c0 c \<Longrightarrow> runs c0 (poll_event e n ev (expire n ev c))"
| fault: "runs c0 c \<Longrightarrow> runs c0 (poll_fault e n c)"
| uds: "runs c0 c \<Longrightarrow> runs c0 (poll_uds x c)"
| decision: "runs c0 c \<Longrightarrow> runs c0 ((handle_state_decision_event es c)\<lparr>c_sde := False\<rparr>)"
| prune: "runs c0 c \<Longrightarrow> runs c0 (c\<lparr>c_subscribers := clock_prune_subscriptions now (c_subscribers c)\<rparr>)"

lemma clock_start_waiting: "waiting.rel c (clock_start es c)"
proof -
  have "waiting.rel c (fold (\<lambda>n. dispatch_on (es n) n EV_INITIALIZE False) ks c)" for ks
    by (intro waiting.rel_fold waiting.rel_dispatch) simp_all
  then show ?thesis by (auto simp: clock_start_def intro: waiting.rel_dispatch)
qed

lemma all_sound_fields [simp]:
  "all_sound (c\<lparr>c_sde := b\<rparr>) = all_sound c" "all_sound (c\<lparr>c_subscribers := x\<rparr>) = all_sound c"
  by (simp_all add: all_sound_def waiting.good_def)

lemma runs_sound:
  assumes "runs c0 c" and "fresh_ports c0" and "bc_clock c0"
  shows "all_sound c"
  using assms
proof (induction rule: runs.induct)
  case (start es)
  then have "all_sound c0"
    by (auto simp: all_sound_def waiting.good_def fresh_ports_def list_all_iff sound_def fsm_owns_def timed_def bc_clock_def)
  then show ?case by (rule all_sound_rel [OF clock_start_waiting])
next
  case (fault c e n)
  have "waiting.rel c (poll_fault e n c)"
    by (simp add: poll_fault_def Let_def waiting.rel_put_keeps waiting.rel_dispatch)
  with fault show ?case by (blast intro: all_sound_rel)
next
  case (uds c x)
  have "waiting.rel c (poll_uds x c)" by simp
  with uds show ?case by (blast intro: all_sound_rel)
qed (simp_all add: poll_event_sound state_decision_sound)

text \<open>
  A time of zero disarms a timer.  The timeouts are computed from the intervals of the port; they are
  not zero unless an interval is shorter than two nanoseconds or overflows.
\<close>

fun timer_armed :: "timer \<Rightarrow> port_effect list \<Rightarrow> bool" where
  "timer_armed t [] = False"
| "timer_armed t (SetTmo t' s n # fx) = (if t' = t then s \<noteq> 0 \<or> n \<noteq> 0 else timer_armed t fx)"
| "timer_armed t (ClrTmo t' # fx) = (t' \<noteq> t \<and> timer_armed t fx)"
| "timer_armed t (TimersClose # fx) = False"
| "timer_armed t (x # fx) = timer_armed t fx"

text \<open>Whether the last thing done to the timer was to arm it; its expiry counts as clearing it.\<close>

definition armed :: "timer \<Rightarrow> port \<Rightarrow> bool" where
  "armed t p = timer_armed t (rev (p_fx p))"

fun positive_timeout :: "port_effect \<Rightarrow> bool" where
  "positive_timeout (SetTmo t s n) = (s \<noteq> 0 \<or> n \<noteq> 0)"
| "positive_timeout _ = True"

definition positive_timeouts :: "port \<Rightarrow> bool" where
  "positive_timeouts p = list_all positive_timeout (p_fx p)"

lemma timer_set_armed: "timer_set t fx \<Longrightarrow> list_all positive_timeout fx \<Longrightarrow> timer_armed t fx"
  by (induction t fx rule: timer_set.induct) auto

lemma running_armed: "running t p \<Longrightarrow> positive_timeouts p \<Longrightarrow> armed t p"
  by (simp add: running_def timer_running_def armed_def positive_timeouts_def timer_set_armed)

lemma tmo_log_positive:
  assumes "0 < scale" "-29 \<le> k" "k < 0 \<or> scale * 2 ^ nat k < 2 ^ 32 \<and> k < 32"
  shows "fst (tmo_log scale k) \<noteq> 0 \<or> snd (tmo_log scale k) \<noteq> 0"
proof (cases "k < 0")
  case True
  have "nat (- k) - 1 \<le> 28" using assms(2) by simp
  then have "(2::nat) ^ (nat (- k) - 1) \<le> 2 ^ 28" by (intro power_increasing) simp_all
  moreover have "(2::nat) ^ 28 \<le> scale * 500000000" using assms(1) by simp
  ultimately have "0 < scale * 500000000 div 2 ^ (nat (- k) - 1)"
    by (simp add: div_greater_zero_iff)
  then have "0 < x div 1000000000 \<or> 0 < x mod 1000000000" if "x = scale * 500000000 div 2 ^ (nat (- k) - 1)" for x :: nat
    using that by (metis div_mult_mod_eq gr0I mult_is_0 add_is_0)
  with True show ?thesis by (simp add: tmo_log_def Let_def)
next
  case False
  with assms(3) have "scale * 2 ^ nat k < 2 ^ 32" "nat k mod 32 = nat k" by auto
  with False assms(1) show ?thesis by (simp add: tmo_log_def)
qed

lemma port_timeouts_positive:
  assumes "positive_timeouts p"
  shows "-29 \<le> sint (p_logAnnounceInterval p) \<Longrightarrow> sint (p_logAnnounceInterval p) < 15 \<Longrightarrow>
      positive_timeouts (port_set_manno_tmo p)"
    and "-29 \<le> sint (p_logSyncInterval p) \<Longrightarrow> sint (p_logSyncInterval p) < 15 \<Longrightarrow>
      positive_timeouts (port_set_sync_tx_tmo p)"
    and "-29 \<le> sint (p_logAnnounceInterval p) \<Longrightarrow> sint (p_logAnnounceInterval p) < 15 \<Longrightarrow>
      positive_timeouts (port_set_qualification_tmo c p)"
proof -
  have set: "positive_timeouts (set_tmo_log t scale k p)"
    if "0 < scale" "scale \<le> 2 ^ 16" "-29 \<le> k" "k < 15" for t scale k
  proof -
    have "scale * 2 ^ nat k < 2 ^ 32" if "0 \<le> k"
    proof -
      have "(2::nat) ^ nat k \<le> 2 ^ 14" using \<open>k < 15\<close> by (intro power_increasing) simp_all
      then have "scale * 2 ^ nat k \<le> 2 ^ 16 * 2 ^ 14" using \<open>scale \<le> 2 ^ 16\<close> by (intro mult_le_mono)
      then show ?thesis by simp
    qed
    then have "fst (tmo_log scale k) \<noteq> 0 \<or> snd (tmo_log scale k) \<noteq> 0"
      using that tmo_log_positive [of scale k] by (cases "k < 0") simp_all
    then show ?thesis using assms by (auto simp: positive_timeouts_def set_tmo_log_def pfx_def split: prod.split)
  qed
  have lt: "unat (clock_steps_removed c) < 2 ^ 16" for c :: "'a clock_scheme"
    by (rule less_le_trans [OF unsigned_less]) simp
  have q: "1 + unat (clock_steps_removed c) \<le> 2 ^ 16" for c :: "'a clock_scheme" using lt [of c] by simp
  show "-29 \<le> sint (p_logAnnounceInterval p) \<Longrightarrow> sint (p_logAnnounceInterval p) < 15 \<Longrightarrow>
      positive_timeouts (port_set_manno_tmo p)"
    "-29 \<le> sint (p_logSyncInterval p) \<Longrightarrow> sint (p_logSyncInterval p) < 15 \<Longrightarrow>
      positive_timeouts (port_set_sync_tx_tmo p)"
    "-29 \<le> sint (p_logAnnounceInterval p) \<Longrightarrow> sint (p_logAnnounceInterval p) < 15 \<Longrightarrow>
      positive_timeouts (port_set_qualification_tmo c p)"
    unfolding port_set_manno_tmo_def port_set_sync_tx_tmo_def port_set_qualification_tmo_def
    using q [of c] by (auto intro!: set)
qed


lemma sample_timeout: "tmo_random 0 0 1 0 = (0, 30517)"
  by (simp add: tmo_random_def shift_ns_def)

lemma started_port_positive:
  assumes "c_type c = CLOCK_TYPE_ORDINARY"
  shows "positive_timeouts (fst (port_dispatch sample_env (sample_port PS_INITIALIZING) c EV_INITIALIZE False))"
  using assms
  by (simp add: port_dispatch_def bc_dispatch_def bc_transition_def port_state_update_def next_state_def state_machine_def fsm_defs
    port_restart_def port_is_enabled_def port_initialize_def Let_def port_config_def sample_env_def sample_port_def pfx_def port_nrate_initialize_def
    port_set_announce_tmo_def set_tmo_random_def split_beta port_e2e_transition_def positive_timeouts_def sample_timeout)


subsection \<open>Recovery from faults\<close>

definition port_opens :: "env \<Rightarrow> bool" where
  "port_opens e \<longleftrightarrow> env_timers e \<and> env_open e \<and> env_settime e"

fun fault_timer_armed :: "port_effect list \<Rightarrow> bool" where
  "fault_timer_armed [] = False"
| "fault_timer_armed (SetFaultTmo s n # fx) = (s \<noteq> 0 \<or> n \<noteq> 0)"
| "fault_timer_armed (x # fx) = fault_timer_armed fx"

text \<open>Whether the last thing done to the fault timer was to arm it.\<close>

definition fault_pending :: "port \<Rightarrow> bool" where
  "fault_pending p = fault_timer_armed (rev (p_fx p))"

lemma port_initialize_opens: "snd (port_initialize e p) = port_opens e"
  by (simp add: port_initialize_def port_opens_def Let_def)

lemma faulty_restart:
  assumes "p_state p = PS_FAULTY"
  shows "port_state_update e p EV_FAULT_CLEARED md =
    (let q = fst (port_initialize e p)
     in if port_opens e then (pfx [NotifyPortState PS_LISTENING] (q\<lparr>p_state := PS_LISTENING\<rparr>), True) else (q, False))"
proof -
  have "p_state (fst (port_initialize e p)) = PS_FAULTY" "p_slave_only_fsm (fst (port_initialize e p)) = p_slave_only_fsm p"
    using port_initialize_extends [of p p e] assms by (simp_all add: extends_def)
  then show ?thesis
    using assms by (simp add: port_state_update_def next_state_def state_machine_def fsm_defs port_restart_def
        port_is_enabled_def split_beta port_initialize_opens Let_def)
qed

lemma poll_fault_port:
  fixes c :: "'y system_scheme"
  assumes "\<not> is_uds n c" and "port_link_status_get (the_port n c)"
  shows "\<exists>k :: 'y system_scheme. c_type k = c_type c \<and> the_port n (poll_fault e n c) =
    fst (port_dispatch e (port_set_fault_timer_lin 0 (the_port n c)) k EV_FAULT_CLEARED False)"
proof -
  let ?p = "port_set_fault_timer_lin 0 (the_port n c)"
  let ?c = "put_port n ?p c"
  have p: "portnum ?p = n" using the_port_mem [OF assms(1)] by (simp add: port_set_fault_timer_lin_def pfx_def)
  note t = the_put_port [OF p, of c]
  obtain d where d: "dispatch_on e n EV_FAULT_CLEARED False ?c = put_port n (fst (port_dispatch e ?p ?c EV_FAULT_CLEARED False)) d"
    using dispatch_on_put [of ?c e n EV_FAULT_CLEARED False] t by auto
  have "portnum (fst (port_dispatch e ?p ?c EV_FAULT_CLEARED False)) = n"
    using port_dispatch_moves [of ?p e ?c EV_FAULT_CLEARED False] p by (simp add: moves_def)
  moreover have "port_link_status_get ?p"
    using assms(2) by (simp add: port_link_status_get_def port_set_fault_timer_lin_def pfx_def)
  then have "poll_fault e n c = dispatch_on e n EV_FAULT_CLEARED False ?c"
    by (simp only: poll_fault_def Let_def clock_fault_timeout_def t not_False_eq_True if_True)
  ultimately have "the_port n (poll_fault e n c) = fst (port_dispatch e ?p ?c EV_FAULT_CLEARED False)"
    by (simp only: d the_put_port)
  then show ?thesis by (intro exI [of _ ?c]) simp
qed


lemma sample_faulty:
  "\<not> is_uds 1 (sample_system PS_FAULTY)" "the_port 1 (sample_system PS_FAULTY) = sample_port PS_FAULTY"
  "port_link_status_get (sample_port PS_FAULTY)" "bc_clock (sample_system PS_FAULTY)"
  by (simp_all add: is_uds_def the_port_def port_link_status_get_def sample_port_def bc_clock_def)


text \<open>
  a recovery that fails is not tried again.  When the fault timer of a faulty port expires and the
  port cannot be opened, it stays FAULTY with its fault timer disarmed: nothing but a change of its
  link wakes it again.
\<close>

theorem failed_recovery_is_final:
  fixes c :: "'y system_scheme"
  assumes "\<not> is_uds n c" and "p_state (the_port n c) = PS_FAULTY"
    and "port_link_status_get (the_port n c)" and "\<not> port_opens e"
  shows "p_state (the_port n (poll_fault e n c)) = PS_FAULTY \<and> \<not> fault_pending (the_port n (poll_fault e n c))"
proof -
  let ?p = "port_set_fault_timer_lin 0 (the_port n c)"
  obtain k :: "'y system_scheme" where k: "the_port n (poll_fault e n c) = fst (port_dispatch e ?p k EV_FAULT_CLEARED False)"
    using poll_fault_port [OF assms(1,3)] by blast
  have p: "p_state ?p = PS_FAULTY" using assms(2) by (simp add: port_set_fault_timer_lin_def pfx_def)
  let ?q = "fst (port_initialize e ?p)"
  have u: "port_state_update e ?p EV_FAULT_CLEARED False = (?q, False)"
    using assms(4) by (simp add: faulty_restart [OF p])
  then have d: "fst (port_dispatch e ?p k EV_FAULT_CLEARED False) = ?q"
    by (simp add: port_dispatch_def bc_dispatch_def bc_transition_def e2e_dispatch_def p2p_dispatch_def split: clock_type.split)
  have "p_state ?q = PS_FAULTY" using port_initialize_extends [of ?p ?p e] p by (simp add: extends_def)
  moreover have "\<not> fault_pending ?q"
    using assms(4) by (simp add: port_initialize_def port_opens_def Let_def fault_pending_def pfx_def port_config_def
        port_set_announce_tmo_def set_tmo_random_def port_set_fault_timer_lin_def split: prod.split)
  ultimately show ?thesis by (simp add: k d)
qed

lemma failed_recovery_is_final_witness:
  "\<not> fault_pending (the_port 1 (poll_fault (sample_env\<lparr>env_open := False\<rparr>) 1 (sample_system PS_FAULTY)))"
  using failed_recovery_is_final [of 1 "sample_system PS_FAULTY" "sample_env\<lparr>env_open := False\<rparr>"] sample_faulty
  by (simp add: port_opens_def)

end
