(* ===== verification/ConfigProps.thy ===== *)
theory ConfigProps
  imports Config
begin

text \<open>
  What the configuration guarantees: every option has a value of its type, in every section and
  after any file and command line, and the command line has precedence.
\<close>

subsection \<open>The table of options\<close>

lemma config_labels: "map ci_label config_tab = [
     ''announceReceiptTimeout'', ''assume_two_step'', ''boundary_clock_jbod'', ''check_fup_sync'', ''clockAccuracy'',
     ''clockClass'', ''clock_servo'', ''clock_type'', ''dataset_comparison'', ''delayAsymmetry'',
     ''delay_filter'', ''delay_filter_length'', ''delay_mechanism'', ''dscp_event'', ''dscp_general'',
     ''domainNumber'', ''egressLatency'', ''fault_badpeernet_interval'', ''fault_reset_interval'', ''first_step_threshold'',
     ''follow_up_info'', ''free_running'', ''freq_est_interval'', ''G.8275.defaultDS.localPriority'', ''G.8275.portDS.localPriority'',
     ''gmCapable'', ''hybrid_e2e'', ''ignore_transport_specific'', ''ingressLatency'', ''initial_delay'',
     ''kernel_leap'', ''logAnnounceInterval'', ''logMinDelayReqInterval'', ''logMinPdelayReqInterval'', ''logSyncInterval'',
     ''logging_level'', ''masterOnly'', ''message_tag'', ''manufacturerIdentity'', ''max_frequency'',
     ''min_neighbor_prop_delay'', ''neighborPropDelayThresh'', ''net_sync_monitor'', ''network_transport'', ''ntpshm_segment'',
     ''offsetScaledLogVariance'', ''path_trace_enabled'', ''pi_integral_const'', ''pi_integral_exponent'', ''pi_integral_norm_max'',
     ''pi_integral_scale'', ''pi_proportional_const'', ''pi_proportional_exponent'', ''pi_proportional_norm_max'', ''pi_proportional_scale'',
     ''priority1'', ''priority2'', ''productDescription'', ''ptp_dst_mac'', ''p2p_dst_mac'',
     ''revisionData'', ''sanity_freq_limit'', ''slaveOnly'', ''step_threshold'', ''summary_interval'',
     ''syncReceiptTimeout'', ''tc_spanning_tree'', ''timeSource'', ''time_stamping'', ''transportSpecific'',
     ''tsproc_mode'', ''twoStepFlag'', ''tx_timestamp_timeout'', ''udp_ttl'', ''udp6_scope'',
     ''uds_address'', ''use_syslog'', ''userDescription'', ''utc_offset'', ''verbose'']"
  by (simp add: config_tab_def CONFIG_ITEM_INT_def CONFIG_ITEM_DBL_def CONFIG_ITEM_ENUM_def CONFIG_ITEM_STRING_def)

text \<open>What follows one of the dots of a name.\<close>

fun dotted :: "string \<Rightarrow> string list" where
  "dotted [] = []"
| "dotted (c # s) = (if c = CHR ''.'' then s # dotted s else dotted s)"

lemma config_labels_good:
  "distinct (map ci_label config_tab)"
  "list_all (\<lambda>l. length l \<le> 30) (map ci_label config_tab)"
  "list_all (\<lambda>l. list_all (\<lambda>d. \<not> List.member (map ci_label config_tab) d) (dotted l)) (map ci_label config_tab)"
  unfolding config_labels by code_simp+

abbreviation (input) opt_label :: "nat \<Rightarrow> string" where
  "opt_label i \<equiv> ci_label (config_tab ! i)"

abbreviation n_opts :: nat where
  "n_opts \<equiv> length config_tab"

lemma dotted_append: "s @ CHR ''.'' # t \<in> set (dotted (y @ CHR ''.'' # s @ CHR ''.'' # t))"
  by (induction y) auto

lemma dotted_suffix: "o' = y @ CHR ''.'' # d \<Longrightarrow> d \<in> set (dotted o')"
  by (induction y arbitrary: o') auto

lemma opt_label_length: "i < n_opts \<Longrightarrow> length (opt_label i) \<le> 30"
  using config_labels_good(2) by (simp add: list_all_length)

lemma section_key_full: "length s \<le> 108 \<Longrightarrow> i < n_opts \<Longrightarrow> section_key s (opt_label i) = s @ CHR ''.'' # opt_label i"
  using opt_label_length [of i] by (simp add: section_key_def)

lemma suffix_dotted:
  assumes "s @ CHR ''.'' # d = s' @ CHR ''.'' # l" and "length d < length l"
  shows "d \<in> set (dotted l)"
proof -
  have "drop (length s' + 1) (s @ CHR ''.'' # d) = l" using assms(1) by simp
  moreover have "length s' + 1 \<le> length s" using arg_cong [OF assms(1), of length] assms(2) by simp
  ultimately have "l = drop (length s' + 1) s @ CHR ''.'' # d" by simp
  then show ?thesis by (rule dotted_suffix)
qed

lemma opt_label_not_dotted: "i < n_opts \<Longrightarrow> j < n_opts \<Longrightarrow> opt_label i \<notin> set (dotted (opt_label j))"
proof -
  assume "i < n_opts" "j < n_opts"
  then have "opt_label i \<in> ci_label ` set config_tab" "config_tab ! j \<in> set config_tab" by auto
  then show ?thesis using config_labels_good(3) by (auto simp: list_all_iff List.member_iff)
qed

lemma section_key_option:
  assumes "section_key s (opt_label i) = section_key s' (opt_label j)" "length s \<le> 108" "length s' \<le> 108"
    and "i < n_opts" "j < n_opts"
  shows "i = j"
proof -
  have e: "s @ CHR ''.'' # opt_label i = s' @ CHR ''.'' # opt_label j"
    using assms by (simp add: section_key_full)
  have "length (opt_label i) = length (opt_label j)"
    using suffix_dotted [OF e] suffix_dotted [OF e [symmetric]] opt_label_not_dotted assms(4,5)
    by (metis linorder_neqE_nat)
  with e have "opt_label i = opt_label j" by (metis append_eq_append_conv length_Cons list.inject)
  then show ?thesis using config_labels_good(1) assms(4,5) by (simp add: distinct_conv_nth) metis
qed

subsection \<open>Values of their type\<close>

definition in_range :: "config_item \<Rightarrow> any_t \<Rightarrow> bool" where
  "in_range t v \<longleftrightarrow>
    (case ci_type t of
       CFG_TYPE_INT \<Rightarrow> (\<exists>i. v = AnyInt i \<and> int_of_any (ci_min t) \<le> i \<and> i \<le> int_of_any (ci_max t))
     | CFG_TYPE_DOUBLE \<Rightarrow> (\<exists>d. v = AnyDouble d \<and> double_of_any (ci_min t) \<le> d \<and> d \<le> double_of_any (ci_max t))
     | CFG_TYPE_ENUM \<Rightarrow> (\<exists>i. v = AnyInt i \<and> i \<in> snd ` set (ci_tab t))
     | CFG_TYPE_STRING \<Rightarrow> (\<exists>s. v = AnyString s))"

definition well_typed :: "config_type \<Rightarrow> any_t \<Rightarrow> bool" where
  "well_typed type v \<longleftrightarrow> (case v of AnyInt _ \<Rightarrow> is_integral type | AnyDouble _ \<Rightarrow> type = CFG_TYPE_DOUBLE | AnyString _ \<Rightarrow> type = CFG_TYPE_STRING)"

definition same_spec :: "config_item \<Rightarrow> config_item \<Rightarrow> bool" where
  "same_spec t ci \<longleftrightarrow> ci_type ci = ci_type t \<and> ci_tab ci = ci_tab t \<and> ci_port ci = ci_port t \<and>
     ci_min ci = ci_min t \<and> ci_max ci = ci_max t"

lemma same_spec_refl [simp]: "same_spec t t"
  by (simp add: same_spec_def)

lemma same_spec_trans: "same_spec t u \<Longrightarrow> same_spec u v \<Longrightarrow> same_spec t v"
  by (simp add: same_spec_def)

lemma find_snd: "find P xs = Some (l, v) \<Longrightarrow> v \<in> snd ` set xs"
  by (force dest: find_SomeD)

lemma parse_value_range: "parse_value strtod ci value = Inr v \<Longrightarrow> same_spec t ci \<Longrightarrow> in_range t v"
  by (auto simp: parse_value_def in_range_def same_spec_def get_ranged_int_def get_ranged_double_def map_sum_def
      dest: get_ranged_range find_snd split: config_type.splits option.splits sum.splits)

lemma parse_value_typed: "parse_value strtod ci value = Inr v \<Longrightarrow> well_typed (ci_type ci) v"
  by (auto simp: parse_value_def well_typed_def is_integral_def map_sum_def
      split: config_type.splits option.splits sum.splits)

text \<open>
  An interface whose name begins like the section of the defaults makes its options accessible under
  a name of the global section.
\<close>

definition section_of :: "config \<Rightarrow> string \<Rightarrow> bool" where
  "section_of cfg s \<longleftrightarrow> s = ''global'' \<or> s \<in> if_name ` set (cfg_interfaces cfg)"

definition unambiguous :: "config \<Rightarrow> bool" where
  "unambiguous cfg \<longleftrightarrow> (\<forall>i \<in> set (cfg_interfaces cfg). take 7 (if_name i) \<noteq> ''global.'')"

definition conforms :: "bool \<Rightarrow> config_item \<Rightarrow> config_item \<Rightarrow> bool" where
  "conforms strict t ci \<longleftrightarrow> ci_type ci = ci_type t \<and> well_typed (ci_type t) (ci_val ci) \<and>
     (strict \<longrightarrow> ci_val ci = ci_val t \<or> in_range t (ci_val ci))"

definition key_of :: "config \<Rightarrow> nat \<Rightarrow> string \<Rightarrow> bool" where
  "key_of cfg i key \<longleftrightarrow> (\<exists>s. section_of cfg s \<and> key = section_key s (opt_label i))"

definition config_wf :: "config \<Rightarrow> bool" where
  "config_wf cfg \<longleftrightarrow> hash_wf (cfg_htab cfg) \<and> n_opts \<le> length (cfg_items cfg) \<and>
     (\<forall>i \<in> set (cfg_interfaces cfg). length (if_name i) \<le> 108) \<and>
     (\<forall>i<n_opts. same_spec (config_tab ! i) (item_at cfg i) \<and> config_global_item cfg (opt_label i) = Some i) \<and>
     (\<forall>a < length (cfg_items cfg). n_opts \<le> a \<longrightarrow> \<not> ci_port (item_at cfg a)) \<and>
     (\<forall>key a. hash_lookup (cfg_htab cfg) key = Some a \<longrightarrow> a < length (cfg_items cfg) \<and>
        (\<exists>i<n_opts. key_of cfg i key \<and> conforms (unambiguous cfg) (config_tab ! i) (item_at cfg a))) \<and>
     (\<forall>k1 k2 a. hash_lookup (cfg_htab cfg) k1 = Some a \<longrightarrow> hash_lookup (cfg_htab cfg) k2 = Some a \<longrightarrow> k1 = k2)"

lemma section_of_length: "config_wf cfg \<Longrightarrow> section_of cfg s \<Longrightarrow> length s \<le> 108"
  by (auto simp: config_wf_def section_of_def)

lemma key_of_unique: "config_wf cfg \<Longrightarrow> key_of cfg i key \<Longrightarrow> key_of cfg j key \<Longrightarrow> i < n_opts \<Longrightarrow> j < n_opts \<Longrightarrow> i = j"
  unfolding key_of_def using section_key_option section_of_length by metis

lemma config_wf_key:
  assumes "config_wf cfg" and "hash_lookup (cfg_htab cfg) key = Some a" and "key_of cfg i key" "i < n_opts"
  shows "a < length (cfg_items cfg)" "conforms (unambiguous cfg) (config_tab ! i) (item_at cfg a)"
proof -
  obtain j where j: "j < n_opts" "key_of cfg j key" "conforms (unambiguous cfg) (config_tab ! j) (item_at cfg a)"
    "a < length (cfg_items cfg)"
    using assms(1,2) unfolding config_wf_def by blast
  moreover have "j = i" using key_of_unique [OF assms(1) j(2) assms(3) j(1) assms(4)] .
  ultimately show "a < length (cfg_items cfg)" "conforms (unambiguous cfg) (config_tab ! i) (item_at cfg a)" by simp_all
qed

lemma config_wf_global:
  "config_wf cfg \<Longrightarrow> i < n_opts \<Longrightarrow> config_global_item cfg (opt_label i) = Some i \<and> same_spec (config_tab ! i) (item_at cfg i)"
  by (simp add: config_wf_def)

lemma config_wf_find:
  assumes "config_wf cfg" and "config_section_item cfg s opt = Some a"
  obtains i where "i < n_opts" "key_of cfg i (section_key s opt)" "conforms (unambiguous cfg) (config_tab ! i) (item_at cfg a)"
    "a < length (cfg_items cfg)"
  using assms unfolding config_wf_def config_section_item_def by blast

text \<open>A name in the global section is that of an option, or there is an ambiguous interface.\<close>

lemma global_name:
  assumes "config_wf cfg" and "unambiguous cfg" and "i < n_opts" and "key_of cfg i (section_key ''global'' opt)"
  shows "section_key ''global'' opt = section_key ''global'' (opt_label i)"
proof -
  obtain s where s: "section_of cfg s" "section_key ''global'' opt = section_key s (opt_label i)"
    using assms(4) by (auto simp: key_of_def)
  have e: "section_key s (opt_label i) = s @ CHR ''.'' # opt_label i"
    using section_key_full [OF section_of_length [OF assms(1) s(1)] assms(3)] .
  have "s = ''global''"
  proof (rule ccontr)
    assume "s \<noteq> ''global''"
    then have "take 7 s \<noteq> ''global.''" using assms(2) s(1) by (auto simp: section_of_def unambiguous_def)
    moreover have g: "take 7 (section_key ''global'' opt) = ''global.''" by (simp add: section_key_def take_Cons')
    ultimately have "length s < 7" using s(2) e by (cases "length s < 7") auto
    moreover have "take 7 (s @ CHR ''.'' # opt_label i) = ''global.''" using g s(2) e by simp
    ultimately have "s @ CHR ''.'' # take (6 - length s) (opt_label i) = ''global.''"
      by (simp add: take_Cons' Suc_diff_le split: if_splits)
    with \<open>s \<noteq> ''global''\<close> show False
      by (cases s rule: list.exhaust; simp) (auto simp: append_eq_Cons_conv)
  qed
  then show ?thesis using s(2) by simp
qed

subsection \<open>Items are stored at their type\<close>

text \<open>A function on items that keeps what describes the option.\<close>

definition keeps_spec :: "(config_item \<Rightarrow> config_item) \<Rightarrow> bool" where
  "keeps_spec f \<longleftrightarrow> (\<forall>ci. same_spec ci (f ci))"

lemma item_at_update:
  "a < length (cfg_items cfg) \<Longrightarrow> item_at (update_item a f cfg) b = (if b = a then f (item_at cfg a) else item_at cfg b)"
  by (simp add: item_at_def update_item_def nth_list_update)

lemma update_item_fields [simp]:
  "cfg_htab (update_item a f cfg) = cfg_htab cfg" "cfg_interfaces (update_item a f cfg) = cfg_interfaces cfg"
  "length (cfg_items (update_item a f cfg)) = length (cfg_items cfg)"
  "config_section_item (update_item a f cfg) s opt = config_section_item cfg s opt"
  "config_global_item (update_item a f cfg) opt = config_global_item cfg opt"
  "unambiguous (update_item a f cfg) = unambiguous cfg" "section_of (update_item a f cfg) = section_of cfg"
  "key_of (update_item a f cfg) = key_of cfg"
  by (simp_all add: update_item_def config_section_item_def config_global_item_def unambiguous_def section_of_def
      key_of_def fun_eq_iff)

lemma update_item_wf:
  assumes "config_wf cfg" and "keeps_spec f" and "hash_lookup (cfg_htab cfg) key = Some a"
    and "key_of cfg i key" "i < n_opts" and "conforms (unambiguous cfg) (config_tab ! i) (f (item_at cfg a))"
  shows "config_wf (update_item a f cfg)"
proof -
  note a = config_wf_key(1) [OF assms(1,3,4,5)]
  have inj: "\<And>k1 k2 a. hash_lookup (cfg_htab cfg) k1 = Some a \<Longrightarrow> hash_lookup (cfg_htab cfg) k2 = Some a \<Longrightarrow> k1 = k2"
    using assms(1) unfolding config_wf_def by blast
  have "\<exists>j<n_opts. key_of cfg j k \<and> conforms (unambiguous cfg) (config_tab ! j) (item_at (update_item a f cfg) b)"
    if b: "hash_lookup (cfg_htab cfg) k = Some b" for k b
  proof (cases "b = a")
    case True
    then have "k = key" using inj b assms(3) by blast
    with True a assms(4-6) show ?thesis by (auto simp: item_at_update)
  next
    case False
    with a assms(1) b show ?thesis unfolding config_wf_def by (auto simp: item_at_update)
  qed
  moreover have "same_spec (config_tab ! j) (item_at (update_item a f cfg) j)" if "j < n_opts" for j
    using config_wf_global [OF assms(1) that] assms(2) a by (auto simp: item_at_update keeps_spec_def intro: same_spec_trans)
  moreover have "\<not> ci_port (item_at (update_item a f cfg) j)" if "j < length (cfg_items cfg)" "n_opts \<le> j" for j
    using that assms(1,2) a by (auto simp: item_at_update keeps_spec_def same_spec_def config_wf_def)
  ultimately show ?thesis using assms(1) unfolding config_wf_def by simp
qed

lemma config_item_alloc_fields:
  assumes "config_item_alloc mem cfg s opt type = Some (cfg', a)"
  shows "cfg_interfaces cfg' = cfg_interfaces cfg" "a = length (cfg_items cfg)" "cfg_items cfg' = cfg_items cfg @ [zero_item opt type]"
    "hash_insert mem (cfg_htab cfg) (section_key s (take 31 opt)) a = Some (cfg_htab cfg')"
  using assms by (auto simp: config_item_alloc_def Let_def zero_item_def split: if_splits option.splits)

lemma alloc_item_wf:
  assumes "config_wf cfg" and "config_item_alloc mem cfg s (opt_label i) type = Some (cfg', a)" and "section_of cfg s"
    and "i < n_opts" and "conforms (unambiguous cfg) (config_tab ! i) (f (zero_item (opt_label i) type))" and "keeps_spec f"
  shows "config_wf (update_item a f cfg')"
proof -
  note n = config_item_alloc_fields [OF assms(2)]
  have l: "take 31 (opt_label i) = opt_label i" using opt_label_length [OF assms(4)] by simp
  have wf: "hash_wf (cfg_htab cfg)" using assms(1) by (simp add: config_wf_def)
  note ins = n(4) [unfolded l]
  have lk: "hash_lookup (cfg_htab cfg') k = (if k = section_key s (opt_label i) then Some a else hash_lookup (cfg_htab cfg) k)" for k
    using hash_lookup_insert [OF wf ins] .
  have fresh: "hash_lookup (cfg_htab cfg) (section_key s (opt_label i)) = None"
    using ins by (auto simp: hash_insert_def hash_lookup_def Let_def split: if_splits)
  have bound: "b < a" if "hash_lookup (cfg_htab cfg) k = Some b" for k b
    using assms(1) that n(2) unfolding config_wf_def by blast
  let ?c = "update_item a f cfg'"
  have same: "unambiguous cfg' = unambiguous cfg" "key_of cfg' = key_of cfg"
    by (simp_all add: unambiguous_def key_of_def section_of_def n(1) fun_eq_iff)
  have items: "item_at ?c b = (if b = a then f (zero_item (opt_label i) type) else item_at cfg b)" if "b \<le> a" for b
    using that n(2,3) by (simp add: item_at_update) (simp add: item_at_def nth_append)
  have "hash_wf (cfg_htab ?c)" using hash_insert_wf [OF wf ins] by simp
  moreover have "n_opts \<le> length (cfg_items ?c)" using assms(1) n(3) by (simp add: config_wf_def)
  moreover have "\<forall>j \<in> set (cfg_interfaces ?c). length (if_name j) \<le> 108" using assms(1) n(1) by (simp add: config_wf_def)
  moreover have "same_spec (config_tab ! j) (item_at ?c j) \<and> config_global_item ?c (opt_label j) = Some j" if "j < n_opts" for j
  proof -
    have "j < a" using that assms(1) n(2) by (simp add: config_wf_def)
    with config_wf_global [OF assms(1) that] items [of j] lk fresh show ?thesis
      by (auto simp: config_global_item_def config_section_item_def)
  qed
  moreover have "b < length (cfg_items ?c) \<and>
      (\<exists>j<n_opts. key_of ?c j k \<and> conforms (unambiguous ?c) (config_tab ! j) (item_at ?c b))"
    if b: "hash_lookup (cfg_htab ?c) k = Some b" for k b
  proof (cases "k = section_key s (opt_label i)")
    case True
    with b lk have "b = a" by simp
    moreover have "key_of cfg i k" using True assms(3) by (auto simp: key_of_def)
    ultimately show ?thesis using assms(4,5) items [of a] n(2,3) by (auto simp: same)
  next
    case False
    with b lk have b': "hash_lookup (cfg_htab cfg) k = Some b" by simp
    have "b < length (cfg_items ?c)" using bound [OF b'] n(2,3) by simp
    with bound [OF b'] b' assms(1) items [of b] show ?thesis unfolding config_wf_def by (auto simp: same)
  qed
  moreover have "k1 = k2" if "hash_lookup (cfg_htab ?c) k1 = Some b" "hash_lookup (cfg_htab ?c) k2 = Some b" for k1 k2 b
  proof -
    have "\<And>k1 k2 a. hash_lookup (cfg_htab cfg) k1 = Some a \<Longrightarrow> hash_lookup (cfg_htab cfg) k2 = Some a \<Longrightarrow> k1 = k2"
      using assms(1) unfolding config_wf_def by blast
    with that lk bound show ?thesis by (auto split: if_splits dest: bound)
  qed
  moreover have "\<not> ci_port (item_at ?c j)" if "j < length (cfg_items ?c)" "n_opts \<le> j" for j
  proof -
    have "same_spec (zero_item (opt_label i) type) (f (zero_item (opt_label i) type))" using assms(6) by (simp add: keeps_spec_def)
    then have "\<not> ci_port (f (zero_item (opt_label i) type))" by (simp add: same_spec_def zero_item_def)
    with that items [of j] n(2,3) assms(1) show ?thesis by (auto simp: config_wf_def)
  qed
  ultimately show ?thesis unfolding config_wf_def by blast
qed

lemma store_value_type [simp]: "same_spec ci (store_value mem v ci)"
  by (auto simp: store_value_def same_spec_def split: config_type.split any_t.split)

lemma store_value_conforms:
  assumes "ci_type ci = ci_type t" and "well_typed (ci_type t) v" and "strict \<Longrightarrow> in_range t v"
  shows "conforms strict t (store_value mem v ci)"
  using assms by (cases "ci_type ci"; cases v)
    (auto simp: store_value_def conforms_def well_typed_def is_integral_def in_range_def)

text \<open>An option that is set in a section, or globally.\<close>

lemma keeps_spec_store [simp]:
  "keeps_spec (store_value mem v)" "keeps_spec (\<lambda>ci. ci\<lparr>ci_val := v\<rparr>)" "keeps_spec (\<lambda>ci. ci\<lparr>ci_locked := True, ci_val := v\<rparr>)"
  "keeps_spec (\<lambda>ci. let ci = store_value mem v ci in if cl then ci\<lparr>ci_locked := True\<rparr> else ci)"
  using store_value_type by (auto simp: keeps_spec_def same_spec_def Let_def)

lemma conforms_locked [simp]: "conforms strict t (ci\<lparr>ci_locked := b\<rparr>) = conforms strict t ci"
  by (simp add: conforms_def)

lemma section_item_wf:
  assumes "config_wf cfg" and "section_of cfg s" and "i < n_opts" and "keeps_spec f"
    and "(case config_section_item cfg s (opt_label i) of Some dst \<Rightarrow> Some (cfg, dst)
       | None \<Rightarrow> config_item_alloc mem cfg s (opt_label i) (ci_type (config_tab ! i))) = Some (cfg', a)"
    and f: "\<And>ci. ci_type ci = ci_type (config_tab ! i) \<Longrightarrow> conforms (unambiguous cfg) (config_tab ! i) (f ci)"
  shows "config_wf (update_item a f cfg')" "cfg_interfaces cfg' = cfg_interfaces cfg"
proof -
  have key: "key_of cfg i (section_key s (opt_label i))" using assms(2) by (auto simp: key_of_def)
  have "config_wf (update_item a f cfg') \<and> cfg_interfaces cfg' = cfg_interfaces cfg"
  proof (cases "config_section_item cfg s (opt_label i)")
    case (Some dst)
    then have a: "cfg' = cfg" "a = dst" "hash_lookup (cfg_htab cfg) (section_key s (opt_label i)) = Some a"
      using assms(5) by (simp_all add: config_section_item_def)
    have "ci_type (item_at cfg a) = ci_type (config_tab ! i)"
      using config_wf_key(2) [OF assms(1) a(3) key assms(3)] by (simp add: conforms_def)
    with update_item_wf [OF assms(1,4) a(3) key assms(3)] f show ?thesis by (simp add: a(1))
  next
    case None
    then have al: "config_item_alloc mem cfg s (opt_label i) (ci_type (config_tab ! i)) = Some (cfg', a)"
      using assms(5) by simp
    have "conforms (unambiguous cfg) (config_tab ! i) (f (zero_item (opt_label i) (ci_type (config_tab ! i))))"
      by (rule f) (simp add: zero_item_def)
    from alloc_item_wf [OF assms(1) al assms(2,3) this assms(4)] config_item_alloc_fields(1) [OF al] show ?thesis by simp
  qed
  then show "config_wf (update_item a f cfg')" "cfg_interfaces cfg' = cfg_interfaces cfg" by simp_all
qed

lemma global_item_wf:
  assumes "config_wf cfg" and "i < n_opts" and "keeps_spec f"
    and f: "\<And>ci. ci_type ci = ci_type (config_tab ! i) \<Longrightarrow> conforms (unambiguous cfg) (config_tab ! i) (f ci)"
  shows "config_wf (update_item i f cfg)"
proof -
  have g: "hash_lookup (cfg_htab cfg) (section_key ''global'' (opt_label i)) = Some i"
    using config_wf_global [OF assms(1,2)] by (simp add: config_global_item_def config_section_item_def)
  have k: "key_of cfg i (section_key ''global'' (opt_label i))" by (auto simp: key_of_def section_of_def)
  show ?thesis
    using update_item_wf [OF assms(1,3) g k assms(2)] f config_wf_key(2) [OF assms(1) g k assms(2)]
    by (simp add: conforms_def)
qed

lemma in_range_typed: "in_range t v \<Longrightarrow> well_typed (ci_type t) v"
  by (auto simp: in_range_def well_typed_def is_integral_def split: config_type.splits)

lemma conforms_val: "ci_type ci = ci_type t \<Longrightarrow> in_range t v \<Longrightarrow> conforms strict t (ci\<lparr>ci_val := v\<rparr>)"
  by (simp add: conforms_def in_range_typed)

lemma set_section_int_wf:
  assumes "config_wf cfg" and "i < n_opts" and "in_range (config_tab ! i) (AnyInt val)"
    and "\<And>s. sct = Some s \<Longrightarrow> section_of cfg s"
    and "config_set_section_int mem cfg sct (opt_label i) val = (cfg', b)"
  shows "config_wf cfg' \<and> cfg_interfaces cfg' = cfg_interfaces cfg"
proof -
  note g = config_wf_global [OF assms(1,2)]
  have t: "ci_type (item_at cfg i) = ci_type (config_tab ! i)" using g by (simp add: same_spec_def)
  have fi: "config_find_item cfg None (opt_label i) = Some i" using g by (simp add: config_find_item_def)
  show ?thesis
  proof (cases "is_integral (ci_type (config_tab ! i))")
    case False
    then show ?thesis using assms(1,5) by (simp add: config_set_section_int_def fi t)
  next
    case int: True
    show ?thesis
    proof (cases sct)
      case None
      then have "cfg' = update_item i (\<lambda>ci. ci\<lparr>ci_locked := True, ci_val := AnyInt val\<rparr>) cfg"
        using int assms(5) by (simp add: config_set_section_int_def fi t)
      moreover have "config_wf (update_item i (\<lambda>ci. ci\<lparr>ci_locked := True, ci_val := AnyInt val\<rparr>) cfg)"
        by (rule global_item_wf [OF assms(1,2)]) (simp_all add: conforms_val assms(3))
      ultimately show ?thesis by simp
    next
      case (Some s)
      define r where "r = (case config_section_item cfg s (opt_label i) of Some dst \<Rightarrow> Some (cfg, dst)
         | None \<Rightarrow> config_item_alloc mem cfg s (opt_label i) (ci_type (config_tab ! i)))"
      have e: "config_set_section_int mem cfg sct (opt_label i) val =
          (case r of None \<Rightarrow> (cfg, True) | Some (cfg, dst) \<Rightarrow> (update_item dst (\<lambda>ci. ci\<lparr>ci_val := AnyInt val\<rparr>) cfg, False))"
        using Some int by (simp add: config_set_section_int_def fi t r_def cong: option.case_cong)
      show ?thesis
      proof (cases r)
        case None
        then show ?thesis using e assms(1,5) by simp
      next
        case (Some ca)
        obtain c a where r: "r = Some (c, a)" using Some by (cases ca) simp
        have "config_wf (update_item a (\<lambda>ci. ci\<lparr>ci_val := AnyInt val\<rparr>) c)" "cfg_interfaces c = cfg_interfaces cfg"
          by (rule section_item_wf [OF assms(1) assms(4) [OF \<open>sct = Some s\<close>] assms(2) _ r [unfolded r_def],
                where f = "\<lambda>ci. ci\<lparr>ci_val := AnyInt val\<rparr>"], simp_all add: conforms_val assms(3))+
        then show ?thesis using e assms(5) r by auto
      qed
    qed
  qed
qed

subsection \<open>Parsing\<close>

text \<open>The options that can be reset with the value ASAP.\<close>

lemma fault_options_good:
  "list_all (\<lambda>t. case map_of fault_options (ci_label t) of None \<Rightarrow> True | Some v \<Rightarrow> in_range t (AnyInt v)) config_tab"
  by (simp add: config_tab_def CONFIG_ITEM_INT_def CONFIG_ITEM_DBL_def CONFIG_ITEM_ENUM_def CONFIG_ITEM_STRING_def
      fault_options_def in_range_def int_of_any_def)

lemma fault_options_labels: "fst ` set fault_options \<subseteq> ci_label ` set config_tab"
proof -
  have "list_all (\<lambda>x. List.member (map ci_label config_tab) (fst x)) fault_options"
    unfolding config_labels by (simp add: fault_options_def)
  then show ?thesis by (auto simp: list_all_iff List.member_iff)
qed

lemma fault_option_index:
  assumes "map_of fault_options opt = Some v"
  obtains i where "i < n_opts" "opt = opt_label i" "in_range (config_tab ! i) (AnyInt v)"
proof -
  have "opt \<in> ci_label ` set config_tab" using fault_options_labels assms by (force dest: map_of_SomeD)
  then obtain i where i: "i < n_opts" "opt = opt_label i" by (auto simp: in_set_conv_nth)
  moreover have "in_range (config_tab ! i) (AnyInt v)"
    using fault_options_good i assms by (auto simp: list_all_length)
  ultimately show ?thesis using that by blast
qed

lemma parse_fault_interval_wf:
  assumes "config_wf cfg" and "\<And>s. sct = Some s \<Longrightarrow> section_of cfg s"
    and "parse_fault_interval mem cfg sct opt value = Some (cfg', r)"
  shows "config_wf cfg' \<and> cfg_interfaces cfg' = cfg_interfaces cfg"
proof (cases "strcaseeq ''ASAP'' value \<and> map_of fault_options opt \<noteq> None")
  case False
  then show ?thesis using assms by (auto simp: parse_fault_interval_def split: option.splits if_splits)
next
  case True
  then obtain v where v: "map_of fault_options opt = Some v" by auto
  obtain i where i: "i < n_opts" "opt = opt_label i" "in_range (config_tab ! i) (AnyInt v)"
    using fault_option_index [OF v] .
  obtain c b where c: "config_set_section_int mem cfg sct opt v = (c, b)" by fastforce
  then have "cfg' = c" using True v assms(3) by (auto simp: parse_fault_interval_def split: bool.splits)
  then show ?thesis using set_section_int_wf [OF assms(1) i(1,3) assms(2) c [unfolded i(2)]] by simp
qed

text \<open>An item that may appear in the section of a port is that of an option.\<close>

lemma global_key_cancel:
  assumes "section_key ''global'' opt = section_key ''global'' (opt_label i)" and "i < n_opts"
  shows "opt = opt_label i"
proof -
  have "''global'' @ CHR ''.'' # take 132 opt = section_key ''global'' opt" by (simp add: section_key_def)
  then have t: "take 132 opt = opt_label i" using section_key_full [of "''global''" i] assms by simp
  then have "min (length opt) 132 \<le> 30" using opt_label_length [OF assms(2)] by (metis length_take)
  then have "length opt \<le> 132" by simp
  with t show ?thesis by simp
qed

lemma global_lookup:
  assumes "config_wf cfg" and "i < n_opts"
  shows "hash_lookup (cfg_htab cfg) (section_key ''global'' (opt_label i)) = Some i"
  using config_wf_global [OF assms] by (simp add: config_global_item_def config_section_item_def)

lemma global_address:
  assumes "config_wf cfg" and "config_global_item cfg opt = Some a" and "a < n_opts"
  shows "opt = opt_label a"
proof -
  have "hash_lookup (cfg_htab cfg) (section_key ''global'' opt) = Some a"
    using assms(2) by (simp add: config_global_item_def config_section_item_def)
  with global_lookup [OF assms(1,3)] assms(1) have "section_key ''global'' opt = section_key ''global'' (opt_label a)"
    unfolding config_wf_def by blast
  from global_key_cancel [OF this assms(3)] show ?thesis .
qed

lemma store_item_config:
  "fst (store_item mem cl dst v cfg) = update_item dst (if ci_type (item_at cfg dst) = CFG_TYPE_STRING \<and> \<not> mem then store_value mem v
     else (\<lambda>ci. let ci = store_value mem v ci in if cl then ci\<lparr>ci_locked := True\<rparr> else ci)) cfg"
  by (simp add: store_item_def)

lemma stored_conforms:
  assumes "ci_type ci = ci_type t" and "well_typed (ci_type t) v" and "strict \<Longrightarrow> in_range t v"
  shows "conforms strict t (let ci = store_value mem v ci in if cl then ci\<lparr>ci_locked := True\<rparr> else ci)"
  using store_value_conforms [OF assms] by (simp add: Let_def)

lemma parse_item_wf:
  assumes "config_wf cfg" and "\<And>s. sct = Some s \<Longrightarrow> section_of cfg s"
    and "parse_item mem strtod cfg cl sct opt value = Some (cfg', r)"
  shows "config_wf cfg' \<and> cfg_interfaces cfg' = cfg_interfaces cfg"
proof -
  obtain c0 r0 where f: "parse_fault_interval mem cfg sct opt value = Some (c0, r0)"
    using assms(3) by (auto simp: parse_item_def split: option.splits)
  have c0: "config_wf c0" "cfg_interfaces c0 = cfg_interfaces cfg"
    using parse_fault_interval_wf [OF assms(1,2) f] by simp_all
  then have sect: "\<And>s. sct = Some s \<Longrightarrow> section_of c0 s" using assms(2) by (simp add: section_of_def)
  have "config_wf cfg' \<and> cfg_interfaces cfg' = cfg_interfaces c0"
  proof (cases "r0 \<noteq> NOT_PARSED \<or> config_global_item c0 opt = None")
    case True
    then show ?thesis using assms(3) f c0(1) by (auto simp: parse_item_def split: if_splits)
  next
    case False
    then obtain a where a: "r0 = NOT_PARSED" "config_global_item c0 opt = Some a" by auto
    let ?cgi = "item_at c0 a"
    show ?thesis
    proof (cases "parse_value strtod ?cgi value")
      case (Inl e)
      then show ?thesis using assms(3) f a c0(1) by (auto simp: parse_item_def)
    next
      case (Inr v)
      have t: "well_typed (ci_type ?cgi) v" by (rule parse_value_typed [OF Inr])
      show ?thesis
      proof (cases sct)
        case None
        have look: "hash_lookup (cfg_htab c0) (section_key ''global'' opt) = Some a"
          using a(2) by (simp add: config_global_item_def config_section_item_def)
        obtain i where i: "i < n_opts" "key_of c0 i (section_key ''global'' opt)"
          "conforms (unambiguous c0) (config_tab ! i) ?cgi"
          using config_wf_find [OF c0(1) a(2) [unfolded config_global_item_def]] .
        then have ty: "ci_type ?cgi = ci_type (config_tab ! i)" by (simp add: conforms_def)
        have rng: "in_range (config_tab ! i) v" if "unambiguous c0"
        proof -
          have "a = i" using global_name [OF c0(1) that i(1,2)] global_lookup [OF c0(1) i(1)] look by simp
          then show ?thesis using parse_value_range [OF Inr] config_wf_global [OF c0(1) i(1)] by simp
        qed
        have st: "config_wf (fst (store_item mem cl a v c0)) \<and> cfg_interfaces (fst (store_item mem cl a v c0)) = cfg_interfaces c0"
          unfolding store_item_config
          using update_item_wf [OF c0(1) keeps_spec_store(1) look i(2,1) store_value_conforms [OF ty t [unfolded ty] rng]]
            update_item_wf [OF c0(1) keeps_spec_store(4) look i(2,1) stored_conforms [OF ty t [unfolded ty] rng]]
          by simp
        have "cfg' = c0 \<or> (cfg', r) = store_item mem cl a v c0"
          using assms(3) f a Inr None by (auto simp: parse_item_def Let_def split: if_splits)
        then show ?thesis using st c0(1) by (metis fst_conv)
      next
        case (Some s)
        show ?thesis
        proof (cases "ci_port ?cgi")
          case False
          then show ?thesis using assms(3) f a Inr Some c0(1) by (auto simp: parse_item_def Let_def)
        next
          case True
          obtain i where "a < length (cfg_items c0)"
            using config_wf_find [OF c0(1) a(2) [unfolded config_global_item_def]] by metis
          then have a80: "a < n_opts" using True c0(1) unfolding config_wf_def by (metis linorder_not_less)
          have opt: "opt = opt_label a" using global_address [OF c0(1) a(2) a80] .
          have sp: "same_spec (config_tab ! a) ?cgi" using config_wf_global [OF c0(1) a80] by simp
          then have ty: "ci_type ?cgi = ci_type (config_tab ! a)" by (simp add: same_spec_def)
          have rng: "in_range (config_tab ! a) v" using parse_value_range [OF Inr sp] .
          define ra where "ra = (case config_section_item c0 s (opt_label a) of Some dst \<Rightarrow> Some (c0, dst)
            | None \<Rightarrow> config_item_alloc mem c0 s (opt_label a) (ci_type (config_tab ! a)))"
          have e: "Some (cfg', r) = (case ra of None \<Rightarrow> Some (c0, NOT_PARSED) | Some (c, dst) \<Rightarrow> Some (store_item mem cl dst v c))"
            using assms(3) f a Inr Some True by (simp add: parse_item_def Let_def opt ra_def ty cong: option.case_cong)
          show ?thesis
          proof (cases ra)
            case None
            then show ?thesis using e c0(1) by simp
          next
            case (Some ca)
            obtain c dst where r: "ra = Some (c, dst)" using Some by (cases ca) simp
            have st: "config_wf (fst (store_item mem cl dst v c)) \<and> cfg_interfaces (fst (store_item mem cl dst v c)) = cfg_interfaces c0"
              unfolding store_item_config
              using section_item_wf [OF c0(1) sect [OF \<open>sct = Some s\<close>] a80 keeps_spec_store(1) r [unfolded ra_def]
                  store_value_conforms [OF _ t [unfolded ty] rng]]
                section_item_wf [OF c0(1) sect [OF \<open>sct = Some s\<close>] a80 keeps_spec_store(4) r [unfolded ra_def]
                  stored_conforms [OF _ t [unfolded ty] rng]]
              by simp
            from e r have "cfg' = fst (store_item mem cl dst v c)" by simp (metis fst_conv)
            then show ?thesis using st by simp
          qed
        qed
      qed
    qed
  qed
  then show ?thesis using c0(2) by simp
qed

subsection \<open>Files and command lines\<close>

lemma add_interface_wf:
  assumes "config_wf cfg" and "config_create_interface mem name cfg = (cfg', port)"
  shows "config_wf cfg' \<and> (\<forall>p. port = Some p \<longrightarrow> section_of cfg' p)"
proof (cases "find (\<lambda>i. take 108 name = take 108 (if_name i)) (cfg_interfaces cfg)")
  case (Some i)
  then have "i \<in> set (cfg_interfaces cfg)" by (auto dest: find_SomeD)
  with Some assms show ?thesis by (auto simp: config_create_interface_def section_of_def)
next
  case None
  show ?thesis
  proof (cases mem)
    case True
    let ?i = "\<lparr>if_name = take 108 name, if_ts_label = []\<rparr>"
    have c: "cfg' = cfg\<lparr>cfg_interfaces := cfg_interfaces cfg @ [?i], cfg_n_interfaces := cfg_n_interfaces cfg + 1\<rparr>"
      "port = Some (take 108 name)" using None True assms(2) by (simp_all add: config_create_interface_def)
    have k: "key_of cfg i key \<Longrightarrow> key_of cfg' i key" for i key by (auto simp: key_of_def section_of_def c(1))
    have u: "unambiguous cfg' \<Longrightarrow> unambiguous cfg" by (simp add: unambiguous_def c(1))
    have co: "conforms (unambiguous cfg) t ci \<Longrightarrow> conforms (unambiguous cfg') t ci" for t ci
      using u by (auto simp: conforms_def)
    have "\<exists>i<n_opts. key_of cfg' i key \<and> conforms (unambiguous cfg') (config_tab ! i) (item_at cfg a)"
      if "hash_lookup (cfg_htab cfg) key = Some a" for key a
      using assms(1) that k co unfolding config_wf_def by blast
    then show ?thesis
      using assms(1) by (simp add: c section_of_def config_wf_def item_at_def config_global_item_def config_section_item_def)
  qed (use None assms in \<open>simp add: config_create_interface_def\<close>)
qed

definition reading :: "config \<times> config_section \<times> string \<Rightarrow> bool" where
  "reading st \<longleftrightarrow> (case st of (cfg, current, port) \<Rightarrow> config_wf cfg \<and> (current = PORT_SECTION \<longrightarrow> section_of cfg port))"

lemma read_line_wf:
  assumes "reading st" and "read_line mem strtod line st = Some x"
  shows "(\<forall>cfg. x = Inl cfg \<longrightarrow> config_wf cfg) \<and> (\<forall>st'. x = Inr st' \<longrightarrow> reading st')"
proof -
  obtain cfg current port where st: "st = (cfg, current, port)" by (cases st)
  have wf: "config_wf cfg" and port: "current = PORT_SECTION \<Longrightarrow> section_of cfg port"
    using assms(1) by (simp_all add: st reading_def)
  show ?thesis
  proof (cases "parse_section_line line")
    case (Some sl)
    obtain sct l where sl: "sl = (sct, l)" by fastforce
    show ?thesis
    proof (cases "sct = PORT_SECTION \<and> scan_port l \<noteq> None")
      case False
      then have "x = Inl cfg \<or> x = Inr (cfg, sct, port) \<and> sct \<noteq> PORT_SECTION"
        using assms(2) Some by (cases sct) (auto simp: read_line_def st sl)
      with wf show ?thesis by (auto simp: reading_def)
    next
      case True
      then obtain name where n: "scan_port l = Some name" by auto
      obtain c p where c: "config_create_interface mem name cfg = (c, p)" by fastforce
      have "config_wf c" "\<And>q. p = Some q \<Longrightarrow> section_of c q" using add_interface_wf [OF wf c] by simp_all
      with assms(2) Some True n c show ?thesis by (auto simp: read_line_def st sl reading_def split: option.splits)
    qed
  next
    case None
    show ?thesis
    proof (cases "current = UNKNOWN_SECTION \<or> parse_setting_line line = None")
      case True
      then have "x = Inl cfg" using assms(2) None by (auto simp: read_line_def st split: if_splits)
      with wf show ?thesis by simp
    next
      case False
      then obtain opt val where v: "parse_setting_line line = Some (opt, val)" by auto
      let ?sct = "if current = GLOBAL_SECTION then None else Some port"
      obtain c r where c: "parse_item mem strtod cfg False ?sct (check_deprecated_options opt) val = Some (c, r)"
        and x: "x = (if r = PARSED_OK then Inr (c, current, port) else Inl c)"
        using assms(2) None False v by (auto simp: read_line_def st split: option.splits if_splits)
      have "\<And>s. ?sct = Some s \<Longrightarrow> section_of cfg s"
        using False port by (cases current) auto
      from parse_item_wf [OF wf this c] have "config_wf c" "cfg_interfaces c = cfg_interfaces cfg" by simp_all
      with x port show ?thesis by (auto simp: reading_def section_of_def)
    qed
  qed
qed

lemma read_lines_wf: "reading st \<Longrightarrow> read_lines mem strtod bufs st = Some (cfg, r) \<Longrightarrow> config_wf cfg"
proof (induction bufs arbitrary: st)
  case Nil
  then show ?case by (auto simp: reading_def)
next
  case (Cons buf bufs)
  show ?case
  proof (cases "trim_line buf = [] \<or> hd (trim_line buf) = CHR ''#''")
    case True
    with Cons show ?thesis by (auto simp: Let_def)
  next
    case False
    then obtain x where x: "read_line mem strtod (trim_line buf) st = Some x"
      using Cons.prems(2) by (auto simp: Let_def split: option.splits)
    with False Cons read_line_wf [OF Cons.prems(1) x] show ?thesis by (cases x) (auto simp: Let_def)
  qed
qed

lemma insert_defaults_spec:
  assumes "distinct keys" and "keys = map (\<lambda>ci. take 39 (''global.'' @ ci_label ci)) items" and "hash_wf ht"
    and "\<forall>k \<in> set keys. hash_lookup ht k = None"
  shows "\<exists>ht'. insert_defaults True items n ht = Some ht' \<and> hash_wf ht' \<and>
    (\<forall>k. hash_lookup ht' k = (case map_of (zip keys [n..<n + length items]) k of Some a \<Rightarrow> Some a | None \<Rightarrow> hash_lookup ht k))"
  using assms
proof (induction items arbitrary: keys n ht)
  case Nil
  then show ?case by simp
next
  case (Cons ci items)
  let ?k = "take 39 (''global.'' @ ci_label ci)"
  obtain ks where ks: "keys = ?k # ks" "ks = map (\<lambda>ci. take 39 (''global.'' @ ci_label ci)) items" "?k \<notin> set ks" "distinct ks"
    using Cons.prems(1,2) by auto
  obtain ht1 where ht1: "hash_insert True ht ?k n = Some ht1"
    using Cons.prems(4) ks(1) hash_insert_None [of ht ?k n] by (cases "hash_insert True ht ?k n") auto
  note lk = hash_lookup_insert [OF Cons.prems(3) ht1]
  have "\<forall>k \<in> set ks. hash_lookup ht1 k = None" using lk ks(1,3) Cons.prems(4) by auto
  from Cons.IH [OF ks(4,2) hash_insert_wf [OF Cons.prems(3) ht1] this, of "Suc n"] obtain ht2 where
    ht2: "insert_defaults True items (Suc n) ht1 = Some ht2" "hash_wf ht2"
    "\<forall>k. hash_lookup ht2 k = (case map_of (zip ks [Suc n..<Suc n + length items]) k of Some a \<Rightarrow> Some a | None \<Rightarrow> hash_lookup ht1 k)"
    by blast
  have "map_of (zip ks [Suc n..<Suc n + length items]) ?k = None"
    using ks(3) by (auto simp: map_of_eq_None_iff dest!: set_zip_leftD)
  moreover have "[n..<n + length (ci # items)] = n # [Suc n..<Suc n + length items]"
    by (subst upt_conv_Cons) simp_all
  ultimately show ?case using ht1 ht2 lk by (auto simp: ks(1) split: option.split)
qed

lemma config_created:
  obtains cfg where "config_create True = Some cfg" "config_wf cfg" "cfg_interfaces cfg = []"
proof -
  define items where "items = map (\<lambda>ci. ci\<lparr>ci_static := True\<rparr>) config_tab"
  define keys where "keys = map (\<lambda>ci. take 39 (''global.'' @ ci_label ci)) items"
  have len: "length items = n_opts" "length keys = n_opts" by (simp_all add: keys_def items_def)
  have key: "take 39 (''global.'' @ opt_label i) = section_key ''global'' (opt_label i)" if "i < n_opts" for i
    using opt_label_length [OF that] section_key_full [of "''global''" i] that by simp
  have nth: "keys ! i = section_key ''global'' (opt_label i)" if "i < n_opts" for i
    using key [OF that] that by (simp add: keys_def items_def)
  have dist: "distinct keys"
    unfolding distinct_conv_nth len
  proof (intro allI impI)
    fix i j assume ij: "i < n_opts" "j < n_opts" "i \<noteq> j"
    show "keys ! i \<noteq> keys ! j"
      unfolding nth [OF ij(1)] nth [OF ij(2)] using section_key_option [of "''global''" i "''global''" j] ij by auto
  qed
  obtain ht where ht: "insert_defaults True items 0 hash_create = Some ht" "hash_wf ht"
    "\<forall>k. hash_lookup ht k = map_of (zip keys [0..<n_opts]) k"
  proof -
    obtain h where "insert_defaults True items 0 hash_create = Some h" "hash_wf h"
      "\<forall>k. hash_lookup h k = (case map_of (zip keys [0..<0 + length items]) k of Some a \<Rightarrow> Some a | None \<Rightarrow> hash_lookup hash_create k)"
      using insert_defaults_spec [OF dist keys_def hash_create_wf, of 0] by auto
    moreover have "\<forall>k. hash_lookup h k = map_of (zip keys [0..<n_opts]) k"
    proof
      show "hash_lookup h k = map_of (zip keys [0..<n_opts]) k" for k
        using calculation(3) by (cases "map_of (zip keys [0..<n_opts]) k") (simp_all add: len(1))
    qed
    ultimately show ?thesis using that by blast
  qed
  define cfg where "cfg = \<lparr>cfg_interfaces = [], cfg_n_interfaces = 0, cfg_opts = config_alloc_longopts, cfg_htab = ht, cfg_items = items\<rparr>"
  have zip: "(k, a) \<in> set (zip keys [0..<n_opts]) \<longleftrightarrow> a < n_opts \<and> k = section_key ''global'' (opt_label a)" for k a
    unfolding in_set_zip using nth by (fastforce simp: len intro: exI [of _ a])
  have lk: "hash_lookup ht k = Some a \<longleftrightarrow> a < n_opts \<and> k = section_key ''global'' (opt_label a)" for k a
  proof -
    have "map_of (zip keys [0..<n_opts]) k = Some a \<longleftrightarrow> (k, a) \<in> set (zip keys [0..<n_opts])"
      using dist by (intro map_of_eq_Some_iff) (simp add: len)
    then show ?thesis using ht(3) zip by simp
  qed
  have g: "config_global_item cfg (opt_label i) = Some i" if "i < n_opts" for i
    using lk that by (simp add: config_global_item_def config_section_item_def cfg_def)
  have tab: "list_all (\<lambda>t. well_typed (ci_type t) (ci_val t)) config_tab"
    by (simp add: config_tab_def CONFIG_ITEM_INT_def CONFIG_ITEM_DBL_def CONFIG_ITEM_ENUM_def CONFIG_ITEM_STRING_def
        well_typed_def is_integral_def)
  have at: "item_at cfg i = (config_tab ! i)\<lparr>ci_static := True\<rparr>" if "i < n_opts" for i
    using that by (simp add: item_at_def cfg_def items_def)
  have "config_create True = Some cfg"
    using ht(1) g
    by (simp add: config_create_def Let_def items_def [symmetric] cfg_def [symmetric] list_all_length len)
      (simp add: items_def)
  moreover have "config_wf cfg"
    unfolding config_wf_def
  proof (intro conjI allI impI ballI)
    show "hash_wf (cfg_htab cfg)" "n_opts \<le> length (cfg_items cfg)" by (simp_all add: cfg_def ht(2) len)
    show "length (if_name i) \<le> 108" if "i \<in> set (cfg_interfaces cfg)" for i using that by (simp add: cfg_def)
    show "same_spec (config_tab ! i) (item_at cfg i)" "config_global_item cfg (opt_label i) = Some i" if "i < n_opts" for i
      using that g at by (simp_all add: same_spec_def)
    show "\<not> ci_port (item_at cfg a)" if "a < length (cfg_items cfg)" "n_opts \<le> a" for a using that by (simp add: cfg_def len)
    fix key a assume "hash_lookup (cfg_htab cfg) key = Some a"
    then have a: "a < n_opts" "key = section_key ''global'' (opt_label a)" using lk by (simp_all add: cfg_def)
    show "a < length (cfg_items cfg)" using a by (simp add: cfg_def len)
    have "conforms True (config_tab ! a) (item_at cfg a)" using tab a(1) by (simp add: conforms_def at list_all_length)
    then show "\<exists>i<n_opts. key_of cfg i key \<and> conforms (unambiguous cfg) (config_tab ! i) (item_at cfg a)"
      using a by (auto simp: key_of_def section_of_def conforms_def)
  next
    fix k1 k2 a assume "hash_lookup (cfg_htab cfg) k1 = Some a" "hash_lookup (cfg_htab cfg) k2 = Some a"
    then show "k1 = k2" using lk by (simp add: cfg_def)
  qed
  ultimately show ?thesis by (rule that) (simp add: cfg_def)
qed

lemma option_index: "opt \<in> set (map ci_label config_tab) \<Longrightarrow> \<exists>i<n_opts. opt = opt_label i"
  by (auto simp: in_set_conv_nth)

lemma harmonize_wf:
  assumes "config_wf cfg" and "config_harmonize_onestep mem cfg = Some (cfg', b)"
  shows "config_wf cfg'"
proof -
  have "list_all (\<lambda>t. ci_label t = ''time_stamping'' \<longrightarrow> in_range t (AnyInt 3)) config_tab"
    "list_all (\<lambda>t. ci_label t = ''twoStepFlag'' \<longrightarrow> in_range t (AnyInt 0)) config_tab"
    by (simp_all add: config_tab_def CONFIG_ITEM_INT_def CONFIG_ITEM_DBL_def CONFIG_ITEM_ENUM_def CONFIG_ITEM_STRING_def
        in_range_def int_of_any_def timestamping_enu_def)
  moreover have "\<exists>i<n_opts. ''time_stamping'' = opt_label i" "\<exists>i<n_opts. ''twoStepFlag'' = opt_label i"
    by (rule option_index; unfold config_labels; simp)+
  ultimately have "config_wf (fst (config_set_int mem cfg ''time_stamping'' 3))" "config_wf (fst (config_set_int mem cfg ''twoStepFlag'' 0))"
    using set_section_int_wf [OF assms(1), of _ _ None mem] unfolding config_set_int_def
    by (auto simp: list_all_length) (metis prod.collapse)+
  with assms show ?thesis by (auto simp: config_harmonize_onestep_def split: option.splits if_splits)
qed

text \<open>
  What the options of the command line and the configuration files make of the defaults.  The programs
  set options themselves, too, for their short options; \<open>set_int\<close> is such a step with a value in the
  range of the option.
\<close>

inductive configured :: "(string \<Rightarrow> (real \<times> string \<times> bool) option) \<Rightarrow> config \<Rightarrow> bool" for strtod where
  created: "config_create mem = Some cfg \<Longrightarrow> configured strtod cfg"
| option: "configured strtod cfg \<Longrightarrow> config_parse_option mem strtod cfg opt val = Some (cfg', b) \<Longrightarrow> configured strtod cfg'"
| read: "configured strtod cfg \<Longrightarrow> config_read mem strtod f cfg = Some (cfg', r) \<Longrightarrow> configured strtod cfg'"
| interface: "configured strtod cfg \<Longrightarrow> config_create_interface mem name cfg = (cfg', p) \<Longrightarrow> configured strtod cfg'"
| onestep: "configured strtod cfg \<Longrightarrow> config_harmonize_onestep mem cfg = Some (cfg', b) \<Longrightarrow> configured strtod cfg'"
| set_int: "configured strtod cfg \<Longrightarrow> i < n_opts \<Longrightarrow> in_range (config_tab ! i) (AnyInt v) \<Longrightarrow>
    configured strtod (fst (config_set_int mem cfg (opt_label i) v))"

lemma configured_wf: "configured strtod cfg \<Longrightarrow> config_wf cfg"
proof (induction rule: configured.induct)
  case (created mem cfg)
  then have "config_create True = Some cfg" by (cases mem) (simp_all add: config_create_def)
  then show ?case using config_created by (metis option.inject)
next
  case (option cfg mem opt val cfg' b)
  then show ?case using parse_item_wf [of cfg None] by (auto simp: config_parse_option_def)
next
  case (read cfg mem f cfg' r)
  have "reading (cfg, UNKNOWN_SECTION, [])" using read.IH by (simp add: reading_def)
  from read_lines_wf [OF this, of mem strtod] read show ?case by (cases f) (simp_all add: config_read_def)
next
  case (interface cfg mem name cfg' p)
  then show ?case using add_interface_wf by blast
next
  case (set_int cfg i v mem)
  then show ?case
    using set_section_int_wf [of cfg i v None mem] by (simp add: config_set_int_def) (metis prod.collapse)
qed (rule harmonize_wf)

lemma find_item_conforms:
  assumes "config_wf cfg" and "i < n_opts" and "length s \<le> 108"
  obtains a where "config_find_item cfg (if glob then None else Some s) (opt_label i) = Some a"
    "conforms (unambiguous cfg) (config_tab ! i) (item_at cfg a)"
proof -
  have g: "config_global_item cfg (opt_label i) = Some i" using config_wf_global [OF assms(1,2)] by simp
  have gc: "conforms (unambiguous cfg) (config_tab ! i) (item_at cfg i)"
    using config_wf_key(2) [OF assms(1) global_lookup [OF assms(1,2)] _ assms(2)] by (auto simp: key_of_def section_of_def)
  show ?thesis
  proof (cases "glob \<or> config_section_item cfg s (opt_label i) = None")
    case True
    with g gc that show ?thesis by (auto simp: config_find_item_def)
  next
    case False
    then obtain a where a: "config_section_item cfg s (opt_label i) = Some a" by auto
    obtain j where j: "j < n_opts" "key_of cfg j (section_key s (opt_label i))"
      "conforms (unambiguous cfg) (config_tab ! j) (item_at cfg a)" using config_wf_find [OF assms(1) a] .
    then obtain s' where "section_of cfg s'" "section_key s (opt_label i) = section_key s' (opt_label j)" by (auto simp: key_of_def)
    with section_key_option assms section_of_length j(1) have "i = j" by blast
    with a j False that show ?thesis by (simp add: config_find_item_def)
  qed
qed



subsection \<open>The command line has precedence\<close>

text \<open>A global item that the command line has set and that is no option of ports.\<close>

definition pinned :: "nat \<Rightarrow> config_item \<Rightarrow> config \<Rightarrow> bool" where
  "pinned a ci cfg \<longleftrightarrow> a < n_opts \<and> \<not> ci_port (config_tab ! a) \<and> ci_locked ci \<and> item_at cfg a = ci"

lemma pinned_update:
  assumes "config_wf cfg" and "pinned a ci cfg" and "b \<noteq> a"
  shows "pinned a ci (update_item b f cfg)"
proof -
  have "a < length (cfg_items cfg)" using assms(1,2) by (simp add: config_wf_def pinned_def)
  with assms(2,3) show ?thesis by (simp add: pinned_def item_at_def update_item_def)
qed

lemma pinned_alloc:
  assumes "config_wf cfg" and "pinned a ci cfg" and "config_item_alloc mem cfg s opt type = Some (cfg', b)"
  shows "pinned a ci cfg' \<and> b \<noteq> a"
proof -
  have "a < length (cfg_items cfg)" using assms(1,2) by (simp add: config_wf_def pinned_def)
  with assms(2) config_item_alloc_fields [OF assms(3)] show ?thesis by (simp add: pinned_def item_at_def nth_append)
qed

text \<open>The address of an option in a section is not that of another option.\<close>

lemma section_address:
  assumes "config_wf cfg" and "config_section_item cfg s (opt_label i) = Some b" and "section_of cfg s" "i < n_opts" "b < n_opts"
  shows "b = i"
proof -
  have "hash_lookup (cfg_htab cfg) (section_key s (opt_label i)) = Some b"
    using assms(2) by (simp add: config_section_item_def)
  with global_lookup [OF assms(1,5)] assms(1) have "section_key s (opt_label i) = section_key ''global'' (opt_label b)"
    unfolding config_wf_def by blast
  then show ?thesis using section_key_option section_of_length [OF assms(1,3)] assms(4,5) by fastforce
qed

lemma fault_options_port: "list_all (\<lambda>t. ci_label t \<in> fst ` set fault_options \<longrightarrow> ci_port t) config_tab"
  by (simp add: config_tab_def CONFIG_ITEM_INT_def CONFIG_ITEM_DBL_def CONFIG_ITEM_ENUM_def CONFIG_ITEM_STRING_def fault_options_def)

lemma section_update_pinned:
  assumes "config_wf cfg" and "pinned a ci cfg" and "section_of cfg s" and "i < n_opts" "i \<noteq> a"
    and "(case config_section_item cfg s (opt_label i) of Some dst \<Rightarrow> Some (cfg, dst)
       | None \<Rightarrow> config_item_alloc mem cfg s (opt_label i) type) = Some (cfg', b)"
  shows "pinned a ci (update_item b f cfg')"
proof (cases "config_section_item cfg s (opt_label i)")
  case None
  then have al: "config_item_alloc mem cfg s (opt_label i) type = Some (cfg', b)" using assms(6) by simp
  have "a < length (cfg_items cfg)" using assms(1,2) by (simp add: config_wf_def pinned_def)
  with pinned_alloc [OF assms(1,2) al] config_item_alloc_fields(2,3) [OF al] show ?thesis
    by (auto simp: pinned_def item_at_def update_item_def nth_append)
next
  case (Some dst)
  then have b: "cfg' = cfg" "config_section_item cfg s (opt_label i) = Some b" using assms(6) by simp_all
  have "a < n_opts" using assms(2) by (simp add: pinned_def)
  then have "b \<noteq> a" using section_address [OF assms(1) b(2) assms(3,4)] assms(5) by auto
  with pinned_update [OF assms(1,2)] b(1) show ?thesis by simp
qed

lemma set_section_int_pinned:
  assumes "config_wf cfg" and "pinned a ci cfg" and "i < n_opts" "i \<noteq> a" and "\<And>s. sct = Some s \<Longrightarrow> section_of cfg s"
  shows "pinned a ci (fst (config_set_section_int mem cfg sct (opt_label i) val))"
proof -
  have fi: "config_find_item cfg None (opt_label i) = Some i"
    using config_wf_global [OF assms(1,3)] by (simp add: config_find_item_def)
  show ?thesis
  proof (cases sct)
    case None
    then show ?thesis using assms(2) pinned_update [OF assms(1,2,4)] by (simp add: config_set_section_int_def fi)
  next
    case (Some s)
    then show ?thesis using assms(2) section_update_pinned [OF assms(1,2) assms(5) [OF Some] assms(3,4)]
      by (auto simp: config_set_section_int_def fi split: option.split)
  qed
qed

lemma parse_item_pinned:
  assumes "config_wf cfg" and "pinned a ci cfg" and "\<And>s. sct = Some s \<Longrightarrow> section_of cfg s"
    and "parse_item mem strtod cfg False sct opt val = Some (cfg', r)"
  shows "pinned a ci cfg'"
proof -
  obtain c0 r0 where f: "parse_fault_interval mem cfg sct opt val = Some (c0, r0)"
    using assms(4) by (auto simp: parse_item_def split: option.splits)
  have c0: "config_wf c0" "cfg_interfaces c0 = cfg_interfaces cfg"
    using parse_fault_interval_wf [OF assms(1,3) f] by simp_all
  then have sect: "\<And>s. sct = Some s \<Longrightarrow> section_of c0 s" using assms(3) by (simp add: section_of_def)
  have a: "a < n_opts" "\<not> ci_port (config_tab ! a)" "ci_locked ci" using assms(2) by (simp_all add: pinned_def)
  have p0: "pinned a ci c0"
  proof (cases "strcaseeq ''ASAP'' val \<and> map_of fault_options opt \<noteq> None")
    case False
    then show ?thesis using assms(2) f by (auto simp: parse_fault_interval_def split: option.splits if_splits)
  next
    case True
    then obtain v where v: "map_of fault_options opt = Some v" by auto
    then obtain i where i: "i < n_opts" "opt = opt_label i" using fault_option_index by metis
    have "opt \<in> fst ` set fault_options" using v by (force dest: map_of_SomeD)
    then have "i \<noteq> a" using fault_options_port i a(2) by (auto simp: list_all_length)
    from set_section_int_pinned [OF assms(1,2) i(1) this assms(3), of sct mem v] True v f i(2) show ?thesis
      by (auto simp: parse_fault_interval_def split: prod.splits bool.splits)
  qed
  show ?thesis
  proof (cases "r0 \<noteq> NOT_PARSED \<or> config_global_item c0 opt = None")
    case True
    then show ?thesis using assms(4) f p0 by (auto simp: parse_item_def split: if_splits)
  next
    case False
    then obtain g where g: "r0 = NOT_PARSED" "config_global_item c0 opt = Some g" by auto
    let ?cgi = "item_at c0 g"
    show ?thesis
    proof (cases sct)
      case None
      show ?thesis
      proof (cases "ci_locked ?cgi")
        case True
        then show ?thesis using assms(4) f g None p0 by (auto simp: parse_item_def Let_def split: sum.splits)
      next
        case False
        then have "g \<noteq> a" using p0 by (auto simp: pinned_def)
        then show ?thesis
          using assms(4) f g None False p0 pinned_update [OF c0(1) p0]
          by (auto simp: parse_item_def Let_def store_item_def split: sum.splits if_splits)
      qed
    next
      case (Some s)
      show ?thesis
      proof (cases "ci_port ?cgi")
        case False
        then show ?thesis using assms(4) f g Some p0 by (auto simp: parse_item_def Let_def split: sum.splits)
      next
        case True
        obtain i where "g < length (cfg_items c0)"
          using config_wf_find [OF c0(1) g(2) [unfolded config_global_item_def]] by metis
        then have g80: "g < n_opts" using True c0(1) unfolding config_wf_def by (metis linorder_not_less)
        have opt: "opt = opt_label g" using global_address [OF c0(1) g(2) g80] .
        have "same_spec (config_tab ! g) ?cgi" using config_wf_global [OF c0(1) g80] by simp
        then have "g \<noteq> a" using True a(2) by (auto simp: same_spec_def)
        note u = section_update_pinned [OF c0(1) p0 sect [OF Some] g80 this]
        show ?thesis
          using assms(4) f g Some True p0 u [of mem "ci_type ?cgi"]
          by (auto simp: parse_item_def Let_def opt store_item_def split: sum.splits option.splits if_splits)
      qed
    qed
  qed
qed

lemma pinned_interface: "config_create_interface mem name cfg = (cfg', p) \<Longrightarrow> pinned a ci cfg \<Longrightarrow> pinned a ci cfg'"
  by (auto simp: config_create_interface_def pinned_def item_at_def split: option.splits if_splits)

lemma read_line_pinned:
  assumes "reading st" and "pinned a ci (fst st)" and "read_line mem strtod line st = Some x"
  shows "(\<forall>cfg. x = Inl cfg \<longrightarrow> pinned a ci cfg) \<and> (\<forall>st'. x = Inr st' \<longrightarrow> pinned a ci (fst st'))"
proof -
  obtain cfg current port where st: "st = (cfg, current, port)" by (cases st)
  have p: "pinned a ci cfg" "config_wf cfg" and port: "current = PORT_SECTION \<Longrightarrow> section_of cfg port"
    using assms(1,2) by (simp_all add: st reading_def)
  show ?thesis
  proof (cases "parse_section_line line")
    case (Some sl)
    obtain sct l where sl: "sl = (sct, l)" by fastforce
    show ?thesis
      using assms(3) Some p pinned_interface [OF _ p(1), of mem]
      by (cases sct) (auto simp: read_line_def st sl split: option.splits prod.splits)
  next
    case None
    show ?thesis
    proof (cases "current = UNKNOWN_SECTION \<or> parse_setting_line line = None")
      case True
      then have "x = Inl cfg" using assms(3) None by (auto simp: read_line_def st split: if_splits)
      with p show ?thesis by simp
    next
      case False
      then obtain opt val where v: "parse_setting_line line = Some (opt, val)" by auto
      let ?sct = "if current = GLOBAL_SECTION then None else Some port"
      obtain c r where c: "parse_item mem strtod cfg False ?sct (check_deprecated_options opt) val = Some (c, r)"
        and x: "x = (if r = PARSED_OK then Inr (c, current, port) else Inl c)"
        using assms(3) None False v by (auto simp: read_line_def st split: option.splits if_splits)
      have "\<And>s. ?sct = Some s \<Longrightarrow> section_of cfg s" using False port by (cases current) auto
      from parse_item_pinned [OF p(2,1) this c] x show ?thesis by auto
    qed
  qed
qed

lemma read_lines_pinned:
  "reading st \<Longrightarrow> pinned a ci (fst st) \<Longrightarrow> read_lines mem strtod bufs st = Some (cfg, r) \<Longrightarrow> pinned a ci cfg"
proof (induction bufs arbitrary: st)
  case (Cons buf bufs)
  show ?case
  proof (cases "trim_line buf = [] \<or> hd (trim_line buf) = CHR ''#''")
    case True
    with Cons show ?thesis by (auto simp: Let_def)
  next
    case False
    then obtain x where x: "read_line mem strtod (trim_line buf) st = Some x"
      using Cons.prems(3) by (auto simp: Let_def split: option.splits)
    with False Cons read_line_wf [OF Cons.prems(1) x] read_line_pinned [OF Cons.prems(1,2) x] show ?thesis
      by (cases x) (auto simp: Let_def)
  qed
qed simp

lemma parse_value_not_ok: "parse_value strtod ci val \<noteq> Inl PARSED_OK"
  by (auto simp: parse_value_def get_ranged_int_def get_ranged_double_def get_ranged_def map_sum_def
      split: config_type.split option.split sum.split if_splits)

lemma option_pinned:
  assumes "config_wf cfg" and "i < n_opts" and "\<not> ci_port (config_tab ! i)"
    and "config_parse_option mem strtod cfg (opt_label i) val = Some (cfg', False)"
  shows "pinned i (item_at cfg' i) cfg'"
proof -
  have "opt_label i \<notin> fst ` set fault_options" using fault_options_port assms(2,3) by (auto simp: list_all_length)
  then have "map_of fault_options (opt_label i) = None" by (simp add: map_of_eq_None_iff)
  then have f: "parse_fault_interval mem cfg None (opt_label i) val = Some (cfg, NOT_PARSED)"
    by (simp add: parse_fault_interval_def)
  have g: "config_global_item cfg (opt_label i) = Some i" using config_wf_global [OF assms(1,2)] by simp
  have p: "parse_item mem strtod cfg True None (opt_label i) val = Some (cfg', PARSED_OK)"
    using assms(4) by (auto simp: config_parse_option_def)
  then obtain v where v: "parse_value strtod (item_at cfg i) val = Inr v" "store_item mem True i v cfg = (cfg', PARSED_OK)"
    using f g parse_value_not_ok by (auto simp: parse_item_def Let_def split: sum.splits)
  have "i < length (cfg_items cfg)" using assms(1,2) by (simp add: config_wf_def)
  with v(2) have "ci_locked (item_at cfg' i)" by (auto simp: store_item_def item_at_update Let_def split: if_splits)
  with assms(2,3) show ?thesis by (simp add: pinned_def)
qed

text \<open>
  C15: the command line has precedence.  A global option that the command line has set successfully
  keeps its value whatever configuration file is read afterwards, a malformed one included.
\<close>

theorem command_line_wins:
  assumes "configured strtod cfg" and "t \<in> set config_tab" and "\<not> ci_port t"
    and "config_parse_option mem strtod cfg (ci_label t) val = Some (cfg1, False)"
    and "config_read mem2 strtod f cfg1 = Some (cfg2, r)"
  shows "config_get_int cfg2 None (ci_label t) = config_get_int cfg1 None (ci_label t) \<and>
    config_get_double cfg2 None (ci_label t) = config_get_double cfg1 None (ci_label t) \<and>
    config_get_string cfg2 None (ci_label t) = config_get_string cfg1 None (ci_label t)"
proof -
  obtain i where i: "i < n_opts" "t = config_tab ! i" using assms(2) by (auto simp: in_set_conv_nth)
  have c1: "configured strtod cfg1" using configured.option [OF assms(1,4)] .
  note wf = configured_wf [OF assms(1)] configured_wf [OF c1] configured_wf [OF configured.read [OF c1 assms(5)]]
  have p: "pinned i (item_at cfg1 i) cfg1" using option_pinned [OF wf(1) i(1)] assms(3,4) i(2) by simp
  have rd: "reading (cfg1, UNKNOWN_SECTION, [])" using wf(2) by (simp add: reading_def)
  have "pinned i (item_at cfg1 i) cfg2"
    using assms(5) p read_lines_pinned [OF rd, of i "item_at cfg1 i" mem2 strtod] by (cases f) (simp_all add: config_read_def)
  then have "item_at cfg2 i = item_at cfg1 i" by (simp add: pinned_def)
  moreover have "config_find_item cfg1 None (ci_label t) = Some i" "config_find_item cfg2 None (ci_label t) = Some i"
    using config_wf_global [OF wf(2) i(1)] config_wf_global [OF wf(3) i(1)] i(2) by (simp_all add: config_find_item_def)
  ultimately show ?thesis by (simp add: config_get_int_def config_get_double_def config_get_string_def)
qed

text \<open>A file that resets the interval in the global section.\<close>

definition asap_file :: string where
  "asap_file = ''[global]'' @ [CHR 0x0A] @ ''fault_reset_interval ASAP'' @ [CHR 0x0A]"

lemma asap_file_lines:
  "fgets_lines asap_file = [''[global]'' @ [CHR 0x0A], ''fault_reset_interval ASAP'' @ [CHR 0x0A]]"
  "trim_line (''[global]'' @ [CHR 0x0A]) = ''[global]''"
  "trim_line (''fault_reset_interval ASAP'' @ [CHR 0x0A]) = ''fault_reset_interval ASAP''"
  "parse_section_line ''[global]'' = Some (GLOBAL_SECTION, ''[global]'')"
  "parse_section_line ''fault_reset_interval ASAP'' = None"
  "parse_setting_line ''fault_reset_interval ASAP'' = Some (''fault_reset_interval'', ''ASAP'')"
  by code_simp+

text \<open>
  the lock does not protect the fault intervals.  The value ASAP in a configuration file replaces
  the \<open>fault_reset_interval\<close> that the command line has set.
\<close>

theorem asap_overrides_command_line:
  assumes "configured strtod cfg"
    and "config_parse_option mem strtod cfg ''fault_reset_interval'' val = Some (cfg1, False)"
  shows "\<exists>cfg2. config_read mem strtod (Some asap_file) cfg1 = Some (cfg2, 0) \<and>
    config_get_int cfg2 None ''fault_reset_interval'' = Some (-128)"
proof -
  have wf: "config_wf cfg1" using configured_wf [OF configured.option [OF assms]] .
  have "map_of fault_options ''fault_reset_interval'' = Some (-128)" by (simp add: fault_options_def)
  moreover from this obtain i where i: "i < n_opts" "''fault_reset_interval'' = opt_label i"
    "in_range (config_tab ! i) (AnyInt (-128))" using fault_option_index by metis
  moreover have "strcaseeq ''ASAP'' ''ASAP''" by (simp add: strcaseeq_def)
  moreover have g: "config_global_item cfg1 ''fault_reset_interval'' = Some i" "same_spec (config_tab ! i) (item_at cfg1 i)"
    using config_wf_global [OF wf i(1)] by (simp_all add: i(2))
  moreover have "list_all (\<lambda>t. ci_label t = ''fault_reset_interval'' \<longrightarrow> is_integral (ci_type t)) config_tab"
    by (simp add: config_tab_def CONFIG_ITEM_INT_def CONFIG_ITEM_DBL_def CONFIG_ITEM_ENUM_def CONFIG_ITEM_STRING_def is_integral_def)
  then have int: "is_integral (ci_type (item_at cfg1 i))" using i g(2) by (auto simp: list_all_length same_spec_def)
  let ?c = "update_item i (\<lambda>ci. ci\<lparr>ci_locked := True, ci_val := AnyInt (-128)\<rparr>) cfg1"
  have "config_set_section_int mem cfg1 None ''fault_reset_interval'' (-128) = (?c, False)"
    using g(1) int by (simp add: config_set_section_int_def config_find_item_def)
  ultimately have "parse_item mem strtod cfg1 False None ''fault_reset_interval'' ''ASAP'' = Some (?c, PARSED_OK)"
    by (simp add: parse_item_def parse_fault_interval_def)
  then have "config_read mem strtod (Some asap_file) cfg1 = Some (?c, 0)"
    unfolding config_read_def option.case asap_file_lines(1)
    by (simp add: asap_file_lines [simplified] read_line_def check_deprecated_options_def)
  moreover have "i < length (cfg_items cfg1)" using wf i(1) by (simp add: config_wf_def)
  then have "item_at ?c i = (item_at cfg1 i)\<lparr>ci_locked := True, ci_val := AnyInt (-128)\<rparr>" by (simp add: item_at_update)
  then have "config_get_int ?c None ''fault_reset_interval'' = Some (-128)"
    using g(1) int by (simp add: config_get_int_def config_find_item_def)
  ultimately show ?thesis by blast
qed

lemma created_option:
  assumes "config_create True = Some cfg" and "i < n_opts" and "parse_value strtod (config_tab ! i) val = Inr v"
    and "\<not> strcaseeq ''ASAP'' val"
  shows "\<exists>cfg1. config_parse_option True strtod cfg (opt_label i) val = Some (cfg1, False)"
proof -
  have wf: "config_wf cfg" using configured_wf [OF configured.created [OF assms(1)]] .
  note g = config_wf_global [OF wf assms(2)]
  have "parse_value strtod (item_at cfg i) val = Inr v"
    using assms(3) g by (simp add: parse_value_def same_spec_def cong: config_type.case_cong)
  then show ?thesis
    using g assms(4) by (auto simp: config_parse_option_def parse_item_def parse_fault_interval_def store_item_def Let_def)
qed

definition priority_file :: string where
  "priority_file = ''[global]'' @ [CHR 0x0A] @ ''priority1 5'' @ [CHR 0x0A]"

lemma priority_file_lines:
  "fgets_lines priority_file = [''[global]'' @ [CHR 0x0A], ''priority1 5'' @ [CHR 0x0A]]"
  "trim_line (''[global]'' @ [CHR 0x0A]) = ''[global]''"
  "trim_line (''priority1 5'' @ [CHR 0x0A]) = ''priority1 5''"
  "parse_section_line ''[global]'' = Some (GLOBAL_SECTION, ''[global]'')"
  "parse_section_line ''priority1 5'' = None"
  "parse_setting_line ''priority1 5'' = Some (''priority1'', ''5'')"
  by code_simp+

lemma priority1_option:
  obtains i where "i < n_opts" "opt_label i = ''priority1''" "\<not> ci_port (config_tab ! i)"
    "parse_value (\<lambda>_. None) (config_tab ! i) ''100'' = Inr (AnyInt 100)" "parse_value (\<lambda>_. None) (config_tab ! i) ''5'' = Inr (AnyInt 5)"
proof -
  have n: "get_ranged_int ''100'' 0 255 = Inr 100" "get_ranged_int ''5'' 0 255 = Inr 5" by code_simp+
  have "list_all (\<lambda>t. ci_label t = ''priority1'' \<longrightarrow> \<not> ci_port t \<and> parse_value (\<lambda>_. None) t ''100'' = Inr (AnyInt 100) \<and>
      parse_value (\<lambda>_. None) t ''5'' = Inr (AnyInt 5)) config_tab"
    by (simp add: config_tab_def CONFIG_ITEM_INT_def CONFIG_ITEM_DBL_def CONFIG_ITEM_ENUM_def CONFIG_ITEM_STRING_def
        parse_value_def int_of_any_def n)
  moreover have "\<exists>i<n_opts. ''priority1'' = opt_label i" by (rule option_index, unfold config_labels, simp)
  ultimately show ?thesis using that by (auto simp: list_all_length)
qed

text \<open>The command line sets the priority to 100, and the file asks for 5.\<close>

lemma command_line_wins_witness:
  "\<exists>cfg1 cfg2. config_parse_option True (\<lambda>_. None) (the (config_create True)) ''priority1'' ''100'' = Some (cfg1, False) \<and>
     config_read True (\<lambda>_. None) (Some priority_file) cfg1 = Some (cfg2, 0) \<and>
     config_get_int cfg2 None ''priority1'' = config_get_int cfg1 None ''priority1''"
proof -
  obtain cfg where c: "config_create True = Some cfg" using config_created by metis
  obtain i where i: "i < n_opts" "opt_label i = ''priority1''" "\<not> ci_port (config_tab ! i)"
    "parse_value (\<lambda>_. None) (config_tab ! i) ''100'' = Inr (AnyInt 100)" "parse_value (\<lambda>_. None) (config_tab ! i) ''5'' = Inr (AnyInt 5)"
    by (rule priority1_option)
  note co = configured.created [OF c, of "\<lambda>_. None"]
  obtain cfg1 where c1: "config_parse_option True (\<lambda>_. None) cfg ''priority1'' ''100'' = Some (cfg1, False)"
    using created_option [OF c i(1,4)] i(2) by (auto simp: strcaseeq_def to_lower_def)
  have w1: "config_wf cfg1" using configured_wf [OF configured.option [OF co c1]] .
  have g: "config_global_item cfg1 ''priority1'' = Some i" "same_spec (config_tab ! i) (item_at cfg1 i)"
    using config_wf_global [OF w1 i(1)] by (simp_all add: i(2))
  have l: "ci_locked (item_at cfg1 i)"
    using option_pinned [OF configured_wf [OF co] i(1,3), of True "\<lambda>_. None" "''100''" cfg1] c1 by (simp add: i(2) pinned_def)
  have "parse_value (\<lambda>_. None) (item_at cfg1 i) ''5'' = Inr (AnyInt 5)"
    using i(5) g(2) by (simp add: parse_value_def same_spec_def cong: config_type.case_cong)
  then have "parse_item True (\<lambda>_. None) cfg1 False None ''priority1'' ''5'' = Some (cfg1, PARSED_OK)"
    using g(1) l by (simp add: parse_item_def parse_fault_interval_def strcaseeq_def to_lower_def)
  then have r: "config_read True (\<lambda>_. None) (Some priority_file) cfg1 = Some (cfg1, 0)"
    unfolding config_read_def option.case priority_file_lines(1)
    by (simp add: priority_file_lines [simplified] read_line_def check_deprecated_options_def)
  from command_line_wins [OF co nth_mem [OF i(1)] i(3) c1 [folded i(2)] r] c1 r show ?thesis
    unfolding i(2) by (auto simp: c)
qed

text \<open>The command line asks for an interval of 16 seconds.\<close>

lemma asap_overrides_witness:
  "\<exists>cfg1 cfg2. config_parse_option True (\<lambda>_. None) (the (config_create True)) ''fault_reset_interval'' ''4'' = Some (cfg1, False) \<and>
     config_read True (\<lambda>_. None) (Some asap_file) cfg1 = Some (cfg2, 0) \<and> config_get_int cfg2 None ''fault_reset_interval'' = Some (-128)"
proof -
  obtain cfg where c: "config_create True = Some cfg" using config_created by metis
  have n: "get_ranged_int ''4'' (-128) 127 = Inr 4" by code_simp
  have "list_all (\<lambda>t. ci_label t = ''fault_reset_interval'' \<longrightarrow> parse_value (\<lambda>_. None) t ''4'' = Inr (AnyInt 4)) config_tab"
    by (simp add: config_tab_def CONFIG_ITEM_INT_def CONFIG_ITEM_DBL_def CONFIG_ITEM_ENUM_def CONFIG_ITEM_STRING_def
        parse_value_def int_of_any_def n)
  moreover have "\<exists>i<n_opts. ''fault_reset_interval'' = opt_label i" by (rule option_index, unfold config_labels, simp)
  ultimately obtain i where i: "i < n_opts" "opt_label i = ''fault_reset_interval''"
    "parse_value (\<lambda>_. None) (config_tab ! i) ''4'' = Inr (AnyInt 4)" by (auto simp: list_all_length)
  obtain cfg1 where c1: "config_parse_option True (\<lambda>_. None) cfg ''fault_reset_interval'' ''4'' = Some (cfg1, False)"
    using created_option [OF c i(1,3)] i(2) by (auto simp: strcaseeq_def to_lower_def)
  from asap_overrides_command_line [OF configured.created [OF c] c1] c1 show ?thesis by (auto simp: c)
qed

end
