(* ===== verification/Defaults.thy ===== *)
theory Defaults
  imports ClockCreate ConfigProps
begin

text \<open>
  The configuration that ptp4l has with no file: what every option gives for every section, and after
  options of the command line and the sections of \<open>configure_uds\<close> have been set.  With it the creation of the clock
  is evaluated in closed form.
\<close>

subsection \<open>The default configuration\<close>

lemma created_items:
  assumes "config_create True = Some cfg" "i < n_opts"
  shows "config_global_item cfg (opt_label i) = Some i" "item_at cfg i = (config_tab ! i)\<lparr>ci_static := True\<rparr>"
  using assms by (auto simp: config_create_def Let_def list_all_length item_at_def split: option.splits if_splits)

definition plain_section :: "string \<Rightarrow> bool" where
  "plain_section s \<longleftrightarrow> length s \<le> 108 \<and> s \<noteq> ''global''"

lemma section_key_inj:
  assumes "section_key s (opt_label i) = section_key s' (opt_label j)" "length s \<le> 108" "length s' \<le> 108" "i < n_opts" "j < n_opts"
  shows "i = j \<and> s = s'"
proof -
  have "i = j" by (rule section_key_option [OF assms])
  with assms show ?thesis by (simp add: section_key_full)
qed

lemma created_sections:
  assumes "config_create True = Some cfg" "i < n_opts" "plain_section s"
  shows "config_section_item cfg s (opt_label i) = None"
proof (rule ccontr)
  assume "config_section_item cfg s (opt_label i) \<noteq> None"
  then obtain a where a: "config_section_item cfg s (opt_label i) = Some a" by auto
  obtain c where "config_create True = Some c" "config_wf c" "cfg_interfaces c = []" by (rule config_created)
  with assms(1) have wf: "config_wf cfg" "cfg_interfaces cfg = []" by simp_all
  obtain j where j: "j < n_opts" "key_of cfg j (section_key s (opt_label i))"
    using config_wf_find [OF wf(1) a] by blast
  then obtain s' where s': "section_of cfg s'" "section_key s (opt_label i) = section_key s' (opt_label j)" by (auto simp: key_of_def)
  then have "s = s'" using section_key_inj [of s i s' j] section_of_length [OF wf(1)] assms(2,3) j(1)
    by (auto simp: plain_section_def)
  with s'(1) wf(2) assms(3) show False by (auto simp: section_of_def plain_section_def)
qed

text \<open>
  A configuration in which the values of the options are \<open>f\<close>, with the sections \<open>names\<close> set up for the
  options \<open>opts\<close>.
\<close>

definition holds_values :: "(string option \<Rightarrow> nat \<Rightarrow> any_t) \<Rightarrow> Config.config \<Rightarrow> bool" where
  "holds_values f cfg \<longleftrightarrow> length (cfg_htab cfg) = 200 \<and>
    (\<forall>key a. hash_lookup (cfg_htab cfg) key = Some a \<longrightarrow> a < length (cfg_items cfg)) \<and>
    (\<forall>i<n_opts. config_global_item cfg (opt_label i) = Some i \<and> ci_type (item_at cfg i) = ci_type (config_tab ! i)) \<and>
    (\<forall>i<n_opts. \<forall>sct. (\<forall>s. sct = Some s \<longrightarrow> plain_section s) \<longrightarrow>
      (\<exists>a. config_find_item cfg sct (opt_label i) = Some a \<and> ci_type (item_at cfg a) = ci_type (config_tab ! i) \<and>
        ci_val (item_at cfg a) = f sct i))"

lemma created_holds:
  assumes "config_create True = Some cfg"
  shows "holds_values (\<lambda>_ i. ci_val (config_tab ! i)) cfg"
proof -
  obtain c where "config_create True = Some c" "config_wf c" by (rule config_created)
  with assms have wf: "config_wf cfg" by simp
  then have "length (cfg_htab cfg) = 200" "\<forall>key a. hash_lookup (cfg_htab cfg) key = Some a \<longrightarrow> a < length (cfg_items cfg)"
    by (auto simp: config_wf_def hash_wf_def)
  then show ?thesis
    using created_items [OF assms] created_sections [OF assms]
    by (auto simp: holds_values_def config_find_item_def split: option.splits)
qed

lemma holds_find:
  assumes "holds_values f cfg" "\<forall>s. sct = Some s \<longrightarrow> plain_section s" "i < n_opts"
  obtains a where "config_find_item cfg sct (opt_label i) = Some a" "ci_type (item_at cfg a) = ci_type (config_tab ! i)"
    "ci_val (item_at cfg a) = f sct i"
  using assms unfolding holds_values_def by blast

lemma holds_get_int:
  assumes "holds_values f cfg" "\<forall>s. sct = Some s \<longrightarrow> plain_section s" "i < n_opts" "opt = opt_label i"
    and "is_integral (ci_type (config_tab ! i))" "f sct i = AnyInt v"
  shows "config_get_int cfg sct opt = Some v"
  by (rule holds_find [OF assms(1-3)]) (simp add: assms(4-6) config_get_int_def)

lemma holds_get_text:
  assumes "holds_values f cfg" "i < n_opts" "opt = opt_label i" "ci_type (config_tab ! i) = CFG_TYPE_STRING"
    and "f None i = AnyString (Some v)"
  shows "get_text cfg opt = Some v"
  by (rule holds_find [OF assms(1) _ assms(2), of None]) (simp_all add: assms(3-5) config_get_string_def get_text_def)

lemma find_item_cong:
  "cfg_htab cfg' = cfg_htab cfg \<Longrightarrow> config_find_item cfg' = config_find_item cfg \<and> config_global_item cfg' = config_global_item cfg"
  by (auto simp: config_find_item_def config_global_item_def config_section_item_def fun_eq_iff split: option.split)

lemma holds_interfaces:
  assumes "holds_values f cfg"
  shows "holds_values f (cfg\<lparr>cfg_interfaces := ifs, cfg_n_interfaces := n\<rparr>)"
proof -
  let ?c = "cfg\<lparr>cfg_interfaces := ifs, cfg_n_interfaces := n\<rparr>"
  have "cfg_htab ?c = cfg_htab cfg" "cfg_items ?c = cfg_items cfg" by simp_all
  with find_item_cong [OF this(1)] assms show ?thesis unfolding holds_values_def item_at_def by simp
qed

text \<open>Setting a global option, as the command line does, and an option of a section for the first time.\<close>

lemma set_global_holds:
  assumes "holds_values f cfg" "k < n_opts" "is_integral (ci_type (config_tab ! k))"
    and "\<forall>i<n_opts. \<forall>s. plain_section s \<longrightarrow> config_section_item cfg s (opt_label i) = None"
  shows "\<exists>cfg'. config_set_int mem cfg (opt_label k) v = (cfg', False) \<and> cfg_interfaces cfg' = cfg_interfaces cfg \<and>
    holds_values (\<lambda>sct i. if i = k then AnyInt v else f sct i) cfg'"
proof -
  have g: "config_global_item cfg (opt_label i) = Some i" "ci_type (item_at cfg i) = ci_type (config_tab ! i)" if "i < n_opts" for i
    using assms(1) that by (simp_all add: holds_values_def)
  let ?u = "update_item k (\<lambda>ci. ci\<lparr>ci_locked := True, ci_val := AnyInt v\<rparr>) cfg"
  have k: "k < length (cfg_items cfg)"
    using g(1) [OF assms(2)] assms(1) by (auto simp: holds_values_def config_global_item_def config_section_item_def)
  have set: "config_set_int mem cfg (opt_label k) v = (?u, False)"
    using g [OF assms(2)] assms(3) by (simp add: config_set_int_def config_set_section_int_def config_find_item_def)
  have find: "config_find_item cfg sct (opt_label i) = Some i" if "i < n_opts" "\<forall>s. sct = Some s \<longrightarrow> plain_section s" for sct i
    using g(1) [OF that(1)] assms(4) that by (cases sct) (simp_all add: config_find_item_def)
  have val: "ci_val (item_at cfg i) = f sct i" if "i < n_opts" "\<forall>s. sct = Some s \<longrightarrow> plain_section s" for sct i
    using holds_find [OF assms(1) that(2,1)] find [OF that] by (metis option.inject)
  have "holds_values (\<lambda>sct i. if i = k then AnyInt v else f sct i) ?u"
    unfolding holds_values_def
  proof (intro conjI allI impI)
    show "length (cfg_htab ?u) = 200" using assms(1) by (simp add: holds_values_def)
    show "a < length (cfg_items ?u)" if "hash_lookup (cfg_htab ?u) key = Some a" for key a
      using assms(1) that by (auto simp: holds_values_def)
    show "config_global_item ?u (opt_label i) = Some i" "ci_type (item_at ?u i) = ci_type (config_tab ! i)" if "i < n_opts" for i
      using g [OF that] by (auto simp: item_at_update [OF k])
    show "\<exists>a. config_find_item ?u sct (opt_label i) = Some a \<and> ci_type (item_at ?u a) = ci_type (config_tab ! i) \<and>
        ci_val (item_at ?u a) = (if i = k then AnyInt v else f sct i)"
      if "i < n_opts" "\<forall>s. sct = Some s \<longrightarrow> plain_section s" for i sct
      using find [OF that] val [OF that] g(2) [OF that(1)] conjunct1 [OF find_item_cong [of ?u cfg]]
      by (auto simp: item_at_update [OF k])
  qed
  with set show ?thesis by auto
qed

lemma lookup_inserted:
  assumes "hash_insert True ht key a = Some ht'" "length ht = 200"
  shows "hash_lookup ht' k = (if k = key then Some a else hash_lookup ht k)" "length ht' = 200"
proof -
  have ht': "ht' = ht[hash_function key := (key, a) # ht ! hash_function key]"
    using assms(1) by (auto simp: hash_insert_def Let_def split: if_splits)
  show "length ht' = 200" using assms(2) by (simp add: ht')
  show "hash_lookup ht' k = (if k = key then Some a else hash_lookup ht k)"
    using assms(2) hash_function_less [of k] by (auto simp: ht' hash_lookup_def nth_list_update)
qed

lemma set_section_holds:
  assumes "holds_values f cfg" "k < n_opts" "is_integral (ci_type (config_tab ! k))" "plain_section name"
    and "config_section_item cfg name (opt_label k) = None"
  shows "\<exists>cfg'. config_set_section_int True cfg (Some name) (opt_label k) v = (cfg', False) \<and>
    holds_values (\<lambda>sct i. if sct = Some name \<and> i = k then AnyInt v else f sct i) cfg' \<and>
    (\<forall>i<n_opts. i \<noteq> k \<longrightarrow> config_section_item cfg' name (opt_label i) = config_section_item cfg name (opt_label i))"
proof -
  define K where "K = section_key name (opt_label k)"
  define a where "a = length (cfg_items cfg)"
  define z where "z = zero_item (opt_label k) (ci_type (config_tab ! k))"
  have len: "length (cfg_htab cfg) = 200" and below: "\<And>key b. hash_lookup (cfg_htab cfg) key = Some b \<Longrightarrow> b < a"
    and g: "\<And>i. i < n_opts \<Longrightarrow> config_global_item cfg (opt_label i) = Some i \<and> ci_type (item_at cfg i) = ci_type (config_tab ! i)"
    using assms(1) by (auto simp: holds_values_def a_def)
  have name: "length name \<le> 108" "name \<noteq> ''global''" using assms(4) by (auto simp: plain_section_def)
  have "hash_insert True (cfg_htab cfg) K a \<noteq> None"
    using assms(5) hash_insert_None [of "cfg_htab cfg" K a] by (simp add: config_section_item_def K_def)
  then obtain ht where ht: "hash_insert True (cfg_htab cfg) K a = Some ht" by auto
  note lk = lookup_inserted [OF ht len]
  have label: "ci_label z = opt_label k" "ci_type z = ci_type (config_tab ! k)"
    using opt_label_length [OF assms(2)] by (simp_all add: z_def zero_item_def)
  define c1 where "c1 = cfg\<lparr>cfg_htab := ht, cfg_items := cfg_items cfg @ [z]\<rparr>"
  define u where "u = update_item a (\<lambda>ci. ci\<lparr>ci_val := AnyInt v\<rparr>) c1"
  have alloc: "config_item_alloc True cfg name (opt_label k) (ci_type (config_tab ! k)) = Some (c1, a)"
    using ht label by (simp add: config_item_alloc_def Let_def z_def [symmetric] a_def [symmetric] K_def [symmetric] c1_def)
  have set: "config_set_section_int True cfg (Some name) (opt_label k) v = (u, False)"
    using g [OF assms(2)] assms(3,5) alloc by (simp add: config_set_section_int_def config_find_item_def u_def)
  have htab: "cfg_htab u = ht" by (simp add: u_def c1_def)
  have item: "item_at u b = (if b = a then z\<lparr>ci_val := AnyInt v\<rparr> else item_at c1 b)" for b
    unfolding u_def by (subst item_at_update) (simp_all add: c1_def a_def item_at_def)
  have old: "item_at u b = item_at cfg b" if "b < a" for b
    using that unfolding item by (simp add: c1_def item_at_def a_def nth_append)
  have sect: "config_section_item u s (opt_label i) = (if s = name \<and> i = k then Some a else config_section_item cfg s (opt_label i))"
    if "i < n_opts" "length s \<le> 108" for s i
    using section_key_inj [of s i name k] that assms(2) name(1) by (auto simp: config_section_item_def htab lk(1) K_def)
  have glob: "config_global_item u (opt_label i) = Some i" "i < a" if "i < n_opts" for i
    using sect [OF that, of "''global''"] name g [OF that] below by (auto simp: config_global_item_def config_section_item_def)
  have "holds_values (\<lambda>sct i. if sct = Some name \<and> i = k then AnyInt v else f sct i) u"
    unfolding holds_values_def
  proof (intro conjI allI impI)
    show "length (cfg_htab u) = 200" using lk(2) by (simp add: htab)
    show "b < length (cfg_items u)" if "hash_lookup (cfg_htab u) key = Some b" for key b
      using that below [of key b] by (auto simp: htab lk(1) u_def c1_def a_def split: if_splits)
    show "config_global_item u (opt_label i) = Some i" "ci_type (item_at u i) = ci_type (config_tab ! i)" if "i < n_opts" for i
      using glob [OF that] g [OF that] by (simp_all add: old)
    show "\<exists>b. config_find_item u sct (opt_label i) = Some b \<and> ci_type (item_at u b) = ci_type (config_tab ! i) \<and>
        ci_val (item_at u b) = (if sct = Some name \<and> i = k then AnyInt v else f sct i)"
      if i: "i < n_opts" and sct: "\<forall>s. sct = Some s \<longrightarrow> plain_section s" for i sct
    proof (cases "sct = Some name \<and> i = k")
      case True
      then show ?thesis
        using sect [OF i name(1)] label by (intro exI [of _ a]) (simp add: config_find_item_def item)
    next
      case False
      obtain b where b: "config_find_item cfg sct (opt_label i) = Some b" "ci_type (item_at cfg b) = ci_type (config_tab ! i)"
        "ci_val (item_at cfg b) = f sct i" by (rule holds_find [OF assms(1) sct i])
      have "b < a" using b(1) below glob(2) [OF i] g [OF i]
        by (auto simp: config_find_item_def config_section_item_def split: option.splits)
      moreover have "config_find_item u sct (opt_label i) = Some b"
        using False b(1) sect [OF i] glob(1) [OF i] g [OF i] sct
        by (auto simp: config_find_item_def plain_section_def split: option.splits)
      ultimately show ?thesis using b False by (auto simp: old)
    qed
  qed
  with set sect name(1) show ?thesis by (intro exI [of _ u]) auto
qed

text \<open>The same by the names of the options.\<close>

definition default_item :: "string \<Rightarrow> config_item" where
  "default_item l = the (find (\<lambda>ci. ci_label ci = l) config_tab)"

lemma label_eq: "i < n_opts \<Longrightarrow> k < n_opts \<Longrightarrow> opt_label i = opt_label k \<longleftrightarrow> i = k"
  using config_labels_good(1) by (auto simp: distinct_conv_nth)

lemma default_item_label: "i < n_opts \<Longrightarrow> default_item (opt_label i) = config_tab ! i"
proof -
  assume i: "i < n_opts"
  have "find (\<lambda>ci. ci_label ci = opt_label i) config_tab = Some (config_tab ! i)"
    unfolding find_Some_iff using i label_eq [of _ i] by (intro exI [of _ i]) auto
  then show ?thesis by (simp add: default_item_def)
qed

definition holds_options :: "(string option \<Rightarrow> string \<Rightarrow> any_t) \<Rightarrow> Config.config \<Rightarrow> bool" where
  "holds_options f cfg \<longleftrightarrow> holds_values (\<lambda>sct i. f sct (opt_label i)) cfg"

lemma holds_values_cong: "(\<And>sct i. i < n_opts \<Longrightarrow> f sct i = g sct i) \<Longrightarrow> holds_values f cfg = holds_values g cfg"
  by (simp add: holds_values_def)

lemma holds_options_created: "config_create True = Some cfg \<Longrightarrow> holds_options (\<lambda>_ l. ci_val (default_item l)) cfg"
  using created_holds holds_values_cong [of "\<lambda>sct i. ci_val (default_item (opt_label i))" "\<lambda>_ i. ci_val (config_tab ! i)" cfg]
  by (simp add: holds_options_def default_item_label)

lemma holds_options_int:
  assumes "holds_options f cfg" "\<forall>s. sct = Some s \<longrightarrow> plain_section s" "l \<in> set (map ci_label config_tab)"
    and "is_integral (ci_type (default_item l))" "f sct l = AnyInt v"
  shows "config_get_int cfg sct l = Some v"
proof -
  obtain i where i: "i < n_opts" "l = opt_label i" using option_index [OF assms(3)] by blast
  show ?thesis
    using holds_get_int [OF assms(1) [unfolded holds_options_def] assms(2) i] assms(4,5) default_item_label [OF i(1)] i(2) by simp
qed

lemma holds_options_text:
  assumes "holds_options f cfg" "l \<in> set (map ci_label config_tab)"
    and "ci_type (default_item l) = CFG_TYPE_STRING" "f None l = AnyString (Some v)"
  shows "get_text cfg l = Some v"
proof -
  obtain i where i: "i < n_opts" "l = opt_label i" using option_index [OF assms(2)] by blast
  show ?thesis
    using holds_get_text [OF assms(1) [unfolded holds_options_def] i] assms(3,4) default_item_label [OF i(1)] i(2) by simp
qed

text \<open>The defaults of the options that are numbers or texts.\<close>

definition default_values :: "(string \<times> any_t) list" where
  "default_values = [
     (''announceReceiptTimeout'', AnyInt 3), (''assume_two_step'', AnyInt 0), (''boundary_clock_jbod'', AnyInt 0),
     (''check_fup_sync'', AnyInt 0), (''clockAccuracy'', AnyInt 0xfe), (''clockClass'', AnyInt 248),
     (''clock_servo'', AnyInt 0), (''clock_type'', AnyInt 0x8000), (''dataset_comparison'', AnyInt 0),
     (''delayAsymmetry'', AnyInt 0), (''delay_filter'', AnyInt 1), (''delay_filter_length'', AnyInt 10),
     (''delay_mechanism'', AnyInt 1), (''dscp_event'', AnyInt 0), (''dscp_general'', AnyInt 0),
     (''domainNumber'', AnyInt 0), (''egressLatency'', AnyInt 0), (''fault_badpeernet_interval'', AnyInt 16),
     (''fault_reset_interval'', AnyInt 4), (''follow_up_info'', AnyInt 0), (''free_running'', AnyInt 0),
     (''freq_est_interval'', AnyInt 1), (''G.8275.defaultDS.localPriority'', AnyInt 128),
     (''G.8275.portDS.localPriority'', AnyInt 128), (''gmCapable'', AnyInt 1), (''hybrid_e2e'', AnyInt 0),
     (''ignore_transport_specific'', AnyInt 0), (''ingressLatency'', AnyInt 0), (''initial_delay'', AnyInt 0),
     (''kernel_leap'', AnyInt 1), (''logAnnounceInterval'', AnyInt 1), (''logMinDelayReqInterval'', AnyInt 0),
     (''logMinPdelayReqInterval'', AnyInt 0), (''logSyncInterval'', AnyInt 0), (''logging_level'', AnyInt 6),
     (''masterOnly'', AnyInt 0), (''message_tag'', AnyString None),
     (''manufacturerIdentity'', AnyString (Some ''00:00:00'')), (''max_frequency'', AnyInt 900000000),
     (''min_neighbor_prop_delay'', AnyInt (-20000000)), (''neighborPropDelayThresh'', AnyInt 20000000),
     (''net_sync_monitor'', AnyInt 0), (''network_transport'', AnyInt 1), (''ntpshm_segment'', AnyInt 0),
     (''offsetScaledLogVariance'', AnyInt 0xffff), (''path_trace_enabled'', AnyInt 0),
     (''priority1'', AnyInt 128), (''priority2'', AnyInt 128), (''productDescription'', AnyString (Some '';;'')),
     (''ptp_dst_mac'', AnyString (Some ''01:1B:19:00:00:00'')),
     (''p2p_dst_mac'', AnyString (Some ''01:80:C2:00:00:0E'')), (''revisionData'', AnyString (Some '';;'')),
     (''sanity_freq_limit'', AnyInt 200000000), (''slaveOnly'', AnyInt 0), (''summary_interval'', AnyInt 0),
     (''syncReceiptTimeout'', AnyInt 0), (''tc_spanning_tree'', AnyInt 0), (''timeSource'', AnyInt 0xA0),
     (''time_stamping'', AnyInt 1), (''transportSpecific'', AnyInt 0), (''tsproc_mode'', AnyInt 0),
     (''twoStepFlag'', AnyInt 1), (''tx_timestamp_timeout'', AnyInt 1), (''udp_ttl'', AnyInt 1),
     (''udp6_scope'', AnyInt 0x0E), (''uds_address'', AnyString (Some ''/var/run/ptp4l'')),
     (''use_syslog'', AnyInt 1), (''userDescription'', AnyString (Some '''')), (''utc_offset'', AnyInt 37),
     (''verbose'', AnyInt 0)]"

lemma default_values_tab:
  "map (\<lambda>ci. (ci_label ci, ci_val ci)) (filter (\<lambda>ci. ci_type ci \<noteq> CFG_TYPE_DOUBLE) config_tab) = default_values"
  by (simp add: config_tab_def default_values_def CONFIG_ITEM_INT_def CONFIG_ITEM_DBL_def CONFIG_ITEM_ENUM_def CONFIG_ITEM_STRING_def)

lemma default_values_item:
  assumes "(l, v) \<in> set default_values"
  shows "l \<in> set (map ci_label config_tab) \<and> ci_val (default_item l) = v \<and> ci_type (default_item l) \<noteq> CFG_TYPE_DOUBLE"
proof -
  obtain ci where ci: "ci \<in> set config_tab" "ci_type ci \<noteq> CFG_TYPE_DOUBLE" "l = ci_label ci" "v = ci_val ci"
    using assms unfolding default_values_tab [symmetric] by auto
  then obtain i where "i < n_opts" "ci = config_tab ! i" by (auto simp: in_set_conv_nth)
  with ci default_item_label show ?thesis by auto
qed

lemma default_values_type:
  assumes "(l, v) \<in> set default_values"
  obtains i where "i < n_opts" "l = opt_label i" "case v of AnyInt d \<Rightarrow> is_integral (ci_type (config_tab ! i)) | AnyDouble d \<Rightarrow> False
    | AnyString x \<Rightarrow> ci_type (config_tab ! i) = CFG_TYPE_STRING"
proof -
  have wt: "list_all (\<lambda>t. well_typed (ci_type t) (ci_val t)) config_tab"
    by (simp add: config_tab_def CONFIG_ITEM_INT_def CONFIG_ITEM_DBL_def CONFIG_ITEM_ENUM_def CONFIG_ITEM_STRING_def
        well_typed_def is_integral_def)
  note d = default_values_item [OF assms]
  obtain i where i: "i < n_opts" "l = opt_label i" using d option_index by blast
  with d default_item_label have "ci_val (config_tab ! i) = v" "ci_type (config_tab ! i) \<noteq> CFG_TYPE_DOUBLE" by auto
  with wt i(1) have "case v of AnyInt d \<Rightarrow> is_integral (ci_type (config_tab ! i)) | AnyDouble d \<Rightarrow> False
    | AnyString x \<Rightarrow> ci_type (config_tab ! i) = CFG_TYPE_STRING"
    by (cases "ci_type (config_tab ! i)") (auto simp: list_all_length well_typed_def is_integral_def split: any_t.split)
  with i that show ?thesis by blast
qed

lemma default_get_int:
  assumes "holds_options f cfg" "\<forall>s. sct = Some s \<longrightarrow> plain_section s" "(l, AnyInt d) \<in> set default_values" "f sct l = AnyInt v"
  shows "config_get_int cfg sct l = Some v"
  by (rule default_values_type [OF assms(3)])
    (use holds_get_int [OF assms(1) [unfolded holds_options_def] assms(2)] assms(4) in auto)

lemma default_get_text:
  assumes "holds_options f cfg" "(l, AnyString (Some d)) \<in> set default_values" "f None l = AnyString (Some v)"
  shows "get_text cfg l = Some v"
  by (rule default_values_type [OF assms(2)])
    (use holds_get_text [OF assms(1) [unfolded holds_options_def]] assms(3) in auto)

lemma set_option_int:
  assumes "holds_options f cfg" "(l, AnyInt d) \<in> set default_values"
    and "\<forall>i<n_opts. \<forall>s. plain_section s \<longrightarrow> config_section_item cfg s (opt_label i) = None"
  shows "\<exists>cfg'. config_set_int mem cfg l v = (cfg', False) \<and> cfg_interfaces cfg' = cfg_interfaces cfg \<and>
    (\<forall>i<n_opts. \<forall>s. plain_section s \<longrightarrow> config_section_item cfg' s (opt_label i) = None) \<and>
    holds_options (\<lambda>sct k. if k = l then AnyInt v else f sct k) cfg'"
proof (rule default_values_type [OF assms(2)])
  fix k assume k: "k < n_opts" "l = opt_label k" "case AnyInt d of AnyInt d \<Rightarrow> is_integral (ci_type (config_tab ! k)) | AnyDouble d \<Rightarrow> False
    | AnyString x \<Rightarrow> ci_type (config_tab ! k) = CFG_TYPE_STRING"
  then have int: "is_integral (ci_type (config_tab ! k))" by simp
  obtain cfg' where c: "config_set_int mem cfg l v = (cfg', False)" "cfg_interfaces cfg' = cfg_interfaces cfg"
    "holds_values (\<lambda>sct i. if i = k then AnyInt v else f sct (opt_label i)) cfg'"
    using set_global_holds [OF assms(1) [unfolded holds_options_def] k(1) int assms(3)] k(2) by blast
  have "config_global_item cfg (opt_label k) = Some k" "is_integral (ci_type (item_at cfg k))"
    using assms(1) k(1) int by (simp_all add: holds_options_def holds_values_def)
  then have "cfg' = update_item k (\<lambda>ci. ci\<lparr>ci_locked := True, ci_val := AnyInt v\<rparr>) cfg"
    using c(1) k(2) by (simp add: config_set_int_def config_set_section_int_def config_find_item_def)
  then have "config_section_item cfg' = config_section_item cfg" by (simp add: fun_eq_iff)
  moreover have "holds_options (\<lambda>sct k. if k = l then AnyInt v else f sct k) cfg'"
    unfolding holds_options_def using c(3) label_eq [OF _ k(1)] k(2)
    by (subst holds_values_cong [where g = "\<lambda>sct i. if i = k then AnyInt v else f sct (opt_label i)"]) auto
  ultimately show ?thesis using c(1,2) assms(3) by auto
qed

lemma set_section_option:
  assumes "holds_options f cfg" "(l, AnyInt d) \<in> set default_values" "plain_section name"
    and "config_section_item cfg name l = None"
  shows "\<exists>cfg'. config_set_section_int True cfg (Some name) l v = (cfg', False) \<and>
    holds_options (\<lambda>sct k. if sct = Some name \<and> k = l then AnyInt v else f sct k) cfg' \<and>
    (\<forall>k x. (k, x) \<in> set default_values \<longrightarrow> k \<noteq> l \<longrightarrow> config_section_item cfg' name k = config_section_item cfg name k)"
proof (rule default_values_type [OF assms(2)])
  fix k assume k: "k < n_opts" "l = opt_label k" "case AnyInt d of AnyInt d \<Rightarrow> is_integral (ci_type (config_tab ! k)) | AnyDouble d \<Rightarrow> False
    | AnyString x \<Rightarrow> ci_type (config_tab ! k) = CFG_TYPE_STRING"
  then have int: "is_integral (ci_type (config_tab ! k))" by simp
  obtain cfg' where c: "config_set_section_int True cfg (Some name) l v = (cfg', False)"
    "holds_values (\<lambda>sct i. if sct = Some name \<and> i = k then AnyInt v else f sct (opt_label i)) cfg'"
    "\<forall>i<n_opts. i \<noteq> k \<longrightarrow> config_section_item cfg' name (opt_label i) = config_section_item cfg name (opt_label i)"
    using set_section_holds [OF assms(1) [unfolded holds_options_def] k(1) int assms(3)] assms(4) k(2) by blast
  have "holds_options (\<lambda>sct k. if sct = Some name \<and> k = l then AnyInt v else f sct k) cfg'"
    unfolding holds_options_def using c(2) label_eq [OF _ k(1)] k(2)
    by (subst holds_values_cong [where g = "\<lambda>sct i. if sct = Some name \<and> i = k then AnyInt v else f sct (opt_label i)"]) auto
  moreover have "config_section_item cfg' name j = config_section_item cfg name j"
    if "(j, x) \<in> set default_values" "j \<noteq> l" for j x
    using default_values_item [OF that(1)] option_index [of j] c(3) k(2) that(2) by auto
  ultimately show ?thesis using c(1) by blast
qed

text \<open>The defaults with an interface and the option -s of the command line.\<close>

definition slave_config :: Config.config where
  "slave_config = fst (config_set_int True (fst (config_create_interface True ''eth0'' (the (config_create True)))) ''slaveOnly'' 1)"

abbreviation uds_name :: string where "uds_name \<equiv> ''/var/run/ptp4l''"

lemma in_defaults: "list_all (\<lambda>x. x \<in> set default_values)
   [(''slaveOnly'', AnyInt 0), (''uds_address'', AnyString (Some uds_name)), (''announceReceiptTimeout'', AnyInt 3),
    (''delay_mechanism'', AnyInt 1), (''network_transport'', AnyInt 1), (''delay_filter_length'', AnyInt 10)]"
  by (simp add: default_values_def)

lemma slave_config_holds:
  "holds_options (\<lambda>_ l. if l = ''slaveOnly'' then AnyInt 1 else ci_val (default_item l)) slave_config"
  "cfg_interfaces slave_config = [\<lparr>if_name = ''eth0'', if_ts_label = []\<rparr>]"
  "i < n_opts \<Longrightarrow> plain_section s \<Longrightarrow> config_section_item slave_config s (opt_label i) = None"
proof -
  obtain c where c: "config_create True = Some c" "cfg_interfaces c = []" by (rule config_created)
  let ?d = "c\<lparr>cfg_interfaces := [\<lparr>if_name = ''eth0'', if_ts_label = []\<rparr>], cfg_n_interfaces := cfg_n_interfaces c + 1\<rparr>"
  have d: "fst (config_create_interface True ''eth0'' c) = ?d" by (simp add: config_create_interface_def c(2))
  have sect: "config_section_item ?d s (opt_label i) = None" if "i < n_opts" "plain_section s" for i s
    using created_sections [OF c(1) that] by (simp add: config_section_item_def)
  have "holds_options (\<lambda>_ l. ci_val (default_item l)) ?d"
    using holds_options_created [OF c(1)] unfolding holds_options_def by (rule holds_interfaces)
  from set_option_int [OF this, of "''slaveOnly''" 0 True 1] sect in_defaults obtain e where
    e: "config_set_int True ?d ''slaveOnly'' 1 = (e, False)" "cfg_interfaces e = cfg_interfaces ?d"
    "\<forall>i<n_opts. \<forall>s. plain_section s \<longrightarrow> config_section_item e s (opt_label i) = None"
    "holds_options (\<lambda>_ l. if l = ''slaveOnly'' then AnyInt 1 else ci_val (default_item l)) e"
    by auto
  have "slave_config = e" by (simp add: slave_config_def c(1) d e(1))
  with e show "holds_options (\<lambda>_ l. if l = ''slaveOnly'' then AnyInt 1 else ci_val (default_item l)) slave_config"
    "cfg_interfaces slave_config = [\<lparr>if_name = ''eth0'', if_ts_label = []\<rparr>]"
    "i < n_opts \<Longrightarrow> plain_section s \<Longrightarrow> config_section_item slave_config s (opt_label i) = None" by simp_all
qed

definition uds_values :: "(string option \<Rightarrow> string \<Rightarrow> any_t) \<Rightarrow> string option \<Rightarrow> string \<Rightarrow> any_t" where
  "uds_values f sct l =
    (if sct = Some uds_name \<and> l = ''delay_filter_length'' then AnyInt 1
     else if sct = Some uds_name \<and> l = ''network_transport'' then AnyInt 0
     else if sct = Some uds_name \<and> l = ''delay_mechanism'' then AnyInt 0
     else if sct = Some uds_name \<and> l = ''announceReceiptTimeout'' then AnyInt 0 else f sct l)"

definition unset :: "string \<Rightarrow> string set \<Rightarrow> Config.config \<Rightarrow> bool" where
  "unset name S cfg \<longleftrightarrow> (\<forall>(k, x)\<in>set default_values. k \<notin> S \<longrightarrow> config_section_item cfg name k = None)"

lemma set_unset_option:
  assumes "holds_options f cfg" "unset name S cfg" "plain_section name" "(l, AnyInt d) \<in> set default_values" "l \<notin> S"
    and "g = (\<lambda>sct k. if sct = Some name \<and> k = l then AnyInt v else f sct k)"
  obtains cfg' where "config_set_section_int True cfg (Some name) l v = (cfg', False)" "holds_options g cfg'"
    "unset name (insert l S) cfg'"
proof -
  have "config_section_item cfg name l = None" using assms(2,4,5) by (auto simp: unset_def)
  from set_section_option [OF assms(1,4,3) this, of v] obtain c where
    c: "config_set_section_int True cfg (Some name) l v = (c, False)" "holds_options g c"
    "\<forall>k x. (k, x) \<in> set default_values \<longrightarrow> k \<noteq> l \<longrightarrow> config_section_item c name k = config_section_item cfg name k"
    unfolding assms(6) by blast
  have "unset name (insert l S) c" using c(3) assms(2) by (fastforce simp: unset_def)
  with c(1,2) that show ?thesis by blast
qed

lemma configure_uds_holds:
  assumes "ce_mem e" "holds_options f cfg" "f None ''uds_address'' = AnyString (Some uds_name)"
    and "\<And>i. i < n_opts \<Longrightarrow> config_section_item cfg uds_name (opt_label i) = None"
  obtains cfg' where "configure_uds e cfg = Some (cfg', \<lparr>if_name = uds_name, if_ts_label = []\<rparr>)" "holds_options (uds_values f) cfg'"
proof -
  have plain: "plain_section uds_name" by (simp add: plain_section_def)
  have "config_section_item cfg uds_name k = None" if "(k, x) \<in> set default_values" for k x
    by (rule default_values_type [OF that]) (simp add: assms(4))
  then have none: "unset uds_name {} cfg" by (auto simp: unset_def)
  have d: "(''announceReceiptTimeout'', AnyInt 3) \<in> set default_values" "(''delay_mechanism'', AnyInt 1) \<in> set default_values"
    "(''network_transport'', AnyInt 1) \<in> set default_values" "(''delay_filter_length'', AnyInt 10) \<in> set default_values"
    "(''uds_address'', AnyString (Some uds_name)) \<in> set default_values"
    using in_defaults by (simp_all only: list.pred_inject)
  obtain c1 where c1: "config_set_section_int True cfg (Some uds_name) ''announceReceiptTimeout'' 0 = (c1, False)"
    "holds_options (\<lambda>sct k. if sct = Some uds_name \<and> k = ''announceReceiptTimeout'' then AnyInt 0 else f sct k) c1"
    "unset uds_name {''announceReceiptTimeout''} c1"
    by (rule set_unset_option [OF assms(2) none plain d(1) _ refl]) simp_all
  obtain c2 where c2: "config_set_section_int True c1 (Some uds_name) ''delay_mechanism'' 0 = (c2, False)"
    "holds_options (\<lambda>sct k. if sct = Some uds_name \<and> k = ''delay_mechanism'' then AnyInt 0
       else if sct = Some uds_name \<and> k = ''announceReceiptTimeout'' then AnyInt 0 else f sct k) c2"
    "unset uds_name {''delay_mechanism'', ''announceReceiptTimeout''} c2"
    by (rule set_unset_option [OF c1(2,3) plain d(2) _ refl]) simp_all
  obtain c3 where c3: "config_set_section_int True c2 (Some uds_name) ''network_transport'' 0 = (c3, False)"
    "holds_options (\<lambda>sct k. if sct = Some uds_name \<and> k = ''network_transport'' then AnyInt 0
       else if sct = Some uds_name \<and> k = ''delay_mechanism'' then AnyInt 0
       else if sct = Some uds_name \<and> k = ''announceReceiptTimeout'' then AnyInt 0 else f sct k) c3"
    "unset uds_name {''network_transport'', ''delay_mechanism'', ''announceReceiptTimeout''} c3"
    by (rule set_unset_option [OF c2(2,3) plain d(3) _ refl]) simp_all
  have g: "uds_values f = (\<lambda>sct k. if sct = Some uds_name \<and> k = ''delay_filter_length'' then AnyInt 1
       else if sct = Some uds_name \<and> k = ''network_transport'' then AnyInt 0
       else if sct = Some uds_name \<and> k = ''delay_mechanism'' then AnyInt 0
       else if sct = Some uds_name \<and> k = ''announceReceiptTimeout'' then AnyInt 0 else f sct k)"
    by (intro ext) (simp only: uds_values_def)
  obtain c4 where c4: "config_set_section_int True c3 (Some uds_name) ''delay_filter_length'' 1 = (c4, False)"
    "holds_options (uds_values f) c4"
    by (rule set_unset_option [OF c3(2,3) plain d(4) _ g]) simp_all
  have u: "get_text cfg ''uds_address'' = Some uds_name"
    by (rule default_get_text [OF assms(2) d(5) assms(3)])
  have "configure_uds e cfg = Some (c4, \<lparr>if_name = uds_name, if_ts_label = []\<rparr>)"
    using c1(1) c2(1) c3(1) c4(1) assms(1) u by (simp add: configure_uds_def set_ok_def)
  with c4(2) that show ?thesis by blast
qed

definition sample_create_env :: create_env where
  "sample_create_env =
    \<lparr>ce_bo = LittleEndian, ce_fl = (\<lambda>x. x), ce_mem = True, ce_shm = None, ce_ts_device = (\<lambda>_. []),
     ce_ts_info = (\<lambda>_. \<lparr>si_valid = True, si_phc_index = 0, si_so_timestamping = -1\<rparr>),
     ce_macaddr = (\<lambda>_. Some [0, 0x1b, 0x19, 1, 2, 3]), ce_phc_open = (\<lambda>_. True), ce_phc_max_adj = (\<lambda>_. 500000),
     ce_sysclk_max_freq = 500000, ce_freq = 0, ce_transport = (\<lambda>_. True), ce_timerfd = (\<lambda>_. True)\<rparr>"

text \<open>What is read of the configuration for the clock and for a port.\<close>

definition clock_options :: "(string \<times> int) list" where
  "clock_options = [(''clock_servo'', 0), (''clockClass'', 248), (''clockAccuracy'', 254), (''offsetScaledLogVariance'', 65535),
     (''domainNumber'', 0), (''gmCapable'', 1), (''G.8275.defaultDS.localPriority'', 128),
     (''twoStepFlag'', 1), (''time_stamping'', 1), (''priority1'', 128), (''priority2'', 128), (''free_running'', 0),
     (''freq_est_interval'', 1), (''kernel_leap'', 1), (''utc_offset'', 37), (''timeSource'', 160),
     (''dataset_comparison'', 0), (''tsproc_mode'', 0), (''delay_filter'', 1), (''delay_filter_length'', 10),
     (''initial_delay'', 0), (''summary_interval'', 0), (''sanity_freq_limit'', 200000000)]"

definition port_options :: "(string \<times> int) list" where
  "port_options = [(''boundary_clock_jbod'', 0), (''delayAsymmetry'', 0), (''follow_up_info'', 0), (''freq_est_interval'', 1),
     (''hybrid_e2e'', 0), (''net_sync_monitor'', 0), (''path_trace_enabled'', 0), (''tc_spanning_tree'', 0), (''ingressLatency'', 0),
     (''egressLatency'', 0), (''fault_badpeernet_interval'', 16), (''fault_reset_interval'', 4), (''tsproc_mode'', 0),
     (''delay_filter'', 1)]"

lemma options_default:
  "list_all (\<lambda>(l, v). (l, AnyInt v) \<in> set default_values) (clock_options @ port_options)"
  by (simp add: clock_options_def port_options_def default_values_def)

lemma texts_default:
  "list_all (\<lambda>(l, v). (l, AnyString (Some v)) \<in> set default_values)
     [(''productDescription'', '';;''), (''revisionData'', '';;''), (''userDescription'', []), (''manufacturerIdentity'', ''00:00:00'')]"
  by (simp add: default_values_def)

lemma default_int:
  assumes "holds_options f cfg" "\<forall>s. sct = Some s \<longrightarrow> plain_section s" "(l, AnyInt v) \<in> set default_values"
    and "f sct l = ci_val (default_item l)"
  shows "config_get_int cfg sct l = Some v"
  by (rule default_get_int [OF assms(1-3)]) (simp add: assms(4) default_values_item [OF assms(3)])

lemma sample_port_opens:
  assumes "list_all (\<lambda>(l, v). config_get_int cfg (Some (if_name i)) l = Some v) port_options"
    and "config_get_int cfg (Some (if_name i)) ''network_transport'' = Some t" "t = 0 \<or> t = 1 \<and> info = \<lparr>si_valid = True, si_phc_index = 0, si_so_timestamping = -1\<rparr>"
    and "config_get_int cfg (Some (if_name i)) ''delay_mechanism'' = Some d"
    and "config_get_int cfg (Some (if_name i)) ''delay_filter_length'' = Some k" "0 < k"
  obtains p where "port_open sample_create_env cfg CLOCK_TYPE_ORDINARY slave_only identity 0 ts n i info = Some p"
    "p_fx p = []" "p_delayMechanism p = delay_mechanism_of d" "\<not> p_jbod p"
proof -
  define flen where "flen = nat k"
  have k: "k = int flen" "flen \<noteq> 0" using assms(6) by (simp_all add: flen_def)
  have "port_phc_index 0 t False info = Some 0" using assms(3) by (auto simp: port_phc_index_def)
  then have "\<exists>p. port_open sample_create_env cfg CLOCK_TYPE_ORDINARY slave_only identity 0 ts n i info = Some p \<and>
    p_fx p = [] \<and> p_delayMechanism p = delay_mechanism_of d \<and> \<not> p_jbod p"
    using assms k
    by (auto simp: port_options_def port_open_def get_bool_def ensure_def sample_create_env_def transport_create_def delay_mechanism_fits_def
      tsproc_create_def filter_create_def filter_type_of_def mmedian_create_def zero_port_def Let_def)
  with that show ?thesis by blast
qed

abbreviation slave_values :: "string option \<Rightarrow> string \<Rightarrow> any_t" where
  "slave_values \<equiv> \<lambda>_ l. if l = ''slaveOnly'' then AnyInt 1 else ci_val (default_item l)"

lemma not_slave_only: "list_all (\<lambda>(l, v). l \<noteq> ''slaveOnly'') (clock_options @ port_options)"
  by (simp add: clock_options_def port_options_def)

lemma slave_lookups:
  "list_all (\<lambda>(l, v). config_get_int slave_config None l = Some v) (clock_options @ port_options)"
  "config_get_int slave_config None ''slaveOnly'' = Some 1"
  "get_text slave_config ''productDescription'' = Some '';;''" "get_text slave_config ''revisionData'' = Some '';;''"
  "get_text slave_config ''userDescription'' = Some []" "get_text slave_config ''manufacturerIdentity'' = Some ''00:00:00''"
proof -
  have "config_get_int slave_config None l = Some v"
    if "(l, v) \<in> set (clock_options @ port_options)" for l v
  proof (rule default_int [OF slave_config_holds(1)])
    show "(l, AnyInt v) \<in> set default_values" using options_default that by (auto simp: list_all_iff)
    show "(if l = ''slaveOnly'' then AnyInt 1 else ci_val (default_item l)) = ci_val (default_item l)"
      using not_slave_only that by (auto simp: list_all_iff)
  qed simp
  then show "list_all (\<lambda>(l, v). config_get_int slave_config None l = Some v) (clock_options @ port_options)"
    by (auto simp: list_all_iff)
  show "config_get_int slave_config None ''slaveOnly'' = Some 1"
    by (rule default_get_int [OF slave_config_holds(1)]) (use in_defaults in \<open>auto simp: list_all_iff\<close>)
  have t: "get_text slave_config l = Some v" if "(l, AnyString (Some v)) \<in> set default_values" "l \<noteq> ''slaveOnly''" for l v
    by (rule default_get_text [OF slave_config_holds(1) that(1)]) (simp add: that(2) default_values_item [OF that(1)])
  show "get_text slave_config ''productDescription'' = Some '';;''" "get_text slave_config ''revisionData'' = Some '';;''"
    "get_text slave_config ''userDescription'' = Some []" "get_text slave_config ''manufacturerIdentity'' = Some ''00:00:00''"
    by (rule t; use texts_default in simp)+
qed

lemma uds_lookups:
  assumes "holds_options (uds_values slave_values) cfg"
  shows "list_all (\<lambda>(l, v). config_get_int cfg None l = Some v) (clock_options @ port_options)"
    "list_all (\<lambda>(l, v). config_get_int cfg (Some uds_name) l = Some v) port_options"
    "config_get_int cfg (Some uds_name) ''network_transport'' = Some 0" "config_get_int cfg (Some uds_name) ''delay_mechanism'' = Some 0"
    "config_get_int cfg (Some uds_name) ''delay_filter_length'' = Some 1"
    "list_all (\<lambda>(l, v). config_get_int cfg (Some ''eth0'') l = Some v) port_options"
    "config_get_int cfg (Some ''eth0'') ''network_transport'' = Some 1" "config_get_int cfg (Some ''eth0'') ''delay_mechanism'' = Some 1"
    "config_get_int cfg (Some ''eth0'') ''delay_filter_length'' = Some 10"
proof -
  have eth: "\<forall>s. Some ''eth0'' = Some s \<longrightarrow> plain_section s" and uds: "\<forall>s. Some uds_name = Some s \<longrightarrow> plain_section s"
    by (simp_all add: plain_section_def)
  have get: "config_get_int cfg sct l = Some v"
    if "(l, v) \<in> set (clock_options @ port_options)" "sct \<noteq> Some uds_name \<or> (l, v) \<in> set port_options"
      "\<forall>s. sct = Some s \<longrightarrow> plain_section s" for sct l v
  proof (rule default_int [OF assms that(3)])
    show "(l, AnyInt v) \<in> set default_values" using options_default that(1) by (auto simp: list_all_iff)
    have "sct \<noteq> Some uds_name \<or> l \<notin> {''delay_filter_length'', ''network_transport'', ''delay_mechanism'', ''announceReceiptTimeout''}"
      using that(2) by (auto simp: port_options_def)
    moreover have "l \<noteq> ''slaveOnly''" using not_slave_only that(1) by (auto simp: list_all_iff)
    ultimately show "uds_values slave_values sct l = ci_val (default_item l)" by (auto simp: uds_values_def)
  qed
  show "list_all (\<lambda>(l, v). config_get_int cfg None l = Some v) (clock_options @ port_options)"
    "list_all (\<lambda>(l, v). config_get_int cfg (Some uds_name) l = Some v) port_options"
    "list_all (\<lambda>(l, v). config_get_int cfg (Some ''eth0'') l = Some v) port_options"
    using get [of _ _ None] get [OF _ _ uds] get [OF _ _ eth] by (auto simp: list_all_iff)
  have d: "(''delay_mechanism'', AnyInt 1) \<in> set default_values" "(''network_transport'', AnyInt 1) \<in> set default_values"
    "(''delay_filter_length'', AnyInt 10) \<in> set default_values"
    using in_defaults by (simp_all only: list.pred_inject)
  note u = default_get_int [OF assms uds]
  show "config_get_int cfg (Some uds_name) ''network_transport'' = Some 0" by (rule u [OF d(2)]) (simp add: uds_values_def)
  show "config_get_int cfg (Some uds_name) ''delay_mechanism'' = Some 0" by (rule u [OF d(1)]) (simp add: uds_values_def)
  show "config_get_int cfg (Some uds_name) ''delay_filter_length'' = Some 1" by (rule u [OF d(3)]) (simp add: uds_values_def)
  note i = default_int [OF assms eth]
  show "config_get_int cfg (Some ''eth0'') ''network_transport'' = Some 1" by (rule i [OF d(2)]) (simp add: uds_values_def)
  show "config_get_int cfg (Some ''eth0'') ''delay_mechanism'' = Some 1" by (rule i [OF d(1)]) (simp add: uds_values_def)
  show "config_get_int cfg (Some ''eth0'') ''delay_filter_length'' = Some 10" by (rule i [OF d(3)]) (simp add: uds_values_def)
qed

end
