(* ===== verification/ClockCreateProps.thy ===== *)
theory ClockCreateProps
  imports Liveness Defaults
begin

text \<open>
  What a clock is like after \<open>clock_create\<close>: the assumptions that the other theorems make about the
  clock when the poll loop begins.
\<close>

lemma config_set_section_int_interfaces:
  "cfg_interfaces (fst (config_set_section_int mem cfg sct opt val)) = cfg_interfaces cfg"
  by (auto simp: config_set_section_int_def update_item_def config_item_alloc_def Let_def
      split: option.split if_split)

lemma harmonize_interfaces:
  "Option.bind (config_harmonize_onestep mem cfg) set_ok = Some cfg' \<Longrightarrow> cfg_interfaces cfg' = cfg_interfaces cfg"
  using config_set_section_int_interfaces [of mem cfg None]
  by (auto simp: config_harmonize_onestep_def config_set_int_def set_ok_def bind_eq_Some_conv
      split: option.splits if_splits prod.splits) (metis fst_conv)+

lemma check_interfaces_length: "check_interfaces e req is = Some xs \<Longrightarrow> length xs = length is"
  by (induction "is" arbitrary: xs) (auto simp: bind_eq_Some_conv)

lemma port_open_spec:
  "port_open e cfg type slave_only identity phc_index timestamping n i info = Some p \<Longrightarrow>
   p_state p = PS_INITIALIZING \<and> p_portIdentity p = \<lparr>clockIdentity = identity, portNumber = of_nat n\<rparr> \<and>
   p_slave_only_fsm p = slave_only \<and> p_foreign_masters p = [] \<and> p_best p = None"
  by (auto simp: port_open_def bind_eq_Some_conv Let_def zero_port_def)

lemma clock_add_ports_spec:
  "clock_add_ports e cfg type slave_only identity phc_index timestamping n xs = Some ps \<Longrightarrow>
   map portnum ps = map of_nat [Suc n..<Suc n + length xs] \<and>
   (\<forall>p\<in>set ps. p_state p = PS_INITIALIZING \<and> p_slave_only_fsm p = slave_only)"
proof (induction xs arbitrary: n ps)
  case (Cons x xs)
  obtain i info where x: "x = (i, info)" by (rule prod.exhaust)
  obtain p qs where p: "port_open e cfg type slave_only identity phc_index timestamping (n + 1) i info = Some p"
      "clock_add_ports e cfg type slave_only identity phc_index timestamping (n + 1) xs = Some qs" "ps = p # qs"
    using Cons.prems by (auto simp: x bind_eq_Some_conv)
  have "[Suc n..<Suc n + length (x # xs)] = Suc n # [Suc (n + 1)..<Suc (n + 1) + length xs]"
    by (simp add: upt_rec)
  then show ?case using Cons.IH [OF p(2)] port_open_spec [OF p(1)] p(3) by auto
qed simp

text \<open>Whether the default data set is that of a slave is what the option says.\<close>

lemma create_default_ds_slave:
  "create_default_ds cfg = Some dds \<Longrightarrow>
   \<exists>v. config_get_int cfg None ''slaveOnly'' = Some v \<and> (dds_flags dds AND DDS_SLAVE_ONLY \<noteq> 0 \<longleftrightarrow> v \<noteq> 0)"
  by (auto simp: create_default_ds_def bind_eq_Some_conv get_bool_def DDS_SLAVE_ONLY_def)

lemma created_clock_fields:
  "c_type (clock_sync_interval fl (clock_update_grandmaster c) n) = c_type c"
  "c_subscribers (clock_sync_interval fl (clock_update_grandmaster c) n) = c_subscribers c"
  "c_best (clock_sync_interval fl (clock_update_grandmaster c) n) = c_best c"
  by (simp_all add: clock_sync_interval_def clock_update_grandmaster_def)

lemma created_system_fields:
  "c_ports (clock.extend c (system.fields ps u d)) = ps" "c_uds (clock.extend c (system.fields ps u d)) = u"
  "c_type (clock.extend c (system.fields ps u d)) = c_type c" "c_best (clock.extend c (system.fields ps u d)) = c_best c"
  "c_subscribers (clock.extend c (system.fields ps u d)) = c_subscribers c"
  by (simp_all add: clock.defs system.defs)

lemma ensure_D: "ensure b = Some u \<Longrightarrow> b"
  by (simp add: ensure_def split: if_splits)

lemma clock_create_spec:
  assumes "clock_create e type cfg dev = Some c"
  shows "c_type c = type \<and> type \<noteq> CLOCK_TYPE_MANAGEMENT \<and> c_subscribers c = [] \<and> c_best c = None \<and>
    (\<exists>dds ifaces cfg1 cfg2 identity phc stamping udsif info.
      create_default_ds cfg = Some dds \<and>
      Option.bind (config_harmonize_onestep (ce_mem e) cfg) set_ok = Some cfg1 \<and>
      check_interfaces e (clock_required_modes stamping) (cfg_interfaces cfg1) = Some ifaces \<and>
      port_open e cfg2 type (dds_flags dds AND DDS_SLAVE_ONLY \<noteq> 0) identity phc stamping 0 udsif info = Some (c_uds c) \<and>
      clock_add_ports e cfg2 type (dds_flags dds AND DDS_SLAVE_ONLY \<noteq> 0) identity phc stamping 0 ifaces = Some (c_ports c))"
  using assms
  apply (simp only: clock_create_def bind_eq_Some_conv ensure_bind Let_def case_prod_unfold)
  apply (elim exE conjE)
  apply (simp only: option.inject)
  apply hypsubst
  apply (simp only: created_system_fields)
  apply (intro conjI)
      apply (simp (no_asm) add: created_clock_fields zero_clock_def)
     apply (erule ensure_D)
    apply (simp (no_asm) add: created_clock_fields zero_clock_def)
   apply (simp (no_asm) add: created_clock_fields zero_clock_def)
  apply (intro exI conjI, (rule refl | assumption)+)
  done

lemma unat_of_number: "n < 65536 \<Longrightarrow> unat (of_nat n :: u16) = n"
  by (simp add: unat_of_nat take_bit_nat_eq_self)

lemma distinct_numbers: "n < 65536 \<Longrightarrow> distinct (map (of_nat :: nat \<Rightarrow> u16) [1..<Suc n])"
proof -
  assume n: "n < 65536"
  have "inj_on (of_nat :: nat \<Rightarrow> u16) (set [1..<Suc n])"
  proof (rule inj_onI)
    fix x y assume xy: "x \<in> set [1..<Suc n]" "y \<in> set [1..<Suc n]" "(of_nat x :: u16) = of_nat y"
    then have "x < 65536" "y < 65536" using n by auto
    with arg_cong [OF xy(3), of unat] show "x = y" by (simp only: unat_of_number)
  qed
  then show ?thesis by (simp add: distinct_map del: upt_Suc)
qed

lemma number_not_zero: "n < 65536 \<Longrightarrow> 0 \<notin> set (map (of_nat :: nat \<Rightarrow> u16) [1..<Suc n])"
proof
  assume n: "n < 65536" and "0 \<in> set (map (of_nat :: nat \<Rightarrow> u16) [1..<Suc n])"
  then obtain x where "x \<in> set [1..<Suc n]" "(of_nat x :: u16) = 0" by fastforce
  with n have x: "0 < x" "x < 65536" "(of_nat x :: u16) = 0" by auto
  from arg_cong [OF x(3), of unat] unat_of_number [OF x(2)] x(1) show False by simp
qed

lemma created_clock:
  assumes "clock_create e type cfg dev = Some c" "length (cfg_interfaces cfg) < 65536"
  shows "fresh_ports c \<and> c_type c = type \<and> length (c_ports c) = length (cfg_interfaces cfg) \<and>
    (\<exists>v. config_get_int cfg None ''slaveOnly'' = Some v \<and> list_all (\<lambda>p. p_slave_only_fsm p = (v \<noteq> 0)) (c_ports c))"
proof -
  obtain dds ifaces cfg1 cfg2 identity phc stamping udsif info where
    t: "c_type c = type" and d: "create_default_ds cfg = Some dds"
    and h: "Option.bind (config_harmonize_onestep (ce_mem e) cfg) set_ok = Some cfg1"
    and i: "check_interfaces e (clock_required_modes stamping) (cfg_interfaces cfg1) = Some ifaces"
    and u: "port_open e cfg2 type (dds_flags dds AND DDS_SLAVE_ONLY \<noteq> 0) identity phc stamping 0 udsif info = Some (c_uds c)"
    and p: "clock_add_ports e cfg2 type (dds_flags dds AND DDS_SLAVE_ONLY \<noteq> 0) identity phc stamping 0 ifaces = Some (c_ports c)"
    using clock_create_spec [OF assms(1)] by blast
  have n: "length ifaces = length (cfg_interfaces cfg)"
    using check_interfaces_length [OF i] harmonize_interfaces [OF h] by simp
  note ports = clock_add_ports_spec [OF p, unfolded n]
  have "map portnum (c_ports c) = map of_nat [1..<Suc (length (cfg_interfaces cfg))]"
    using ports by (simp del: upt_Suc)
  moreover have "portnum (c_uds c) = 0" using port_open_spec [OF u] by simp
  ultimately have "sys_wf c"
    using distinct_numbers [OF assms(2)] number_not_zero [OF assms(2)] by (simp add: sys_wf_def)
  moreover have "length (c_ports c) = length (cfg_interfaces cfg)"
    using arg_cong [OF conjunct1 [OF ports], of length] by (simp del: upt_Suc)
  moreover obtain v where "config_get_int cfg None ''slaveOnly'' = Some v" "(dds_flags dds AND DDS_SLAVE_ONLY \<noteq> 0) = (v \<noteq> 0)"
    using create_default_ds_slave [OF d] by blast
  ultimately show ?thesis using ports t by (auto simp: fresh_ports_def list_all_iff)
qed

subsection \<open>From the configuration to the ports\<close>

text \<open>What an event keeps of a port: its identity, its state machine, and that this machine owns its state.\<close>

definition keeps_machine :: "port \<Rightarrow> port \<Rightarrow> bool" where
  "keeps_machine p q \<longleftrightarrow> p_portIdentity q = p_portIdentity p \<and> p_slave_only_fsm q = p_slave_only_fsm p \<and>
     (fsm_owns p \<longrightarrow> fsm_owns q)"

lemma port_dispatch_owns: "fsm_owns p \<Longrightarrow> fsm_owns (fst (port_dispatch e p c ev md))"
proof -
  assume p: "fsm_owns p"
  have "fsm_owns (e2e_dispatch e p c ev md)" "fsm_owns (p2p_dispatch e p c ev md)"
    using extends_owns [OF update_owns [OF p] tc_dispatch_spec(1)] extends_owns [OF update_owns [OF p] tc_dispatch_spec(2)]
    by blast+
  then show ?thesis by (cases "c_type c") (simp_all add: port_dispatch_def bc_dispatch_owns [OF p])
qed

interpretation machine: clock_relation keeps_machine UNIV UNIV "TYPE('y system_ext)"
proof unfold_locales
  fix e p and c :: "'y system_scheme" and ev md
  show "keeps_machine p (fst (port_dispatch e p c ev md))"
    using port_dispatch_moves [of p e c ev md] port_dispatch_owns [of p e c ev md]
    by (auto simp: keeps_machine_def moves_def)
qed (auto simp: keeps_machine_def keeps_def fsm_owns_def)

text \<open>Every port has the state machine of a slave, and none of the states of a master.\<close>

definition slave_ports :: "'z system_scheme \<Rightarrow> bool" where
  "slave_ports c \<longleftrightarrow> sys_wf c \<and> list_all (\<lambda>p. p_slave_only_fsm p \<and> fsm_owns p) (c_ports c)"

lemma slave_ports_rel:
  assumes "machine.rel c d" "slave_ports c"
  shows "slave_ports d"
proof -
  have g: "sys_wf d" "list_all2 keeps_machine (c_ports c) (c_ports d)"
    using assms by (auto simp: machine.rel_def machine.good_def slave_ports_def ports_rel_def)
  have "list_all (\<lambda>p. p_slave_only_fsm p \<and> fsm_owns p) qs"
    if "list_all2 keeps_machine ps qs" "list_all (\<lambda>p. p_slave_only_fsm p \<and> fsm_owns p) ps" for ps qs
    using that by (induction rule: list_all2_induct) (auto simp: keeps_machine_def)
  from this [OF g(2)] g(1) assms(2) show ?thesis by (simp add: slave_ports_def)
qed

lemma slave_ports_cong: "c_ports d = c_ports c \<Longrightarrow> c_uds d = c_uds c \<Longrightarrow> slave_ports d = slave_ports c"
  by (simp add: slave_ports_def sys_wf_def)

lemma decision_slave_ports:
  assumes "slave_ports c"
  shows "slave_ports (handle_state_decision_event es c)"
proof -
  let ?e = "elect_best es (map portnum (c_ports c)) None c"
  let ?s = "select_best (snd ?e) (fst ?e)"
  have "machine.rel c (fst ?e)" by simp
  then have e: "slave_ports (fst ?e)" using assms by (rule slave_ports_rel)
  have "c_ports (snd ?s) = c_ports (fst ?e)" "c_uds (snd ?s) = c_uds (fst ?e)"
    by (simp_all add: select_best_def Let_def clock_new_best_def clock_freq_est_reset_def)
  then have "slave_ports (snd ?s)" using e slave_ports_cong by blast
  moreover have "machine.rel (snd ?s) (fold (decide_port es b) ks (snd ?s))" for b ks
    by (intro machine.rel_fold machine.rel_decide_port) simp_all
  ultimately have "slave_ports (fold (decide_port es b) ks (snd ?s))" for b ks by (rule slave_ports_rel [rotated])
  then show ?thesis by (simp add: handle_state_decision_event_def split_beta)
qed

lemma clock_start_machine: "machine.rel c (clock_start es c)"
proof -
  have "machine.rel c (fold (\<lambda>n. dispatch_on (es n) n EV_INITIALIZE False) ks c)" for ks
    by (intro machine.rel_fold machine.rel_dispatch) simp_all
  then show ?thesis by (auto simp: clock_start_def intro: machine.rel_dispatch)
qed

lemma reachable_slave_ports:
  assumes "reachable c0 c" "slave_ports c0"
  shows "slave_ports c"
  using assms
proof (induction rule: reachable.induct)
  case (started es)
  then show ?case using slave_ports_rel [OF clock_start_machine] by blast
next
  case (polled c es now ready uds)
  let ?d = "fold poll_uds uds (fold poll_port ready c)"
  have "slave_ports ?d" using slave_ports_rel [OF machine.rel_polls] polled by blast
  then have "slave_ports (if c_sde ?d then (handle_state_decision_event es ?d)\<lparr>c_sde := False\<rparr> else ?d)"
    using decision_slave_ports [of ?d es] by (simp add: slave_ports_def sys_wf_def)
  then show ?case by (simp add: clock_poll_def Let_def slave_ports_def sys_wf_def)
qed

text \<open>
  A clock that is configured as a slave has no master.  When the option slaveOnly is set in the
  configuration from which the clock is created, then after any number of passes of the poll loop, with
  any messages, management requests, faults and failures, none of its ports is in one of the states
  PRE_MASTER, MASTER, GRAND_MASTER and PASSIVE.
\<close>

theorem configured_slave_is_never_master:
  assumes "clock_create e type cfg dev = Some c0" "length (cfg_interfaces cfg) < 65536"
    and "config_get_int cfg None ''slaveOnly'' = Some v" "v \<noteq> 0"
    and "reachable c0 c"
  shows "list_all (\<lambda>p. \<not> master_side (p_state p)) (c_ports c)"
proof -
  have "slave_ports c0"
    using created_clock [OF assms(1,2)] assms(3,4) by (auto simp: slave_ports_def fresh_ports_def fsm_owns_def list_all_iff)
  from reachable_slave_ports [OF assms(5) this] show ?thesis
    by (auto simp: slave_ports_def fsm_owns_def master_side_def list_all_iff)
qed

text \<open>
  C2: at most one port of a clock is a slave.  Whatever the configuration is from which the clock was
  created, with fewer than 65536 interfaces, after any number of passes of the poll loop with any events,
  messages and failures, at most one port is SLAVE or UNCALIBRATED, and that is the port that received
  from the best master.  This is claimed of the states that are reached without undefined behaviour: no
  port has followed a null pointer, nor has \<open>handle_state_decision_event\<close> read a best master that was
  freed.
\<close>

theorem at_most_one_slave:
  assumes "clock_create e type cfg dev = Some c0" "length (cfg_interfaces cfg) < 65536"
    and "reachable c0 c" "\<not> dereferenced c"
  shows "length (filter (\<lambda>p. slave_states (p_state p)) (c_ports c)) \<le> 1 \<and>
    map (\<lambda>p. Some (portnum p)) (filter (\<lambda>p. slave_states (p_state p)) (c_ports c)) \<in>
      {[], [map_option fst (c_best c)]}"
  using reachable_at_most_one_slave [OF _ assms(3,4)] created_clock [OF assms(1,2)] by blast

subsection \<open>Starting with the defaults and one interface\<close>

lemma fresh_port_starts:
  assumes "p_state p = PS_INITIALIZING" "p_fx p = []" "p_delayMechanism p = DM_E2E" "p_jbod p = False" "c_type c = CLOCK_TYPE_ORDINARY"
  shows "NullDereference \<notin> set (p_fx (fst (port_dispatch sample_env p c EV_INITIALIZE False)))"
  using assms
  apply (simp add: port_dispatch_def bc_dispatch_def bc_transition_def port_state_update_def next_state_def state_machine_def fsm_defs
    port_restart_def port_is_enabled_def port_initialize_def Let_def port_config_def sample_env_def pfx_def port_nrate_initialize_def
    port_set_announce_tmo_def set_tmo_random_def split_beta port_e2e_transition_def)
  done

lemma sample_texts: "length (text_octets '';;'') = 2" "length (text_octets []) = 0"
  "semicolons '';;'' = 2" "strlen_utf8 (text_octets '';;'') = 2" "strlen_utf8 (text_octets []) = 0"
  "sscanf [ScanHex 0, ScanChar CHR '':'', ScanHex 0, ScanChar CHR '':'', ScanHex 0] ''00:00:00'' = Some [0, 0, 0]"
  by code_simp+

lemma sample_description: obtains d where "create_description slave_config = Some d"
  by (simp add: create_description_def slave_lookups(3-6) ensure_def static_ptp_text_set_def sample_texts del: sscanf.simps)

lemma sample_default_ds: "create_default_ds slave_config =
   Some \<lparr>dds_flags = DDS_SLAVE_ONLY, dds_numberPorts = 0, dds_priority1 = 0,
     dds_clockQuality = \<lparr>clockClass = 255, clockAccuracy = 254, offsetScaledLogVariance = 65535\<rparr>,
     dds_priority2 = 0, dds_clockIdentity = CID 0 0 0 0 0 0 0 0, dds_domainNumber = 0\<rparr>"
  using slave_lookups(1,2) by (simp add: create_default_ds_def clock_options_def get_bool_def ensure_def)

lemma sample_clock_created:
  obtains c p where "clock_create sample_create_env CLOCK_TYPE_ORDINARY slave_config None = Some c" "c_ports c = [p]"
    "p_fx p = []" "p_delayMechanism p = DM_E2E" "\<not> p_jbod p"
proof -
  let ?u = "\<lparr>if_name = uds_name, if_ts_label = []\<rparr>" and ?i = "\<lparr>if_name = ''eth0'', if_ts_label = ''eth0''\<rparr>"
  let ?info = "\<lparr>si_valid = True, si_phc_index = 0, si_so_timestamping = -1 :: u32\<rparr>"
  have "config_section_item slave_config uds_name (opt_label i) = None" if "i < n_opts" for i
    by (rule slave_config_holds(3) [OF that]) (simp add: plain_section_def)
  then obtain cfg where cfg: "configure_uds sample_create_env slave_config = Some (cfg, ?u)"
    "holds_options (uds_values slave_values) cfg"
    using configure_uds_holds [OF _ slave_config_holds(1), of sample_create_env]
      default_values_item [of "''uds_address''" "AnyString (Some uds_name)"] in_defaults
    by (auto simp: sample_create_env_def)
  note look = uds_lookups [OF cfg(2)]
  define ident where "ident = CID 0 0x1b 0x19 0xFF 0xFE 1 2 3"
  obtain u where u: "port_open sample_create_env cfg CLOCK_TYPE_ORDINARY True ident 0 TS_HARDWARE 0 ?u
      \<lparr>si_valid = False, si_phc_index = 0, si_so_timestamping = 0\<rparr> = Some u"
    by (rule sample_port_opens [where i = ?u and cfg = cfg and t = 0 and d = 0 and k = 1]) (simp_all add: look)
  obtain p where p: "port_open sample_create_env cfg CLOCK_TYPE_ORDINARY True ident 0 TS_HARDWARE (Suc 0) ?i ?info = Some p"
    "p_fx p = []" "p_delayMechanism p = DM_E2E" "\<not> p_jbod p"
    by (rule sample_port_opens [where i = ?i and cfg = cfg and t = 1 and d = 1 and k = 10]) (simp_all add: look delay_mechanism_of_def)
  have ports: "clock_add_ports sample_create_env cfg CLOCK_TYPE_ORDINARY True ident 0 TS_HARDWARE 0 [(?i, ?info)] = Some [p]"
    using p(1) by (simp add: ensure_def sample_create_env_def)
  have ifs: "check_interfaces sample_create_env (clock_required_modes TS_HARDWARE) (cfg_interfaces slave_config) = Some [(?i, ?info)]"
    by (simp add: slave_config_holds(2) check_interface_def ensure_ts_label_def sample_create_env_def)
  have harm: "config_harmonize_onestep True slave_config = Some (slave_config, False)"
    using slave_lookups(1) by (simp add: config_harmonize_onestep_def clock_options_def)
  have mac: "generate_clock_identity (ce_macaddr sample_create_env ''eth0'') = Some ident"
    by (simp add: generate_clock_identity_def sample_create_env_def ident_def)
  have phc: "select_phc_index False TS_HARDWARE None ?info = Some 0" by (simp add: select_phc_index_def)
  obtain fx fadj where clk: "open_clock sample_create_env False 0 = Some (False, 500000, fadj, fx)"
    by (simp add: open_clock_def sample_create_env_def Let_def)
  obtain sv where sv: "servo_create (ce_fl sample_create_env) True None (servo_config cfg) CLOCK_SERVO_PI (- fadj) 500000 False = Some sv"
    by (simp add: servo_create_def pi_servo_create_def Let_def)
  obtain tsp where tsp: "tsproc_create True TSPROC_FILTER FILTER_MOVING_MEDIAN 10 = Some tsp"
    by (simp add: tsproc_create_def filter_create_def mmedian_create_def)
  obtain desc where desc: "create_description slave_config = Some desc" by (rule sample_description)
  have mem: "ce_mem sample_create_env" "ce_shm sample_create_env = None" by (simp_all add: sample_create_env_def)
  have "\<exists>c. clock_create sample_create_env CLOCK_TYPE_ORDINARY slave_config None = Some c \<and> c_ports c = [p]"
    using slave_lookups(1) look(1)
    by (simp add: clock_create_def clock_options_def ensure_def get_bool_def sample_default_ds desc mem harm set_ok_def
      timestamp_type_of_def servo_type_of_def tsproc_mode_of_def filter_type_of_def ifs phc mac cfg(1) clk sv tsp u ports p(1) created_system_fields Let_def DDS_SLAVE_ONLY_def)
  with p(2-4) that show ?thesis by blast
qed

lemma configured_slave_is_never_master_witness:
  "\<exists>c. clock_create sample_create_env CLOCK_TYPE_ORDINARY slave_config None = Some c \<and>
     list_all (\<lambda>p. \<not> master_side (p_state p)) (c_ports (clock_start (\<lambda>_. sample_env) c))"
proof (rule sample_clock_created)
  fix c p assume c: "clock_create sample_create_env CLOCK_TYPE_ORDINARY slave_config None = Some c"
  then show ?thesis
    using configured_slave_is_never_master [OF c _ slave_lookups(2) _ reachable.started] slave_config_holds(2) by simp
qed

lemma sample_not_dereferenced:
  assumes "c_ports c = [p]" "p_state p = PS_INITIALIZING" "p_fx p = []" "p_delayMechanism p = DM_E2E" "\<not> p_jbod p"
    "c_type c = CLOCK_TYPE_ORDINARY" "sys_wf c" "portnum p = 1"
  shows "\<not> dereferenced (clock_start (\<lambda>_. sample_env) c)"
proof -
  let ?q = "fst (port_dispatch sample_env p c EV_INITIALIZE False)"
  have "the_port 1 c = p" using assms(1,8) by (simp add: the_port_def)
  moreover have "portnum ?q = 1" using port_dispatch_moves [of p sample_env c EV_INITIALIZE False] assms(8)
    by (simp add: moves_def)
  moreover have "portnum (c_uds (dispatch_on sample_env 1 EV_INITIALIZE False c)) \<noteq> 1 \<and> portnum (c_uds c) \<noteq> 1"
    using demotion.rel_dispatch [of c c EV_INITIALIZE sample_env 1 False] assms(1,7,8)
    by (simp add: demotion.rel_def demotion.good_def ports_rel_def demotes_def sys_wf_def)
  ultimately have "c_ports (clock_start (\<lambda>_. sample_env) c) = [?q]"
    using assms(1,8) by (simp add: clock_start_def dispatch_on_ports)
  then show ?thesis using fresh_port_starts [OF assms(2-4) _ assms(6)] assms(5) by (simp add: dereferenced_def)
qed

lemma at_most_one_slave_witness:
  "\<exists>c. clock_create sample_create_env CLOCK_TYPE_ORDINARY slave_config None = Some c \<and>
     length (filter (\<lambda>p. slave_states (p_state p)) (c_ports (clock_start (\<lambda>_. sample_env) c))) \<le> 1"
proof (rule sample_clock_created)
  fix c p assume c: "clock_create sample_create_env CLOCK_TYPE_ORDINARY slave_config None = Some c"
    and p: "c_ports c = [p]" "p_fx p = []" "p_delayMechanism p = DM_E2E" "\<not> p_jbod p"
  have l: "length (cfg_interfaces slave_config) < 65536" by (simp add: slave_config_holds(2))
  obtain ifs cfg ident phc st so where
    "clock_add_ports sample_create_env cfg CLOCK_TYPE_ORDINARY so ident phc st 0 ifs = Some (c_ports c)"
    using clock_create_spec [OF c] by blast
  from clock_add_ports_spec [OF this] have "map portnum (c_ports c) = map word_of_nat [1..<Suc (length ifs)]" by (simp del: upt_Suc)
  with p(1) have "portnum p = 1" by (cases "length ifs") (simp_all add: upt_rec)
  moreover have "fresh_ports c" "c_type c = CLOCK_TYPE_ORDINARY" using created_clock [OF c l] by simp_all
  ultimately have "\<not> dereferenced (clock_start (\<lambda>_. sample_env) c)"
    using p by (intro sample_not_dereferenced) (simp_all add: fresh_ports_def)
  from at_most_one_slave [OF c l reachable.started this] c show ?thesis by blast
qed

end
