(* ===== verification/ArgsProps.thy ===== *)
theory ArgsProps
  imports Args ConfigProps
begin

text \<open>
  What the command line fixes of a configuration: an option that a program sets is locked with its value,
  and the other setters, long options of other names and configuration files leave it alone.
\<close>

subsection \<open>Values that a program may set\<close>

definition may_set :: "string \<Rightarrow> any_t \<Rightarrow> bool" where
  "may_set l v \<longleftrightarrow> (\<exists>i<n_opts. l = opt_label i \<and> in_range (config_tab ! i) v)"

lemma may_setE:
  assumes "may_set l v"
  obtains i where "i < n_opts" "l = opt_label i" "in_range (config_tab ! i) v"
  using assms unfolding may_set_def by blast

text \<open>To be checked on the table of options.\<close>

lemma may_setI:
  assumes "l \<in> set (map ci_label config_tab)" "list_all (\<lambda>t. ci_label t = l \<longrightarrow> in_range t v) config_tab"
  shows "may_set l v"
  using option_index [OF assms(1)] assms(2) by (auto simp: may_set_def list_all_length)

lemma set_int_wf:
  assumes "config_wf cfg" "may_set l (AnyInt v)"
  shows "config_wf (fst (config_set_int mem cfg l v))"
proof (rule may_setE [OF assms(2)])
  fix i assume "i < n_opts" "l = opt_label i" "in_range (config_tab ! i) (AnyInt v)"
  with set_section_int_wf [OF assms(1), of i v None mem] show ?thesis
    by (simp add: config_set_int_def) (metis prod.collapse)
qed

lemma set_double_wf:
  assumes "config_wf cfg" "may_set l (AnyDouble v)"
  shows "config_wf (fst (config_set_double cfg l v))"
proof (rule may_setE [OF assms(2)])
  fix i assume i: "i < n_opts" "l = opt_label i" "in_range (config_tab ! i) (AnyDouble v)"
  have f: "config_find_item cfg None l = Some i" and t: "ci_type (item_at cfg i) = ci_type (config_tab ! i)"
    using config_wf_global [OF assms(1) i(1)] i(2) by (simp_all add: config_find_item_def same_spec_def)
  have "config_wf (update_item i (\<lambda>ci. ci\<lparr>ci_locked := True, ci_val := AnyDouble v\<rparr>) cfg)"
    by (rule global_item_wf [OF assms(1) i(1)]) (simp_all add: conforms_val i(3))
  then show ?thesis using assms(1) by (simp add: config_set_double_def f)
qed

lemma set_string_wf:
  assumes "config_wf cfg" "may_set l (AnyString (Some v))"
  shows "config_wf (fst (config_set_string mem cfg l v))"
proof (rule may_setE [OF assms(2)])
  fix i assume i: "i < n_opts" "l = opt_label i" "in_range (config_tab ! i) (AnyString (Some v))"
  have f: "config_find_item cfg None l = Some i" and t: "ci_type (item_at cfg i) = ci_type (config_tab ! i)"
    using config_wf_global [OF assms(1) i(1)] i(2) by (simp_all add: config_find_item_def same_spec_def)
  have r: "in_range (config_tab ! i) (AnyString w)" for w using i(3) by (auto simp: in_range_def split: config_type.splits)
  have k: "keeps_spec (\<lambda>ci. ci\<lparr>ci_locked := True, ci_val := w, ci_dynstr := b\<rparr>)" for w b
    by (simp add: keeps_spec_def same_spec_def)
  have c: "conforms s t (ci\<lparr>ci_dynstr := b\<rparr>) = conforms s t ci" for s t ci b by (simp add: conforms_def)
  have "config_wf (update_item i (\<lambda>ci. ci\<lparr>ci_locked := True, ci_val := AnyString None\<rparr>) cfg)"
    "config_wf (update_item i (\<lambda>ci. ci\<lparr>ci_locked := True, ci_val := AnyString (Some v), ci_dynstr := True\<rparr>) cfg)"
    by (rule global_item_wf [OF assms(1) i(1)], simp_all add: conforms_val r k c)+
  then show ?thesis using assms(1) by (simp add: config_set_string_def f)
qed

lemma parse_option_wf: "config_wf cfg \<Longrightarrow> config_parse_option mem strtod cfg opt val = Some (cfg', b) \<Longrightarrow> config_wf cfg'"
  using parse_item_wf [of cfg None] by (auto simp: config_parse_option_def)

lemma read_wf:
  assumes "config_wf cfg" "config_read mem strtod f cfg = Some (cfg', r)"
  shows "config_wf cfg'"
proof -
  have "reading (cfg, UNKNOWN_SECTION, [])" using assms(1) by (simp add: reading_def)
  from read_lines_wf [OF this, of mem strtod] assms show ?thesis by (cases f) (simp_all add: config_read_def del: fgets_lines.simps)
qed

lemma interface_wf: "config_wf cfg \<Longrightarrow> config_create_interface mem name cfg = (cfg', p) \<Longrightarrow> config_wf cfg'"
  by (drule (1) add_interface_wf) simp

subsection \<open>Options that are fixed\<close>

definition opt_fixed :: "string \<Rightarrow> any_t \<Rightarrow> Config.config \<Rightarrow> bool" where
  "opt_fixed l v cfg \<longleftrightarrow> (\<exists>a ci. opt_label a = l \<and> pinned a ci cfg \<and> ci_val ci = v)"

lemma opt_fixedI: "opt_label a = l \<Longrightarrow> pinned a ci cfg \<Longrightarrow> ci_val ci = v \<Longrightarrow> opt_fixed l v cfg"
  unfolding opt_fixed_def by blast

lemma opt_fixedE:
  assumes "opt_fixed l v cfg"
  obtains a ci where "opt_label a = l" "pinned a ci cfg" "ci_val ci = v" "a < n_opts" "\<not> ci_port (config_tab ! a)"
  using assms by (auto simp: opt_fixed_def pinned_def)

lemma fixed_get:
  assumes "config_wf cfg" "opt_fixed l v cfg"
  shows "v = AnyInt i \<Longrightarrow> list_all (\<lambda>t. ci_label t = l \<longrightarrow> is_integral (ci_type t)) config_tab \<Longrightarrow> config_get_int cfg None l = Some i"
    and "v = AnyDouble d \<Longrightarrow> list_all (\<lambda>t. ci_label t = l \<longrightarrow> ci_type t = CFG_TYPE_DOUBLE) config_tab \<Longrightarrow> config_get_double cfg None l = Some d"
proof -
  obtain a ci where a: "opt_label a = l" "pinned a ci cfg" "ci_val ci = v" "a < n_opts" by (rule opt_fixedE [OF assms(2)])
  have i: "item_at cfg a = ci" using a(2) by (simp add: pinned_def)
  have f: "config_find_item cfg None l = Some a" "ci_type (item_at cfg a) = ci_type (config_tab ! a)"
    using config_wf_global [OF assms(1) a(4)] a(1) by (simp_all add: config_find_item_def same_spec_def)
  show "config_get_int cfg None l = Some i"
    if "v = AnyInt i" "list_all (\<lambda>t. ci_label t = l \<longrightarrow> is_integral (ci_type t)) config_tab"
    using that f a i by (simp add: config_get_int_def list_all_length)
  show "config_get_double cfg None l = Some d"
    if "v = AnyDouble d" "list_all (\<lambda>t. ci_label t = l \<longrightarrow> ci_type t = CFG_TYPE_DOUBLE) config_tab"
    using that f a i by (simp add: config_get_double_def list_all_length)
qed

text \<open>The setters fix their option, when it is none of ports.\<close>

lemma set_fixes:
  assumes "config_wf cfg" "l \<in> set (map ci_label config_tab)" "list_all (\<lambda>t. ci_label t = l \<longrightarrow> \<not> ci_port t) config_tab"
  shows "config_set_int mem cfg l v = (cfg', False) \<Longrightarrow> opt_fixed l (AnyInt v) cfg'"
    and "config_set_double cfg l d = (cfg', False) \<Longrightarrow> opt_fixed l (AnyDouble d) cfg'"
proof -
  obtain k where k: "k < n_opts" "opt_label k = l" "\<not> ci_port (config_tab ! k)"
    using option_index [OF assms(2)] assms(3) by (auto simp: list_all_length)
  have f: "config_find_item cfg None l = Some k"
    using config_wf_global [OF assms(1) k(1)] k(2) by (simp add: config_find_item_def)
  have len: "k < length (cfg_items cfg)" using assms(1) k(1) by (simp add: config_wf_def)
  show "opt_fixed l (AnyInt v) cfg'" if "config_set_int mem cfg l v = (cfg', False)"
  proof -
    have "item_at cfg' k = (item_at cfg k)\<lparr>ci_locked := True, ci_val := AnyInt v\<rparr>"
      using that f len by (auto simp: config_set_int_def config_set_section_int_def item_at_update split: if_splits)
    then show ?thesis by (intro opt_fixedI [OF k(2), where ci = "item_at cfg' k"]) (simp_all add: pinned_def k)
  qed
  show "opt_fixed l (AnyDouble d) cfg'" if "config_set_double cfg l d = (cfg', False)"
  proof -
    have "item_at cfg' k = (item_at cfg k)\<lparr>ci_locked := True, ci_val := AnyDouble d\<rparr>"
      using that f len by (auto simp: config_set_double_def item_at_update split: if_splits)
    then show ?thesis by (intro opt_fixedI [OF k(2), where ci = "item_at cfg' k"]) (simp_all add: pinned_def k)
  qed
qed

lemma global_update_fixed:
  assumes "config_wf cfg" "opt_fixed k w cfg" "l \<noteq> k" "config_find_item cfg None l = Some a"
  shows "opt_fixed k w (update_item a f cfg)"
proof -
  obtain b ci where b: "opt_label b = k" "pinned b ci cfg" "ci_val ci = w" "b < n_opts" by (rule opt_fixedE [OF assms(2)])
  have "config_global_item cfg l = Some a" using assms(4) by (simp add: config_find_item_def)
  then have "a \<noteq> b" using global_address [OF assms(1) _ b(4), of l] b(1) assms(3) by auto
  from pinned_update [OF assms(1) b(2) this] show ?thesis by (rule opt_fixedI [OF b(1) _ b(3)])
qed

lemma set_keeps:
  assumes "config_wf cfg" "opt_fixed k w cfg" "l \<noteq> k"
  shows "opt_fixed k w (fst (config_set_int mem cfg l v))" "opt_fixed k w (fst (config_set_double cfg l d))"
    "opt_fixed k w (fst (config_set_string mem cfg l s))"
  using assms(2) global_update_fixed [OF assms]
  by (simp_all add: config_set_int_def config_set_section_int_def config_set_double_def config_set_string_def split: option.split)

lemma set_int_same:
  assumes "config_wf cfg" "opt_fixed l (AnyInt v) cfg"
  shows "opt_fixed l (AnyInt v) (fst (config_set_int mem cfg l v))"
proof -
  obtain a ci where a: "opt_label a = l" "pinned a ci cfg" "ci_val ci = AnyInt v" "a < n_opts" "\<not> ci_port (config_tab ! a)"
    by (rule opt_fixedE [OF assms(2)])
  have f: "config_find_item cfg None l = Some a"
    using config_wf_global [OF assms(1) a(4)] a(1) by (simp add: config_find_item_def)
  have "a < length (cfg_items cfg)" using assms(1) a(4) by (simp add: config_wf_def)
  then have "item_at (update_item a (\<lambda>ci. ci\<lparr>ci_locked := True, ci_val := AnyInt v\<rparr>) cfg) a =
      (item_at cfg a)\<lparr>ci_locked := True, ci_val := AnyInt v\<rparr>" by (simp add: item_at_update)
  then have "opt_fixed l (AnyInt v) (update_item a (\<lambda>ci. ci\<lparr>ci_locked := True, ci_val := AnyInt v\<rparr>) cfg)"
    by (intro opt_fixedI [OF a(1), where ci = "(item_at cfg a)\<lparr>ci_locked := True, ci_val := AnyInt v\<rparr>"])
      (simp_all add: pinned_def a(4,5))
  with assms(2) show ?thesis by (simp add: config_set_int_def config_set_section_int_def f)
qed

text \<open>A long option of another name does not touch it.\<close>

lemma option_keeps:
  assumes "config_wf cfg" "opt_fixed k w cfg" "opt \<noteq> k" "config_parse_option mem strtod cfg opt val = Some (cfg', b)"
  shows "opt_fixed k w cfg'"
proof -
  obtain a ci where a: "opt_label a = k" "pinned a ci cfg" "ci_val ci = w" "a < n_opts" "\<not> ci_port (config_tab ! a)"
    by (rule opt_fixedE [OF assms(2)])
  obtain r where p: "parse_item mem strtod cfg True None opt val = Some (cfg', r)"
    using assms(4) by (auto simp: config_parse_option_def)
  then obtain c0 r0 where f: "parse_fault_interval mem cfg None opt val = Some (c0, r0)"
    by (auto simp: parse_item_def split: option.splits)
  have c0: "config_wf c0" using parse_fault_interval_wf [OF assms(1) _ f] by simp
  have "opt_fixed k w c0"
    using f assms(2) set_keeps(1) [OF assms(1-3), of mem]
    by (auto simp: parse_fault_interval_def config_set_int_def split: option.splits if_splits prod.splits bool.splits)
       (metis fst_conv)
  then have "opt_fixed k w c0" "\<And>g h. config_global_item c0 opt = Some g \<Longrightarrow> opt_fixed k w (update_item g h c0)"
    using global_update_fixed [OF c0 _ assms(3)] by (simp_all add: config_find_item_def)
  then show ?thesis
    using p f by (auto simp: parse_item_def store_item_def Let_def split: option.splits if_splits sum.splits)
qed

lemma interface_keeps: "config_create_interface mem name cfg = (cfg', p) \<Longrightarrow> opt_fixed k w cfg \<Longrightarrow> opt_fixed k w cfg'"
  using pinned_interface unfolding opt_fixed_def by blast

lemma read_keeps: "config_wf cfg \<Longrightarrow> opt_fixed k w cfg \<Longrightarrow> config_read mem strtod f cfg = Some (cfg', r) \<Longrightarrow> opt_fixed k w cfg'"
  using read_lines_pinned [of "(cfg, UNKNOWN_SECTION, [])" _ _ mem strtod]
  by (cases f) (simp_all add: opt_fixed_def config_read_def reading_def del: fgets_lines.simps, blast)

end
