(* ===== verification/Ptp4lProps.thy ===== *)
theory Ptp4lProps
  imports Ptp4l ClockCreateProps ArgsProps
begin

text \<open>
  What the command line of ptp4l decides: the option -s makes a slave of the clock whatever the
  configuration file says, and the type of the clock fits the number of its ports and their delay mechanism.
\<close>

subsection \<open>The options that main sets\<close>

definition option_settings :: "(string \<times> int) list" where
  "option_settings =
    [(''delay_mechanism'', 0), (''delay_mechanism'', 1), (''delay_mechanism'', 2), (''network_transport'', 3),
     (''network_transport'', 1), (''network_transport'', 2), (''time_stamping'', 1), (''time_stamping'', 0),
     (''time_stamping'', 2), (''slaveOnly'', 1), (''verbose'', 1), (''use_syslog'', 0), (''kernel_leap'', 0),
     (''sanity_freq_limit'', 0)]"

definition main_sets :: "string \<Rightarrow> int \<Rightarrow> bool" where
  "main_sets l v \<longleftrightarrow> (l, v) \<in> set option_settings \<or> l = ''logging_level'' \<and> 0 \<le> v \<and> v \<le> 7"

lemma main_sets_in_range: "list_all (\<lambda>t. ci_label t = l \<longrightarrow> main_sets l v \<longrightarrow> in_range t (AnyInt v)) config_tab"
  by (auto simp: config_tab_def CONFIG_ITEM_INT_def CONFIG_ITEM_DBL_def CONFIG_ITEM_ENUM_def CONFIG_ITEM_STRING_def
      in_range_def int_of_any_def timestamping_enu_def delay_mech_enu_def nw_trans_enu_def main_sets_def option_settings_def)

lemma main_sets_may_set: "main_sets l v \<Longrightarrow> may_set l (AnyInt v)"
proof (rule may_setI)
  have "list_all (\<lambda>l. l \<in> set (map ci_label config_tab)) (''logging_level'' # map fst option_settings)"
    unfolding config_labels option_settings_def by simp
  then show "main_sets l v \<Longrightarrow> l \<in> set (map ci_label config_tab)" by (force simp: main_sets_def list_all_iff)
  show "main_sets l v \<Longrightarrow> list_all (\<lambda>t. ci_label t = l \<longrightarrow> in_range t (AnyInt v)) config_tab"
    using main_sets_in_range [of l v] by (simp add: list_all_length)
qed

lemma main_sets_wf: "config_wf cfg \<Longrightarrow> main_sets l v \<Longrightarrow> config_wf (fst (config_set_int mem cfg l v))"
  by (rule set_int_wf [OF _ main_sets_may_set])

abbreviation slave_set :: "Config.config \<Rightarrow> bool" where
  "slave_set \<equiv> opt_fixed ''slaveOnly'' (AnyInt 1)"

lemma slave_option:
  "''slaveOnly'' \<in> set (map ci_label config_tab)"
  "list_all (\<lambda>t. ci_label t = ''slaveOnly'' \<longrightarrow> \<not> ci_port t) config_tab"
  "list_all (\<lambda>t. ci_label t = ''slaveOnly'' \<longrightarrow> is_integral (ci_type t)) config_tab"
  unfolding config_labels
  by (simp_all add: config_tab_def CONFIG_ITEM_INT_def CONFIG_ITEM_DBL_def CONFIG_ITEM_ENUM_def CONFIG_ITEM_STRING_def is_integral_def)

lemma main_sets_keeps:
  assumes "config_wf cfg" "slave_set cfg" "main_sets l v"
  shows "slave_set (fst (config_set_int mem cfg l v))"
proof (cases "l = ''slaveOnly''")
  case True
  then have "v = 1" using assms(3) by (auto simp: main_sets_def option_settings_def)
  with True set_int_same [OF assms(1,2)] show ?thesis by simp
qed (use set_keeps(1) [OF assms(1,2)] in simp)

subsection \<open>The arguments\<close>

text \<open>One argument keeps an invariant that its operations on the configuration keep.\<close>

lemma process_argument_keeps:
  assumes "process_argument mem strtod arg st = Inr st'" "P (pa_cfg st)"
    and set: "\<And>cfg l v. P cfg \<Longrightarrow> main_sets l v \<Longrightarrow> P (fst (config_set_int mem cfg l v))"
    and opt: "\<And>cfg name v cfg'. arg = LongOpt name v \<Longrightarrow> P cfg \<Longrightarrow> config_parse_option mem strtod cfg name v = Some (cfg', False) \<Longrightarrow> P cfg'"
    and interface: "\<And>cfg name cfg' p. P cfg \<Longrightarrow> config_create_interface mem name cfg = (cfg', Some p) \<Longrightarrow> P cfg'"
  shows "P (pa_cfg st')"
proof (cases arg)
  case (LongOpt name v)
  then show ?thesis
    using assms(1,2) opt by (auto simp: process_argument_def or_out_def set_ok_def bind_eq_Some_conv split: option.splits prod.splits if_splits)
next
  case (Opt c optarg)
  have lit: "list_all (\<lambda>(l, v). main_sets l v) option_settings" by (auto simp: main_sets_def list_all_iff)
  have keep: "P (pa_cfg s)" if "set_option mem l v st = Inr s" "(l, v) \<in> set option_settings" for l v s
    using that assms(2) set [of "pa_cfg st" l v] lit
    by (auto simp: set_option_def or_out_def set_ok_def list_all_iff split: option.splits prod.splits if_splits)
  have tried: "P (pa_cfg (try_option mem l v st))" if "main_sets l v" for l v
    using that assms(2) set by (simp add: try_option_def)
  have level: "main_sets ''logging_level'' v" if "get_arg_val_i optarg 0 7 = Some v" for v
    using that by (auto simp: main_sets_def get_arg_val_i_def arg_val_def get_ranged_int_def get_ranged_def split: sum.splits option.splits if_splits)
  have vq: "main_sets ''verbose'' 1" "main_sets ''use_syslog'' 0" by (simp_all add: main_sets_def option_settings_def)
  from assms(1) Opt have "short_option mem c optarg st = Inr st'" by (simp add: process_argument_def)
  then show ?thesis
    unfolding short_option_def
    using assms(2) interface
    by (auto intro: keep simp: option_settings_def level tried vq split: if_splits option.splits prod.splits)
qed (use assms(1) in \<open>simp add: process_argument_def\<close>)


lemma process_arguments_keeps:
  assumes "process_arguments mem strtod args st = Inr st'" "P (pa_cfg st)"
    and "\<And>cfg l v. P cfg \<Longrightarrow> main_sets l v \<Longrightarrow> P (fst (config_set_int mem cfg l v))"
    and "\<And>cfg name v cfg'. LongOpt name v \<in> set args \<Longrightarrow> P cfg \<Longrightarrow> config_parse_option mem strtod cfg name v = Some (cfg', False) \<Longrightarrow> P cfg'"
    and "\<And>cfg name cfg' p. P cfg \<Longrightarrow> config_create_interface mem name cfg = (cfg', Some p) \<Longrightarrow> P cfg'"
  shows "P (pa_cfg st')"
  using assms(1,2,4)
proof (induction args arbitrary: st)
  case (Cons arg args)
  then obtain s where s: "process_argument mem strtod arg st = Inr s" "process_arguments mem strtod args s = Inr st'"
    by (auto split: sum.splits)
  have "P (pa_cfg s)"
  proof (rule process_argument_keeps [of mem strtod arg st s P])
    show "P cfg'" if "arg = LongOpt name v" "P cfg" "config_parse_option mem strtod cfg name v = Some (cfg', False)" for cfg name v cfg'
      using Cons.prems(3) [OF _ that(2,3)] that(1) by simp
  qed (fact s(1) Cons.prems(2) assms(3,5))+
  moreover have "P cfg'"
    if "LongOpt name v \<in> set args" "P cfg" "config_parse_option mem strtod cfg name v = Some (cfg', False)" for name v cfg cfg'
    using Cons.prems(3) [OF _ that(2,3)] that(1) by simp
  ultimately show ?case using Cons.IH [OF s(2)] by blast
qed simp

lemma process_arguments_wf:
  assumes "process_arguments mem strtod args st = Inr st'" "config_wf (pa_cfg st)"
  shows "config_wf (pa_cfg st')"
  by (rule process_arguments_keeps [where P = config_wf, OF assms]) (erule (1) main_sets_wf parse_option_wf interface_wf)+

lemma process_argument_wf:
  assumes "process_argument mem strtod arg st = Inr st'" "config_wf (pa_cfg st)"
  shows "config_wf (pa_cfg st')"
  by (rule process_argument_keeps [where P = config_wf, OF assms]) (erule (1) main_sets_wf parse_option_wf interface_wf)+

lemma process_arguments_slave_set:
  assumes "process_arguments mem strtod args st = Inr st'" "config_wf (pa_cfg st)" "slave_set (pa_cfg st)"
    and "\<And>v. LongOpt ''slaveOnly'' v \<notin> set args"
  shows "slave_set (pa_cfg st')"
proof -
  have "config_wf (pa_cfg st') \<and> slave_set (pa_cfg st')"
  proof (rule process_arguments_keeps [OF assms(1), where P = "\<lambda>cfg. config_wf cfg \<and> slave_set cfg"])
    show "config_wf cfg' \<and> slave_set cfg'"
      if "LongOpt name v \<in> set args" "config_wf cfg \<and> slave_set cfg" "config_parse_option mem strtod cfg name v = Some (cfg', False)"
      for cfg name v cfg'
    proof -
      have "name \<noteq> ''slaveOnly''" using that(1) assms(4) by metis
      then show ?thesis using that parse_option_wf option_keeps by blast
    qed
  qed (use assms(2,3) main_sets_wf main_sets_keeps interface_wf interface_keeps in \<open>blast+\<close>)
  then show ?thesis ..
qed

lemma slave_argument:
  assumes "process_argument mem strtod (Opt CHR ''s'' x) st = Inr st'" "config_wf (pa_cfg st)"
  shows "slave_set (pa_cfg st')"
  using assms set_fixes(1) [OF assms(2) slave_option(1,2), of mem]
  by (auto simp: process_argument_def short_option_def set_option_def or_out_def set_ok_def split: option.splits prod.splits if_splits)

lemma slave_arguments:
  assumes "process_arguments mem strtod args st = Inr st'" "config_wf (pa_cfg st)" "args = before @ Opt CHR ''s'' x # after"
    and "\<And>v. LongOpt ''slaveOnly'' v \<notin> set after"
  shows "slave_set (pa_cfg st')"
  using assms
proof (induction before arbitrary: st args)
  case Nil
  then obtain s where s: "process_argument mem strtod (Opt CHR ''s'' x) st = Inr s"
    "process_arguments mem strtod after s = Inr st'"
    by (auto split: sum.splits)
  have "config_wf (pa_cfg s)" using process_argument_wf [OF s(1) Nil.prems(2)] .
  moreover have "slave_set (pa_cfg s)" using slave_argument s(1) Nil.prems(2) by blast
  ultimately show ?case using process_arguments_slave_set [OF s(2)] Nil.prems(4) by simp
next
  case (Cons arg before)
  then obtain s where s: "process_argument mem strtod arg st = Inr s"
    "process_arguments mem strtod (before @ Opt CHR ''s'' x # after) s = Inr st'"
    by (auto split: sum.splits)
  have "config_wf (pa_cfg s)" using process_argument_wf [OF s(1) Cons.prems(2)] .
  with Cons.IH [OF s(2) _ refl] Cons.prems(4) show ?case by blast
qed

subsection \<open>The interfaces are counted\<close>

definition counted :: "Config.config \<Rightarrow> bool" where
  "counted cfg \<longleftrightarrow> cfg_n_interfaces cfg = int (length (cfg_interfaces cfg))"

lemma counted_update [simp]: "counted (update_item a f cfg) = counted cfg"
  by (simp add: counted_def update_item_def)

lemma counted_alloc: "config_item_alloc mem cfg s opt type = Some (cfg', a) \<Longrightarrow> counted cfg' = counted cfg"
  by (auto simp: config_item_alloc_def counted_def Let_def split: if_splits option.splits)

lemma counted_set: "config_set_section_int mem cfg sct opt v = (cfg', b) \<Longrightarrow> counted cfg' = counted cfg"
  by (auto simp: config_set_section_int_def dest: counted_alloc split: option.splits if_splits)

lemma counted_set_int [simp]: "counted (fst (config_set_int mem cfg opt v)) = counted cfg"
  unfolding config_set_int_def using counted_set by (metis prod.collapse)

lemma counted_interface: "config_create_interface mem name cfg = (cfg', p) \<Longrightarrow> counted cfg \<Longrightarrow> counted cfg'"
  by (auto simp: config_create_interface_def counted_def split: option.splits if_splits)

lemma counted_store [simp]: "counted (fst (store_item mem cl dst v cfg)) = counted cfg"
  by (simp add: store_item_def)

lemma counted_parse: "parse_item mem strtod cfg cl sct opt val = Some (cfg', r) \<Longrightarrow> counted cfg' = counted cfg"
proof -
  assume p: "parse_item mem strtod cfg cl sct opt val = Some (cfg', r)"
  then obtain c0 r0 where f: "parse_fault_interval mem cfg sct opt val = Some (c0, r0)"
    by (auto simp: parse_item_def split: option.splits)
  then have c0: "counted c0 = counted cfg"
    by (auto simp: parse_fault_interval_def dest: counted_set split: option.splits if_splits prod.splits bool.splits)
  have st: "store_item mem cl dst v c = (cfg', r) \<Longrightarrow> counted cfg' = counted c" for dst v c
    using counted_store [of mem cl dst v c] by simp
  show ?thesis
    using p f c0 st
    by (auto simp: parse_item_def Let_def dest: counted_alloc split: option.splits if_splits sum.splits)
qed

lemma counted_read_line:
  assumes "read_line mem strtod line st = Some x" "counted (fst st)"
  shows "(\<forall>cfg. x = Inl cfg \<longrightarrow> counted cfg) \<and> (\<forall>st'. x = Inr st' \<longrightarrow> counted (fst st'))"
  using assms
  by (cases st) (auto simp: read_line_def dest: counted_interface counted_parse
      split: option.splits if_splits prod.splits config_section.splits)

lemma counted_read_lines: "read_lines mem strtod bufs st = Some (cfg, r) \<Longrightarrow> counted (fst st) \<Longrightarrow> counted cfg"
proof (induction bufs arbitrary: st)
  case (Cons buf bufs)
  show ?case
  proof (cases "trim_line buf = [] \<or> hd (trim_line buf) = CHR ''#''")
    case False
    then obtain x where x: "read_line mem strtod (trim_line buf) st = Some x"
      using Cons.prems(1) by (auto simp: Let_def split: option.splits)
    with False Cons counted_read_line [OF x Cons.prems(2)] show ?thesis by (cases x) (auto simp: Let_def)
  qed (use Cons in \<open>auto simp: Let_def\<close>)
qed simp

lemma counted_read: "config_read mem strtod f cfg = Some (cfg', r) \<Longrightarrow> counted cfg \<Longrightarrow> counted cfg'"
  using counted_read_lines [where st = "(cfg, UNKNOWN_SECTION, [])"] by (cases f) (auto simp: config_read_def simp del: fgets_lines.simps)

lemma counted_created: "config_create mem = Some cfg \<Longrightarrow> counted cfg"
  by (auto simp: config_create_def counted_def Let_def split: if_splits option.splits)

lemma process_arguments_counted:
  assumes "process_arguments mem strtod args st = Inr st'" "counted (pa_cfg st)"
  shows "counted (pa_cfg st')"
  by (rule process_arguments_keeps [where P = counted, OF assms])
    (auto simp: config_parse_option_def counted_parse dest: counted_interface)


subsection \<open>The clock\<close>

text \<open>The configuration from which the program creates its clock.\<close>

lemma ptp4l_main_clock:
  assumes "ptp4l_main e strtod files args = Inr (g, c0)"
  obtains cfg st cfg1 cfg2 n type dev where "config_create (ce_mem e) = Some cfg"
    "process_arguments (ce_mem e) strtod args \<lparr>pa_cfg = cfg, pa_config = None, pa_req_phc = None\<rparr> = Inr st"
    "cfg1 = pa_cfg st \<or> (\<exists>f. config_read (ce_mem e) strtod f (pa_cfg st) = Some (cfg1, 0))"
    "cfg2 = cfg1 \<or> cfg2 = fst (config_set_int (ce_mem e) (fst (config_set_int (ce_mem e) cfg1 ''kernel_leap'' 0)) ''sanity_freq_limit'' 0)"
    "cfg_interfaces cfg2 \<noteq> []" "config_get_int cfg2 None ''clock_type'' = Some n" "select_clock_type cfg2 n = Some type"
    "clock_create e type cfg2 dev = Some c0"
proof -
  obtain cfg st where c: "config_create (ce_mem e) = Some cfg"
    and p: "process_arguments (ce_mem e) strtod args \<lparr>pa_cfg = cfg, pa_config = None, pa_req_phc = None\<rparr> = Inr st"
    using assms by (auto simp: ptp4l_main_def split: option.splits sum.splits)
  obtain cfg1 where r: "cfg1 = pa_cfg st \<or> (\<exists>f. config_read (ce_mem e) strtod f (pa_cfg st) = Some (cfg1, 0))"
    and s: "start_clock e (pa_req_phc st) cfg1 = Some (g, c0)"
  proof (cases "pa_config st")
    case None
    with assms that show ?thesis by (auto simp: ptp4l_main_def c p or_out_def split: option.splits)
  next
    case (Some name)
    then obtain cfg1 where "config_read (ce_mem e) strtod (files name) (pa_cfg st) = Some (cfg1, 0)"
      "start_clock e (pa_req_phc st) cfg1 = Some (g, c0)"
      using assms by (auto simp: ptp4l_main_def c p or_out_def split: option.splits if_splits)
    with that show ?thesis by blast
  qed
  from s have "\<exists>cfg2 n type. adapt_to_ntpshm (ce_mem e) cfg1 = Some cfg2 \<and> cfg_interfaces cfg2 \<noteq> [] \<and>
    config_get_int cfg2 None ''clock_type'' = Some n \<and> select_clock_type cfg2 n = Some type \<and>
    clock_create e type cfg2 (pa_req_phc st) = Some c0"
    apply (simp only: start_clock_def bind_eq_Some_conv)
    apply (elim exE conjE)
    apply (drule ensure_D)
    apply simp
    done
  then obtain cfg2 n type where a: "adapt_to_ntpshm (ce_mem e) cfg1 = Some cfg2"
    and x: "cfg_interfaces cfg2 \<noteq> []" "config_get_int cfg2 None ''clock_type'' = Some n" "select_clock_type cfg2 n = Some type"
      "clock_create e type cfg2 (pa_req_phc st) = Some c0"
    by blast
  have "cfg2 = cfg1 \<or> cfg2 = fst (config_set_int (ce_mem e) (fst (config_set_int (ce_mem e) cfg1 ''kernel_leap'' 0)) ''sanity_freq_limit'' 0)"
    using a by (auto simp: adapt_to_ntpshm_def split: if_splits)
  from that [OF c p r this x] show ?thesis .
qed

lemma ntpshm_sets: "main_sets ''kernel_leap'' 0" "main_sets ''sanity_freq_limit'' 0"
  by (simp_all add: main_sets_def option_settings_def)

lemma port_open_fits:
  assumes "port_open e cfg type so identity phc stamping (n + 1) i info = Some p"
  shows "delay_mechanism_fits type 1 (p_delayMechanism p)"
proof -
  have "delay_mechanism_fits type (n + 1) (p_delayMechanism p)"
    using assms by (auto simp: port_open_def bind_eq_Some_conv Let_def zero_port_def dest!: ensure_D)
  then show ?thesis by (simp add: delay_mechanism_fits_def)
qed

lemma created_ports:
  assumes "clock_create e type cfg dev = Some c"
  shows "c_type c = type \<and> length (c_ports c) = length (cfg_interfaces cfg) \<and>
    list_all (\<lambda>p. delay_mechanism_fits type 1 (p_delayMechanism p)) (c_ports c)"
proof -
  obtain dds ifaces cfg1 cfg2 identity phc stamping udsif info where t: "c_type c = type"
    and "create_default_ds cfg = Some dds"
    and h: "Option.bind (config_harmonize_onestep (ce_mem e) cfg) set_ok = Some cfg1"
    and i: "check_interfaces e (clock_required_modes stamping) (cfg_interfaces cfg1) = Some ifaces"
    and "port_open e cfg2 type (dds_flags dds AND DDS_SLAVE_ONLY \<noteq> 0) identity phc stamping 0 udsif info = Some (c_uds c)"
    and p: "clock_add_ports e cfg2 type (dds_flags dds AND DDS_SLAVE_ONLY \<noteq> 0) identity phc stamping 0 ifaces = Some (c_ports c)"
    using clock_create_spec [OF assms] by blast
  have "length (c_ports c) = length ifaces"
    using arg_cong [OF conjunct1 [OF clock_add_ports_spec [OF p]], of length] by (simp del: upt_Suc)
  moreover have "length ifaces = length (cfg_interfaces cfg)"
    using check_interfaces_length [OF i] harmonize_interfaces [OF h] by simp
  moreover have "clock_add_ports e cfg type so identity phc stamping n xs = Some ps \<Longrightarrow>
    list_all (\<lambda>p. delay_mechanism_fits type 1 (p_delayMechanism p)) ps" for cfg so n xs ps
  proof (induction xs arbitrary: n ps)
    case (Cons x xs)
    obtain i info where x: "x = (i, info)" by (rule prod.exhaust)
    obtain p qs where "port_open e cfg type so identity phc stamping (n + 1) i info = Some p"
        "clock_add_ports e cfg type so identity phc stamping (n + 1) xs = Some qs" "ps = p # qs"
      using Cons.prems by (auto simp: x bind_eq_Some_conv)
    then show ?case using Cons.IH port_open_fits by auto
  qed simp
  ultimately show ?thesis using t p by simp
qed

text \<open>
  C3: ptp4l -s is never a master.  When the option -s is given and no long option --slaveOnly follows
  it (the last of the two wins), then whatever the other options, the configuration file and the answers
  of the kernel are, none of the ports of the clock that ptp4l creates, fewer than 65536, is ever in one
  of the states PRE_MASTER, MASTER, GRAND_MASTER and PASSIVE, after any passes of its loop with any
  messages and faults.
\<close>

theorem slave_argument_never_master:
  assumes "ptp4l_main e strtod files args = Inr (g, c0)" "args = before @ Opt CHR ''s'' x # after"
    and "''slaveOnly'' \<notin> set (long_names after)" "length (c_ports c0) < 65536"
    and "reachable c0 c"
  shows "list_all (\<lambda>p. \<not> master_side (p_state p)) (c_ports c)"
proof -
  obtain cfg st cfg1 cfg2 m type dev where cr: "config_create (ce_mem e) = Some cfg"
    and p: "process_arguments (ce_mem e) strtod args \<lparr>pa_cfg = cfg, pa_config = None, pa_req_phc = None\<rparr> = Inr st"
    and r: "cfg1 = pa_cfg st \<or> (\<exists>f. config_read (ce_mem e) strtod f (pa_cfg st) = Some (cfg1, 0))"
    and n: "cfg2 = cfg1 \<or> cfg2 = fst (config_set_int (ce_mem e) (fst (config_set_int (ce_mem e) cfg1 ''kernel_leap'' 0)) ''sanity_freq_limit'' 0)"
    and "cfg_interfaces cfg2 \<noteq> []" and "config_get_int cfg2 None ''clock_type'' = Some m"
    and "select_clock_type cfg2 m = Some type"
    and c: "clock_create e type cfg2 dev = Some c0"
    by (rule ptp4l_main_clock [OF assms(1)])
  have no: "\<And>v. LongOpt ''slaveOnly'' v \<notin> set after" using assms(3) by (auto simp: long_names_iff)
  have "config_wf cfg" using configured_wf [OF configured.created [OF cr]] .
  then have "config_wf (pa_cfg st)" "slave_set (pa_cfg st)"
    using process_arguments_wf [OF p] slave_arguments [OF p _ assms(2) no] by simp_all
  then have "config_wf cfg1" "slave_set cfg1" using r read_wf read_keeps by blast+
  then have "config_wf cfg2" "slave_set cfg2"
    using n ntpshm_sets by (auto intro: main_sets_wf main_sets_keeps)
  then have s: "config_get_int cfg2 None ''slaveOnly'' = Some 1" using slave_option(3) by (rule fixed_get(1) [OF _ _ refl])
  have l: "length (cfg_interfaces cfg2) < 65536" using created_ports [OF c] assms(4) by simp
  have "slave_ports c0"
    using created_clock [OF c l] s by (auto simp: slave_ports_def fresh_ports_def fsm_owns_def list_all_iff)
  from reachable_slave_ports [OF assms(5) this] show ?thesis
    by (auto simp: slave_ports_def fsm_owns_def master_side_def list_all_iff)
qed

text \<open>
  The type of the clock fits its ports.  A clock that ptp4l creates has at least one port; it
  is an ordinary clock exactly when it has one, and the ports of a transparent clock have the delay
  mechanism of its type, whatever the sections of the single ports in the configuration file say.
\<close>

theorem clock_type_fits_ports:
  assumes "ptp4l_main e strtod files args = Inr (g, c0)"
  shows "c_ports c0 \<noteq> [] \<and> (c_type c0 = CLOCK_TYPE_ORDINARY \<longleftrightarrow> length (c_ports c0) = 1) \<and>
    (c_type c0 = CLOCK_TYPE_P2P \<longrightarrow> list_all (\<lambda>p. p_delayMechanism p = DM_P2P) (c_ports c0)) \<and>
    (c_type c0 = CLOCK_TYPE_E2E \<longrightarrow> list_all (\<lambda>p. p_delayMechanism p = DM_E2E) (c_ports c0))"
proof -
  obtain cfg st cfg1 cfg2 m type dev where cr: "config_create (ce_mem e) = Some cfg"
    and p: "process_arguments (ce_mem e) strtod args \<lparr>pa_cfg = cfg, pa_config = None, pa_req_phc = None\<rparr> = Inr st"
    and r: "cfg1 = pa_cfg st \<or> (\<exists>f. config_read (ce_mem e) strtod f (pa_cfg st) = Some (cfg1, 0))"
    and n: "cfg2 = cfg1 \<or> cfg2 = fst (config_set_int (ce_mem e) (fst (config_set_int (ce_mem e) cfg1 ''kernel_leap'' 0)) ''sanity_freq_limit'' 0)"
    and i: "cfg_interfaces cfg2 \<noteq> []" and "config_get_int cfg2 None ''clock_type'' = Some m"
    and t: "select_clock_type cfg2 m = Some type"
    and c: "clock_create e type cfg2 dev = Some c0"
    by (rule ptp4l_main_clock [OF assms(1)])
  have "counted (pa_cfg st)" using process_arguments_counted [OF p] counted_created [OF cr] by simp
  then have "counted cfg1" using r counted_read by blast
  then have "counted cfg2" using n by auto
  with t i have "type = CLOCK_TYPE_ORDINARY \<longleftrightarrow> length (cfg_interfaces cfg2) = 1"
    by (cases "cfg_interfaces cfg2") (auto simp: select_clock_type_def counted_def split: if_splits)
  moreover have "length (cfg_interfaces cfg2) \<noteq> 0" using i by simp
  ultimately show ?thesis using created_ports [OF c] by (auto simp: delay_mechanism_fits_def list_all_iff)
qed

subsection \<open>A call of the program\<close>

definition sample_arguments :: "argument list" where
  "sample_arguments = [Opt CHR ''i'' ''eth0'', Opt CHR ''s'' []]"

lemma slave_defaults:
  assumes "(l, AnyInt v) \<in> set default_values" "l \<noteq> ''slaveOnly''"
  shows "config_get_int slave_config None l = Some v"
  by (rule default_int [OF slave_config_holds(1) _ assms(1)]) (simp_all add: assms(2))

lemma main_defaults: "list_all (\<lambda>(l, v). (l, AnyInt v) \<in> set default_values \<and> l \<noteq> ''slaveOnly'')
  [(''verbose'', 0), (''use_syslog'', 1), (''logging_level'', 6), (''assume_two_step'', 0), (''check_fup_sync'', 0),
   (''tx_timestamp_timeout'', 1), (''clock_servo'', 0), (''clock_type'', 0x8000)]"
  by (simp add: default_values_def)

lemma slave_config_tag: obtains s where "config_get_string slave_config None ''message_tag'' = Some s"
proof -
  have "(''message_tag'', AnyString None) \<in> set default_values" by (simp add: default_values_def)
  note d = this default_values_item [OF this]
  obtain i where i: "i < n_opts" "''message_tag'' = opt_label i" "ci_type (config_tab ! i) = CFG_TYPE_STRING"
    by (rule default_values_type [OF d(1)]) simp
  obtain a where a: "config_find_item slave_config None (opt_label i) = Some a"
    "ci_type (item_at slave_config a) = ci_type (config_tab ! i)"
    "ci_val (item_at slave_config a) = (if opt_label i = ''slaveOnly'' then AnyInt 1 else ci_val (default_item (opt_label i)))"
    by (rule holds_find [OF slave_config_holds(1) [unfolded holds_options_def] _ i(1), of None]) simp_all
  have "config_find_item slave_config None ''message_tag'' = Some a" using a(1) unfolding i(2) .
  moreover have "ci_val (item_at slave_config a) = AnyString None"
    using a(3) d(2) unfolding i(2) [symmetric] by simp
  ultimately have "config_get_string slave_config None ''message_tag'' = Some None"
    using a(2) i(3) by (simp add: config_get_string_def)
  then show ?thesis by (rule that)
qed

lemma slave_config_set:
  obtains cfg cfg1 p where "config_create True = Some cfg" "config_create_interface True ''eth0'' cfg = (cfg1, Some p)"
    "config_set_int True cfg1 ''slaveOnly'' 1 = (slave_config, False)"
proof -
  obtain cfg where c: "config_create True = Some cfg" "cfg_interfaces cfg = []" by (rule config_created)
  obtain cfg1 p where i: "config_create_interface True ''eth0'' cfg = (cfg1, Some p)"
    by (simp add: config_create_interface_def c(2))
  obtain cfg2 b where s: "config_set_int True cfg1 ''slaveOnly'' 1 = (cfg2, b)" by fastforce
  have "slave_config = cfg2" by (simp add: slave_config_def c(1) i s)
  moreover have "\<not> b"
  proof -
    have w: "config_wf cfg1" using interface_wf [OF configured_wf [OF configured.created [OF c(1), of "\<lambda>_. None"]] i] .
    obtain k where k: "k < n_opts" "opt_label k = ''slaveOnly''" "is_integral (ci_type (config_tab ! k))"
      using option_index [OF slave_option(1)] slave_option(3) by (auto simp: list_all_length)
    with config_wf_global [OF w k(1)] s show ?thesis
      by (auto simp: config_set_int_def config_set_section_int_def config_find_item_def same_spec_def split: if_splits)
  qed
  ultimately show ?thesis using that c(1) i s by simp
qed

lemma sample_main:
  obtains g c p where "ptp4l_main sample_create_env (\<lambda>_. None) (\<lambda>_. None) sample_arguments = Inr (g, c)" "c_ports c = [p]"
    "c_type c = CLOCK_TYPE_ORDINARY"
proof -
  obtain c p where c: "clock_create sample_create_env CLOCK_TYPE_ORDINARY slave_config None = Some c" "c_ports c = [p]"
    by (rule sample_clock_created)
  obtain cfg cfg1 q where cfg: "config_create True = Some cfg" "config_create_interface True ''eth0'' cfg = (cfg1, Some q)"
    "config_set_int True cfg1 ''slaveOnly'' 1 = (slave_config, False)" by (rule slave_config_set)
  have m: "ce_mem sample_create_env" by (simp add: sample_create_env_def)
  have p: "process_arguments True strtod sample_arguments \<lparr>pa_cfg = cfg, pa_config = None, pa_req_phc = None\<rparr> =
      Inr \<lparr>pa_cfg = slave_config, pa_config = None, pa_req_phc = None\<rparr>" for strtod
    by (simp add: sample_arguments_def process_argument_def short_option_def cfg(2,3) set_option_def set_ok_def or_out_def)
  have "counted slave_config"
    using process_arguments_counted [OF p] counted_created [OF cfg(1)] by simp
  then have n: "cfg_n_interfaces slave_config = 1" "cfg_interfaces slave_config \<noteq> []"
    by (simp_all add: counted_def slave_config_holds(2))
  obtain tag where tag: "config_get_string slave_config None ''message_tag'' = Some tag" by (rule slave_config_tag)
  have d: "config_get_int slave_config None l = Some v" if "(l, v) \<in> set [(''verbose'', 0), (''use_syslog'', 1),
      (''logging_level'', 6), (''assume_two_step'', 0), (''check_fup_sync'', 0), (''tx_timestamp_timeout'', 1),
      (''clock_servo'', 0), (''clock_type'', 0x8000)]" for l v
    using slave_defaults [of l v] main_defaults that unfolding list_all_iff by blast
  have "\<exists>g. start_clock sample_create_env None slave_config = Some (g, c)"
    by (simp add: start_clock_def tag d n m adapt_to_ntpshm_def select_clock_type_def ensure_def c(1))
  then obtain g where "ptp4l_main sample_create_env (\<lambda>_. None) (\<lambda>_. None) sample_arguments = Inr (g, c)"
    by (auto simp: ptp4l_main_def m cfg(1) p or_out_def)
  moreover have "c_type c = CLOCK_TYPE_ORDINARY" using created_ports [OF c(1)] by simp
  ultimately show ?thesis using that c(2) by blast
qed

lemma slave_argument_never_master_witness:
  "\<exists>g c. ptp4l_main sample_create_env (\<lambda>_. None) (\<lambda>_. None) sample_arguments = Inr (g, c) \<and>
     list_all (\<lambda>p. \<not> master_side (p_state p)) (c_ports (clock_start (\<lambda>_. sample_env) c))"
proof (rule sample_main)
  fix g c p assume m: "ptp4l_main sample_create_env (\<lambda>_. None) (\<lambda>_. None) sample_arguments = Inr (g, c)" "c_ports c = [p]"
  have a: "sample_arguments = [Opt CHR ''i'' ''eth0''] @ Opt CHR ''s'' [] # []"
    by (simp add: sample_arguments_def)
  have "''slaveOnly'' \<notin> set (long_names [])" by (simp add: long_names_def)
  from slave_argument_never_master [OF m(1) a this _ reachable.started] m show ?thesis
    by auto
qed

lemma clock_type_fits_ports_witness:
  "\<exists>g c. ptp4l_main sample_create_env (\<lambda>_. None) (\<lambda>_. None) sample_arguments = Inr (g, c) \<and>
     c_type c = CLOCK_TYPE_ORDINARY \<and> length (c_ports c) = 1"
proof (rule sample_main)
  fix g c p assume m: "ptp4l_main sample_create_env (\<lambda>_. None) (\<lambda>_. None) sample_arguments = Inr (g, c)"
    "c_type c = CLOCK_TYPE_ORDINARY"
  with clock_type_fits_ports [OF m(1)] show ?thesis by blast
qed

end
