(* ===== verification/Phc2sys.thy ===== *)
theory Phc2sys
  imports Clock Tlv Config
begin

text \<open>
  The program phc2sys (src/phc2sys.c), which synchronises the clocks of one host with each other: the
  clocks and the ports of ptp4l that they belong to, the choice of the source of time, the readings of
  the clocks and what is done with them, leap seconds, and the requests to ptp4l.

  Clocks are referred to by their address \<open>pc_addr\<close>; a new clock is put in front of the list.  Port
  states are the numbers that ptp4l reports, 0 where none was reported.  The calls of the kernel and of
  ptp4l are answered by the environment: the record \<open>ph_env\<close> for the clocks, and for ptp4l the outcomes
  of \<open>poll\<close> and the messages that it delivers, after which \<open>poll\<close> times out.
\<close>

subsection \<open>Clocks, ports and the environment\<close>

abbreviation (input) CLOCK_REALTIME :: int where "CLOCK_REALTIME \<equiv> 0"
abbreviation (input) CLOCK_INVALID :: int where "CLOCK_INVALID \<equiv> -1"

abbreviation (input) ST_FAULTY :: int where "ST_FAULTY \<equiv> 2"
abbreviation (input) ST_DISABLED :: int where "ST_DISABLED \<equiv> 3"
abbreviation (input) ST_LISTENING :: int where "ST_LISTENING \<equiv> 4"
abbreviation (input) ST_PRE_MASTER :: int where "ST_PRE_MASTER \<equiv> 5"
abbreviation (input) ST_MASTER :: int where "ST_MASTER \<equiv> 6"
abbreviation (input) ST_PASSIVE :: int where "ST_PASSIVE \<equiv> 7"
abbreviation (input) ST_UNCALIBRATED :: int where "ST_UNCALIBRATED \<equiv> 8"
abbreviation (input) ST_SLAVE :: int where "ST_SLAVE \<equiv> 9"

text \<open>What the program does to clocks, and the messages it sends to ptp4l.\<close>

datatype ph_effect =
    ClockadjInit int
  | ClockadjFreq int dbl
  | ClockadjStep int i64
  | SysclkLeap int
  | SysclkTai int
  | SysclkSync
  | PhcClose int
  | EnablePps int
  | PmcGet u16
  | PmcSubscribe
  | PmcTarget "nat option"

record ps_clock =
  pc_addr :: nat
  pc_clkid :: int
  pc_phc_index :: int
  pc_sysoff_supported :: bool
  pc_is_utc :: bool
  pc_dest_only :: bool
  pc_state :: int
  pc_new_state :: int
  pc_sync_offset :: int
  pc_leap_set :: int
  pc_utc_offset_set :: int
  pc_servo :: "servo option"
  pc_servo_state :: servo_state
  pc_device :: "string option"
  pc_source_label :: string
  pc_offset_stats :: "stats option"
  pc_freq_stats :: "stats option"
  pc_delay_stats :: "stats option"
  pc_sanity_check :: "clockcheck option"

record ps_port =
  pp_number :: nat
  pp_state :: int
  pp_clock :: nat

record node =
  nd_stats_max_count :: u32
  nd_sanity_freq_limit :: int
  nd_servo_type :: servo_type
  nd_phc_readings :: nat
  nd_phc_interval :: dbl
  nd_sync_offset :: int
  nd_forced_sync_offset :: int
  nd_utc_offset_traceable :: bool
  nd_leap :: int
  nd_kernel_leap :: bool
  nd_pmc :: bool
  nd_pmc_ds_requested :: bool
  nd_pmc_last_update :: u64
  nd_state_changed :: bool
  nd_clock_identity :: "ClockIdentity option"
  nd_ports :: "ps_port list"
  nd_clocks :: "ps_clock list"
  nd_master :: "nat option"
  nd_next :: nat
  nd_fx :: "ph_effect list"

text \<open>
  The answers of the kernel: time stamping capabilities of an interface with the index of its PHC,
  clock ids of devices, frequencies and their limits, and the time.  \<open>pe_reading\<close> are the triples of
  time stamps that \<open>read_phc\<close> takes, None for a failure.
\<close>

record ph_env =
  pe_bo :: byte_order
  pe_fl :: "real \<Rightarrow> real"
  pe_mem :: bool
  pe_shm :: "shmTime option"
  pe_cfg :: "Servo.config"
  pe_fd_pps :: "(i64 \<times> i64) option"
  pe_has_pps :: "int \<Rightarrow> bool"
  pe_ts_info :: "string \<Rightarrow> (bool \<times> int) option"
  pe_phc_open :: "string \<Rightarrow> int"
  pe_freq :: "int \<Rightarrow> dbl"
  pe_sys_max :: int
  pe_phc_max :: "int \<Rightarrow> int"
  pe_sysoff_probe :: "int \<Rightarrow> bool"
  pe_sysoff :: "int \<Rightarrow> (i64 \<times> u64 \<times> i64) option"
  pe_reading :: "int \<Rightarrow> int \<Rightarrow> nat \<Rightarrow> (timespec \<times> timespec \<times> timespec) option"
  pe_gettime :: "int \<Rightarrow> timespec option"
  pe_monotonic :: "timespec option"
  pe_check_time :: timespec

definition nd_act :: "ph_effect list \<Rightarrow> node \<Rightarrow> node" where
  "nd_act es nd = nd\<lparr>nd_fx := nd_fx nd @ es\<rparr>"

definition clock_at :: "node \<Rightarrow> nat \<Rightarrow> ps_clock option" where
  "clock_at nd a = find (\<lambda>c. pc_addr c = a) (nd_clocks nd)"

definition set_clock :: "ps_clock \<Rightarrow> node \<Rightarrow> node" where
  "set_clock c nd = nd\<lparr>nd_clocks := map (\<lambda>d. if pc_addr d = pc_addr c then c else d) (nd_clocks nd)\<rparr>"

subsection \<open>Opening clocks\<close>

text \<open>The clock id and the index of the PHC, -1 where the caller's value is kept.\<close>

definition clock_open :: "ph_env \<Rightarrow> string \<Rightarrow> int \<times> int" where
  "clock_open e device =
    (if strcaseeq device ''CLOCK_REALTIME'' then (CLOCK_REALTIME, -1)
     else if pe_phc_open e device \<noteq> CLOCK_INVALID then (pe_phc_open e device, -1)
     else case pe_ts_info e device of
         None \<Rightarrow> (CLOCK_INVALID, -1)
       | Some (valid, index) \<Rightarrow>
           if \<not> valid \<or> index < 0 then (CLOCK_INVALID, -1)
           else (pe_phc_open e (''/dev/ptp'' @ show_int index), index))"

definition servo_add :: "ph_env \<Rightarrow> node \<Rightarrow> int \<Rightarrow> node \<times> servo option" where
  "servo_add e nd clkid =
    (let ppb = pe_freq e clkid;
         nd = nd_act ([ClockadjInit clkid, ClockadjFreq clkid ppb] @ (if clkid = CLOCK_REALTIME then [SysclkLeap 0] else [])) nd;
         max_ppb = (if clkid = CLOCK_REALTIME then pe_sys_max e else pe_phc_max e clkid)
     in if clkid \<noteq> CLOCK_REALTIME \<and> max_ppb = 0 then (nd, None)
        else (nd, map_option (\<lambda>sv. servo_sync_interval (pe_fl e) sv (nd_phc_interval nd))
          (servo_create (pe_fl e) (pe_mem e) (pe_shm e) (pe_cfg e) (nd_servo_type nd) (dbl_to_int (- ppb)) max_ppb False)))"

definition new_clock :: "nat \<Rightarrow> int \<Rightarrow> int \<Rightarrow> string option \<Rightarrow> ps_clock" where
  "new_clock a clkid phc_index device =
    \<lparr>pc_addr = a, pc_clkid = clkid, pc_phc_index = phc_index, pc_sysoff_supported = False,
     pc_is_utc = (clkid = CLOCK_REALTIME), pc_dest_only = False, pc_state = 0, pc_new_state = 0, pc_sync_offset = 0,
     pc_leap_set = 0, pc_utc_offset_set = 0, pc_servo = None, pc_servo_state = SERVO_UNLOCKED, pc_device = device,
     pc_source_label = (if clkid = CLOCK_REALTIME then ''sys'' else ''phc''), pc_offset_stats = None, pc_freq_stats = None,
     pc_delay_stats = None, pc_sanity_check = None\<rparr>"

definition clock_add :: "ph_env \<Rightarrow> node \<Rightarrow> string option \<Rightarrow> node \<times> nat option" where
  "clock_add e nd device =
    (let (clkid, phc_index) = (case device of None \<Rightarrow> (CLOCK_INVALID, -1) | Some d \<Rightarrow> clock_open e d)
     in if device \<noteq> None \<and> clkid = CLOCK_INVALID then (nd, None)
        else if \<not> pe_mem e then (nd, None)
        else
          let st = (if nd_stats_max_count nd > 0 then stats_create (pe_mem e) else None);
              c = (new_clock (nd_next nd) clkid phc_index device)
                \<lparr>pc_offset_stats := st, pc_freq_stats := st, pc_delay_stats := st,
                 pc_sanity_check := (if nd_sanity_freq_limit nd \<noteq> 0
                   then clockcheck_create (pe_mem e) (nd_sanity_freq_limit nd) else None)\<rparr>;
              (nd, sv) = (if clkid \<noteq> CLOCK_INVALID then servo_add e nd clkid else (nd, None));
              c = c\<lparr>pc_servo := sv,
                pc_sysoff_supported := (clkid \<noteq> CLOCK_INVALID \<and> clkid \<noteq> CLOCK_REALTIME \<and> pe_sysoff_probe e clkid)\<rparr>
          in (nd\<lparr>nd_clocks := c # nd_clocks nd, nd_next := nd_next nd + 1\<rparr>, Some (pc_addr c)))"

definition port_get :: "node \<Rightarrow> nat \<Rightarrow> ps_port option" where
  "port_get nd number = find (\<lambda>p. pp_number p = number) (nd_ports nd)"

definition set_port_state :: "nat \<Rightarrow> int \<Rightarrow> node \<Rightarrow> node" where
  "set_port_state number s nd =
     nd\<lparr>nd_ports := map (\<lambda>p. if pp_number p = number then p\<lparr>pp_state := s\<rparr> else p) (nd_ports nd)\<rparr>"

text \<open>True when there is such a port afterwards.  The state of a new port is not set here.\<close>

definition port_add :: "ph_env \<Rightarrow> node \<Rightarrow> nat \<Rightarrow> string \<Rightarrow> node \<times> bool" where
  "port_add e nd number device =
    (if port_get nd number \<noteq> None then (nd, True)
     else
       case (case find (\<lambda>c. pc_device c = Some device) (nd_clocks nd) of
             Some c \<Rightarrow> (nd, Some (pc_addr c))
           | None \<Rightarrow> clock_add e nd (Some device)) of
         (nd, None) \<Rightarrow> (nd, False)
       | (nd, Some a) \<Rightarrow>
           if \<not> pe_mem e then (nd, False)
           else (nd\<lparr>nd_ports := \<lparr>pp_number = number, pp_state = 0, pp_clock = a\<rparr> # nd_ports nd\<rparr>, True))"

subsection \<open>Messages of ptp4l\<close>

datatype pmc_poll = PollError | PollTimeout | PollReady bool "ptp_message option option"

text \<open>
  \<open>PollReady out input\<close>: whether the socket can be written to, and what is received from it, Some None
  when \<open>pmc_recv\<close> fails.
\<close>

definition check_clock_identity :: "node \<Rightarrow> ptp_message \<Rightarrow> bool" where
  "check_clock_identity nd msg \<longleftrightarrow>
    (case nd_clock_identity nd of None \<Rightarrow> True
     | Some cid \<Rightarrow> memcmp (cid_bytes cid) (cid_bytes (clockIdentity (sourcePortIdentity (header msg)))) = 0)"

definition is_msg_mgt :: "byte_order \<Rightarrow> ptp_message \<Rightarrow> int" where
  "is_msg_mgt bo msg =
    (if msg_type msg \<noteq> 0xD then 0
     else if management_action msg \<noteq> 2 then 0
     else if tlv_count msg \<noteq> 1 then 0
     else if rd16 bo (m_suffix msg) 0 = TLV_MANAGEMENT then 1
     else if rd16 bo (m_suffix msg) 0 = TLV_MANAGEMENT_ERROR_STATUS then -1
     else 0)"

definition get_mgt_id :: "byte_order \<Rightarrow> ptp_message \<Rightarrow> u16" where
  "get_mgt_id bo msg = rd16 bo (m_suffix msg) 4"

definition get_mgt_err_id :: "byte_order \<Rightarrow> ptp_message \<Rightarrow> u16" where
  "get_mgt_err_id bo msg = rd16 bo (m_suffix msg) 6"

definition normalize_state :: "int \<Rightarrow> int" where
  "normalize_state state =
    (if state \<noteq> ST_MASTER \<and> state \<noteq> ST_SLAVE \<and> state \<noteq> ST_PRE_MASTER \<and> state \<noteq> ST_UNCALIBRATED
     then ST_DISABLED else state)"

definition clock_compute_state :: "node \<Rightarrow> nat \<Rightarrow> int" where
  "clock_compute_state nd a =
     fold (\<lambda>p state. if pp_clock p \<noteq> a then state else if pp_state p > state then pp_state p else state)
       (nd_ports nd) ST_DISABLED"

text \<open>\<open>portDS\<close> has its port number 8 and its state 10 octets behind the beginning of the data.\<close>

definition recv_subscribed :: "byte_order \<Rightarrow> node \<Rightarrow> ptp_message \<Rightarrow> u16 option \<Rightarrow> node \<times> bool" where
  "recv_subscribed bo nd msg excluded =
    (let mgt_id = get_mgt_id bo msg
     in if Some mgt_id = excluded then (nd, False)
        else if mgt_id = TLV_PORT_DATA_SET then
          (case port_get nd (unat (rd16 bo (m_suffix msg) 14)) of
             None \<Rightarrow> (nd, True)
           | Some port \<Rightarrow>
               let state = normalize_state (uint (octet (m_suffix msg) 16))
               in if pp_state port \<noteq> state then
                    let nd = set_port_state (pp_number port) state nd; st = clock_compute_state nd (pp_clock port)
                    in (case clock_at nd (pp_clock port) of
                          None \<Rightarrow> (nd, True)
                        | Some c \<Rightarrow>
                            if pc_state c \<noteq> st \<or> pc_new_state c \<noteq> 0 then
                              ((set_clock (c\<lparr>pc_new_state := st\<rparr>) nd)\<lparr>nd_state_changed := True\<rparr>, True)
                            else (nd, True))
                  else (nd, True))
        else (nd, False))"

text \<open>
  One pass of the loop that waits for an answer, after a successful \<open>poll\<close>: whether it ends, with its
  result and the message.  The result is 1 with the message, 0 for a timeout, -1 for an error of the
  other side, -2 for a fatal one; \<open>ds_id\<close> is None for -1.
\<close>

definition pmc_request :: "node \<Rightarrow> u16 option \<Rightarrow> bool \<Rightarrow> bool \<Rightarrow> node" where
  "pmc_request nd ds_id writable readable =
    (case ds_id of
       Some ds \<Rightarrow>
         if \<not> nd_pmc_ds_requested nd \<and> writable \<and> \<not> readable
         then (nd_act [if ds = TLV_SUBSCRIBE_EVENTS_NP then PmcSubscribe else PmcGet ds] nd)\<lparr>nd_pmc_ds_requested := True\<rparr>
         else nd
     | None \<Rightarrow> nd)"

definition pmc_pass ::
  "byte_order \<Rightarrow> node \<Rightarrow> u16 option \<Rightarrow> bool \<Rightarrow> ptp_message option option \<Rightarrow> node \<times> (int \<times> ptp_message option) option" where
  "pmc_pass bo nd ds_id writable input =
    (let nd = pmc_request nd ds_id writable (input \<noteq> None)
     in case input of
          None \<Rightarrow> (nd, None)
        | Some None \<Rightarrow> (nd, None)
        | Some (Some msg) \<Rightarrow>
            if \<not> check_clock_identity nd msg then (nd, None)
            else
              let res = is_msg_mgt bo msg
              in if res < 0 \<and> Some (get_mgt_err_id bo msg) = ds_id then (nd\<lparr>nd_pmc_ds_requested := False\<rparr>, Some (-1, None))
                 else if res \<le> 0 then (nd, None)
                 else (case recv_subscribed bo nd msg ds_id of
                     (nd, subscribed) \<Rightarrow>
                       if subscribed \<or> Some (get_mgt_id bo msg) \<noteq> ds_id then (nd, None)
                       else (nd\<lparr>nd_pmc_ds_requested := False\<rparr>, Some (1, Some msg))))"

fun run_pmc :: "byte_order \<Rightarrow> node \<Rightarrow> u16 option \<Rightarrow> pmc_poll list \<Rightarrow> node \<times> int \<times> ptp_message option \<times> pmc_poll list" where
  "run_pmc bo nd ds_id [] = (nd\<lparr>nd_pmc_ds_requested := False\<rparr>, 0, None, [])"
| "run_pmc bo nd ds_id (PollError # ps) = (nd, -2, None, ps)"
| "run_pmc bo nd ds_id (PollTimeout # ps) = (nd\<lparr>nd_pmc_ds_requested := False\<rparr>, 0, None, ps)"
| "run_pmc bo nd ds_id (PollReady writable input # ps) =
    (case pmc_pass bo nd ds_id writable input of
       (nd, None) \<Rightarrow> run_pmc bo nd ds_id ps
     | (nd, Some (res, msg)) \<Rightarrow> (nd, res, msg, ps))"

definition apply_time_properties :: "byte_order \<Rightarrow> ptp_message \<Rightarrow> node \<Rightarrow> node" where
  "apply_time_properties bo msg nd =
    (let flags = octet (m_suffix msg) 8
     in if flags AND PTP_TIMESCALE \<noteq> 0 then
          nd\<lparr>nd_sync_offset := sint (rd16 bo (m_suffix msg) 6),
            nd_leap := (if flags AND LEAP_61 \<noteq> 0 then 1 else if flags AND LEAP_59 \<noteq> 0 then -1 else 0),
            nd_utc_offset_traceable := (flags AND UTC_OFF_VALID \<noteq> 0 \<and> flags AND TIME_TRACEABLE \<noteq> 0)\<rparr>
        else nd\<lparr>nd_sync_offset := 0, nd_leap := 0, nd_utc_offset_traceable := False\<rparr>)"

definition run_pmc_get_utc_offset :: "byte_order \<Rightarrow> node \<Rightarrow> pmc_poll list \<Rightarrow> node \<times> int \<times> pmc_poll list" where
  "run_pmc_get_utc_offset bo nd ps =
    (case run_pmc bo nd (Some TLV_TIME_PROPERTIES_DATA_SET) ps of
       (nd, res, Some msg, ps) \<Rightarrow> (apply_time_properties bo msg nd, 1, ps)
     | (nd, res, None, ps) \<Rightarrow> (nd, res, ps))"

definition run_pmc_get_number_ports :: "byte_order \<Rightarrow> node \<Rightarrow> pmc_poll list \<Rightarrow> node \<times> int \<times> pmc_poll list" where
  "run_pmc_get_number_ports bo nd ps =
    (case run_pmc bo nd (Some TLV_DEFAULT_DATA_SET) ps of
       (nd, res, Some msg, ps) \<Rightarrow> (nd, uint (rd16 bo (m_suffix msg) 8), ps)
     | (nd, res, None, ps) \<Rightarrow> (nd, res, ps))"

definition run_pmc_subscribe :: "byte_order \<Rightarrow> node \<Rightarrow> pmc_poll list \<Rightarrow> node \<times> int \<times> pmc_poll list" where
  "run_pmc_subscribe bo nd ps =
    (case run_pmc bo nd (Some TLV_SUBSCRIBE_EVENTS_NP) ps of (nd, res, _, ps) \<Rightarrow> (nd, res, ps))"

definition run_pmc_events :: "byte_order \<Rightarrow> node \<Rightarrow> pmc_poll list \<Rightarrow> node \<times> pmc_poll list" where
  "run_pmc_events bo nd ps = (case run_pmc bo nd None ps of (nd, _, _, ps) \<Rightarrow> (nd, ps))"

definition cid_of :: "u8 list \<Rightarrow> nat \<Rightarrow> ClockIdentity" where
  "cid_of bs k = CID (octet bs k) (octet bs (k + 1)) (octet bs (k + 2)) (octet bs (k + 3)) (octet bs (k + 4))
     (octet bs (k + 5)) (octet bs (k + 6)) (octet bs (k + 7))"

definition run_pmc_clock_identity :: "byte_order \<Rightarrow> node \<Rightarrow> pmc_poll list \<Rightarrow> node \<times> int \<times> pmc_poll list" where
  "run_pmc_clock_identity bo nd ps =
    (case run_pmc bo nd (Some TLV_DEFAULT_DATA_SET) ps of
       (nd, res, Some msg, ps) \<Rightarrow> (nd\<lparr>nd_clock_identity := Some (cid_of (m_suffix msg) 16)\<rparr>, 1, ps)
     | (nd, res, None, ps) \<Rightarrow> (nd, res, ps))"

lemma run_pmc_shorter: "run_pmc bo nd ds ps = (nd', r, Some msg, ps') \<Longrightarrow> length ps' < length ps"
  by (induction bo nd ds ps rule: run_pmc.induct) (auto split: prod.splits option.splits)

text \<open>
  The properties of a port: its state, its time stamping and the name of its interface, at most 15
  characters of it.  The data has the state 10, the time stamping 11, and the name from 12 octets on.
\<close>

definition port_properties :: "ptp_message \<Rightarrow> int \<times> u8 \<times> string" where
  "port_properties msg =
    (let s = m_suffix msg in (uint (octet s 16), octet s 17, map (\<lambda>b. char_of (unat b)) (octets s 19 (min 15 (unat (octet s 18))))))"

function port_properties_loop ::
  "byte_order \<Rightarrow> node \<Rightarrow> nat \<Rightarrow> pmc_poll list \<Rightarrow> node \<times> int \<times> (int \<times> u8 \<times> string) option \<times> pmc_poll list" where
  "port_properties_loop bo nd port ps =
    (case run_pmc bo nd (Some TLV_PORT_PROPERTIES_NP) ps of
       (nd, res, None, ps) \<Rightarrow> (nd, res, None, ps)
     | (nd, res, Some msg, ps) \<Rightarrow>
         if unat (rd16 bo (m_suffix msg) 14) \<noteq> port then port_properties_loop bo nd port ps
         else (nd, 1, Some (port_properties msg), ps))"
  by pat_completeness auto
termination
  by (relation "measure (\<lambda>(bo, nd, port, ps). length ps)") (auto dest!: run_pmc_shorter [OF sym])

definition run_pmc_port_properties ::
  "byte_order \<Rightarrow> node \<Rightarrow> nat \<Rightarrow> pmc_poll list \<Rightarrow> node \<times> int \<times> (int \<times> u8 \<times> string) option \<times> pmc_poll list" where
  "run_pmc_port_properties bo nd port ps =
    (case port_properties_loop bo (nd_act [PmcTarget (Some port)] nd) port ps of
       (nd, res, x, ps) \<Rightarrow> (nd_act [PmcTarget None] nd, res, x, ps))"

text \<open>Other ports are asked for as long as none of them is master or slave; \<open>pds\<close> starts with the identity.\<close>

function run_pmc_wait_sync :: "byte_order \<Rightarrow> node \<Rightarrow> pmc_poll list \<Rightarrow> node \<times> int \<times> pmc_poll list" where
  "run_pmc_wait_sync bo nd ps =
    (case run_pmc bo nd (Some TLV_PORT_DATA_SET) ps of
       (nd, res, None, ps) \<Rightarrow> (nd, res, ps)
     | (nd, res, Some msg, ps) \<Rightarrow>
         let st = uint (octet (m_suffix msg) 16)
         in if st = ST_MASTER \<or> st = ST_SLAVE then (nd, 1, ps)
            else run_pmc_wait_sync bo (nd\<lparr>nd_pmc_ds_requested := True\<rparr>) ps)"
  by pat_completeness auto
termination
  by (relation "measure (\<lambda>(bo, nd, ps). length ps)") (auto dest!: run_pmc_shorter [OF sym])

subsection \<open>Selecting the source of time\<close>

text \<open>
  The ports of the clock are asked for their properties; the result of the last one counts.  None
  stands for the use of a null pointer: a clock without a servo.
\<close>

fun poll_ports ::
  "byte_order \<Rightarrow> nat list \<Rightarrow> node \<Rightarrow> (int \<times> u8 \<times> string) option \<Rightarrow> pmc_poll list \<Rightarrow>
   node \<times> (int \<times> u8 \<times> string) option \<times> pmc_poll list" where
  "poll_ports bo [] nd x ps = (nd, x, ps)"
| "poll_ports bo (n # rest) nd x ps =
    (case run_pmc_port_properties bo nd n ps of
       (nd, res, Some (st, stamping, iface), ps) \<Rightarrow>
         poll_ports bo rest (set_port_state n (normalize_state st) nd) (Some (st, stamping, iface)) ps
     | (nd, res, None, ps) \<Rightarrow> poll_ports bo rest nd None ps)"

definition reset_clock :: "ps_clock \<Rightarrow> ps_clock option" where
  "reset_clock c =
    (case pc_servo c of
       None \<Rightarrow> None
     | Some sv \<Rightarrow>
         let c = c\<lparr>pc_servo := Some (servo_reset sv), pc_servo_state := SERVO_UNLOCKED\<rparr>
         in Some (if pc_offset_stats c \<noteq> None
            then c\<lparr>pc_offset_stats := Some stats_reset, pc_freq_stats := Some stats_reset,
                   pc_delay_stats := Some stats_reset\<rparr>
            else c))"

text \<open>
  The device of the clock after a change of its interface, with the clock closed that it used before;
  the last component is the flag \<open>phc_switched\<close>, None for the early return.
\<close>

definition switch_phc :: "ph_env \<Rightarrow> node \<Rightarrow> ps_clock \<Rightarrow> string \<Rightarrow> (node \<times> ps_clock \<times> bool option) option" where
  "switch_phc e nd c iface =
    (let c = (if pc_device c \<noteq> Some iface then c\<lparr>pc_device := Some iface\<rparr> else c)
     in case pe_ts_info e iface of
          None \<Rightarrow> Some (nd, c, Some False)
        | Some (_, index) \<Rightarrow>
            if pc_phc_index c = index then Some (nd, c, Some False)
            else
              (case clock_open e iface of
                 (clkid, phc_index) \<Rightarrow>
                   if clkid = CLOCK_INVALID then Some (nd, c, None)
                   else
                     let nd = nd_act [PhcClose (pc_clkid c)] nd;
                         c = c\<lparr>pc_clkid := clkid, pc_phc_index := phc_index\<rparr>
                     in (case servo_add e nd clkid of
                           (nd, None) \<Rightarrow> Some (nd, c, Some True)
                         | (nd, Some sv) \<Rightarrow>
                             if pc_servo c = None then None else Some (nd, c\<lparr>pc_servo := Some sv\<rparr>, Some True))))"

definition clock_reinit :: "ph_env \<Rightarrow> node \<Rightarrow> nat \<Rightarrow> int \<Rightarrow> pmc_poll list \<Rightarrow> (node \<times> pmc_poll list) option" where
  "clock_reinit e nd a new_state ps =
    (case poll_ports (pe_bo e) (map pp_number (filter (\<lambda>p. pp_clock p = a) (nd_ports nd))) nd None ps of
       (nd, x, ps) \<Rightarrow>
         (case clock_at nd a of
            None \<Rightarrow> None
          | Some c \<Rightarrow>
              (case (case x of
                       Some (_, stamping, iface) \<Rightarrow>
                         if stamping \<noteq> 0 then switch_phc e nd c iface else Some (nd, c, Some False)
                     | None \<Rightarrow> Some (nd, c, Some False)) of
                 None \<Rightarrow> None
               | Some (nd, c, None) \<Rightarrow> Some (set_clock c nd, ps)
               | Some (nd, c, Some switched) \<Rightarrow>
                   if new_state = ST_MASTER \<or> switched
                   then map_option (\<lambda>c. (set_clock c nd, ps)) (reset_clock c)
                   else Some (set_clock c nd, ps))))"

record scan =
  sc_rt :: "nat option"
  sc_src :: "nat option"
  sc_last :: "nat option"
  sc_src_cnt :: nat
  sc_dst_cnt :: nat

text \<open>The states in which the clock of a port is synchronised to another one.\<close>

definition update_needed :: "ps_clock \<Rightarrow> bool" where
  "update_needed c \<longleftrightarrow>
    pc_state c \<in> {ST_FAULTY, ST_DISABLED, ST_LISTENING, ST_PRE_MASTER, ST_MASTER, ST_PASSIVE}"

definition count_clock :: "ps_clock \<Rightarrow> scan \<Rightarrow> scan" where
  "count_clock c sc =
    (let sc = (if update_needed c then sc\<lparr>sc_dst_cnt := sc_dst_cnt sc + 1\<rparr>
               else if pc_state c = ST_UNCALIBRATED then sc\<lparr>sc_src_cnt := sc_src_cnt sc + 1\<rparr>
               else if pc_state c = ST_SLAVE
                 then sc\<lparr>sc_src := Some (pc_addr c), sc_src_cnt := sc_src_cnt sc + 1\<rparr>
               else sc)
     in sc\<lparr>sc_last := Some (pc_addr c)\<rparr>)"

text \<open>The new state of the clock takes effect.\<close>

definition enter_state :: "ph_env \<Rightarrow> node \<Rightarrow> ps_clock \<Rightarrow> pmc_poll list \<Rightarrow> (node \<times> pmc_poll list) option" where
  "enter_state e nd c ps =
    (if pc_new_state c = 0 then Some (nd, ps)
     else
       case clock_reinit e nd (pc_addr c) (pc_new_state c) ps of
         None \<Rightarrow> None
       | Some (nd, ps) \<Rightarrow>
           (case clock_at nd (pc_addr c) of
              None \<Rightarrow> None
            | Some c \<Rightarrow> Some (set_clock (c\<lparr>pc_state := pc_new_state c, pc_new_state := 0\<rparr>) nd, ps)))"

primrec scan_clocks ::
  "ph_env \<Rightarrow> nat list \<Rightarrow> node \<Rightarrow> scan \<Rightarrow> pmc_poll list \<Rightarrow> (node \<times> scan \<times> pmc_poll list) option" where
  "scan_clocks e [] nd sc ps = Some (nd, sc, ps)"
| "scan_clocks e (a # as) nd sc ps =
    (case clock_at nd a of
       None \<Rightarrow> None
     | Some c \<Rightarrow>
         if pc_clkid c = CLOCK_REALTIME then scan_clocks e as nd (sc\<lparr>sc_rt := Some a\<rparr>) ps
         else
           (case enter_state e nd c ps of
              None \<Rightarrow> None
            | Some (nd, ps) \<Rightarrow>
                (case clock_at nd a of
                   None \<Rightarrow> None
                 | Some c \<Rightarrow> scan_clocks e as nd (count_clock c sc) ps)))"

definition set_state :: "nat \<Rightarrow> int \<Rightarrow> node \<Rightarrow> node" where
  "set_state a st nd = (case clock_at nd a of None \<Rightarrow> nd | Some c \<Rightarrow> set_clock (c\<lparr>pc_state := st\<rparr>) nd)"

definition only_dest :: "node \<Rightarrow> nat option \<Rightarrow> bool" where
  "only_dest nd rt \<longleftrightarrow>
    (case rt of None \<Rightarrow> True | Some a \<Rightarrow> (case clock_at nd a of None \<Rightarrow> True | Some c \<Rightarrow> pc_dest_only c))"

definition select_default :: "scan \<Rightarrow> node \<Rightarrow> node" where
  "select_default sc nd =
    (case sc_last sc of
       None \<Rightarrow> nd
     | Some a \<Rightarrow>
         (case clock_at nd a of
            None \<Rightarrow> nd
          | Some c \<Rightarrow>
              let nd = (set_clock (c\<lparr>pc_new_state := pc_state c, pc_state := ST_SLAVE\<rparr>) nd)\<lparr>nd_master := Some a\<rparr>
              in (case sc_rt sc of None \<Rightarrow> nd | Some r \<Rightarrow> set_state r ST_SLAVE nd)))"

definition select_source :: "ph_env \<Rightarrow> scan \<Rightarrow> node \<Rightarrow> pmc_poll list \<Rightarrow> (node \<times> pmc_poll list) option" where
  "select_source e sc nd ps =
    (if sc_dst_cnt sc > 1 \<and> sc_src sc = None \<and> only_dest nd (sc_rt sc) then Some (select_default sc nd, ps)
     else if sc_src_cnt sc > 1 then Some (nd\<lparr>nd_master := None\<rparr>, ps)
     else if sc_src_cnt sc > 0 \<and> sc_src sc = None then Some (nd\<lparr>nd_master := None\<rparr>, ps)
     else if sc_src_cnt sc = 0 \<and> sc_dst_cnt sc = 0 then Some (nd\<lparr>nd_master := None\<rparr>, ps)
     else if (sc_src_cnt sc = 0 \<and> only_dest nd (sc_rt sc)) \<or> (sc_dst_cnt sc = 0 \<and> sc_rt sc = None)
       then Some (nd\<lparr>nd_master := None\<rparr>, ps)
     else
       (case sc_rt sc of
          None \<Rightarrow> Some (nd\<lparr>nd_master := sc_src sc\<rparr>, ps)
        | Some r \<Rightarrow>
            if sc_src_cnt sc = 0 then Some ((set_state r ST_SLAVE nd)\<lparr>nd_master := Some r\<rparr>, ps)
            else if map_option pc_state (clock_at nd r) = Some ST_MASTER then Some (nd\<lparr>nd_master := sc_src sc\<rparr>, ps)
            else map_option (\<lambda>(nd, ps). (nd\<lparr>nd_master := sc_src sc\<rparr>, ps))
              (clock_reinit e (set_state r ST_MASTER nd) r ST_MASTER ps)))"

definition empty_scan :: scan where
  "empty_scan = \<lparr>sc_rt = None, sc_src = None, sc_last = None, sc_src_cnt = 0, sc_dst_cnt = 0\<rparr>"

definition reconfigure :: "ph_env \<Rightarrow> node \<Rightarrow> pmc_poll list \<Rightarrow> (node \<times> pmc_poll list) option" where
  "reconfigure e nd ps =
    (case scan_clocks e (map pc_addr (nd_clocks nd)) (nd\<lparr>nd_state_changed := False\<rparr>) empty_scan ps of
       None \<Rightarrow> None
     | Some (nd, sc, ps) \<Rightarrow> select_source e sc nd ps)"

subsection \<open>Reading clocks\<close>

definition span_ns :: "timespec \<Rightarrow> timespec \<Rightarrow> i64" where
  "span_ns b a = (tv_sec b - tv_sec a) * 1000000000 + tv_nsec b - tv_nsec a"

definition ts_ns :: "timespec \<Rightarrow> u64" where
  "ts_ns t = tv_sec t * 1000000000 + tv_nsec t"

text \<open>The shortest interval so far, and the offset and time stamp of its reading.\<close>

definition read_phc_once ::
  "timespec \<times> timespec \<times> timespec \<Rightarrow> i64 \<times> i64 \<times> u64 \<Rightarrow> i64 \<times> i64 \<times> u64" where
  "read_phc_once r acc =
    (case r of (tdst1, tsrc, tdst2) \<Rightarrow>
     case acc of (best_interval, offset, ts) \<Rightarrow>
       let interval = span_ns tdst2 tdst1
       in if sint best_interval > sint interval
          then (interval, span_ns tdst1 tsrc + word_of_int (sint interval sdiv 2), ts_ns tdst2)
          else acc)"

primrec read_phc_loop ::
  "(timespec \<times> timespec \<times> timespec) option list \<Rightarrow> i64 \<times> i64 \<times> u64 \<Rightarrow> (i64 \<times> i64 \<times> u64) option" where
  "read_phc_loop [] acc = Some acc"
| "read_phc_loop (r # rs) acc = (case r of None \<Rightarrow> None | Some r \<Rightarrow> read_phc_loop rs (read_phc_once r acc))"

text \<open>
  Offset, time stamp and delay; None for a clock that cannot be read.  The offset and the time stamp are
  those of the caller if no interval is below the largest number.
\<close>

definition read_phc ::
  "(timespec \<times> timespec \<times> timespec) option list \<Rightarrow> i64 \<Rightarrow> u64 \<Rightarrow> (i64 \<times> u64 \<times> i64) option" where
  "read_phc readings offset ts =
     map_option (\<lambda>(best_interval, offset, ts). (offset, ts, best_interval))
       (read_phc_loop readings (0x7FFFFFFFFFFFFFFF, offset, ts))"

definition phc_readings :: "ph_env \<Rightarrow> node \<Rightarrow> int \<Rightarrow> int \<Rightarrow> (timespec \<times> timespec \<times> timespec) option list" where
  "phc_readings e nd clkid sysclk = map (pe_reading e clkid sysclk) [0..<nd_phc_readings nd]"

subsection \<open>Updating a clock\<close>

definition get_sync_offset :: "node \<Rightarrow> ps_clock \<Rightarrow> ps_clock \<Rightarrow> i64" where
  "get_sync_offset nd dst master =
    (let direction = (if nd_forced_sync_offset nd \<noteq> 0 then nd_forced_sync_offset nd
           else of_bool (pc_is_utc dst) - of_bool (pc_is_utc master))
     in word_of_int (pc_sync_offset dst) * 1000000000 * word_of_int direction)"

text \<open>The statistics are written to the log and start again when there are enough values.\<close>

definition update_clock_stats :: "ph_env \<Rightarrow> ps_clock \<Rightarrow> u32 \<Rightarrow> i64 \<Rightarrow> dbl \<Rightarrow> i64 \<Rightarrow> ps_clock" where
  "update_clock_stats e c max_count offset freq delay =
    (let add = (\<lambda>v. map_option (\<lambda>st. stats_add_value (pe_fl e) st v));
         c = c\<lparr>pc_offset_stats := add (dbl_of_i64 (pe_fl e) offset) (pc_offset_stats c),
               pc_freq_stats := add freq (pc_freq_stats c),
               pc_delay_stats := (if 0 \<le>s delay then add (dbl_of_i64 (pe_fl e) delay) (pc_delay_stats c) else pc_delay_stats c)\<rparr>
     in if (case pc_offset_stats c of None \<Rightarrow> True | Some st \<Rightarrow> stats_get_num_values st < max_count) then c
        else c\<lparr>pc_offset_stats := Some stats_reset, pc_freq_stats := Some stats_reset,
               pc_delay_stats := Some stats_reset\<rparr>)"

text \<open>The time stamp that decides about the leap second; None when the source cannot be read.\<close>

definition leap_ts :: "ph_env \<Rightarrow> node \<Rightarrow> ps_clock \<Rightarrow> ps_clock \<Rightarrow> i64 \<Rightarrow> u64 \<Rightarrow> u64 option" where
  "leap_ts e nd c master offset ts =
    map_option (\<lambda>ts. if pc_is_utc c \<and> pc_servo_state c = SERVO_UNLOCKED then ts - (offset + get_sync_offset nd c master) else ts)
      (if pc_is_utc master then map_option ts_ns (pe_gettime e (pc_clkid master)) else Some ts)"

text \<open>The new leap status is passed on; None for a clock without a servo.\<close>

definition apply_leap :: "ph_env \<Rightarrow> node \<Rightarrow> ps_clock \<Rightarrow> u64 \<Rightarrow> (node \<times> ps_clock) option" where
  "apply_leap e nd c ts =
    (case leap_second_status ts (pc_leap_set c) (nd_leap nd) (pc_sync_offset c) of
       (clock_leap, _, utc_offset) \<Rightarrow>
         let c = c\<lparr>pc_sync_offset := utc_offset\<rparr>
         in if pc_leap_set c = clock_leap then Some (nd, c)
            else if pc_clkid c = CLOCK_REALTIME \<and> nd_kernel_leap nd
              then Some (nd_act [SysclkLeap clock_leap] nd, c\<lparr>pc_leap_set := clock_leap\<rparr>)
            else map_option (\<lambda>sv. (nd, c\<lparr>pc_servo := Some (servo_leap (pe_fl e) sv clock_leap), pc_leap_set := clock_leap\<rparr>))
              (pc_servo c))"

definition apply_tai_offset :: "node \<Rightarrow> ps_clock \<Rightarrow> node \<times> ps_clock" where
  "apply_tai_offset nd c =
    (if nd_utc_offset_traceable nd \<and> pc_utc_offset_set c \<noteq> pc_sync_offset c
     then (if pc_clkid c = CLOCK_REALTIME then nd_act [SysclkTai (pc_sync_offset c)] nd else nd,
           c\<lparr>pc_utc_offset_set := pc_sync_offset c\<rparr>)
     else (nd, c))"

text \<open>The last component is true when the update of the clock is skipped.\<close>

definition handle_leap :: "ph_env \<Rightarrow> node \<Rightarrow> ps_clock \<Rightarrow> ps_clock \<Rightarrow> i64 \<Rightarrow> u64 \<Rightarrow> (node \<times> ps_clock \<times> bool) option" where
  "handle_leap e nd c master offset ts =
    (let c = c\<lparr>pc_sync_offset := nd_sync_offset nd\<rparr>
     in if (nd_leap nd \<noteq> 0 \<or> pc_leap_set c \<noteq> 0) \<and> pc_is_utc c \<noteq> pc_is_utc master then
          (case leap_ts e nd c master offset ts of
             None \<Rightarrow> Some (nd, c, True)
           | Some ts \<Rightarrow>
               if is_utc_ambiguous ts then Some (nd, c, True)
               else map_option (\<lambda>(nd, c). case apply_tai_offset nd c of (nd, c) \<Rightarrow> (nd, c, False)) (apply_leap e nd c ts))
        else case apply_tai_offset nd c of (nd, c) \<Rightarrow> Some (nd, c, False))"

text \<open>What the state of the servo asks for: a step, a frequency, and the mark that the system clock is synchronised.\<close>

definition steer_clock :: "node \<Rightarrow> ps_clock \<Rightarrow> servo_state \<Rightarrow> i64 \<Rightarrow> dbl \<Rightarrow> node \<times> ps_clock" where
  "steer_clock nd c state offset ppb =
    (let locked = (\<lambda>(nd, c).
           (nd_act ([ClockadjFreq (pc_clkid c) (- ppb)] @ (if pc_clkid c = CLOCK_REALTIME then [SysclkSync] else [])) nd,
            c\<lparr>pc_sanity_check := map_option (\<lambda>cc. clockcheck_set_freq cc (dbl_to_int (- ppb))) (pc_sanity_check c)\<rparr>))
     in case state of
          SERVO_UNLOCKED \<Rightarrow> (nd, c)
        | SERVO_JUMP \<Rightarrow>
            locked (nd_act [ClockadjStep (pc_clkid c) (- offset)] nd,
              c\<lparr>pc_sanity_check := map_option (\<lambda>cc. clockcheck_step cc (- offset)) (pc_sanity_check c)\<rparr>)
        | SERVO_LOCKED \<Rightarrow> locked (nd, c))"

text \<open>The clock check, which resets the servo when it raises an alarm.\<close>

definition sanity_sample :: "ph_env \<Rightarrow> ps_clock \<Rightarrow> servo \<Rightarrow> u64 \<Rightarrow> clockcheck option \<times> servo" where
  "sanity_sample e c sv ts =
    (case pc_sanity_check c of
       None \<Rightarrow> (None, sv)
     | Some cc \<Rightarrow>
         (case clockcheck_sample (pe_fl e) (pe_check_time e) cc ts of
            (cc, alarm) \<Rightarrow> (Some cc, if alarm then servo_reset sv else sv)))"

definition servo_update :: "ph_env \<Rightarrow> node \<Rightarrow> ps_clock \<Rightarrow> servo \<Rightarrow> i64 \<Rightarrow> u64 \<Rightarrow> i64 \<Rightarrow> node" where
  "servo_update e nd c sv offset ts delay =
    (case sanity_sample e c sv ts of
       (cc, sv) \<Rightarrow>
         (case servo_sample (pe_fl e) sv offset ts 1 of
            (sv, ppb, state) \<Rightarrow>
              (case steer_clock nd (c\<lparr>pc_sanity_check := cc, pc_servo := Some sv, pc_servo_state := state\<rparr>) state offset ppb of
                 (nd, c) \<Rightarrow>
                   set_clock (if pc_offset_stats c = None then c
                     else update_clock_stats e c (nd_stats_max_count nd) offset ppb delay) nd)))"

definition update_clock ::
  "ph_env \<Rightarrow> node \<Rightarrow> ps_clock \<Rightarrow> ps_clock \<Rightarrow> i64 \<Rightarrow> u64 \<Rightarrow> i64 \<Rightarrow> node option" where
  "update_clock e nd c master offset ts delay =
    (case handle_leap e nd c master offset ts of
       None \<Rightarrow> None
     | Some (nd, c, skip) \<Rightarrow>
         if skip then Some (set_clock c nd)
         else map_option (\<lambda>sv. servo_update e nd c sv (offset + get_sync_offset nd c master) ts delay) (pc_servo c))"

subsection \<open>The main loop\<close>

text \<open>How an iteration of a loop ends: the program crashes, its function returns, or it goes on.\<close>

datatype outcome = Crash | Return node int | Continue node

definition update_pmc :: "ph_env \<Rightarrow> node \<Rightarrow> bool \<Rightarrow> pmc_poll list \<Rightarrow> node \<times> int \<times> pmc_poll list" where
  "update_pmc e nd subscribe ps =
    (case pe_monotonic e of
       None \<Rightarrow> (nd, -1, ps)
     | Some tp \<Rightarrow>
         let ts = ts_ns tp
         in if nd_pmc nd \<and> \<not> (ts > nd_pmc_last_update nd \<and> ts - nd_pmc_last_update nd < 60000000000) then
              let (nd, ps) = (if subscribe then (case run_pmc_subscribe (pe_bo e) nd ps of (nd, _, ps) \<Rightarrow> (nd, ps)) else (nd, ps))
              in (case run_pmc_get_utc_offset (pe_bo e) nd ps of
                    (nd, res, ps) \<Rightarrow> (if res > 0 then nd\<lparr>nd_pmc_last_update := ts\<rparr> else nd, 0, ps))
            else (nd, 0, ps))"

definition same_clock :: "ps_clock \<Rightarrow> ps_clock \<Rightarrow> bool" where
  "same_clock c master \<longleftrightarrow>
    pc_clkid c = pc_clkid master \<or> (pc_phc_index c \<ge> 0 \<and> pc_phc_index c = pc_phc_index master) \<or>
    pc_device c = pc_device master"

definition sync_clock :: "ph_env \<Rightarrow> node \<Rightarrow> ps_clock \<Rightarrow> ps_clock \<Rightarrow> outcome" where
  "sync_clock e nd c master =
    (if \<not> update_needed c \<or> same_clock c master then Continue nd
     else
       let update = (\<lambda>(offset, ts, delay).
             case update_clock e nd c master offset ts delay of None \<Rightarrow> Crash | Some nd \<Rightarrow> Continue nd)
       in if pc_clkid c = CLOCK_REALTIME \<and> pc_sysoff_supported master then
            (case pe_sysoff e (pc_clkid master) of None \<Rightarrow> Return nd (-1) | Some r \<Rightarrow> update r)
          else
            (case read_phc (phc_readings e nd (pc_clkid master) (pc_clkid c)) 0 0 of
               None \<Rightarrow> Continue nd
             | Some r \<Rightarrow> update r))"

primrec sync_clocks :: "ph_env \<Rightarrow> nat \<Rightarrow> nat list \<Rightarrow> node \<Rightarrow> outcome" where
  "sync_clocks e m [] nd = Continue nd"
| "sync_clocks e m (a # as) nd =
    (case (clock_at nd a, clock_at nd m) of
       (Some c, Some master) \<Rightarrow>
         (case sync_clock e nd c master of Continue nd \<Rightarrow> sync_clocks e m as nd | r \<Rightarrow> r)
     | _ \<Rightarrow> Crash)"

definition loop_clocks :: "ph_env \<Rightarrow> node \<Rightarrow> outcome" where
  "loop_clocks e nd =
    (case nd_master nd of None \<Rightarrow> Continue nd | Some m \<Rightarrow> sync_clocks e m (map pc_addr (nd_clocks nd)) nd)"

definition do_loop_once :: "ph_env \<Rightarrow> node \<Rightarrow> bool \<Rightarrow> pmc_poll list \<Rightarrow> outcome" where
  "do_loop_once e nd subscriptions ps =
    (case update_pmc e nd subscriptions ps of
       (nd, r, ps) \<Rightarrow>
         if r < 0 then Continue nd
         else if \<not> subscriptions then loop_clocks e nd
         else
           (case run_pmc_events (pe_bo e) nd ps of
              (nd, ps) \<Rightarrow>
                if \<not> nd_state_changed nd then loop_clocks e nd
                else
                  (case run_pmc_get_utc_offset (pe_bo e) nd ps of
                     (nd, r, ps) \<Rightarrow>
                       if r \<le> 0 then Continue nd
                       else (case reconfigure e nd ps of None \<Rightarrow> Crash | Some (nd, ps) \<Rightarrow> loop_clocks e nd))))"

subsection \<open>A pulse per second as source\<close>

text \<open>The time stamp of the pulse, and how far it is from the next full second.\<close>

definition read_pps :: "(i64 \<times> i64) option \<Rightarrow> (i64 \<times> u64) option" where
  "read_pps pfd =
     map_option (\<lambda>(assert_sec, assert_nsec).
       let ts = assert_sec * 1000000000 + assert_nsec; offset = ts mod 1000000000
       in (if 500000000 <s offset then offset - 1000000000 else offset, ts)) pfd"

definition start_pps_loop :: "ph_env \<Rightarrow> node \<Rightarrow> node" where
  "start_pps_loop e nd =
    (case nd_master nd of
       None \<Rightarrow> nd
     | Some m \<Rightarrow>
         (case clock_at nd m of
            None \<Rightarrow> nd
          | Some c \<Rightarrow>
              let nd = set_clock (c\<lparr>pc_source_label := ''pps''\<rparr>) nd
              in if pc_clkid c = CLOCK_INVALID then nd\<lparr>nd_sync_offset := 0\<rparr>
                 else if pe_has_pps e (pc_clkid c) then nd_act [EnablePps (pc_clkid c)] nd else nd))"

text \<open>The offset of the pulse from the whole second of the PHC; None when it is too far from it.\<close>

definition pps_phc_offset :: "u64 \<Rightarrow> i64 \<Rightarrow> u64 \<Rightarrow> i64 option" where
  "pps_phc_offset pps_ts phc_offset phc_ts =
    (let phc_ts = phc_ts - phc_offset
     in if phc_ts mod 1000000000 > 10000000 then None
        else Some (pps_ts - phc_ts div 1000000000 * 1000000000))"

definition pps_update :: "ph_env \<Rightarrow> node \<Rightarrow> nat \<Rightarrow> i64 \<Rightarrow> u64 \<Rightarrow> pmc_poll list \<Rightarrow> outcome" where
  "pps_update e nd a pps_offset pps_ts ps =
    (case update_pmc e nd False ps of
       (nd, r, ps) \<Rightarrow>
         if r < 0 then Continue nd
         else
           (case (clock_at nd a, nd_master nd) of
              (Some c, Some m) \<Rightarrow>
                (case clock_at nd m of
                   None \<Rightarrow> Crash
                 | Some master \<Rightarrow>
                     (case update_clock e nd c master pps_offset pps_ts (-1) of None \<Rightarrow> Crash | Some nd \<Rightarrow> Continue nd))
            | _ \<Rightarrow> Crash))"

definition do_pps_loop_once :: "ph_env \<Rightarrow> node \<Rightarrow> nat \<Rightarrow> int \<Rightarrow> pmc_poll list \<Rightarrow> outcome" where
  "do_pps_loop_once e nd a src ps =
    (case (read_pps (pe_fd_pps e), clock_at nd a) of
       (None, _) \<Rightarrow> Continue nd
     | (Some (pps_offset, pps_ts), None) \<Rightarrow> Crash
     | (Some (pps_offset, pps_ts), Some c) \<Rightarrow>
         if src = CLOCK_INVALID then pps_update e nd a pps_offset pps_ts ps
         else
           (case read_phc (phc_readings e nd src (pc_clkid c)) 0 0 of
              None \<Rightarrow> Return nd (-1)
            | Some (phc_offset, phc_ts, _) \<Rightarrow>
                (case pps_phc_offset pps_ts phc_offset phc_ts of
                   None \<Rightarrow> Continue nd
                 | Some pps_offset \<Rightarrow> pps_update e nd a pps_offset pps_ts ps)))"

subsection \<open>Automatic configuration\<close>

lemma run_pmc_not_longer: "run_pmc bo nd ds ps = (nd', r, m, ps') \<Longrightarrow> length ps' \<le> length ps"
  by (induction bo nd ds ps rule: run_pmc.induct) (auto split: prod.splits option.splits)

text \<open>
  Waiting for ptp4l until it answers, there is an error (-1), or the program is told to stop, which it is
  when the outcomes of \<open>poll\<close> are used up.
\<close>

function wait_clock_identity :: "byte_order \<Rightarrow> node \<Rightarrow> pmc_poll list \<Rightarrow> node \<times> int \<times> pmc_poll list" where
  "wait_clock_identity bo nd ps =
    (if ps = [] then (nd, -1, ps)
     else
       case run_pmc_clock_identity bo nd ps of
         (nd, res, ps') \<Rightarrow>
           if res < 0 then (nd, -1, ps') else if res > 0 then (nd, 1, ps')
           else if length ps' < length ps then wait_clock_identity bo nd ps' else (nd, -1, ps'))"
  by pat_completeness auto
termination by (relation "measure (\<lambda>(bo, nd, ps). length ps)") auto

text \<open>The ports from \<open>i\<close> on; false for an error.\<close>

primrec add_ports :: "ph_env \<Rightarrow> nat list \<Rightarrow> node \<Rightarrow> pmc_poll list \<Rightarrow> node \<times> bool \<times> pmc_poll list" where
  "add_ports e [] nd ps = (nd, True, ps)"
| "add_ports e (i # is) nd ps =
    (case run_pmc_port_properties (pe_bo e) nd i ps of
       (nd, res, None, ps) \<Rightarrow> if res = -1 then add_ports e is nd ps else (nd, False, ps)
     | (nd, res, Some (st, stamping, iface), ps) \<Rightarrow>
         if stamping = 0 then add_ports e is nd ps
         else
           (case port_add e nd i iface of
              (nd, False) \<Rightarrow> (nd, False, ps)
            | (nd, True) \<Rightarrow> add_ports e is (set_port_state i (normalize_state st) nd) ps))"

text \<open>The state of the clocks is that of their ports, and the source is to be selected.\<close>

definition init_states :: "node \<Rightarrow> node" where
  "init_states nd =
     nd\<lparr>nd_clocks := map (\<lambda>c. c\<lparr>pc_new_state := clock_compute_state nd (pc_addr c)\<rparr>) (nd_clocks nd),
        nd_state_changed := True\<rparr>"

definition add_realtime :: "ph_env \<Rightarrow> int \<Rightarrow> node \<Rightarrow> node \<times> bool" where
  "add_realtime e add_rt nd =
    (if add_rt = 0 then (nd, True)
     else
       case clock_add e nd (Some ''CLOCK_REALTIME'') of
         (nd, None) \<Rightarrow> (nd, False)
       | (nd, Some a) \<Rightarrow>
           (if add_rt = 1
            then (case clock_at nd a of None \<Rightarrow> nd | Some c \<Rightarrow> set_clock (c\<lparr>pc_dest_only := True\<rparr>) nd)
            else nd, True))"

definition auto_init_ports :: "ph_env \<Rightarrow> node \<Rightarrow> int \<Rightarrow> pmc_poll list \<Rightarrow> node \<times> int \<times> pmc_poll list" where
  "auto_init_ports e nd add_rt ps =
    (case wait_clock_identity (pe_bo e) nd ps of
       (nd, res, ps) \<Rightarrow>
         if res < 0 then (nd, -1, ps)
         else
           (case run_pmc_get_number_ports (pe_bo e) nd ps of
              (nd, number_ports, ps) \<Rightarrow>
                if number_ports \<le> 0 then (nd, -1, ps)
                else
                  (case run_pmc_subscribe (pe_bo e) nd ps of
                     (nd, res, ps) \<Rightarrow>
                       if res \<le> 0 then (nd, -1, ps)
                       else
                         (case add_ports e [1..<Suc (nat number_ports)] nd ps of
                            (nd, False, ps) \<Rightarrow> (nd, -1, ps)
                          | (nd, True, ps) \<Rightarrow>
                              if nd_clocks nd = [] then (nd, -1, ps)
                              else
                                (case add_realtime e add_rt (init_states nd) of
                                   (nd, False) \<Rightarrow> (nd, -1, ps)
                                 | (nd, True) \<Rightarrow>
                                     (case run_pmc_get_utc_offset (pe_bo e) nd ps of
                                        (nd, res, ps) \<Rightarrow> (nd, if res \<le> 0 then -1 else 0, ps)))))))"

end
