(* ===== verification/Phc2sysMain.thy ===== *)
theory Phc2sysMain
  imports Phc2sys Args "HOL-Library.Monad_Syntax"
begin

text \<open>
  The program phc2sys up to its loops (\<open>main\<close>, \<open>init_pmc\<close> and \<open>close_pmc\<close> in src/phc2sys.c): the arguments,
  the configuration file, the checks of what was asked for, and the clocks that are synchronised in the
  manual mode.  The iterations of the loops are \<open>do_loop_once\<close> and \<open>do_pps_loop_once\<close>.
\<close>

subsection \<open>Arguments\<close>

record ps_args =
  xa_cfg :: Config.config
  xa_config :: "string option"
  xa_autocfg :: bool
  xa_rt :: int
  xa_dst_name :: "string option"
  xa_src_name :: "string option"
  xa_pps :: bool
  xa_wait_sync :: bool
  xa_stats_max_count :: u32
  xa_phc_readings :: nat
  xa_phc_interval :: dbl
  xa_sync_offset :: int
  xa_forced_sync_offset :: int

text \<open>The constants of the PI servo are not those of ptp4l.\<close>

definition KP :: dbl where "KP = 7 / 10"
definition KI :: dbl where "KI = 3 / 10"

abbreviation (input) INT_MAX :: int where "INT_MAX \<equiv> 2147483647"
abbreviation (input) INT_MIN :: int where "INT_MIN \<equiv> - 2147483648"
abbreviation (input) UINT_MAX :: int where "UINT_MAX \<equiv> 4294967295"

definition put_cfg :: "ps_args \<Rightarrow> Config.config \<times> bool \<Rightarrow> int + ps_args" where
  "put_cfg st r = or_out (map_option (\<lambda>cfg. st\<lparr>xa_cfg := cfg\<rparr>) (set_ok r))"

text \<open>The result of these calls is ignored.\<close>

definition set_servo :: "bool \<Rightarrow> int \<Rightarrow> ps_args \<Rightarrow> ps_args" where
  "set_servo mem v st = st\<lparr>xa_cfg := fst (config_set_int mem (xa_cfg st) ''clock_servo'' v)\<rparr>"

text \<open>An argument with a number, which is refused outside its bounds.\<close>

definition with_int :: "string \<Rightarrow> int \<Rightarrow> int \<Rightarrow> (int \<Rightarrow> int + ps_args) \<Rightarrow> int + ps_args" where
  "with_int optarg lo hi f = (case get_arg_val_i optarg lo hi of None \<Rightarrow> Inl (- 1) | Some v \<Rightarrow> f v)"

definition with_double ::
  "(string \<Rightarrow> (real \<times> string \<times> bool) option) \<Rightarrow> string \<Rightarrow> real \<Rightarrow> real \<Rightarrow> (real \<Rightarrow> int + ps_args) \<Rightarrow> int + ps_args" where
  "with_double strtod optarg lo hi f = (case get_arg_val_d strtod optarg lo hi of None \<Rightarrow> Inl (- 1) | Some v \<Rightarrow> f v)"

text \<open>\<open>opens\<close> tells which devices can be opened; \<open>fl\<close> rounds to a double.\<close>

definition ps_short_option ::
  "bool \<Rightarrow> (real \<Rightarrow> real) \<Rightarrow> (string \<Rightarrow> (real \<times> string \<times> bool) option) \<Rightarrow> (string \<Rightarrow> bool) \<Rightarrow> char \<Rightarrow> string \<Rightarrow> ps_args \<Rightarrow>
   int + ps_args" where
  "ps_short_option mem fl strtod opens c optarg st =
    (let cfg = xa_cfg st
     in if c = CHR ''a'' then Inr (st\<lparr>xa_autocfg := True\<rparr>)
        else if c = CHR ''r'' then Inr (st\<lparr>xa_rt := xa_rt st + 1\<rparr>)
        else if c = CHR ''c'' then Inr (st\<lparr>xa_dst_name := Some optarg\<rparr>)
        else if c = CHR ''d'' then (if opens optarg then Inr (st\<lparr>xa_pps := True\<rparr>) else Inl (- 1))
        else if c = CHR ''f'' then Inr (st\<lparr>xa_config := Some optarg\<rparr>)
        else if c = CHR ''i'' \<or> c = CHR ''s'' then Inr (st\<lparr>xa_src_name := Some optarg\<rparr>)
        else if c = CHR ''E'' then
          (if strcaseeq optarg ''pi'' then Inr (set_servo mem 0 st)
           else if strcaseeq optarg ''linreg'' then Inr (set_servo mem 1 st)
           else if strcaseeq optarg ''ntpshm'' then Inr (set_servo mem 2 st)
           else Inl (- 1))
        else if c = CHR ''P'' then
          with_double strtod optarg 0 DBL_MAX (\<lambda>v. put_cfg st (config_set_double cfg ''pi_proportional_const'' v))
        else if c = CHR ''I'' then
          with_double strtod optarg 0 DBL_MAX (\<lambda>v. put_cfg st (config_set_double cfg ''pi_integral_const'' v))
        else if c = CHR ''S'' then
          with_double strtod optarg 0 DBL_MAX (\<lambda>v. put_cfg st (config_set_double cfg ''step_threshold'' v))
        else if c = CHR ''F'' then
          with_double strtod optarg 0 DBL_MAX (\<lambda>v. put_cfg st (config_set_double cfg ''first_step_threshold'' v))
        else if c = CHR ''R'' then
          with_double strtod optarg (1 / 10 ^ 9) DBL_MAX (\<lambda>phc_rate. Inr (st\<lparr>xa_phc_interval := fl (1 / phc_rate)\<rparr>))
        else if c = CHR ''N'' then with_int optarg 1 INT_MAX (\<lambda>v. Inr (st\<lparr>xa_phc_readings := nat v\<rparr>))
        else if c = CHR ''O'' then
          with_int optarg INT_MIN INT_MAX (\<lambda>v. Inr (st\<lparr>xa_sync_offset := v, xa_forced_sync_offset := - 1\<rparr>))
        else if c = CHR ''L'' then
          with_int optarg 0 INT_MAX (\<lambda>v. put_cfg st (config_set_int mem cfg ''sanity_freq_limit'' v))
        else if c = CHR ''M'' then
          with_int optarg INT_MIN INT_MAX (\<lambda>v. put_cfg st (config_set_int mem cfg ''ntpshm_segment'' v))
        else if c = CHR ''u'' then
          (case get_arg_val_ui optarg 0 UINT_MAX of
             None \<Rightarrow> Inl (- 1)
           | Some v \<Rightarrow> Inr (st\<lparr>xa_stats_max_count := word_of_int v\<rparr>))
        else if c = CHR ''w'' then Inr (st\<lparr>xa_wait_sync := True\<rparr>)
        else if c = CHR ''n'' then with_int optarg 0 255 (\<lambda>v. put_cfg st (config_set_int mem cfg ''domainNumber'' v))
        else if c = CHR ''x'' then put_cfg st (config_set_int mem cfg ''kernel_leap'' 0)
        else if c = CHR ''z'' then
          (if length optarg > 108 then Inl (- 1) else put_cfg st (config_set_string mem cfg ''uds_address'' optarg))
        else if c = CHR ''l'' then with_int optarg 0 7 (\<lambda>v. put_cfg st (config_set_int mem cfg ''logging_level'' v))
        else if c = CHR ''t'' then put_cfg st (config_set_string mem cfg ''message_tag'' optarg)
        else if c = CHR ''m'' then put_cfg st (config_set_int mem cfg ''verbose'' 1)
        else if c = CHR ''q'' then put_cfg st (config_set_int mem cfg ''use_syslog'' 0)
        else if c = CHR ''v'' \<or> c = CHR ''h'' then Inl 0
        else Inl (- 1))"

definition ps_argument ::
  "bool \<Rightarrow> (real \<Rightarrow> real) \<Rightarrow> (string \<Rightarrow> (real \<times> string \<times> bool) option) \<Rightarrow> (string \<Rightarrow> bool) \<Rightarrow> argument \<Rightarrow> ps_args \<Rightarrow>
   int + ps_args" where
  "ps_argument mem fl strtod opens arg st =
    (case arg of
       LongOpt name optarg \<Rightarrow>
         or_out (map_option (\<lambda>cfg. st\<lparr>xa_cfg := cfg\<rparr>)
           (Option.bind (config_parse_option mem strtod (xa_cfg st) name optarg) set_ok))
     | Opt c optarg \<Rightarrow> ps_short_option mem fl strtod opens c optarg st
     | UnknownOpt \<Rightarrow> Inl (- 1))"

fun ps_arguments ::
  "bool \<Rightarrow> (real \<Rightarrow> real) \<Rightarrow> (string \<Rightarrow> (real \<times> string \<times> bool) option) \<Rightarrow> (string \<Rightarrow> bool) \<Rightarrow> argument list \<Rightarrow> ps_args \<Rightarrow>
   int + ps_args" where
  "ps_arguments mem fl strtod opens [] st = Inr st"
| "ps_arguments mem fl strtod opens (arg # args) st =
    (case ps_argument mem fl strtod opens arg st of
       Inl status \<Rightarrow> Inl status
     | Inr st \<Rightarrow> ps_arguments mem fl strtod opens args st)"

text \<open>The configuration before the arguments, with the constants of the PI servo set.\<close>

definition ps_defaults :: "Config.config \<Rightarrow> Config.config" where
  "ps_defaults cfg = fst (config_set_double (fst (config_set_double cfg ''pi_proportional_const'' KP)) ''pi_integral_const'' KI)"

text \<open>The options exclude and require each other.\<close>

definition valid_mode :: "ps_args \<Rightarrow> bool" where
  "valid_mode st \<longleftrightarrow>
    \<not> (xa_autocfg st \<and> (xa_src_name st \<noteq> None \<or> xa_dst_name st \<noteq> None \<or> xa_pps st \<or> xa_wait_sync st \<or> xa_forced_sync_offset st \<noteq> 0)) \<and>
    \<not> (\<not> xa_autocfg st \<and> \<not> xa_pps st \<and> xa_src_name st = None) \<and>
    \<not> (\<not> xa_autocfg st \<and> \<not> xa_wait_sync st \<and> xa_forced_sync_offset st = 0)"

text \<open>Arguments and configuration file: the status with which the program ends, or what was asked for.\<close>

definition ps_configure ::
  "bool \<Rightarrow> (real \<Rightarrow> real) \<Rightarrow> (string \<Rightarrow> (real \<times> string \<times> bool) option) \<Rightarrow> (string \<Rightarrow> bool) \<Rightarrow> (string \<Rightarrow> string option) \<Rightarrow>
   argument list \<Rightarrow> int + ps_args" where
  "ps_configure mem fl strtod opens files args =
    (case config_create mem of
       None \<Rightarrow> Inl (- 1)
     | Some cfg \<Rightarrow>
         (case ps_arguments mem fl strtod opens args
             \<lparr>xa_cfg = ps_defaults cfg, xa_config = None, xa_autocfg = False, xa_rt = 0, xa_dst_name = None,
              xa_src_name = None, xa_pps = False, xa_wait_sync = False, xa_stats_max_count = 0, xa_phc_readings = 5,
              xa_phc_interval = 1, xa_sync_offset = 0, xa_forced_sync_offset = 0\<rparr> of
            Inl status \<Rightarrow> Inl status
          | Inr st \<Rightarrow>
              (case (case xa_config st of
                  None \<Rightarrow> Some (xa_cfg st, 0)
                | Some name \<Rightarrow> config_read mem strtod (files name) (xa_cfg st)) of
                 None \<Rightarrow> Inl (- 1)
               | Some (cfg, r) \<Rightarrow>
                   if r \<noteq> 0 then Inl r
                   else if valid_mode st then Inr (st\<lparr>xa_cfg := cfg\<rparr>) else Inl (- 1))))"

subsection \<open>The node\<close>

text \<open>What the program reads of the configuration before it looks for clocks.\<close>

definition make_node :: "bool \<Rightarrow> ps_args \<Rightarrow> (node \<times> Config.config) option" where
  "make_node mem st =
    do {
      message_tag \<leftarrow> config_get_string (xa_cfg st) None ''message_tag'';
      verbose \<leftarrow> config_get_int (xa_cfg st) None ''verbose'';
      use_syslog \<leftarrow> config_get_int (xa_cfg st) None ''use_syslog'';
      logging_level \<leftarrow> config_get_int (xa_cfg st) None ''logging_level'';
      servo \<leftarrow> config_get_int (xa_cfg st) None ''clock_servo'';
      let cfg = (if servo = 2
        then fst (config_set_int mem (fst (config_set_int mem (xa_cfg st) ''kernel_leap'' 0)) ''sanity_freq_limit'' 0)
        else xa_cfg st);
      kernel_leap \<leftarrow> config_get_int cfg None ''kernel_leap'';
      sanity_freq_limit \<leftarrow> config_get_int cfg None ''sanity_freq_limit'';
      Some (\<lparr>nd_stats_max_count = xa_stats_max_count st, nd_sanity_freq_limit = sanity_freq_limit,
        nd_servo_type = servo_type_of servo, nd_phc_readings = xa_phc_readings st, nd_phc_interval = xa_phc_interval st,
        nd_sync_offset = xa_sync_offset st, nd_forced_sync_offset = xa_forced_sync_offset st,
        nd_utc_offset_traceable = False, nd_leap = 0, nd_kernel_leap = (kernel_leap \<noteq> 0), nd_pmc = False,
        nd_pmc_ds_requested = False, nd_pmc_last_update = 0, nd_state_changed = False, nd_clock_identity = None,
        nd_ports = [], nd_clocks = [], nd_master = None, nd_next = 0, nd_fx = []\<rparr>, cfg)
    }"

definition init_pmc :: "bool \<Rightarrow> Config.config \<Rightarrow> node \<Rightarrow> node option" where
  "init_pmc created cfg nd =
    do {
      domain_number \<leftarrow> config_get_int cfg None ''domainNumber'';
      specific \<leftarrow> config_get_int cfg None ''transportSpecific'';
      if created then Some (nd\<lparr>nd_pmc := True\<rparr>) else None
    }"

definition close_pmc :: "node \<Rightarrow> node" where
  "close_pmc nd = nd\<lparr>nd_pmc := False\<rparr>"

subsection \<open>The manual mode\<close>

text \<open>The loop that is entered next with its node, or the status; \<open>Crashed\<close> for a null pointer.\<close>

datatype start = Exited int | Crashed | AutoLoop node | ManualLoop node | PpsLoop node nat

text \<open>The source and the destination clock with their states; None when one is not valid.\<close>

definition add_clocks :: "ph_env \<Rightarrow> ps_args \<Rightarrow> node \<Rightarrow> (node \<times> nat \<times> nat) option" where
  "add_clocks e st nd =
    (case clock_add e nd (xa_src_name st) of
       (_, None) \<Rightarrow> None
     | (nd, Some src) \<Rightarrow>
         let nd = (set_state src ST_SLAVE nd)\<lparr>nd_master := Some src\<rparr>;
             dst_name = (case xa_dst_name st of None \<Rightarrow> ''CLOCK_REALTIME'' | Some name \<Rightarrow> name)
         in (case clock_add e nd (Some dst_name) of
               (_, None) \<Rightarrow> None
             | (nd, Some dst) \<Rightarrow> Some (set_state dst ST_MASTER nd, src, dst)))"

definition clkid_at :: "node \<Rightarrow> nat \<Rightarrow> int" where
  "clkid_at nd a = (case clock_at nd a of None \<Rightarrow> CLOCK_INVALID | Some c \<Rightarrow> pc_clkid c)"

text \<open>
  The loop that waits for ptp4l.  It goes on until ptp4l answers, there is an error, or the program is
  told to stop, which it is when the outcomes of \<open>poll\<close> are used up.
\<close>

function wait_for_ptp4l :: "byte_order \<Rightarrow> node \<Rightarrow> pmc_poll list \<Rightarrow> node \<times> int \<times> pmc_poll list" where
  "wait_for_ptp4l bo nd ps =
    (if ps = [] then (nd, 0, ps)
     else
       case run_pmc_wait_sync bo nd ps of
         (nd, r, ps') \<Rightarrow>
           if r < 0 then (nd, r, ps') else if r > 0 then (nd, r, ps')
           else if length ps' < length ps then wait_for_ptp4l bo nd ps' else (nd, 0, ps'))"
  by pat_completeness auto
termination by (relation "measure (\<lambda>(bo, nd, ps). length ps)") auto

text \<open>
  With -w: ptp4l has to be synchronised, and tells the UTC offset unless it was given.  Afterwards it is
  asked again only for the sake of leap seconds between the system clock and another one.
\<close>

definition wait_sync ::
  "ph_env \<Rightarrow> bool \<Rightarrow> Config.config \<Rightarrow> nat \<Rightarrow> nat \<Rightarrow> node \<Rightarrow> pmc_poll list \<Rightarrow> int + node" where
  "wait_sync e created cfg src dst nd ps =
    (case init_pmc created cfg nd of
       None \<Rightarrow> Inl (- 1)
     | Some nd \<Rightarrow>
         (case wait_for_ptp4l (pe_bo e) nd ps of
            (nd, r, ps) \<Rightarrow>
              if r < 0 then Inl r
              else
                (case (if nd_forced_sync_offset nd = 0 then run_pmc_get_utc_offset (pe_bo e) nd ps else (nd, 1, ps)) of
                   (nd, r, _) \<Rightarrow>
                     if r \<le> 0 then Inl r
                     else if nd_forced_sync_offset nd \<noteq> 0 \<or>
                         (clkid_at nd src \<noteq> CLOCK_REALTIME \<and> clkid_at nd dst \<noteq> CLOCK_REALTIME) \<or>
                         clkid_at nd src = CLOCK_INVALID
                       then Inr (close_pmc nd) else Inr nd)))"

definition start_pps :: "ph_env \<Rightarrow> nat \<Rightarrow> node \<Rightarrow> start" where
  "start_pps e dst nd =
    (case clock_at nd dst of
       None \<Rightarrow> Crashed
     | Some c \<Rightarrow>
         (case pc_servo c of
            None \<Rightarrow> Crashed
          | Some sv \<Rightarrow> PpsLoop (set_clock (c\<lparr>pc_servo := Some (servo_sync_interval (pe_fl e) sv 1)\<rparr>) nd) dst))"

definition start_manual :: "ph_env \<Rightarrow> bool \<Rightarrow> ps_args \<Rightarrow> node \<Rightarrow> Config.config \<Rightarrow> pmc_poll list \<Rightarrow> start" where
  "start_manual e created st nd cfg ps =
    (case add_clocks e st nd of
       None \<Rightarrow> Exited (- 1)
     | Some (nd, src, dst) \<Rightarrow>
         if xa_pps st \<and> clkid_at nd dst \<noteq> CLOCK_REALTIME then Exited (- 1)
         else
           (case (if xa_wait_sync st then wait_sync e created cfg src dst nd ps else Inr nd) of
              Inl status \<Rightarrow> Exited status
            | Inr nd \<Rightarrow> if xa_pps st then start_pps e dst nd else ManualLoop nd))"

definition start_auto :: "ph_env \<Rightarrow> bool \<Rightarrow> ps_args \<Rightarrow> node \<Rightarrow> Config.config \<Rightarrow> pmc_poll list \<Rightarrow> start" where
  "start_auto e created st nd cfg ps =
    (case init_pmc created cfg nd of
       None \<Rightarrow> Exited (- 1)
     | Some nd \<Rightarrow> (case auto_init_ports e nd (xa_rt st) ps of (nd, r, _) \<Rightarrow> if r < 0 then Exited (- 1) else AutoLoop nd))"

text \<open>
  The program up to its loop.  The environment of the clocks gets the configuration that the servos read;
  \<open>created\<close> tells whether the connection to ptp4l can be created.
\<close>

definition phc2sys_main ::
  "ph_env \<Rightarrow> (string \<Rightarrow> (real \<times> string \<times> bool) option) \<Rightarrow> (string \<Rightarrow> bool) \<Rightarrow> (string \<Rightarrow> string option) \<Rightarrow> bool \<Rightarrow>
   argument list \<Rightarrow> pmc_poll list \<Rightarrow> start" where
  "phc2sys_main e strtod opens files created args ps =
    (case ps_configure (pe_mem e) (pe_fl e) strtod opens files args of
       Inl status \<Rightarrow> Exited status
     | Inr st \<Rightarrow>
         (case make_node (pe_mem e) st of
            None \<Rightarrow> Exited (- 1)
          | Some (nd, cfg) \<Rightarrow>
              (if xa_autocfg st then start_auto else start_manual) (e\<lparr>pe_cfg := servo_config cfg\<rparr>) created st nd cfg ps))"

end
