(* ===== verification/Phc2sysMainProps.thy ===== *)
theory Phc2sysMainProps
  imports Phc2sysMain ArgsProps
begin

text \<open>What becomes of the options of phc2sys: the constants of the PI servo cannot be set in the configuration file.\<close>

definition ps_sets_int :: "string \<Rightarrow> int \<Rightarrow> bool" where
  "ps_sets_int l v \<longleftrightarrow>
    (l, v) \<in> set [(''clock_servo'', 0), (''clock_servo'', 1), (''clock_servo'', 2), (''kernel_leap'', 0), (''verbose'', 1),
      (''use_syslog'', 0)] \<or>
    l = ''sanity_freq_limit'' \<and> 0 \<le> v \<and> v \<le> INT_MAX \<or> l = ''ntpshm_segment'' \<and> INT_MIN \<le> v \<and> v \<le> INT_MAX \<or>
    l = ''logging_level'' \<and> 0 \<le> v \<and> v \<le> 7"

definition ps_sets_double :: "string \<Rightarrow> real \<Rightarrow> bool" where
  "ps_sets_double l v \<longleftrightarrow>
    l \<in> set [''pi_proportional_const'', ''pi_integral_const'', ''step_threshold'', ''first_step_threshold''] \<and> 0 \<le> v \<and> v \<le> DBL_MAX"

lemmas tab_items = config_tab_def CONFIG_ITEM_INT_def CONFIG_ITEM_DBL_def CONFIG_ITEM_ENUM_def CONFIG_ITEM_STRING_def

lemma ps_sets_may_set:
  "ps_sets_int l v \<Longrightarrow> may_set l (AnyInt v)" "ps_sets_double l d \<Longrightarrow> may_set l (AnyDouble d)"
  "l \<in> set [''uds_address'', ''message_tag''] \<Longrightarrow> may_set l (AnyString s)"
proof -
  have "list_all (\<lambda>l. l \<in> set (map ci_label config_tab)) [''clock_servo'', ''kernel_leap'', ''verbose'', ''use_syslog'',
    ''sanity_freq_limit'', ''ntpshm_segment'', ''logging_level'', ''pi_proportional_const'', ''pi_integral_const'',
    ''step_threshold'', ''first_step_threshold'', ''uds_address'', ''message_tag'']"
    unfolding config_labels by simp
  then have l: "ps_sets_int l v \<Longrightarrow> l \<in> set (map ci_label config_tab)" "ps_sets_double l d \<Longrightarrow> l \<in> set (map ci_label config_tab)"
    "l \<in> set [''uds_address'', ''message_tag''] \<Longrightarrow> l \<in> set (map ci_label config_tab)"
    by (auto simp: ps_sets_int_def ps_sets_double_def)
  have "list_all (\<lambda>t. ci_label t = l \<longrightarrow> ps_sets_int l v \<longrightarrow> in_range t (AnyInt v)) config_tab"
    by (auto simp: tab_items in_range_def int_of_any_def clock_servo_enu_def ps_sets_int_def)
  then show "ps_sets_int l v \<Longrightarrow> may_set l (AnyInt v)" using may_setI [OF l(1)] by (simp add: list_all_length)
  have "list_all (\<lambda>t. ci_label t = l \<longrightarrow> ps_sets_double l d \<longrightarrow> in_range t (AnyDouble d)) config_tab"
    by (auto simp: tab_items in_range_def double_of_any_def ps_sets_double_def)
  then show "ps_sets_double l d \<Longrightarrow> may_set l (AnyDouble d)" using may_setI [OF l(2)] by (simp add: list_all_length)
  have "list_all (\<lambda>t. ci_label t = l \<longrightarrow> l \<in> set [''uds_address'', ''message_tag''] \<longrightarrow> in_range t (AnyString s)) config_tab"
    by (auto simp: tab_items in_range_def)
  then show "l \<in> set [''uds_address'', ''message_tag''] \<Longrightarrow> may_set l (AnyString s)"
    using may_setI [OF l(3)] by (simp add: list_all_length)
qed

subsection \<open>Invariants of the arguments\<close>

text \<open>
  What the setters, apart from that of the domain number, and long options keep, an argument keeps.  \<open>F\<close> are the
  letters of the options that set a double, with its name.
\<close>

definition double_options :: "(char \<times> string) list" where
  "double_options = [(CHR ''P'', ''pi_proportional_const''), (CHR ''I'', ''pi_integral_const''), (CHR ''S'', ''step_threshold''),
     (CHR ''F'', ''first_step_threshold'')]"

lemma arg_val_d_bounds: "get_arg_val_d strtod s lo hi = Some v \<Longrightarrow> lo \<le> v \<and> v \<le> hi"
  by (auto simp: get_arg_val_d_def arg_val_def get_ranged_double_def get_ranged_def split: sum.splits option.splits if_splits)

lemma arg_val_i_bounds: "get_arg_val_i s lo hi = Some v \<Longrightarrow> lo \<le> v \<and> v \<le> hi"
  by (auto simp: get_arg_val_i_def arg_val_def get_ranged_int_def get_ranged_def split: sum.splits option.splits if_splits)

lemma ps_argument_keeps:
  assumes "ps_argument mem fl strtod opens arg st = Inr st'" "P (xa_cfg st)"
    and "\<And>v. arg \<noteq> Opt CHR ''n'' v"
    and int: "\<And>cfg l v. P cfg \<Longrightarrow> ps_sets_int l v \<Longrightarrow> P (fst (config_set_int mem cfg l v))"
    and double: "\<And>cfg l v c x. P cfg \<Longrightarrow> arg = Opt c x \<Longrightarrow> (c, l) \<in> set double_options \<Longrightarrow> ps_sets_double l v \<Longrightarrow>
      P (fst (config_set_double cfg l v))"
    and string: "\<And>cfg l v. P cfg \<Longrightarrow> l \<in> set [''uds_address'', ''message_tag''] \<Longrightarrow> P (fst (config_set_string mem cfg l v))"
    and opt: "\<And>cfg name v cfg'. arg = LongOpt name v \<Longrightarrow> P cfg \<Longrightarrow> config_parse_option mem strtod cfg name v = Some (cfg', False) \<Longrightarrow> P cfg'"
  shows "P (xa_cfg st')"
proof (cases arg)
  case (LongOpt name v)
  then show ?thesis
    using assms(1,2) opt by (auto simp: ps_argument_def or_out_def set_ok_def bind_eq_Some_conv split: option.splits prod.splits if_splits)
next
  case (Opt c optarg)
  have put: "P (xa_cfg s)" if "put_cfg st r = Inr s" "P (fst r)" for r s
    using that by (auto simp: put_cfg_def or_out_def set_ok_def split: option.splits prod.splits if_splits)
  have wint: "\<exists>v. lo \<le> v \<and> v \<le> hi \<and> f v = Inr s" if "with_int optarg lo hi f = Inr s" for lo hi f s
    using that arg_val_i_bounds [of optarg lo hi] by (auto simp: with_int_def split: option.splits)
  have wdbl: "\<exists>v. lo \<le> v \<and> v \<le> hi \<and> f v = Inr s" if "with_double strtod optarg lo hi f = Inr s" for lo hi f s
    using that arg_val_d_bounds [of strtod optarg lo hi] by (auto simp: with_double_def split: option.splits)
  have si: "P (fst (config_set_int mem (xa_cfg st) l v))" if "ps_sets_int l v" for l v using int assms(2) that by blast
  have sd: "P (fst (config_set_double (xa_cfg st) l v))" if "(c, l) \<in> set double_options" "0 \<le> v" "v \<le> DBL_MAX" for l v
  proof -
    have "ps_sets_double l v" using that by (auto simp: ps_sets_double_def double_options_def)
    from double [OF assms(2) Opt that(1) this] show ?thesis .
  qed
  have ss: "P (fst (config_set_string mem (xa_cfg st) l v))" if "l \<in> set [''uds_address'', ''message_tag'']" for l v
    using string assms(2) that by blast
  have servo: "P (xa_cfg (set_servo mem v st))" if "v \<in> {0, 1, 2}" for v
    using si [of "''clock_servo''" v] that by (auto simp: set_servo_def ps_sets_int_def)
  have n: "c \<noteq> CHR ''n''" using assms(3) Opt by blast
  have e: "ps_short_option mem fl strtod opens c optarg st = Inr st'" using assms(1) Opt by (simp add: ps_argument_def)
  have pint: "P (xa_cfg st')" if "put_cfg st (config_set_int mem (xa_cfg st) l v) = Inr st'" "ps_sets_int l v" for l v
    using put si that by blast
  have pdbl: "P (xa_cfg st')" if "put_cfg st (config_set_double (xa_cfg st) l v) = Inr st'" "(c, l) \<in> set double_options"
    "0 \<le> v" "v \<le> DBL_MAX" for l v
    using put sd that by blast
  have pstr: "P (xa_cfg st')" if "put_cfg st (config_set_string mem (xa_cfg st) l v) = Inr st'"
    "l \<in> set [''uds_address'', ''message_tag'']" for l v
    using put ss that by blast
  show ?thesis
    using e n assms(2) unfolding ps_short_option_def Let_def
    by (auto simp: servo double_options_def ps_sets_int_def elim!: pint pdbl pstr dest!: wint wdbl split: if_splits option.splits)
qed (use assms(1) in \<open>simp add: ps_argument_def\<close>)

text \<open>The constants, with the letters of their options.\<close>

definition pi_constants :: "(char \<times> string \<times> real) list" where
  "pi_constants = [(CHR ''P'', ''pi_proportional_const'', KP), (CHR ''I'', ''pi_integral_const'', KI)]"

lemma pi_option:
  assumes "(c, l, v) \<in> set pi_constants"
  shows "l \<in> set (map ci_label config_tab)" "list_all (\<lambda>t. ci_label t = l \<longrightarrow> \<not> ci_port t) config_tab"
    "list_all (\<lambda>t. ci_label t = l \<longrightarrow> ci_type t = CFG_TYPE_DOUBLE) config_tab" "ps_sets_double l v"
proof -
  have l: "l \<in> {''pi_proportional_const'', ''pi_integral_const''}" using assms by (auto simp: pi_constants_def)
  then show "l \<in> set (map ci_label config_tab)" unfolding config_labels by auto
  show "list_all (\<lambda>t. ci_label t = l \<longrightarrow> \<not> ci_port t) config_tab" "list_all (\<lambda>t. ci_label t = l \<longrightarrow> ci_type t = CFG_TYPE_DOUBLE) config_tab"
    using l by (auto simp: tab_items)
  have "(1 :: real) \<le> DBL_MAX" by (simp add: DBL_MAX_def)
  then show "ps_sets_double l v" using assms by (auto simp: pi_constants_def ps_sets_double_def KP_def KI_def)
qed

text \<open>The constants are set, and locked, before the arguments are processed.\<close>

lemma set_double_ok:
  assumes "config_wf cfg" "(c, l, v) \<in> set pi_constants"
  shows "snd (config_set_double cfg l w) = False"
proof -
  obtain k where k: "k < n_opts" "opt_label k = l" "ci_type (config_tab ! k) = CFG_TYPE_DOUBLE"
    using option_index [OF pi_option(1) [OF assms(2)]] pi_option(3) [OF assms(2)] by (auto simp: list_all_length)
  then show ?thesis using config_wf_global [OF assms(1) k(1)]
    by (simp add: config_set_double_def config_find_item_def same_spec_def)
qed

lemma double_fixed:
  assumes "config_wf cfg" "(c, l, v) \<in> set pi_constants"
  shows "opt_fixed l (AnyDouble w) (fst (config_set_double cfg l w))"
proof (cases "config_set_double cfg l w")
  case (Pair cfg' b)
  with set_double_ok [OF assms, of w] set_fixes(2) [OF assms(1) pi_option(1,2) [OF assms(2)], of w cfg'] show ?thesis by simp
qed

lemma ps_defaults_fixed:
  assumes "config_wf cfg" "(c, l, v) \<in> set pi_constants"
  shows "config_wf (ps_defaults cfg) \<and> opt_fixed l (AnyDouble v) (ps_defaults cfg)"
proof -
  let ?p = "''pi_proportional_const''" and ?i = "''pi_integral_const''"
  have m: "(CHR ''P'', ?p, KP) \<in> set pi_constants" "(CHR ''I'', ?i, KI) \<in> set pi_constants" by (simp_all add: pi_constants_def)
  let ?c = "fst (config_set_double cfg ?p KP)"
  have w: "config_wf ?c" using set_double_wf [OF assms(1) ps_sets_may_set(2) [OF pi_option(4) [OF m(1)]]] .
  have "opt_fixed ?p (AnyDouble KP) ?c" by (rule double_fixed [OF assms(1) m(1)])
  then have "opt_fixed ?p (AnyDouble KP) (ps_defaults cfg)"
    unfolding ps_defaults_def using set_keeps(2) [OF w] by simp
  moreover have "opt_fixed ?i (AnyDouble KI) (ps_defaults cfg)"
    unfolding ps_defaults_def by (rule double_fixed [OF w m(2)])
  moreover have "config_wf (ps_defaults cfg)"
    unfolding ps_defaults_def using set_double_wf [OF w ps_sets_may_set(2) [OF pi_option(4) [OF m(2)]]] .
  ultimately show ?thesis using assms(2) by (auto simp: pi_constants_def)
qed

lemma ps_arguments_fixed:
  assumes "ps_arguments mem fl strtod opens args st = Inr st'" "(c, l, v) \<in> set pi_constants"
    and "config_wf (xa_cfg st)" "opt_fixed l (AnyDouble v) (xa_cfg st)"
    and "c \<notin> set (short_names args)" "CHR ''n'' \<notin> set (short_names args)" "l \<notin> set (long_names args)"
  shows "config_wf (xa_cfg st') \<and> opt_fixed l (AnyDouble v) (xa_cfg st')"
  using assms(1,3-)
proof (induction args arbitrary: st)
  case (Cons arg args)
  then obtain s where s: "ps_argument mem fl strtod opens arg st = Inr s" "ps_arguments mem fl strtod opens args s = Inr st'"
    by (auto split: sum.splits)
  have l: "l \<in> {''pi_proportional_const'', ''pi_integral_const''}" using assms(2) by (auto simp: pi_constants_def)
  have n: "arg \<noteq> Opt CHR ''n'' x" for x using Cons.prems(5) by (auto simp: short_names_def)
  have "config_wf (xa_cfg s) \<and> opt_fixed l (AnyDouble v) (xa_cfg s)"
  proof (rule ps_argument_keeps [OF s(1), where P = "\<lambda>cfg. config_wf cfg \<and> opt_fixed l (AnyDouble v) cfg"])
    show "config_wf (fst (config_set_int mem cfg l' w)) \<and> opt_fixed l (AnyDouble v) (fst (config_set_int mem cfg l' w))"
      if "config_wf cfg \<and> opt_fixed l (AnyDouble v) cfg" "ps_sets_int l' w" for cfg l' w
    proof -
      have "l' \<noteq> l" using that(2) l by (auto simp: ps_sets_int_def)
      with that set_int_wf [OF _ ps_sets_may_set(1)] set_keeps(1) show ?thesis by blast
    qed
    show "config_wf (fst (config_set_double cfg l' w)) \<and> opt_fixed l (AnyDouble v) (fst (config_set_double cfg l' w))"
      if "config_wf cfg \<and> opt_fixed l (AnyDouble v) cfg" "arg = Opt d x" "(d, l') \<in> set double_options" "ps_sets_double l' w" for cfg l' w d x
    proof -
      have "d \<noteq> c" using Cons.prems(4) that(2) by (auto simp: short_names_def)
      then have "l' \<noteq> l" using that(3) assms(2) by (auto simp: double_options_def pi_constants_def)
      with that set_double_wf [OF _ ps_sets_may_set(2)] set_keeps(2) show ?thesis by blast
    qed
    show "config_wf (fst (config_set_string mem cfg l' w)) \<and> opt_fixed l (AnyDouble v) (fst (config_set_string mem cfg l' w))"
      if "config_wf cfg \<and> opt_fixed l (AnyDouble v) cfg" "l' \<in> set [''uds_address'', ''message_tag'']" for cfg l' w
    proof -
      have "l' \<noteq> l" using that(2) l by auto
      with that set_string_wf [OF _ ps_sets_may_set(3)] set_keeps(3) show ?thesis by blast
    qed
    show "config_wf cfg' \<and> opt_fixed l (AnyDouble v) cfg'"
      if "arg = LongOpt name w" "config_wf cfg \<and> opt_fixed l (AnyDouble v) cfg" "config_parse_option mem strtod cfg name w = Some (cfg', False)"
      for cfg name w cfg'
    proof -
      have "name \<noteq> l" using Cons.prems(6) that(1) by (auto simp: long_names_def)
      with that parse_option_wf option_keeps show ?thesis by blast
    qed
  qed (use Cons.prems n in auto)
  with Cons.IH [OF s(2)] Cons.prems show ?case by (auto simp: short_names_def long_names_def)
qed simp

text \<open>
  The configuration file cannot set the constants of the PI servo of phc2sys, although its manual
  page lists them among the options of the file: main sets their defaults by a function that locks them
  like options of the command line.  Whatever the file says, without -P, -I and the long options the
  servo gets 0.7 and 0.3.  (With -n, which takes numbers that the option domainNumber excludes, nothing
  is said.)
\<close>

theorem file_cannot_set_pi_constants:
  assumes "ps_configure mem fl strtod opens files args = Inr st" "(c, l, v) \<in> set pi_constants"
    and "c \<notin> set (short_names args)" "CHR ''n'' \<notin> set (short_names args)" "l \<notin> set (long_names args)"
  shows "config_get_double (xa_cfg st) None l = Some v"
proof -
  obtain cfg where cfg: "config_create mem = Some cfg" using assms(1) by (auto simp: ps_configure_def split: option.splits)
  define st0 where "st0 = \<lparr>xa_cfg = ps_defaults cfg, xa_config = None, xa_autocfg = False, xa_rt = 0, xa_dst_name = None,
    xa_src_name = None, xa_pps = False, xa_wait_sync = False, xa_stats_max_count = 0, xa_phc_readings = 5,
    xa_phc_interval = 1, xa_sync_offset = 0, xa_forced_sync_offset = 0\<rparr>"
  obtain st1 where st1: "ps_arguments mem fl strtod opens args st0 = Inr st1"
    using assms(1) by (auto simp: ps_configure_def cfg st0_def split: sum.splits)
  have "config_wf cfg" using configured_wf [OF configured.created [OF cfg]] .
  from ps_defaults_fixed [OF this assms(2)] have "config_wf (xa_cfg st0)" "opt_fixed l (AnyDouble v) (xa_cfg st0)"
    by (simp_all add: st0_def)
  from ps_arguments_fixed [OF st1 assms(2) this assms(3-5)]
  have w: "config_wf (xa_cfg st1)" "opt_fixed l (AnyDouble v) (xa_cfg st1)" by simp_all
  have "xa_cfg st = xa_cfg st1 \<or> (\<exists>f. config_read mem strtod f (xa_cfg st1) = Some (xa_cfg st, 0))"
  proof (cases "xa_config st1")
    case None
    then show ?thesis using assms(1) by (auto simp: ps_configure_def cfg st1 [unfolded st0_def] split: if_splits)
  next
    case (Some name)
    then show ?thesis
      using assms(1) by (auto simp: ps_configure_def cfg st1 [unfolded st0_def] split: if_splits option.splits)
  qed
  then have "config_wf (xa_cfg st)" "opt_fixed l (AnyDouble v) (xa_cfg st)"
    by (elim disjE exE, use w read_wf read_keeps in metis, use w read_wf read_keeps in metis)+
  from fixed_get(2) [OF this refl pi_option(3) [OF assms(2)]] show ?thesis .
qed

text \<open>A file that asks for 5, and a conversion of doubles that reads it.\<close>

definition pi_file :: string where
  "pi_file = ''[global]'' @ [CHR 0x0A] @ ''pi_proportional_const 5'' @ [CHR 0x0A]"

definition strtod_5 :: "string \<Rightarrow> (real \<times> string \<times> bool) option" where
  "strtod_5 s = Some (5, [], False)"

lemma pi_file_lines:
  "fgets_lines pi_file = [''[global]'' @ [CHR 0x0A], ''pi_proportional_const 5'' @ [CHR 0x0A]]"
  "trim_line (''[global]'' @ [CHR 0x0A]) = ''[global]''"
  "trim_line (''pi_proportional_const 5'' @ [CHR 0x0A]) = ''pi_proportional_const 5''"
  "parse_section_line ''[global]'' = Some (GLOBAL_SECTION, ''[global]'')"
  "parse_section_line ''pi_proportional_const 5'' = None"
  "parse_setting_line ''pi_proportional_const 5'' = Some (''pi_proportional_const'', ''5'')"
  by code_simp+

lemma pi_file_read:
  assumes "config_wf cfg" "opt_fixed ''pi_proportional_const'' (AnyDouble KP) cfg"
  shows "config_read True strtod_5 (Some pi_file) cfg = Some (cfg, 0)"
proof -
  have m: "(CHR ''P'', ''pi_proportional_const'', KP) \<in> set pi_constants" by (simp add: pi_constants_def)
  obtain a ci where a: "opt_label a = ''pi_proportional_const''" "pinned a ci cfg" "a < n_opts"
    by (rule opt_fixedE [OF assms(2)]) blast
  have g: "config_global_item cfg ''pi_proportional_const'' = Some a" "same_spec (config_tab ! a) (item_at cfg a)"
    using config_wf_global [OF assms(1) a(3)] by (simp_all add: a(1))
  have l: "ci_locked (item_at cfg a)" using a(2) by (simp add: pinned_def)
  have "list_all (\<lambda>t. ci_label t = ''pi_proportional_const'' \<longrightarrow> parse_value strtod_5 t ''5'' = Inr (AnyDouble 5)) config_tab"
    by (simp add: tab_items parse_value_def double_of_any_def get_ranged_double_def get_ranged_def strtod_5_def DBL_MAX_def)
  then have "parse_value strtod_5 (config_tab ! a) ''5'' = Inr (AnyDouble 5)" using a by (simp add: list_all_length)
  then have "parse_value strtod_5 (item_at cfg a) ''5'' = Inr (AnyDouble 5)"
    using g(2) by (simp add: parse_value_def same_spec_def cong: config_type.case_cong)
  then have "parse_item True strtod_5 cfg False None ''pi_proportional_const'' ''5'' = Some (cfg, PARSED_OK)"
    using g(1) l by (simp add: parse_item_def parse_fault_interval_def strcaseeq_def to_lower_def)
  then show ?thesis
    unfolding config_read_def option.case pi_file_lines(1)
    by (simp add: pi_file_lines [simplified] read_line_def check_deprecated_options_def)
qed

definition pi_arguments :: "argument list" where
  "pi_arguments = [Opt CHR ''f'' ''phc2sys.conf'', Opt CHR ''s'' ''eth0'', Opt CHR ''w'' []]"

lemma file_cannot_set_pi_constants_witness:
  "\<exists>st. ps_configure True (\<lambda>x. x) strtod_5 (\<lambda>_. False) (\<lambda>_. Some pi_file) pi_arguments = Inr st \<and>
     config_get_double (xa_cfg st) None ''pi_proportional_const'' = Some KP"
proof -
  have m: "(CHR ''P'', ''pi_proportional_const'', KP) \<in> set pi_constants" by (simp add: pi_constants_def)
  obtain cfg where c: "config_create True = Some cfg" by (metis config_created)
  have "config_wf cfg" using configured_wf [OF configured.created [OF c]] .
  from ps_defaults_fixed [OF this m] have r: "config_read True strtod_5 (Some pi_file) (ps_defaults cfg) = Some (ps_defaults cfg, 0)"
    using pi_file_read by blast
  obtain st where st: "ps_configure True (\<lambda>x. x) strtod_5 (\<lambda>_. False) (\<lambda>_. Some pi_file) pi_arguments = Inr st"
    by (simp add: ps_configure_def c pi_arguments_def ps_argument_def ps_short_option_def r valid_mode_def)
  have "CHR ''P'' \<notin> set (short_names pi_arguments)" "CHR ''n'' \<notin> set (short_names pi_arguments)"
    "''pi_proportional_const'' \<notin> set (long_names pi_arguments)"
    by (simp_all add: pi_arguments_def short_names_def long_names_def)
  from file_cannot_set_pi_constants [OF st m this] st show ?thesis by blast
qed

end
