(* ===== verification/Phc2sysProps.thy ===== *)
theory Phc2sysProps
  imports Phc2sys
begin

text \<open>
  What holds of phc2sys: how well a reading of two clocks tells their offset, which clock is chosen as
  the source of time, and which clocks are touched.
\<close>

subsection \<open>Reading a clock\<close>

definition ns_of :: "timespec \<Rightarrow> int" where
  "ns_of t = sint (tv_sec t) * 1000000000 + sint (tv_nsec t)"

definition plain_time :: "timespec \<Rightarrow> bool" where
  "plain_time t \<longleftrightarrow> 0 \<le> sint (tv_sec t) \<and> sint (tv_sec t) < 4294967296 \<and> 0 \<le> sint (tv_nsec t) \<and> sint (tv_nsec t) < 1000000000"

lemma sint_word_of_int: "\<bar>i\<bar> < 2 ^ 63 \<Longrightarrow> sint (word_of_int i :: i64) = i"
  by (rule sint_of_int64) (auto simp: in_i64_def)

lemma word_ns: "tv_sec t * 1000000000 + tv_nsec t = (word_of_int (ns_of t) :: i64)"
  by (simp add: ns_of_def)

lemma span_ns_word: "span_ns b a = word_of_int (ns_of b - ns_of a)"
proof -
  have "span_ns b a = (tv_sec b * 1000000000 + tv_nsec b) - (tv_sec a * 1000000000 + tv_nsec a)"
    by (simp add: span_ns_def algebra_simps)
  then show ?thesis by (simp only: word_ns) simp
qed

lemma plain_range: "plain_time t \<Longrightarrow> 0 \<le> ns_of t \<and> ns_of t < 4294967296000000000"
  by (auto simp: plain_time_def ns_of_def)

lemma span_ns_sint: "plain_time a \<Longrightarrow> plain_time b \<Longrightarrow> sint (span_ns b a) = ns_of b - ns_of a"
  using plain_range [of a] plain_range [of b] unfolding span_ns_word by (intro sint_word_of_int) auto

text \<open>
  A reading that was taken properly: the time of the destination clock does not run backwards, and shows
  \<open>T\<close> between its two readings when the source is read.
\<close>

definition proper_reading :: "int \<Rightarrow> timespec \<times> timespec \<times> timespec \<Rightarrow> bool" where
  "proper_reading T r \<longleftrightarrow>
    (case r of (a, s, b) \<Rightarrow> plain_time a \<and> plain_time s \<and> plain_time b \<and> ns_of a \<le> T \<and> T \<le> ns_of b)"

definition reading_width :: "timespec \<times> timespec \<times> timespec \<Rightarrow> int" where
  "reading_width r = (case r of (a, s, b) \<Rightarrow> ns_of b - ns_of a)"

definition source_time :: "timespec \<times> timespec \<times> timespec \<Rightarrow> int" where
  "source_time r = (case r of (a, s, b) \<Rightarrow> ns_of s)"

definition midpoint_offset :: "timespec \<times> timespec \<times> timespec \<Rightarrow> int" where
  "midpoint_offset r = (case r of (a, s, b) \<Rightarrow> ns_of a - ns_of s + (ns_of b - ns_of a) div 2)"

lemma proper_reading_bounds:
  assumes "proper_reading T r"
  shows "0 \<le> reading_width r" "reading_width r < 4294967296000000000"
    "\<bar>midpoint_offset r - (T - source_time r)\<bar> \<le> (reading_width r + 1) div 2"
    "\<bar>midpoint_offset r\<bar> < 2 ^ 63"
proof -
  obtain a s b where r: "r = (a, s, b)" by (cases r) auto
  note p = assms [unfolded proper_reading_def r prod.case]
  note q = plain_range [of a] plain_range [of s] plain_range [of b]
  show "0 \<le> reading_width r" "reading_width r < 4294967296000000000"
    using p q by (auto simp: r reading_width_def)
  have w: "0 \<le> (ns_of b - ns_of a) div 2" "(ns_of b - ns_of a) div 2 \<le> ns_of b - ns_of a"
    using p by auto
  show "\<bar>midpoint_offset r - (T - source_time r)\<bar> \<le> (reading_width r + 1) div 2"
    unfolding r midpoint_offset_def source_time_def reading_width_def prod.case using p by linarith
  show "\<bar>midpoint_offset r\<bar> < 2 ^ 63"
    unfolding r midpoint_offset_def prod.case using p q w by auto
qed

lemma read_phc_once_proper:
  assumes "proper_reading T r"
  shows "read_phc_once r (best, offset, ts) =
    (if sint best > reading_width r
     then (word_of_int (reading_width r), word_of_int (midpoint_offset r), ts_ns (snd (snd r)))
     else (best, offset, ts))"
proof -
  obtain a s b where r: "r = (a, s, b)" by (cases r) auto
  note p = assms [unfolded proper_reading_def r prod.case]
  have w: "sint (span_ns b a) = ns_of b - ns_of a" using p by (intro span_ns_sint) auto
  have nonneg: "0 \<le> ns_of b - ns_of a" using p by auto
  have "(ns_of b - ns_of a) sdiv 2 = (ns_of b - ns_of a) div 2"
    using nonneg by (simp add: signed_divide_int_def sgn_if)
  then have "span_ns a s + word_of_int (sint (span_ns b a) sdiv 2) =
      word_of_int (ns_of a - ns_of s) + word_of_int ((ns_of b - ns_of a) div 2)"
    unfolding w by (simp only: span_ns_word)
  then have off: "span_ns a s + word_of_int (sint (span_ns b a) sdiv 2) = word_of_int (midpoint_offset r)"
    by (simp add: r midpoint_offset_def)
  show ?thesis
    using off unfolding read_phc_once_def r prod.case Let_def w reading_width_def
    by (simp add: span_ns_word)
qed

lemma read_phc_loop_best:
  assumes "list_all2 proper_reading Ts rs"
    and "\<bar>bw\<bar> < 2 ^ 63"
    and "read_phc_loop (map Some rs) (word_of_int bw, offset, ts) = Some (best', offset', ts')"
  shows "(best' = word_of_int bw \<and> offset' = offset \<and> ts' = ts \<and> (\<forall>r\<in>set rs. bw \<le> reading_width r)) \<or>
    (\<exists>i<length rs. best' = word_of_int (reading_width (rs ! i)) \<and> offset' = word_of_int (midpoint_offset (rs ! i)) \<and>
       ts' = ts_ns (snd (snd (rs ! i))) \<and> reading_width (rs ! i) < bw \<and>
       (\<forall>r\<in>set rs. reading_width (rs ! i) \<le> reading_width r))"
  using assms
proof (induction rs arbitrary: Ts bw offset ts rule: list.induct)
  case Nil
  then show ?case by simp
next
  case (Cons r rs)
  obtain T Ts' where Ts: "proper_reading T r" "list_all2 proper_reading Ts' rs"
    using Cons.prems(1) by (cases Ts) auto
  note b = proper_reading_bounds [OF Ts(1)]
  note s = sint_word_of_int [OF Cons.prems(2)]
  show ?case
  proof (cases "bw > reading_width r")
    case True
    have best: "read_phc_loop (map Some rs) (word_of_int (reading_width r), word_of_int (midpoint_offset r), ts_ns (snd (snd r)))
        = Some (best', offset', ts')"
      using Cons.prems(3) True by (simp add: read_phc_once_proper [OF Ts(1)] s)
    have small: "\<bar>reading_width r\<bar> < 2 ^ 63" using b(1,2) by simp
    from Cons.IH [OF Ts(2) small best] show ?thesis
    proof
      assume "\<exists>i<length rs. best' = word_of_int (reading_width (rs ! i)) \<and> offset' = word_of_int (midpoint_offset (rs ! i)) \<and>
        ts' = ts_ns (snd (snd (rs ! i))) \<and> reading_width (rs ! i) < reading_width r \<and>
        (\<forall>r\<in>set rs. reading_width (rs ! i) \<le> reading_width r)"
      then obtain i where "i < length rs" "best' = word_of_int (reading_width (rs ! i))"
          "offset' = word_of_int (midpoint_offset (rs ! i))" "ts' = ts_ns (snd (snd (rs ! i)))"
          "reading_width (rs ! i) < reading_width r" "\<forall>r\<in>set rs. reading_width (rs ! i) \<le> reading_width r"
        by blast
      then show ?thesis using True by (intro disjI2 exI [of _ "Suc i"]) auto
    qed (use True in \<open>auto intro!: exI [of _ 0]\<close>)
  next
    case False
    have "read_phc_loop (map Some rs) (word_of_int bw, offset, ts) = Some (best', offset', ts')"
      using Cons.prems(3) False by (simp add: read_phc_once_proper [OF Ts(1)] s)
    from Cons.IH [OF Ts(2) Cons.prems(2) this] show ?thesis
    proof
      assume "\<exists>i<length rs. best' = word_of_int (reading_width (rs ! i)) \<and> offset' = word_of_int (midpoint_offset (rs ! i)) \<and>
        ts' = ts_ns (snd (snd (rs ! i))) \<and> reading_width (rs ! i) < bw \<and>
        (\<forall>r\<in>set rs. reading_width (rs ! i) \<le> reading_width r)"
      then obtain i where "i < length rs" "best' = word_of_int (reading_width (rs ! i))"
          "offset' = word_of_int (midpoint_offset (rs ! i))" "ts' = ts_ns (snd (snd (rs ! i)))"
          "reading_width (rs ! i) < bw" "\<forall>r\<in>set rs. reading_width (rs ! i) \<le> reading_width r"
        by blast
      then show ?thesis using False by (intro disjI2 exI [of _ "Suc i"]) auto
    qed (use False in auto)
  qed
qed

text \<open>
  C38: Of several readings \<open>read_phc\<close> uses the quickest one, and its offset is off by at most half the
  time that this reading took: where the destination clock showed \<open>T\<close> at the moment at which the source
  clock was read, the offset is the difference of the two clocks up to half the delay reported.
\<close>

theorem read_phc_error_bound:
  assumes "rs \<noteq> []" "list_all2 proper_reading Ts rs"
    and "read_phc (map Some rs) offset0 ts0 = Some (offset, ts, delay)"
  shows "\<exists>i<length rs. \<bar>sint offset - (Ts ! i - source_time (rs ! i))\<bar> \<le> (sint delay + 1) div 2 \<and>
    sint delay = Min (reading_width ` set rs) \<and> ts = ts_ns (snd (snd (rs ! i)))"
proof -
  have loop: "read_phc_loop (map Some rs) (word_of_int 0x7FFFFFFFFFFFFFFF, offset0, ts0) = Some (delay, offset, ts)"
    using assms(3) by (auto simp: read_phc_def)
  have small: "\<forall>r\<in>set rs. reading_width r < 0x7FFFFFFFFFFFFFFF"
  proof
    fix r assume "r \<in> set rs"
    then obtain i where "i < length rs" "r = rs ! i" by (auto simp: in_set_conv_nth)
    then have "proper_reading (Ts ! i) r" using assms(2) by (auto simp: list_all2_conv_all_nth)
    from proper_reading_bounds(2) [OF this] show "reading_width r < 0x7FFFFFFFFFFFFFFF" by simp
  qed
  obtain i where i: "i < length rs" "delay = word_of_int (reading_width (rs ! i))"
      "offset = word_of_int (midpoint_offset (rs ! i))" "ts = ts_ns (snd (snd (rs ! i)))"
      "\<forall>r\<in>set rs. reading_width (rs ! i) \<le> reading_width r"
    using read_phc_loop_best [OF assms(2) _ loop] small assms(1) by (cases rs) fastforce+
  have "proper_reading (Ts ! i) (rs ! i)" using assms(2) i(1) by (auto simp: list_all2_conv_all_nth)
  note b = proper_reading_bounds [OF this]
  have "sint offset = midpoint_offset (rs ! i)" unfolding i(3) by (rule sint_word_of_int [OF b(4)])
  moreover have w: "sint delay = reading_width (rs ! i)"
    unfolding i(2) using b(1,2) by (intro sint_word_of_int) auto
  moreover have "reading_width (rs ! i) = Min (reading_width ` set rs)"
    using i(1,5) by (intro Min_eqI [symmetric]) auto
  ultimately show ?thesis using b(3) i(1,4) by auto
qed

definition sample_readings :: "(timespec \<times> timespec \<times> timespec) list" where
  "sample_readings = (let t = \<lambda>n. \<lparr>tv_sec = 1, tv_nsec = n\<rparr> in [(t 100, t 500, t 400), (t 900, t 1450, t 919)])"

lemma read_phc_error_bound_witness:
  "read_phc (map Some sample_readings) 0 0 = Some (-541, 1000000919, 19) \<and>
   (\<exists>i<length sample_readings.
      \<bar>sint (-541 :: i64) - ([1000000150, 1000000910] ! i - source_time (sample_readings ! i))\<bar> \<le> (sint (19 :: i64) + 1) div 2 \<and>
      sint (19 :: i64) = Min (reading_width ` set sample_readings) \<and>
      1000000919 = ts_ns (snd (snd (sample_readings ! i))))"
proof -
  have p: "sample_readings \<noteq> []" "list_all2 proper_reading [1000000150, 1000000910] sample_readings"
    by (simp_all add: sample_readings_def proper_reading_def plain_time_def ns_of_def)
  have r: "read_phc (map Some sample_readings) 0 0 = Some (-541, 1000000919, 19)"
    by (simp add: sample_readings_def read_phc_def read_phc_once_def span_ns_def ts_ns_def)
  show ?thesis by (rule conjI [OF r read_phc_error_bound [OF p r]])
qed

subsection \<open>What an operation leaves alone\<close>

named_theorems ps_simps

lemma clock_at_upd [ps_simps]:
  "clock_at (nd_act es nd) = clock_at nd"
  "clock_at (nd\<lparr>nd_pmc_ds_requested := b\<rparr>) = clock_at nd"
  "clock_at (nd\<lparr>nd_state_changed := b\<rparr>) = clock_at nd"
  "clock_at (nd\<lparr>nd_master := m\<rparr>) = clock_at nd"
  "clock_at (set_port_state n st nd) = clock_at nd"
  by (simp_all add: clock_at_def nd_act_def set_port_state_def fun_eq_iff)

lemma clock_at_addr: "clock_at nd a = Some c \<Longrightarrow> pc_addr c = a"
  by (auto simp: clock_at_def find_Some_iff)

lemma clock_at_set_clock [ps_simps]:
  "clock_at (set_clock c nd) b = (if b = pc_addr c then map_option (\<lambda>_. c) (clock_at nd b) else clock_at nd b)"
proof -
  have "find (\<lambda>d. pc_addr d = b) (map (\<lambda>d. if pc_addr d = pc_addr c then c else d) xs) =
      (if b = pc_addr c then map_option (\<lambda>_. c) (find (\<lambda>d. pc_addr d = b) xs) else find (\<lambda>d. pc_addr d = b) xs)" for xs
    by (induction xs) auto
  then show ?thesis by (simp add: clock_at_def set_clock_def)
qed

text \<open>The addresses of the clocks, and their states.\<close>

definition addrs :: "node \<Rightarrow> nat list" where
  "addrs nd = map pc_addr (nd_clocks nd)"

definition states :: "node \<Rightarrow> nat \<Rightarrow> int option" where
  "states nd a = map_option pc_state (clock_at nd a)"

definition view :: "node \<Rightarrow> nat list \<times> (nat \<Rightarrow> int option)" where
  "view nd = (addrs nd, states nd)"

lemma addrs_upd [ps_simps]:
  "addrs (nd_act es nd) = addrs nd"
  "addrs (nd\<lparr>nd_pmc_ds_requested := b\<rparr>) = addrs nd"
  "addrs (nd\<lparr>nd_state_changed := b\<rparr>) = addrs nd"
  "addrs (nd\<lparr>nd_master := m\<rparr>) = addrs nd"
  "addrs (set_port_state n st nd) = addrs nd"
  "addrs (set_clock c nd) = addrs nd"
  by (auto simp: addrs_def nd_act_def set_port_state_def set_clock_def)

lemma states_set_clock:
  "clock_at nd (pc_addr c) = Some d \<Longrightarrow> states (set_clock c nd) = (states nd)(pc_addr c \<mapsto> pc_state c)"
  by (auto simp: states_def ps_simps fun_eq_iff)

lemma view_upd [ps_simps]:
  "view (nd_act es nd) = view nd"
  "view (nd\<lparr>nd_pmc_ds_requested := b\<rparr>) = view nd"
  "view (nd\<lparr>nd_state_changed := b\<rparr>) = view nd"
  "view (nd\<lparr>nd_master := m\<rparr>) = view nd"
  "view (set_port_state n st nd) = view nd"
  by (simp_all add: view_def states_def ps_simps fun_eq_iff)

lemma view_set_clock: "clock_at nd (pc_addr c) = Some d \<Longrightarrow> pc_state c = pc_state d \<Longrightarrow> view (set_clock c nd) = view nd"
  by (auto simp: view_def ps_simps states_set_clock fun_eq_iff) (simp add: states_def)

lemma recv_subscribed_view: "recv_subscribed bo nd msg ex = (nd', b) \<Longrightarrow> view nd' = view nd"
proof -
  have "view (set_clock (c\<lparr>pc_new_state := st\<rparr>) nd) = view nd" if "clock_at nd a = Some c" for a c st nd
    using that clock_at_addr [OF that] by (intro view_set_clock) auto
  then show "recv_subscribed bo nd msg ex = (nd', b) \<Longrightarrow> view nd' = view nd"
    by (auto simp: recv_subscribed_def Let_def ps_simps split: if_splits option.splits)
qed

lemma pmc_pass_view: "pmc_pass bo nd ds w i = (nd', r) \<Longrightarrow> view nd' = view nd"
proof -
  have "view (pmc_request nd ds w b) = view nd" for b
    by (auto simp: pmc_request_def ps_simps split: option.splits)
  then show "pmc_pass bo nd ds w i = (nd', r) \<Longrightarrow> view nd' = view nd"
    by (auto simp: pmc_pass_def Let_def ps_simps split: option.splits if_splits prod.splits dest!: recv_subscribed_view)
qed

lemma run_pmc_view: "run_pmc bo nd ds ps = (nd', r, m, ps') \<Longrightarrow> view nd' = view nd"
  by (induction bo nd ds ps rule: run_pmc.induct)
    (auto simp: ps_simps split: prod.splits option.splits dest!: pmc_pass_view)

declare port_properties_loop.simps [simp del]

lemma port_properties_loop_view: "port_properties_loop bo nd port ps = (nd', r, x, ps') \<Longrightarrow> view nd' = view nd"
proof (induction bo nd port ps rule: port_properties_loop.induct)
  case (1 bo nd port ps)
  obtain nd1 res m ps1 where run: "run_pmc bo nd (Some TLV_PORT_PROPERTIES_NP) ps = (nd1, res, m, ps1)"
    by (rule prod_cases4)
  show ?case
    using 1(2) [unfolded port_properties_loop.simps [of bo nd port ps] run prod.case]
      run_pmc_view [OF run] 1(1) [OF run [symmetric]]
    by (auto split: option.splits if_splits)
qed

lemma run_pmc_port_properties_view: "run_pmc_port_properties bo nd port ps = (nd', r, x, ps') \<Longrightarrow> view nd' = view nd"
  by (auto simp: run_pmc_port_properties_def ps_simps split: prod.splits dest!: port_properties_loop_view)

lemma poll_ports_view: "poll_ports bo rest nd x ps = (nd', y, ps') \<Longrightarrow> view nd' = view nd"
proof (induction rest arbitrary: nd x ps)
  case (Cons n rest)
  then show ?case
    by (fastforce simp: ps_simps split: prod.splits option.splits dest: run_pmc_port_properties_view)
qed simp

lemma servo_add_view: "servo_add e nd k = (nd', sv) \<Longrightarrow> view nd' = view nd"
  by (auto simp: servo_add_def Let_def ps_simps split: if_splits)

lemma switch_phc_view:
  "switch_phc e nd c iface = Some (nd', c', sw) \<Longrightarrow>
   view nd' = view nd \<and> pc_addr c' = pc_addr c \<and> pc_state c' = pc_state c"
  by (auto simp: switch_phc_def Let_def ps_simps split: if_splits option.splits prod.splits dest!: servo_add_view)

lemma reset_clock_same: "reset_clock c = Some c' \<Longrightarrow> pc_addr c' = pc_addr c \<and> pc_state c' = pc_state c"
  by (auto simp: reset_clock_def Let_def split: option.splits if_splits)

lemma view_clock_at: "view nd' = view nd \<Longrightarrow> clock_at nd' a = Some c \<Longrightarrow> \<exists>d. clock_at nd a = Some d \<and> pc_state d = pc_state c"
  by (cases "clock_at nd a") (auto simp: view_def states_def dest!: fun_cong [where x = a])

lemma clock_reinit_view:
  assumes "clock_reinit e nd a st ps = Some (nd', ps')"
  shows "view nd' = view nd"
proof -
  obtain nd1 x ps1 where poll: "poll_ports (pe_bo e) (map pp_number (filter (\<lambda>p. pp_clock p = a) (nd_ports nd))) nd None ps = (nd1, x, ps1)"
    by (rule prod_cases3)
  note v1 = poll_ports_view [OF poll]
  obtain c where c: "clock_at nd1 a = Some c"
    using assms by (auto simp: clock_reinit_def poll split: option.splits)
  obtain nd2 d sw where d: "(case x of
        Some (_, stamping, iface) \<Rightarrow> if stamping \<noteq> 0 then switch_phc e nd1 c iface else Some (nd1, c, Some False)
      | None \<Rightarrow> Some (nd1, c, Some False)) = Some (nd2, d, sw)"
    using assms by (auto simp: clock_reinit_def poll c split: option.splits if_splits prod.splits)
  have same: "view nd2 = view nd1" "pc_addr d = a" "pc_state d = pc_state c"
    using d switch_phc_view clock_at_addr [OF c] by (auto split: option.splits if_splits prod.splits)
  obtain d0 where d0: "clock_at nd2 a = Some d0" "pc_state d0 = pc_state c"
    using view_clock_at [of nd1 nd2 a c] same(1) c by auto
  have put: "view (set_clock b nd2) = view nd2" if "pc_addr b = a" "pc_state b = pc_state c" for b
    using view_set_clock [of nd2 b d0] that d0 by simp
  show ?thesis
    using assms d same reset_clock_same put v1
    by (auto simp: clock_reinit_def poll c split: option.splits if_splits)
qed

lemma enter_state_states:
  assumes "enter_state e nd c ps = Some (nd', ps')"
  shows "addrs nd' = addrs nd" "b \<noteq> pc_addr c \<Longrightarrow> states nd' b = states nd b"
proof -
  have "addrs nd' = addrs nd \<and> (b \<noteq> pc_addr c \<longrightarrow> states nd' b = states nd b)"
  proof (cases "pc_new_state c = 0")
    case False
    then obtain nd1 ps1 d where r: "clock_reinit e nd (pc_addr c) (pc_new_state c) ps = Some (nd1, ps1)"
        "clock_at nd1 (pc_addr c) = Some d" "nd' = set_clock (d\<lparr>pc_state := pc_new_state d, pc_new_state := 0\<rparr>) nd1"
      using assms by (auto simp: enter_state_def split: option.splits prod.splits)
    show ?thesis
      using clock_reinit_view [OF r(1)] clock_at_addr [OF r(2)] r(2,3)
      by (auto simp: view_def ps_simps states_set_clock)
  qed (use assms in \<open>auto simp: enter_state_def\<close>)
  then show "addrs nd' = addrs nd" "b \<noteq> pc_addr c \<Longrightarrow> states nd' b = states nd b" by auto
qed

text \<open>What the pass over the clocks has found, where \<open>seen\<close> are the clocks that it has visited.\<close>

definition scan_ok :: "nat set \<Rightarrow> node \<Rightarrow> scan \<Rightarrow> bool" where
  "scan_ok seen nd sc \<longleftrightarrow>
    (\<forall>r. sc_rt sc = Some r \<longrightarrow> r \<in> seen \<and> states nd r \<noteq> None) \<and>
    (\<forall>a. sc_src sc = Some a \<longrightarrow> a \<in> seen \<and> states nd a = Some 9 \<and> sc_rt sc \<noteq> Some a) \<and>
    (\<forall>a. sc_last sc = Some a \<longrightarrow> states nd a \<noteq> None) \<and>
    (sc_dst_cnt sc > 0 \<longrightarrow> sc_last sc \<noteq> None)"

lemma scan_clocks_ok:
  assumes "scan_clocks e as nd sc ps = Some (nd', sc', ps')" "scan_ok seen nd sc" "distinct as" "set as \<inter> seen = {}"
  shows "\<exists>seen'. scan_ok seen' nd' sc' \<and> addrs nd' = addrs nd"
  using assms
proof (induction as arbitrary: nd sc ps seen)
  case (Cons a as)
  obtain c where c: "clock_at nd a = Some c" using Cons.prems(1) by (auto split: option.splits)
  note ca = clock_at_addr [OF c]
  show ?case
  proof (cases "pc_clkid c = CLOCK_REALTIME")
    case True
    have "scan_ok (insert a seen) nd (sc\<lparr>sc_rt := Some a\<rparr>)"
      using Cons.prems(2,4) c by (auto simp: scan_ok_def states_def)
    then show ?thesis
      using Cons.IH [of nd "sc\<lparr>sc_rt := Some a\<rparr>" ps "insert a seen"] Cons.prems True c by auto
  next
    case False
    then obtain nd1 ps1 d where n1: "enter_state e nd c ps = Some (nd1, ps1)" "clock_at nd1 a = Some d"
        "scan_clocks e as nd1 (count_clock d sc) ps1 = Some (nd', sc', ps')"
      using Cons.prems(1) c by (auto split: option.splits prod.splits)
    note st = enter_state_states [OF n1(1), unfolded ca]
    have sa: "states nd1 a = Some (pc_state d)" "pc_addr d = a"
      using n1(2) clock_at_addr by (auto simp: states_def)
    have keep: "states nd1 b \<noteq> None" if "states nd b \<noteq> None" for b
      using that st(2) [of b] sa by (cases "b = a") auto
    have other: "states nd1 b = states nd b" if "b \<in> seen" for b
      using that st(2) [of b] Cons.prems(4) by auto
    have "scan_ok (insert a seen) nd1 (count_clock d sc)"
      using Cons.prems(2,4) keep other sa unfolding scan_ok_def count_clock_def Let_def update_needed_def
      by (auto split: if_splits)
    then show ?thesis
      using Cons.IH [OF n1(3)] Cons.prems(3,4) st(1) by fastforce
  qed
qed auto

lemma states_set_state: "states (set_state a st nd) = (if states nd a = None then states nd else (states nd)(a \<mapsto> st))"
proof (cases "clock_at nd a")
  case (Some c)
  then show ?thesis
    using states_set_clock [of nd "c\<lparr>pc_state := st\<rparr>" c] clock_at_addr [OF Some]
    by (simp add: set_state_def states_def)
qed (simp add: set_state_def states_def)

lemma states_upd [ps_simps]: "states (nd\<lparr>nd_master := m\<rparr>) = states nd"
  by (simp add: states_def ps_simps fun_eq_iff)

lemma states_view: "view nd' = view nd \<Longrightarrow> states nd' = states nd"
  by (simp add: view_def)

lemma select_default_states:
  assumes "scan_ok seen nd sc" "sc_dst_cnt sc > 0" "nd_master (select_default sc nd) = Some m"
  shows "states (select_default sc nd) m = Some 9"
proof -
  obtain a c where a: "sc_last sc = Some a" "clock_at nd a = Some c"
    using assms(1,2) by (auto simp: scan_ok_def states_def)
  note ca = clock_at_addr [OF a(2)]
  let ?n = "(set_clock (c\<lparr>pc_new_state := pc_state c, pc_state := ST_SLAVE\<rparr>) nd)\<lparr>nd_master := Some a\<rparr>"
  have n: "states ?n a = Some 9"
    using states_set_clock [of nd "c\<lparr>pc_new_state := pc_state c, pc_state := ST_SLAVE\<rparr>" c] a ca
    by (simp add: ps_simps)
  have mm: "nd_master (set_state r st n2) = nd_master n2" for r st n2
    by (simp add: set_state_def set_clock_def split: option.splits)
  have "m = a" using assms(3) a by (auto simp: select_default_def Let_def mm split: option.splits)
  then show ?thesis
    using a n by (auto simp: select_default_def Let_def states_set_state split: option.splits)
qed

text \<open>
  When phc2sys has selected a source of time after a change of the states of the ports, the source is
  a clock of the program and is in the state SLAVE, the state in which no clock is adjusted.
\<close>

theorem source_is_slave:
  assumes "distinct (map pc_addr (nd_clocks nd))"
    and "reconfigure e nd ps = Some (nd', ps')" "nd_master nd' = Some m"
  shows "\<exists>c. clock_at nd' m = Some c \<and> pc_state c = 9 \<and> \<not> update_needed c"
proof -
  obtain nd1 sc ps1 where scan: "scan_clocks e (map pc_addr (nd_clocks nd)) (nd\<lparr>nd_state_changed := False\<rparr>) empty_scan ps
      = Some (nd1, sc, ps1)" and sel: "select_source e sc nd1 ps1 = Some (nd', ps')"
    using assms(2) by (auto simp: reconfigure_def split: option.splits)
  obtain seen where ok: "scan_ok seen nd1 sc"
    using scan_clocks_ok [OF scan _ assms(1), of "{}"] by (auto simp: scan_ok_def [of "{}"] empty_scan_def)
  have "states nd' m = Some 9"
  proof (cases "sc_dst_cnt sc > 1 \<and> sc_src sc = None \<and> only_dest nd1 (sc_rt sc)")
    case True
    then show ?thesis
      using sel assms(3) select_default_states [OF ok, of m] by (auto simp: select_source_def)
  next
    case False
    show ?thesis
      using False sel assms(3) ok unfolding select_source_def scan_ok_def
      by (auto simp: ps_simps states_set_state only_dest_def split: if_splits option.splits
          dest!: clock_reinit_view states_view)
  qed
  then show ?thesis by (auto simp: states_def update_needed_def)
qed

definition sample_env :: ph_env where
  "sample_env = \<lparr>pe_bo = LittleEndian, pe_fl = (\<lambda>x. x), pe_mem = True, pe_shm = None, pe_cfg = sample_cfg,
     pe_fd_pps = None, pe_has_pps = (\<lambda>_. False), pe_ts_info = (\<lambda>_. None), pe_phc_open = (\<lambda>_. 7), pe_freq = (\<lambda>_. 0),
     pe_sys_max = 500000, pe_phc_max = (\<lambda>k. 0), pe_sysoff_probe = (\<lambda>_. False), pe_sysoff = (\<lambda>_. None),
     pe_reading = (\<lambda>k s i. if i < 2 then Some (sample_readings ! i) else None), pe_gettime = (\<lambda>_. None),
     pe_monotonic = Some \<lparr>tv_sec = 0, tv_nsec = 0\<rparr>, pe_check_time = \<lparr>tv_sec = 0, tv_nsec = 0\<rparr>\<rparr>"

definition sample_node :: node where
  "sample_node = \<lparr>nd_stats_max_count = 0, nd_sanity_freq_limit = 0, nd_servo_type = CLOCK_SERVO_NULLF, nd_phc_readings = 2,
     nd_phc_interval = 1, nd_sync_offset = 37, nd_forced_sync_offset = 0, nd_utc_offset_traceable = False, nd_leap = 0,
     nd_kernel_leap = True, nd_pmc = False, nd_pmc_ds_requested = False, nd_pmc_last_update = 0, nd_state_changed = True,
     nd_clock_identity = None, nd_ports = [],
     nd_clocks = [(new_clock 0 0 (-1) (Some ''CLOCK_REALTIME''))\<lparr>pc_servo := Some sample_nullf\<rparr>,
       (new_clock 1 3 0 (Some ''eth0''))\<lparr>pc_servo := Some sample_nullf, pc_state := 9\<rparr>],
     nd_master = None, nd_next = 2, nd_fx = []\<rparr>"

lemma source_is_slave_witness:
  "\<exists>nd' c. reconfigure sample_env sample_node [] = Some (nd', []) \<and> nd_master nd' = Some 1 \<and>
     clock_at nd' 1 = Some c \<and> pc_state c = 9 \<and> \<not> update_needed c"
proof -
  have d: "distinct (map pc_addr (nd_clocks sample_node))"
    by (simp add: sample_node_def new_clock_def)
  obtain nd' where r: "reconfigure sample_env sample_node [] = Some (nd', [])" "nd_master nd' = Some 1"
    by (simp add: reconfigure_def sample_node_def new_clock_def clock_at_def count_clock_def update_needed_def
        empty_scan_def enter_state_def select_source_def only_dest_def set_state_def set_clock_def clock_reinit_def
        reset_clock_def Let_def)
  from source_is_slave [OF d r] r show ?thesis by blast
qed

subsection \<open>Which clocks are touched\<close>

text \<open>The clock that an effect acts on.\<close>

fun fx_clock :: "ph_effect \<Rightarrow> int option" where
  "fx_clock (ClockadjInit k) = Some k"
| "fx_clock (ClockadjFreq k f) = Some k"
| "fx_clock (ClockadjStep k s) = Some k"
| "fx_clock (SysclkLeap l) = Some CLOCK_REALTIME"
| "fx_clock (SysclkTai t) = Some CLOCK_REALTIME"
| "fx_clock SysclkSync = Some CLOCK_REALTIME"
| "fx_clock (PhcClose k) = Some k"
| "fx_clock (EnablePps k) = Some k"
| "fx_clock (PmcGet i) = None"
| "fx_clock PmcSubscribe = None"
| "fx_clock (PmcTarget t) = None"

text \<open>The state after an operation differs in what was done to the clocks \<open>ks\<close>.\<close>

definition acts_on :: "int set \<Rightarrow> node \<Rightarrow> node \<Rightarrow> bool" where
  "acts_on ks nd nd' \<longleftrightarrow> (\<exists>es. nd_fx nd' = nd_fx nd @ es \<and> (\<forall>f\<in>set es. \<exists>k\<in>ks. fx_clock f = Some k))"

lemma acts_on_refl [simp]: "acts_on ks nd nd"
  by (simp add: acts_on_def)

lemma acts_on_trans: "acts_on ks a b \<Longrightarrow> acts_on ks b c \<Longrightarrow> acts_on ks a c"
  unfolding acts_on_def by fastforce

lemma acts_on_mono: "acts_on ks a b \<Longrightarrow> ks \<subseteq> ls \<Longrightarrow> acts_on ls a b"
  unfolding acts_on_def by blast

lemma acts_on_act: "acts_on ks nd (nd_act es nd) \<longleftrightarrow> (\<forall>f\<in>set es. \<exists>k\<in>ks. fx_clock f = Some k)"
  by (simp add: acts_on_def nd_act_def)

lemma acts_on_set_clock: "acts_on ks nd (set_clock c nd') \<longleftrightarrow> acts_on ks nd nd'"
  by (simp add: acts_on_def set_clock_def)

text \<open>What identifies a clock, which an update does not change.\<close>

definition identity :: "ps_clock \<Rightarrow> nat \<times> int \<times> int \<times> string option \<times> int" where
  "identity c = (pc_addr c, pc_clkid c, pc_phc_index c, pc_device c, pc_state c)"

definition identities :: "node \<Rightarrow> nat \<Rightarrow> (nat \<times> int \<times> int \<times> string option \<times> int) option" where
  "identities nd a = map_option identity (clock_at nd a)"

lemma identities_set_clock:
  "clock_at nd (pc_addr c) = Some d \<Longrightarrow> identity c = identity d \<Longrightarrow> identities (set_clock c nd) = identities nd"
  by (auto simp: identities_def ps_simps fun_eq_iff)

lemma apply_leap_acts:
  "apply_leap e nd c ts = Some (nd', c') \<Longrightarrow>
   acts_on {pc_clkid c} nd nd' \<and> clock_at nd' = clock_at nd \<and> identity c' = identity c"
  by (auto simp: apply_leap_def Let_def acts_on_act ps_simps identity_def split: prod.splits if_splits)

lemma apply_tai_offset_acts:
  "apply_tai_offset nd c = (nd', c') \<Longrightarrow>
   acts_on {pc_clkid c} nd nd' \<and> clock_at nd' = clock_at nd \<and> identity c' = identity c"
  by (auto simp: apply_tai_offset_def acts_on_act ps_simps identity_def split: if_splits)

lemma identity_clkid: "identity c' = identity c \<Longrightarrow> pc_clkid c' = pc_clkid c"
  by (simp add: identity_def)

lemma handle_leap_acts:
  assumes "handle_leap e nd c m ofs ts = Some (nd', c', skip)"
  shows "acts_on {pc_clkid c} nd nd' \<and> clock_at nd' = clock_at nd \<and> identity c' = identity c"
proof -
  let ?c = "c\<lparr>pc_sync_offset := nd_sync_offset nd\<rparr>"
  have c: "identity ?c = identity c" "pc_clkid ?c = pc_clkid c" by (simp_all add: identity_def)
  have tai: ?thesis if "apply_tai_offset n1 c1 = (nd', c')" "acts_on {pc_clkid c} nd n1" "clock_at n1 = clock_at nd"
      "identity c1 = identity c" for n1 c1
    using that apply_tai_offset_acts [OF that(1)] identity_clkid [OF that(4)] by (auto intro: acts_on_trans)
  show ?thesis
  proof (cases "(nd_leap nd \<noteq> 0 \<or> pc_leap_set ?c \<noteq> 0) \<and> pc_is_utc ?c \<noteq> pc_is_utc m")
    case False
    then have "apply_tai_offset nd ?c = (nd', c')"
      using assms unfolding handle_leap_def Let_def if_not_P [OF False] by (auto split: prod.splits)
    from tai [OF this] c show ?thesis by simp
  next
    case True
    note h = assms [unfolded handle_leap_def Let_def if_P [OF True]]
    show ?thesis
    proof (cases "\<exists>t. leap_ts e nd ?c m ofs ts = Some t \<and> \<not> is_utc_ambiguous t")
      case False
      then have "nd' = nd \<and> c' = ?c" using h by (auto split: option.splits if_splits)
      then show ?thesis using c by simp
    next
      case True
      then obtain t n1 c1 where l: "apply_leap e nd ?c t = Some (n1, c1)" "apply_tai_offset n1 c1 = (nd', c')"
        using h by (auto simp: map_option_case split: option.splits prod.splits)
      from apply_leap_acts [OF l(1)] c show ?thesis by (intro tai [OF l(2)]) auto
    qed
  qed
qed

lemma steer_clock_acts:
  "steer_clock nd c st ofs ppb = (nd', c') \<Longrightarrow>
   acts_on {pc_clkid c} nd nd' \<and> clock_at nd' = clock_at nd \<and> identity c' = identity c"
  by (auto simp: steer_clock_def Let_def acts_on_def nd_act_def clock_at_def fun_eq_iff identity_def
      split: servo_state.splits)

lemma update_clock_stats_identity: "identity (update_clock_stats e c n ofs f d) = identity c"
  by (simp add: update_clock_stats_def Let_def identity_def split: option.splits)

lemma put_identities:
  assumes "clock_at nd (pc_addr c) = Some c" "clock_at nd' = clock_at nd" "identity b = identity c"
  shows "identities (set_clock b nd') = identities nd"
proof -
  have "pc_addr b = pc_addr c" using assms(3) by (simp add: identity_def)
  then show ?thesis
    using identities_set_clock [of nd' b c] assms by (simp add: identities_def fun_eq_iff)
qed

lemma servo_update_acts:
  assumes "clock_at nd0 (pc_addr c0) = Some c0" "clock_at nd = clock_at nd0" "identity c = identity c0"
  shows "acts_on {pc_clkid c0} nd (servo_update e nd c sv ofs ts d) \<and> identities (servo_update e nd c sv ofs ts d) = identities nd0"
proof -
  obtain cc sv1 where a: "sanity_sample e c sv ts = (cc, sv1)" by (rule prod.exhaust)
  obtain sv2 ppb st where b: "servo_sample (pe_fl e) sv1 ofs ts 1 = (sv2, ppb, st)" by (rule prod_cases3)
  let ?c = "c\<lparr>pc_sanity_check := cc, pc_servo := Some sv2, pc_servo_state := st\<rparr>"
  obtain nd2 c2 where s: "steer_clock nd ?c st ofs ppb = (nd2, c2)" by (rule prod.exhaust)
  have i: "identity ?c = identity c" by (simp add: identity_def)
  have k: "pc_clkid ?c = pc_clkid c0" using i assms(3) identity_clkid by metis
  note t = steer_clock_acts [OF s, unfolded k]
  show ?thesis
    unfolding servo_update_def a b s prod.case
    using t assms i by (auto simp: acts_on_set_clock update_clock_stats_identity intro!: put_identities)
qed

lemma update_clock_acts:
  assumes "update_clock e nd c m ofs ts d = Some nd'" "clock_at nd (pc_addr c) = Some c"
  shows "acts_on {pc_clkid c} nd nd' \<and> identities nd' = identities nd"
proof -
  obtain nd1 c1 skip where h: "handle_leap e nd c m ofs ts = Some (nd1, c1, skip)"
    using assms(1) by (auto simp: update_clock_def split: option.splits)
  note ha = handle_leap_acts [OF h]
  show ?thesis
    using assms(1) ha servo_update_acts [of nd c nd1 c1] put_identities [of nd c nd1 c1] assms(2)
    by (auto simp: update_clock_def h acts_on_set_clock split: if_splits intro: acts_on_trans)
qed

fun outcome_node :: "outcome \<Rightarrow> node option" where
  "outcome_node Crash = None"
| "outcome_node (Return nd r) = Some nd"
| "outcome_node (Continue nd) = Some nd"

text \<open>The clocks that may be adjusted when \<open>master\<close> is the source.\<close>

definition to_adjust :: "ps_clock \<Rightarrow> ps_clock \<Rightarrow> bool" where
  "to_adjust c master \<longleftrightarrow> update_needed c \<and> pc_clkid c \<noteq> pc_clkid master \<and>
     (pc_phc_index c < 0 \<or> pc_phc_index c \<noteq> pc_phc_index master) \<and> pc_device c \<noteq> pc_device master"

lemma sync_clock_acts:
  assumes "outcome_node (sync_clock e nd c m) = Some nd'" "clock_at nd (pc_addr c) = Some c"
  shows "acts_on (if to_adjust c m then {pc_clkid c} else {}) nd nd' \<and> identities nd' = identities nd"
proof (cases "\<not> update_needed c \<or> same_clock c m")
  case False
  then have ne: "to_adjust c m" by (auto simp: to_adjust_def same_clock_def)
  consider "nd' = nd" | ofs ts d where "update_clock e nd c m ofs ts d = Some nd'"
    using assms(1) False by (auto simp: sync_clock_def Let_def split: if_splits option.splits)
  then show ?thesis
    by cases (use ne update_clock_acts assms(2) in auto)
qed (use assms in \<open>auto simp: sync_clock_def\<close>)

definition synced_clocks :: "node \<Rightarrow> nat \<Rightarrow> int set" where
  "synced_clocks nd m =
     {k. \<exists>a c master. clock_at nd a = Some c \<and> clock_at nd m = Some master \<and> to_adjust c master \<and> pc_clkid c = k}"

lemma synced_clocks_cong: "identities nd' = identities nd \<Longrightarrow> synced_clocks nd' m = synced_clocks nd m"
proof -
  assume i: "identities nd' = identities nd"
  have s: "\<exists>d. clock_at n2 a = Some d \<and> identity d = identity c"
    if "identities n1 = identities n2" "clock_at n1 a = Some c" for n1 n2 a c
    using fun_cong [OF that(1), of a] that(2) by (cases "clock_at n2 a") (auto simp: identities_def)
  have same: "to_adjust d d' = to_adjust c c'" "pc_clkid d = pc_clkid c" if "identity d = identity c" "identity d' = identity c'"
    for c d c' d' using that by (auto simp: to_adjust_def update_needed_def identity_def)
  have "synced_clocks n1 m \<subseteq> synced_clocks n2 m" if n: "identities n1 = identities n2" for n1 n2
  proof
    fix k assume "k \<in> synced_clocks n1 m"
    then obtain a c master where c: "clock_at n1 a = Some c" "clock_at n1 m = Some master" "to_adjust c master" "pc_clkid c = k"
      unfolding synced_clocks_def by blast
    obtain d where d: "clock_at n2 a = Some d" "identity d = identity c" using s [OF n c(1)] by blast
    obtain d' where d': "clock_at n2 m = Some d'" "identity d' = identity master" using s [OF n c(2)] by blast
    have "to_adjust d d'" "pc_clkid d = k" using same [OF d(2) d'(2)] c by simp_all
    with d(1) d'(1) show "k \<in> synced_clocks n2 m" unfolding synced_clocks_def by blast
  qed
  then show ?thesis using i by (intro subset_antisym) simp_all
qed

lemma sync_clocks_acts:
  assumes "outcome_node (sync_clocks e m as nd) = Some nd'"
  shows "acts_on (synced_clocks nd m) nd nd'"
  using assms
proof (induction as arbitrary: nd)
  case (Cons a as)
  obtain c master where cm: "clock_at nd a = Some c" "clock_at nd m = Some master"
    using Cons.prems by (auto split: option.splits)
  have here: "clock_at nd (pc_addr c) = Some c" using cm(1) clock_at_addr by metis
  have step: "acts_on (synced_clocks nd m) nd nd1 \<and> identities nd1 = identities nd"
    if "outcome_node (sync_clock e nd c master) = Some nd1" for nd1
  proof -
    have "(if to_adjust c master then {pc_clkid c} else {}) \<subseteq> synced_clocks nd m"
      using cm by (auto simp: synced_clocks_def)
    then show ?thesis using sync_clock_acts [OF that here] acts_on_mono by blast
  qed
  show ?case
  proof (cases "sync_clock e nd c master")
    case (Continue nd1)
    then show ?thesis
      using Cons.IH [of nd1] Cons.prems cm step [of nd1] synced_clocks_cong [of nd1 nd m]
      by (auto intro: acts_on_trans [of _ nd nd1])
  qed (use Cons.prems cm step in auto)
qed simp

text \<open>
  C5: phc2sys does not adjust its source.  When the main loop runs over the clocks, every clock that it
  steps, or whose frequency, leap second status or TAI offset it sets, is in a state in which it is
  synchronised, and is not the source: it has another clock id, another PHC (by its index) and another
  device.  So the source, the system clock or a hardware clock, is not adjusted, and neither is a clock
  that is the same device under another clock id.  (The loop of the PPS mode has a single clock to adjust,
  and adding a clock sets the frequency that the clock has; both are outside of this claim.)
\<close>

theorem source_never_adjusted:
  assumes "nd_master nd = Some m" "clock_at nd m = Some master" "outcome_node (loop_clocks e nd) = Some nd'"
  shows "\<exists>es. nd_fx nd' = nd_fx nd @ es \<and> Some (pc_clkid master) \<notin> fx_clock ` set es \<and>
    fx_clock ` set es \<subseteq> {Some (pc_clkid c) |c. \<exists>a. clock_at nd a = Some c \<and> update_needed c \<and>
      pc_clkid c \<noteq> pc_clkid master \<and> (pc_phc_index c < 0 \<or> pc_phc_index c \<noteq> pc_phc_index master) \<and>
      pc_device c \<noteq> pc_device master}"
proof -
  have "acts_on (synced_clocks nd m) nd nd'"
    using assms sync_clocks_acts by (simp add: loop_clocks_def)
  then obtain es where "nd_fx nd' = nd_fx nd @ es" "\<forall>f \<in> set es. \<exists>k \<in> synced_clocks nd m. fx_clock f = Some k"
    unfolding acts_on_def by blast
  then show ?thesis using assms(2) unfolding synced_clocks_def to_adjust_def by (intro exI [of _ es]) fastforce
qed

definition synced_node :: node where
  "synced_node = sample_node\<lparr>nd_master := Some 1,
     nd_clocks := [(new_clock 0 0 (-1) (Some ''CLOCK_REALTIME''))\<lparr>pc_servo := Some sample_nullf, pc_state := 6\<rparr>,
       (new_clock 1 3 0 (Some ''eth0''))\<lparr>pc_servo := Some sample_nullf, pc_state := 9\<rparr>]\<rparr>"

lemma source_never_adjusted_witness:
  "\<exists>nd'. outcome_node (loop_clocks sample_env synced_node) = Some nd' \<and>
     (\<exists>es. nd_fx nd' = nd_fx synced_node @ es \<and> Some 3 \<notin> fx_clock ` set es \<and>
       fx_clock ` set es \<subseteq> {Some (pc_clkid c) |c. \<exists>a. clock_at synced_node a = Some c \<and> update_needed c \<and>
         pc_clkid c \<noteq> 3 \<and> (pc_phc_index c < 0 \<or> pc_phc_index c \<noteq> 0) \<and> pc_device c \<noteq> Some ''eth0''})"
proof -
  let ?m = "(new_clock 1 3 0 (Some ''eth0''))\<lparr>pc_servo := Some sample_nullf, pc_state := 9\<rparr>"
  have m: "nd_master synced_node = Some 1" "clock_at synced_node 1 = Some ?m"
    by (simp_all add: synced_node_def clock_at_def new_clock_def)
  have r: "phc_readings sample_env synced_node 3 0 = map Some sample_readings"
    by (simp add: phc_readings_def sample_env_def synced_node_def sample_node_def sample_readings_def upt_rec)
  have p: "read_phc (map Some sample_readings) 0 0 = Some (-541, 1000000919, 19)"
    by (simp add: sample_readings_def read_phc_def read_phc_once_def span_ns_def ts_ns_def)
  let ?c = "(new_clock 0 0 (-1) (Some ''CLOCK_REALTIME''))\<lparr>pc_servo := Some sample_nullf, pc_state := 6\<rparr>"
  have c: "clock_at synced_node 0 = Some ?c" "pc_addr ?c = 0"
    by (simp_all add: synced_node_def clock_at_def new_clock_def)
  obtain nd1 where u: "update_clock sample_env synced_node ?c ?m (-541) 1000000919 19 = Some nd1"
    by (simp add: update_clock_def handle_leap_def apply_tai_offset_def synced_node_def sample_node_def new_clock_def)
  have s: "sync_clock sample_env synced_node ?c ?m = Continue nd1"
    using r p u by (simp add: sync_clock_def update_needed_def same_clock_def new_clock_def)
  have i: "identities nd1 = identities synced_node"
    using update_clock_acts [OF u] c by simp
  obtain m1 where m1: "clock_at nd1 1 = Some m1" "pc_state m1 = 9"
    using fun_cong [OF i, of 1] m(2) by (cases "clock_at nd1 1") (auto simp: identities_def identity_def)
  obtain nd' where n: "outcome_node (loop_clocks sample_env synced_node) = Some nd'"
    using c(1) m s m1 by (simp add: loop_clocks_def synced_node_def [THEN arg_cong [where f = nd_clocks]] new_clock_def sync_clock_def update_needed_def)
  have k: "pc_clkid ?m = 3" "pc_phc_index ?m = 0" "pc_device ?m = Some ''eth0''" by (simp_all add: new_clock_def)
  from source_never_adjusted [OF m n, unfolded k] n show ?thesis by blast
qed

lemma no_servo_crashes:
  assumes "pc_servo c = None" "pc_leap_set c = 0" "nd_leap nd = 0"
  shows "update_clock e nd c master offset ts delay = None"
proof -
  obtain n1 c1 where t: "apply_tai_offset nd (c\<lparr>pc_sync_offset := nd_sync_offset nd\<rparr>) = (n1, c1)" by (rule prod.exhaust)
  then have "pc_servo c1 = None" using assms(1) by (auto simp: apply_tai_offset_def split: if_splits)
  then show ?thesis using assms t by (simp add: update_clock_def handle_leap_def)
qed

text \<open>
  A clock that cannot be adjusted is accepted all the same, although without a servo, and the first
  attempt to synchronise it uses a null pointer.
\<close>

theorem unadjustable_clock_crashes:
  assumes "clock_open e dev = (clkid, index)" "clkid \<noteq> CLOCK_INVALID" "clkid \<noteq> CLOCK_REALTIME" "pe_phc_max e clkid = 0"
    and "pe_mem e" "nd_leap nd = 0" "clock_add e nd (Some dev) = (nd', r)"
  shows "\<exists>c. r = Some (pc_addr c) \<and> hd (nd_clocks nd') = c \<and> pc_servo c = None \<and> pc_clkid c = clkid \<and>
    update_clock e nd' c master offset ts delay = None"
proof -
  have "\<exists>nd1. servo_add e nd clkid = (nd1, None) \<and> nd_leap nd1 = nd_leap nd"
    using assms(3,4) by (simp add: servo_add_def Let_def nd_act_def)
  then obtain nd1 where sa: "servo_add e nd clkid = (nd1, None)" "nd_leap nd1 = 0" using assms(6) by auto
  define st where "st = (if nd_stats_max_count nd > 0 then stats_create (pe_mem e) else None)"
  define cc where "cc = (if nd_sanity_freq_limit nd \<noteq> 0 then clockcheck_create (pe_mem e) (nd_sanity_freq_limit nd) else None)"
  define c1 where "c1 = (new_clock (nd_next nd) clkid index (Some dev))
    \<lparr>pc_offset_stats := st, pc_freq_stats := st, pc_delay_stats := st, pc_sanity_check := cc, pc_servo := None,
     pc_sysoff_supported := (clkid \<noteq> CLOCK_INVALID \<and> clkid \<noteq> CLOCK_REALTIME \<and> pe_sysoff_probe e clkid)\<rparr>"
  have "clock_add e nd (Some dev) = (nd1\<lparr>nd_clocks := c1 # nd_clocks nd1, nd_next := nd_next nd1 + 1\<rparr>, Some (pc_addr c1))"
    using assms(2,5) unfolding clock_add_def option.case assms(1) prod.case Let_def st_def [symmetric] cc_def [symmetric]
    by (simp add: sa(1) c1_def)
  moreover have "pc_servo c1 = None" "pc_clkid c1 = clkid" "pc_leap_set c1 = 0"
    by (simp_all add: c1_def new_clock_def)
  ultimately show ?thesis using assms(7) sa(2) no_servo_crashes by auto
qed

lemma unadjustable_clock_crashes_witness:
  "\<exists>nd' c. clock_add sample_env sample_node (Some ''eth0'') = (nd', Some (pc_addr c)) \<and> hd (nd_clocks nd') = c \<and>
     pc_servo c = None \<and> pc_clkid c = 7 \<and> update_clock sample_env nd' c (hd (nd_clocks sample_node)) 5 6 7 = None"
proof -
  have "\<not> strcaseeq ''eth0'' ''CLOCK_REALTIME''" by code_simp
  then have o: "clock_open sample_env ''eth0'' = (7, -1)"
    by (simp add: clock_open_def sample_env_def)
  obtain nd' r where a: "clock_add sample_env sample_node (Some ''eth0'') = (nd', r)" by (rule prod.exhaust)
  have s: "pe_phc_max sample_env 7 = 0" "pe_mem sample_env" "nd_leap sample_node = 0"
    by (simp_all add: sample_env_def sample_node_def)
  from unadjustable_clock_crashes [OF o _ _ s a, of "hd (nd_clocks sample_node)" 5 6 7] a show ?thesis by auto
qed

end
