(* ===== verification/Dispatch.thy ===== *)
theory Dispatch
  imports OneSlave
begin

text \<open>
  The recursion of the dispatch function of a port: written with a bound on its depth as in
  src/port.c, it ends with the result that the model of the other theories uses.
\<close>

text \<open>\<open>n\<close> bounds the depth of the calls, None means that it was not enough.\<close>

fun bc_dispatch_rec ::
  "nat \<Rightarrow> env \<Rightarrow> port \<Rightarrow> 'z clock_scheme \<Rightarrow> fsm_event \<Rightarrow> bool \<Rightarrow> (port \<times> 'z clock_scheme) option" where
  "bc_dispatch_rec 0 e p c event mdiff = None"
| "bc_dispatch_rec (Suc n) e p c event mdiff =
    (case bc_transition e p c event mdiff of
       (p, False) \<Rightarrow> Some (p, c)
     | (p, True) \<Rightarrow>
         if p_jbod p \<and> p_state p = PS_UNCALIBRATED then
           (case clock_switch_phc (env_fl e) (env_mem e) (env_shm e) (env_phc e) c of
              None \<Rightarrow> bc_dispatch_rec n e (p\<lparr>p_last_fault_type := FT_SWITCH_PHC\<rparr>) c EV_FAULT_DETECTED False
            | Some c \<Rightarrow> Some (p, clock_sync_interval (env_fl e) c (p_log_sync_interval p)))
         else Some (p, c))"

lemma fault_not_uncalibrated: "p_state (fst (bc_transition e p c EV_FAULT_DETECTED md)) \<noteq> PS_UNCALIBRATED"
  using fault_not_slave [of e p c md] by (auto simp: slave_states_def)

lemma fault_dispatch_depth:
  "bc_dispatch_rec (Suc n) e p c EV_FAULT_DETECTED md = Some (fst (bc_transition e p c EV_FAULT_DETECTED md), c)"
proof (cases "bc_transition e p c EV_FAULT_DETECTED md")
  case (Pair q changed)
  then show ?thesis using fault_not_uncalibrated [of e p c md] by (cases changed) simp_all
qed

text \<open>
  C39: The dispatch of an event to a port of an ordinary or boundary clock ends, at the latest after one
  call of itself: the fault that a failed change of the hardware clock is reported as leaves no port in
  UNCALIBRATED, even if the fault is configured to be cleared at once and the port starts again.
\<close>

theorem bc_dispatch_terminates: "bc_dispatch_rec (Suc (Suc n)) e p c ev md = Some (bc_dispatch e p c ev md)"
proof (cases "bc_transition e p c ev md")
  case (Pair q changed)
  show ?thesis
    unfolding bc_dispatch_rec.simps(2) [of "Suc n"] bc_dispatch_def Pair prod.case
    by (cases changed; cases "clock_switch_phc (env_fl e) (env_mem e) (env_shm e) (env_phc e) c")
      (simp_all add: fault_dispatch_depth del: bc_dispatch_rec.simps)
qed

end
