(* ===== verification/Spec2Isabelle.thy ===== *)
theory Spec2Isabelle
  imports Shutdown NsmProps PhcCtlProps Sysoff TimemasterProps TmRunProps Clockadj PmcWire PmcMain Ptp4lProps
    Phc2sysMainProps Phc2sysProps ConfigProps Fsm Bmc Tsproc Servo PortFault ClockPorts Liveness TcProps
    ManageProps Dispatch ClockCreateProps
begin

text \<open>
  The Linux PTP project: a model of the daemon ptp4l, which runs the Precision Time Protocol of IEEE
  1588 on the interfaces of a host, and of the programs around it: phc2sys, which synchronises the clocks
  of one host, pmc, the management client, and timemaster, which starts and supervises them.

  How the parts interact.  \<open>main\<close> of ptp4l (src/ptp4l.c) reads options into a configuration (src/config.c,
  kept in the hash table of src/hash.c) and creates a clock with its ports (src/clock.c, src/port.c).  The
  poll loop hands events to the ports.  A port decodes messages (src/msg.c, src/tlv.c), keeps the masters
  that it hears in a table (src/foreign.h), and drives its state machine (src/fsm.c); the states of all ports
  are decided by the best master clock algorithm (src/bmc.c, src/telecom.c).  A slave port turns time stamps
  into an offset (src/tsproc.c with the filters of src/mave.c and src/mmedian.c) and the clock turns it into a
  frequency by a servo (src/servo.c).  A transparent clock forwards messages instead (src/tc.c,
  src/e2e_tc.c, src/p2p_tc.c).  Management messages read and set the data of clock and ports; pmc
  (src/pmc.c, src/pmc_common.c) and phc2sys (src/phc2sys.c) are the clients.  timemaster (src/timemaster.c) writes the
  configuration files and command lines of ptp4l, phc2sys and an NTP program and restarts what terminates.

  The theories and the code.

  \<^item> Prelude: words, byte order, byte images, lemmas on lists.  Tmv: \<open>tmv_t\<close> (src/tmv.h).  Ddt: data types and
    data sets (src/ddt.h, src/ds.h).  Util and Parse: src/util.c, the numbers, addresses and identities in text.
  \<^item> Hash, Config, ConfigProps, Defaults: the symbol table and the configuration (src/hash.c, src/config.c).  Args and
    ArgsProps: what the main functions share.
  \<^item> Message, Tlv, Msg: messages, TLVs and their conversion (src/msg.h, src/msg.c, src/tlv.h, src/tlv.c).
  \<^item> Fsm, Bmc, Foreign: state machines, data set comparison and state decision, the table of foreign masters.
  \<^item> SampleFilter, Tsproc, Servo, Stats: filters, time stamp processor, servos (src/pi.c, src/linreg.c, src/ntpshm.c,
    src/nullf.c), statistics and the sanity check of the clock (src/stats.c, src/clockcheck.c).
  \<^item> Clock: the clock without its ports.  Port, PortEvent: one port, its handlers and the events of its
    descriptors.  Manage: management.  Tc: transparent clocks.  Dispatch: the recursion of the dispatch
    function.  ClockPorts: the clock with its ports, \<open>clock_poll\<close> and the relation \<open>reachable\<close> of the poll loop.
    ClockCreate: \<open>clock_create\<close> and \<open>port_open\<close>.  Shutdown: \<open>clock_destroy\<close>.  Ptp4l: \<open>main\<close>.
  \<^item> PortFrame, PortProps, PortBooks, PortFault, TcProps, ManageProps, SystemFrame, OneSlave, Liveness, ClockCreateProps,
    Ptp4lProps: what holds of them.
  \<^item> Phc2sys, Phc2sysMain, Phc2sysProps, Phc2sysMainProps: phc2sys.  Pmc, PmcShow, PmcMain, PmcProps, PmcWire: pmc.  Format:
    the conversions of \<open>printf\<close>.
  \<^item> Timemaster: the configuration file of timemaster.  TmScript: files, command lines and groups of programs.  TmRun: their
    supervision and \<open>main\<close>.  TimemasterProps, TmScriptProps, TmRunProps: what holds of them.
  \<^item> Clockadj: the requests of src/clockadj.c to the kernel.  Sysoff: src/sysoff.c.  PhcCtl, PhcCtlProps: phc_ctl.
  \<^item> Nsm, NsmProps: the monitoring client nsm.

  State and effects.  A C structure is a record whose fields keep the names of the code behind a prefix; a
  function that changes structures takes and returns them.  What leaves the program (timers, frames,
  system calls, output) is appended to a list of effects of the structure that causes it.  The answers of the
  kernel, of the C library and of the other side are arguments or records of the environment (\<open>env\<close>,
  \<open>create_env\<close>, \<open>ph_env\<close>, \<open>pmc_env\<close>), so that a theorem holds whatever they answer; a failing allocation is one
  of these answers.  Errors and null pointers are None or the left part of a sum.

  What the lemmas show.

  \<^item> From the command line to the states of the ports: a configuration value given on the command line wins
    (ConfigProps), so that \<open>ptp4l -s\<close>, with no later \<open>--slaveOnly\<close>, is never a master in any reachable state
    (Ptp4lProps); at most one port is a slave, as long as no pointer is followed that is null or dangles
    (ClockCreateProps); only the parent disciplines the clock and no management message from the network configures it
    (ManageProps); and a port that waits has the timers of its state armed (Liveness).
  \<^item> Equivalence and refinement: the comparison of data sets is a lexicographic order (Bmc), the ring buffers compute
    mean and median of the last samples (SampleFilter), the statistics are the textbook ones but for rounding (Stats), a hash table
    refines a map (Hash), the slave state machine refines the general one (Fsm).
  \<^item> Wire formats: a message that one host sends is read by another of any byte order, most TLVs survive their conversion
    and back, and received TLVs stay in the datagram (Msg, Tlv).  A conversion that fails leaves a message that is partly
    converted (\<open>msg_left\<close>), which \<open>clock_manage\<close> goes on with when it forwarded the message; what pmc
    prints of the settings of one clock can be given to another (PmcWire).
  \<^item> Servos: without a step threshold the clock is stepped at most once, the adjustments of a locked servo stay in their
    limits, the regression recovers a line but for rounding (Servo).  A reading of two clocks is off by at most half its duration (Phc2sysProps).
  \<^item> Resources: every reference to a message is dropped once (PortBooks), but for one case of a slave port and one of a
    transparent clock in which it is dropped twice, which are theorems of their own, and a fault releases all of them (PortFault).

  \<^item> Supervision: the script of timemaster is the rendering of an abstract plan in which every interface is served and a
    hardware clock has one process (TmScriptProps); a group of processes is restarted only when all of it is
    dead, and timemaster ends after its processes; when none is alive it hangs, which is a theorem, too (TmRunProps).
  \<^item> The small programs: phc_ctl executes its commands in order with their own arguments when all words are such (PhcCtlProps); nsm reports only
    answers to its last request and keeps its books on messages (NsmProps).

  Interfaces.  The locales \<open>dataset_comparison\<close> (interpreted by both comparisons), \<open>symbol_table\<close> (by the hash table),
  \<open>sample_filter\<close> (by both filters and by their common front), \<open>port_relation\<close> and its extension \<open>clock_relation\<close> (by the
  relations \<open>demotion\<close>, \<open>waiting\<close> and \<open>machine\<close> between the states of a port before and after an event, from which they
  derive the same for one pass of the poll loop) state what one part relies on in another.  \<open>tmv_t\<close> is a linear order.

  Numbers and bounds.  Integers of the machine are words of their width; the host is little or big endian
  (\<open>byte_order\<close>), with a 64 bit \<open>long\<close>.  A \<open>double\<close> is a real number, and every operation on it rounds with a
  parameter of which only what IEEE 754 documents is assumed; infinities and NaN are left out.  No definition needs fuel
  but \<open>bc_dispatch_rec\<close>, whose depth 2 is shown to be enough, and the loops that wait for the other side end when the
  outcomes of \<open>poll\<close>, a list, are used up.

  Not modelled.  The transports (src/raw.c, src/udp.c, src/udp6.c, src/uds.c, src/transport.c apart from
  \<open>transport_create\<close>), the time stamps of sockets (src/sk.c), netlink (src/rtnl.c) and the ioctls of
  hardware clocks (src/phc.c, src/missing.h) are calls of the kernel: what they return is an
  argument of the model.  src/print.c and src/version.c only print.  Signals end a program between two
  passes of its loop (timemaster handles them, and they are events of its model).  The program hwstamp_ctl is one ioctl.
\<close>

end
